(* ===== verification/Py_Prelude.thy ===== *)
theory Py_Prelude
  imports Complex_Main "HOL-Library.Char_ord" "HOL-Library.List_Lexorder"
    "HOL-Library.Product_Lexorder"
begin

text \<open>
  The Python runtime as the components use it: clock values, dynamically typed dictionary
  values, string normalisation, results that carry an exception, and the list lemmas that
  several components share.

  \<^item> A \<open>datetime\<close> is an integer number of microseconds since the epoch, always in UTC; a
    \<open>timedelta\<close> is an integer number of microseconds.
  \<^item> A \<open>float\<close> or \<open>Decimal\<close> is a rational number: arithmetic is exact, rounding to binary64
    or to the decimal context's 28 digits is not modelled.
  \<^item> A JSON-like value is a \<open>pyval\<close>; a \<open>dict\<close> with string keys is an association list read
    with \<open>map_of\<close>.
  \<^item> A function that may raise returns \<open>error + 'a\<close>, \<open>Inl\<close> for the exception.
  \<^item> Strings are ASCII.
\<close>

section \<open>Collections of rewrite rules\<close>

named_theorems breaker_defs \<open>definitions of the circuit breaker operations\<close>
named_theorems outbox_defs \<open>definitions of the outbox operations\<close>
named_theorems paper_defs \<open>definitions of the paper broker operations\<close>
named_theorems res_simps \<open>how a result is inspected\<close>

section \<open>Time\<close>

type_synonym time = int
type_synonym duration = int

abbreviation seconds :: "int \<Rightarrow> duration" where
  "seconds n \<equiv> n * 1000000"

section \<open>Exceptions\<close>

text \<open>A \<open>CustomError\<close> carries the name of an exception class of the program and the message.\<close>

datatype py_error =
    ValueError string
  | TypeError string
  | RuntimeError string
  | LookupError string
  | IntegrityError
  | DatabaseError
  | CustomError string string

text \<open>\<open>str(exc)\<close>.\<close>

definition error_text :: "py_error \<Rightarrow> string" where
  "error_text e =
     (case e of ValueError m \<Rightarrow> m | TypeError m \<Rightarrow> m | RuntimeError m \<Rightarrow> m | LookupError m \<Rightarrow> m
      | CustomError _ m \<Rightarrow> m | IntegrityError \<Rightarrow> [] | DatabaseError \<Rightarrow> [])"

type_synonym 'a res = "py_error + 'a"

definition res_bind :: "'e + 'a \<Rightarrow> ('a \<Rightarrow> 'e + 'b) \<Rightarrow> 'e + 'b" where
  "res_bind r f = (case r of Inl e \<Rightarrow> Inl e | Inr x \<Rightarrow> f x)"

definition require :: "bool \<Rightarrow> 'e \<Rightarrow> 'e + unit" where
  "require b e = (if b then Inr () else Inl e)"

lemma res_bind_simps [simp]:
  "res_bind (Inl e) f = Inl e" "res_bind (Inr x) f = f x"
  by (simp_all add: res_bind_def)

lemma res_bind_Inr_iff [res_simps]:
  "res_bind r f = Inr y \<longleftrightarrow> (\<exists>x. r = Inr x \<and> f x = Inr y)"
  by (cases r) auto

lemma require_iff [res_simps, simp]:
  "require b e = Inr u \<longleftrightarrow> b" "require b e = Inl e' \<longleftrightarrow> \<not> b \<and> e' = e"
  by (auto simp: require_def)

lemma require_simps [simp]: "require True e = Inr ()" "require False e = Inl e"
  by (simp_all add: require_def)

definition is_ok :: "'e + 'a \<Rightarrow> bool" where
  "is_ok r = (case r of Inl _ \<Rightarrow> False | Inr _ \<Rightarrow> True)"

lemma is_ok_simps [simp]: "is_ok (Inr x)" "\<not> is_ok (Inl e)"
  by (simp_all add: is_ok_def)

section \<open>Numbers that may be non-finite\<close>

text \<open>
  A \<open>float\<close> or \<open>Decimal\<close> before validation. Code that checks \<open>is_finite\<close> takes a \<open>number\<close>; code
  behind such a check takes the rational it carries.
\<close>

datatype number = Fin rat | NaN | PosInf | NegInf

definition finite_decimal :: "string \<Rightarrow> number \<Rightarrow> rat res" where
  "finite_decimal msg n = (case n of Fin q \<Rightarrow> Inr q | _ \<Rightarrow> Inl (ValueError msg))"

lemma finite_decimal_iff [res_simps, simp]: "finite_decimal msg n = Inr q \<longleftrightarrow> n = Fin q"
  by (auto simp: finite_decimal_def split: number.splits)

lemma finite_decimal_Fin [simp]: "finite_decimal msg (Fin q) = Inr q"
  by (simp add: finite_decimal_def)

section \<open>Rounding\<close>

text \<open>\<open>round(x, n)\<close>: to the nearest multiple of a power of ten, ties to even.\<close>

definition round_half_even :: "rat \<Rightarrow> int" where
  "round_half_even x =
     (let f = \<lfloor>x\<rfloor>; d = x - of_int f
      in if d < 1/2 then f else if 1/2 < d then f + 1 else if even f then f else f + 1)"

definition py_round :: "nat \<Rightarrow> rat \<Rightarrow> rat" where
  "py_round n x = of_int (round_half_even (x * 10 ^ n)) / 10 ^ n"

lemma round_half_even_near: "\<bar>of_int (round_half_even x) - x\<bar> \<le> 1 / 2"
proof -
  have "of_int \<lfloor>x\<rfloor> \<le> x" "x < of_int \<lfloor>x\<rfloor> + 1"
    by linarith+
  then show ?thesis
    unfolding round_half_even_def Let_def abs_le_iff by (simp del: of_int_floor_le)
qed

lemma round_half_even_le:
  assumes "x \<le> of_int k"
  shows "round_half_even x \<le> k"
proof (cases "\<lfloor>x\<rfloor> = k")
  case True
  then have "x = of_int k"
    using assms floor_correct [of x] by simp
  then show ?thesis
    by (simp add: round_half_even_def)
next
  case False
  then have "\<lfloor>x\<rfloor> + 1 \<le> k"
    using floor_mono [OF assms] by simp
  then show ?thesis
    by (simp add: round_half_even_def Let_def)
qed

lemma round_half_even_ge: "of_int k \<le> x \<Longrightarrow> k \<le> round_half_even x"
  using le_floor_iff [of k x] unfolding round_half_even_def Let_def by auto

lemma round_half_even_of_int [simp]: "round_half_even (of_int k) = k"
  by (intro antisym round_half_even_le round_half_even_ge) auto

lemma py_round_near: "\<bar>py_round n x - x\<bar> \<le> 1 / (2 * 10 ^ n)"
proof -
  have "py_round n x - x = (of_int (round_half_even (x * 10 ^ n)) - x * 10 ^ n) / 10 ^ n"
    by (simp add: py_round_def diff_divide_distrib)
  then have "\<bar>py_round n x - x\<bar> = \<bar>of_int (round_half_even (x * 10 ^ n)) - x * 10 ^ n\<bar> / 10 ^ n"
    by (simp add: abs_divide)
  also have "\<dots> \<le> (1 / 2) / 10 ^ n"
    by (intro divide_right_mono round_half_even_near) simp
  finally show ?thesis
    by simp
qed

lemma py_round_nonneg: "0 \<le> x \<Longrightarrow> 0 \<le> py_round n x"
  using round_half_even_ge [of 0 "x * 10 ^ n"] by (simp add: py_round_def)

lemma py_round_grid [simp]: "py_round n (of_int k / 10 ^ n) = of_int k / 10 ^ n"
  by (simp add: py_round_def)

section \<open>Dynamically typed values and dictionaries\<close>

datatype pyval =
    PNone
  | PBool bool
  | PInt int
  | PFloat rat
  | PStr string
  | PTime time
  | PList "pyval list"
  | PDict "(string \<times> pyval) list"

type_synonym pydict = "(string \<times> pyval) list"

definition dict_get :: "pydict \<Rightarrow> string \<Rightarrow> pyval" where
  "dict_get d k = (case map_of d k of None \<Rightarrow> PNone | Some v \<Rightarrow> v)"

text \<open>\<open>d[k] = v\<close>: an existing key keeps its position, a new key is appended.\<close>

fun dict_set :: "(string \<times> 'v) list \<Rightarrow> string \<Rightarrow> 'v \<Rightarrow> (string \<times> 'v) list" where
  "dict_set [] k v = [(k, v)]"
| "dict_set ((k', v') # d) k v = (if k' = k then (k, v) # d else (k', v') # dict_set d k v)"

lemma map_of_dict_set [simp]: "map_of (dict_set d k v) = (map_of d)(k \<mapsto> v)"
  by (induction d k v rule: dict_set.induct) (auto simp: fun_eq_iff)

text \<open>\<open>d.pop(k, None)\<close>.\<close>

definition dict_pop :: "(string \<times> 'v) list \<Rightarrow> string \<Rightarrow> (string \<times> 'v) list" where
  "dict_pop d k = filter (\<lambda>(k', _). k' \<noteq> k) d"

lemma map_of_dict_pop [simp]: "map_of (dict_pop d k) = (map_of d)(k := None)"
  by (induction d) (auto simp: dict_pop_def fun_eq_iff)

fun truthy :: "pyval \<Rightarrow> bool" where
  "truthy PNone = False"
| "truthy (PBool b) = b"
| "truthy (PInt i) = (i \<noteq> 0)"
| "truthy (PFloat r) = (r \<noteq> 0)"
| "truthy (PStr s) = (s \<noteq> [])"
| "truthy (PTime t) = True"
| "truthy (PList xs) = (xs \<noteq> [])"
| "truthy (PDict d) = (d \<noteq> [])"

section \<open>Strings\<close>

definition py_isspace :: "char \<Rightarrow> bool" where
  "py_isspace c =
     (let n = (of_char c :: nat) in (9 \<le> n \<and> n \<le> 13) \<or> (28 \<le> n \<and> n \<le> 31) \<or> n = 32)"

definition py_lstrip :: "string \<Rightarrow> string" where
  "py_lstrip s = dropWhile py_isspace s"

definition py_strip :: "string \<Rightarrow> string" where
  "py_strip s = rev (dropWhile py_isspace (rev (dropWhile py_isspace s)))"

definition char_lower :: "char \<Rightarrow> char" where
  "char_lower c =
     (let n = (of_char c :: nat) in if 65 \<le> n \<and> n \<le> 90 then char_of (n + 32) else c)"

definition char_upper :: "char \<Rightarrow> char" where
  "char_upper c =
     (let n = (of_char c :: nat) in if 97 \<le> n \<and> n \<le> 122 then char_of (n - 32) else c)"

definition py_lower :: "string \<Rightarrow> string" where
  "py_lower s = map char_lower s"

definition py_upper :: "string \<Rightarrow> string" where
  "py_upper s = map char_upper s"

definition char_isalnum :: "char \<Rightarrow> bool" where
  "char_isalnum c =
     (let n = (of_char c :: nat)
      in (48 \<le> n \<and> n \<le> 57) \<or> (65 \<le> n \<and> n \<le> 90) \<or> (97 \<le> n \<and> n \<le> 122))"

text \<open>\<open>str.isalnum\<close>: false on the empty string.\<close>

definition py_isalnum :: "string \<Rightarrow> bool" where
  "py_isalnum s = (s \<noteq> [] \<and> list_all char_isalnum s)"

text \<open>\<open>needle in haystack\<close> on strings.\<close>

fun py_substring :: "string \<Rightarrow> string \<Rightarrow> bool" where
  "py_substring p [] = (p = [])"
| "py_substring p (c # s) = (take (length p) (c # s) = p \<or> py_substring p s)"

text \<open>SQL \<open>LIKE\<close>: \<open>%\<close> matches any run of characters and \<open>_\<close> any one character.\<close>

fun sql_like :: "string \<Rightarrow> string \<Rightarrow> bool" where
  "sql_like [] s = (s = [])"
| "sql_like (p # ps) [] = (p = CHR ''%'' \<and> sql_like ps [])"
| "sql_like (p # ps) (c # s) =
     (if p = CHR ''%'' then sql_like ps (c # s) \<or> sql_like (p # ps) s
      else (p = CHR ''_'' \<or> p = c) \<and> sql_like ps s)"

text \<open>\<open>int(s)\<close> on a string: surrounding space, an optional sign, digits with single underscores.\<close>

definition digit_val :: "char \<Rightarrow> nat option" where
  "digit_val c =
     (let n = (of_char c :: nat) in if 48 \<le> n \<and> n \<le> 57 then Some (n - 48) else None)"

fun parse_digits :: "nat \<Rightarrow> bool \<Rightarrow> string \<Rightarrow> nat option" where
  "parse_digits acc after_digit [] = (if after_digit then Some acc else None)"
| "parse_digits acc after_digit (c # s) =
     (case digit_val c of
        Some d \<Rightarrow> parse_digits (10 * acc + d) True s
      | None \<Rightarrow> if c = CHR ''_'' \<and> after_digit then parse_digits acc False s else None)"

definition parse_int :: "string \<Rightarrow> int option" where
  "parse_int s =
     (case py_strip s of
        [] \<Rightarrow> None
      | c # cs \<Rightarrow>
          (if c = CHR ''-'' then map_option (\<lambda>n. - int n) (parse_digits 0 False cs)
           else if c = CHR ''+'' then map_option int (parse_digits 0 False cs)
           else map_option int (parse_digits 0 False (c # cs))))"

text \<open>\<open>str(i)\<close> of an integer.\<close>

definition digit_char :: "nat \<Rightarrow> char" where
  "digit_char n = char_of (48 + n)"

fun nat_str :: "nat \<Rightarrow> string" where
  "nat_str n = (if n < 10 then [digit_char n] else nat_str (n div 10) @ [digit_char (n mod 10)])"

declare nat_str.simps [simp del]

definition int_str :: "int \<Rightarrow> string" where
  "int_str i = (if i < 0 then ''-'' @ nat_str (nat (- i)) else nat_str (nat i))"

definition digits_value :: "string \<Rightarrow> nat" where
  "digits_value s = foldl (\<lambda>v c. 10 * v + (of_char c - 48)) 0 s"

lemma of_char_digit: "n < 10 \<Longrightarrow> (of_char (digit_char n) :: nat) = 48 + n"
  by (simp add: digit_char_def of_char_of)

lemma digits_value_nat_str: "digits_value (nat_str n) = n"
proof (induction n rule: nat_str.induct)
  case (1 n)
  then show ?case
    by (simp add: nat_str.simps [of n] digits_value_def of_char_digit)
qed

lemma nat_str_digits: "c \<in> set (nat_str n) \<Longrightarrow> \<exists>d<10. c = digit_char d"
proof (induction n rule: nat_str.induct)
  case (1 n)
  have "\<exists>d<10. digit_char (n mod 10) = digit_char d" by (rule exI [of _ "n mod 10"]) simp
  with 1 show ?case by (cases "n < 10") (auto simp: nat_str.simps [of n])
qed

lemma digit_char_neq: "n < 10 \<Longrightarrow> of_char c < (48::nat) \<or> (57::nat) < of_char c \<Longrightarrow> digit_char n \<noteq> c"
  using of_char_digit [of n] by auto

lemma nat_str_no_char: "of_char c < (48::nat) \<or> (57::nat) < of_char c \<Longrightarrow> c \<notin> set (nat_str n)"
  using nat_str_digits [of c n] digit_char_neq [of _ c] by metis

lemma nat_str_no_sign: "CHR '':'' \<notin> set (nat_str n)" "CHR ''-'' \<notin> set (nat_str n)"
  by (rule nat_str_no_char; simp)+

lemma int_str_no_colon: "CHR '':'' \<notin> set (int_str i)"
  using nat_str_no_sign(1) by (simp add: int_str_def)

lemma append_colon_eq:
  assumes "CHR '':'' \<notin> set x" "CHR '':'' \<notin> set y" "x @ '':'' @ u = y @ '':'' @ v"
  shows "x = y \<and> u = v"
  using assms
proof (induction x arbitrary: y)
  case Nil
  then show ?case by (cases y) auto
next
  case (Cons c x)
  then show ?case by (cases y) auto
qed

lemma inj_int_str: "inj int_str"
proof (rule injI)
  fix i j :: int
  assume eq: "int_str i = int_str j"
  have "(i < 0) = (j < 0)"
    using eq nat_str_no_sign(2) [of "nat i"] nat_str_no_sign(2) [of "nat j"]
    by (auto simp: int_str_def split: if_splits dest: sym)
  with eq have "nat_str (nat \<bar>i\<bar>) = nat_str (nat \<bar>j\<bar>)" by (auto simp: int_str_def split: if_splits)
  then have "nat \<bar>i\<bar> = nat \<bar>j\<bar>" by (metis digits_value_nat_str)
  with \<open>(i < 0) = (j < 0)\<close> show "i = j" by linarith
qed

text \<open>\<open>int(v)\<close> on a dynamic value; \<open>None\<close> is a \<open>TypeError\<close> or \<open>ValueError\<close>.\<close>

fun py_int :: "pyval \<Rightarrow> int option" where
  "py_int (PInt i) = Some i"
| "py_int (PBool b) = Some (if b then 1 else 0)"
| "py_int (PFloat r) = Some (if 0 \<le> r then \<lfloor>r\<rfloor> else \<lceil>r\<rceil>)"
| "py_int (PStr s) = parse_int s"
| "py_int _ = None"

text \<open>
  \<open>float(s)\<close> on text that denotes a finite number: sign, digits with a point, exponent. The texts
  of infinities and NaN have no value here.
\<close>

fun split_at :: "char list \<Rightarrow> string \<Rightarrow> string \<times> string option" where
  "split_at cs [] = ([], None)"
| "split_at cs (c # s) =
     (if c \<in> set cs then ([], Some s)
      else (case split_at cs s of (a, b) \<Rightarrow> (c # a, b)))"

definition digits_or_empty :: "string \<Rightarrow> nat option" where
  "digits_or_empty s = (if s = [] then Some 0 else parse_digits 0 False s)"

definition parse_mantissa :: "string \<Rightarrow> rat option" where
  "parse_mantissa s =
     (case split_at ''.'' s of
        (i, None) \<Rightarrow> map_option of_nat (parse_digits 0 False i)
      | (i, Some f) \<Rightarrow>
          (if i = [] \<and> f = [] then None
           else (case (digits_or_empty i, digits_or_empty f) of
                   (Some a, Some b) \<Rightarrow>
                     Some (of_nat a + of_nat b / 10 ^ length (filter (\<lambda>c. digit_val c \<noteq> None) f))
                 | _ \<Rightarrow> None)))"

definition parse_unsigned :: "string \<Rightarrow> rat option" where
  "parse_unsigned s =
     (case split_at ''eE'' s of
        (m, None) \<Rightarrow> parse_mantissa m
      | (m, Some e) \<Rightarrow>
          (case (parse_mantissa m, if e = py_strip e then parse_int e else None) of
             (Some v, Some k) \<Rightarrow> Some (if 0 \<le> k then v * 10 ^ nat k else v / 10 ^ nat (- k))
           | _ \<Rightarrow> None))"

definition parse_decimal :: "string \<Rightarrow> rat option" where
  "parse_decimal s =
     (case py_strip s of
        [] \<Rightarrow> None
      | c # cs \<Rightarrow>
          (if c = CHR ''-'' then map_option uminus (parse_unsigned cs)
           else if c = CHR ''+'' then parse_unsigned cs
           else parse_unsigned (c # cs)))"

text \<open>\<open>float(v)\<close> and \<open>float(str(v))\<close>; \<open>None\<close> is a \<open>TypeError\<close> or \<open>ValueError\<close>.\<close>

fun py_float :: "pyval \<Rightarrow> rat option" where
  "py_float (PInt i) = Some (of_int i)"
| "py_float (PBool b) = Some (if b then 1 else 0)"
| "py_float (PFloat r) = Some r"
| "py_float (PStr s) = parse_decimal s"
| "py_float _ = None"

fun py_float_text :: "pyval \<Rightarrow> rat option" where
  "py_float_text (PBool b) = None"
| "py_float_text v = py_float v"

text \<open>\<open>math.isclose\<close>.\<close>

definition is_close :: "rat \<Rightarrow> rat \<Rightarrow> rat \<Rightarrow> rat \<Rightarrow> bool" where
  "is_close rel_tol abs_tol a b = (\<bar>a - b\<bar> \<le> max (rel_tol * max \<bar>a\<bar> \<bar>b\<bar>) abs_tol)"

lemma is_close_refl [simp]: "0 \<le> abs_tol \<Longrightarrow> is_close rel_tol abs_tol a a"
  by (simp add: is_close_def le_max_iff_disj)

text \<open>The text of a value stored as a string; other values have no text the code relies on.\<close>

fun str_of :: "pyval \<Rightarrow> string" where
  "str_of (PStr s) = s"
| "str_of _ = []"

fun opt_str :: "string option \<Rightarrow> pyval" where
  "opt_str None = PNone"
| "opt_str (Some s) = PStr s"

fun opt_int :: "int option \<Rightarrow> pyval" where
  "opt_int None = PNone"
| "opt_int (Some i) = PInt i"

lemma dropWhile_id: "(xs \<noteq> [] \<longrightarrow> \<not> P (hd xs)) \<Longrightarrow> dropWhile P xs = xs"
  by (cases xs) auto

lemma hd_dropWhile_notP: "dropWhile P xs \<noteq> [] \<Longrightarrow> \<not> P (hd (dropWhile P xs))"
  by (induction xs) auto

lemma hd_rev_dropWhile_rev:
  assumes "ys \<noteq> []" "\<not> P (hd ys)"
  shows "rev (dropWhile P (rev ys)) \<noteq> [] \<and> hd (rev (dropWhile P (rev ys))) = hd ys"
proof -
  obtain y zs where ys: "ys = y # zs" using assms(1) by (cases ys) auto
  have "dropWhile P (rev zs @ [y]) = dropWhile P (rev zs) @ [y]"
    using assms(2) ys by (induction "rev zs") (auto simp: dropWhile_append)
  then show ?thesis using ys by simp
qed

lemma py_strip_idem [simp]: "py_strip (py_strip s) = py_strip s"
proof -
  let ?l = "dropWhile py_isspace s"
  show ?thesis
  proof (cases "?l = []")
    case True
    then show ?thesis by (simp only: py_strip_def rev.simps dropWhile.simps)
  next
    case False
    then have h: "\<not> py_isspace (hd ?l)" by (rule hd_dropWhile_notP)
    let ?t = "rev (dropWhile py_isspace (rev ?l))"
    from hd_rev_dropWhile_rev [of ?l py_isspace, OF False h]
    have "dropWhile py_isspace ?t = ?t" using h by (intro dropWhile_id) auto
    moreover have "dropWhile py_isspace (rev ?t) = rev ?t"
      by (intro dropWhile_id) (use hd_dropWhile_notP [of py_isspace "rev ?l"] in auto)
    ultimately show ?thesis by (simp add: py_strip_def)
  qed
qed

lemma of_char_nat_less: "(of_char c :: nat) < 256"
  by (metis of_char_mod_256 mod_less_divisor zero_less_numeral)

lemma char_upper_code:
  "(of_char (char_upper c) :: nat) =
     (if 97 \<le> (of_char c :: nat) \<and> (of_char c :: nat) \<le> 122 then of_char c - 32 else of_char c)"
  using of_char_nat_less [of c] by (auto simp: char_upper_def Let_def of_char_of intro!: mod_less)

lemma char_lower_code:
  "(of_char (char_lower c) :: nat) =
     (if 65 \<le> (of_char c :: nat) \<and> (of_char c :: nat) \<le> 90 then of_char c + 32 else of_char c)"
  using of_char_nat_less [of c] by (auto simp: char_lower_def Let_def of_char_of intro!: mod_less)

lemma char_case_idem [simp]:
  "char_upper (char_upper c) = char_upper c" "char_lower (char_lower c) = char_lower c"
  using char_upper_code [of c] char_lower_code [of c]
  by (auto simp: char_upper_def [of "char_upper c"] char_lower_def [of "char_lower c"] Let_def)

lemma py_isspace_case [simp]:
  "py_isspace (char_upper c) = py_isspace c" "py_isspace (char_lower c) = py_isspace c"
  by (auto simp: py_isspace_def Let_def char_upper_code char_lower_code)

lemma py_strip_map:
  assumes "\<And>c. py_isspace (f c) = py_isspace c"
  shows "py_strip (map f s) = map f (py_strip s)"
  using assms by (simp add: py_strip_def dropWhile_map rev_map comp_def)

lemma py_case_idem [simp]:
  "py_upper (py_upper s) = py_upper s" "py_lower (py_lower s) = py_lower s"
  by (simp_all add: py_upper_def py_lower_def)

lemma py_strip_case [simp]:
  "py_strip (py_upper s) = py_upper (py_strip s)" "py_strip (py_lower s) = py_lower (py_strip s)"
  by (simp_all add: py_upper_def py_lower_def py_strip_map)

lemma sql_like_suffix_any: "sql_like [CHR ''%''] s"
  by (induction s) auto

section \<open>Lists\<close>

text \<open>The first match in a list sorted by a key is the match with the smallest key.\<close>

lemma hd_sort_key_least:
  fixes f :: "'a \<Rightarrow> 'b :: linorder"
  assumes "x \<in> set xs"
  shows "f (hd (sort_key f xs)) \<le> f x"
proof -
  have "x \<in> set (sort_key f xs)" using assms by simp
  moreover have "sorted (map f (sort_key f xs))" by simp
  ultimately show ?thesis by (cases "sort_key f xs") auto
qed

lemma find_sort_key_least:
  fixes f :: "'a \<Rightarrow> 'k::linorder"
  assumes "x \<in> set xs" "P x" "\<And>y. y \<in> set xs \<Longrightarrow> P y \<Longrightarrow> y \<noteq> x \<Longrightarrow> f x < f y"
  shows "find P (sort_key f xs) = Some x"
proof -
  let ?s = "sort_key f xs"
  have "x \<in> set ?s" using assms(1) by simp
  then obtain y where y: "find P ?s = Some y"
    using assms(2) by (cases "find P ?s") (auto simp: find_None_iff)
  then obtain i where i: "i < length ?s" "P (?s ! i)" "y = ?s ! i" "\<forall>j<i. \<not> P (?s ! j)"
    by (auto simp: find_Some_iff)
  obtain k where k: "k < length ?s" "?s ! k = x"
    using \<open>x \<in> set ?s\<close> unfolding in_set_conv_nth by blast
  have "i \<le> k" using i(4) k assms(2) by (metis not_le_imp_less)
  then have "f y \<le> f x"
    using sorted_nth_mono [OF sorted_sort_key [of f xs], of i k] i k by simp
  moreover have "y \<in> set xs" using i by (metis nth_mem set_sort)
  ultimately have "y = x" using assms(3) [of y] i(2,3) by force
  with y show ?thesis by simp
qed

text \<open>On a sorted list, dropping a prefix of small elements is filtering them.\<close>

lemma dropWhile_less_filter:
  assumes "sorted (ts :: int list)"
  shows "dropWhile (\<lambda>t. t < c) ts = filter (\<lambda>t. c \<le> t) ts"
  using assms
proof (induction ts)
  case Nil
  then show ?case by simp
next
  case (Cons t ts)
  show ?case
  proof (cases "t < c")
    case True
    with Cons show ?thesis by simp
  next
    case False
    with Cons.prems have "\<forall>u \<in> set ts. c \<le> u" by fastforce
    with False show ?thesis by (simp add: filter_id_conv)
  qed
qed

lemma sorted_filter_int: "sorted (ts :: int list) \<Longrightarrow> sorted (filter P ts)"
  by (induction ts) auto

lemma map_of_map_update:
  "map_of (map (\<lambda>(k, v). (k, f v)) xs) k = map_option f (map_of xs k)"
  by (induction xs) auto

text \<open>Rows of a table are updated in place: at most one row has a given identity.\<close>

definition update_where :: "('r \<Rightarrow> bool) \<Rightarrow> ('r \<Rightarrow> 'r) \<Rightarrow> 'r list \<Rightarrow> 'r list" where
  "update_where P f rows = map (\<lambda>r. if P r then f r else r) rows"

lemma length_update_where [simp]: "length (update_where P f rows) = length rows"
  by (simp add: update_where_def)

lemma set_update_where:
  "set (update_where P f rows) = (\<lambda>r. if P r then f r else r) ` set rows"
  by (simp add: update_where_def)

lemma map_key_update_where:
  assumes "\<And>r. key (f r) = key r"
  shows "map key (update_where P f rows) = map key rows"
  using assms by (induction rows) (auto simp: update_where_def)

lemma update_where_none: "(\<forall>r \<in> set rows. \<not> P r) \<Longrightarrow> update_where P f rows = rows"
  by (induction rows) (auto simp: update_where_def)

section \<open>Sums over a dictionary\<close>

definition dict_sum :: "(string \<Rightarrow> 'v \<Rightarrow> rat) \<Rightarrow> (string \<times> 'v) list \<Rightarrow> rat" where
  "dict_sum f d = sum_list (map (\<lambda>(k, v). f k v) d)"

definition distinct_keys :: "(string \<times> 'v) list \<Rightarrow> bool" where
  "distinct_keys d = distinct (map fst d)"

lemma dict_sum_simps [simp]:
  "dict_sum f [] = 0" "dict_sum f ((k, v) # d) = f k v + dict_sum f d"
  by (simp_all add: dict_sum_def)

lemma keys_dict_set: "fst ` set (dict_set d k v) = insert k (fst ` set d)"
  by (induction d k v rule: dict_set.induct) auto

lemma keys_dict_pop: "fst ` set (dict_pop d k) = fst ` set d - {k}"
  by (induction d) (auto simp: dict_pop_def)

lemma distinct_keys_set [simp]: "distinct_keys d \<Longrightarrow> distinct_keys (dict_set d k v)"
proof (induction d k v rule: dict_set.induct)
  case (2 k' v' d k v)
  then show ?case using keys_dict_set [of d k v] by (auto simp: distinct_keys_def)
qed (simp add: distinct_keys_def)

lemma distinct_keys_pop [simp]: "distinct_keys d \<Longrightarrow> distinct_keys (dict_pop d k)"
  using keys_dict_pop by (induction d) (auto simp: distinct_keys_def dict_pop_def)

lemma dict_sum_pop:
  "distinct_keys d \<Longrightarrow>
     dict_sum f (dict_pop d k) = dict_sum f d - (case map_of d k of None \<Rightarrow> 0 | Some v \<Rightarrow> f k v)"
proof (induction d)
  case (Cons p d)
  obtain k' v' where p: "p = (k', v')" by fastforce
  have d: "distinct_keys d" and k': "k' \<notin> fst ` set d"
    using Cons.prems p by (auto simp: distinct_keys_def)
  have "dict_pop d k' = d" using k' by (force simp: dict_pop_def filter_id_conv)
  then show ?case using Cons.IH [OF d] p by (auto simp: dict_pop_def)
qed (simp add: dict_pop_def)

lemma dict_sum_set:
  "distinct_keys d \<Longrightarrow>
     dict_sum f (dict_set d k v) =
       dict_sum f d + f k v - (case map_of d k of None \<Rightarrow> 0 | Some v' \<Rightarrow> f k v')"
proof (induction d k v rule: dict_set.induct)
  case (2 k' v' d k v)
  then have "distinct_keys d" by (simp add: distinct_keys_def)
  with 2 show ?case by (auto simp: split: option.split)
qed simp

lemma dict_sum_cong:
  "(\<And>k v. (k, v) \<in> set d \<Longrightarrow> f k v = g k v) \<Longrightarrow> dict_sum f d = dict_sum g d"
  by (induction d) auto

end
