(* ===== verification/Circuit_Breaker.thy ===== *)
theory Circuit_Breaker
  imports Py_Prelude
begin

text \<open>
  The in-memory circuit breaker of \<open>execution_engine/circuit_breaker.py\<close>: a sliding window of
  failure times per key, an open interval per key, and the set of keys whose interval has just
  lapsed. Every operation takes the clock value it reads as an argument.

  The \<open>defaultdict\<close> of states is a map; a missing key reads as a fresh state, which is what
  the default factory supplies.
\<close>

section \<open>State\<close>

record cb_state =
  failure_times :: "time list"
  open_until :: "time option"
  last_reason :: "string option"

definition fresh_state :: cb_state where
  "fresh_state = \<lparr>failure_times = [], open_until = None, last_reason = None\<rparr>"

record circuit_breaker =
  threshold :: int
  window :: duration
  cooldown :: duration
  states :: "string \<rightharpoonup> cb_state"
  recently_closed :: "string set"

definition cb_init :: "int \<Rightarrow> int \<Rightarrow> int \<Rightarrow> circuit_breaker" where
  "cb_init thr window_sec cooldown_sec =
     \<lparr>threshold = thr, window = seconds window_sec, cooldown = seconds cooldown_sec,
      states = Map.empty, recently_closed = {}\<rparr>"

definition state_of :: "circuit_breaker \<Rightarrow> string \<Rightarrow> cb_state" where
  "state_of cb key = (case states cb key of None \<Rightarrow> fresh_state | Some s \<Rightarrow> s)"

definition put_state :: "circuit_breaker \<Rightarrow> string \<Rightarrow> cb_state \<Rightarrow> circuit_breaker" where
  "put_state cb key s = cb\<lparr>states := (states cb)(key \<mapsto> s)\<rparr>"

section \<open>Operations\<close>

definition cb_close :: "circuit_breaker \<Rightarrow> string \<Rightarrow> bool \<Rightarrow> circuit_breaker" where
  "cb_close cb key remember =
     (put_state cb key fresh_state)
       \<lparr>recently_closed := (if remember then insert key (recently_closed cb)
                           else recently_closed cb - {key})\<rparr>"

definition cb_is_open :: "circuit_breaker \<Rightarrow> string \<Rightarrow> time \<Rightarrow> circuit_breaker \<times> bool" where
  "cb_is_open cb key now =
     (case open_until (state_of cb key) of
        None \<Rightarrow> (put_state cb key (state_of cb key), False)
      | Some u \<Rightarrow>
          if u \<le> now then (cb_close cb key True, False)
          else (put_state cb key (state_of cb key), now < u))"

definition cb_open :: "circuit_breaker \<Rightarrow> string \<Rightarrow> string \<Rightarrow> time \<Rightarrow> circuit_breaker" where
  "cb_open cb key reason now =
     (put_state cb key
        ((state_of cb key)\<lparr>open_until := Some (now + cooldown cb), last_reason := Some reason\<rparr>))
       \<lparr>recently_closed := recently_closed cb - {key}\<rparr>"

definition cb_restore ::
    "circuit_breaker \<Rightarrow> string \<Rightarrow> time \<Rightarrow> int \<Rightarrow> string option \<Rightarrow> time \<Rightarrow> circuit_breaker" where
  "cb_restore cb key target failure_count reason now =
     (if target \<le> now then cb_close cb key False
      else (put_state cb key
              \<lparr>failure_times = replicate (nat failure_count) now,
               open_until = Some target, last_reason = reason\<rparr>)
             \<lparr>recently_closed := recently_closed cb - {key}\<rparr>)"

definition cb_record_failure ::
    "circuit_breaker \<Rightarrow> string \<Rightarrow> string \<Rightarrow> time \<Rightarrow> circuit_breaker \<times> bool" where
  "cb_record_failure cb key reason now =
     (let s = state_of cb key;
          cutoff = now - window cb;
          times = dropWhile (\<lambda>t. t < cutoff) (failure_times s) @ [now];
          cb' = put_state cb key (s\<lparr>failure_times := times, last_reason := Some reason\<rparr>)
      in if threshold cb \<le> int (length times) then (cb_open cb' key reason now, True)
         else (cb', False))"

definition cb_record_success :: "circuit_breaker \<Rightarrow> string \<Rightarrow> circuit_breaker" where
  "cb_record_success cb key = cb_close cb key False"

definition cb_consume_recently_closed :: "circuit_breaker \<Rightarrow> string \<Rightarrow> circuit_breaker \<times> bool" where
  "cb_consume_recently_closed cb key =
     (if key \<in> recently_closed cb
      then (cb\<lparr>recently_closed := recently_closed cb - {key}\<rparr>, True)
      else (cb, False))"

record cb_snapshot =
  snap_state :: string
  snap_open_until :: "time option"
  snap_last_reason :: "string option"
  snap_failure_count :: nat

definition cb_snapshot_of :: "circuit_breaker \<Rightarrow> string \<Rightarrow> cb_snapshot" where
  "cb_snapshot_of cb key =
     (let s = state_of cb key
      in \<lparr>snap_state = (if open_until s = None then ''closed'' else ''open''),
          snap_open_until = open_until s,
          snap_last_reason = last_reason s,
          snap_failure_count = length (failure_times s)\<rparr>)"

declare cb_close_def [breaker_defs] cb_is_open_def [breaker_defs] cb_open_def [breaker_defs]
  cb_restore_def [breaker_defs] cb_record_failure_def [breaker_defs]
  cb_record_success_def [breaker_defs] cb_consume_recently_closed_def [breaker_defs]

section \<open>What a key's state is after an operation\<close>

text \<open>Whether the key blocks at a clock value, as a pure reading of the state.\<close>

definition blocks :: "circuit_breaker \<Rightarrow> string \<Rightarrow> time \<Rightarrow> bool" where
  "blocks cb key now =
     (case open_until (state_of cb key) of None \<Rightarrow> False | Some u \<Rightarrow> now < u)"

lemma state_of_put [simp]:
  "state_of (put_state cb key s) k = (if k = key then s else state_of cb k)"
  by (simp add: state_of_def put_state_def)

lemma state_of_recently_closed [simp]:
  "state_of (cb\<lparr>recently_closed := R\<rparr>) k = state_of cb k"
  by (simp add: state_of_def)

lemma state_of_init [simp]: "state_of (cb_init t w c) k = fresh_state"
  by (simp add: state_of_def cb_init_def)

lemma config_put [simp]:
  "threshold (put_state cb k s) = threshold cb" "window (put_state cb k s) = window cb"
  "cooldown (put_state cb k s) = cooldown cb"
  "recently_closed (put_state cb k s) = recently_closed cb"
  by (simp_all add: put_state_def)

lemma fresh_state_simps [simp]:
  "failure_times fresh_state = []" "open_until fresh_state = None" "last_reason fresh_state = None"
  by (simp_all add: fresh_state_def)

lemma state_of_close [simp]:
  "state_of (cb_close cb key rem) k = (if k = key then fresh_state else state_of cb k)"
  by (simp add: cb_close_def)

lemma state_of_open [simp]:
  "state_of (cb_open cb key r now) k =
     (if k = key
      then (state_of cb key)\<lparr>open_until := Some (now + cooldown cb), last_reason := Some r\<rparr>
      else state_of cb k)"
  by (simp add: cb_open_def)

lemma state_of_is_open [simp]:
  "state_of (fst (cb_is_open cb key now)) k =
     (if k = key \<and> (\<exists>u. open_until (state_of cb key) = Some u \<and> u \<le> now)
      then fresh_state else state_of cb k)"
  by (auto simp: cb_is_open_def split: option.splits)

lemma state_of_restore [simp]:
  "state_of (cb_restore cb key u n r now) k =
     (if k = key
      then (if u \<le> now then fresh_state
            else \<lparr>failure_times = replicate (nat n) now, open_until = Some u, last_reason = r\<rparr>)
      else state_of cb k)"
  by (simp add: cb_restore_def)

lemma state_of_success [simp]:
  "state_of (cb_record_success cb key) k = (if k = key then fresh_state else state_of cb k)"
  by (simp add: cb_record_success_def)

lemma state_of_consume [simp]:
  "state_of (fst (cb_consume_recently_closed cb key)) k = state_of cb k"
  by (simp add: cb_consume_recently_closed_def)

lemma state_of_failure:
  "state_of (fst (cb_record_failure cb key r now)) k =
     (if k = key then
        (let times = dropWhile (\<lambda>t. t < now - window cb) (failure_times (state_of cb key)) @ [now];
             s = (state_of cb key)\<lparr>failure_times := times, last_reason := Some r\<rparr>
         in if threshold cb \<le> int (length times)
            then s\<lparr>open_until := Some (now + cooldown cb)\<rparr> else s)
      else state_of cb k)"
  by (simp add: cb_record_failure_def Let_def)

lemma snd_failure:
  "snd (cb_record_failure cb key r now) \<longleftrightarrow>
     threshold cb \<le> int (length (dropWhile (\<lambda>t. t < now - window cb)
                                  (failure_times (state_of cb key))) + 1)"
  by (simp add: cb_record_failure_def Let_def)

lemma config_ops [simp]:
  "threshold (cb_close cb k rem) = threshold cb" "window (cb_close cb k rem) = window cb"
  "cooldown (cb_close cb k rem) = cooldown cb"
  "threshold (cb_open cb k r n) = threshold cb" "window (cb_open cb k r n) = window cb"
  "cooldown (cb_open cb k r n) = cooldown cb"
  "threshold (cb_restore cb k u c lr n) = threshold cb"
  "window (cb_restore cb k u c lr n) = window cb"
  "cooldown (cb_restore cb k u c lr n) = cooldown cb"
  by (simp_all add: cb_close_def cb_open_def cb_restore_def)

lemma config_ops_pair [simp]:
  "threshold (fst (cb_is_open cb k n)) = threshold cb"
  "threshold (fst (cb_record_failure cb k r n)) = threshold cb"
  "threshold (cb_record_success cb k) = threshold cb"
  "threshold (fst (cb_consume_recently_closed cb k)) = threshold cb"
  "window (fst (cb_is_open cb k n)) = window cb"
  "window (fst (cb_record_failure cb k r n)) = window cb"
  "window (cb_record_success cb k) = window cb"
  "window (fst (cb_consume_recently_closed cb k)) = window cb"
  by (auto simp: cb_is_open_def cb_record_failure_def cb_record_success_def Let_def
      cb_consume_recently_closed_def split: option.splits)

lemma snd_is_open: "snd (cb_is_open cb key now) = blocks cb key now"
  by (auto simp: cb_is_open_def blocks_def split: option.splits)


section \<open>The interface the admission check relies on\<close>

text \<open>
  Admission asks a gate about one key, forgets a lapse it has just observed, and then asks about
  another key. The contract: the answer is a reading of the state, and neither call changes what
  any key answers from that moment on.
\<close>

locale gate =
  fixes is_open :: "'b \<Rightarrow> string \<Rightarrow> time \<Rightarrow> 'b \<times> bool"
    and consume :: "'b \<Rightarrow> string \<Rightarrow> 'b \<times> bool"
    and blk :: "'b \<Rightarrow> string \<Rightarrow> time \<Rightarrow> bool"
  assumes is_open_reads: "snd (is_open b k n) = blk b k n"
    and is_open_frame: "n \<le> t \<Longrightarrow> blk (fst (is_open b k n)) k' t = blk b k' t"
    and consume_frame: "blk (fst (consume b k)) k' t = blk b k' t"
begin

lemma query_frame:
  assumes "n \<le> t"
  shows "blk (fst (consume (fst (is_open b k n)) k2)) k' t = blk b k' t"
  using assms by (simp add: consume_frame is_open_frame)

lemma second_query:
  assumes "n \<le> t"
  shows "snd (is_open (fst (consume (fst (is_open b k n)) k2)) k' t) = blk b k' t"
  using assms by (simp add: is_open_reads query_frame)

lemma repeated_query: "n \<le> t \<Longrightarrow> snd (is_open (fst (is_open b k n)) k t) = blk b k t"
  by (simp add: is_open_reads is_open_frame)

end

lemma blocks_is_open:
  "n \<le> t \<Longrightarrow> blocks (fst (cb_is_open cb k n)) k' t = blocks cb k' t"
  by (auto simp: blocks_def split: option.splits)

interpretation cb_gate: gate cb_is_open cb_consume_recently_closed blocks
  by unfold_locales (simp_all add: snd_is_open blocks_is_open, simp add: blocks_def)

section \<open>The sliding window\<close>

text \<open>Repeated failures of one key at the given clock values.\<close>

fun cb_failures :: "circuit_breaker \<Rightarrow> string \<Rightarrow> string \<Rightarrow> time list \<Rightarrow> circuit_breaker" where
  "cb_failures cb key r [] = cb"
| "cb_failures cb key r (t # ts) = cb_failures (fst (cb_record_failure cb key r t)) key r ts"

lemma cb_failures_append:
  "cb_failures cb key r (ts @ [t]) = fst (cb_record_failure (cb_failures cb key r ts) key r t)"
  by (induction ts arbitrary: cb) auto

lemma config_failures [simp]:
  "threshold (cb_failures cb key r ts) = threshold cb" "window (cb_failures cb key r ts) = window cb"
  by (induction ts arbitrary: cb) auto

lemma failure_times_failure:
  "failure_times (state_of (fst (cb_record_failure cb key r now)) key) =
     dropWhile (\<lambda>t. t < now - window cb) (failure_times (state_of cb key)) @ [now]"
  by (simp add: state_of_failure Let_def)

lemma failure_times_window:
  assumes "sorted ts" "0 \<le> window cb" "failure_times (state_of cb key) = []" "ts \<noteq> []"
  shows "failure_times (state_of (cb_failures cb key r ts) key) =
           filter (\<lambda>t. last ts - window cb \<le> t) ts"
  using assms
proof (induction ts rule: rev_induct)
  case Nil
  then show ?case by simp
next
  case (snoc t ts)
  have le: "\<forall>u \<in> set ts. u \<le> t" and srt: "sorted ts"
    using snoc.prems(1) by (auto simp: sorted_append)
  have prev: "failure_times (state_of (cb_failures cb key r ts) key) =
                (if ts = [] then [] else filter (\<lambda>u. last ts - window cb \<le> u) ts)"
    using snoc srt by (cases "ts = []") auto
  have "last ts \<le> t" if "ts \<noteq> []" using le that by simp
  then have "filter (\<lambda>u. t - window cb \<le> u) (if ts = [] then [] else filter (\<lambda>u. last ts - window cb \<le> u) ts)
               = filter (\<lambda>u. t - window cb \<le> u) ts"
    by (cases "ts = []") (auto intro!: filter_cong)
  moreover have "sorted (if ts = [] then [] else filter (\<lambda>u. last ts - window cb \<le> u) ts)"
    using srt by (simp add: sorted_filter_int)
  ultimately show ?case
    using snoc.prems(2)
    by (simp add: cb_failures_append failure_times_failure prev dropWhile_less_filter)
qed

text \<open>
  C23: on a key with an empty window, after failures at non-decreasing times \<open>ts\<close> followed by one
  at \<open>now\<close>, the breaker trips exactly when at least \<open>threshold\<close> of all the failures ever
  reported, the last included, lie within the window that ends at \<open>now\<close>: the incremental
  deque loses no failure that still counts and keeps none that does not.
\<close>

theorem trips_iff_window_count:
  assumes "sorted (ts @ [now])" and "0 \<le> window cb" and "failure_times (state_of cb key) = []"
  shows "snd (cb_record_failure (cb_failures cb key r ts) key r now) \<longleftrightarrow>
           threshold cb \<le> int (length (filter (\<lambda>t. now - window cb \<le> t) (ts @ [now])))"
proof -
  have "failure_times (state_of (cb_failures cb key r (ts @ [now])) key) =
          filter (\<lambda>t. now - window cb \<le> t) (ts @ [now])"
    using failure_times_window [of "ts @ [now]" cb key r] assms by simp
  then have "filter (\<lambda>t. now - window cb \<le> t) (ts @ [now]) =
      dropWhile (\<lambda>t. t < now - window cb) (failure_times (state_of (cb_failures cb key r ts) key))
        @ [now]"
    by (simp add: cb_failures_append failure_times_failure)
  then show ?thesis by (simp add: snd_failure)
qed

theorem trips_iff_window_count_witness:
  "snd (cb_record_failure (cb_failures (cb_init 3 60 300) ''k'' ''r'' [0, 1000000]) ''k'' ''r'' 2000000)
   \<and> \<not> snd (cb_record_failure (cb_failures (cb_init 3 60 300) ''k'' ''r'' [0, 61000000]) ''k'' ''r'' 62000000)"
  using trips_iff_window_count [of "[0, 1000000]" 2000000 "cb_init 3 60 300" "''k''" "''r''"]
    trips_iff_window_count [of "[0, 61000000]" 62000000 "cb_init 3 60 300" "''k''" "''r''"]
  by (simp add: cb_init_def state_of_def fresh_state_def)

section \<open>Reachable states\<close>

text \<open>
  The life of one breaker: the public operations in any order, on any keys, with a clock that
  never goes back.
\<close>

inductive cb_step :: "circuit_breaker \<times> time \<Rightarrow> circuit_breaker \<times> time \<Rightarrow> bool" where
  step_is_open: "now \<le> t \<Longrightarrow> cb_step (cb, now) (fst (cb_is_open cb k t), t)"
| step_open: "now \<le> t \<Longrightarrow> cb_step (cb, now) (cb_open cb k r t, t)"
| step_restore: "now \<le> t \<Longrightarrow> cb_step (cb, now) (cb_restore cb k u n lr t, t)"
| step_failure: "now \<le> t \<Longrightarrow> cb_step (cb, now) (fst (cb_record_failure cb k r t), t)"
| step_success: "now \<le> t \<Longrightarrow> cb_step (cb, now) (cb_record_success cb k, t)"
| step_close: "now \<le> t \<Longrightarrow> cb_step (cb, now) (cb_close cb k rem, t)"
| step_consume: "now \<le> t \<Longrightarrow> cb_step (cb, now) (fst (cb_consume_recently_closed cb k), t)"

inductive_cases cb_stepE: "cb_step (cb, now) (cb', t)"

inductive cb_reachable :: "int \<Rightarrow> int \<Rightarrow> int \<Rightarrow> circuit_breaker \<times> time \<Rightarrow> bool" for thr w c where
  reach_init: "cb_reachable thr w c (cb_init thr w c, now)"
| reach_step: "cb_reachable thr w c s \<Longrightarrow> cb_step s s' \<Longrightarrow> cb_reachable thr w c s'"

definition cb_inv :: "int \<Rightarrow> circuit_breaker \<times> time \<Rightarrow> bool" where
  "cb_inv thr s \<longleftrightarrow>
     threshold (fst s) = thr \<and>
     (\<forall>k. sorted (failure_times (state_of (fst s) k)) \<and>
          (\<forall>t \<in> set (failure_times (state_of (fst s) k)). t \<le> snd s) \<and>
          (thr \<le> int (length (failure_times (state_of (fst s) k))) \<longrightarrow>
             open_until (state_of (fst s) k) \<noteq> None) \<and>
          (k \<in> recently_closed (fst s) \<longrightarrow> open_until (state_of (fst s) k) = None))"

lemma cb_inv_weaken:
  "cb_inv thr (cb, now) \<Longrightarrow> now \<le> t \<Longrightarrow> cb_inv thr (cb, t)"
  by (fastforce simp: cb_inv_def)

lemma recently_closed_ops:
  "recently_closed (cb_open cb k r t) = recently_closed cb - {k}"
  "recently_closed (cb_close cb k rem) =
     (if rem then insert k (recently_closed cb) else recently_closed cb - {k})"
  "recently_closed (cb_restore cb k u n lr t) = recently_closed cb - {k}"
  "recently_closed (cb_record_success cb k) = recently_closed cb - {k}"
  "recently_closed (fst (cb_record_failure cb k r t)) =
     (if snd (cb_record_failure cb k r t) then recently_closed cb - {k} else recently_closed cb)"
  by (simp_all add: cb_open_def cb_close_def cb_restore_def cb_record_success_def
      cb_record_failure_def Let_def)

lemma recently_closed_is_open:
  "recently_closed (fst (cb_is_open cb k t)) =
     (if (\<exists>u. open_until (state_of cb k) = Some u \<and> u \<le> t)
      then insert k (recently_closed cb) else recently_closed cb)"
  by (auto simp: cb_is_open_def recently_closed_ops split: option.splits)

lemma recently_closed_consume:
  "recently_closed (fst (cb_consume_recently_closed cb k)) = recently_closed cb - {k}"
  by (auto simp: cb_consume_recently_closed_def)

lemma set_dropWhileD': "x \<in> set (dropWhile P xs) \<Longrightarrow> x \<in> set xs"
  using set_dropWhileD by metis

lemma sorted_dropWhile': "sorted (xs :: int list) \<Longrightarrow> sorted (dropWhile P xs)"
  by (rule sorted_dropWhile)

lemma cb_inv_failure:
  assumes "cb_inv thr (cb, t)"
  shows "cb_inv thr (fst (cb_record_failure cb k r t), t)"
  using assms
  by (fastforce simp: cb_inv_def state_of_failure Let_def recently_closed_ops snd_failure
      sorted_append dest: set_dropWhileD' intro: sorted_dropWhile')

lemma cb_inv_step:
  assumes "cb_step s s'" "cb_inv thr s" "0 < thr"
  shows "cb_inv thr s'"
  using assms
proof (induction rule: cb_step.induct)
  case (step_failure now t cb k r)
  then show ?case by (blast intro: cb_inv_failure cb_inv_weaken)
next
  case (step_is_open now t cb k)
  then have "cb_inv thr (cb, t)" by (blast intro: cb_inv_weaken)
  then show ?case using step_is_open(3)
    by (auto simp: cb_inv_def recently_closed_is_open)
next
  case (step_open now t cb k r)
  then have "cb_inv thr (cb, t)" by (blast intro: cb_inv_weaken)
  then show ?case by (auto simp: cb_inv_def recently_closed_ops)
next
  case (step_restore now t cb k u n lr)
  then have "cb_inv thr (cb, t)" by (blast intro: cb_inv_weaken)
  then show ?case using step_restore(3)
    by (auto simp: cb_inv_def recently_closed_ops)
next
  case (step_success now t cb k)
  then have "cb_inv thr (cb, t)" by (blast intro: cb_inv_weaken)
  then show ?case using step_success(3) by (auto simp: cb_inv_def recently_closed_ops)
next
  case (step_close now t cb k rem)
  then have "cb_inv thr (cb, t)" by (blast intro: cb_inv_weaken)
  then show ?case using step_close(3) by (auto simp: cb_inv_def recently_closed_ops)
next
  case (step_consume now t cb k)
  then have "cb_inv thr (cb, t)" by (blast intro: cb_inv_weaken)
  then show ?case
    by (auto simp: cb_inv_def recently_closed_consume cb_consume_recently_closed_def)
qed

lemma cb_reachable_inv: "cb_reachable thr w c s \<Longrightarrow> 0 < thr \<Longrightarrow> cb_inv thr s"
proof (induction rule: cb_reachable.induct)
  case (reach_init now)
  then show ?case by (simp add: cb_inv_def, simp add: cb_init_def)
next
  case (reach_step s s')
  then show ?case by (blast intro: cb_inv_step)
qed

text \<open>
  In every reachable state of a breaker with a positive threshold, each key's failure times
  are in order and not in the future, a key that holds \<open>threshold\<close> failures is never left
  without an open interval, and a key waiting to be reported as recently closed is not open.
\<close>

theorem breaker_invariant:
  assumes "cb_reachable thr w c (cb, now)" and "0 < thr"
  shows "sorted (failure_times (state_of cb k)) \<and>
         (\<forall>t \<in> set (failure_times (state_of cb k)). t \<le> now) \<and>
         (thr \<le> int (length (failure_times (state_of cb k))) \<longrightarrow>
            open_until (state_of cb k) \<noteq> None) \<and>
         (k \<in> recently_closed cb \<longrightarrow> open_until (state_of cb k) = None)"
  using cb_reachable_inv [OF assms] by (simp add: cb_inv_def)

theorem breaker_invariant_witness:
  "failure_times (state_of (fst (cb_record_failure (cb_init 1 60 300) ''k'' ''r'' 5)) ''k'') = [5] \<and>
   open_until (state_of (fst (cb_record_failure (cb_init 1 60 300) ''k'' ''r'' 5)) ''k'') \<noteq> None"
proof -
  have "cb_step (cb_init 1 60 300, 0) (fst (cb_record_failure (cb_init 1 60 300) ''k'' ''r'' 5), 5)"
    by (rule step_failure) simp
  with reach_init have r:
    "cb_reachable 1 60 300 (fst (cb_record_failure (cb_init 1 60 300) ''k'' ''r'' 5), 5)"
    by (rule reach_step)
  have len: "failure_times (state_of (fst (cb_record_failure (cb_init 1 60 300) ''k'' ''r'' 5)) ''k'')
      = [5]"
    by (simp add: failure_times_failure)
  show ?thesis using breaker_invariant [OF r, of "''k''"] len by simp
qed

end
