(* ===== verification/Breaker_Manager.thy ===== *)
theory Breaker_Manager
  imports Circuit_Breaker
begin

text \<open>
  The circuit breaker's lifecycle: \<open>CircuitBreakerManager\<close> of
  \<open>execution_engine/circuit_breaker_manager.py\<close> over the in-memory breaker, the alert publisher
  and the risk-breach table of \<open>execution_engine/risk_breach_store.py\<close>.

  The table is a list of rows; a query with \<open>ORDER BY\<close> is \<open>sort_key\<close>. A timestamp written with
  \<open>isoformat\<close> and read with \<open>fromisoformat\<close> is the same clock value. A call whose database
  session fails is marked by the argument \<open>db_ok\<close>. Logging and metric counters are left out.
\<close>

section \<open>The risk-breach table\<close>

record risk_breach =
  breach_id :: int
  rb_user_id :: string
  rb_account :: "int option"
  occurred_at :: time
  rule_code :: string
  severity :: string
  rb_context :: pydict

record risk_store =
  rs_rows :: "risk_breach list"
  rs_accounts :: "int \<rightharpoonup> string"

definition require_user_id :: "string \<Rightarrow> string res" where
  "require_user_id user =
     (let n = py_strip user
      in if n = [] then Inl (ValueError ''Risk ownership requires a non-empty user_id'') else Inr n)"

definition validate_account_owner :: "risk_store \<Rightarrow> string \<Rightarrow> int option \<Rightarrow> unit res" where
  "validate_account_owner st user acct =
     (case acct of
        None \<Rightarrow> Inr ()
      | Some a \<Rightarrow>
          if a \<le> 0 then Inl (ValueError ''broker_account_id must be a positive integer'')
          else (case rs_accounts st a of
                  None \<Rightarrow> Inl (ValueError ''Unknown broker account'')
                | Some owner \<Rightarrow>
                    if owner \<noteq> user then Inl (ValueError ''Broker account is not owned by user'')
                    else Inr ()))"

definition next_risk_breach_id :: "risk_breach list \<Rightarrow> int" where
  "next_risk_breach_id rows = foldr max (map breach_id rows) 0 + 1"

definition newest_first :: "risk_breach \<Rightarrow> int \<times> int" where
  "newest_first r = (- occurred_at r, - breach_id r)"

definition ctx_breaker_key :: "risk_breach \<Rightarrow> string" where
  "ctx_breaker_key r = py_strip (str_of (dict_get (rb_context r) ''breaker_key''))"

definition parse_timestamp :: "pyval \<Rightarrow> time option" where
  "parse_timestamp v = (case v of PTime t \<Rightarrow> Some t | _ \<Rightarrow> None)"

definition find_circuit_breaker_row ::
    "risk_breach list \<Rightarrow> string \<Rightarrow> string \<Rightarrow> string \<Rightarrow> int option \<Rightarrow> risk_breach option" where
  "find_circuit_breaker_row rows key rc user acct =
     find (\<lambda>r. ctx_breaker_key r = key)
       (sort_key newest_first
          (filter (\<lambda>r. rule_code r = rc \<and> rb_user_id r = user \<and> rb_account r = acct) rows))"

definition risk_record ::
    "risk_store \<Rightarrow> string \<Rightarrow> string \<Rightarrow> string \<Rightarrow> pydict \<Rightarrow> int option \<Rightarrow> time \<Rightarrow>
     (risk_store \<times> int) res" where
  "risk_record st user rc sev ctx acct now =
     res_bind (require_user_id user) (\<lambda>u.
     let cu = dict_get ctx ''user_id'';
         ca = dict_get ctx ''broker_account_id'';
         bad = ValueError ''broker_account_id in risk context must be a positive integer''
     in res_bind (require (cu = PNone \<or> py_strip (str_of cu) = u)
                   (ValueError ''Risk context user_id conflicts with relational user ownership'')) (\<lambda>_.
        let payload = dict_set ctx ''user_id'' (PStr u)
        in res_bind
             (if ca = PNone then Inr acct
              else (case ca of
                      PBool _ \<Rightarrow> Inl bad
                    | _ \<Rightarrow> (case py_int ca of
                              None \<Rightarrow> Inl bad
                            | Some a \<Rightarrow> (case acct of
                                 None \<Rightarrow> Inr (Some a)
                               | Some a' \<Rightarrow>
                                   if a \<noteq> a'
                                   then Inl (ValueError ''Risk context broker_account_id conflicts with relational account ownership'')
                                   else Inr (Some a'))))) (\<lambda>acct'.
           let payload' = (case acct' of None \<Rightarrow> payload
                            | Some a \<Rightarrow> dict_set payload ''broker_account_id'' (PInt a))
           in res_bind (validate_account_owner st u acct') (\<lambda>_.
                let i = next_risk_breach_id (rs_rows st);
                    row = \<lparr>breach_id = i, rb_user_id = u, rb_account = acct', occurred_at = now,
                           rule_code = rc, severity = sev, rb_context = payload'\<rparr>
                in Inr (st\<lparr>rs_rows := rs_rows st @ [row]\<rparr>, i)))))"

definition breaker_payload ::
    "string \<Rightarrow> string \<Rightarrow> time \<Rightarrow> int \<Rightarrow> string option \<Rightarrow> string option \<Rightarrow> string option \<Rightarrow>
     string option \<Rightarrow> int option \<Rightarrow> pydict" where
  "breaker_payload user key until count reason strategy broker env acct =
     [(''user_id'', PStr user), (''breaker_key'', PStr key), (''state'', PStr ''open''),
      (''open_until'', PTime until), (''failure_count'', PInt count),
      (''last_reason'', opt_str reason), (''strategy_id'', opt_str strategy),
      (''broker'', opt_str broker), (''environment'', opt_str env)]
     @ (case acct of None \<Rightarrow> [] | Some a \<Rightarrow> [(''broker_account_id'', PInt a)])"

definition upsert_circuit_breaker_state ::
    "risk_store \<Rightarrow> string \<Rightarrow> string \<Rightarrow> string \<Rightarrow> time \<Rightarrow> int \<Rightarrow> string option \<Rightarrow> string option \<Rightarrow>
     string option \<Rightarrow> string option \<Rightarrow> int option \<Rightarrow> time \<Rightarrow> (risk_store \<times> int) res" where
  "upsert_circuit_breaker_state st user scope key until count reason strategy broker env acct now =
     res_bind (require_user_id user) (\<lambda>u.
     let rc = ''circuit_breaker:'' @ scope;
         payload = breaker_payload u key until count reason strategy broker env acct
     in res_bind (validate_account_owner st u acct) (\<lambda>_.
        case find_circuit_breaker_row (rs_rows st) key rc u acct of
          None \<Rightarrow>
            (let i = next_risk_breach_id (rs_rows st);
                 row = \<lparr>breach_id = i, rb_user_id = u, rb_account = acct, occurred_at = now,
                        rule_code = rc, severity = ''block'', rb_context = payload\<rparr>
             in Inr (st\<lparr>rs_rows := rs_rows st @ [row]\<rparr>, i))
        | Some old \<Rightarrow>
            Inr (st\<lparr>rs_rows := update_where (\<lambda>r. breach_id r = breach_id old)
                       (\<lambda>r. r\<lparr>rb_user_id := u, rb_account := acct, rule_code := rc,
                              severity := ''block'', rb_context := payload, occurred_at := now\<rparr>)
                       (rs_rows st)\<rparr>,
                 breach_id old)))"

record active_breaker =
  ab_key :: string
  ab_scope :: string
  ab_state :: string
  ab_open_until :: time
  ab_failure_count :: int
  ab_last_reason :: "string option"

definition active_row :: "time \<Rightarrow> risk_breach \<Rightarrow> bool" where
  "active_row now r =
     (ctx_breaker_key r \<noteq> [] \<and>
      (case parse_timestamp (dict_get (rb_context r) ''open_until'') of
         None \<Rightarrow> False | Some u \<Rightarrow> now < u))"

definition active_entry :: "risk_breach \<Rightarrow> active_breaker" where
  "active_entry r =
     \<lparr>ab_key = ctx_breaker_key r,
      ab_scope = drop 1 (dropWhile (\<lambda>c. c \<noteq> CHR '':'') (rule_code r)),
      ab_state = (let v = dict_get (rb_context r) ''state''
                  in if truthy v then str_of v else ''open''),
      ab_open_until = (case parse_timestamp (dict_get (rb_context r) ''open_until'') of
                         None \<Rightarrow> 0 | Some u \<Rightarrow> u),
      ab_failure_count = (case py_int (dict_get (rb_context r) ''failure_count'') of
                            None \<Rightarrow> 0 | Some n \<Rightarrow> n),
      ab_last_reason = (case dict_get (rb_context r) ''last_reason'' of
                          PNone \<Rightarrow> None | v \<Rightarrow> Some (str_of v))\<rparr>"

text \<open>The loop of \<open>load_active_circuit_breakers\<close>: the first active row of a key wins.\<close>

fun collect_active :: "time \<Rightarrow> string list \<Rightarrow> risk_breach list \<Rightarrow> active_breaker list" where
  "collect_active now seen [] = []"
| "collect_active now seen (r # rs) =
     (if active_row now r \<and> ctx_breaker_key r \<notin> set seen
      then active_entry r # collect_active now (ctx_breaker_key r # seen) rs
      else collect_active now seen rs)"

definition load_active_circuit_breakers :: "risk_store \<Rightarrow> time \<Rightarrow> active_breaker list" where
  "load_active_circuit_breakers st now =
     collect_active now []
       (sort_key newest_first
          (filter (\<lambda>r. sql_like ''circuit_breaker:%'' (rule_code r) \<and>
                       severity r \<in> {''block'', ''warn''})
             (rs_rows st)))"

definition clear_circuit_breaker_state :: "risk_store \<Rightarrow> string \<Rightarrow> risk_store \<times> int" where
  "clear_circuit_breaker_state st key =
     (let gone = (\<lambda>r. sql_like ''circuit_breaker:%'' (rule_code r) \<and> ctx_breaker_key r = key)
      in (st\<lparr>rs_rows := filter (\<lambda>r. \<not> gone r) (rs_rows st)\<rparr>,
          int (length (filter gone (rs_rows st)))))"

section \<open>The manager\<close>

record execution_alert =
  event_type :: string
  alert_severity :: string
  message :: string
  payload :: pydict

record cb_manager =
  breaker :: circuit_breaker
  alerts :: "execution_alert list"
  store :: "risk_store option"

definition strategy_key :: "string \<Rightarrow> string \<Rightarrow> string \<Rightarrow> string \<Rightarrow> string" where
  "strategy_key user strategy broker cred =
     ''strategy:'' @ user @ '':'' @ strategy @ '':'' @ broker @ '':'' @ cred"

definition broker_key :: "string \<Rightarrow> string \<Rightarrow> string" where
  "broker_key broker env = ''broker:'' @ broker @ '':'' @ env"

definition SYSTEM_ERROR_CODES :: "string list" where
  "SYSTEM_ERROR_CODES =
     [''auth_failed'', ''authentication_error'', ''unauthorized'', ''forbidden'', ''http_500'',
      ''http_502'', ''http_503'', ''http_504'', ''service_unavailable'', ''connection_error'',
      ''timeout'']"

definition SYSTEM_ERROR_NEEDLES :: "string list" where
  "SYSTEM_ERROR_NEEDLES =
     [''unauthorized'', ''forbidden'', ''authentication'', ''invalid api key'', ''timed out'',
      ''timeout'', ''connection reset'', ''connection refused'', ''service unavailable'',
      ''internal server error'', ''bad gateway'', ''gateway timeout'', ''broker unavailable'',
      ''failed to create broker bridge'']"

definition or_empty :: "string option \<Rightarrow> string" where
  "or_empty s = (case s of None \<Rightarrow> [] | Some x \<Rightarrow> x)"

definition is_broker_system_error :: "string option \<Rightarrow> string option \<Rightarrow> bool" where
  "is_broker_system_error error_message error_code =
     (py_lower (py_strip (or_empty error_code)) \<in> set SYSTEM_ERROR_CODES \<or>
      list_ex (\<lambda>needle. py_substring needle (py_lower (py_strip (or_empty error_message))))
        SYSTEM_ERROR_NEEDLES)"

text \<open>
  \<open>open\<close>: the breaker opens and the alert is published before the row is written, so both
  persist when the write raises. \<open>now\<close> is the breaker's clock read, \<open>now_row\<close> the row's.
\<close>

definition mg_open ::
    "cb_manager \<Rightarrow> string \<Rightarrow> string \<Rightarrow> string \<Rightarrow> string \<Rightarrow> string \<Rightarrow> string option \<Rightarrow> string \<Rightarrow>
     int option \<Rightarrow> time \<Rightarrow> time \<Rightarrow> cb_manager \<times> py_error option" where
  "mg_open m scope key user strategy broker env reason acct now now_row =
     (let cb = cb_open (breaker m) key reason now;
          alert_payload =
            [(''breaker_key'', PStr key), (''scope'', PStr scope), (''user_id'', PStr user),
             (''strategy_id'', PStr strategy), (''broker'', PStr broker),
             (''broker_account_id'', opt_int acct), (''reason'', PStr reason)]
            @ (if env \<noteq> None \<and> env \<noteq> Some [] then [(''environment'', opt_str env)] else []);
          alert = \<lparr>event_type = ''circuit_breaker_open'', alert_severity = ''error'',
                   message = reason, payload = alert_payload\<rparr>;
          m1 = m\<lparr>breaker := cb, alerts := alerts m @ [alert]\<rparr>
      in case store m of
           None \<Rightarrow> (m1, None)
         | Some st \<Rightarrow>
             (let snap = cb_snapshot_of cb key;
                  until = (case snap_open_until snap of None \<Rightarrow> now_row | Some u \<Rightarrow> u)
              in case upsert_circuit_breaker_state st user scope key until
                        (int (snap_failure_count snap)) (Some reason) (Some strategy)
                        (Some broker) env acct now_row of
                   Inl e \<Rightarrow> (m1, Some e)
                 | Inr (st', _) \<Rightarrow> (m1\<lparr>store := Some st'\<rparr>, None)))"

definition mg_record_failure ::
    "cb_manager \<Rightarrow> string \<Rightarrow> string \<Rightarrow> string \<Rightarrow> string \<Rightarrow> string \<Rightarrow> string option \<Rightarrow> string \<Rightarrow>
     int option \<Rightarrow> time \<Rightarrow> time \<Rightarrow> time \<Rightarrow> cb_manager \<times> bool res" where
  "mg_record_failure m scope key user strategy broker env reason acct now now_open now_row =
     (let (cb, opened) = cb_record_failure (breaker m) key reason now;
          m1 = m\<lparr>breaker := cb\<rparr>
      in if opened
         then (case mg_open m1 scope key user strategy broker env reason acct now_open now_row of
                 (m2, Some e) \<Rightarrow> (m2, Inl e)
               | (m2, None) \<Rightarrow> (m2, Inr True))
         else (m1, Inr False))"

definition mg_clear_state :: "cb_manager \<Rightarrow> bool \<Rightarrow> string \<Rightarrow> cb_manager" where
  "mg_clear_state m db_ok key =
     (case store m of
        None \<Rightarrow> m
      | Some st \<Rightarrow>
          if db_ok then m\<lparr>store := Some (fst (clear_circuit_breaker_state st key))\<rparr> else m)"

fun mg_record_success :: "cb_manager \<Rightarrow> bool \<Rightarrow> string list \<Rightarrow> cb_manager" where
  "mg_record_success m db_ok [] = m"
| "mg_record_success m db_ok (k # ks) =
     mg_record_success
       (mg_clear_state (m\<lparr>breaker := cb_record_success (breaker m) k\<rparr>) db_ok k) db_ok ks"

definition mg_is_open :: "cb_manager \<Rightarrow> string \<Rightarrow> time \<Rightarrow> cb_manager \<times> bool" where
  "mg_is_open m key now =
     (let (cb, b) = cb_is_open (breaker m) key now in (m\<lparr>breaker := cb\<rparr>, b))"

definition mg_record_admission_block ::
    "cb_manager \<Rightarrow> bool \<Rightarrow> string \<Rightarrow> string \<Rightarrow> string \<Rightarrow> string \<Rightarrow> string \<Rightarrow> string \<Rightarrow> int option \<Rightarrow> time \<Rightarrow>
     cb_manager \<times> py_error option" where
  "mg_record_admission_block m db_ok user strategy broker_type env cred rc acct now =
     (case store m of
        None \<Rightarrow> (m, None)
      | Some st \<Rightarrow>
          (case risk_record st user rc ''block''
                  [(''strategy_id'', PStr strategy), (''broker'', PStr broker_type),
                   (''environment'', PStr env), (''credential_ref'', PStr cred)] acct now of
             Inl e \<Rightarrow> (m, Some e)
           | Inr (st', _) \<Rightarrow> if db_ok then (m\<lparr>store := Some st'\<rparr>, None) else (m, Some DatabaseError)))"

text \<open>
  One admission query: \<open>is_open\<close>, then, when it is closed, \<open>consume_recently_closed\<close> and the
  clearing of the persisted row of an interval that has lapsed.
\<close>

definition mg_query :: "cb_manager \<Rightarrow> bool \<Rightarrow> string \<Rightarrow> time \<Rightarrow> cb_manager \<times> bool" where
  "mg_query m db_ok key now =
     (let (m1, is_open) = mg_is_open m key now
      in if is_open then (m1, True)
         else (let (cb, lapsed) = cb_consume_recently_closed (breaker m1) key;
                   m2 = m1\<lparr>breaker := cb\<rparr>
               in (if lapsed then mg_clear_state m2 db_ok key else m2, False)))"

definition broker_block_msg :: string where
  "broker_block_msg = ''Broker-global circuit breaker is open for this broker/environment''"

definition strategy_block_msg :: string where
  "strategy_block_msg = ''Circuit breaker is open for this user/strategy/broker''"

definition check_execution ::
    "cb_manager \<Rightarrow> bool \<Rightarrow> string \<Rightarrow> string \<Rightarrow> string \<Rightarrow> string \<Rightarrow> string \<Rightarrow> string \<Rightarrow> string \<Rightarrow>
     int option \<Rightarrow> bool \<Rightarrow> time \<Rightarrow> time \<Rightarrow> cb_manager \<times> (string option) res" where
  "check_execution m db_ok user strategy broker_type env cred skey bkey acct reduce_only now now2 =
     (let (m1, broker_open) = mg_query m db_ok bkey now
      in if broker_open
         then (case mg_record_admission_block m1 db_ok user strategy broker_type env cred
                      ''broker_breaker_open'' acct now of
                 (m2, Some e) \<Rightarrow> (m2, Inl e)
               | (m2, None) \<Rightarrow> (m2, Inr (Some broker_block_msg)))
         else
           (let (m2, strategy_open) = mg_query m1 db_ok skey now2
            in if \<not> strategy_open then (m2, Inr None)
               else if reduce_only then (m2, Inr None)
               else (case mg_record_admission_block m2 db_ok user strategy broker_type env cred
                            ''strategy_breaker_open'' acct now2 of
                       (m3, Some e) \<Rightarrow> (m3, Inl e)
                     | (m3, None) \<Rightarrow> (m3, Inr (Some strategy_block_msg)))))"

fun restore_rows :: "circuit_breaker \<Rightarrow> active_breaker list \<Rightarrow> time \<Rightarrow> circuit_breaker" where
  "restore_rows cb [] now = cb"
| "restore_rows cb (a # as) now =
     restore_rows
       (cb_restore cb (ab_key a) (ab_open_until a) (ab_failure_count a) (ab_last_reason a) now)
       as now"

definition mg_restore_all :: "cb_manager \<Rightarrow> bool \<Rightarrow> time \<Rightarrow> time \<Rightarrow> cb_manager" where
  "mg_restore_all m db_ok now_load now =
     (case store m of
        None \<Rightarrow> m
      | Some st \<Rightarrow>
          if db_ok
          then m\<lparr>breaker := restore_rows (breaker m) (load_active_circuit_breakers st now_load) now\<rparr>
          else m)"


section \<open>Admission\<close>

lemma breaker_clear_state [simp]: "breaker (mg_clear_state m ok k) = breaker m"
  by (simp add: mg_clear_state_def split: option.splits)

lemma breaker_admission_block [simp]:
  "breaker (fst (mg_record_admission_block m ok u s b e c rc a now)) = breaker m"
  by (simp add: mg_record_admission_block_def split: option.splits sum.splits prod.splits)

lemma snd_query: "snd (mg_query m ok key now) = blocks (breaker m) key now"
  by (auto simp: mg_query_def mg_is_open_def split_beta Let_def cb_gate.is_open_reads)

lemma breaker_query:
  "breaker (fst (mg_query m ok key now)) =
     (if blocks (breaker m) key now then fst (cb_is_open (breaker m) key now)
      else fst (cb_consume_recently_closed (fst (cb_is_open (breaker m) key now)) key))"
  by (auto simp: mg_query_def mg_is_open_def split_beta Let_def cb_gate.is_open_reads)

lemma blocks_query:
  "now \<le> t \<Longrightarrow> blocks (breaker (fst (mg_query m ok key now))) k t = blocks (breaker m) k t"
  by (simp add: breaker_query cb_gate.query_frame cb_gate.is_open_frame)

lemma store_clear_none: "store m = None \<Longrightarrow> store (mg_clear_state m ok k) = None"
  by (simp add: mg_clear_state_def)

lemma store_query_none: "store m = None \<Longrightarrow> store (fst (mg_query m ok key now)) = None"
  by (auto simp: mg_query_def mg_is_open_def split_beta Let_def store_clear_none)

lemma admission_block_none:
  "store m = None \<Longrightarrow> mg_record_admission_block m ok u s b e c rc a now = (m, None)"
  by (simp add: mg_record_admission_block_def)

text \<open>The decision, without the table: what admission answers when nothing raises.\<close>

definition admission :: "circuit_breaker \<Rightarrow> string \<Rightarrow> string \<Rightarrow> bool \<Rightarrow> time \<Rightarrow> time \<Rightarrow> string option" where
  "admission cb skey bkey reduce_only now now2 =
     (if blocks cb bkey now then Some broker_block_msg
      else if blocks cb skey now2 \<and> \<not> reduce_only then Some strategy_block_msg
      else None)"

lemma check_execution_cases:
  assumes "now \<le> now2"
  obtains (admitted) "admission (breaker m) skey bkey ro now now2 = None"
      "snd (check_execution m ok u s bt e c skey bkey a ro now now2) = Inr None"
    | (blocked) msg where "admission (breaker m) skey bkey ro now now2 = Some msg"
      "snd (check_execution m ok u s bt e c skey bkey a ro now now2) = Inr (Some msg)"
    | (raised) msg err where "admission (breaker m) skey bkey ro now now2 = Some msg"
      "snd (check_execution m ok u s bt e c skey bkey a ro now now2) = Inl err" "store m \<noteq> None"
proof -
  let ?m1 = "fst (mg_query m ok bkey now)"
  let ?m2 = "fst (mg_query ?m1 ok skey now2)"
  have q1: "snd (mg_query m ok bkey now) = blocks (breaker m) bkey now" by (rule snd_query)
  have q2: "snd (mg_query ?m1 ok skey now2) = blocks (breaker m) skey now2"
    using assms by (simp add: snd_query blocks_query)
  show thesis
  proof (cases "blocks (breaker m) bkey now")
    case True
    then have "check_execution m ok u s bt e c skey bkey a ro now now2 =
        (case mg_record_admission_block ?m1 ok u s bt e c ''broker_breaker_open'' a now of
           (m2, Some er) \<Rightarrow> (m2, Inl er) | (m2, None) \<Rightarrow> (m2, Inr (Some broker_block_msg)))"
      using q1 by (simp add: check_execution_def split_beta Let_def)
    then show thesis
      using True blocked [of broker_block_msg] raised [of broker_block_msg]
        admission_block_none [OF store_query_none]
      by (cases "mg_record_admission_block ?m1 ok u s bt e c ''broker_breaker_open'' a now";
          cases "snd (mg_record_admission_block ?m1 ok u s bt e c ''broker_breaker_open'' a now)")
        (fastforce simp: admission_def)+
  next
    case False
    then have eq: "check_execution m ok u s bt e c skey bkey a ro now now2 =
        (if \<not> blocks (breaker m) skey now2 \<or> ro then (?m2, Inr None)
         else (case mg_record_admission_block ?m2 ok u s bt e c ''strategy_breaker_open'' a now2 of
                 (m3, Some er) \<Rightarrow> (m3, Inl er) | (m3, None) \<Rightarrow> (m3, Inr (Some strategy_block_msg))))"
      using q1 q2 by (auto simp: check_execution_def split_beta Let_def)
    show thesis
    proof (cases "blocks (breaker m) skey now2 \<and> \<not> ro")
      case True
      then show thesis
        using False eq blocked [of strategy_block_msg] raised [of strategy_block_msg]
          admission_block_none [OF store_query_none [OF store_query_none]]
        by (cases "mg_record_admission_block ?m2 ok u s bt e c ''strategy_breaker_open'' a now2";
            cases "snd (mg_record_admission_block ?m2 ok u s bt e c ''strategy_breaker_open'' a now2)")
          (fastforce simp: admission_def)+
    next
      case no: False
      with False eq show thesis by (intro admitted) (auto simp: admission_def)
    qed
  qed
qed

text \<open>
  C13: admission answers exactly the two-level rule, broker breaker first, then the strategy
  breaker unless the order is reduce-only; the only other outcome is an exception from recording
  a block, which needs a table and happens only for an order that the rule blocks. So no
  failure admits an order the rule rejects, and a strategy breaker never traps a reduce-only exit.
\<close>

theorem check_execution_decides:
  assumes "now \<le> now2"
  shows "snd (check_execution m ok u s bt e c skey bkey a ro now now2)
           = Inr (admission (breaker m) skey bkey ro now now2)
         \<or> ((\<exists>err. snd (check_execution m ok u s bt e c skey bkey a ro now now2) = Inl err) \<and>
            admission (breaker m) skey bkey ro now now2 \<noteq> None \<and> store m \<noteq> None)"
  by (rule check_execution_cases [OF assms, of m skey bkey ro ok u s bt e c a]) auto

theorem check_execution_decides_witness:
  "snd (check_execution
          \<lparr>breaker = cb_open (cb_init 3 60 300) ''s'' ''r'' 0, alerts = [], store = None\<rparr>
          True ''u'' ''st'' ''paper'' ''paper'' ''c'' ''s'' ''b'' None True 5 6) = Inr None"
  using check_execution_decides [of 5 6
      "\<lparr>breaker = cb_open (cb_init 3 60 300) ''s'' ''r'' 0, alerts = [], store = None\<rparr>"
      True "''u''" "''st''" "''paper''" "''paper''" "''c''" "''s''" "''b''" None True]
  by (simp add: admission_def blocks_def)


section \<open>Persistence across a restart\<close>

lemma collect_active_find:
  "k \<notin> set seen \<Longrightarrow>
   find (\<lambda>a. ab_key a = k) (collect_active now seen rs) =
     map_option active_entry (find (\<lambda>r. active_row now r \<and> ctx_breaker_key r = k) rs)"
proof (induction now seen rs rule: collect_active.induct)
  case (1 now seen)
  then show ?case by simp
next
  case (2 now seen r rs)
  then show ?case by (auto simp: active_entry_def)
qed

lemma collect_active_keys:
  "distinct (map ab_key (collect_active now seen rs)) \<and>
   set (map ab_key (collect_active now seen rs)) \<inter> set seen = {}"
  by (induction now seen rs rule: collect_active.induct) (auto simp: active_entry_def)

lemma restore_rows_other:
  "k \<notin> set (map ab_key as) \<Longrightarrow> state_of (restore_rows cb as now) k = state_of cb k"
  by (induction as arbitrary: cb) auto

lemma restore_rows_state:
  "distinct (map ab_key as) \<Longrightarrow>
   state_of (restore_rows cb as now) k =
     (case find (\<lambda>a. ab_key a = k) as of
        None \<Rightarrow> state_of cb k
      | Some a \<Rightarrow> state_of (cb_restore cb k (ab_open_until a) (ab_failure_count a)
                            (ab_last_reason a) now) k)"
proof (induction as arbitrary: cb)
  case Nil
  then show ?case by simp
next
  case (Cons a as)
  then show ?case
    by (cases "ab_key a = k") (auto simp: restore_rows_other split: option.splits)
qed

text \<open>The rows a restart reads for one key: the newest active one decides.\<close>

definition breaker_row :: "risk_breach \<Rightarrow> bool" where
  "breaker_row r = (sql_like ''circuit_breaker:%'' (rule_code r) \<and> severity r \<in> {''block'', ''warn''})"

lemma load_active_find:
  "find (\<lambda>a. ab_key a = k) (load_active_circuit_breakers st now) =
     map_option active_entry
       (find (\<lambda>r. active_row now r \<and> ctx_breaker_key r = k)
          (sort_key newest_first (filter breaker_row (rs_rows st))))"
  by (simp add: load_active_circuit_breakers_def collect_active_find breaker_row_def [abs_def])

lemma load_active_distinct: "distinct (map ab_key (load_active_circuit_breakers st now))"
  using collect_active_keys by (simp add: load_active_circuit_breakers_def)

definition written_row ::
    "int \<Rightarrow> string \<Rightarrow> string \<Rightarrow> string \<Rightarrow> time \<Rightarrow> int \<Rightarrow> string \<Rightarrow> string \<Rightarrow> string \<Rightarrow> string option \<Rightarrow>
     int option \<Rightarrow> time \<Rightarrow> risk_breach" where
  "written_row i user scope key until count reason strategy broker env acct now =
     \<lparr>breach_id = i, rb_user_id = user, rb_account = acct, occurred_at = now,
      rule_code = ''circuit_breaker:'' @ scope, severity = ''block'',
      rb_context = breaker_payload user key until count (Some reason) (Some strategy)
                     (Some broker) env acct\<rparr>"

lemma upsert_rows:
  assumes "upsert_circuit_breaker_state st user scope key until count (Some reason)
             (Some strategy) (Some broker) env acct now = Inr (st', i)"
  shows "written_row i (py_strip user) scope key until count reason strategy broker env acct now
           \<in> set (rs_rows st') \<and>
         (\<forall>r \<in> set (rs_rows st'). r \<in> set (rs_rows st) \<or>
            r = written_row i (py_strip user) scope key until count reason strategy broker env acct now)"
proof -
  let ?W = "\<lambda>i. written_row i (py_strip user) scope key until count reason strategy broker env acct now"
  let ?old = "find_circuit_breaker_row (rs_rows st) key (''circuit_breaker:'' @ scope)
                (py_strip user) acct"
  have user: "require_user_id user = Inr (py_strip user)"
    using assms by (auto simp: upsert_circuit_breaker_state_def require_user_id_def Let_def split: if_splits)
  have acct: "validate_account_owner st (py_strip user) acct = Inr ()"
    using assms user by (auto simp: upsert_circuit_breaker_state_def Let_def res_bind_Inr_iff)
  show ?thesis
  proof (cases ?old)
    case None
    with assms user acct show ?thesis
      by (auto simp: upsert_circuit_breaker_state_def Let_def written_row_def)
  next
    case (Some old)
    then have "old \<in> set (rs_rows st)"
      by (auto simp: find_circuit_breaker_row_def find_Some_iff)
        (metis (no_types, lifting) filter_is_subset nth_mem set_sort length_sort subsetD)
    with Some assms user acct show ?thesis
      by (auto simp: upsert_circuit_breaker_state_def Let_def written_row_def set_update_where
          image_iff intro!: bexI [of _ old])
  qed
qed

lemma written_row_simps:
  fixes i user scope key until count reason strategy broker env acct now
  defines "w \<equiv> written_row i user scope key until count reason strategy broker env acct now"
  shows "breaker_row w" "ctx_breaker_key w = py_strip key" "occurred_at w = now"
    "active_row t w \<longleftrightarrow> py_strip key \<noteq> [] \<and> t < until" "ab_open_until (active_entry w) = until"
  by (simp_all add: w_def written_row_def breaker_row_def sql_like_suffix_any ctx_breaker_key_def
      breaker_payload_def dict_get_def active_row_def active_entry_def parse_timestamp_def)

lemma mg_open_row:
  assumes "mg_open m scope key user strategy broker env reason acct now now_row = (m', None)"
    and "store m = Some st"
  shows "\<exists>st' i count. store m' = Some st' \<and>
           upsert_circuit_breaker_state st user scope key (now + cooldown (breaker m)) count
             (Some reason) (Some strategy) (Some broker) env acct now_row = Inr (st', i)"
  using assms
  by (auto simp: mg_open_def Let_def cb_snapshot_of_def split: sum.splits prod.splits) blast

text \<open>
  An open breaker survives a restart. When \<open>open\<close> returned normally at \<open>now\<close>, its row being
  newer than every row then in the table, a new process that restores before the interval ends
  blocks the key up to exactly the deadline the old process had set, and no longer.
\<close>

theorem open_survives_restart:
  assumes opened: "mg_open m scope key user strategy broker env reason acct now now_row = (m', None)"
    and st: "store m = Some st" and newest: "\<forall>r \<in> set (rs_rows st). occurred_at r < now_row"
    and key: "py_strip key = key" "key \<noteq> []"
    and clock: "now_load \<le> now_restore" "now_restore < now + cooldown (breaker m)"
  shows "blocks (breaker (mg_restore_all \<lparr>breaker = cb0, alerts = [], store = store m'\<rparr> True
                  now_load now_restore)) key t
         \<longleftrightarrow> t < now + cooldown (breaker m)"
proof -
  let ?until = "now + cooldown (breaker m)"
  obtain st' i count where st': "store m' = Some st'"
    and up: "upsert_circuit_breaker_state st user scope key ?until count (Some reason)
               (Some strategy) (Some broker) env acct now_row = Inr (st', i)"
    using mg_open_row [OF opened st] by blast
  define w where "w = written_row i (py_strip user) scope key ?until count reason strategy broker env acct now_row"
  note w = written_row_simps [where i = i and user = "py_strip user" and scope = scope and key = key
      and until = ?until and count = count and reason = reason and strategy = strategy
      and broker = broker and env = env and acct = acct and now = now_row, folded w_def]
  have rows: "w \<in> set (rs_rows st')" "\<forall>r \<in> set (rs_rows st'). r \<in> set (rs_rows st) \<or> r = w"
    using upsert_rows [OF up] by (simp_all add: w_def)
  have least: "newest_first w < newest_first r" if "r \<in> set (rs_rows st')" "r \<noteq> w" for r
    using rows(2) that newest w(3) by (auto simp: newest_first_def)
  have "find (\<lambda>r. active_row now_load r \<and> ctx_breaker_key r = key)
          (sort_key newest_first (filter breaker_row (rs_rows st'))) = Some w"
    using rows(1) w key clock least by (intro find_sort_key_least) auto
  then have "find (\<lambda>a. ab_key a = key) (load_active_circuit_breakers st' now_load)
               = Some (active_entry w)"
    by (simp add: load_active_find)
  then show ?thesis
    using clock(2) w(5)
    by (simp add: mg_restore_all_def st' restore_rows_state load_active_distinct blocks_def)
qed

definition example_manager :: cb_manager where
  "example_manager =
     \<lparr>breaker = cb_init 3 60 300, alerts = [],
      store = Some \<lparr>rs_rows = [], rs_accounts = Map.empty\<rparr>\<rparr>"

lemma py_strip_example: "py_strip ''k'' = ''k''" "py_strip ''owner'' = ''owner''"
  by code_simp+

lemma example_open:
  "snd (mg_open example_manager ''broker'' ''k'' ''owner'' ''s'' ''paper'' None ''down'' None 10 11)
     = None"
  by (simp add: example_manager_def mg_open_def Let_def upsert_circuit_breaker_state_def
      require_user_id_def py_strip_example validate_account_owner_def find_circuit_breaker_row_def
      cb_snapshot_of_def)

theorem open_survives_restart_witness:
  "blocks (breaker (mg_restore_all
      \<lparr>breaker = cb_init 3 60 300, alerts = [],
       store = store (fst (mg_open example_manager ''broker'' ''k'' ''owner'' ''s'' ''paper'' None
                             ''down'' None 10 11))\<rparr> True 20 21)) ''k'' 299999999"
proof -
  let ?o = "mg_open example_manager ''broker'' ''k'' ''owner'' ''s'' ''paper'' None ''down'' None 10 11"
  have o: "?o = (fst ?o, None)" using example_open by (metis prod.collapse)
  have st: "store example_manager = Some \<lparr>rs_rows = [], rs_accounts = Map.empty\<rparr>"
    and c: "cooldown (breaker example_manager) = 300000000"
    by (simp_all add: example_manager_def cb_init_def)
  show ?thesis
    using open_survives_restart [OF o st, of 20 21 "cb_init 3 60 300" 299999999] c
    by (simp add: py_strip_example)
qed

text \<open>A table row that \<open>record_success\<close> has cleared is not restored.\<close>

lemma clear_rows:
  "r \<in> set (rs_rows (fst (clear_circuit_breaker_state st key))) \<longleftrightarrow>
     r \<in> set (rs_rows st) \<and> \<not> (sql_like ''circuit_breaker:%'' (rule_code r) \<and> ctx_breaker_key r = key)"
  by (auto simp: clear_circuit_breaker_state_def Let_def)

definition no_row :: "risk_store option \<Rightarrow> string \<Rightarrow> bool" where
  "no_row st key = (case st of None \<Rightarrow> True
     | Some s \<Rightarrow> \<forall>r \<in> set (rs_rows s). breaker_row r \<longrightarrow> ctx_breaker_key r \<noteq> key)"

lemma no_row_clear:
  "no_row (store (mg_clear_state m True key)) key"
  "no_row (store m) k \<Longrightarrow> no_row (store (mg_clear_state m ok key)) k"
  by (auto simp: no_row_def mg_clear_state_def clear_rows breaker_row_def split: option.splits)

lemma no_row_success_keep:
  "no_row (store m) k \<Longrightarrow> no_row (store (mg_record_success m ok ks)) k"
  by (induction ks arbitrary: m) (simp_all add: no_row_clear(2))

lemma no_row_success: "k \<in> set ks \<Longrightarrow> no_row (store (mg_record_success m True ks)) k"
proof (induction ks arbitrary: m)
  case Nil
  then show ?case by simp
next
  case (Cons k' ks)
  show ?case
  proof (cases "k = k'")
    case True
    have "no_row (store (mg_clear_state (m\<lparr>breaker := cb_record_success (breaker m) k\<rparr>) True k)) k"
      by (rule no_row_clear(1))
    then show ?thesis using True by (simp add: no_row_success_keep)
  next
    case False
    with Cons show ?thesis by simp
  qed
qed

lemma restore_no_row:
  assumes "no_row st k"
  shows "state_of (breaker (mg_restore_all \<lparr>breaker = cb, alerts = al, store = st\<rparr> ok t1 t2)) k
           = state_of cb k"
proof (cases st)
  case None
  then show ?thesis by (simp add: mg_restore_all_def)
next
  case (Some s)
  with assms have "find (\<lambda>r. active_row t1 r \<and> ctx_breaker_key r = k)
      (sort_key newest_first (filter breaker_row (rs_rows s))) = None"
    by (auto simp: no_row_def find_None_iff)
  with Some show ?thesis
    by (simp add: mg_restore_all_def restore_rows_state load_active_distinct load_active_find)
qed

text \<open>
  A success closes for good. After \<open>record_success\<close> on a list of keys with a working
  table, a new process that restores from that table blocks none of those keys, at any time.
\<close>

theorem success_not_restored:
  assumes "k \<in> set ks"
  shows "\<not> blocks (breaker (mg_restore_all
             \<lparr>breaker = cb_init thr w c, alerts = [], store = store (mg_record_success m True ks)\<rparr>
             ok now_load now_restore)) k t"
  using restore_no_row [OF no_row_success [OF assms, of m]] by (simp add: blocks_def)

theorem success_not_restored_witness:
  "\<not> blocks (breaker (mg_restore_all
       \<lparr>breaker = cb_init 3 60 300, alerts = [],
        store = store (mg_record_success
          (fst (mg_open example_manager ''broker'' ''k'' ''owner'' ''s'' ''paper'' None ''down'' None 10 11))
          True [''k''])\<rparr> True 20 21)) ''k'' 22"
  using success_not_restored [of "''k''" "[''k'']" 3 60 300
      "fst (mg_open example_manager ''broker'' ''k'' ''owner'' ''s'' ''paper'' None ''down'' None 10 11)"
      True 20 21 22]
  by simp

end
