(* ===== verification/Outbox.thy ===== *)
theory Outbox
  imports Py_Prelude
begin

text \<open>
  The transactional outbox of \<open>lib_application/outbox.py\<close> over the \<open>outbox_events\<close> table of
  \<open>lib_application/db/models/dispatch.py\<close>. The table is a list of rows; each operation is one
  committed transaction, and takes the clock value, the generated identifier and the set of rows
  that concurrent transactions hold locked as arguments. The status column is the datatype its
  check constraint admits.
\<close>

section \<open>Rows\<close>

datatype outbox_status = Pending | InProgress | Published | Failed | DeadLetter

record outbox_event =
  event_id :: string
  topic :: string
  event_type :: string
  schema_version :: string
  aggregate_type :: "string option"
  aggregate_id :: "string option"
  event_key :: "string option"
  ordering_key :: "string option"
  payload :: pydict
  headers :: pydict
  delivery_metadata :: "pydict option"
  status :: outbox_status
  attempts :: int
  max_attempts :: int
  available_at :: time
  claimed_at :: "time option"
  claim_owner :: "string option"
  published_at :: "time option"
  last_error :: "string option"
  created_at :: time
  updated_at :: time
  failure_class :: "string option"
  redrive_generation :: int
  redrive_audit :: "pydict list"

type_synonym table = "outbox_event list"

definition to_record :: "outbox_event \<Rightarrow> outbox_event" where
  "to_record r =
     r\<lparr>delivery_metadata := Some (case delivery_metadata r of None \<Rightarrow> [] | Some d \<Rightarrow> d)\<rparr>"

section \<open>Backlog\<close>

definition backlog_age_seconds :: "time option \<Rightarrow> time \<Rightarrow> rat" where
  "backlog_age_seconds oldest now =
     (case oldest of None \<Rightarrow> 0 | Some t \<Rightarrow> max 0 (of_int (now - t) / 1000000))"

record backlog_snapshot =
  counts :: "(string \<times> int) list"
  oldest_age_seconds :: rat

definition dead_letter_count :: "backlog_snapshot \<Rightarrow> int" where
  "dead_letter_count s = (case map_of (counts s) ''dead_letter'' of None \<Rightarrow> 0 | Some n \<Rightarrow> n)"

definition is_current :: "backlog_snapshot \<Rightarrow> rat \<Rightarrow> bool" where
  "is_current s max_age = (dead_letter_count s = 0 \<and> oldest_age_seconds s \<le> max 1 max_age)"

fun status_name :: "outbox_status \<Rightarrow> string" where
  "status_name Pending = ''pending''"
| "status_name InProgress = ''in_progress''"
| "status_name Published = ''published''"
| "status_name Failed = ''failed''"
| "status_name DeadLetter = ''dead_letter''"

section \<open>Enqueue\<close>

definition key_set :: "string option \<Rightarrow> bool" where
  "key_set k = (k \<noteq> None \<and> k \<noteq> Some [])"

definition find_key :: "table \<Rightarrow> string option \<Rightarrow> outbox_event option" where
  "find_key tbl k = find (\<lambda>r. event_key r = k) tbl"

record enqueue_request =
  rq_topic :: string
  rq_event_type :: string
  rq_payload :: pydict
  rq_schema_version :: string
  rq_aggregate_type :: "string option"
  rq_aggregate_id :: "string option"
  rq_event_key :: "string option"
  rq_ordering_key :: "string option"
  rq_headers :: "pydict option"
  rq_available_at :: "time option"
  rq_max_attempts :: int

definition new_event :: "enqueue_request \<Rightarrow> string \<Rightarrow> time \<Rightarrow> outbox_event" where
  "new_event q i now =
     \<lparr>event_id = i, topic = rq_topic q, event_type = rq_event_type q,
      schema_version = rq_schema_version q, aggregate_type = rq_aggregate_type q,
      aggregate_id = rq_aggregate_id q, event_key = rq_event_key q,
      ordering_key = rq_ordering_key q, payload = rq_payload q,
      headers = (case rq_headers q of None \<Rightarrow> [] | Some h \<Rightarrow> h), delivery_metadata = None,
      status = Pending, attempts = 0, max_attempts = rq_max_attempts q,
      available_at = (case rq_available_at q of None \<Rightarrow> now | Some t \<Rightarrow> t),
      claimed_at = None, claim_owner = None, published_at = None, last_error = None,
      created_at = now, updated_at = now, failure_class = None, redrive_generation = 0,
      redrive_audit = []\<rparr>"

text \<open>
  \<open>enqueue_on_session\<close>: the identifier it returns and the row it adds to the session, if any.
\<close>

definition enqueue_on_session ::
    "table \<Rightarrow> enqueue_request \<Rightarrow> string \<Rightarrow> time \<Rightarrow> string \<times> outbox_event option" where
  "enqueue_on_session tbl q i now =
     (case (if key_set (rq_event_key q) then find_key tbl (rq_event_key q) else None) of
        Some existing \<Rightarrow> (event_id existing, None)
      | None \<Rightarrow> (i, Some (new_event q i now)))"

text \<open>
  The unique constraints on \<open>event_id\<close> and \<open>event_key\<close>; a \<open>NULL\<close> key conflicts with nothing,
  an empty one does.
\<close>

definition violates :: "table \<Rightarrow> outbox_event \<Rightarrow> bool" where
  "violates tbl r =
     list_ex (\<lambda>x. event_id x = event_id r \<or> (event_key r \<noteq> None \<and> event_key x = event_key r)) tbl"

text \<open>
  \<open>enqueue\<close>: the rows \<open>raced\<close> are committed by other transactions between this one's lookup
  and its commit, which is where the unique constraint is checked.
\<close>

definition enqueue ::
    "table \<Rightarrow> table \<Rightarrow> enqueue_request \<Rightarrow> string \<Rightarrow> time \<Rightarrow> table \<times> string res" where
  "enqueue tbl raced q i now =
     (let tbl' = tbl @ raced
      in case enqueue_on_session tbl q i now of
           (j, None) \<Rightarrow> (tbl', Inr j)
         | (j, Some row) \<Rightarrow>
             if violates tbl' row
             then (if \<not> key_set (rq_event_key q) then (tbl', Inl IntegrityError)
                   else (case find_key tbl' (rq_event_key q) of
                           None \<Rightarrow> (tbl', Inl IntegrityError)
                         | Some existing \<Rightarrow> (tbl', Inr (event_id existing))))
             else (tbl' @ [row], Inr j))"

section \<open>Claim\<close>

text \<open>The order in which rows of one partition must be delivered.\<close>

definition older :: "outbox_event \<Rightarrow> outbox_event \<Rightarrow> bool" where
  "older p r =
     (created_at p < created_at r \<or> (created_at p = created_at r \<and> event_id p < event_id r))"

text \<open>SQL equality: a \<open>NULL\<close> ordering key equals nothing.\<close>

definition same_partition :: "outbox_event \<Rightarrow> outbox_event \<Rightarrow> bool" where
  "same_partition p r = (ordering_key p \<noteq> None \<and> ordering_key p = ordering_key r)"

definition older_undelivered :: "table \<Rightarrow> outbox_event \<Rightarrow> bool" where
  "older_undelivered tbl r =
     list_ex (\<lambda>p. same_partition p r \<and> status p \<noteq> Published \<and> older p r) tbl"

definition claimable ::
    "table \<Rightarrow> string list \<Rightarrow> string list \<Rightarrow> bool \<Rightarrow> time \<Rightarrow> int \<Rightarrow> outbox_event \<Rightarrow> bool" where
  "claimable tbl topic_list ordering_key_list preserve_ordering now lease_seconds r =
     (topic r \<in> set topic_list \<and> available_at r \<le> now \<and>
      (status r \<in> {Pending, Failed} \<or>
       (status r = InProgress \<and>
        (case claimed_at r of None \<Rightarrow> False
         | Some t \<Rightarrow> t < now - seconds (max 1 lease_seconds)))) \<and>
      (ordering_key_list \<noteq> [] \<longrightarrow>
         (case ordering_key r of None \<Rightarrow> False | Some k \<Rightarrow> k \<in> set ordering_key_list)) \<and>
      (preserve_ordering \<longrightarrow> \<not> older_undelivered tbl r))"

definition claim_row :: "string \<Rightarrow> time \<Rightarrow> outbox_event \<Rightarrow> outbox_event" where
  "claim_row consumer now r =
     r\<lparr>status := InProgress, claim_owner := Some consumer, claimed_at := Some now,
       attempts := attempts r + 1, updated_at := now\<rparr>"

definition claim_selection ::
    "table \<Rightarrow> string set \<Rightarrow> string list \<Rightarrow> string list \<Rightarrow> bool \<Rightarrow> time \<Rightarrow> nat \<Rightarrow> int \<Rightarrow> table" where
  "claim_selection tbl locked topic_list ordering_key_list preserve now limit lease =
     take limit
       (sort_key (\<lambda>r. (available_at r, created_at r))
          (filter (\<lambda>r. claimable tbl topic_list ordering_key_list preserve now lease r \<and>
                       event_id r \<notin> locked) tbl))"

definition claim_batch ::
    "table \<Rightarrow> string set \<Rightarrow> string list \<Rightarrow> string \<Rightarrow> nat \<Rightarrow> int \<Rightarrow> string list \<Rightarrow> bool \<Rightarrow> time \<Rightarrow>
     (table \<times> outbox_event list) res" where
  "claim_batch tbl locked topics consumer limit lease_seconds ordering_keys preserve_ordering now =
     (let topic_list = filter (\<lambda>t. t \<noteq> []) topics;
          ordering_key_list = filter (\<lambda>k. k \<noteq> []) ordering_keys
      in if topic_list = [] then Inr (tbl, [])
         else if preserve_ordering \<and> ordering_key_list = []
         then Inl (ValueError ''preserve_ordering requires at least one ordering_key'')
         else
           (let rows = claim_selection tbl locked topic_list ordering_key_list preserve_ordering
                         now limit lease_seconds
            in Inr (update_where (\<lambda>r. event_id r \<in> set (map event_id rows)) (claim_row consumer now) tbl,
                    map (to_record \<circ> claim_row consumer now) rows)))"

section \<open>Completion\<close>

definition owns :: "string \<Rightarrow> string \<Rightarrow> int \<Rightarrow> outbox_event \<Rightarrow> bool" where
  "owns i owner n r =
     (event_id r = i \<and> status r = InProgress \<and> claim_owner r = Some owner \<and> attempts r = n)"

definition publish_row :: "time \<Rightarrow> pydict option \<Rightarrow> outbox_event \<Rightarrow> outbox_event" where
  "publish_row now meta r =
     r\<lparr>status := Published, published_at := Some now, claimed_at := None, claim_owner := None,
       last_error := None, failure_class := None,
       delivery_metadata := Some (case meta of None \<Rightarrow> [] | Some d \<Rightarrow> d), updated_at := now\<rparr>"

definition mark_published ::
    "table \<Rightarrow> string \<Rightarrow> string \<Rightarrow> int \<Rightarrow> pydict option \<Rightarrow> time \<Rightarrow> table \<times> bool" where
  "mark_published tbl i owner n meta now =
     (update_where (owns i owner n) (publish_row now meta) tbl,
      length (filter (owns i owner n) tbl) = 1)"

definition fail_row :: "time \<Rightarrow> string \<Rightarrow> int \<Rightarrow> string \<Rightarrow> bool \<Rightarrow> outbox_event \<Rightarrow> outbox_event" where
  "fail_row now err delay fclass terminal r =
     r\<lparr>last_error := Some err, claimed_at := None, claim_owner := None,
       available_at := now + seconds (max 1 delay),
       status := (if terminal \<or> max_attempts r \<le> attempts r then DeadLetter else Failed),
       failure_class := Some fclass, updated_at := now\<rparr>"

definition mark_failed ::
    "table \<Rightarrow> string \<Rightarrow> string \<Rightarrow> int \<Rightarrow> string \<Rightarrow> int \<Rightarrow> string \<Rightarrow> bool \<Rightarrow> time \<Rightarrow> (table \<times> bool) res" where
  "mark_failed tbl i owner n err delay fclass terminal now =
     (let f = py_lower (py_strip fclass)
      in if f \<notin> {''transient'', ''permanent''}
         then Inl (ValueError ''failure_class must be transient or permanent'')
         else Inr (update_where (owns i owner n)
                     (fail_row now err delay f (terminal \<or> f = ''permanent'')) tbl,
                   length (filter (owns i owner n) tbl) = 1))"

section \<open>Operator redrive\<close>

record redrive_result =
  rd_acquired :: bool
  rd_event_id :: string
  rd_generation :: int
  rd_outcome :: string

definition redrive_topics :: "string list" where
  "redrive_topics = [''execution.commands'', ''execution.rebalance.commands'']"

definition redrive_row ::
    "string \<Rightarrow> string \<Rightarrow> int \<Rightarrow> int \<Rightarrow> string \<Rightarrow> bool \<Rightarrow> time \<Rightarrow> outbox_event \<Rightarrow> outbox_event" where
  "redrive_row actor reason expected next_gen outcome acquired now r =
     (let entry = [(''actor'', PStr actor), (''reason'', PStr reason),
                   (''source_event_id'', PStr (event_id r)),
                   (''requested_generation'', PInt expected), (''generation'', PInt next_gen),
                   (''outcome'', PStr outcome), (''recorded_at'', PTime now)];
          r1 = r\<lparr>redrive_audit := redrive_audit r @ [entry], updated_at := now\<rparr>
      in if acquired
         then r1\<lparr>status := Pending, attempts := 0, available_at := now, claimed_at := None,
                 claim_owner := None, published_at := None, last_error := None,
                 failure_class := None, redrive_generation := next_gen\<rparr>
         else r1)"

definition redrive_dead_letter ::
    "table \<Rightarrow> string \<Rightarrow> string \<Rightarrow> string \<Rightarrow> int \<Rightarrow> time \<Rightarrow> (table \<times> redrive_result) res" where
  "redrive_dead_letter tbl event actor reason expected now =
     (let i = py_strip event; a = py_strip actor; why = py_strip reason
      in if i = [] \<or> a = [] \<or> why = []
         then Inl (ValueError ''event_id, actor, and reason are required for redrive'')
         else if expected < 0
         then Inl (ValueError ''expected_generation must be a non-negative integer'')
         else (case find (\<lambda>r. event_id r = i) tbl of
                 None \<Rightarrow> Inl (LookupError ''Outbox event does not exist'')
               | Some row \<Rightarrow>
                   if topic row \<notin> set redrive_topics
                   then Inl (ValueError ''Only execution command dead letters are eligible for redrive'')
                   else
                     (let observed = redrive_generation row;
                          outcome = (if status row \<noteq> DeadLetter then ''rejected_state''
                                     else if observed \<noteq> expected then ''rejected_generation''
                                     else ''queued'');
                          acquired = (outcome = ''queued'');
                          next_gen = (if acquired then observed + 1 else observed)
                      in Inr (update_where (\<lambda>r. event_id r = i)
                                (redrive_row a why expected next_gen outcome acquired now) tbl,
                              \<lparr>rd_acquired = acquired, rd_event_id = i, rd_generation = next_gen,
                               rd_outcome = outcome\<rparr>))))"

section \<open>Queries\<close>

definition topic_filter :: "string list \<Rightarrow> outbox_event \<Rightarrow> bool" where
  "topic_filter topics r =
     (let tl = filter (\<lambda>t. t \<noteq> []) topics in tl = [] \<or> topic r \<in> set tl)"

definition key_filter :: "string list \<Rightarrow> outbox_event \<Rightarrow> bool" where
  "key_filter keys r =
     (let kl = filter (\<lambda>k. k \<noteq> []) keys
      in kl = [] \<or> (case ordering_key r of None \<Rightarrow> False | Some k \<Rightarrow> k \<in> set kl))"

definition list_dead_letters :: "table \<Rightarrow> string list \<Rightarrow> int \<Rightarrow> table" where
  "list_dead_letters tbl topics limit =
     map to_record
       (take (nat (max 1 (min limit 1000)))
          (sort_key (\<lambda>r. (updated_at r, created_at r))
             (filter (\<lambda>r. status r = DeadLetter \<and> topic_filter topics r) tbl)))"

definition list_pending :: "table \<Rightarrow> string list \<Rightarrow> nat \<Rightarrow> string list \<Rightarrow> bool \<Rightarrow> table" where
  "list_pending tbl topics limit keys include_dead_letter =
     map to_record
       (take limit
          (sort_key created_at
             (filter (\<lambda>r. (status r \<in> {Pending, Failed, InProgress} \<or>
                           include_dead_letter \<and> status r = DeadLetter) \<and>
                          topic_filter topics r \<and> key_filter keys r) tbl)))"

definition backlog_counts :: "table \<Rightarrow> string list \<Rightarrow> string list \<Rightarrow> (string \<times> int) list" where
  "backlog_counts tbl topics keys =
     (let rows = filter (\<lambda>r. status r \<noteq> Published \<and> topic_filter topics r \<and> key_filter keys r) tbl
      in map (\<lambda>s. (status_name s, int (length (filter (\<lambda>r. status r = s) rows))))
           (filter (\<lambda>s. s \<in> set (map status rows)) [Pending, InProgress, Failed, DeadLetter]))"

declare claim_batch_def [outbox_defs] claim_selection_def [outbox_defs]
  mark_published_def [outbox_defs] mark_failed_def [outbox_defs]
  redrive_dead_letter_def [outbox_defs] enqueue_def [outbox_defs]
  enqueue_on_session_def [outbox_defs]

end
