(* ===== verification/Outbox_Order.thy ===== *)
theory Outbox_Order
  imports Outbox
begin

text \<open>
  What the outbox guarantees: order within a partition, fenced completion, idempotent enqueue,
  audited redrive. The first part gives the frame of every operation (which columns it may
  write), the second the reachable tables of consumers that preserve ordering and what a claim means
  there. Rows may be committed in any order; a last part adds what holds when they are committed in
  the order of their creation.
\<close>

section \<open>Frames\<close>

text \<open>The columns that identify and order a row.\<close>

definition same_identity :: "outbox_event \<Rightarrow> outbox_event \<Rightarrow> bool" where
  "same_identity r r' \<longleftrightarrow>
     event_id r' = event_id r \<and> ordering_key r' = ordering_key r \<and> created_at r' = created_at r \<and>
     event_key r' = event_key r \<and> topic r' = topic r"

lemma identity_rows [simp]:
  "same_identity r (claim_row c now r)" "same_identity r (publish_row now meta r)"
  "same_identity r (fail_row now e d f t r)" "same_identity r (redrive_row a w ex g out acq now r)"
  by (simp_all add: same_identity_def claim_row_def publish_row_def fail_row_def redrive_row_def Let_def)

lemma status_rows [simp]:
  "status (claim_row c now r) = InProgress" "status (publish_row now meta r) = Published"
  "status (fail_row now e d f t r) = (if t \<or> max_attempts r \<le> attempts r then DeadLetter else Failed)"
  "status (redrive_row a w ex g out acq now r) = (if acq then Pending else status r)"
  by (simp_all add: claim_row_def publish_row_def fail_row_def redrive_row_def Let_def)

lemma older_identity:
  "same_identity p p' \<Longrightarrow> same_identity r r' \<Longrightarrow> older p' r' = older p r"
  "same_identity p p' \<Longrightarrow> same_identity r r' \<Longrightarrow> same_partition p' r' = same_partition p r"
  by (simp_all add: same_identity_def older_def same_partition_def)

lemma older_asym: "older p r \<Longrightarrow> \<not> older r p"
  by (auto simp: older_def)

lemma claim_batch_shape:
  assumes "claim_batch tbl locked topics consumer limit lease keys preserve now = Inr (tbl', recs)"
  obtains sel where
    "tbl' = update_where (\<lambda>r. event_id r \<in> event_id ` set sel) (claim_row consumer now) tbl"
    "recs = map (to_record \<circ> claim_row consumer now) sel"
    "set sel \<subseteq> set tbl" "length sel \<le> limit"
    "\<forall>r \<in> set sel. claimable tbl (filter (\<lambda>t. t \<noteq> []) topics) (filter (\<lambda>k. k \<noteq> []) keys) preserve now lease r
        \<and> event_id r \<notin> locked"
proof -
  show ?thesis
  proof (cases "filter (\<lambda>t. t \<noteq> []) topics = []")
    case True
    then have "tbl' = tbl" "recs = []" using assms by (simp_all add: claim_batch_def)
    then show ?thesis by (intro that [of "[]"]) (auto simp: update_where_def)
  next
    case False
    let ?sel = "claim_selection tbl locked (filter (\<lambda>t. t \<noteq> []) topics) (filter (\<lambda>k. k \<noteq> []) keys)
                  preserve now limit lease"
    have "\<not> (preserve \<and> filter (\<lambda>k. k \<noteq> []) keys = [])"
      using assms False by (auto simp: claim_batch_def Let_def split: if_splits)
    with assms False have eq:
      "tbl' = update_where (\<lambda>r. event_id r \<in> set (map event_id ?sel)) (claim_row consumer now) tbl"
      "recs = map (to_record \<circ> claim_row consumer now) ?sel"
      by (auto simp: claim_batch_def Let_def split: if_splits)
    have sub: "set ?sel \<subseteq> set (filter (\<lambda>r. claimable tbl (filter (\<lambda>t. t \<noteq> []) topics)
            (filter (\<lambda>k. k \<noteq> []) keys) preserve now lease r \<and> event_id r \<notin> locked) tbl)"
      unfolding claim_selection_def by (rule subset_trans [OF set_take_subset]) (simp only: set_sort)
    have len: "length ?sel \<le> limit" by (simp add: claim_selection_def)
    show ?thesis
    proof (rule that [OF _ eq(2) _ len])
      show "tbl' = update_where (\<lambda>r. event_id r \<in> event_id ` set ?sel) (claim_row consumer now) tbl"
        using eq(1) by (simp only: set_map)
    qed (use sub in \<open>unfold set_filter, blast+\<close>)
  qed
qed

section \<open>Order within a partition\<close>

definition ids_distinct :: "table \<Rightarrow> bool" where
  "ids_distinct tbl = distinct (map event_id tbl)"

text \<open>A row that has left \<open>Pending\<close> has only delivered rows before it in its partition.\<close>

definition partition_inv :: "table \<Rightarrow> bool" where
  "partition_inv tbl \<longleftrightarrow>
     (\<forall>r \<in> set tbl. status r \<noteq> Pending \<longrightarrow>
        (\<forall>p \<in> set tbl. same_partition p r \<and> older p r \<longrightarrow> status p = Published))"

lemma ids_update_where:
  "(\<And>r. same_identity r (f r)) \<Longrightarrow> ids_distinct (update_where P f tbl) = ids_distinct tbl"
  by (simp add: ids_distinct_def map_key_update_where same_identity_def)

text \<open>
  One lemma for every operation that rewrites rows in place: a delivered row stays delivered, and
  a row leaves \<open>Pending\<close> only when nothing before it is undelivered.
\<close>

definition rewritten :: "table \<Rightarrow> table \<Rightarrow> bool" where
  "rewritten tbl tbl' \<longleftrightarrow>
     (\<exists>P f. tbl' = update_where P f tbl \<and> (\<forall>r. same_identity r (f r)) \<and>
        (\<forall>r \<in> set tbl. P r \<longrightarrow> status r = Published \<longrightarrow> status (f r) = Published) \<and>
        (\<forall>r \<in> set tbl. P r \<longrightarrow> status (f r) \<noteq> Pending \<longrightarrow> status r = Pending \<longrightarrow> \<not> older_undelivered tbl r))"

lemma rewritten_ids: "rewritten tbl tbl' \<Longrightarrow> ids_distinct tbl' = ids_distinct tbl"
  by (auto simp: rewritten_def ids_update_where)

lemma rewritten_partition_inv:
  assumes "rewritten tbl tbl'" and inv: "partition_inv tbl"
  shows "partition_inv tbl'"
proof -
  from assms(1) obtain P f where tbl': "tbl' = update_where P f tbl" and frame: "\<And>r. same_identity r (f r)"
    and keep: "\<And>r. r \<in> set tbl \<Longrightarrow> P r \<Longrightarrow> status r = Published \<Longrightarrow> status (f r) = Published"
    and leave: "\<And>r. r \<in> set tbl \<Longrightarrow> P r \<Longrightarrow> status (f r) \<noteq> Pending \<Longrightarrow> status r = Pending \<Longrightarrow>
                  \<not> older_undelivered tbl r"
    unfolding rewritten_def by blast
  let ?g = "\<lambda>r. if P r then f r else r"
  have id: "same_identity r (?g r)" for r using frame by (simp add: same_identity_def)
  have "status (?g p) = Published"
    if r: "r \<in> set tbl" and p: "p \<in> set tbl" and s: "status (?g r) \<noteq> Pending"
      and o: "same_partition (?g p) (?g r)" "older (?g p) (?g r)" for p r
  proof -
    have o': "same_partition p r" "older p r"
      using o older_identity [OF id id] by simp_all
    have "status p = Published"
    proof (cases "status r = Pending")
      case True
      with s have "P r" "status (f r) \<noteq> Pending" by (simp_all split: if_splits)
      with leave [OF r] True have "\<not> older_undelivered tbl r" by blast
      with p o' show ?thesis unfolding older_undelivered_def list_ex_iff by blast
    next
      case False
      with inv r p o' show ?thesis unfolding partition_inv_def by blast
    qed
    with keep [OF p] show ?thesis by simp
  qed
  then show ?thesis unfolding tbl' partition_inv_def set_update_where by blast
qed

lemma ids_distinct_eq: "ids_distinct tbl \<Longrightarrow> r \<in> set tbl \<Longrightarrow> x \<in> set tbl \<Longrightarrow> event_id r = event_id x \<Longrightarrow> r = x"
  unfolding ids_distinct_def distinct_map by (metis inj_onD)

lemma rewritten_published:
  assumes "rewritten tbl tbl'" "ids_distinct tbl" "p \<in> set tbl" "status p = Published"
    and "p' \<in> set tbl'" "event_id p' = event_id p"
  shows "status p' = Published"
proof -
  from assms(1) obtain P f where tbl': "tbl' = update_where P f tbl" and frame: "\<And>r. same_identity r (f r)"
    and keep: "\<And>r. r \<in> set tbl \<Longrightarrow> P r \<Longrightarrow> status r = Published \<Longrightarrow> status (f r) = Published"
    unfolding rewritten_def by blast
  obtain r where r: "r \<in> set tbl" "p' = (if P r then f r else r)"
    using assms(5) unfolding tbl' set_update_where by blast
  then have "event_id r = event_id p" using assms(6) frame [of r] by (auto simp: same_identity_def split: if_splits)
  then have "r = p" by (rule ids_distinct_eq [OF assms(2) r(1) assms(3)])
  then show ?thesis using r keep assms(4) by simp
qed

lemma rewritten_claim:
  assumes ids: "ids_distinct tbl"
    and claim: "claim_batch tbl locked topics consumer limit lease keys True now = Inr (tbl', recs)"
  shows "rewritten tbl tbl'"
    and "\<And>r p. r \<in> set recs \<Longrightarrow> p \<in> set tbl \<Longrightarrow> same_partition p r \<Longrightarrow> older p r \<Longrightarrow> status p = Published"
proof -
  from claim obtain sel where
    sel: "tbl' = update_where (\<lambda>r. event_id r \<in> event_id ` set sel) (claim_row consumer now) tbl"
      "recs = map (to_record \<circ> claim_row consumer now) sel" "set sel \<subseteq> set tbl"
      "\<forall>r \<in> set sel. claimable tbl (filter (\<lambda>t. t \<noteq> []) topics) (filter (\<lambda>k. k \<noteq> []) keys) True now lease r
          \<and> event_id r \<notin> locked"
    by (rule claim_batch_shape)
  have uniq: "r \<in> set sel" if "r \<in> set tbl" "event_id r \<in> event_id ` set sel" for r
    using that sel(3) ids_distinct_eq [OF ids] by blast
  have old: "\<not> older_undelivered tbl r \<and> status r \<noteq> Published" if "r \<in> set sel" for r
    using sel(4) that by (simp add: claimable_def) (metis outbox_status.distinct)
  show "rewritten tbl tbl'"
    unfolding rewritten_def sel(1) using uniq old by (intro exI conjI refl) auto
  show "status p = Published" if "r \<in> set recs" "p \<in> set tbl" "same_partition p r" "older p r" for r p
  proof -
    have "r \<in> set (map (to_record \<circ> claim_row consumer now) sel)" using that(1) sel(2) by simp
    then obtain x where x: "x \<in> set sel" "r = to_record (claim_row consumer now x)"
      unfolding set_map comp_apply by blast
    have "same_identity x r" by (simp add: x(2) same_identity_def to_record_def claim_row_def)
    then have "same_partition p x" "older p x"
      using that(3,4) unfolding same_identity_def same_partition_def older_def by metis+
    then show ?thesis using old [OF x(1)] that(2) unfolding older_undelivered_def list_ex_iff by blast
  qed
qed

lemma rewritten_publish: "rewritten tbl (fst (mark_published tbl i owner n meta now))"
  unfolding rewritten_def mark_published_def fst_conv
  by (intro exI [of _ "owns i owner n"] exI [of _ "publish_row now meta"]) (simp add: owns_def)

lemma rewritten_fail:
  assumes "mark_failed tbl i owner n err delay fc terminal now = Inr (tbl', b)"
  shows "rewritten tbl tbl'"
proof -
  let ?f = "fail_row now err delay (py_lower (py_strip fc)) (terminal \<or> py_lower (py_strip fc) = ''permanent'')"
  have "tbl' = update_where (owns i owner n) ?f tbl"
    using assms by (auto simp: mark_failed_def Let_def split: if_splits)
  then show ?thesis
    unfolding rewritten_def by (intro exI [of _ "owns i owner n"] exI [of _ ?f]) (simp add: owns_def)
qed

lemma redrive_shape:
  assumes "redrive_dead_letter tbl event actor reason expected now = Inr (tbl', res)"
  obtains row where "find (\<lambda>r. event_id r = py_strip event) tbl = Some row"
    "topic row \<in> set redrive_topics"
    "rd_acquired res \<longleftrightarrow> status row = DeadLetter \<and> redrive_generation row = expected"
    "rd_generation res = (if rd_acquired res then redrive_generation row + 1 else redrive_generation row)"
    "tbl' = update_where (\<lambda>r. event_id r = py_strip event)
       (redrive_row (py_strip actor) (py_strip reason) expected (rd_generation res)
          (rd_outcome res) (rd_acquired res) now) tbl"
  using assms that
  by (auto simp: redrive_dead_letter_def Let_def split: if_splits option.splits)

lemma find_unique:
  assumes "ids_distinct tbl" "find (\<lambda>r. event_id r = i) tbl = Some row" "r \<in> set tbl" "event_id r = i"
  shows "r = row"
proof -
  have "row \<in> set tbl \<and> event_id row = i"
    using assms(2) unfolding find_Some_iff by (metis nth_mem)
  with assms show ?thesis using ids_distinct_eq by metis
qed

lemma rewritten_redrive:
  assumes ids: "ids_distinct tbl" and eq: "redrive_dead_letter tbl event actor reason expected now = Inr (tbl', res)"
  shows "rewritten tbl tbl'"
proof -
  from eq obtain row where row: "find (\<lambda>r. event_id r = py_strip event) tbl = Some row"
    "rd_acquired res \<longleftrightarrow> status row = DeadLetter \<and> redrive_generation row = expected"
    "tbl' = update_where (\<lambda>r. event_id r = py_strip event)
       (redrive_row (py_strip actor) (py_strip reason) expected (rd_generation res)
          (rd_outcome res) (rd_acquired res) now) tbl"
    by (rule redrive_shape)
  have "r = row" if "r \<in> set tbl" "event_id r = py_strip event" for r
    using find_unique [OF ids row(1) that] .
  then show ?thesis
    unfolding rewritten_def row(3) using row(2) by (intro exI conjI refl) (auto split: if_splits)
qed

text \<open>What an enqueue commits: nothing, or one new pending row with a fresh identifier.\<close>

lemma enqueue_shape:
  "fst (enqueue tbl [] q i now) = tbl \<or>
   (fst (enqueue tbl [] q i now) = tbl @ [new_event q i now] \<and> event_id (new_event q i now) \<notin> event_id ` set tbl)"
proof -
  let ?n = "new_event q i now"
  have "event_id ?n \<notin> event_id ` set tbl" if "\<not> violates tbl ?n"
    using that unfolding violates_def list_ex_iff by (metis imageE)
  then show ?thesis by (simp add: enqueue_def enqueue_on_session_def Let_def split: option.splits)
qed

text \<open>
  The tables of a deployment whose consumers all claim with \<open>preserve_ordering\<close>: every operation, by
  any number of producers and consumers, in any order. The creation time of a row is set by its
  producer before the commit, so a row may be committed after a younger one of its partition.
\<close>

inductive ob_step :: "table \<Rightarrow> table \<Rightarrow> bool" where
  ob_enqueue: "ob_step tbl (fst (enqueue tbl [] q i now))"
| ob_claim: "claim_batch tbl locked topics consumer limit lease keys True now = Inr (tbl', recs) \<Longrightarrow>
     ob_step tbl tbl'"
| ob_publish: "ob_step tbl (fst (mark_published tbl i owner n meta now))"
| ob_fail: "mark_failed tbl i owner n err delay fc terminal now = Inr (tbl', b) \<Longrightarrow> ob_step tbl tbl'"
| ob_redrive: "redrive_dead_letter tbl event actor reason expected now = Inr (tbl', res) \<Longrightarrow>
     ob_step tbl tbl'"

inductive ob_reachable :: "table \<Rightarrow> bool" where
  ob_empty: "ob_reachable []"
| ob_next: "ob_reachable tbl \<Longrightarrow> ob_step tbl tbl' \<Longrightarrow> ob_reachable tbl'"

lemma ob_step_shape:
  assumes "ob_step tbl tbl'" "ids_distinct tbl"
  shows "rewritten tbl tbl' \<or>
    (\<exists>n. tbl' = tbl @ [n] \<and> status n = Pending \<and> event_id n \<notin> event_id ` set tbl)"
  using assms(1)
proof (cases rule: ob_step.cases)
  case (ob_enqueue q i now)
  have "rewritten tbl tbl"
    unfolding rewritten_def
    by (intro exI [of _ "\<lambda>_. False"] exI [of _ "\<lambda>r. r"]) (simp add: update_where_def same_identity_def)
  then show ?thesis
    unfolding ob_enqueue using enqueue_shape [of tbl q i now] by (auto simp: new_event_def)
next
  case (ob_claim locked topics consumer limit lease keys now recs)
  then show ?thesis using rewritten_claim(1) [OF assms(2)] by blast
next
  case (ob_publish i owner n meta now)
  then show ?thesis using rewritten_publish by simp
next
  case (ob_fail i owner n err delay fc terminal now b)
  then show ?thesis using rewritten_fail by blast
next
  case (ob_redrive event actor reason expected now res)
  then show ?thesis using rewritten_redrive [OF assms(2)] by blast
qed

lemma ob_step_ids: "ob_step tbl tbl' \<Longrightarrow> ids_distinct tbl \<Longrightarrow> ids_distinct tbl'"
  using ob_step_shape [of tbl tbl'] rewritten_ids by (auto simp: ids_distinct_def)

lemma ob_reachable_ids: "ob_reachable tbl \<Longrightarrow> ids_distinct tbl"
  by (induction rule: ob_reachable.induct) (auto simp: ids_distinct_def [of "[]"] intro: ob_step_ids)

text \<open>A delivered row stays delivered.\<close>

definition delivered :: "string \<Rightarrow> table \<Rightarrow> bool" where
  "delivered i tbl \<longleftrightarrow> ids_distinct tbl \<and> (\<exists>p \<in> set tbl. event_id p = i \<and> status p = Published)"

lemma rewritten_ids_set:
  assumes "rewritten tbl tbl'"
  shows "event_id ` set tbl' = event_id ` set tbl"
proof -
  obtain P f where tbl': "tbl' = update_where P f tbl" and f: "\<And>r. event_id (f r) = event_id r"
    using assms unfolding rewritten_def same_identity_def by blast
  have "map event_id tbl' = map event_id tbl" unfolding tbl' by (rule map_key_update_where) (rule f)
  then show ?thesis by (metis set_map)
qed

lemma delivered_step:
  assumes "ob_step tbl tbl'" "delivered i tbl"
  shows "delivered i tbl'"
proof -
  obtain p where p: "ids_distinct tbl" "p \<in> set tbl" "event_id p = i" "status p = Published"
    using assms(2) by (auto simp: delivered_def)
  from ob_step_shape [OF assms(1) p(1)] show ?thesis
  proof (elim disjE exE conjE)
    assume r: "rewritten tbl tbl'"
    have "i \<in> event_id ` set tbl'" unfolding rewritten_ids_set [OF r] using p(2,3) by blast
    then obtain p' where p': "p' \<in> set tbl'" "event_id p' = i" by blast
    have "status p' = Published" by (rule rewritten_published [OF r p(1,2,4) p'(1)]) (simp only: p'(2) p(3))
    then show ?thesis using p' ob_step_ids [OF assms(1) p(1)] unfolding delivered_def by blast
  next
    fix n assume "tbl' = tbl @ [n]"
    then have "p \<in> set tbl'" using p(2) by simp
    then show ?thesis using p(3,4) ob_step_ids [OF assms(1) p(1)] unfolding delivered_def by blast
  qed
qed

text \<open>
  C12: order within a partition. Take any table reached through producers that commit their rows in any
  order and consumers that all preserve ordering. When a batch hands out a row, every earlier row of
  its partition that has been committed by then has been delivered, and stays so whatever claims,
  retries, lease expiries, failures, redrives and enqueues follow: no command overtakes an earlier
  committed one, and a failed, claimed or dead row holds its partition back. A row that is committed
  only after a younger one was claimed is outside of it.
\<close>

theorem partition_order_preserved:
  assumes "ob_reachable tbl"
    and "claim_batch tbl locked topics consumer limit lease keys True now = Inr (tbl1, recs)"
    and "r \<in> set recs" and "p \<in> set tbl" "same_partition p r" "older p r"
    and "ob_step\<^sup>*\<^sup>* tbl1 tbl2" and "p' \<in> set tbl2" "event_id p' = event_id p"
  shows "status p' = Published"
proof -
  note ids = ob_reachable_ids [OF assms(1)]
  have "status p = Published" by (rule rewritten_claim(2) [OF ids assms(2-6)])
  then have "delivered (event_id p) tbl" using ids assms(4) unfolding delivered_def by blast
  with ob_claim [OF assms(2)] have "delivered (event_id p) tbl1" by (rule delivered_step)
  with assms(7) have "delivered (event_id p) tbl2"
    by (induction rule: rtranclp_induct) (auto intro: delivered_step)
  then show ?thesis using ids_distinct_eq [of tbl2] assms(8,9) unfolding delivered_def by metis
qed

section \<open>Rows committed in the order of their creation\<close>

text \<open>
  When every new row is younger than the committed rows of its partition, the whole partition is
  delivered in order: a row that has left \<open>Pending\<close> has only delivered rows before it.
\<close>

definition in_order :: "table \<Rightarrow> table \<Rightarrow> bool" where
  "in_order tbl tbl' \<longleftrightarrow>
     (\<forall>n \<in> set tbl'. event_id n \<notin> event_id ` set tbl \<longrightarrow> (\<forall>r \<in> set tbl. same_partition r n \<longrightarrow> older r n))"

inductive in_order_reachable :: "table \<Rightarrow> bool" where
  io_empty: "in_order_reachable []"
| io_next: "in_order_reachable tbl \<Longrightarrow> ob_step tbl tbl' \<Longrightarrow> in_order tbl tbl' \<Longrightarrow> in_order_reachable tbl'"

lemma appended_inv:
  assumes inv: "partition_inv tbl" and n: "status n = Pending"
    and late: "\<forall>r \<in> set tbl. same_partition r n \<longrightarrow> older r n"
  shows "partition_inv (tbl @ [n])"
proof -
  have "same_partition r n" if "same_partition n r" for r
    using that by (simp add: same_partition_def) metis
  then have last: "\<not> older n r" if "r \<in> set tbl" "same_partition n r" for r
    using late that older_asym by blast
  have "status p = Published" if "r \<in> insert n (set tbl)" "status r \<noteq> Pending"
    "p \<in> insert n (set tbl)" "same_partition p r \<and> older p r" for r p
  proof -
    have r: "r \<in> set tbl" using that(1,2) n by blast
    then have "p \<in> set tbl" using that(3,4) last by blast
    with r that inv show ?thesis unfolding partition_inv_def by blast
  qed
  then show ?thesis
    unfolding partition_inv_def by (metis Un_iff empty_set insert_iff list.simps(15) set_append empty_iff)
qed

lemma in_order_delivery:
  "in_order_reachable tbl \<Longrightarrow> ids_distinct tbl \<and> partition_inv tbl"
proof (induction rule: in_order_reachable.induct)
  case io_empty
  show ?case by (simp add: ids_distinct_def partition_inv_def)
next
  case (io_next tbl tbl')
  have "partition_inv tbl'"
    using ob_step_shape [OF io_next.hyps(2) conjunct1 [OF io_next.IH]]
  proof (elim disjE exE conjE)
    fix n assume n: "tbl' = tbl @ [n]" "status n = Pending" "event_id n \<notin> event_id ` set tbl"
    then have "\<forall>r \<in> set tbl. same_partition r n \<longrightarrow> older r n"
      using io_next.hyps(3) by (simp add: in_order_def)
    then show ?thesis using appended_inv n(1,2) io_next.IH by simp
  qed (use rewritten_partition_inv io_next.IH in blast)
  then show ?case using ob_step_ids io_next by blast
qed

end
