(* ===== verification/Outbox_Claims.thy ===== *)
theory Outbox_Claims
  imports Outbox_Order
begin

text \<open>
  What a claim, an event key and a redrive generation are worth. A claim is a token: the
  event, the owner and the attempt number. Completing checks the token against the row, so a
  worker whose lease has been taken over cannot finish the newer claim.
\<close>

section \<open>Runs of the outbox\<close>

text \<open>
  One operation on the table by any process, with or without ordering; the flag says whether an
  operator's redrive is among the operations.
\<close>

inductive op_step :: "bool \<Rightarrow> table \<Rightarrow> table \<Rightarrow> bool" for redrives where
  op_enqueue: "ids_distinct (tbl @ raced) \<Longrightarrow> op_step redrives tbl (fst (enqueue tbl raced q i now))"
| op_claim: "claim_batch tbl locked topics consumer limit lease keys preserve now = Inr (tbl', recs) \<Longrightarrow>
     op_step redrives tbl tbl'"
| op_publish: "op_step redrives tbl (fst (mark_published tbl i owner n meta now))"
| op_fail: "mark_failed tbl i owner n err delay fc terminal now = Inr (tbl', b) \<Longrightarrow>
     op_step redrives tbl tbl'"
| op_redrive: "redrives \<Longrightarrow> redrive_dead_letter tbl event actor reason expected now = Inr (tbl', res) \<Longrightarrow>
     op_step redrives tbl tbl'"

abbreviation op_run :: "bool \<Rightarrow> table \<Rightarrow> table \<Rightarrow> bool" where
  "op_run redrives \<equiv> (op_step redrives)\<^sup>*\<^sup>*"

text \<open>Every step rewrites the rows in place and may append some.\<close>

definition extends :: "(outbox_event \<Rightarrow> outbox_event \<Rightarrow> bool) \<Rightarrow> table \<Rightarrow> table \<Rightarrow> bool" where
  "extends R tbl tbl' \<longleftrightarrow>
     (\<forall>r \<in> set tbl. \<exists>r' \<in> set tbl'. event_id r' = event_id r \<and> R r r')"

lemma extends_update:
  assumes "\<And>r. same_identity r (f r)" "\<And>r. r \<in> set tbl \<Longrightarrow> P r \<Longrightarrow> R r (f r)" "\<And>r. R r r"
  shows "extends R tbl (update_where P f tbl)"
  unfolding extends_def
proof (rule ballI)
  fix r assume r: "r \<in> set tbl"
  let ?r = "if P r then f r else r"
  have "?r \<in> set (update_where P f tbl)" using r by (auto simp only: set_update_where)
  moreover have "event_id ?r = event_id r" using assms(1) by (simp add: same_identity_def)
  moreover have "R r ?r" using assms(2,3) r by simp
  ultimately show "\<exists>r' \<in> set (update_where P f tbl). event_id r' = event_id r \<and> R r r'" by blast
qed

lemma extends_append: "(\<And>r. R r r) \<Longrightarrow> extends R tbl (tbl @ extra)"
  unfolding extends_def set_append by blast

lemma enqueue_appends:
  "\<exists>extra. fst (enqueue tbl raced q i now) = tbl @ extra"
  by (simp add: enqueue_def enqueue_on_session_def Let_def split: option.splits)

lemma not_violates_fresh: "\<not> violates t r \<Longrightarrow> event_id r \<notin> event_id ` set t"
  unfolding violates_def list_ex_iff by (metis imageE)

lemma enqueue_table:
  "fst (enqueue tbl raced q i now) = tbl @ raced \<or>
   (\<not> violates (tbl @ raced) (new_event q i now) \<and>
    fst (enqueue tbl raced q i now) = (tbl @ raced) @ [new_event q i now])"
  by (simp add: enqueue_def enqueue_on_session_def Let_def split: option.splits)

lemma enqueue_ids:
  assumes "ids_distinct (tbl @ raced)"
  shows "ids_distinct (fst (enqueue tbl raced q i now))"
proof -
  let ?n = "new_event q i now"
  consider "fst (enqueue tbl raced q i now) = tbl @ raced"
    | "\<not> violates (tbl @ raced) ?n" "fst (enqueue tbl raced q i now) = (tbl @ raced) @ [?n]"
    using enqueue_table [of tbl raced q i now] by blast
  then show ?thesis
  proof cases
    case 1
    with assms show ?thesis by simp
  next
    case 2
    from not_violates_fresh [OF 2(1)] have "event_id ?n \<notin> set (map event_id (tbl @ raced))"
      by (simp only: set_map not_False_eq_True)
    with assms 2(2) show ?thesis by (simp add: ids_distinct_def)
  qed
qed

lemma claim_batch_update:
  assumes "claim_batch tbl locked topics consumer limit lease keys preserve now = Inr (tbl', recs)"
  shows "\<exists>sel :: table. tbl' = update_where (\<lambda>r. event_id r \<in> event_id ` set sel) (claim_row consumer now) tbl"
  by (rule claim_batch_shape [OF assms]) blast

lemma mark_failed_update:
  assumes "mark_failed tbl i owner n err delay fc terminal now = Inr (tbl', b)"
  shows "\<exists>f t. tbl' = update_where (owns i owner n) (fail_row now err delay f t) tbl"
  using assms unfolding mark_failed_def Let_def by (metis Pair_inject sum.distinct(1) sum.inject(2))

lemma op_step_ids: "op_step redrives tbl tbl' \<Longrightarrow> ids_distinct tbl \<Longrightarrow> ids_distinct tbl'"
proof (induction rule: op_step.induct)
  case (op_enqueue tbl raced q i now)
  then show ?case by (intro enqueue_ids)
next
  case (op_claim tbl locked topics consumer limit lease keys preserve now tbl' recs)
  from claim_batch_update [OF op_claim(1)] obtain sel :: table where
    "tbl' = update_where (\<lambda>r. event_id r \<in> event_id ` set sel) (claim_row consumer now) tbl" ..
  then show ?case using op_claim(2) by (simp add: ids_update_where)
next
  case (op_publish tbl i owner n meta now)
  then show ?case by (simp add: mark_published_def ids_update_where)
next
  case (op_fail tbl i owner n err delay fc terminal now tbl' b)
  from mark_failed_update [OF op_fail(1)] obtain f t where
    "tbl' = update_where (owns i owner n) (fail_row now err delay f t) tbl" by blast
  then show ?case using op_fail(2) by (simp add: ids_update_where)
next
  case (op_redrive tbl event actor reason expected now tbl' res)
  from op_redrive(2) obtain row where
    "tbl' = update_where (\<lambda>r. event_id r = py_strip event)
       (redrive_row (py_strip actor) (py_strip reason) expected (rd_generation res)
          (rd_outcome res) (rd_acquired res) now) tbl"
    by (rule redrive_shape)
  then show ?case using op_redrive(3) by (simp add: ids_update_where)
qed

text \<open>A quantity that no row-level operation decreases never decreases.\<close>

lemma op_step_extends:
  assumes step: "op_step redrives tbl tbl'"
    and refl: "\<And>r. R r r"
    and claim: "\<And>c now r. R r (claim_row c now r)"
    and pub: "\<And>now meta r. R r (publish_row now meta r)"
    and fail: "\<And>now e d f t r. R r (fail_row now e d f t r)"
    and redrive: "\<And>a w e out acq now r g. redrives \<Longrightarrow> (if acq then g = redrive_generation r + 1 else g = redrive_generation r)
        \<Longrightarrow> R r (redrive_row a w e g out acq now r)"
    and ids: "ids_distinct tbl"
  shows "extends R tbl tbl'"
  using step
proof cases
  case (op_enqueue raced q i now)
  then show ?thesis using enqueue_appends extends_append refl by metis
next
  case (op_claim locked topics consumer limit lease keys preserve now recs)
  from claim_batch_update [OF op_claim(1)] obtain sel :: table where
    "tbl' = update_where (\<lambda>r. event_id r \<in> event_id ` set sel) (claim_row consumer now) tbl" ..
  then show ?thesis using claim refl by (simp add: extends_update)
next
  case (op_publish i owner n meta now)
  then show ?thesis using pub refl by (simp add: mark_published_def extends_update)
next
  case (op_fail i owner n err delay fc terminal now b)
  from mark_failed_update [OF op_fail(1)] obtain f t where
    "tbl' = update_where (owns i owner n) (fail_row now err delay f t) tbl" by blast
  then show ?thesis using fail refl by (simp add: extends_update)
next
  case (op_redrive event actor reason expected now res)
  from op_redrive(2) obtain row where row:
    "find (\<lambda>r. event_id r = py_strip event) tbl = Some row"
    "rd_generation res = (if rd_acquired res then redrive_generation row + 1 else redrive_generation row)"
    "tbl' = update_where (\<lambda>r. event_id r = py_strip event)
       (redrive_row (py_strip actor) (py_strip reason) expected (rd_generation res)
          (rd_outcome res) (rd_acquired res) now) tbl"
    by (rule redrive_shape)
  show ?thesis unfolding row(3)
  proof (rule extends_update)
    fix r assume "r \<in> set tbl" "event_id r = py_strip event"
    then have "r = row" by (rule find_unique [OF ids row(1)])
    then show "R r (redrive_row (py_strip actor) (py_strip reason) expected (rd_generation res)
          (rd_outcome res) (rd_acquired res) now r)"
      using redrive [OF op_redrive(1), of "rd_acquired res" "rd_generation res" r] row(2) by simp
  qed (simp_all add: refl)
qed

lemma extends_run:
  assumes "op_run redrives tbl tbl'" "ids_distinct tbl" "transp R" "\<And>r. R r r"
    "\<And>t t'. op_step redrives t t' \<Longrightarrow> ids_distinct t \<Longrightarrow> extends R t t'"
  shows "ids_distinct tbl' \<and> extends R tbl tbl'"
  using assms(1)
proof (induction rule: rtranclp_induct)
  case base
  show ?case using assms(2,4) by (auto simp only: extends_def)
next
  case (step y z)
  then have "extends R y z" using assms(5) by blast
  then have "extends R tbl z"
    using step.IH assms(3) unfolding extends_def transp_def by metis
  with step show ?case using op_step_ids by blast
qed


section \<open>Attempts and generations never go back\<close>

lemma attempts_rows [simp]:
  "attempts (claim_row c now r) = attempts r + 1" "attempts (publish_row now meta r) = attempts r"
  "attempts (fail_row now e d f t r) = attempts r"
  by (simp_all add: claim_row_def publish_row_def fail_row_def)

lemma generation_rows [simp]:
  "redrive_generation (claim_row c now r) = redrive_generation r"
  "redrive_generation (publish_row now meta r) = redrive_generation r"
  "redrive_generation (fail_row now e d f t r) = redrive_generation r"
  "redrive_generation (redrive_row a w ex g out acq now r) =
     (if acq then g else redrive_generation r)"
  by (simp_all add: claim_row_def publish_row_def fail_row_def redrive_row_def Let_def)

lemma attempts_run:
  assumes "op_run False tbl tbl'" "ids_distinct tbl"
  shows "ids_distinct tbl' \<and> extends (\<lambda>r r'. attempts r \<le> attempts r') tbl tbl'"
proof (rule extends_run [OF assms])
  show "transp (\<lambda>r r'. attempts r \<le> attempts r')" by (simp add: transp_def)
  fix t t' assume "op_step False t t'" "ids_distinct t"
  then show "extends (\<lambda>r r'. attempts r \<le> attempts r') t t'"
    by (intro op_step_extends) simp_all
qed simp

lemma generation_run:
  assumes "op_run True tbl tbl'" "ids_distinct tbl"
  shows "ids_distinct tbl' \<and>
         extends (\<lambda>r r'. redrive_generation r \<le> redrive_generation r') tbl tbl'"
proof (rule extends_run [OF assms])
  show "transp (\<lambda>r r'. redrive_generation r \<le> redrive_generation r')" by (simp add: transp_def)
  fix t t' assume "op_step True t t'" "ids_distinct t"
  then show "extends (\<lambda>r r'. redrive_generation r \<le> redrive_generation r') t t'"
    by (intro op_step_extends [where redrives = True]) (simp_all split: if_splits)
qed simp

text \<open>What a claimed record says about the tables before and after the claim.\<close>

lemma claimed_record:
  assumes "claim_batch tbl locked topics consumer limit lease keys preserve now = Inr (tbl', recs)"
    and "rec \<in> set recs"
  shows "\<exists>r \<in> set tbl. event_id r = event_id rec \<and> attempts rec = attempts r + 1 \<and>
           claim_row consumer now r \<in> set tbl'"
proof -
  from assms(1) obtain sel where
    sel: "tbl' = update_where (\<lambda>r. event_id r \<in> event_id ` set sel) (claim_row consumer now) tbl"
      "recs = map (to_record \<circ> claim_row consumer now) sel" "set sel \<subseteq> set tbl"
    by (rule claim_batch_shape)
  then obtain r where r: "r \<in> set sel" "rec = to_record (claim_row consumer now r)"
    using assms(2) by (auto simp only: set_map image_iff o_apply)
  have "claim_row consumer now r \<in> set tbl'"
    unfolding sel(1) set_update_where using r(1) sel(3) by (intro image_eqI [of _ _ r]) auto
  moreover have "event_id rec = event_id r" "attempts rec = attempts r + 1"
    by (simp_all add: r(2) to_record_def claim_row_def)
  ultimately show ?thesis using r(1) sel(3) by (metis subsetD)
qed

lemma not_owned:
  assumes "ids_distinct tbl" "r \<in> set tbl" "event_id r = i" "n < attempts r"
  shows "filter (owns i owner n) tbl = []"
proof -
  have "\<not> owns i owner n x" if "x \<in> set tbl" for x
    using assms that unfolding ids_distinct_def distinct_map owns_def
    by (metis inj_onD less_irrefl)
  then show ?thesis by (simp add: filter_empty_conv)
qed

lemma mark_published_lost:
  "filter (owns i owner n) tbl = [] \<Longrightarrow> mark_published tbl i owner n meta now = (tbl, False)"
  by (simp add: mark_published_def update_where_none filter_empty_conv)

lemma mark_failed_lost:
  assumes "filter (owns i owner n) tbl = []"
  shows "mark_failed tbl i owner n err delay fc terminal now \<noteq> Inl e \<Longrightarrow>
         (\<exists>x. mark_failed tbl i owner n err delay fc terminal now = Inr x) \<Longrightarrow>
         mark_failed tbl i owner n err delay fc terminal now = Inr (tbl, False)"
  using assms by (auto simp: mark_failed_def Let_def update_where_none filter_empty_conv split: if_splits)

text \<open>
  C40: A claim is fenced. Once the event of a claimed record has been claimed again, however much
  later and whatever other claims, completions and enqueues come in between or after, without a redrive
  of a dead letter, the first claim's token completes nothing: publishing with it reports failure and leaves the table as it
  is, so a worker that outlived its lease cannot acknowledge the delivery of its successor.
\<close>

theorem superseded_claim_fenced:
  assumes "ids_distinct tbl0"
    and "claim_batch tbl0 lk1 tp1 c1 li1 le1 ks1 p1 t1 = Inr (tbl1, recs1)" and "rec \<in> set recs1"
    and "op_run False tbl1 tbl2"
    and "claim_batch tbl2 lk2 tp2 c2 li2 le2 ks2 p2 t2 = Inr (tbl3, recs2)"
    and "rec' \<in> set recs2" and "event_id rec' = event_id rec"
    and "op_run False tbl3 tbl4"
  shows "mark_published tbl4 (event_id rec) owner (attempts rec) meta now = (tbl4, False)"
proof -
  obtain r0 where r0: "event_id r0 = event_id rec" "attempts rec = attempts r0 + 1"
    "claim_row c1 t1 r0 \<in> set tbl1"
    using claimed_record [OF assms(2,3)] by metis
  have id1: "ids_distinct tbl1" using assms(1,2) op_step_ids op_claim by metis
  obtain r2 where r2: "r2 \<in> set tbl2" "event_id r2 = event_id rec" "attempts rec \<le> attempts r2"
    using attempts_run [OF assms(4) id1] r0 identity_rows(1) attempts_rows(1)
    unfolding extends_def same_identity_def by metis
  obtain r2' where r2': "r2' \<in> set tbl2" "event_id r2' = event_id rec'" "claim_row c2 t2 r2' \<in> set tbl3"
    using claimed_record [OF assms(5,6)] by metis
  have id2: "ids_distinct tbl2" using attempts_run [OF assms(4) id1] by blast
  have id3: "ids_distinct tbl3" using id2 assms(5) op_step_ids op_claim by metis
  have same: "r2' = r2"
    using id2 r2 r2' assms(7) unfolding ids_distinct_def distinct_map by (metis inj_onD)
  obtain r4 where "r4 \<in> set tbl4" "event_id r4 = event_id rec" "attempts rec < attempts r4"
    using attempts_run [OF assms(8) id3] r2 r2'(3) same identity_rows(1) attempts_rows(1)
    unfolding extends_def same_identity_def by (metis add_strict_increasing2 less_add_one
        order_less_le_trans order_le_less_trans)
  then show ?thesis
    using attempts_run [OF assms(8) id3] not_owned mark_published_lost by metis
qed

text \<open>
  One redrive per generation. After a redrive that acquired a dead letter, no later redrive
  of the same event that names the same expected generation acquires it, in any table any
  sequence of operations leads to: two operators acting on the same observation queue it once.
\<close>

theorem redrive_once_per_generation:
  assumes "ids_distinct tbl0"
    and "redrive_dead_letter tbl0 event actor1 reason1 expected t1 = Inr (tbl1, res1)"
    and "rd_acquired res1" and "op_run True tbl1 tbl2"
    and "redrive_dead_letter tbl2 event actor2 reason2 expected t2 = Inr (tbl3, res2)"
  shows "\<not> rd_acquired res2"
proof -
  from assms(2) obtain row where row: "find (\<lambda>r. event_id r = py_strip event) tbl0 = Some row"
    "rd_acquired res1 \<longleftrightarrow> status row = DeadLetter \<and> redrive_generation row = expected"
    "rd_generation res1 = (if rd_acquired res1 then redrive_generation row + 1 else redrive_generation row)"
    "tbl1 = update_where (\<lambda>r. event_id r = py_strip event)
       (redrive_row (py_strip actor1) (py_strip reason1) expected (rd_generation res1)
          (rd_outcome res1) (rd_acquired res1) t1) tbl0"
    by (rule redrive_shape)
  let ?f = "redrive_row (py_strip actor1) (py_strip reason1) expected (rd_generation res1)
          (rd_outcome res1) (rd_acquired res1) t1"
  have in0: "row \<in> set tbl0 \<and> event_id row = py_strip event"
    using row(1) unfolding find_Some_iff by (metis nth_mem)
  then have "?f row \<in> set tbl1"
    unfolding row(4) set_update_where by (intro image_eqI [of _ _ row]) simp_all
  moreover have "event_id (?f row) = py_strip event" "redrive_generation (?f row) = expected + 1"
    using in0 row(2,3) assms(3) identity_rows(4) unfolding same_identity_def by simp_all
  moreover have id1: "ids_distinct tbl1" using assms(1) by (simp add: row(4) ids_update_where)
  ultimately obtain r2 where r2: "r2 \<in> set tbl2" "event_id r2 = py_strip event"
      "expected + 1 \<le> redrive_generation r2"
    using generation_run [OF assms(4) id1] unfolding extends_def by metis
  from assms(5) obtain row2 where row2: "find (\<lambda>r. event_id r = py_strip event) tbl2 = Some row2"
    "rd_acquired res2 \<longleftrightarrow> status row2 = DeadLetter \<and> redrive_generation row2 = expected"
    by (rule redrive_shape)
  have "r2 = row2"
    using find_unique [OF _ row2(1) r2(1,2)] generation_run [OF assms(4) id1] by blast
  with r2(3) row2(2) show ?thesis by simp
qed

section \<open>Enqueue is idempotent per event key\<close>

lemma find_key_append:
  "find_key (t1 @ t2) k = (case find_key t1 k of None \<Rightarrow> find_key t2 k | Some r \<Rightarrow> Some r)"
  unfolding find_key_def by (induction t1) simp_all

lemma enqueue_find_key:
  assumes "key_set (rq_event_key q)" "enqueue tbl raced q i now = (tbl', Inr j)"
  shows "\<exists>r. find_key tbl' (rq_event_key q) = Some r \<and> event_id r = j"
proof (cases "find_key tbl (rq_event_key q)")
  case (Some r)
  with assms show ?thesis
    by (simp add: enqueue_def enqueue_on_session_def Let_def) (metis find_key_append option.simps(5))
next
  case None
  let ?n = "new_event q i now"
  show ?thesis
  proof (cases "violates (tbl @ raced) ?n")
    case True
    with None assms show ?thesis
      by (simp add: enqueue_def enqueue_on_session_def Let_def split: option.splits)
  next
    case False
    have k: "event_key ?n = rq_event_key q" "rq_event_key q \<noteq> None" "event_id ?n = i"
      using assms(1) by (simp_all add: new_event_def key_set_def)
    with False have "find_key (tbl @ raced) (rq_event_key q) = None"
      unfolding violates_def list_ex_iff find_key_def find_None_iff by metis
    then have "find_key ((tbl @ raced) @ [?n]) (rq_event_key q) = Some ?n"
      using k(1) by (simp only: find_key_append) (simp add: find_key_def)
    moreover have "tbl' = (tbl @ raced) @ [?n] \<and> j = i"
      using None False assms by (simp add: enqueue_def enqueue_on_session_def Let_def) metis
    ultimately show ?thesis using k(3) by metis
  qed
qed

text \<open>
  A producer may retry. Once an enqueue with an event key has returned an identifier, every
  enqueue with that key returns the same identifier and adds no row, whatever payload, clock
  and generated identifier it carries and whatever other processes commit meanwhile.
\<close>

theorem enqueue_idempotent:
  assumes "key_set (rq_event_key q)" and "enqueue tbl raced q i now = (tbl', Inr j)"
    and "rq_event_key q' = rq_event_key q"
  shows "enqueue tbl' raced' q' i' now' = (tbl' @ raced', Inr j)"
proof -
  obtain r where "find_key tbl' (rq_event_key q) = Some r" "event_id r = j"
    using enqueue_find_key [OF assms(1,2)] by metis
  with assms(1,3) show ?thesis by (simp add: enqueue_def enqueue_on_session_def Let_def)
qed


section \<open>At most one completion per claim\<close>

text \<open>
  The contract between the outbox and its workers, without the table: completing a claim
  succeeds exactly when the claim is held, releases it, and grants no claim to anyone.
\<close>

primrec count_successes ::
    "('k \<Rightarrow> 't \<Rightarrow> 'c \<Rightarrow> 't \<times> bool) \<Rightarrow> 't \<Rightarrow> ('k \<times> 'c) list \<Rightarrow> 'c \<Rightarrow> nat" where
  "count_successes finish t [] c = 0"
| "count_successes finish t (x # xs) c =
     (if snd x = c \<and> snd (finish (fst x) t (snd x)) then 1 else 0)
     + count_successes finish (fst (finish (fst x) t (snd x))) xs c"

locale claim_fence =
  fixes inv :: "'t \<Rightarrow> bool" and held :: "'t \<Rightarrow> 'c \<Rightarrow> bool"
    and finish :: "'k \<Rightarrow> 't \<Rightarrow> 'c \<Rightarrow> 't \<times> bool"
  assumes finish_iff: "inv t \<Longrightarrow> snd (finish k t c) \<longleftrightarrow> held t c"
    and finish_inv: "inv t \<Longrightarrow> inv (fst (finish k t c))"
    and finish_releases: "inv t \<Longrightarrow> \<not> held (fst (finish k t c)) c"
    and finish_others: "inv t \<Longrightarrow> c' \<noteq> c \<Longrightarrow> held (fst (finish k t c)) c' \<longleftrightarrow> held t c'"
begin

lemma none_unheld: "inv t \<Longrightarrow> \<not> held t c \<Longrightarrow> count_successes finish t xs c = 0"
proof (induction xs arbitrary: t)
  case Nil
  then show ?case by simp
next
  case (Cons x xs)
  then have "\<not> held (fst (finish (fst x) t (snd x))) c"
    using finish_others finish_releases by metis
  with Cons show ?case by (auto simp: finish_iff finish_inv)
qed

lemma exactly_once:
  "inv t \<Longrightarrow> held t c \<Longrightarrow> count_successes finish t xs c = (if c \<in> snd ` set xs then 1 else 0)"
proof (induction xs arbitrary: t)
  case Nil
  then show ?case by simp
next
  case (Cons x xs)
  show ?case
  proof (cases "snd x = c")
    case True
    then show ?thesis
      using none_unheld [OF finish_inv [OF Cons.prems(1)] finish_releases [OF Cons.prems(1)]]
        Cons.prems by (simp add: finish_iff)
  next
    case False
    then show ?thesis using Cons finish_inv finish_others by auto
  qed
qed

end

datatype completion = Publish "pydict option" time | Fail string int bool bool time

text \<open>A worker's completion call: publish, or fail as transient or permanent.\<close>

fun complete_claim :: "completion \<Rightarrow> table \<Rightarrow> string \<times> string \<times> int \<Rightarrow> table \<times> bool" where
  "complete_claim (Publish meta now) tbl (i, owner, n) = mark_published tbl i owner n meta now"
| "complete_claim (Fail err delay permanent terminal now) tbl (i, owner, n) =
     (case mark_failed tbl i owner n err delay
             (if permanent then ''permanent'' else ''transient'') terminal now of
        Inl _ \<Rightarrow> (tbl, False) | Inr x \<Rightarrow> x)"

definition held_claim :: "table \<Rightarrow> string \<times> string \<times> int \<Rightarrow> bool" where
  "held_claim tbl c = list_ex (case c of (i, owner, n) \<Rightarrow> owns i owner n) tbl"

lemma failure_class_names:
  "py_lower (py_strip ''permanent'') = ''permanent''" "py_lower (py_strip ''transient'') = ''transient''"
  by code_simp+

lemma complete_claim_update:
  "\<exists>f. complete_claim k tbl (i, owner, n) =
         (update_where (owns i owner n) f tbl, length (filter (owns i owner n) tbl) = 1) \<and>
       (\<forall>r. same_identity r (f r) \<and> status (f r) \<noteq> InProgress)"
proof (cases k)
  case (Publish meta now)
  then show ?thesis by (intro exI [of _ "publish_row now meta"]) (simp add: mark_published_def)
next
  case (Fail err delay permanent terminal now)
  let ?c = "if permanent then ''permanent'' else ''transient''"
  have "complete_claim k tbl (i, owner, n) =
      (update_where (owns i owner n) (fail_row now err delay ?c (terminal \<or> ?c = ''permanent'')) tbl,
       length (filter (owns i owner n) tbl) = 1)"
    using Fail by (simp add: mark_failed_def failure_class_names)
  then show ?thesis
    by (intro exI [of _ "fail_row now err delay ?c (terminal \<or> ?c = ''permanent'')"]) simp
qed

lemma owns_unique:
  assumes "ids_distinct tbl"
  shows "length (filter (owns i owner n) tbl) = 1 \<longleftrightarrow> list_ex (owns i owner n) tbl"
proof -
  have "length (filter (owns i owner n) tbl) \<le> length (filter (\<lambda>j. j = i) (map event_id tbl))"
    by (induction tbl) (simp_all add: owns_def)
  also have "\<dots> = card ({j. j = i} \<inter> set (map event_id tbl))"
    using assms unfolding ids_distinct_def by (rule distinct_length_filter)
  also have "\<dots> \<le> card {i}" by (rule card_mono) auto
  finally have "length (filter (owns i owner n) tbl) \<le> 1" by simp
  moreover have "filter (owns i owner n) tbl = [] \<longleftrightarrow> \<not> list_ex (owns i owner n) tbl"
    unfolding filter_empty_conv list_ex_iff by blast
  ultimately show ?thesis by (cases "filter (owns i owner n) tbl") simp_all
qed

lemma owns_functional:
  assumes "ids_distinct tbl" "r \<in> set tbl" "r' \<in> set tbl" "owns i owner n r" "owns i' o' n' r'" "i = i'"
  shows "r' = r \<and> o' = owner \<and> n' = n"
proof -
  have "r' = r"
    using assms unfolding ids_distinct_def distinct_map owns_def by (metis inj_onD)
  with assms(4,5) show ?thesis by (simp add: owns_def)
qed

lemma held_after_update:
  assumes "\<And>r. same_identity r (f r) \<and> status (f r) \<noteq> InProgress"
  shows "list_ex (owns i o' n) (update_where P f tbl) \<longleftrightarrow> list_ex (\<lambda>r. owns i o' n r \<and> \<not> P r) tbl"
proof -
  have "owns i o' n (if P r then f r else r) \<longleftrightarrow> owns i o' n r \<and> \<not> P r" for r
    using assms by (simp add: owns_def)
  then show ?thesis unfolding list_ex_iff set_update_where ball_simps bex_simps by blast
qed

interpretation ob_fence: claim_fence ids_distinct held_claim complete_claim
proof
  fix t :: table and k and c :: "string \<times> string \<times> int"
  assume t: "ids_distinct t"
  obtain i owner n where c: "c = (i, owner, n)" by (metis prod_cases3)
  obtain f where f: "complete_claim k t c =
      (update_where (owns i owner n) f t, length (filter (owns i owner n) t) = 1)"
    "\<And>r. same_identity r (f r) \<and> status (f r) \<noteq> InProgress"
    unfolding c using complete_claim_update by blast
  note after = held_after_update [of f, OF f(2)]
  show "snd (complete_claim k t c) = held_claim t c"
    unfolding f(1) snd_conv owns_unique [OF t] by (simp add: c held_claim_def)
  show "ids_distinct (fst (complete_claim k t c))"
    using t f(2) by (simp add: f(1) ids_update_where)
  show "\<not> held_claim (fst (complete_claim k t c)) c"
    unfolding f(1) fst_conv held_claim_def unfolding c prod.case after by (simp add: list_ex_iff)
  fix c' assume ne: "c' \<noteq> c"
  obtain i' o' n' where c': "c' = (i', o', n')" by (metis prod_cases3)
  have "\<not> owns i owner n r" if "r \<in> set t" "owns i' o' n' r" for r
    using that ne c c' unfolding owns_def by simp
  then show "held_claim (fst (complete_claim k t c)) c' = held_claim t c'"
    unfolding f(1) fst_conv held_claim_def c' prod.case after unfolding list_ex_iff by blast
qed

text \<open>
  C21: exactly one completion per claim. In any sequence of publish and fail calls by any number
  of workers on any claims, the calls on a claim that is held at the start report success exactly
  once if there is any, and the calls on a claim that is not held never do.
\<close>

theorem completion_exactly_once:
  assumes "ids_distinct tbl"
  shows "count_successes complete_claim tbl calls c =
           (if held_claim tbl c \<and> c \<in> snd ` set calls then 1 else 0)"
  using ob_fence.exactly_once [OF assms] ob_fence.none_unheld [OF assms]
  by (cases "held_claim tbl c") simp_all

section \<open>A small table\<close>

text \<open>Two commands of one account, the first claimed, taken over, dead-lettered and redriven.\<close>

definition ex_request :: "string option \<Rightarrow> enqueue_request" where
  "ex_request key =
     \<lparr>rq_topic = ''execution.commands'', rq_event_type = ''command'', rq_payload = [],
      rq_schema_version = ''v1'', rq_aggregate_type = None, rq_aggregate_id = None,
      rq_event_key = key, rq_ordering_key = Some ''account'', rq_headers = None,
      rq_available_at = None, rq_max_attempts = 10\<rparr>"

definition ex_claim :: "table \<Rightarrow> int \<Rightarrow> (table \<times> outbox_event list) res" where
  "ex_claim tbl sec =
     claim_batch tbl {} [''execution.commands''] ''relay'' 1 60 [''account''] True (seconds sec)"

definition ok_table :: "(table \<times> 'a) res \<Rightarrow> table" where
  "ok_table r = (case r of Inl _ \<Rightarrow> [] | Inr x \<Rightarrow> fst x)"

definition first_record :: "(table \<times> outbox_event list) res \<Rightarrow> outbox_event" where
  "first_record r = (case r of Inr (_, x # _) \<Rightarrow> x | _ \<Rightarrow> new_event (ex_request None) [] 0)"

definition ex_one :: table where "ex_one = fst (enqueue [] [] (ex_request None) ''a'' 0)"
definition ex_two :: table where "ex_two = fst (enqueue ex_one [] (ex_request None) ''b'' 1)"
definition ex_claimed :: table where "ex_claimed = ok_table (ex_claim ex_two 10)"
definition ex_published :: table where
  "ex_published = fst (mark_published ex_claimed ''a'' ''relay'' 1 None (seconds 11))"
definition ex_second :: table where "ex_second = ok_table (ex_claim ex_published 12)"
definition ex_taken :: table where "ex_taken = ok_table (ex_claim ex_claimed 100)"
definition ex_dead :: table where
  "ex_dead = ok_table (mark_failed ex_taken ''a'' ''relay'' 2 ''boom'' 1 ''permanent'' True (seconds 101))"
definition ex_redriven :: table where
  "ex_redriven = ok_table (redrive_dead_letter ex_dead ''a'' ''owner'' ''fixed'' 0 (seconds 102))"
definition ex_again :: table where "ex_again = ok_table (ex_claim ex_redriven 103)"

lemmas ex_defs = ex_one_def ex_two_def ex_claimed_def ex_published_def ex_second_def ex_taken_def
  ex_dead_def ex_redriven_def ex_again_def

lemma ok_res: "is_ok r \<Longrightarrow> r = Inr (ok_table r, snd (projr r))"
  by (cases r) (simp_all add: ok_table_def)

lemma ex_claims_ok:
  "is_ok (ex_claim ex_two 10)" "is_ok (ex_claim ex_published 12)" "is_ok (ex_claim ex_claimed 100)"
  by code_simp+

lemma ex_claim_step: "is_ok (ex_claim tbl sec) \<Longrightarrow> ob_step tbl (ok_table (ex_claim tbl sec))"
  unfolding ex_claim_def by (rule ob_claim, erule ok_res)

lemma ex_claims_reachable: "ob_reachable ex_published" "ob_step ex_published ex_second"
proof -
  have one: "ob_reachable ex_one" unfolding ex_one_def by (rule ob_next [OF ob_empty ob_enqueue])
  have two: "ob_reachable ex_two" unfolding ex_two_def by (rule ob_next [OF one ob_enqueue])
  have "ob_reachable ex_claimed"
    unfolding ex_claimed_def by (rule ob_next [OF two ex_claim_step [OF ex_claims_ok(1)]])
  then show "ob_reachable ex_published" unfolding ex_published_def by (rule ob_next [OF _ ob_publish])
  show "ob_step ex_published ex_second"
    unfolding ex_second_def by (rule ex_claim_step [OF ex_claims_ok(2)])
qed

text \<open>
  The second event is handed out after the first was delivered; the first stays delivered when a third,
  created before both, is committed late.
\<close>

definition ex_late :: table where
  "ex_late = fst (enqueue ex_second [] (ex_request None) ''c'' (- 1))"

theorem partition_order_preserved_witness:
  "length ex_late = 3 \<and> status (ex_late ! 0) = Published"
proof -
  let ?c = "ex_claim ex_published 12"
  have l: "length ex_late = 3" "length ex_published = 2" "event_id (ex_late ! 0) = event_id (ex_published ! 0)"
    by code_simp+
  have r: "case snd (projr ?c) of [r] \<Rightarrow> same_partition (ex_published ! 0) r \<and> older (ex_published ! 0) r | _ \<Rightarrow> False"
    by code_simp
  then obtain r where r: "snd (projr ?c) = [r]" "same_partition (ex_published ! 0) r" "older (ex_published ! 0) r"
    by (auto split: list.splits)
  have c: "claim_batch ex_published {} [''execution.commands''] ''relay'' 1 60 [''account''] True (seconds 12) =
      Inr (ex_second, [r])"
    using ok_res [OF ex_claims_ok(2)] r(1) unfolding ex_second_def ex_claim_def by simp
  have late: "ob_step\<^sup>*\<^sup>* ex_second ex_late" unfolding ex_late_def by (rule r_into_rtranclp, rule ob_enqueue)
  have m: "ex_published ! 0 \<in> set ex_published" "ex_late ! 0 \<in> set ex_late" using l by simp_all
  show ?thesis
    using partition_order_preserved [OF ex_claims_reachable(1) c _ m(1) r(2,3) late m(2) l(3)] l(1) by simp
qed

lemma ex_claim_record:
  assumes "is_ok (ex_claim tbl sec)" "map (\<lambda>r. (event_id r, attempts r)) (snd (projr (ex_claim tbl sec))) = [(i, n)]"
  shows "\<exists>rec. ex_claim tbl sec = Inr (ok_table (ex_claim tbl sec), [rec]) \<and> event_id rec = i \<and> attempts rec = n"
proof -
  from assms(2) obtain rec where "snd (projr (ex_claim tbl sec)) = [rec]" "event_id rec = i" "attempts rec = n"
    unfolding map_eq_Cons_conv by (metis Nil_is_map_conv Pair_inject)
  with ok_res [OF assms(1)] show ?thesis by metis
qed

lemma ex_claim_tokens:
  "map (\<lambda>r. (event_id r, attempts r)) (snd (projr (ex_claim ex_two 10))) = [(''a'', 1)]"
  "map (\<lambda>r. (event_id r, attempts r)) (snd (projr (ex_claim ex_claimed 100))) = [(''a'', 2)]"
  by code_simp+

theorem superseded_claim_fenced_witness:
  "mark_published ex_taken ''a'' ''relay'' 1 None (seconds 200) = (ex_taken, False)"
proof -
  have ids: "ids_distinct ex_two" by code_simp
  obtain rec where c1: "ex_claim ex_two 10 = Inr (ex_claimed, [rec])" "event_id rec = ''a''" "attempts rec = 1"
    using ex_claim_record [OF ex_claims_ok(1) ex_claim_tokens(1)] unfolding ex_claimed_def by blast
  obtain rec' where c2: "ex_claim ex_claimed 100 = Inr (ex_taken, [rec'])" "event_id rec' = ''a''"
    using ex_claim_record [OF ex_claims_ok(3) ex_claim_tokens(2)] unfolding ex_taken_def by blast
  have m: "rec \<in> set [rec]" "rec' \<in> set [rec']" "event_id rec' = event_id rec"
    using c1(2) c2(2) by simp_all
  show ?thesis
    using superseded_claim_fenced [OF ids c1(1) [unfolded ex_claim_def] m(1) rtranclp.rtrancl_refl
        c2(1) [unfolded ex_claim_def] m(2,3) rtranclp.rtrancl_refl] c1(2,3) by simp
qed

lemma ex_redrive_ok:
  "is_ok (redrive_dead_letter ex_dead ''a'' ''owner'' ''fixed'' 0 (seconds 102))"
  "rd_acquired (snd (projr (redrive_dead_letter ex_dead ''a'' ''owner'' ''fixed'' 0 (seconds 102))))"
  "is_ok (redrive_dead_letter ex_redriven ''a'' ''owner'' ''again'' 0 (seconds 105))"
  "ids_distinct ex_dead"
  by code_simp+

theorem redrive_once_per_generation_witness:
  "\<not> rd_acquired (snd (projr (redrive_dead_letter ex_redriven ''a'' ''owner'' ''again'' 0 (seconds 105))))"
  using redrive_once_per_generation [OF ex_redrive_ok(4) ok_res [OF ex_redrive_ok(1)] ex_redrive_ok(2)
      rtranclp.rtrancl_refl, folded ex_redriven_def, OF ok_res [OF ex_redrive_ok(3)]] .

lemma ex_keyed: "enqueue [] [] (ex_request (Some ''k'')) ''a'' 0 = ([new_event (ex_request (Some ''k'')) ''a'' 0], Inr ''a'')"
  by (simp add: enqueue_def enqueue_on_session_def find_key_def violates_def ex_request_def)

theorem enqueue_idempotent_witness:
  "enqueue [new_event (ex_request (Some ''k'')) ''a'' 0] [] (ex_request (Some ''k'')) ''z'' 9
     = ([new_event (ex_request (Some ''k'')) ''a'' 0], Inr ''a'')"
  using enqueue_idempotent [OF _ ex_keyed, of "ex_request (Some ''k'')" "[]" "''z''" 9]
  by (simp add: key_set_def ex_request_def)

theorem completion_exactly_once_witness:
  "count_successes complete_claim ex_claimed
     [(Publish None 11, (''a'', ''relay'', 1)), (Publish None 12, (''a'', ''relay'', 1))]
     (''a'', ''relay'', 1) = 1"
proof -
  have "ids_distinct ex_claimed" "held_claim ex_claimed (''a'', ''relay'', 1)" by code_simp+
  then show ?thesis using completion_exactly_once [of ex_claimed] by (simp del: count_successes.simps)
qed

text \<open>
  The fence does not survive a redrive. The token of a claim is the owner and the attempt
  number; a redrive sets the attempts back to zero, so the first claim after it carries the token
  of the first claim before it when the consumer name is the same. In the table below the relay
  claims event \<open>a\<close> at 10 s and stalls, a second relay of the same name takes over at 100 s and
  dead-letters it, the owner redrives it and it is claimed once more at 103 s: the stalled relay's
  publish of its first claim now succeeds and closes the delivery in flight.
\<close>

theorem redrive_revives_stale_token:
  "held_claim ex_claimed (''a'', ''relay'', 1) \<and> \<not> held_claim ex_taken (''a'', ''relay'', 1) \<and>
   map status ex_dead = [DeadLetter, Pending] \<and> map redrive_generation ex_again = [1, 0] \<and>
   snd (mark_published ex_again ''a'' ''relay'' 1 None (seconds 104))"
  by code_simp

end
