(* ===== verification/Outbox_Relay.thy ===== *)
theory Outbox_Relay
  imports Outbox_Claims
begin

text \<open>
  The delivery of execution commands: \<open>retry_async\<close> of \<open>lib_common/retries.py\<close> and the relay worker
  of \<open>scoring_engine/outbox_relay.py\<close> over the outbox, with the two store methods of
  \<open>_storage_ops.py\<close> it reads its readiness from. The HTTP client is a parameter that maps the state
  of the outside world to a new state and a response or an exception; random numbers are arguments.
  What other processes commit while a record is being delivered is a function on the table.
\<close>

section \<open>Retries\<close>

record retry_config =
  rc_retries :: nat
  rc_base_delay :: rat
  rc_max_delay :: rat
  rc_exponential_base :: rat
  rc_jitter :: rat

text \<open>\<open>random.uniform(a, b)\<close> from a draw in the unit interval.\<close>

definition uniform :: "rat \<Rightarrow> rat \<Rightarrow> rat \<Rightarrow> rat" where
  "uniform a b u = a + (b - a) * u"

definition retry_delay :: "retry_config \<Rightarrow> rat \<Rightarrow> nat \<Rightarrow> rat" where
  "retry_delay c u attempt =
     (let delay = min (rc_base_delay c * rc_exponential_base c ^ attempt) (rc_max_delay c)
      in if rc_jitter c \<noteq> 0 then delay * (1 + uniform (- rc_jitter c) (rc_jitter c) u) else delay)"

text \<open>
  The loop from attempt \<open>k\<close> on, with \<open>n\<close> attempts left after it: the world afterwards, the delays
  slept and the outcome.
\<close>

fun retry_loop ::
    "retry_config \<Rightarrow> (nat \<Rightarrow> rat) \<Rightarrow> ('e \<Rightarrow> bool) \<Rightarrow> ('w \<Rightarrow> 'w \<times> ('e + 'a)) \<Rightarrow> nat \<Rightarrow> nat \<Rightarrow> 'w \<Rightarrow>
     'w \<times> rat list \<times> ('e + 'a)" where
  "retry_loop c rnd retry_on operation n k w =
     (case operation w of
        (w1, Inr x) \<Rightarrow> (w1, [], Inr x)
      | (w1, Inl e) \<Rightarrow>
          if \<not> retry_on e then (w1, [], Inl e)
          else (case n of
                  0 \<Rightarrow> (w1, [], Inl e)
                | Suc m \<Rightarrow>
                    (case retry_loop c rnd retry_on operation m (Suc k) w1 of
                       (w2, ds, r) \<Rightarrow> (w2, retry_delay c (rnd k) k # ds, r))))"

declare retry_loop.simps [simp del]

definition retry_async ::
    "retry_config \<Rightarrow> (nat \<Rightarrow> rat) \<Rightarrow> ('e \<Rightarrow> bool) \<Rightarrow> ('w \<Rightarrow> 'w \<times> ('e + 'a)) \<Rightarrow> 'w \<Rightarrow>
     'w \<times> rat list \<times> ('e + 'a)" where
  "retry_async c rnd retry_on operation w = retry_loop c rnd retry_on operation (rc_retries c) 0 w"

section \<open>Failures\<close>

datatype relay_error =
    OutboxDeliveryError string string
  | RequestError string
  | HTTPStatusError string
  | RelayOSError string
  | RelayTypeError string
  | RelayValueError string
  | OtherException string

fun relay_error_text :: "relay_error \<Rightarrow> string" where
  "relay_error_text (OutboxDeliveryError m _) = m"
| "relay_error_text (RequestError m) = m"
| "relay_error_text (HTTPStatusError m) = m"
| "relay_error_text (RelayOSError m) = m"
| "relay_error_text (RelayTypeError m) = m"
| "relay_error_text (RelayValueError m) = m"
| "relay_error_text (OtherException m) = m"

fun failure_class_of :: "relay_error \<Rightarrow> string" where
  "failure_class_of (OutboxDeliveryError _ c) = c"
| "failure_class_of (RequestError _) = ''transient''"
| "failure_class_of (HTTPStatusError _) = ''transient''"
| "failure_class_of (RelayOSError _) = ''transient''"
| "failure_class_of (RelayTypeError _) = ''permanent''"
| "failure_class_of (RelayValueError _) = ''permanent''"
| "failure_class_of (OtherException _) = ''transient''"

definition failure_backoff_seconds :: "int \<Rightarrow> rat \<Rightarrow> int" where
  "failure_backoff_seconds n u =
     (let base = min 300 (30 * max 1 n); jitter = uniform (1 - 1/5) (1 + 1/5) u
      in max 1 \<lfloor>of_int base * jitter\<rfloor>)"

section \<open>Delivery\<close>

record http_response =
  status_code :: int
  response_text :: string
  response_json :: "pyval option"

type_synonym 'w http_client =
  "'w \<Rightarrow> string \<Rightarrow> pydict \<Rightarrow> pydict \<Rightarrow> 'w \<times> (relay_error + http_response)"

record relay_worker =
  exec_engine_url :: string
  consumer_name :: string
  api_key :: "string option"

text \<open>\<open>exec_engine_url.rstrip("/")\<close>.\<close>

definition relay_init :: "string \<Rightarrow> string \<Rightarrow> string option \<Rightarrow> relay_worker" where
  "relay_init url consumer key =
     \<lparr>exec_engine_url = rev (dropWhile (\<lambda>c. c = CHR ''/'') (rev url)), consumer_name = consumer,
      api_key = key\<rparr>"

text \<open>The values of the headers are kept as they are before \<open>str\<close>.\<close>

definition command_headers :: "relay_worker \<Rightarrow> outbox_event \<Rightarrow> pydict" where
  "command_headers wk rec =
     (let run = (if truthy (dict_get (headers rec) ''run_id'') then dict_get (headers rec) ''run_id''
                 else dict_get (payload rec) ''run_id'')
      in (if truthy run then [(''X-Run-ID'', run)] else []) @
         (case api_key wk of None \<Rightarrow> [] | Some k \<Rightarrow> if k = [] then [] else [(''X-API-Key'', PStr k)]))"

definition TRANSIENT_HTTP_STATUSES :: "int list" where
  "TRANSIENT_HTTP_STATUSES = [408, 409, 425, 429]"

definition command_url :: "relay_worker \<Rightarrow> outbox_event \<Rightarrow> string" where
  "command_url wk rec =
     exec_engine_url wk @
       (if topic rec = ''execution.rebalance.commands'' then ''/execute-rebalance-command''
        else ''/execute-command'')"

definition post_command ::
    "relay_worker \<Rightarrow> 'w http_client \<Rightarrow> outbox_event \<Rightarrow> 'w \<Rightarrow> 'w \<times> (relay_error + http_response)" where
  "post_command wk client rec w =
     (case client w (command_url wk rec) (payload rec) (command_headers wk rec) of
        (w1, Inl e) \<Rightarrow> (w1, Inl e)
      | (w1, Inr resp) \<Rightarrow>
          (w1,
           if 500 \<le> status_code resp
           then Inl (HTTPStatusError (''Server error '' @ int_str (status_code resp)))
           else if 400 \<le> status_code resp
           then (let msg = ''Execution command rejected ('' @ int_str (status_code resp) @ ''): '' @
                             response_text resp
                 in if status_code resp \<in> set TRANSIENT_HTTP_STATUSES then Inl (HTTPStatusError msg)
                    else Inl (OutboxDeliveryError msg ''permanent''))
           else Inr resp))"

definition delivery_retry :: retry_config where
  "delivery_retry =
     \<lparr>rc_retries = 2, rc_base_delay = 1/2, rc_max_delay = 5, rc_exponential_base = 2,
      rc_jitter = 1/10\<rparr>"

fun delivery_retry_on :: "relay_error \<Rightarrow> bool" where
  "delivery_retry_on (RequestError _) = True"
| "delivery_retry_on (HTTPStatusError _) = True"
| "delivery_retry_on _ = False"

definition deliver_execution_command ::
    "relay_worker \<Rightarrow> 'w http_client \<Rightarrow> (nat \<Rightarrow> rat) \<Rightarrow> outbox_event \<Rightarrow> 'w \<Rightarrow> 'w \<times> (relay_error + pydict)" where
  "deliver_execution_command wk client rnd rec w =
     (case retry_async delivery_retry rnd delivery_retry_on (post_command wk client rec) w of
        (w1, _, Inl e) \<Rightarrow> (w1, Inl e)
      | (w1, _, Inr resp) \<Rightarrow>
          (case response_json resp of
             None \<Rightarrow> (w1, Inl (RelayValueError ''response is not JSON''))
           | Some j \<Rightarrow>
               (w1, Inr [(''delivery'', PStr ''http''), (''status_code'', PInt (status_code resp)),
                         (''response'', j)])))"

definition deliver ::
    "relay_worker \<Rightarrow> 'w http_client \<Rightarrow> (nat \<Rightarrow> rat) \<Rightarrow> outbox_event \<Rightarrow> 'w \<Rightarrow> 'w \<times> (relay_error + pydict)" where
  "deliver wk client rnd rec w =
     (if topic rec \<in> {''execution.commands'', ''execution.rebalance.commands''}
      then deliver_execution_command wk client rnd rec w
      else (w, Inl (OutboxDeliveryError (''Outbox topic '' @ [CHR 0x27] @ topic rec @ [CHR 0x27] @ '' has no consumer'')
                      ''permanent'')))"

section \<open>Draining\<close>

text \<open>What a drain meets on its way: the client, draws, the clock and the other processes' commits.\<close>

record 'w relay_env =
  re_client :: "'w http_client"
  re_retry_draw :: "nat \<Rightarrow> nat \<Rightarrow> rat"
  re_backoff_draw :: "nat \<Rightarrow> rat"
  re_clock :: "nat \<Rightarrow> time"
  re_others :: "nat \<Rightarrow> table \<Rightarrow> table"

record drain_counts =
  dc_processed :: int
  dc_failed :: int
  dc_dead_lettered :: int

definition expected_owner :: "relay_worker \<Rightarrow> outbox_event \<Rightarrow> string" where
  "expected_owner wk rec =
     (case claim_owner rec of None \<Rightarrow> consumer_name wk | Some c \<Rightarrow> if c = [] then consumer_name wk else c)"

definition will_dead_letter :: "outbox_event \<Rightarrow> string \<Rightarrow> bool" where
  "will_dead_letter rec fc =
     (fc = ''permanent'' \<or> max 1 (max_attempts rec) \<le> max 1 (attempts rec))"

text \<open>What is done with the outcome of one delivery, at the \<open>k\<close>-th record.\<close>

definition settle_record ::
    "relay_worker \<Rightarrow> 'w relay_env \<Rightarrow> nat \<Rightarrow> table \<Rightarrow> outbox_event \<Rightarrow> relay_error + pydict \<Rightarrow> drain_counts \<Rightarrow>
     (table \<times> drain_counts) res" where
  "settle_record wk env k tbl rec outcome n =
     (case outcome of
        Inl e \<Rightarrow>
          (let fc = failure_class_of e
           in res_bind (mark_failed tbl (event_id rec) (expected_owner wk rec) (attempts rec)
                 (relay_error_text e) (failure_backoff_seconds (attempts rec) (re_backoff_draw env k))
                 fc (fc = ''permanent'') (re_clock env k))
                (\<lambda>(tbl', marked).
                   Inr (tbl', if \<not> marked then n
                              else n\<lparr>dc_failed := dc_failed n + 1,
                                     dc_dead_lettered := dc_dead_lettered n +
                                       (if will_dead_letter rec fc then 1 else 0)\<rparr>)))
      | Inr meta \<Rightarrow>
          (case mark_published tbl (event_id rec) (expected_owner wk rec) (attempts rec) (Some meta)
                  (re_clock env k) of
             (tbl', marked) \<Rightarrow>
               Inr (tbl', if \<not> marked then n else n\<lparr>dc_processed := dc_processed n + 1\<rparr>)))"

fun drain_records ::
    "relay_worker \<Rightarrow> 'w relay_env \<Rightarrow> nat \<Rightarrow> outbox_event list \<Rightarrow> 'w \<Rightarrow> table \<Rightarrow> drain_counts \<Rightarrow>
     'w \<times> table \<times> drain_counts res" where
  "drain_records wk env k [] w tbl n = (w, tbl, Inr n)"
| "drain_records wk env k (rec # recs) w tbl n =
     (case deliver wk (re_client env) (re_retry_draw env k) rec w of
        (w1, outcome) \<Rightarrow>
          (let tbl1 = re_others env k tbl
           in case settle_record wk env k tbl1 rec outcome n of
                Inl e \<Rightarrow> (w1, tbl1, Inl e)
              | Inr (tbl2, n2) \<Rightarrow> drain_records wk env (Suc k) recs w1 tbl2 n2))"

definition no_counts :: drain_counts where
  "no_counts = \<lparr>dc_processed = 0, dc_failed = 0, dc_dead_lettered = 0\<rparr>"

definition drain_once ::
    "relay_worker \<Rightarrow> 'w relay_env \<Rightarrow> string set \<Rightarrow> string list \<Rightarrow> nat \<Rightarrow> int \<Rightarrow> time \<Rightarrow> 'w \<Rightarrow> table \<Rightarrow>
     'w \<times> table \<times> int res" where
  "drain_once wk env locked topics limit lease now w tbl =
     (case claim_batch tbl locked topics (consumer_name wk) limit lease [] False now of
        Inl e \<Rightarrow> (w, tbl, Inl e)
      | Inr (tbl1, claimed) \<Rightarrow>
          (case drain_records wk env 0 claimed w tbl1 no_counts of
             (w2, tbl2, Inl e) \<Rightarrow> (w2, tbl2, Inl e)
           | (w2, tbl2, Inr n) \<Rightarrow> (w2, tbl2, Inr (dc_processed n))))"

section \<open>Readiness\<close>

definition oldest_outbox_undelivered_created_at :: "table \<Rightarrow> string list \<Rightarrow> time option" where
  "oldest_outbox_undelivered_created_at tbl topics =
     (case list_pending tbl topics 1 [] True of [] \<Rightarrow> None | r # _ \<Rightarrow> Some (created_at r))"

text \<open>
  \<open>outbox_progress_ready\<close>: the two queries see the tables \<open>tbl1\<close> and \<open>tbl2\<close>; \<open>db_ok\<close> is false if
  one of them raises.
\<close>

definition outbox_progress_ready ::
    "bool \<Rightarrow> table \<Rightarrow> table \<Rightarrow> string list \<Rightarrow> int \<Rightarrow> time \<Rightarrow> bool" where
  "outbox_progress_ready db_ok tbl1 tbl2 topics max_age now =
     (let topic_list = sort (remdups (filter (\<lambda>t. t \<noteq> []) (map py_strip topics)))
      in if topic_list = [] then False
         else if \<not> db_ok then False
         else is_current
                \<lparr>counts = backlog_counts tbl1 topic_list [],
                 oldest_age_seconds =
                   backlog_age_seconds (oldest_outbox_undelivered_created_at tbl2 topic_list) now\<rparr>
                (of_int max_age))"

section \<open>What a retried call does\<close>

text \<open>The world before the \<open>i\<close>-th call, if every earlier call is made, and the result of that call.\<close>

definition call_world :: "('w \<Rightarrow> 'w \<times> 'r) \<Rightarrow> nat \<Rightarrow> 'w \<Rightarrow> 'w" where
  "call_world operation i w = ((fst \<circ> operation) ^^ i) w"

definition call_result :: "('w \<Rightarrow> 'w \<times> 'r) \<Rightarrow> nat \<Rightarrow> 'w \<Rightarrow> 'r" where
  "call_result operation i w = snd (operation (call_world operation i w))"

definition retryable_result :: "('e \<Rightarrow> bool) \<Rightarrow> 'e + 'a \<Rightarrow> bool" where
  "retryable_result retry_on r = (case r of Inl e \<Rightarrow> retry_on e | Inr _ \<Rightarrow> False)"

text \<open>The loop stopped after the call with index \<open>i\<close>.\<close>

definition stops_at ::
    "('e \<Rightarrow> bool) \<Rightarrow> ('w \<Rightarrow> 'w \<times> ('e + 'a)) \<Rightarrow> nat \<Rightarrow> 'w \<Rightarrow> nat \<Rightarrow> 'w \<Rightarrow> 'e + 'a \<Rightarrow> bool" where
  "stops_at retry_on operation n w i w' r =
     (i \<le> n \<and> (\<forall>j<i. retryable_result retry_on (call_result operation j w)) \<and>
      r = call_result operation i w \<and> w' = call_world operation (Suc i) w \<and>
      (i < n \<longrightarrow> \<not> retryable_result retry_on r))"

lemma call_world_Suc [simp]: "call_world operation (Suc i) w = call_world operation i (fst (operation w))"
  by (simp add: call_world_def funpow_swap1)

lemma call_world_0 [simp]: "call_world operation 0 w = w"
  by (simp add: call_world_def)

lemma call_result_0: "call_result operation 0 w = snd (operation w)"
  by (simp add: call_result_def)

lemma call_result_Suc: "call_result operation (Suc i) w = call_result operation i (fst (operation w))"
  by (simp add: call_result_def)

lemma stops_at_step:
  assumes "retryable_result retry_on (snd (operation w))"
    and "stops_at retry_on operation n (fst (operation w)) i w' r"
  shows "stops_at retry_on operation (Suc n) w (Suc i) w' r"
  using assms by (auto simp: stops_at_def call_result_0 call_result_Suc less_Suc_eq_0_disj)

lemma stops_at_first:
  assumes "operation w = (w', r)" and "0 < n \<longrightarrow> \<not> retryable_result retry_on r"
  shows "stops_at retry_on operation n w 0 w' r"
  using assms by (simp add: stops_at_def call_result_0)

lemma retry_loop_trace:
  assumes "retry_loop c rnd retry_on operation n k w = (w', ds, r)"
  shows "\<exists>i. stops_at retry_on operation n w i w' r \<and> ds = map (\<lambda>j. retry_delay c (rnd j) j) [k..<k + i]"
  using assms
proof (induction n arbitrary: k w w' ds)
  case 0
  obtain w1 x where op: "operation w = (w1, x)" by fastforce
  have "w' = w1" "r = x" "ds = []"
    using 0 op by (auto simp: retry_loop.simps split: sum.splits if_splits)
  then show ?case using stops_at_first [of operation w w1 x 0 retry_on] op by (intro exI [of _ 0]) simp
next
  case (Suc n)
  obtain w1 x where op: "operation w = (w1, x)" by fastforce
  show ?case
  proof (cases "retryable_result retry_on x")
    case True
    then obtain e where x: "x = Inl e" "retry_on e" by (auto simp: retryable_result_def split: sum.splits)
    obtain w2 ds2 r2 where rec: "retry_loop c rnd retry_on operation n (Suc k) w1 = (w2, ds2, r2)"
      by (metis prod_cases3)
    have eq: "w' = w2" "ds = retry_delay c (rnd k) k # ds2" "r = r2"
      using Suc.prems op x rec by (simp_all add: retry_loop.simps [of _ _ _ _ "Suc n"])
    obtain i where "stops_at retry_on operation n w1 i w2 r2"
      "ds2 = map (\<lambda>j. retry_delay c (rnd j) j) [Suc k..<Suc k + i]"
      using Suc.IH [of "Suc k" w1 w2 ds2] rec eq(3) by blast
    moreover have "[k..<k + Suc i] = k # [Suc k..<Suc k + i]" by (simp add: upt_conv_Cons del: upt_Suc)
    ultimately show ?thesis
      using stops_at_step [of retry_on operation w n i w2 r2] True op eq
      by (intro exI [of _ "Suc i"]) (simp del: upt_Suc)
  next
    case False
    then have "w' = w1" "r = x" "ds = []"
      using Suc.prems op
      by (auto simp: retry_loop.simps [of _ _ _ _ "Suc n"] retryable_result_def split: sum.splits if_splits)
    then show ?thesis
      using stops_at_first [of operation w w1 x "Suc n" retry_on] op False by (intro exI [of _ 0]) simp
  qed
qed

lemma retry_delay_bound:
  assumes "0 \<le> rc_jitter c" "rc_jitter c \<le> 1" "0 \<le> rc_max_delay c" "0 \<le> u" "u < 1"
  shows "retry_delay c u k \<le> rc_max_delay c * (1 + rc_jitter c)"
proof -
  let ?d = "min (rc_base_delay c * rc_exponential_base c ^ k) (rc_max_delay c)"
  let ?f = "1 + uniform (- rc_jitter c) (rc_jitter c) u"
  have f: "0 \<le> ?f" "?f \<le> 1 + rc_jitter c"
    using assms mult_left_le [of u "rc_jitter c"] mult_nonneg_nonneg [OF assms(4,1)]
    by (auto simp: uniform_def algebra_simps simp del: mult_nonneg_nonneg)
  have "?d * ?f \<le> rc_max_delay c * ?f" using f by (intro mult_right_mono) auto
  also have "\<dots> \<le> rc_max_delay c * (1 + rc_jitter c)" using f assms by (intro mult_left_mono) auto
  finally show ?thesis by (simp add: retry_delay_def Let_def)
qed

text \<open>
  What a retried call does. The outcome is that of the first call that succeeds or fails with an
  error that is not to be retried, or else of the last of \<open>retries + 1\<close> calls; the calls before it all
  failed with a retryable error; there is one delay between two calls, and none exceeds the maximal
  delay by more than the jitter.
\<close>

theorem retry_stops:
  assumes "retry_async c rnd retry_on operation w = (w', ds, r)"
    and "0 \<le> rc_jitter c" "rc_jitter c \<le> 1" "0 \<le> rc_max_delay c" "\<And>k. 0 \<le> rnd k \<and> rnd k < 1"
  shows "\<exists>i. stops_at retry_on operation (rc_retries c) w i w' r \<and> length ds = i \<and>
           (\<forall>d \<in> set ds. d \<le> rc_max_delay c * (1 + rc_jitter c))"
proof -
  obtain i where "stops_at retry_on operation (rc_retries c) w i w' r"
    "ds = map (\<lambda>j. retry_delay c (rnd j) j) [0..<i]"
    using retry_loop_trace [of c rnd retry_on operation "rc_retries c" 0 w w' ds r] assms(1)
    by (auto simp: retry_async_def)
  then show ?thesis using retry_delay_bound assms(2-5) by (intro exI [of _ i]) auto
qed

text \<open>Two timeouts and then an answer: the third call decides, after delays of at most 5.5 seconds.\<close>

definition flaky :: "nat \<Rightarrow> nat \<times> (string + nat)" where
  "flaky w = (Suc w, if w < 2 then Inl ''timeout'' else Inr w)"

theorem retry_stops_witness:
  "\<exists>i. stops_at (\<lambda>_. True) flaky 2 0 i 3 (Inr 2) \<and> length [1/2 * (9/10), 1 * (9/10 :: rat)] = i"
proof -
  have "retry_async delivery_retry (\<lambda>_. 0) (\<lambda>_. True) flaky 0 = (3, [1/2 * (9/10), 1 * (9/10)], Inr 2)"
    by code_simp
  from retry_stops [OF this] show ?thesis by (auto simp: delivery_retry_def)
qed

section \<open>What a drain does\<close>

text \<open>The outcomes of delivering the records one after the other.\<close>

fun deliver_all ::
    "relay_worker \<Rightarrow> 'w relay_env \<Rightarrow> nat \<Rightarrow> outbox_event list \<Rightarrow> 'w \<Rightarrow> 'w \<times> (relay_error + pydict) list" where
  "deliver_all wk env k [] w = (w, [])"
| "deliver_all wk env k (rec # recs) w =
     (case deliver wk (re_client env) (re_retry_draw env k) rec w of
        (w1, out) \<Rightarrow> (case deliver_all wk env (Suc k) recs w1 of (w2, outs) \<Rightarrow> (w2, out # outs)))"

text \<open>The relay's own exception class is not raised by the HTTP client.\<close>

definition foreign_client :: "'w http_client \<Rightarrow> bool" where
  "foreign_client client \<longleftrightarrow>
     (\<forall>w url body hs w' m c. client w url body hs \<noteq> (w', Inl (OutboxDeliveryError m c)))"

definition known_class :: "relay_error + pydict \<Rightarrow> bool" where
  "known_class out = (case out of Inl e \<Rightarrow> failure_class_of e \<in> {''transient'', ''permanent''} | Inr _ \<Rightarrow> True)"

lemma post_command_class:
  assumes "foreign_client client" and "snd (post_command wk client rec w) = Inl e"
  shows "failure_class_of e \<in> {''transient'', ''permanent''}"
proof -
  obtain w1 out where c: "client w (command_url wk rec) (payload rec) (command_headers wk rec) = (w1, out)"
    by fastforce
  show ?thesis
  proof (cases out)
    case (Inl e')
    then have "e = e'" using assms(2) c by (simp add: post_command_def)
    then show ?thesis using assms(1) c Inl unfolding foreign_client_def by (cases e') auto
  next
    case (Inr resp)
    then show ?thesis using assms(2) c by (auto simp: post_command_def Let_def split: if_splits)
  qed
qed

lemma deliver_class:
  assumes "foreign_client client" and "deliver wk client rnd rec w = (w', out)"
  shows "known_class out"
proof (cases out)
  case (Inl e)
  obtain w1 ds r where ret:
    "retry_async delivery_retry rnd delivery_retry_on (post_command wk client rec) w = (w1, ds, r)"
    by (metis prod_cases3)
  then obtain i where i: "r = call_result (post_command wk client rec) i w"
    using retry_loop_trace [of delivery_retry rnd delivery_retry_on "post_command wk client rec"]
    unfolding retry_async_def stops_at_def by blast
  have "failure_class_of e \<in> {''transient'', ''permanent''}" if "r = Inl e"
    using post_command_class [OF assms(1)] i that unfolding call_result_def by metis
  then show ?thesis using assms(2) Inl ret
    by (auto simp: deliver_def deliver_execution_command_def known_class_def
        split: if_splits sum.splits option.splits)
qed (simp add: known_class_def)

text \<open>The row a settled record leaves.\<close>

definition settled_row :: "'w relay_env \<Rightarrow> nat \<Rightarrow> relay_error + pydict \<Rightarrow> int \<Rightarrow> outbox_event \<Rightarrow> outbox_event" where
  "settled_row env k out n r =
     (case out of
        Inr meta \<Rightarrow> publish_row (re_clock env k) (Some meta) r
      | Inl e \<Rightarrow>
          fail_row (re_clock env k) (relay_error_text e) (failure_backoff_seconds n (re_backoff_draw env k))
            (failure_class_of e) (failure_class_of e = ''permanent'') r)"

lemma settled_row_simps:
  "settled_row env k (Inr meta) n = publish_row (re_clock env k) (Some meta)"
  "settled_row env k (Inl e) n =
     fail_row (re_clock env k) (relay_error_text e) (failure_backoff_seconds n (re_backoff_draw env k))
       (failure_class_of e) (failure_class_of e = ''permanent'')"
  by (simp_all add: settled_row_def fun_eq_iff)

definition counted :: "outbox_event \<Rightarrow> relay_error + pydict \<Rightarrow> drain_counts \<Rightarrow> drain_counts" where
  "counted rec out n =
     (case out of
        Inr _ \<Rightarrow> n\<lparr>dc_processed := dc_processed n + 1\<rparr>
      | Inl e \<Rightarrow> n\<lparr>dc_failed := dc_failed n + 1,
                  dc_dead_lettered := dc_dead_lettered n +
                    (if will_dead_letter rec (failure_class_of e) then 1 else 0)\<rparr>)"

abbreviation owned :: "relay_worker \<Rightarrow> outbox_event \<Rightarrow> outbox_event \<Rightarrow> bool" where
  "owned wk rec \<equiv> owns (event_id rec) (expected_owner wk rec) (attempts rec)"

lemma settle_held:
  assumes "ids_distinct tbl" "list_ex (owned wk rec) tbl" "known_class out"
  shows "settle_record wk env k tbl rec out n =
     Inr (update_where (owned wk rec) (settled_row env k out (attempts rec)) tbl, counted rec out n)"
proof -
  have one: "length (filter (owned wk rec) tbl) = 1" using owns_unique [OF assms(1)] assms(2) by blast
  show ?thesis
  proof (cases out)
    case (Inl e)
    then have "failure_class_of e = ''transient'' \<or> failure_class_of e = ''permanent''"
      using assms(3) by (simp add: known_class_def)
    then show ?thesis using Inl one
      by (auto simp: settle_record_def Let_def mark_failed_def failure_class_names settled_row_simps counted_def)
  qed (simp add: settle_record_def mark_published_def settled_row_simps counted_def one)
qed

lemma settled_row_identity [simp]: "same_identity r (settled_row env k out n r)"
  by (simp add: settled_row_def split: sum.splits)

lemma settled_row_id [simp]: "event_id (settled_row env k out n r) = event_id r"
  using settled_row_identity [of r env k out n] by (simp add: same_identity_def)

fun final_row ::
    "'w relay_env \<Rightarrow> nat \<Rightarrow> (outbox_event \<times> (relay_error + pydict)) list \<Rightarrow> outbox_event \<Rightarrow> outbox_event" where
  "final_row env k [] r = r"
| "final_row env k ((rec, out) # xs) r =
     (if event_id r = event_id rec then settled_row env k out (attempts rec) r
      else final_row env (Suc k) xs r)"

lemma final_row_other:
  "event_id r \<notin> event_id ` set (map fst xs) \<Longrightarrow> final_row env k xs r = r"
  by (induction env k xs r rule: final_row.induct) auto

lemma map_fst_zip_set: "set (map fst (zip xs ys)) \<subseteq> set xs"
  by (auto dest: set_zip_leftD)

text \<open>Every row of a claimed event is owned by the claim.\<close>

definition all_owned :: "relay_worker \<Rightarrow> outbox_event list \<Rightarrow> table \<Rightarrow> bool" where
  "all_owned wk recs tbl \<longleftrightarrow>
     (\<forall>rec \<in> set recs. event_id rec \<in> event_id ` set tbl \<and>
        (\<forall>r \<in> set tbl. event_id r = event_id rec \<longrightarrow> owned wk rec r))"

lemma update_owned:
  assumes "all_owned wk (rec # recs) tbl"
  shows "update_where (owned wk rec) f tbl = map (\<lambda>r. if event_id r = event_id rec then f r else r) tbl"
proof -
  have "owned wk rec r = (event_id r = event_id rec)" if "r \<in> set tbl" for r
    using assms that unfolding all_owned_def by (metis list.set_intros(1) owns_def)
  then show ?thesis unfolding update_where_def by (intro map_cong [OF refl]) simp
qed

lemma all_owned_tail:
  assumes "all_owned wk (rec # recs) tbl" "distinct (map event_id (rec # recs))"
    and id: "\<And>r. event_id (f r) = event_id r"
  shows "all_owned wk recs (map (\<lambda>r. if event_id r = event_id rec then f r else r) tbl)"
  unfolding all_owned_def
proof (intro ballI conjI impI)
  let ?g = "\<lambda>r. if event_id r = event_id rec then f r else r"
  fix x assume x: "x \<in> set recs"
  have ne: "event_id x \<noteq> event_id rec" using assms(2) x by (metis distinct.simps(2) list.map(2) list.set_map imageI)
  obtain r where r: "event_id x = event_id r" "r \<in> set tbl"
    using assms(1) x unfolding all_owned_def by (metis imageE list.set_intros(2))
  then have "?g r = r" using ne by simp
  then have "r \<in> set (map ?g tbl)" unfolding set_map using r(2) by (rule image_eqI [OF sym])
  then show "event_id x \<in> event_id ` set (map ?g tbl)" unfolding r(1) by (rule imageI)
  fix y assume y: "y \<in> set (map ?g tbl)" "event_id y = event_id x"
  from y(1) obtain z where z: "y = ?g z" "z \<in> set tbl" unfolding set_map by (rule imageE)
  have "event_id y = event_id z" using z(1) id by simp
  then have "y = z" using z(1) y(2) ne by simp
  then show "owned wk x y" using assms(1) x z(2) y(2) unfolding all_owned_def by (metis list.set_intros(2))
qed

lemma drain_records_settle:
  assumes "foreign_client (re_client env)" "re_others env = (\<lambda>_ t. t)"
  shows "ids_distinct tbl \<Longrightarrow> all_owned wk recs tbl \<Longrightarrow> distinct (map event_id recs) \<Longrightarrow>
     deliver_all wk env k recs w = (w', outs) \<Longrightarrow>
     \<exists>n'. drain_records wk env k recs w tbl n = (w', map (final_row env k (zip recs outs)) tbl, Inr n') \<and>
          dc_processed n' = dc_processed n + int (length (filter is_ok outs))"
proof (induction recs arbitrary: k w tbl n outs)
  case Nil
  then show ?case by (auto simp: map_idI)
next
  case (Cons rec recs)
  obtain w1 out where del: "deliver wk (re_client env) (re_retry_draw env k) rec w = (w1, out)" by fastforce
  obtain outs' where rest: "deliver_all wk env (Suc k) recs w1 = (w', outs')" and eq: "outs = out # outs'"
    using Cons.prems(4) del by (auto split: prod.splits)
  let ?g = "\<lambda>r. if event_id r = event_id rec then settled_row env k out (attempts rec) r else r"
  have "list_ex (owned wk rec) tbl"
    using Cons.prems(2) unfolding all_owned_def list_ex_iff by (metis imageE list.set_intros(1))
  from settle_held [OF Cons.prems(1) this deliver_class [OF assms(1) del]]
  have settle: "settle_record wk env k tbl rec out n = Inr (map ?g tbl, counted rec out n)"
    unfolding update_owned [OF Cons.prems(2)] .
  have ids: "ids_distinct (map ?g tbl)"
    using ids_update_where [of "settled_row env k out (attempts rec)" "owned wk rec" tbl] Cons.prems(1)
    unfolding update_owned [OF Cons.prems(2)] by simp
  have own: "all_owned wk recs (map ?g tbl)" by (rule all_owned_tail [OF Cons.prems(2,3)]) simp
  obtain n' where n': "drain_records wk env (Suc k) recs w1 (map ?g tbl) (counted rec out n) =
      (w', map (final_row env (Suc k) (zip recs outs')) (map ?g tbl), Inr n')"
    "dc_processed n' = dc_processed (counted rec out n) + int (length (filter is_ok outs'))"
    using Cons.IH [OF ids own _ rest] Cons.prems(3) by auto
  have "final_row env (Suc k) (zip recs outs') (?g r) = final_row env k ((rec, out) # zip recs outs') r" for r
  proof (cases "event_id r = event_id rec")
    case True
    then have "event_id (?g r) \<notin> event_id ` set (map fst (zip recs outs'))"
      using Cons.prems(3) map_fst_zip_set [of recs outs'] by auto
    from final_row_other [OF this] True show ?thesis by simp
  qed simp
  moreover have "dc_processed (counted rec out n) = dc_processed n + (if is_ok out then 1 else 0)"
    by (simp add: counted_def is_ok_def split: sum.splits)
  ultimately show ?case using n' del settle eq assms(2) by (simp add: comp_def)
qed

lemma distinct_map_sort_key: "distinct (map f xs) \<Longrightarrow> distinct (map f (sort_key g xs))"
  by (simp add: distinct_map)

lemma distinct_map_take: "distinct (map f xs) \<Longrightarrow> distinct (map f (take n xs))"
  using distinct_take [of "map f xs" n] by (simp add: take_map)

lemma claim_batch_distinct:
  assumes "ids_distinct tbl"
    and "claim_batch tbl locked topics consumer limit lease keys preserve now = Inr (tbl', recs)"
  shows "distinct (map event_id recs)"
proof -
  have "event_id \<circ> (to_record \<circ> claim_row consumer now) = event_id"
    by (simp add: fun_eq_iff to_record_def claim_row_def)
  moreover have "distinct (map event_id (claim_selection tbl locked ts ks preserve now limit lease))" for ts ks
    unfolding claim_selection_def
    by (intro distinct_map_take distinct_map_sort_key distinct_map_filter assms(1) [unfolded ids_distinct_def])
  ultimately show ?thesis using assms(2)
    by (auto simp: claim_batch_def Let_def split: if_splits)
qed

lemma claim_batch_owned:
  assumes "ids_distinct tbl"
    and "claim_batch tbl locked topics (consumer_name wk) limit lease keys preserve now = Inr (tbl', recs)"
  shows "all_owned wk recs tbl'" "ids_distinct tbl'"
    "\<And>rec r. rec \<in> set recs \<Longrightarrow> r \<in> set tbl' \<Longrightarrow> event_id r = event_id rec \<Longrightarrow> max_attempts r = max_attempts rec"
proof -
  from assms(2) obtain sel where
    sel: "tbl' = update_where (\<lambda>r. event_id r \<in> event_id ` set sel) (claim_row (consumer_name wk) now) tbl"
      "recs = map (to_record \<circ> claim_row (consumer_name wk) now) sel" "set sel \<subseteq> set tbl"
    by (rule claim_batch_shape)
  show ids: "ids_distinct tbl'" unfolding sel(1) using assms(1) by (simp add: ids_update_where)
  have row: "\<exists>x. rec = to_record (claim_row (consumer_name wk) now x) \<and>
      claim_row (consumer_name wk) now x \<in> set tbl' \<and>
      (\<forall>r \<in> set tbl'. event_id r = event_id rec \<longrightarrow> r = claim_row (consumer_name wk) now x)"
    if rec: "rec \<in> set recs" for rec
  proof -
    from rec obtain x where x: "x \<in> set sel" "rec = to_record (claim_row (consumer_name wk) now x)"
      unfolding sel(2) set_map o_apply by (metis (no_types, lifting) imageE)
    have "claim_row (consumer_name wk) now x \<in> set tbl'"
      unfolding sel(1) set_update_where using x(1) sel(3) by (intro image_eqI [of _ _ x]) auto
    moreover have "event_id rec = event_id (claim_row (consumer_name wk) now x)"
      by (simp add: x(2) to_record_def)
    ultimately show ?thesis
      using x(2) ids unfolding ids_distinct_def distinct_map by (metis inj_onD)
  qed
  show "all_owned wk recs tbl'"
    unfolding all_owned_def
  proof (intro ballI conjI impI)
    fix rec assume "rec \<in> set recs"
    from row [OF this] obtain x where x: "rec = to_record (claim_row (consumer_name wk) now x)"
      "claim_row (consumer_name wk) now x \<in> set tbl'"
      "\<forall>r \<in> set tbl'. event_id r = event_id rec \<longrightarrow> r = claim_row (consumer_name wk) now x" by blast
    have "event_id rec = event_id (claim_row (consumer_name wk) now x)" by (simp add: x(1) to_record_def)
    then show "event_id rec \<in> event_id ` set tbl'" using x(2) by simp
    have "owned wk rec (claim_row (consumer_name wk) now x)"
      by (simp add: x(1) to_record_def owns_def claim_row_def expected_owner_def)
    then show "owned wk rec r" if "r \<in> set tbl'" "event_id r = event_id rec" for r
      using x(3) that by metis
  qed
  show "max_attempts r = max_attempts rec" if "rec \<in> set recs" "r \<in> set tbl'" "event_id r = event_id rec" for rec r
    using row [OF that(1)] that(2,3) by (auto simp: to_record_def)
qed

text \<open>How a row of a claimed record ends, given the outcome of its delivery.\<close>

definition settled_as :: "relay_error + pydict \<Rightarrow> outbox_event \<Rightarrow> outbox_event \<Rightarrow> bool" where
  "settled_as out rec r =
     (event_id r = event_id rec \<and> claim_owner r = None \<and>
      (case out of
         Inr meta \<Rightarrow> status r = Published \<and> delivery_metadata r = Some meta
       | Inl e \<Rightarrow>
           status r = (if failure_class_of e = ''permanent'' \<or> max_attempts rec \<le> attempts rec
                       then DeadLetter else Failed) \<and>
           last_error r = Some (relay_error_text e)))"

lemma settled_row_settled:
  assumes "event_id r = event_id rec" "owned wk rec r" "max_attempts r = max_attempts rec"
  shows "settled_as out rec (settled_row env k out n r)"
  using assms by (auto simp: settled_as_def settled_row_def publish_row_def fail_row_def owns_def split: sum.splits)

lemma final_row_nth:
  "distinct (map event_id recs) \<Longrightarrow> length outs = length recs \<Longrightarrow> j < length recs \<Longrightarrow>
   event_id r = event_id (recs ! j) \<Longrightarrow>
   final_row env k (zip recs outs) r = settled_row env (k + j) (outs ! j) (attempts (recs ! j)) r"
proof (induction recs arbitrary: k j outs)
  case (Cons rec recs)
  obtain out outs' where outs: "outs = out # outs'" using Cons.prems(2) by (cases outs) auto
  show ?case
  proof (cases j)
    case (Suc i)
    have "event_id (recs ! i) \<in> set (map event_id recs)" using Cons.prems(3) Suc by simp
    then have "event_id r \<noteq> event_id rec" using Cons.prems(1,4) Suc by (metis distinct.simps(2) list.map(2) nth_Cons_Suc)
    then show ?thesis using Cons.IH [of outs' i "Suc k"] Cons.prems outs Suc by simp
  qed (use Cons.prems outs in simp)
qed simp

lemma deliver_all_length: "length (snd (deliver_all wk env k recs w)) = length recs"
  by (induction recs arbitrary: k w) (simp_all split: prod.splits, metis snd_conv)

text \<open>
  A drain settles every claim it makes. If no other process touches the claimed rows meanwhile, a
  drain returns the number of records whose delivery succeeded; each of those is published with the
  metadata of the delivery, each other claimed row is released with its error, dead-lettered if the
  failure is permanent or the attempts are used up and scheduled for a retry otherwise; the rows that
  were not claimed are as they were.
\<close>

theorem drain_settles_claims:
  assumes "ids_distinct tbl" "foreign_client (re_client env)" "re_others env = (\<lambda>_ t. t)"
    and claim: "claim_batch tbl locked topics (consumer_name wk) limit lease [] False now = Inr (tbl1, recs)"
    and outs: "deliver_all wk env 0 recs w = (w', outs)"
  shows "\<exists>tbl2. drain_once wk env locked topics limit lease now w tbl =
             (w', tbl2, Inr (int (length (filter is_ok outs)))) \<and>
           (\<forall>j < length recs. \<exists>r \<in> set tbl2. settled_as (outs ! j) (recs ! j) r) \<and>
           (\<forall>r \<in> set tbl. event_id r \<notin> event_id ` set recs \<longrightarrow> r \<in> set tbl2)"
proof -
  note own = claim_batch_owned [OF assms(1) claim]
  note dist = claim_batch_distinct [OF assms(1) claim]
  have len: "length outs = length recs" using deliver_all_length [of wk env 0 recs w] outs by simp
  let ?tbl2 = "map (final_row env 0 (zip recs outs)) tbl1"
  obtain n where "drain_records wk env 0 recs w tbl1 no_counts = (w', ?tbl2, Inr n)"
    "dc_processed n = int (length (filter is_ok outs))"
    using drain_records_settle [OF assms(2,3) own(2,1) dist outs, of no_counts] by (auto simp: no_counts_def)
  then have run: "drain_once wk env locked topics limit lease now w tbl =
      (w', ?tbl2, Inr (int (length (filter is_ok outs))))"
    using claim by (simp add: drain_once_def)
  have "\<exists>r \<in> set ?tbl2. settled_as (outs ! j) (recs ! j) r" if j: "j < length recs" for j
  proof -
    have rec: "recs ! j \<in> set recs" using j by simp
    then obtain r where r: "event_id (recs ! j) = event_id r" "r \<in> set tbl1" "owned wk (recs ! j) r"
      using own(1) unfolding all_owned_def by (metis imageE)
    have "settled_as (outs ! j) (recs ! j) (final_row env 0 (zip recs outs) r)"
      unfolding final_row_nth [OF dist len j r(1) [symmetric]]
      by (rule settled_row_settled [OF r(1) [symmetric] r(3) own(3) [OF rec r(2) r(1) [symmetric]]])
    then show ?thesis using r(2) by (metis image_eqI list.set_map)
  qed
  moreover have "r \<in> set ?tbl2" if r: "r \<in> set tbl" "event_id r \<notin> event_id ` set recs" for r
  proof -
    from claim obtain sel where
      sel: "tbl1 = update_where (\<lambda>r. event_id r \<in> event_id ` set sel) (claim_row (consumer_name wk) now) tbl"
        "recs = map (to_record \<circ> claim_row (consumer_name wk) now) sel"
      by (rule claim_batch_shape)
    have "event_id ` set recs = event_id ` set sel"
      unfolding sel(2) set_map image_image by (simp add: to_record_def claim_row_def)
    then have "r \<in> set tbl1" using r unfolding sel(1) set_update_where by (intro image_eqI [of _ _ r]) auto
    moreover have "final_row env 0 (zip recs outs) r = r"
      using r(2) map_fst_zip_set [of recs outs] by (intro final_row_other) blast
    ultimately show ?thesis by (metis image_eqI list.set_map)
  qed
  ultimately show ?thesis using run by (intro exI [of _ ?tbl2]) blast
qed

text \<open>A drain of two commands: the engine accepts the first and rejects the second with 422.\<close>

definition ex_worker :: relay_worker where
  "ex_worker = relay_init ''http://engine/'' ''relay'' None"

definition ex_client :: "nat http_client" where
  "ex_client w url body hs =
     (Suc w, Inr (if w = 0 then \<lparr>status_code = 200, response_text = ''{}'', response_json = Some (PDict [])\<rparr>
                  else \<lparr>status_code = 422, response_text = ''bad'', response_json = None\<rparr>))"

definition ex_env :: "nat relay_env" where
  "ex_env = \<lparr>re_client = ex_client, re_retry_draw = (\<lambda>_ _. 0), re_backoff_draw = (\<lambda>_. 0),
             re_clock = (\<lambda>_. seconds 11), re_others = (\<lambda>_ t. t)\<rparr>"

definition ex_batch :: "(table \<times> outbox_event list) res" where
  "ex_batch = claim_batch ex_two {} [''execution.commands''] ''relay'' 10 60 [] False (seconds 10)"

lemma ex_batch_ok: "is_ok ex_batch" and ex_batch_ids: "map event_id (snd (projr ex_batch)) = [''a'', ''b'']"
  by code_simp+

lemma ex_batch_outcomes:
  "map is_ok (snd (deliver_all ex_worker ex_env 0 (snd (projr ex_batch)) 0)) = [True, False]"
  "fst (deliver_all ex_worker ex_env 0 (snd (projr ex_batch)) 0) = 2"
  by code_simp+

theorem drain_settles_claims_witness:
  "\<exists>tbl2. drain_once ex_worker ex_env {} [''execution.commands''] 10 60 (seconds 10) 0 ex_two = (2, tbl2, Inr 1) \<and>
     list_ex (\<lambda>r. event_id r = ''a'' \<and> status r = Published) tbl2"
proof -
  let ?recs = "snd (projr ex_batch)" and ?outs = "snd (deliver_all ex_worker ex_env 0 (snd (projr ex_batch)) 0)"
  have ids: "ids_distinct ex_two" by code_simp
  have client: "foreign_client (re_client ex_env)" "re_others ex_env = (\<lambda>_ t. t)"
    by (simp_all add: ex_env_def foreign_client_def ex_client_def)
  have claim: "claim_batch ex_two {} [''execution.commands''] (consumer_name ex_worker) 10 60 [] False (seconds 10)
      = Inr (ok_table ex_batch, ?recs)"
    using ok_res [OF ex_batch_ok] by (simp add: ex_batch_def ex_worker_def relay_init_def)
  have outs: "deliver_all ex_worker ex_env 0 ?recs 0 = (2, ?outs)"
    using ex_batch_outcomes(2) by (metis prod.collapse)
  have n: "length (filter is_ok ?outs) = 1"
    using ex_batch_outcomes(1) by (cases ?outs) auto
  have recs: "0 < length ?recs" "event_id (?recs ! 0) = ''a''"
    using ex_batch_ids by (cases ?recs; simp)+
  obtain meta where m: "?outs ! 0 = Inr meta"
    using ex_batch_outcomes(1) by (cases ?outs) (auto simp: is_ok_def split: sum.splits)
  obtain tbl2 where run: "drain_once ex_worker ex_env {} [''execution.commands''] 10 60 (seconds 10) 0 ex_two =
      (2, tbl2, Inr (int (length (filter is_ok ?outs))))"
    and settled: "\<forall>j < length ?recs. \<exists>r \<in> set tbl2. settled_as (?outs ! j) (?recs ! j) r"
    using drain_settles_claims [OF ids client claim outs] by blast
  have "\<exists>r \<in> set tbl2. event_id r = ''a'' \<and> status r = Published"
    using settled recs m by (metis (mono_tags, lifting) settled_as_def sum.case(2))
  then show ?thesis unfolding n using run n by (intro exI [of _ tbl2]) (simp add: list_ex_iff)
qed

section \<open>Readiness of the relay\<close>

lemma dead_letters_counted:
  "dead_letter_count \<lparr>counts = backlog_counts tbl topics [], oldest_age_seconds = age\<rparr> = 0 \<longleftrightarrow>
     (\<forall>r \<in> set tbl. topic_filter topics r \<longrightarrow> status r \<noteq> DeadLetter)"
proof -
  let ?rows = "filter (\<lambda>r. status r \<noteq> Published \<and> topic_filter topics r \<and> key_filter [] r) tbl"
  have "map_of (backlog_counts tbl topics []) ''dead_letter'' =
      (if DeadLetter \<in> set (map status ?rows)
       then Some (int (length (filter (\<lambda>r. status r = DeadLetter) ?rows))) else None)"
    by (simp add: backlog_counts_def Let_def)
  moreover have "r \<in> set ?rows \<and> status r = DeadLetter \<longleftrightarrow>
      r \<in> set tbl \<and> topic_filter topics r \<and> status r = DeadLetter" for r :: outbox_event
    by (cases "status r") (simp_all add: key_filter_def)
  then have "filter (\<lambda>r. status r = DeadLetter) ?rows = [] \<longleftrightarrow>
      (\<forall>r \<in> set tbl. topic_filter topics r \<longrightarrow> status r \<noteq> DeadLetter)"
    unfolding filter_empty_conv by blast
  moreover have "DeadLetter \<in> set (map status ?rows) \<longleftrightarrow> filter (\<lambda>r. status r = DeadLetter) ?rows \<noteq> []"
    unfolding filter_empty_conv set_map by (metis (mono_tags, lifting) imageE imageI)
  ultimately show ?thesis by (simp add: dead_letter_count_def)
qed

lemma sort_key_Nil: "sort_key f xs = [] \<longleftrightarrow> xs = []"
  by (metis length_0_conv length_sort)

definition undelivered :: "string list \<Rightarrow> outbox_event \<Rightarrow> bool" where
  "undelivered topics r = (status r \<noteq> Published \<and> topic_filter topics r)"

lemma oldest_is_least:
  "oldest_outbox_undelivered_created_at tbl topics =
     (let rows = filter (undelivered topics) tbl
      in if rows = [] then None else Some (created_at (hd (sort_key created_at rows))))"
proof -
  have "filter (\<lambda>r. (status r \<in> {Pending, Failed, InProgress} \<or> True \<and> status r = DeadLetter) \<and>
          topic_filter topics r \<and> key_filter [] r) tbl = filter (undelivered topics) tbl"
    by (rule filter_cong [OF refl])
      (simp add: undelivered_def key_filter_def, metis outbox_status.distinct outbox_status.exhaust)
  then have eq: "list_pending tbl topics 1 [] True =
      map to_record (take 1 (sort_key created_at (filter (undelivered topics) tbl)))"
    unfolding list_pending_def by simp
  show ?thesis
    using sort_key_Nil [of created_at "filter (undelivered topics) tbl"]
    unfolding oldest_outbox_undelivered_created_at_def eq Let_def
    by (cases "sort_key created_at (filter (undelivered topics) tbl)") (simp_all add: to_record_def)
qed

lemma oldest_age_bound:
  assumes "(1::rat) \<le> b"
  shows "backlog_age_seconds (oldest_outbox_undelivered_created_at tbl topics) now \<le> b \<longleftrightarrow>
     (\<forall>r \<in> set tbl. undelivered topics r \<longrightarrow> of_int (now - created_at r) / 1000000 \<le> b)"
proof (cases "filter (undelivered topics) tbl = []")
  case True
  then show ?thesis using assms
    by (simp add: oldest_is_least backlog_age_seconds_def filter_empty_conv)
next
  case False
  let ?rows = "filter (undelivered topics) tbl"
  let ?h = "hd (sort_key created_at ?rows)"
  have "sort_key created_at ?rows \<noteq> []" using False sort_key_Nil by metis
  from hd_in_set [OF this] have h: "?h \<in> set tbl" "undelivered topics ?h" unfolding set_sort set_filter by blast+
  have least: "created_at ?h \<le> created_at r" if "r \<in> set tbl" "undelivered topics r" for r
    by (rule hd_sort_key_least) (use that in simp)
  have age: "backlog_age_seconds (oldest_outbox_undelivered_created_at tbl topics) now =
      max 0 (of_int (now - created_at ?h) / 1000000)"
    using False by (simp add: oldest_is_least backlog_age_seconds_def)
  have mono: "of_int (now - created_at r) / (1000000::rat) \<le> of_int (now - created_at ?h) / 1000000"
    if "r \<in> set tbl" "undelivered topics r" for r
    using least [OF that] by (intro divide_right_mono) simp_all
  show ?thesis
  proof
    assume "backlog_age_seconds (oldest_outbox_undelivered_created_at tbl topics) now \<le> b"
    then have "of_int (now - created_at ?h) / 1000000 \<le> b" unfolding age by simp
    then show "\<forall>r \<in> set tbl. undelivered topics r \<longrightarrow> of_int (now - created_at r) / 1000000 \<le> b"
      using mono order_trans by blast
  next
    assume "\<forall>r \<in> set tbl. undelivered topics r \<longrightarrow> of_int (now - created_at r) / 1000000 \<le> b"
    then have "of_int (now - created_at ?h) / 1000000 \<le> b" using h by blast
    then show "backlog_age_seconds (oldest_outbox_undelivered_created_at tbl topics) now \<le> b"
      unfolding age using assms by simp
  qed
qed

lemma topic_filter_set: "ts \<noteq> [] \<Longrightarrow> [] \<notin> set ts \<Longrightarrow> topic_filter ts r \<longleftrightarrow> topic r \<in> set ts"
  by (simp add: topic_filter_def Let_def filter_empty_conv) (metis neq_Nil_conv list.set_intros(1))

text \<open>
  The relay reports progress exactly when there is progress. The check answers true exactly when
  at least one topic is named, the database answers, no event of those topics is dead-lettered and no
  undelivered event of those topics is older than the limit (or than one second, if the limit is
  smaller).
\<close>

theorem progress_ready_iff:
  "outbox_progress_ready db_ok tbl1 tbl2 topics max_age now \<longleftrightarrow>
     db_ok \<and> list_ex (\<lambda>t. py_strip t \<noteq> []) topics \<and>
     (\<forall>r \<in> set tbl1. topic r \<in> py_strip ` set topics - {[]} \<longrightarrow> status r \<noteq> DeadLetter) \<and>
     (\<forall>r \<in> set tbl2. topic r \<in> py_strip ` set topics - {[]} \<and> status r \<noteq> Published \<longrightarrow>
        of_int (now - created_at r) / 1000000 \<le> max 1 (of_int max_age :: rat))"
proof -
  let ?ts = "sort (remdups (filter (\<lambda>t. t \<noteq> []) (map py_strip topics)))"
  have set: "set ?ts = py_strip ` set topics - {[]}" by auto
  have empty: "?ts = [] \<longleftrightarrow> \<not> list_ex (\<lambda>t. py_strip t \<noteq> []) topics"
    by (auto simp: list_ex_iff filter_empty_conv sort_key_Nil)
  show ?thesis
  proof (cases "?ts = []")
    case True
    then show ?thesis using empty by (simp add: outbox_progress_ready_def Let_def)
  next
    case False
    have tf: "topic_filter ?ts r \<longleftrightarrow> topic r \<in> py_strip ` set topics - {[]}" for r
      unfolding set [symmetric] by (rule topic_filter_set [OF False]) (simp add: set)
    have "outbox_progress_ready db_ok tbl1 tbl2 topics max_age now \<longleftrightarrow> db_ok \<and>
        (\<forall>r \<in> set tbl1. topic_filter ?ts r \<longrightarrow> status r \<noteq> DeadLetter) \<and>
        (\<forall>r \<in> set tbl2. undelivered ?ts r \<longrightarrow> of_int (now - created_at r) / 1000000 \<le> max 1 (of_int max_age :: rat))"
      using False
      by (simp add: outbox_progress_ready_def Let_def is_current_def dead_letters_counted oldest_age_bound)
    then show ?thesis unfolding undelivered_def tf using empty False by blast
  qed
qed

theorem progress_ready_iff_witness:
  "outbox_progress_ready True ex_two ex_two ['' execution.commands''] 5 (seconds 4)"
  by (subst progress_ready_iff) code_simp

end
