(* ===== verification/Deduplication.thy ===== *)
theory Deduplication
  imports Py_Prelude
begin

text \<open>
  \<open>ExecutionDeduplicator\<close> of \<open>execution_engine/deduplication.py\<close>: the per-process memory cache and
  the shared \<open>execution_decision_logs\<close> table that decide which worker may execute a signal. A row
  carries the columns that deduplication reads or writes. The state of the database during one call
  is an argument: it works, it raises an SQLAlchemy or OS error, or the model cannot be imported. The
  clock is read once per call. \<open>claim_execution\<close> is split at the points where another thread can
  run: the memory check, the row lookup and the insert.
\<close>

section \<open>Records\<close>

record execution_record =
  xr_execution_key :: string
  xr_signal_id :: string
  xr_user_id :: string
  xr_symbol :: string
  xr_action :: string
  xr_result_id :: "string option"
  xr_executed_at :: time
  xr_expires_at :: time
  xr_success :: bool
  xr_retryable :: bool
  xr_blocked :: bool

datatype decision_status = D_pending | D_executing | D_executed | D_rejected | D_failed | D_skipped

record decision_row =
  dr_idempotency_key :: string
  dr_user_id :: string
  dr_signal_id :: "string option"
  dr_action :: "string option"
  dr_direction :: "string option"
  dr_execution_id :: "string option"
  dr_status :: decision_status
  dr_ts :: time

record decision_db =
  db_rows :: "decision_row list"
  db_users :: "string list"

datatype db_env = Db_ok | Db_error | Db_no_model

record deduplicator =
  dd_has_session :: bool
  dd_ttl_seconds :: int
  dd_use_database :: bool
  dd_memory_cache :: "(string \<times> execution_record) list"
  dd_allow_stale_executing_reclaim :: bool
  dd_use_memory_only :: bool

definition deduplicator_init ::
    "bool \<Rightarrow> int \<Rightarrow> bool option \<Rightarrow> bool \<Rightarrow> bool \<Rightarrow> deduplicator res" where
  "deduplicator_init session ttl use_db allow_stale memory_only =
     (if ttl \<le> 0 then Inl (ValueError ''ttl_seconds must be positive'')
      else Inr \<lparr>dd_has_session = session, dd_ttl_seconds = ttl,
                dd_use_database = (case use_db of None \<Rightarrow> session | Some b \<Rightarrow> b),
                dd_memory_cache = [], dd_allow_stale_executing_reclaim = allow_stale,
                dd_use_memory_only = memory_only\<rparr>)"

section \<open>The key\<close>

definition dedup_component :: "string \<Rightarrow> string \<Rightarrow> string res" where
  "dedup_component name v =
     (if py_strip v = [] then Inl (ValueError (''Execution dedup '' @ name @ '' must be non-empty''))
      else Inr (py_strip v))"

definition dedup_composite :: "string \<Rightarrow> string \<Rightarrow> int \<Rightarrow> string \<Rightarrow> string \<Rightarrow> string" where
  "dedup_composite i u account s a =
     i @ '':'' @ u @ '':'' @ int_str account @ '':'' @ s @ '':'' @ a"

text \<open>The hexadecimal SHA-256 digest is the parameter \<open>sha256hex\<close>.\<close>

definition compute_execution_dedup_key ::
    "(string \<Rightarrow> string) \<Rightarrow> string \<Rightarrow> string \<Rightarrow> int \<Rightarrow> string \<Rightarrow> string \<Rightarrow> string res" where
  "compute_execution_dedup_key sha256hex identity user account smb action =
     res_bind (require (0 < account)
        (ValueError ''Execution dedup broker_account_id must be a positive integer'')) (\<lambda>_.
     res_bind (dedup_component ''identity'' identity) (\<lambda>i.
     res_bind (dedup_component ''user_id'' user) (\<lambda>u.
     res_bind (dedup_component ''symbol'' smb) (\<lambda>s.
     res_bind (dedup_component ''action'' action) (\<lambda>a.
     Inr (''exec:'' @ take 32 (sha256hex (dedup_composite i u account s a))))))))"

section \<open>Memory\<close>

definition check_memory :: "deduplicator \<Rightarrow> string \<Rightarrow> time \<Rightarrow> deduplicator \<times> bool" where
  "check_memory d key now =
     (case map_of (dd_memory_cache d) key of
        None \<Rightarrow> (d, False)
      | Some r \<Rightarrow>
          if xr_expires_at r < now
          then (d\<lparr>dd_memory_cache := dict_pop (dd_memory_cache d) key\<rparr>, False)
          else (d, True))"

definition cleanup_memory :: "deduplicator \<Rightarrow> time \<Rightarrow> deduplicator" where
  "cleanup_memory d now =
     d\<lparr>dd_memory_cache := filter (\<lambda>(_, r). \<not> xr_expires_at r < now) (dd_memory_cache d)\<rparr>"

definition store_memory :: "deduplicator \<Rightarrow> execution_record \<Rightarrow> time \<Rightarrow> deduplicator" where
  "store_memory d r now =
     (let d1 = d\<lparr>dd_memory_cache := dict_set (dd_memory_cache d) (xr_execution_key r) r\<rparr>
      in if 1000 < length (dd_memory_cache d1) then cleanup_memory d1 now else d1)"

section \<open>Database\<close>

definition find_decision :: "decision_db \<Rightarrow> string \<Rightarrow> decision_row option" where
  "find_decision db key = find (\<lambda>r. dr_idempotency_key r = key) (db_rows db)"

text \<open>The unique key, the foreign key on the user and the check that the key is not blank.\<close>

definition insert_rejected :: "decision_db \<Rightarrow> decision_row \<Rightarrow> bool" where
  "insert_rejected db r =
     (list_ex (\<lambda>x. dr_idempotency_key x = dr_idempotency_key r) (db_rows db) \<or>
      dr_user_id r \<notin> set (db_users db) \<or> list_all (\<lambda>c. c = CHR '' '') (dr_idempotency_key r))"

definition insert_decision :: "decision_db \<Rightarrow> decision_row \<Rightarrow> decision_db" where
  "insert_decision db r = db\<lparr>db_rows := db_rows db @ [r]\<rparr>"

definition update_decision ::
    "decision_db \<Rightarrow> string \<Rightarrow> (decision_row \<Rightarrow> decision_row) \<Rightarrow> decision_db" where
  "update_decision db key f =
     db\<lparr>db_rows := update_where (\<lambda>r. dr_idempotency_key r = key) f (db_rows db)\<rparr>"

definition check_database ::
    "deduplicator \<Rightarrow> decision_db \<Rightarrow> db_env \<Rightarrow> string \<Rightarrow> time \<Rightarrow> deduplicator \<times> bool res" where
  "check_database d db env key now =
     (if \<not> dd_has_session d then (d, Inr False)
      else (case env of
              Db_no_model \<Rightarrow> (let (d', hit) = check_memory d key now in (d', Inr hit))
            | Db_error \<Rightarrow>
                if dd_use_memory_only d
                then (let (d', hit) = check_memory (d\<lparr>dd_use_database := False\<rparr>) key now in (d', Inr hit))
                else (d, Inl DatabaseError)
            | Db_ok \<Rightarrow>
                (d, Inr (case find (\<lambda>r. dr_idempotency_key r = key \<and>
                                        now - seconds (dd_ttl_seconds d) < dr_ts r) (db_rows db) of
                           None \<Rightarrow> False
                         | Some r \<Rightarrow> dr_status r \<in> {D_executing, D_executed, D_failed}))))"

definition has_executed ::
    "deduplicator \<Rightarrow> decision_db \<Rightarrow> db_env \<Rightarrow> string \<Rightarrow> time \<Rightarrow> deduplicator \<times> bool res" where
  "has_executed d db env key now =
     (case check_memory d key now of
        (d', True) \<Rightarrow> (d', Inr True)
      | (d', False) \<Rightarrow>
          if dd_use_database d' then check_database d' db env key now else (d', Inr False))"

section \<open>Claim\<close>

record claim_args =
  ca_key :: string
  ca_signal_id :: string
  ca_user_id :: string
  ca_symbol :: string
  ca_action :: string

definition claim_record :: "deduplicator \<Rightarrow> claim_args \<Rightarrow> time \<Rightarrow> execution_record" where
  "claim_record d a now =
     \<lparr>xr_execution_key = ca_key a, xr_signal_id = ca_signal_id a, xr_user_id = ca_user_id a,
      xr_symbol = ca_symbol a, xr_action = ca_action a, xr_result_id = None, xr_executed_at = now,
      xr_expires_at = now + seconds (dd_ttl_seconds d), xr_success = False, xr_retryable = False,
      xr_blocked = False\<rparr>"

definition insert_claim_row :: "decision_db \<Rightarrow> claim_args \<Rightarrow> time \<Rightarrow> decision_db \<times> bool" where
  "insert_claim_row db a now =
     (let row = \<lparr>dr_idempotency_key = ca_key a, dr_user_id = ca_user_id a,
                 dr_signal_id = Some (ca_signal_id a), dr_action = Some (ca_action a),
                 dr_direction = None, dr_execution_id = None, dr_status = D_executing, dr_ts = now\<rparr>
      in if insert_rejected db row then (db, False) else (insert_decision db row, True))"

definition reclaimable :: "deduplicator \<Rightarrow> decision_row \<Rightarrow> time \<Rightarrow> bool" where
  "reclaimable d row now =
     (dr_status row = D_pending \<or>
      (dr_status row = D_executing \<and> dr_ts row < now - seconds (dd_ttl_seconds d) \<and>
       dd_allow_stale_executing_reclaim d))"

text \<open>The branch on an existing row, which the row lock makes one step.\<close>

definition claim_existing_row ::
    "deduplicator \<Rightarrow> decision_db \<Rightarrow> decision_row \<Rightarrow> claim_args \<Rightarrow> time \<Rightarrow> decision_db \<times> bool" where
  "claim_existing_row d db row a now =
     (if reclaimable d row now
      then (update_decision db (ca_key a)
              (\<lambda>r. r\<lparr>dr_status := D_executing, dr_signal_id := Some (ca_signal_id a),
                     dr_action := Some (ca_action a), dr_ts := now\<rparr>), True)
      else (db, False))"

text \<open>
  \<open>_claim_database\<close>: \<open>raced\<close> are the rows other transactions commit after the lookup and before
  the insert.
\<close>

definition claim_database ::
    "deduplicator \<Rightarrow> decision_db \<Rightarrow> decision_row list \<Rightarrow> db_env \<Rightarrow> claim_args \<Rightarrow> time \<Rightarrow>
     deduplicator \<times> decision_db \<times> bool res" where
  "claim_database d db raced env a now =
     (let db1 = db\<lparr>db_rows := db_rows db @ raced\<rparr>
      in if \<not> dd_has_session d then (d, db1, Inr False)
         else (case env of
                 Db_no_model \<Rightarrow> (d\<lparr>dd_use_database := False\<rparr>, db1, Inr True)
               | Db_error \<Rightarrow>
                   if dd_use_memory_only d then (d\<lparr>dd_use_database := False\<rparr>, db1, Inr True)
                   else (d, db1, Inl DatabaseError)
               | Db_ok \<Rightarrow>
                   (let (db2, won) = (case find_decision db (ca_key a) of
                                        None \<Rightarrow> insert_claim_row db1 a now
                                      | Some row \<Rightarrow> claim_existing_row d db1 row a now)
                    in (d, db2, Inr won))))"

definition claim_execution ::
    "deduplicator \<Rightarrow> decision_db \<Rightarrow> decision_row list \<Rightarrow> db_env \<Rightarrow> claim_args \<Rightarrow> time \<Rightarrow>
     deduplicator \<times> decision_db \<times> bool res" where
  "claim_execution d db raced env a now =
     (let (d1, hit) = check_memory d (ca_key a) now
      in if dd_use_database d
         then (if hit then (d1, db\<lparr>db_rows := db_rows db @ raced\<rparr>, Inr False)
               else (case claim_database d1 db raced env a now of
                       (d2, db2, Inr True) \<Rightarrow> (store_memory d2 (claim_record d a now) now, db2, Inr True)
                     | (d2, db2, r) \<Rightarrow> (d2, db2, r)))
         else (if hit then (d1, db\<lparr>db_rows := db_rows db @ raced\<rparr>, Inr False)
               else (store_memory d1 (claim_record d a now) now,
                     db\<lparr>db_rows := db_rows db @ raced\<rparr>, Inr True)))"

section \<open>Outcome\<close>

definition outcome_status :: "execution_record \<Rightarrow> decision_status" where
  "outcome_status r =
     (if xr_success r then D_executed else if xr_retryable r then D_pending
      else if xr_blocked r then D_rejected else D_failed)"

definition store_database ::
    "deduplicator \<Rightarrow> decision_db \<Rightarrow> db_env \<Rightarrow> execution_record \<Rightarrow> time \<Rightarrow> deduplicator \<times> decision_db" where
  "store_database d db env r now =
     (let failed = (if dd_use_memory_only d then d\<lparr>dd_use_database := False\<rparr> else d)
      in if \<not> dd_has_session d then (d\<lparr>dd_use_database := False\<rparr>, db)
         else (case env of
                 Db_no_model \<Rightarrow> (d\<lparr>dd_use_database := False\<rparr>, db)
               | Db_error \<Rightarrow> (failed, db)
               | Db_ok \<Rightarrow>
                   (case find_decision db (xr_execution_key r) of
                      Some _ \<Rightarrow>
                        (d, update_decision db (xr_execution_key r)
                              (\<lambda>x. x\<lparr>dr_status := outcome_status r,
                                     dr_execution_id :=
                                       (case xr_result_id r of None \<Rightarrow> dr_execution_id x
                                        | Some i \<Rightarrow> if i = [] then dr_execution_id x else Some i)\<rparr>))
                    | None \<Rightarrow>
                        (let row = \<lparr>dr_idempotency_key = xr_execution_key r, dr_user_id = xr_user_id r,
                                    dr_signal_id = Some (xr_signal_id r), dr_action = Some (xr_action r),
                                    dr_direction = None, dr_execution_id = xr_result_id r,
                                    dr_status = outcome_status r, dr_ts = now\<rparr>
                         in if insert_rejected db row then (failed, db)
                            else (d, insert_decision db row)))))"

definition outcome_record ::
    "deduplicator \<Rightarrow> claim_args \<Rightarrow> string option \<Rightarrow> bool \<Rightarrow> bool \<Rightarrow> bool \<Rightarrow> time \<Rightarrow> execution_record" where
  "outcome_record d a result_id success retryable blocked now =
     \<lparr>xr_execution_key = ca_key a, xr_signal_id = ca_signal_id a, xr_user_id = ca_user_id a,
      xr_symbol = ca_symbol a, xr_action = ca_action a, xr_result_id = result_id,
      xr_executed_at = now, xr_expires_at = now + seconds (dd_ttl_seconds d), xr_success = success,
      xr_retryable = retryable, xr_blocked = blocked\<rparr>"

definition mark_executed ::
    "deduplicator \<Rightarrow> decision_db \<Rightarrow> db_env \<Rightarrow> claim_args \<Rightarrow> string option \<Rightarrow> bool \<Rightarrow> bool \<Rightarrow> bool \<Rightarrow>
     time \<Rightarrow> deduplicator \<times> decision_db" where
  "mark_executed d db env a result_id success retryable blocked now =
     (let r = outcome_record d a result_id success retryable blocked now;
          (d1, db1) = (if dd_use_database d then store_database d db env r now else (d, db))
      in if retryable \<and> \<not> success
         then (d1\<lparr>dd_memory_cache := dict_pop (dd_memory_cache d1) (ca_key a)\<rparr>, db1)
         else (store_memory d1 r now, db1))"

section \<open>Queries and clean-up\<close>

definition get_recent_from_memory :: "deduplicator \<Rightarrow> string \<Rightarrow> nat \<Rightarrow> execution_record list" where
  "get_recent_from_memory d user limit =
     take limit (sort_key (\<lambda>r. - xr_executed_at r)
       (filter (\<lambda>r. xr_user_id r = user) (map snd (dd_memory_cache d))))"

definition or_blank :: "string option \<Rightarrow> string" where
  "or_blank s = (case s of None \<Rightarrow> [] | Some t \<Rightarrow> t)"

definition recent_record :: "decision_row \<Rightarrow> time \<Rightarrow> execution_record" where
  "recent_record row now =
     \<lparr>xr_execution_key = dr_idempotency_key row, xr_signal_id = or_blank (dr_signal_id row),
      xr_user_id = dr_user_id row, xr_symbol = [],
      xr_action = (if or_blank (dr_action row) \<noteq> [] then or_blank (dr_action row)
                   else or_blank (dr_direction row)),
      xr_result_id = dr_execution_id row, xr_executed_at = dr_ts row, xr_expires_at = now,
      xr_success = (dr_status row = D_executed), xr_retryable = False, xr_blocked = False\<rparr>"

definition get_recent_from_database ::
    "deduplicator \<Rightarrow> decision_db \<Rightarrow> db_env \<Rightarrow> string \<Rightarrow> nat \<Rightarrow> time \<Rightarrow> execution_record list" where
  "get_recent_from_database d db env user limit now =
     (if \<not> dd_has_session d \<or> env \<noteq> Db_ok then get_recent_from_memory d user limit
      else map (\<lambda>row. recent_record row now)
             (take limit (sort_key (\<lambda>r. - dr_ts r)
                (filter (\<lambda>r. dr_user_id r = user) (db_rows db)))))"

definition get_recent_executions ::
    "deduplicator \<Rightarrow> decision_db \<Rightarrow> db_env \<Rightarrow> string \<Rightarrow> nat \<Rightarrow> time \<Rightarrow> execution_record list" where
  "get_recent_executions d db env user limit now =
     (if dd_use_database d then get_recent_from_database d db env user limit now
      else get_recent_from_memory d user limit)"

definition clear_expired_database ::
    "deduplicator \<Rightarrow> decision_db \<Rightarrow> db_env \<Rightarrow> time \<Rightarrow> decision_db \<times> nat" where
  "clear_expired_database d db env now =
     (if \<not> dd_has_session d \<or> env \<noteq> Db_ok then (db, 0)
      else (let expired = (\<lambda>r. dr_ts r < now - seconds (dd_ttl_seconds d))
            in (db\<lparr>db_rows := filter (\<lambda>r. \<not> expired r) (db_rows db)\<rparr>,
                length (filter expired (db_rows db)))))"

definition clear_expired ::
    "deduplicator \<Rightarrow> decision_db \<Rightarrow> db_env \<Rightarrow> time \<Rightarrow> deduplicator \<times> decision_db \<times> nat" where
  "clear_expired d db env now =
     (if dd_use_database d
      then (let (db', n) = clear_expired_database d db env now in (d, db', n))
      else (let d' = cleanup_memory d now
            in (d', db, length (dd_memory_cache d) - length (dd_memory_cache d'))))"

end
