(* ===== verification/Dedup_Claims.thy ===== *)
theory Dedup_Claims
  imports Deduplication
begin

text \<open>
  What the deduplicator guarantees. A step relation interleaves the claims of any number of threads
  in any number of processes over one table, with database errors, lost commits, clean-ups, the
  memory fallback and databases without row locks; where the database locks rows and no process
  falls back to memory, an execution is granted at most once more often than it was reopened. A
  locale states what any claim arbiter promises, and the memory-only mode is an instance of it
  within one time-to-live.
\<close>

section \<open>Frames of the helpers\<close>

definition database_mode :: "deduplicator \<Rightarrow> bool" where
  "database_mode d =
     (dd_has_session d \<and> dd_use_database d \<and> \<not> dd_use_memory_only d)"

lemma check_memory_mode [simp]:
  "database_mode (fst (check_memory d k t)) = database_mode d"
  "dd_use_database (fst (check_memory d k t)) = dd_use_database d"
  "dd_ttl_seconds (fst (check_memory d k t)) = dd_ttl_seconds d"
  "dd_allow_stale_executing_reclaim (fst (check_memory d k t)) = dd_allow_stale_executing_reclaim d"
  "dd_has_session (fst (check_memory d k t)) = dd_has_session d"
  by (simp_all add: check_memory_def database_mode_def split: option.split)

lemma store_memory_mode [simp]:
  "database_mode (store_memory d r t) = database_mode d"
  "dd_ttl_seconds (store_memory d r t) = dd_ttl_seconds d"
  "dd_use_database (store_memory d r t) = dd_use_database d"
  by (simp_all add: store_memory_def cleanup_memory_def database_mode_def Let_def)

lemma find_insert_decision:
  "find_decision (insert_decision db r) k =
     (case find_decision db k of None \<Rightarrow> if dr_idempotency_key r = k then Some r else None
      | Some x \<Rightarrow> Some x)"
proof -
  have "find P (xs @ [x]) = (case find P xs of None \<Rightarrow> if P x then Some x else None | Some y \<Rightarrow> Some y)"
    for P and xs :: "decision_row list" and x
    by (induction xs) auto
  then show ?thesis by (simp add: find_decision_def insert_decision_def)
qed

lemma find_update_decision:
  assumes "\<And>r. dr_idempotency_key (f r) = dr_idempotency_key r"
  shows "find_decision (update_decision db k f) k' =
           (if k' = k then map_option f (find_decision db k) else find_decision db k')"
proof -
  have "find (\<lambda>r. dr_idempotency_key r = k') (update_where (\<lambda>r. dr_idempotency_key r = k) f rows) =
          (if k' = k then map_option f (find (\<lambda>r. dr_idempotency_key r = k) rows)
           else find (\<lambda>r. dr_idempotency_key r = k') rows)" for rows
    by (induction rows) (use assms in \<open>auto simp: update_where_def\<close>)
  then show ?thesis by (simp add: find_decision_def update_decision_def)
qed

lemma find_decision_None:
  "find_decision db k = None \<longleftrightarrow> \<not> list_ex (\<lambda>r. dr_idempotency_key r = k) (db_rows db)"
  by (auto simp: find_decision_def find_None_iff list_ex_iff)

section \<open>Taken keys\<close>

text \<open>A key is taken while its row is in any status but pending.\<close>

definition taken :: "decision_db \<Rightarrow> string \<Rightarrow> bool" where
  "taken db k = (case find_decision db k of None \<Rightarrow> False | Some r \<Rightarrow> dr_status r \<noteq> D_pending)"

lemma insert_claim_taken:
  "snd (insert_claim_row db a now) \<Longrightarrow>
     \<not> taken db (ca_key a) \<and> taken (fst (insert_claim_row db a now)) (ca_key a)"
  "k \<noteq> ca_key a \<or> \<not> snd (insert_claim_row db a now) \<Longrightarrow>
     taken (fst (insert_claim_row db a now)) k = taken db k"
  using find_decision_None [of db "ca_key a"]
  by (auto simp: insert_claim_row_def taken_def find_insert_decision insert_rejected_def Let_def
      split: if_splits option.splits)

text \<open>A worker that is allowed to takes over a claim older than the time-to-live.\<close>

definition stale_takeover :: "deduplicator \<Rightarrow> decision_row \<Rightarrow> time \<Rightarrow> bool" where
  "stale_takeover d row now =
     (dd_allow_stale_executing_reclaim d \<and> dr_status row = D_executing \<and>
      dr_ts row + seconds (dd_ttl_seconds d) < now)"

lemma claim_existing_taken:
  assumes "find_decision db (ca_key a) = Some row"
  shows "snd (claim_existing_row d db row a now) \<Longrightarrow>
     (\<not> taken db (ca_key a) \<or> stale_takeover d row now) \<and>
     taken (fst (claim_existing_row d db row a now)) (ca_key a)"
  "k \<noteq> ca_key a \<or> \<not> snd (claim_existing_row d db row a now) \<Longrightarrow>
     taken (fst (claim_existing_row d db row a now)) k = taken db k"
  using assms
  by (auto simp: claim_existing_row_def taken_def reclaimable_def stale_takeover_def find_update_decision
      split: if_splits)

lemma claim_existing_keeps_taken:
  "find_decision db (ca_key a) = Some row \<Longrightarrow> taken db k \<Longrightarrow>
     taken (fst (claim_existing_row d db row a now)) k"
  by (cases "k = ca_key a \<and> snd (claim_existing_row d db row a now)")
     (auto simp: claim_existing_taken)

lemma insert_claim_keeps_taken: "taken db k \<Longrightarrow> taken (fst (insert_claim_row db a now)) k"
  by (cases "k = ca_key a \<and> snd (insert_claim_row db a now)") (auto simp: insert_claim_taken)

lemma outcome_not_pending: "\<not> (xr_retryable r \<and> \<not> xr_success r) \<Longrightarrow> outcome_status r \<noteq> D_pending"
  by (auto simp: outcome_status_def)

lemma store_database_taken:
  assumes "taken db k" "xr_execution_key r \<noteq> k \<or> \<not> (xr_retryable r \<and> \<not> xr_success r)"
  shows "taken (snd (store_database d db env r now)) k"
  using assms outcome_not_pending [of r]
  by (auto simp: store_database_def taken_def find_update_decision find_insert_decision Let_def
      split: db_env.split option.splits)

lemma mark_executed_taken:
  assumes "taken db k" "ca_key a \<noteq> k \<or> \<not> (retryable \<and> \<not> success)"
  shows "taken (snd (mark_executed d db env a rid success retryable blocked now)) k"
  using assms store_database_taken [of db k "outcome_record d a rid success retryable blocked now" d env now]
  by (auto simp: mark_executed_def Let_def outcome_record_def split: prod.split)

lemma store_database_mode:
  assumes "database_mode d" "env \<noteq> Db_no_model"
  shows "database_mode (fst (store_database d db env r now))"
  using assms by (auto simp: store_database_def database_mode_def Let_def split: db_env.split option.splits)

lemma mark_executed_mode:
  assumes "database_mode d" "env \<noteq> Db_no_model"
  shows "database_mode (fst (mark_executed d db env a rid success retryable blocked now))"
proof -
  let ?r = "outcome_record d a rid success retryable blocked now"
  have "database_mode (fst (store_database d db env ?r now))"
    by (rule store_database_mode [OF assms])
  with assms(1) show ?thesis
    by (auto simp: mark_executed_def Let_def split: prod.split)
       (auto simp: database_mode_def)
qed

lemma has_executed_mode:
  assumes "database_mode d" "env \<noteq> Db_no_model"
  shows "database_mode (fst (has_executed d db env key now))"
proof -
  have m: "database_mode (fst (check_memory d key now))" using assms(1) by simp
  obtain d' hit where c: "check_memory d key now = (d', hit)" by fastforce
  have "fst (check_database d' db env key now) = d'"
    using m assms(2) c
    by (auto simp: check_database_def database_mode_def split: db_env.split prod.split)
  with m c show ?thesis by (auto simp: has_executed_def split: bool.split)
qed

section \<open>Threads\<close>

datatype claim_phase = Idle | Checked claim_args | Inserting claim_args
  | Writing claim_args decision_row

fun open_claim :: "claim_phase \<Rightarrow> claim_args option" where
  "open_claim Idle = None"
| "open_claim (Checked a) = Some a"
| "open_claim (Inserting a) = Some a"
| "open_claim (Writing a row) = Some a"

type_synonym thread = "nat \<times> nat"

text \<open>
  The table, whether its database locks the rows a claim reads (every dialect but SQLite), whether
  the table's model can be imported, the processes by number, the phase of each thread (its process
  and its number), and four histories: the keys whose execution was granted, the keys released by a
  retryable outcome, the keys whose row a clean-up deleted, and the keys whose stale claim was
  taken over.
\<close>

record world =
  w_db :: decision_db
  w_row_locks :: bool
  w_model :: bool
  w_proc :: "nat \<Rightarrow> deduplicator"
  w_phase :: "thread \<Rightarrow> claim_phase"
  w_grants :: "string list"
  w_releases :: "string list"
  w_cleared :: "string list"
  w_reclaims :: "string list"

definition db_ready :: "world \<Rightarrow> thread \<Rightarrow> bool" where
  "db_ready w t = (dd_has_session (w_proc w (fst t)) \<and> w_model w)"

definition env_of :: "world \<Rightarrow> db_env \<Rightarrow> bool" where
  "env_of w env = ((env = Db_no_model) \<longleftrightarrow> \<not> w_model w)"

definition grant_claim :: "world \<Rightarrow> thread \<Rightarrow> deduplicator \<Rightarrow> claim_args \<Rightarrow> time \<Rightarrow> world" where
  "grant_claim w t d a now =
     w\<lparr>w_phase := (w_phase w)(t := Idle),
       w_proc := (w_proc w)(fst t := store_memory d (claim_record d a now) now),
       w_grants := ca_key a # w_grants w\<rparr>"

definition finish_claim ::
    "world \<Rightarrow> thread \<Rightarrow> claim_args \<Rightarrow> decision_db \<times> bool \<Rightarrow> bool \<Rightarrow> time \<Rightarrow> world" where
  "finish_claim w t a res stale now =
     (let w1 = w\<lparr>w_db := fst res\<rparr>
      in if snd res
         then (grant_claim w1 t (w_proc w (fst t)) a now)
                \<lparr>w_reclaims := (if stale then ca_key a # w_reclaims w else w_reclaims w)\<rparr>
         else w1\<lparr>w_phase := (w_phase w)(t := Idle)\<rparr>)"

definition removed_keys :: "decision_db \<Rightarrow> decision_db \<Rightarrow> string list" where
  "removed_keys db db' =
     map dr_idempotency_key (filter (\<lambda>r. r \<notin> set (db_rows db')) (db_rows db))"

text \<open>
  The steps. A claim with the database goes through the memory check, the lookup, and either the
  insert or the branch on the row: one step under a row lock, a read and a later write without it.
  A claim in memory-only mode is one step under the memory lock. A commit can take effect although
  its answer is lost; a database error, a missing model or a missing session ends the claim the way
  \<open>_claim_database\<close> answers it, with the memory fallback where that is enabled.
\<close>

inductive dd_step :: "world \<Rightarrow> world \<Rightarrow> bool" where
  step_hit:
    "w_phase w t = Idle \<Longrightarrow> check_memory (w_proc w (fst t)) (ca_key (a :: claim_args)) now = (d, True) \<Longrightarrow>
     dd_step w (w\<lparr>w_proc := (w_proc w)(fst t := d)\<rparr>)"
| step_memory:
    "w_phase w t = Idle \<Longrightarrow> \<not> dd_use_database (w_proc w (fst t)) \<Longrightarrow>
     check_memory (w_proc w (fst t)) (ca_key a) now = (d, False) \<Longrightarrow>
     dd_step w (grant_claim w t d a now)"
| step_miss:
    "w_phase w t = Idle \<Longrightarrow> dd_use_database (w_proc w (fst t)) \<Longrightarrow>
     check_memory (w_proc w (fst t)) (ca_key a) now = (d, False) \<Longrightarrow>
     dd_step w (w\<lparr>w_proc := (w_proc w)(fst t := d), w_phase := (w_phase w)(t := Checked a)\<rparr>)"
| step_no_row:
    "w_phase w t = Checked a \<Longrightarrow> db_ready w t \<Longrightarrow> find_decision (w_db w) (ca_key a) = None \<Longrightarrow>
     dd_step w (w\<lparr>w_phase := (w_phase w)(t := Inserting a)\<rparr>)"
| step_row:
    "w_phase w t = Checked a \<Longrightarrow> db_ready w t \<Longrightarrow> w_row_locks w \<Longrightarrow>
     find_decision (w_db w) (ca_key a) = Some row \<Longrightarrow>
     dd_step w (finish_claim w t a (claim_existing_row (w_proc w (fst t)) (w_db w) row a now)
                  (stale_takeover (w_proc w (fst t)) row now) now)"
| step_read:
    "w_phase w t = Checked a \<Longrightarrow> db_ready w t \<Longrightarrow> \<not> w_row_locks w \<Longrightarrow>
     find_decision (w_db w) (ca_key a) = Some row \<Longrightarrow>
     dd_step w (w\<lparr>w_phase := (w_phase w)(t := Writing a row)\<rparr>)"
| step_write:
    "w_phase w t = Writing a row \<Longrightarrow> \<not> w_row_locks w \<Longrightarrow>
     find_decision (w_db w) (ca_key a) \<noteq> None \<Longrightarrow>
     dd_step w (finish_claim w t a (claim_existing_row (w_proc w (fst t)) (w_db w) row a now)
                  (stale_takeover (w_proc w (fst t)) row now) now)"
| step_insert:
    "w_phase w t = Inserting a \<Longrightarrow>
     dd_step w (finish_claim w t a (insert_claim_row (w_db w) a now) False now)"
| step_row_lost:
    "w_phase w t = Checked a \<Longrightarrow> find_decision (w_db w) (ca_key a) = Some row \<Longrightarrow>
     dd_step w (w\<lparr>w_db := fst (claim_existing_row (w_proc w (fst t)) (w_db w) row a now)\<rparr>)"
| step_insert_lost:
    "w_phase w t = Inserting a \<Longrightarrow>
     dd_step w (w\<lparr>w_db := fst (insert_claim_row (w_db w) a now)\<rparr>)"
| step_fail:
    "open_claim (w_phase w t) = Some a \<Longrightarrow> env_of w env \<Longrightarrow>
     env \<noteq> Db_ok \<or> \<not> dd_has_session (w_proc w (fst t)) \<Longrightarrow>
     claim_database (w_proc w (fst t)) (w_db w) [] env a now = (d, db, r) \<Longrightarrow>
     dd_step w (if r = Inr True then grant_claim (w\<lparr>w_db := db\<rparr>) t d a now
                else w\<lparr>w_db := db, w_phase := (w_phase w)(t := Idle)\<rparr>)"
| step_mark:
    "env_of w env \<Longrightarrow>
     mark_executed (w_proc w p) (w_db w) env a rid success retryable blocked now = (d, db) \<Longrightarrow>
     dd_step w (w\<lparr>w_db := db, w_proc := (w_proc w)(p := d),
                  w_releases := (if retryable \<and> \<not> success then ca_key a # w_releases w
                                 else w_releases w)\<rparr>)"
| step_has:
    "env_of w env \<Longrightarrow>
     dd_step w (w\<lparr>w_proc := (w_proc w)(p := fst (has_executed (w_proc w p) (w_db w) env key now))\<rparr>)"
| step_clear:
    "env_of w env \<Longrightarrow> clear_expired (w_proc w p) (w_db w) env now = (d, db, n) \<Longrightarrow>
     dd_step w (w\<lparr>w_db := db, w_proc := (w_proc w)(p := d),
                  w_cleared := removed_keys (w_db w) db @ w_cleared w\<rparr>)"
| step_dispatch:
    "\<not> insert_rejected (w_db w) row \<Longrightarrow>
     dd_step w (w\<lparr>w_db := insert_decision (w_db w) row\<rparr>)"

text \<open>
  The deployments the guarantee is about: the database locks rows, the model is there, and every
  process uses the database without the memory fallback.
\<close>

definition database_world :: "world \<Rightarrow> bool" where
  "database_world w = (w_row_locks w \<and> w_model w \<and> (\<forall>p. database_mode (w_proc w p)))"

lemma grant_claim_world [simp]:
  "w_db (grant_claim w t d a now) = w_db w"
  "w_grants (grant_claim w t d a now) = ca_key a # w_grants w"
  "w_releases (grant_claim w t d a now) = w_releases w"
  "w_cleared (grant_claim w t d a now) = w_cleared w"
  "w_reclaims (grant_claim w t d a now) = w_reclaims w"
  "w_phase (grant_claim w t d a now) = (w_phase w)(t := Idle)"
  "w_row_locks (grant_claim w t d a now) = w_row_locks w"
  "w_model (grant_claim w t d a now) = w_model w"
  "w_proc (grant_claim w t d a now) = (w_proc w)(fst t := store_memory d (claim_record d a now) now)"
  by (simp_all add: grant_claim_def)

lemma finish_claim_world [simp]:
  "w_db (finish_claim w t a res st now) = fst res"
  "w_grants (finish_claim w t a res st now) = (if snd res then ca_key a # w_grants w else w_grants w)"
  "w_releases (finish_claim w t a res st now) = w_releases w"
  "w_cleared (finish_claim w t a res st now) = w_cleared w"
  "w_reclaims (finish_claim w t a res st now) =
     (if snd res \<and> st then ca_key a # w_reclaims w else w_reclaims w)"
  "w_phase (finish_claim w t a res st now) = (w_phase w)(t := Idle)"
  "database_world (finish_claim w t a res st now) = database_world w"
  by (auto simp: finish_claim_def database_world_def Let_def split: if_splits)

lemma check_memory_eq_mode:
  "check_memory d k t = (d', b) \<Longrightarrow> database_mode d' = database_mode d"
  using check_memory_mode(1) [of d k t] by simp

lemma database_world_env: "database_world w \<Longrightarrow> env_of w env \<Longrightarrow> env \<noteq> Db_no_model"
  by (auto simp: database_world_def env_of_def)

lemma clear_expired_mode:
  "database_mode d \<Longrightarrow> clear_expired d db env now = (d', db', n) \<Longrightarrow> d' = d"
  by (auto simp: clear_expired_def database_mode_def split: prod.splits)

lemma failed_claim:
  assumes "database_world w" "env_of w env" "env \<noteq> Db_ok \<or> \<not> dd_has_session (w_proc w p)"
    and "claim_database (w_proc w p) (w_db w) [] env a now = (d, db, r)"
  shows "d = w_proc w p" "db = w_db w" "r \<noteq> Inr True"
proof -
  have "env = Db_error" "dd_has_session (w_proc w p)" "\<not> dd_use_memory_only (w_proc w p)"
    using assms(1-3) database_world_env [OF assms(1,2)]
    by (cases env; simp add: database_world_def database_mode_def)+
  then show "d = w_proc w p" "db = w_db w" "r \<noteq> Inr True"
    using assms(4) by (auto simp: claim_database_def)
qed

lemma find_filter:
  "find P xs = Some x \<Longrightarrow> find P (filter Q xs) = Some x \<or> \<not> Q x"
  by (induction xs) auto

lemma clear_expired_find:
  assumes "clear_expired d db env now = (d', db', n)" "find_decision db k = Some r"
  shows "find_decision db' k = Some r \<or> k \<in> set (removed_keys db db')"
proof -
  have r: "r \<in> set (db_rows db)" "dr_idempotency_key r = k"
    using assms(2) by (auto simp: find_decision_def find_Some_iff)
  consider "db' = db" | Q where "db_rows db' = filter Q (db_rows db)"
    using assms(1)
    by (auto simp: clear_expired_def clear_expired_database_def Let_def split: if_splits prod.splits)
  then show ?thesis
  proof cases
    case 1
    then show ?thesis using assms(2) by simp
  next
    case 2
    then show ?thesis
      using find_filter [of _ "db_rows db" r Q] assms(2) r
      by (auto simp: find_decision_def removed_keys_def image_iff)
  qed
qed

lemma clear_expired_taken:
  "clear_expired d db env now = (d', db', n) \<Longrightarrow> taken db k \<Longrightarrow>
     taken db' k \<or> k \<in> set (removed_keys db db')"
  using clear_expired_find by (fastforce simp: taken_def split: option.splits)

lemma dd_step_world: "dd_step w w' \<Longrightarrow> database_world w \<Longrightarrow> database_world w'"
proof (induction rule: dd_step.induct)
  case (step_hit w t a now d)
  then show ?case using check_memory_eq_mode by (fastforce simp: database_world_def)
next
  case (step_memory w t a now d)
  then show ?case by (auto simp: database_world_def database_mode_def)
next
  case (step_miss w t a now d)
  then show ?case using check_memory_eq_mode by (fastforce simp: database_world_def)
next
  case (step_fail w t a env now d db r)
  then show ?case using failed_claim [OF step_fail.prems step_fail.hyps(2-4)] by (auto simp: database_world_def)
next
  case (step_mark w env p a rid success retryable blocked now d db)
  then show ?case
    using mark_executed_mode [of "w_proc w p" env "w_db w" a rid success retryable blocked now]
      database_world_env [of w env]
    by (auto simp: database_world_def)
next
  case (step_has w env p key now)
  then show ?case using has_executed_mode database_world_env [of w env] by (auto simp: database_world_def)
next
  case (step_clear w env p now d db n)
  then show ?case
    using clear_expired_mode [OF _ step_clear.hyps(2)] by (simp add: database_world_def)
qed (simp_all, simp_all add: database_world_def)

definition reopenings :: "world \<Rightarrow> string \<Rightarrow> nat" where
  "reopenings w k =
     count_list (w_releases w) k + count_list (w_cleared w) k + count_list (w_reclaims w) k"

definition dd_inv :: "string \<Rightarrow> world \<Rightarrow> bool" where
  "dd_inv k w =
     (count_list (w_grants w) k \<le> reopenings w k + (if taken (w_db w) k then 1 else 0))"

lemma finish_claim_inv:
  assumes "dd_inv k w"
    and "snd res \<Longrightarrow> (\<not> taken (w_db w) (ca_key a) \<or> st) \<and> taken (fst res) (ca_key a)"
    and "k \<noteq> ca_key a \<or> \<not> snd res \<Longrightarrow> taken (fst res) k = taken (w_db w) k"
  shows "dd_inv k (finish_claim w t a res st now)"
  using assms by (cases "snd res") (auto simp: dd_inv_def reopenings_def split: if_splits)

lemma dd_step_inv: "dd_step w w' \<Longrightarrow> database_world w \<Longrightarrow> dd_inv k w \<Longrightarrow> dd_inv k w'"
proof (induction rule: dd_step.induct)
  case (step_memory w t a now d)
  then show ?case by (auto simp: database_world_def database_mode_def)
next
  case (step_row w t a row now)
  show ?case
    by (rule finish_claim_inv [OF step_row.prems(2)])
       (use claim_existing_taken [OF step_row.hyps(4)] in blast)+
next
  case (step_insert w t a now)
  show ?case by (rule finish_claim_inv [OF step_insert.prems(2)]) (use insert_claim_taken in blast)+
next
  case (step_row_lost w t a row now)
  then show ?case
    using claim_existing_keeps_taken [OF step_row_lost.hyps(2)]
    by (auto simp: dd_inv_def reopenings_def split: if_splits)
next
  case (step_insert_lost w t a now)
  then show ?case using insert_claim_keeps_taken
    by (auto simp: dd_inv_def reopenings_def split: if_splits)
next
  case (step_fail w t a env now d db r)
  then show ?case
    using failed_claim [OF step_fail.prems(1) step_fail.hyps(2-4)] by (simp add: dd_inv_def reopenings_def)
next
  case (step_mark w env p a rid success retryable blocked now d db)
  have keep: "taken db k" if "taken (w_db w) k" "ca_key a \<noteq> k \<or> \<not> (retryable \<and> \<not> success)"
    using mark_executed_taken [OF that] step_mark.hyps(2) by (metis snd_conv)
  show ?case using step_mark.prems keep by (auto simp: dd_inv_def reopenings_def split: if_splits)
next
  case (step_clear w env p now d db n)
  have "taken db k \<or> 0 < count_list (removed_keys (w_db w) db) k" if "taken (w_db w) k"
    using clear_expired_taken [OF step_clear.hyps(2) that] by (metis count_list_0_iff gr0I)
  then show ?case using step_clear.prems by (auto simp: dd_inv_def reopenings_def split: if_splits)
next
  case (step_dispatch w row)
  then show ?case
    by (auto simp: dd_inv_def reopenings_def taken_def find_insert_decision split: option.splits)
qed (auto simp: dd_inv_def reopenings_def database_world_def)

lemma dd_steps_world: "dd_step\<^sup>*\<^sup>* w w' \<Longrightarrow> database_world w \<Longrightarrow> database_world w'"
  by (induction rule: rtranclp_induct) (auto intro: dd_step_world)

definition fresh_world :: "world \<Rightarrow> bool" where
  "fresh_world w = (w_grants w = [])"

text \<open>
  C1: no double execution. Over a database that locks rows (not SQLite), with the table's model
  importable and every process in database mode without the memory fallback: however the claims,
  outcomes, checks, dispatches and clean-ups of any number of threads in any number of processes
  interleave, with database errors and lost commits, an execution is granted at most once plus once
  for each time it was reopened: by a retryable outcome, by a clean-up that deleted its row, or by
  a process that is configured to take over claims older than the time-to-live.
\<close>

theorem execution_granted_once:
  assumes "dd_step\<^sup>*\<^sup>* w0 w" and "fresh_world w0" and "database_world w0"
  shows "count_list (w_grants w) k \<le>
           1 + count_list (w_releases w) k + count_list (w_cleared w) k + count_list (w_reclaims w) k"
proof -
  have "dd_inv k w0" using assms(2) by (simp add: dd_inv_def fresh_world_def)
  with assms(1,3) have "dd_inv k w"
    by (induction rule: rtranclp_induct) (auto intro: dd_step_inv dd_steps_world)
  then show ?thesis by (auto simp: dd_inv_def reopenings_def split: if_splits)
qed

text \<open>Two threads of two processes race for one new key.\<close>

definition ex_dedup :: deduplicator where
  "ex_dedup =
     \<lparr>dd_has_session = True, dd_ttl_seconds = 3600, dd_use_database = True, dd_memory_cache = [],
      dd_allow_stale_executing_reclaim = False, dd_use_memory_only = False\<rparr>"

definition ex_claim_args :: claim_args where
  "ex_claim_args =
     \<lparr>ca_key = ''k'', ca_signal_id = ''s'', ca_user_id = ''u'', ca_symbol = ''BTC'', ca_action = ''long''\<rparr>"

definition ex_db :: decision_db where
  "ex_db = \<lparr>db_rows = [], db_users = [''u'']\<rparr>"

definition ex_world :: "decision_db \<Rightarrow> bool \<Rightarrow> claim_phase \<Rightarrow> world" where
  "ex_world db locks ph =
     \<lparr>w_db = db, w_row_locks = locks, w_model = True, w_proc = (\<lambda>_. ex_dedup),
      w_phase = (\<lambda>_. Idle)((0, 0) := ph, (1, 0) := ph),
      w_grants = [], w_releases = [], w_cleared = [], w_reclaims = []\<rparr>"

lemma ex_world_fields [simp]:
  "w_db (ex_world db locks ph) = db" "w_row_locks (ex_world db locks ph) = locks"
  "w_model (ex_world db locks ph)" "w_proc (ex_world db locks ph) = (\<lambda>_. ex_dedup)"
  "w_phase (ex_world db locks ph) = (\<lambda>_. Idle)((0, 0) := ph, (1, 0) := ph)"
  "w_grants (ex_world db locks ph) = []" "w_releases (ex_world db locks ph) = []"
  "w_cleared (ex_world db locks ph) = []" "w_reclaims (ex_world db locks ph) = []"
  by (simp_all add: ex_world_def)

lemma ex_dedup_mode: "database_mode ex_dedup"
  by (simp add: database_mode_def ex_dedup_def)

lemma ex_world_database: "database_world (ex_world db True ph)"
  by (simp add: database_world_def ex_dedup_mode)

definition ex_race :: world where
  "ex_race =
     (let w1 = finish_claim (ex_world ex_db True (Inserting ex_claim_args)) (0, 0) ex_claim_args
                 (insert_claim_row ex_db ex_claim_args 5) False 5
      in finish_claim w1 (1, 0) ex_claim_args (insert_claim_row (w_db w1) ex_claim_args 6) False 6)"

lemma ex_race_steps: "dd_step\<^sup>*\<^sup>* (ex_world ex_db True (Inserting ex_claim_args)) ex_race"
proof -
  let ?w0 = "ex_world ex_db True (Inserting ex_claim_args)"
  let ?w1 = "finish_claim ?w0 (0, 0) ex_claim_args (insert_claim_row ex_db ex_claim_args 5) False 5"
  have "dd_step ?w0 ?w1" using step_insert [of ?w0 "(0, 0)" ex_claim_args 5] by simp
  moreover have "dd_step ?w1 ex_race"
    unfolding ex_race_def Let_def by (rule step_insert) simp
  ultimately show ?thesis by simp
qed

theorem execution_granted_once_witness:
  "count_list (w_grants ex_race) ''k'' \<le> 1 \<and> w_grants ex_race = [''k'']"
proof -
  have h: "w_releases ex_race = []" "w_cleared ex_race = []" "w_reclaims ex_race = []"
    by (simp_all add: ex_race_def Let_def)
  have g: "w_grants ex_race = [''k'']" by code_simp
  have "count_list (w_grants ex_race) ''k'' \<le> 1 + count_list (w_releases ex_race) ''k'' +
          count_list (w_cleared ex_race) ''k'' + count_list (w_reclaims ex_race) ''k''"
    by (rule execution_granted_once [OF ex_race_steps _ ex_world_database]) (simp add: fresh_world_def)
  with h g show ?thesis by simp
qed

section \<open>The call and the steps\<close>

definition row_claim :: "deduplicator \<Rightarrow> decision_db \<Rightarrow> claim_args \<Rightarrow> time \<Rightarrow> decision_db \<times> bool" where
  "row_claim d db a now =
     (case find_decision db (ca_key a) of None \<Rightarrow> insert_claim_row db a now
      | Some row \<Rightarrow> claim_existing_row d db row a now)"

lemma claim_execution_database:
  assumes "database_mode d0" "check_memory d0 (ca_key a) now = (d1, hit)"
  shows "claim_execution d0 db [] Db_ok a now =
           (if hit then (d1, db, Inr False)
            else (if snd (row_claim d1 db a now) then store_memory d1 (claim_record d0 a now) now else d1,
                  fst (row_claim d1 db a now), Inr (snd (row_claim d1 db a now))))"
proof -
  have "dd_use_database d0" "dd_has_session d1"
    using assms check_memory_mode(1) [of d0 "ca_key a" now] by (simp_all add: database_mode_def)
  then show ?thesis
    using assms(2)
    by (auto simp: claim_execution_def claim_database_def row_claim_def split: prod.split option.split)
qed

definition claim_takeover :: "world \<Rightarrow> thread \<Rightarrow> claim_args \<Rightarrow> time \<Rightarrow> bool" where
  "claim_takeover w t a now =
     (case find_decision (w_db w) (ca_key a) of None \<Rightarrow> False
      | Some row \<Rightarrow> stale_takeover (w_proc w (fst t)) row now)"

lemma checked_steps:
  assumes "w_phase w t = Checked a" "db_ready w t" "w_row_locks w"
  shows "dd_step\<^sup>*\<^sup>* w (finish_claim w t a (row_claim (w_proc w (fst t)) (w_db w) a now)
                        (claim_takeover w t a now) now)"
proof (cases "find_decision (w_db w) (ca_key a)")
  case None
  let ?w1 = "w\<lparr>w_phase := (w_phase w)(t := Inserting a)\<rparr>"
  have "dd_step w ?w1" using assms(1,2) None by (rule step_no_row)
  moreover have "dd_step ?w1 (finish_claim ?w1 t a (insert_claim_row (w_db ?w1) a now) False now)"
    by (rule step_insert) simp
  moreover have "finish_claim ?w1 t a res b now = finish_claim w t a res b now" for res b
    by (simp add: finish_claim_def Let_def)
  ultimately show ?thesis using None by (simp add: row_claim_def claim_takeover_def)
next
  case (Some row)
  then show ?thesis
    using step_row [OF assms(1,2,3) Some, of now] by (simp add: row_claim_def claim_takeover_def)
qed

text \<open>
  A whole \<open>claim_execution\<close> with a working database and no interference is a run of the thread's
  steps, with the same table, cache and answer.
\<close>

lemma claim_execution_steps:
  assumes idle: "w_phase w t = Idle" and mode: "database_mode (w_proc w (fst t))"
    and locks: "w_row_locks w" and model: "w_model w"
    and claim: "claim_execution (w_proc w (fst t)) (w_db w) [] Db_ok a now = (d, db, Inr won)"
  shows "\<exists>w'. dd_step\<^sup>*\<^sup>* w w' \<and> w_db w' = db \<and> w_phase w' t = Idle \<and> w_proc w' (fst t) = d \<and>
              w_grants w' = (if won then ca_key a # w_grants w else w_grants w)"
proof -
  let ?d0 = "w_proc w (fst t)"
  obtain d1 hit where m: "check_memory ?d0 (ca_key a) now = (d1, hit)" by fastforce
  have rec: "claim_record d1 a now = claim_record ?d0 a now"
    using check_memory_mode(3) [of ?d0 "ca_key a" now] m by (simp add: claim_record_def)
  note c = claim [unfolded claim_execution_database [OF mode m]]
  show ?thesis
  proof (cases hit)
    case True
    have "dd_step w (w\<lparr>w_proc := (w_proc w)(fst t := d1)\<rparr>)" using step_hit [OF idle] m True by simp
    with c True idle show ?thesis
      by (intro exI [of _ "w\<lparr>w_proc := (w_proc w)(fst t := d1)\<rparr>"]) simp
  next
    case False
    let ?w1 = "w\<lparr>w_proc := (w_proc w)(fst t := d1), w_phase := (w_phase w)(t := Checked a)\<rparr>"
    let ?res = "row_claim d1 (w_db w) a now"
    let ?w2 = "finish_claim ?w1 t a ?res (claim_takeover ?w1 t a now) now"
    have "dd_step w ?w1" using step_miss [OF idle] m False mode by (simp add: database_mode_def)
    moreover have "dd_step\<^sup>*\<^sup>* ?w1 ?w2"
      using checked_steps [of ?w1 t a now] locks model mode check_memory_eq_mode [OF m]
      by (simp add: db_ready_def database_mode_def)
    ultimately have "dd_step\<^sup>*\<^sup>* w ?w2" by (rule converse_rtranclp_into_rtranclp)
    moreover have "w_db ?w2 = db" "w_proc ?w2 (fst t) = d"
      "w_grants ?w2 = (if won then ca_key a # w_grants w else w_grants w)"
      using c False rec by (auto simp: finish_claim_def grant_claim_def Let_def)
    ultimately show ?thesis by (intro exI [of _ ?w2]) simp
  qed
qed

section \<open>Arbiters\<close>

text \<open>
  What a claim arbiter promises about one key: an attempt that is granted finds the key free and
  leaves it held, and an attempt on a held key leaves it held. Attempts come from a range of
  admissible calls, on states that keep an invariant.
\<close>

fun run_attempts :: "('s \<Rightarrow> 'c \<Rightarrow> 's \<times> bool) \<Rightarrow> 's \<Rightarrow> 'c list \<Rightarrow> bool list" where
  "run_attempts attempt s [] = []"
| "run_attempts attempt s (c # cs) = snd (attempt s c) # run_attempts attempt (fst (attempt s c)) cs"

locale claim_arbiter =
  fixes attempt :: "'s \<Rightarrow> 'c \<Rightarrow> 's \<times> bool"
    and held :: "'s \<Rightarrow> bool"
    and admissible :: "'c \<Rightarrow> bool"
    and inv :: "'s \<Rightarrow> bool"
  assumes grant: "admissible c \<Longrightarrow> inv s \<Longrightarrow> snd (attempt s c) \<Longrightarrow> \<not> held s \<and> held (fst (attempt s c))"
    and keep: "admissible c \<Longrightarrow> inv s \<Longrightarrow> held s \<Longrightarrow> held (fst (attempt s c))"
    and stays: "admissible c \<Longrightarrow> inv s \<Longrightarrow> inv (fst (attempt s c))"
begin

lemma held_none: "\<forall>c \<in> set cs. admissible c \<Longrightarrow> inv s \<Longrightarrow> held s \<Longrightarrow> True \<notin> set (run_attempts attempt s cs)"
proof (induction cs arbitrary: s)
  case (Cons c cs)
  then show ?case using grant [of c s] keep [of c s] stays [of c s] by auto
qed simp

lemma at_most_one:
  "\<forall>c \<in> set cs. admissible c \<Longrightarrow> inv s \<Longrightarrow> count_list (run_attempts attempt s cs) True \<le> 1"
proof (induction cs arbitrary: s)
  case (Cons c cs)
  show ?case
  proof (cases "snd (attempt s c)")
    case True
    then have "True \<notin> set (run_attempts attempt (fst (attempt s c)) cs)"
      using Cons.prems grant [of c s] stays [of c s] by (intro held_none) auto
    then show ?thesis using True by (simp add: count_list_0_iff)
  next
    case False
    then show ?thesis using Cons stays [of c s] by auto
  qed
qed simp

end

text \<open>The table as arbiter: row claims of any deduplicators that do not reclaim stale claims.\<close>

definition table_attempt :: "decision_db \<Rightarrow> deduplicator \<times> claim_args \<times> time \<Rightarrow> decision_db \<times> bool" where
  "table_attempt db c = (case c of (d, a, now) \<Rightarrow> row_claim d db a now)"

lemma row_claim_taken:
  assumes "\<not> dd_allow_stale_executing_reclaim d"
  shows "snd (row_claim d db a now) \<Longrightarrow> \<not> taken db (ca_key a) \<and> taken (fst (row_claim d db a now)) (ca_key a)"
    and "\<not> snd (row_claim d db a now) \<Longrightarrow> fst (row_claim d db a now) = db"
  using assms insert_claim_taken(1) [of db a now] claim_existing_taken(1) [of db a _ d now]
  by (auto simp: row_claim_def insert_claim_row_def claim_existing_row_def stale_takeover_def Let_def
      split: option.splits if_splits)

interpretation table_arbiter: claim_arbiter table_attempt "\<lambda>db. taken db k"
  "\<lambda>(d, a, now). \<not> dd_allow_stale_executing_reclaim d \<and> ca_key a = k" "\<lambda>_. True" for k
proof unfold_locales
  fix c :: "deduplicator \<times> claim_args \<times> time" and s :: decision_db
  assume c: "case c of (d, a, now) \<Rightarrow> \<not> dd_allow_stale_executing_reclaim d \<and> ca_key a = k"
  obtain d a now where eq: "c = (d, a, now)" by (cases c) auto
  with c have d: "\<not> dd_allow_stale_executing_reclaim d" and a: "ca_key a = k" by simp_all
  show "\<not> taken s k \<and> taken (fst (table_attempt s c)) k" if "snd (table_attempt s c)"
    using row_claim_taken(1) [OF d, of s a now] that a by (simp add: table_attempt_def eq)
  show "taken (fst (table_attempt s c)) k" if "taken s k"
    using row_claim_taken [OF d, of s a now] that a
    by (cases "snd (table_attempt s c)") (simp_all add: table_attempt_def eq)
qed simp

text \<open>The memory cache as arbiter, within a window no longer than the time-to-live.\<close>

definition memory_attempt :: "deduplicator \<Rightarrow> claim_args \<times> time \<Rightarrow> deduplicator \<times> bool" where
  "memory_attempt d c =
     (case c of (a, now) \<Rightarrow>
        (case claim_execution d \<lparr>db_rows = [], db_users = []\<rparr> [] Db_ok a now of
           (d', _, r) \<Rightarrow> (d', r = Inr True)))"

definition cached_until :: "string \<Rightarrow> time \<Rightarrow> deduplicator \<Rightarrow> bool" where
  "cached_until k hi d =
     (case map_of (dd_memory_cache d) k of None \<Rightarrow> False | Some r \<Rightarrow> hi \<le> xr_expires_at r)"

lemma map_of_filter_value:
  "map_of xs k = Some v \<Longrightarrow> P v \<Longrightarrow> map_of (filter (\<lambda>(_, x). P x) xs) k = Some v"
  by (induction xs) (auto split: if_splits)

lemma store_memory_cached:
  assumes "xr_execution_key r = k" "hi \<le> xr_expires_at r" "now \<le> hi"
  shows "cached_until k hi (store_memory d r now)"
  using assms map_of_filter_value [of "dict_set (dd_memory_cache d) k r" k r "\<lambda>x. \<not> xr_expires_at x < now"]
  by (simp add: cached_until_def store_memory_def cleanup_memory_def Let_def)

lemma memory_attempt_eq:
  assumes "\<not> dd_use_database d" "check_memory d (ca_key a) now = (d1, hit)"
  shows "memory_attempt d (a, now) =
           (if hit then (d1, False) else (store_memory d1 (claim_record d a now) now, True))"
  using assms by (simp add: memory_attempt_def claim_execution_def)

interpretation memory_arbiter: claim_arbiter memory_attempt "cached_until k hi"
  "\<lambda>(a, now). ca_key a = k \<and> hi - seconds ttl \<le> now \<and> now \<le> hi"
  "\<lambda>d. \<not> dd_use_database d \<and> dd_ttl_seconds d = ttl" for k hi ttl
proof unfold_locales
  fix c :: "claim_args \<times> time" and s :: deduplicator
  assume c: "case c of (a, now) \<Rightarrow> ca_key a = k \<and> hi - seconds ttl \<le> now \<and> now \<le> hi"
    and s: "\<not> dd_use_database s \<and> dd_ttl_seconds s = ttl"
  obtain a now where eq: "c = (a, now)" by fastforce
  with c have a: "ca_key a = k" and lo: "hi - seconds ttl \<le> now" and now: "now \<le> hi" by simp_all
  obtain d1 hit where m: "check_memory s k now = (d1, hit)" by fastforce
  note att = memory_attempt_eq [of s a now d1 hit] and frame = check_memory_mode(2,3) [of s k now]
  have hit: "hit" "d1 = s" if "cached_until k hi s"
    using that m now by (auto simp: cached_until_def check_memory_def split: option.splits if_splits)
  show "\<not> cached_until k hi s \<and> cached_until k hi (fst (memory_attempt s c))" if "snd (memory_attempt s c)"
  proof -
    from that att s m a eq have "\<not> hit" by (auto split: if_splits)
    moreover have "cached_until k hi (store_memory d1 (claim_record s a now) now)"
      using a lo now s by (intro store_memory_cached) (simp_all add: claim_record_def)
    ultimately show ?thesis using hit(1) att s m a eq by auto
  qed
  show "cached_until k hi (fst (memory_attempt s c))" if "cached_until k hi s"
    using hit [OF that] that att s m a eq by simp
  show "\<not> dd_use_database (fst (memory_attempt s c)) \<and> dd_ttl_seconds (fst (memory_attempt s c)) = ttl"
    using att s m a eq frame by auto
qed

text \<open>
  Memory-only mode. Claims of one key on one deduplicator whose times lie within a window of
  the time-to-live are granted at most once, whatever else the cache holds and however often it is
  pruned.
\<close>

theorem memory_claim_once_per_ttl:
  assumes "\<not> dd_use_database d"
    and "\<forall>(a, now) \<in> set cs. ca_key a = k \<and> hi - seconds (dd_ttl_seconds d) \<le> now \<and> now \<le> hi"
  shows "count_list (run_attempts memory_attempt d cs) True \<le> 1"
  using memory_arbiter.at_most_one [of cs k hi "dd_ttl_seconds d" d] assms by simp

theorem memory_claim_once_per_ttl_witness:
  "run_attempts memory_attempt (ex_dedup\<lparr>dd_use_database := False\<rparr>)
     [(ex_claim_args, 0), (ex_claim_args, seconds 3600)] = [True, False]"
proof -
  let ?d = "ex_dedup\<lparr>dd_use_database := False\<rparr>"
  let ?cs = "[(ex_claim_args, 0), (ex_claim_args, seconds 3600)]"
  have "count_list (run_attempts memory_attempt ?d ?cs) True \<le> 1"
    by (rule memory_claim_once_per_ttl [where k = "''k''" and hi = "seconds 3600"])
      (simp_all add: ex_dedup_def ex_claim_args_def)
  moreover have "hd (run_attempts memory_attempt ?d ?cs)" by code_simp
  ultimately show ?thesis by (simp split: if_splits)
qed

section \<open>Outcomes\<close>

lemma mark_executed_row:
  assumes "database_mode d" "find_decision db (ca_key a) = Some row"
  shows "map_option dr_status (find_decision
           (snd (mark_executed d db Db_ok a rid success retryable blocked now)) (ca_key a)) =
         Some (outcome_status (outcome_record d a rid success retryable blocked now))"
  using assms
  by (auto simp: mark_executed_def store_database_def database_mode_def outcome_record_def
      find_update_decision Let_def)

text \<open>A key is settled while its row has a terminal status.\<close>

definition settled :: "decision_db \<Rightarrow> string \<Rightarrow> bool" where
  "settled db k =
     (case find_decision db k of None \<Rightarrow> False | Some r \<Rightarrow> dr_status r \<notin> {D_pending, D_executing})"

lemma settled_claims:
  assumes "settled db k"
  shows "\<not> (snd (insert_claim_row db a now) \<and> ca_key a = k)"
    and "settled (fst (insert_claim_row db a now)) k"
    and "find_decision db (ca_key a) = Some row \<Longrightarrow> \<not> (snd (claim_existing_row d db row a now) \<and> ca_key a = k)"
    and "find_decision db (ca_key a) = Some row \<Longrightarrow> settled (fst (claim_existing_row d db row a now)) k"
  using assms find_decision_None [of db "ca_key a"]
  by (auto simp: settled_def insert_claim_row_def claim_existing_row_def reclaimable_def insert_rejected_def
      find_insert_decision find_update_decision Let_def split: option.splits if_splits)

lemma outcome_terminal:
  "\<not> (retryable \<and> \<not> success) \<Longrightarrow>
     outcome_status (outcome_record d a rid success retryable blocked now) \<notin> {D_pending, D_executing}"
  by (auto simp: outcome_status_def outcome_record_def)

lemma mark_executed_settled:
  assumes "settled db k" "ca_key a \<noteq> k \<or> \<not> (retryable \<and> \<not> success)"
  shows "settled (snd (mark_executed d db env a rid success retryable blocked now)) k"
  using assms outcome_terminal [of retryable success d a rid blocked now]
  by (auto simp: mark_executed_def store_database_def settled_def find_update_decision find_insert_decision
      outcome_record_def Let_def split: db_env.split option.splits prod.split)

definition settled_inv :: "string \<Rightarrow> nat \<Rightarrow> nat \<Rightarrow> nat \<Rightarrow> world \<Rightarrow> bool" where
  "settled_inv k g r c w =
     (r \<le> count_list (w_releases w) k \<and> c \<le> count_list (w_cleared w) k \<and>
      (r < count_list (w_releases w) k \<or> c < count_list (w_cleared w) k \<or>
       settled (w_db w) k \<and> count_list (w_grants w) k = g))"

lemma finish_claim_settled:
  assumes "settled_inv k g r c w"
    and "settled (w_db w) k \<Longrightarrow> \<not> (snd res \<and> ca_key a = k) \<and> settled (fst res) k"
  shows "settled_inv k g r c (finish_claim w t a res st now)"
  using assms by (auto simp: settled_inv_def split: if_splits)

lemma dd_step_settled:
  "dd_step w w' \<Longrightarrow> database_world w \<Longrightarrow> settled_inv k g r c w \<Longrightarrow> settled_inv k g r c w'"
proof (induction rule: dd_step.induct)
  case (step_memory w t a now d)
  then show ?case by (auto simp: database_world_def database_mode_def)
next
  case (step_row w t a row now)
  show ?case
    by (rule finish_claim_settled [OF step_row.prems(2)]) (use settled_claims(3,4) step_row.hyps(4) in blast)
next
  case (step_insert w t a now)
  show ?case by (rule finish_claim_settled [OF step_insert.prems(2)]) (use settled_claims(1,2) in blast)
next
  case (step_row_lost w t a row now)
  then show ?case using settled_claims(4) by (auto simp: settled_inv_def)
next
  case (step_insert_lost w t a now)
  then show ?case using settled_claims(2) by (auto simp: settled_inv_def)
next
  case (step_fail w t a env now d db res)
  then show ?case
    using failed_claim [OF step_fail.prems(1) step_fail.hyps(2-4)] by (simp add: settled_inv_def)
next
  case (step_mark w env p a rid success retryable blocked now d db)
  have "settled db k" if "settled (w_db w) k" "ca_key a \<noteq> k \<or> \<not> (retryable \<and> \<not> success)"
    using mark_executed_settled [OF that] step_mark.hyps(2) by (metis snd_conv)
  then show ?case using step_mark.prems by (auto simp: settled_inv_def)
next
  case (step_clear w env p now d db n)
  have "settled db k \<or> 0 < count_list (removed_keys (w_db w) db) k" if s: "settled (w_db w) k"
  proof -
    obtain x where x: "find_decision (w_db w) k = Some x" "dr_status x \<notin> {D_pending, D_executing}"
      using s by (auto simp: settled_def split: option.splits)
    then have "find_decision db k = Some x \<or> k \<in> set (removed_keys (w_db w) db)"
      using clear_expired_find [OF step_clear.hyps(2)] by blast
    then show ?thesis using x(2) by (metis count_list_0_iff gr0I option.simps(5) settled_def)
  qed
  then show ?case using step_clear.prems by (auto simp: settled_inv_def)
next
  case (step_dispatch w row)
  then show ?case by (auto simp: settled_inv_def settled_def find_insert_decision split: option.splits)
qed (auto simp: settled_inv_def database_world_def)

text \<open>
  C32: a terminal outcome is final. In the deployments of \<open>database_world\<close> (row locks, no memory
  fallback): after an outcome other than a retryable failure is recorded on the row of a key, then
  whatever steps any number of threads in any number of processes take (stale take-overs
  included), the key is not granted again, unless a later retryable outcome was recorded for it or
  a clean-up deleted its row.
\<close>

theorem terminal_outcome_final:
  assumes "database_world w" and "find_decision (w_db w) (ca_key a) = Some row"
    and "\<not> (retryable \<and> \<not> success)"
    and "mark_executed (w_proc w p) (w_db w) Db_ok a rid success retryable blocked now = (d, db)"
    and "dd_step\<^sup>*\<^sup>* (w\<lparr>w_db := db, w_proc := (w_proc w)(p := d)\<rparr>) w'"
    and "count_list (w_releases w') (ca_key a) = count_list (w_releases w) (ca_key a)"
    and "count_list (w_cleared w') (ca_key a) = count_list (w_cleared w) (ca_key a)"
  shows "count_list (w_grants w') (ca_key a) = count_list (w_grants w) (ca_key a)"
proof -
  let ?k = "ca_key a" and ?w1 = "w\<lparr>w_db := db, w_proc := (w_proc w)(p := d)\<rparr>"
  let ?inv = "settled_inv ?k (count_list (w_grants w) ?k) (count_list (w_releases w) ?k) (count_list (w_cleared w) ?k)"
  have mode: "database_mode (w_proc w p)" using assms(1) by (simp add: database_world_def)
  have "settled db ?k"
    using mark_executed_row [OF mode assms(2), of rid success retryable blocked now] assms(4)
      outcome_terminal [OF assms(3)]
    by (auto simp: settled_def)
  then have 1: "?inv ?w1" by (simp add: settled_inv_def)
  have "dd_step w ?w1"
    using step_mark [of w Db_ok p a rid success retryable blocked now d db] assms(1,3,4)
    by (auto simp: env_of_def database_world_def)
  then have "database_world ?w1" using assms(1) by (rule dd_step_world)
  with assms(5) 1 have "?inv w'"
    by (induction rule: rtranclp_induct) (auto intro: dd_step_settled dd_steps_world)
  then show ?thesis using assms(6,7) by (simp add: settled_inv_def)
qed

definition ex_claimed_db :: decision_db where
  "ex_claimed_db = fst (insert_claim_row ex_db ex_claim_args 5)"

lemma ex_claimed_row: "\<exists>row. find_decision ex_claimed_db (ca_key ex_claim_args) = Some row"
proof -
  have "find_decision ex_claimed_db (ca_key ex_claim_args) \<noteq> None" by code_simp
  then show ?thesis by blast
qed

theorem terminal_outcome_final_witness:
  "let (d, db) = mark_executed ex_dedup ex_claimed_db Db_ok ex_claim_args None True False False 7;
       w1 = (ex_world ex_claimed_db True (Checked ex_claim_args))
              \<lparr>w_db := db, w_proc := (\<lambda>_. ex_dedup)(5 := d)\<rparr>;
       row = the (find_decision db ''k'');
       w2 = finish_claim w1 (0, 0) ex_claim_args
              (claim_existing_row ex_dedup db row ex_claim_args (seconds 999999)) False (seconds 999999)
   in dd_step w1 w2 \<and> count_list (w_grants w2) ''k'' = 0"
proof -
  let ?m = "mark_executed ex_dedup ex_claimed_db Db_ok ex_claim_args None True False False 7"
  let ?d = "fst ?m" and ?db = "snd ?m" and ?t = "seconds 999999"
  let ?w = "ex_world ex_claimed_db True (Checked ex_claim_args)"
  let ?w1 = "?w\<lparr>w_db := ?db, w_proc := (\<lambda>_. ex_dedup)(5 := ?d)\<rparr>"
  let ?row = "the (find_decision ?db ''k'')"
  let ?w2 = "finish_claim ?w1 (0, 0) ex_claim_args (claim_existing_row ex_dedup ?db ?row ex_claim_args ?t) False ?t"
  have k: "ca_key ex_claim_args = ''k''" by (simp add: ex_claim_args_def)
  obtain row where row: "find_decision ex_claimed_db (ca_key ex_claim_args) = Some row"
    using ex_claimed_row by blast
  have "find_decision ?db ''k'' \<noteq> None" by code_simp
  then have f: "find_decision ?db (ca_key ex_claim_args) = Some ?row" by (simp add: k)
  have st: "stale_takeover ex_dedup ?row ?t = False" by (simp add: stale_takeover_def ex_dedup_def)
  have step: "dd_step ?w1 ?w2"
    using step_row [of ?w1 "(0, 0)" ex_claim_args ?row ?t] f st
    by (simp add: db_ready_def ex_dedup_def)
  have "count_list (w_grants ?w2) (ca_key ex_claim_args) = count_list (w_grants ?w) (ca_key ex_claim_args)"
    by (rule terminal_outcome_final
          [of ?w ex_claim_args row False True 5 None False 7 ?d ?db])
      (use ex_world_database row step in simp_all)
  with step show ?thesis by (simp add: case_prod_unfold Let_def k)
qed

text \<open>
  A retryable failure can be retried. After it is recorded on a key that has a row, the
  process's own cache no longer blocks the key, and the next claim by any process whose cache
  does not hold it is granted, whatever its arguments and time.
\<close>

theorem retryable_failure_reclaimable:
  assumes "database_mode d" and "find_decision db (ca_key a) = Some row"
    and "mark_executed d db Db_ok a rid False True blocked now = (d', db')"
  shows "map_of (dd_memory_cache d') (ca_key a) = None \<and>
         (\<forall>e b t. database_mode e \<and> ca_key b = ca_key a \<and> map_of (dd_memory_cache e) (ca_key a) = None \<longrightarrow>
            snd (snd (claim_execution e db' [] Db_ok b t)) = Inr True)"
proof (intro conjI allI impI)
  show "map_of (dd_memory_cache d') (ca_key a) = None"
    using assms(3) by (auto simp: mark_executed_def Let_def split: prod.splits)
next
  fix e t and b :: claim_args
  assume e: "database_mode e \<and> ca_key b = ca_key a \<and> map_of (dd_memory_cache e) (ca_key a) = None"
  obtain r where r: "find_decision db' (ca_key a) = Some r" "dr_status r = D_pending"
    using mark_executed_row [OF assms(1,2), of rid False True blocked now] assms(3)
    by (auto simp: outcome_status_def outcome_record_def)
  have "check_memory e (ca_key b) t = (e, False)" using e by (simp add: check_memory_def)
  then show "snd (snd (claim_execution e db' [] Db_ok b t)) = Inr True"
    using claim_execution_database [of e b t e False db'] e r
    by (simp add: row_claim_def claim_existing_row_def reclaimable_def)
qed

theorem retryable_failure_reclaimable_witness:
  "snd (snd (claim_execution ex_dedup
     (snd (mark_executed ex_dedup ex_claimed_db Db_ok ex_claim_args None False True False 7))
     [] Db_ok ex_claim_args 9)) = Inr True"
proof -
  let ?m = "mark_executed ex_dedup ex_claimed_db Db_ok ex_claim_args None False True False 7"
  obtain row where row: "find_decision ex_claimed_db (ca_key ex_claim_args) = Some row"
    using ex_claimed_row by blast
  show ?thesis
    using retryable_failure_reclaimable [OF ex_dedup_mode row, of None False 7 "fst ?m" "snd ?m"] ex_dedup_mode
    by (simp add: ex_dedup_def)
qed

section \<open>Where the guarantee ends\<close>

text \<open>
  Clean-up reopens a stale claim. A claim older than the time-to-live is refused to a second
  process while the row is there, since its worker may have reached the broker; after
  \<open>clear_expired\<close>, which deletes rows by age whatever their status, the same claim is granted.
\<close>

theorem clear_expired_reopens_claim:
  "let (d1, db1, r1) = claim_execution ex_dedup ex_db [] Db_ok ex_claim_args 0;
       t = seconds 3601;
       (_, db2, n) = clear_expired ex_dedup db1 Db_ok t
   in r1 = Inr True \<and> snd (snd (claim_execution ex_dedup db1 [] Db_ok ex_claim_args t)) = Inr False \<and>
      n = 1 \<and> snd (snd (claim_execution ex_dedup db2 [] Db_ok ex_claim_args t)) = Inr True"
  by code_simp

text \<open>
  The memory fallback is not atomic. With \<open>use_memory_only\<close> set, two threads of one process
  that both miss the cache before the database fails are both granted the execution, although the
  first has stored its claim before the second one asks the database.
\<close>

theorem fallback_grants_twice:
  "let d = ex_dedup\<lparr>dd_use_memory_only := True\<rparr>;
       (d1, miss1) = check_memory d ''k'' 0;
       (d2, miss2) = check_memory d1 ''k'' 1;
       (d3, _, r1) = claim_database d2 ex_db [] Db_error ex_claim_args 2;
       d4 = store_memory d3 (claim_record d ex_claim_args 2) 2;
       (d5, _, r2) = claim_database d4 ex_db [] Db_error ex_claim_args 3
   in \<not> miss1 \<and> \<not> miss2 \<and> r1 = Inr True \<and> r2 = Inr True \<and> snd (check_memory d4 ''k'' 3)"
  by code_simp

text \<open>
  Without row locks (SQLite) the guarantee ends as well: two threads that both read a pending row
  before either writes it are both granted the execution.
\<close>

definition ex_pending_db :: decision_db where
  "ex_pending_db = snd (mark_executed ex_dedup ex_claimed_db Db_ok ex_claim_args None False True False 7)"

lemma unlocked_rows_grant_twice:
  "\<exists>w. dd_step\<^sup>*\<^sup>* (ex_world ex_pending_db False (Checked ex_claim_args)) w \<and>
       w_grants w = [''k'', ''k''] \<and> w_releases w = [] \<and> w_cleared w = [] \<and> w_reclaims w = []"
proof -
  let ?a = ex_claim_args
  let ?w0 = "ex_world ex_pending_db False (Checked ?a)"
  let ?row = "the (find_decision ex_pending_db ''k'')"
  let ?w1 = "?w0\<lparr>w_phase := (w_phase ?w0)((0, 0) := Writing ?a ?row)\<rparr>"
  let ?w2 = "?w1\<lparr>w_phase := (w_phase ?w1)((1, 0) := Writing ?a ?row)\<rparr>"
  let ?r1 = "claim_existing_row ex_dedup ex_pending_db ?row ?a 8"
  let ?w3 = "finish_claim ?w2 (0, 0) ?a ?r1 False 8"
  let ?r2 = "claim_existing_row (w_proc ?w3 1) (fst ?r1) ?row ?a 9"
  have k: "ca_key ?a = ''k''" by (simp add: ex_claim_args_def)
  have "find_decision ex_pending_db ''k'' \<noteq> None" by code_simp
  then have f: "find_decision ex_pending_db (ca_key ?a) = Some ?row" by (simp add: k)
  have p: "dr_status ?row = D_pending" by code_simp
  have g: "snd ?r1" "find_decision (fst ?r1) (ca_key ?a) \<noteq> None"
    using p f by (simp_all add: claim_existing_row_def reclaimable_def find_update_decision)
  have st: "stale_takeover d ?row t = False" for d t using p by (simp add: stale_takeover_def)
  have p3: "w_proc ?w3 1 = ex_dedup" by (simp add: finish_claim_def grant_claim_def Let_def)
  have l3: "w_row_locks ?w3 = False" by (simp add: finish_claim_def grant_claim_def Let_def)
  have s1: "dd_step ?w0 ?w1"
    using step_read [of ?w0 "(0, 0)" ?a ?row] f by (simp add: db_ready_def ex_dedup_def)
  have s2: "dd_step ?w1 ?w2"
    using step_read [of ?w1 "(1, 0)" ?a ?row] f by (simp add: db_ready_def ex_dedup_def)
  have s3: "dd_step ?w2 ?w3"
    using step_write [of ?w2 "(0, 0)" ?a ?row 8] f st by simp
  have s4: "dd_step ?w3 (finish_claim ?w3 (1, 0) ?a ?r2 False 9)"
    using step_write [of ?w3 "(1, 0)" ?a ?row 9] g(2) st l3 by simp
  have "dd_step\<^sup>*\<^sup>* ?w0 (finish_claim ?w3 (1, 0) ?a ?r2 False 9)"
    by (rule converse_rtranclp_into_rtranclp, rule s1, rule converse_rtranclp_into_rtranclp, rule s2,
        rule converse_rtranclp_into_rtranclp, rule s3, rule r_into_rtranclp, rule s4)
  moreover have "snd ?r2" using p by (simp add: claim_existing_row_def reclaimable_def)
  ultimately show ?thesis
    using g(1) by (intro exI [of _ "finish_claim ?w3 (1, 0) ?a ?r2 False 9"]) (simp add: k)
qed

section \<open>The key names the execution\<close>

lemma dedup_composite_inject:
  assumes "dedup_composite i u n s a = dedup_composite i' u' n' s' a'"
    and "CHR '':'' \<notin> set (i @ i' @ u @ u' @ s @ s')"
  shows "i = i' \<and> u = u' \<and> n = n' \<and> s = s' \<and> a = a'"
proof -
  have 1: "i = i'" and e: "u @ '':'' @ int_str n @ '':'' @ s @ '':'' @ a =
      u' @ '':'' @ int_str n' @ '':'' @ s' @ '':'' @ a'"
    using append_colon_eq [of i i'] assms unfolding dedup_composite_def by auto
  have 2: "u = u'" and e: "int_str n @ '':'' @ s @ '':'' @ a = int_str n' @ '':'' @ s' @ '':'' @ a'"
    using append_colon_eq [OF _ _ e] assms(2) by auto
  have 3: "int_str n = int_str n'" and e: "s @ '':'' @ a = s' @ '':'' @ a'"
    using append_colon_eq [OF int_str_no_colon int_str_no_colon e] by auto
  show ?thesis using 1 2 3 append_colon_eq [OF _ _ e] assms(2) inj_int_str by (auto dest: injD)
qed

lemma set_py_strip: "set (py_strip s) \<subseteq> set s"
  unfolding py_strip_def by (metis set_dropWhileD set_rev subsetI)

text \<open>
  Keys identify executions. When two calls give the same key, the digest does not collide on
  their two composites, and identity, user and symbol hold no colon, then the calls name the same
  identity, user, account, symbol and action up to surrounding space: executions that differ in
  any of them are never merged.
\<close>

theorem dedup_key_injective:
  assumes "compute_execution_dedup_key sha i u n s a = Inr k"
    and "compute_execution_dedup_key sha i' u' n' s' a' = Inr k"
    and "let c = dedup_composite (py_strip i) (py_strip u) n (py_strip s) (py_strip a);
             c' = dedup_composite (py_strip i') (py_strip u') n' (py_strip s') (py_strip a')
         in c \<noteq> c' \<longrightarrow> take 32 (sha c) \<noteq> take 32 (sha c')"
    and "CHR '':'' \<notin> set (i @ i' @ u @ u' @ s @ s')"
  shows "py_strip i = py_strip i' \<and> py_strip u = py_strip u' \<and> n = n' \<and>
         py_strip s = py_strip s' \<and> py_strip a = py_strip a'"
proof -
  have "dedup_composite (py_strip i) (py_strip u) n (py_strip s) (py_strip a) =
        dedup_composite (py_strip i') (py_strip u') n' (py_strip s') (py_strip a')"
    using assms(1-3) unfolding compute_execution_dedup_key_def dedup_component_def Let_def
    by (auto simp: res_bind_Inr_iff split: if_splits)
  then show ?thesis
    by (rule dedup_composite_inject) (use assms(4) set_py_strip in fastforce)
qed

theorem dedup_key_injective_witness:
  "compute_execution_dedup_key id ''e1'' ''u'' 7 ''BTC'' ''long'' \<noteq>
   compute_execution_dedup_key id ''e1'' ''u'' 8 ''BTC'' ''long''"
proof
  assume eq: "compute_execution_dedup_key id ''e1'' ''u'' 7 ''BTC'' ''long'' =
              compute_execution_dedup_key id ''e1'' ''u'' 8 ''BTC'' ''long''"
  have ok: "is_ok (compute_execution_dedup_key id ''e1'' ''u'' 7 ''BTC'' ''long'')" by code_simp
  then obtain k where k: "compute_execution_dedup_key id ''e1'' ''u'' 7 ''BTC'' ''long'' = Inr k"
    by (auto simp: is_ok_def split: sum.splits)
  have strip: "py_strip ''e1'' = ''e1''" "py_strip ''u'' = ''u''" "py_strip ''BTC'' = ''BTC''"
    "py_strip ''long'' = ''long''"
    by code_simp+
  have c: "take 32 (id (dedup_composite ''e1'' ''u'' 7 ''BTC'' ''long'')) \<noteq>
           take 32 (id (dedup_composite ''e1'' ''u'' 8 ''BTC'' ''long''))"
    by code_simp
  show False
    using dedup_key_injective [OF k k [unfolded eq]] c unfolding strip by (simp add: Let_def)
qed

end
