(* ===== verification/Order_Models.thy ===== *)
theory Order_Models
  imports Py_Prelude
begin

text \<open>
  The order data of \<open>execution_engine/models.py\<close>: the validated value objects (their
  \<open>__post_init__\<close> is a function from the raw fields to the object or the exception) and the
  order intents. A \<open>Decimal\<close> field is a \<open>number\<close> before validation and a rational after it; a
  timestamp is already in UTC, which is what \<open>_utc\<close> makes of it.
\<close>

section \<open>Currency context\<close>

record order_currency_context =
  account_currency :: string
  settlement_currency :: string
  account_to_settlement_rate :: rat
  requested_at :: time
  observed_at :: time
  fx_source :: string

definition valid_context_currency :: "string \<Rightarrow> bool" where
  "valid_context_currency c = (c \<noteq> [] \<and> length c \<le> 10 \<and> py_isalnum c)"

definition order_currency_context_init ::
    "string \<Rightarrow> string \<Rightarrow> number \<Rightarrow> time \<Rightarrow> time \<Rightarrow> string \<Rightarrow> order_currency_context res" where
  "order_currency_context_init account settlement raw_rate requested observed source =
     (let a = py_upper (py_strip account); s = py_upper (py_strip settlement)
      in res_bind (require (valid_context_currency a)
             (ValueError ''Order currency context has invalid account_currency'')) (\<lambda>_.
         res_bind (require (valid_context_currency s)
             (ValueError ''Order currency context has invalid settlement_currency'')) (\<lambda>_.
         res_bind (finite_decimal ''Order currency context requires a finite positive FX rate'' raw_rate) (\<lambda>rate.
         res_bind (require (0 < rate)
             (ValueError ''Order currency context requires a finite positive FX rate'')) (\<lambda>_.
         res_bind (require (\<not> (a = s \<and> rate \<noteq> 1))
             (ValueError ''Same-currency order context requires an identity FX rate'')) (\<lambda>_.
         res_bind (require (py_strip source \<noteq> [])
             (ValueError ''Order currency context requires an observed FX source'')) (\<lambda>_.
         res_bind (require (observed \<le> requested)
             (ValueError ''Order currency context cannot use a future FX observation'')) (\<lambda>_.
         Inr \<lparr>account_currency = a, settlement_currency = s, account_to_settlement_rate = rate,
              requested_at = requested, observed_at = observed, fx_source = py_strip source\<rparr>))))))))"

definition account_to_settlement :: "order_currency_context \<Rightarrow> rat \<Rightarrow> rat" where
  "account_to_settlement c amount = amount * account_to_settlement_rate c"

definition settlement_to_account :: "order_currency_context \<Rightarrow> rat \<Rightarrow> rat" where
  "settlement_to_account c amount = amount / account_to_settlement_rate c"

definition optional_currency :: "string option \<Rightarrow> string option res" where
  "optional_currency v =
     (case v of None \<Rightarrow> Inr None
      | Some raw \<Rightarrow>
          (let c = py_upper (py_strip raw)
           in if \<not> py_isalnum c \<or> \<not> (2 \<le> length c \<and> length c \<le> 10)
              then Inl (ValueError ''Target position override settlement_currency is invalid'')
              else Inr (Some c)))"

section \<open>Close override\<close>

record close_quantity_override =
  cq_account_plan_id :: string
  cq_plan_leg_id :: string
  cq_symbol :: string
  cq_quantity :: rat
  cq_strategy_quantity :: rat
  cq_broker_quantity :: rat
  cq_broker_observed_at :: time

definition quantity_tolerance :: rat where
  "quantity_tolerance = 1 / 100000000"

definition validate_digest :: "string \<Rightarrow> string \<Rightarrow> unit res" where
  "validate_digest v field_name =
     require (length v = 64 \<and> list_all (\<lambda>c. c \<in> set ''0123456789abcdef'') v)
       (ValueError (''Close quantity override '' @ field_name @ '' must be a lowercase SHA-256 digest''))"

definition close_quantity_override_init ::
    "string \<Rightarrow> string \<Rightarrow> string \<Rightarrow> number \<Rightarrow> number \<Rightarrow> number \<Rightarrow> time \<Rightarrow> time \<Rightarrow>
     close_quantity_override res" where
  "close_quantity_override_init plan leg smb raw_q raw_s raw_b observed now =
     (let finite = (\<lambda>f. finite_decimal (''Close quantity override '' @ f @ '' must be finite''))
      in res_bind (validate_digest (py_strip plan) ''account_plan_id'') (\<lambda>_.
         res_bind (validate_digest (py_strip leg) ''plan_leg_id'') (\<lambda>_.
         res_bind (require (py_strip smb \<noteq> [])
             (ValueError ''Close quantity override requires a symbol'')) (\<lambda>_.
         res_bind (finite ''quantity'' raw_q) (\<lambda>q.
         res_bind (finite ''strategy_quantity'' raw_s) (\<lambda>s.
         res_bind (finite ''broker_quantity'' raw_b) (\<lambda>b.
         res_bind (require (0 < q) (ValueError ''Close quantity override must be positive'')) (\<lambda>_.
         res_bind (require (s \<noteq> 0 \<and> b \<noteq> 0)
             (ValueError ''Close quantity override requires non-zero source exposure'')) (\<lambda>_.
         res_bind (require ((s < 0) = (b < 0))
             (ValueError ''Strategy and broker close exposures must have the same direction'')) (\<lambda>_.
         res_bind (require (\<not> quantity_tolerance < \<bar>q - min \<bar>s\<bar> \<bar>b\<bar>\<bar>)
             (ValueError ''Close quantity override must equal the strategy/broker exposure clamp'')) (\<lambda>_.
         res_bind (require (observed \<le> now)
             (ValueError ''Close quantity override cannot use a future broker observation'')) (\<lambda>_.
         Inr \<lparr>cq_account_plan_id = py_strip plan, cq_plan_leg_id = py_strip leg,
              cq_symbol = py_strip smb, cq_quantity = q, cq_strategy_quantity = s,
              cq_broker_quantity = b, cq_broker_observed_at = observed\<rparr>))))))))))))"

section \<open>Target override\<close>

record target_position_override =
  tp_account_plan_id :: string
  tp_plan_leg_id :: string
  tp_symbol :: string
  tp_target_allocation :: rat
  tp_target_quantity :: rat
  tp_strategy_quantity :: rat
  tp_broker_quantity :: rat
  tp_drift_fraction :: rat
  tp_broker_observed_at :: time
  tp_reference_price :: rat
  tp_quote_observed_at :: time
  tp_quote_execution_authority :: string
  tp_settlement_currency :: "string option"

text \<open>The checks on the numbers, in the order the constructor makes them.\<close>

definition target_numbers_ok :: "rat \<Rightarrow> rat \<Rightarrow> rat \<Rightarrow> rat \<Rightarrow> rat \<Rightarrow> rat \<Rightarrow> unit res" where
  "target_numbers_ok alloc target strategy broker drift price =
     res_bind (require (0 \<le> alloc \<and> alloc \<le> 1)
        (ValueError ''Target allocation must be in [0, 1]'')) (\<lambda>_.
     res_bind (require (\<not> (target < 0 \<or> strategy < 0 \<or> broker < 0))
        (ValueError ''Long-only target position quantities must be non-negative'')) (\<lambda>_.
     res_bind (require (\<not> (alloc = 0 \<and> target \<noteq> 0))
        (ValueError ''Zero target allocation requires zero target quantity'')) (\<lambda>_.
     res_bind (require (0 \<le> drift \<and> drift < 1)
        (ValueError ''Target weight drift fraction must be in [0, 1)'')) (\<lambda>_.
     res_bind (require (0 < price)
        (ValueError ''Target position override reference_price must be positive'')) (\<lambda>_.
     require (\<not> quantity_tolerance < strategy - broker)
        (ValueError ''Strategy target exposure exceeds authoritative broker exposure''))))))"

definition target_position_override_init ::
    "string \<Rightarrow> string \<Rightarrow> string \<Rightarrow> number \<Rightarrow> number \<Rightarrow> number \<Rightarrow> number \<Rightarrow> number \<Rightarrow> time \<Rightarrow>
     number \<Rightarrow> time \<Rightarrow> string \<Rightarrow> string option \<Rightarrow> time \<Rightarrow> target_position_override res" where
  "target_position_override_init plan leg smb raw_a raw_t raw_s raw_b raw_d observed raw_p
     quote_observed authority currency now =
     (let finite = (\<lambda>f. finite_decimal (''Target position override '' @ f @ '' must be finite''));
          auth = py_lower (py_strip authority)
      in res_bind (validate_digest (py_strip plan) ''account_plan_id'') (\<lambda>_.
         res_bind (validate_digest (py_strip leg) ''plan_leg_id'') (\<lambda>_.
         res_bind (require (py_strip smb \<noteq> [])
             (ValueError ''Target position override requires a symbol'')) (\<lambda>_.
         res_bind (finite ''target_allocation'' raw_a) (\<lambda>a.
         res_bind (finite ''target_quantity'' raw_t) (\<lambda>t.
         res_bind (finite ''strategy_quantity'' raw_s) (\<lambda>s.
         res_bind (finite ''broker_quantity'' raw_b) (\<lambda>b.
         res_bind (finite ''target_weight_drift_fraction'' raw_d) (\<lambda>d.
         res_bind (finite ''reference_price'' raw_p) (\<lambda>p.
         res_bind (target_numbers_ok a t s b d p) (\<lambda>_.
         res_bind (require (auth \<in> {''shared'', ''paper_only''})
             (ValueError ''Target position override quote authority must be shared or paper_only'')) (\<lambda>_.
         res_bind (require (observed \<le> now)
             (ValueError ''Target position override cannot use a future broker observation'')) (\<lambda>_.
         res_bind (require (quote_observed \<le> now)
             (ValueError ''Target position override cannot use a future quote observation'')) (\<lambda>_.
         res_bind (optional_currency currency) (\<lambda>c.
         Inr \<lparr>tp_account_plan_id = py_strip plan, tp_plan_leg_id = py_strip leg,
              tp_symbol = py_strip smb, tp_target_allocation = a, tp_target_quantity = t,
              tp_strategy_quantity = s, tp_broker_quantity = b, tp_drift_fraction = d,
              tp_broker_observed_at = observed, tp_reference_price = p,
              tp_quote_observed_at = quote_observed, tp_quote_execution_authority = auth,
              tp_settlement_currency = c\<rparr>)))))))))))))))"

definition delta_quantity :: "target_position_override \<Rightarrow> rat" where
  "delta_quantity ov =
     (let delta = tp_target_quantity ov - tp_strategy_quantity ov;
          no_trade_quantity = tp_target_quantity ov * tp_drift_fraction ov
      in if \<bar>delta\<bar> \<le> max quantity_tolerance no_trade_quantity then 0 else delta)"

section \<open>Order intents\<close>

record order_intent =
  broker_code :: string
  symbol :: string
  side :: string
  quantity :: rat
  order_type :: string
  time_in_force :: string
  limit_price :: "rat option"
  stop_price :: "rat option"
  metadata :: pydict
  currency_context :: "order_currency_context option"
  canonical_paper_order_id :: "int option"
  canonical_paper_instrument_id :: "int option"

definition client_order_id_for :: "pydict \<Rightarrow> string" where
  "client_order_id_for d =
     (let explicit = (if truthy (dict_get d ''client_order_id'') then dict_get d ''client_order_id''
                      else dict_get d ''signal_id'');
          parent = dict_get d ''parent_signal_id''; purpose = dict_get d ''purpose''
      in if truthy explicit then str_of explicit
         else if truthy parent \<and> truthy purpose then str_of parent @ '':'' @ str_of purpose
         else [])"

section \<open>Replay provenance\<close>

definition HISTORICAL_REPLAY_FILL_POLICY :: string where
  "HISTORICAL_REPLAY_FILL_POLICY = ''historical-next-bar-open-v1''"

fun positive_int :: "pyval \<Rightarrow> bool" where
  "positive_int (PInt i) = (0 < i)"
| "positive_int _ = False"

text \<open>
  A timestamp that parses as timezone-aware ISO text is a \<open>PTime\<close>; any other value fails to
  parse or is naive, and both raise.
\<close>

definition resolve_historical_replay_fill_context :: "pydict \<Rightarrow> (time \<times> pydict) option res" where
  "resolve_historical_replay_fill_context d =
     (if dict_get d ''historical_replay'' \<noteq> PBool True then Inr None
      else if \<not> positive_int (dict_get d ''source_price_id'') \<or>
              \<not> positive_int (dict_get d ''source_content_revision'') \<or>
              dict_get d ''trigger_policy_version'' \<noteq> PStr HISTORICAL_REPLAY_FILL_POLICY
      then Inl (ValueError ''Historical paper fill has incomplete source-bar provenance'')
      else (case dict_get d ''source_price_ts'' of
              PTime t \<Rightarrow>
                Inr (Some (t, [(''source_price_id'', dict_get d ''source_price_id''),
                               (''source_content_revision'', dict_get d ''source_content_revision''),
                               (''trigger_policy_version'', PStr HISTORICAL_REPLAY_FILL_POLICY)]))
            | _ \<Rightarrow> Inl (ValueError ''Historical paper fill has an invalid source timestamp'')))"

section \<open>Correctness\<close>

lemmas res_elims = res_bind_Inr_iff require_iff finite_decimal_iff

lemma currency_context_valid:
  assumes "order_currency_context_init a s r req ob src = Inr c"
  shows "0 < account_to_settlement_rate c \<and>
         order_currency_context_init (account_currency c) (settlement_currency c)
           (Fin (account_to_settlement_rate c)) (requested_at c) (observed_at c) (fx_source c) = Inr c"
  using assms unfolding order_currency_context_init_def Let_def
  by (auto simp: res_bind_Inr_iff)

text \<open>
  A currency context that was constructed converts without loss in both directions, and
  constructing it again from its own fields gives the same context: normalisation is idempotent,
  so a context that is serialised and rebuilt sizes the same order.
\<close>

theorem currency_context_roundtrip:
  assumes "order_currency_context_init a s r req ob src = Inr c"
  shows "settlement_to_account c (account_to_settlement c x) = x \<and>
         account_to_settlement c (settlement_to_account c x) = x \<and>
         order_currency_context_init (account_currency c) (settlement_currency c)
           (Fin (account_to_settlement_rate c)) (requested_at c) (observed_at c) (fx_source c) = Inr c"
  using currency_context_valid [OF assms]
  by (simp add: settlement_to_account_def account_to_settlement_def)

theorem currency_context_roundtrip_witness:
  "\<exists>c. order_currency_context_init '' usd'' ''inr '' (Fin 83) 10 9 ''ecb'' = Inr c \<and>
       account_currency c = ''USD'' \<and> settlement_to_account c (account_to_settlement c 7) = 7"
proof -
  have "is_ok (order_currency_context_init '' usd'' ''inr '' (Fin 83) 10 9 ''ecb'')"
    and "account_currency (projr (order_currency_context_init '' usd'' ''inr '' (Fin 83) 10 9 ''ecb''))
         = ''USD''"
    by code_simp+
  then obtain c where "order_currency_context_init '' usd'' ''inr '' (Fin 83) 10 9 ''ecb'' = Inr c"
    "account_currency c = ''USD''"
    by (auto simp: is_ok_def split: sum.splits)
  then show ?thesis using currency_context_roundtrip [of "'' usd''" "''inr ''" "Fin 83" 10 9 "''ecb''" c 7]
    by blast
qed

text \<open>
  A close never overshoots. The quantity of a close override that was constructed exceeds
  neither the strategy's nor the broker's exposure by more than the tolerance, the two exposures
  have the same sign, and the smaller one is closed up to the tolerance.
\<close>

theorem close_override_clamped:
  assumes "close_quantity_override_init plan leg smb q s b ob now = Inr c"
  shows "0 < cq_quantity c \<and> 0 < cq_strategy_quantity c * cq_broker_quantity c \<and>
         cq_quantity c - \<bar>cq_strategy_quantity c\<bar> \<le> quantity_tolerance \<and>
         cq_quantity c - \<bar>cq_broker_quantity c\<bar> \<le> quantity_tolerance \<and>
         min \<bar>cq_strategy_quantity c\<bar> \<bar>cq_broker_quantity c\<bar> - cq_quantity c \<le> quantity_tolerance"
proof -
  from assms have v: "0 < cq_quantity c" "cq_strategy_quantity c \<noteq> 0" "cq_broker_quantity c \<noteq> 0"
    "(cq_strategy_quantity c < 0) = (cq_broker_quantity c < 0)"
    "\<bar>cq_quantity c - min \<bar>cq_strategy_quantity c\<bar> \<bar>cq_broker_quantity c\<bar>\<bar> \<le> quantity_tolerance"
    unfolding close_quantity_override_init_def Let_def by (auto simp: res_bind_Inr_iff not_less)
  have "0 < cq_strategy_quantity c * cq_broker_quantity c"
    using v(2-4) by (metis linorder_neqE_linordered_idom mult_neg_neg mult_pos_pos not_less_iff_gr_or_eq)
  with v show ?thesis by linarith
qed

definition ex_digest :: string where
  "ex_digest = replicate 64 CHR ''a''"

theorem close_override_clamped_witness:
  "\<exists>c. close_quantity_override_init ex_digest ex_digest ''BTC'' (Fin 2) (Fin 2) (Fin 5) 1 2 = Inr c \<and>
       cq_quantity c - \<bar>cq_strategy_quantity c\<bar> \<le> quantity_tolerance"
proof -
  have "is_ok (close_quantity_override_init ex_digest ex_digest ''BTC'' (Fin 2) (Fin 2) (Fin 5) 1 2)"
    by code_simp
  then obtain c where
    "close_quantity_override_init ex_digest ex_digest ''BTC'' (Fin 2) (Fin 2) (Fin 5) 1 2 = Inr c"
    by (auto simp: is_ok_def split: sum.splits)
  with close_override_clamped [OF this] show ?thesis by blast
qed

lemma target_override_valid:
  assumes "target_position_override_init plan leg smb a t s b d ob p qo au cur now = Inr ov"
  shows "0 \<le> tp_target_quantity ov" "0 \<le> tp_strategy_quantity ov" "0 \<le> tp_drift_fraction ov"
    "tp_strategy_quantity ov - tp_broker_quantity ov \<le> quantity_tolerance"
  using assms unfolding target_position_override_init_def target_numbers_ok_def Let_def
  by (auto simp: res_bind_Inr_iff not_less)

text \<open>
  A target order converges. The change a target override asks for is either nothing, exactly
  when the strategy is inside the no-trade band, or the whole distance to the target; once it is
  applied the same override asks for nothing more; and it never sells more than the broker holds,
  up to the tolerance.
\<close>

theorem delta_quantity_converges:
  assumes "target_position_override_init plan leg smb a t s b d ob p qo au cur now = Inr ov"
  shows "(delta_quantity ov = 0 \<or> tp_strategy_quantity ov + delta_quantity ov = tp_target_quantity ov) \<and>
         (delta_quantity ov = 0 \<longleftrightarrow>
            \<bar>tp_target_quantity ov - tp_strategy_quantity ov\<bar>
              \<le> max quantity_tolerance (tp_target_quantity ov * tp_drift_fraction ov)) \<and>
         delta_quantity
           (ov\<lparr>tp_strategy_quantity := tp_strategy_quantity ov + delta_quantity ov\<rparr>) = 0 \<and>
         - delta_quantity ov \<le> tp_broker_quantity ov + quantity_tolerance"
proof -
  note v = target_override_valid [OF assms]
  have tol: "0 < quantity_tolerance" by (simp add: quantity_tolerance_def)
  let ?d = "tp_target_quantity ov - tp_strategy_quantity ov"
  let ?band = "max quantity_tolerance (tp_target_quantity ov * tp_drift_fraction ov)"
  have band: "0 < ?band" using tol by (simp add: less_max_iff_disj)
  show ?thesis
  proof (cases "\<bar>?d\<bar> \<le> ?band")
    case True
    then have "delta_quantity ov = 0" by (simp add: delta_quantity_def Let_def)
    then show ?thesis using True v tol by simp
  next
    case False
    then have "delta_quantity ov = ?d" "?d \<noteq> 0"
      using band by (auto simp: delta_quantity_def Let_def)
    moreover have "delta_quantity (ov\<lparr>tp_strategy_quantity := tp_target_quantity ov\<rparr>) = 0"
      using band by (simp add: delta_quantity_def)
    ultimately show ?thesis using False v tol by simp
  qed
qed

theorem delta_quantity_converges_witness:
  "\<exists>ov. target_position_override_init ex_digest ex_digest ''BTC'' (Fin (1 / 2)) (Fin 10) (Fin 4) (Fin 4)
         (Fin (1 / 10)) 1 (Fin 100) 1 ''shared'' None 2 = Inr ov \<and>
       delta_quantity (ov\<lparr>tp_strategy_quantity := tp_strategy_quantity ov + delta_quantity ov\<rparr>) = 0"
proof -
  let ?i = "target_position_override_init ex_digest ex_digest ''BTC'' (Fin (1 / 2)) (Fin 10) (Fin 4)
              (Fin 4) (Fin (1 / 10)) 1 (Fin 100) 1 ''shared'' None 2"
  have "is_ok ?i" by code_simp
  then obtain ov where "?i = Inr ov" by (auto simp: is_ok_def split: sum.splits)
  with delta_quantity_converges [OF this] show ?thesis by blast
qed

end
