(* ===== verification/Broker_Base.thy ===== *)
theory Broker_Base
  imports Order_Models
begin

text \<open>
  The broker interface of \<open>execution_engine/brokers/base.py\<close> with the two enums it uses from
  \<open>lib_common/config_validation.py\<close>, and the result aggregation of
  \<open>execution_engine/execution_result.py\<close>: order results, exact fills, position valuation,
  pre-submission validation, and the classification of an execution as success, retryable
  failure or terminal failure.
\<close>

section \<open>Enums\<close>

datatype execution_mode =
    SPOT | MARGIN | PERPETUAL | FUTURES | BULL_CALL | BEAR_PUT | BULL_PUT | BEAR_CALL
  | IRON_CONDOR | STRADDLE | STRANGLE | OPTIONS_SINGLE | NOTIFY_ONLY | PAPER

fun execution_mode_value :: "execution_mode \<Rightarrow> string" where
  "execution_mode_value SPOT = ''spot''"
| "execution_mode_value MARGIN = ''margin''"
| "execution_mode_value PERPETUAL = ''perpetual''"
| "execution_mode_value FUTURES = ''futures''"
| "execution_mode_value BULL_CALL = ''bull_call''"
| "execution_mode_value BEAR_PUT = ''bear_put''"
| "execution_mode_value BULL_PUT = ''bull_put''"
| "execution_mode_value BEAR_CALL = ''bear_call''"
| "execution_mode_value IRON_CONDOR = ''iron_condor''"
| "execution_mode_value STRADDLE = ''straddle''"
| "execution_mode_value STRANGLE = ''strangle''"
| "execution_mode_value OPTIONS_SINGLE = ''options_single''"
| "execution_mode_value NOTIFY_ONLY = ''notify_only''"
| "execution_mode_value PAPER = ''paper''"

definition is_options_mode :: "execution_mode \<Rightarrow> bool" where
  "is_options_mode m =
     (m \<in> {BULL_CALL, BEAR_PUT, BULL_PUT, BEAR_CALL, IRON_CONDOR, STRADDLE, STRANGLE, OPTIONS_SINGLE})"

definition is_futures_mode :: "execution_mode \<Rightarrow> bool" where
  "is_futures_mode m = (m \<in> {PERPETUAL, FUTURES})"

definition is_spot_mode :: "execution_mode \<Rightarrow> bool" where
  "is_spot_mode m = (m \<in> {SPOT, MARGIN})"

definition requires_broker :: "execution_mode \<Rightarrow> bool" where
  "requires_broker m = (m \<notin> {NOTIFY_ONLY, PAPER})"

datatype order_status =
    OS_PENDING | OS_SUBMITTED | OS_WORKING | OS_PARTIALLY_FILLED | OS_FILLED
  | OS_CANCELLED | OS_REJECTED | OS_EXPIRED

section \<open>Capabilities\<close>

record broker_capabilities =
  broker_type :: string
  supports_spot :: bool
  supports_margin :: bool
  supports_futures :: bool
  supports_perpetual :: bool
  supports_options :: bool
  supports_multi_leg :: bool
  supports_exact_fill_retrieval :: bool
  supported_assets :: "string list"
  supported_symbols :: "string list"
  max_leverage :: rat
  min_order_size :: rat
  max_order_size :: "rat option"
  has_paper_trading :: bool
  paper_base_url :: "string option"

fun supports_mode :: "broker_capabilities \<Rightarrow> execution_mode \<Rightarrow> bool" where
  "supports_mode c m =
     (if m = SPOT then supports_spot c
      else if m = MARGIN then supports_margin c
      else if m \<in> {PERPETUAL, FUTURES} then supports_futures c \<or> supports_perpetual c
      else if is_options_mode m then supports_options c
      else if m = PAPER then has_paper_trading c
      else if m = NOTIFY_ONLY then True
      else False)"

text \<open>The limits printed in two of the messages are left out.\<close>

definition validate_order :: "broker_capabilities \<Rightarrow> order_intent \<Rightarrow> string option" where
  "validate_order c i =
     (if quantity i \<le> 0 then Some ''Quantity must be positive''
      else if quantity i < min_order_size c then Some ''Quantity below minimum''
      else if (case max_order_size c of None \<Rightarrow> False | Some m \<Rightarrow> m \<noteq> 0 \<and> m < quantity i)
      then Some ''Quantity above maximum''
      else if supported_symbols c \<noteq> [] \<and> symbol i \<notin> set (supported_symbols c)
      then Some (''Symbol not supported: '' @ symbol i)
      else None)"

section \<open>Order results\<close>

text \<open>The result's own timestamp and the broker's raw response are not kept.\<close>

record broker_order_result =
  bor_success :: bool
  bor_order_id :: "string option"
  bor_status :: order_status
  bor_filled_quantity :: rat
  bor_filled_price :: "rat option"
  bor_commission :: rat
  bor_commission_currency :: "string option"
  bor_error_message :: "string option"
  bor_error_code :: "string option"

text \<open>\<open>__post_init__\<close>: the commission is finite and its currency is normalised.\<close>

definition normalized_currency :: "string option \<Rightarrow> string option" where
  "normalized_currency c =
     (case c of None \<Rightarrow> None
      | Some s \<Rightarrow> if s = [] then Some s
                  else (let u = py_upper (py_strip s) in if u = [] then None else Some u))"

definition bor_rejected :: "string \<Rightarrow> string option \<Rightarrow> broker_order_result" where
  "bor_rejected message code =
     \<lparr>bor_success = False, bor_order_id = None, bor_status = OS_REJECTED, bor_filled_quantity = 0,
      bor_filled_price = None, bor_commission = 0, bor_commission_currency = None,
      bor_error_message = Some message, bor_error_code = code\<rparr>"

definition bor_filled ::
    "string \<Rightarrow> rat \<Rightarrow> rat \<Rightarrow> number \<Rightarrow> string option \<Rightarrow> broker_order_result res" where
  "bor_filled order_id qty price raw_commission currency =
     res_bind (finite_decimal ''Invalid broker commission'' raw_commission) (\<lambda>commission.
       Inr \<lparr>bor_success = True, bor_order_id = Some order_id, bor_status = OS_FILLED,
            bor_filled_quantity = qty, bor_filled_price = Some price, bor_commission = commission,
            bor_commission_currency = normalized_currency currency,
            bor_error_message = None, bor_error_code = None\<rparr>)"

definition bor_accepted :: "string \<Rightarrow> broker_order_result" where
  "bor_accepted order_id =
     \<lparr>bor_success = True, bor_order_id = Some order_id, bor_status = OS_WORKING,
      bor_filled_quantity = 0, bor_filled_price = None, bor_commission = 0,
      bor_commission_currency = None, bor_error_message = None, bor_error_code = None\<rparr>"

definition is_filled :: "broker_order_result \<Rightarrow> bool" where
  "is_filled r = (bor_status r = OS_FILLED)"

definition average_price :: "broker_order_result \<Rightarrow> rat" where
  "average_price r = (case bor_filled_price r of None \<Rightarrow> 0 | Some p \<Rightarrow> p)"

definition has_fill :: "broker_order_result \<Rightarrow> bool" where
  "has_fill r = (0 < bor_filled_quantity r \<and> 0 < average_price r)"

definition is_terminal :: "broker_order_result \<Rightarrow> bool" where
  "is_terminal r = (bor_status r \<in> {OS_FILLED, OS_CANCELLED, OS_REJECTED, OS_EXPIRED})"

definition is_rejected :: "broker_order_result \<Rightarrow> bool" where
  "is_rejected r = (bor_status r = OS_REJECTED)"

section \<open>Exact fills\<close>

record broker_fill =
  bf_trade_id :: string
  bf_order_id :: string
  bf_symbol :: string
  bf_side :: string
  bf_quantity :: rat
  bf_price :: rat
  bf_commission :: rat
  bf_commission_currency :: string
  bf_timestamp :: time
  bf_venue :: string

definition fill_text :: "string \<Rightarrow> string \<Rightarrow> string res" where
  "fill_text field_name v =
     (if py_strip v = [] then Inl (ValueError (''Broker fill requires '' @ field_name))
      else Inr (py_strip v))"

definition positive_fill_number :: "string \<Rightarrow> number \<Rightarrow> rat res" where
  "positive_fill_number field_name n =
     res_bind (finite_decimal (''Broker fill has invalid '' @ field_name) n) (\<lambda>q.
     res_bind (require (0 < q) (ValueError (''Broker fill requires positive '' @ field_name))) (\<lambda>_. Inr q))"

definition broker_fill_init ::
    "string \<Rightarrow> string \<Rightarrow> string \<Rightarrow> string \<Rightarrow> number \<Rightarrow> number \<Rightarrow> number \<Rightarrow> string \<Rightarrow> time \<Rightarrow> string \<Rightarrow>
     broker_fill res" where
  "broker_fill_init trade order smb raw_side raw_q raw_p raw_c currency ts raw_venue =
     res_bind (fill_text ''trade_id'' trade) (\<lambda>trade_id.
     res_bind (fill_text ''order_id'' order) (\<lambda>order_id.
     res_bind (fill_text ''symbol'' smb) (\<lambda>sy.
     res_bind (fill_text ''commission_currency'' currency) (\<lambda>cur.
     res_bind (fill_text ''venue'' raw_venue) (\<lambda>venue.
     res_bind (require (py_lower (py_strip raw_side) \<in> {''buy'', ''sell''})
        (ValueError ''Broker fill has invalid side'')) (\<lambda>_.
     res_bind (positive_fill_number ''quantity'' raw_q) (\<lambda>q.
     res_bind (positive_fill_number ''price'' raw_p) (\<lambda>p.
     res_bind (finite_decimal ''Broker fill has invalid commission'' raw_c) (\<lambda>c.
     Inr \<lparr>bf_trade_id = trade_id, bf_order_id = order_id, bf_symbol = sy,
          bf_side = py_lower (py_strip raw_side), bf_quantity = q, bf_price = p, bf_commission = c,
          bf_commission_currency = py_upper cur, bf_timestamp = ts, bf_venue = venue\<rparr>)))))))))"

section \<open>Positions\<close>

record position =
  pos_symbol :: string
  pos_side :: string
  pos_quantity :: rat
  pos_entry_price :: rat
  pos_current_price :: rat
  pos_unrealized_pnl :: "rat option"
  pos_realized_pnl :: "rat option"
  pos_margin_used :: "rat option"
  pos_liquidation_price :: "rat option"
  pos_opened_at :: "time option"
  pos_quantity_unit :: string
  pos_contract_multiplier :: "rat option"
  pos_leverage :: "rat option"
  pos_contract_type :: "string option"
  pos_gross_notional :: "rat option"
  pos_notional_currency :: "string option"

text \<open>
  The numeric fields of the position mapping that valuation reads: absent (\<open>None\<close> or the empty
  string), or a value that may fail to be a finite number.
\<close>

record position_values =
  pv_quantity :: "number option"
  pv_gross_notional :: "number option"
  pv_quantity_unit :: string
  pv_current_price :: "number option"
  pv_entry_price :: "number option"

definition finite_position_decimal :: "number \<Rightarrow> string \<Rightarrow> rat res" where
  "finite_position_decimal v field = finite_decimal (''Position has an invalid '' @ field) v"

definition position_gross_notional :: "position_values \<Rightarrow> rat res" where
  "position_gross_notional p =
     (case pv_quantity p of
        None \<Rightarrow> Inl (ValueError ''Position omitted quantity'')
      | Some raw_q \<Rightarrow>
          res_bind (finite_position_decimal raw_q ''quantity'') (\<lambda>q.
          if q = 0
          then (case pv_gross_notional p of
                  None \<Rightarrow> Inr 0
                | Some raw_n \<Rightarrow>
                    res_bind (finite_position_decimal raw_n ''gross_notional'') (\<lambda>n.
                    if n \<noteq> 0
                    then Inl (ValueError ''Zero-quantity position has a non-zero gross_notional'')
                    else Inr 0))
          else (let unit = py_lower (py_strip (pv_quantity_unit p))
                in if unit \<notin> {''asset'', ''contracts'', ''quote_notional''}
                   then Inl (ValueError ''Non-zero position omitted a canonical quantity_unit'')
                   else (case pv_gross_notional p of
                           Some raw_n \<Rightarrow>
                             res_bind (finite_position_decimal raw_n ''gross_notional'') (\<lambda>n.
                             if n \<le> 0
                             then Inl (ValueError ''Non-zero position has a non-positive gross_notional'')
                             else Inr n)
                         | None \<Rightarrow>
                             if unit \<noteq> ''asset''
                             then Inl (ValueError ''Non-asset position omitted gross_notional'')
                             else (case (case pv_current_price p of
                                           None \<Rightarrow> pv_entry_price p | Some x \<Rightarrow> Some x) of
                                     None \<Rightarrow> Inl (ValueError ''Asset position omitted both current and entry price'')
                                   | Some raw_p \<Rightarrow>
                                       res_bind (finite_position_decimal raw_p ''position price'') (\<lambda>price.
                                       if price \<le> 0
                                       then Inl (ValueError ''Non-zero asset position has a non-positive price'')
                                       else Inr (\<bar>q\<bar> * price)))))))"

section \<open>Closing a position\<close>

text \<open>
  \<open>close_position\<close> of the abstract adapter, over the positions it reads and the order it would
  submit; \<open>submit\<close> is the adapter's own \<open>submit_order\<close>.
\<close>

definition close_position ::
    "string \<Rightarrow> position list \<Rightarrow> (order_intent \<Rightarrow> 'a) \<Rightarrow> (broker_order_result \<Rightarrow> 'a) \<Rightarrow> string \<Rightarrow> 'a" where
  "close_position broker positions submit return smb =
     (case find (\<lambda>p. pos_symbol p = smb) positions of
        None \<Rightarrow> return (bor_rejected (''No position found for '' @ smb) None)
      | Some p \<Rightarrow>
          submit \<lparr>broker_code = broker, symbol = smb,
                  side = (if pos_side p = ''LONG'' then ''SELL'' else ''BUY''),
                  quantity = pos_quantity p, order_type = ''market'', time_in_force = ''ioc'',
                  limit_price = None, stop_price = None,
                  metadata = [(''purpose'', PStr ''close_position'')], currency_context = None,
                  canonical_paper_order_id = None, canonical_paper_instrument_id = None\<rparr>)"

section \<open>Execution results\<close>

record execution_result =
  er_success :: bool
  er_signal_id :: string
  er_symbol :: string
  er_execution_mode :: string
  er_broker :: string
  er_orders_submitted :: int
  er_orders_filled :: int
  er_total_quantity :: rat
  er_average_price :: rat
  er_total_commission :: rat
  er_order_results :: "broker_order_result list"
  er_error_message :: "string option"
  er_broker_account_id :: "int option"
  er_settlement_currency :: "string option"
  er_reason :: "string option"
  er_block_reason :: "string option"

definition TERMINAL_EXECUTION_MODES :: "string list" where
  "TERMINAL_EXECUTION_MODES = [''blocked'', ''dedup'']"

definition RETRYABLE_BLOCK_REASONS :: "string list" where
  "RETRYABLE_BLOCK_REASONS =
     [''account_state_unavailable'', ''account_state_timestamp_missing'',
      ''account_state_timestamp_future'', ''account_state_stale'', ''sizing_state_unavailable'',
      ''market_data_missing'', ''market_data_price_missing'', ''market_data_timestamp_missing'',
      ''market_data_timestamp_future'', ''stale_market_data'', ''market_session_unavailable'',
      ''risk_baseline_unavailable'']"

definition is_retryable_failure :: "execution_result \<Rightarrow> bool" where
  "is_retryable_failure r =
     (if er_success r then False
      else if er_execution_mode r \<notin> set TERMINAL_EXECUTION_MODES then True
      else if er_execution_mode r = ''blocked''
      then (case er_block_reason r of None \<Rightarrow> False | Some b \<Rightarrow> b \<in> set RETRYABLE_BLOCK_REASONS)
      else False)"

definition execution_log_status :: "execution_result \<Rightarrow> string" where
  "execution_log_status r =
     (if \<not> er_success r then (if er_execution_mode r = ''blocked'' then ''blocked'' else ''failed'')
      else if er_orders_submitted r = 0 then ''no_op''
      else ''executed'')"

definition blocked_result ::
    "string \<Rightarrow> string \<Rightarrow> string \<Rightarrow> string \<Rightarrow> string \<Rightarrow> string option \<Rightarrow> execution_result" where
  "blocked_result signal smb mode broker message reason =
     \<lparr>er_success = False, er_signal_id = signal, er_symbol = smb, er_execution_mode = mode,
      er_broker = broker, er_orders_submitted = 0, er_orders_filled = 0, er_total_quantity = 0,
      er_average_price = 0, er_total_commission = 0, er_order_results = [],
      er_error_message = Some message, er_broker_account_id = None, er_settlement_currency = None,
      er_reason = None, er_block_reason = reason\<rparr>"

fun join_messages :: "string list \<Rightarrow> string" where
  "join_messages [] = []"
| "join_messages [m] = m"
| "join_messages (m # ms) = m @ ''; '' @ join_messages ms"

definition error_messages :: "broker_order_result list \<Rightarrow> string list" where
  "error_messages rs =
     concat (map (\<lambda>r. case bor_error_message r of None \<Rightarrow> [] | Some m \<Rightarrow> if m = [] then [] else [m]) rs)"

definition aggregate_order_results ::
    "string \<Rightarrow> string \<Rightarrow> execution_mode \<Rightarrow> string \<Rightarrow> broker_order_result list \<Rightarrow> int option \<Rightarrow>
     string option \<Rightarrow> execution_result" where
  "aggregate_order_results signal smb mode broker rs account currency =
     (let filled = filter has_fill rs;
          total_q = sum_list (map bor_filled_quantity filled);
          total_v = sum_list (map (\<lambda>r. bor_filled_quantity r * average_price r) filled);
          unknown = list_ex (\<lambda>r. bor_error_code r = Some ''submission_unknown'') rs
      in \<lparr>er_success = (\<not> unknown \<and> (filled \<noteq> [] \<or> rs = [])), er_signal_id = signal,
          er_symbol = smb,
          er_execution_mode = (if unknown then ''blocked'' else execution_mode_value mode),
          er_broker = broker, er_orders_submitted = int (length rs),
          er_orders_filled = int (length filled), er_total_quantity = total_q,
          er_average_price = (if 0 < total_q then total_v / total_q else 0),
          er_total_commission = sum_list (map bor_commission filled),
          er_order_results = rs,
          er_error_message = (if error_messages rs = [] then None else Some (join_messages (error_messages rs))),
          er_broker_account_id = account, er_settlement_currency = currency, er_reason = None,
          er_block_reason = (if unknown then Some ''submission_unknown'' else None)\<rparr>)"

section \<open>Correctness\<close>

lemmas notional_defs = position_gross_notional_def finite_position_decimal_def

lemma notional_cases:
  assumes "position_gross_notional p = Inr n"
  obtains (zero) "pv_quantity p = Some (Fin 0)" "n = 0"
    | (explicit) q where "pv_quantity p = Some (Fin q)" "q \<noteq> 0" "pv_gross_notional p = Some (Fin n)" "0 < n"
    | (asset) q price where "pv_quantity p = Some (Fin q)" "q \<noteq> 0" "pv_gross_notional p = None"
        "py_lower (py_strip (pv_quantity_unit p)) = ''asset''" "0 < price" "n = \<bar>q\<bar> * price"
  using assms
  by (auto simp: notional_defs Let_def res_bind_Inr_iff not_le split: option.splits if_splits)

text \<open>
  Exposure is never understated. Whenever a position is valued, its notional is non-negative
  and zero exactly for a zero quantity, and a position measured in contracts or quote notional is
  valued only by the broker's explicit figure, never by quantity times price.
\<close>

theorem notional_sound:
  assumes "position_gross_notional p = Inr n"
  shows "0 \<le> n \<and> (n = 0 \<longleftrightarrow> pv_quantity p = Some (Fin 0)) \<and>
         (n \<noteq> 0 \<and> py_lower (py_strip (pv_quantity_unit p)) \<noteq> ''asset'' \<longrightarrow>
            pv_gross_notional p = Some (Fin n))"
  using assms by (cases rule: notional_cases) auto

theorem notional_sound_witness:
  "position_gross_notional
     \<lparr>pv_quantity = Some (Fin 3), pv_gross_notional = Some (Fin 120), pv_quantity_unit = ''contracts'',
      pv_current_price = Some (Fin 50), pv_entry_price = None\<rparr> = Inr 120 \<and> (120::rat) \<noteq> 0"
proof -
  let ?p = "\<lparr>pv_quantity = Some (Fin 3), pv_gross_notional = Some (Fin 120),
              pv_quantity_unit = ''contracts'', pv_current_price = Some (Fin 50), pv_entry_price = None\<rparr>"
  have ok: "position_gross_notional ?p = Inr 120" by code_simp
  from notional_sound [OF ok] ok show ?thesis by simp
qed

text \<open>A weighted mean of values between two bounds lies between them.\<close>

lemma weighted_sum_bounds:
  fixes w v :: "'a \<Rightarrow> rat"
  assumes "\<forall>x \<in> set xs. 0 \<le> w x \<and> lo \<le> v x \<and> v x \<le> hi"
  shows "lo * sum_list (map w xs) \<le> sum_list (map (\<lambda>x. w x * v x) xs) \<and>
         sum_list (map (\<lambda>x. w x * v x) xs) \<le> hi * sum_list (map w xs)"
  using assms
proof (induction xs)
  case (Cons x xs)
  then have "lo * w x \<le> v x * w x" "v x * w x \<le> hi * w x"
    by (auto intro: mult_right_mono)
  with Cons show ?case by (auto simp: algebra_simps intro: add_mono)
qed simp

lemma sum_list_pos:
  fixes w :: "'a \<Rightarrow> rat"
  assumes "xs \<noteq> []" "\<forall>x \<in> set xs. 0 < w x"
  shows "0 < sum_list (map w xs)"
  using assms
proof (induction xs)
  case (Cons x xs)
  then show ?case by (cases xs) (auto intro: add_pos_pos)
qed simp

text \<open>
  The reported average price of an execution lies between the lowest and the highest price
  of its fills, and price times quantity is the value traded; an execution without a fill
  reports quantity and price zero.
\<close>

theorem aggregate_price_bounds:
  assumes "\<forall>r \<in> set rs. has_fill r \<longrightarrow> lo \<le> average_price r \<and> average_price r \<le> hi"
  shows "let e = aggregate_order_results sg smb mode br rs acct cur
         in (if filter has_fill rs = [] then er_total_quantity e = 0 \<and> er_average_price e = 0
             else 0 < er_total_quantity e \<and> lo \<le> er_average_price e \<and> er_average_price e \<le> hi \<and>
                  er_average_price e * er_total_quantity e =
                    sum_list (map (\<lambda>r. bor_filled_quantity r * average_price r) (filter has_fill rs)))"
proof (cases "filter has_fill rs = []")
  case True
  then show ?thesis by (simp add: aggregate_order_results_def Let_def)
next
  case False
  let ?f = "filter has_fill rs"
  have q: "0 < sum_list (map bor_filled_quantity ?f)"
    using False by (intro sum_list_pos) (auto simp: has_fill_def)
  have "lo * sum_list (map bor_filled_quantity ?f)
          \<le> sum_list (map (\<lambda>r. bor_filled_quantity r * average_price r) ?f) \<and>
        sum_list (map (\<lambda>r. bor_filled_quantity r * average_price r) ?f)
          \<le> hi * sum_list (map bor_filled_quantity ?f)"
    using assms by (intro weighted_sum_bounds) (auto simp: has_fill_def)
  with q False show ?thesis
    by (simp add: aggregate_order_results_def Let_def pos_le_divide_eq pos_divide_le_eq)
qed

definition ex_fill :: "rat \<Rightarrow> rat \<Rightarrow> broker_order_result" where
  "ex_fill q p =
     \<lparr>bor_success = True, bor_order_id = Some ''o'', bor_status = OS_FILLED, bor_filled_quantity = q,
      bor_filled_price = Some p, bor_commission = 1, bor_commission_currency = Some ''USD'',
      bor_error_message = None, bor_error_code = None\<rparr>"

theorem aggregate_price_bounds_witness:
  "100 \<le> er_average_price
           (aggregate_order_results ''s'' ''BTC'' SPOT ''paper'' [ex_fill 1 100, ex_fill 3 104] None None)"
proof -
  have "\<forall>r \<in> set [ex_fill 1 100, ex_fill 3 104]. has_fill r \<longrightarrow> 100 \<le> average_price r \<and> average_price r \<le> 104"
    by (simp add: ex_fill_def average_price_def)
  moreover have "filter has_fill [ex_fill 1 100, ex_fill 3 104] \<noteq> []"
    by (simp add: ex_fill_def has_fill_def average_price_def)
  ultimately show ?thesis
    using aggregate_price_bounds [of "[ex_fill 1 100, ex_fill 3 104]" 100 104 "''s''" "''BTC''" SPOT "''paper''" None None]
    by (simp add: Let_def)
qed

lemma execution_mode_not_terminal: "execution_mode_value m \<notin> set TERMINAL_EXECUTION_MODES"
  by (cases m) (simp_all add: TERMINAL_EXECUTION_MODES_def)

lemma blocked_terminal: "''blocked'' \<in> set TERMINAL_EXECUTION_MODES"
  by (simp add: TERMINAL_EXECUTION_MODES_def)

lemma unknown_not_retryable_reason: "''submission_unknown'' \<notin> set RETRYABLE_BLOCK_REASONS"
  by (simp add: RETRYABLE_BLOCK_REASONS_def)

text \<open>
  Which executions are retried. The result of submitting orders is classified as a retryable
  failure exactly when at least one order was submitted, none has a fill and none has an unknown
  outcome: a filled order and an order the venue may hold are never submitted again.
\<close>

theorem retry_only_without_fill:
  "is_retryable_failure (aggregate_order_results sg smb mode br rs acct cur) \<longleftrightarrow>
     rs \<noteq> [] \<and> (\<forall>r \<in> set rs. \<not> has_fill r) \<and>
     (\<forall>r \<in> set rs. bor_error_code r \<noteq> Some ''submission_unknown'')"
  using execution_mode_not_terminal [of mode] unknown_not_retryable_reason blocked_terminal
  by (auto simp: is_retryable_failure_def aggregate_order_results_def Let_def list_ex_iff
      filter_empty_conv)

text \<open>An order the venue rejected, with nothing filled, leaves the execution retryable.\<close>

theorem retry_only_without_fill_witness:
  "is_retryable_failure
     (aggregate_order_results ''s1'' ''BTC-USD'' SPOT ''paper'' [bor_rejected ''no funds'' None] None None)"
  by (subst retry_only_without_fill) (simp add: bor_rejected_def has_fill_def)

text \<open>
  A resting order is classified as a failure. An execution whose only order the broker
  accepted and holds working has not succeeded, is retryable, and is logged as failed.
\<close>

theorem resting_order_is_retried:
  "let e = aggregate_order_results sg smb mode br [bor_accepted i] acct cur
   in bor_success (bor_accepted i) \<and> \<not> er_success e \<and> is_retryable_failure e \<and>
      execution_log_status e = ''failed''"
proof -
  have "execution_mode_value mode \<noteq> ''blocked''"
    using execution_mode_not_terminal [of mode] by (auto simp: TERMINAL_EXECUTION_MODES_def)
  then show ?thesis
    using execution_mode_not_terminal [of mode]
    by (simp add: aggregate_order_results_def bor_accepted_def has_fill_def is_retryable_failure_def
        execution_log_status_def)
qed

end
