(* ===== verification/Execution_Costs.thy ===== *)
theory Execution_Costs
  imports Py_Prelude
begin

text \<open>
  The execution cost rates of \<open>lib_common/execution_costs.py\<close> and the side normalisation of
  \<open>execution_engine/metrics/normalization.py\<close>, both used by the paper broker.
\<close>

section \<open>Rates\<close>

definition cost_rate :: "string \<Rightarrow> number \<Rightarrow> rat res" where
  "cost_rate name v =
     (case v of
        Fin q \<Rightarrow> if q < 0 then Inl (ValueError (name @ '' must be finite and non-negative'')) else Inr q
      | _ \<Rightarrow> Inl (ValueError (name @ '' must be finite and non-negative'')))"

definition basis_points_to_fraction :: "number \<Rightarrow> rat res" where
  "basis_points_to_fraction v =
     res_bind (cost_rate ''basis points'' v) (\<lambda>bps.
     if 10000 < bps then Inl (ValueError ''basis points must not exceed 10,000'')
     else Inr (bps / 10000))"

definition fraction_to_basis_points :: "number \<Rightarrow> rat res" where
  "fraction_to_basis_points v =
     res_bind (cost_rate ''fraction'' v) (\<lambda>f.
     if 1 < f then Inl (ValueError ''fraction must not exceed 1'') else Inr (f * 10000))"

record execution_cost_rates =
  commission_fraction :: rat
  slippage_fraction :: rat

definition checked_fraction :: "rat \<Rightarrow> rat res" where
  "checked_fraction f =
     res_bind (fraction_to_basis_points (Fin f)) (\<lambda>bps. basis_points_to_fraction (Fin bps))"

definition execution_cost_rates_init :: "rat \<Rightarrow> rat \<Rightarrow> execution_cost_rates res" where
  "execution_cost_rates_init commission slippage =
     res_bind (checked_fraction commission) (\<lambda>c.
     res_bind (checked_fraction slippage) (\<lambda>s.
     Inr \<lparr>commission_fraction = c, slippage_fraction = s\<rparr>))"

definition rates_from_basis_points :: "number \<Rightarrow> number \<Rightarrow> execution_cost_rates res" where
  "rates_from_basis_points commission_bps slippage_bps =
     res_bind (basis_points_to_fraction commission_bps) (\<lambda>c.
     res_bind (basis_points_to_fraction slippage_bps) (\<lambda>s.
     execution_cost_rates_init c s))"

definition rates_from_fractions :: "number \<Rightarrow> number \<Rightarrow> execution_cost_rates res" where
  "rates_from_fractions commission slippage =
     res_bind (cost_rate ''commission_fraction'' commission) (\<lambda>c.
     res_bind (cost_rate ''slippage_fraction'' slippage) (\<lambda>s.
     execution_cost_rates_init c s))"

definition commission_bps :: "execution_cost_rates \<Rightarrow> rat res" where
  "commission_bps r = fraction_to_basis_points (Fin (commission_fraction r))"

definition slippage_bps :: "execution_cost_rates \<Rightarrow> rat res" where
  "slippage_bps r = fraction_to_basis_points (Fin (slippage_fraction r))"

section \<open>Sides\<close>

definition SIDE_NORMALIZATION :: "(string \<times> string) list" where
  "SIDE_NORMALIZATION =
     [(''buy'', ''buy''), (''sell'', ''sell''), (''long'', ''buy''), (''short'', ''sell''),
      (''up'', ''buy''), (''down'', ''sell''), (''bid'', ''buy''), (''ask'', ''sell''),
      (''open_long'', ''buy''), (''close_long'', ''sell''), (''open_short'', ''sell''),
      (''close_short'', ''buy'')]"

definition POSITION_SIDE_NORMALIZATION :: "(string \<times> string) list" where
  "POSITION_SIDE_NORMALIZATION =
     [(''buy'', ''long''), (''long'', ''long''), (''sell'', ''short''), (''short'', ''short'')]"

definition normalize_side :: "pyval \<Rightarrow> string res" where
  "normalize_side v =
     (case v of
        PStr s \<Rightarrow> (case map_of SIDE_NORMALIZATION (py_strip (py_lower s)) of
                     Some n \<Rightarrow> Inr n | None \<Rightarrow> Inl (ValueError ''Unknown trade side''))
      | _ \<Rightarrow> Inl (TypeError ''Trade side must be a string''))"

definition normalize_position_side :: "pyval \<Rightarrow> string res" where
  "normalize_position_side v =
     (case v of
        PStr s \<Rightarrow> (case map_of POSITION_SIDE_NORMALIZATION (py_strip (py_lower s)) of
                     Some n \<Rightarrow> Inr n | None \<Rightarrow> Inl (ValueError ''Unknown position side''))
      | _ \<Rightarrow> Inl (TypeError ''Position side must be a string''))"

section \<open>Correctness\<close>

lemma checked_fraction_iff: "checked_fraction f = Inr g \<longleftrightarrow> 0 \<le> f \<and> f \<le> 1 \<and> g = f"
  by (auto simp: checked_fraction_def fraction_to_basis_points_def basis_points_to_fraction_def
      cost_rate_def res_bind_Inr_iff split: if_splits)

lemma cost_rates_valid:
  assumes "rates_from_fractions c s = Inr r"
  shows "c = Fin (commission_fraction r) \<and> s = Fin (slippage_fraction r) \<and>
         0 \<le> commission_fraction r \<and> commission_fraction r \<le> 1 \<and>
         0 \<le> slippage_fraction r \<and> slippage_fraction r \<le> 1"
  using assms
  by (auto simp: rates_from_fractions_def execution_cost_rates_init_def res_bind_Inr_iff
      checked_fraction_iff cost_rate_def split: number.splits if_splits)

text \<open>
  Cost rates survive their unit. Rates built from basis points report exactly those basis
  points back, and they are built exactly when both numbers lie between 0 and 10,000.
\<close>

theorem cost_rates_roundtrip:
  "(\<exists>r. rates_from_basis_points (Fin c) (Fin s) = Inr r \<and> commission_bps r = Inr c \<and> slippage_bps r = Inr s)
     \<longleftrightarrow> 0 \<le> c \<and> c \<le> 10000 \<and> 0 \<le> s \<and> s \<le> 10000"
  by (auto simp: rates_from_basis_points_def execution_cost_rates_init_def commission_bps_def
      slippage_bps_def basis_points_to_fraction_def fraction_to_basis_points_def cost_rate_def
      checked_fraction_def not_less)

end
