(* ===== verification/Paper_Broker.thy ===== *)
theory Paper_Broker
  imports Broker_Base Execution_Costs
begin

text \<open>
  The paper broker of \<open>execution_engine/brokers/paper.py\<close> with the linear futures fill model of
  \<open>paper_futures.py\<close>. The broker is a record of its attributes; a method is a function from the
  broker to the broker and its result, and an exception is a result that keeps the mutations made
  before it was raised. The order identifier and the clock are arguments. The durable fill committer
  is a parameter: a function on a ledger that may raise.
\<close>

section \<open>State\<close>

record option_leg_fill =
  lf_symbol :: string
  lf_side :: string
  lf_quantity :: rat
  lf_price :: rat
  lf_commission :: rat

text \<open>
  The trade of a multi-leg option order has the net cost and its legs in place of the notional and the
  commission in account currency, which no code reads back; they are zero in its record.
\<close>

datatype option_trade = SingleLeg | MultiLeg rat "option_leg_fill list"

record paper_trade =
  tr_trade_id :: string
  tr_order_id :: string
  tr_symbol :: string
  tr_side :: string
  tr_quantity :: rat
  tr_price :: rat
  tr_commission :: rat
  tr_commission_currency :: string
  tr_account_notional :: rat
  tr_account_commission :: rat
  tr_account_currency :: string
  tr_timestamp :: time
  tr_source_provenance :: "pydict option"
  tr_futures :: "(rat \<times> rat \<times> string) option"
  tr_options :: "option_trade option"

record paper_order =
  po_order_id :: string
  po_symbol :: string
  po_side :: string
  po_order_type :: string
  po_quantity :: rat
  po_limit_price :: "rat option"
  po_stop_price :: "rat option"
  po_metadata :: pydict
  po_status :: string
  po_filled_quantity :: "rat option"

record paper_broker =
  pb_account_id :: string
  pb_starting_balance :: rat
  pb_initial_cash :: rat
  pb_initial_realized_pnl :: rat
  pb_currency :: string
  pb_slippage_pct :: rat
  pb_commission_pct :: rat
  pb_instrument_costs :: "(string \<times> execution_cost_rates) list"
  pb_allow_reversal :: bool
  pb_balance :: rat
  pb_realized_pnl :: rat
  pb_positions :: "(string \<times> position) list"
  pb_orders :: "(string \<times> paper_order) list"
  pb_trade_history :: "paper_trade list"
  pb_prices :: "(string \<times> rat) list"
  pb_contract_multipliers :: "(string \<times> rat) list"
  pb_futures_leverages :: "(string \<times> rat) list"
  pb_futures_contract_types :: "(string \<times> string) list"
  pb_currency_contexts :: "(string \<times> order_currency_context) list"
  pb_position_account_basis :: "(string \<times> rat) list"
  pb_connected :: bool

section \<open>Construction\<close>

type_synonym cost_override = "string \<times> (string \<times> number) list"

definition instrument_cost :: "execution_cost_rates \<Rightarrow> cost_override \<Rightarrow> (string \<times> execution_cost_rates) res" where
  "instrument_cost defaults ov =
     (let smb = py_strip (fst ov); fields = snd ov;
          pick = (\<lambda>k v. case map_of fields k of None \<Rightarrow> Fin v | Some n \<Rightarrow> n)
      in if smb = [] then Inl (ValueError ''PaperBroker instrument cost symbol must not be blank'')
         else if list_ex (\<lambda>(k, _). k \<notin> {''slippage_pct'', ''commission_pct''}) fields
         then Inl (ValueError ''PaperBroker instrument costs contain unsupported fields'')
         else res_bind (rates_from_fractions (pick ''commission_pct'' (commission_fraction defaults))
                          (pick ''slippage_pct'' (slippage_fraction defaults))) (\<lambda>r. Inr (smb, r)))"

fun instrument_cost_table ::
    "execution_cost_rates \<Rightarrow> cost_override list \<Rightarrow> (string \<times> execution_cost_rates) list \<Rightarrow>
     (string \<times> execution_cost_rates) list res" where
  "instrument_cost_table defaults [] acc = Inr acc"
| "instrument_cost_table defaults (ov # ovs) acc =
     res_bind (instrument_cost defaults ov) (\<lambda>(s, r). instrument_cost_table defaults ovs (dict_set acc s r))"

definition paper_broker_init ::
    "string \<Rightarrow> number \<Rightarrow> number \<Rightarrow> string \<Rightarrow> number \<Rightarrow> number \<Rightarrow> number \<Rightarrow> cost_override list \<Rightarrow> bool \<Rightarrow>
     paper_broker res" where
  "paper_broker_init account_id starting cash currency realized slippage commission costs reversal =
     (let acct = py_strip account_id; cur = py_upper (py_strip currency)
      in res_bind (require (acct \<noteq> []) (ValueError ''PaperBroker requires an explicit account_id'')) (\<lambda>_.
         res_bind (require (cur \<noteq> [] \<and> py_isalnum cur \<and> length cur \<le> 10)
            (ValueError ''PaperBroker requires an explicit valid account currency'')) (\<lambda>_.
         res_bind (finite_decimal ''PaperBroker starting_balance must be finite'' starting) (\<lambda>st.
         res_bind (finite_decimal ''PaperBroker available_cash must be finite'' cash) (\<lambda>ca.
         res_bind (finite_decimal ''PaperBroker realized_pnl must be finite'' realized) (\<lambda>re.
         res_bind (require (0 < st) (ValueError ''PaperBroker starting_balance must be positive'')) (\<lambda>_.
         res_bind (require (0 \<le> ca) (ValueError ''PaperBroker available_cash cannot be negative'')) (\<lambda>_.
         res_bind (rates_from_fractions commission slippage) (\<lambda>rates.
         res_bind (instrument_cost_table rates costs []) (\<lambda>table.
         Inr \<lparr>pb_account_id = acct, pb_starting_balance = st, pb_initial_cash = ca,
              pb_initial_realized_pnl = re, pb_currency = cur,
              pb_slippage_pct = slippage_fraction rates, pb_commission_pct = commission_fraction rates,
              pb_instrument_costs = table, pb_allow_reversal = reversal, pb_balance = ca,
              pb_realized_pnl = re, pb_positions = [], pb_orders = [], pb_trade_history = [],
              pb_prices = [], pb_contract_multipliers = [], pb_futures_leverages = [],
              pb_futures_contract_types = [], pb_currency_contexts = [],
              pb_position_account_basis = [], pb_connected = True\<rparr>))))))))))"

definition reset :: "paper_broker \<Rightarrow> paper_broker" where
  "reset b =
     b\<lparr>pb_balance := pb_initial_cash b, pb_realized_pnl := pb_initial_realized_pnl b,
       pb_positions := [], pb_orders := [], pb_trade_history := [], pb_prices := [],
       pb_contract_multipliers := [], pb_futures_leverages := [], pb_futures_contract_types := [],
       pb_currency_contexts := [], pb_position_account_basis := []\<rparr>"

definition paper_capabilities :: broker_capabilities where
  "paper_capabilities =
     \<lparr>broker_type = ''paper'', supports_spot = True, supports_margin = True, supports_futures = True,
      supports_perpetual = True, supports_options = True, supports_multi_leg = True,
      supports_exact_fill_retrieval = True,
      supported_assets = [''crypto'', ''equity'', ''etf'', ''futures'', ''options'', ''fx'', ''commodities''],
      supported_symbols = [], max_leverage = 100, min_order_size = 1 / 10000, max_order_size = None,
      has_paper_trading = True, paper_base_url = None\<rparr>"

section \<open>Costs and conversion\<close>

definition get_slippage_pct :: "paper_broker \<Rightarrow> string \<Rightarrow> rat" where
  "get_slippage_pct b s =
     (case map_of (pb_instrument_costs b) s of Some r \<Rightarrow> slippage_fraction r | None \<Rightarrow> pb_slippage_pct b)"

definition get_commission_pct :: "paper_broker \<Rightarrow> string \<Rightarrow> rat" where
  "get_commission_pct b s =
     (case map_of (pb_instrument_costs b) s of Some r \<Rightarrow> commission_fraction r | None \<Rightarrow> pb_commission_pct b)"

definition position_notional :: "paper_broker \<Rightarrow> string \<Rightarrow> rat \<Rightarrow> rat \<Rightarrow> rat res" where
  "position_notional b s qty price =
     (let multiplier = (case map_of (pb_contract_multipliers b) s of None \<Rightarrow> 1 | Some m \<Rightarrow> m)
      in case map_of (pb_currency_contexts b) s of
           Some c \<Rightarrow> Inr (settlement_to_account c (qty * price * multiplier))
         | None \<Rightarrow>
             (case map_of (pb_positions b) s of
                Some p \<Rightarrow>
                  (case pos_gross_notional p of
                     Some g \<Rightarrow>
                       if pos_notional_currency p = Some (pb_currency b) \<and>
                          is_close (1 / 10 ^ 12) (1 / 10 ^ 12) price (pos_current_price p) \<and>
                          0 < pos_quantity p
                       then Inr (g * qty / pos_quantity p)
                       else Inl (ValueError ''Paper position has no observed settlement-to-account FX context'')
                   | None \<Rightarrow> Inl (ValueError ''Paper position has no observed settlement-to-account FX context''))
              | None \<Rightarrow> Inl (ValueError ''Paper position has no observed settlement-to-account FX context'')))"

section \<open>Marking\<close>

definition put_position :: "paper_broker \<Rightarrow> string \<Rightarrow> position \<Rightarrow> paper_broker" where
  "put_position b s p = b\<lparr>pb_positions := dict_set (pb_positions b) s p\<rparr>"

text \<open>The attributes set before the notional is computed, then the rest.\<close>

definition mark_terms :: "paper_broker \<Rightarrow> string \<Rightarrow> rat \<Rightarrow> position \<Rightarrow> position" where
  "mark_terms b s price p =
     p\<lparr>pos_current_price := price,
       pos_quantity_unit := (if map_of (pb_contract_multipliers b) s = None then ''asset'' else ''contracts''),
       pos_contract_multiplier := map_of (pb_contract_multipliers b) s,
       pos_leverage := map_of (pb_futures_leverages b) s,
       pos_contract_type := map_of (pb_futures_contract_types b) s\<rparr>"

definition mark_value :: "paper_broker \<Rightarrow> string \<Rightarrow> rat \<Rightarrow> position \<Rightarrow> position" where
  "mark_value b s value p =
     p\<lparr>pos_gross_notional := Some value, pos_notional_currency := Some (pb_currency b),
       pos_margin_used := map_option (\<lambda>l. value / l) (map_of (pb_futures_leverages b) s)\<rparr>"

definition mark_pnl :: "rat \<Rightarrow> rat \<Rightarrow> position \<Rightarrow> position" where
  "mark_pnl value basis p =
     p\<lparr>pos_unrealized_pnl := Some (if pos_side p = ''LONG'' then value - basis else basis - value)\<rparr>"

definition update_position_prices :: "paper_broker \<Rightarrow> string \<Rightarrow> rat \<Rightarrow> paper_broker \<times> unit res" where
  "update_position_prices b s price =
     (case map_of (pb_positions b) s of
        None \<Rightarrow> (b, Inr ())
      | Some p \<Rightarrow>
          (let p1 = mark_terms b s price p; b1 = put_position b s p1
           in case position_notional b1 s (pos_quantity p1) price of
                Inl e \<Rightarrow> (b1, Inl e)
              | Inr v \<Rightarrow>
                  (let p2 = mark_value b1 s \<bar>v\<bar> p1
                   in case map_of (pb_position_account_basis b1) s of
                        None \<Rightarrow> (put_position b1 s p2,
                                 Inl (ValueError ''Paper position omitted account-currency basis''))
                      | Some basis \<Rightarrow> (put_position b1 s (mark_pnl \<bar>v\<bar> basis p2), Inr ()))))"

definition set_price :: "paper_broker \<Rightarrow> string \<Rightarrow> rat \<Rightarrow> paper_broker \<times> unit res" where
  "set_price b s price = update_position_prices (b\<lparr>pb_prices := dict_set (pb_prices b) s price\<rparr>) s price"

definition set_currency_context ::
    "paper_broker \<Rightarrow> string \<Rightarrow> order_currency_context \<Rightarrow> paper_broker \<times> unit res" where
  "set_currency_context b raw c =
     (let s = py_strip raw
      in if s = [] then (b, Inl (ValueError ''Paper order currency context requires a symbol''))
         else if account_currency c \<noteq> pb_currency b
         then (b, Inl (ValueError ''Paper order account currency conflicts with broker account currency''))
         else if (case map_of (pb_currency_contexts b) s of None \<Rightarrow> False
                  | Some prev \<Rightarrow> settlement_currency prev \<noteq> settlement_currency c)
         then (b, Inl (ValueError ''Paper instrument settlement currency changed''))
         else (let b1 = b\<lparr>pb_currency_contexts := dict_set (pb_currency_contexts b) s c\<rparr>
               in case map_of (pb_positions b1) s of
                    None \<Rightarrow> (b1, Inr ())
                  | Some p \<Rightarrow> update_position_prices b1 s (pos_current_price p)))"

definition require_currency_context ::
    "paper_broker \<Rightarrow> order_intent \<Rightarrow> paper_broker \<times> order_currency_context res" where
  "require_currency_context b i =
     (case currency_context i of
        None \<Rightarrow> (b, Inl (ValueError ''Paper execution requires an explicit order currency context''))
      | Some c \<Rightarrow>
          (case set_currency_context b (symbol i) c of
             (b1, Inl e) \<Rightarrow> (b1, Inl e)
           | (b1, Inr _) \<Rightarrow> (b1, Inr c)))"

section \<open>Positions\<close>

definition reversal_dust :: rat where
  "reversal_dust = 1 / 10 ^ 12"

definition new_position :: "string \<Rightarrow> string \<Rightarrow> rat \<Rightarrow> rat \<Rightarrow> time \<Rightarrow> position" where
  "new_position s sd qty price now =
     \<lparr>pos_symbol = s, pos_side = sd, pos_quantity = qty, pos_entry_price = price,
      pos_current_price = price, pos_unrealized_pnl = Some 0, pos_realized_pnl = None,
      pos_margin_used = None, pos_liquidation_price = None, pos_opened_at = Some now,
      pos_quantity_unit = ''asset'', pos_contract_multiplier = None, pos_leverage = None,
      pos_contract_type = None, pos_gross_notional = None, pos_notional_currency = None\<rparr>"

definition open_position ::
    "paper_broker \<Rightarrow> string \<Rightarrow> string \<Rightarrow> rat \<Rightarrow> rat \<Rightarrow> rat \<Rightarrow> time \<Rightarrow> paper_broker \<times> unit res" where
  "open_position b s sd qty price basis now =
     update_position_prices
       (b\<lparr>pb_positions := dict_set (pb_positions b) s (new_position s sd qty price now),
          pb_position_account_basis := dict_set (pb_position_account_basis b) s basis\<rparr>) s price"

definition with_result :: "paper_broker \<times> unit res \<Rightarrow> 'a \<Rightarrow> paper_broker \<times> 'a res" where
  "with_result r x = (case r of (b, Inl e) \<Rightarrow> (b, Inl e) | (b, Inr _) \<Rightarrow> (b, Inr x))"

definition same_direction :: "position \<Rightarrow> string \<Rightarrow> bool" where
  "same_direction p sd =
     ((pos_side p = ''LONG'' \<and> sd = ''BUY'') \<or> (pos_side p = ''SHORT'' \<and> sd = ''SELL''))"

definition close_pnl :: "position \<Rightarrow> rat \<Rightarrow> rat \<Rightarrow> rat" where
  "close_pnl p closing_notional closed_basis =
     (if pos_side p = ''LONG'' then closing_notional - closed_basis else closed_basis - closing_notional)"

definition add_to_position ::
    "paper_broker \<Rightarrow> string \<Rightarrow> position \<Rightarrow> rat \<Rightarrow> rat \<Rightarrow> rat \<Rightarrow> rat \<Rightarrow> paper_broker \<times> rat res" where
  "add_to_position b s p basis qty price account_notional =
     (let total = pos_quantity p + qty;
          p1 = p\<lparr>pos_quantity := total,
                 pos_entry_price := (pos_entry_price p * pos_quantity p + price * qty) / total\<rparr>;
          b1 = (put_position b s p1)
                 \<lparr>pb_position_account_basis :=
                    dict_set (pb_position_account_basis b) s (basis + account_notional)\<rparr>
      in with_result (update_position_prices b1 s price) 0)"

definition reduce_position ::
    "paper_broker \<Rightarrow> string \<Rightarrow> string \<Rightarrow> position \<Rightarrow> rat \<Rightarrow> rat \<Rightarrow> rat \<Rightarrow> rat \<Rightarrow> bool \<Rightarrow> time \<Rightarrow>
     paper_broker \<times> rat res" where
  "reduce_position b s sd p basis qty price account_notional reversal now =
     (let closed = min qty (pos_quantity p);
          closing_notional = account_notional * (closed / qty);
          closed_basis = basis * (closed / pos_quantity p);
          pnl = close_pnl p closing_notional closed_basis;
          p1 = p\<lparr>pos_realized_pnl := Some ((case pos_realized_pnl p of None \<Rightarrow> 0 | Some r \<Rightarrow> r) + pnl)\<rparr>;
          b1 = (put_position b s p1)\<lparr>pb_realized_pnl := pb_realized_pnl b + pnl\<rparr>
      in if pos_quantity p \<le> qty
         then (if reversal_dust < qty - pos_quantity p \<and> reversal
               then with_result
                      (open_position b1 s (if sd = ''SELL'' then ''SHORT'' else ''LONG'')
                         (qty - pos_quantity p) price (max 0 (account_notional - closing_notional)) now) pnl
               else (b1\<lparr>pb_positions := dict_pop (pb_positions b1) s,
                        pb_position_account_basis := dict_pop (pb_position_account_basis b1) s\<rparr>, Inr pnl))
         else (let b2 = (put_position b1 s (p1\<lparr>pos_quantity := pos_quantity p - qty\<rparr>))
                          \<lparr>pb_position_account_basis :=
                             dict_set (pb_position_account_basis b1) s (max 0 (basis - closed_basis))\<rparr>
               in with_result (update_position_prices b2 s price) pnl))"

definition update_position ::
    "paper_broker \<Rightarrow> string \<Rightarrow> string \<Rightarrow> rat \<Rightarrow> rat \<Rightarrow> rat \<Rightarrow> bool option \<Rightarrow> time \<Rightarrow> paper_broker \<times> rat res" where
  "update_position b s sd qty price account_notional allow now =
     (if account_notional < 0
      then (b, Inl (ValueError ''Paper position update requires finite non-negative account notional''))
      else (case map_of (pb_positions b) s of
              Some p \<Rightarrow>
                (case map_of (pb_position_account_basis b) s of
                   None \<Rightarrow> (b, Inl (ValueError ''Paper position omitted account-currency basis''))
                 | Some basis \<Rightarrow>
                     if same_direction p sd then add_to_position b s p basis qty price account_notional
                     else reduce_position b s sd p basis qty price account_notional
                            (case allow of None \<Rightarrow> pb_allow_reversal b | Some r \<Rightarrow> r) now)
            | None \<Rightarrow>
                with_result
                  (open_position b s (if sd = ''BUY'' then ''LONG'' else ''SHORT'') qty price
                     account_notional now) 0))"

definition effective_fill_quantity ::
    "paper_broker \<Rightarrow> order_intent \<Rightarrow> bool \<Rightarrow> rat \<times> string option" where
  "effective_fill_quantity b i allow_reversal =
     (if allow_reversal \<or> pb_allow_reversal b \<or> side i \<noteq> ''SELL'' then (quantity i, None)
      else (let held = (case map_of (pb_positions b) (symbol i) of
                          Some p \<Rightarrow> if pos_side p = ''LONG'' then pos_quantity p else 0
                        | None \<Rightarrow> 0)
            in if held \<le> 0
               then (0, Some (''Insufficient position: cannot sell '' @ symbol i @ '' without a held long''))
               else (min (quantity i) held, None)))"

definition effective_resting_quantity :: "paper_broker \<Rightarrow> order_intent \<Rightarrow> rat \<times> string option" where
  "effective_resting_quantity b i =
     (if \<not> truthy (dict_get (metadata i) ''reduce_only'') then effective_fill_quantity b i False
      else (let expected = (if side i = ''SELL'' then ''LONG'' else ''SHORT'')
            in case map_of (pb_positions b) (symbol i) of
                 None \<Rightarrow> (0, Some ''Reduce-only order has no position to reduce'')
               | Some p \<Rightarrow>
                   if pos_side p \<noteq> expected \<or> pos_quantity p \<le> 0
                   then (0, Some ''Reduce-only order has no position to reduce'')
                   else (min (quantity i) (pos_quantity p), None)))"

section \<open>Account\<close>

record account_economics =
  ec_equity :: rat
  ec_available_balance :: rat
  ec_margin_used :: rat
  ec_unrealized_pnl :: rat

fun marked_positions :: "paper_broker \<Rightarrow> (string \<times> position) list \<Rightarrow> (position \<times> rat) list res" where
  "marked_positions b [] = Inr []"
| "marked_positions b ((k, p) # ps) =
     res_bind (position_notional b (pos_symbol p) (pos_quantity p) (pos_current_price p)) (\<lambda>v.
     res_bind (marked_positions b ps) (\<lambda>rest. Inr ((p, \<bar>v\<bar>) # rest)))"

definition unrealized_of :: "position \<Rightarrow> rat" where
  "unrealized_of p = (case pos_unrealized_pnl p of None \<Rightarrow> 0 | Some u \<Rightarrow> u)"

definition account_economics_of :: "paper_broker \<Rightarrow> account_economics res" where
  "account_economics_of b =
     res_bind (marked_positions b (pb_positions b)) (\<lambda>vs.
       let leverage = (\<lambda>p. map_of (pb_futures_leverages b) (pos_symbol p));
           total = (\<lambda>f. sum_list (map f vs));
           long_value = total (\<lambda>(p, v). if leverage p = None \<and> pos_side p = ''LONG'' then v else 0);
           short_value = total (\<lambda>(p, v). if leverage p = None \<and> pos_side p \<noteq> ''LONG'' then v else 0);
           spot_margin = total (\<lambda>(p, v). if leverage p = None then v * (1 / 10) else 0);
           futures_unrealized = total (\<lambda>(p, v). if leverage p = None then 0 else unrealized_of p);
           futures_margin = total (\<lambda>(p, v). case leverage p of None \<Rightarrow> 0 | Some l \<Rightarrow> v / l)
       in Inr \<lparr>ec_equity = pb_balance b + long_value - short_value + futures_unrealized,
               ec_available_balance = pb_balance b - spot_margin + futures_unrealized - futures_margin,
               ec_margin_used = spot_margin + futures_margin,
               ec_unrealized_pnl = total (\<lambda>(p, v). unrealized_of p)\<rparr>)"

record pnl_summary =
  ps_starting_balance :: rat
  ps_current_balance :: rat
  ps_realized_pnl :: rat
  ps_unrealized_pnl :: rat
  ps_total_pnl :: rat
  ps_return_pct :: rat

definition get_pnl_summary :: "paper_broker \<Rightarrow> pnl_summary res" where
  "get_pnl_summary b =
     res_bind (account_economics_of b) (\<lambda>e.
       Inr \<lparr>ps_starting_balance = pb_starting_balance b, ps_current_balance = pb_balance b,
            ps_realized_pnl = pb_realized_pnl b, ps_unrealized_pnl = ec_unrealized_pnl e,
            ps_total_pnl = ec_equity e - pb_starting_balance b,
            ps_return_pct = (ec_equity e - pb_starting_balance b) / pb_starting_balance b * 100\<rparr>)"

section \<open>The durable ledger\<close>

record fill_commit =
  fc_order_id :: int
  fc_result :: broker_order_result
  fc_fill :: broker_fill
  fc_instr_id :: int

type_synonym 'l committer = "('l \<Rightarrow> fill_commit \<Rightarrow> 'l res) option"

definition bind_canonical_order ::
    "'l committer \<Rightarrow> order_intent \<Rightarrow> int \<Rightarrow> int \<Rightarrow> order_intent res" where
  "bind_canonical_order committer i order_id instrument_id =
     (case committer of
        None \<Rightarrow> Inl (RuntimeError ''Durable paper execution requires a canonical fill committer'')
      | Some _ \<Rightarrow>
          if order_id \<le> 0 \<or> instrument_id \<le> 0
          then Inl (ValueError ''Durable paper execution requires positive canonical identities'')
          else Inr (i\<lparr>canonical_paper_order_id := Some order_id,
                      canonical_paper_instrument_id := Some instrument_id\<rparr>))"

definition trade_fill :: "paper_trade \<Rightarrow> broker_fill res" where
  "trade_fill t =
     broker_fill_init (tr_trade_id t) (tr_order_id t) (tr_symbol t) (tr_side t) (Fin (tr_quantity t))
       (Fin (tr_price t)) (Fin (tr_commission t)) (tr_commission_currency t) (tr_timestamp t) ''paper''"

text \<open>
  The commit changes the ledger and clears the canonical identities of the intent. No caller reads
  the intent's identities afterwards, so the callers drop the changed intent.
\<close>

definition commit_fill_before_state ::
    "'l committer \<Rightarrow> 'l \<Rightarrow> order_intent \<Rightarrow> broker_order_result \<Rightarrow> paper_trade \<Rightarrow>
     ('l \<times> order_intent) res" where
  "commit_fill_before_state committer ledger i result trade =
     (case committer of
        None \<Rightarrow> Inr (ledger, i)
      | Some commit \<Rightarrow>
          (case (canonical_paper_order_id i, canonical_paper_instrument_id i) of
             (Some order_id, Some instrument_id) \<Rightarrow>
               res_bind (trade_fill trade) (\<lambda>fill.
               res_bind (commit ledger \<lparr>fc_order_id = order_id, fc_result = result, fc_fill = fill,
                                         fc_instr_id = instrument_id\<rparr>) (\<lambda>ledger'.
               Inr (ledger', i\<lparr>canonical_paper_order_id := None, canonical_paper_instrument_id := None\<rparr>)))
           | _ \<Rightarrow> Inl (RuntimeError ''Paper fill reached state mutation without canonical order attribution'')))"

section \<open>Linear futures\<close>

record linear_futures_terms =
  ft_contract_multiplier :: rat
  ft_leverage :: rat
  ft_contract_type :: string

definition lower_text :: "pyval \<Rightarrow> string" where
  "lower_text v = (if truthy v then py_lower (py_strip (str_of v)) else [])"

definition resolve_linear_futures_terms ::
    "paper_broker \<Rightarrow> order_intent \<Rightarrow> linear_futures_terms option res" where
  "resolve_linear_futures_terms b i =
     (let d = metadata i; mode = lower_text (dict_get d ''execution_mode'');
          contract_type = lower_text (dict_get d ''contract_type'')
      in if \<not> (mode \<in> {''perpetual'', ''futures''} \<or>
                list_ex (\<lambda>k. map_of d k \<noteq> None)
                  [''contract_value_model'', ''contract_multiplier'', ''contract_type'', ''leverage''])
         then (if map_of (pb_futures_leverages b) (symbol i) \<noteq> None
               then Inl (ValueError ''Futures order omitted persisted linear contract terms'')
               else Inr None)
         else if mode \<notin> {''perpetual'', ''futures''}
         then Inl (ValueError ''Linear futures order requires execution_mode futures or perpetual'')
         else if dict_get d ''contract_value_model'' \<noteq> PStr ''linear''
         then Inl (ValueError ''Futures paper execution supports only explicit linear contracts'')
         else if contract_type \<notin> {''perpetual'', ''dated''}
         then Inl (ValueError ''Futures order requires contract_type perpetual or dated'')
         else if contract_type \<noteq> (if mode = ''perpetual'' then ''perpetual'' else ''dated'')
         then Inl (ValueError ''Futures execution_mode conflicts with contract_type'')
         else (case (py_float_text (dict_get d ''contract_multiplier''),
                     py_float_text (dict_get d ''leverage'')) of
                 (Some m, Some l) \<Rightarrow>
                   if m \<le> 0 \<or> l \<le> 0
                   then Inl (ValueError ''Futures order requires explicit positive contract multiplier and leverage'')
                   else Inr (Some \<lparr>ft_contract_multiplier = m, ft_leverage = l, ft_contract_type = contract_type\<rparr>)
               | _ \<Rightarrow> Inl (ValueError ''Futures order requires explicit positive contract multiplier and leverage'')))"

text \<open>
  The position after the fill: quantity, basis, side, and the P\&L the fill realises.
\<close>

definition projected_position ::
    "position \<Rightarrow> rat \<Rightarrow> string \<Rightarrow> rat \<Rightarrow> rat \<Rightarrow> rat \<times> rat \<times> string \<times> rat" where
  "projected_position p basis sd qty account_notional =
     (if same_direction p sd
      then (pos_quantity p + qty, basis + account_notional, pos_side p, 0)
      else (let closed = min qty (pos_quantity p);
                closing_notional = account_notional * closed / qty;
                closed_basis = basis * closed / pos_quantity p;
                realized = close_pnl p closing_notional closed_basis
            in if qty < pos_quantity p
               then (pos_quantity p - qty, basis - closed_basis, pos_side p, realized)
               else if qty = pos_quantity p then (0, 0, pos_side p, realized)
               else (qty - pos_quantity p, account_notional - closing_notional,
                     if sd = ''SELL'' then ''SHORT'' else ''LONG'', realized)))"

definition projected_futures_available ::
    "paper_broker \<Rightarrow> string \<Rightarrow> string \<Rightarrow> rat \<Rightarrow> rat \<Rightarrow> rat \<Rightarrow> rat \<Rightarrow> linear_futures_terms \<Rightarrow> (rat \<times> rat) res" where
  "projected_futures_available b s sd qty fill_price account_notional account_commission terms =
     res_bind (account_economics_of b) (\<lambda>e.
       case map_of (pb_positions b) s of
         None \<Rightarrow> Inr (ec_available_balance e - account_commission - account_notional / ft_leverage terms, 0)
       | Some p \<Rightarrow>
           (case (map_of (pb_futures_leverages b) s, map_of (pb_contract_multipliers b) s,
                  map_of (pb_futures_contract_types b) s) of
              (Some l, Some m, Some ct) \<Rightarrow>
                if \<not> is_close (1 / 10 ^ 12) (1 / 10 ^ 12) l (ft_leverage terms) \<or>
                   \<not> is_close (1 / 10 ^ 12) (1 / 10 ^ 12) m (ft_contract_multiplier terms) \<or>
                   ct \<noteq> ft_contract_type terms
                then Inl (ValueError ''Futures contract terms changed while position is open'')
                else (case map_of (pb_position_account_basis b) s of
                        None \<Rightarrow> Inl (ValueError ''Futures position omitted account-currency basis'')
                      | Some basis \<Rightarrow>
                          res_bind (position_notional b s (pos_quantity p) (pos_current_price p)) (\<lambda>v.
                            let (post_qty, post_basis, post_side, realized) =
                                  projected_position p basis sd qty account_notional;
                                current_margin = \<bar>v\<bar> / ft_leverage terms;
                                post_notional = (case map_of (pb_currency_contexts b) s of
                                    None \<Rightarrow> 0
                                  | Some c \<Rightarrow> settlement_to_account c
                                      (post_qty * fill_price * ft_contract_multiplier terms));
                                post_unrealized = (if 0 < post_qty
                                  then (if post_side = ''LONG'' then post_notional - post_basis
                                        else post_basis - post_notional) else 0);
                                post_margin = (if 0 < post_qty then post_notional / ft_leverage terms else 0)
                            in if 0 < post_qty \<and> map_of (pb_currency_contexts b) s = None
                               then Inl (LookupError s)
                               else Inr (ec_available_balance e + realized - account_commission -
                                         unrealized_of p + current_margin + post_unrealized - post_margin,
                                         realized)))
            | _ \<Rightarrow> Inl (ValueError ''Cannot apply a futures fill to non-futures position'')))"

definition forget_flat_terms :: "paper_broker \<Rightarrow> string \<Rightarrow> paper_broker" where
  "forget_flat_terms b s =
     (if map_of (pb_positions b) s \<noteq> None then b
      else b\<lparr>pb_contract_multipliers := dict_pop (pb_contract_multipliers b) s,
             pb_futures_leverages := dict_pop (pb_futures_leverages b) s,
             pb_futures_contract_types := dict_pop (pb_futures_contract_types b) s\<rparr>)"

definition filled_result ::
    "string \<Rightarrow> rat \<Rightarrow> rat \<Rightarrow> rat \<Rightarrow> string \<Rightarrow> broker_order_result" where
  "filled_result oid qty price commission currency =
     \<lparr>bor_success = True, bor_order_id = Some oid, bor_status = OS_FILLED, bor_filled_quantity = qty,
      bor_filled_price = Some price, bor_commission = commission,
      bor_commission_currency = normalized_currency (Some currency), bor_error_message = None,
      bor_error_code = None\<rparr>"

definition apply_futures_fill ::
    "paper_broker \<Rightarrow> order_intent \<Rightarrow> rat \<Rightarrow> rat \<Rightarrow> rat \<Rightarrow> rat \<Rightarrow> bool \<Rightarrow> rat \<Rightarrow> paper_trade \<Rightarrow>
     linear_futures_terms \<Rightarrow> time \<Rightarrow> paper_broker \<times> unit res" where
  "apply_futures_fill b i qty price account_notional account_commission reduce_only projected trade terms now =
     (let s = symbol i;
          b1 = b\<lparr>pb_contract_multipliers := dict_set (pb_contract_multipliers b) s (ft_contract_multiplier terms),
                 pb_futures_leverages := dict_set (pb_futures_leverages b) s (ft_leverage terms),
                 pb_futures_contract_types := dict_set (pb_futures_contract_types b) s (ft_contract_type terms)\<rparr>
      in case update_position b1 s (side i) qty price account_notional (Some (\<not> reduce_only)) now of
           (b2, Inl e) \<Rightarrow> (b2, Inl e)
         | (b2, Inr realized) \<Rightarrow>
             if \<not> is_close (1 / 10 ^ 9) (1 / 10 ^ 9) realized projected
             then (b2, Inl (ValueError ''Futures fill projection disagreed with applied realized P&L''))
             else ((forget_flat_terms
                      (b2\<lparr>pb_balance := pb_balance b2 + (realized - account_commission),
                          pb_realized_pnl := pb_realized_pnl b2 - account_commission\<rparr>) s)
                     \<lparr>pb_trade_history := pb_trade_history b2 @ [trade]\<rparr>, Inr ()))"

definition submit_linear_futures_fill ::
    "'l committer \<Rightarrow> 'l \<Rightarrow> paper_broker \<Rightarrow> order_intent \<Rightarrow> string \<Rightarrow> rat \<Rightarrow> rat \<Rightarrow> rat \<Rightarrow>
     order_currency_context \<Rightarrow> linear_futures_terms \<Rightarrow> time \<Rightarrow>
     paper_broker \<times> 'l \<times> broker_order_result res" where
  "submit_linear_futures_fill committer ledger b i oid qty price commission_pct c terms now =
     (let s = symbol i; reduce_only = (dict_get (metadata i) ''reduce_only'' = PBool True)
      in if reduce_only \<and> (case map_of (pb_positions b) s of None \<Rightarrow> True
                           | Some p \<Rightarrow> same_direction p (side i) \<or> pos_quantity p < qty)
         then (b, ledger, Inr (bor_rejected ''Reduce-only futures order cannot open or reverse a position''
                                 (Some ''reduce_only_violation'')))
         else
           (let settlement_notional = qty * price * ft_contract_multiplier terms;
                commission = settlement_notional * commission_pct;
                account_notional = settlement_to_account c settlement_notional;
                account_commission = settlement_to_account c commission
            in case projected_futures_available b s (side i) qty price account_notional account_commission terms of
                 Inl (ValueError m) \<Rightarrow> (b, ledger, Inr (bor_rejected m (Some ''contract_terms_invalid'')))
               | Inl e \<Rightarrow> (b, ledger, Inl e)
               | Inr (available, projected) \<Rightarrow>
                   if available < - (1 / 10 ^ 9)
                   then (b, ledger, Inr (bor_rejected ''Insufficient futures margin'' (Some ''insufficient_margin'')))
                   else
                     (let trade = \<lparr>tr_trade_id = oid @ '':fill:1'', tr_order_id = oid, tr_symbol = s,
                                   tr_side = side i, tr_quantity = qty, tr_price = price,
                                   tr_commission = commission, tr_commission_currency = settlement_currency c,
                                   tr_account_notional = account_notional,
                                   tr_account_commission = account_commission,
                                   tr_account_currency = pb_currency b, tr_timestamp = now,
                                   tr_source_provenance = None,
                                   tr_futures = Some (ft_contract_multiplier terms, ft_leverage terms,
                                                      ft_contract_type terms),
                                   tr_options = None\<rparr>;
                          result = filled_result oid qty price commission (settlement_currency c)
                      in case commit_fill_before_state committer ledger i result trade of
                           Inl e \<Rightarrow> (b, ledger, Inl e)
                         | Inr (ledger', _) \<Rightarrow>
                             (case apply_futures_fill b i qty price account_notional account_commission
                                     reduce_only projected trade terms now of
                                (b', Inl e) \<Rightarrow> (b', ledger', Inl e)
                              | (b', Inr _) \<Rightarrow> (b', ledger', Inr result)))))"

section \<open>Orders\<close>

definition resting_order :: "order_intent \<Rightarrow> string \<Rightarrow> paper_order" where
  "resting_order i oid =
     \<lparr>po_order_id = oid, po_symbol = symbol i, po_side = side i, po_order_type = order_type i,
      po_quantity = quantity i, po_limit_price = limit_price i, po_stop_price = stop_price i,
      po_metadata = metadata i, po_status = ''working'', po_filled_quantity = None\<rparr>"

text \<open>\<open>limit_price or x\<close>: a price of zero counts as missing.\<close>

definition given_price :: "rat option \<Rightarrow> rat option" where
  "given_price p = (case p of None \<Rightarrow> None | Some x \<Rightarrow> if x = 0 then None else Some x)"

definition reference_price_of :: "order_intent \<Rightarrow> rat option" where
  "reference_price_of i =
     (let ref = (if truthy (dict_get (metadata i) ''reference_price'')
                 then dict_get (metadata i) ''reference_price'' else dict_get (metadata i) ''price'')
      in py_float ref)"

text \<open>The price of an immediate fill, and the marks with a reference price recorded.\<close>

definition resolve_price :: "paper_broker \<Rightarrow> order_intent \<Rightarrow> paper_broker \<times> rat option" where
  "resolve_price b i =
     (case map_of (pb_prices b) (symbol i) of
        Some p \<Rightarrow> (b, Some p)
      | None \<Rightarrow>
          ((case reference_price_of i of None \<Rightarrow> b
            | Some r \<Rightarrow> b\<lparr>pb_prices := dict_set (pb_prices b) (symbol i) r\<rparr>),
           given_price (limit_price i)))"

definition fill_price_of :: "paper_broker \<Rightarrow> order_intent \<Rightarrow> rat \<Rightarrow> rat" where
  "fill_price_of b i price =
     (let slip = get_slippage_pct b (symbol i)
      in if order_type i = ''market''
         then (if side i = ''BUY'' then price * (1 + slip) else price * (1 - slip))
         else (case given_price (limit_price i) of None \<Rightarrow> price | Some l \<Rightarrow> l))"

definition spot_trade ::
    "paper_broker \<Rightarrow> order_intent \<Rightarrow> string \<Rightarrow> rat \<Rightarrow> rat \<Rightarrow> order_currency_context \<Rightarrow> time \<Rightarrow>
     pydict option \<Rightarrow> paper_trade" where
  "spot_trade b i oid qty price c ts provenance =
     (let notional = qty * price; commission = notional * get_commission_pct b (symbol i)
      in \<lparr>tr_trade_id = oid @ '':fill:1'', tr_order_id = oid, tr_symbol = symbol i, tr_side = side i,
          tr_quantity = qty, tr_price = price, tr_commission = commission,
          tr_commission_currency = settlement_currency c,
          tr_account_notional = settlement_to_account c notional,
          tr_account_commission = settlement_to_account c commission,
          tr_account_currency = pb_currency b, tr_timestamp = ts, tr_source_provenance = provenance,
          tr_futures = None, tr_options = None\<rparr>)"

definition cash_flow :: "string \<Rightarrow> paper_trade \<Rightarrow> rat" where
  "cash_flow sd t =
     (if sd = ''BUY'' then - (tr_account_notional t + tr_account_commission t)
      else tr_account_notional t - tr_account_commission t)"

definition apply_spot_fill ::
    "paper_broker \<Rightarrow> string \<Rightarrow> string \<Rightarrow> paper_trade \<Rightarrow> time \<Rightarrow> paper_broker \<times> unit res" where
  "apply_spot_fill b s sd t now =
     (case update_position (b\<lparr>pb_balance := pb_balance b + cash_flow sd t\<rparr>) s sd (tr_quantity t)
             (tr_price t) (tr_account_notional t) None now of
        (b1, Inl e) \<Rightarrow> (b1, Inl e)
      | (b1, Inr _) \<Rightarrow>
          (b1\<lparr>pb_realized_pnl := pb_realized_pnl b1 - tr_account_commission t,
              pb_trade_history := pb_trade_history b1 @ [t]\<rparr>, Inr ()))"

definition submit_spot_fill ::
    "'l committer \<Rightarrow> 'l \<Rightarrow> paper_broker \<Rightarrow> order_intent \<Rightarrow> string \<Rightarrow> rat \<Rightarrow> rat \<Rightarrow>
     order_currency_context \<Rightarrow> time \<Rightarrow> paper_broker \<times> 'l \<times> broker_order_result res" where
  "submit_spot_fill committer ledger b i oid qty price c now =
     (let t0 = spot_trade b i oid qty price c now None;
          cost = tr_account_notional t0 + tr_account_commission t0
      in if side i = ''BUY'' \<and> pb_balance b < cost
         then (b, ledger, Inr (bor_rejected ''Insufficient balance'' None))
         else (case resolve_historical_replay_fill_context (metadata i) of
                 Inl e \<Rightarrow> (b, ledger, Inl e)
               | Inr replay \<Rightarrow>
                   (let t = (case replay of None \<Rightarrow> t0
                             | Some (ts, prov) \<Rightarrow> spot_trade b i oid qty price c ts (Some prov));
                        result = filled_result oid qty price (tr_commission t) (settlement_currency c)
                    in case commit_fill_before_state committer ledger i result t of
                         Inl e \<Rightarrow> (b, ledger, Inl e)
                       | Inr (ledger', _) \<Rightarrow>
                           (case apply_spot_fill b (symbol i) (side i) t now of
                              (b', Inl e) \<Rightarrow> (b', ledger', Inl e)
                            | (b', Inr _) \<Rightarrow> (b', ledger', Inr result)))))"

text \<open>The part of \<open>submit_order\<close> after validation, for an order that fills on submission.\<close>

definition submit_market_order ::
    "'l committer \<Rightarrow> 'l \<Rightarrow> paper_broker \<Rightarrow> order_intent \<Rightarrow> linear_futures_terms option \<Rightarrow>
     order_currency_context \<Rightarrow> string \<Rightarrow> time \<Rightarrow> paper_broker \<times> 'l \<times> broker_order_result res" where
  "submit_market_order committer ledger b0 i terms c oid now =
     (case resolve_price b0 i of
        (b, None) \<Rightarrow> (b, ledger, Inr (bor_rejected (''No price available for '' @ symbol i) None))
      | (b, Some price) \<Rightarrow>
          (case effective_fill_quantity b i (terms \<noteq> None) of
             (_, Some err) \<Rightarrow> (b, ledger, Inr (bor_rejected err None))
           | (qty, None) \<Rightarrow>
               (case terms of
                  Some tm \<Rightarrow>
                    submit_linear_futures_fill committer ledger b i oid qty (fill_price_of b i price)
                      (get_commission_pct b (symbol i)) c tm now
                | None \<Rightarrow>
                    submit_spot_fill committer ledger b i oid qty (fill_price_of b i price) c now)))"

definition submit_order ::
    "'l committer \<Rightarrow> 'l \<Rightarrow> paper_broker \<Rightarrow> order_intent \<Rightarrow> string \<Rightarrow> time \<Rightarrow>
     paper_broker \<times> 'l \<times> broker_order_result res" where
  "submit_order committer ledger b i oid now =
     (case validate_order paper_capabilities i of
        Some err \<Rightarrow> (b, ledger, Inr (bor_rejected err None))
      | None \<Rightarrow>
          (case resolve_linear_futures_terms b i of
             Inl e \<Rightarrow> (b, ledger, Inr (bor_rejected (error_text e) (Some ''contract_terms_invalid'')))
           | Inr terms \<Rightarrow>
               (case require_currency_context b i of
                  (b1, Inl e) \<Rightarrow>
                    (b1, ledger, Inr (bor_rejected (error_text e) (Some ''currency_context_invalid'')))
                | (b1, Inr c) \<Rightarrow>
                    if order_type i \<noteq> [] \<and> order_type i \<noteq> ''market''
                    then (b1\<lparr>pb_orders := dict_set (pb_orders b1) oid (resting_order i oid)\<rparr>, ledger,
                          Inr (bor_accepted oid))
                    else submit_market_order committer ledger b1 i terms c oid now)))"

definition cancel_order :: "paper_broker \<Rightarrow> string \<Rightarrow> paper_broker \<times> bool" where
  "cancel_order b oid =
     (if map_of (pb_orders b) oid \<noteq> None then (b\<lparr>pb_orders := dict_pop (pb_orders b) oid\<rparr>, True)
      else (b, False))"

definition get_open_orders :: "paper_broker \<Rightarrow> string option \<Rightarrow> paper_order list" where
  "get_open_orders b s =
     filter (\<lambda>r. case s of None \<Rightarrow> True | Some x \<Rightarrow> po_symbol r = x) (map snd (pb_orders b))"

definition get_order_status :: "paper_broker \<Rightarrow> string \<Rightarrow> broker_order_result" where
  "get_order_status b oid =
     (case find (\<lambda>t. tr_order_id t = oid) (pb_trade_history b) of
        None \<Rightarrow> bor_rejected (''Order not found: '' @ oid) None
      | Some t \<Rightarrow> filled_result oid (tr_quantity t) (tr_price t) (tr_commission t) (tr_commission_currency t))"

fun fills_of :: "paper_trade list \<Rightarrow> broker_fill list res" where
  "fills_of [] = Inr []"
| "fills_of (t # ts) = res_bind (trade_fill t) (\<lambda>f. res_bind (fills_of ts) (\<lambda>fs. Inr (f # fs)))"

definition get_fills :: "paper_broker \<Rightarrow> string \<Rightarrow> broker_fill list res" where
  "get_fills b oid = fills_of (filter (\<lambda>t. tr_order_id t = oid) (pb_trade_history b))"

section \<open>Resting fills\<close>

record paper_fill_plan =
  fp_intent :: order_intent
  fp_result :: broker_order_result
  fp_fill :: broker_fill
  fp_trade :: paper_trade

definition resting_trade ::
    "paper_broker \<Rightarrow> order_intent \<Rightarrow> string \<Rightarrow> string \<Rightarrow> rat \<Rightarrow> rat \<Rightarrow> order_currency_context \<Rightarrow> time \<Rightarrow>
     pydict \<Rightarrow> paper_trade" where
  "resting_trade b i oid trade_id qty price c ts provenance =
     (let notional = qty * price; commission = \<bar>notional * get_commission_pct b (symbol i)\<bar>
      in \<lparr>tr_trade_id = py_strip trade_id, tr_order_id = py_strip oid, tr_symbol = symbol i,
          tr_side = side i, tr_quantity = qty, tr_price = price, tr_commission = commission,
          tr_commission_currency = settlement_currency c,
          tr_account_notional = settlement_to_account c notional,
          tr_account_commission = settlement_to_account c commission,
          tr_account_currency = pb_currency b, tr_timestamp = ts,
          tr_source_provenance = Some provenance, tr_futures = None, tr_options = None\<rparr>)"

text \<open>The part of \<open>prepare_resting_fill\<close> after the conversion is recorded, which changes nothing.\<close>

definition resting_plan ::
    "paper_broker \<Rightarrow> order_intent \<Rightarrow> order_currency_context \<Rightarrow> string \<Rightarrow> string \<Rightarrow> number \<Rightarrow> number \<Rightarrow> time \<Rightarrow>
     pydict \<Rightarrow> bool \<Rightarrow> bool \<Rightarrow> paper_fill_plan res" where
  "resting_plan b i c oid trade_id raw_qty raw_price ts provenance slippage terminal =
     (let bad = ''Paper resting fill requires positive finite quantity and price''
      in res_bind (finite_decimal bad raw_qty) (\<lambda>q.
         res_bind (finite_decimal bad raw_price) (\<lambda>ref.
         res_bind (require (0 < q \<and> 0 < ref) (ValueError bad)) (\<lambda>_.
         case effective_resting_quantity b i of
           (_, Some err) \<Rightarrow> Inl (CustomError ''ReduceOnlyPositionUnavailableError'' err)
         | (requested, None) \<Rightarrow>
             (let qty = min q requested; slip = get_slippage_pct b (symbol i);
                  price = (if slippage then ref * (if side i = ''BUY'' then 1 + slip else 1 - slip) else ref);
                  t = resting_trade b i oid trade_id qty price c ts provenance
              in res_bind (require (\<not> (side i = ''BUY'' \<and>
                     pb_balance b < tr_account_notional t + tr_account_commission t))
                   (ValueError ''Insufficient balance'')) (\<lambda>_.
                 res_bind (broker_fill_init trade_id oid (symbol i) (side i) (Fin qty) (Fin price)
                   (Fin (tr_commission t)) (settlement_currency c) ts ''paper'') (\<lambda>fill.
                 Inr \<lparr>fp_intent = i,
                      fp_result = (filled_result oid qty price (tr_commission t) (settlement_currency c))
                        \<lparr>bor_status := (if terminal then OS_FILLED else OS_PARTIALLY_FILLED)\<rparr>,
                      fp_fill = fill, fp_trade = t\<rparr>)))))))"

definition prepare_resting_fill ::
    "paper_broker \<Rightarrow> order_intent \<Rightarrow> string \<Rightarrow> string \<Rightarrow> number \<Rightarrow> number \<Rightarrow> time \<Rightarrow> pydict \<Rightarrow> bool \<Rightarrow> bool \<Rightarrow>
     paper_broker \<times> paper_fill_plan res" where
  "prepare_resting_fill b i oid trade_id raw_qty raw_price ts provenance slippage terminal =
     (case validate_order paper_capabilities i of
        Some err \<Rightarrow> (b, Inl (ValueError err))
      | None \<Rightarrow>
          (case resolve_linear_futures_terms b i of
             Inl e \<Rightarrow> (b, Inl e)
           | Inr (Some _) \<Rightarrow>
               (b, Inl (ValueError ''Durable resting-fill lifecycle currently supports spot orders only''))
           | Inr None \<Rightarrow>
               (case require_currency_context b i of
                  (b1, Inl e) \<Rightarrow> (b1, Inl e)
                | (b1, Inr c) \<Rightarrow>
                    (b1, resting_plan b1 i c oid trade_id raw_qty raw_price ts provenance slippage terminal))))"

definition apply_committed_fill :: "paper_broker \<Rightarrow> paper_fill_plan \<Rightarrow> time \<Rightarrow> paper_broker \<times> unit res" where
  "apply_committed_fill b plan now =
     (let i = fp_intent plan; oid = (case bor_order_id (fp_result plan) of None \<Rightarrow> [] | Some x \<Rightarrow> x)
      in case apply_spot_fill b (symbol i) (side i) (fp_trade plan) now of
           (b1, Inl e) \<Rightarrow> (b1, Inl e)
         | (b1, Inr _) \<Rightarrow>
             if is_terminal (fp_result plan) then (b1\<lparr>pb_orders := dict_pop (pb_orders b1) oid\<rparr>, Inr ())
             else (case map_of (pb_orders b1) oid of
                     None \<Rightarrow> (b1, Inr ())
                   | Some r \<Rightarrow>
                       (b1\<lparr>pb_orders := dict_set (pb_orders b1) oid
                             (r\<lparr>po_filled_quantity :=
                                  Some ((case po_filled_quantity r of None \<Rightarrow> 0 | Some f \<Rightarrow> f) +
                                        bf_quantity (fp_fill plan))\<rparr>)\<rparr>, Inr ())))"

section \<open>Rehydration\<close>

record position_seed =
  sd_symbol :: string
  sd_side :: string
  sd_quantity :: rat
  sd_entry_price :: rat
  sd_current_price :: rat
  sd_quantity_unit :: string
  sd_contract_multiplier :: "rat option"
  sd_leverage :: "rat option"
  sd_contract_type :: "string option"
  sd_gross_notional :: rat
  sd_notional_currency :: string
  sd_account_basis :: rat

definition blank :: "pyval \<Rightarrow> bool" where
  "blank v = (v = PNone \<or> v = PStr [])"

text \<open>\<open>float(v or default)\<close>.\<close>

definition float_or :: "pyval \<Rightarrow> rat \<Rightarrow> rat res" where
  "float_or v dflt =
     (if truthy v
      then (case py_float v of None \<Rightarrow> Inl (ValueError ''could not convert to float'') | Some q \<Rightarrow> Inr q)
      else Inr dflt)"

definition seed_contract_multiplier :: "pydict \<Rightarrow> string \<Rightarrow> rat option res" where
  "seed_contract_multiplier e unit =
     (if unit \<noteq> ''contracts'' then Inr None
      else (case py_float_text (dict_get e ''contract_multiplier'') of
              None \<Rightarrow> Inl (ValueError ''Contract position rehydration requires a positive multiplier'')
            | Some m \<Rightarrow> if m \<le> 0
                        then Inl (ValueError ''Contract position rehydration requires a positive multiplier'')
                        else Inr (Some m)))"

definition seed_futures_terms ::
    "pydict \<Rightarrow> string \<Rightarrow> rat option \<Rightarrow> (rat option \<times> string option) res" where
  "seed_futures_terms e unit multiplier =
     (if blank (dict_get e ''leverage'')
      then (if \<not> blank (dict_get e ''contract_type'')
            then Inl (ValueError ''Futures position rehydration contract_type requires leverage'')
            else Inr (None, None))
      else (case py_float_text (dict_get e ''leverage'') of
              None \<Rightarrow> Inl (ValueError ''Futures position rehydration requires positive leverage'')
            | Some l \<Rightarrow>
                if l \<le> 0 \<or> unit \<noteq> ''contracts'' \<or> multiplier = None
                then Inl (ValueError ''Futures position rehydration requires exact contract economics'')
                else (let ct = lower_text (dict_get e ''contract_type'')
                      in if ct \<notin> {''perpetual'', ''dated''}
                         then Inl (ValueError ''Futures position rehydration requires a valid contract_type'')
                         else Inr (Some l, Some ct))))"

definition seed_amount :: "pyval \<Rightarrow> string \<Rightarrow> string \<Rightarrow> rat res" where
  "seed_amount v missing_message bad_message =
     (if blank v then Inl (ValueError missing_message)
      else (case py_float_text v of
              None \<Rightarrow> Inl (ValueError ''could not convert to float'')
            | Some q \<Rightarrow> if q \<le> 0 then Inl (ValueError bad_message) else Inr q))"

definition seed_symbol :: "pydict \<Rightarrow> string" where
  "seed_symbol e = (if truthy (dict_get e ''symbol'') then str_of (dict_get e ''symbol'') else [])"

definition validate_position_seed :: "paper_broker \<Rightarrow> pydict \<Rightarrow> position_seed option res" where
  "validate_position_seed b e =
     res_bind (float_or (dict_get e ''quantity'') 0) (\<lambda>raw_qty.
     if seed_symbol e = [] \<or> map_of (pb_positions b) (seed_symbol e) \<noteq> None \<or> \<bar>raw_qty\<bar> < 1 / 10 ^ 12
     then Inr None
     else
       res_bind (normalize_position_side (dict_get e ''side'')) (\<lambda>sd.
       res_bind (float_or (dict_get e ''entry_price'') 0) (\<lambda>entry.
       res_bind (float_or (dict_get e ''current_price'') entry) (\<lambda>current.
       res_bind (require (0 < entry \<and> 0 < current)
          (ValueError ''Position rehydration requires positive finite prices'')) (\<lambda>_.
       let unit = lower_text (dict_get e ''quantity_unit'')
       in res_bind (require (unit \<in> {''asset'', ''contracts''})
             (ValueError ''Unknown paper position quantity unit'')) (\<lambda>_.
          res_bind (seed_contract_multiplier e unit) (\<lambda>multiplier.
          res_bind (seed_futures_terms e unit multiplier) (\<lambda>(leverage, contract_type).
          res_bind (seed_amount (dict_get e ''gross_notional'')
             ''Position rehydration requires an explicit gross_notional''
             ''Position rehydration requires a positive gross_notional'') (\<lambda>gross.
          let cur = (if truthy (dict_get e ''notional_currency'')
                     then py_upper (py_strip (str_of (dict_get e ''notional_currency''))) else [])
          in res_bind (require (cur = pb_currency b)
                (ValueError ''Paper position notional currency conflicts with account currency'')) (\<lambda>_.
             res_bind (seed_amount (dict_get e ''account_cost_basis'')
                ''Position rehydration requires explicit account-currency basis''
                ''Position rehydration requires a positive account-currency basis'') (\<lambda>basis.
             Inr (Some \<lparr>sd_symbol = seed_symbol e, sd_side = py_upper sd, sd_quantity = \<bar>raw_qty\<bar>,
                        sd_entry_price = entry, sd_current_price = current, sd_quantity_unit = unit,
                        sd_contract_multiplier = multiplier, sd_leverage = leverage,
                        sd_contract_type = contract_type, sd_gross_notional = gross,
                        sd_notional_currency = cur, sd_account_basis = basis\<rparr>))))))))))))"

fun validate_seeds :: "paper_broker \<Rightarrow> pydict list \<Rightarrow> position_seed list res" where
  "validate_seeds b [] = Inr []"
| "validate_seeds b (e # es) =
     res_bind (validate_position_seed b e) (\<lambda>o1.
     res_bind (validate_seeds b es) (\<lambda>seeds.
     Inr (case o1 of None \<Rightarrow> seeds | Some x \<Rightarrow> x # seeds)))"

definition seeded_position :: "position_seed \<Rightarrow> time \<Rightarrow> position" where
  "seeded_position e now =
     \<lparr>pos_symbol = sd_symbol e, pos_side = sd_side e, pos_quantity = sd_quantity e,
      pos_entry_price = sd_entry_price e, pos_current_price = sd_current_price e,
      pos_unrealized_pnl = Some (if sd_side e = ''LONG'' then sd_gross_notional e - sd_account_basis e
                                 else sd_account_basis e - sd_gross_notional e),
      pos_realized_pnl = None, pos_margin_used = None, pos_liquidation_price = None,
      pos_opened_at = Some now, pos_quantity_unit = sd_quantity_unit e,
      pos_contract_multiplier = sd_contract_multiplier e, pos_leverage = sd_leverage e,
      pos_contract_type = sd_contract_type e, pos_gross_notional = Some (sd_gross_notional e),
      pos_notional_currency = Some (sd_notional_currency e)\<rparr>"

definition load_seed :: "paper_broker \<Rightarrow> position_seed \<Rightarrow> bool \<Rightarrow> time \<Rightarrow> paper_broker \<times> unit res" where
  "load_seed b e adjust_cash now =
     (let s = sd_symbol e;
          b1 = (case sd_contract_multiplier e of None \<Rightarrow> b
                | Some m \<Rightarrow> b\<lparr>pb_contract_multipliers := dict_set (pb_contract_multipliers b) s m\<rparr>);
          b2 = (case (sd_leverage e, sd_contract_type e) of
                  (Some l, Some ct) \<Rightarrow>
                    b1\<lparr>pb_futures_leverages := dict_set (pb_futures_leverages b1) s l,
                       pb_futures_contract_types := dict_set (pb_futures_contract_types b1) s ct\<rparr>
                | _ \<Rightarrow> b1);
          b3 = (put_position b2 s (seeded_position e now))
                 \<lparr>pb_position_account_basis := dict_set (pb_position_account_basis b2) s (sd_account_basis e),
                  pb_prices := (if map_of (pb_prices b2) s = None
                                then dict_set (pb_prices b2) s (sd_current_price e) else pb_prices b2)\<rparr>;
          b4 = (if adjust_cash \<and> sd_leverage e = None
                then b3\<lparr>pb_balance := pb_balance b3 +
                          (if sd_side e = ''LONG'' then - sd_account_basis e else sd_account_basis e)\<rparr>
                else b3)
      in if map_of (pb_currency_contexts b4) s = None then (b4, Inr ())
         else update_position_prices b4 s (sd_current_price e))"

fun load_seeds :: "paper_broker \<Rightarrow> position_seed list \<Rightarrow> bool \<Rightarrow> time \<Rightarrow> paper_broker \<times> unit res" where
  "load_seeds b [] adjust_cash now = (b, Inr ())"
| "load_seeds b (e # es) adjust_cash now =
     (case load_seed b e adjust_cash now of
        (b1, Inl err) \<Rightarrow> (b1, Inl err)
      | (b1, Inr _) \<Rightarrow> load_seeds b1 es adjust_cash now)"

definition load_positions :: "paper_broker \<Rightarrow> pydict list \<Rightarrow> bool \<Rightarrow> time \<Rightarrow> paper_broker \<times> unit res" where
  "load_positions b entries adjust_cash now =
     (case validate_seeds b entries of
        Inl e \<Rightarrow> (b, Inl e)
      | Inr seeds \<Rightarrow> load_seeds b seeds adjust_cash now)"

end
