(* ===== verification/Paper_Accounting.thy ===== *)
theory Paper_Accounting
  imports Paper_Broker
begin

text \<open>
  The accounting of the paper broker: cash, cost basis, realised and unrealised P\&L balance to the
  last unit in every state that orders, fills, marks and conversions can reach; spot positions stay
  long; and no economic state changes before the durable ledger has accepted the fill.
\<close>

section \<open>Dictionary facts\<close>

lemma dict_set_set [simp]: "dict_set (dict_set d k v) k w = dict_set d k w"
  by (induction d k v rule: dict_set.induct) auto

lemma dict_pop_set [simp]: "dict_pop (dict_set d k v) k = dict_pop d k"
  by (induction d k v rule: dict_set.induct) (auto simp: dict_pop_def)

lemma dict_pop_pop [simp]: "dict_pop (dict_pop d k) k = dict_pop d k"
  by (simp add: dict_pop_def)

lemma dict_sum_split:
  "distinct_keys d \<Longrightarrow>
     dict_sum f d = dict_sum f (dict_pop d k) + (case map_of d k of None \<Rightarrow> 0 | Some v \<Rightarrow> f k v)"
  by (simp add: dict_sum_pop)

lemma dict_pop_mem: "(k', v) \<in> set (dict_pop d k) \<longleftrightarrow> (k', v) \<in> set d \<and> k' \<noteq> k"
  by (auto simp: dict_pop_def)

lemma distinct_map_of: "distinct_keys d \<Longrightarrow> (k, v) \<in> set d \<Longrightarrow> map_of d k = Some v"
  by (simp add: distinct_keys_def)

section \<open>The book\<close>

definition pos_value :: "paper_broker \<Rightarrow> string \<Rightarrow> position \<Rightarrow> rat res" where
  "pos_value b s p = position_notional b s (pos_quantity p) (pos_current_price p)"

definition pnl_for :: "position \<Rightarrow> rat \<Rightarrow> rat \<Rightarrow> rat" where
  "pnl_for p value basis = (if pos_side p = ''LONG'' then value - basis else basis - value)"

definition pos_ok :: "paper_broker \<Rightarrow> string \<Rightarrow> position \<Rightarrow> bool" where
  "pos_ok b s p =
     (pos_symbol p = s \<and> 0 < pos_quantity p \<and> pos_side p \<in> {''LONG'', ''SHORT''} \<and>
      (\<exists>basis v. map_of (pb_position_account_basis b) s = Some basis \<and> 0 \<le> basis \<and>
                 pos_value b s p = Inr v \<and> pos_unrealized_pnl p = Some (pnl_for p \<bar>v\<bar> basis)))"

definition book_ok :: "paper_broker \<Rightarrow> bool" where
  "book_ok b = (distinct_keys (pb_positions b) \<and>
     (\<forall>s p. map_of (pb_positions b) s = Some p \<longrightarrow> pos_ok b s p))"

definition basis_of :: "paper_broker \<Rightarrow> string \<Rightarrow> rat" where
  "basis_of b s = (case map_of (pb_position_account_basis b) s of None \<Rightarrow> 0 | Some x \<Rightarrow> x)"

text \<open>The signed cost basis of one position that exchanged its principal for cash.\<close>

definition spot_basis_of :: "paper_broker \<Rightarrow> string \<Rightarrow> position \<Rightarrow> rat" where
  "spot_basis_of b s p =
     (if map_of (pb_futures_leverages b) s \<noteq> None then 0
      else if pos_side p = ''LONG'' then basis_of b s else - basis_of b s)"

definition spot_basis :: "paper_broker \<Rightarrow> rat" where
  "spot_basis b = dict_sum (spot_basis_of b) (pb_positions b)"

definition cash_ok :: "paper_broker \<Rightarrow> bool" where
  "cash_ok b =
     (pb_balance b + spot_basis b =
        pb_initial_cash b + (pb_realized_pnl b - pb_initial_realized_pnl b))"

section \<open>Equity\<close>

lemma sum_list_combine:
  fixes f g h :: "'a \<Rightarrow> rat"
  shows "sum_list (map f xs) - sum_list (map g xs) + sum_list (map h xs) =
         sum_list (map (\<lambda>x. f x - g x + h x) xs)"
  by (induction xs) (auto simp: algebra_simps)

lemma dict_sum_add: "dict_sum (\<lambda>k v. f k v + g k v) d = dict_sum f d + dict_sum g d"
  by (induction d) (auto simp: algebra_simps)

lemma marked_positions_ok:
  assumes "\<And>s p. (s, p) \<in> set ps \<Longrightarrow> pos_ok b s p"
  shows "\<exists>vs. marked_positions b ps = Inr vs \<and>
    (\<forall>f. sum_list (map (\<lambda>(p, v). f p v) vs) = dict_sum (\<lambda>s p. f p \<bar>projr (pos_value b s p)\<bar>) ps)"
  using assms
proof (induction ps)
  case (Cons x ps)
  obtain s p where x: "x = (s, p)" by fastforce
  from Cons.prems x have "pos_ok b s p" by simp
  then obtain v where v: "position_notional b s (pos_quantity p) (pos_current_price p) = Inr v" "pos_symbol p = s"
    by (auto simp: pos_ok_def pos_value_def)
  from Cons.IH Cons.prems obtain vs where vs: "marked_positions b ps = Inr vs"
    "\<forall>f. sum_list (map (\<lambda>(p, v). f p v) vs) = dict_sum (\<lambda>s p. f p \<bar>projr (pos_value b s p)\<bar>) ps"
    by force
  then show ?case using v x by (simp add: pos_value_def)
qed simp

definition equity_part :: "paper_broker \<Rightarrow> position \<Rightarrow> rat \<Rightarrow> rat" where
  "equity_part b p v =
     (if map_of (pb_futures_leverages b) (pos_symbol p) = None \<and> pos_side p = ''LONG'' then v else 0) -
     (if map_of (pb_futures_leverages b) (pos_symbol p) = None \<and> pos_side p \<noteq> ''LONG'' then v else 0) +
     (if map_of (pb_futures_leverages b) (pos_symbol p) = None then 0 else unrealized_of p)"

lemma equity_part_ok:
  assumes "pos_ok b s p"
  shows "equity_part b p \<bar>projr (pos_value b s p)\<bar> = spot_basis_of b s p + unrealized_of p"
  using assms
  by (auto simp: pos_ok_def equity_part_def spot_basis_of_def basis_of_def unrealized_of_def pnl_for_def)

lemma book_equity:
  assumes "book_ok b"
  shows "\<exists>e. account_economics_of b = Inr e \<and> ec_equity e = pb_balance b + spot_basis b + ec_unrealized_pnl e"
proof -
  have ok: "pos_ok b s p" if "(s, p) \<in> set (pb_positions b)" for s p
    using assms distinct_map_of [OF _ that] by (simp add: book_ok_def)
  then obtain vs where vs: "marked_positions b (pb_positions b) = Inr vs"
    and sums: "\<And>f. sum_list (map (\<lambda>(p, v). f p v) vs) =
        dict_sum (\<lambda>s p. f p \<bar>projr (pos_value b s p)\<bar>) (pb_positions b)"
    using marked_positions_ok [of "pb_positions b" b] by blast
  have "sum_list (map (\<lambda>(p, v). equity_part b p v) vs) =
        dict_sum (\<lambda>s p. spot_basis_of b s p + unrealized_of p) (pb_positions b)"
    unfolding sums by (rule dict_sum_cong) (use ok equity_part_ok in blast)
  also have "\<dots> = spot_basis b + sum_list (map (\<lambda>(p, v). unrealized_of p) vs)"
    unfolding dict_sum_add sums spot_basis_def by simp
  finally have "sum_list (map (\<lambda>(p, v). equity_part b p v) vs) =
    spot_basis b + sum_list (map (\<lambda>(p, v). unrealized_of p) vs)" .
  moreover have "(\<lambda>(p, v). equity_part b p v) =
    (\<lambda>x. (case x of (p, v) \<Rightarrow> if map_of (pb_futures_leverages b) (pos_symbol p) = None \<and> pos_side p = ''LONG'' then v else 0) -
     (case x of (p, v) \<Rightarrow> if map_of (pb_futures_leverages b) (pos_symbol p) = None \<and> pos_side p \<noteq> ''LONG'' then v else 0) +
     (case x of (p, v) \<Rightarrow> if map_of (pb_futures_leverages b) (pos_symbol p) = None then 0 else unrealized_of p))"
    by (auto simp: fun_eq_iff equity_part_def)
  ultimately show ?thesis
    using vs by (simp add: account_economics_of_def Let_def sum_list_combine [symmetric])
qed

section \<open>Marking\<close>

definition marked :: "paper_broker \<Rightarrow> string \<Rightarrow> rat \<Rightarrow> rat \<Rightarrow> rat \<Rightarrow> position \<Rightarrow> position" where
  "marked b s price value basis p = mark_pnl value basis (mark_value b s value (mark_terms b s price p))"

lemma marked_fields [simp]:
  "pos_symbol (marked b s price v basis p) = pos_symbol p"
  "pos_side (marked b s price v basis p) = pos_side p"
  "pos_quantity (marked b s price v basis p) = pos_quantity p"
  "pos_current_price (marked b s price v basis p) = price"
  "pos_unrealized_pnl (marked b s price v basis p) = Some (pnl_for p v basis)"
  "pos_gross_notional (marked b s price v basis p) = Some v"
  "pos_notional_currency (marked b s price v basis p) = Some (pb_currency b)"
  by (simp_all add: marked_def mark_pnl_def mark_value_def mark_terms_def pnl_for_def)

lemma mark_terms_fields [simp]:
  "pos_quantity (mark_terms b s price p) = pos_quantity p"
  "pos_gross_notional (mark_terms b s price p) = pos_gross_notional p"
  "pos_notional_currency (mark_terms b s price p) = pos_notional_currency p"
  "pos_current_price (mark_terms b s price p) = price"
  by (simp_all add: mark_terms_def)

lemma put_position_fields [simp]:
  "pb_positions (put_position b s p) = dict_set (pb_positions b) s p"
  "pb_position_account_basis (put_position b s p) = pb_position_account_basis b"
  "pb_currency (put_position b s p) = pb_currency b"
  "pb_currency_contexts (put_position b s p) = pb_currency_contexts b"
  "pb_contract_multipliers (put_position b s p) = pb_contract_multipliers b"
  "pb_futures_leverages (put_position b s p) = pb_futures_leverages b"
  "pb_futures_contract_types (put_position b s p) = pb_futures_contract_types b"
  "pb_balance (put_position b s p) = pb_balance b"
  "pb_realized_pnl (put_position b s p) = pb_realized_pnl b"
  "put_position (put_position b s p) s q = put_position b s q"
  by (simp_all add: put_position_def)

text \<open>The notional of a symbol reads only that symbol's context, multiplier and position.\<close>

lemma position_notional_cong:
  assumes "map_of (pb_contract_multipliers b') s = map_of (pb_contract_multipliers b) s"
    and "map_of (pb_currency_contexts b') s = map_of (pb_currency_contexts b) s"
    and "map_of (pb_positions b') s = map_of (pb_positions b) s" and "pb_currency b' = pb_currency b"
  shows "position_notional b' s q price = position_notional b s q price"
  unfolding position_notional_def assms ..

lemma pos_ok_cong:
  assumes "map_of (pb_contract_multipliers b') s = map_of (pb_contract_multipliers b) s"
    and "map_of (pb_currency_contexts b') s = map_of (pb_currency_contexts b) s"
    and "map_of (pb_positions b') s = map_of (pb_positions b) s" and "pb_currency b' = pb_currency b"
    and "map_of (pb_position_account_basis b') s = map_of (pb_position_account_basis b) s"
  shows "pos_ok b' s p = pos_ok b s p"
  using position_notional_cong [OF assms(1-4)] assms(5) by (simp add: pos_ok_def pos_value_def)

lemma notional_context:
  "map_of (pb_currency_contexts b) s = Some c \<Longrightarrow>
   \<exists>v. position_notional b s q price = Inr v \<and>
       v = settlement_to_account c (q * price * (case map_of (pb_contract_multipliers b) s of None \<Rightarrow> 1 | Some m \<Rightarrow> m))"
  by (simp add: position_notional_def Let_def)

text \<open>
  A position whose symbol has a context, or that carries its own account-currency notional, is
  marked without an exception, and the mark is the value that the book reports for it.
\<close>

definition markable :: "paper_broker \<Rightarrow> string \<Rightarrow> position \<Rightarrow> bool" where
  "markable b s p =
     (map_of (pb_currency_contexts b) s \<noteq> None \<or>
      (pos_gross_notional p \<noteq> None \<and> pos_notional_currency p = Some (pb_currency b)))"

lemma update_prices_marked:
  assumes p: "map_of (pb_positions b) s = Some p" and q: "0 < pos_quantity p"
    and basis: "map_of (pb_position_account_basis b) s = Some basis" and m: "markable b s p"
  shows "\<exists>v. update_position_prices b s price = (put_position b s (marked b s price v basis p), Inr ()) \<and>
             (\<exists>w. pos_value (put_position b s (marked b s price v basis p)) s (marked b s price v basis p) = Inr w
                  \<and> \<bar>w\<bar> = v)"
proof -
  let ?b1 = "put_position b s (mark_terms b s price p)"
  obtain v where v: "position_notional ?b1 s (pos_quantity p) price = Inr v"
  proof (cases "map_of (pb_currency_contexts b) s")
    case None
    then show ?thesis using m q that by (auto simp: markable_def position_notional_def Let_def)
  next
    case (Some c)
    then show ?thesis using that by (simp add: position_notional_def Let_def)
  qed
  let ?p2 = "marked b s price \<bar>v\<bar> basis p"
  have "update_position_prices b s price = (put_position b s ?p2, Inr ())"
    using p v basis
    by (simp add: update_position_prices_def Let_def marked_def mark_value_def mark_terms_def mark_pnl_def)
  moreover have "\<exists>w. pos_value (put_position b s ?p2) s ?p2 = Inr w \<and> \<bar>w\<bar> = \<bar>v\<bar>"
  proof (cases "map_of (pb_currency_contexts b) s")
    case (Some c)
    then show ?thesis using v by (simp add: pos_value_def position_notional_def Let_def)
  next
    case None
    then show ?thesis using q by (simp add: pos_value_def position_notional_def Let_def)
  qed
  ultimately show ?thesis by blast
qed

section \<open>Placing a position\<close>

definition others_ok :: "paper_broker \<Rightarrow> string \<Rightarrow> bool" where
  "others_ok b s = (distinct_keys (pb_positions b) \<and>
     (\<forall>s' p. s' \<noteq> s \<longrightarrow> map_of (pb_positions b) s' = Some p \<longrightarrow> pos_ok b s' p))"

text \<open>
  What a fill needs of the book: the other positions are consistent, and the one it touches has its
  basis; its mark may be out of date.
\<close>

definition near_ok :: "paper_broker \<Rightarrow> string \<Rightarrow> bool" where
  "near_ok b s = (others_ok b s \<and>
     (\<forall>p. map_of (pb_positions b) s = Some p \<longrightarrow>
        pos_symbol p = s \<and> 0 < pos_quantity p \<and> pos_side p \<in> {''LONG'', ''SHORT''} \<and>
        (\<exists>basis. map_of (pb_position_account_basis b) s = Some basis \<and> 0 \<le> basis)))"

lemma book_others: "book_ok b \<Longrightarrow> others_ok b s"
  by (simp add: book_ok_def others_ok_def)

lemma book_near: "book_ok b \<Longrightarrow> near_ok b s"
  unfolding near_ok_def book_ok_def others_ok_def pos_ok_def by blast

lemma near_others: "near_ok b s \<Longrightarrow> others_ok b s"
  by (simp add: near_ok_def)

lemma near_distinct: "near_ok b s \<Longrightarrow> distinct_keys (pb_positions b)"
  by (simp add: near_ok_def others_ok_def)

lemma near_position:
  assumes "near_ok b s" "map_of (pb_positions b) s = Some p"
  shows "pos_symbol p = s" "0 < pos_quantity p" "pos_side p \<in> {''LONG'', ''SHORT''}"
    "\<exists>basis. map_of (pb_position_account_basis b) s = Some basis \<and> 0 \<le> basis"
  using assms unfolding near_ok_def by blast+

definition spot_rest :: "paper_broker \<Rightarrow> string \<Rightarrow> rat" where
  "spot_rest b s = dict_sum (spot_basis_of b) (dict_pop (pb_positions b) s)"

definition signed_basis :: "paper_broker \<Rightarrow> string \<Rightarrow> string \<Rightarrow> rat \<Rightarrow> rat" where
  "signed_basis b s sd basis =
     (if map_of (pb_futures_leverages b) s \<noteq> None then 0 else if sd = ''LONG'' then basis else - basis)"

lemma spot_basis_split:
  assumes "distinct_keys (pb_positions b)"
  shows "spot_basis b = spot_rest b s +
    (case map_of (pb_positions b) s of None \<Rightarrow> 0 | Some p \<Rightarrow> signed_basis b s (pos_side p) (basis_of b s))"
  using dict_sum_split [OF assms, of "spot_basis_of b" s]
  by (simp add: spot_basis_def spot_rest_def spot_basis_of_def signed_basis_def cong: option.case_cong)

lemma spot_rest_cong:
  assumes "dict_pop (pb_positions b') s = dict_pop (pb_positions b) s"
    and "\<And>s'. s' \<noteq> s \<Longrightarrow> map_of (pb_position_account_basis b') s' = map_of (pb_position_account_basis b) s'"
    and "\<And>s'. s' \<noteq> s \<Longrightarrow> map_of (pb_futures_leverages b') s' = map_of (pb_futures_leverages b) s'"
  shows "spot_rest b' s = spot_rest b s"
  unfolding spot_rest_def assms(1)
  by (rule dict_sum_cong) (use assms(2,3) in \<open>auto simp: dict_pop_mem spot_basis_of_def basis_of_def\<close>)

text \<open>The book with the position and the basis of one symbol replaced.\<close>

definition placed :: "paper_broker \<Rightarrow> string \<Rightarrow> position \<Rightarrow> rat \<Rightarrow> paper_broker" where
  "placed b s p basis =
     b\<lparr>pb_positions := dict_set (pb_positions b) s p,
       pb_position_account_basis := dict_set (pb_position_account_basis b) s basis\<rparr>"

lemma placed_fields [simp]:
  "pb_positions (placed b s p basis) = dict_set (pb_positions b) s p"
  "pb_position_account_basis (placed b s p basis) = dict_set (pb_position_account_basis b) s basis"
  "pb_currency (placed b s p basis) = pb_currency b"
  "pb_currency_contexts (placed b s p basis) = pb_currency_contexts b"
  "pb_contract_multipliers (placed b s p basis) = pb_contract_multipliers b"
  "pb_futures_leverages (placed b s p basis) = pb_futures_leverages b"
  "pb_balance (placed b s p basis) = pb_balance b"
  "pb_realized_pnl (placed b s p basis) = pb_realized_pnl b"
  "put_position (placed b s p basis) s q = placed b s q basis"
  by (simp_all add: placed_def put_position_def)

lemma placed_spot_basis:
  assumes "distinct_keys (pb_positions b)"
  shows "spot_basis (placed b s p basis) = spot_rest b s + signed_basis b s (pos_side p) basis"
proof -
  have "spot_rest (placed b s p basis) s = spot_rest b s" by (rule spot_rest_cong) auto
  then show ?thesis
    using spot_basis_split [of "placed b s p basis" s] assms by (simp add: basis_of_def signed_basis_def)
qed

lemma placed_book_ok:
  assumes "others_ok b s" "pos_ok (placed b s p basis) s p"
  shows "book_ok (placed b s p basis)"
proof -
  have "pos_ok (placed b s p basis) s' q" if "map_of (pb_positions (placed b s p basis)) s' = Some q" for s' q
  proof (cases "s' = s")
    case True
    with that assms(2) show ?thesis by simp
  next
    case False
    then have "pos_ok (placed b s p basis) s' q = pos_ok b s' q" by (intro pos_ok_cong) auto
    with that False assms(1) show ?thesis by (simp add: others_ok_def)
  qed
  with assms(1) show ?thesis by (simp add: book_ok_def others_ok_def)
qed

lemma place_and_mark:
  assumes oth: "others_ok b s" and m: "markable b s p"
    and p: "pos_symbol p = s" "0 < pos_quantity p" "pos_side p \<in> {''LONG'', ''SHORT''}" and basis: "0 \<le> basis"
  shows "\<exists>p'. update_position_prices (placed b s p basis) s price = (placed b s p' basis, Inr ()) \<and>
              pos_side p' = pos_side p \<and> pos_quantity p' = pos_quantity p \<and> book_ok (placed b s p' basis) \<and>
              spot_basis (placed b s p' basis) = spot_rest b s + signed_basis b s (pos_side p) basis"
proof -
  let ?b1 = "placed b s p basis"
  have "markable ?b1 s p" using m by (simp add: markable_def)
  from update_prices_marked [OF _ p(2) _ this, of basis price] obtain v w where
    up: "update_position_prices ?b1 s price = (put_position ?b1 s (marked ?b1 s price v basis p), Inr ())"
    and w: "pos_value (put_position ?b1 s (marked ?b1 s price v basis p)) s (marked ?b1 s price v basis p) = Inr w"
      "\<bar>w\<bar> = v"
    by auto
  let ?p' = "marked ?b1 s price v basis p"
  have "pos_ok (placed b s ?p' basis) s ?p'"
    using w p basis unfolding pos_ok_def by (auto simp: pnl_for_def)
  from placed_book_ok [OF oth this] show ?thesis
    using up placed_spot_basis [of b s ?p' basis] oth by (auto simp: others_ok_def)
qed

section \<open>Filling\<close>

definition clean_fill :: "paper_broker \<Rightarrow> string \<Rightarrow> string \<Rightarrow> rat \<Rightarrow> bool \<Rightarrow> bool" where
  "clean_fill b s sd qty reversal =
     (case map_of (pb_positions b) s of
        None \<Rightarrow> True
      | Some p \<Rightarrow> same_direction p sd \<or> qty \<le> pos_quantity p \<or>
                  (reversal \<and> reversal_dust < qty - pos_quantity p))"

definition trade_cash :: "string \<Rightarrow> rat \<Rightarrow> rat" where
  "trade_cash sd notional = (if sd = ''BUY'' then - notional else notional)"

text \<open>
  What a position update does to the account: nothing but the position, its basis and the realised
  P\&L change; the book stays consistent; a position changes its side only if the fill may open one;
  and the cash that the fill exchanges is the change of the basis plus the P\&L, for a position that
  exchanges its principal.
\<close>

definition fill_effect ::
    "paper_broker \<Rightarrow> string \<Rightarrow> string \<Rightarrow> rat \<Rightarrow> bool \<Rightarrow> bool \<Rightarrow> paper_broker \<Rightarrow> rat \<Rightarrow> bool" where
  "fill_effect b s sd an clean opens b' pnl =
     (book_ok b' \<and>
      (\<exists>ps bs. b' = b\<lparr>pb_positions := ps, pb_position_account_basis := bs,
                       pb_realized_pnl := pb_realized_pnl b + pnl\<rparr>) \<and>
      (\<forall>s' q. map_of (pb_positions b') s' = Some q \<longrightarrow>
         (\<exists>q0. map_of (pb_positions b) s' = Some q0 \<and> pos_side q0 = pos_side q) \<or>
         (opens \<and> s' = s \<and> pos_side q = (if sd = ''BUY'' then ''LONG'' else ''SHORT''))) \<and>
      (if map_of (pb_futures_leverages b) s \<noteq> None then spot_basis b' = spot_basis b
       else clean \<longrightarrow> spot_basis b' + trade_cash sd an = spot_basis b + pnl))"

lemma placed_effect:
  assumes "book_ok (placed b1 s p basis)"
    and "b1 = b\<lparr>pb_realized_pnl := pb_realized_pnl b + pnl\<rparr>"
    and "map_of (pb_futures_leverages b) s \<noteq> None \<Longrightarrow> spot_basis (placed b1 s p basis) = spot_basis b"
    and "map_of (pb_futures_leverages b) s = None \<Longrightarrow> clean \<Longrightarrow>
           spot_basis (placed b1 s p basis) + trade_cash sd an = spot_basis b + pnl"
    and "(\<exists>q. map_of (pb_positions b) s = Some q \<and> pos_side q = pos_side p) \<or>
         (opens \<and> pos_side p = (if sd = ''BUY'' then ''LONG'' else ''SHORT''))"
  shows "fill_effect b s sd an clean opens (placed b1 s p basis) pnl"
  unfolding fill_effect_def
proof (intro conjI exI)
  show "placed b1 s p basis =
    b\<lparr>pb_positions := dict_set (pb_positions b) s p,
      pb_position_account_basis := dict_set (pb_position_account_basis b) s basis,
      pb_realized_pnl := pb_realized_pnl b + pnl\<rparr>"
    unfolding placed_def assms(2) by simp
qed (use assms in auto)

lemma new_position_fields [simp]:
  "pos_symbol (new_position s sd q price now) = s" "pos_side (new_position s sd q price now) = sd"
  "pos_quantity (new_position s sd q price now) = q"
  by (simp_all add: new_position_def)

lemma open_position_placed:
  assumes "others_ok b s" "map_of (pb_currency_contexts b) s \<noteq> None" "0 < qty" "0 \<le> basis"
    "sd \<in> {''LONG'', ''SHORT''}"
  shows "\<exists>p'. open_position b s sd qty price basis now = (placed b s p' basis, Inr ()) \<and>
              pos_side p' = sd \<and> book_ok (placed b s p' basis) \<and>
              spot_basis (placed b s p' basis) = spot_rest b s + signed_basis b s sd basis"
  using place_and_mark [of b s "new_position s sd qty price now" basis price] assms
  unfolding open_position_def placed_def [symmetric] markable_def by auto

lemma update_realized_same: "b\<lparr>pb_realized_pnl := pb_realized_pnl b + 0\<rparr> = (b :: paper_broker)"
  by simp

lemma open_effect:
  assumes "near_ok b s" "map_of (pb_positions b) s = None" "map_of (pb_currency_contexts b) s \<noteq> None"
    "0 < qty" "0 \<le> an"
  shows "\<exists>b'. open_position b s (if sd = ''BUY'' then ''LONG'' else ''SHORT'') qty price an now = (b', Inr ()) \<and>
              fill_effect b s sd an clean True b' 0"
proof -
  let ?sd = "if sd = ''BUY'' then ''LONG'' else ''SHORT''"
  obtain p' where o: "open_position b s ?sd qty price an now = (placed b s p' an, Inr ())" and sd: "pos_side p' = ?sd"
    and o': "book_ok (placed b s p' an)" "spot_basis (placed b s p' an) = spot_rest b s + signed_basis b s ?sd an"
    using open_position_placed [OF near_others [OF assms(1)] assms(3-5), of ?sd price now]
    by (cases "sd = ''BUY''") auto
  have "spot_basis b = spot_rest b s"
    using spot_basis_split [of b s] near_distinct [OF assms(1)] assms(2) by simp
  with o' sd have "fill_effect b s sd an clean True (placed b s p' an) 0"
    by (intro placed_effect [OF _ update_realized_same [symmetric]])
       (auto simp: signed_basis_def trade_cash_def)
  with o show ?thesis by blast
qed

lemma add_effect:
  assumes "near_ok b s" "map_of (pb_positions b) s = Some p" "map_of (pb_position_account_basis b) s = Some basis"
    "map_of (pb_currency_contexts b) s \<noteq> None" "0 < qty" "0 \<le> an" "same_direction p sd"
  shows "\<exists>b'. add_to_position b s p basis qty price an = (b', Inr 0) \<and> fill_effect b s sd an clean opens b' 0"
proof -
  note bp = near_position [OF assms(1,2)]
  define p1 where "p1 = p\<lparr>pos_quantity := pos_quantity p + qty,
    pos_entry_price := (pos_entry_price p * pos_quantity p + price * qty) / (pos_quantity p + qty)\<rparr>"
  have p1: "pos_symbol p1 = s" "0 < pos_quantity p1" "pos_side p1 = pos_side p"
    using bp(1,2) assms(5) by (simp_all add: p1_def)
  have basis: "0 \<le> basis + an" using bp(4) assms(3,6) by auto
  obtain p' where sd': "pos_side p' = pos_side p"
    and o: "update_position_prices (placed b s p1 (basis + an)) s price = (placed b s p' (basis + an), Inr ())"
    "book_ok (placed b s p' (basis + an))"
    "spot_basis (placed b s p' (basis + an)) = spot_rest b s + signed_basis b s (pos_side p) (basis + an)"
    using place_and_mark [OF near_others [OF assms(1)], of p1 "basis + an" price] p1 bp(3) basis assms(4)
    by (auto simp: markable_def)
  have "add_to_position b s p basis qty price an = (placed b s p' (basis + an), Inr 0)"
    using o(1) by (simp add: add_to_position_def Let_def with_result_def put_position_def placed_def p1_def)
  moreover have "spot_basis b = spot_rest b s + signed_basis b s (pos_side p) basis"
    using spot_basis_split [of b s] assms(1-3) near_distinct [of b s] by (simp add: basis_of_def)
  with o(2,3) have "fill_effect b s sd an clean opens (placed b s p' (basis + an)) 0"
    using assms(2,7) sd' by (intro placed_effect [OF _ update_realized_same [symmetric]])
       (auto simp: signed_basis_def trade_cash_def same_direction_def)
  ultimately show ?thesis by blast
qed

lemma popped_book_ok:
  assumes "others_ok b s"
  shows "book_ok (b\<lparr>pb_positions := dict_pop (pb_positions b) s,
                    pb_position_account_basis := dict_pop (pb_position_account_basis b) s\<rparr>)" (is "book_ok ?b")
proof -
  have "pos_ok ?b s' q" if "map_of (pb_positions ?b) s' = Some q" for s' q
  proof -
    have "s' \<noteq> s" "map_of (pb_positions b) s' = Some q" using that by (auto split: if_splits)
    moreover have "pos_ok ?b s' q = pos_ok b s' q" using \<open>s' \<noteq> s\<close> by (intro pos_ok_cong) auto
    ultimately show ?thesis using assms by (simp add: others_ok_def)
  qed
  then show ?thesis using assms by (simp add: book_ok_def others_ok_def)
qed

lemma popped_spot_basis:
  assumes "distinct_keys (pb_positions b)"
  shows "spot_basis (b\<lparr>pb_positions := dict_pop (pb_positions b) s,
                       pb_position_account_basis := dict_pop (pb_position_account_basis b) s\<rparr>) = spot_rest b s"
    (is "spot_basis ?b = _")
proof -
  have "spot_rest ?b s = spot_rest b s" by (rule spot_rest_cong) auto
  then show ?thesis using spot_basis_split [of ?b s] assms by simp
qed

lemma pos_ok_realized [simp]: "pos_ok (b\<lparr>pb_realized_pnl := x\<rparr>) s p = pos_ok b s p"
  by (rule pos_ok_cong) simp_all

lemma realized_irrelevant [simp]:
  "others_ok (b\<lparr>pb_realized_pnl := x\<rparr>) s = others_ok b s"
  "spot_rest (b\<lparr>pb_realized_pnl := x\<rparr>) s = spot_rest b s"
  "signed_basis (b\<lparr>pb_realized_pnl := x\<rparr>) s sd basis = signed_basis b s sd basis"
proof -
  show "spot_rest (b\<lparr>pb_realized_pnl := x\<rparr>) s = spot_rest b s" by (rule spot_rest_cong) simp_all
qed (simp_all add: others_ok_def signed_basis_def)

lemma flat_effect:
  assumes "near_ok b s" "map_of (pb_positions b) s = Some p" "map_of (pb_position_account_basis b) s = Some basis"
    and "map_of (pb_futures_leverages b) s = None \<Longrightarrow> clean \<Longrightarrow>
           trade_cash sd an = signed_basis b s (pos_side p) basis + pnl"
  shows "fill_effect b s sd an clean opens
    (b\<lparr>pb_positions := dict_pop (pb_positions b) s,
       pb_position_account_basis := dict_pop (pb_position_account_basis b) s,
       pb_realized_pnl := pb_realized_pnl b + pnl\<rparr>) pnl" (is "fill_effect b s sd an clean opens ?b' pnl")
proof -
  let ?r = "b\<lparr>pb_realized_pnl := pb_realized_pnl b + pnl\<rparr>"
  have eq: "?b' = ?r\<lparr>pb_positions := dict_pop (pb_positions ?r) s,
                   pb_position_account_basis := dict_pop (pb_position_account_basis ?r) s\<rparr>" by simp
  have oth: "others_ok ?r s" using near_others [OF assms(1)] by simp
  have book: "book_ok ?b'" unfolding eq by (rule popped_book_ok [OF oth])
  have spot: "spot_basis ?b' = spot_rest b s"
    unfolding eq using popped_spot_basis [of ?r s] oth by (simp add: others_ok_def)
  have b: "spot_basis b = spot_rest b s + signed_basis b s (pos_side p) basis"
    using spot_basis_split [of b s] assms(1-3) near_distinct [of b s] by (simp add: basis_of_def)
  show ?thesis
    unfolding fill_effect_def
  proof (intro conjI exI)
    show "?b' = b\<lparr>pb_positions := dict_pop (pb_positions b) s,
       pb_position_account_basis := dict_pop (pb_position_account_basis b) s,
       pb_realized_pnl := pb_realized_pnl b + pnl\<rparr>" ..
  qed (use book spot b assms(4) in \<open>auto simp: signed_basis_def split: if_splits\<close>)
qed

lemma opposite_direction:
  assumes "\<not> same_direction p sd" "sd \<in> {''BUY'', ''SELL''}" "pos_side p \<in> {''LONG'', ''SHORT''}"
  shows "pos_side p = ''LONG'' \<and> sd = ''SELL'' \<or> pos_side p = ''SHORT'' \<and> sd = ''BUY''"
  using assms by (auto simp: same_direction_def)

definition reduce_pnl :: "position \<Rightarrow> rat \<Rightarrow> rat \<Rightarrow> rat \<Rightarrow> rat" where
  "reduce_pnl p basis qty an =
     close_pnl p (an * (min qty (pos_quantity p) / qty)) (basis * (min qty (pos_quantity p) / pos_quantity p))"

abbreviation realize :: "paper_broker \<Rightarrow> rat \<Rightarrow> paper_broker" where
  "realize b pnl \<equiv> b\<lparr>pb_realized_pnl := pb_realized_pnl b + pnl\<rparr>"

text \<open>The three ways a fill against a position ends: part of it stays, it is closed, it is reversed.\<close>

lemma reduce_partial:
  assumes "qty < pos_quantity p"
  shows "\<exists>p2. pos_symbol p2 = pos_symbol p \<and> pos_side p2 = pos_side p \<and> pos_quantity p2 = pos_quantity p - qty \<and>
     reduce_position b s sd p basis qty price an reversal now =
       with_result (update_position_prices (placed (realize b (reduce_pnl p basis qty an)) s p2
         (max 0 (basis - basis * (qty / pos_quantity p)))) s price) (reduce_pnl p basis qty an)"
proof -
  let ?pnl = "reduce_pnl p basis qty an"
  let ?p2 = "p\<lparr>pos_realized_pnl := Some ((case pos_realized_pnl p of None \<Rightarrow> 0 | Some r \<Rightarrow> r) + ?pnl),
               pos_quantity := pos_quantity p - qty\<rparr>"
  have "reduce_position b s sd p basis qty price an reversal now =
       with_result (update_position_prices (placed (realize b ?pnl) s ?p2
         (max 0 (basis - basis * (qty / pos_quantity p)))) s price) ?pnl"
    using assms by (simp add: reduce_position_def Let_def put_position_def placed_def reduce_pnl_def)
  then show ?thesis by (intro exI [of _ ?p2]) simp
qed

lemma reduce_flat:
  assumes "pos_quantity p \<le> qty" "\<not> (reversal_dust < qty - pos_quantity p \<and> reversal)"
  shows "reduce_position b s sd p basis qty price an reversal now =
    (b\<lparr>pb_positions := dict_pop (pb_positions b) s,
       pb_position_account_basis := dict_pop (pb_position_account_basis b) s,
       pb_realized_pnl := pb_realized_pnl b + reduce_pnl p basis qty an\<rparr>, Inr (reduce_pnl p basis qty an))"
  unfolding reduce_position_def Let_def if_P [OF assms(1)] if_not_P [OF assms(2)]
  by (simp add: put_position_def reduce_pnl_def)

lemma reduce_reverse:
  assumes "pos_quantity p \<le> qty" "reversal_dust < qty - pos_quantity p \<and> reversal"
  shows "reduce_position b s sd p basis qty price an reversal now =
    with_result (open_position (realize b (reduce_pnl p basis qty an)) s
      (if sd = ''SELL'' then ''SHORT'' else ''LONG'') (qty - pos_quantity p) price
      (max 0 (an - an * (pos_quantity p / qty))) now) (reduce_pnl p basis qty an)"
  unfolding reduce_position_def Let_def if_P [OF assms(1)] if_P [OF assms(2)]
  using assms(1) by (simp add: put_position_def open_position_def reduce_pnl_def min_def)

lemma reduce_partial_effect:
  assumes book: "near_ok b s" and p: "map_of (pb_positions b) s = Some p"
    and basis: "map_of (pb_position_account_basis b) s = Some basis"
    and ctx: "map_of (pb_currency_contexts b) s \<noteq> None" and qty: "0 < qty" "qty < pos_quantity p"
    and opp: "\<not> same_direction p sd" and sd: "sd \<in> {''BUY'', ''SELL''}"
  shows "\<exists>b' pnl. reduce_position b s sd p basis qty price an reversal now = (b', Inr pnl) \<and>
     fill_effect b s sd an clean opens b' pnl"
proof -
  note bp = near_position [OF book p] and dir = opposite_direction [OF opp sd near_position(3) [OF book p]]
  let ?pnl = "reduce_pnl p basis qty an" and ?nb = "max 0 (basis - basis * (qty / pos_quantity p))"
  let ?r = "realize b ?pnl"
  have "basis * (qty / pos_quantity p) \<le> basis"
    using bp(4) basis qty mult_left_le [of "qty / pos_quantity p" basis] by simp
  then have nb: "?nb = basis - basis * (qty / pos_quantity p)" by simp
  obtain p2 where p2: "pos_symbol p2 = s" "pos_side p2 = pos_side p" "pos_quantity p2 = pos_quantity p - qty"
    and red: "reduce_position b s sd p basis qty price an reversal now =
      with_result (update_position_prices (placed ?r s p2 ?nb) s price) ?pnl"
    using reduce_partial [OF qty(2), of b s sd basis price an reversal now] bp(1) by auto
  have oth: "others_ok ?r s" using near_others [OF book] by simp
  obtain p' where sd': "pos_side p' = pos_side p"
    and o: "update_position_prices (placed ?r s p2 ?nb) s price = (placed ?r s p' ?nb, Inr ())"
    "book_ok (placed ?r s p' ?nb)"
    "spot_basis (placed ?r s p' ?nb) = spot_rest ?r s + signed_basis ?r s (pos_side p) ?nb"
    using place_and_mark [OF oth, of p2 ?nb price] p2 bp(3) qty(2) ctx by (auto simp: markable_def)
  have "spot_basis b = spot_rest b s + signed_basis b s (pos_side p) basis"
    using spot_basis_split [of b s] book p basis near_distinct [of b s] by (simp add: basis_of_def)
  then have "fill_effect b s sd an clean opens (placed ?r s p' ?nb) ?pnl"
    using o(3) dir qty nb p sd'
    by (intro placed_effect [OF o(2) refl]) (auto simp: signed_basis_def trade_cash_def reduce_pnl_def close_pnl_def)
  then show ?thesis using red o(1) by (auto simp: with_result_def)
qed

lemma reduce_reverse_effect:
  assumes book: "near_ok b s" and p: "map_of (pb_positions b) s = Some p"
    and basis: "map_of (pb_position_account_basis b) s = Some basis"
    and ctx: "map_of (pb_currency_contexts b) s \<noteq> None" and an: "0 \<le> an"
    and rev: "reversal_dust < qty - pos_quantity p \<and> reversal"
    and opp: "\<not> same_direction p sd" and sd: "sd \<in> {''BUY'', ''SELL''}"
  shows "\<exists>b' pnl. reduce_position b s sd p basis qty price an reversal now = (b', Inr pnl) \<and>
     fill_effect b s sd an clean True b' pnl"
proof -
  note bp = near_position [OF book p] and dir = opposite_direction [OF opp sd near_position(3) [OF book p]]
  let ?pnl = "reduce_pnl p basis qty an" and ?nb = "max 0 (an - an * (pos_quantity p / qty))"
  let ?r = "realize b ?pnl" and ?nsd = "if sd = ''SELL'' then ''SHORT'' else ''LONG''"
  have q: "pos_quantity p < qty" using rev less_trans [of 0 reversal_dust] by (simp add: reversal_dust_def)
  then have nb: "?nb = an - an * (pos_quantity p / qty)"
    using an bp(2) mult_left_le [of "pos_quantity p / qty" an] by simp
  have oth: "others_ok ?r s" using near_others [OF book] by simp
  obtain p' where sd': "pos_side p' = ?nsd" and o: "open_position ?r s ?nsd (qty - pos_quantity p) price ?nb now = (placed ?r s p' ?nb, Inr ())"
    "book_ok (placed ?r s p' ?nb)"
    "spot_basis (placed ?r s p' ?nb) = spot_rest ?r s + signed_basis ?r s ?nsd ?nb"
    using open_position_placed [OF oth, of "qty - pos_quantity p" ?nb ?nsd price now] ctx q
    by (cases "sd = ''SELL''") auto
  have "spot_basis b = spot_rest b s + signed_basis b s (pos_side p) basis"
    using spot_basis_split [of b s] book p basis near_distinct [of b s] by (simp add: basis_of_def)
  then have "fill_effect b s sd an clean True (placed ?r s p' ?nb) ?pnl"
    using o(3) dir q nb bp(2) sd' 
    by (intro placed_effect [OF o(2) refl]) (auto simp: signed_basis_def trade_cash_def reduce_pnl_def close_pnl_def)
  then show ?thesis
    using reduce_reverse [of p qty reversal b s sd basis price an now] rev q o(1) by (auto simp: with_result_def)
qed

lemma reduce_effect:
  assumes book: "near_ok b s" and p: "map_of (pb_positions b) s = Some p"
    and basis: "map_of (pb_position_account_basis b) s = Some basis"
    and ctx: "map_of (pb_currency_contexts b) s \<noteq> None" and qty: "0 < qty" and an: "0 \<le> an"
    and opp: "\<not> same_direction p sd" and sd: "sd \<in> {''BUY'', ''SELL''}"
  shows "\<exists>b' pnl. reduce_position b s sd p basis qty price an reversal now = (b', Inr pnl) \<and>
     fill_effect b s sd an (clean_fill b s sd qty reversal) reversal b' pnl"
proof -
  consider "qty < pos_quantity p" | "reversal_dust < qty - pos_quantity p \<and> reversal"
    | (flat) "pos_quantity p \<le> qty" "\<not> (reversal_dust < qty - pos_quantity p \<and> reversal)"
    by (meson not_less)
  then show ?thesis
  proof cases
    case flat
    have "trade_cash sd an = signed_basis b s (pos_side p) basis + reduce_pnl p basis qty an"
      if "map_of (pb_futures_leverages b) s = None" "clean_fill b s sd qty reversal"
    proof -
      have "qty = pos_quantity p" using that(2) flat p opp by (auto simp: clean_fill_def)
      then show ?thesis
        using that(1) opposite_direction [OF opp sd near_position(3) [OF book p]] qty
        by (auto simp: signed_basis_def trade_cash_def reduce_pnl_def close_pnl_def)
    qed
    from flat_effect [OF book p basis this] reduce_flat [OF flat] show ?thesis by metis
  next
    case 2
    with reduce_reverse_effect [OF book p basis ctx an 2 opp sd] show ?thesis by simp
  qed (use reduce_partial_effect [OF book p basis ctx qty _ opp sd] in blast)
qed

lemma update_position_effect:
  assumes "near_ok b s" "map_of (pb_currency_contexts b) s \<noteq> None" "0 < qty" "0 \<le> an" "sd \<in> {''BUY'', ''SELL''}"
  shows "\<exists>b' pnl. update_position b s sd qty price an allow now = (b', Inr pnl) \<and>
     fill_effect b s sd an
       (clean_fill b s sd qty (case allow of None \<Rightarrow> pb_allow_reversal b | Some r \<Rightarrow> r))
       (map_of (pb_positions b) s = None \<or> (case allow of None \<Rightarrow> pb_allow_reversal b | Some r \<Rightarrow> r)) b' pnl"
proof (cases "map_of (pb_positions b) s")
  case None
  then show ?thesis
    using open_effect [OF assms(1) None assms(2-4), of sd price now True] assms(4)
    by (auto simp: update_position_def with_result_def clean_fill_def)
next
  case (Some p)
  obtain basis where basis: "map_of (pb_position_account_basis b) s = Some basis"
    using near_position(4) [OF assms(1) Some] by blast
  show ?thesis
  proof (cases "same_direction p sd")
    case True
    with add_effect [OF assms(1) Some basis assms(2-4) True, of price] Some basis assms(4) show ?thesis
      by (simp add: update_position_def) blast
  next
    case False
    with reduce_effect [OF assms(1) Some basis assms(2-4) False assms(5), of price _ now] Some basis assms(4)
    show ?thesis by (simp add: update_position_def)
  qed
qed

lemma book_position:
  assumes "book_ok b" "map_of (pb_positions b) s = Some p"
  shows "pos_symbol p = s" "0 < pos_quantity p" "pos_side p \<in> {''LONG'', ''SHORT''}"
    "\<exists>basis. map_of (pb_position_account_basis b) s = Some basis \<and> 0 \<le> basis"
  using assms unfolding book_ok_def pos_ok_def by blast+

section \<open>The account invariant\<close>

definition spot_long :: "paper_broker \<Rightarrow> bool" where
  "spot_long b =
     (\<forall>s p. map_of (pb_positions b) s = Some p \<longrightarrow> map_of (pb_futures_leverages b) s = None \<longrightarrow>
            pos_side p = ''LONG'')"

definition balanced :: "paper_broker \<Rightarrow> bool" where
  "balanced b = (book_ok b \<and> cash_ok b)"

definition long_only :: "paper_broker \<Rightarrow> bool" where
  "long_only b = (spot_long b \<and> \<not> pb_allow_reversal b)"

text \<open>
  What every operation does to a balanced account: it stays balanced, and a long-only account stays
  long-only.
\<close>

definition evolves :: "paper_broker \<Rightarrow> paper_broker \<Rightarrow> bool" where
  "evolves b b' = (balanced b' \<and> (long_only b \<longrightarrow> long_only b'))"

lemma evolves_refl: "balanced b \<Longrightarrow> evolves b b"
  by (simp add: evolves_def)

lemma evolves_trans: "evolves b b1 \<Longrightarrow> evolves b1 b2 \<Longrightarrow> evolves b b2"
  by (simp add: evolves_def)

lemma evolves_balanced: "evolves b b' \<Longrightarrow> balanced b'"
  by (simp add: evolves_def)

lemma balanced_book: "balanced b \<Longrightarrow> book_ok b"
  by (simp add: balanced_def)

lemma book_ok_cong:
  assumes "pb_positions b' = pb_positions b" "pb_position_account_basis b' = pb_position_account_basis b"
    "pb_currency_contexts b' = pb_currency_contexts b" "pb_contract_multipliers b' = pb_contract_multipliers b"
    "pb_currency b' = pb_currency b"
  shows "book_ok b' = book_ok b"
  unfolding book_ok_def using pos_ok_cong [of b' _ b] assms by auto

lemma spot_basis_cong:
  assumes "pb_positions b' = pb_positions b" "pb_position_account_basis b' = pb_position_account_basis b"
    "pb_futures_leverages b' = pb_futures_leverages b"
  shows "spot_basis b' = spot_basis b"
  unfolding spot_basis_def spot_basis_of_def [abs_def] basis_of_def [abs_def] assms ..

text \<open>The invariant reads neither the marks, the working orders nor the trade history.\<close>

lemma balanced_marks [simp]: "balanced (b\<lparr>pb_prices := x\<rparr>) = balanced b"
  using book_ok_cong [of "b\<lparr>pb_prices := x\<rparr>" b] spot_basis_cong [of "b\<lparr>pb_prices := x\<rparr>" b]
  by (simp add: balanced_def cash_ok_def)

lemma balanced_orders [simp]: "balanced (b\<lparr>pb_orders := x\<rparr>) = balanced b"
  using book_ok_cong [of "b\<lparr>pb_orders := x\<rparr>" b] spot_basis_cong [of "b\<lparr>pb_orders := x\<rparr>" b]
  by (simp add: balanced_def cash_ok_def)

lemma balanced_history [simp]: "balanced (b\<lparr>pb_trade_history := x\<rparr>) = balanced b"
  using book_ok_cong [of "b\<lparr>pb_trade_history := x\<rparr>" b] spot_basis_cong [of "b\<lparr>pb_trade_history := x\<rparr>" b]
  by (simp add: balanced_def cash_ok_def)

lemma long_only_frame [simp]:
  "long_only (b\<lparr>pb_prices := x\<rparr>) = long_only b"
  "long_only (b\<lparr>pb_orders := y\<rparr>) = long_only b"
  "long_only (b\<lparr>pb_trade_history := z\<rparr>) = long_only b"
  by (simp_all add: long_only_def spot_long_def)

lemma evolves_frame [simp]:
  "evolves b0 (b\<lparr>pb_prices := x\<rparr>) = evolves b0 b"
  "evolves b0 (b\<lparr>pb_orders := y\<rparr>) = evolves b0 b"
  "evolves b0 (b\<lparr>pb_trade_history := z\<rparr>) = evolves b0 b"
  by (simp_all add: evolves_def)

lemma dict_set_same: "map_of d k = Some v \<Longrightarrow> dict_set d k v = d"
  by (induction d k v rule: dict_set.induct) (auto split: if_splits)

lemma placed_same:
  assumes "map_of (pb_positions b) s = Some p" "map_of (pb_position_account_basis b) s = Some basis"
  shows "placed b s p basis = b"
  using assms by (simp add: placed_def dict_set_same)

lemma pos_ok_markable: "pos_ok b s p \<Longrightarrow> map_of (pb_positions b) s = Some p \<Longrightarrow> markable b s p"
  by (auto simp: pos_ok_def pos_value_def position_notional_def markable_def Let_def
      split: option.splits if_splits)

text \<open>Marking a position to a new price or conversion changes no money, no side and no quantity.\<close>

definition shape :: "(string \<times> position) list \<Rightarrow> string \<Rightarrow> (string \<times> rat) option" where
  "shape ps s = map_option (\<lambda>p. (pos_side p, pos_quantity p)) (map_of ps s)"

definition same_shape :: "(string \<times> position) list \<Rightarrow> (string \<times> position) list \<Rightarrow> bool" where
  "same_shape ps qs = (\<forall>s. shape ps s = shape qs s)"

lemma same_shape_refl [simp]: "same_shape ps ps"
  by (simp add: same_shape_def)

lemma same_shape_side:
  "same_shape ps qs \<Longrightarrow> map_option pos_side (map_of ps s) = map_option pos_side (map_of qs s)"
  unfolding same_shape_def shape_def
  by (drule spec [of _ s]) (cases "map_of ps s"; cases "map_of qs s"; simp)

lemma remark_effect:
  assumes oth: "others_ok b s" and p: "map_of (pb_positions b) s = Some p" "markable b s p"
    and ok: "pos_symbol p = s" "0 < pos_quantity p" "pos_side p \<in> {''LONG'', ''SHORT''}"
    and basis: "map_of (pb_position_account_basis b) s = Some basis" "0 \<le> basis"
  shows "\<exists>ps. update_position_prices b s price = (b\<lparr>pb_positions := ps\<rparr>, Inr ()) \<and>
              book_ok (b\<lparr>pb_positions := ps\<rparr>) \<and> spot_basis (b\<lparr>pb_positions := ps\<rparr>) = spot_basis b \<and>
              same_shape ps (pb_positions b)"
proof -
  note same = placed_same [OF p(1) basis(1)]
  obtain p' where o: "update_position_prices b s price = (placed b s p' basis, Inr ())"
    "pos_side p' = pos_side p" "pos_quantity p' = pos_quantity p" "book_ok (placed b s p' basis)"
    "spot_basis (placed b s p' basis) = spot_rest b s + signed_basis b s (pos_side p) basis"
    using place_and_mark [OF oth p(2) ok basis(2), of price] unfolding same by blast
  have eq: "placed b s p' basis = b\<lparr>pb_positions := dict_set (pb_positions b) s p'\<rparr>"
    using basis(1) by (simp add: placed_def dict_set_same)
  have "spot_basis b = spot_rest b s + signed_basis b s (pos_side p) basis"
    using spot_basis_split [of b s] oth p(1) basis(1) by (simp add: others_ok_def basis_of_def)
  with o p(1) show ?thesis unfolding eq
    by (intro exI [of _ "dict_set (pb_positions b) s p'"]) (simp add: same_shape_def shape_def)
qed

lemma repositioned_evolves:
  assumes "balanced b" "book_ok b'" "spot_basis b' = spot_basis b"
    and "same_shape (pb_positions b') (pb_positions b)"
    and "pb_futures_leverages b' = pb_futures_leverages b" "pb_balance b' = pb_balance b"
    "pb_realized_pnl b' = pb_realized_pnl b" "pb_initial_cash b' = pb_initial_cash b"
    "pb_initial_realized_pnl b' = pb_initial_realized_pnl b" "pb_allow_reversal b' = pb_allow_reversal b"
  shows "evolves b b'"
proof -
  have "spot_long b'" if long: "spot_long b"
    unfolding spot_long_def
  proof (intro allI impI)
    fix s p
    assume "map_of (pb_positions b') s = Some p" "map_of (pb_futures_leverages b') s = None"
    with same_shape_side [OF assms(4), of s] obtain q where "map_of (pb_positions b) s = Some q" "pos_side q = pos_side p"
      by (cases "map_of (pb_positions b) s") auto
    with \<open>map_of (pb_futures_leverages b') s = None\<close> long assms(5) show "pos_side p = ''LONG''"
      by (auto simp: spot_long_def)
  qed
  with assms show ?thesis by (simp add: evolves_def balanced_def long_only_def cash_ok_def)
qed

lemma set_price_effect:
  assumes "book_ok b"
  shows "\<exists>ps. set_price b s price =
      (b\<lparr>pb_prices := dict_set (pb_prices b) s price, pb_positions := ps\<rparr>, Inr ()) \<and>
    book_ok (b\<lparr>pb_prices := dict_set (pb_prices b) s price, pb_positions := ps\<rparr>) \<and>
    spot_basis (b\<lparr>pb_prices := dict_set (pb_prices b) s price, pb_positions := ps\<rparr>) = spot_basis b \<and>
    same_shape ps (pb_positions b)"
proof -
  let ?b = "b\<lparr>pb_prices := dict_set (pb_prices b) s price\<rparr>"
  have book: "book_ok ?b" using assms book_ok_cong [of ?b b] by simp
  have spot: "spot_basis ?b = spot_basis b" by (rule spot_basis_cong) simp_all
  show ?thesis
  proof (cases "map_of (pb_positions b) s")
    case None
    have eq: "?b\<lparr>pb_positions := pb_positions b\<rparr> = ?b" by simp
    show ?thesis
      using book spot None
      by (intro exI [of _ "pb_positions b"]) (simp add: eq set_price_def update_position_prices_def)
  next
    case (Some p)
    then have ok: "pos_ok ?b s p" and p: "map_of (pb_positions ?b) s = Some p"
      using book by (auto simp: book_ok_def)
    obtain basis where basis: "map_of (pb_position_account_basis ?b) s = Some basis" "0 \<le> basis"
      using book_position(4) [OF book p] by blast
    from remark_effect [OF book_others [OF book] p pos_ok_markable [OF ok p] book_position(1-3) [OF book p] basis,
        of price]
    show ?thesis using spot unfolding set_price_def by auto
  qed
qed

lemma set_price_evolves:
  assumes "balanced b"
  shows "\<exists>b'. set_price b s price = (b', Inr ()) \<and> evolves b b'"
proof -
  define b1 where "b1 = (\<lambda>ps. b\<lparr>pb_prices := dict_set (pb_prices b) s price, pb_positions := ps\<rparr>)"
  obtain ps where up: "set_price b s price = (b1 ps, Inr ())" "book_ok (b1 ps)" "spot_basis (b1 ps) = spot_basis b"
    "same_shape ps (pb_positions b)"
    using set_price_effect [OF balanced_book [OF assms], of s price] unfolding b1_def by blast
  have "evolves b (b1 ps)"
    by (rule repositioned_evolves [OF assms up(2,3)]) (use up(4) in \<open>simp_all add: b1_def\<close>)
  then show ?thesis using up(1) by (intro exI conjI)
qed

lemma context_others:
  assumes "book_ok b"
  shows "others_ok (b\<lparr>pb_currency_contexts := dict_set (pb_currency_contexts b) s c\<rparr>) s"
proof -
  have "pos_ok (b\<lparr>pb_currency_contexts := dict_set (pb_currency_contexts b) s c\<rparr>) s' p = pos_ok b s' p"
    if "s' \<noteq> s" for s' p
    using that by (intro pos_ok_cong) auto
  with assms show ?thesis by (simp add: others_ok_def book_ok_def)
qed

text \<open>A new conversion re-marks the position of its symbol and nothing else.\<close>

lemma set_context_effect:
  assumes book: "book_ok b" and set: "set_currency_context b raw c = (b', Inr u)"
  shows "\<exists>ps. b' = b\<lparr>pb_currency_contexts := dict_set (pb_currency_contexts b) (py_strip raw) c, pb_positions := ps\<rparr> \<and>
    book_ok b' \<and> spot_basis b' = spot_basis b \<and> same_shape ps (pb_positions b)"
proof -
  define s where "s = py_strip raw"
  define b1 where "b1 = b\<lparr>pb_currency_contexts := dict_set (pb_currency_contexts b) s c\<rparr>"
  have b': "(b', Inr u) = (case map_of (pb_positions b1) s of None \<Rightarrow> (b1, Inr ())
      | Some p \<Rightarrow> update_position_prices b1 s (pos_current_price p))"
    using set unfolding set_currency_context_def Let_def s_def [symmetric] b1_def [symmetric]
    by (auto split: if_splits)
  have oth: "others_ok b1 s" using context_others [OF book] by (simp add: b1_def)
  have ctx: "map_of (pb_currency_contexts b1) s = Some c" by (simp add: b1_def)
  have spot: "spot_basis b1 = spot_basis b" by (rule spot_basis_cong) (simp_all add: b1_def)
  show ?thesis
  proof (cases "map_of (pb_positions b1) s")
    case None
    have "book_ok b1" unfolding book_ok_def
    proof (intro conjI allI impI)
      show "distinct_keys (pb_positions b1)" using oth by (simp add: others_ok_def)
    next
      fix s' q
      assume q: "map_of (pb_positions b1) s' = Some q"
      with None have "s' \<noteq> s" by fastforce
      with oth q show "pos_ok b1 s' q" by (simp add: others_ok_def)
    qed
    then show ?thesis
      using None b' spot unfolding s_def [symmetric] by (intro exI [of _ "pb_positions b"]) (simp add: b1_def)
  next
    case (Some p)
    then have p: "map_of (pb_positions b) s = Some p" by (simp add: b1_def)
    obtain basis where basis: "map_of (pb_position_account_basis b1) s = Some basis" "0 \<le> basis"
      using book_position(4) [OF book p] by (auto simp: b1_def)
    have m: "markable b1 s p" using ctx by (simp add: markable_def)
    obtain ps where up: "update_position_prices b1 s (pos_current_price p) = (b1\<lparr>pb_positions := ps\<rparr>, Inr ())"
      "book_ok (b1\<lparr>pb_positions := ps\<rparr>)" "spot_basis (b1\<lparr>pb_positions := ps\<rparr>) = spot_basis b1"
      "same_shape ps (pb_positions b1)"
      using remark_effect [OF oth Some m book_position(1-3) [OF book p] basis] by blast
    have "b' = b1\<lparr>pb_positions := ps\<rparr>" using b' Some up(1) by simp
    then show ?thesis
      using up(2-4) spot unfolding s_def [symmetric] by (intro exI [of _ ps]) (simp add: b1_def)
  qed
qed

text \<open>What a conversion leaves of the account it is recorded in.\<close>

definition converted_from :: "paper_broker \<Rightarrow> paper_broker \<Rightarrow> bool" where
  "converted_from b b' =
     (evolves b b' \<and> same_shape (pb_positions b') (pb_positions b) \<and>
      pb_futures_leverages b' = pb_futures_leverages b \<and> pb_allow_reversal b' = pb_allow_reversal b)"

lemma set_context_evolves:
  assumes bal: "balanced b" and set: "set_currency_context b raw c = (b', Inr u)"
  shows "converted_from b b' \<and> map_of (pb_currency_contexts b') (py_strip raw) = Some c"
proof -
  obtain ps where b': "b' = b\<lparr>pb_currency_contexts := dict_set (pb_currency_contexts b) (py_strip raw) c,
      pb_positions := ps\<rparr>" and ok: "book_ok b'" "spot_basis b' = spot_basis b" "same_shape ps (pb_positions b)"
    using set_context_effect [OF balanced_book [OF bal] set] by blast
  have "evolves b b'" by (rule repositioned_evolves [OF bal ok(1,2)]) (use ok(3) in \<open>simp_all add: b'\<close>)
  then show ?thesis using ok(3) by (simp add: b' converted_from_def)
qed

lemma set_context_error:
  assumes book: "book_ok b" and set: "set_currency_context b raw c = (b', Inl e)"
  shows "b' = b"
proof (rule ccontr)
  assume "b' \<noteq> b"
  let ?s = "py_strip raw"
  let ?b1 = "b\<lparr>pb_currency_contexts := dict_set (pb_currency_contexts b) ?s c\<rparr>"
  from set \<open>b' \<noteq> b\<close> obtain p where p: "map_of (pb_positions b) ?s = Some p"
    and up: "update_position_prices ?b1 ?s (pos_current_price p) = (b', Inl e)"
    by (auto simp: set_currency_context_def Let_def split: if_splits option.splits)
  obtain basis where basis: "map_of (pb_position_account_basis ?b1) ?s = Some basis" "0 \<le> basis"
    using book_position(4) [OF book p] by auto
  have "map_of (pb_positions ?b1) ?s = Some p" "markable ?b1 ?s p" using p by (simp_all add: markable_def)
  from remark_effect [OF context_others [OF book] this book_position(1-3) [OF book p] basis, of "pos_current_price p"]
  show False using up by auto
qed

lemma require_context_evolves:
  assumes bal: "balanced b" and rc: "require_currency_context b i = (b', r)"
  shows "converted_from b b' \<and> (\<forall>c. r = Inr c \<longrightarrow> map_of (pb_currency_contexts b') (py_strip (symbol i)) = Some c)"
proof (cases "currency_context i")
  case None
  then show ?thesis
    using assms by (auto simp: require_currency_context_def converted_from_def evolves_refl)
next
  case (Some d)
  obtain b1 r1 where set: "set_currency_context b (symbol i) d = (b1, r1)" by fastforce
  show ?thesis
  proof (cases r1)
    case (Inl e)
    with set_context_error [OF balanced_book [OF bal]] set have "b1 = b" by simp
    then show ?thesis
      using Some set Inl assms by (auto simp: require_currency_context_def converted_from_def evolves_refl)
  next
    case (Inr u)
    then show ?thesis
      using set_context_evolves [OF bal, of "symbol i" d b1 u] Some set rc
      by (auto simp: require_currency_context_def)
  qed
qed

section \<open>Spot fills\<close>

text \<open>A spot sale is covered by a held long position.\<close>

definition covered :: "paper_broker \<Rightarrow> string \<Rightarrow> string \<Rightarrow> rat \<Rightarrow> bool" where
  "covered b s sd qty =
     (sd = ''SELL'' \<longrightarrow> (\<exists>p. map_of (pb_positions b) s = Some p \<and> pos_side p = ''LONG'' \<and> qty \<le> pos_quantity p))"

text \<open>
  A spot order is clean when it closes at most what is held on the other side, or reverses it on a
  broker that reverses. Sales without reversal are clamped to the held long, so they always are.
\<close>

definition clean_spot :: "paper_broker \<Rightarrow> string \<Rightarrow> string \<Rightarrow> rat \<Rightarrow> bool" where
  "clean_spot b s sd qty =
     ((sd = ''SELL'' \<and> \<not> pb_allow_reversal b) \<or> clean_fill b s sd qty (pb_allow_reversal b))"

lemma clean_fill_shape:
  assumes "shape (pb_positions b') s = shape (pb_positions b) s"
  shows "clean_fill b' s sd qty r = clean_fill b s sd qty r"
  using assms
  by (cases "map_of (pb_positions b') s"; cases "map_of (pb_positions b) s")
     (simp_all add: clean_fill_def shape_def same_direction_def)

lemma clean_spot_converted: "converted_from b b' \<Longrightarrow> clean_spot b' s sd qty = clean_spot b s sd qty"
  using clean_fill_shape [of b' s b sd qty] by (simp add: clean_spot_def converted_from_def same_shape_def)

lemma long_only_clean:
  assumes "long_only b" "map_of (pb_futures_leverages b) s = None" "sd \<in> {''BUY'', ''SELL''}"
  shows "clean_spot b s sd qty"
  using assms
  by (auto simp: clean_spot_def clean_fill_def long_only_def spot_long_def same_direction_def split: option.split)

lemma covered_clean: "covered b s ''SELL'' qty \<Longrightarrow> clean_fill b s ''SELL'' qty r"
  by (auto simp: clean_fill_def covered_def)

lemma fill_effect_frame:
  assumes "fill_effect b s sd an clean opens b' pnl"
  shows "pb_balance b' = pb_balance b" "pb_realized_pnl b' = pb_realized_pnl b + pnl"
    "pb_futures_leverages b' = pb_futures_leverages b" "pb_initial_cash b' = pb_initial_cash b"
    "pb_initial_realized_pnl b' = pb_initial_realized_pnl b" "pb_allow_reversal b' = pb_allow_reversal b"
    "pb_trade_history b' = pb_trade_history b" "pb_currency_contexts b' = pb_currency_contexts b"
    "pb_contract_multipliers b' = pb_contract_multipliers b" "pb_currency b' = pb_currency b"
proof -
  obtain ps bs where b': "b' = b\<lparr>pb_positions := ps, pb_position_account_basis := bs,
      pb_realized_pnl := pb_realized_pnl b + pnl\<rparr>"
    using assms unfolding fill_effect_def by metis
  show "pb_balance b' = pb_balance b" "pb_realized_pnl b' = pb_realized_pnl b + pnl"
    "pb_futures_leverages b' = pb_futures_leverages b" "pb_initial_cash b' = pb_initial_cash b"
    "pb_initial_realized_pnl b' = pb_initial_realized_pnl b" "pb_allow_reversal b' = pb_allow_reversal b"
    "pb_trade_history b' = pb_trade_history b" "pb_currency_contexts b' = pb_currency_contexts b"
    "pb_contract_multipliers b' = pb_contract_multipliers b" "pb_currency b' = pb_currency b"
    unfolding b' by simp_all
qed

lemma balanced_with_cash:
  assumes "book_ok b1"
    and "pb_balance b1 + x + spot_basis b1 = pb_initial_cash b1 + (pb_realized_pnl b1 + y - pb_initial_realized_pnl b1)"
  shows "balanced (b1\<lparr>pb_balance := pb_balance b1 + x, pb_realized_pnl := pb_realized_pnl b1 + y,
                      pb_trade_history := h\<rparr>)" (is "balanced ?b")
proof -
  have "book_ok ?b = book_ok b1" by (rule book_ok_cong) simp_all
  moreover have "spot_basis ?b = spot_basis b1" by (rule spot_basis_cong) simp_all
  ultimately show ?thesis using assms by (simp add: balanced_def cash_ok_def)
qed

lemma fill_effect_long:
  assumes eff: "fill_effect b s sd an clean opens b' pnl" and long: "spot_long b"
    and opens: "opens \<Longrightarrow> sd = ''BUY'' \<or> map_of (pb_futures_leverages b) s \<noteq> None"
  shows "spot_long b'"
  unfolding spot_long_def
proof (intro allI impI)
  fix s' q
  assume q: "map_of (pb_positions b') s' = Some q" "map_of (pb_futures_leverages b') s' = None"
  then have lev: "map_of (pb_futures_leverages b) s' = None" using fill_effect_frame(3) [OF eff] by simp
  from eff q(1) have "(\<exists>q0. map_of (pb_positions b) s' = Some q0 \<and> pos_side q0 = pos_side q) \<or>
      (opens \<and> s' = s \<and> pos_side q = (if sd = ''BUY'' then ''LONG'' else ''SHORT''))"
    unfolding fill_effect_def by blast
  then show "pos_side q = ''LONG''" using long lev opens by (auto simp: spot_long_def)
qed

lemma apply_spot_fill_evolves:
  assumes bal: "balanced b" and ctx: "map_of (pb_currency_contexts b) s \<noteq> None"
    and lev: "map_of (pb_futures_leverages b) s = None" and sd: "sd \<in> {''BUY'', ''SELL''}"
    and qty: "0 < tr_quantity t" and clean: "clean_fill b s sd (tr_quantity t) (pb_allow_reversal b)"
    and cov: "\<not> pb_allow_reversal b \<Longrightarrow> covered b s sd (tr_quantity t)"
    and fill: "apply_spot_fill b s sd t now = (b', Inr u)"
  shows "evolves b b' \<and> pb_trade_history b' = pb_trade_history b @ [t] \<and>
         pb_balance b' = pb_balance b + cash_flow sd t"
proof -
  let ?b0 = "b\<lparr>pb_balance := pb_balance b + cash_flow sd t\<rparr>"
  let ?an = "tr_account_notional t" and ?ac = "tr_account_commission t"
  have an: "0 \<le> ?an"
    using fill by (cases "?an < 0") (auto simp: apply_spot_fill_def update_position_def)
  have book: "book_ok ?b0" using bal book_ok_cong [of ?b0 b] by (simp add: balanced_def)
  have spot: "spot_basis ?b0 = spot_basis b" by (rule spot_basis_cong) simp_all
  obtain b1 pnl where up: "update_position ?b0 s sd (tr_quantity t) (tr_price t) ?an None now = (b1, Inr pnl)"
    and eff: "fill_effect ?b0 s sd ?an (clean_fill ?b0 s sd (tr_quantity t) (pb_allow_reversal b))
      (map_of (pb_positions b) s = None \<or> pb_allow_reversal b) b1 pnl"
    using update_position_effect [OF book_near [OF book] _ qty an sd, of s "tr_price t" None now] ctx by auto
  note fr = fill_effect_frame [OF eff]
  have b': "b' = b1\<lparr>pb_balance := pb_balance b1 + 0, pb_realized_pnl := pb_realized_pnl b1 + (- ?ac),
                   pb_trade_history := pb_trade_history b1 @ [t]\<rparr>"
    using fill up by (simp add: apply_spot_fill_def)
  have b1: "book_ok b1" "spot_basis b1 + trade_cash sd ?an = spot_basis b + pnl"
    using eff lev clean spot by (simp_all add: fill_effect_def clean_fill_def)
  have "balanced b'"
    unfolding b'
  proof (rule balanced_with_cash [OF b1(1)])
    show "pb_balance b1 + 0 + spot_basis b1 =
      pb_initial_cash b1 + (pb_realized_pnl b1 + - ?ac - pb_initial_realized_pnl b1)"
      using bal b1(2) fr(1,2,4,5)
      by (simp add: balanced_def cash_ok_def cash_flow_def trade_cash_def split: if_splits)
  qed
  moreover have "spot_long b1" if "long_only b"
    by (rule fill_effect_long [OF eff]) (use that sd cov in \<open>auto simp: long_only_def spot_long_def covered_def\<close>)
  ultimately show ?thesis using fr(1,3,6,7) by (simp add: b' evolves_def long_only_def spot_long_def)
qed

section \<open>Futures fills\<close>

lemma forget_flat_evolves:
  assumes "balanced b"
  shows "evolves b (forget_flat_terms b s)"
proof (cases "map_of (pb_positions b) s")
  case None
  let ?b = "forget_flat_terms b s"
  have ok: "pos_ok ?b s' p = pos_ok b s' p" if "s' \<noteq> s" for s' p
    using that None by (intro pos_ok_cong) (simp_all add: forget_flat_terms_def)
  have book: "book_ok ?b"
    unfolding book_ok_def
  proof (intro conjI allI impI)
    show "distinct_keys (pb_positions ?b)" using assms None by (simp add: forget_flat_terms_def balanced_def book_ok_def)
  next
    fix s' p
    assume p: "map_of (pb_positions ?b) s' = Some p"
    then have "map_of (pb_positions b) s' = Some p" using None by (simp add: forget_flat_terms_def)
    moreover from this None have "s' \<noteq> s" by auto
    ultimately show "pos_ok ?b s' p" using ok assms by (simp add: balanced_def book_ok_def)
  qed
  have "spot_rest ?b s = spot_rest b s"
    by (rule spot_rest_cong) (simp_all add: forget_flat_terms_def None)
  then have "spot_basis ?b = spot_basis b"
    using spot_basis_split [of ?b s] spot_basis_split [of b s] book assms None
    by (simp add: forget_flat_terms_def balanced_def book_ok_def)
  moreover have "spot_long ?b" if "spot_long b"
    using that None unfolding spot_long_def forget_flat_terms_def by (auto split: if_splits)
  ultimately show ?thesis
    using book assms None by (simp add: evolves_def balanced_def long_only_def cash_ok_def forget_flat_terms_def)
qed (use assms in \<open>simp add: forget_flat_terms_def evolves_refl\<close>)

definition with_terms :: "paper_broker \<Rightarrow> string \<Rightarrow> linear_futures_terms \<Rightarrow> paper_broker" where
  "with_terms b s terms =
     b\<lparr>pb_contract_multipliers := dict_set (pb_contract_multipliers b) s (ft_contract_multiplier terms),
       pb_futures_leverages := dict_set (pb_futures_leverages b) s (ft_leverage terms),
       pb_futures_contract_types := dict_set (pb_futures_contract_types b) s (ft_contract_type terms)\<rparr>"

lemma with_terms_near:
  assumes "book_ok b"
  shows "near_ok (with_terms b s terms) s"
proof -
  have "pos_ok (with_terms b s terms) s' p = pos_ok b s' p" if "s' \<noteq> s" for s' p
    using that by (intro pos_ok_cong) (simp_all add: with_terms_def)
  then have "others_ok (with_terms b s terms) s"
    using book_others [OF assms] by (simp add: others_ok_def with_terms_def)
  then show ?thesis using book_near [OF assms, of s] by (simp add: near_ok_def with_terms_def)
qed

lemma with_terms_spot_basis:
  assumes "book_ok b" "map_of (pb_positions b) s \<noteq> None \<Longrightarrow> map_of (pb_futures_leverages b) s \<noteq> None"
  shows "spot_basis (with_terms b s terms) = spot_basis b"
proof -
  have "spot_rest (with_terms b s terms) s = spot_rest b s"
    by (rule spot_rest_cong) (simp_all add: with_terms_def)
  then show ?thesis
    using spot_basis_split [of "with_terms b s terms" s] spot_basis_split [of b s] assms
    by (auto simp: with_terms_def book_ok_def signed_basis_def split: option.splits)
qed

lemma with_terms_long: "spot_long b \<Longrightarrow> spot_long (with_terms b s terms)"
  by (auto simp: spot_long_def with_terms_def)

lemma apply_futures_fill_evolves:
  assumes bal: "balanced b" and ctx: "map_of (pb_currency_contexts b) (symbol i) \<noteq> None"
    and sd: "side i \<in> {''BUY'', ''SELL''}" and qty: "0 < qty"
    and lev: "map_of (pb_positions b) (symbol i) \<noteq> None \<Longrightarrow> map_of (pb_futures_leverages b) (symbol i) \<noteq> None"
    and fill: "apply_futures_fill b i qty price an ac ro projected trade terms now = (b', Inr u)"
  shows "evolves b b' \<and> pb_trade_history b' = pb_trade_history b @ [trade]"
proof -
  let ?s = "symbol i" and ?b1 = "with_terms b (symbol i) terms"
  have book: "book_ok b" using bal by (rule balanced_book)
  have an: "0 \<le> an" using fill by (cases "an < 0") (auto simp: apply_futures_fill_def Let_def update_position_def)
  obtain b2 pnl where up: "update_position ?b1 ?s (side i) qty price an (Some (\<not> ro)) now = (b2, Inr pnl)"
    and eff: "fill_effect ?b1 ?s (side i) an (clean_fill ?b1 ?s (side i) qty (\<not> ro))
      (map_of (pb_positions ?b1) ?s = None \<or> \<not> ro) b2 pnl"
    using update_position_effect [OF with_terms_near [OF book, of "symbol i" terms] _ qty an sd, of price "Some (\<not> ro)" now] ctx
    by (auto simp: with_terms_def)
  note fr = fill_effect_frame [OF eff]
  have spot: "spot_basis b2 = spot_basis b"
    using eff with_terms_spot_basis [OF book lev] by (simp add: fill_effect_def with_terms_def)
  have long: "spot_long b2" if "spot_long b"
    by (rule fill_effect_long [OF eff with_terms_long [OF that]]) (simp add: with_terms_def)
  define b3 where "b3 = b2\<lparr>pb_balance := pb_balance b2 + (pnl - ac), pb_realized_pnl := pb_realized_pnl b2 + (- ac),
      pb_trade_history := pb_trade_history b2\<rparr>"
  have "balanced b3"
    unfolding b3_def
  proof (rule balanced_with_cash)
    show "pb_balance b2 + (pnl - ac) + spot_basis b2 =
      pb_initial_cash b2 + (pb_realized_pnl b2 + - ac - pb_initial_realized_pnl b2)"
      using bal spot fr(1,2,4,5) by (simp add: balanced_def cash_ok_def with_terms_def)
  qed (use eff in \<open>simp add: fill_effect_def\<close>)
  moreover have "long_only b3" if "long_only b"
    using that long fr(6) by (simp add: b3_def long_only_def spot_long_def with_terms_def)
  ultimately have "evolves b b3" by (simp add: evolves_def)
  then have "evolves b (forget_flat_terms b3 ?s)"
    using evolves_trans forget_flat_evolves evolves_balanced by blast
  moreover have "b' = (forget_flat_terms b3 ?s)\<lparr>pb_trade_history := pb_trade_history b2 @ [trade]\<rparr>"
    using fill up unfolding apply_futures_fill_def Let_def with_terms_def [symmetric] b3_def
    by (simp split: if_splits)
  ultimately show ?thesis using fr(7) by (simp add: with_terms_def)
qed

section \<open>Orders\<close>

lemma resolve_price_evolves:
  assumes "resolve_price b i = (b', po)"
  shows "evolves b0 b' = evolves b0 b" "balanced b' = balanced b" "pb_currency_contexts b' = pb_currency_contexts b"
    "pb_futures_leverages b' = pb_futures_leverages b" "clean_spot b' s sd q = clean_spot b s sd q"
  using assms by (auto simp: resolve_price_def clean_spot_def clean_fill_def split: option.splits)

lemma effective_quantity_clean:
  assumes "effective_fill_quantity b i futures = (qty, None)" "0 < quantity i"
  shows "0 < qty"
    and "\<not> futures \<Longrightarrow> \<not> pb_allow_reversal b \<Longrightarrow> covered b (symbol i) (side i) qty"
    and "\<not> futures \<Longrightarrow> clean_spot b (symbol i) (side i) (quantity i) \<Longrightarrow>
           clean_fill b (symbol i) (side i) qty (pb_allow_reversal b)"
  using assms
  by (auto simp: effective_fill_quantity_def covered_def clean_spot_def clean_fill_def Let_def min_def
      split: if_splits option.splits)

lemma spot_terms:
  "resolve_linear_futures_terms b i = Inr None \<Longrightarrow> map_of (pb_futures_leverages b) (symbol i) = None"
  by (auto simp: resolve_linear_futures_terms_def Let_def split: if_splits option.splits)

lemma projected_leverage:
  assumes "projected_futures_available b s sd qty price an ac terms = Inr r" "map_of (pb_positions b) s \<noteq> None"
  shows "map_of (pb_futures_leverages b) s \<noteq> None"
  using assms
  by (auto simp: projected_futures_available_def res_bind_Inr_iff split: option.splits)

lemma submit_futures_evolves:
  assumes bal: "balanced b" and ctx: "map_of (pb_currency_contexts b) (symbol i) \<noteq> None"
    and sd: "side i \<in> {''BUY'', ''SELL''}" and qty: "0 < qty"
    and sub: "submit_linear_futures_fill cm l b i oid qty price pct c terms now = (b', l', Inr r)"
  shows "evolves b b'"
proof -
  let ?an = "settlement_to_account c (qty * price * ft_contract_multiplier terms)"
  let ?ac = "settlement_to_account c (qty * price * ft_contract_multiplier terms * pct)"
  show ?thesis
  proof (cases "b' = b")
    case False
    with sub obtain av pr tr ro where pr:
      "projected_futures_available b (symbol i) (side i) qty price ?an ?ac terms = Inr (av, pr)"
      and fill: "apply_futures_fill b i qty price ?an ?ac ro pr tr terms now = (b', Inr ())"
      by (auto simp: submit_linear_futures_fill_def Let_def
          split: if_splits sum.splits py_error.splits prod.splits)
    show ?thesis
      using apply_futures_fill_evolves [OF bal ctx sd qty projected_leverage [OF pr] fill] by blast
  qed (use bal in \<open>simp add: evolves_refl\<close>)
qed

lemma spot_trade_quantity [simp]: "tr_quantity (spot_trade b i oid qty price c ts prov) = qty"
  by (simp add: spot_trade_def Let_def)

lemma submit_spot_evolves:
  assumes bal: "balanced b" and ctx: "map_of (pb_currency_contexts b) (symbol i) \<noteq> None"
    and lev: "map_of (pb_futures_leverages b) (symbol i) = None"
    and sd: "side i \<in> {''BUY'', ''SELL''}" and qty: "0 < qty"
    and clean: "clean_fill b (symbol i) (side i) qty (pb_allow_reversal b)"
    and cov: "\<not> pb_allow_reversal b \<Longrightarrow> covered b (symbol i) (side i) qty"
    and sub: "submit_spot_fill cm l b i oid qty price c now = (b', l', Inr r)"
  shows "evolves b b'"
proof (cases "b' = b")
  case False
  with sub obtain ts prov where
    fill: "apply_spot_fill b (symbol i) (side i) (spot_trade b i oid qty price c ts prov) now = (b', Inr ())"
    by (auto simp: submit_spot_fill_def Let_def split: if_splits sum.splits option.splits prod.splits)
  show ?thesis
    using apply_spot_fill_evolves [OF bal ctx lev sd _ _ _ fill] qty clean cov by simp
qed (use bal in \<open>simp add: evolves_refl\<close>)

lemma submit_market_evolves:
  assumes bal: "balanced b" and ctx: "map_of (pb_currency_contexts b) (symbol i) \<noteq> None"
    and lev: "terms = None \<Longrightarrow> map_of (pb_futures_leverages b) (symbol i) = None"
    and sd: "side i \<in> {''BUY'', ''SELL''}" and q: "0 < quantity i"
    and clean: "terms = None \<Longrightarrow> clean_spot b (symbol i) (side i) (quantity i)"
    and mk: "submit_market_order cm l b i terms c oid now = (b', l', Inr r)"
  shows "evolves b b'"
proof -
  obtain b2 po where po: "resolve_price b i = (b2, po)" by fastforce
  note b2 = resolve_price_evolves [OF po]
  have bal2: "balanced b2" and ctx2: "map_of (pb_currency_contexts b2) (symbol i) \<noteq> None"
    and e2: "evolves b b2"
    using bal ctx b2(1) [of b] b2(2,3) by (simp_all add: evolves_refl)
  show ?thesis
  proof (cases "b' = b2")
    case False
    with mk po obtain price qty where qty: "effective_fill_quantity b2 i (terms \<noteq> None) = (qty, None)"
      and fill: "(case terms of
          Some tm \<Rightarrow> submit_linear_futures_fill cm l b2 i oid qty (fill_price_of b2 i price)
                       (get_commission_pct b2 (symbol i)) c tm now
        | None \<Rightarrow> submit_spot_fill cm l b2 i oid qty (fill_price_of b2 i price) c now) = (b', l', Inr r)"
      by (auto simp: submit_market_order_def split: option.splits prod.splits)
    note ef = effective_quantity_clean [OF qty q]
    have "evolves b2 b'"
    proof (cases terms)
      case None
      then show ?thesis
        using submit_spot_evolves [OF bal2 ctx2 _ sd ef(1)] ef(2,3) clean lev b2(4,5) fill by simp
    next
      case (Some tm)
      then show ?thesis using submit_futures_evolves [OF bal2 ctx2 sd ef(1)] fill by simp
    qed
    then show ?thesis by (rule evolves_trans [OF e2])
  qed (use e2 in simp)
qed

lemma submit_order_evolves:
  assumes bal: "balanced b" and s: "py_strip (symbol i) = symbol i" and sd: "side i \<in> {''BUY'', ''SELL''}"
    and clean: "resolve_linear_futures_terms b i = Inr None \<Longrightarrow>
                  clean_spot b (symbol i) (side i) (quantity i)"
    and sub: "submit_order cm l b i oid now = (b', l', Inr r)"
  shows "evolves b b'"
proof -
  obtain b1 rc where rc: "require_currency_context b i = (b1, rc)" by fastforce
  have b1: "converted_from b b1"
    and ctx: "\<And>c. rc = Inr c \<Longrightarrow> map_of (pb_currency_contexts b1) (symbol i) = Some c"
    using require_context_evolves [OF bal rc] unfolding s by blast+
  have e1: "evolves b b1" using b1 by (simp add: converted_from_def)
  show ?thesis
  proof (cases "b' = b \<or> b' = b1 \<or> (\<exists>x. b' = b1\<lparr>pb_orders := x\<rparr>)")
    case True
    then show ?thesis using bal e1 by (auto simp: evolves_refl)
  next
    case False
    with sub rc obtain terms c where q: "0 < quantity i"
      and terms: "resolve_linear_futures_terms b i = Inr terms" and c: "rc = Inr c"
      and mk: "submit_market_order cm l b1 i terms c oid now = (b', l', Inr r)"
      by (auto simp: submit_order_def validate_order_def
          split: option.splits sum.splits if_splits)
    have lev: "map_of (pb_futures_leverages b1) (symbol i) = None" if "terms = None"
      using spot_terms terms that b1 by (simp add: converted_from_def)
    have "evolves b1 b'"
      using submit_market_evolves [OF evolves_balanced [OF e1] _ lev sd q _ mk] ctx [OF c]
        clean clean_spot_converted [OF b1] terms by simp
    then show ?thesis by (rule evolves_trans [OF e1])
  qed
qed

section \<open>Resting fills\<close>

lemma resting_quantity_covered:
  assumes "effective_resting_quantity b i = (qty, None)" "0 < quantity i" "side i \<in> {''BUY'', ''SELL''}"
  shows "0 < qty" "\<not> pb_allow_reversal b \<Longrightarrow> covered b (symbol i) (side i) qty"
proof -
  have "0 < qty \<and> (\<not> pb_allow_reversal b \<longrightarrow> covered b (symbol i) (side i) qty)"
  proof (cases "truthy (dict_get (metadata i) ''reduce_only'')")
    case True
    then show ?thesis using assms
      by (auto simp: effective_resting_quantity_def covered_def Let_def min_def split: if_splits option.splits)
  next
    case False
    then have "effective_fill_quantity b i False = (qty, None)"
      using assms(1) by (simp add: effective_resting_quantity_def)
    from effective_quantity_clean [OF this assms(2)] show ?thesis by simp
  qed
  then show "0 < qty" "\<not> pb_allow_reversal b \<Longrightarrow> covered b (symbol i) (side i) qty" by blast+
qed

lemma covered_mono: "covered b s sd q \<Longrightarrow> q' \<le> q \<Longrightarrow> covered b s sd q'"
  by (force simp: covered_def)

lemma resting_plan_trade:
  assumes "resting_plan b i c oid tid rq rp ts prov sl tm = Inr plan"
  shows "\<exists>requested qty price. effective_resting_quantity b i = (requested, None) \<and> qty \<le> requested \<and>
           (0 < requested \<longrightarrow> 0 < qty) \<and> fp_intent plan = i \<and>
           fp_trade plan = resting_trade b i oid tid qty price c ts prov"
proof -
  obtain q ref where q: "0 < q" "0 < ref" "rq = Fin q" "rp = Fin ref"
    using assms by (auto simp: resting_plan_def Let_def res_bind_Inr_iff)
  obtain requested err where e: "effective_resting_quantity b i = (requested, err)" by fastforce
  have "err = None" using assms q e by (cases err) (simp_all add: resting_plan_def Let_def)
  moreover from this assms q e have "\<exists>price. fp_intent plan = i \<and>
      fp_trade plan = resting_trade b i oid tid (min q requested) price c ts prov"
    by (auto simp: resting_plan_def Let_def res_bind_Inr_iff)
  ultimately show ?thesis using e q(1) by (metis min.cobounded2 min_less_iff_conj)
qed

lemma prepare_resting_steps:
  assumes "prepare_resting_fill b i oid tid rq rp ts prov sl tm = (b1, Inr plan)"
  shows "\<exists>c. require_currency_context b i = (b1, Inr c) \<and> resolve_linear_futures_terms b i = Inr None \<and>
             0 < quantity i \<and> resting_plan b1 i c oid tid rq rp ts prov sl tm = Inr plan"
  using assms
  by (auto simp: prepare_resting_fill_def validate_order_def split: option.splits sum.splits prod.splits if_splits)

lemma resting_fill_evolves:
  assumes bal: "balanced b" and s: "py_strip (symbol i) = symbol i" and sd: "side i \<in> {''BUY'', ''SELL''}"
    and prep: "prepare_resting_fill b i oid tid rq rp ts prov sl tm = (b1, Inr plan)"
    and clean: "clean_spot b (symbol i) (side i) (tr_quantity (fp_trade plan))"
    and app: "apply_committed_fill b1 plan now = (b', Inr u)"
  shows "evolves b b'"
proof -
  obtain c where rc: "require_currency_context b i = (b1, Inr c)"
    and terms: "resolve_linear_futures_terms b i = Inr None" and q: "0 < quantity i"
    and rp: "resting_plan b1 i c oid tid rq rp ts prov sl tm = Inr plan"
    using prepare_resting_steps [OF prep] by blast
  have b1: "converted_from b b1" and ctx: "map_of (pb_currency_contexts b1) (symbol i) = Some c"
    using require_context_evolves [OF bal rc] unfolding s by blast+
  have e1: "evolves b b1" using b1 by (simp add: converted_from_def)
  have lev: "map_of (pb_futures_leverages b1) (symbol i) = None"
    using spot_terms [OF terms] b1 by (simp add: converted_from_def)
  obtain requested qty price where req: "effective_resting_quantity b1 i = (requested, None)"
    and qty: "qty \<le> requested" "0 < requested \<longrightarrow> 0 < qty" and plan: "fp_intent plan = i"
      "fp_trade plan = resting_trade b1 i oid tid qty price c ts prov"
    using resting_plan_trade [OF rp] by blast
  have t: "tr_quantity (fp_trade plan) = qty" by (simp add: plan(2) resting_trade_def Let_def)
  have pos: "0 < qty" and cov: "\<not> pb_allow_reversal b1 \<Longrightarrow> covered b1 (symbol i) (side i) qty"
    using resting_quantity_covered [OF req q sd] covered_mono qty by blast+
  have fit: "clean_fill b1 (symbol i) (side i) qty (pb_allow_reversal b1)"
    using clean clean_spot_converted [OF b1, of "symbol i" "side i" qty] cov covered_clean t
    by (auto simp: clean_spot_def)
  from app plan(1) obtain b2 where fill: "apply_spot_fill b1 (symbol i) (side i) (fp_trade plan) now = (b2, Inr ())"
    and b': "b' = b2 \<or> (\<exists>x. b' = b2\<lparr>pb_orders := x\<rparr>)"
    by (auto simp: apply_committed_fill_def Let_def split: sum.splits prod.splits if_splits option.splits)
  have "evolves b1 b2"
    using apply_spot_fill_evolves [OF evolves_balanced [OF e1] _ lev sd _ _ _ fill] ctx pos cov fit t by simp
  then show ?thesis using b' evolves_trans [OF e1] by auto
qed

section \<open>Reachable accounts\<close>

lemma init_balanced:
  assumes "paper_broker_init acct st ca cur re sl co costs allow = Inr b"
  shows "balanced b" "\<not> allow \<Longrightarrow> long_only b"
  using assms unfolding paper_broker_init_def Let_def
  by (auto simp: res_bind_Inr_iff balanced_def long_only_def book_ok_def cash_ok_def spot_long_def spot_basis_def
      distinct_keys_def)

lemma reset_evolves: "balanced b \<Longrightarrow> evolves b (reset b)"
  by (simp add: evolves_def balanced_def long_only_def book_ok_def cash_ok_def spot_long_def spot_basis_def
      distinct_keys_def reset_def)

lemma cancel_evolves: "balanced b \<Longrightarrow> cancel_order b oid = (b', r) \<Longrightarrow> evolves b b'"
  by (auto simp: cancel_order_def evolves_refl split: if_splits)

text \<open>
  The calls on a broker built without reversal that return normally: orders with a trimmed symbol
  and a side of BUY or SELL, triggered resting orders, marks, conversions, cancellations and resets.
\<close>

inductive paper_reach :: "paper_broker \<Rightarrow> bool" where
  reach_init: "paper_broker_init acct st ca cur re sl co costs False = Inr b \<Longrightarrow> paper_reach b"
| reach_submit:
    "paper_reach b \<Longrightarrow> py_strip (symbol i) = symbol i \<Longrightarrow> side i \<in> {''BUY'', ''SELL''} \<Longrightarrow>
     submit_order (cm :: fill_commit list committer) l b (i :: order_intent) oid now = (b', l', Inr r) \<Longrightarrow>
     paper_reach b'"
| reach_resting:
    "paper_reach b \<Longrightarrow> py_strip (symbol i) = symbol i \<Longrightarrow> side i \<in> {''BUY'', ''SELL''} \<Longrightarrow>
     prepare_resting_fill b (i :: order_intent) oid tid rq rp ts prov slip tm = (b1, Inr plan) \<Longrightarrow>
     apply_committed_fill b1 plan now = (b', Inr u) \<Longrightarrow> paper_reach b'"
| reach_price: "paper_reach b \<Longrightarrow> set_price b s price = (b', Inr u) \<Longrightarrow> paper_reach b'"
| reach_context: "paper_reach b \<Longrightarrow> set_currency_context b s c = (b', Inr u) \<Longrightarrow> paper_reach b'"
| reach_cancel: "paper_reach b \<Longrightarrow> cancel_order b oid = (b', r) \<Longrightarrow> paper_reach b'"
| reach_reset: "paper_reach b \<Longrightarrow> paper_reach (reset b)"

lemma paper_reach_long_only: "paper_reach b \<Longrightarrow> balanced b \<and> long_only b"
proof (induction rule: paper_reach.induct)
  case (reach_init acct st ca cur re sl co costs b)
  then show ?case using init_balanced by blast
next
  case (reach_submit b i cm l oid now b' l' r)
  then have "clean_spot b (symbol i) (side i) (quantity i)" if "resolve_linear_futures_terms b i = Inr None"
    using long_only_clean spot_terms that by blast
  with reach_submit have "evolves b b'" using submit_order_evolves by metis
  with reach_submit.IH show ?case by (simp add: evolves_def)
next
  case (reach_resting b i oid tid rq rp ts prov slip tm b1 plan now b' u)
  then have "map_of (pb_futures_leverages b) (symbol i) = None"
    using prepare_resting_steps spot_terms by blast
  with reach_resting have "clean_spot b (symbol i) (side i) (tr_quantity (fp_trade plan))"
    using long_only_clean by blast
  with reach_resting have "evolves b b'" using resting_fill_evolves by metis
  with reach_resting.IH show ?case by (simp add: evolves_def)
next
  case (reach_price b s price b' u)
  then show ?case using set_price_evolves [of b s price] by (auto simp: evolves_def)
next
  case (reach_context b s c b' u)
  then show ?case using set_context_evolves [of b s c b' u] by (auto simp: converted_from_def evolves_def)
next
  case (reach_cancel b oid b' r)
  then show ?case using cancel_evolves by (auto simp: evolves_def)
next
  case (reach_reset b)
  then show ?case using reset_evolves [of b] by (simp add: evolves_def)
qed

text \<open>
  Spot is long-only. In every reachable account each position is listed under its own symbol
  with a positive quantity, and a position without futures terms is long: selling never opens a
  short.
\<close>

theorem spot_positions_long:
  assumes "paper_reach b" and "map_of (pb_positions b) s = Some p"
  shows "pos_symbol p = s \<and> 0 < pos_quantity p \<and>
         (map_of (pb_futures_leverages b) s = None \<longrightarrow> pos_side p = ''LONG'')"
  using paper_reach_long_only [OF assms(1)] assms(2)
  unfolding balanced_def long_only_def book_ok_def pos_ok_def spot_long_def by blast

end
