(* ===== verification/Paper_Ledger.thy ===== *)
theory Paper_Ledger
  imports Paper_Accounting
begin

text \<open>
  The paper broker and the durable ledger: no economic state changes before the ledger has accepted
  the fill. Then a small account on which the properties of the broker are applied, and the
  behaviours that depart from what the code documents.
\<close>

section \<open>Ledger before state\<close>

text \<open>The economic state: cash, realised P\&L, cost basis, trade history.\<close>

definition money ::
    "paper_broker \<Rightarrow> rat \<times> rat \<times> (string \<times> rat) list \<times> paper_trade list" where
  "money b = (pb_balance b, pb_realized_pnl b, pb_position_account_basis b, pb_trade_history b)"

lemma money_put [simp]: "money (put_position b s p) = money b"
  by (simp add: money_def put_position_def)

lemma money_prices: "money (fst (update_position_prices b s price)) = money b"
  by (auto simp: update_position_prices_def Let_def split: option.split sum.split)

lemma money_context: "money (fst (set_currency_context b s c)) = money b"
  using money_prices [of "b\<lparr>pb_currency_contexts := dict_set (pb_currency_contexts b) (py_strip s) c\<rparr>"]
  by (auto simp: set_currency_context_def Let_def money_def split: option.split)

lemma money_require_context: "require_currency_context b i = (b', r) \<Longrightarrow> money b' = money b"
  using money_context [of b "symbol i"]
  by (auto simp: require_currency_context_def split: option.splits prod.splits sum.splits)
     (metis fst_conv)+

lemma money_resolve_price: "resolve_price b i = (b', po) \<Longrightarrow> money b' = money b"
  by (auto simp: resolve_price_def money_def split: option.splits)

text \<open>
  The outcome of an order with respect to the ledger: it leaves the economic state and the ledger
  alone, or its fill was committed first, and if the call returns, the committed fill is the trade
  that was appended to the history.
\<close>

definition ledger_first ::
    "('l \<Rightarrow> fill_commit \<Rightarrow> 'l res) \<Rightarrow> 'l \<Rightarrow> paper_broker \<Rightarrow> order_intent \<Rightarrow>
     paper_broker \<times> 'l \<times> broker_order_result res \<Rightarrow> bool" where
  "ledger_first commit l b i out =
     (case out of (b', l', r) \<Rightarrow>
        (money b' = money b \<and> l' = l) \<or>
        (\<exists>f. commit l f = Inr l' \<and> Some (fc_order_id f) = canonical_paper_order_id i \<and>
             (\<forall>res. r = Inr res \<longrightarrow>
                fc_result f = res \<and>
                (\<exists>t. pb_trade_history b' = pb_trade_history b @ [t] \<and> trade_fill t = Inr (fc_fill f)))))"

lemma commit_before:
  assumes "commit_fill_before_state (Some commit) l i result t = Inr (l', i')"
  shows "\<exists>f. commit l f = Inr l' \<and> Some (fc_order_id f) = canonical_paper_order_id i \<and>
             fc_result f = result \<and> trade_fill t = Inr (fc_fill f)"
  using assms
  by (auto simp: commit_fill_before_state_def res_bind_Inr_iff split: option.splits)

text \<open>The canonical identities of an intent pay for one commit.\<close>

lemma committed_intent_spent:
  assumes "commit_fill_before_state (Some commit) l i result t = Inr (l', i')"
  shows "commit_fill_before_state (Some commit') l'' i' result' t' =
           Inl (RuntimeError ''Paper fill reached state mutation without canonical order attribution'')"
  using assms by (auto simp: commit_fill_before_state_def res_bind_Inr_iff split: option.splits)

lemma update_position_history:
  "pb_trade_history (fst (update_position b s sd qty price an allow now)) = pb_trade_history b"
proof -
  have m: "pb_trade_history (fst (update_position_prices b s price)) = pb_trade_history b" for b s price
    using money_prices [of b s price] by (simp add: money_def)
  have w: "pb_trade_history (fst (with_result x y)) = pb_trade_history (fst x)" for x :: "paper_broker \<times> unit res" and y :: rat
    by (auto simp: with_result_def split: prod.split sum.split)
  show ?thesis
    by (auto simp: update_position_def add_to_position_def reduce_position_def open_position_def Let_def
        w m put_position_def split: option.split)
qed

lemma apply_spot_history:
  "apply_spot_fill b s sd t now = (b', Inr u) \<Longrightarrow> pb_trade_history b' = pb_trade_history b @ [t]"
  using update_position_history [of "b\<lparr>pb_balance := pb_balance b + cash_flow sd t\<rparr>" s sd "tr_quantity t"
      "tr_price t" "tr_account_notional t" None now]
  by (auto simp: apply_spot_fill_def split: prod.splits sum.splits)

lemma apply_futures_history:
  assumes "apply_futures_fill b i qty price an ac ro pr t terms now = (b', Inr u)"
  shows "pb_trade_history b' = pb_trade_history b @ [t]"
proof -
  let ?b1 = "with_terms b (symbol i) terms"
  obtain b2 r where up: "update_position ?b1 (symbol i) (side i) qty price an (Some (\<not> ro)) now = (b2, r)"
    by fastforce
  have "pb_trade_history b2 = pb_trade_history b"
    using update_position_history [of ?b1 "symbol i" "side i" qty price an "Some (\<not> ro)" now] up
    by (simp add: with_terms_def)
  then show ?thesis
    using assms up unfolding apply_futures_fill_def Let_def with_terms_def [symmetric]
    by (auto split: sum.splits if_splits)
qed

lemma ledger_first_commit:
  assumes "\<And>b1 u. app = (b1, Inr u) \<Longrightarrow> pb_trade_history b1 = pb_trade_history b @ [t]"
  shows "ledger_first commit l b i
    (case commit_fill_before_state (Some commit) l i result t of
       Inl e \<Rightarrow> (b, l, Inl e)
     | Inr (l1, _) \<Rightarrow> (case app of (b1, Inl e) \<Rightarrow> (b1, l1, Inl e) | (b1, Inr _) \<Rightarrow> (b1, l1, Inr result)))"
proof (cases "commit_fill_before_state (Some commit) l i result t")
  case (Inl e)
  then show ?thesis by (simp add: ledger_first_def)
next
  case (Inr out)
  obtain l1 i1 where out: "out = (l1, i1)" by fastforce
  note Inr = Inr [unfolded this]
  obtain f where f: "commit l f = Inr l1" "Some (fc_order_id f) = canonical_paper_order_id i"
    "fc_result f = result" "trade_fill t = Inr (fc_fill f)"
    using commit_before [OF Inr] by blast
  obtain b1 r where app: "app = (b1, r)" by fastforce
  show ?thesis
  proof (cases r)
    case (Inl e)
    then show ?thesis using Inr app f by (auto simp: ledger_first_def)
  next
    case (Inr u)
    then show ?thesis
      using \<open>commit_fill_before_state (Some commit) l i result t = Inr (l1, i1)\<close> app f assms
      by (auto simp: ledger_first_def)
  qed
qed

lemma ledger_first_same: "money b' = money b \<Longrightarrow> ledger_first commit l b i (b', l, r)"
  by (simp add: ledger_first_def)

lemma ledger_first_money: "money b1 = money b \<Longrightarrow> ledger_first commit l b1 i out \<Longrightarrow> ledger_first commit l b i out"
  by (simp add: ledger_first_def money_def)

lemma ledger_first_if:
  "(\<not> c \<Longrightarrow> ledger_first commit l b i out) \<Longrightarrow> ledger_first commit l b i (if c then (b, l, r) else out)"
  by (simp add: ledger_first_same)

lemma ledger_first_sum:
  assumes "\<And>e. x = Inl e \<Longrightarrow> ledger_first commit l b i (f e)" "\<And>y. x = Inr y \<Longrightarrow> ledger_first commit l b i (g y)"
  shows "ledger_first commit l b i (case x of Inl e \<Rightarrow> f e | Inr y \<Rightarrow> g y)"
  using assms by (cases x) auto

lemma ledger_first_pair:
  "(\<And>x y. ledger_first commit l b i (f x y)) \<Longrightarrow> ledger_first commit l b i (case p of (x, y) \<Rightarrow> f x y)"
  by (cases p) simp

lemma submit_spot_ledger: "ledger_first commit l b i (submit_spot_fill (Some commit) l b i oid qty price c now)"
  unfolding submit_spot_fill_def Let_def
  apply (rule ledger_first_if, rule ledger_first_sum)
   apply (simp add: ledger_first_same)
  apply (rule ledger_first_commit, erule apply_spot_history)
  done

lemma submit_futures_ledger:
  "ledger_first commit l b i (submit_linear_futures_fill (Some commit) l b i oid qty price pct c terms now)"
  unfolding submit_linear_futures_fill_def Let_def
  apply (rule ledger_first_if, rule ledger_first_sum)
   apply (simp add: ledger_first_same split: py_error.split)
  apply (rule ledger_first_pair, rule ledger_first_if, rule ledger_first_commit, erule apply_futures_history)
  done

lemma submit_market_ledger:
  "ledger_first commit l b i (submit_market_order (Some commit) l b i terms c oid now)"
proof -
  obtain b1 po where po: "resolve_price b i = (b1, po)" by fastforce
  note m = money_resolve_price [OF po]
  show ?thesis
    unfolding submit_market_order_def po
    by (auto split: option.split prod.split simp: ledger_first_same m
        intro!: ledger_first_money [OF m] submit_spot_ledger submit_futures_ledger)
qed

lemma submit_order_ledger:
  "ledger_first commit l b i (submit_order (Some commit) l b i oid now)"
proof -
  obtain b1 rc where rc: "require_currency_context b i = (b1, rc)" by fastforce
  note m = money_require_context [OF rc]
  have o: "money (b1\<lparr>pb_orders := x\<rparr>) = money b" for x using m by (simp add: money_def)
  show ?thesis
    unfolding submit_order_def rc
    by (auto split: option.split sum.split simp: ledger_first_same m o
        intro!: ledger_first_money [OF m] submit_market_ledger)
qed

section \<open>A small account\<close>

definition ex_broker :: paper_broker where
  "ex_broker = projr (paper_broker_init ''A'' (Fin 1000) (Fin 1000) ''usd'' (Fin 0) (Fin 0) (Fin (1 / 100)) [] False)"

definition ex_ctx :: order_currency_context where
  "ex_ctx = \<lparr>account_currency = ''USD'', settlement_currency = ''USD'', account_to_settlement_rate = 1,
            requested_at = 0, observed_at = 0, fx_source = ''identity''\<rparr>"

definition ex_order :: "string \<Rightarrow> rat \<Rightarrow> pydict \<Rightarrow> order_intent" where
  "ex_order sd qty meta =
     \<lparr>broker_code = ''paper'', symbol = ''BTC'', side = sd, quantity = qty, order_type = ''market'',
      time_in_force = ''gtc'', limit_price = None, stop_price = None, metadata = meta,
      currency_context = Some ex_ctx, canonical_paper_order_id = None,
      canonical_paper_instrument_id = None\<rparr>"

definition ex_submit :: "paper_broker \<Rightarrow> string \<Rightarrow> rat \<Rightarrow> paper_broker \<times> fill_commit list \<times> broker_order_result res" where
  "ex_submit b sd qty = submit_order None [] b (ex_order sd qty []) ''o'' 7"

definition ex_held :: paper_broker where
  "ex_held = fst (ex_submit (fst (set_price ex_broker ''BTC'' 100)) ''BUY'' 5)"

definition ex_sold :: paper_broker where
  "ex_sold = fst (ex_submit (fst (set_price ex_held ''BTC'' 120)) ''SELL'' 2)"

lemma ex_calls_ok:
  "is_ok (paper_broker_init ''A'' (Fin 1000) (Fin 1000) ''usd'' (Fin 0) (Fin 0) (Fin (1 / 100)) [] False)"
  "is_ok (snd (set_price ex_broker ''BTC'' 100))"
  "is_ok (snd (snd (ex_submit (fst (set_price ex_broker ''BTC'' 100)) ''BUY'' 5)))"
  "is_ok (snd (set_price ex_held ''BTC'' 120))"
  "is_ok (snd (snd (ex_submit (fst (set_price ex_held ''BTC'' 120)) ''SELL'' 2)))"
  by code_simp+

lemma ok_cases: "is_ok r \<Longrightarrow> \<exists>x. r = Inr x"
  by (cases r) auto

lemma reach_ok_price:
  assumes "paper_reach b" "is_ok (snd (set_price b s price))"
  shows "paper_reach (fst (set_price b s price))"
  using ok_cases [OF assms(2)] reach_price [OF assms(1)] by (metis prod.collapse)

lemma reach_ok_submit:
  assumes "paper_reach b" "sd \<in> {''BUY'', ''SELL''}" "is_ok (snd (snd (ex_submit b sd qty)))"
  shows "paper_reach (fst (ex_submit b sd qty))"
proof -
  obtain r where "snd (snd (ex_submit b sd qty)) = Inr r" using ok_cases [OF assms(3)] by blast
  then have sub: "submit_order None [] b (ex_order sd qty []) ''o'' 7 =
      (fst (ex_submit b sd qty), fst (snd (ex_submit b sd qty)), Inr r)"
    unfolding ex_submit_def by (metis prod.collapse)
  have "py_strip ''BTC'' = ''BTC''" by code_simp
  then have s: "py_strip (symbol (ex_order sd qty [])) = symbol (ex_order sd qty [])" by (simp add: ex_order_def)
  have sd: "side (ex_order sd qty []) \<in> {''BUY'', ''SELL''}" using assms(2) by (simp add: ex_order_def)
  show ?thesis by (rule reach_submit [OF assms(1) s sd sub])
qed

lemma ex_sold_reach: "paper_reach ex_sold"
proof -
  have "paper_reach ex_broker" using ok_cases [OF ex_calls_ok(1)] reach_init unfolding ex_broker_def by force
  then have "paper_reach ex_held"
    unfolding ex_held_def by (intro reach_ok_submit reach_ok_price ex_calls_ok) simp_all
  then show ?thesis
    unfolding ex_sold_def by (intro reach_ok_submit reach_ok_price ex_calls_ok) simp_all
qed

theorem spot_positions_long_witness:
  "\<exists>p. map_of (pb_positions ex_sold) ''BTC'' = Some p \<and> pos_side p = ''LONG'' \<and> 0 < pos_quantity p"
proof -
  have "map_of (pb_positions ex_sold) ''BTC'' \<noteq> None" "map_of (pb_futures_leverages ex_sold) ''BTC'' = None"
    by code_simp+
  then show ?thesis using spot_positions_long [OF ex_sold_reach, of "''BTC''"] by auto
qed

section \<open>Where the broker departs from its documentation\<close>

text \<open>
  A restored position keeps its old value. When a position was rehydrated with a gross notional
  and no conversion has been observed since, setting a new price records that price as the current
  one but leaves the gross notional and the unrealised P\&L at the old mark, for every price.
\<close>

theorem rehydrated_mark_is_stale:
  assumes "map_of (pb_currency_contexts b) s = None" and "map_of (pb_positions b) s = Some p"
    and "0 < pos_quantity p" and "pos_gross_notional p = Some g" and "0 \<le> g"
    and "pos_notional_currency p = Some (pb_currency b)"
    and "map_of (pb_position_account_basis b) s = Some basis"
  shows "\<exists>b' q. set_price b s price = (b', Inr ()) \<and> map_of (pb_positions b') s = Some q \<and>
           pos_current_price q = price \<and> pos_gross_notional q = Some g \<and>
           pos_unrealized_pnl q = Some (if pos_side p = ''LONG'' then g - basis else basis - g)"
proof -
  let ?b = "b\<lparr>pb_prices := dict_set (pb_prices b) s price\<rparr>"
  let ?b1 = "put_position ?b s (mark_terms ?b s price p)"
  have "position_notional ?b1 s (pos_quantity p) price = Inr g"
    using assms by (simp add: position_notional_def Let_def)
  then have "set_price b s price = (put_position ?b s (marked ?b s price g basis p), Inr ())"
    using assms
    by (simp add: set_price_def update_position_prices_def Let_def marked_def mark_value_def mark_terms_def mark_pnl_def)
  then show ?thesis by (simp add: pnl_for_def)
qed

definition ex_seed :: "string \<Rightarrow> pydict" where
  "ex_seed sd =
     [(''symbol'', PStr ''BTC''), (''side'', PStr sd), (''quantity'', PInt 1), (''entry_price'', PInt 100),
      (''quantity_unit'', PStr ''asset''), (''gross_notional'', PInt 100),
      (''notional_currency'', PStr ''USD''), (''account_cost_basis'', PInt 100)]"

definition ex_loaded :: "string \<Rightarrow> paper_broker" where
  "ex_loaded sd = fst (load_positions ex_broker [ex_seed sd] False 0)"

theorem rehydrated_mark_is_stale_witness:
  "\<exists>b' q. set_price (ex_loaded ''long'') ''BTC'' 50 = (b', Inr ()) \<and> map_of (pb_positions b') ''BTC'' = Some q \<and>
     pos_current_price q = 50 \<and> pos_gross_notional q = Some 100"
proof -
  let ?b = "ex_loaded ''long''"
  define p where "p = the (map_of (pb_positions ?b) ''BTC'')"
  have 1: "map_of (pb_currency_contexts ?b) ''BTC'' = None" "map_of (pb_position_account_basis ?b) ''BTC'' = Some 100"
    "pb_currency ?b = ''USD''" "map_of (pb_positions ?b) ''BTC'' \<noteq> None"
    by code_simp+
  have 2: "pos_quantity p = 1" "pos_gross_notional p = Some 100" "pos_notional_currency p = Some ''USD''"
    unfolding p_def by code_simp+
  have 3: "map_of (pb_positions ?b) ''BTC'' = Some p" using 1(4) by (auto simp: p_def)
  show ?thesis
    using rehydrated_mark_is_stale [OF 1(1) 3 _ 2(2) _ _ 1(2), of 50] 1(3) 2(1,3) by auto
qed

text \<open>
  A reference price is refused once. An order that carries a reference price for a symbol
  without a mark is rejected for lack of a price, but the price is recorded, so the same order
  submitted again is filled.
\<close>

theorem reference_price_rejected_then_filled:
  "let i = ex_order ''BUY'' 5 [(''reference_price'', PInt 100)];
       (b1, _, r1) = submit_order None ([] :: fill_commit list) ex_broker i ''o1'' 0;
       (b2, _, r2) = submit_order None ([] :: fill_commit list) b1 i ''o2'' 1
   in map_option bor_status (case r1 of Inl _ \<Rightarrow> None | Inr r \<Rightarrow> Some r) = Some OS_REJECTED \<and>
      map_option bor_status (case r2 of Inl _ \<Rightarrow> None | Inr r \<Rightarrow> Some r) = Some OS_FILLED"
  by code_simp

text \<open>
  Covering a short beyond its size loses cash. On a broker that does not reverse, a buy of
  three units against a short of one closes the short and pays for all three: equity falls by the
  value of the two units that are dropped, although no price moved and the fill is reported in full.
\<close>

theorem cover_excess_loses_cash:
  "let b0 = fst (set_currency_context (ex_loaded ''short'') ''BTC'' ex_ctx);
       b1 = b0\<lparr>pb_commission_pct := 0\<rparr>;
       (b2, _, r) = ex_submit b1 ''BUY'' 3
   in map_option bor_filled_quantity (case r of Inl _ \<Rightarrow> None | Inr x \<Rightarrow> Some x) = Some 3 \<and>
      pb_positions b2 = [] \<and> ec_equity (projr (account_economics_of b1)) = 900 \<and>
      ec_equity (projr (account_economics_of b2)) = 700"
  by code_simp

text \<open>
  The inherited \<open>close_position\<close> never closes a paper position. The order it builds carries no
  currency context, so the paper broker rejects it, whatever positions are held.
\<close>

theorem paper_close_position_rejected:
  "\<exists>r. close_position ''paper'' (map snd (pb_positions b))
         (\<lambda>i. snd (snd (submit_order cm l b i oid now))) Inr s = Inr r \<and>
       bor_status r = OS_REJECTED"
proof (cases "find (\<lambda>p. pos_symbol p = s) (map snd (pb_positions b))")
  case None
  then show ?thesis by (simp add: close_position_def bor_rejected_def)
next
  case (Some p)
  then show ?thesis
    by (auto simp: close_position_def submit_order_def require_currency_context_def bor_rejected_def
        split: option.split sum.split)
qed

end
