(* ===== verification/Paper_Options.thy ===== *)
theory Paper_Options
  imports Paper_Ledger
begin

text \<open>
  The options fill model of \<open>execution_engine/brokers/paper_options.py\<close>, on the account of the paper
  broker. A one-leg order is kept under the symbol of the order, the legs of a spread under symbols
  composed of underlying, expiry, strike and type. As for the other fills the order identifier and
  the clock are arguments and the durable committer is a parameter.
\<close>

section \<open>Orders\<close>

record options_leg =
  ol_option_type :: string
  ol_strike :: rat
  ol_expiry :: string
  ol_side :: string
  ol_quantity :: int
  ol_premium :: "number option"

record options_intent =
  oi_order :: order_intent
  oi_legs :: "options_leg list option"
  oi_spread_type :: "string option"
  oi_underlying_price :: "rat option"
  oi_max_profit :: "rat option"
  oi_max_loss :: "rat option"
  oi_breakeven :: "rat option"

section \<open>Numbers in general format\<close>

text \<open>
  \<open>format(x, "g")\<close>: six significant digits, rounded half to even, without trailing zeros; an exponent
  below \<open>-4\<close> or above 5 is written out.
\<close>

function exponent_up :: "rat \<Rightarrow> nat" where
  "exponent_up x = (if x < 10 then 0 else Suc (exponent_up (x / 10)))"
  by auto
termination
proof (relation "measure (\<lambda>x. nat \<lfloor>x\<rfloor>)", goal_cases)
  case (2 x)
  then have "\<lfloor>x / 10\<rfloor> < \<lfloor>x\<rfloor>" "0 < \<lfloor>x\<rfloor>"
    by (linarith, linarith)
  then show ?case by simp
qed simp

function exponent_down :: "rat \<Rightarrow> nat" where
  "exponent_down x = (if 1 \<le> x \<or> x \<le> 0 then 0 else Suc (exponent_down (10 * x)))"
  by auto
termination
proof (relation "measure (\<lambda>x. nat \<lfloor>1 / x\<rfloor>)", goal_cases)
  case (2 x)
  then have x: "0 < x" "x < 1" by auto
  define y where "y = 1 / x"
  have y: "1 < y" "1 / (10 * x) = y / 10" using x by (simp_all add: y_def field_simps)
  have pos: "1 \<le> \<lfloor>y\<rfloor>" using y(1) by simp
  moreover have "\<lfloor>y / 10\<rfloor> < \<lfloor>y\<rfloor>" 
  proof -
    from pos have "(1 :: rat) \<le> of_int \<lfloor>y\<rfloor>" by simp
    with floor_correct [of y] have "y < of_int \<lfloor>y\<rfloor> * 10" by linarith
    then show ?thesis by (simp add: floor_less_iff)
  qed
  ultimately have "\<lfloor>1 / (10 * x)\<rfloor> < \<lfloor>1 / x\<rfloor>" "0 < \<lfloor>1 / x\<rfloor>" unfolding y(2) by (simp_all add: y_def)
  then show ?case by simp
qed simp

declare exponent_up.simps [simp del] exponent_down.simps [simp del]

definition decimal_exponent :: "rat \<Rightarrow> int" where
  "decimal_exponent x = (if 1 \<le> x then int (exponent_up x) else - int (exponent_down x))"

definition power_of_ten :: "int \<Rightarrow> rat" where
  "power_of_ten k = (if 0 \<le> k then 10 ^ nat k else 1 / 10 ^ nat (- k))"

definition zero_padded :: "nat \<Rightarrow> string \<Rightarrow> string" where
  "zero_padded k s = replicate (k - length s) CHR ''0'' @ s"

definition point_digits :: "string \<Rightarrow> string \<Rightarrow> string" where
  "point_digits i f =
     (let g = rev (dropWhile (\<lambda>c. c = CHR ''0'') (rev f)) in if g = [] then i else i @ ''.'' @ g)"

text \<open>The six digits and the exponent after rounding.\<close>

definition six_digits :: "rat \<Rightarrow> int \<times> int" where
  "six_digits x =
     (let e = decimal_exponent x; m = round_half_even (x * power_of_ten (5 - e))
      in if m = 1000000 then (100000, e + 1) else (m, e))"

definition format_positive :: "rat \<Rightarrow> string" where
  "format_positive x =
     (case six_digits x of (m, e) \<Rightarrow>
        if e < - 4 \<or> 6 \<le> e
        then point_digits (nat_str (nat (m div 10 ^ 5))) (zero_padded 5 (nat_str (nat (m mod 10 ^ 5)))) @
             (if e < 0 then ''e-'' else ''e+'') @ zero_padded 2 (nat_str (nat \<bar>e\<bar>))
        else (let k = nat (5 - e)
              in point_digits (nat_str (nat (m div 10 ^ k))) (zero_padded k (nat_str (nat (m mod 10 ^ k))))))"

definition format_g :: "rat \<Rightarrow> string" where
  "format_g x =
     (if x = 0 then ''0'' else if x < 0 then ''-'' @ format_positive (- x) else format_positive x)"

definition option_leg_symbol :: "string \<Rightarrow> options_leg \<Rightarrow> string" where
  "option_leg_symbol underlying leg =
     underlying @ '':'' @ ol_expiry leg @ '':'' @ format_g (ol_strike leg) @ '':'' @ py_upper (ol_option_type leg)"

section \<open>Terms of an order\<close>

definition resolve_contract_multiplier :: "order_intent \<Rightarrow> rat option" where
  "resolve_contract_multiplier i =
     (case py_float_text (dict_get (metadata i) ''contract_multiplier'') of
        None \<Rightarrow> None
      | Some m \<Rightarrow> if m \<le> 0 then None else Some m)"

text \<open>
  The premium of a one-leg order: the mark of the symbol, else the reference of the order, else its
  limit, else the premium of the leg.
\<close>

definition resolve_single_leg_option_price ::
    "paper_broker \<Rightarrow> order_intent \<Rightarrow> options_leg \<Rightarrow> number option" where
  "resolve_single_leg_option_price b i leg =
     (case map_of (pb_prices b) (symbol i) of
        Some p \<Rightarrow> Some (Fin p)
      | None \<Rightarrow>
          (let reference = (case map_of (metadata i) ''reference_price'' of
                              Some v \<Rightarrow> v
                            | None \<Rightarrow> dict_get (metadata i) ''option_price'')
           in if reference \<noteq> PNone then map_option Fin (py_float reference)
              else (case limit_price i of
                      Some l \<Rightarrow> Some (Fin l)
                    | None \<Rightarrow> ol_premium leg)))"

definition positive_number :: "number option \<Rightarrow> rat option" where
  "positive_number n = (case n of Some (Fin p) \<Rightarrow> if p \<le> 0 then None else Some p | _ \<Rightarrow> None)"

section \<open>Fills of one contract\<close>

text \<open>Both fill models record the multiplier of the contract and update its position.\<close>

definition fill_contract ::
    "paper_broker \<Rightarrow> string \<Rightarrow> rat \<Rightarrow> string \<Rightarrow> rat \<Rightarrow> rat \<Rightarrow> rat \<Rightarrow> time \<Rightarrow> paper_broker \<times> rat res" where
  "fill_contract b s multiplier sd qty price account_notional now =
     update_position
       (b\<lparr>pb_contract_multipliers := dict_set (pb_contract_multipliers b) s multiplier\<rparr>)
       s sd qty price account_notional None now"

section \<open>One leg\<close>

definition apply_single_leg ::
    "paper_broker \<Rightarrow> string \<Rightarrow> options_leg \<Rightarrow> rat \<Rightarrow> rat \<Rightarrow> paper_trade \<Rightarrow> time \<Rightarrow> paper_broker \<times> unit res" where
  "apply_single_leg b s leg multiplier price t now =
     (case fill_contract (b\<lparr>pb_balance := pb_balance b + cash_flow (ol_side leg) t\<rparr>) s multiplier
             (ol_side leg) (of_int (ol_quantity leg)) price (tr_account_notional t) now of
        (b1, Inl e) \<Rightarrow> (b1, Inl e)
      | (b1, Inr _) \<Rightarrow>
          (b1\<lparr>pb_realized_pnl := pb_realized_pnl b1 - tr_account_commission t,
              pb_trade_history := pb_trade_history b1 @ [t]\<rparr>, Inr ()))"

definition single_leg_trade ::
    "paper_broker \<Rightarrow> order_intent \<Rightarrow> options_leg \<Rightarrow> rat \<Rightarrow> rat \<Rightarrow> order_currency_context \<Rightarrow> string \<Rightarrow> time \<Rightarrow>
     paper_trade" where
  "single_leg_trade b i leg multiplier price c oid now =
     (let notional = \<bar>price * of_int (ol_quantity leg) * multiplier\<bar>;
          commission = notional * pb_commission_pct b
      in \<lparr>tr_trade_id = oid @ '':fill:1'', tr_order_id = oid, tr_symbol = symbol i,
          tr_side = ol_side leg, tr_quantity = of_int (ol_quantity leg), tr_price = price,
          tr_commission = commission, tr_commission_currency = settlement_currency c,
          tr_account_notional = settlement_to_account c notional,
          tr_account_commission = settlement_to_account c commission,
          tr_account_currency = pb_currency b, tr_timestamp = now, tr_source_provenance = None,
          tr_futures = None, tr_options = Some SingleLeg\<rparr>)"

definition no_multiplier :: string where
  "no_multiplier = ''Options execution requires an explicit positive contract multiplier''"

definition submit_single_leg_options_order ::
    "'l committer \<Rightarrow> 'l \<Rightarrow> paper_broker \<Rightarrow> options_intent \<Rightarrow> string \<Rightarrow> time \<Rightarrow>
     paper_broker \<times> 'l \<times> broker_order_result res" where
  "submit_single_leg_options_order committer ledger b0 oi oid now =
     (let i = oi_order oi; reject = (\<lambda>b m code. (b, ledger, Inr (bor_rejected m code)))
      in case require_currency_context b0 i of
           (b, Inl e) \<Rightarrow> reject b (error_text e) (Some ''currency_context_invalid'')
         | (b, Inr c) \<Rightarrow>
             (case oi_legs oi of
                None \<Rightarrow> reject b ''Options order requires at least one leg'' None
              | Some [] \<Rightarrow> reject b ''Options order requires at least one leg'' None
              | Some (leg # _) \<Rightarrow>
                  (case resolve_contract_multiplier i of
                     None \<Rightarrow> reject b no_multiplier None
                   | Some multiplier \<Rightarrow>
                       (case positive_number (resolve_single_leg_option_price b i leg) of
                          None \<Rightarrow> reject b (''No option price available for '' @ symbol i) None
                        | Some price \<Rightarrow>
                            (let t = single_leg_trade b i leg multiplier price c oid now;
                                 result = filled_result oid (of_int (ol_quantity leg)) price
                                            (tr_commission t) (settlement_currency c)
                             in if ol_side leg = ''BUY'' \<and>
                                   pb_balance b < tr_account_notional t + tr_account_commission t
                                then reject b ''Insufficient balance for options order'' None
                                else (case commit_fill_before_state committer ledger i result t of
                                        Inl e \<Rightarrow> (b, ledger, Inl e)
                                      | Inr (ledger', _) \<Rightarrow>
                                          (case apply_single_leg b (symbol i) leg multiplier price t now of
                                             (b', Inl e) \<Rightarrow> (b', ledger', Inl e)
                                           | (b', Inr _) \<Rightarrow> (b', ledger', Inr result))))))))"

section \<open>Several legs\<close>

record leg_fill =
  lg_leg :: options_leg
  lg_symbol :: string
  lg_price :: rat
  lg_commission :: rat

text \<open>The loop over the legs: the fills, the premium received and the commission, or a rejection.\<close>

fun price_legs ::
    "paper_broker \<Rightarrow> string \<Rightarrow> rat \<Rightarrow> options_leg list \<Rightarrow> leg_fill list \<Rightarrow> rat \<Rightarrow> rat \<Rightarrow>
     broker_order_result + (leg_fill list \<times> rat \<times> rat)" where
  "price_legs b underlying multiplier [] fills premium commission = Inr (fills, premium, commission)"
| "price_legs b underlying multiplier (leg # legs) fills premium commission =
     (case ol_premium leg of
        None \<Rightarrow> Inl (bor_rejected ''Multi-leg paper execution requires an explicit premium for every leg'' None)
      | Some n \<Rightarrow>
          (case positive_number (Some n) of
             None \<Rightarrow> Inl (bor_rejected ''Multi-leg option premiums and quantities must be positive'' None)
           | Some price \<Rightarrow>
               if ol_quantity leg \<le> 0
               then Inl (bor_rejected ''Multi-leg option premiums and quantities must be positive'' None)
               else (let notional = price * of_int (ol_quantity leg) * multiplier;
                         leg_commission = \<bar>notional * pb_commission_pct b\<bar>;
                         fill = \<lparr>lg_leg = leg, lg_symbol = option_leg_symbol underlying leg,
                                 lg_price = price, lg_commission = leg_commission\<rparr>
                     in if ol_side leg = ''BUY''
                        then price_legs b underlying multiplier legs (fills @ [fill]) (premium - notional)
                               (commission + leg_commission)
                        else if ol_side leg = ''SELL''
                        then price_legs b underlying multiplier legs (fills @ [fill]) (premium + notional)
                               (commission + leg_commission)
                        else Inl (bor_rejected (''Unknown option leg side: '' @ ol_side leg) None))))"

definition fill_of_leg :: "leg_fill \<Rightarrow> option_leg_fill" where
  "fill_of_leg f =
     \<lparr>lf_symbol = lg_symbol f, lf_side = ol_side (lg_leg f), lf_quantity = of_int (ol_quantity (lg_leg f)),
      lf_price = lg_price f, lf_commission = lg_commission f\<rparr>"

definition multi_leg_trade ::
    "paper_broker \<Rightarrow> order_intent \<Rightarrow> leg_fill list \<Rightarrow> rat \<Rightarrow> rat \<Rightarrow> rat \<Rightarrow> rat \<Rightarrow> order_currency_context \<Rightarrow>
     string \<Rightarrow> time \<Rightarrow> paper_trade" where
  "multi_leg_trade b i fills qty price commission net_cost c oid now =
     \<lparr>tr_trade_id = oid @ '':fill:1'', tr_order_id = oid, tr_symbol = symbol i, tr_side = side i,
      tr_quantity = qty, tr_price = price, tr_commission = commission,
      tr_commission_currency = settlement_currency c, tr_account_notional = 0, tr_account_commission = 0,
      tr_account_currency = pb_currency b, tr_timestamp = now, tr_source_provenance = None,
      tr_futures = None, tr_options = Some (MultiLeg net_cost (map fill_of_leg fills))\<rparr>"

fun apply_legs ::
    "paper_broker \<Rightarrow> order_currency_context \<Rightarrow> rat \<Rightarrow> leg_fill list \<Rightarrow> time \<Rightarrow> paper_broker \<times> unit res" where
  "apply_legs b c multiplier [] now = (b, Inr ())"
| "apply_legs b c multiplier (f # fs) now =
     (case set_currency_context b (lg_symbol f) c of
        (b1, Inl e) \<Rightarrow> (b1, Inl e)
      | (b1, Inr _) \<Rightarrow>
          (let qty = of_int (ol_quantity (lg_leg f));
               account_notional = settlement_to_account c \<bar>lg_price f * qty * multiplier\<bar>
           in case fill_contract b1 (lg_symbol f) multiplier (ol_side (lg_leg f)) qty (lg_price f)
                     account_notional now of
                (b2, Inl e) \<Rightarrow> (b2, Inl e)
              | (b2, Inr _) \<Rightarrow> apply_legs b2 c multiplier fs now))"

definition apply_multi_leg ::
    "paper_broker \<Rightarrow> order_currency_context \<Rightarrow> rat \<Rightarrow> leg_fill list \<Rightarrow> rat \<Rightarrow> rat \<Rightarrow> paper_trade \<Rightarrow> time \<Rightarrow>
     paper_broker \<times> unit res" where
  "apply_multi_leg b c multiplier fills commission net_cost t now =
     (case apply_legs (b\<lparr>pb_balance := pb_balance b - net_cost,
                         pb_realized_pnl := pb_realized_pnl b - settlement_to_account c commission\<rparr>)
             c multiplier fills now of
        (b1, Inl e) \<Rightarrow> (b1, Inl e)
      | (b1, Inr _) \<Rightarrow> (b1\<lparr>pb_trade_history := pb_trade_history b1 @ [t]\<rparr>, Inr ()))"

definition submit_multi_leg_options_order ::
    "'l committer \<Rightarrow> 'l \<Rightarrow> paper_broker \<Rightarrow> options_intent \<Rightarrow> options_leg list \<Rightarrow> string \<Rightarrow> time \<Rightarrow>
     paper_broker \<times> 'l \<times> broker_order_result res" where
  "submit_multi_leg_options_order committer ledger b0 oi legs oid now =
     (let i = oi_order oi; reject = (\<lambda>b m code. (b, ledger, Inr (bor_rejected m code)))
      in case require_currency_context b0 i of
           (b, Inl e) \<Rightarrow> reject b (error_text e) (Some ''currency_context_invalid'')
         | (b, Inr c) \<Rightarrow>
             (case resolve_contract_multiplier i of
                None \<Rightarrow> reject b no_multiplier None
              | Some multiplier \<Rightarrow>
                  (case price_legs b (symbol i) multiplier legs [] 0 0 of
                     Inl r \<Rightarrow> (b, ledger, Inr r)
                   | Inr (fills, premium, commission) \<Rightarrow>
                       (let net_cost = settlement_to_account c (- premium + commission);
                            qty = of_int (ol_quantity (hd legs));
                            price = \<bar>premium\<bar> / (multiplier * qty);
                            t = multi_leg_trade b i fills qty price commission net_cost c oid now;
                            result = filled_result oid qty price commission (settlement_currency c)
                        in if pb_balance b < net_cost
                           then reject b ''Insufficient balance for options order'' None
                           else (case commit_fill_before_state committer ledger i result t of
                                   Inl e \<Rightarrow> (b, ledger, Inl e)
                                 | Inr (ledger', _) \<Rightarrow>
                                     (case apply_multi_leg b c multiplier fills commission net_cost t now of
                                        (b', Inl e) \<Rightarrow> (b', ledger', Inl e)
                                      | (b', Inr _) \<Rightarrow> (b', ledger', Inr result)))))))"

definition submit_options_order ::
    "'l committer \<Rightarrow> 'l \<Rightarrow> paper_broker \<Rightarrow> options_intent \<Rightarrow> string \<Rightarrow> time \<Rightarrow>
     paper_broker \<times> 'l \<times> broker_order_result res" where
  "submit_options_order committer ledger b oi oid now =
     (case oi_legs oi of
        None \<Rightarrow> (b, ledger, Inr (bor_rejected ''No option legs specified'' None))
      | Some [] \<Rightarrow> (b, ledger, Inr (bor_rejected ''No option legs specified'' None))
      | Some [_] \<Rightarrow> submit_single_leg_options_order committer ledger b oi oid now
      | Some legs \<Rightarrow> submit_multi_leg_options_order committer ledger b oi legs oid now)"

end
