(* ===== verification/Options_Safety.thy ===== *)
theory Options_Safety
  imports Paper_Options
begin

text \<open>
  Option fills, interleaved with spot and futures fills, keep the account balanced when no order closes
  more than is held, reach the durable
  ledger before the account, and are kept under symbols that identify the contract as long as the
  strike has at most six digits. What happens outside those conditions is shown on examples.
\<close>

section \<open>Cash against the book\<close>

text \<open>
  The book changed and exchanged \<open>x\<close> in cash that has not been booked: basis and realised profit
  moved against each other by that amount.
\<close>

definition exchanged :: "paper_broker \<Rightarrow> paper_broker \<Rightarrow> rat \<Rightarrow> bool" where
  "exchanged b b' x =
     (book_ok b' \<and> pb_balance b' = pb_balance b \<and> pb_initial_cash b' = pb_initial_cash b \<and>
      pb_initial_realized_pnl b' = pb_initial_realized_pnl b \<and>
      pb_futures_leverages b' = pb_futures_leverages b \<and> pb_allow_reversal b' = pb_allow_reversal b \<and>
      pb_trade_history b' = pb_trade_history b \<and>
      spot_basis b' - pb_realized_pnl b' = spot_basis b - pb_realized_pnl b - x)"

lemma exchanged_trans: "exchanged b b1 x \<Longrightarrow> exchanged b1 b2 y \<Longrightarrow> exchanged b b2 (x + y)"
  by (simp add: exchanged_def)

lemma exchanged_refl: "book_ok b \<Longrightarrow> exchanged b b 0"
  by (simp add: exchanged_def)

text \<open>Booking the cash, and costs on both sides, restores the balance.\<close>

lemma exchanged_balanced:
  assumes "balanced b" "exchanged (b\<lparr>pb_balance := pb_balance b + x - k, pb_realized_pnl := pb_realized_pnl b - k'\<rparr>) b' x"
    and "k = k' + k''"
  shows "balanced (b'\<lparr>pb_realized_pnl := pb_realized_pnl b' - k'', pb_trade_history := h\<rparr>)" (is "balanced ?b")
proof -
  have "book_ok ?b = book_ok b'" by (rule book_ok_cong) simp_all
  moreover have "spot_basis ?b = spot_basis b'" by (rule spot_basis_cong) simp_all
  moreover have "spot_basis (b\<lparr>pb_balance := pb_balance b + x - k, pb_realized_pnl := pb_realized_pnl b - k'\<rparr>) =
      spot_basis b"
    by (rule spot_basis_cong) simp_all
  ultimately show ?thesis
    using assms by (simp add: balanced_def exchanged_def cash_ok_def)
qed

section \<open>Orders that do not close more than is held\<close>

definition clean_leg :: "paper_broker \<Rightarrow> string \<Rightarrow> options_leg \<Rightarrow> bool" where
  "clean_leg b s leg =
     (py_strip s = s \<and> map_of (pb_futures_leverages b) s = None \<and> ol_side leg \<in> {''BUY'', ''SELL''} \<and>
      0 < ol_quantity leg \<and> clean_fill b s (ol_side leg) (of_int (ol_quantity leg)) (pb_allow_reversal b))"

definition clean_options_order :: "paper_broker \<Rightarrow> options_intent \<Rightarrow> bool" where
  "clean_options_order b oi =
     (let u = symbol (oi_order oi)
      in case oi_legs oi of
           None \<Rightarrow> True
         | Some [] \<Rightarrow> True
         | Some [leg] \<Rightarrow> clean_leg b u leg
         | Some legs \<Rightarrow> distinct (map (option_leg_symbol u) legs) \<and>
                        list_all (\<lambda>leg. clean_leg b (option_leg_symbol u leg) leg) legs)"

lemma clean_leg_shape:
  assumes "shape (pb_positions b') s = shape (pb_positions b) s" "pb_futures_leverages b' = pb_futures_leverages b"
    "pb_allow_reversal b' = pb_allow_reversal b"
  shows "clean_leg b' s leg = clean_leg b s leg"
  using assms clean_fill_shape [of b' s b] by (simp add: clean_leg_def)

lemma update_prices_elsewhere:
  "s' \<noteq> s \<Longrightarrow> map_of (pb_positions (fst (update_position_prices b s price))) s' = map_of (pb_positions b) s'"
  by (auto simp: update_position_prices_def Let_def put_position_def split: option.split sum.split)

lemma update_position_elsewhere:
  assumes "s' \<noteq> s"
  shows "map_of (pb_positions (fst (update_position b s sd qty price an allow now))) s' = map_of (pb_positions b) s'"
proof -
  note m = update_prices_elsewhere [OF assms]
  have w: "pb_positions (fst (with_result x y)) = pb_positions (fst x)" for x :: "paper_broker \<times> unit res" and y :: rat
    by (auto simp: with_result_def split: prod.split sum.split)
  have op: "map_of (pb_positions (fst (open_position b s d q price basis now))) s' = map_of (pb_positions b) s'"
    for b :: paper_broker and d q basis
    using assms by (simp add: open_position_def m)
  have add: "map_of (pb_positions (fst (add_to_position b s p basis qty price an))) s' = map_of (pb_positions b) s'"
    for p basis
    using assms by (simp add: add_to_position_def Let_def w m put_position_def)
  have red: "map_of (pb_positions (fst (reduce_position b s sd p basis qty price an r now))) s' =
      map_of (pb_positions b) s'" for p basis r
    using assms by (simp add: reduce_position_def Let_def w m op put_position_def)
  show ?thesis
  proof (cases "map_of (pb_positions b) s")
    case None
    then show ?thesis by (simp add: update_position_def w op)
  next
    case (Some p)
    then show ?thesis
      by (cases "map_of (pb_position_account_basis b) s") (simp_all add: update_position_def add red)
  qed
qed

lemma multiplier_near:
  assumes "book_ok b"
  shows "near_ok (b\<lparr>pb_contract_multipliers := dict_set (pb_contract_multipliers b) s m\<rparr>) s" (is "near_ok ?b s")
proof -
  have "pos_ok ?b s' p = pos_ok b s' p" if "s' \<noteq> s" for s' p
    using that by (intro pos_ok_cong) simp_all
  then have "others_ok ?b s" using book_others [OF assms] by (simp add: others_ok_def)
  then show ?thesis using book_near [OF assms, of s] by (simp add: near_ok_def)
qed

text \<open>A clean fill of one contract exchanges its notional, and touches no other contract.\<close>

lemma fill_contract_exchanged:
  assumes book: "book_ok b" and ctx: "map_of (pb_currency_contexts b) s \<noteq> None" and leg: "clean_leg b s leg"
    and fill: "fill_contract b s m (ol_side leg) (of_int (ol_quantity leg)) price an now = (b', Inr pnl)"
  shows "exchanged b b' (trade_cash (ol_side leg) an)"
    and "\<And>s'. s' \<noteq> s \<Longrightarrow> map_of (pb_positions b') s' = map_of (pb_positions b) s'"
proof -
  let ?b1 = "b\<lparr>pb_contract_multipliers := dict_set (pb_contract_multipliers b) s m\<rparr>"
  let ?q = "of_int (ol_quantity leg)"
  have an: "0 \<le> an" using fill by (cases "an < 0") (auto simp: fill_contract_def update_position_def)
  have sd: "ol_side leg \<in> {''BUY'', ''SELL''}" and qty: "(0 :: rat) < ?q"
    and lev: "map_of (pb_futures_leverages ?b1) s = None" and ctx': "map_of (pb_currency_contexts ?b1) s \<noteq> None"
    and clean: "clean_fill ?b1 s (ol_side leg) ?q (pb_allow_reversal b)"
    using leg ctx by (simp_all add: clean_leg_def clean_fill_def)
  obtain clean' opens where eff: "fill_effect ?b1 s (ol_side leg) an clean' opens b' pnl"
    and c': "clean' = clean_fill ?b1 s (ol_side leg) ?q (pb_allow_reversal b)"
    using update_position_effect [OF multiplier_near [OF book] ctx' qty an sd, of price None now] fill
    by (auto simp: fill_contract_def)
  have "spot_basis ?b1 = spot_basis b" by (rule spot_basis_cong) simp_all
  then have "spot_basis b' + trade_cash (ol_side leg) an = spot_basis b + pnl" "book_ok b'"
    using eff clean lev unfolding fill_effect_def c' by simp_all
  then show "exchanged b b' (trade_cash (ol_side leg) an)"
    using fill_effect_frame [OF eff] by (simp add: exchanged_def)
  show "map_of (pb_positions b') s' = map_of (pb_positions b) s'" if "s' \<noteq> s" for s'
    using update_position_elsewhere [OF that, of ?b1 "ol_side leg" ?q price an None now] fill
    by (simp add: fill_contract_def)
qed

section \<open>The legs of a spread\<close>

definition leg_notional :: "rat \<Rightarrow> leg_fill \<Rightarrow> rat" where
  "leg_notional m f = lg_price f * of_int (ol_quantity (lg_leg f)) * m"

definition leg_cash :: "rat \<Rightarrow> leg_fill \<Rightarrow> rat" where
  "leg_cash m f = trade_cash (ol_side (lg_leg f)) (leg_notional m f)"

lemma price_legs_ok:
  assumes "price_legs b u m legs fills premium commission = Inr (fills', premium', commission')"
  shows "\<exists>fs. fills' = fills @ fs \<and> map lg_leg fs = legs \<and> map lg_symbol fs = map (option_leg_symbol u) legs \<and>
    premium' = premium + sum_list (map (leg_cash m) fs) \<and> (\<forall>f\<in>set fs. 0 < lg_price f \<and> 0 < ol_quantity (lg_leg f))"
  using assms
proof (induction legs arbitrary: fills premium commission)
  case (Cons leg legs)
  then obtain price where price: "positive_number (ol_premium leg) = Some price" and q: "0 < ol_quantity leg"
    and sd: "ol_side leg = ''BUY'' \<or> ol_side leg = ''SELL''"
    by (auto simp: Let_def split: option.splits if_splits)
  define f where "f = \<lparr>lg_leg = leg, lg_symbol = option_leg_symbol u leg, lg_price = price,
    lg_commission = \<bar>price * of_int (ol_quantity leg) * m * pb_commission_pct b\<bar>\<rparr>"
  have "0 < price" using price by (auto simp: positive_number_def split: option.splits number.splits if_splits)
  obtain n where n: "ol_premium leg = Some n" using price by (cases "ol_premium leg") (auto simp: positive_number_def)
  have "price_legs b u m legs (fills @ [f]) (premium + leg_cash m f) (commission + lg_commission f) =
      Inr (fills', premium', commission')"
    using Cons.prems price q sd n
    by (auto simp: Let_def f_def leg_cash_def leg_notional_def trade_cash_def algebra_simps split: if_splits)
  from Cons.IH [OF this] obtain fs where fs: "fills' = (fills @ [f]) @ fs" "map lg_leg fs = legs"
    "map lg_symbol fs = map (option_leg_symbol u) legs"
    "premium' = premium + leg_cash m f + sum_list (map (leg_cash m) fs)"
    "\<forall>f\<in>set fs. 0 < lg_price f \<and> 0 < ol_quantity (lg_leg f)"
    by blast
  then show ?case using \<open>0 < price\<close> q by (intro exI [of _ "f # fs"]) (simp add: f_def)
qed simp

lemma to_account_sum: "settlement_to_account c (x + y) = settlement_to_account c x + settlement_to_account c y"
  by (simp add: settlement_to_account_def add_divide_distrib)

lemma trade_cash_account:
  "trade_cash sd (settlement_to_account c x) = settlement_to_account c (trade_cash sd x)"
  by (simp add: trade_cash_def settlement_to_account_def)

lemma apply_legs_exchanged:
  assumes "book_ok b" "0 < m" "\<forall>f\<in>set fs. clean_leg b (lg_symbol f) (lg_leg f)" "distinct (map lg_symbol fs)"
    and "\<forall>f\<in>set fs. 0 < lg_price f \<and> 0 < ol_quantity (lg_leg f)"
    and "apply_legs b c m fs now = (b', Inr u)"
  shows "exchanged b b' (settlement_to_account c (sum_list (map (leg_cash m) fs)))"
  using assms
proof (induction fs arbitrary: b)
  case Nil
  then show ?case by (simp add: exchanged_refl settlement_to_account_def)
next
  case (Cons f fs)
  let ?s = "lg_symbol f" and ?q = "of_int (ol_quantity (lg_leg f))"
  let ?an = "settlement_to_account c \<bar>lg_price f * ?q * m\<bar>"
  obtain b1 b2 pnl where b1: "set_currency_context b ?s c = (b1, Inr ())"
    and b2: "fill_contract b1 ?s m (ol_side (lg_leg f)) ?q (lg_price f) ?an now = (b2, Inr pnl)"
    and rest: "apply_legs b2 c m fs now = (b', Inr u)"
    using Cons.prems(6) by (auto simp: Let_def split: prod.splits sum.splits)
  have s: "py_strip ?s = ?s" using Cons.prems(3) by (simp add: clean_leg_def)
  obtain ps where ctx: "b1 = b\<lparr>pb_currency_contexts := dict_set (pb_currency_contexts b) ?s c, pb_positions := ps\<rparr>"
    and ok1: "book_ok b1" "spot_basis b1 = spot_basis b" "same_shape ps (pb_positions b)"
    using set_context_effect [OF Cons.prems(1) b1] unfolding s by blast
  have e1: "exchanged b b1 0" using ok1(1,2) by (simp add: exchanged_def ctx)
  have same1: "clean_leg b1 s' leg = clean_leg b s' leg" for s' leg
    using ok1(3) by (intro clean_leg_shape) (simp_all add: ctx same_shape_def)
  have leg: "clean_leg b1 ?s (lg_leg f)" using Cons.prems(3) same1 by simp
  have c1: "map_of (pb_currency_contexts b1) ?s \<noteq> None" by (simp add: ctx)
  note e2 = fill_contract_exchanged [OF ok1(1) c1 leg b2]
  have book2: "book_ok b2" using e2(1) by (simp add: exchanged_def)
  have clean2: "\<forall>g\<in>set fs. clean_leg b2 (lg_symbol g) (lg_leg g)"
  proof
    fix g assume g: "g \<in> set fs"
    then have "lg_symbol g \<noteq> ?s" using Cons.prems(4) by (metis distinct.simps(2) image_eqI list.set_map list.simps(9))
    then have "clean_leg b2 (lg_symbol g) (lg_leg g) = clean_leg b1 (lg_symbol g) (lg_leg g)"
      using e2 by (intro clean_leg_shape) (simp_all add: shape_def exchanged_def)
    then show "clean_leg b2 (lg_symbol g) (lg_leg g)" using g Cons.prems(3) same1 by simp
  qed
  have e3: "exchanged b2 b' (settlement_to_account c (sum_list (map (leg_cash m) fs)))"
    using Cons.IH [OF book2 Cons.prems(2) clean2 _ _ rest] Cons.prems(4,5) by simp
  have "\<bar>lg_price f * ?q * m\<bar> = leg_notional m f"
    using Cons.prems(2,5) by (simp add: leg_notional_def abs_mult)
  then show ?case
    using exchanged_trans [OF exchanged_trans [OF e1 e2(1)] e3]
    by (simp add: leg_cash_def [of m f] trade_cash_account to_account_sum)
qed

section \<open>Orders on a balanced account\<close>

lemma single_leg_balanced:
  assumes bal: "balanced b" and legs: "oi_legs oi = Some [leg]" and clean: "clean_leg b (symbol (oi_order oi)) leg"
    and sub: "submit_single_leg_options_order cm l b oi oid now = (b', l', Inr r)"
  shows "balanced b'"
proof -
  let ?i = "oi_order oi"
  obtain b1 rc where rc: "require_currency_context b ?i = (b1, rc)" by fastforce
  have b1: "balanced b1" "same_shape (pb_positions b1) (pb_positions b)"
    "pb_futures_leverages b1 = pb_futures_leverages b" "pb_allow_reversal b1 = pb_allow_reversal b"
    "\<And>c. rc = Inr c \<Longrightarrow> map_of (pb_currency_contexts b1) (py_strip (symbol ?i)) = Some c"
    using require_context_evolves [OF bal rc] by (simp_all add: converted_from_def evolves_def)
  show ?thesis
  proof (cases "b' = b1")
    case False
    with sub rc legs obtain c m price t where c: "rc = Inr c"
      and app: "apply_single_leg b1 (symbol ?i) leg m price t now = (b', Inr ())"
      by (auto simp: submit_single_leg_options_order_def Let_def split: sum.splits option.splits if_splits prod.splits)
    let ?x = "trade_cash (ol_side leg) (tr_account_notional t)" and ?k = "tr_account_commission t"
    let ?b2 = "b1\<lparr>pb_balance := pb_balance b1 + cash_flow (ol_side leg) t\<rparr>"
    have eq: "?b2 = b1\<lparr>pb_balance := pb_balance b1 + ?x - ?k, pb_realized_pnl := pb_realized_pnl b1 - 0\<rparr>"
      by (simp add: cash_flow_def trade_cash_def)
    obtain b3 pnl where fill: "fill_contract ?b2 (symbol ?i) m (ol_side leg) (of_int (ol_quantity leg)) price
        (tr_account_notional t) now = (b3, Inr pnl)"
      and b': "b' = b3\<lparr>pb_realized_pnl := pb_realized_pnl b3 - ?k, pb_trade_history := pb_trade_history b3 @ [t]\<rparr>"
      using app by (auto simp: apply_single_leg_def split: prod.splits sum.splits)
    have book: "book_ok ?b2" using b1 book_ok_cong [of ?b2 b1] by (simp add: balanced_def)
    have "clean_leg ?b2 (symbol ?i) leg"
      using clean b1 clean_leg_shape [of ?b2 "symbol ?i" b leg] by (simp add: same_shape_def)
    moreover have "map_of (pb_currency_contexts ?b2) (symbol ?i) \<noteq> None"
      using b1 c clean by (simp add: clean_leg_def)
    ultimately have "exchanged ?b2 b3 ?x" using fill_contract_exchanged(1) [OF book _ _ fill] by blast
    then show ?thesis unfolding eq b' 
      using exchanged_balanced [where b = b1 and x = ?x and k = ?k and k' = 0 and b' = b3 and k'' = ?k] b1 by simp
  qed (use b1 in simp)
qed

lemma multi_leg_balanced:
  assumes bal: "balanced b" and dist: "distinct (map (option_leg_symbol (symbol (oi_order oi))) legs)"
    and clean: "list_all (\<lambda>leg. clean_leg b (option_leg_symbol (symbol (oi_order oi)) leg) leg) legs"
    and sub: "submit_multi_leg_options_order cm l b oi legs oid now = (b', l', Inr r)"
  shows "balanced b'"
proof -
  let ?i = "oi_order oi"
  obtain b1 rc where rc: "require_currency_context b ?i = (b1, rc)" by fastforce
  have b1: "balanced b1" "same_shape (pb_positions b1) (pb_positions b)"
    "pb_futures_leverages b1 = pb_futures_leverages b" "pb_allow_reversal b1 = pb_allow_reversal b"
    "\<And>c. rc = Inr c \<Longrightarrow> map_of (pb_currency_contexts b1) (py_strip (symbol ?i)) = Some c"
    using require_context_evolves [OF bal rc] by (simp_all add: converted_from_def evolves_def)
  show ?thesis
  proof (cases "b' = b1")
    case False
    with sub rc obtain c m fills premium commission t where m: "resolve_contract_multiplier ?i = Some m"
      and pl: "price_legs b1 (symbol ?i) m legs [] 0 0 = Inr (fills, premium, commission)"
      and app: "apply_multi_leg b1 c m fills commission (settlement_to_account c (- premium + commission)) t now =
        (b', Inr ())"
      by (auto simp: submit_multi_leg_options_order_def Let_def
          split: sum.splits option.splits if_splits prod.splits)
    have m0: "0 < m" using m by (auto simp: resolve_contract_multiplier_def split: option.splits if_splits)
    obtain fs where fs: "fills = fs" "map lg_leg fs = legs"
      "map lg_symbol fs = map (option_leg_symbol (symbol ?i)) legs" "premium = sum_list (map (leg_cash m) fs)"
      "\<forall>f\<in>set fs. 0 < lg_price f \<and> 0 < ol_quantity (lg_leg f)"
      using price_legs_ok [OF pl] by auto
    let ?x = "settlement_to_account c premium" and ?k = "settlement_to_account c commission"
    let ?b2 = "b1\<lparr>pb_balance := pb_balance b1 + ?x - ?k, pb_realized_pnl := pb_realized_pnl b1 - ?k\<rparr>"
    have net: "pb_balance b1 - settlement_to_account c (- premium + commission) = pb_balance b1 + ?x - ?k"
      by (simp add: settlement_to_account_def diff_divide_distrib)
    obtain b3 where legs: "apply_legs ?b2 c m fs now = (b3, Inr ())"
      and b': "b' = b3\<lparr>pb_trade_history := pb_trade_history b3 @ [t]\<rparr>"
      using app unfolding apply_multi_leg_def net fs(1) by (auto split: prod.splits sum.splits)
    have book: "book_ok ?b2" using b1 book_ok_cong [of ?b2 b1] by (simp add: balanced_def)
    have all: "\<forall>f\<in>set fs. clean_leg ?b2 (lg_symbol f) (lg_leg f)"
    proof
      fix f assume "f \<in> set fs"
      then have "lg_leg f \<in> set legs" "lg_symbol f = option_leg_symbol (symbol ?i) (lg_leg f)"
        using fs(2,3) by (auto simp: map_eq_conv)
      with clean show "clean_leg ?b2 (lg_symbol f) (lg_leg f)"
        using b1 clean_leg_shape [of ?b2 "lg_symbol f" b "lg_leg f"] by (simp add: same_shape_def list_all_iff)
    qed
    have "exchanged ?b2 b3 ?x"
      using apply_legs_exchanged [OF book m0 all _ fs(5) legs] fs(3,4) dist by simp
    then have "balanced (b3\<lparr>pb_realized_pnl := pb_realized_pnl b3 - 0, pb_trade_history := pb_trade_history b3 @ [t]\<rparr>)"
      using exchanged_balanced [where b = b1 and x = ?x and k = ?k and k' = ?k and b' = b3 and k'' = 0] b1 by simp
    then show ?thesis unfolding b' by simp
  qed (use b1 in simp)
qed

lemma options_order_balanced:
  assumes "balanced b" "clean_options_order b oi" "submit_options_order cm l b oi oid now = (b', l', Inr r)"
  shows "balanced b'"
proof (cases "oi_legs oi")
  case (Some legs)
  consider "legs = []" | leg where "legs = [leg]" | x y zs where "legs = x # y # zs"
    by (metis neq_Nil_conv)
  then show ?thesis
  proof cases
    case 2
    then show ?thesis
      using assms Some single_leg_balanced [OF assms(1)]
      by (simp add: submit_options_order_def clean_options_order_def Let_def)
  next
    case 3
    then show ?thesis
      using assms Some multi_leg_balanced [OF assms(1), of oi legs]
      by (simp add: submit_options_order_def clean_options_order_def Let_def)
  qed (use assms Some in \<open>simp add: submit_options_order_def\<close>)
qed (use assms in \<open>simp add: submit_options_order_def\<close>)

text \<open>
  The accounts reached by any interleaving of spot, futures and options orders, triggered resting
  orders, marks, conversions, cancellations and resets, all returning normally, where symbols are
  trimmed, sides are BUY or SELL, and no spot or options order closes more of a position than is
  held unless the broker reverses it. Futures orders are unrestricted.
\<close>

inductive account_reach :: "paper_broker \<Rightarrow> bool" where
  opened: "paper_broker_init acct st ca cur re sl co costs allow = Inr b \<Longrightarrow> account_reach b"
| ordered: "account_reach b \<Longrightarrow> py_strip (symbol i) = symbol i \<Longrightarrow> side i \<in> {''BUY'', ''SELL''} \<Longrightarrow>
    (resolve_linear_futures_terms b i = Inr None \<longrightarrow> clean_spot b (symbol i) (side i) (quantity i)) \<Longrightarrow>
    submit_order (cm :: fill_commit list committer) l b (i :: order_intent) oid now = (b', l', Inr r) \<Longrightarrow>
    account_reach b'"
| triggered: "account_reach b \<Longrightarrow> py_strip (symbol i) = symbol i \<Longrightarrow> side i \<in> {''BUY'', ''SELL''} \<Longrightarrow>
    prepare_resting_fill b (i :: order_intent) oid tid rq rp ts prov slip tm = (b1, Inr plan) \<Longrightarrow>
    clean_spot b (symbol i) (side i) (tr_quantity (fp_trade plan)) \<Longrightarrow>
    apply_committed_fill b1 plan now = (b', Inr u) \<Longrightarrow> account_reach b'"
| options: "account_reach b \<Longrightarrow> clean_options_order b oi \<Longrightarrow>
    submit_options_order (cm :: fill_commit list committer) l b oi oid now = (b', l', Inr r) \<Longrightarrow> account_reach b'"
| priced: "account_reach b \<Longrightarrow> set_price b s price = (b', Inr u) \<Longrightarrow> account_reach b'"
| converted: "account_reach b \<Longrightarrow> set_currency_context b s c = (b', Inr u) \<Longrightarrow> account_reach b'"
| cancelled: "account_reach b \<Longrightarrow> cancel_order b oid = (b', x) \<Longrightarrow> account_reach b'"
| restarted: "account_reach b \<Longrightarrow> account_reach (reset b)"

lemma account_reach_balanced: "account_reach b \<Longrightarrow> balanced b"
proof (induction rule: account_reach.induct)
  case (opened acct st ca cur re sl co costs allow b)
  then show ?case by (rule init_balanced)
next
  case (ordered b i cm l oid now b' l' r)
  then show ?case using submit_order_evolves evolves_balanced by metis
next
  case (triggered b i oid tid rq rp ts prov slip tm b1 plan now b' u)
  then show ?case using resting_fill_evolves evolves_balanced by metis
next
  case (options b oi cm l oid now b' l' r)
  show ?case by (rule options_order_balanced [OF options.IH options.hyps(2,3)])
next
  case (priced b s price b' u)
  then show ?case using set_price_evolves [of b s price] by (auto simp: evolves_def)
next
  case (converted b s c b' u)
  then show ?case using set_context_evolves [of b s c b' u] by (auto simp: converted_from_def evolves_def)
next
  case (cancelled b oid b' x)
  then show ?case using cancel_evolves evolves_balanced by blast
next
  case (restarted b)
  then show ?case using reset_evolves evolves_balanced by blast
qed

text \<open>
  C2: The account balances. In every account reached by any interleaving of spot, futures and options
  orders, resting fills, marks, conversions, cancellations and resets that return normally, on trimmed
  symbols with a side of BUY or SELL, where no spot or options order closes more of a position than is
  held unless the broker reverses it, the legs of one options order name different contracts and none
  of them has futures terms: the economics are computed without an exception, and equity is exactly
  the initial cash plus the realised P\&L since then, commissions included, plus the unrealised P\&L
  of the open positions, long and short, spot, futures, single contracts and spreads.
\<close>

theorem options_keep_equity:
  assumes "account_reach b"
  shows "\<exists>e. account_economics_of b = Inr e \<and>
    ec_equity e = pb_initial_cash b + (pb_realized_pnl b - pb_initial_realized_pnl b) + ec_unrealized_pnl e"
  using account_reach_balanced [OF assms] book_equity [of b] by (auto simp: balanced_def cash_ok_def)

section \<open>Ledger before state\<close>

lemma apply_single_history:
  assumes "apply_single_leg b s leg m price t now = (b', Inr u)"
  shows "pb_trade_history b' = pb_trade_history b @ [t]"
proof -
  let ?b1 = "b\<lparr>pb_balance := pb_balance b + cash_flow (ol_side leg) t,
    pb_contract_multipliers := dict_set (pb_contract_multipliers b) s m\<rparr>"
  obtain b2 r where up: "update_position ?b1 s (ol_side leg) (of_int (ol_quantity leg)) price
      (tr_account_notional t) None now = (b2, r)" by fastforce
  then have "pb_trade_history b2 = pb_trade_history b"
    using update_position_history [of ?b1 s "ol_side leg" "of_int (ol_quantity leg)" price "tr_account_notional t" None now]
    by simp
  then show ?thesis using assms up by (auto simp: apply_single_leg_def fill_contract_def split: sum.splits)
qed

lemma apply_legs_history:
  "apply_legs b c m fs now = (b', r) \<Longrightarrow> pb_trade_history b' = pb_trade_history b"
proof (induction fs arbitrary: b)
  case (Cons f fs)
  let ?q = "of_int (ol_quantity (lg_leg f))"
  let ?an = "settlement_to_account c \<bar>lg_price f * ?q * m\<bar>"
  obtain b1 r1 where set: "set_currency_context b (lg_symbol f) c = (b1, r1)" by fastforce
  have h1: "pb_trade_history b1 = pb_trade_history b"
    using money_context [of b "lg_symbol f" c] set by (simp add: money_def)
  obtain b2 r2 where fill: "fill_contract b1 (lg_symbol f) m (ol_side (lg_leg f)) ?q (lg_price f) ?an now = (b2, r2)"
    by fastforce
  have h2: "pb_trade_history b2 = pb_trade_history b1"
    using fill update_position_history [of "b1\<lparr>pb_contract_multipliers := dict_set (pb_contract_multipliers b1) (lg_symbol f) m\<rparr>"
        "lg_symbol f" "ol_side (lg_leg f)" ?q "lg_price f" ?an None now]
    by (simp add: fill_contract_def)
  show ?case
    using Cons.prems Cons.IH [of b2] set fill h1 h2 by (auto simp: Let_def split: sum.splits)
qed simp

lemma apply_multi_history:
  "apply_multi_leg b c m fs commission net t now = (b', Inr u) \<Longrightarrow> pb_trade_history b' = pb_trade_history b @ [t]"
  by (auto simp: apply_multi_leg_def dest!: apply_legs_history split: prod.splits sum.splits)

lemma submit_options_ledger:
  "ledger_first commit l b (oi_order oi) (submit_options_order (Some commit) l b oi oid now)"
proof -
  obtain b1 rc where rc: "require_currency_context b (oi_order oi) = (b1, rc)" by fastforce
  note m = money_require_context [OF rc]
  have single: "ledger_first commit l b (oi_order oi) (submit_single_leg_options_order (Some commit) l b oi oid now)"
  proof (cases rc)
    case (Inr c)
    show ?thesis
      unfolding submit_single_leg_options_order_def Let_def rc Inr prod.case sum.case
      by (rule ledger_first_money [OF m])
         (auto simp: ledger_first_same split: option.split list.split
           simp del: sum.case intro!: ledger_first_commit apply_single_history)
  qed (simp add: submit_single_leg_options_order_def rc ledger_first_same m)
  have multi: "ledger_first commit l b (oi_order oi) (submit_multi_leg_options_order (Some commit) l b oi legs oid now)"
    for legs
  proof (cases rc)
    case (Inr c)
    have "ledger_first commit l b1 (oi_order oi)
        (submit_multi_leg_options_order (Some commit) l b oi legs oid now)"
      unfolding submit_multi_leg_options_order_def Let_def rc Inr prod.case sum.case
      apply (split option.split, intro conjI allI impI)
       apply (simp add: ledger_first_same)
      apply (rule ledger_first_sum)
       apply (simp add: ledger_first_same)
      apply (rule ledger_first_pair)+
      apply (rule ledger_first_if, rule ledger_first_commit, erule apply_multi_history)
      done
    then show ?thesis by (rule ledger_first_money [OF m])
  qed (simp add: submit_multi_leg_options_order_def rc ledger_first_same m)
  show ?thesis
    using single multi by (auto simp: submit_options_order_def ledger_first_same split: option.split list.split)
qed

text \<open>
  C15: Ledger before state. When an order, or an options order of any number of legs, is submitted to a
  broker with a durable ledger, either neither the cash, the realised P\&L, the cost basis, the trade
  history nor the ledger changes, or the ledger accepted a fill of the bound canonical order first; and
  when the call returns, the committed fill is exactly the trade appended to the history and the
  committed result the one returned. In particular a ledger that refuses leaves the economic state as
  it was.
\<close>

theorem fill_committed_before_state:
  "ledger_first commit l b i (submit_order (Some commit) l b i oid now) \<and>
   ledger_first commit l b (oi_order oi) (submit_options_order (Some commit) l b oi oid now)"
  by (intro conjI submit_order_ledger submit_options_ledger)

section \<open>Symbols\<close>

lemma digits_value_append: "digits_value (xs @ ys) = digits_value xs * 10 ^ length ys + digits_value ys"
  by (induction ys rule: rev_induct) (simp_all add: digits_value_def algebra_simps)

lemma digits_value_zeros: "digits_value (replicate k CHR ''0'') = 0"
  by (induction k) (simp_all add: digits_value_def)

lemma length_nat_str: "n < 10 ^ Suc k \<Longrightarrow> length (nat_str n) \<le> Suc k"
proof (induction k arbitrary: n)
  case (Suc k)
  then have "n div 10 < 10 ^ Suc k" by (simp add: less_mult_imp_div_less)
  from Suc.IH [OF this] show ?case by (simp add: nat_str.simps [of n])
qed (simp add: nat_str.simps)

text \<open>The fraction a text of digits stands for after the point.\<close>

definition fraction_value :: "string \<Rightarrow> rat" where
  "fraction_value f = of_nat (digits_value f) / 10 ^ length f"

lemma fraction_zeros: "fraction_value (f @ replicate k CHR ''0'') = fraction_value f"
  by (simp add: fraction_value_def digits_value_append digits_value_zeros power_add)

lemma fraction_padded:
  assumes "r < 10 ^ k"
  shows "fraction_value (zero_padded k (nat_str r)) = of_nat r / 10 ^ k"
proof (cases k)
  case 0
  then show ?thesis using assms
    by (simp add: zero_padded_def fraction_value_def digits_value_nat_str)
next
  case (Suc j)
  then have "length (nat_str r) \<le> k" using length_nat_str [of r j] assms by simp
  then show ?thesis
    by (simp add: zero_padded_def fraction_value_def digits_value_append digits_value_zeros digits_value_nat_str)
qed

definition text_value :: "string \<Rightarrow> rat" where
  "text_value s =
     (case split_at ''.'' s of (i, f) \<Rightarrow> of_nat (digits_value i) + (case f of None \<Rightarrow> 0 | Some g \<Rightarrow> fraction_value g))"

lemma split_at_no_point: "CHR ''.'' \<notin> set s \<Longrightarrow> split_at ''.'' s = (s, None)"
  by (induction s) auto

lemma split_at_point: "CHR ''.'' \<notin> set i \<Longrightarrow> split_at ''.'' (i @ ''.'' @ f) = (i, Some f)"
  by (induction i) auto

lemma text_value_point:
  assumes "CHR ''.'' \<notin> set i"
  shows "text_value (point_digits i f) = of_nat (digits_value i) + fraction_value f"
proof -
  let ?g = "rev (dropWhile (\<lambda>c. c = CHR ''0'') (rev f))"
  define k where "k = length (takeWhile (\<lambda>c. c = CHR ''0'') (rev f))"
  have "takeWhile (\<lambda>c. c = CHR ''0'') (rev f) = replicate k CHR ''0''"
    unfolding k_def by (rule replicate_length_same [symmetric]) (auto dest: set_takeWhileD)
  then have "rev f = replicate k CHR ''0'' @ dropWhile (\<lambda>c. c = CHR ''0'') (rev f)"
    by (metis takeWhile_dropWhile_id)
  then have "rev (rev f) = ?g @ replicate k CHR ''0''" by (metis rev_append rev_replicate)
  then have "f = ?g @ replicate k CHR ''0''" by simp
  then have f: "fraction_value f = fraction_value ?g" using fraction_zeros by metis
  show ?thesis
  proof (cases "?g = []")
    case True
    have "fraction_value f = 0" using f unfolding True by (simp add: fraction_value_def digits_value_def)
    moreover have "point_digits i f = i" unfolding point_digits_def Let_def True by simp
    ultimately show ?thesis using assms by (simp add: text_value_def split_at_no_point)
  next
    case False
    have "point_digits i f = i @ ''.'' @ ?g" unfolding point_digits_def Let_def if_not_P [OF False] ..
    then show ?thesis unfolding text_value_def f by (simp only: split_at_point [OF assms] prod.case option.case)
  qed
qed

lemma exponent_up_bounds: "1 \<le> x \<Longrightarrow> 10 ^ exponent_up x \<le> x \<and> x < 10 ^ Suc (exponent_up x)"
proof (induction x rule: exponent_up.induct)
  case (1 x)
  then show ?case by (cases "x < 10") (auto simp: exponent_up.simps [of x])
qed

lemma exponent_down_bounds: "0 < x \<Longrightarrow> x < 1 \<Longrightarrow> x * 10 ^ exponent_down x < 10"
proof (induction x rule: exponent_down.induct)
  case (1 x)
  have e: "exponent_down x = Suc (exponent_down (10 * x))" using 1(2,3) by (simp add: exponent_down.simps [of x])
  show ?case
  proof (cases "10 * x < 1")
    case True
    then show ?thesis using 1 by (simp add: e)
  next
    case False
    then have "exponent_down (10 * x) = 0" by (simp add: exponent_down.simps [of "10 * x"])
    then show ?thesis using 1(3) by (simp add: e)
  qed
qed

text \<open>Strikes with at most six significant digits, written without an exponent.\<close>

definition exact_strike :: "rat \<Rightarrow> bool" where
  "exact_strike x =
     (0 < x \<and> - 4 \<le> decimal_exponent x \<and> decimal_exponent x \<le> 5 \<and>
      of_int \<lfloor>x * power_of_ten (5 - decimal_exponent x)\<rfloor> = x * power_of_ten (5 - decimal_exponent x))"

lemma six_digits_below:
  assumes "0 < x" "decimal_exponent x \<le> 5"
  shows "x * power_of_ten (5 - decimal_exponent x) < 10 ^ 6"
proof (cases "1 \<le> x")
  case True
  define E where "E = exponent_up x"
  have E: "E \<le> 5" using assms(2) True by (simp add: decimal_exponent_def E_def)
  have "x * 10 ^ (5 - E) < 10 ^ Suc E * 10 ^ (5 - E)"
    using exponent_up_bounds [OF True] by (simp add: E_def)
  also have "\<dots> = 10 ^ 6" using E by (simp flip: power_add)
  finally show ?thesis
    using True E by (simp add: decimal_exponent_def power_of_ten_def E_def nat_diff_distrib)
next
  case False
  define D where "D = exponent_down x"
  have "x * 10 ^ D * 10 ^ 5 < 10 * 10 ^ 5" using exponent_down_bounds [of x] False assms(1) by (simp add: D_def)
  then show ?thesis
    using False by (simp add: decimal_exponent_def power_of_ten_def D_def nat_add_distrib power_add algebra_simps)
qed

lemma text_value_strike:
  assumes "exact_strike x"
  shows "text_value (format_g x) = x"
proof -
  let ?e = "decimal_exponent x"
  define k where "k = nat (5 - ?e)"
  define z where "z = \<lfloor>x * power_of_ten (5 - ?e)\<rfloor>"
  have x: "0 < x" "- 4 \<le> ?e" "?e \<le> 5" and z': "of_int z = x * power_of_ten (5 - ?e)"
    using assms unfolding exact_strike_def z_def by blast+
  note z = z' [symmetric]
  have p: "power_of_ten (5 - ?e) = 10 ^ k" using x(3) by (simp add: power_of_ten_def k_def)
  have "0 < (of_int z :: rat)" using z p x(1) by (metis zero_less_mult_iff zero_less_power zero_less_numeral)
  then have z0: "0 < z" by simp
  have "(of_int z :: rat) < of_int (10 ^ 6)" using six_digits_below [OF x(1,3)] z by simp
  then have z1: "z \<noteq> 1000000" unfolding of_int_less_iff by simp
  have six: "six_digits x = (z, ?e)"
    using z1 by (simp add: six_digits_def Let_def z round_half_even_of_int)
  have "text_value (format_g x) = of_nat (digits_value (nat_str (nat (z div 10 ^ k)))) +
      fraction_value (zero_padded k (nat_str (nat (z mod 10 ^ k))))"
    using x six text_value_point [of "nat_str (nat (z div 10 ^ k))"] nat_str_no_char [of "CHR ''.''"]
    by (simp add: format_g_def format_positive_def Let_def k_def)
  also have "\<dots> = of_nat (nat (z div 10 ^ k)) + of_nat (nat (z mod 10 ^ k)) / 10 ^ k"
    by (simp add: digits_value_nat_str fraction_padded nat_less_iff)
  also have "\<dots> = of_int (z div 10 ^ k * 10 ^ k + z mod 10 ^ k) / 10 ^ k"
    using z0 by (simp add: add_divide_distrib pos_imp_zdiv_nonneg_iff)
  also have "\<dots> = of_int z / 10 ^ k" by (simp only: div_mult_mod_eq)
  also have "\<dots> = x" using z p by (metis nonzero_mult_div_cancel_right power_not_zero zero_neq_numeral)
  finally show ?thesis .
qed

lemma format_no_colon: "CHR '':'' \<notin> set (format_g x)"
proof -
  have pd: "CHR '':'' \<notin> set i \<Longrightarrow> CHR '':'' \<notin> set f \<Longrightarrow> CHR '':'' \<notin> set (point_digits i f)" for i f
  proof -
    assume i: "CHR '':'' \<notin> set i" and f: "CHR '':'' \<notin> set f"
    have "CHR '':'' \<notin> set (rev (dropWhile (\<lambda>c. c = CHR ''0'') (rev f)))"
      using f set_dropWhileD [of "CHR '':''" "\<lambda>c. c = CHR ''0''" "rev f"] by auto
    with i show ?thesis by (simp add: point_digits_def Let_def)
  qed
  have zp: "CHR '':'' \<notin> set (zero_padded k (nat_str n))" for k n
    using nat_str_no_sign(1) [of n] by (simp add: zero_padded_def)
  have "CHR '':'' \<notin> set (format_positive y)" for y
  proof (cases "six_digits y")
    case (Pair m e)
    have "CHR '':'' \<notin> set (point_digits (nat_str a) (zero_padded k (nat_str n)))" for a k n
      by (rule pd [OF nat_str_no_sign(1) zp])
    then show ?thesis
      unfolding format_positive_def Let_def Pair prod.case by (simp add: zp)
  qed
  then show ?thesis by (auto simp: format_g_def)
qed

text \<open>
  C33: Symbols identify contracts. For underlyings and expiries without a colon and strikes of at most
  six significant digits between 0.0001 and a million, the legs of two spreads are kept under one
  symbol exactly when underlying, expiry, strike and option type, up to case, are the same: positions
  of different contracts are never netted.
\<close>

theorem option_symbol_identifies_contract:
  assumes "CHR '':'' \<notin> set u" "CHR '':'' \<notin> set u'" "CHR '':'' \<notin> set (ol_expiry leg)"
    "CHR '':'' \<notin> set (ol_expiry leg')" "exact_strike (ol_strike leg)" "exact_strike (ol_strike leg')"
  shows "option_leg_symbol u leg = option_leg_symbol u' leg' \<longleftrightarrow>
    u = u' \<and> ol_expiry leg = ol_expiry leg' \<and> ol_strike leg = ol_strike leg' \<and>
    py_upper (ol_option_type leg) = py_upper (ol_option_type leg')"
proof
  assume eq: "option_leg_symbol u leg = option_leg_symbol u' leg'"
  note 1 = append_colon_eq [OF assms(1,2) eq [unfolded option_leg_symbol_def]]
  note 2 = append_colon_eq [OF assms(3,4) conjunct2 [OF 1]]
  note 3 = append_colon_eq [OF format_no_colon format_no_colon conjunct2 [OF 2]]
  have "ol_strike leg = ol_strike leg'"
    using conjunct1 [OF 3] text_value_strike [OF assms(5)] text_value_strike [OF assms(6)] by metis
  then show "u = u' \<and> ol_expiry leg = ol_expiry leg' \<and> ol_strike leg = ol_strike leg' \<and>
    py_upper (ol_option_type leg) = py_upper (ol_option_type leg')"
    by (intro conjI conjunct1 [OF 1] conjunct1 [OF 2] conjunct2 [OF 3])
qed (simp add: option_leg_symbol_def)

section \<open>A small options account\<close>

definition ex_leg :: "string \<Rightarrow> int \<Rightarrow> rat \<Rightarrow> rat \<Rightarrow> options_leg" where
  "ex_leg sd qty strike premium =
     \<lparr>ol_option_type = ''call'', ol_strike = strike, ol_expiry = ''2030-01-18'', ol_side = sd,
      ol_quantity = qty, ol_premium = Some (Fin premium)\<rparr>"

definition ex_options :: "options_leg list \<Rightarrow> options_intent" where
  "ex_options legs =
     \<lparr>oi_order = (ex_order ''BUY'' 1 [(''contract_multiplier'', PInt 10)])\<lparr>symbol := ''SPY''\<rparr>,
      oi_legs = Some legs, oi_spread_type = None, oi_underlying_price = None, oi_max_profit = None,
      oi_max_loss = None, oi_breakeven = None\<rparr>"

definition ex_options_submit ::
    "paper_broker \<Rightarrow> options_leg list \<Rightarrow> paper_broker \<times> fill_commit list \<times> broker_order_result res" where
  "ex_options_submit b legs = submit_options_order None [] b (ex_options legs) ''o'' 7"

definition ex_spread :: "options_leg list" where
  "ex_spread = [ex_leg ''BUY'' 2 100 5, ex_leg ''SELL'' 1 110 2]"

definition ex_spread_held :: paper_broker where
  "ex_spread_held = fst (ex_options_submit ex_broker ex_spread)"

lemma ex_spread_symbols:
  "map (option_leg_symbol ''SPY'') ex_spread = [''SPY:2030-01-18:100:CALL'', ''SPY:2030-01-18:110:CALL'']"
  by code_simp

lemma ex_spread_ok:
  "clean_options_order ex_broker (ex_options ex_spread)" "is_ok (snd (snd (ex_options_submit ex_broker ex_spread)))"
  by code_simp+

lemma ex_spread_reach: "account_reach ex_spread_held"
proof -
  have r: "account_reach ex_broker" using ok_cases [OF ex_calls_ok(1)] opened unfolding ex_broker_def by force
  obtain x where "snd (snd (ex_options_submit ex_broker ex_spread)) = Inr x" using ok_cases [OF ex_spread_ok(2)] by blast
  then have "submit_options_order None [] ex_broker (ex_options ex_spread) ''o'' 7 =
      (ex_spread_held, fst (snd (ex_options_submit ex_broker ex_spread)), Inr x)"
    unfolding ex_options_submit_def ex_spread_held_def by (metis prod.collapse)
  then show ?thesis by (rule options [OF r ex_spread_ok(1)])
qed

text \<open>A spot purchase after the spread, which holds a short call.\<close>

definition ex_mixed :: paper_broker where
  "ex_mixed = fst (ex_submit (fst (set_price ex_spread_held ''BTC'' 100)) ''BUY'' 2)"

lemma ex_mixed_ok:
  "is_ok (snd (set_price ex_spread_held ''BTC'' 100))"
  "is_ok (snd (snd (ex_submit (fst (set_price ex_spread_held ''BTC'' 100)) ''BUY'' 2)))"
  "clean_spot (fst (set_price ex_spread_held ''BTC'' 100)) ''BTC'' ''BUY'' 2"
  "py_strip ''BTC'' = ''BTC''"
  by code_simp+

lemma ex_mixed_reach: "account_reach ex_mixed"
proof -
  let ?b = "fst (set_price ex_spread_held ''BTC'' 100)" and ?i = "ex_order ''BUY'' 2 []"
  have b: "account_reach ?b"
    using ok_cases [OF ex_mixed_ok(1)] priced [OF ex_spread_reach] by (metis prod.collapse)
  obtain x where "snd (snd (ex_submit ?b ''BUY'' 2)) = Inr x" using ok_cases [OF ex_mixed_ok(2)] by blast
  then have sub: "submit_order None [] ?b ?i ''o'' 7 = (ex_mixed, fst (snd (ex_submit ?b ''BUY'' 2)), Inr x)"
    unfolding ex_mixed_def ex_submit_def by (metis prod.collapse)
  show ?thesis
    by (rule ordered [OF b _ _ _ sub]) (use ex_mixed_ok(3,4) in \<open>simp_all add: ex_order_def\<close>)
qed

theorem options_keep_equity_witness:
  "\<exists>e. account_economics_of ex_mixed = Inr e \<and> length (pb_positions ex_mixed) = 3 \<and>
       pb_balance ex_mixed = 7168 / 10 \<and> ec_equity e = 1000 - 32 / 10 + ec_unrealized_pnl e"
proof -
  have c: "pb_initial_cash ex_mixed = 1000" "pb_realized_pnl ex_mixed = - 32 / 10"
    "pb_initial_realized_pnl ex_mixed = 0" "length (pb_positions ex_mixed) = 3"
    "pb_balance ex_mixed = 7168 / 10"
    by code_simp+
  from options_keep_equity [OF ex_mixed_reach] c show ?thesis by simp
qed

theorem option_symbol_identifies_contract_witness:
  "option_leg_symbol ''SPY'' (ex_leg ''BUY'' 1 (475 / 4) 5) \<noteq> option_leg_symbol ''SPY'' (ex_leg ''SELL'' 1 110 5)"
proof -
  have "exact_strike (475 / 4)" "exact_strike 110" by code_simp+
  with option_symbol_identifies_contract [of "''SPY''" "''SPY''" "ex_leg ''BUY'' 1 (475 / 4) 5" "ex_leg ''SELL'' 1 110 5"]
  show ?thesis by (simp add: ex_leg_def)
qed

section \<open>Outside the conditions\<close>

text \<open>
  Selling more contracts than are held creates cash. On a broker that does not reverse, a sale of three
  contracts against one held closes the one and is paid for all three: equity rises by the premium of
  two contracts that nobody owes, although no price moved.
\<close>

theorem option_oversell_creates_cash:
  "let b0 = fst (ex_options_submit (ex_broker\<lparr>pb_commission_pct := 0\<rparr>) [ex_leg ''BUY'' 1 100 5]);
       (b1, _, r) = ex_options_submit b0 [ex_leg ''SELL'' 3 100 5]
   in map_option bor_filled_quantity (case r of Inl _ \<Rightarrow> None | Inr x \<Rightarrow> Some x) = Some 3 \<and>
      pb_positions b1 = [] \<and> ec_equity (projr (account_economics_of b0)) = 1000 \<and>
      ec_equity (projr (account_economics_of b1)) = 1100"
  by code_simp

text \<open>
  Strikes of more than six digits share a symbol: a spread between the strikes 1234567 and 1234568 is
  one position.
\<close>

theorem long_strikes_share_symbol:
  "option_leg_symbol u (ex_leg sd q 1234567 p) = option_leg_symbol u (ex_leg sd' q' 1234568 p')"
proof -
  have "six_digits 1234567 = six_digits 1234568" by code_simp
  then show ?thesis by (simp add: option_leg_symbol_def ex_leg_def format_g_def format_positive_def)
qed

end
