(* ===== verification/Fifo_Accounting.thy ===== *)
theory Fifo_Accounting
  imports Fifo_Pnl "HOL-Library.Multiset"
begin

text \<open>
  What the first-in-first-out calculation promises: no profit is lost or counted twice, lots are
  closed in the order they were opened, long and short lots never coexist, and the calculation
  returns on every ledger of one currency with positive quantities and prices.

  \<open>book\<close> is the signed cost of open lots with their unreleased commission, \<open>gross\<close> the capital
  bound in them. The locale \<open>closing_loop\<close> shows how a closing loop changes both.
\<close>

section \<open>Value of open lots\<close>

definition released :: "fifo_lot \<Rightarrow> rat" where
  "released lot = entry_commission lot * (lot_remaining lot / lot_quantity lot)"

definition book :: "fifo_lot list \<Rightarrow> rat" where
  "book lots = (\<Sum>lot\<leftarrow>lots. lot_remaining lot * lot_price lot + released lot)"

definition gross :: "fifo_lot list \<Rightarrow> rat" where
  "gross lots = (\<Sum>lot\<leftarrow>lots. \<bar>lot_remaining lot\<bar> * lot_price lot + released lot)"

definition net :: "fifo_lot list \<Rightarrow> rat" where
  "net lots = (\<Sum>lot\<leftarrow>lots. lot_remaining lot)"

definition lot_ok :: "rat \<Rightarrow> fifo_lot \<Rightarrow> bool" where
  "lot_ok \<sigma> lot \<longleftrightarrow> 0 < \<sigma> * lot_remaining lot \<and> 0 < \<sigma> * lot_quantity lot"

lemma lots_simps [simp]:
  "book [] = 0" "book (lot # lots) = lot_remaining lot * lot_price lot + released lot + book lots"
  "gross [] = 0" "gross (lot # lots) = \<bar>lot_remaining lot\<bar> * lot_price lot + released lot + gross lots"
  "net [] = 0" "net (lot # lots) = lot_remaining lot + net lots"
  "book (xs @ ys) = book xs + book ys" "gross (xs @ ys) = gross xs + gross ys"
  "net (xs @ ys) = net xs + net ys"
  by (simp_all add: book_def gross_def net_def)

abbreviation pnl_sum :: "fifo_contribution list \<Rightarrow> rat" where
  "pnl_sum cs \<equiv> (\<Sum>k\<leftarrow>cs. net_realized_pnl k)"

abbreviation capital_sum :: "fifo_contribution list \<Rightarrow> rat" where
  "capital_sum cs \<equiv> (\<Sum>k\<leftarrow>cs. deployed_entry_capital k)"

lemma realized_contribution_Inr:
  "realized_contribution lot tr q c pnl = Inr k \<Longrightarrow>
     net_realized_pnl k = pnl \<and> deployed_entry_capital k = lot_price lot * q + c \<and>
     con_quantity k = q \<and> con_entry_exec_id k = entry_exec_id lot \<and> 0 < deployed_entry_capital k \<and>
     con_exit_exec_id k = tr_exec_id tr"
  by (auto simp: realized_contribution_def Let_def split: if_splits)

lemma remdups_adj_dup: "remdups_adj (xs @ x # x # ys) = remdups_adj (xs @ x # ys)"
  by (induction xs rule: remdups_adj.induct) simp_all

lemma remdups_adj_absorb: "remdups_adj (remdups_adj xs @ ys) = remdups_adj (xs @ ys)"
proof (induction xs rule: remdups_adj.induct)
  case (3 x y xs)
  obtain zs where zs: "remdups_adj (y # xs) = y # zs" using remdups_adj_Cons_alt by metis
  show ?case using 3 by (cases "x = y") (simp_all add: zs)
qed auto

lemma subseq_remdups_adj: "subseq (remdups_adj xs) xs"
  by (induction xs rule: remdups_adj.induct) (auto intro: subseq_Cons')

lemma entries_step:
  "remdups_adj ys = remdups_adj xs \<Longrightarrow> zs = ys \<or> zs = ys @ [x] \<Longrightarrow>
   subseq (remdups_adj zs) (remdups_adj xs @ [x])"
  by (metis remdups_adj_absorb subseq_remdups_adj list_emb_append2 subseq_order.refl
      subseq_rev_drop_many)

lemma net_sign: "list_all (lot_ok \<sigma>) lots \<Longrightarrow> 0 \<le> \<sigma> * net lots \<and> (\<sigma> * net lots = 0 \<longleftrightarrow> lots = [])"
  by (induction lots) (auto simp: lot_ok_def algebra_simps)

lemma open_lot_ok: "0 < \<sigma> * q \<Longrightarrow> lot_ok \<sigma> (open_lot tr q c)"
  by (simp add: lot_ok_def open_lot_def)

lemma open_lot_value [simp]:
  "q \<noteq> 0 \<Longrightarrow> released (open_lot tr q c) = c" "lot_remaining (open_lot tr q c) = q"
  "lot_price (open_lot tr q c) = tr_price tr" "entry_exec_id (open_lot tr q c) = tr_exec_id tr"
  by (simp_all add: open_lot_def released_def)

section \<open>The contract of a closing loop\<close>

text \<open>
  \<open>closed_qty\<close>, \<open>closed_entry\<close> and \<open>closed_pnl\<close> are what one pass closes, releases and earns on a lot
  of sign \<open>\<sigma>\<close>; \<open>after_close\<close> is what stays of the lot.
\<close>

definition closed_qty :: "rat \<Rightarrow> rat \<Rightarrow> fifo_lot \<Rightarrow> rat" where
  "closed_qty \<sigma> q lot = min q (\<sigma> * lot_remaining lot)"

definition closed_entry :: "rat \<Rightarrow> rat \<Rightarrow> fifo_lot \<Rightarrow> rat" where
  "closed_entry \<sigma> q lot = entry_commission lot * (closed_qty \<sigma> q lot / (\<sigma> * lot_quantity lot))"

definition closed_pnl :: "rat \<Rightarrow> trade_record \<Rightarrow> rat \<Rightarrow> fifo_lot \<Rightarrow> rat" where
  "closed_pnl \<sigma> tr q lot =
     \<sigma> * (tr_price tr - lot_price lot) * closed_qty \<sigma> q lot - closed_entry \<sigma> q lot
       - tr_commission tr * (closed_qty \<sigma> q lot / tr_quantity tr)"

definition after_close :: "rat \<Rightarrow> rat \<Rightarrow> fifo_lot \<Rightarrow> fifo_lot list" where
  "after_close \<sigma> q lot =
     (if \<sigma> * lot_remaining lot \<le> q then []
      else [lot\<lparr>lot_remaining := lot_remaining lot - \<sigma> * q\<rparr>])"

locale closing_loop =
  fixes loop :: "trade_record \<Rightarrow> rat \<Rightarrow> fifo_lot list \<Rightarrow> rat \<Rightarrow> fifo_contribution list \<Rightarrow> closing"
    and \<sigma> :: rat
  assumes sign: "\<sigma> = 1 \<or> \<sigma> = - 1"
    and loop_nil: "loop tr q [] r cs = Inr (q, [], r, cs)"
    and loop_done: "q \<le> 0 \<Longrightarrow> loop tr q lots r cs = Inr (q, lots, r, cs)"
    and loop_step: "0 < q \<Longrightarrow> lot_ok \<sigma> lot \<Longrightarrow>
      loop tr q (lot # rest) r cs =
        res_bind (realized_contribution lot tr (closed_qty \<sigma> q lot) (closed_entry \<sigma> q lot)
                    (closed_pnl \<sigma> tr q lot))
          (\<lambda>k. loop tr (q - closed_qty \<sigma> q lot) (after_close \<sigma> q lot @ rest)
                 (r + closed_pnl \<sigma> tr q lot) (cs @ [k]))"
begin

lemma sign_sq [simp]: "\<sigma> * \<sigma> = 1" "\<sigma> * (\<sigma> * x) = x"
  using sign by auto

lemma pass_value:
  assumes "0 < q" "lot_ok \<sigma> lot"
  shows "list_all (lot_ok \<sigma>) (after_close \<sigma> q lot)"
    and "net (after_close \<sigma> q lot) = lot_remaining lot - \<sigma> * closed_qty \<sigma> q lot"
    and "closed_pnl \<sigma> tr q lot - book (after_close \<sigma> q lot) =
           \<sigma> * tr_price tr * closed_qty \<sigma> q lot
             - tr_commission tr * (closed_qty \<sigma> q lot / tr_quantity tr) - book [lot]"
    and "lot_price lot * closed_qty \<sigma> q lot + closed_entry \<sigma> q lot =
           gross [lot] - gross (after_close \<sigma> q lot)"
    and "0 < closed_qty \<sigma> q lot" "closed_qty \<sigma> q lot \<le> q"
  using assms sign
  by (auto simp: lot_ok_def after_close_def closed_qty_def closed_entry_def closed_pnl_def min_def
      released_def field_simps abs_if)

lemma pass_ends:
  "0 < q \<Longrightarrow> lot_ok \<sigma> lot \<Longrightarrow> after_close \<sigma> q lot \<noteq> [] \<Longrightarrow> closed_qty \<sigma> q lot = q"
  by (auto simp: after_close_def closed_qty_def split: if_splits)

definition conserves ::
  "trade_record \<Rightarrow> rat \<times> fifo_lot list \<times> rat \<times> fifo_contribution list \<Rightarrow>
   rat \<times> fifo_lot list \<times> rat \<times> fifo_contribution list \<Rightarrow> bool" where
  "conserves tr = (\<lambda>(q, lots, r, cs) (q', lots', r', cs').
     list_all (lot_ok \<sigma>) lots' \<and> 0 \<le> q' \<and> q' \<le> q \<and>
     net lots' = net lots - \<sigma> * (q - q') \<and>
     r' - book lots' = r - book lots + \<sigma> * tr_price tr * (q - q')
                         - tr_commission tr * ((q - q') / tr_quantity tr) \<and>
     pnl_sum cs' - r' = pnl_sum cs - r \<and>
     capital_sum cs' + gross lots' = capital_sum cs + gross lots \<and>
     (list_all (\<lambda>k. 0 < con_quantity k \<and> 0 < deployed_entry_capital k) cs \<longrightarrow>
      list_all (\<lambda>k. 0 < con_quantity k \<and> 0 < deployed_entry_capital k) cs') \<and>
     remdups_adj (map con_entry_exec_id cs' @ map entry_exec_id lots') =
       remdups_adj (map con_entry_exec_id cs @ map entry_exec_id lots))"

lemma conserves_refl:
  "list_all (lot_ok \<sigma>) lots \<Longrightarrow> 0 \<le> q \<Longrightarrow> conserves tr (q, lots, r, cs) (q, lots, r, cs)"
  by (simp add: conserves_def)

lemma conserves_trans: "conserves tr a b \<Longrightarrow> conserves tr b c \<Longrightarrow> conserves tr a c"
  by (cases a; cases b; cases c) (simp add: conserves_def algebra_simps diff_divide_distrib)

lemma pass_entries:
  "con_entry_exec_id k = entry_exec_id lot \<Longrightarrow>
   remdups_adj (map con_entry_exec_id (cs @ [k]) @ map entry_exec_id (after_close \<sigma> q lot @ rest)) =
   remdups_adj (map con_entry_exec_id cs @ map entry_exec_id (lot # rest))"
  by (simp add: after_close_def remdups_adj_dup)

lemma conserves_pass:
  assumes k: "realized_contribution lot tr (closed_qty \<sigma> q lot) (closed_entry \<sigma> q lot)
                (closed_pnl \<sigma> tr q lot) = Inr k"
    and ok: "0 < q" "list_all (lot_ok \<sigma>) (lot # rest)"
  shows "conserves tr (q, lot # rest, r, cs)
           (q - closed_qty \<sigma> q lot, after_close \<sigma> q lot @ rest, r + closed_pnl \<sigma> tr q lot, cs @ [k])"
proof -
  have "lot_ok \<sigma> lot" using ok(2) by simp
  note v = pass_value [OF ok(1) this] and k' = realized_contribution_Inr [OF k]
  show ?thesis
    using v(1,2,4-6) v(3) [of tr] k' ok(2) pass_entries [of k lot cs q rest]
    by (simp add: conserves_def algebra_simps)
qed

theorem loop_conserves:
  assumes "loop tr q lots r cs = Inr (q', lots', r', cs')" "list_all (lot_ok \<sigma>) lots" "0 \<le> q"
  shows "conserves tr (q, lots, r, cs) (q', lots', r', cs') \<and> (q' = 0 \<or> lots' = [])"
  using assms
proof (induction lots arbitrary: q r cs)
  case Nil
  then show ?case by (auto simp: loop_nil conserves_refl)
next
  case (Cons lot rest)
  show ?case
  proof (cases "q = 0")
    case True
    then show ?thesis using Cons.prems by (simp add: loop_done conserves_refl)
  next
    case False
    then have q: "0 < q" and lot: "lot_ok \<sigma> lot" using Cons.prems by auto
    obtain k where k: "realized_contribution lot tr (closed_qty \<sigma> q lot) (closed_entry \<sigma> q lot)
                         (closed_pnl \<sigma> tr q lot) = Inr k"
      and rec: "loop tr (q - closed_qty \<sigma> q lot) (after_close \<sigma> q lot @ rest)
                  (r + closed_pnl \<sigma> tr q lot) (cs @ [k]) = Inr (q', lots', r', cs')"
      using Cons.prems(1) by (auto simp: loop_step [OF q lot] res_bind_Inr_iff)
    note pass = conserves_pass [OF k q Cons.prems(2), of r cs]
    show ?thesis
    proof (cases "after_close \<sigma> q lot = []")
      case True
      then have "conserves tr (q - closed_qty \<sigma> q lot, rest, r + closed_pnl \<sigma> tr q lot, cs @ [k])
                   (q', lots', r', cs') \<and> (q' = 0 \<or> lots' = [])"
        using Cons.IH rec Cons.prems(2) pass_value(6) [OF q lot] by simp
      then show ?thesis using conserves_trans [OF pass] True by simp
    next
      case False
      then have "closed_qty \<sigma> q lot = q" by (rule pass_ends [OF q lot])
      then show ?thesis using pass rec by (simp add: loop_done)
    qed
  qed
qed

text \<open>
  A whole trade: the loop closes what it can of the lots of sign \<open>\<sigma>\<close>, and what is left of the
  quantity opens one lot on the other side.
\<close>

definition opens :: "trade_record \<Rightarrow> rat \<Rightarrow> fifo_lot list \<Rightarrow> fifo_lot list" where
  "opens tr q own =
     (if 0 < q then own @ [open_lot tr (- \<sigma> * q) (tr_commission tr * (q / tr_quantity tr))] else own)"

lemma trade_value:
  assumes l: "loop tr (tr_quantity tr) lots r cs = Inr (q', lots', r', cs')"
    and ok: "list_all (lot_ok \<sigma>) lots" "list_all (lot_ok (- \<sigma>)) own" "lots = [] \<or> own = []"
    and q: "0 < tr_quantity tr"
  shows "list_all (lot_ok \<sigma>) lots'" "list_all (lot_ok (- \<sigma>)) (opens tr q' own)"
    and "lots' = [] \<or> opens tr q' own = []"
    and "pnl_sum cs' - r' = pnl_sum cs - r"
    and "net lots' + net (opens tr q' own) = net lots + net own - \<sigma> * tr_quantity tr"
    and "r' - (book lots' + book (opens tr q' own)) =
           r - (book lots + book own) + \<sigma> * tr_quantity tr * tr_price tr - tr_commission tr"
    and "capital_sum cs' + (gross lots' + gross (opens tr q' own)) =
           capital_sum cs + (gross lots + gross own)
           + q' * (tr_price tr + tr_commission tr / tr_quantity tr)"
    and "q' = max 0 (tr_quantity tr - max 0 (\<sigma> * (net lots + net own)))"
    and "list_all (\<lambda>k. 0 < con_quantity k \<and> 0 < deployed_entry_capital k) cs \<Longrightarrow>
         list_all (\<lambda>k. 0 < con_quantity k \<and> 0 < deployed_entry_capital k) cs'"
    and "subseq (remdups_adj (map con_entry_exec_id cs' @ map entry_exec_id (lots' @ opens tr q' own)))
           (remdups_adj (map con_entry_exec_id cs @ map entry_exec_id (lots @ own)) @ [tr_exec_id tr])"
proof -
  have c: "conserves tr (tr_quantity tr, lots, r, cs) (q', lots', r', cs')"
    and e: "q' = 0 \<or> lots' = []"
    using loop_conserves [OF l] ok q by auto
  have flat: "own \<noteq> [] \<Longrightarrow> q' = tr_quantity tr \<and> lots' = [] \<and> r' = r \<and> cs' = cs \<and> lots = []"
    using ok l by (auto simp: loop_nil)
  have opened: "0 < q' \<Longrightarrow> released (open_lot tr (- \<sigma> * q') x) = x" "0 < q' \<Longrightarrow> \<bar>- \<sigma> * q'\<bar> = q'" for x
    using sign by auto
  have split: "x * (q' / tr_quantity tr) + x * ((tr_quantity tr - q') / tr_quantity tr) = x" for x
    using q by (simp add: field_simps)
  show "list_all (lot_ok \<sigma>) lots'" "pnl_sum cs' - r' = pnl_sum cs - r"
    "list_all (\<lambda>k. 0 < con_quantity k \<and> 0 < deployed_entry_capital k) cs \<Longrightarrow>
     list_all (\<lambda>k. 0 < con_quantity k \<and> 0 < deployed_entry_capital k) cs'"
    using c by (auto simp: conserves_def)
  show "list_all (lot_ok (- \<sigma>)) (opens tr q' own)"
    using ok by (auto simp: opens_def open_lot_ok)
  show "lots' = [] \<or> opens tr q' own = []" using e flat by (auto simp: opens_def)
  show "net lots' + net (opens tr q' own) = net lots + net own - \<sigma> * tr_quantity tr"
    using c by (auto simp: conserves_def opens_def algebra_simps)
  show "r' - (book lots' + book (opens tr q' own)) =
          r - (book lots + book own) + \<sigma> * tr_quantity tr * tr_price tr - tr_commission tr"
    using c split [of "tr_commission tr"] opened
    by (auto simp: conserves_def opens_def algebra_simps)
  show "capital_sum cs' + (gross lots' + gross (opens tr q' own)) =
          capital_sum cs + (gross lots + gross own)
          + q' * (tr_price tr + tr_commission tr / tr_quantity tr)"
    using c opened by (auto simp: conserves_def opens_def algebra_simps)
  show "q' = max 0 (tr_quantity tr - max 0 (\<sigma> * (net lots + net own)))"
  proof (cases "own = []")
    case True
    have "\<sigma> * net lots' = \<sigma> * net lots - (tr_quantity tr - q')" "0 \<le> q'" "q' \<le> tr_quantity tr"
      and "0 \<le> \<sigma> * net lots'" "0 \<le> \<sigma> * net lots"
      using c net_sign [OF ok(1)] net_sign [of \<sigma> lots'] sign_sq(2) [of "tr_quantity tr - q'"]
      by (simp_all add: conserves_def right_diff_distrib)
    then show ?thesis using True e by (auto simp: max_def)
  next
    case False
    then have "\<sigma> * net own < 0" using net_sign [OF ok(2)] by (simp add: less_le)
    then show ?thesis using False flat q by (simp add: max_def)
  qed
  show "subseq (remdups_adj (map con_entry_exec_id cs' @ map entry_exec_id (lots' @ opens tr q' own)))
          (remdups_adj (map con_entry_exec_id cs @ map entry_exec_id (lots @ own)) @ [tr_exec_id tr])"
  proof (rule entries_step)
    show "remdups_adj (map con_entry_exec_id cs' @ map entry_exec_id (lots' @ own)) =
          remdups_adj (map con_entry_exec_id cs @ map entry_exec_id (lots @ own))"
      using c flat by (cases "own = []") (simp_all add: conserves_def)
  qed (use e in \<open>auto simp: opens_def\<close>)
qed

end

interpretation cover: closing_loop cover_shorts "- 1"
proof
  show "cover_shorts tr q lots r cs = Inr (q, lots, r, cs)" if "q \<le> 0" for tr q lots r cs
    using that by (cases lots) auto
qed (auto simp: lot_ok_def closed_qty_def closed_entry_def closed_pnl_def after_close_def Let_def
      abs_if min_def algebra_simps)

interpretation clos: closing_loop close_longs 1
proof
  show "close_longs tr q lots r cs = Inr (q, lots, r, cs)" if "q \<le> 0" for tr q lots r cs
    using that by (cases lots) auto
qed (auto simp: lot_ok_def closed_qty_def closed_entry_def closed_pnl_def after_close_def Let_def
      min_def algebra_simps)

section \<open>The reference: the net position\<close>

definition signed_qty :: "trade_record \<Rightarrow> rat" where
  "signed_qty tr = (if is_buy tr then tr_quantity tr else - tr_quantity tr)"

definition cash_effect :: "trade_record \<Rightarrow> rat" where
  "cash_effect tr = - (signed_qty tr * tr_price tr) - tr_commission tr"

definition opened_qty :: "rat \<Rightarrow> trade_record \<Rightarrow> rat" where
  "opened_qty p tr =
     (if is_buy tr then max 0 (tr_quantity tr - max 0 (- p)) else max 0 (tr_quantity tr - max 0 p))"

fun openings :: "rat \<Rightarrow> trade_record list \<Rightarrow> (trade_record \<times> rat) list" where
  "openings p [] = []"
| "openings p (tr # trs) = (tr, opened_qty p tr) # openings (p + signed_qty tr) trs"

section \<open>One trade\<close>

definition fifo_ok :: "fifo_state \<Rightarrow> bool" where
  "fifo_ok s \<longleftrightarrow>
     list_all (lot_ok 1) (long_lots s) \<and> list_all (lot_ok (- 1)) (short_lots s) \<and>
     (long_lots s = [] \<or> short_lots s = []) \<and> pnl_sum (contributions s) = fifo_realized s \<and>
     list_all (\<lambda>k. 0 < con_quantity k \<and> 0 < deployed_entry_capital k) (contributions s)"

definition entries :: "fifo_state \<Rightarrow> int list" where
  "entries s = map con_entry_exec_id (contributions s) @ map entry_exec_id (all_lots s)"

definition account_for :: "trade_record \<Rightarrow> fifo_state \<Rightarrow> fifo_state \<Rightarrow> bool" where
  "account_for tr s s' \<longleftrightarrow>
     fifo_ok s' \<and> position_qty s' = position_qty s + signed_qty tr \<and>
     fifo_realized s' - book (all_lots s') = fifo_realized s - book (all_lots s) + cash_effect tr \<and>
     capital_sum (contributions s') + gross (all_lots s') =
       capital_sum (contributions s) + gross (all_lots s) +
       opened_qty (position_qty s) tr * (tr_price tr + tr_commission tr / tr_quantity tr) \<and>
     subseq (remdups_adj (entries s')) (remdups_adj (entries s) @ [tr_exec_id tr])"

lemma position_qty_net: "position_qty s = net (long_lots s) + net (short_lots s)"
  by (simp add: position_qty_def all_lots_def net_def)

lemma buy_accounted:
  assumes s: "fifo_ok s" and q: "0 < tr_quantity tr" and b: "is_buy tr"
    and buy: "fifo_buy tr s = Inr s'"
  shows "account_for tr s s'"
proof -
  obtain q' lots r cs where l: "cover_shorts tr (tr_quantity tr) (short_lots s) (fifo_realized s)
      (contributions s) = Inr (q', lots, r, cs)"
    and s': "s' = \<lparr>long_lots = cover.opens tr q' (long_lots s), short_lots = lots,
                   fifo_realized = r, contributions = cs\<rparr>"
    using buy by (auto simp: fifo_buy_def res_bind_Inr_iff cover.opens_def)
  have ok: "list_all (lot_ok (- 1)) (short_lots s)" "list_all (lot_ok (- (- 1))) (long_lots s)"
    "short_lots s = [] \<or> long_lots s = []"
    using s by (auto simp: fifo_ok_def)
  note v = cover.trade_value [OF l ok q]
  have swap: "cover.opens tr q' (long_lots s) @ lots = lots @ cover.opens tr q' (long_lots s)"
    "long_lots s @ short_lots s = short_lots s @ long_lots s"
    using v(3) ok(3) by auto
  have new: "opened_qty (net (long_lots s) + net (short_lots s)) tr = q'"
    using v(8) b by (simp add: opened_qty_def add.commute)
  show ?thesis unfolding account_for_def all_lots_def entries_def position_qty_net s'
  proof (intro conjI)
    show "fifo_ok \<lparr>long_lots = cover.opens tr q' (long_lots s), short_lots = lots,
                    fifo_realized = r, contributions = cs\<rparr>"
      using v(1-4,9) s by (auto simp: fifo_ok_def)
  qed (use v(5-7,10) b in \<open>simp_all add: new swap signed_qty_def cash_effect_def\<close>)
qed

lemma sell_accounted:
  assumes s: "fifo_ok s" and q: "0 < tr_quantity tr" and b: "\<not> is_buy tr"
    and sell: "fifo_sell tr s = Inr s'"
  shows "account_for tr s s'"
proof -
  obtain q' lots r cs where l: "close_longs tr (tr_quantity tr) (long_lots s) (fifo_realized s)
      (contributions s) = Inr (q', lots, r, cs)"
    and s': "s' = \<lparr>long_lots = lots, short_lots = clos.opens tr q' (short_lots s),
                   fifo_realized = r, contributions = cs\<rparr>"
    using sell by (auto simp: fifo_sell_def res_bind_Inr_iff clos.opens_def)
  have ok: "list_all (lot_ok 1) (long_lots s)" "list_all (lot_ok (- 1)) (short_lots s)"
    "long_lots s = [] \<or> short_lots s = []"
    using s by (auto simp: fifo_ok_def)
  note v = clos.trade_value [OF l ok q]
  have new: "opened_qty (net (long_lots s) + net (short_lots s)) tr = q'"
    using v(8) b by (simp add: opened_qty_def)
  show ?thesis unfolding account_for_def all_lots_def entries_def position_qty_net s'
  proof (intro conjI)
    show "fifo_ok \<lparr>long_lots = lots, short_lots = clos.opens tr q' (short_lots s),
                    fifo_realized = r, contributions = cs\<rparr>"
      using v(1-4,9) s by (auto simp: fifo_ok_def)
  qed (use v(5-7,10) b in \<open>simp_all add: new signed_qty_def cash_effect_def\<close>)
qed

lemma trade_accounted:
  assumes "fifo_trade tr s = Inr s'" "fifo_ok s" "0 < tr_quantity tr"
  shows "account_for tr s s'"
  using assms buy_accounted sell_accounted by (auto simp: fifo_trade_def split: if_splits)

section \<open>All trades\<close>

lemma fifo_init_ok [simp]: "fifo_ok fifo_init"
  by (simp add: fifo_ok_def fifo_init_def)

lemma fifo_init_values [simp]:
  "position_qty fifo_init = 0" "all_lots fifo_init = []" "fifo_realized fifo_init = 0"
  "contributions fifo_init = []" "entries fifo_init = []"
  by (simp_all add: fifo_init_def position_qty_def all_lots_def entries_def)

lemma trades_accounted:
  assumes "fifo_trades trs s = Inr s'" "fifo_ok s" "\<forall>tr \<in> set trs. 0 < tr_quantity tr"
  shows "fifo_ok s' \<and> position_qty s' = position_qty s + (\<Sum>tr\<leftarrow>trs. signed_qty tr) \<and>
    fifo_realized s' - book (all_lots s') =
      fifo_realized s - book (all_lots s) + (\<Sum>tr\<leftarrow>trs. cash_effect tr) \<and>
    capital_sum (contributions s') + gross (all_lots s') =
      capital_sum (contributions s) + gross (all_lots s) +
      (\<Sum>(tr, q)\<leftarrow>openings (position_qty s) trs. q * (tr_price tr + tr_commission tr / tr_quantity tr)) \<and>
    subseq (remdups_adj (entries s')) (remdups_adj (entries s) @ map tr_exec_id trs)"
  using assms
proof (induction trs arbitrary: s)
  case (Cons tr trs)
  obtain s1 where s1: "fifo_trade tr s = Inr s1" and rest: "fifo_trades trs s1 = Inr s'"
    using Cons.prems(1) by (auto simp: res_bind_Inr_iff)
  have a: "account_for tr s s1" using trade_accounted [OF s1] Cons.prems by simp
  note IH = Cons.IH [OF rest]
  have "subseq (remdups_adj (entries s1) @ map tr_exec_id trs)
          (remdups_adj (entries s) @ map tr_exec_id (tr # trs))"
    using a subseq_append [of "remdups_adj (entries s1)" "map tr_exec_id trs"
        "remdups_adj (entries s) @ [tr_exec_id tr]"]
    by (simp add: account_for_def)
  then show ?case
    using IH a Cons.prems(3) subseq_order.trans by (auto simp: account_for_def)
qed simp

lemma long_cost: "list_all (lot_ok 1) lots \<Longrightarrow>
  (\<Sum>lot\<leftarrow>lots. lot_remaining lot * lot_price lot +
     (if lot_quantity lot \<noteq> 0
      then entry_commission lot * (lot_remaining lot / lot_quantity lot) else 0)) = book lots"
  by (induction lots) (auto simp: lot_ok_def released_def)

lemma short_cost: "list_all (lot_ok (- 1)) lots \<Longrightarrow>
  (\<Sum>lot\<leftarrow>lots. \<bar>lot_remaining lot\<bar> * lot_price lot -
     (if lot_quantity lot \<noteq> 0
      then entry_commission lot * (\<bar>lot_remaining lot\<bar> / \<bar>lot_quantity lot\<bar>) else 0)) = - book lots"
  by (induction lots) (auto simp: lot_ok_def released_def abs_if)

lemma average_cost_book:
  assumes s: "fifo_ok s"
  shows "position_qty s * average_cost s = book (all_lots s)"
proof -
  have "long_lots s \<noteq> [] \<and> short_lots s = [] \<and> 0 < position_qty s \<or>
        long_lots s = [] \<and> short_lots s \<noteq> [] \<and> position_qty s < 0 \<or>
        long_lots s = [] \<and> short_lots s = [] \<and> position_qty s = 0"
    using s net_sign [of 1 "long_lots s"] net_sign [of "- 1" "short_lots s"]
    by (auto simp: fifo_ok_def position_qty_net less_le)
  then show ?thesis
    using s long_cost [of "long_lots s"] short_cost [of "short_lots s"]
    by (auto simp: fifo_ok_def average_cost_def all_lots_def)
qed

section \<open>The calculation returns\<close>

definition lot_funded :: "string \<Rightarrow> fifo_lot \<Rightarrow> bool" where
  "lot_funded ccy lot \<longleftrightarrow>
     lot_account_currency lot = ccy \<and> 0 < lot_price lot \<and> 0 \<le> entry_commission lot"

definition trade_funded :: "string \<Rightarrow> trade_record \<Rightarrow> bool" where
  "trade_funded ccy tr \<longleftrightarrow>
     tr_account_currency tr = ccy \<and> 0 < tr_quantity tr \<and> 0 < tr_price tr \<and> 0 \<le> tr_commission tr"

lemma open_lot_funded:
  "trade_funded ccy tr \<Longrightarrow> 0 \<le> c \<Longrightarrow> lot_funded ccy (open_lot tr q c)"
  by (simp add: lot_funded_def trade_funded_def open_lot_def)

context closing_loop
begin

lemma contribution_exists:
  assumes "0 < q" "lot_ok \<sigma> lot" "lot_funded ccy lot" "tr_account_currency tr = ccy"
  shows "\<exists>k. realized_contribution lot tr (closed_qty \<sigma> q lot) (closed_entry \<sigma> q lot) pnl = Inr k"
proof -
  have "0 < closed_qty \<sigma> q lot" using pass_value(5) [OF assms(1,2)] .
  then have "0 < lot_price lot * closed_qty \<sigma> q lot" "0 \<le> closed_entry \<sigma> q lot"
    using assms(2,3) by (auto simp: lot_ok_def lot_funded_def closed_entry_def
        intro!: divide_nonneg_pos mult_nonneg_nonneg)
  then show ?thesis
    using assms(3,4) by (simp add: realized_contribution_def lot_funded_def Let_def)
qed

lemma after_close_funded: "lot_funded ccy lot \<Longrightarrow> list_all (lot_funded ccy) (after_close \<sigma> q lot)"
  by (simp add: after_close_def lot_funded_def)

lemma loop_returns:
  assumes "list_all (lot_ok \<sigma>) lots" "list_all (lot_funded ccy) lots" "tr_account_currency tr = ccy"
  shows "\<exists>q' lots' r' cs'. loop tr q lots r cs = Inr (q', lots', r', cs') \<and>
           list_all (lot_funded ccy) lots'"
  using assms
proof (induction lots arbitrary: q r cs)
  case Nil
  then show ?case by (simp add: loop_nil)
next
  case (Cons lot rest)
  show ?case
  proof (cases "q \<le> 0")
    case True
    then show ?thesis using Cons.prems by (simp add: loop_done)
  next
    case False
    then have q: "0 < q" and lot: "lot_ok \<sigma> lot" "lot_funded ccy lot" using Cons.prems by auto
    obtain k where k: "realized_contribution lot tr (closed_qty \<sigma> q lot) (closed_entry \<sigma> q lot)
        (closed_pnl \<sigma> tr q lot) = Inr k"
      using contribution_exists [OF q lot Cons.prems(3)] by blast
    note step = loop_step [OF q lot(1), of tr rest r cs]
    show ?thesis
    proof (cases "after_close \<sigma> q lot = []")
      case True
      then show ?thesis using Cons.IH Cons.prems by (simp add: step k)
    next
      case False
      then have cq: "closed_qty \<sigma> q lot = q" by (rule pass_ends [OF q lot(1)])
      show ?thesis
        using Cons.prems(2) after_close_funded [OF lot(2)]
        by (simp add: step cq k [unfolded cq] loop_done)
    qed
  qed
qed

end

definition state_funded :: "string \<Rightarrow> fifo_state \<Rightarrow> bool" where
  "state_funded ccy s \<longleftrightarrow> fifo_ok s \<and> list_all (lot_funded ccy) (all_lots s)"

lemma trade_returns:
  assumes "state_funded ccy s" "trade_funded ccy tr"
  shows "\<exists>s'. fifo_trade tr s = Inr s' \<and> state_funded ccy s'"
proof -
  have ok: "fifo_ok s" "0 < tr_quantity tr" "tr_account_currency tr = ccy" "0 \<le> tr_commission tr"
    and f: "list_all (lot_funded ccy) (long_lots s)" "list_all (lot_funded ccy) (short_lots s)"
    using assms by (auto simp: state_funded_def trade_funded_def all_lots_def)
  have "\<exists>s'. fifo_trade tr s = Inr s' \<and> list_all (lot_funded ccy) (all_lots s')"
  proof (cases "is_buy tr")
    case True
    then show ?thesis
      using cover.loop_returns [of "short_lots s" ccy tr "tr_quantity tr" "fifo_realized s" "contributions s"]
        open_lot_funded [OF assms(2)] ok f
      by (auto simp: fifo_ok_def fifo_trade_def fifo_buy_def all_lots_def)
  next
    case False
    then show ?thesis
      using clos.loop_returns [of "long_lots s" ccy tr "tr_quantity tr" "fifo_realized s" "contributions s"]
        open_lot_funded [OF assms(2)] ok f
      by (auto simp: fifo_ok_def fifo_trade_def fifo_sell_def all_lots_def)
  qed
  then show ?thesis using trade_accounted ok by (auto simp: state_funded_def account_for_def)
qed

lemma trades_return:
  assumes "state_funded ccy s" "list_all (trade_funded ccy) trs"
  shows "\<exists>s'. fifo_trades trs s = Inr s'"
  using assms
proof (induction trs arbitrary: s)
  case (Cons tr trs)
  then obtain s1 where "fifo_trade tr s = Inr s1" "state_funded ccy s1"
    using trade_returns by fastforce
  then show ?case using Cons by simp
qed simp

section \<open>Capital deployed\<close>

definition deployed_ok :: "rat \<Rightarrow> deployed_state \<Rightarrow> bool" where
  "deployed_ok p d \<longleftrightarrow> 0 \<le> dep_long d \<and> 0 \<le> dep_short d \<and> (dep_long d = 0 \<or> dep_short d = 0) \<and>
     p = dep_long d - dep_short d"

lemma deploy_trade_step:
  assumes "deployed_ok p d" "0 < tr_quantity tr"
  shows "deployed_ok (p + signed_qty tr) (deploy_trade d tr)"
    and "dep_total (deploy_trade d tr) = dep_total d + opened_qty p tr * tr_price tr"
  using assms
  by (auto simp: deployed_ok_def deploy_trade_def signed_qty_def opened_qty_def Let_def min_def max_def)

lemma deploy_trades_total:
  "deployed_ok p d \<Longrightarrow> \<forall>tr \<in> set trs. 0 < tr_quantity tr \<Longrightarrow>
   dep_total (foldl deploy_trade d trs) =
     dep_total d + (\<Sum>(tr, q)\<leftarrow>openings p trs. q * tr_price tr)"
proof (induction trs arbitrary: p d)
  case (Cons tr trs)
  then have "deployed_ok (p + signed_qty tr) (deploy_trade d tr)" by (simp add: deploy_trade_step)
  from Cons.IH [OF this] show ?case using Cons.prems by (simp add: deploy_trade_step)
qed simp

section \<open>Properties\<close>

lemma sum_trade_order: "(\<Sum>tr\<leftarrow>trade_order trs. f tr) = (\<Sum>tr\<leftarrow>trs. f tr :: rat)"
proof -
  have "mset (map f (trade_order trs)) = mset (map f trs)" by (simp add: trade_order_def)
  then show ?thesis by (metis sum_mset_sum_list)
qed

lemma set_trade_order [simp]: "set (trade_order trs) = set trs"
  by (simp add: trade_order_def)

lemma calculate_fifo_pnl_Inr:
  assumes "calculate_fifo_pnl trs = Inr (r, p, avg, lots, cs)" "\<forall>tr \<in> set trs. 0 < tr_quantity tr"
  obtains s where "fifo_trades (trade_order trs) fifo_init = Inr s" "fifo_ok s" "r = fifo_realized s"
    "p = position_qty s" "avg = average_cost s" "lots = all_lots s" "cs = contributions s"
  using assms trades_accounted [of "trade_order trs" fifo_init]
  by (auto simp: calculate_fifo_pnl_def fifo_result_of_def res_bind_Inr_iff)

lemma fifo_identity:
  assumes "calculate_fifo_pnl trs = Inr (r, p, avg, lots, cs)"
    and "\<forall>tr \<in> set trs. 0 < tr_quantity tr"
  shows "p = (\<Sum>tr\<leftarrow>trs. signed_qty tr) \<and> r = pnl_sum cs \<and> r - p * avg = (\<Sum>tr\<leftarrow>trs. cash_effect tr)"
proof -
  obtain s where s: "fifo_trades (trade_order trs) fifo_init = Inr s" "fifo_ok s"
    and res: "r = fifo_realized s" "p = position_qty s" "avg = average_cost s" "cs = contributions s"
    using calculate_fifo_pnl_Inr [OF assms] by metis
  have "\<forall>tr \<in> set (trade_order trs). 0 < tr_quantity tr" using assms(2) by simp
  note a = trades_accounted [OF s(1) fifo_init_ok this]
  show ?thesis
    using a s(2) average_cost_book [OF s(2)] by (simp add: res sum_trade_order fifo_ok_def)
qed

definition example_trade :: "int \<Rightarrow> string \<Rightarrow> rat \<Rightarrow> rat \<Rightarrow> rat \<Rightarrow> trade_record" where
  "example_trade i side q p c =
     \<lparr>trade_id = [], tr_exec_id = i, tr_signal_id = i, tr_symbol = ''BTC'', tr_side = side,
      tr_quantity = q, tr_price = p, tr_commission = c, tr_account_currency = ''USD'',
      tr_settlement_currency = ''USD'', tr_commission_currency = None, tr_timestamp = i,
      tr_order_id = None, tr_quantity_unit = ''asset'', tr_contract_multiplier = None\<rparr>"

text \<open>Two lots, a sale that closes the first and part of the second, a sale that flips to short.\<close>

definition example_trades :: "trade_record list" where
  "example_trades =
     [example_trade 4 ''SELL'' 8 90 4, example_trade 1 ''buy'' 4 100 1,
      example_trade 2 ''Buy'' 6 120 3, example_trade 3 ''sell'' 5 110 2]"

text \<open>
  C3: The profit of a ledger is its cash. Whatever the order and sizes of the fills, if the
  calculation returns then the position is the net quantity bought, the realized profit is the sum
  of the contributions of the closed lots, and at every price the realized profit plus the profit
  of the open position against its average cost equals the cash received for sales, less the cash
  paid for purchases and all commissions, plus the value of the position: no commission or lot is
  dropped or counted twice.
\<close>

theorem fifo_profit_is_cash:
  assumes "calculate_fifo_pnl trs = Inr (r, p, avg, lots, cs)"
    and "\<forall>tr \<in> set trs. 0 < tr_quantity tr"
  shows "p = (\<Sum>tr\<leftarrow>trs. signed_qty tr) \<and>
         r = (\<Sum>k\<leftarrow>cs. net_realized_pnl k) \<and>
         r + (p * price - p * avg) = (\<Sum>tr\<leftarrow>trs. cash_effect tr) + p * price"
  by (intro conjI) (use fifo_identity [OF assms] in linarith)+

theorem fifo_profit_is_cash_witness:
  "\<exists>r p avg lots cs. calculate_fifo_pnl example_trades = Inr (r, p, avg, lots, cs) \<and> p = - 3 \<and>
     r + (p * 80 - p * avg) = (\<Sum>tr\<leftarrow>example_trades. cash_effect tr) + p * 80"
proof -
  have q: "\<forall>tr \<in> set example_trades. 0 < tr_quantity tr" by code_simp
  have "(case calculate_fifo_pnl example_trades of Inr (r, p, avg, lots, cs) \<Rightarrow> p = - 3 | Inl e \<Rightarrow> False)"
    by code_simp
  then obtain r p avg lots cs where c: "calculate_fifo_pnl example_trades = Inr (r, p, avg, lots, cs)"
    and "p = - 3"
    by (auto split: sum.splits)
  then show ?thesis using fifo_profit_is_cash [OF c q, of 80] by blast
qed

text \<open>
  C25: Lots are closed first in, first out, and one side at a time. The entries of the closed lots
  in the order of their closing, followed by the entries of the lots still open, form a
  subsequence of the executions in time order once repetitions are merged; the open lots are all
  long or all short, and every contribution closes a positive quantity and binds positive capital.
\<close>

theorem fifo_closes_in_order:
  assumes "calculate_fifo_pnl trs = Inr (r, p, avg, lots, cs)"
    and "\<forall>tr \<in> set trs. 0 < tr_quantity tr"
  shows "subseq (remdups_adj (map con_entry_exec_id cs @ map entry_exec_id lots))
           (map tr_exec_id (trade_order trs)) \<and>
         ((\<forall>lot \<in> set lots. 0 < lot_remaining lot) \<or> (\<forall>lot \<in> set lots. lot_remaining lot < 0)) \<and>
         (\<forall>k \<in> set cs. 0 < con_quantity k \<and> 0 < deployed_entry_capital k)"
proof -
  obtain s where s: "fifo_trades (trade_order trs) fifo_init = Inr s" "fifo_ok s"
    and res: "lots = all_lots s" "cs = contributions s"
    using calculate_fifo_pnl_Inr [OF assms] by metis
  have "\<forall>tr \<in> set (trade_order trs). 0 < tr_quantity tr" using assms(2) by simp
  from trades_accounted [OF s(1) fifo_init_ok this]
  have "subseq (remdups_adj (entries s)) (map tr_exec_id (trade_order trs))" by simp
  then show ?thesis
    using s(2) by (auto simp: res entries_def fifo_ok_def all_lots_def list_all_iff lot_ok_def)
qed

theorem fifo_closes_in_order_witness:
  "\<exists>r p avg lots cs. calculate_fifo_pnl example_trades = Inr (r, p, avg, lots, cs) \<and>
     map con_entry_exec_id cs = [1, 2, 2] \<and> map entry_exec_id lots = [4] \<and>
     subseq (remdups_adj (map con_entry_exec_id cs @ map entry_exec_id lots))
       (map tr_exec_id (trade_order example_trades))"
proof -
  have q: "\<forall>tr \<in> set example_trades. 0 < tr_quantity tr" by code_simp
  have "(case calculate_fifo_pnl example_trades of
           Inr (r, p, avg, lots, cs) \<Rightarrow>
             map con_entry_exec_id cs = [1, 2, 2] \<and> map entry_exec_id lots = [4]
         | Inl e \<Rightarrow> False)"
    by code_simp
  then obtain r p avg lots cs where c: "calculate_fifo_pnl example_trades = Inr (r, p, avg, lots, cs)"
    and "map con_entry_exec_id cs = [1, 2, 2]" "map entry_exec_id lots = [4]"
    by (auto split: sum.splits)
  then show ?thesis using c fifo_closes_in_order [OF c q] by metis
qed

text \<open>
  C31: The lots and the deployed capital implement one abstract specification, the net position.
  Computed from the net position alone, each trade opens a quantity: what exceeds the opposite
  position. The total deployed is exactly the opened quantity at the prices of the fills, and the
  capital of the closed contributions together with what the open lots still bind is the opened
  quantity at the prices with the prorated commissions.
\<close>

theorem capital_refines_net_position:
  assumes "calculate_fifo_pnl trs = Inr (r, p, avg, lots, cs)"
    and "\<forall>tr \<in> set trs. 0 < tr_quantity tr"
  shows "calculate_total_deployed trs =
           (\<Sum>(tr, q)\<leftarrow>openings 0 (trade_order trs). q * tr_price tr) \<and>
         (\<Sum>k\<leftarrow>cs. deployed_entry_capital k) + gross lots =
           (\<Sum>(tr, q)\<leftarrow>openings 0 (trade_order trs).
              q * (tr_price tr + tr_commission tr / tr_quantity tr))"
proof -
  obtain s where s: "fifo_trades (trade_order trs) fifo_init = Inr s" "fifo_ok s"
    and res: "lots = all_lots s" "cs = contributions s"
    using calculate_fifo_pnl_Inr [OF assms] by metis
  have pos: "\<forall>tr \<in> set (trade_order trs). 0 < tr_quantity tr" using assms(2) by simp
  have "deployed_ok 0 deploy_init" by (simp add: deployed_ok_def deploy_init_def)
  from deploy_trades_total [OF this pos] trades_accounted [OF s(1) fifo_init_ok pos]
  show ?thesis by (simp add: res calculate_total_deployed_def deploy_init_def)
qed

theorem capital_refines_net_position_witness:
  "calculate_total_deployed example_trades = 1390 \<and>
   (\<Sum>(tr, q)\<leftarrow>openings 0 (trade_order example_trades). q * tr_price tr) = 1390"
proof -
  have q: "\<forall>tr \<in> set example_trades. 0 < tr_quantity tr" by code_simp
  have "is_ok (calculate_fifo_pnl example_trades)" by code_simp
  then obtain r p avg lots cs where c: "calculate_fifo_pnl example_trades = Inr (r, p, avg, lots, cs)"
    by (cases "calculate_fifo_pnl example_trades") auto
  have "calculate_total_deployed example_trades = 1390" by code_simp
  then show ?thesis using capital_refines_net_position [OF c q] by simp
qed

text \<open>
  C34: The calculation returns. On every ledger of one account currency with positive quantities and
  prices and commissions that are not rebates, both closing loops end and no contribution is
  refused.
\<close>

theorem fifo_returns:
  assumes "\<forall>tr \<in> set trs. tr_account_currency tr = ccy \<and> 0 < tr_quantity tr \<and> 0 < tr_price tr \<and>
             0 \<le> tr_commission tr"
  shows "\<exists>r p avg lots cs. calculate_fifo_pnl trs = Inr (r, p, avg, lots, cs)"
proof -
  have "state_funded ccy fifo_init" by (simp add: state_funded_def)
  moreover have "list_all (trade_funded ccy) (trade_order trs)"
    using assms by (simp add: list_all_iff trade_funded_def)
  ultimately obtain s where "fifo_trades (trade_order trs) fifo_init = Inr s"
    using trades_return by blast
  then show ?thesis by (simp add: calculate_fifo_pnl_def fifo_result_of_def)
qed

theorem fifo_returns_witness:
  "\<exists>r p avg lots cs. calculate_fifo_pnl example_trades = Inr (r, p, avg, lots, cs)"
  by (rule fifo_returns [where ccy = "''USD''"]) code_simp

end
