(* ===== verification/Fx_Rates.thy ===== *)
theory Fx_Rates
  imports Py_Prelude
begin

text \<open>
  Observed exchange rates of \<open>execution_engine/metrics/fx_rates.py\<close>: currency codes, observations,
  the provider over the price table, the cache in front of a provider and the converter.

  A provider is the interface \<open>fx_provider\<close>: it may change its own state, and every rate it answers
  is for the requested pair, positive, not from the future and not too old. The price table gives
  such a provider, a cache over any such provider is one, and the converter relies on nothing else.
\<close>

section \<open>Currencies and observations\<close>

definition normalize_currency :: "string \<Rightarrow> string res" where
  "normalize_currency currency =
     (let n = py_upper (py_strip currency) in
      if n = [] \<or> 10 < length n \<or> \<not> py_isalnum n then Inl (ValueError ''Invalid currency code'')
      else Inr n)"

definition coinbase_close_lags :: "(string \<times> duration) list" where
  "coinbase_close_lags =
     [(''1m'', seconds 60), (''5m'', seconds 300), (''15m'', seconds 900), (''1h'', seconds 3600),
      (''1d'', seconds 86400)]"

definition observation_available_at :: "time \<Rightarrow> string \<Rightarrow> string \<Rightarrow> time option" where
  "observation_available_at timestamp timeframe source =
     (if take 8 (py_lower (py_strip source)) \<noteq> ''coinbase'' then Some timestamp
      else map_option (\<lambda>lag. timestamp + lag)
             (map_of coinbase_close_lags (py_lower (py_strip timeframe))))"

record observed_fx_rate =
  base_currency :: string
  quote_currency :: string
  fx_rate :: rat
  observed_at :: time
  rate_source :: string

definition observed_fx_rate_init ::
  "string \<Rightarrow> string \<Rightarrow> number \<Rightarrow> time \<Rightarrow> string \<Rightarrow> observed_fx_rate res" where
  "observed_fx_rate_init b q rate t source =
     res_bind (normalize_currency b) (\<lambda>b'.
     res_bind (normalize_currency q) (\<lambda>q'.
     res_bind (finite_decimal ''FX rate must be a finite positive decimal'' rate) (\<lambda>r.
     res_bind (require (0 < r) (ValueError ''FX rate must be a finite positive decimal'')) (\<lambda>_.
     res_bind (require (b' = q' \<longrightarrow> r = 1)
                 (ValueError ''Same-currency FX observations must have rate 1'')) (\<lambda>_.
     res_bind (require (py_strip source \<noteq> []) (ValueError ''FX rate observation requires a source'')) (\<lambda>_.
     Inr \<lparr>base_currency = b', quote_currency = q', fx_rate = r, observed_at = t,
          rate_source = py_strip source\<rparr>))))))"

section \<open>The price table\<close>

text \<open>
  A row of the instruments joined with their prices. The table is absent when reading it fails.
  Rows of one timestamp are read in the order of the table.
\<close>

record price_row =
  pr_canonical :: string
  pr_asset_class :: string
  pr_close :: "number option"
  pr_ts :: time
  pr_source :: string
  pr_timeframe :: string

type_synonym price_table = "price_row list option"

definition FXRateUnavailableError :: "string \<Rightarrow> py_error" where
  "FXRateUnavailableError msg = CustomError ''FXRateUnavailableError'' msg"

type_synonym pair = "string \<times> string"

definition pair_candidates :: "pair list \<Rightarrow> string list" where
  "pair_candidates pairs =
     concat (map (\<lambda>(b, q). concat (map (\<lambda>sep. [b @ sep @ q, q @ sep @ b]) [[], ''/'', ''-'', ''_''])) pairs)"

definition compact_pairs :: "pair list \<Rightarrow> (string \<times> pair \<times> bool) list" where
  "compact_pairs pairs =
     foldl (\<lambda>d (b, q). dict_set (dict_set d (b @ q) ((b, q), False)) (q @ b) ((b, q), True)) [] pairs"

definition compact_symbol :: "string \<Rightarrow> string" where
  "compact_symbol s = filter (\<lambda>c. c \<notin> set ''/-_'') (py_upper (py_strip s))"

definition price_rows :: "pair list \<Rightarrow> time \<Rightarrow> price_row list \<Rightarrow> price_row list" where
  "price_rows pairs t rows =
     sort_key (\<lambda>r. - pr_ts r)
       (filter (\<lambda>r. pr_asset_class r \<in> set [''fx'', ''crypto''] \<and>
                    py_upper (pr_canonical r) \<in> set (pair_candidates pairs) \<and> pr_ts r \<le> t) rows)"

definition row_rate :: "bool \<Rightarrow> number option \<Rightarrow> rat option" where
  "row_rate is_inverse close =
     (case close of
        Some (Fin r) \<Rightarrow>
          (if is_inverse then (if r = 0 then None else if 1 / r \<le> 0 then None else Some (1 / r))
           else if r \<le> 0 then None else Some r)
      | _ \<Rightarrow> None)"

definition resolve_row ::
  "duration \<Rightarrow> pair list \<Rightarrow> time \<Rightarrow> (pair \<Rightarrow> observed_fx_rate option) \<Rightarrow> price_row \<Rightarrow>
   (pair \<Rightarrow> observed_fx_rate option) res" where
  "resolve_row max_age pairs t resolved row =
     (case map_of (compact_pairs pairs) (compact_symbol (pr_canonical row)) of
        None \<Rightarrow> Inr resolved
      | Some (pair, is_inverse) \<Rightarrow>
          if resolved pair \<noteq> None then Inr resolved
          else (case observation_available_at (pr_ts row) (pr_timeframe row) (pr_source row) of
            None \<Rightarrow> Inr resolved
          | Some observed \<Rightarrow>
              if t - observed < 0 \<or> max_age < t - observed then Inr resolved
              else (case row_rate is_inverse (pr_close row) of
                None \<Rightarrow> Inr resolved
              | Some r \<Rightarrow>
                  res_bind (observed_fx_rate_init (fst pair) (snd pair) (Fin r) observed
                              (if pr_source row = [] then ''prices'' else pr_source row))
                    (\<lambda>obs. Inr (resolved(pair \<mapsto> obs))))))"

fun resolve_rows ::
  "duration \<Rightarrow> pair list \<Rightarrow> time \<Rightarrow> (pair \<Rightarrow> observed_fx_rate option) \<Rightarrow> price_row list \<Rightarrow>
   (pair \<Rightarrow> observed_fx_rate option) res" where
  "resolve_rows max_age pairs t resolved [] = Inr resolved"
| "resolve_rows max_age pairs t resolved (row # rows) =
     res_bind (resolve_row max_age pairs t resolved row)
       (\<lambda>resolved'. resolve_rows max_age pairs t resolved' rows)"

definition load_observations ::
  "duration \<Rightarrow> price_table \<Rightarrow> pair list \<Rightarrow> time \<Rightarrow> (pair \<Rightarrow> observed_fx_rate option) res" where
  "load_observations max_age db pairs t =
     (case db of
        None \<Rightarrow> Inl (FXRateUnavailableError ''Unable to read FX observations'')
      | Some rows \<Rightarrow> resolve_rows max_age pairs t (\<lambda>_. None) (price_rows pairs t rows))"

definition cross_rate_anchor :: string where
  "cross_rate_anchor = ''EUR''"

definition direct_only_currencies :: "string list" where
  "direct_only_currencies = [''BTC'', ''ETH'']"

definition requested_pairs :: "string \<Rightarrow> string \<Rightarrow> pair list" where
  "requested_pairs b q =
     (b, q) #
     (if b \<in> set direct_only_currencies \<or> q \<in> set direct_only_currencies \<or>
         b = cross_rate_anchor \<or> q = cross_rate_anchor then []
      else [(b, cross_rate_anchor), (cross_rate_anchor, q)])"

definition sql_get_rate ::
  "duration \<Rightarrow> price_table \<Rightarrow> string \<Rightarrow> string \<Rightarrow> time \<Rightarrow> observed_fx_rate option res" where
  "sql_get_rate max_age db b0 q0 t =
     res_bind (normalize_currency b0) (\<lambda>b.
     res_bind (normalize_currency q0) (\<lambda>q.
     if b = q then res_bind (observed_fx_rate_init b q (Fin 1) t ''identity'') (\<lambda>obs. Inr (Some obs))
     else res_bind (load_observations max_age db (requested_pairs b q) t) (\<lambda>obs.
       case obs (b, q) of
         Some direct \<Rightarrow> Inr (Some direct)
       | None \<Rightarrow>
           (case (obs (b, cross_rate_anchor), obs (cross_rate_anchor, q)) of
              (Some leg1, Some leg2) \<Rightarrow>
                res_bind (observed_fx_rate_init b q (Fin (fx_rate leg1 * fx_rate leg2))
                            (min (observed_at leg1) (observed_at leg2))
                            (''cross:'' @ cross_rate_anchor @ '':'' @ rate_source leg1 @ ''|'' @ rate_source leg2))
                  (\<lambda>c. Inr (Some c))
            | _ \<Rightarrow> Inr None))))"

definition sql_provider_init :: "duration \<Rightarrow> duration res" where
  "sql_provider_init max_age =
     (if max_age \<le> 0 then Inl (ValueError ''FX max_age must be positive'') else Inr max_age)"

section \<open>Cache and converter\<close>

text \<open>The clock a call reads is part of the state, so that calls may be made at any time.\<close>

record 's cached_fx =
  fx_upstream :: 's
  fx_cache :: "string \<times> string \<times> int \<Rightarrow> (observed_fx_rate \<times> time) option"
  fx_now :: time

definition whole_seconds :: "int \<Rightarrow> int" where
  "whole_seconds t = (if 0 \<le> t then t div 1000000 else - ((- t) div 1000000))"

definition cache_key :: "duration \<Rightarrow> string \<Rightarrow> string \<Rightarrow> time \<Rightarrow> string \<times> string \<times> int" where
  "cache_key ttl b q t = (b, q, whole_seconds t div max 1 (whole_seconds ttl))"

type_synonym 's fx_get = "'s \<Rightarrow> string \<Rightarrow> string \<Rightarrow> time \<Rightarrow> observed_fx_rate option res \<times> 's"

definition fresh_at :: "duration \<Rightarrow> time \<Rightarrow> observed_fx_rate \<Rightarrow> bool" where
  "fresh_at max_age t obs \<longleftrightarrow> 0 \<le> t - observed_at obs \<and> t - observed_at obs \<le> max_age"

definition cached_hit ::
  "duration \<Rightarrow> duration \<Rightarrow> 's cached_fx \<Rightarrow> string \<Rightarrow> string \<Rightarrow> time \<Rightarrow> observed_fx_rate option" where
  "cached_hit ttl max_age c b q t =
     (case fx_cache c (cache_key ttl b q t) of
        Some (obs, cached_at) \<Rightarrow>
          (if fresh_at max_age t obs \<and> 0 \<le> fx_now c - cached_at \<and> fx_now c - cached_at \<le> ttl
           then Some obs else None)
      | None \<Rightarrow> None)"

definition cached_get_rate :: "'s fx_get \<Rightarrow> duration \<Rightarrow> duration \<Rightarrow> 's cached_fx fx_get" where
  "cached_get_rate get_rate ttl max_age c b0 q0 t =
     (case normalize_currency b0 of Inl e \<Rightarrow> (Inl e, c) | Inr b \<Rightarrow>
      case normalize_currency q0 of Inl e \<Rightarrow> (Inl e, c) | Inr q \<Rightarrow>
      case cached_hit ttl max_age c b q t of
        Some obs \<Rightarrow> (Inr (Some obs), c)
      | None \<Rightarrow>
          (case get_rate (fx_upstream c) b q t of
             (r, s') \<Rightarrow>
               let c' = c\<lparr>fx_upstream := s'\<rparr> in
               (case r of
                  Inl e \<Rightarrow> (Inl e, c')
                | Inr None \<Rightarrow> (Inr None, c')
                | Inr (Some obs) \<Rightarrow>
                    if \<not> fresh_at max_age t obs then (Inr None, c')
                    else (Inr (Some obs),
                          c'\<lparr>fx_cache := (fx_cache c)(cache_key ttl b q t \<mapsto> (obs, fx_now c))\<rparr>))))"

definition fx_convert ::
  "'s fx_get \<Rightarrow> 's \<Rightarrow> number \<Rightarrow> string \<Rightarrow> string \<Rightarrow> time \<Rightarrow> rat res \<times> 's" where
  "fx_convert get_rate s amount from_currency to_currency t =
     (case normalize_currency from_currency of Inl e \<Rightarrow> (Inl e, s) | Inr source \<Rightarrow>
      case normalize_currency to_currency of Inl e \<Rightarrow> (Inl e, s) | Inr target \<Rightarrow>
      case finite_decimal ''Monetary amount must be finite'' amount of Inl e \<Rightarrow> (Inl e, s) | Inr v \<Rightarrow>
      if source = target then (Inr v, s)
      else (case get_rate s source target t of
              (Inl e, s') \<Rightarrow> (Inl e, s')
            | (Inr None, s') \<Rightarrow> (Inl (FXRateUnavailableError ''No observed FX rate''), s')
            | (Inr (Some obs), s') \<Rightarrow> (Inr (v * fx_rate obs), s')))"

definition cached_provider_init :: "duration \<Rightarrow> duration \<Rightarrow> 's \<Rightarrow> time \<Rightarrow> 's cached_fx res" where
  "cached_provider_init ttl max_age upstream now =
     (if ttl \<le> 0 \<or> max_age \<le> 0 then Inl (ValueError ''FX cache durations must be positive'')
      else Inr \<lparr>fx_upstream = upstream, fx_cache = (\<lambda>_. None), fx_now = now\<rparr>)"

section \<open>The contract of a provider\<close>

definition answers :: "duration \<Rightarrow> string \<Rightarrow> string \<Rightarrow> time \<Rightarrow> observed_fx_rate \<Rightarrow> bool" where
  "answers max_age b q t obs \<longleftrightarrow>
     normalize_currency b = Inr (base_currency obs) \<and> normalize_currency q = Inr (quote_currency obs) \<and>
     0 < fx_rate obs \<and> fresh_at max_age t obs"

lemma normalize_currency_idem:
  "normalize_currency c = Inr n \<Longrightarrow> normalize_currency n = Inr n"
  by (auto simp: normalize_currency_def Let_def split: if_splits)

text \<open>A sequence of calls, each with its pair, time and the clock when it is made.\<close>

fun rate_calls ::
  "'s cached_fx fx_get \<Rightarrow> 's cached_fx \<Rightarrow> (time \<times> string \<times> string \<times> time) list \<Rightarrow>
   observed_fx_rate option res list" where
  "rate_calls get s [] = []"
| "rate_calls get s ((now, b, q, t) # calls) =
     (case get (s\<lparr>fx_now := now\<rparr>) b q t of (r, s') \<Rightarrow> r # rate_calls get s' calls)"

definition cache_ok :: "('s \<Rightarrow> bool) \<Rightarrow> 's cached_fx \<Rightarrow> bool" where
  "cache_ok ok c \<longleftrightarrow> ok (fx_upstream c) \<and>
     (\<forall>b q k obs since. fx_cache c (b, q, k) = Some (obs, since) \<longrightarrow>
        base_currency obs = b \<and> quote_currency obs = q \<and> 0 < fx_rate obs)"

lemma cache_okD:
  "cache_ok ok c \<Longrightarrow> fx_cache c (b, q, k) = Some (obs, since) \<Longrightarrow>
   base_currency obs = b \<and> quote_currency obs = q \<and> 0 < fx_rate obs"
  unfolding cache_ok_def by blast

lemma cache_ok_now [simp]: "cache_ok ok (c\<lparr>fx_now := n\<rparr>) = cache_ok ok c"
  by (simp add: cache_ok_def)

locale fx_provider =
  fixes get_rate :: "'s fx_get"
    and ok :: "'s \<Rightarrow> bool"
    and max_age :: duration
  assumes keeps: "ok s \<Longrightarrow> ok (snd (get_rate s b q t))"
    and serves: "ok s \<Longrightarrow> fst (get_rate s b q t) = Inr (Some obs) \<Longrightarrow> answers max_age b q t obs"
begin

lemma convert_observed:
  assumes "ok s" "fx_convert get_rate s (Fin amount) f to t = (Inr v, s')"
  shows "ok s' \<and>
    (normalize_currency f = normalize_currency to \<and> v = amount \<or>
     (\<exists>obs. answers max_age (base_currency obs) (quote_currency obs) t obs \<and>
        normalize_currency f = Inr (base_currency obs) \<and>
        normalize_currency to = Inr (quote_currency obs) \<and> v = amount * fx_rate obs))"
proof -
  obtain source target where n: "normalize_currency f = Inr source" "normalize_currency to = Inr target"
    using assms(2) by (auto simp: fx_convert_def split: sum.splits)
  show ?thesis
  proof (cases "source = target")
    case True
    then show ?thesis using assms n by (simp add: fx_convert_def)
  next
    case False
    obtain r s1 where g: "get_rate s source target t = (r, s1)" by fastforce
    then obtain obs where obs: "r = Inr (Some obs)" "v = amount * fx_rate obs" "s' = s1"
      using assms(2) n False by (auto simp: fx_convert_def split: sum.splits option.splits)
    have a: "answers max_age source target t obs" using serves [OF assms(1)] g obs by simp
    then have "base_currency obs = source" "quote_currency obs = target"
      using n normalize_currency_idem by (auto simp: answers_def)
    then show ?thesis using a obs n keeps [OF assms(1), of source target t] g by auto
  qed
qed

lemma cached_hit_answers:
  assumes "cache_ok ok c" "cached_hit ttl age c b q t = Some obs"
    "normalize_currency b0 = Inr b" "normalize_currency q0 = Inr q"
  shows "answers age b0 q0 t obs"
proof -
  obtain since where "fx_cache c (cache_key ttl b q t) = Some (obs, since)" "fresh_at age t obs"
    using assms(2) by (auto simp: cached_hit_def split: option.splits if_splits)
  then show ?thesis
    using cache_okD [OF assms(1)] assms(3,4) unfolding cache_key_def answers_def by metis
qed

lemma cached_miss:
  assumes c: "cache_ok ok c" and n: "normalize_currency b0 = Inr b" "normalize_currency q0 = Inr q"
    and miss: "cached_hit ttl age c b q t = None"
    and call: "cached_get_rate get_rate ttl age c b0 q0 t = (r, c')"
  shows "cache_ok ok c' \<and> (\<forall>obs. r = Inr (Some obs) \<longrightarrow> answers age b0 q0 t obs)"
proof -
  obtain u s' where g: "get_rate (fx_upstream c) b q t = (u, s')" by fastforce
  have ok: "ok (fx_upstream c)" using c by (simp add: cache_ok_def)
  have s': "ok s'" using keeps [OF ok, of b q t] g by simp
  have ans: "base_currency obs = b \<and> quote_currency obs = q \<and> 0 < fx_rate obs"
    if "u = Inr (Some obs)" for obs
    using serves [OF ok, of b q t obs] g that n [THEN normalize_currency_idem]
    by (simp add: answers_def)
  consider obs where "u = Inr (Some obs)" "fresh_at age t obs" "r = Inr (Some obs)"
      "c' = c\<lparr>fx_upstream := s', fx_cache := (fx_cache c)(cache_key ttl b q t \<mapsto> (obs, fx_now c))\<rparr>"
    | "c' = c\<lparr>fx_upstream := s'\<rparr>" "\<And>obs. r \<noteq> Inr (Some obs)"
    using call miss g n by (auto simp: cached_get_rate_def Let_def split: sum.splits option.splits if_splits)
  then show ?thesis
  proof cases
    case 1
    then show ?thesis using c s' ans n by (auto simp: cache_ok_def cache_key_def answers_def)
  next
    case 2
    then show ?thesis using c s' by (simp add: cache_ok_def)
  qed
qed

lemma cached_call:
  assumes c: "cache_ok ok c" and call: "cached_get_rate get_rate ttl age c b0 q0 t = (r, c')"
  shows "cache_ok ok c' \<and> (\<forall>obs. r = Inr (Some obs) \<longrightarrow> answers age b0 q0 t obs)"
proof (cases "\<exists>b q. normalize_currency b0 = Inr b \<and> normalize_currency q0 = Inr q")
  case False
  then have "c' = c \<and> (\<exists>e. r = Inl e)"
    using call by (auto simp: cached_get_rate_def split: sum.splits)
  then show ?thesis using c by auto
next
  case True
  then obtain b q where n: "normalize_currency b0 = Inr b" "normalize_currency q0 = Inr q" by blast
  show ?thesis
  proof (cases "cached_hit ttl age c b q t")
    case None
    then show ?thesis using cached_miss [OF c n] call by blast
  next
    case (Some obs)
    then have "c' = c" "r = Inr (Some obs)" using call n by (auto simp: cached_get_rate_def)
    then show ?thesis using c cached_hit_answers [OF c Some n] by simp
  qed
qed

lemma cached_is_provider: "fx_provider (cached_get_rate get_rate ttl age) (cache_ok ok) age"
proof
  fix c b q t obs
  assume c: "cache_ok ok c"
  obtain r c' where call: "cached_get_rate get_rate ttl age c b q t = (r, c')" by fastforce
  show "cache_ok ok (snd (cached_get_rate get_rate ttl age c b q t))"
    using cached_call [OF c call] call by simp
  show "answers age b q t obs" if "fst (cached_get_rate get_rate ttl age c b q t) = Inr (Some obs)"
    using cached_call [OF c call] call that by simp
qed

lemma rate_calls_answer:
  assumes "cache_ok ok c" "i < length calls"
    and "rate_calls (cached_get_rate get_rate ttl age) c calls ! i = Inr (Some obs)"
    and "calls ! i = (now, b, q, t)"
  shows "answers age b q t obs"
  using assms
proof (induction calls arbitrary: c i)
  case (Cons call calls)
  obtain n' b' q' t' where call: "call = (n', b', q', t')" by (cases call)
  obtain r c' where r: "cached_get_rate get_rate ttl age (c\<lparr>fx_now := n'\<rparr>) b' q' t' = (r, c')" by fastforce
  have step: "cache_ok ok c' \<and> (\<forall>obs. r = Inr (Some obs) \<longrightarrow> answers age b' q' t' obs)"
    by (rule cached_call [OF _ r]) (use Cons.prems(1) in simp)
  show ?case
    by (cases i) (use Cons step call r in \<open>auto simp: less_Suc_eq_0_disj\<close>)
qed simp

end

section \<open>The price table is a provider\<close>

lemma observed_fx_rate_init_Inr:
  "observed_fx_rate_init b q n t src = Inr obs \<longleftrightarrow>
     (\<exists>r b' q'. n = Fin r \<and> normalize_currency b = Inr b' \<and> normalize_currency q = Inr q' \<and> 0 < r \<and>
        (b' = q' \<longrightarrow> r = 1) \<and> py_strip src \<noteq> [] \<and>
        obs = \<lparr>base_currency = b', quote_currency = q', fx_rate = r, observed_at = t,
               rate_source = py_strip src\<rparr>)"
  by (auto simp: observed_fx_rate_init_def res_bind_Inr_iff)

definition resolved_ok :: "duration \<Rightarrow> time \<Rightarrow> (pair \<Rightarrow> observed_fx_rate option) \<Rightarrow> bool" where
  "resolved_ok max_age t resolved \<longleftrightarrow>
     (\<forall>pair obs. resolved pair = Some obs \<longrightarrow> answers max_age (fst pair) (snd pair) t obs)"

lemma resolve_row_ok:
  assumes "resolve_row max_age pairs t resolved row = Inr resolved'" "resolved_ok max_age t resolved"
  shows "resolved_ok max_age t resolved'"
  using assms
  by (auto simp: resolve_row_def res_bind_Inr_iff observed_fx_rate_init_Inr resolved_ok_def
      answers_def fresh_at_def split: option.splits if_splits)

lemma resolve_rows_ok:
  "resolve_rows max_age pairs t resolved rows = Inr resolved' \<Longrightarrow> resolved_ok max_age t resolved \<Longrightarrow>
   resolved_ok max_age t resolved'"
  by (induction rows arbitrary: resolved) (auto simp: res_bind_Inr_iff resolve_row_ok)

lemma load_observations_ok:
  "load_observations max_age db pairs t = Inr resolved \<Longrightarrow> resolved_ok max_age t resolved"
  using resolve_rows_ok [of max_age pairs t "\<lambda>_. None"]
  by (cases db) (auto simp: load_observations_def resolved_ok_def)

lemma sql_get_rate_answers:
  assumes "0 < max_age" "sql_get_rate max_age db b0 q0 t = Inr (Some obs)"
  shows "answers max_age b0 q0 t obs"
proof -
  obtain b q where n: "normalize_currency b0 = Inr b" "normalize_currency q0 = Inr q"
    using assms(2) by (auto simp: sql_get_rate_def res_bind_Inr_iff)
  note i = n [THEN normalize_currency_idem]
  show ?thesis
  proof (cases "b = q")
    case True
    then show ?thesis using assms n i
      by (auto simp: sql_get_rate_def res_bind_Inr_iff observed_fx_rate_init_Inr answers_def fresh_at_def)
  next
    case False
    then obtain m where m: "load_observations max_age db (requested_pairs b q) t = Inr m"
      using assms(2) n by (auto simp: sql_get_rate_def res_bind_Inr_iff)
    have a: "answers max_age b' q' t o'" if "m (b', q') = Some o'" for b' q' o'
      using load_observations_ok [OF m] that by (auto simp: resolved_ok_def)
    consider "m (b, q) = Some obs"
      | leg1 leg2 where "m (b, cross_rate_anchor) = Some leg1" "m (cross_rate_anchor, q) = Some leg2"
          "observed_at obs = min (observed_at leg1) (observed_at leg2)" "base_currency obs = b"
          "quote_currency obs = q" "fx_rate obs = fx_rate leg1 * fx_rate leg2"
      using assms(2) n False i
      by (auto simp: sql_get_rate_def m res_bind_Inr_iff observed_fx_rate_init_Inr split: option.splits)
    then show ?thesis
    proof cases
      case 1
      then show ?thesis using a [OF 1] n i by (simp add: answers_def)
    next
      case 2
      then show ?thesis using a [OF 2(1)] a [OF 2(2)] n
        by (auto simp: answers_def fresh_at_def min_def)
    qed
  qed
qed

definition sql_provider :: "duration \<Rightarrow> price_table fx_get" where
  "sql_provider max_age db b q t = (sql_get_rate max_age db b q t, db)"

interpretation sql: fx_provider "sql_provider max_age" "\<lambda>_. 0 < max_age" max_age for max_age
  by unfold_locales (auto simp: sql_provider_def sql_get_rate_answers)

interpretation cached_sql: fx_provider "cached_get_rate (sql_provider max_age) ttl age"
  "cache_ok (\<lambda>_. 0 < max_age)" age for max_age ttl age
  by (rule sql.cached_is_provider)

section \<open>Properties\<close>

text \<open>
  C26: A rate is never invented, borrowed from another pair, read from the future or stale. Whatever
  sequence of calls is made to a cached provider over the price table, at whatever clock times and
  for whatever moments, every rate it answers carries the normalised requested pair, is positive,
  and was observed at or before the requested moment and no longer before it than the configured
  age, whether it comes from the table, from a cross through the anchor or from the cache.
\<close>

theorem cached_rates_observed_and_fresh:
  assumes "sql_provider_init table_age = Inr table_age"
    and "cached_provider_init ttl age db start = Inr c"
    and "i < length calls"
    and "calls ! i = (now, b, q, t)"
    and "rate_calls (cached_get_rate (sql_provider table_age) ttl age) c calls ! i = Inr (Some obs)"
  shows "normalize_currency b = Inr (base_currency obs) \<and>
         normalize_currency q = Inr (quote_currency obs) \<and> 0 < fx_rate obs \<and>
         observed_at obs \<le> t \<and> t - observed_at obs \<le> age"
proof -
  have "cache_ok (\<lambda>_. 0 < table_age) c"
    using assms(1,2)
    by (auto simp: cache_ok_def sql_provider_init_def cached_provider_init_def split: if_splits)
  from sql.rate_calls_answer [OF this assms(3,5,4)]
  show ?thesis by (simp add: answers_def fresh_at_def)
qed

definition example_prices :: price_table where
  "example_prices = Some
     [\<lparr>pr_canonical = ''EUR/USD'', pr_asset_class = ''fx'', pr_close = Some (Fin (5/4)), pr_ts = 0,
       pr_source = ''ecb'', pr_timeframe = ''1d''\<rparr>,
      \<lparr>pr_canonical = ''EUR-GBP'', pr_asset_class = ''fx'', pr_close = Some (Fin (4/5)), pr_ts = seconds 10,
       pr_source = ''ecb'', pr_timeframe = ''1d''\<rparr>]"

definition example_cache :: "price_table cached_fx" where
  "example_cache = \<lparr>fx_upstream = example_prices, fx_cache = (\<lambda>_. None), fx_now = 0\<rparr>"

definition example_calls :: "(time \<times> string \<times> string \<times> time) list" where
  "example_calls = [(0, ''usd'', ''gbp'', seconds 20), (5, '' USD'', ''GBP'', seconds 30)]"

theorem cached_rates_observed_and_fresh_witness:
  "\<exists>obs. rate_calls (cached_get_rate (sql_provider (seconds 100)) (seconds 60) (seconds 100))
           example_cache example_calls ! 1 = Inr (Some obs) \<and>
         fx_rate obs = 16/25 \<and> 0 < fx_rate obs \<and> observed_at obs \<le> seconds 30"
proof -
  have "(case rate_calls (cached_get_rate (sql_provider (seconds 100)) (seconds 60) (seconds 100))
           example_cache example_calls ! 1 of
           Inr (Some obs) \<Rightarrow> fx_rate obs = 16/25 | _ \<Rightarrow> False)"
    by code_simp
  then obtain obs where obs: "rate_calls (cached_get_rate (sql_provider (seconds 100)) (seconds 60)
      (seconds 100)) example_cache example_calls ! 1 = Inr (Some obs)" "fx_rate obs = 16/25"
    by (auto split: sum.splits option.splits)
  have "0 < fx_rate obs \<and> observed_at obs \<le> seconds 30"
    using cached_rates_observed_and_fresh [OF _ _ _ _ obs(1), where db = example_prices and start = 0
        and now = 5 and b = "'' USD''" and q = "''GBP''" and t = "seconds 30"]
    by (simp add: sql_provider_init_def cached_provider_init_def example_cache_def example_calls_def)
  then show ?thesis using obs by blast
qed

end
