(* ===== verification/Pnl_Ledger.thy ===== *)
theory Pnl_Ledger
  imports Fifo_Accounting Fx_Rates
begin

text \<open>
  From the execution ledger to a profit: \<open>execution_engine/metrics/canonical_executions.py\<close> reads
  exact fills with their attribution and converts them to the currency of the account, and
  \<open>PnLService\<close> of \<open>pnl_service.py\<close> computes positions and profits from them.

  The joined query result is a list of rows whose nullable columns are options. The instrument
  catalogue, the converter and the market data provider are parameters.
\<close>

section \<open>Rows of the execution ledger\<close>

record exec_row =
  row_exec_id :: "int option"
  row_order_id :: "int option"
  row_instrument_id :: "int option"
  row_fill_ts :: "time option"
  row_quantity :: "number option"
  row_price :: "number option"
  row_fee_currency :: "string option"
  row_fee_amount :: "number option"
  row_venue :: "string option"
  row_trade_id :: "string option"
  row_account_id :: "int option"
  row_intent_account_id :: "int option"
  row_order_broker_id :: "int option"
  row_settlement_currency :: "string option"
  row_instrument_settlement_currency :: "string option"
  row_user_id :: "string option"
  row_strategy_id :: "string option"
  row_canonical_signal_id :: "int option"
  row_side :: "string option"
  row_execution_mode :: "string option"
  row_broker_environment :: "string option"
  row_order_method :: "string option"
  row_order_payload :: pyval
  row_account_broker_id :: "int option"
  row_account_environment :: "string option"
  row_signal_strategy_id :: "string option"
  row_symbol :: "string option"
  row_broker :: "string option"

record canonical_fill =
  fill_exec_id :: int
  fill_order_id :: int
  fill_instrument_id :: int
  fill_user_id :: string
  fill_account_id :: int
  fill_strategy_id :: string
  fill_signal_id :: int
  fill_symbol :: string
  fill_side :: string
  fill_execution_mode :: string
  fill_broker_environment :: string
  fill_broker :: string
  fill_order_method :: string
  fill_order_payload :: pydict
  fill_settlement_currency :: string
  fill_ts :: time
  fill_quantity :: rat
  fill_price :: rat
  fill_fee_currency :: string
  fill_fee_amount :: rat
  fill_venue :: string
  fill_trade_id :: string

definition CanonicalExecutionLedgerError :: "string \<Rightarrow> py_error" where
  "CanonicalExecutionLedgerError msg = CustomError ''CanonicalExecutionLedgerError'' msg"

definition CanonicalExecutionCurrencyError :: "string \<Rightarrow> py_error" where
  "CanonicalExecutionCurrencyError msg = CustomError ''CanonicalExecutionCurrencyError'' msg"

definition text_of :: "string option \<Rightarrow> string" where
  "text_of v = (case v of None \<Rightarrow> [] | Some s \<Rightarrow> py_strip s)"

definition need :: "string \<Rightarrow> 'a option \<Rightarrow> 'a res" where
  "need msg v = (case v of None \<Rightarrow> Inl (CanonicalExecutionLedgerError msg) | Some x \<Rightarrow> Inr x)"

definition exact_number :: "number \<Rightarrow> rat res" where
  "exact_number n =
     (case n of Fin q \<Rightarrow> Inr q
      | _ \<Rightarrow> Inl (CanonicalExecutionLedgerError ''invalid exact-fill economics''))"

definition ORDER_METHODS :: "string list" where
  "ORDER_METHODS = [''SPOT'', ''MARGIN'', ''PERP'', ''FUTURES'', ''OPTIONS_SINGLE'', ''OPTIONS_STRATEGY'']"

definition attribution_complete :: "exec_row \<Rightarrow> int \<Rightarrow> int \<Rightarrow> int \<Rightarrow> int \<Rightarrow> bool" where
  "attribution_complete row instrument account order_broker account_broker \<longleftrightarrow>
     text_of (row_user_id row) \<noteq> [] \<and> 0 < instrument \<and> 0 < account \<and>
     text_of (row_strategy_id row) \<noteq> [] \<and> text_of (row_symbol row) \<noteq> [] \<and>
     py_upper (text_of (row_side row)) \<in> set [''BUY'', ''SELL''] \<and>
     text_of (row_execution_mode row) \<noteq> [] \<and>
     py_lower (text_of (row_broker_environment row)) \<in> set [''paper'', ''live''] \<and>
     py_lower (text_of (row_account_environment row)) = py_lower (text_of (row_broker_environment row)) \<and>
     account_broker = order_broker \<and> text_of (row_broker row) \<noteq> [] \<and>
     py_upper (text_of (row_order_method row)) \<in> set ORDER_METHODS \<and>
     text_of (row_settlement_currency row) \<noteq> [] \<and>
     py_upper (text_of (row_settlement_currency row)) =
       py_upper (text_of (row_instrument_settlement_currency row)) \<and>
     text_of (row_fee_currency row) \<noteq> [] \<and> text_of (row_venue row) \<noteq> []"

definition map_row :: "exec_row \<Rightarrow> canonical_fill res" where
  "map_row row =
     (let malformed = ''Canonical execution row has malformed numeric identity or economics'' in
      res_bind (need malformed (row_exec_id row)) (\<lambda>exec.
      res_bind (need malformed (row_order_id row)) (\<lambda>order.
      res_bind (need malformed (row_instrument_id row)) (\<lambda>instrument.
      res_bind (need malformed (row_account_id row)) (\<lambda>account.
      res_bind (need malformed (row_order_broker_id row)) (\<lambda>order_broker.
      res_bind (need malformed (row_account_broker_id row)) (\<lambda>account_broker.
      res_bind (need malformed (row_quantity row)) (\<lambda>quantity.
      res_bind (need malformed (row_price row)) (\<lambda>price.
      res_bind (need malformed (row_fee_amount row)) (\<lambda>fee.
      res_bind (exact_number quantity) (\<lambda>q.
      res_bind (exact_number price) (\<lambda>p.
      res_bind (exact_number fee) (\<lambda>f.
      res_bind (require (0 < q \<and> 0 < p)
                  (CanonicalExecutionLedgerError ''invalid exact-fill economics'')) (\<lambda>_.
      res_bind (require (attribution_complete row instrument account order_broker account_broker)
                  (CanonicalExecutionLedgerError ''incomplete relational attribution'')) (\<lambda>_.
      res_bind (case row_order_payload row of PDict d \<Rightarrow> Inr d
                | _ \<Rightarrow> Inl (CanonicalExecutionLedgerError ''no structured order payload'')) (\<lambda>payload.
      res_bind (need ''no canonical signal attribution'' (row_canonical_signal_id row)) (\<lambda>signal.
      res_bind (require (0 < signal)
                  (CanonicalExecutionLedgerError ''invalid canonical signal attribution'')) (\<lambda>_.
      res_bind (require ((case row_signal_strategy_id row of None \<Rightarrow> [] | Some s \<Rightarrow> s) =
                         text_of (row_strategy_id row))
                  (CanonicalExecutionLedgerError ''mismatched signal strategy attribution'')) (\<lambda>_.
      res_bind (require (text_of (row_trade_id row) \<noteq> [])
                  (CanonicalExecutionLedgerError ''no stable venue trade identity'')) (\<lambda>_.
      res_bind (need ''no valid fill timestamp'' (row_fill_ts row)) (\<lambda>ts.
      Inr \<lparr>fill_exec_id = exec, fill_order_id = order, fill_instrument_id = instrument,
           fill_user_id = text_of (row_user_id row), fill_account_id = account,
           fill_strategy_id = text_of (row_strategy_id row), fill_signal_id = signal,
           fill_symbol = text_of (row_symbol row), fill_side = py_upper (text_of (row_side row)),
           fill_execution_mode = py_lower (text_of (row_execution_mode row)),
           fill_broker_environment = py_lower (text_of (row_broker_environment row)),
           fill_broker = py_lower (text_of (row_broker row)),
           fill_order_method = py_upper (text_of (row_order_method row)),
           fill_order_payload = payload,
           fill_settlement_currency = py_upper (text_of (row_settlement_currency row)),
           fill_ts = ts, fill_quantity = q, fill_price = p,
           fill_fee_currency = py_upper (text_of (row_fee_currency row)), fill_fee_amount = f,
           fill_venue = py_lower (text_of (row_venue row)),
           fill_trade_id = text_of (row_trade_id row)\<rparr>)))))))))))))))))))))"

section \<open>The query\<close>

record ledger_scope =
  sc_user :: string
  sc_account :: int
  sc_symbol :: "string option"
  sc_strategy :: "string option"
  sc_mode :: "string option"
  sc_broker :: "string option"
  sc_start :: "time option"
  sc_end :: "time option"

text \<open>
  \<open>resolve\<close> is the instrument catalogue: the identity of a symbol, \<open>None\<close> when it is unknown, an
  error when it is ambiguous.
\<close>

type_synonym catalogue = "string \<Rightarrow> int option res"

definition instrument_filter :: "catalogue \<Rightarrow> ledger_scope \<Rightarrow> (exec_row \<Rightarrow> bool) res" where
  "instrument_filter resolve sc =
     (case sc_symbol sc of
        None \<Rightarrow> Inr (\<lambda>_. True)
      | Some symbol \<Rightarrow>
          (case resolve symbol of
             Inr (Some i) \<Rightarrow> Inr (\<lambda>row. row_instrument_id row = Some i)
           | _ \<Rightarrow> Inl (CanonicalExecutionLedgerError ''Cannot resolve canonical execution symbol'')))"

definition strategy_filter :: "ledger_scope \<Rightarrow> (exec_row \<Rightarrow> bool) res" where
  "strategy_filter sc =
     (case sc_strategy sc of
        None \<Rightarrow> Inr (\<lambda>_. True)
      | Some s \<Rightarrow>
          if py_strip s = []
          then Inl (CanonicalExecutionLedgerError ''Canonical execution strategy filter must be non-empty'')
          else Inr (\<lambda>row. row_strategy_id row = Some (py_strip s)))"

definition mode_filter :: "ledger_scope \<Rightarrow> (exec_row \<Rightarrow> bool) res" where
  "mode_filter sc =
     (case sc_mode sc of
        None \<Rightarrow> Inr (\<lambda>_. True)
      | Some m \<Rightarrow>
          let n = py_lower (py_strip m) in
          if n \<notin> set [''paper'', ''live'']
          then Inl (CanonicalExecutionLedgerError ''Canonical execution environment is unsupported'')
          else Inr (\<lambda>row. row_broker_environment row = Some n))"

definition broker_filter :: "ledger_scope \<Rightarrow> (exec_row \<Rightarrow> bool) res" where
  "broker_filter sc =
     (case sc_broker sc of
        None \<Rightarrow> Inr (\<lambda>_. True)
      | Some b \<Rightarrow>
          let n = py_lower (py_strip b) in
          if n = [] then Inl (CanonicalExecutionLedgerError ''Canonical execution broker filter must be non-empty'')
          else Inr (\<lambda>row. map_option py_lower (row_broker row) = Some n))"

definition date_filter :: "ledger_scope \<Rightarrow> exec_row \<Rightarrow> bool" where
  "date_filter sc row \<longleftrightarrow>
     (case sc_start sc of None \<Rightarrow> True | Some a \<Rightarrow> (case row_fill_ts row of None \<Rightarrow> False | Some t \<Rightarrow> a \<le> t)) \<and>
     (case sc_end sc of None \<Rightarrow> True | Some b \<Rightarrow> (case row_fill_ts row of None \<Rightarrow> False | Some t \<Rightarrow> t \<le> b))"

definition owner_filter :: "ledger_scope \<Rightarrow> exec_row \<Rightarrow> bool" where
  "owner_filter sc row \<longleftrightarrow> row_user_id row = Some (sc_user sc) \<and>
     row_intent_account_id row = Some (sc_account sc) \<and> row_account_id row = Some (sc_account sc)"

definition ledger_key :: "exec_row \<Rightarrow> (int \<times> int) \<times> (int \<times> int)" where
  "ledger_key row =
     ((case row_fill_ts row of None \<Rightarrow> (1, 0) | Some t \<Rightarrow> (0, t)),
      (case row_exec_id row of None \<Rightarrow> (1, 0) | Some i \<Rightarrow> (0, i)))"

fun map_res :: "('a \<Rightarrow> 'b res) \<Rightarrow> 'a list \<Rightarrow> 'b list res" where
  "map_res f [] = Inr []"
| "map_res f (x # xs) = res_bind (f x) (\<lambda>y. res_bind (map_res f xs) (\<lambda>ys. Inr (y # ys)))"

definition load_canonical_executions ::
  "catalogue \<Rightarrow> exec_row list \<Rightarrow> ledger_scope \<Rightarrow> canonical_fill list res" where
  "load_canonical_executions resolve rows sc =
     res_bind (instrument_filter resolve sc) (\<lambda>by_instrument.
     res_bind (strategy_filter sc) (\<lambda>by_strategy.
     res_bind (mode_filter sc) (\<lambda>by_mode.
     res_bind (broker_filter sc) (\<lambda>by_broker.
     map_res map_row
       (sort_key ledger_key
          (filter (\<lambda>row. owner_filter sc row \<and> by_instrument row \<and> by_strategy row \<and> by_mode row \<and>
                         by_broker row \<and> date_filter sc row) rows))))))"

section \<open>Conversion to the account currency\<close>

type_synonym money_converter = "rat \<Rightarrow> string \<Rightarrow> string \<Rightarrow> time \<Rightarrow> rat res"

definition currency_of :: "string \<Rightarrow> string \<Rightarrow> string res" where
  "currency_of msg c =
     (case normalize_currency c of Inl _ \<Rightarrow> Inl (CanonicalExecutionCurrencyError msg) | Inr n \<Rightarrow> Inr n)"

definition contract_terms :: "canonical_fill \<Rightarrow> rat option res" where
  "contract_terms row =
     (if fill_order_method row \<notin> set [''PERP'', ''FUTURES''] then Inr None
      else (case dict_get (fill_order_payload row) ''metadata'' of
        PDict metadata \<Rightarrow>
          res_bind (require (dict_get metadata ''contract_value_model'' = PStr ''linear'')
            (CanonicalExecutionLedgerError ''omitted explicit linear contract economics'')) (\<lambda>_.
          res_bind (need ''incomplete contract terms'' (py_float_text (dict_get metadata ''contract_multiplier''))) (\<lambda>multiplier.
          res_bind (need ''incomplete contract terms'' (py_float_text (dict_get metadata ''leverage''))) (\<lambda>leverage.
          let mode = py_lower (py_strip (str_of (dict_get metadata ''execution_mode'')));
              kind = py_lower (py_strip (str_of (dict_get metadata ''contract_type'')));
              expected = (if fill_order_method row = ''PERP'' then ''perpetual'' else ''futures'');
              expected_kind = (if expected = ''perpetual'' then ''perpetual'' else ''dated'')
          in res_bind (require (0 < multiplier \<and> 0 < leverage \<and> mode = expected \<and> kind = expected_kind)
               (CanonicalExecutionLedgerError ''invalid contract terms'')) (\<lambda>_. Inr (Some multiplier)))))
      | _ \<Rightarrow> Inl (CanonicalExecutionLedgerError ''omitted explicit linear contract economics'')))"

definition convert_execution ::
  "money_converter \<Rightarrow> string \<Rightarrow> canonical_fill \<Rightarrow> trade_record res" where
  "convert_execution convert account_ccy row =
     res_bind (currency_of ''invalid currency attribution'' (fill_settlement_currency row)) (\<lambda>settlement.
     res_bind (currency_of ''invalid currency attribution'' (fill_fee_currency row)) (\<lambda>fee_ccy.
     res_bind (contract_terms row) (\<lambda>multiplier.
     let unit_price = (case multiplier of None \<Rightarrow> fill_price row | Some m \<Rightarrow> fill_price row * m) in
     res_bind (convert unit_price settlement account_ccy (fill_ts row)) (\<lambda>price.
     res_bind (convert (fill_fee_amount row) fee_ccy account_ccy (fill_ts row)) (\<lambda>commission.
     res_bind (require (0 < price)
       (CanonicalExecutionCurrencyError ''produced invalid converted economics'')) (\<lambda>_.
     Inr \<lparr>trade_id = int_str (fill_exec_id row), tr_exec_id = fill_exec_id row,
          tr_signal_id = fill_signal_id row, tr_symbol = fill_symbol row,
          tr_side = py_lower (fill_side row), tr_quantity = fill_quantity row, tr_price = price,
          tr_commission = commission, tr_account_currency = account_ccy,
          tr_settlement_currency = settlement, tr_commission_currency = Some fee_ccy,
          tr_timestamp = fill_ts row, tr_order_id = Some (int_str (fill_order_id row)),
          tr_quantity_unit = (if multiplier = None then ''asset'' else ''contracts''),
          tr_contract_multiplier = multiplier\<rparr>))))))"

definition convert_canonical_executions ::
  "money_converter \<Rightarrow> string \<Rightarrow> canonical_fill list \<Rightarrow> trade_record list res" where
  "convert_canonical_executions convert account_currency rows =
     res_bind (currency_of ''Invalid account reporting currency'' account_currency) (\<lambda>account_ccy.
     map_res (convert_execution convert account_ccy) rows)"

section \<open>The service\<close>

text \<open>
  \<open>acc_broker\<close> tells whether the account's broker row exists, as the joined query requires.
  A service without a session factory has no \<open>svc_db\<close>; reading the ledger may fail. The price
  source answers the price of a quote, or none when there is no quote or fetching it raises.
\<close>

record linked_account =
  acc_account_id :: int
  acc_user_id :: string
  acc_broker :: bool
  acc_status :: string
  acc_environment :: string
  acc_base_ccy :: "string option"

record pnl_db =
  db_rows :: "exec_row list res"
  db_accounts :: "linked_account list"

record pnl_service =
  svc_db :: "pnl_db option"
  svc_resolve :: catalogue
  svc_convert :: "money_converter option"
  svc_quote :: "string \<Rightarrow> string \<Rightarrow> string \<Rightarrow> number option"
  svc_now :: time

definition convert_money :: "pnl_service \<Rightarrow> money_converter" where
  "convert_money svc v from_currency to_currency t =
     res_bind (normalize_currency from_currency) (\<lambda>source.
     res_bind (normalize_currency to_currency) (\<lambda>target.
     if source = target then Inr v
     else (case svc_convert svc of
             None \<Rightarrow> Inl (CurrencyConversionRequiredError
                       ''Cannot combine accounting values without an observed FX-rate provider'')
           | Some convert \<Rightarrow>
               (case convert v source target t of
                  Inl (CustomError c m) \<Rightarrow>
                    Inl (if c = ''FXRateUnavailableError''
                         then CurrencyConversionRequiredError ''Observed FX conversion unavailable''
                         else CustomError c m)
                | r \<Rightarrow> r))))"

definition ledger_db :: "pnl_service \<Rightarrow> pnl_db res" where
  "ledger_db svc = (case svc_db svc of
     None \<Rightarrow> Inl (PnLLedgerUnavailableError ''PnL ledger session is not configured'') | Some db \<Rightarrow> Inr db)"

definition account_base_currency :: "linked_account \<Rightarrow> string res" where
  "account_base_currency a =
     map_sum (\<lambda>_. PnLLedgerUnavailableError ''Linked broker account has no valid base currency'') id
       (normalize_currency (case acc_base_ccy a of None \<Rightarrow> [] | Some c \<Rightarrow> c))"

definition resolve_scoped_account_currency ::
  "pnl_db \<Rightarrow> string \<Rightarrow> int \<Rightarrow> bool \<Rightarrow> string res" where
  "resolve_scoped_account_currency db user account require_connected =
     res_bind (require (0 < account)
       (PnLLedgerUnavailableError ''P&L accounting requires a positive broker account_id'')) (\<lambda>_.
     case find (\<lambda>a. acc_account_id a = account \<and> acc_user_id a = user \<and> acc_broker a \<and>
                   (require_connected \<longrightarrow> acc_status a = ''connected'')) (db_accounts db) of
       None \<Rightarrow> Inl (PnLLedgerUnavailableError ''linked broker account is unavailable'')
     | Some a \<Rightarrow> account_base_currency a)"

definition resolve_account_currency :: "pnl_service \<Rightarrow> string \<Rightarrow> int \<Rightarrow> string res" where
  "resolve_account_currency svc user account =
     res_bind (require (0 < account)
       (PnLLedgerUnavailableError ''P&L accounting requires a positive broker account_id'')) (\<lambda>_.
     res_bind (ledger_db svc) (\<lambda>db. resolve_scoped_account_currency db user account False))"

definition resolve_account_environment :: "pnl_service \<Rightarrow> string \<Rightarrow> int \<Rightarrow> string res" where
  "resolve_account_environment svc user account =
     res_bind (ledger_db svc) (\<lambda>db.
     case find (\<lambda>a. acc_account_id a = account \<and> acc_user_id a = user) (db_accounts db) of
       Some a \<Rightarrow>
         (if acc_environment a \<in> set [''paper'', ''live''] then Inr (acc_environment a)
          else Inl (PnLLedgerUnavailableError ''Linked broker account has no exact execution environment''))
     | None \<Rightarrow> Inl (PnLLedgerUnavailableError ''Linked broker account has no exact execution environment''))"

text \<open>How \<open>_load_trades\<close> translates the errors of the ledger.\<close>

definition ledger_error :: "py_error \<Rightarrow> py_error" where
  "ledger_error e =
     (let unavailable = PnLLedgerUnavailableError ''Unable to load complete PnL ledger'' in
      case e of
        CustomError c m \<Rightarrow>
          (if c = ''CanonicalExecutionCurrencyError'' then CurrencyConversionRequiredError m
           else if c = ''CanonicalExecutionLedgerError'' then unavailable else e)
      | ValueError _ \<Rightarrow> unavailable | TypeError _ \<Rightarrow> unavailable
      | IntegrityError \<Rightarrow> unavailable | DatabaseError \<Rightarrow> unavailable
      | _ \<Rightarrow> e)"

definition load_trades :: "pnl_service \<Rightarrow> ledger_scope \<Rightarrow> trade_record list res" where
  "load_trades svc sc =
     map_sum ledger_error id
       (res_bind (ledger_db svc) (\<lambda>db.
        res_bind (resolve_account_currency svc (sc_user sc) (sc_account sc)) (\<lambda>ccy.
        res_bind (db_rows db) (\<lambda>rows.
        res_bind (load_canonical_executions (svc_resolve svc) rows sc) (\<lambda>fills.
        convert_canonical_executions (convert_money svc) ccy fills)))))"

definition get_current_price :: "pnl_service \<Rightarrow> string \<Rightarrow> string \<Rightarrow> string \<Rightarrow> rat option" where
  "get_current_price svc symbol user environment =
     (case svc_quote svc symbol user environment of
        Some (Fin p) \<Rightarrow> (if 0 < p then Some p else None)
      | _ \<Rightarrow> None)"

record position_snapshot =
  snap_symbol :: string
  snap_account :: int
  snap_currency :: string
  snap_quantity :: rat
  snap_average_cost :: rat
  snap_current_price :: rat
  snap_realized :: rat
  snap_unrealized :: rat
  snap_total :: rat
  snap_cost_basis :: rat
  snap_market_value :: rat
  snap_return_pct :: rat
  snap_total_deployed :: rat
  snap_price_available :: bool

definition mark_price ::
  "pnl_service \<Rightarrow> trade_record list \<Rightarrow> string \<Rightarrow> rat \<Rightarrow> rat res" where
  "mark_price svc trades account_ccy price =
     (if trades = [] then Inr price
      else let multipliers = remdups (List.map_filter tr_contract_multiplier trades) in
        res_bind (require (length multipliers \<le> 1)
          (PnLLedgerUnavailableError ''Contract multiplier changed within the P&L ledger'')) (\<lambda>_.
        convert_money svc (case multipliers of [] \<Rightarrow> price | m # _ \<Rightarrow> price * m)
          (tr_settlement_currency (List.last trades)) account_ccy (svc_now svc)))"

definition return_percentage :: "rat \<Rightarrow> rat \<Rightarrow> rat \<Rightarrow> rat" where
  "return_percentage pnl deployed cost_basis =
     (if 0 < deployed then pnl / deployed * 100
      else if 0 < \<bar>cost_basis\<bar> then pnl / \<bar>cost_basis\<bar> * 100 else 0)"

definition snapshot_of ::
  "string \<Rightarrow> int \<Rightarrow> string \<Rightarrow> trade_record list \<Rightarrow> rat option \<Rightarrow> position_snapshot res" where
  "snapshot_of symbol account ccy trades mark =
     res_bind (calculate_fifo_pnl trades) (\<lambda>(realized, qty, avg, _, _).
     let cost_basis = qty * avg;
         price = (case mark of Some p \<Rightarrow> p | None \<Rightarrow> avg);
         market_value = (case mark of Some p \<Rightarrow> qty * p | None \<Rightarrow> cost_basis);
         unrealized = (case mark of Some p \<Rightarrow> market_value - cost_basis | None \<Rightarrow> 0);
         total = realized + unrealized;
         deployed = calculate_total_deployed trades
     in Inr \<lparr>snap_symbol = symbol, snap_account = account, snap_currency = ccy, snap_quantity = qty,
             snap_average_cost = avg, snap_current_price = price, snap_realized = realized,
             snap_unrealized = unrealized, snap_total = total, snap_cost_basis = cost_basis,
             snap_market_value = market_value,
             snap_return_pct = return_percentage total deployed cost_basis,
             snap_total_deployed = deployed, snap_price_available = (mark \<noteq> None)\<rparr>)"

definition position_scope :: "string \<Rightarrow> int \<Rightarrow> string \<Rightarrow> string option \<Rightarrow> ledger_scope" where
  "position_scope user account symbol strategy =
     \<lparr>sc_user = user, sc_account = account, sc_symbol = Some symbol, sc_strategy = strategy,
      sc_mode = None, sc_broker = None, sc_start = None, sc_end = None\<rparr>"

definition get_position_pnl ::
  "pnl_service \<Rightarrow> string \<Rightarrow> string \<Rightarrow> int \<Rightarrow> rat option \<Rightarrow> string option \<Rightarrow> position_snapshot res" where
  "get_position_pnl svc user symbol account current strategy =
     res_bind (load_trades svc (position_scope user account symbol strategy)) (\<lambda>trades.
     res_bind (case trades of tr # _ \<Rightarrow> Inr (tr_account_currency tr)
               | [] \<Rightarrow> resolve_account_currency svc user account) (\<lambda>ccy.
     res_bind (case current of
                 Some p \<Rightarrow> Inr (Some p)
               | None \<Rightarrow> res_bind (resolve_account_environment svc user account)
                           (\<lambda>environment. Inr (get_current_price svc symbol user environment))) (\<lambda>price.
     res_bind (case price of None \<Rightarrow> Inr None
               | Some p \<Rightarrow> map_sum id Some (mark_price svc trades ccy p)) (\<lambda>mark.
     snapshot_of symbol account ccy trades mark))))"

definition partition_realized_pnl_economics ::
  "pnl_service \<Rightarrow> string \<Rightarrow> string \<Rightarrow> int \<Rightarrow> string option \<Rightarrow> (rat \<times> fifo_contribution list) res" where
  "partition_realized_pnl_economics svc user symbol account strategy =
     res_bind (load_trades svc (position_scope user account symbol strategy)) (\<lambda>trades.
     res_bind (calculate_fifo_pnl trades) (\<lambda>(realized, _, _, _, cs). Inr (realized, cs)))"

definition partition_realized_pnl ::
  "pnl_service \<Rightarrow> string \<Rightarrow> string \<Rightarrow> int \<Rightarrow> string option \<Rightarrow> rat res" where
  "partition_realized_pnl svc user symbol account strategy =
     map_sum id fst (partition_realized_pnl_economics svc user symbol account strategy)"

definition validate_contribution_lookup :: "string \<Rightarrow> int \<Rightarrow> string res" where
  "validate_contribution_lookup strategy signal =
     res_bind (require (py_strip strategy \<noteq> [])
       (PnLLedgerUnavailableError ''Realized P&L contribution lookup requires an exact strategy_id'')) (\<lambda>_.
     res_bind (require (0 < signal)
       (PnLLedgerUnavailableError ''Realized P&L contribution lookup requires a positive canonical signal ID''))
       (\<lambda>_. Inr (py_strip strategy)))"

definition partition_realized_pnl_with_exit_contributions ::
  "pnl_service \<Rightarrow> string \<Rightarrow> string \<Rightarrow> int \<Rightarrow> string \<Rightarrow> int \<Rightarrow> (rat \<times> fifo_contribution list) res" where
  "partition_realized_pnl_with_exit_contributions svc user symbol account strategy signal =
     res_bind (validate_contribution_lookup strategy signal) (\<lambda>s.
     res_bind (partition_realized_pnl_economics svc user symbol account (Some s)) (\<lambda>(realized, cs).
     Inr (realized, filter (\<lambda>k. con_exit_signal_id k = signal) cs)))"

definition realized_pnl_contributions_for_exit_signal ::
  "pnl_service \<Rightarrow> string \<Rightarrow> string \<Rightarrow> int \<Rightarrow> string \<Rightarrow> int \<Rightarrow> fifo_contribution list res" where
  "realized_pnl_contributions_for_exit_signal svc user symbol account strategy signal =
     map_sum id snd (partition_realized_pnl_with_exit_contributions svc user symbol account strategy signal)"

text \<open>
  \<open>_get_traded_symbols\<close> checks the account before it reads the ledger and lets the errors of the
  account through; the errors of the ledger and of the database are translated.
\<close>

definition traded_symbols_error :: "py_error \<Rightarrow> py_error" where
  "traded_symbols_error e =
     (let unavailable = PnLLedgerUnavailableError ''Unable to enumerate complete PnL ledger'' in
      case e of
        CustomError c m \<Rightarrow>
          (if c \<in> set [''CanonicalExecutionCurrencyError'', ''CanonicalExecutionLedgerError'']
           then unavailable else e)
      | IntegrityError \<Rightarrow> unavailable | DatabaseError \<Rightarrow> unavailable | _ \<Rightarrow> e)"

definition get_traded_symbols :: "pnl_service \<Rightarrow> ledger_scope \<Rightarrow> string list res" where
  "get_traded_symbols svc sc =
     res_bind (ledger_db svc) (\<lambda>db.
     res_bind (resolve_account_currency svc (sc_user sc) (sc_account sc)) (\<lambda>_.
     map_sum traded_symbols_error id
       (res_bind (db_rows db) (\<lambda>rows.
        res_bind (load_canonical_executions (svc_resolve svc) rows sc) (\<lambda>fills.
        Inr (sort (remdups (map fill_symbol (filter (\<lambda>f. 0 < fill_quantity f) fills)))))))))"

definition get_fifo_positions :: "pnl_service \<Rightarrow> ledger_scope \<Rightarrow> (string \<times> rat) list res" where
  "get_fifo_positions svc sc =
     res_bind (get_traded_symbols svc (sc\<lparr>sc_symbol := None\<rparr>)) (\<lambda>symbols.
     res_bind (map_res (\<lambda>symbol.
         res_bind (load_trades svc (sc\<lparr>sc_symbol := Some symbol\<rparr>)) (\<lambda>trades.
         res_bind (calculate_fifo_pnl trades) (\<lambda>(_, qty, _, _, _). Inr (symbol, qty)))) symbols)
       (\<lambda>positions. Inr (filter (\<lambda>(_, qty). qty \<noteq> 0) positions)))"

record aggregate_pnl =
  agg_realized :: rat
  agg_unrealized :: rat
  agg_cost_basis :: rat
  agg_market_value :: rat
  agg_deployed :: rat
  agg_positions :: "position_snapshot list"
  agg_failed :: "string list"
  agg_stale :: "string list"

definition aggregate_init :: aggregate_pnl where
  "aggregate_init = \<lparr>agg_realized = 0, agg_unrealized = 0, agg_cost_basis = 0, agg_market_value = 0,
     agg_deployed = 0, agg_positions = [], agg_failed = [], agg_stale = []\<rparr>"

definition add_snapshot :: "aggregate_pnl \<Rightarrow> string \<Rightarrow> position_snapshot \<Rightarrow> aggregate_pnl" where
  "add_snapshot a symbol snap =
     \<lparr>agg_realized = agg_realized a + snap_realized snap,
      agg_unrealized = agg_unrealized a + snap_unrealized snap,
      agg_cost_basis = agg_cost_basis a + snap_cost_basis snap,
      agg_market_value = agg_market_value a + snap_market_value snap,
      agg_deployed = agg_deployed a + snap_total_deployed snap,
      agg_positions = agg_positions a @ [snap], agg_failed = agg_failed a,
      agg_stale = (if \<not> snap_price_available snap \<and> snap_quantity snap \<noteq> 0
                   then agg_stale a @ [symbol] else agg_stale a)\<rparr>"

text \<open>Errors of the ledger and of the currencies stop the aggregate; any other marks the symbol.\<close>

definition is_fatal :: "py_error \<Rightarrow> bool" where
  "is_fatal e \<longleftrightarrow>
     (case e of CustomError c _ \<Rightarrow> c \<in> set [''CurrencyConversionRequiredError'', ''PnLLedgerUnavailableError'']
      | _ \<Rightarrow> False)"

fun aggregate_symbols ::
  "(string \<Rightarrow> position_snapshot res) \<Rightarrow> aggregate_pnl \<Rightarrow> string list \<Rightarrow> aggregate_pnl res" where
  "aggregate_symbols pnl a [] = Inr a"
| "aggregate_symbols pnl a (symbol # symbols) =
     (case pnl symbol of
        Inr snap \<Rightarrow> aggregate_symbols pnl (add_snapshot a symbol snap) symbols
      | Inl e \<Rightarrow> (if is_fatal e then Inl e
                  else aggregate_symbols pnl (a\<lparr>agg_failed := agg_failed a @ [symbol]\<rparr>) symbols))"

record aggregate_report =
  rep_currency :: string
  rep_realized :: rat
  rep_unrealized :: rat
  rep_total :: rat
  rep_cost_basis :: rat
  rep_market_value :: rat
  rep_return_pct :: rat
  rep_position_count :: nat
  rep_complete :: bool
  rep_failed :: "string list"
  rep_stale :: "string list"

definition account_scope :: "string \<Rightarrow> int \<Rightarrow> string option \<Rightarrow> ledger_scope" where
  "account_scope user account strategy =
     \<lparr>sc_user = user, sc_account = account, sc_symbol = None, sc_strategy = strategy, sc_mode = None,
      sc_broker = None, sc_start = None, sc_end = None\<rparr>"

definition get_aggregate_pnl ::
  "pnl_service \<Rightarrow> string \<Rightarrow> int \<Rightarrow> string option \<Rightarrow> aggregate_report res" where
  "get_aggregate_pnl svc user account strategy =
     res_bind (get_traded_symbols svc (account_scope user account strategy)) (\<lambda>symbols.
     res_bind (aggregate_symbols (\<lambda>symbol. get_position_pnl svc user symbol account None strategy)
                 aggregate_init symbols) (\<lambda>a.
     res_bind (resolve_account_currency svc user account) (\<lambda>ccy.
     let total = agg_realized a + agg_unrealized a in
     Inr \<lparr>rep_currency = ccy, rep_realized = agg_realized a, rep_unrealized = agg_unrealized a,
          rep_total = total, rep_cost_basis = agg_cost_basis a, rep_market_value = agg_market_value a,
          rep_return_pct = (if 0 < agg_deployed a then total / agg_deployed a * 100 else 0),
          rep_position_count = length (filter (\<lambda>p. snap_quantity p \<noteq> 0) (agg_positions a)),
          rep_complete = (agg_failed a = []), rep_failed = agg_failed a, rep_stale = agg_stale a\<rparr>)))"

section \<open>Daily net asset value\<close>

record nav_row =
  nav_user :: string
  nav_account :: int
  nav_date :: int
  nav_ccy :: string
  nav_value :: rat

definition validate_nav_equity :: "number \<Rightarrow> rat res" where
  "validate_nav_equity equity =
     (case equity of
        Fin e \<Rightarrow> (if e < 0 then Inl (PnLLedgerUnavailableError ''Daily NAV equity must be a finite non-negative amount'')
                  else Inr e)
      | _ \<Rightarrow> Inl (PnLLedgerUnavailableError ''Daily NAV equity must be a finite non-negative amount''))"

definition validate_nav_currency :: "string \<Rightarrow> string \<Rightarrow> unit res" where
  "validate_nav_currency ccy account_ccy =
     (case normalize_currency ccy of
        Inl _ \<Rightarrow> Inl (PnLLedgerUnavailableError ''Daily NAV requires an explicit valid nav_ccy'')
      | Inr c \<Rightarrow> require (c = account_ccy)
                  (PnLLedgerUnavailableError ''Daily NAV currency does not match the account base currency''))"

definition upsert_nav :: "nav_row list \<Rightarrow> nav_row \<Rightarrow> nav_row list" where
  "upsert_nav rows row =
     (let same = (\<lambda>r. nav_user r = nav_user row \<and> nav_account r = nav_account row \<and> nav_date r = nav_date row)
      in if \<exists>r \<in> set rows. same r
         then update_where same (\<lambda>r. r\<lparr>nav_value := nav_value row, nav_ccy := nav_ccy row\<rparr>) rows
         else rows @ [row])"

definition persist_daily_nav ::
  "pnl_service \<Rightarrow> nav_row list \<Rightarrow> string \<Rightarrow> number \<Rightarrow> int \<Rightarrow> string \<Rightarrow> nav_row list res" where
  "persist_daily_nav svc rows user equity account ccy =
     res_bind (ledger_db svc) (\<lambda>db.
     res_bind (resolve_scoped_account_currency db user account True) (\<lambda>account_ccy.
     res_bind (validate_nav_currency ccy account_ccy) (\<lambda>_.
     res_bind (validate_nav_equity equity) (\<lambda>e.
     Inr (upsert_nav rows \<lparr>nav_user = user, nav_account = account,
            nav_date = svc_now svc div seconds 86400, nav_ccy = account_ccy, nav_value = e\<rparr>)))))"

section \<open>Ledger trades are well formed\<close>

lemma map_res_Inr: "map_res f xs = Inr ys \<Longrightarrow> list_all2 (\<lambda>x y. f x = Inr y) xs ys"
  by (induction xs arbitrary: ys) (auto simp: res_bind_Inr_iff)

lemma map_res_set: "map_res f xs = Inr ys \<Longrightarrow> y \<in> set ys \<Longrightarrow> \<exists>x \<in> set xs. f x = Inr y"
  by (induction xs arbitrary: ys) (auto simp: res_bind_Inr_iff)

lemma map_res_key:
  assumes "map_res f xs = Inr ys" "\<And>x y. f x = Inr y \<Longrightarrow> g y = h x"
  shows "map g ys = map h xs"
  using assms by (induction xs arbitrary: ys) (auto simp: res_bind_Inr_iff)

lemma map_row_Inr:
  "map_row row = Inr fill \<Longrightarrow>
     0 < fill_quantity fill \<and> 0 < fill_price fill \<and> fill_side fill \<in> set [''BUY'', ''SELL''] \<and>
     row_fill_ts row = Some (fill_ts fill) \<and> row_exec_id row = Some (fill_exec_id fill)"
  unfolding map_row_def Let_def res_bind_Inr_iff require_iff attribution_complete_def need_def
  by (clarsimp split: option.splits)

lemma convert_execution_Inr:
  "convert_execution convert ccy fill = Inr tr \<Longrightarrow>
     tr_account_currency tr = ccy \<and> tr_quantity tr = fill_quantity fill \<and> 0 < tr_price tr \<and>
     tr_side tr = py_lower (fill_side fill) \<and> tr_timestamp tr = fill_ts fill \<and>
     tr_exec_id tr = fill_exec_id fill"
  unfolding convert_execution_def Let_def res_bind_Inr_iff require_iff by clarsimp

lemma load_canonical_rows:
  assumes "load_canonical_executions resolve rows sc = Inr fills"
  obtains rows' where "map_res map_row (sort_key ledger_key rows') = Inr fills"
  using assms unfolding load_canonical_executions_def res_bind_Inr_iff by blast

lemma fills_sorted:
  assumes "map_res map_row (sort_key ledger_key rows) = Inr fills"
  shows "sorted (map (\<lambda>f. (fill_ts f, fill_exec_id f)) fills)"
proof -
  have "map (\<lambda>f. ((0, fill_ts f), (0, fill_exec_id f))) fills = map ledger_key (sort_key ledger_key rows)"
    by (rule map_res_key [OF assms]) (use map_row_Inr in \<open>force simp: ledger_key_def\<close>)
  then have "sorted (map (\<lambda>f. ((0 :: int, fill_ts f), (0 :: int, fill_exec_id f))) fills)"
    by (metis sorted_sort_key)
  then show ?thesis by (simp add: sorted_map less_eq_prod_def)
qed

lemma load_trades_Inr:
  assumes "load_trades svc sc = Inr trs"
  obtains ccy fills rows where "resolve_account_currency svc (sc_user sc) (sc_account sc) = Inr ccy"
    "map_res map_row (sort_key ledger_key rows) = Inr fills"
    "convert_canonical_executions (convert_money svc) ccy fills = Inr trs"
proof -
  obtain db ccy rows fills where "resolve_account_currency svc (sc_user sc) (sc_account sc) = Inr ccy"
    "load_canonical_executions (svc_resolve svc) rows sc = Inr fills"
    "convert_canonical_executions (convert_money svc) ccy fills = Inr trs"
    using assms by (auto simp: load_trades_def res_bind_Inr_iff map_sum_def split: sum.splits)
  then show ?thesis using that load_canonical_rows by metis
qed

lemma account_base_currency_normalized:
  "account_base_currency a = Inr c \<Longrightarrow> normalize_currency c = Inr c"
  by (cases "normalize_currency (case acc_base_ccy a of None \<Rightarrow> [] | Some c \<Rightarrow> c)")
    (auto simp: account_base_currency_def dest: normalize_currency_idem)

lemma resolve_currency_normalized:
  "resolve_account_currency svc user account = Inr ccy \<Longrightarrow> normalize_currency ccy = Inr ccy"
  by (auto simp: resolve_account_currency_def resolve_scoped_account_currency_def res_bind_Inr_iff
      account_base_currency_normalized split: option.splits)

lemma load_trades_shape:
  assumes "load_trades svc sc = Inr trs"
  shows "\<exists>ccy. resolve_account_currency svc (sc_user sc) (sc_account sc) = Inr ccy \<and>
           (\<forall>tr \<in> set trs. tr_account_currency tr = ccy \<and> 0 < tr_quantity tr \<and> 0 < tr_price tr \<and>
              tr_side tr \<in> set [''buy'', ''sell'']) \<and> trade_order trs = trs"
proof -
  obtain ccy fills rows where ccy: "resolve_account_currency svc (sc_user sc) (sc_account sc) = Inr ccy"
    and fills: "map_res map_row (sort_key ledger_key rows) = Inr fills"
    and conv: "convert_canonical_executions (convert_money svc) ccy fills = Inr trs"
    using assms by (rule load_trades_Inr)
  have c: "map_res (convert_execution (convert_money svc) ccy) fills = Inr trs"
    using conv resolve_currency_normalized [OF ccy]
    by (simp add: convert_canonical_executions_def currency_of_def)
  have lower: "py_lower ''BUY'' = ''buy''" "py_lower ''SELL'' = ''sell''" by code_simp+
  have "tr_account_currency tr = ccy \<and> 0 < tr_quantity tr \<and> 0 < tr_price tr \<and>
          tr_side tr \<in> set [''buy'', ''sell'']" if mem: "tr \<in> set trs" for tr
  proof -
    obtain fill where "fill \<in> set fills" and tr: "convert_execution (convert_money svc) ccy fill = Inr tr"
      using map_res_set [OF c mem] by blast
    then obtain row where "map_row row = Inr fill" using map_res_set [OF fills] by blast
    from map_row_Inr [OF this] convert_execution_Inr [OF tr] show ?thesis using lower by auto
  qed
  moreover have "map (\<lambda>t. (tr_timestamp t, tr_exec_id t)) trs = map (\<lambda>f. (fill_ts f, fill_exec_id f)) fills"
    by (rule map_res_key [OF c]) (simp add: convert_execution_Inr)
  then have "trade_order trs = trs"
    using fills_sorted [OF fills] by (simp add: trade_order_def sort_key_id_if_sorted)
  ultimately show ?thesis using ccy by blast
qed

lemma snapshot_values:
  assumes "snapshot_of symbol account ccy trs mark = Inr snap" "\<forall>tr \<in> set trs. 0 < tr_quantity tr"
  shows "snap_quantity snap = (\<Sum>tr\<leftarrow>trs. signed_qty tr) \<and>
         snap_total snap = (\<Sum>tr\<leftarrow>trs. cash_effect tr) + snap_quantity snap * snap_current_price snap \<and>
         snap_total snap = snap_realized snap + snap_unrealized snap \<and>
         snap_currency snap = ccy \<and>
         (mark = None \<longrightarrow> snap_unrealized snap = 0 \<and> \<not> snap_price_available snap)"
proof -
  obtain r p avg lots cs where f: "calculate_fifo_pnl trs = Inr (r, p, avg, lots, cs)"
    using assms(1) by (auto simp: snapshot_of_def res_bind_Inr_iff)
  have "calculate_fifo_pnl trs = Inr (r, p, avg, lots, cs) \<Longrightarrow>
        p = (\<Sum>tr\<leftarrow>trs. signed_qty tr) \<and> r - p * avg = (\<Sum>tr\<leftarrow>trs. cash_effect tr)"
    using fifo_identity assms(2) by blast
  then show ?thesis
    using assms(1) f by (cases mark) (auto simp: snapshot_of_def Let_def)
qed

lemma get_position_pnl_Inr:
  assumes "get_position_pnl svc user symbol account current strategy = Inr snap"
  obtains trs ccy mark where "load_trades svc (position_scope user account symbol strategy) = Inr trs"
    "snapshot_of symbol account ccy trs mark = Inr snap"
    "ccy = (case trs of tr # _ \<Rightarrow> tr_account_currency tr | [] \<Rightarrow> ccy)"
    "trs = [] \<Longrightarrow> resolve_account_currency svc user account = Inr ccy"
  using assms unfolding get_position_pnl_def res_bind_Inr_iff by (force split: list.splits)

section \<open>Properties\<close>

text \<open>
  C30: A reported position is backed by the ledger. When the service reports a position, the
  executions it read are all in the currency of the account, with positive quantity and price, a
  side of buy or sell, and already in time order; the reported quantity is the net quantity of these
  executions; and the reported total profit is the cash they moved plus the position at the reported
  price, whether a market price was available or not. Without a price the position is marked at
  cost, so that the unrealized profit is zero and the snapshot says so.
\<close>

theorem position_backed_by_ledger:
  assumes "get_position_pnl svc user symbol account current strategy = Inr snap"
  shows "\<exists>trs. load_trades svc (position_scope user account symbol strategy) = Inr trs \<and>
     resolve_account_currency svc user account = Inr (snap_currency snap) \<and>
     (\<forall>tr \<in> set trs. tr_account_currency tr = snap_currency snap \<and> 0 < tr_quantity tr \<and>
        0 < tr_price tr \<and> tr_side tr \<in> set [''buy'', ''sell'']) \<and>
     trade_order trs = trs \<and>
     snap_quantity snap = (\<Sum>tr\<leftarrow>trs. signed_qty tr) \<and>
     snap_total snap = (\<Sum>tr\<leftarrow>trs. cash_effect tr) + snap_quantity snap * snap_current_price snap \<and>
     (\<not> snap_price_available snap \<longrightarrow> snap_unrealized snap = 0)"
proof -
  obtain trs ccy mark where trs: "load_trades svc (position_scope user account symbol strategy) = Inr trs"
    and snap: "snapshot_of symbol account ccy trs mark = Inr snap"
    and ccy: "ccy = (case trs of tr # _ \<Rightarrow> tr_account_currency tr | [] \<Rightarrow> ccy)"
    and empty: "trs = [] \<Longrightarrow> resolve_account_currency svc user account = Inr ccy"
    using assms by (rule get_position_pnl_Inr) blast
  obtain ccy' where shape: "resolve_account_currency svc user account = Inr ccy'"
      "\<forall>tr \<in> set trs. tr_account_currency tr = ccy' \<and> 0 < tr_quantity tr \<and> 0 < tr_price tr \<and>
         tr_side tr \<in> set [''buy'', ''sell'']" "trade_order trs = trs"
    using load_trades_shape [OF trs] by (auto simp: position_scope_def)
  have "ccy = ccy'" using ccy empty shape by (cases trs) auto
  moreover have "\<forall>tr \<in> set trs. 0 < tr_quantity tr" using shape(2) by blast
  note v = snapshot_values [OF snap this]
  moreover have "\<not> snap_price_available snap \<longrightarrow> mark = None"
    using snap by (auto simp: snapshot_of_def res_bind_Inr_iff Let_def)
  ultimately show ?thesis using trs shape by auto
qed

definition example_row :: "int \<Rightarrow> string \<Rightarrow> rat \<Rightarrow> rat \<Rightarrow> exec_row" where
  "example_row i side q p =
     \<lparr>row_exec_id = Some i, row_order_id = Some i, row_instrument_id = Some 7, row_fill_ts = Some i,
      row_quantity = Some (Fin q), row_price = Some (Fin p), row_fee_currency = Some ''usd'',
      row_fee_amount = Some (Fin 1), row_venue = Some ''venue'', row_trade_id = Some ''t'',
      row_account_id = Some 1, row_intent_account_id = Some 1, row_order_broker_id = Some 2,
      row_settlement_currency = Some ''USD'', row_instrument_settlement_currency = Some ''USD'',
      row_user_id = Some ''u'', row_strategy_id = Some ''s'', row_canonical_signal_id = Some 5,
      row_side = Some side, row_execution_mode = Some ''spot'', row_broker_environment = Some ''paper'',
      row_order_method = Some ''SPOT'', row_order_payload = PDict [], row_account_broker_id = Some 2,
      row_account_environment = Some ''paper'', row_signal_strategy_id = Some ''s'',
      row_symbol = Some ''BTC'', row_broker = Some ''paper''\<rparr>"

definition example_service :: pnl_service where
  "example_service =
     \<lparr>svc_db = Some \<lparr>db_rows = Inr [example_row 2 ''sell'' 1 120, example_row 1 ''Buy'' 3 100],
        db_accounts = [\<lparr>acc_account_id = 1, acc_user_id = ''u'', acc_broker = True,
          acc_status = ''connected'', acc_environment = ''paper'', acc_base_ccy = Some ''USD''\<rparr>]\<rparr>,
      svc_resolve = (\<lambda>_. Inr (Some 7)), svc_convert = None, svc_quote = (\<lambda>_ _ _. None), svc_now = 9\<rparr>"

theorem position_backed_by_ledger_witness:
  "\<exists>snap. get_position_pnl example_service ''u'' ''BTC'' 1 (Some 110) None = Inr snap \<and>
     snap_total snap = 38 \<and> snap_currency snap = ''USD'' \<and>
     (\<exists>trs. load_trades example_service (position_scope ''u'' 1 ''BTC'' None) = Inr trs \<and>
        38 = (\<Sum>tr\<leftarrow>trs. cash_effect tr) + snap_quantity snap * snap_current_price snap)"
proof -
  have "(case get_position_pnl example_service ''u'' ''BTC'' 1 (Some 110) None of
           Inr snap \<Rightarrow> snap_total snap = 38 \<and> snap_currency snap = ''USD'' | Inl e \<Rightarrow> False)"
    by code_simp
  then obtain snap where snap: "get_position_pnl example_service ''u'' ''BTC'' 1 (Some 110) None = Inr snap"
    "snap_total snap = 38" "snap_currency snap = ''USD''"
    by (auto split: sum.splits)
  show ?thesis using position_backed_by_ledger [OF snap(1)] snap by auto
qed

end
