(* ===== verification/Canonical_Store.thy ===== *)
theory Canonical_Store
  imports Broker_Base
begin

text \<open>
  The order management ledger of \<open>execution_engine/canonical_execution_store.py\<close>: intents, routed
  orders and append-only executions.

  The database is a record of tables. An operation returns the new database, or an exception with
  which its transaction is rolled back. \<open>create_order\<close> takes two databases, the one its checks read
  and the one its insert meets, because another writer may commit in between; the unique constraints
  of \<open>lib_application/db/models/oms.py\<close> decide the insert. The time of the last update is not kept.
  Orders are single-leg intents; numbers in an intent's payload are kept as numbers, and payloads
  that are equal as dictionaries are taken to list their entries in the same order.
\<close>

section \<open>Tables\<close>

record account_row =
  ac_id :: int
  ac_user :: string
  ac_status :: string
  ac_broker_id :: int
  ac_environment :: string

record broker_row =
  br_id :: int
  br_code :: string

record signal_row =
  sg_id :: int
  sg_strategy :: string
  sg_instr :: int
  sg_external :: string

record instrument_row =
  in_id :: int
  in_settlement :: "string option"

record intent_row =
  oi_id :: int
  oi_user :: string
  oi_account :: int
  oi_strategy :: string
  oi_signal :: int
  oi_key :: "string option"
  oi_side :: string
  oi_mode :: string
  oi_environment :: string
  oi_method :: string
  oi_payload :: pyval
  oi_status :: string

record order_row =
  or_id :: int
  or_intent :: int
  or_broker :: int
  or_account :: int
  or_settlement :: string
  or_client_id :: string
  or_ref :: "string option"
  or_state :: string

record execution_row =
  ex_id :: int
  ex_order :: int
  ex_instr :: int
  ex_ts :: time
  ex_qty :: rat
  ex_price :: rat
  ex_fee_ccy :: string
  ex_fee :: rat
  ex_venue :: string
  ex_trade :: string
  ex_price_id :: pyval
  ex_revision :: pyval
  ex_policy :: pyval

record oms =
  oms_accounts :: "account_row list"
  oms_brokers :: "broker_row list"
  oms_strategies :: "string list"
  oms_signals :: "signal_row list"
  oms_instruments :: "instrument_row list"
  oms_intents :: "intent_row list"
  oms_orders :: "order_row list"
  oms_executions :: "execution_row list"
  oms_next :: int

text \<open>\<open>oms_next\<close> is the next value of the sequences that number intents, orders and executions.\<close>

definition CanonicalOrderIdentityError :: "string \<Rightarrow> py_error" where
  "CanonicalOrderIdentityError msg = CustomError ''CanonicalOrderIdentityError'' msg"

definition CanonicalFillConflictError :: "string \<Rightarrow> py_error" where
  "CanonicalFillConflictError msg = CustomError ''CanonicalFillConflictError'' msg"

definition get_row :: "('r \<Rightarrow> int) \<Rightarrow> 'r list \<Rightarrow> int \<Rightarrow> 'r option" where
  "get_row key rows i = find (\<lambda>r. key r = i) rows"

definition found :: "'e \<Rightarrow> 'r option \<Rightarrow> 'e + 'r" where
  "found e r = (case r of None \<Rightarrow> Inl e | Some x \<Rightarrow> Inr x)"

definition set_order :: "oms \<Rightarrow> order_row \<Rightarrow> oms" where
  "set_order db o' = db\<lparr>oms_orders := update_where (\<lambda>r. or_id r = or_id o') (\<lambda>_. o') (oms_orders db)\<rparr>"

definition set_intent :: "oms \<Rightarrow> intent_row \<Rightarrow> oms" where
  "set_intent db i = db\<lparr>oms_intents := update_where (\<lambda>r. oi_id r = oi_id i) (\<lambda>_. i) (oms_intents db)\<rparr>"

definition has_execution :: "oms \<Rightarrow> int \<Rightarrow> bool" where
  "has_execution db oid \<longleftrightarrow> (\<exists>e \<in> set (oms_executions db). ex_order e = oid)"

section \<open>Values\<close>

definition execution_numeric_max :: rat where
  "execution_numeric_max = 99999999999999999999 / 10 ^ 8"

text \<open>Rounding to eight decimal places, ties away from zero.\<close>

definition quantize8 :: "rat \<Rightarrow> rat" where
  "quantize8 v = (let n = of_int \<lfloor>\<bar>v\<bar> * 10 ^ 8 + 1 / 2\<rfloor> / 10 ^ 8 in if v < 0 then - n else n)"

definition canonical_execution_numeric :: "rat \<Rightarrow> string \<Rightarrow> bool \<Rightarrow> rat res" where
  "canonical_execution_numeric v field positive =
     (let c = quantize8 v in
      if execution_numeric_max < \<bar>c\<bar>
      then Inl (CanonicalFillConflictError (''Canonical fill '' @ field @ '' exceeds NUMERIC(20, 8)''))
      else if positive \<and> c \<le> 0
      then Inl (CanonicalFillConflictError (''Canonical fill requires positive '' @ field))
      else Inr c)"

definition economics_match :: "rat \<Rightarrow> rat \<Rightarrow> bool" where
  "economics_match observed reported \<longleftrightarrow>
     \<bar>observed - reported\<bar> \<le> max (1 / 10 ^ 8) (\<bar>reported\<bar> * (1 / 10 ^ 8))"

definition normalize_product_symbol :: "string \<Rightarrow> string" where
  "normalize_product_symbol s = py_upper (py_strip (filter (\<lambda>c. c \<notin> set ''-/_'') s))"

definition BROKER_ALIASES :: "(string \<times> string) list" where
  "BROKER_ALIASES =
     [(''interactive_brokers'', ''ibkr''), (''interactivebrokers'', ''ibkr''), (''ib'', ''ibkr'')]"

definition normalize_broker_code :: "string \<Rightarrow> string" where
  "normalize_broker_code s =
     (let n = py_lower (py_strip s) in case map_of BROKER_ALIASES n of Some c \<Rightarrow> c | None \<Rightarrow> n)"

definition intent_method :: "string \<Rightarrow> string" where
  "intent_method mode =
     (case map_of [(''spot'', ''SPOT''), (''paper'', ''SPOT''), (''margin'', ''MARGIN''),
                   (''perpetual'', ''PERP''), (''perp'', ''PERP''), (''futures'', ''FUTURES'')]
            (py_lower (py_strip mode)) of
        Some m \<Rightarrow> m | None \<Rightarrow> ''SPOT'')"

fun opt_float :: "rat option \<Rightarrow> pyval" where
  "opt_float None = PNone"
| "opt_float (Some r) = PFloat r"

definition context_payload :: "order_currency_context option \<Rightarrow> pyval" where
  "context_payload c =
     (case c of None \<Rightarrow> PNone
      | Some c \<Rightarrow> PDict
          [(''account_currency'', PStr (account_currency c)),
           (''settlement_currency'', PStr (settlement_currency c)),
           (''account_to_settlement_rate'', PFloat (account_to_settlement_rate c)),
           (''requested_at'', PTime (requested_at c)), (''observed_at'', PTime (observed_at c)),
           (''source'', PStr (fx_source c))])"

definition intent_payload :: "order_intent \<Rightarrow> string \<Rightarrow> string option \<Rightarrow> pydict" where
  "intent_payload i local_id key =
     [(''local_order_id'', PStr local_id), (''broker_code'', PStr (broker_code i)),
      (''symbol'', PStr (symbol i)), (''side'', PStr (side i)), (''quantity'', PFloat (quantity i)),
      (''order_type'', PStr (order_type i)), (''time_in_force'', PStr (time_in_force i)),
      (''limit_price'', opt_float (limit_price i)), (''stop_price'', opt_float (stop_price i)),
      (''metadata'', PDict (metadata i)), (''currency_context'', context_payload (currency_context i))]
     @ (case key of None \<Rightarrow> [] | Some k \<Rightarrow> [(''idempotency_key'', PStr k)])"

definition routed_symbol :: "pyval \<Rightarrow> string res" where
  "routed_symbol payload =
     (case payload of
        PDict d \<Rightarrow>
          (let pick = (\<lambda>m. if truthy (dict_get m ''broker_symbol'') then dict_get m ''broker_symbol''
                           else dict_get d ''symbol'');
               text = (\<lambda>v. let s = py_strip (str_of v) in
                         if s = [] then Inl (CanonicalFillConflictError ''Canonical order has no routed broker symbol'')
                         else Inr s)
           in case dict_get d ''metadata'' of
                PNone \<Rightarrow> text (pick [])
              | PDict m \<Rightarrow> text (pick m)
              | _ \<Rightarrow> Inl (CanonicalFillConflictError ''Canonical order has malformed intent metadata''))
      | _ \<Rightarrow> Inl (CanonicalFillConflictError ''Canonical order has no structured intent payload''))"

definition normalized_idempotency_key :: "string option \<Rightarrow> string option res" where
  "normalized_idempotency_key v =
     (case v of None \<Rightarrow> Inr None
      | Some s \<Rightarrow>
          let n = py_strip s in
          if n = [] \<or> 64 < length n
          then Inl (CanonicalOrderIdentityError ''Canonical order idempotency_key must contain 1-64 characters'')
          else Inr (Some n))"

definition identity_payload :: "pyval \<Rightarrow> pydict" where
  "identity_payload p =
     (case p of PDict d \<Rightarrow> dict_pop (dict_pop d ''local_order_id'') ''pre_submission_abort'' | _ \<Rightarrow> [])"

section \<open>Accounts and instruments\<close>

definition validated_account_and_broker ::
  "oms \<Rightarrow> string \<Rightarrow> int \<Rightarrow> string \<Rightarrow> string option \<Rightarrow> broker_row res" where
  "validated_account_and_broker db user account broker environment =
     res_bind (found (CanonicalOrderIdentityError ''Linked broker account does not exist'')
                 (get_row ac_id (oms_accounts db) account)) (\<lambda>a.
     res_bind (require (ac_user a = user)
                 (CanonicalOrderIdentityError ''Linked broker account is not owned by user'')) (\<lambda>_.
     res_bind (require (ac_status a = ''connected'')
                 (CanonicalOrderIdentityError ''Linked broker account is not connected'')) (\<lambda>_.
     res_bind (found (CanonicalOrderIdentityError ''Unknown broker code'')
                 (find (\<lambda>b. py_lower (br_code b) = py_lower (py_strip broker)) (oms_brokers db))) (\<lambda>b.
     res_bind (require (ac_broker_id a = br_id b)
                 (CanonicalOrderIdentityError ''Linked broker account does not belong to broker'')) (\<lambda>_.
     let env = py_lower (py_strip (case environment of None \<Rightarrow> [] | Some e \<Rightarrow> e)) in
     res_bind (require (env \<in> set [''paper'', ''live''])
                 (CanonicalOrderIdentityError ''Canonical order persistence requires broker_environment'')) (\<lambda>_.
     res_bind (require (py_lower (ac_environment a) = env)
                 (CanonicalOrderIdentityError ''Linked broker account environment does not match route'')) (\<lambda>_.
     Inr b)))))))"

definition settlement_of :: "instrument_row \<Rightarrow> string" where
  "settlement_of i = py_upper (py_strip (case in_settlement i of None \<Rightarrow> [] | Some s \<Rightarrow> s))"

definition resolve_settlement_currency :: "oms \<Rightarrow> int option \<Rightarrow> string res" where
  "resolve_settlement_currency db instr =
     (case instr of None \<Rightarrow> Inl (CanonicalOrderIdentityError ''Canonical execution requires a persisted instrument_id'')
      | Some i \<Rightarrow>
          res_bind (require (0 < i)
            (CanonicalOrderIdentityError ''Canonical execution requires a persisted instrument_id'')) (\<lambda>_.
          res_bind (found (CanonicalOrderIdentityError ''Instrument does not exist'')
            (get_row in_id (oms_instruments db) i)) (\<lambda>row.
          res_bind (require (py_isalnum (settlement_of row))
            (CanonicalOrderIdentityError ''Instrument has invalid settlement currency'')) (\<lambda>_.
          Inr (settlement_of row)))))"

section \<open>Creating orders\<close>

record order_ref =
  ref_intent :: int
  ref_order :: int
  ref_settlement :: string
  ref_local_id :: string
  ref_state :: string
  ref_broker_ref :: "string option"
  ref_reused :: bool

text \<open>What a request has been normalised to before the database is touched.\<close>

record order_request =
  rq_local_id :: string
  rq_user :: string
  rq_account :: int
  rq_broker :: string
  rq_mode :: string
  rq_strategy :: string
  rq_signal :: int
  rq_instr :: int
  rq_intent :: order_intent
  rq_settlement :: string
  rq_key :: "string option"
  rq_environment :: "string option"

definition normalize_request :: "order_request \<Rightarrow> order_request res" where
  "normalize_request q =
     res_bind (require (0 < rq_account q)
       (CanonicalOrderIdentityError ''Canonical order persistence requires an explicit linked broker account_id'')) (\<lambda>_.
     let b = normalize_broker_code (rq_broker q) in
     res_bind (require (b \<noteq> [] \<and> normalize_broker_code (broker_code (rq_intent q)) = b)
       (CanonicalOrderIdentityError ''Canonical order route broker does not match intent broker'')) (\<lambda>_.
     let settlement = py_upper (py_strip (rq_settlement q)) in
     res_bind (require (py_isalnum settlement)
       (CanonicalOrderIdentityError ''Canonical order persistence requires settlement_currency'')) (\<lambda>_.
     res_bind (require (py_strip (rq_strategy q) \<noteq> [])
       (CanonicalOrderIdentityError ''Canonical order persistence requires strategy_id'')) (\<lambda>_.
     res_bind (require (py_upper (py_strip (side (rq_intent q))) \<in> set [''BUY'', ''SELL''])
       (CanonicalOrderIdentityError ''Canonical order persistence received invalid side'')) (\<lambda>_.
     res_bind (require (py_strip (rq_mode q) \<noteq> [])
       (CanonicalOrderIdentityError ''Canonical order persistence requires execution_mode'')) (\<lambda>_.
     res_bind (normalized_idempotency_key (rq_key q)) (\<lambda>key.
     res_bind (require (0 < rq_signal q)
       (CanonicalOrderIdentityError ''Canonical order persistence requires a positive canonical_signal_id'')) (\<lambda>_.
     res_bind (require (0 < rq_instr q)
       (CanonicalOrderIdentityError ''Canonical order persistence requires a positive instrument_id'')) (\<lambda>_.
     Inr (q\<lparr>rq_broker := b, rq_settlement := settlement, rq_strategy := py_strip (rq_strategy q),
            rq_key := key\<rparr>))))))))))"

definition request_side :: "order_request \<Rightarrow> string" where
  "request_side q = py_upper (py_strip (side (rq_intent q)))"

definition request_environment :: "order_request \<Rightarrow> string" where
  "request_environment q = py_lower (py_strip (case rq_environment q of None \<Rightarrow> [] | Some e \<Rightarrow> e))"

definition request_mode :: "order_request \<Rightarrow> string" where
  "request_mode q = py_lower (py_strip (rq_mode q))"

definition request_payload :: "order_request \<Rightarrow> pydict" where
  "request_payload q = intent_payload (rq_intent q) (rq_local_id q) (rq_key q)"

definition check_references :: "oms \<Rightarrow> order_request \<Rightarrow> broker_row res" where
  "check_references db q =
     res_bind (validated_account_and_broker db (rq_user q) (rq_account q) (rq_broker q) (rq_environment q)) (\<lambda>b.
     res_bind (require (rq_strategy q \<in> set (oms_strategies db))
       (CanonicalOrderIdentityError ''Canonical order strategy does not exist'')) (\<lambda>_.
     res_bind (found (CanonicalOrderIdentityError ''Canonical signal does not exist'')
       (get_row sg_id (oms_signals db) (rq_signal q))) (\<lambda>sg.
     res_bind (require (sg_strategy sg = rq_strategy q)
       (CanonicalOrderIdentityError ''Canonical signal belongs to another strategy'')) (\<lambda>_.
     res_bind (require (sg_instr sg = rq_instr q)
       (CanonicalOrderIdentityError ''Canonical signal belongs to another instrument'')) (\<lambda>_.
     res_bind (found (CanonicalOrderIdentityError ''Canonical order instrument does not exist'')
       (get_row in_id (oms_instruments db) (rq_instr q))) (\<lambda>row.
     res_bind (require (settlement_of row = rq_settlement q)
       (CanonicalOrderIdentityError ''Canonical order instrument settles in another currency'')) (\<lambda>_.
     Inr b)))))))"

definition same_request :: "intent_row \<Rightarrow> order_row \<Rightarrow> order_request \<Rightarrow> int \<Rightarrow> bool" where
  "same_request i row q broker \<longleftrightarrow>
     oi_account i = rq_account q \<and> oi_strategy i = rq_strategy q \<and> oi_signal i = rq_signal q \<and>
     oi_side i = request_side q \<and> oi_mode i = request_mode q \<and>
     oi_environment i = request_environment q \<and> oi_method i = intent_method (rq_mode q) \<and>
     or_account row = rq_account q \<and> or_broker row = broker \<and>
     py_upper (py_strip (or_settlement row)) = rq_settlement q \<and>
     identity_payload (oi_payload i) = identity_payload (PDict (request_payload q))"

definition aborted :: "oms \<Rightarrow> intent_row \<Rightarrow> order_row \<Rightarrow> bool" where
  "aborted db i row \<longleftrightarrow>
     oi_status i = ''rejected'' \<and> or_state row = ''rejected'' \<and>
     (case oi_payload i of
        PDict d \<Rightarrow> (case dict_get d ''pre_submission_abort'' of PDict _ \<Rightarrow> True | _ \<Rightarrow> False)
      | _ \<Rightarrow> False) \<and>
     (or_ref row = None \<or> or_ref row = Some []) \<and> \<not> has_execution db (or_id row)"

definition existing_order_ref ::
  "oms \<Rightarrow> intent_row \<Rightarrow> order_request \<Rightarrow> int \<Rightarrow> (order_ref \<times> oms) res" where
  "existing_order_ref db i q broker =
     res_bind (found (CanonicalOrderIdentityError ''Canonical intent has no routed order; idempotent replay is unsafe'')
                 (find (\<lambda>row. or_intent row = oi_id i) (oms_orders db))) (\<lambda>row.
     res_bind (require (same_request i row q broker)
       (CanonicalOrderIdentityError ''Canonical order idempotency collision'')) (\<lambda>_.
     let d = (case oi_payload i of PDict d \<Rightarrow> d | _ \<Rightarrow> []);
         local_id = py_strip (str_of (dict_get d ''local_order_id'')) in
     res_bind (require (local_id \<noteq> [])
       (CanonicalOrderIdentityError ''Canonical intent has no local recovery identity'')) (\<lambda>_.
     if aborted db i row then
       Inr (\<lparr>ref_intent = oi_id i, ref_order = or_id row, ref_settlement = rq_settlement q,
             ref_local_id = rq_local_id q, ref_state = ''new'', ref_broker_ref = None,
             ref_reused = False\<rparr>,
            set_order
              (set_intent db (i\<lparr>oi_payload := PDict (dict_set (request_payload q) ''local_order_id'' (PStr (rq_local_id q))),
                                oi_status := ''routed''\<rparr>))
              (row\<lparr>or_state := ''new''\<rparr>))
     else
       Inr (\<lparr>ref_intent = oi_id i, ref_order = or_id row, ref_settlement = rq_settlement q,
             ref_local_id = local_id, ref_state = or_state row, ref_broker_ref = or_ref row,
             ref_reused = True\<rparr>, db))))"

definition intent_with_key :: "oms \<Rightarrow> int \<Rightarrow> string \<Rightarrow> intent_row option" where
  "intent_with_key db account key =
     find (\<lambda>i. oi_account i = account \<and> oi_key i = Some key) (oms_intents db)"

definition new_intent :: "oms \<Rightarrow> order_request \<Rightarrow> intent_row" where
  "new_intent db q =
     \<lparr>oi_id = oms_next db, oi_user = rq_user q, oi_account = rq_account q, oi_strategy = rq_strategy q,
      oi_signal = rq_signal q, oi_key = rq_key q, oi_side = request_side q, oi_mode = request_mode q,
      oi_environment = request_environment q, oi_method = intent_method (rq_mode q),
      oi_payload = PDict (request_payload q), oi_status = ''routed''\<rparr>"

definition new_order :: "oms \<Rightarrow> order_request \<Rightarrow> int \<Rightarrow> string \<Rightarrow> order_row" where
  "new_order db q broker client_id =
     \<lparr>or_id = oms_next db + 1, or_intent = oms_next db, or_broker = broker, or_account = rq_account q,
      or_settlement = rq_settlement q, or_client_id = client_id, or_ref = None, or_state = ''new''\<rparr>"

text \<open>The two inserts; a violated unique constraint is an \<open>IntegrityError\<close>.\<close>

definition insert_order :: "oms \<Rightarrow> order_request \<Rightarrow> int \<Rightarrow> string \<Rightarrow> (order_ref \<times> oms) option" where
  "insert_order db q broker client_id =
     (if (case rq_key q of None \<Rightarrow> False | Some k \<Rightarrow> intent_with_key db (rq_account q) k \<noteq> None) \<or>
         (\<exists>row \<in> set (oms_orders db). or_account row = rq_account q \<and> or_client_id row = client_id)
      then None
      else Some (\<lparr>ref_intent = oms_next db, ref_order = oms_next db + 1,
                  ref_settlement = rq_settlement q, ref_local_id = rq_local_id q, ref_state = ''new'',
                  ref_broker_ref = None, ref_reused = False\<rparr>,
                 db\<lparr>oms_intents := oms_intents db @ [new_intent db q],
                    oms_orders := oms_orders db @ [new_order db q broker client_id],
                    oms_next := oms_next db + 2\<rparr>))"

definition request_client_id :: "order_request \<Rightarrow> string" where
  "request_client_id q =
     (let c = client_order_id_for (metadata (rq_intent q))
      in if c \<noteq> [] then c else py_strip (rq_local_id q))"

definition create_order :: "oms \<Rightarrow> oms \<Rightarrow> order_request \<Rightarrow> (order_ref \<times> oms) res" where
  "create_order seen db raw =
     res_bind (normalize_request raw) (\<lambda>q.
     res_bind (check_references seen q) (\<lambda>b.
     res_bind (require (request_client_id q \<noteq> [])
       (CanonicalOrderIdentityError ''Canonical order persistence requires client_order_id'')) (\<lambda>_.
     case (case rq_key q of None \<Rightarrow> None | Some k \<Rightarrow> intent_with_key seen (rq_account q) k) of
       Some i \<Rightarrow> existing_order_ref seen i q (br_id b)
     | None \<Rightarrow>
         (case insert_order db q (br_id b) (request_client_id q) of
            Some r \<Rightarrow> Inr r
          | None \<Rightarrow>
              (case rq_key q of
                 None \<Rightarrow> Inl IntegrityError
               | Some k \<Rightarrow>
                   (case intent_with_key db (rq_account q) k of
                      None \<Rightarrow> Inl IntegrityError
                    | Some i \<Rightarrow> existing_order_ref db i q (br_id b)))))))"

section \<open>Submission outcomes\<close>

definition abort_pre_submission :: "oms \<Rightarrow> int \<Rightarrow> string \<Rightarrow> string \<Rightarrow> time \<Rightarrow> oms res" where
  "abort_pre_submission db oid reason code now =
     res_bind (require (py_strip reason \<noteq> [] \<and> py_strip code \<noteq> [])
       (CanonicalOrderIdentityError ''Pre-submission abort requires a reason and code'')) (\<lambda>_.
     res_bind (found (CanonicalOrderIdentityError ''Canonical order does not exist'')
       (get_row or_id (oms_orders db) oid)) (\<lambda>row.
     res_bind (found (CanonicalOrderIdentityError ''Canonical order has no persisted order intent'')
       (get_row oi_id (oms_intents db) (or_intent row))) (\<lambda>i.
     res_bind (require ((or_ref row = None \<or> or_ref row = Some []) \<and> \<not> has_execution db oid \<and>
                        or_state row = ''new'')
       (CanonicalOrderIdentityError ''Canonical order cannot be aborted before submission after broker activity'')) (\<lambda>_.
     let d = (case oi_payload i of PDict d \<Rightarrow> d | _ \<Rightarrow> []);
         note = PDict [(''code'', PStr (py_strip code)), (''reason'', PStr (py_strip reason)),
                       (''recorded_at'', PTime now)]
     in Inr (set_order
               (set_intent db (i\<lparr>oi_payload := PDict (dict_set d ''pre_submission_abort'' note),
                                 oi_status := ''rejected''\<rparr>))
               (row\<lparr>or_state := ''rejected''\<rparr>))))))"

definition mark_submission_unknown :: "oms \<Rightarrow> int \<Rightarrow> string \<Rightarrow> time \<Rightarrow> oms res" where
  "mark_submission_unknown db oid reason now =
     res_bind (require (py_strip reason \<noteq> [])
       (CanonicalOrderIdentityError ''Unknown submission state requires a reason'')) (\<lambda>_.
     res_bind (found (CanonicalOrderIdentityError ''Canonical order does not exist'')
       (get_row or_id (oms_orders db) oid)) (\<lambda>row.
     res_bind (found (CanonicalOrderIdentityError ''Canonical order has no persisted order intent'')
       (get_row oi_id (oms_intents db) (or_intent row))) (\<lambda>i.
     res_bind (require (or_state row \<in> set [''new'', ''submission_unknown''])
       (CanonicalOrderIdentityError ''Canonical order cannot become submission_unknown'')) (\<lambda>_.
     let d = (case oi_payload i of PDict d \<Rightarrow> d | _ \<Rightarrow> []);
         note = PDict [(''reason'', PStr (py_strip reason)), (''recorded_at'', PTime now)]
     in Inr (set_order
               (set_intent db (i\<lparr>oi_payload := PDict (dict_set d ''submission_unknown'' note)\<rparr>))
               (row\<lparr>or_state := ''submission_unknown''\<rparr>))))))"

section \<open>Applying a broker result\<close>

fun order_state_of :: "order_status \<Rightarrow> string" where
  "order_state_of OS_PENDING = ''new''"
| "order_state_of OS_SUBMITTED = ''new''"
| "order_state_of OS_WORKING = ''working''"
| "order_state_of OS_PARTIALLY_FILLED = ''partially_filled''"
| "order_state_of OS_FILLED = ''filled''"
| "order_state_of OS_CANCELLED = ''canceled''"
| "order_state_of OS_REJECTED = ''rejected''"
| "order_state_of OS_EXPIRED = ''canceled''"

text \<open>An exact fill with the provenance its \<open>raw_response\<close> carries; an absent response is empty.\<close>

type_synonym exact_fill = "broker_fill \<times> pydict"

definition conflict :: "string \<Rightarrow> py_error" where
  "conflict msg = CanonicalFillConflictError msg"

definition target_state :: "order_row \<Rightarrow> broker_order_result \<Rightarrow> exact_fill list \<Rightarrow> bool \<Rightarrow> string res" where
  "target_state row result fills persisted =
     (let t = order_state_of (bor_status result) in
      res_bind (if or_state row = ''filled'' \<and> t \<noteq> ''filled''
                then (if fills = [] then Inl (conflict ''Canonical order is already filled and cannot transition'')
                      else Inr ''filled'')
                else Inr t) (\<lambda>t'.
      res_bind (require (\<not> (persisted \<and> fills = [] \<and> t' \<notin> set [''partially_filled'', ''filled'']))
        (conflict ''Canonical order has durable executions and cannot transition without exact fills'')) (\<lambda>_.
      Inr t')))"

definition bind_reference :: "order_row \<Rightarrow> broker_order_result \<Rightarrow> order_row res" where
  "bind_reference row result =
     (case bor_order_id result of
        None \<Rightarrow> Inr row
      | Some ref \<Rightarrow>
          if ref = [] then Inr row
          else (case or_ref row of
                  Some old \<Rightarrow>
                    (if old \<noteq> [] \<and> old \<noteq> ref then Inl (conflict ''Canonical order changed broker reference'')
                     else Inr (row\<lparr>or_ref := Some ref\<rparr>))
                | None \<Rightarrow> Inr (row\<lparr>or_ref := Some ref\<rparr>)))"

definition check_totals :: "broker_order_result \<Rightarrow> exact_fill list \<Rightarrow> unit res" where
  "check_totals result fills =
     (if has_fill result \<and> fills = []
      then Inl (conflict ''Broker reported filled quantity without any exact fills'')
      else if fills \<noteq> [] \<and> has_fill result then
        let quantity_sum = (\<Sum>f\<leftarrow>fills. bf_quantity (fst f));
            weighted = (\<Sum>f\<leftarrow>fills. bf_quantity (fst f) * bf_price (fst f)) / quantity_sum in
        res_bind (require (economics_match quantity_sum (bor_filled_quantity result))
          (conflict ''refusing an incomplete fill set'')) (\<lambda>_.
        require (economics_match weighted (average_price result))
          (conflict ''refusing contradictory economics''))
      else Inr ())"

definition fill_instrument :: "oms \<Rightarrow> order_row \<Rightarrow> int option \<Rightarrow> (int \<times> string \<times> string) res" where
  "fill_instrument db row instr =
     (case instr of None \<Rightarrow> Inl (conflict ''Canonical fill requires an instrument_id'')
      | Some n \<Rightarrow>
     res_bind (require (0 < n) (conflict ''Canonical fill requires an instrument_id'')) (\<lambda>_.
     res_bind (found (conflict ''Canonical order has no persisted order intent'')
       (get_row oi_id (oms_intents db) (or_intent row))) (\<lambda>i.
     res_bind (routed_symbol (oi_payload i)) (\<lambda>sy.
     res_bind (found (conflict ''Canonical order references missing signal'')
       (get_row sg_id (oms_signals db) (oi_signal i))) (\<lambda>sg.
     res_bind (require (sg_instr sg = n) (conflict ''Canonical fill instrument does not match signal'')) (\<lambda>_.
     res_bind (found (conflict ''Canonical fill instrument does not exist'')
       (get_row in_id (oms_instruments db) n)) (\<lambda>ins.
     res_bind (require (settlement_of ins = py_upper (py_strip (or_settlement row)))
       (conflict ''Canonical fill instrument settles in another currency'')) (\<lambda>_.
     Inr (n, py_lower (py_strip (oi_side i)), sy)))))))))"

definition provenance_ok :: "pydict \<Rightarrow> bool" where
  "provenance_ok p \<longleftrightarrow>
     dict_get p ''source_price_id'' = PNone \<and> dict_get p ''source_content_revision'' = PNone \<and>
       dict_get p ''trigger_policy_version'' = PNone \<or>
     positive_int (dict_get p ''source_price_id'') \<and>
     positive_int (dict_get p ''source_content_revision'') \<and>
     py_strip (str_of (dict_get p ''trigger_policy_version'')) \<noteq> []"

record fill_state =
  fs_ref :: "string option"
  fs_seen :: "string list"
  fs_inserted :: "int list"
  fs_executions :: "execution_row list"
  fs_next :: int

definition execution_of ::
  "int \<Rightarrow> int \<Rightarrow> int \<Rightarrow> rat \<Rightarrow> rat \<Rightarrow> rat \<Rightarrow> exact_fill \<Rightarrow> execution_row" where
  "execution_of eid oid instr q p c f =
     \<lparr>ex_id = eid, ex_order = oid, ex_instr = instr, ex_ts = bf_timestamp (fst f), ex_qty = q,
      ex_price = p, ex_fee_ccy = bf_commission_currency (fst f), ex_fee = c,
      ex_venue = bf_venue (fst f), ex_trade = bf_trade_id (fst f),
      ex_price_id = dict_get (snd f) ''source_price_id'',
      ex_revision = dict_get (snd f) ''source_content_revision'',
      ex_policy = dict_get (snd f) ''trigger_policy_version''\<rparr>"

definition same_execution :: "execution_row \<Rightarrow> execution_row \<Rightarrow> bool" where
  "same_execution old new \<longleftrightarrow>
     ex_instr old = ex_instr new \<and> ex_ts old = ex_ts new \<and> ex_qty old = ex_qty new \<and>
     ex_price old = ex_price new \<and> py_upper (ex_fee_ccy old) = ex_fee_ccy new \<and>
     ex_fee old = ex_fee new \<and> ex_venue old = ex_venue new \<and> ex_price_id old = ex_price_id new \<and>
     ex_revision old = ex_revision new \<and> ex_policy old = ex_policy new"

definition check_fill :: "string \<Rightarrow> string \<Rightarrow> fill_state \<Rightarrow> exact_fill \<Rightarrow> fill_state res" where
  "check_fill expected_side expected_symbol st f =
     res_bind (require (provenance_ok (snd f)) (conflict ''incomplete source-bar provenance'')) (\<lambda>_.
     res_bind (require (bf_side (fst f) = expected_side) (conflict ''Broker fill side does not match'')) (\<lambda>_.
     res_bind (require (normalize_product_symbol (bf_symbol (fst f)) = normalize_product_symbol expected_symbol)
       (conflict ''Broker fill symbol does not match'')) (\<lambda>_.
     res_bind (require (bf_trade_id (fst f) \<notin> set (fs_seen st))
       (conflict ''Broker returned duplicate trade ID'')) (\<lambda>_.
     let st1 = st\<lparr>fs_seen := bf_trade_id (fst f) # fs_seen st\<rparr>;
         ref = py_strip (case fs_ref st of None \<Rightarrow> [] | Some r \<Rightarrow> r);
         st2 = (if ref = [] then st1\<lparr>fs_ref := Some (bf_order_id (fst f))\<rparr> else st1);
         ref' = (if ref = [] then bf_order_id (fst f) else ref)
     in res_bind (require (bf_order_id (fst f) = ref') (conflict ''Broker fill belongs to another order'')) (\<lambda>_.
        Inr st2)))))"

definition apply_fill :: "int \<Rightarrow> int \<Rightarrow> string \<Rightarrow> string \<Rightarrow> fill_state \<Rightarrow> exact_fill \<Rightarrow> fill_state res" where
  "apply_fill oid instr expected_side expected_symbol st0 f =
     res_bind (check_fill expected_side expected_symbol st0 f) (\<lambda>st.
     res_bind (canonical_execution_numeric (bf_quantity (fst f)) ''quantity'' True) (\<lambda>q.
     res_bind (canonical_execution_numeric (bf_price (fst f)) ''price'' True) (\<lambda>p.
     res_bind (canonical_execution_numeric (bf_commission (fst f)) ''commission'' False) (\<lambda>c.
     let new = execution_of (fs_next st) oid instr q p c f in
     case find (\<lambda>e. ex_order e = oid \<and> ex_trade e = bf_trade_id (fst f)) (fs_executions st) of
       Some old \<Rightarrow>
         (if same_execution old new then Inr st
          else Inl (conflict ''Broker fill changed after persistence''))
     | None \<Rightarrow>
         Inr (st\<lparr>fs_inserted := fs_inserted st @ [fs_next st], fs_executions := fs_executions st @ [new],
                 fs_next := fs_next st + 1\<rparr>)))))"

fun apply_fills :: "int \<Rightarrow> int \<Rightarrow> string \<Rightarrow> string \<Rightarrow> fill_state \<Rightarrow> exact_fill list \<Rightarrow> fill_state res" where
  "apply_fills oid instr sd sy st [] = Inr st"
| "apply_fills oid instr sd sy st (f # fs) =
     res_bind (apply_fill oid instr sd sy st f) (\<lambda>st'. apply_fills oid instr sd sy st' fs)"

definition start_fills :: "oms \<Rightarrow> order_row \<Rightarrow> fill_state" where
  "start_fills db row = \<lparr>fs_ref = or_ref row, fs_seen = [], fs_inserted = [],
                         fs_executions = oms_executions db, fs_next = oms_next db\<rparr>"

definition apply_broker_result ::
  "oms \<Rightarrow> int \<Rightarrow> broker_order_result \<Rightarrow> exact_fill list \<Rightarrow> int option \<Rightarrow> (int list \<times> oms) res" where
  "apply_broker_result db oid result fills instr =
     res_bind (found (conflict ''Canonical order does not exist'') (get_row or_id (oms_orders db) oid)) (\<lambda>row.
     res_bind (target_state row result fills (has_execution db oid)) (\<lambda>t.
     res_bind (bind_reference (row\<lparr>or_state := t\<rparr>) result) (\<lambda>row'.
     res_bind (check_totals result fills) (\<lambda>_.
     if fills = [] then Inr ([], set_order db row')
     else
       res_bind (fill_instrument db row' instr) (\<lambda>(n, sd, sy).
       res_bind (apply_fills oid n sd sy (start_fills db row') fills) (\<lambda>st.
       Inr (fs_inserted st,
            (set_order db (row'\<lparr>or_ref := fs_ref st\<rparr>))
              \<lparr>oms_executions := fs_executions st, oms_next := fs_next st\<rparr>)))))))"

section \<open>Reading back\<close>

fun durable_order_status :: "string \<Rightarrow> order_status option" where
  "durable_order_status s =
     map_of [(''new'', OS_PENDING), (''submission_unknown'', OS_PENDING), (''working'', OS_WORKING),
             (''partially_filled'', OS_PARTIALLY_FILLED), (''filled'', OS_FILLED),
             (''canceled'', OS_CANCELLED), (''rejected'', OS_REJECTED)] s"

definition durable_fill :: "string \<Rightarrow> string \<Rightarrow> string \<Rightarrow> execution_row \<Rightarrow> exact_fill res" where
  "durable_fill ref sy sd e =
     (let vs = [ex_price_id e, ex_revision e, ex_policy e];
          some = (\<exists>v \<in> set vs. v \<noteq> PNone) in
      res_bind (require (\<not> (some \<and> (\<exists>v \<in> set vs. v = PNone)))
        (conflict ''Canonical execution has incomplete source provenance'')) (\<lambda>_.
      res_bind (broker_fill_init (ex_trade e) ref sy sd (Fin (ex_qty e)) (Fin (ex_price e)) (Fin (ex_fee e))
                  (ex_fee_ccy e) (ex_ts e) (ex_venue e)) (\<lambda>f.
      Inr (f, if some then [(''source_price_id'', ex_price_id e),
                            (''source_content_revision'', ex_revision e),
                            (''trigger_policy_version'', ex_policy e)] else []))))"

fun durable_fills :: "string \<Rightarrow> string \<Rightarrow> string \<Rightarrow> execution_row list \<Rightarrow> exact_fill list res" where
  "durable_fills ref sy sd [] = Inr []"
| "durable_fills ref sy sd (e # es) =
     res_bind (durable_fill ref sy sd e) (\<lambda>f. res_bind (durable_fills ref sy sd es) (\<lambda>fs. Inr (f # fs)))"

definition read_durable_result :: "oms \<Rightarrow> int \<Rightarrow> (broker_order_result \<times> exact_fill list) option res" where
  "read_durable_result db oid =
     (case get_row or_id (oms_orders db) oid of
        None \<Rightarrow> Inr None
      | Some row \<Rightarrow>
          res_bind (found (conflict ''Canonical order has no persisted order intent'')
            (get_row oi_id (oms_intents db) (or_intent row))) (\<lambda>i.
          res_bind (found (conflict ''Canonical order has unknown state'')
            (durable_order_status (or_state row))) (\<lambda>status.
          let rows = sort_key (\<lambda>e. (ex_ts e, ex_id e)) (filter (\<lambda>e. ex_order e = oid) (oms_executions db));
              ref = py_strip (case or_ref row of None \<Rightarrow> [] | Some r \<Rightarrow> r) in
          res_bind (require (\<not> (status \<in> {OS_PARTIALLY_FILLED, OS_FILLED} \<and> rows = []))
            (conflict ''Canonical order is filled without exact executions'')) (\<lambda>_.
          res_bind (require (\<not> (rows \<noteq> [] \<and> ref = []))
            (conflict ''Canonical order has executions without a broker reference'')) (\<lambda>_.
          res_bind (routed_symbol (oi_payload i)) (\<lambda>sy.
          res_bind (durable_fills ref sy (py_lower (py_strip (oi_side i))) rows) (\<lambda>fills.
          let q = (\<Sum>f\<leftarrow>fills. bf_quantity (fst f));
              avg = (if q \<noteq> 0 then (\<Sum>f\<leftarrow>fills. bf_quantity (fst f) * bf_price (fst f)) / q else 0);
              ccys = remdups (map (\<lambda>f. bf_commission_currency (fst f)) fills);
              ccy = (case ccys of [c] \<Rightarrow> Some c | _ \<Rightarrow> None)
          in Inr (Some
               (\<lparr>bor_success = (status \<noteq> OS_REJECTED), bor_order_id = (if ref = [] then None else Some ref),
                 bor_status = status, bor_filled_quantity = q,
                 bor_filled_price = (if q \<noteq> 0 then Some avg else None),
                 bor_commission = (if ccy \<noteq> None then (\<Sum>f\<leftarrow>fills. bf_commission (fst f)) else 0),
                 bor_commission_currency = ccy,
                 bor_error_message = (if status = OS_REJECTED
                   then Some ''Canonical order was rejected before or by broker'' else None),
                 bor_error_code = None\<rparr>, fills)))))))))"

end
