(* ===== verification/Pending_Orders.thy ===== *)
theory Pending_Orders
  imports Canonical_Store
begin

text \<open>
  The durable rows of orders that wait for the broker or the market,
  \<open>execution_engine/pending_orders.py\<close>. A row is found by its own identity or by the broker's; the
  repository without a session factory raises, a failing database raises and changes nothing, so the
  model is of a configured repository whose transactions commit.

  Texts of timestamps are clock values, as in the order metadata elsewhere.
\<close>

section \<open>Rows\<close>

record pending_order =
  pd_order_id :: string
  pd_client_order_id :: string
  pd_broker_order_id :: "string option"
  pd_user_id :: string
  pd_signal_id :: string
  pd_instr_id :: "int option"
  pd_symbol :: string
  pd_settlement_currency :: string
  pd_side :: string
  pd_order_type :: string
  pd_quantity :: rat
  pd_limit_price :: "rat option"
  pd_trigger_price :: "rat option"
  pd_purpose :: "string option"
  pd_time_in_force :: string
  pd_reduce_only :: bool
  pd_parent_order_id :: "string option"
  pd_oco_group_id :: "string option"
  pd_cumulative_filled :: rat
  pd_filled_quantity :: rat
  pd_filled_price :: "rat option"
  pd_commission :: rat
  pd_commission_currency :: "string option"
  pd_market_data_source :: "string option"
  pd_market_data_timeframe :: "string option"
  pd_last_market_data_ts :: "time option"
  pd_last_market_data_revision :: "int option"
  pd_trigger_policy :: string
  pd_execution_mode :: string
  pd_broker :: string
  pd_broker_environment :: "string option"
  pd_credential_ref :: "string option"
  pd_breaker_key :: "string option"
  pd_status :: string
  pd_run_id :: "string option"
  pd_idempotency_key :: "string option"
  pd_strategy_id :: string
  pd_account_id :: int
  pd_canonical_order_id :: "int option"
  pd_error_message :: "string option"
  pd_resolved_at :: "time option"
  pd_created_at :: time
  pd_projection_exec_id :: "int option"

record candle_row =
  cr_price_id :: int
  cr_instr_id :: int
  cr_ts :: time
  cr_timeframe :: string
  cr_source :: string
  cr_revision :: int
  cr_open :: "number option"
  cr_high :: "number option"
  cr_low :: "number option"
  cr_close :: "number option"
  cr_volume :: "number option"

definition PendingOrderPersistenceError :: "string \<Rightarrow> py_error" where
  "PendingOrderPersistenceError msg = CustomError ''PendingOrderPersistenceError'' msg"

definition DURABLE_PAPER_ORDER_TYPES :: "string list" where
  "DURABLE_PAPER_ORDER_TYPES = [''bracket'', ''limit'', ''oco'', ''stop'', ''take_profit'']"

definition CANCELLABLE_STATUSES :: "string list" where
  "CANCELLABLE_STATUSES = [''pending'', ''submitted'', ''working'', ''partially_filled'']"

definition TERMINAL_ORDER_STATES :: "string list" where
  "TERMINAL_ORDER_STATES = [''filled'', ''rejected'', ''canceled'']"

definition RECOVERABLE_STATUSES :: "string list" where
  "RECOVERABLE_STATUSES =
     [''pending'', ''submission_unknown'', ''submitted'', ''working'', ''partially_filled'']"

section \<open>Reading\<close>

definition load_pending ::
  "pending_order list \<Rightarrow> string option \<Rightarrow> string list option \<Rightarrow> (string \<times> pending_order) list" where
  "load_pending rows breaker statuses =
     (let wanted = (case statuses of Some (s # ss) \<Rightarrow> s # ss | _ \<Rightarrow> RECOVERABLE_STATUSES);
          hits = filter (\<lambda>r. pd_status r \<in> set wanted \<and>
                   (case breaker of None \<Rightarrow> True | Some k \<Rightarrow> pd_breaker_key r = Some k)) rows
      in foldl (\<lambda>d r. dict_set d (case pd_broker_order_id r of
                                    Some (c # cs) \<Rightarrow> c # cs | _ \<Rightarrow> pd_order_id r) r) [] hits)"

section \<open>Persisting\<close>

record order_signal =
  sig_external_id :: "string option"
  sig_symbol :: string
  sig_instrument_id :: pyval
  sig_strategy_id :: string

record pending_request =
  pq_order_id :: string
  pq_user_id :: string
  pq_signal :: order_signal
  pq_intent :: order_intent
  pq_execution_mode :: string
  pq_broker_code :: string
  pq_settlement_currency :: string
  pq_breaker_key :: "string option"
  pq_broker_environment :: "string option"
  pq_credential_ref :: "string option"
  pq_run_id :: "string option"
  pq_idempotency_key :: "string option"
  pq_account_id :: int
  pq_canonical_order_id :: "int option"

definition meta_text :: "pydict \<Rightarrow> string \<Rightarrow> string option" where
  "meta_text m k = (if truthy (dict_get m k) then Some (py_strip (str_of (dict_get m k))) else None)"

definition resolve_source_watermark ::
  "candle_row list \<Rightarrow> int option \<Rightarrow> pydict \<Rightarrow> (time \<times> int) res" where
  "resolve_source_watermark prices instr m =
     (let source = py_strip (str_of (dict_get m ''market_data_source''));
          timeframe = py_strip (str_of (dict_get m ''market_data_timeframe''));
          missing = ValueError ''Durable local-paper resting orders require exact provenance''
      in case (instr, dict_get m ''source_price_id'', dict_get m ''source_content_revision'',
               dict_get m ''source_price_ts'') of
           (Some n, PInt pid, PInt revision, ts) \<Rightarrow>
             res_bind (require (source \<noteq> [] \<and> timeframe \<noteq> [] \<and> 0 < pid \<and> 0 < revision \<and>
                                (case ts of PTime _ \<Rightarrow> True | PStr _ \<Rightarrow> True | _ \<Rightarrow> False)) missing) (\<lambda>_.
             res_bind (case ts of PTime t \<Rightarrow> Inr t
                       | _ \<Rightarrow> Inl (ValueError ''Durable local-paper source timestamp is invalid'')) (\<lambda>expected.
             case get_row cr_price_id prices pid of
               None \<Rightarrow> Inl (ValueError ''Durable local-paper source price does not exist'')
             | Some row \<Rightarrow>
                 res_bind (require (cr_instr_id row = n \<and> cr_source row = source \<and>
                                    cr_timeframe row = timeframe \<and> cr_revision row = revision \<and> cr_ts row = expected)
                   (ValueError ''Durable local-paper source price provenance changed'')) (\<lambda>_.
                 Inr (cr_ts row, revision))))
         | _ \<Rightarrow> Inl missing)"

definition oco_group_of :: "pydict \<Rightarrow> string option" where
  "oco_group_of m =
     (if truthy (dict_get m ''oco_group_id'') then meta_text m ''oco_group_id''
      else if truthy (dict_get m ''parent_signal_id'') \<and>
              str_of (dict_get m ''purpose'') \<in> set [''bracket'', ''stop_loss'', ''take_profit'']
      then meta_text m ''parent_signal_id'' else None)"

definition instrument_of :: "pyval \<Rightarrow> int option" where
  "instrument_of v = (case py_int v of Some i \<Rightarrow> (if 0 < i then Some i else None) | None \<Rightarrow> None)"

text \<open>
  The check and unique constraints of the table; a violated one is a database error, which the
  repository reports as a failure to persist.
\<close>

definition PENDING_STATUSES :: "string list" where
  "PENDING_STATUSES = [''pending'', ''submission_unknown'', ''submitted'', ''working'', ''filled'',
     ''partially_filled'', ''cancelled'', ''expired'', ''rejected'']"

definition row_check :: "pending_order \<Rightarrow> bool" where
  "row_check p \<longleftrightarrow> pd_status p \<in> set PENDING_STATUSES \<and> py_strip (pd_client_order_id p) \<noteq> [] \<and>
     0 < pd_quantity p \<and> 0 \<le> pd_cumulative_filled p \<and> pd_cumulative_filled p \<le> pd_quantity p \<and>
     (pd_last_market_data_ts p = None \<longleftrightarrow> pd_last_market_data_revision p = None)"

definition insertable :: "pending_order list \<Rightarrow> pending_order \<Rightarrow> bool" where
  "insertable rows p \<longleftrightarrow> row_check p \<and>
     list_all (\<lambda>r. pd_order_id r \<noteq> pd_order_id p \<and>
       (pd_canonical_order_id p = None \<or> pd_canonical_order_id r \<noteq> pd_canonical_order_id p) \<and>
       (pd_idempotency_key p = None \<or> pd_idempotency_key r \<noteq> pd_idempotency_key p) \<and>
       (pd_account_id r \<noteq> pd_account_id p \<or> pd_client_order_id r \<noteq> pd_client_order_id p)) rows"

definition insert_pending :: "pending_order list \<Rightarrow> pending_order \<Rightarrow> (string \<times> pending_order list) res" where
  "insert_pending rows p =
     (if insertable rows p then Inr (pd_order_id p, rows @ [p])
      else Inl (PendingOrderPersistenceError ''Pending order could not be persisted''))"

definition persist :: "candle_row list \<Rightarrow> pending_order list \<Rightarrow> pending_request \<Rightarrow> time \<Rightarrow>
  (string \<times> pending_order list) res" where
  "persist prices rows q now =
     res_bind (require (0 < pq_account_id q)
       (ValueError ''account_id must be a positive linked broker account identifier'')) (\<lambda>_.
     let settlement = py_upper (py_strip (pq_settlement_currency q)); i = pq_intent q; m = metadata i in
     res_bind (require (py_isalnum settlement)
       (ValueError ''Pending-order persistence requires settlement_currency'')) (\<lambda>_.
     let order_kind = (if order_type i = [] then ''market'' else order_type i);
         client = (if client_order_id_for m \<noteq> [] then client_order_id_for m else py_strip (pq_order_id q)) in
     res_bind (require (client \<noteq> [])
       (ValueError ''Pending-order persistence requires client_order_id'')) (\<lambda>_.
     let signal_id = py_strip (case sig_external_id (pq_signal q) of None \<Rightarrow> [] | Some s \<Rightarrow> s) in
     res_bind (require (signal_id \<noteq> [])
       (ValueError ''Pending-order persistence requires the canonical external_signal_id'')) (\<lambda>_.
     let instr = instrument_of (sig_instrument_id (pq_signal q));
         resting = (py_lower (py_strip (pq_broker_code q)) = ''paper'' \<and>
           py_lower (py_strip (case pq_broker_environment q of None \<Rightarrow> [] | Some e \<Rightarrow> e)) = ''paper'' \<and>
           py_lower (py_strip order_kind) \<in> set DURABLE_PAPER_ORDER_TYPES) in
     res_bind (if resting then map_sum id Some (resolve_source_watermark prices instr m) else Inr None) (\<lambda>mark.
     insert_pending rows
       \<lparr>pd_order_id = pq_order_id q, pd_client_order_id = client, pd_broker_order_id = None,
        pd_user_id = pq_user_id q, pd_signal_id = signal_id, pd_instr_id = instr, pd_symbol = symbol i,
        pd_settlement_currency = settlement, pd_side = side i, pd_order_type = order_kind,
        pd_quantity = quantity i,
        pd_limit_price = (case limit_price i of None \<Rightarrow> None | Some p \<Rightarrow> if p = 0 then None else Some p),
        pd_trigger_price = stop_price i, pd_purpose = meta_text m ''purpose'',
        pd_time_in_force = py_lower (time_in_force i), pd_reduce_only = truthy (dict_get m ''reduce_only''),
        pd_parent_order_id = (if truthy (dict_get m ''parent_order_id'') then meta_text m ''parent_order_id''
                              else meta_text m ''parent_signal_id''),
        pd_oco_group_id = oco_group_of m, pd_cumulative_filled = 0, pd_filled_quantity = 0,
        pd_filled_price = None, pd_commission = 0, pd_commission_currency = None,
        pd_market_data_source = meta_text m ''market_data_source'',
        pd_market_data_timeframe = meta_text m ''market_data_timeframe'',
        pd_last_market_data_ts = map_option fst mark, pd_last_market_data_revision = map_option snd mark,
        pd_trigger_policy = ''ohlc-conservative-v1'', pd_execution_mode = pq_execution_mode q,
        pd_broker = pq_broker_code q, pd_broker_environment = pq_broker_environment q,
        pd_credential_ref = pq_credential_ref q, pd_breaker_key = pq_breaker_key q,
        pd_status = ''pending'', pd_run_id = pq_run_id q, pd_idempotency_key = pq_idempotency_key q,
        pd_strategy_id = sig_strategy_id (pq_signal q), pd_account_id = pq_account_id q,
        pd_canonical_order_id = pq_canonical_order_id q, pd_error_message = None, pd_resolved_at = None,
        pd_created_at = now, pd_projection_exec_id = None\<rparr>)))))"

section \<open>Transitions\<close>

definition matches_id :: "string \<Rightarrow> pending_order \<Rightarrow> bool" where
  "matches_id oid r \<longleftrightarrow> pd_order_id r = oid \<or> pd_broker_order_id r = Some oid"

definition put_pending :: "pending_order list \<Rightarrow> pending_order \<Rightarrow> pending_order list" where
  "put_pending rows p = update_where (\<lambda>r. pd_order_id r = pd_order_id p) (\<lambda>_. p) rows"

text \<open>\<open>one_or_none\<close>: more than one matching row is a database error.\<close>

definition one_row :: "string \<Rightarrow> (pending_order \<Rightarrow> bool) \<Rightarrow> pending_order list \<Rightarrow> pending_order option res" where
  "one_row msg P rows =
     (case filter P rows of [] \<Rightarrow> Inr None | [r] \<Rightarrow> Inr (Some r) | _ \<Rightarrow> Inl (PendingOrderPersistenceError msg))"

definition mark_terminal ::
  "pending_order list \<Rightarrow> string \<Rightarrow> string \<Rightarrow> string option \<Rightarrow> time \<Rightarrow> (bool \<times> pending_order list) res" where
  "mark_terminal rows oid status reason now =
     res_bind (one_row ''Pending order could not be marked terminal'' (matches_id oid) rows) (\<lambda>found.
     case found of
        None \<Rightarrow> Inr (False, rows)
      | Some r \<Rightarrow>
          let r' = r\<lparr>pd_status := status,
             pd_error_message := (case reason of Some (c # cs) \<Rightarrow> reason | _ \<Rightarrow> pd_error_message r),
             pd_resolved_at := Some now\<rparr>
          in res_bind (require (row_check r')
               (PendingOrderPersistenceError ''Pending order could not be marked terminal'')) (\<lambda>_.
             Inr (True, put_pending rows r')))"

text \<open>The canonical order of a cancelled row is closed in the same transaction.\<close>

definition close_canonical :: "oms \<Rightarrow> int option \<Rightarrow> oms" where
  "close_canonical db canonical =
     (case canonical of None \<Rightarrow> db
      | Some oid \<Rightarrow>
          (case get_row or_id (oms_orders db) oid of
             None \<Rightarrow> db
           | Some row \<Rightarrow> if or_state row \<in> set TERMINAL_ORDER_STATES then db
                         else set_order db (row\<lparr>or_state := ''canceled''\<rparr>)))"

definition cancel_working ::
  "oms \<Rightarrow> pending_order list \<Rightarrow> string \<Rightarrow> string \<Rightarrow> time \<Rightarrow> (bool \<times> oms \<times> pending_order list) res" where
  "cancel_working db rows oid reason now =
     res_bind (one_row ''Pending order could not be cancelled'' (matches_id oid) rows) (\<lambda>found.
     Inr (case found of
        None \<Rightarrow> (False, db, rows)
      | Some r \<Rightarrow>
          if pd_status r \<notin> set CANCELLABLE_STATUSES then (False, db, rows)
          else (True, close_canonical db (pd_canonical_order_id r),
                put_pending rows (r\<lparr>pd_status := ''cancelled'', pd_error_message := Some reason,
                                    pd_resolved_at := Some now\<rparr>))))"

fun pending_status_of :: "order_status \<Rightarrow> string" where
  "pending_status_of OS_PENDING = ''submitted''"
| "pending_status_of OS_SUBMITTED = ''submitted''"
| "pending_status_of OS_WORKING = ''working''"
| "pending_status_of OS_PARTIALLY_FILLED = ''partially_filled''"
| "pending_status_of OS_FILLED = ''filled''"
| "pending_status_of OS_CANCELLED = ''cancelled''"
| "pending_status_of OS_REJECTED = ''rejected''"
| "pending_status_of OS_EXPIRED = ''expired''"

definition resolve_pending ::
  "pending_order list \<Rightarrow> string \<Rightarrow> broker_order_result \<Rightarrow> time \<Rightarrow> (string \<times> pending_order list) res" where
  "resolve_pending rows oid result now =
     res_bind (one_row ''Pending order could not be resolved'' (matches_id oid) rows) (\<lambda>found.
     case found of
        None \<Rightarrow> Inl (PendingOrderPersistenceError ''Pending order does not exist'')
      | Some r \<Rightarrow>
          let r' = r\<lparr>pd_status := pending_status_of (bor_status result), pd_broker_order_id := bor_order_id result,
               pd_filled_quantity := bor_filled_quantity result,
               pd_cumulative_filled := bor_filled_quantity result,
               pd_filled_price := (if average_price result \<noteq> 0 then Some (average_price result) else None),
               pd_commission := bor_commission result,
               pd_commission_currency := bor_commission_currency result,
               pd_error_message := bor_error_message result,
               pd_resolved_at := (if is_terminal result then Some now else None)\<rparr>
          in res_bind (require (row_check r')
               (PendingOrderPersistenceError ''Pending order could not be resolved'')) (\<lambda>_.
             Inr (pd_order_id r, put_pending rows r')))"

definition mark_submission_state ::
  "pending_order list \<Rightarrow> string \<Rightarrow> string \<Rightarrow> string \<Rightarrow> string option \<Rightarrow> (bool \<times> pending_order list) res" where
  "mark_submission_state rows oid status reason client =
     (case find (\<lambda>r. pd_order_id r = oid) rows of
        None \<Rightarrow> Inr (False, rows)
      | Some r \<Rightarrow>
          res_bind (case client of None \<Rightarrow> Inr (pd_client_order_id r)
                    | Some c \<Rightarrow> if py_strip c = [] then Inl (ValueError ''client_order_id cannot be blank'')
                                else Inr (py_strip c)) (\<lambda>c.
          res_bind (require (list_all (\<lambda>r'. pd_order_id r' = oid \<or> pd_account_id r' \<noteq> pd_account_id r \<or>
                                             pd_client_order_id r' \<noteq> c) rows)
            (PendingOrderPersistenceError ''Pending order could not be marked'')) (\<lambda>_.
          Inr (True, put_pending rows (r\<lparr>pd_client_order_id := c, pd_status := status,
                                         pd_error_message := Some reason\<rparr>)))))"

definition pending_submission_unknown ::
  "pending_order list \<Rightarrow> string \<Rightarrow> string \<Rightarrow> string option \<Rightarrow> (bool \<times> pending_order list) res" where
  "pending_submission_unknown rows oid reason client =
     res_bind (require (py_strip reason \<noteq> []) (ValueError ''Unknown submission state requires a reason'')) (\<lambda>_.
     mark_submission_state rows oid ''submission_unknown'' (py_strip reason) client)"

definition resolve_by_client_order_id ::
  "pending_order list \<Rightarrow> int \<Rightarrow> string \<Rightarrow> broker_order_result \<Rightarrow> time \<Rightarrow> (string \<times> pending_order list) res" where
  "resolve_by_client_order_id rows account client result now =
     res_bind (require (py_strip client \<noteq> [])
       (ValueError ''Client-order reconciliation requires client_order_id'')) (\<lambda>_.
     res_bind (require (0 < account)
       (ValueError ''account_id must be a positive linked broker account identifier'')) (\<lambda>_.
     case find (\<lambda>r. pd_account_id r = account \<and> pd_client_order_id r = py_strip client) rows of
       None \<Rightarrow> Inl (PendingOrderPersistenceError ''Pending order client identity does not exist'')
     | Some r \<Rightarrow> resolve_pending rows (pd_order_id r) result now))"

end
