(* ===== verification/Order_Lifecycle.thy ===== *)
theory Order_Lifecycle
  imports Pending_Orders Paper_Broker
begin

text \<open>
  The lifecycle of resting paper orders over committed candles,
  \<open>execution_engine/paper_order_lifecycle.py\<close>: the trigger rules, the transaction that consumes one
  candle, the projection of a fill, and the worker's pass over all orders.

  The state is the ledger, the pending rows, the price rows and the adapters the engine resolves, one
  for each user and linked account: a paper broker, an adapter of another kind (or none), or an
  exception of the resolution. The worker passes over an order whose adapter is not a paper broker.
  How the engine builds and caches an adapter is not modelled. A transaction that
  raises leaves the tables as they were; the broker may have recorded a currency context. What the
  engine does to project a fill (metrics, positions, net asset value) and whether another writer
  holds an account are parameters. The database fence and the polling interval are not modelled.
\<close>

section \<open>Candles\<close>

record candle =
  cd_price_id :: int
  cd_instr_id :: int
  cd_ts :: time
  cd_timeframe :: string
  cd_source :: string
  cd_revision :: int
  cd_open :: rat
  cd_high :: rat
  cd_low :: rat
  cd_close :: rat
  cd_volume :: "rat option"

definition positive_price :: "number option \<Rightarrow> rat res" where
  "positive_price v =
     (case v of
        Some (Fin p) \<Rightarrow> (if p \<le> 0 then Inl (ValueError ''Price row is not a complete positive OHLC candle'') else Inr p)
      | _ \<Rightarrow> Inl (ValueError ''Price row is not a complete positive OHLC candle''))"

definition candle_volume :: "number option \<Rightarrow> rat option res" where
  "candle_volume v =
     (case v of
        None \<Rightarrow> Inr None
      | Some (Fin q) \<Rightarrow> (if q < 0 then Inl (ValueError ''Price row has invalid volume'') else Inr (Some q))
      | _ \<Rightarrow> Inl (ValueError ''Price row has invalid volume''))"

definition candle_from_row :: "candle_row \<Rightarrow> candle res" where
  "candle_from_row row =
     res_bind (positive_price (cr_open row)) (\<lambda>op.
     res_bind (positive_price (cr_high row)) (\<lambda>hi.
     res_bind (positive_price (cr_low row)) (\<lambda>lo.
     res_bind (positive_price (cr_close row)) (\<lambda>cl.
     res_bind (require (\<not> min (min op cl) hi < lo) (ValueError ''Price row has an invalid low'')) (\<lambda>_.
     res_bind (require (\<not> hi < max (max op cl) lo) (ValueError ''Price row has an invalid high'')) (\<lambda>_.
     res_bind (require (0 < cr_revision row) (ValueError ''Price row has an invalid content revision'')) (\<lambda>_.
     res_bind (candle_volume (cr_volume row)) (\<lambda>vol.
     Inr \<lparr>cd_price_id = cr_price_id row, cd_instr_id = cr_instr_id row, cd_ts = cr_ts row,
          cd_timeframe = cr_timeframe row, cd_source = cr_source row, cd_revision = cr_revision row,
          cd_open = op, cd_high = hi, cd_low = lo, cd_close = cl, cd_volume = vol\<rparr>))))))))"

section \<open>Triggers\<close>

record trigger_decision =
  td_reason :: string
  td_reference_price :: rat
  td_apply_slippage :: bool

definition stop_decision :: "string \<Rightarrow> rat option \<Rightarrow> candle \<Rightarrow> trigger_decision option" where
  "stop_decision sd trigger c =
     (case trigger of
        None \<Rightarrow> None
      | Some t \<Rightarrow>
          if sd = ''SELL'' then
            (if cd_open c \<le> t then Some \<lparr>td_reason = ''stop_gap'', td_reference_price = cd_open c, td_apply_slippage = True\<rparr>
             else if cd_low c \<le> t then Some \<lparr>td_reason = ''stop_cross'', td_reference_price = t, td_apply_slippage = True\<rparr>
             else None)
          else if t \<le> cd_open c then Some \<lparr>td_reason = ''stop_gap'', td_reference_price = cd_open c, td_apply_slippage = True\<rparr>
          else if t \<le> cd_high c then Some \<lparr>td_reason = ''stop_cross'', td_reference_price = t, td_apply_slippage = True\<rparr>
          else None)"

definition limit_decision :: "string \<Rightarrow> rat option \<Rightarrow> candle \<Rightarrow> trigger_decision option" where
  "limit_decision sd lim_price c =
     (case lim_price of
        None \<Rightarrow> None
      | Some l \<Rightarrow>
          if sd = ''SELL'' \<and> l \<le> cd_high c \<or> sd = ''BUY'' \<and> cd_low c \<le> l
          then Some \<lparr>td_reason = ''limit_cross'', td_reference_price = l, td_apply_slippage = False\<rparr> else None)"

definition evaluate_trigger ::
  "string \<Rightarrow> string \<Rightarrow> rat option \<Rightarrow> rat option \<Rightarrow> candle \<Rightarrow> trigger_decision option res" where
  "evaluate_trigger raw_side raw_type trigger lim_price c =
     (let sd = py_upper (py_strip raw_side); kind = py_lower (py_strip raw_type) in
      if sd \<notin> set [''BUY'', ''SELL''] then Inl (ValueError ''Unsupported paper order side'')
      else if kind = ''stop'' then Inr (stop_decision sd trigger c)
      else if kind \<in> set [''limit'', ''take_profit''] then Inr (limit_decision sd lim_price c)
      else if kind \<in> set [''bracket'', ''oco''] then
        Inr (case stop_decision sd trigger c of Some d \<Rightarrow> Some d | None \<Rightarrow> limit_decision sd lim_price c)
      else Inl (ValueError ''Unsupported durable paper order type''))"

section \<open>State\<close>

datatype adapter = Paper paper_broker | Other_Adapter | Unresolved py_error

record lifecycle =
  lc_oms :: oms
  lc_pending :: "pending_order list"
  lc_prices :: "candle_row list"
  lc_brokers :: "string \<times> int \<Rightarrow> adapter"

definition broker_for :: "lifecycle \<Rightarrow> pending_order \<Rightarrow> adapter" where
  "broker_for lc p = lc_brokers lc (pd_user_id p, pd_account_id p)"

definition put_broker :: "lifecycle \<Rightarrow> pending_order \<Rightarrow> paper_broker \<Rightarrow> lifecycle" where
  "put_broker lc p b = lc\<lparr>lc_brokers := (lc_brokers lc)((pd_user_id p, pd_account_id p) := Paper b)\<rparr>"

lemma put_broker_simps [simp]:
  "lc_oms (put_broker lc p b) = lc_oms lc" "lc_pending (put_broker lc p b) = lc_pending lc"
  "lc_prices (put_broker lc p b) = lc_prices lc"
  by (simp_all add: put_broker_def)

definition WORKING_STATUSES :: "string list" where
  "WORKING_STATUSES = [''submitted'', ''working'', ''partially_filled'']"

definition TERMINAL_STATUSES :: "string list" where
  "TERMINAL_STATUSES = [''filled'', ''cancelled'', ''expired'', ''rejected'']"

definition LIFECYCLE_ERROR_PREFIX :: string where
  "LIFECYCLE_ERROR_PREFIX = ''paper_lifecycle_error:''"

definition is_lifecycle_error :: "string option \<Rightarrow> bool" where
  "is_lifecycle_error e \<longleftrightarrow>
     (case e of None \<Rightarrow> False
      | Some m \<Rightarrow> take (length LIFECYCLE_ERROR_PREFIX) m = LIFECYCLE_ERROR_PREFIX)"

definition clear_lifecycle_error :: "pending_order \<Rightarrow> pending_order" where
  "clear_lifecycle_error p =
     (if is_lifecycle_error (pd_error_message p) then p\<lparr>pd_error_message := None\<rparr> else p)"

definition is_working :: "pending_order \<Rightarrow> bool" where
  "is_working p \<longleftrightarrow> pd_status p \<in> set WORKING_STATUSES"

definition pending_of :: "pending_order list \<Rightarrow> string \<Rightarrow> pending_order option" where
  "pending_of rows oid = find (\<lambda>r. pd_order_id r = oid) rows"

definition currency_context_of :: "pydict \<Rightarrow> order_currency_context res" where
  "currency_context_of payload =
     (case dict_get payload ''currency_context'' of
        PDict raw \<Rightarrow>
          (case (py_float_text (dict_get raw ''account_to_settlement_rate''), dict_get raw ''requested_at'',
                 dict_get raw ''observed_at'') of
             (Some rate, PTime requested, PTime observed) \<Rightarrow>
               order_currency_context_init (str_of (dict_get raw ''account_currency''))
                 (str_of (dict_get raw ''settlement_currency'')) (Fin rate) requested observed
                 (str_of (dict_get raw ''source''))
           | _ \<Rightarrow> Inl (ValueError ''Canonical paper order has invalid currency context''))
      | _ \<Rightarrow> Inl (TypeError ''Canonical paper order omitted currency context''))"

section \<open>OCO groups\<close>

definition sibling_of :: "pending_order \<Rightarrow> pending_order \<Rightarrow> bool" where
  "sibling_of p r \<longleftrightarrow> pd_oco_group_id p \<noteq> None \<and> pd_oco_group_id r = pd_oco_group_id p \<and>
     pd_order_id r \<noteq> pd_order_id p \<and> is_working r"

definition oco_reason :: "pending_order \<Rightarrow> string option \<Rightarrow> string" where
  "oco_reason p reason =
     (case reason of Some (c # cs) \<Rightarrow> c # cs | _ \<Rightarrow> ''OCO peer '' @ pd_order_id p @ '' filled'')"

definition cancel_oco_siblings ::
  "oms \<Rightarrow> pending_order list \<Rightarrow> pending_order \<Rightarrow> string option \<Rightarrow> oms \<times> pending_order list" where
  "cancel_oco_siblings db rows p reason =
     (foldl (\<lambda>d r. if sibling_of p r then close_canonical d (pd_canonical_order_id r) else d) db rows,
      update_where (sibling_of p)
        (\<lambda>r. r\<lparr>pd_status := ''cancelled'', pd_resolved_at := pd_resolved_at p,
               pd_error_message := Some (oco_reason p reason)\<rparr>) rows)"

definition resize_oco_siblings :: "pending_order list \<Rightarrow> pending_order \<Rightarrow> pending_order list" where
  "resize_oco_siblings rows p =
     update_where (sibling_of p)
       (\<lambda>r. r\<lparr>pd_quantity := pd_cumulative_filled r + (pd_quantity p - pd_cumulative_filled p)\<rparr>) rows"

definition cancel_unprotectable_order ::
  "oms \<Rightarrow> pending_order list \<Rightarrow> pending_order \<Rightarrow> order_row \<Rightarrow> candle \<Rightarrow> string \<Rightarrow> oms \<times> pending_order list" where
  "cancel_unprotectable_order db rows p row c reason =
     (let msg = ''Cancelled: '' @ reason;
          p' = p\<lparr>pd_status := ''cancelled'', pd_resolved_at := Some (cd_ts c), pd_error_message := Some msg\<rparr>;
          db' = (if or_state row \<in> set TERMINAL_ORDER_STATES then db
                 else set_order db (row\<lparr>or_state := ''canceled''\<rparr>));
          rows' = put_pending rows p'
      in if pd_oco_group_id p = None \<or> pd_oco_group_id p = Some [] then (db', rows')
         else cancel_oco_siblings db' rows' p' (Some msg))"

section \<open>One candle\<close>

definition broker_context_ok :: "oms \<Rightarrow> pending_order \<Rightarrow> bool" where
  "broker_context_ok db p \<longleftrightarrow>
     (case get_row ac_id (oms_accounts db) (pd_account_id p) of
        None \<Rightarrow> False
      | Some a \<Rightarrow> get_row br_id (oms_brokers db) (ac_broker_id a) \<noteq> None)"

definition stream_start :: "pending_order \<Rightarrow> time" where
  "stream_start p = (case pd_last_market_data_ts p of Some t \<Rightarrow> t | None \<Rightarrow> pd_created_at p)"

definition on_stream :: "pending_order \<Rightarrow> candle_row \<Rightarrow> bool" where
  "on_stream p r \<longleftrightarrow> Some (cr_instr_id r) = pd_instr_id p \<and> Some (cr_source r) = pd_market_data_source p \<and>
     Some (cr_timeframe r) = pd_market_data_timeframe p"

definition next_price_row :: "candle_row list \<Rightarrow> pending_order \<Rightarrow> candle_row option" where
  "next_price_row prices p =
     (case sort_key (\<lambda>r. (cr_ts r, cr_price_id r))
             (filter (\<lambda>r. on_stream p r \<and> stream_start p < cr_ts r) prices) of
        [] \<Rightarrow> None | r # _ \<Rightarrow> Some r)"

definition fill_quantity_for :: "rat \<Rightarrow> candle \<Rightarrow> rat \<Rightarrow> rat" where
  "fill_quantity_for participation c remaining =
     min remaining (case cd_volume c of None \<Rightarrow> remaining | Some v \<Rightarrow> max 0 (v * participation))"

definition first_text :: "string option list \<Rightarrow> string \<Rightarrow> string" where
  "first_text vs fallback =
     (case filter (\<lambda>v. v \<noteq> None \<and> v \<noteq> Some []) vs of Some s # _ \<Rightarrow> s | _ \<Rightarrow> fallback)"

definition resting_intent :: "pending_order \<Rightarrow> pydict \<Rightarrow> rat \<Rightarrow> order_intent res" where
  "resting_intent p payload remaining =
     (let m = (case dict_get payload ''metadata'' of PDict d \<Rightarrow> d | _ \<Rightarrow> []) in
      res_bind (currency_context_of payload) (\<lambda>ctx.
      Inr \<lparr>broker_code = (if truthy (dict_get payload ''broker_code'') then str_of (dict_get payload ''broker_code'')
                          else pd_broker p),
           symbol = (if truthy (dict_get m ''broker_symbol'') then str_of (dict_get m ''broker_symbol'')
                     else if truthy (dict_get payload ''symbol'') then str_of (dict_get payload ''symbol'')
                     else pd_symbol p),
           side = pd_side p, quantity = remaining, order_type = pd_order_type p,
           time_in_force = pd_time_in_force p, limit_price = pd_limit_price p,
           stop_price = pd_trigger_price p, metadata = m, currency_context = Some ctx,
           canonical_paper_order_id = None, canonical_paper_instrument_id = None\<rparr>))"

definition fill_provenance :: "pending_order \<Rightarrow> candle \<Rightarrow> trigger_decision \<Rightarrow> pydict" where
  "fill_provenance p c d =
     [(''source_price_id'', PInt (cd_price_id c)), (''source_content_revision'', PInt (cd_revision c)),
      (''trigger_policy_version'', PStr (pd_trigger_policy p)), (''market_data_source'', PStr (cd_source c)),
      (''market_data_timeframe'', PStr (cd_timeframe c)), (''trigger_reason'', PStr (td_reason d))]"

definition fill_trade_id :: "int \<Rightarrow> candle \<Rightarrow> string" where
  "fill_trade_id oid c =
     ''paper:'' @ int_str oid @ '':price:'' @ int_str (cd_price_id c) @ '':rev:'' @ int_str (cd_revision c)"

text \<open>The pending row after a fill of \<open>q\<close> units by the plan.\<close>

definition filled_pending :: "pending_order \<Rightarrow> paper_fill_plan \<Rightarrow> int \<Rightarrow> rat \<Rightarrow> bool \<Rightarrow> candle \<Rightarrow> pending_order" where
  "filled_pending p plan exec q terminal c =
     (let previous = pd_cumulative_filled p;
          previous_notional = previous * (case pd_filled_price p of None \<Rightarrow> 0 | Some x \<Rightarrow> x);
          cumulative = previous + q
      in p\<lparr>pd_projection_exec_id := Some exec, pd_cumulative_filled := cumulative,
           pd_filled_quantity := cumulative,
           pd_filled_price := Some ((previous_notional + q * bf_price (fp_fill plan)) / cumulative),
           pd_commission := pd_commission p + bf_commission (fp_fill plan),
           pd_commission_currency := Some (bf_commission_currency (fp_fill plan)),
           pd_status := (if terminal then ''filled'' else ''partially_filled''),
           pd_resolved_at := (if terminal then Some (cd_ts c) else None)\<rparr>)"

definition settle_group ::
  "oms \<Rightarrow> pending_order list \<Rightarrow> pending_order \<Rightarrow> bool \<Rightarrow> oms \<times> pending_order list" where
  "settle_group db rows p terminal =
     (if pd_oco_group_id p = None \<or> pd_oco_group_id p = Some [] then (db, rows)
      else if terminal then cancel_oco_siblings db rows p None
      else (db, resize_oco_siblings rows p))"

text \<open>
  \<open>Skipped b\<close>: nothing was filled and the worker continues (\<open>b\<close>) or stops. \<open>Filled plan broker\<close>: the
  plan is committed, and \<open>broker\<close> prepared it.
\<close>

datatype bar_outcome = Skipped bool | Filled paper_fill_plan paper_broker

definition fill_transaction ::
  "lifecycle \<Rightarrow> paper_broker \<Rightarrow> pending_order \<Rightarrow> candle \<Rightarrow> trigger_decision \<Rightarrow> rat \<Rightarrow> rat \<Rightarrow> bar_outcome res \<times> lifecycle" where
  "fill_transaction lc broker p c d remaining q =
     (case (case pd_canonical_order_id p of None \<Rightarrow> None | Some o' \<Rightarrow> get_row or_id (oms_orders (lc_oms lc)) o') of
        None \<Rightarrow> (Inl (RuntimeError ''Pending order lost its canonical order''), lc)
      | Some row \<Rightarrow>
     case (case get_row oi_id (oms_intents (lc_oms lc)) (or_intent row) of
             None \<Rightarrow> None | Some i \<Rightarrow> (case oi_payload i of PDict payload \<Rightarrow> Some payload | _ \<Rightarrow> None)) of
        None \<Rightarrow> (Inl (RuntimeError ''Canonical order lost its intent''), lc)
      | Some payload \<Rightarrow>
     case resting_intent p payload remaining of
        Inl e \<Rightarrow> (Inl e, lc)
      | Inr intent \<Rightarrow>
     let broker_oid = first_text [pd_broker_order_id p, or_ref row] (pd_client_order_id p);
         terminal = (q = remaining);
         provenance = fill_provenance p c d in
     case prepare_resting_fill broker intent broker_oid (fill_trade_id (or_id row) c) (Fin q)
            (Fin (td_reference_price d)) (cd_ts c) provenance (td_apply_slippage d) terminal of
        (b, Inl e) \<Rightarrow>
          (case e of
             CustomError cls reason \<Rightarrow>
               if cls = ''ReduceOnlyPositionUnavailableError'' then
                 (case cancel_unprotectable_order (lc_oms lc) (put_pending (lc_pending lc) p) p row c reason of
                    (db, rows) \<Rightarrow> (Inr (Skipped False), put_broker (lc\<lparr>lc_oms := db, lc_pending := rows\<rparr>) p b))
               else (Inl e, put_broker lc p b)
           | _ \<Rightarrow> (Inl e, put_broker lc p b))
      | (b, Inr plan) \<Rightarrow>
     case apply_broker_result (lc_oms lc) (or_id row) (fp_result plan) [(fp_fill plan, provenance)] (pd_instr_id p) of
        Inl e \<Rightarrow> (Inl e, put_broker lc p b)
      | Inr (ids, db) \<Rightarrow>
          (case ids of
             [exec] \<Rightarrow>
               (let p' = filled_pending p plan exec q terminal c in
                case settle_group db (put_pending (lc_pending lc) p') p' terminal of
                  (db', rows) \<Rightarrow> 
                    (Inr (Filled plan b), put_broker (lc\<lparr>lc_oms := db', lc_pending := rows\<rparr>) p b))
           | _ \<Rightarrow> (Inl (RuntimeError ''Paper fill persisted an unexpected number of canonical executions''),
                    put_broker lc p b)))"

text \<open>The row once the candle is consumed, before any fill.\<close>

definition advanced_pending :: "pending_order \<Rightarrow> candle \<Rightarrow> pending_order" where
  "advanced_pending p c =
     clear_lifecycle_error (p\<lparr>pd_last_market_data_ts := Some (cd_ts c),
                              pd_last_market_data_revision := Some (cd_revision c)\<rparr>)"

definition consume_candle :: "rat \<Rightarrow> lifecycle \<Rightarrow> paper_broker \<Rightarrow> string \<Rightarrow> candle \<Rightarrow> bar_outcome res \<times> lifecycle" where
  "consume_candle participation lc broker oid c =
     (case pending_of (lc_pending lc) oid of
        None \<Rightarrow> (Inr (Skipped False), lc)
      | Some p0 \<Rightarrow>
          if \<not> is_working p0 then (Inr (Skipped False), lc)
          else if (case pd_last_market_data_ts p0 of None \<Rightarrow> False | Some w \<Rightarrow> cd_ts c \<le> w)
          then (Inr (Skipped False), lc)
          else (case evaluate_trigger (pd_side p0) (pd_order_type p0) (pd_trigger_price p0) (pd_limit_price p0) c of
            Inl e \<Rightarrow> (Inl e, lc)
          | Inr decision \<Rightarrow>
              let p = advanced_pending p0 c;
                  advanced = lc\<lparr>lc_pending := put_pending (lc_pending lc) p\<rparr> in
              (case decision of
                 None \<Rightarrow> (Inr (Skipped True), advanced)
               | Some d \<Rightarrow>
                   let remaining = pd_quantity p - pd_cumulative_filled p;
                       q = fill_quantity_for participation c remaining in
                   if q \<le> 0 then (Inr (Skipped True), advanced)
                   else fill_transaction lc broker p c d remaining q)))"

section \<open>Projections\<close>

text \<open>\<open>deliver\<close> is what the engine does with the fill of a pending order.\<close>

type_synonym projector = "pending_order \<Rightarrow> execution_row \<Rightarrow> unit res"

definition projection_ready :: "lifecycle \<Rightarrow> pending_order \<Rightarrow> int \<Rightarrow> execution_row res" where
  "projection_ready lc p exec =
     (let db = lc_oms lc in
      res_bind (found (RuntimeError ''projection references invalid canonical execution'')
        (find (\<lambda>e. ex_id e = exec \<and> Some (ex_order e) = pd_canonical_order_id p) (oms_executions db))) (\<lambda>e.
      res_bind (found (RuntimeError ''lost canonical projection lineage'')
        (get_row or_id (oms_orders db) (ex_order e))) (\<lambda>row.
      res_bind (found (RuntimeError ''lost canonical projection lineage'')
        (get_row oi_id (oms_intents db) (or_intent row))) (\<lambda>i.
      res_bind (found (RuntimeError ''lost canonical projection lineage'')
        (get_row sg_id (oms_signals db) (oi_signal i))) (\<lambda>sg.
      res_bind (found (RuntimeError ''lost canonical projection lineage'')
        (get_row in_id (oms_instruments db) (ex_instr e))) (\<lambda>_.
      res_bind (require (sg_instr sg = ex_instr e \<and> sg_strategy sg = pd_strategy_id p \<and>
                         sg_external sg = pd_signal_id p)
        (RuntimeError ''conflicting canonical projection lineage'')) (\<lambda>_.
      res_bind (case ex_price_id e of PInt n \<Rightarrow> Inr n
                | _ \<Rightarrow> Inl (RuntimeError ''Paper execution omitted source price lineage'')) (\<lambda>n.
      res_bind (found (RuntimeError ''Paper execution references missing price'')
        (get_row cr_price_id (lc_prices lc) n)) (\<lambda>price.
      res_bind (candle_from_row price) (\<lambda>c.
      res_bind (require (ex_revision e = PInt (cd_revision c) \<and> ex_policy e = PStr (pd_trigger_policy p))
        (RuntimeError ''Paper execution changed source-bar projection lineage'')) (\<lambda>_.
      res_bind (evaluate_trigger (pd_side p) (pd_order_type p) (pd_trigger_price p) (pd_limit_price p) c) (\<lambda>d.
      res_bind (require (d \<noteq> None)
        (RuntimeError ''Paper execution no longer matches its committed trigger'')) (\<lambda>_.
      Inr e)))))))))))))"

definition drain_projection :: "projector \<Rightarrow> lifecycle \<Rightarrow> string \<Rightarrow> unit res \<times> lifecycle" where
  "drain_projection deliver lc oid =
     (case pending_of (lc_pending lc) oid of
        None \<Rightarrow> (Inr (), lc)
      | Some p \<Rightarrow>
          (case pd_projection_exec_id p of
             None \<Rightarrow> (Inr (), lc)
           | Some exec \<Rightarrow>
               (case res_bind (projection_ready lc p exec) (deliver p) of
                  Inl e \<Rightarrow> (Inl e, lc)
                | Inr _ \<Rightarrow>
                    (Inr (), lc\<lparr>lc_pending := put_pending (lc_pending lc)
                               (clear_lifecycle_error (p\<lparr>pd_projection_exec_id := None\<rparr>))\<rparr>))))"

definition process_next_bar ::
  "rat \<Rightarrow> projector \<Rightarrow> lifecycle \<Rightarrow> string \<Rightarrow> bool res \<times> lifecycle" where
  "process_next_bar participation deliver lc oid =
     (case pending_of (lc_pending lc) oid of
        None \<Rightarrow> (Inr False, lc)
      | Some p \<Rightarrow>
          if \<not> broker_context_ok (lc_oms lc) p
          then (Inl (RuntimeError ''Pending order lost its broker account''), lc)
          else if pd_projection_exec_id p \<noteq> None then
            (case broker_for lc p of
               Unresolved e \<Rightarrow> (Inl e, lc)
             | Other_Adapter \<Rightarrow> (Inr False, lc)
             | Paper _ \<Rightarrow>
                 (case drain_projection deliver lc oid of
                    (Inl e, lc') \<Rightarrow> (Inl e, lc') | (Inr _, lc') \<Rightarrow> (Inr True, lc')))
          else if \<not> is_working p then (Inr False, lc)
          else (case next_price_row (lc_prices lc) p of
            None \<Rightarrow> (Inr False, lc)
          | Some row \<Rightarrow>
              (case candle_from_row row of
                 Inl e \<Rightarrow> (Inl e, lc)
               | Inr c \<Rightarrow>
                   (case broker_for lc p of
                      Unresolved e \<Rightarrow> (Inl e, lc)
                    | Other_Adapter \<Rightarrow> (Inr False, lc)
                    | Paper broker \<Rightarrow>
                        (case consume_candle participation lc broker oid c of
                           (Inl e, lc') \<Rightarrow> (Inl e, lc')
                         | (Inr (Skipped go), lc') \<Rightarrow> (Inr go, lc')
                         | (Inr (Filled plan b), lc') \<Rightarrow>
                             (case apply_committed_fill b plan (cd_ts c) of
                                (b', Inl e) \<Rightarrow> (Inl e, put_broker lc' p b')
                              | (b', Inr _) \<Rightarrow>
                                  (case drain_projection deliver (put_broker lc' p b') oid of
                                     (Inl e, lc'') \<Rightarrow> (Inl e, lc'') | (Inr _, lc'') \<Rightarrow> (Inr True, lc''))))))))"

section \<open>Progress\<close>

text \<open>
  What is left to do for an order: the price rows of its stream past its watermark, and one more when
  a fill is still to be projected.
\<close>

definition bars_left :: "lifecycle \<Rightarrow> string \<Rightarrow> nat" where
  "bars_left lc oid =
     (case pending_of (lc_pending lc) oid of
        None \<Rightarrow> 0
      | Some p \<Rightarrow> length (filter (\<lambda>r. on_stream p r \<and> stream_start p < cr_ts r) (lc_prices lc)) +
                  (if pd_projection_exec_id p = None then 0 else 1))"

text \<open>The fields of a pending row that no step of the worker changes.\<close>

definition same_stream :: "pending_order \<Rightarrow> pending_order \<Rightarrow> bool" where
  "same_stream p p' \<longleftrightarrow> pd_order_id p' = pd_order_id p \<and> pd_instr_id p' = pd_instr_id p \<and>
     pd_market_data_source p' = pd_market_data_source p \<and>
     pd_market_data_timeframe p' = pd_market_data_timeframe p \<and> pd_created_at p' = pd_created_at p \<and>
     pd_user_id p' = pd_user_id p \<and> pd_account_id p' = pd_account_id p"

lemma pending_of_Some: "pending_of rows oid = Some p \<Longrightarrow> p \<in> set rows \<and> pd_order_id p = oid"
  by (auto simp: pending_of_def find_Some_iff)

lemma pending_of_put:
  "pending_of (put_pending rows p) oid =
     (if oid = pd_order_id p then (if pending_of rows oid = None then None else Some p) else pending_of rows oid)"
  by (induction rows) (auto simp: pending_of_def put_pending_def update_where_def)

lemma pending_of_update_where:
  assumes "\<And>r. P r \<Longrightarrow> pd_order_id r \<noteq> oid" "\<And>r. pd_order_id (f r) = pd_order_id r"
  shows "pending_of (update_where P f rows) oid = pending_of rows oid"
  using assms by (induction rows) (auto simp: pending_of_def update_where_def)

lemma not_sibling_self: "sibling_of p r \<Longrightarrow> pd_order_id r \<noteq> pd_order_id p"
  by (simp add: sibling_of_def)

lemma pending_of_settle:
  "pending_of (snd (settle_group db rows p terminal)) (pd_order_id p) = pending_of rows (pd_order_id p)"
proof -
  have "pending_of (update_where (sibling_of p) f rows) (pd_order_id p) = pending_of rows (pd_order_id p)"
    if "\<And>r. pd_order_id (f r) = pd_order_id r" for f
    using that by (intro pending_of_update_where) (auto simp: sibling_of_def)
  then show ?thesis
    by (simp add: settle_group_def cancel_oco_siblings_def resize_oco_siblings_def)
qed

lemma same_stream_clear [simp]: "same_stream p (clear_lifecycle_error p') = same_stream p p'"
  by (simp add: same_stream_def clear_lifecycle_error_def)

lemma fill_transaction_cases:
  assumes "fill_transaction lc broker p c d remaining q = (r, lc')"
  obtains (failed) e where "r = Inl e" "lc_pending lc' = lc_pending lc" "lc_prices lc' = lc_prices lc"
  | (cancelled) row reason where "r = Inr (Skipped False)" "lc_prices lc' = lc_prices lc"
      "lc_pending lc' =
         snd (cancel_unprotectable_order (lc_oms lc) (put_pending (lc_pending lc) p) p row c reason)"
  | (filled) plan b exec db where "r = Inr (Filled plan b)" "lc_prices lc' = lc_prices lc"
      "lc_pending lc' = snd (settle_group db
         (put_pending (lc_pending lc) (filled_pending p plan exec q (q = remaining) c))
         (filled_pending p plan exec q (q = remaining) c) (q = remaining))"
proof (cases "case pd_canonical_order_id p of None \<Rightarrow> None | Some o' \<Rightarrow> get_row or_id (oms_orders (lc_oms lc)) o'")
  case None
  with assms failed show ?thesis by (auto simp: fill_transaction_def)
next
  case row: (Some row)
  show ?thesis
  proof (cases "case get_row oi_id (oms_intents (lc_oms lc)) (or_intent row) of
             None \<Rightarrow> None | Some i \<Rightarrow> (case oi_payload i of PDict payload \<Rightarrow> Some payload | _ \<Rightarrow> None)")
    case None
    with row assms failed show ?thesis by (auto simp: fill_transaction_def)
  next
    case payload: (Some payload)
    show ?thesis
    proof (cases "resting_intent p payload remaining")
      case (Inl e)
      with row payload assms failed show ?thesis by (auto simp: fill_transaction_def)
    next
      case intent: (Inr intent)
      obtain b res where prep: "prepare_resting_fill broker intent
          (first_text [pd_broker_order_id p, or_ref row] (pd_client_order_id p)) (fill_trade_id (or_id row) c) (Fin q)
          (Fin (td_reference_price d)) (cd_ts c) (fill_provenance p c d) (td_apply_slippage d) (q = remaining) = (b, res)"
        by (meson surj_pair)
      show ?thesis
      proof (cases res)
        case (Inl e)
        then show ?thesis
          using row payload intent prep assms failed cancelled
          by (cases e) (auto simp: fill_transaction_def Let_def split_beta split: if_splits)
      next
        case plan: (Inr plan)
        show ?thesis
          using row payload intent prep plan assms failed filled
          by (auto simp: fill_transaction_def Let_def split_beta split: sum.splits list.splits)
      qed
    qed
  qed
qed

lemma consume_candle_cases:
  assumes "consume_candle participation lc broker oid c = (r, lc')"
  obtains (idle) "r = Inr (Skipped False) \<or> (\<exists>e. r = Inl e)" "lc_pending lc' = lc_pending lc"
      "lc_prices lc' = lc_prices lc"
  | (advanced) p where "pending_of (lc_pending lc) oid = Some p" "is_working p" "r = Inr (Skipped True)"
      "lc_prices lc' = lc_prices lc" "lc_pending lc' = put_pending (lc_pending lc) (advanced_pending p c)"
  | (cancelled) p row reason where "pending_of (lc_pending lc) oid = Some p" "is_working p"
      "r = Inr (Skipped False)" "lc_prices lc' = lc_prices lc"
      "lc_pending lc' = snd (cancel_unprotectable_order (lc_oms lc)
         (put_pending (lc_pending lc) (advanced_pending p c)) (advanced_pending p c) row c reason)"
  | (filled) p plan b exec db q remaining where "pending_of (lc_pending lc) oid = Some p" "is_working p"
      "r = Inr (Filled plan b)" "lc_prices lc' = lc_prices lc"
      "remaining = pd_quantity p - pd_cumulative_filled p" "0 < q" "q \<le> remaining"
      "lc_pending lc' = snd (settle_group db
         (put_pending (lc_pending lc) (filled_pending (advanced_pending p c) plan exec q (q = remaining) c))
         (filled_pending (advanced_pending p c) plan exec q (q = remaining) c) (q = remaining))"
proof (cases "pending_of (lc_pending lc) oid")
  case None
  with assms idle show ?thesis by (simp add: consume_candle_def)
next
  case p: (Some p)
  define p1 where "p1 = advanced_pending p c"
  have alloc: "pd_quantity p1 = pd_quantity p" "pd_cumulative_filled p1 = pd_cumulative_filled p"
    by (simp_all add: p1_def advanced_pending_def clear_lifecycle_error_def)
  show ?thesis
  proof (cases "is_working p \<and> (case pd_last_market_data_ts p of None \<Rightarrow> True | Some w \<Rightarrow> w < cd_ts c)")
    case False
    with p assms idle show ?thesis
      by (auto simp: consume_candle_def split: option.splits if_splits)
  next
    case fresh: True
    then have stale: "\<not> (case pd_last_market_data_ts p of None \<Rightarrow> False | Some w \<Rightarrow> cd_ts c \<le> w)"
      by (cases "pd_last_market_data_ts p") simp_all
    show ?thesis
    proof (cases "evaluate_trigger (pd_side p) (pd_order_type p) (pd_trigger_price p) (pd_limit_price p) c")
      case (Inl e)
      with p fresh stale assms idle show ?thesis by (auto simp: consume_candle_def)
    next
      case decision: (Inr decision)
      let ?rem = "pd_quantity p - pd_cumulative_filled p"
      let ?q = "fill_quantity_for participation c ?rem"
      have q_le: "?q \<le> ?rem"
        by (simp add: fill_quantity_for_def)
      show ?thesis
      proof (cases decision)
        case None
        with p fresh stale decision assms advanced show ?thesis by (auto simp: consume_candle_def)
      next
        case (Some d)
        show ?thesis
        proof (cases "?q \<le> 0")
          case True
          with p fresh stale decision Some assms advanced alloc show ?thesis
            by (auto simp: consume_candle_def p1_def)
        next
          case False
          with p fresh stale decision Some assms alloc
          have run: "fill_transaction lc broker p1 c d ?rem ?q = (r, lc')"
            by (simp add: consume_candle_def p1_def Let_def)
          have q_pos: "0 < ?q"
            using False by simp
          from run show ?thesis
          proof (cases rule: fill_transaction_cases)
            case (failed e)
            then show ?thesis using idle by blast
          next
            case (cancelled row reason)
            then show ?thesis using \<open>p1 = _\<close> that(3) p fresh by blast
          next
            case (filled plan b exec db)
            show ?thesis
              using p fresh filled(1,2) q_pos q_le filled(3) by (intro that(4)[of p plan b ?rem ?q db exec]) (simp_all add: p1_def)
          qed
        qed
      qed
    qed
  qed
qed

text \<open>Whatever a candle does to an order, its stream is the same and its watermark is the candle.\<close>

lemma stream_simps [simp]:
  "same_stream p (advanced_pending p0 c) = same_stream p p0"
  "same_stream p (filled_pending p0 plan exec q terminal c) = same_stream p p0"
  "stream_start (advanced_pending p0 c) = cd_ts c"
  "stream_start (filled_pending p0 plan exec q terminal c) = stream_start p0"
  "stream_start (clear_lifecycle_error p0) = stream_start p0"
  "pd_order_id (advanced_pending p0 c) = pd_order_id p0"
  "pd_order_id (filled_pending p0 plan exec q terminal c) = pd_order_id p0"
  "pd_projection_exec_id (advanced_pending p0 c) = pd_projection_exec_id p0"
  by (simp_all add: advanced_pending_def filled_pending_def same_stream_def clear_lifecycle_error_def
      stream_start_def Let_def split: option.split)

lemma same_stream_refl [simp]: "same_stream p p"
  by (simp add: same_stream_def)

lemma drain_projection_cases:
  assumes "drain_projection deliver lc oid = (r, lc')"
  obtains (idle) "lc' = lc" "r = Inr () \<Longrightarrow> (\<forall>p. pending_of (lc_pending lc) oid = Some p \<longrightarrow> pd_projection_exec_id p = None)"
  | (drained) p where "pending_of (lc_pending lc) oid = Some p" "pd_projection_exec_id p \<noteq> None" "r = Inr ()"
      "lc' = lc\<lparr>lc_pending := put_pending (lc_pending lc)
               (clear_lifecycle_error (p\<lparr>pd_projection_exec_id := None\<rparr>))\<rparr>"
proof (cases "pending_of (lc_pending lc) oid")
  case None
  with assms idle show ?thesis by (simp add: drain_projection_def)
next
  case p: (Some p)
  show ?thesis
  proof (cases "pd_projection_exec_id p")
    case None
    with p assms idle show ?thesis by (simp add: drain_projection_def)
  next
    case exec: (Some exec)
    show ?thesis
    proof (cases "res_bind (projection_ready lc p exec) (deliver p)")
      case (Inl e)
      with p exec assms have "lc' = lc" "r = Inl e" by (simp_all add: drain_projection_def)
      then show ?thesis by (intro idle) simp_all
    next
      case (Inr u)
      with p exec assms have "r = Inr ()" "lc' = lc\<lparr>lc_pending := put_pending (lc_pending lc)
               (clear_lifecycle_error (p\<lparr>pd_projection_exec_id := None\<rparr>))\<rparr>"
        by (simp_all add: drain_projection_def)
      with p exec show ?thesis by (intro drained) simp_all
    qed
  qed
qed

lemma next_price_row_Some:
  assumes "next_price_row prices p = Some row"
  shows "row \<in> set prices" "on_stream p row" "stream_start p < cr_ts row"
proof -
  let ?hits = "filter (\<lambda>r. on_stream p r \<and> stream_start p < cr_ts r) prices"
  from assms obtain rest where "sort_key (\<lambda>r. (cr_ts r, cr_price_id r)) ?hits = row # rest"
    by (auto simp: next_price_row_def split: list.splits)
  then have "row \<in> set ?hits" by (metis list.set_intros(1) set_sort)
  then show "row \<in> set prices" "on_stream p row" "stream_start p < cr_ts row" by simp_all
qed

lemma next_price_row_None:
  "next_price_row prices p = None \<longleftrightarrow> (\<forall>r \<in> set prices. on_stream p r \<longrightarrow> cr_ts r \<le> stream_start p)"
proof -
  let ?hits = "filter (\<lambda>r. on_stream p r \<and> stream_start p < cr_ts r) prices"
  have "next_price_row prices p = None \<longleftrightarrow> set (sort_key (\<lambda>r. (cr_ts r, cr_price_id r)) ?hits) = {}"
    by (auto simp: next_price_row_def simp del: set_sort split: list.splits)
  then have "next_price_row prices p = None \<longleftrightarrow> ?hits = []"
    by (simp only: set_sort set_empty)
  then show ?thesis by (auto simp: filter_empty_conv not_less)
qed

lemma candle_from_row_ts: "candle_from_row row = Inr c \<Longrightarrow> cd_ts c = cr_ts row"
  by (auto simp: candle_from_row_def res_simps)

lemma bars_left_less:
  assumes "pending_of (lc_pending lc) oid = Some p" "pd_projection_exec_id p = None"
    and "pending_of (lc_pending lc') oid = Some p'" "pd_projection_exec_id p' = None"
    and stream: "same_stream p p'" and prices: "lc_prices lc' = lc_prices lc"
    and row: "row \<in> set (lc_prices lc)" "on_stream p row" "stream_start p < cr_ts row"
    and mark: "stream_start p' = cr_ts row"
  shows "bars_left lc' oid < bars_left lc oid"
proof -
  let ?left = "filter (\<lambda>r. on_stream p r \<and> stream_start p < cr_ts r) (lc_prices lc)"
  have "on_stream p' = on_stream p"
    using stream by (simp add: fun_eq_iff on_stream_def same_stream_def)
  then have "filter (\<lambda>r. on_stream p' r \<and> stream_start p' < cr_ts r) (lc_prices lc) =
      filter (\<lambda>r. cr_ts row < cr_ts r) ?left"
    using row mark by (auto intro: filter_cong)
  moreover have "row \<in> set ?left"
    using row by simp
  ultimately have "length (filter (\<lambda>r. on_stream p' r \<and> stream_start p' < cr_ts r) (lc_prices lc)) < length ?left"
    using length_filter_less[of row ?left "\<lambda>r. cr_ts row < cr_ts r"] by simp
  then show ?thesis
    using assms(1-4) prices by (simp add: bars_left_def)
qed

text \<open>The adapter of an order is of a kind the worker does not advance.\<close>

definition passed_over :: "lifecycle \<Rightarrow> string \<Rightarrow> bool" where
  "passed_over lc oid \<longleftrightarrow>
     (case pending_of (lc_pending lc) oid of None \<Rightarrow> False | Some p \<Rightarrow> broker_for lc p = Other_Adapter)"

lemma process_next_bar_passed_over:
  assumes "passed_over lc oid" "process_next_bar participation deliver lc oid = (r, lc')"
  shows "lc' = lc \<and> r \<noteq> Inr True"
  using assms by (auto simp: passed_over_def process_next_bar_def split: option.splits if_splits sum.splits)

lemma process_next_bar_cases:
  assumes "process_next_bar participation deliver lc oid = (r, lc')"
  obtains (idle) "lc' = lc" "r = Inr False \<or> (\<exists>e. r = Inl e)"
      "r = Inr False \<Longrightarrow> passed_over lc oid \<or> (case pending_of (lc_pending lc) oid of None \<Rightarrow> True
         | Some p \<Rightarrow> pd_projection_exec_id p = None \<and> (is_working p \<longrightarrow> next_price_row (lc_prices lc) p = None))"
  | (projected) p broker res where "pending_of (lc_pending lc) oid = Some p" "pd_projection_exec_id p \<noteq> None"
      "broker_for lc p = Paper broker"
      "drain_projection deliver lc oid = (res, lc')" "r = map_sum id (\<lambda>_. True) res"
  | (unfilled) p row c broker go where "pending_of (lc_pending lc) oid = Some p" "pd_projection_exec_id p = None"
      "is_working p" "next_price_row (lc_prices lc) p = Some row" "candle_from_row row = Inr c"
      "broker_for lc p = Paper broker"
      "consume_candle participation lc broker oid c = (go, lc')" "\<forall>plan b. go \<noteq> Inr (Filled plan b)"
      "r = (case go of Inl e \<Rightarrow> Inl e | Inr out \<Rightarrow> Inr (out = Skipped True))"
  | (filled) p row c broker plan b lc1 b' res where "pending_of (lc_pending lc) oid = Some p"
      "pd_projection_exec_id p = None" "is_working p" "next_price_row (lc_prices lc) p = Some row"
      "candle_from_row row = Inr c" "broker_for lc p = Paper broker"
      "consume_candle participation lc broker oid c = (Inr (Filled plan b), lc1)"
      "apply_committed_fill b plan (cd_ts c) = (b', res)"
      "case res of Inl e \<Rightarrow> r = Inl e \<and> lc' = put_broker lc1 p b'
       | Inr _ \<Rightarrow> \<exists>res'. drain_projection deliver (put_broker lc1 p b') oid = (res', lc') \<and>
                   r = map_sum id (\<lambda>_. True) res'"
proof -
  consider (none) "pending_of (lc_pending lc) oid = None"
    | (lost) p where "pending_of (lc_pending lc) oid = Some p" "\<not> broker_context_ok (lc_oms lc) p"
    | (ready) p where "pending_of (lc_pending lc) oid = Some p" "broker_context_ok (lc_oms lc) p"
    by (cases "pending_of (lc_pending lc) oid") auto
  then show ?thesis
  proof cases
    case none
    with assms idle show ?thesis by (simp add: process_next_bar_def)
  next
    case lost
    with assms have "lc' = lc" "\<exists>e. r = Inl e" by (auto simp: process_next_bar_def)
    then show ?thesis by (intro idle) auto
  next
    case (ready p)
    note run = assms[unfolded process_next_bar_def]
    show ?thesis
    proof (cases "\<exists>broker. broker_for lc p = Paper broker")
      case False
      with run ready have "lc' = lc" "r = Inr False \<or> (\<exists>e. r = Inl e)"
        by (auto split: adapter.splits if_splits option.splits sum.splits)
      moreover have "r = Inr False \<Longrightarrow> passed_over lc oid \<or>
          pd_projection_exec_id p = None \<and> (is_working p \<longrightarrow> next_price_row (lc_prices lc) p = None)"
        using run ready False by (auto simp: passed_over_def split: adapter.splits if_splits option.splits sum.splits)
      ultimately show ?thesis using ready by (intro idle) auto
    next
      case True
      then obtain broker where broker: "broker_for lc p = Paper broker" by blast
      consider (drain) "pd_projection_exec_id p \<noteq> None"
        | (settled) "pd_projection_exec_id p = None" "is_working p \<longrightarrow> next_price_row (lc_prices lc) p = None"
        | (bad) row e where "pd_projection_exec_id p = None" "is_working p"
            "next_price_row (lc_prices lc) p = Some row" "candle_from_row row = Inl e"
        | (candle) row c where "pd_projection_exec_id p = None" "is_working p"
            "next_price_row (lc_prices lc) p = Some row" "candle_from_row row = Inr c"
        by (metis not_Some_eq obj_sumE)
      then show ?thesis
      proof cases
        case drain
        obtain res lc1 where res: "drain_projection deliver lc oid = (res, lc1)" by (meson surj_pair)
        with drain ready broker run have "lc' = lc1" "r = map_sum id (\<lambda>_. True) res"
          by (cases res; simp)+
        with ready drain res broker show ?thesis by (intro projected) simp_all
      next
        case settled
        with ready run have "lc' = lc" "r = Inr False" by (auto split: if_splits)
        with ready settled show ?thesis by (intro idle) auto
      next
        case (bad row e)
        with ready run have "lc' = lc" "r = Inl e" by simp_all
        then show ?thesis by (intro idle) auto
      next
        case (candle row c)
        obtain go lc1 where go: "consume_candle participation lc broker oid c = (go, lc1)" by (meson surj_pair)
        show ?thesis
        proof (cases "\<exists>plan b. go = Inr (Filled plan b)")
          case False
          then have "lc' = lc1" "r = (case go of Inl e \<Rightarrow> Inl e | Inr out \<Rightarrow> Inr (out = Skipped True))"
            using run ready candle broker go by (auto split: sum.splits bar_outcome.splits)
          with ready candle broker go False show ?thesis by (intro unfilled) auto
        next
          case True
          then obtain plan b where plan: "go = Inr (Filled plan b)" by blast
          obtain b' res where app: "apply_committed_fill b plan (cd_ts c) = (b', res)" by (meson surj_pair)
          obtain res' lc2 where drain: "drain_projection deliver (put_broker lc1 p b') oid = (res', lc2)"
            by (meson surj_pair)
          have "case res of Inl e \<Rightarrow> r = Inl e \<and> lc' = put_broker lc1 p b'
            | Inr _ \<Rightarrow> r = map_sum id (\<lambda>_. True) res' \<and> lc' = lc2"
            using run ready candle broker go by (cases res; cases res') (simp_all add: plan app drain)
          with ready candle broker go plan app drain show ?thesis
            by (intro filled) (auto split: sum.splits)
        qed
      qed
    qed
  qed
qed

text \<open>A step that asks to be repeated leaves less to do.\<close>

lemma drain_clears:
  assumes "drain_projection deliver lc oid = (Inr u, lc')" "pending_of (lc_pending lc) oid = Some p"
  obtains p' where "pending_of (lc_pending lc') oid = Some p'" "pd_projection_exec_id p' = None"
    "same_stream p p'" "stream_start p' = stream_start p" "pd_status p' = pd_status p" "lc_prices lc' = lc_prices lc"
  using assms(1)
proof (cases rule: drain_projection_cases)
  case idle
  with assms(2) that show ?thesis by simp
next
  case (drained p1)
  with assms(2) pending_of_Some[OF assms(2)] show ?thesis
    by (intro that[of "clear_lifecycle_error (p\<lparr>pd_projection_exec_id := None\<rparr>)"])
      (simp_all add: pending_of_put clear_lifecycle_error_def same_stream_def stream_start_def
        split: option.split)
qed

lemma consume_advances:
  assumes "consume_candle participation lc broker oid c = (Inr out, lc')" "out \<noteq> Skipped False"
    and "pending_of (lc_pending lc) oid = Some p"
  obtains p' where "pending_of (lc_pending lc') oid = Some p'" "same_stream p p'" "stream_start p' = cd_ts c"
    "out = Skipped True \<Longrightarrow> pd_projection_exec_id p' = pd_projection_exec_id p" "lc_prices lc' = lc_prices lc"
  using assms(1)
proof (cases rule: consume_candle_cases)
  case idle
  with assms(2) show ?thesis by auto
next
  case (advanced p1)
  with assms(3) pending_of_Some[OF assms(3)] show ?thesis
    by (intro that[of "advanced_pending p c"]) (simp_all add: pending_of_put)
next
  case (cancelled p1 row reason)
  with assms(2) show ?thesis by simp
next
  case (filled p1 plan b exec db q remaining)
  let ?p' = "filled_pending (advanced_pending p1 c) plan exec q (q = remaining) c"
  have "pending_of (lc_pending lc') (pd_order_id ?p') = Some ?p'"
    unfolding filled(8) pending_of_settle
    using filled(1) pending_of_Some[OF filled(1)] by (simp add: pending_of_put)
  with filled(1,3,4) assms(3) pending_of_Some[OF assms(3)] show ?thesis
    by (intro that[of ?p']) simp_all
qed

text \<open>No step turns a paper broker into an adapter of another kind.\<close>

definition keeps_brokers :: "lifecycle \<Rightarrow> lifecycle \<Rightarrow> bool" where
  "keeps_brokers lc lc' \<longleftrightarrow> (\<forall>k. lc_brokers lc' k = Other_Adapter \<longrightarrow> lc_brokers lc k = Other_Adapter)"

lemma keeps_brokers_simps [simp]:
  "keeps_brokers lc lc" "keeps_brokers lc (lc'\<lparr>lc_pending := rows\<rparr>) = keeps_brokers lc lc'"
  "keeps_brokers lc (lc'\<lparr>lc_oms := db\<rparr>) = keeps_brokers lc lc'"
  by (simp_all add: keeps_brokers_def)

lemma keeps_brokers_put: "keeps_brokers lc lc' \<Longrightarrow> keeps_brokers lc (put_broker lc' p b)"
  by (simp add: keeps_brokers_def put_broker_def)

lemma keeps_brokers_trans: "keeps_brokers lc lc' \<Longrightarrow> keeps_brokers lc' lc'' \<Longrightarrow> keeps_brokers lc lc''"
  by (simp add: keeps_brokers_def)

lemma consume_candle_brokers:
  assumes "consume_candle participation lc broker oid c = (r, lc')"
  shows "keeps_brokers lc lc'"
proof -
  have "fill_transaction lc broker p c d remaining q = (r, lc') \<Longrightarrow> keeps_brokers lc lc'" for p d remaining q
    by (auto simp: fill_transaction_def Let_def split_beta intro!: keeps_brokers_put
        split: option.splits sum.splits prod.splits list.splits py_error.splits if_splits)
  with assms show ?thesis
    by (auto simp: consume_candle_def Let_def split: option.splits sum.splits if_splits)
qed

lemma drain_projection_brokers: "drain_projection deliver lc oid = (r, lc') \<Longrightarrow> lc_brokers lc' = lc_brokers lc"
  by (erule drain_projection_cases) simp_all

lemma broker_kept:
  "broker_for lc p = Paper broker \<Longrightarrow> keeps_brokers lc lc' \<Longrightarrow> same_stream p p' \<Longrightarrow> broker_for lc' p' \<noteq> Other_Adapter"
  by (auto simp: broker_for_def keeps_brokers_def same_stream_def)

lemma process_next_bar_progress:
  assumes "process_next_bar participation deliver lc oid = (Inr True, lc')"
  shows "bars_left lc' oid < bars_left lc oid" "lc_prices lc' = lc_prices lc"
    "case pending_of (lc_pending lc') oid of None \<Rightarrow> False | Some p \<Rightarrow> pd_projection_exec_id p = None"
    "\<not> passed_over lc' oid"
proof -
  have "bars_left lc' oid < bars_left lc oid \<and> lc_prices lc' = lc_prices lc \<and>
    (\<exists>p. pending_of (lc_pending lc') oid = Some p \<and> pd_projection_exec_id p = None \<and> broker_for lc' p \<noteq> Other_Adapter)"
    using assms
  proof (cases rule: process_next_bar_cases)
    case idle
    then show ?thesis by simp
  next
    case (projected p broker res)
    then obtain u where "drain_projection deliver lc oid = (Inr u, lc')" by (cases res) auto
    then obtain p' where "pending_of (lc_pending lc') oid = Some p'" "pd_projection_exec_id p' = None"
      "same_stream p p'" "stream_start p' = stream_start p" "lc_prices lc' = lc_prices lc"
      using projected(1) by (rule drain_clears)
    moreover from this have "on_stream p' = on_stream p"
      by (simp add: fun_eq_iff on_stream_def same_stream_def)
    moreover have "keeps_brokers lc lc'"
      using drain_projection_brokers[OF projected(4)] by (simp add: keeps_brokers_def)
    ultimately show ?thesis
      using projected(1,2) broker_kept[OF projected(3)] by (simp add: bars_left_def)
  next
    case (unfilled p row c broker go)
    then have "go = Inr (Skipped True)" by (cases go) simp_all
    then have "consume_candle participation lc broker oid c = (Inr (Skipped True), lc')"
      using unfilled(7) by simp
    from consume_advances[OF this _ unfilled(1)] obtain p' where "pending_of (lc_pending lc') oid = Some p'"
      "same_stream p p'" "stream_start p' = cd_ts c" "pd_projection_exec_id p' = None" "lc_prices lc' = lc_prices lc"
      using unfilled(2) by auto
    then show ?thesis
      using bars_left_less[OF unfilled(1,2) _ _ _ _ next_price_row_Some[OF unfilled(4)]]
        broker_kept[OF unfilled(6) consume_candle_brokers[OF unfilled(7)]] candle_from_row_ts[OF unfilled(5)] by simp
  next
    case (filled p row c broker plan b lc1 b' res)
    then obtain res' where run: "drain_projection deliver (put_broker lc1 p b') oid = (res', lc')"
      and "Inr True = map_sum id (\<lambda>_. True) res'"
      by (auto split: sum.splits)
    then obtain u where drain: "drain_projection deliver (put_broker lc1 p b') oid = (Inr u, lc')"
      by (cases res') auto
    from consume_advances[OF filled(7) _ filled(1)] obtain p1 where p1: "pending_of (lc_pending lc1) oid = Some p1"
      "same_stream p p1" "stream_start p1 = cd_ts c" "lc_prices lc1 = lc_prices lc"
      by auto
    from drain_clears[OF drain, of p1] p1 obtain p' where p': "pending_of (lc_pending lc') oid = Some p'"
      "pd_projection_exec_id p' = None" "same_stream p1 p'" "stream_start p' = cd_ts c" "lc_prices lc' = lc_prices lc"
      by auto
    moreover have "same_stream p p'"
      using p1(2) p'(3) by (simp add: same_stream_def)
    moreover have "keeps_brokers lc lc'"
      using keeps_brokers_put[OF consume_candle_brokers[OF filled(7)]] drain_projection_brokers[OF drain]
      by (simp add: keeps_brokers_def)
    ultimately show ?thesis
      using bars_left_less[OF filled(1,2) _ _ _ _ next_price_row_Some[OF filled(4)]]
        broker_kept[OF filled(6)] candle_from_row_ts[OF filled(5)] by simp
  qed
  then show "bars_left lc' oid < bars_left lc oid" "lc_prices lc' = lc_prices lc"
    "case pending_of (lc_pending lc') oid of None \<Rightarrow> False | Some p \<Rightarrow> pd_projection_exec_id p = None"
    "\<not> passed_over lc' oid"
    by (auto simp: passed_over_def)
qed

end
