(* ===== verification/Paper_Worker.thy ===== *)
theory Paper_Worker
  imports Order_Lifecycle
begin

text \<open>
  The worker that advances resting paper orders, \<open>PaperOrderLifecycleWorker\<close> of
  \<open>execution_engine/paper_order_lifecycle.py\<close>: one pass over the eligible orders, the record of the
  failures and the health the pass reports, and one turn of the polling loop.

  The loop over the bars of an order ends because each turn it repeats leaves fewer bars
  (\<open>process_next_bar_progress\<close>). Whether the database fence is free and whether another writer holds
  an account are arguments; a held account is skipped until the next pass.
\<close>

section \<open>Failures\<close>

definition error_class :: "py_error \<Rightarrow> string" where
  "error_class e =
     (case e of ValueError _ \<Rightarrow> ''ValueError'' | TypeError _ \<Rightarrow> ''TypeError'' | RuntimeError _ \<Rightarrow> ''RuntimeError''
      | LookupError _ \<Rightarrow> ''LookupError'' | IntegrityError \<Rightarrow> ''IntegrityError''
      | DatabaseError \<Rightarrow> ''SQLAlchemyError'' | CustomError c _ \<Rightarrow> c)"

text \<open>\<open>" ".join(s.split())\<close>: runs of white space become one space, none at the ends.\<close>

fun squeeze :: "string \<Rightarrow> string" where
  "squeeze [] = []"
| "squeeze (c # s) =
     (if py_isspace c
      then (case py_lstrip s of [] \<Rightarrow> [] | _ \<Rightarrow> if py_lstrip s = s then CHR '' '' # squeeze s else squeeze s)
      else c # squeeze s)"

definition failure_message :: "py_error \<Rightarrow> string" where
  "failure_message e =
     (let detail = squeeze (py_lstrip (error_text e))
      in take 1000 (LIFECYCLE_ERROR_PREFIX @ '' '' @ error_class e @ '': '' @
           (if detail = [] then ''no exception detail'' else detail)))"

definition record_order_failure :: "lifecycle \<Rightarrow> string \<Rightarrow> py_error \<Rightarrow> lifecycle" where
  "record_order_failure lc oid e =
     (case pending_of (lc_pending lc) oid of
        None \<Rightarrow> lc
      | Some p \<Rightarrow> lc\<lparr>lc_pending := put_pending (lc_pending lc) (p\<lparr>pd_error_message := Some (failure_message e)\<rparr>)\<rparr>)"

definition local_paper :: "pending_order \<Rightarrow> bool" where
  "local_paper p \<longleftrightarrow> pd_broker p = ''paper'' \<and> pd_broker_environment p = Some ''paper''"

definition unresolved_failure :: "pending_order \<Rightarrow> bool" where
  "unresolved_failure p \<longleftrightarrow> local_paper p \<and>
     (pd_projection_exec_id p \<noteq> None \<or>
      is_working p \<and> (case pd_error_message p of None \<Rightarrow> False
                        | Some m \<Rightarrow> sql_like (LIFECYCLE_ERROR_PREFIX @ ''%'') m))"

definition unresolved_failure_count :: "lifecycle \<Rightarrow> nat" where
  "unresolved_failure_count lc = length (filter unresolved_failure (lc_pending lc))"

section \<open>One order\<close>

definition order_partition :: "lifecycle \<Rightarrow> string \<Rightarrow> (string \<times> int) res" where
  "order_partition lc oid =
     (case pending_of (lc_pending lc) oid of
        None \<Rightarrow> Inl (ValueError ''Pending paper order disappeared'')
      | Some p \<Rightarrow>
          if py_strip (pd_user_id p) = [] \<or> pd_account_id p \<le> 0
          then Inl (ValueError ''Pending paper order has invalid account ownership'')
          else Inr (py_strip (pd_user_id p), pd_account_id p))"

definition order_is_terminal :: "lifecycle \<Rightarrow> string \<Rightarrow> bool" where
  "order_is_terminal lc oid \<longleftrightarrow>
     (case pending_of (lc_pending lc) oid of None \<Rightarrow> False | Some p \<Rightarrow> pd_status p \<in> set TERMINAL_STATUSES)"

text \<open>The loop over the bars of one order: how many it processed, and the exception that ended it.\<close>

function advance_order ::
  "rat \<Rightarrow> projector \<Rightarrow> lifecycle \<Rightarrow> string \<Rightarrow> nat \<Rightarrow> nat \<times> py_error option \<times> lifecycle" where
  "advance_order participation deliver lc oid n =
     (case process_next_bar participation deliver lc oid of
        (Inl e, lc') \<Rightarrow> (n, Some e, lc')
      | (Inr go, lc') \<Rightarrow>
          if \<not> go then (n, None, lc')
          else if order_is_terminal lc' oid then (n + 1, None, lc')
          else advance_order participation deliver lc' oid (n + 1))"
  by pat_completeness auto
termination
  by (relation "measure (\<lambda>(participation, deliver, lc, oid, n). bars_left lc oid)")
    (auto dest: sym intro: process_next_bar_progress(1))

declare advance_order.simps [simp del]

section \<open>A pass\<close>

definition eligible :: "pending_order \<Rightarrow> bool" where
  "eligible p \<longleftrightarrow> (is_working p \<or> pd_projection_exec_id p \<noteq> None) \<and> local_paper p \<and>
     pd_canonical_order_id p \<noteq> None \<and> pd_market_data_source p \<noteq> None \<and> pd_market_data_timeframe p \<noteq> None \<and>
     (pd_trigger_price p \<noteq> None \<or> pd_limit_price p \<noteq> None)"

definition eligible_order_ids :: "lifecycle \<Rightarrow> string list" where
  "eligible_order_ids lc =
     map pd_order_id (sort_key (\<lambda>p. (pd_created_at p, pd_order_id p)) (filter eligible (lc_pending lc)))"

text \<open>Exceptions that are recorded on the order; the others, of the database, end the pass.\<close>

definition order_scoped :: "py_error \<Rightarrow> bool" where
  "order_scoped e =
     (case e of ValueError _ \<Rightarrow> True | TypeError _ \<Rightarrow> True | RuntimeError _ \<Rightarrow> True | CustomError _ _ \<Rightarrow> True
      | _ \<Rightarrow> False)"

definition advance_partition :: "rat \<Rightarrow> projector \<Rightarrow> (string \<Rightarrow> int \<Rightarrow> bool) \<Rightarrow> lifecycle \<Rightarrow> string \<Rightarrow> nat \<Rightarrow>
  nat \<times> py_error option \<times> lifecycle" where
  "advance_partition participation deliver held lc oid n =
     (case order_partition lc oid of
        Inl e \<Rightarrow> (n, Some e, lc)
      | Inr (user, account) \<Rightarrow>
          if held user account then (n, None, lc) else advance_order participation deliver lc oid n)"

fun process_orders :: "rat \<Rightarrow> projector \<Rightarrow> (string \<Rightarrow> int \<Rightarrow> bool) \<Rightarrow> lifecycle \<Rightarrow> string list \<Rightarrow> nat \<Rightarrow> string list \<Rightarrow>
  (nat \<times> string list) res \<times> lifecycle" where
  "process_orders participation deliver held lc [] n failures = (Inr (n, failures), lc)"
| "process_orders participation deliver held lc (oid # oids) n failures =
     (case advance_partition participation deliver held lc oid n of
        (n', None, lc') \<Rightarrow> process_orders participation deliver held lc' oids n' failures
      | (n', Some e, lc') \<Rightarrow>
          if \<not> order_scoped e then (Inl e, lc')
          else let lc1 = record_order_failure lc' oid e in
            if order_is_terminal lc1 oid then (Inl e, lc1)
            else process_orders participation deliver held lc1 oids n'
                   (failures @ [oid @ '' ('' @ error_class e @ '')'']))"

record lifecycle_health =
  lh_healthy :: bool
  lh_error :: "string option"
  lh_failed_orders :: "nat option"

fun join_comma :: "string list \<Rightarrow> string" where
  "join_comma [] = []"
| "join_comma [s] = s"
| "join_comma (s # ss) = s @ '', '' @ join_comma ss"

definition pass_health :: "string list \<Rightarrow> nat \<Rightarrow> lifecycle_health" where
  "pass_health failures unresolved =
     \<lparr>lh_healthy = (failures = [] \<and> unresolved = 0),
      lh_error = (if failures \<noteq> [] then Some (''Paper-order lifecycle failures: '' @ join_comma failures)
                  else if unresolved \<noteq> 0
                  then Some (int_str (int unresolved) @ '' durable paper order(s) retain lifecycle errors'')
                  else None),
      lh_failed_orders = Some unresolved\<rparr>"

text \<open>The result, the health reported (none when the pass raises) and the state after the pass.\<close>

definition process_once :: "bool \<Rightarrow> rat \<Rightarrow> projector \<Rightarrow> (string \<Rightarrow> int \<Rightarrow> bool) \<Rightarrow> lifecycle \<Rightarrow>
  nat res \<times> lifecycle_health option \<times> lifecycle" where
  "process_once fence participation deliver held lc =
     (if \<not> fence then
        (Inr 0, Some \<lparr>lh_healthy = False,
                      lh_error = Some ''Paper-order lifecycle fence is held by another worker'',
                      lh_failed_orders = None\<rparr>, lc)
      else case process_orders participation deliver held lc (eligible_order_ids lc) 0 [] of
        (Inl e, lc') \<Rightarrow> (Inl e, None, lc')
      | (Inr (n, failures), lc') \<Rightarrow> (Inr n, Some (pass_health failures (unresolved_failure_count lc')), lc'))"

definition valid_worker :: "rat \<Rightarrow> number \<Rightarrow> rat res" where
  "valid_worker interval participation =
     res_bind (require (0 < interval) (ValueError ''Paper order lifecycle interval must be positive'')) (\<lambda>_.
     case participation of
       Fin q \<Rightarrow> if q \<le> 0 \<or> 1 < q then Inl (ValueError ''Paper fill participation must be within (0, 1]'') else Inr q
     | _ \<Rightarrow> Inl (ValueError ''Paper fill participation must be within (0, 1]''))"

text \<open>One turn of \<open>run\<close>: a database failure is reported and the loop goes on, another one ends the task.\<close>

definition run_turn :: "bool \<Rightarrow> rat \<Rightarrow> projector \<Rightarrow> (string \<Rightarrow> int \<Rightarrow> bool) \<Rightarrow> lifecycle \<Rightarrow>
  unit res \<times> lifecycle_health option \<times> lifecycle" where
  "run_turn fence participation deliver held lc =
     (case process_once fence participation deliver held lc of
        (Inl e, _, lc') \<Rightarrow>
          if e = DatabaseError \<or> e = IntegrityError
          then (Inr (), Some \<lparr>lh_healthy = False, lh_error = Some (error_class e @ '': '' @ error_text e),
                             lh_failed_orders = None\<rparr>, lc')
          else (Inl e, None, lc')
      | (Inr _, health, lc') \<Rightarrow> (Inr (), health, lc'))"

end
