(* ===== verification/Oco_Allocation.thy ===== *)
theory Oco_Allocation
  imports Paper_Worker
begin

text \<open>
  What the lifecycle promises of a one-cancels-other group. \<open>row_step\<close> is the specification of a
  change to the pending rows: a row changes without its allocation, rows are closed, or a
  working row takes a fill within its remaining quantity and the group is settled. Every step of the
  worker and every cancellation is such changes in sequence, and they keep the group's shared
  allocation: the filled quantities of all members never exceed it, and each member still working is
  open for exactly what is left.
\<close>

section \<open>The specification\<close>

definition same_allocation :: "pending_order \<Rightarrow> pending_order \<Rightarrow> bool" where
  "same_allocation p p' \<longleftrightarrow> pd_order_id p' = pd_order_id p \<and> pd_oco_group_id p' = pd_oco_group_id p \<and>
     pd_quantity p' = pd_quantity p \<and> pd_cumulative_filled p' = pd_cumulative_filled p"

text \<open>A row that has taken a fill of \<open>q\<close>; it works on when something remains.\<close>

definition takes_fill :: "pending_order \<Rightarrow> rat \<Rightarrow> pending_order \<Rightarrow> bool" where
  "takes_fill p q p' \<longleftrightarrow> pd_order_id p' = pd_order_id p \<and> pd_oco_group_id p' = pd_oco_group_id p \<and>
     pd_quantity p' = pd_quantity p \<and> pd_cumulative_filled p' = pd_cumulative_filled p + q \<and>
     0 < q \<and> q \<le> pd_quantity p - pd_cumulative_filled p \<and>
     (is_working p' \<longleftrightarrow> q \<noteq> pd_quantity p - pd_cumulative_filled p)"

definition closes :: "(pending_order \<Rightarrow> pending_order) \<Rightarrow> bool" where
  "closes f \<longleftrightarrow> (\<forall>r. same_allocation r (f r) \<and> \<not> is_working (f r))"

inductive row_step :: "pending_order list \<Rightarrow> pending_order list \<Rightarrow> bool" where
  touch: "\<lbrakk>p \<in> set rows; same_allocation p p'; is_working p' \<longrightarrow> is_working p\<rbrakk> \<Longrightarrow> row_step rows (put_pending rows p')"
| close: "closes f \<Longrightarrow> row_step rows (update_where P f rows)"
| fill: "\<lbrakk>p \<in> set rows; is_working p; takes_fill p q p'\<rbrakk> \<Longrightarrow>
    row_step rows (snd (settle_group db (put_pending rows p') p' (\<not> is_working p')))"

section \<open>The shared allocation\<close>

definition members :: "string \<Rightarrow> pending_order list \<Rightarrow> pending_order list" where
  "members g rows = filter (\<lambda>r. pd_oco_group_id r = Some g) rows"

definition group_filled :: "string \<Rightarrow> pending_order list \<Rightarrow> rat" where
  "group_filled g rows = sum_list (map pd_cumulative_filled (members g rows))"

definition allocated :: "string \<Rightarrow> rat \<Rightarrow> pending_order list \<Rightarrow> bool" where
  "allocated g Q rows \<longleftrightarrow> distinct (map pd_order_id rows) \<and> group_filled g rows \<le> Q \<and>
     (\<forall>r \<in> set (members g rows). is_working r \<longrightarrow> pd_quantity r - pd_cumulative_filled r = Q - group_filled g rows)"

lemma put_pending_split:
  assumes "distinct (map pd_order_id (xs @ p # ys))" "pd_order_id p' = pd_order_id p"
  shows "put_pending (xs @ p # ys) p' = xs @ p' # ys"
proof -
  have "put_pending zs p' = zs" if "pd_order_id p \<notin> pd_order_id ` set zs" for zs
    unfolding put_pending_def using that assms(2) by (intro update_where_none) (metis image_eqI)
  with assms show ?thesis
    by (simp add: put_pending_def update_where_def)
qed

lemma group_filled_append [simp]:
  "group_filled g (xs @ ys) = group_filled g xs + group_filled g ys"
  "group_filled g (p # xs) = (if pd_oco_group_id p = Some g then pd_cumulative_filled p else 0) + group_filled g xs"
  "group_filled g [] = 0"
  by (simp_all add: group_filled_def members_def)

lemma group_filled_update_where:
  assumes "\<And>r. pd_oco_group_id (f r) = pd_oco_group_id r \<and> pd_cumulative_filled (f r) = pd_cumulative_filled r"
  shows "group_filled g (update_where P f rows) = group_filled g rows"
  using assms by (induction rows) (auto simp: update_where_def)

lemma members_update_where:
  assumes "r \<in> set (members g (update_where P f rows))" "\<And>s. pd_oco_group_id (f s) = pd_oco_group_id s"
  obtains s where "s \<in> set rows" "pd_oco_group_id s = Some g" "r = (if P s then f s else s)"
proof -
  from assms(1) obtain s where s: "s \<in> set rows" "r = (if P s then f s else s)" "pd_oco_group_id r = Some g"
    unfolding members_def set_filter set_update_where by blast
  from s(2,3) assms(2) have "pd_oco_group_id s = Some g" by (cases "P s") simp_all
  with s(1,2) that show ?thesis by blast
qed

lemma allocated_touch:
  assumes "allocated g Q rows" "p \<in> set rows" "same_allocation p p'" "is_working p' \<longrightarrow> is_working p"
  shows "allocated g Q (put_pending rows p')"
proof -
  from assms(2) obtain xs ys where rows: "rows = xs @ p # ys" by (meson split_list)
  have "put_pending rows p' = xs @ p' # ys"
    using assms(1,3) unfolding rows by (intro put_pending_split) (auto simp: allocated_def same_allocation_def)
  with assms(1,3,4) show ?thesis
    by (auto simp: allocated_def rows same_allocation_def members_def)
qed

lemma allocated_close:
  assumes "allocated g Q rows" "closes f"
  shows "allocated g Q (update_where P f rows)"
proof -
  have same: "pd_order_id (f r) = pd_order_id r" "pd_oco_group_id (f r) = pd_oco_group_id r"
      "pd_cumulative_filled (f r) = pd_cumulative_filled r" "\<not> is_working (f r)" for r
    using assms(2) by (simp_all add: closes_def same_allocation_def)
  have "map pd_order_id (update_where P f rows) = map pd_order_id rows"
    by (rule map_key_update_where) (simp add: same)
  moreover have "group_filled g (update_where P f rows) = group_filled g rows"
    by (rule group_filled_update_where) (simp add: same)
  ultimately show ?thesis
    using assms(1) by (auto simp: allocated_def members_def set_update_where same split: if_splits)
qed

text \<open>A fill moves what it takes from every working member of the group.\<close>

lemma allocated_fill_other:
  assumes "allocated g Q rows" "p \<in> set rows" "takes_fill p q p'" "pd_oco_group_id p \<noteq> Some g"
  shows "allocated g Q (snd (settle_group db (put_pending rows p') p' terminal))"
proof -
  from assms(2) obtain xs ys where rows: "rows = xs @ p # ys" by (meson split_list)
  have put: "put_pending rows p' = xs @ p' # ys"
    using assms(1,3) unfolding rows by (intro put_pending_split) (auto simp: allocated_def takes_fill_def)
  have grp: "pd_oco_group_id p' = pd_oco_group_id p" "pd_order_id p' = pd_order_id p"
    using assms(3) by (simp_all add: takes_fill_def)
  have kept: "members g (update_where (sibling_of p') f zs) = members g zs"
    if "\<And>r. pd_oco_group_id (f r) = pd_oco_group_id r" for f zs
    using assms(4) grp that by (induction zs) (auto simp: members_def update_where_def sibling_of_def)
  have ids: "map pd_order_id (update_where (sibling_of p') f zs) = map pd_order_id zs"
    if "\<And>r. pd_order_id (f r) = pd_order_id r" for f zs
    using that by (rule map_key_update_where)
  let ?rows' = "snd (settle_group db (put_pending rows p') p' terminal)"
  have "members g ?rows' = members g rows" "map pd_order_id ?rows' = map pd_order_id rows"
    using assms(4) grp unfolding put
    by (simp_all add: settle_group_def cancel_oco_siblings_def resize_oco_siblings_def kept ids)
      (auto simp: members_def rows)
  with assms(1) show ?thesis
    by (simp add: allocated_def group_filled_def)
qed

lemma allocated_fill_group:
  assumes inv: "allocated g Q rows" and p: "p \<in> set rows" "is_working p" and fill: "takes_fill p q p'"
    and g: "pd_oco_group_id p = Some g" "g \<noteq> []"
  shows "allocated g Q (snd (settle_group db (put_pending rows p') p' (\<not> is_working p')))"
proof -
  from p(1) obtain xs ys where rows: "rows = xs @ p # ys" by (meson split_list)
  have dist: "distinct (map pd_order_id (xs @ p' # ys))" and ids: "pd_order_id p' = pd_order_id p"
    using inv fill by (auto simp: allocated_def rows takes_fill_def)
  have put: "put_pending rows p' = xs @ p' # ys"
    using inv ids unfolding rows by (intro put_pending_split) (auto simp: allocated_def)
  have others: "pd_order_id r \<noteq> pd_order_id p'" if "r \<in> set xs \<union> set ys" for r
  proof -
    have "pd_order_id p' \<notin> pd_order_id ` (set xs \<union> set ys)" using dist by auto
    with that show ?thesis by (metis image_eqI)
  qed
  have left: "pd_quantity p - pd_cumulative_filled p = Q - group_filled g rows"
    using inv p g(1) by (simp add: allocated_def members_def)
  have f: "pd_oco_group_id p' = Some g" "pd_cumulative_filled p' = pd_cumulative_filled p + q" "pd_quantity p' = pd_quantity p"
    using fill g by (simp_all add: takes_fill_def)
  have filled: "group_filled g (xs @ p' # ys) = group_filled g rows + q"
    using g(1) f(1,2) by (simp add: rows)
  show ?thesis
  proof (cases "is_working p'")
    case False
    then have q: "q = Q - group_filled g rows"
      using fill left by (simp add: takes_fill_def)
    let ?f = "\<lambda>r. r\<lparr>pd_status := ''cancelled'', pd_resolved_at := pd_resolved_at p',
               pd_error_message := Some (oco_reason p' None)\<rparr>"
    have after: "snd (settle_group db (put_pending rows p') p' (\<not> is_working p')) =
        update_where (sibling_of p') ?f (xs @ p' # ys)"
      using False g(2) f(1) by (simp add: settle_group_def cancel_oco_siblings_def put)
    have "group_filled g (update_where (sibling_of p') ?f (xs @ p' # ys)) = Q"
      using filled q by (subst group_filled_update_where) simp_all
    moreover have "distinct (map pd_order_id (update_where (sibling_of p') ?f (xs @ p' # ys)))"
      using dist by (subst map_key_update_where) simp_all
    moreover have "\<not> is_working r" if "r \<in> set (members g (update_where (sibling_of p') ?f (xs @ p' # ys)))" for r
    proof -
      from that(1) obtain s where s: "s \<in> set (xs @ p' # ys)" "pd_oco_group_id s = Some g"
        "r = (if sibling_of p' s then ?f s else s)"
        by (rule members_update_where) simp_all
      show ?thesis
      proof (cases "sibling_of p' s")
        case True
        with s(3) show ?thesis by (simp add: is_working_def WORKING_STATUSES_def)
      next
        case no: False
        with s(1,2) f(1) False others have "\<not> is_working s"
          by (auto simp: sibling_of_def)
        with no s(3) show ?thesis by simp
      qed
    qed
    ultimately show ?thesis
      unfolding after by (simp add: allocated_def)
  next
    case True
    let ?f = "\<lambda>r. r\<lparr>pd_quantity := pd_cumulative_filled r + (pd_quantity p' - pd_cumulative_filled p')\<rparr>"
    have after: "snd (settle_group db (put_pending rows p') p' (\<not> is_working p')) =
        update_where (sibling_of p') ?f (xs @ p' # ys)"
      using True g(2) f(1) by (simp add: settle_group_def resize_oco_siblings_def put)
    have total_filled: "group_filled g (update_where (sibling_of p') ?f (xs @ p' # ys)) = group_filled g rows + q"
      using filled by (subst group_filled_update_where) simp_all
    have left': "pd_quantity p' - pd_cumulative_filled p' = Q - (group_filled g rows + q)"
      using left f(2,3) by simp
    have "distinct (map pd_order_id (update_where (sibling_of p') ?f (xs @ p' # ys)))"
      using dist by (subst map_key_update_where) simp_all
    moreover have "group_filled g rows + q \<le> Q"
      using fill left by (simp add: takes_fill_def)
    moreover have "pd_quantity r - pd_cumulative_filled r = Q - (group_filled g rows + q)"
      if "r \<in> set (members g (update_where (sibling_of p') ?f (xs @ p' # ys)))" "is_working r" for r
    proof -
      from that(1) obtain s where s: "s \<in> set (xs @ p' # ys)" "pd_oco_group_id s = Some g"
        "r = (if sibling_of p' s then ?f s else s)"
        by (rule members_update_where) simp_all
      show ?thesis
      proof (cases "sibling_of p' s")
        case True
        with s(3) left' show ?thesis by simp
      next
        case False
        with s f(1) others that(2) have "s = p'"
          by (auto simp: sibling_of_def)
        with False s(3) left' show ?thesis by simp
      qed
    qed
    ultimately show ?thesis
      unfolding after by (simp add: allocated_def total_filled)
  qed
qed

lemma allocated_step: "row_step rows rows' \<Longrightarrow> g \<noteq> [] \<Longrightarrow> allocated g Q rows \<Longrightarrow> allocated g Q rows'"
proof (induction rule: row_step.induct)
  case (touch p rows p')
  then show ?case by (blast intro: allocated_touch)
next
  case (close f rows P)
  then show ?case by (blast intro: allocated_close)
next
  case (fill p rows q p' db)
  then show ?case
    by (cases "pd_oco_group_id p = Some g") (blast intro: allocated_fill_group allocated_fill_other)+
qed

section \<open>The worker refines it\<close>

lemma same_allocation_simps [simp]:
  "same_allocation p p" "same_allocation p (clear_lifecycle_error p') = same_allocation p p'"
  "same_allocation p (advanced_pending p' c) = same_allocation p p'"
  "is_working (clear_lifecycle_error p) = is_working p" "is_working (advanced_pending p c) = is_working p"
  "pd_status (clear_lifecycle_error p) = pd_status p" "pd_status (advanced_pending p c) = pd_status p"
  by (simp_all add: same_allocation_def clear_lifecycle_error_def advanced_pending_def is_working_def)

lemma advanced_allocation [simp]:
  "pd_order_id (advanced_pending p c) = pd_order_id p" "pd_oco_group_id (advanced_pending p c) = pd_oco_group_id p"
  "pd_quantity (advanced_pending p c) = pd_quantity p"
  "pd_cumulative_filled (advanced_pending p c) = pd_cumulative_filled p"
  by (simp_all add: clear_lifecycle_error_def advanced_pending_def)

lemma takes_fill_filled:
  assumes "0 < q" "q \<le> pd_quantity p - pd_cumulative_filled p"
    "terminal \<longleftrightarrow> q = pd_quantity p - pd_cumulative_filled p"
  shows "takes_fill p q (filled_pending (advanced_pending p c) plan exec q terminal c)"
  using assms by (simp add: takes_fill_def filled_pending_def is_working_def WORKING_STATUSES_def Let_def)

lemma put_put [simp]: "pd_order_id p' = pd_order_id p \<Longrightarrow> put_pending (put_pending rows p) p' = put_pending rows p'"
  by (simp add: put_pending_def update_where_def)

lemma close_cancelled:
  "closes (\<lambda>r. r\<lparr>pd_status := ''cancelled'', pd_resolved_at := t, pd_error_message := m\<rparr>)"
  by (simp add: closes_def same_allocation_def is_working_def WORKING_STATUSES_def)

lemma pending_member: "pending_of rows oid = Some p \<Longrightarrow> p \<in> set rows"
  using pending_of_Some by blast

lemma cancel_unprotectable_refines:
  assumes "p \<in> set rows"
  shows "row_step\<^sup>*\<^sup>* rows (snd (cancel_unprotectable_order db (put_pending rows (advanced_pending p c)) (advanced_pending p c) row c reason))"
proof -
  define p' where "p' = advanced_pending p c\<lparr>pd_status := ''cancelled'', pd_resolved_at := Some (cd_ts c),
    pd_error_message := Some (''Cancelled: '' @ reason)\<rparr>"
  have ids: "pd_order_id p' = pd_order_id (advanced_pending p c)" by (simp add: p'_def)
  have alloc: "same_allocation p p'" "\<not> is_working p'"
    by (simp_all add: p'_def same_allocation_def is_working_def WORKING_STATUSES_def)
  have one: "row_step rows (put_pending rows p')"
    using assms alloc by (intro touch) simp_all
  have "row_step (put_pending rows p') (snd (cancel_oco_siblings db' (put_pending rows p') p' m))" for db' m
    by (simp add: cancel_oco_siblings_def close close_cancelled)
  with one have two: "row_step\<^sup>*\<^sup>* rows (snd (cancel_oco_siblings db' (put_pending rows p') p' m))" for db' m
    by (meson converse_rtranclp_into_rtranclp r_into_rtranclp)
  have "snd (cancel_unprotectable_order db (put_pending rows (advanced_pending p c)) (advanced_pending p c) row c reason) =
      put_pending rows p' \<or>
    (\<exists>db' m. snd (cancel_unprotectable_order db (put_pending rows (advanced_pending p c)) (advanced_pending p c) row c reason) =
      snd (cancel_oco_siblings db' (put_pending rows p') p' m))"
    using ids unfolding cancel_unprotectable_order_def Let_def p'_def[symmetric] by (simp, blast)
  with one two show ?thesis by (metis r_into_rtranclp)
qed

lemma consume_candle_refines:
  assumes "consume_candle participation lc broker oid c = (r, lc')"
  shows "row_step\<^sup>*\<^sup>* (lc_pending lc) (lc_pending lc')"
  using assms
proof (cases rule: consume_candle_cases)
  case idle
  then show ?thesis by simp
next
  case (advanced p)
  have "row_step (lc_pending lc) (lc_pending lc')"
    unfolding advanced(5) using pending_member[OF advanced(1)] by (rule touch) simp_all
  then show ?thesis by (rule r_into_rtranclp)
next
  case (cancelled p row reason)
  then show ?thesis
    using cancel_unprotectable_refines pending_member by simp
next
  case (filled p plan b exec db q remaining)
  let ?p' = "filled_pending (advanced_pending p c) plan exec q (q = remaining) c"
  have takes: "takes_fill p q ?p'"
    using filled(5-7) by (intro takes_fill_filled) simp_all
  then have "\<not> is_working ?p' \<longleftrightarrow> q = remaining"
    using filled(5) by (simp add: takes_fill_def)
  then have "row_step (lc_pending lc) (lc_pending lc')"
    using fill[OF pending_member[OF filled(1)] filled(2) takes, of db] filled(8) by simp
  then show ?thesis by (rule r_into_rtranclp)
qed

lemma drain_projection_refines:
  assumes "drain_projection deliver lc oid = (r, lc')"
  shows "row_step\<^sup>*\<^sup>* (lc_pending lc) (lc_pending lc')"
  using assms
proof (cases rule: drain_projection_cases)
  case idle
  then show ?thesis by simp
next
  case (drained p)
  let ?p' = "clear_lifecycle_error (p\<lparr>pd_projection_exec_id := None\<rparr>)"
  have "row_step (lc_pending lc) (put_pending (lc_pending lc) ?p')"
    using pending_member[OF drained(1)]
    by (rule touch) (simp_all add: same_allocation_def is_working_def clear_lifecycle_error_def)
  with drained(4) show ?thesis by simp
qed

lemma process_next_bar_refines:
  assumes "process_next_bar participation deliver lc oid = (r, lc')"
  shows "row_step\<^sup>*\<^sup>* (lc_pending lc) (lc_pending lc')"
  using assms
proof (cases rule: process_next_bar_cases)
  case idle
  then show ?thesis by simp
next
  case (projected p broker res)
  then show ?thesis by (intro drain_projection_refines)
next
  case (unfilled p row c broker go)
  then show ?thesis by (intro consume_candle_refines)
next
  case (filled p row c broker plan b lc1 b' res)
  have one: "row_step\<^sup>*\<^sup>* (lc_pending lc) (lc_pending lc1)"
    using filled(7) by (rule consume_candle_refines)
  show ?thesis
  proof (cases res)
    case (Inl e)
    with filled(9) one show ?thesis by simp
  next
    case (Inr u)
    with filled(9) obtain res' where "drain_projection deliver (put_broker lc1 p b') oid = (res', lc')" by auto
    from drain_projection_refines[OF this] one show ?thesis by simp
  qed
qed

lemma advance_order_refines:
  "advance_order participation deliver lc oid n = (n', err, lc') \<Longrightarrow> row_step\<^sup>*\<^sup>* (lc_pending lc) (lc_pending lc')"
proof (induction participation deliver lc oid n rule: advance_order.induct)
  case (1 participation deliver lc oid n)
  obtain r lc1 where run: "process_next_bar participation deliver lc oid = (r, lc1)" by (meson surj_pair)
  note step = process_next_bar_refines[OF run]
  show ?case
  proof (cases "r = Inr True \<and> \<not> order_is_terminal lc1 oid")
    case True
    with 1 run have "row_step\<^sup>*\<^sup>* (lc_pending lc1) (lc_pending lc')"
      by (simp add: advance_order.simps[of participation deliver lc oid n])
    with step show ?thesis by (rule rtranclp_trans)
  next
    case False
    with 1(2) run have "lc' = lc1"
      by (auto simp: advance_order.simps[of participation deliver lc oid n] split: sum.splits if_splits)
    with step show ?thesis by simp
  qed
qed

lemma record_order_failure_refines: "row_step\<^sup>*\<^sup>* (lc_pending lc) (lc_pending (record_order_failure lc oid e))"
proof (cases "pending_of (lc_pending lc) oid")
  case None
  then show ?thesis by (simp add: record_order_failure_def)
next
  case (Some p)
  have "row_step (lc_pending lc) (put_pending (lc_pending lc) (p\<lparr>pd_error_message := Some (failure_message e)\<rparr>))"
    using pending_member[OF Some] by (rule touch) (simp_all add: same_allocation_def is_working_def)
  with Some show ?thesis by (simp add: record_order_failure_def)
qed

lemma advance_partition_refines:
  assumes "advance_partition participation deliver held lc oid n = (n', err, lc')"
  shows "row_step\<^sup>*\<^sup>* (lc_pending lc) (lc_pending lc')"
proof (cases "\<exists>user account. order_partition lc oid = Inr (user, account) \<and> \<not> held user account")
  case True
  with assms show ?thesis by (auto simp: advance_partition_def intro: advance_order_refines)
next
  case False
  with assms have "lc' = lc"
    by (cases "order_partition lc oid") (auto simp: advance_partition_def split: if_splits)
  then show ?thesis by simp
qed

lemma process_orders_refines:
  "process_orders participation deliver held lc oids n failures = (r, lc') \<Longrightarrow>
   row_step\<^sup>*\<^sup>* (lc_pending lc) (lc_pending lc')"
proof (induction oids arbitrary: lc n failures)
  case Nil
  then show ?case by simp
next
  case (Cons oid oids)
  obtain n1 err lc1 where run: "advance_partition participation deliver held lc oid n = (n1, err, lc1)"
    by (metis surj_pair)
  note one = advance_partition_refines[OF run]
  show ?case
  proof (cases err)
    case None
    with Cons.prems run have "process_orders participation deliver held lc1 oids n1 failures = (r, lc')" by simp
    from Cons.IH[OF this] one show ?thesis by (rule rtranclp_trans[rotated])
  next
    case (Some e)
    let ?lc2 = "record_order_failure lc1 oid e"
    note two = rtranclp_trans[OF one record_order_failure_refines[of lc1 oid e]]
    show ?thesis
    proof (cases "order_scoped e \<and> \<not> order_is_terminal ?lc2 oid")
      case True
      with Cons.prems run Some have "process_orders participation deliver held ?lc2 oids n1
          (failures @ [oid @ '' ('' @ error_class e @ '')'']) = (r, lc')" by (simp add: Let_def)
      from Cons.IH[OF this] two show ?thesis by (rule rtranclp_trans[rotated])
    next
      case False
      with Cons.prems run Some have "lc' = lc1 \<or> lc' = ?lc2" by (auto simp: Let_def split: if_splits)
      with one two show ?thesis by auto
    qed
  qed
qed

lemma process_once_refines:
  assumes "process_once fence participation deliver held lc = (r, health, lc')"
  shows "row_step\<^sup>*\<^sup>* (lc_pending lc) (lc_pending lc')"
proof -
  obtain r' lc1 where run: "process_orders participation deliver held lc (eligible_order_ids lc) 0 [] = (r', lc1)"
    by (meson surj_pair)
  then have "lc' = lc \<or> lc' = lc1"
    using assms by (cases r') (auto simp: process_once_def split: if_splits)
  with process_orders_refines[OF run] show ?thesis by auto
qed

lemma one_row_Some: "one_row msg P rows = Inr (Some p) \<Longrightarrow> p \<in> set rows \<and> P p"
  using filter_eq_ConsD[of P rows] by (auto simp: one_row_def filter_eq_Cons_iff split: list.splits)

lemma mark_terminal_refines:
  assumes "mark_terminal rows oid status reason now = Inr (b, rows')" "status \<in> set TERMINAL_STATUSES"
  shows "row_step\<^sup>*\<^sup>* rows rows'"
proof -
  from assms(1) obtain found where found: "one_row ''Pending order could not be marked terminal'' (matches_id oid) rows = Inr found"
    by (auto simp: mark_terminal_def res_simps)
  show ?thesis
  proof (cases found)
    case None
    with found assms(1) show ?thesis by (simp add: mark_terminal_def)
  next
    case (Some p)
    let ?p' = "p\<lparr>pd_status := status, pd_error_message :=
      (case reason of Some (c # cs) \<Rightarrow> reason | _ \<Rightarrow> pd_error_message p), pd_resolved_at := Some now\<rparr>"
    have "p \<in> set rows" using one_row_Some found Some by blast
    then have "row_step rows (put_pending rows ?p')"
      by (rule touch) (use assms(2) in \<open>auto simp: same_allocation_def is_working_def TERMINAL_STATUSES_def WORKING_STATUSES_def\<close>)
    with Some found assms(1) show ?thesis by (auto simp: mark_terminal_def Let_def res_simps)
  qed
qed

lemma cancel_working_refines:
  assumes "cancel_working db rows oid reason now = Inr (b, db', rows')"
  shows "row_step\<^sup>*\<^sup>* rows rows'"
proof -
  from assms(1) obtain found where found: "one_row ''Pending order could not be cancelled'' (matches_id oid) rows = Inr found"
    by (auto simp: cancel_working_def res_simps)
  show ?thesis
  proof (cases found)
    case None
    with found assms show ?thesis by (simp add: cancel_working_def)
  next
    case (Some p)
    let ?p' = "p\<lparr>pd_status := ''cancelled'', pd_error_message := Some reason, pd_resolved_at := Some now\<rparr>"
    have "p \<in> set rows" using one_row_Some found Some by blast
    then have "row_step rows (put_pending rows ?p')"
      by (rule touch) (simp_all add: same_allocation_def is_working_def WORKING_STATUSES_def)
    with Some found assms show ?thesis by (auto simp: cancel_working_def r_into_rtranclp split: if_splits)
  qed
qed

end
