(* ===== verification/Canonical_Ledger.thy ===== *)
theory Canonical_Ledger
  imports Canonical_Store "HOL-Library.Sublist"
begin

text \<open>
  Properties of the order management ledger: executions are only ever appended and are unique for
  an order and a trade, a filled order stays filled, applying a broker result again changes nothing,
  and a key creates one order however many writers race.
\<close>

section \<open>Fills\<close>

abbreviation ref_text :: "string option \<Rightarrow> string" where
  "ref_text r \<equiv> py_strip (case r of None \<Rightarrow> [] | Some x \<Rightarrow> x)"

definition wf_fill :: "exact_fill \<Rightarrow> bool" where
  "wf_fill f \<longleftrightarrow> py_strip (bf_order_id (fst f)) = bf_order_id (fst f) \<and> bf_order_id (fst f) \<noteq> [] \<and>
     py_upper (bf_commission_currency (fst f)) = bf_commission_currency (fst f)"

lemma broker_fill_init_wf:
  "broker_fill_init tid oid sy sd q p c ccy ts v = Inr f \<Longrightarrow> wf_fill (f, prov)"
  by (auto simp: broker_fill_init_def res_bind_Inr_iff fill_text_def wf_fill_def split: if_splits)

lemma check_fill_Inr:
  assumes "check_fill sd sy st f = Inr st'"
  shows "provenance_ok (snd f)" "bf_side (fst f) = sd"
    "normalize_product_symbol (bf_symbol (fst f)) = normalize_product_symbol sy"
    "bf_trade_id (fst f) \<notin> set (fs_seen st)" "fs_seen st' = bf_trade_id (fst f) # fs_seen st"
    "fs_inserted st' = fs_inserted st" "fs_executions st' = fs_executions st" "fs_next st' = fs_next st"
    "ref_text (fs_ref st) = [] \<Longrightarrow> fs_ref st' = Some (bf_order_id (fst f))"
    "ref_text (fs_ref st) \<noteq> [] \<Longrightarrow> fs_ref st' = fs_ref st \<and> ref_text (fs_ref st) = bf_order_id (fst f)"
  using assms by (auto simp: check_fill_def res_bind_Inr_iff Let_def split: if_splits)

definition fill_row :: "int \<Rightarrow> int \<Rightarrow> exact_fill \<Rightarrow> execution_row \<Rightarrow> bool" where
  "fill_row oid n f e \<longleftrightarrow> (\<exists>i q p c.
     canonical_execution_numeric (bf_quantity (fst f)) ''quantity'' True = Inr q \<and>
     canonical_execution_numeric (bf_price (fst f)) ''price'' True = Inr p \<and>
     canonical_execution_numeric (bf_commission (fst f)) ''commission'' False = Inr c \<and>
     e = execution_of i oid n q p c f)"

definition recorded :: "int \<Rightarrow> int \<Rightarrow> exact_fill \<Rightarrow> execution_row list \<Rightarrow> bool" where
  "recorded oid n f es \<longleftrightarrow> (\<exists>old new.
     find (\<lambda>e. ex_order e = oid \<and> ex_trade e = bf_trade_id (fst f)) es = Some old \<and>
     fill_row oid n f new \<and> same_execution old new)"

lemma find_append_Some: "find P xs = Some x \<Longrightarrow> find P (xs @ ys) = Some x"
  by (induction xs) auto

lemma find_append_None: "find P xs = None \<Longrightarrow> find P (xs @ ys) = find P ys"
  by (induction xs) auto

lemma apply_fill_cases:
  assumes "apply_fill oid n sd sy st f = Inr st'"
  obtains st1 where "check_fill sd sy st f = Inr st1" "st' = st1" "recorded oid n f (fs_executions st)"
  | st1 new where "check_fill sd sy st f = Inr st1" "fill_row oid n f new" "ex_id new = fs_next st"
      "find (\<lambda>e. ex_order e = oid \<and> ex_trade e = bf_trade_id (fst f)) (fs_executions st) = None"
      "st' = st1\<lparr>fs_inserted := fs_inserted st @ [fs_next st],
                 fs_executions := fs_executions st @ [new], fs_next := fs_next st + 1\<rparr>"
proof -
  obtain st1 q p c where c: "check_fill sd sy st f = Inr st1"
      and n: "canonical_execution_numeric (bf_quantity (fst f)) ''quantity'' True = Inr q"
        "canonical_execution_numeric (bf_price (fst f)) ''price'' True = Inr p"
        "canonical_execution_numeric (bf_commission (fst f)) ''commission'' False = Inr c"
    using assms unfolding apply_fill_def res_bind_Inr_iff by blast
  note same = check_fill_Inr(6-8) [OF c]
  have row: "fill_row oid n f (execution_of (fs_next st) oid n q p c f)"
    unfolding fill_row_def using n by blast
  show thesis
  proof (cases "find (\<lambda>e. ex_order e = oid \<and> ex_trade e = bf_trade_id (fst f)) (fs_executions st)")
    case None
    then show thesis
      using that(2) [OF c row _ None] assms by (simp add: apply_fill_def c n same Let_def execution_of_def)
  next
    case (Some old)
    then show thesis
      using that(1) [OF c] row assms
      by (auto simp: apply_fill_def c n same Let_def recorded_def split: if_splits)
  qed
qed

lemma fill_row_key [simp]:
  "fill_row oid n f e \<Longrightarrow> ex_order e = oid" "fill_row oid n f e \<Longrightarrow> ex_trade e = bf_trade_id (fst f)"
  by (auto simp: fill_row_def execution_of_def)

lemma same_execution_row:
  "wf_fill f \<Longrightarrow> fill_row oid n f e \<Longrightarrow> same_execution e e"
  by (auto simp: same_execution_def wf_fill_def fill_row_def execution_of_def)

lemma recorded_append: "recorded oid n f es \<Longrightarrow> recorded oid n f (es @ es')"
  by (auto simp: recorded_def dest: find_append_Some)

definition rows_ok :: "execution_row list \<Rightarrow> int \<Rightarrow> bool" where
  "rows_ok es next_id \<longleftrightarrow> distinct (map (\<lambda>e. (ex_order e, ex_trade e)) es) \<and>
     distinct (map ex_id es) \<and> (\<forall>e \<in> set es. ex_id e < next_id)"

lemma apply_fill_effect:
  assumes a: "apply_fill oid n sd sy st f = Inr st'"
  shows "prefix (fs_executions st) (fs_executions st') \<and> fs_next st \<le> fs_next st' \<and>
    (rows_ok (fs_executions st) (fs_next st) \<longrightarrow> rows_ok (fs_executions st') (fs_next st')) \<and>
    (wf_fill f \<longrightarrow> recorded oid n f (fs_executions st')) \<and>
    (\<forall>e \<in> set (fs_executions st'). e \<in> set (fs_executions st) \<or> ex_order e = oid)"
  using a
proof (cases rule: apply_fill_cases)
  case (1 st1)
  then show ?thesis using check_fill_Inr(6-8) [OF 1(1)] by simp
next
  case (2 st1 new)
  have "rows_ok (fs_executions st) (fs_next st) \<longrightarrow>
        rows_ok (fs_executions st @ [new]) (fs_next st + 1)"
    using 2(2-4) by (auto simp: rows_ok_def find_None_iff less_le)
  moreover have "wf_fill f \<longrightarrow> recorded oid n f (fs_executions st @ [new])"
    using 2(2,4) same_execution_row [OF _ 2(2)] unfolding recorded_def
    by (auto simp: find_append_None intro!: exI [of _ new])
  ultimately show ?thesis using 2(2,5) by auto
qed

lemma apply_fills_effect:
  assumes "apply_fills oid n sd sy st fs = Inr st'" "\<forall>f \<in> set fs. wf_fill f"
  shows "prefix (fs_executions st) (fs_executions st') \<and> fs_next st \<le> fs_next st' \<and>
    (rows_ok (fs_executions st) (fs_next st) \<longrightarrow> rows_ok (fs_executions st') (fs_next st')) \<and>
    (\<forall>f \<in> set fs. recorded oid n f (fs_executions st')) \<and>
    (\<forall>e \<in> set (fs_executions st'). e \<in> set (fs_executions st) \<or> ex_order e = oid)"
  using assms
proof (induction fs arbitrary: st)
  case (Cons f fs)
  obtain st1 where 1: "apply_fill oid n sd sy st f = Inr st1" and 2: "apply_fills oid n sd sy st1 fs = Inr st'"
    using Cons.prems(1) by (auto simp: res_bind_Inr_iff)
  note e = apply_fill_effect [OF 1]
  have IH: "prefix (fs_executions st1) (fs_executions st') \<and> fs_next st1 \<le> fs_next st' \<and>
    (rows_ok (fs_executions st1) (fs_next st1) \<longrightarrow> rows_ok (fs_executions st') (fs_next st')) \<and>
    (\<forall>f \<in> set fs. recorded oid n f (fs_executions st')) \<and>
    (\<forall>e \<in> set (fs_executions st'). e \<in> set (fs_executions st1) \<or> ex_order e = oid)"
    using Cons.IH [OF 2] Cons.prems(2) by simp
  have "recorded oid n f (fs_executions st')"
    using e IH Cons.prems(2) recorded_append [of oid n f "fs_executions st1"] by (force simp: prefix_def)
  then show ?case using e IH prefix_order.trans by auto
qed simp

text \<open>Which reference and which trades a run of fills leaves behind.\<close>

lemma apply_fills_refs:
  assumes "apply_fills oid n sd sy st fs = Inr st'" "\<forall>f \<in> set fs. wf_fill f"
  shows "(fs \<noteq> [] \<longrightarrow> ref_text (fs_ref st') \<noteq> []) \<and>
    (ref_text (fs_ref st) \<noteq> [] \<longrightarrow> fs_ref st' = fs_ref st) \<and>
    (\<forall>f \<in> set fs. bf_order_id (fst f) = ref_text (fs_ref st') \<and> provenance_ok (snd f) \<and>
       bf_side (fst f) = sd \<and> bf_trade_id (fst f) \<notin> set (fs_seen st) \<and>
       normalize_product_symbol (bf_symbol (fst f)) = normalize_product_symbol sy) \<and>
    distinct (map (\<lambda>f. bf_trade_id (fst f)) fs)"
  using assms
proof (induction fs arbitrary: st)
  case (Cons f fs)
  obtain st1 where 1: "apply_fill oid n sd sy st f = Inr st1" and 2: "apply_fills oid n sd sy st1 fs = Inr st'"
    using Cons.prems(1) by (auto simp: res_bind_Inr_iff)
  obtain st0 where c: "check_fill sd sy st f = Inr st0" and r: "fs_ref st1 = fs_ref st0" "fs_seen st1 = fs_seen st0"
    using 1 by (cases rule: apply_fill_cases) auto
  note c' = check_fill_Inr [OF c]
  have w: "py_strip (bf_order_id (fst f)) = bf_order_id (fst f)" "bf_order_id (fst f) \<noteq> []"
    using Cons.prems(2) by (auto simp: wf_fill_def)
  have ref1: "ref_text (fs_ref st1) = bf_order_id (fst f)"
    using c'(9,10) w r by (cases "ref_text (fs_ref st) = []") auto
  note IH = Cons.IH [OF 2]
  have IH': "fs_ref st' = fs_ref st1" "\<forall>g \<in> set fs. bf_trade_id (fst g) \<notin> set (fs_seen st1)"
    using IH Cons.prems(2) ref1 w by auto
  show ?case
    using IH IH' ref1 c' r w Cons.prems(2) by auto
qed simp

lemma apply_fill_replay:
  assumes "provenance_ok (snd f)" "bf_side (fst f) = sd"
    "normalize_product_symbol (bf_symbol (fst f)) = normalize_product_symbol sy"
    "bf_trade_id (fst f) \<notin> set (fs_seen st)" "ref_text (fs_ref st) = bf_order_id (fst f)"
    "bf_order_id (fst f) \<noteq> []" "recorded oid n f (fs_executions st)"
  shows "apply_fill oid n sd sy st f = Inr (st\<lparr>fs_seen := bf_trade_id (fst f) # fs_seen st\<rparr>)"
proof -
  have c: "check_fill sd sy st f = Inr (st\<lparr>fs_seen := bf_trade_id (fst f) # fs_seen st\<rparr>)"
    using assms(1-6) by (simp add: check_fill_def Let_def)
  obtain old i q p k where
    "find (\<lambda>e. ex_order e = oid \<and> ex_trade e = bf_trade_id (fst f)) (fs_executions st) = Some old"
    "canonical_execution_numeric (bf_quantity (fst f)) ''quantity'' True = Inr q"
    "canonical_execution_numeric (bf_price (fst f)) ''price'' True = Inr p"
    "canonical_execution_numeric (bf_commission (fst f)) ''commission'' False = Inr k"
    "same_execution old (execution_of i oid n q p k f)"
    using assms(7) unfolding recorded_def fill_row_def by blast
  then show ?thesis
    by (simp add: apply_fill_def c Let_def same_execution_def execution_of_def)
qed

lemma apply_fills_replay:
  assumes "\<forall>f \<in> set fs. recorded oid n f (fs_executions st) \<and> bf_order_id (fst f) = ref_text (fs_ref st) \<and>
      bf_order_id (fst f) \<noteq> [] \<and> provenance_ok (snd f) \<and> bf_side (fst f) = sd \<and>
      normalize_product_symbol (bf_symbol (fst f)) = normalize_product_symbol sy \<and>
      bf_trade_id (fst f) \<notin> set (fs_seen st)"
    and "distinct (map (\<lambda>f. bf_trade_id (fst f)) fs)"
  shows "\<exists>seen. apply_fills oid n sd sy st fs = Inr (st\<lparr>fs_seen := seen\<rparr>)"
  using assms
proof (induction fs arbitrary: st)
  case Nil
  then show ?case by (auto intro: exI [of _ "fs_seen st"])
next
  case (Cons f fs)
  have "apply_fill oid n sd sy st f = Inr (st\<lparr>fs_seen := bf_trade_id (fst f) # fs_seen st\<rparr>)"
    by (rule apply_fill_replay) (use Cons.prems in auto)
  moreover have "\<exists>seen. apply_fills oid n sd sy (st\<lparr>fs_seen := bf_trade_id (fst f) # fs_seen st\<rparr>) fs =
      Inr (st\<lparr>fs_seen := bf_trade_id (fst f) # fs_seen st\<rparr>\<lparr>fs_seen := seen\<rparr>)"
  proof (rule Cons.IH)
    have "bf_trade_id (fst g) \<noteq> bf_trade_id (fst f)" if "g \<in> set fs" for g
    proof
      assume "bf_trade_id (fst g) = bf_trade_id (fst f)"
      then have "bf_trade_id (fst f) \<in> (\<lambda>f. bf_trade_id (fst f)) ` set fs"
        using imageI [OF that, of "\<lambda>f. bf_trade_id (fst f)"] by simp
      then show False using Cons.prems(2) by simp
    qed
    then show "\<forall>g \<in> set fs. recorded oid n g (fs_executions (st\<lparr>fs_seen := bf_trade_id (fst f) # fs_seen st\<rparr>)) \<and>
        bf_order_id (fst g) = ref_text (fs_ref (st\<lparr>fs_seen := bf_trade_id (fst f) # fs_seen st\<rparr>)) \<and>
        bf_order_id (fst g) \<noteq> [] \<and> provenance_ok (snd g) \<and> bf_side (fst g) = sd \<and>
        normalize_product_symbol (bf_symbol (fst g)) = normalize_product_symbol sy \<and>
        bf_trade_id (fst g) \<notin> set (fs_seen (st\<lparr>fs_seen := bf_trade_id (fst f) # fs_seen st\<rparr>))"
      using Cons.prems(1) by (intro ballI) auto
  qed (use Cons.prems in simp)
  ultimately show ?case by simp
qed

section \<open>Orders\<close>

lemma get_row_update:
  "get_row or_id (update_where (\<lambda>r. or_id r = or_id row) (\<lambda>_. row) rows) (or_id row) =
     (case get_row or_id rows (or_id row) of None \<Rightarrow> None | Some _ \<Rightarrow> Some row)"
  by (induction rows) (auto simp: get_row_def update_where_def split: option.splits)

lemma get_row_Some: "get_row key rows i = Some r \<Longrightarrow> key r = i \<and> r \<in> set rows"
  unfolding get_row_def by (induction rows) (auto split: if_splits)

lemma update_where_twice [simp]:
  "update_where P (\<lambda>_. row) (update_where P (\<lambda>_. row) rows) = update_where P (\<lambda>_. row) rows"
  by (simp add: update_where_def)

lemma bind_reference_Inr:
  assumes "bind_reference row result = Inr row'"
  shows "row' = row\<lparr>or_ref := or_ref row'\<rparr>" "or_state row' = or_state row" "or_id row' = or_id row"
    "or_intent row' = or_intent row" "or_settlement row' = or_settlement row"
    "\<And>ref. bor_order_id result = Some ref \<Longrightarrow> ref \<noteq> [] \<Longrightarrow> or_ref row' = Some ref"
    "(\<forall>ref. bor_order_id result = Some ref \<longrightarrow> ref = []) \<Longrightarrow> row' = row"
  using assms by (auto simp: bind_reference_def split: option.splits if_splits)

lemma target_state_again:
  "target_state row result fills persisted = Inr t \<Longrightarrow> fills \<noteq> [] \<or> persisted' = persisted \<Longrightarrow>
   target_state (row'\<lparr>or_state := t\<rparr>) result fills persisted' = Inr t"
  by (auto simp: target_state_def Let_def res_bind_Inr_iff split: if_splits)

lemma fill_instrument_cong:
  "oms_intents db' = oms_intents db \<Longrightarrow> oms_signals db' = oms_signals db \<Longrightarrow>
   oms_instruments db' = oms_instruments db \<Longrightarrow> or_intent row' = or_intent row \<Longrightarrow>
   or_settlement row' = or_settlement row \<Longrightarrow> fill_instrument db' row' instr = fill_instrument db row instr"
  by (cases instr) (simp_all add: fill_instrument_def)

lemma set_order_simps [simp]:
  "oms_executions (set_order db row) = oms_executions db" "oms_next (set_order db row) = oms_next db"
  "oms_intents (set_order db row) = oms_intents db" "oms_signals (set_order db row) = oms_signals db"
  "oms_instruments (set_order db row) = oms_instruments db"
  "oms_orders (set_order db row) = update_where (\<lambda>r. or_id r = or_id row) (\<lambda>_. row) (oms_orders db)"
  by (simp_all add: set_order_def)

lemma apply_broker_result_Inr:
  assumes "apply_broker_result db oid result fills instr = Inr (ids, db')"
  obtains row t row' where "get_row or_id (oms_orders db) oid = Some row"
      "target_state row result fills (has_execution db oid) = Inr t"
      "bind_reference (row\<lparr>or_state := t\<rparr>) result = Inr row'" "check_totals result fills = Inr ()"
      "fills = []" "ids = []" "db' = set_order db row'"
  | row t row' n sd sy st where "get_row or_id (oms_orders db) oid = Some row"
      "target_state row result fills (has_execution db oid) = Inr t"
      "bind_reference (row\<lparr>or_state := t\<rparr>) result = Inr row'" "check_totals result fills = Inr ()"
      "fills \<noteq> []" "fill_instrument db row' instr = Inr (n, sd, sy)"
      "apply_fills oid n sd sy (start_fills db row') fills = Inr st" "ids = fs_inserted st"
      "db' = (set_order db (row'\<lparr>or_ref := fs_ref st\<rparr>))
               \<lparr>oms_executions := fs_executions st, oms_next := fs_next st\<rparr>"
  using assms unfolding apply_broker_result_def
  by (cases "fills = []") (auto simp: res_bind_Inr_iff found_def split: option.splits)

section \<open>Replaying a broker result\<close>

definition wf_result :: "broker_order_result \<Rightarrow> bool" where
  "wf_result result \<longleftrightarrow>
     (case bor_order_id result of None \<Rightarrow> True | Some ref \<Rightarrow> ref = [] \<or> py_strip ref \<noteq> [])"

lemma bind_reference_again:
  assumes "bind_reference row result = Inr row'"
    and "\<And>ref. bor_order_id result = Some ref \<Longrightarrow> ref \<noteq> [] \<Longrightarrow> r = Some ref"
  shows "bind_reference (row'\<lparr>or_ref := r\<rparr>) result = Inr (row'\<lparr>or_ref := r\<rparr>)"
  using assms by (auto simp: bind_reference_def split: option.splits if_splits)

lemma replay_without_fills:
  assumes first: "apply_broker_result db oid result [] instr = Inr (ids, db')"
  shows "apply_broker_result db' oid result [] instr = Inr ([], db')"
proof -
  obtain row t row' where row: "get_row or_id (oms_orders db) oid = Some row"
    and t: "target_state row result [] (has_execution db oid) = Inr t"
    and r: "bind_reference (row\<lparr>or_state := t\<rparr>) result = Inr row'"
    and tot: "check_totals result [] = Inr ()" and db': "db' = set_order db row'"
    using first by (cases rule: apply_broker_result_Inr) auto
  note br = bind_reference_Inr [OF r]
  have oid: "or_id row' = oid" using br(3) get_row_Some [OF row] by simp
  have row'': "get_row or_id (oms_orders db') oid = Some row'"
    using get_row_update [of row' "oms_orders db"] row oid by (simp add: db')
  have st: "row' = row'\<lparr>or_state := t\<rparr>" using br(2) by simp
  have "target_state row' result [] (has_execution db' oid) = Inr t"
    using target_state_again [OF t, of "has_execution db oid" row'] st
    by (simp add: db' has_execution_def)
  moreover have "bind_reference row' result = Inr row'"
    using bind_reference_again [OF r, of "or_ref row'"] br(6) by simp
  ultimately show ?thesis
    using row'' tot st by (simp add: apply_broker_result_def found_def db' set_order_def)
qed

lemma replay_with_fills:
  assumes first: "apply_broker_result db oid result fills instr = Inr (ids, db')"
    and wf: "\<forall>f \<in> set fills. wf_fill f" "wf_result result" and fills: "fills \<noteq> []"
  shows "apply_broker_result db' oid result fills instr = Inr ([], db')"
proof -
  obtain row t row' n sd sy st where row: "get_row or_id (oms_orders db) oid = Some row"
    and t: "target_state row result fills (has_execution db oid) = Inr t"
    and r: "bind_reference (row\<lparr>or_state := t\<rparr>) result = Inr row'"
    and tot: "check_totals result fills = Inr ()"
    and ins: "fill_instrument db row' instr = Inr (n, sd, sy)"
    and st: "apply_fills oid n sd sy (start_fills db row') fills = Inr st"
    and db': "db' = (set_order db (row'\<lparr>or_ref := fs_ref st\<rparr>))
                \<lparr>oms_executions := fs_executions st, oms_next := fs_next st\<rparr>"
    using first fills by (cases rule: apply_broker_result_Inr) auto
  note br = bind_reference_Inr [OF r] and refs = apply_fills_refs [OF st wf(1)]
    and eff = apply_fills_effect [OF st wf(1)]
  define row2 where "row2 = row'\<lparr>or_ref := fs_ref st\<rparr>"
  have oid: "or_id row2 = oid" using br(3) get_row_Some [OF row] by (simp add: row2_def)
  have row'': "get_row or_id (oms_orders db') oid = Some row2"
    using get_row_update [of row2 "oms_orders db"] row oid by (simp add: db' row2_def)
  have st2: "row2 = row2\<lparr>or_state := t\<rparr>" using br(2) by (simp add: row2_def)
  have "target_state row2 result fills (has_execution db' oid) = Inr t"
    using target_state_again [OF t, of "has_execution db' oid" row2] st2 fills by simp
  moreover have "bind_reference row2 result = Inr row2"
    unfolding row2_def
  proof (rule bind_reference_again [OF r])
    fix ref assume ref: "bor_order_id result = Some ref" "ref \<noteq> []"
    then have "or_ref row' = Some ref" "py_strip ref \<noteq> []" using br(6) wf(2) by (auto simp: wf_result_def)
    then show "fs_ref st = Some ref" using refs by (simp add: start_fills_def)
  qed
  moreover have "fill_instrument db' row2 instr = Inr (n, sd, sy)"
    using ins fill_instrument_cong [of db' db row2 row'] by (simp add: db' row2_def)
  moreover have "\<exists>seen. apply_fills oid n sd sy (start_fills db' row2) fills =
      Inr ((start_fills db' row2)\<lparr>fs_seen := seen\<rparr>)"
  proof (rule apply_fills_replay)
    show "distinct (map (\<lambda>f. bf_trade_id (fst f)) fills)" using refs by simp
    show "\<forall>f \<in> set fills. recorded oid n f (fs_executions (start_fills db' row2)) \<and>
        bf_order_id (fst f) = ref_text (fs_ref (start_fills db' row2)) \<and>
        bf_order_id (fst f) \<noteq> [] \<and> provenance_ok (snd f) \<and> bf_side (fst f) = sd \<and>
        normalize_product_symbol (bf_symbol (fst f)) = normalize_product_symbol sy \<and>
        bf_trade_id (fst f) \<notin> set (fs_seen (start_fills db' row2))"
      using refs eff wf(1) by (auto simp: start_fills_def db' row2_def wf_fill_def)
  qed
  moreover have "set_order db' row2 = db'" by (simp add: db' row2_def set_order_def)
  then have "(set_order db' (row2\<lparr>or_ref := fs_ref (start_fills db' row2)\<rparr>))
      \<lparr>oms_executions := fs_executions (start_fills db' row2), oms_next := fs_next (start_fills db' row2)\<rparr> = db'"
    by (simp add: start_fills_def)
  ultimately show ?thesis
    using row'' tot fills st2 [symmetric]
    by (auto simp: apply_broker_result_def found_def start_fills_def)
qed

section \<open>Reachable ledgers\<close>

definition fresh_key :: "oms \<Rightarrow> order_request \<Rightarrow> bool" where
  "fresh_key seen raw \<longleftrightarrow> (\<forall>q k. normalize_request raw = Inr q \<and> rq_key q = Some k \<longrightarrow>
     intent_with_key seen (rq_account q) k = None)"

inductive oms_step :: "oms \<Rightarrow> oms \<Rightarrow> bool" where
  create: "create_order db db raw = Inr (r, db') \<Longrightarrow> oms_step db db'"
| create_race: "create_order seen db raw = Inr (r, db') \<Longrightarrow> fresh_key seen raw \<Longrightarrow> oms_step db db'"
| abort: "abort_pre_submission db oid reason code now = Inr db' \<Longrightarrow> oms_step db db'"
| unknown: "mark_submission_unknown db oid reason now = Inr db' \<Longrightarrow> oms_step db db'"
| applied: "apply_broker_result db oid result fills instr = Inr (ids, db') \<Longrightarrow>
    \<forall>f \<in> set fills. wf_fill f \<Longrightarrow> oms_step db db'"

definition ledger_ok :: "oms \<Rightarrow> bool" where
  "ledger_ok db \<longleftrightarrow> rows_ok (oms_executions db) (oms_next db) \<and>
     distinct (map or_id (oms_orders db)) \<and> (\<forall>row \<in> set (oms_orders db). or_id row < oms_next db \<and> or_intent row < oms_next db) \<and>
     distinct (map oi_id (oms_intents db)) \<and> (\<forall>i \<in> set (oms_intents db). oi_id i < oms_next db) \<and>
     distinct (map (\<lambda>i. (oi_account i, oi_key i)) (filter (\<lambda>i. oi_key i \<noteq> None) (oms_intents db)))"

text \<open>What a step keeps: executions are a prefix, and filled orders stay filled.\<close>

definition filled_order :: "oms \<Rightarrow> int \<Rightarrow> bool" where
  "filled_order db oid \<longleftrightarrow> (\<exists>row \<in> set (oms_orders db). or_id row = oid \<and> or_state row = ''filled'')"

definition extends :: "oms \<Rightarrow> oms \<Rightarrow> bool" where
  "extends db db' \<longleftrightarrow> prefix (oms_executions db) (oms_executions db') \<and>
     (\<forall>oid. filled_order db oid \<longrightarrow> filled_order db' oid)"

lemma extends_refl: "extends db db"
  by (simp add: extends_def)

lemma extends_trans: "extends a b \<Longrightarrow> extends b c \<Longrightarrow> extends a c"
  unfolding extends_def using prefix_order.trans by blast

lemma set_order_ok:
  assumes ok: "ledger_ok db" and "get_row or_id (oms_orders db) (or_id row) = Some old"
    "or_intent row = or_intent old"
  shows "ledger_ok (set_order db row)"
proof -
  have "or_intent row < oms_next db" using assms get_row_Some [OF assms(2)] by (simp add: ledger_ok_def)
  moreover
  have "map or_id (update_where (\<lambda>r. or_id r = or_id row) (\<lambda>_. row) (oms_orders db)) = map or_id (oms_orders db)"
    by (auto simp: update_where_def)
  ultimately show ?thesis using ok by (auto simp: ledger_ok_def set_update_where)
qed

lemma set_order_extends:
  assumes "distinct (map or_id (oms_orders db))" "get_row or_id (oms_orders db) (or_id row) = Some old"
    "or_state old = ''filled'' \<longrightarrow> or_state row = ''filled''"
  shows "extends db (set_order db row)"
proof -
  have "r = old" if "r \<in> set (oms_orders db)" "or_id r = or_id row" for r
    using assms(1) that get_row_Some [OF assms(2)] by (metis (no_types, lifting) distinct_map inj_onD)
  note same = this
  have "filled_order (set_order db row) oid" if fo: "filled_order db oid" for oid
  proof -
    obtain r where r: "r \<in> set (oms_orders db)" "or_id r = oid" "or_state r = ''filled''"
      using fo by (auto simp: filled_order_def)
    let ?r' = "if or_id r = or_id row then row else r"
    have "?r' \<in> set (oms_orders (set_order db row))" using r(1) by (auto simp: set_update_where)
    moreover have "or_id ?r' = oid \<and> or_state ?r' = ''filled''" using r same [OF r(1)] assms(3) by auto
    ultimately show ?thesis unfolding filled_order_def by blast
  qed
  then show ?thesis by (simp add: extends_def)
qed

lemma set_intent_ok:
  assumes "ledger_ok db" "get_row oi_id (oms_intents db) (oi_id i) = Some old"
    "oi_account i = oi_account old" "oi_key i = oi_key old"
  shows "ledger_ok (set_intent db i)"
proof -
  have eq: "r = old" if "r \<in> set (oms_intents db)" "oi_id r = oi_id i" for r
    using assms(1,2) that get_row_Some [OF assms(2)] unfolding ledger_ok_def
    by (metis (no_types, lifting) distinct_map inj_onD)
  let ?upd = "update_where (\<lambda>r. oi_id r = oi_id i) (\<lambda>_. i)"
  have ids: "map oi_id (?upd (oms_intents db)) = map oi_id (oms_intents db)"
    by (auto simp: update_where_def)
  have keys: "map (\<lambda>i. (oi_account i, oi_key i)) (filter (\<lambda>i. oi_key i \<noteq> None) (?upd is)) =
        map (\<lambda>i. (oi_account i, oi_key i)) (filter (\<lambda>i. oi_key i \<noteq> None) is)"
    if "set is \<subseteq> set (oms_intents db)" for "is"
    using that eq assms(3,4) by (induction "is") (auto simp: update_where_def)
  show ?thesis
    using assms(1) ids keys [of "oms_intents db"]
    by (auto simp: ledger_ok_def set_intent_def set_update_where)
qed

lemma set_intent_extends: "extends db (set_intent db i)"
  by (simp add: extends_def set_intent_def filled_order_def)

lemma set_intent_simps [simp]:
  "oms_orders (set_intent db i) = oms_orders db" "oms_executions (set_intent db i) = oms_executions db"
  by (simp_all add: set_intent_def)

lemma edit_ok:
  assumes "ledger_ok db" "get_row oi_id (oms_intents db) (oi_id i) = Some i0"
    "oi_account i = oi_account i0" "oi_key i = oi_key i0"
    "get_row or_id (oms_orders db) (or_id row) = Some row0"
    "or_state row0 = ''filled'' \<longrightarrow> or_state row = ''filled''" "or_intent row = or_intent row0"
  shows "ledger_ok (set_order (set_intent db i) row) \<and> extends db (set_order (set_intent db i) row)"
proof
  show "ledger_ok (set_order (set_intent db i) row)"
    using set_intent_ok [OF assms(1-4)] assms(5,7) by (intro set_order_ok) simp_all
  have "extends (set_intent db i) (set_order (set_intent db i) row)"
    using assms(1,5,6) by (intro set_order_extends) (auto simp: ledger_ok_def)
  then show "extends db (set_order (set_intent db i) row)"
    using set_intent_extends extends_trans by blast
qed

lemma abort_ok:
  assumes "abort_pre_submission db oid reason code now = Inr db'" "ledger_ok db"
  shows "ledger_ok db' \<and> extends db db'"
proof -
  obtain row i pl where row: "get_row or_id (oms_orders db) oid = Some row"
    and i: "get_row oi_id (oms_intents db) (or_intent row) = Some i" and st: "or_state row = ''new''"
    and db': "db' = set_order (set_intent db (i\<lparr>oi_payload := pl, oi_status := ''rejected''\<rparr>))
                      (row\<lparr>or_state := ''rejected''\<rparr>)"
    using assms(1)
    by (auto simp: abort_pre_submission_def res_bind_Inr_iff found_def Let_def split: option.splits)
  show ?thesis unfolding db'
    by (rule edit_ok [OF assms(2), where ?i0.0 = i and ?row0.0 = row])
      (use get_row_Some [OF row] get_row_Some [OF i] row i st in auto)
qed

lemma unknown_ok:
  assumes "mark_submission_unknown db oid reason now = Inr db'" "ledger_ok db"
  shows "ledger_ok db' \<and> extends db db'"
proof -
  obtain row i pl where row: "get_row or_id (oms_orders db) oid = Some row"
    and i: "get_row oi_id (oms_intents db) (or_intent row) = Some i"
    and st: "or_state row \<in> set [''new'', ''submission_unknown'']"
    and db': "db' = set_order (set_intent db (i\<lparr>oi_payload := pl\<rparr>))
                      (row\<lparr>or_state := ''submission_unknown''\<rparr>)"
    using assms(1)
    by (auto simp: mark_submission_unknown_def res_bind_Inr_iff found_def Let_def split: option.splits)
  show ?thesis unfolding db'
    by (rule edit_ok [OF assms(2), where ?i0.0 = i and ?row0.0 = row])
      (use get_row_Some [OF row] get_row_Some [OF i] row i st in auto)
qed

lemma find_Some: "find P xs = Some x \<Longrightarrow> x \<in> set xs \<and> P x"
  by (induction xs) (auto split: if_splits)

lemma get_row_unique: "distinct (map key rows) \<Longrightarrow> r \<in> set rows \<Longrightarrow> get_row key rows (key r) = Some r"
  unfolding get_row_def by (induction rows) auto

lemma existing_ok:
  assumes "existing_order_ref db i q b = Inr (r, db')" "ledger_ok db" "i \<in> set (oms_intents db)"
  shows "ledger_ok db' \<and> extends db db'"
proof -
  obtain row where row: "row \<in> set (oms_orders db)" "or_intent row = oi_id i"
    and cases: "db' = db \<or> (or_state row = ''rejected'' \<and> (\<exists>pl. db' =
      set_order (set_intent db (i\<lparr>oi_payload := pl, oi_status := ''routed''\<rparr>)) (row\<lparr>or_state := ''new''\<rparr>)))"
    using assms(1)
    by (auto simp: existing_order_ref_def res_bind_Inr_iff found_def Let_def aborted_def
        split: option.splits if_splits dest!: find_Some)
  from cases show ?thesis
  proof
    assume "db' = db"
    then show ?thesis using assms(2) extends_refl by simp
  next
    assume rej: "or_state row = ''rejected'' \<and> (\<exists>pl. db' =
      set_order (set_intent db (i\<lparr>oi_payload := pl, oi_status := ''routed''\<rparr>)) (row\<lparr>or_state := ''new''\<rparr>))"
    then obtain pl where db': "db' = set_order (set_intent db (i\<lparr>oi_payload := pl, oi_status := ''routed''\<rparr>))
        (row\<lparr>or_state := ''new''\<rparr>)" by blast
    have "get_row oi_id (oms_intents db) (oi_id i) = Some i" "get_row or_id (oms_orders db) (or_id row) = Some row"
      using assms(2,3) row(1) by (auto simp: ledger_ok_def intro: get_row_unique)
    then show ?thesis unfolding db' using rej
      by (intro edit_ok [OF assms(2), where ?i0.0 = i and ?row0.0 = row]) simp_all
  qed
qed

lemma insert_ok:
  assumes "insert_order db q b c = Some (r, db')" "ledger_ok db"
  shows "ledger_ok db' \<and> extends db db'"
proof -
  have free: "\<And>k. rq_key q = Some k \<Longrightarrow> intent_with_key db (rq_account q) k = None"
    and db': "db' = db\<lparr>oms_intents := oms_intents db @ [new_intent db q],
                oms_orders := oms_orders db @ [new_order db q b c], oms_next := oms_next db + 2\<rparr>"
    using assms(1) by (auto simp: insert_order_def split: if_splits)
  have key: "(rq_account q, rq_key q) \<notin> (\<lambda>i. (oi_account i, oi_key i)) ` {i \<in> set (oms_intents db). oi_key i \<noteq> None}"
    using free by (auto simp: intent_with_key_def find_None_iff)
  have "ledger_ok db'"
    using assms(2) key
    by (auto simp: ledger_ok_def db' rows_ok_def new_intent_def new_order_def)
  moreover have "extends db db'" by (auto simp: extends_def db' filled_order_def)
  ultimately show ?thesis ..
qed

lemma create_ok:
  assumes "create_order seen db raw = Inr (r, db')" "ledger_ok db" "seen = db \<or> fresh_key seen raw"
  shows "ledger_ok db' \<and> extends db db'"
proof -
  obtain q b where q: "normalize_request raw = Inr q" and c: "check_references seen q = Inr b"
    "request_client_id q \<noteq> []"
    using assms(1) by (auto simp: create_order_def res_bind_Inr_iff)
  consider i where "existing_order_ref db i q (br_id b) = Inr (r, db')" "i \<in> set (oms_intents db)"
    | "insert_order db q (br_id b) (request_client_id q) = Some (r, db')"
    using assms(1,3) q c
    by (auto simp: create_order_def res_bind_Inr_iff fresh_key_def intent_with_key_def
        split: option.splits dest!: find_Some)
  then show ?thesis
  proof cases
    case 1
    then show ?thesis using existing_ok assms(2) by blast
  next
    case 2
    then show ?thesis using insert_ok assms(2) by blast
  qed
qed

lemma target_state_filled:
  "target_state row result fills persisted = Inr t \<Longrightarrow> or_state row = ''filled'' \<Longrightarrow> t = ''filled''"
  by (auto simp: target_state_def Let_def res_bind_Inr_iff split: if_splits)

lemma applied_ok:
  assumes "apply_broker_result db oid result fills instr = Inr (ids, db')" "\<forall>f \<in> set fills. wf_fill f"
    "ledger_ok db"
  shows "ledger_ok db' \<and> extends db db'"
  using assms(1)
proof (cases rule: apply_broker_result_Inr)
  case (1 row t row')
  note br = bind_reference_Inr [OF 1(3)]
  have "extends db (set_order db row')"
    using assms(3) 1(1) get_row_Some [OF 1(1)] br(2,3) target_state_filled [OF 1(2)]
    by (intro set_order_extends [where old = row]) (auto simp: ledger_ok_def)
  moreover have "ledger_ok (set_order db row')"
    using 1(1) get_row_Some [OF 1(1)] br(3,4) by (intro set_order_ok [OF assms(3)]) auto
  ultimately show ?thesis using 1(7) by simp
next
  case (2 row t row' n sd sy st)
  note br = bind_reference_Inr [OF 2(3)] and eff = apply_fills_effect [OF 2(7) assms(2)]
  let ?row = "row'\<lparr>or_ref := fs_ref st\<rparr>"
  have "extends db (set_order db ?row)"
    using assms(3) 2(1) get_row_Some [OF 2(1)] br(2,3) target_state_filled [OF 2(2)]
    by (intro set_order_extends [where old = row]) (auto simp: ledger_ok_def)
  moreover have "extends (set_order db ?row) db'"
    using eff by (simp add: extends_def 2(9) filled_order_def start_fills_def)
  ultimately have "extends db db'" by (rule extends_trans)
  moreover have "ledger_ok (set_order db ?row)"
    using 2(1) get_row_Some [OF 2(1)] br(3,4) by (intro set_order_ok [OF assms(3)]) auto
  then have "ledger_ok db'"
    using eff by (fastforce simp: ledger_ok_def 2(9) start_fills_def)
  ultimately show ?thesis by blast
qed

lemma oms_step_ok: "oms_step db db' \<Longrightarrow> ledger_ok db \<Longrightarrow> ledger_ok db' \<and> extends db db'"
proof (induction rule: oms_step.induct)
  case (create db raw r db')
  then show ?case using create_ok by simp
next
  case (create_race seen db raw r db')
  then show ?case using create_ok by simp
next
  case (abort db oid reason code now db')
  then show ?case by (rule abort_ok)
next
  case (unknown db oid reason now db')
  then show ?case by (rule unknown_ok)
next
  case (applied db oid result fills instr ids db')
  then show ?case by (rule applied_ok)
qed

lemma oms_steps_ok: "oms_step\<^sup>*\<^sup>* db db' \<Longrightarrow> ledger_ok db \<Longrightarrow> ledger_ok db' \<and> extends db db'"
  by (induction rule: rtranclp_induct) (auto intro: extends_refl extends_trans dest: oms_step_ok)

section \<open>Properties\<close>

text \<open>
  C9: The ledger is append-only. From a consistent ledger, whatever orders are created by racing
  writers, aborted, left unknown and updated from broker results, every execution recorded before is
  still there, unchanged and in place; no order has two executions of one trade, no two executions
  share an identity, no account has two intents with one key; and an order that was filled is filled.
\<close>

theorem ledger_append_only:
  assumes "ledger_ok db" "oms_step\<^sup>*\<^sup>* db db'"
  shows "prefix (oms_executions db) (oms_executions db') \<and>
    distinct (map (\<lambda>e. (ex_order e, ex_trade e)) (oms_executions db')) \<and>
    distinct (map ex_id (oms_executions db')) \<and>
    distinct (map (\<lambda>i. (oi_account i, oi_key i)) (filter (\<lambda>i. oi_key i \<noteq> None) (oms_intents db'))) \<and>
    (\<forall>oid. filled_order db oid \<longrightarrow> filled_order db' oid)"
  using oms_steps_ok [OF assms(2,1)] by (auto simp: ledger_ok_def rows_ok_def extends_def)

text \<open>
  C14: Applying a broker result is idempotent. When a result with exact fills has been applied, applying
  the same result and the same fills again inserts no execution and leaves the whole ledger as it is,
  so that a crash between the broker's answer and the acknowledgement can be recovered by replay.
\<close>

theorem broker_result_replay:
  assumes "apply_broker_result db oid result fills instr = Inr (ids, db')"
    and "\<forall>f \<in> set fills. wf_fill f" "wf_result result"
  shows "apply_broker_result db' oid result fills instr = Inr ([], db')"
  using replay_with_fills [OF assms] replay_without_fills assms(1) by (cases "fills = []") auto

definition example_intent :: order_intent where
  "example_intent = \<lparr>broker_code = ''paper'', symbol = ''BTC-USD'', side = ''BUY'', quantity = 2,
     order_type = ''market'', time_in_force = ''gtc'', limit_price = None, stop_price = None,
     metadata = [(''client_order_id'', PStr ''c1'')], currency_context = None,
     canonical_paper_order_id = None, canonical_paper_instrument_id = None\<rparr>"

definition example_request :: order_request where
  "example_request = \<lparr>rq_local_id = ''pre-1'', rq_user = ''u'', rq_account = 1, rq_broker = ''Paper'',
     rq_mode = ''spot'', rq_strategy = ''s'', rq_signal = 5, rq_instr = 7, rq_intent = example_intent,
     rq_settlement = ''usd'', rq_key = Some ''k1'', rq_environment = Some ''paper''\<rparr>"

definition example_oms :: oms where
  "example_oms = \<lparr>oms_accounts = [\<lparr>ac_id = 1, ac_user = ''u'', ac_status = ''connected'',
       ac_broker_id = 2, ac_environment = ''paper''\<rparr>],
     oms_brokers = [\<lparr>br_id = 2, br_code = ''paper''\<rparr>], oms_strategies = [''s''],
     oms_signals = [\<lparr>sg_id = 5, sg_strategy = ''s'', sg_instr = 7, sg_external = ''x''\<rparr>],
     oms_instruments = [\<lparr>in_id = 7, in_settlement = Some ''USD''\<rparr>],
     oms_intents = [], oms_orders = [], oms_executions = [], oms_next = 1\<rparr>"

definition example_result :: broker_order_result where
  "example_result = \<lparr>bor_success = True, bor_order_id = Some ''b1'', bor_status = OS_FILLED,
     bor_filled_quantity = 2, bor_filled_price = Some 100, bor_commission = 1,
     bor_commission_currency = Some ''USD'', bor_error_message = None, bor_error_code = None\<rparr>"

definition example_fills :: "exact_fill list" where
  "example_fills = [(\<lparr>bf_trade_id = ''t1'', bf_order_id = ''b1'', bf_symbol = ''BTC-USD'', bf_side = ''buy'',
     bf_quantity = 2, bf_price = 100, bf_commission = 1, bf_commission_currency = ''USD'',
     bf_timestamp = 3, bf_venue = ''paper''\<rparr>, [])]"

definition example_created :: oms where
  "example_created = snd (projr (create_order example_oms example_oms example_request))"

definition example_filled :: oms where
  "example_filled = snd (projr (apply_broker_result example_created 2 example_result example_fills (Some 7)))"

lemma example_created_ok:
  "create_order example_oms example_oms example_request =
     Inr (fst (projr (create_order example_oms example_oms example_request)), example_created)"
  by code_simp

lemma example_filled_ok:
  "apply_broker_result example_created 2 example_result example_fills (Some 7) = Inr ([3], example_filled)"
  by code_simp

lemma example_fills_wf: "\<forall>f \<in> set example_fills. wf_fill f" "wf_result example_result"
  by code_simp+

theorem ledger_append_only_witness:
  "prefix (oms_executions example_oms) (oms_executions example_filled) \<and>
   map ex_qty (oms_executions example_filled) = [2] \<and>
   distinct (map (\<lambda>e. (ex_order e, ex_trade e)) (oms_executions example_filled))"
proof -
  have "ledger_ok example_oms" by (simp add: ledger_ok_def rows_ok_def example_oms_def)
  moreover have "oms_step example_oms example_created"
    using example_created_ok by (rule oms_step.create)
  moreover have "oms_step example_created example_filled"
    using example_filled_ok example_fills_wf(1) by (rule oms_step.applied)
  ultimately have "prefix (oms_executions example_oms) (oms_executions example_filled) \<and>
      distinct (map (\<lambda>e. (ex_order e, ex_trade e)) (oms_executions example_filled))"
    using ledger_append_only [of example_oms example_filled] rtranclp.rtrancl_into_rtrancl
      r_into_rtranclp [of oms_step] by metis
  moreover have "map ex_qty (oms_executions example_filled) = [2]" by code_simp
  ultimately show ?thesis by blast
qed

theorem broker_result_replay_witness:
  "apply_broker_result example_filled 2 example_result example_fills (Some 7) = Inr ([], example_filled)"
  using broker_result_replay [OF example_filled_ok example_fills_wf] .

section \<open>One order for one key\<close>

lemma normalize_request_Inr:
  assumes "normalize_request raw = Inr q"
  shows "rq_settlement q = py_upper (py_strip (rq_settlement raw))" "rq_local_id q = rq_local_id raw"
    "rq_key raw = Some k \<Longrightarrow> rq_key q = Some (py_strip k)"
  using assms
  by (auto simp: normalize_request_def res_bind_Inr_iff Let_def normalized_idempotency_key_def
      split: if_splits)

lemma created_inserts:
  assumes "create_order db db raw = Inr (r, db')" "fresh_key db raw" "rq_key raw = Some k"
  obtains q b where "normalize_request raw = Inr q" "check_references db q = Inr b"
    "request_client_id q \<noteq> []" "rq_key q = Some (py_strip k)"
    "intent_with_key db (rq_account q) (py_strip k) = None"
    "insert_order db q (br_id b) (request_client_id q) = Some (r, db')"
proof -
  obtain q b where q: "normalize_request raw = Inr q" "check_references db q = Inr b"
    "request_client_id q \<noteq> []"
    using assms(1) by (auto simp: create_order_def res_bind_Inr_iff)
  have k: "rq_key q = Some (py_strip k)" by (rule normalize_request_Inr(3) [OF q(1) assms(3)])
  have n: "intent_with_key db (rq_account q) (py_strip k) = None"
    using assms(2) q(1) k by (auto simp: fresh_key_def)
  show thesis
    by (rule that [OF q k n]) (use assms(1) q k n in \<open>auto simp: create_order_def split: option.splits\<close>)
qed

text \<open>What the ledger holds after the insert, and what a later request finds.\<close>

lemma inserted_rows:
  assumes "insert_order db q b c = Some (r, db')" "ledger_ok db" "rq_key q = Some k"
    "intent_with_key db (rq_account q) k = None"
  shows "intent_with_key db' (rq_account q) k = Some (new_intent db q)"
    "find (\<lambda>row. or_intent row = oms_next db) (oms_orders db') = Some (new_order db q b c)"
    "db' = db\<lparr>oms_intents := oms_intents db @ [new_intent db q],
              oms_orders := oms_orders db @ [new_order db q b c], oms_next := oms_next db + 2\<rparr>"
    "r = \<lparr>ref_intent = oms_next db, ref_order = oms_next db + 1, ref_settlement = rq_settlement q,
          ref_local_id = rq_local_id q, ref_state = ''new'', ref_broker_ref = None, ref_reused = False\<rparr>"
proof -
  show db': "db' = db\<lparr>oms_intents := oms_intents db @ [new_intent db q],
              oms_orders := oms_orders db @ [new_order db q b c], oms_next := oms_next db + 2\<rparr>"
    and "r = \<lparr>ref_intent = oms_next db, ref_order = oms_next db + 1, ref_settlement = rq_settlement q,
          ref_local_id = rq_local_id q, ref_state = ''new'', ref_broker_ref = None, ref_reused = False\<rparr>"
    using assms(1) by (auto simp: insert_order_def split: if_splits)
  show "intent_with_key db' (rq_account q) k = Some (new_intent db q)"
    using assms(3,4) by (simp add: db' intent_with_key_def find_append_None new_intent_def)
  have "find (\<lambda>row. or_intent row = oms_next db) (oms_orders db) = None"
    using assms(2) by (auto simp: find_None_iff ledger_ok_def)
  then show "find (\<lambda>row. or_intent row = oms_next db) (oms_orders db') = Some (new_order db q b c)"
    by (simp add: db' find_append_None new_order_def)
qed

lemma check_references_cong:
  assumes "oms_accounts db' = oms_accounts db" "oms_brokers db' = oms_brokers db"
    "oms_strategies db' = oms_strategies db" "oms_signals db' = oms_signals db"
    "oms_instruments db' = oms_instruments db"
  shows "check_references db' q = check_references db q"
  using assms by (simp add: check_references_def validated_account_and_broker_def)

lemma new_rows_same_request:
  assumes "rq_settlement q = py_upper (py_strip s)"
  shows "same_request (new_intent db q) (new_order db q b c) q b"
  using assms by (simp add: same_request_def new_intent_def new_order_def)

text \<open>
  C39: A key creates one order. In a well-formed ledger, when a request with a local id and an idempotency
  key that its account has not used yet has created an order, the same request made again, whether it
  starts now or had already looked for the key before the order was committed, returns that order as
  reused and changes nothing.
\<close>

theorem one_order_per_key:
  assumes "ledger_ok db" "create_order db db raw = Inr (r, db')" "fresh_key db raw"
    and "rq_key raw = Some k" "py_strip (rq_local_id raw) \<noteq> []"
  shows "\<exists>r'. create_order db' db' raw = Inr (r', db') \<and> create_order db db' raw = Inr (r', db') \<and>
     ref_order r' = ref_order r \<and> ref_intent r' = ref_intent r \<and> ref_reused r' \<and> \<not> ref_reused r"
proof -
  obtain q b where q: "normalize_request raw = Inr q" and b: "check_references db q = Inr b"
    and c: "request_client_id q \<noteq> []" and k: "rq_key q = Some (py_strip k)"
    and n: "intent_with_key db (rq_account q) (py_strip k) = None"
    and ins: "insert_order db q (br_id b) (request_client_id q) = Some (r, db')"
    using assms(2,3,4) by (rule created_inserts)
  note rows = inserted_rows [OF ins assms(1) k n] and nq = normalize_request_Inr [OF q]
  have b': "check_references db' q = Inr b" using b check_references_cong [of db' db q] by (simp add: rows(3))
  have "existing_order_ref db' (new_intent db q) q (br_id b) =
      Inr (\<lparr>ref_intent = oms_next db, ref_order = oms_next db + 1, ref_settlement = rq_settlement q,
            ref_local_id = py_strip (rq_local_id q), ref_state = ''new'', ref_broker_ref = None,
            ref_reused = True\<rparr>, db')" (is "_ = Inr (?r, db')")
    using rows(2) new_rows_same_request [OF nq(1)] assms(5) nq(2)
    by (simp add: existing_order_ref_def found_def aborted_def new_intent_def new_order_def
        request_payload_def intent_payload_def dict_get_def)
  moreover have "insert_order db' q (br_id b) (request_client_id q) = None"
    using rows(1) k by (simp add: insert_order_def)
  ultimately have "create_order db' db' raw = Inr (?r, db')" "create_order db db' raw = Inr (?r, db')"
    using q b b' c k n rows(1) by (simp_all add: create_order_def)
  then show ?thesis using rows(4) by (intro exI [of _ ?r]) simp
qed

theorem one_order_per_key_witness:
  "\<exists>r'. create_order example_created example_created example_request = Inr (r', example_created) \<and>
     create_order example_oms example_created example_request = Inr (r', example_created) \<and> ref_reused r'"
proof -
  have "ledger_ok example_oms" by (simp add: ledger_ok_def rows_ok_def example_oms_def)
  moreover have "fresh_key example_oms example_request"
    by (simp add: fresh_key_def intent_with_key_def example_oms_def)
  moreover have "rq_key example_request = Some ''k1''" "py_strip (rq_local_id example_request) \<noteq> []"
    by code_simp+
  ultimately show ?thesis
    using one_order_per_key [OF _ example_created_ok] by blast
qed

section \<open>Replay after an unknown submission\<close>

lemma update_where_last:
  "(\<forall>x \<in> set xs. \<not> Q x) \<Longrightarrow> Q r \<Longrightarrow> update_where Q (\<lambda>_. r') (xs @ [r]) = xs @ [r']"
  by (induction xs) (auto simp: update_where_def)

lemma payload_keys: "map_of (intent_payload i l key) ''submission_unknown'' = None"
  by (simp add: intent_payload_def split: option.splits)

lemma unknown_payload_differs:
  "identity_payload (PDict (dict_set (intent_payload i l key) ''submission_unknown'' memo)) \<noteq>
   identity_payload (PDict (intent_payload i l key))"
proof
  assume "identity_payload (PDict (dict_set (intent_payload i l key) ''submission_unknown'' memo)) =
    identity_payload (PDict (intent_payload i l key))"
  then have "map_of (identity_payload (PDict (dict_set (intent_payload i l key) ''submission_unknown'' memo)))
      ''submission_unknown'' = map_of (identity_payload (PDict (intent_payload i l key))) ''submission_unknown''"
    by (rule arg_cong)
  then show False by (simp add: identity_payload_def payload_keys)
qed

text \<open>
  An unknown submission cannot be replayed. After the outcome of a submission has been recorded as
  unknown, the same request with the same key is refused as an idempotency collision instead of
  returning the existing order in state \<open>submission_unknown\<close>: recording the outcome adds an entry to
  the payload that the comparison of the two requests does not leave out.
\<close>

theorem unknown_submission_collides:
  assumes "ledger_ok db" "create_order db db raw = Inr (r, db')" "fresh_key db raw"
    and "rq_key raw = Some k"
    and "mark_submission_unknown db' (ref_order r) reason now = Inr db''"
  shows "create_order db'' db'' raw = Inl (CanonicalOrderIdentityError ''Canonical order idempotency collision'')"
proof -
  obtain q b where q: "normalize_request raw = Inr q" and b: "check_references db q = Inr b"
    and c: "request_client_id q \<noteq> []" and k: "rq_key q = Some (py_strip k)"
    and n: "intent_with_key db (rq_account q) (py_strip k) = None"
    and ins: "insert_order db q (br_id b) (request_client_id q) = Some (r, db')"
    using assms(2,3,4) by (rule created_inserts)
  note rows = inserted_rows [OF ins assms(1) k n]
  let ?i = "new_intent db q" and ?row = "new_order db q (br_id b) (request_client_id q)"
  have ok': "ledger_ok db'" using insert_ok [OF ins assms(1)] by blast
  have ids: "oi_id ?i = oms_next db" "or_intent ?row = oms_next db" "or_id ?row = oms_next db + 1"
    "oi_payload ?i = PDict (request_payload q)"
    by (simp_all add: new_intent_def new_order_def)
  have row: "get_row or_id (oms_orders db') (oms_next db + 1) = Some ?row"
    using ok' get_row_unique [of or_id "oms_orders db'" ?row] ids by (simp add: ledger_ok_def rows(3))
  have i: "get_row oi_id (oms_intents db') (oms_next db) = Some ?i"
    using ok' get_row_unique [of oi_id "oms_intents db'" ?i] ids by (simp add: ledger_ok_def rows(3))
  have ref: "ref_order r = oms_next db + 1" using rows(4) by simp
  obtain memo where db'': "db'' = set_order (set_intent db'
      (?i\<lparr>oi_payload := PDict (dict_set (request_payload q) ''submission_unknown'' memo)\<rparr>))
      (?row\<lparr>or_state := ''submission_unknown''\<rparr>)"
    using assms(5) ref row i ids
    by (auto simp: mark_submission_unknown_def res_bind_Inr_iff found_def Let_def)
  let ?i2 = "?i\<lparr>oi_payload := PDict (dict_set (request_payload q) ''submission_unknown'' memo)\<rparr>"
  have fresh: "\<forall>x \<in> set (oms_intents db). \<not> oi_id x = oms_next db"
    "\<forall>x \<in> set (oms_orders db). \<not> or_id x = oms_next db + 1"
    "find (\<lambda>x. or_intent x = oms_next db) (oms_orders db) = None"
    using assms(1) by (auto simp: ledger_ok_def find_None_iff)
  have "oms_intents db'' = oms_intents db @ [?i2]"
    "oms_orders db'' = oms_orders db @ [?row\<lparr>or_state := ''submission_unknown''\<rparr>]"
    using update_where_last [OF fresh(1)] update_where_last [OF fresh(2)] ids
    by (simp_all add: db'' set_intent_def rows(3))
  then have key: "intent_with_key db'' (rq_account q) (py_strip k) = Some ?i2"
    and ord: "find (\<lambda>x. or_intent x = oms_next db) (oms_orders db'') =
                Some (?row\<lparr>or_state := ''submission_unknown''\<rparr>)"
    using n fresh(3) k ids by (simp_all add: intent_with_key_def find_append_None new_intent_def)
  have b'': "check_references db'' q = Inr b"
    using b check_references_cong [of db'' db q] by (simp add: db'' set_order_def set_intent_def rows(3))
  have "\<not> same_request ?i2 (?row\<lparr>or_state := ''submission_unknown''\<rparr>) q (br_id b)"
    using unknown_payload_differs by (simp add: same_request_def request_payload_def)
  then have "existing_order_ref db'' ?i2 q (br_id b) =
      Inl (CanonicalOrderIdentityError ''Canonical order idempotency collision'')"
    using ord ids by (simp add: existing_order_ref_def found_def)
  then show ?thesis using q b'' c k key by (simp add: create_order_def)
qed

definition example_unknown :: oms where
  "example_unknown = projr (mark_submission_unknown example_created 2 ''timeout'' 9)"

theorem unknown_submission_collides_witness:
  "create_order example_unknown example_unknown example_request =
     Inl (CanonicalOrderIdentityError ''Canonical order idempotency collision'')"
proof -
  have "ledger_ok example_oms" by (simp add: ledger_ok_def rows_ok_def example_oms_def)
  moreover have "fresh_key example_oms example_request"
    by (simp add: fresh_key_def intent_with_key_def example_oms_def)
  moreover have "rq_key example_request = Some ''k1''" by code_simp
  moreover have "mark_submission_unknown example_created
      (ref_order (fst (projr (create_order example_oms example_oms example_request)))) ''timeout'' 9 =
      Inr example_unknown"
    by code_simp
  ultimately show ?thesis
    using unknown_submission_collides [OF _ example_created_ok] by blast
qed

end
