(* ===== verification/Lifecycle_Safety.thy ===== *)
theory Lifecycle_Safety
  imports Oco_Allocation Paper_Ledger Canonical_Ledger
begin

text \<open>
  What the resting-order lifecycle guarantees: triggers are conservative, a one-cancels-other group
  never fills more than its allocation, and a pass leaves no committed candle unread. Two theorems
  show on concrete histories where the code departs from its own account of itself.
\<close>

section \<open>Triggers\<close>

text \<open>The low and high of an accepted candle bound its open.\<close>

lemma candle_range:
  assumes "candle_from_row row = Inr c"
  shows "cd_low c \<le> cd_open c" "cd_open c \<le> cd_high c" "0 < cd_low c"
  using assms by (auto simp: candle_from_row_def positive_price_def res_simps not_less split: option.splits number.splits if_splits)

definition stop_reached :: "string \<Rightarrow> rat option \<Rightarrow> candle \<Rightarrow> bool" where
  "stop_reached sd trigger c \<longleftrightarrow>
     (case trigger of None \<Rightarrow> False | Some t \<Rightarrow> if sd = ''SELL'' then cd_low c \<le> t else t \<le> cd_high c)"

definition limit_reached :: "string \<Rightarrow> rat option \<Rightarrow> candle \<Rightarrow> bool" where
  "limit_reached sd lim_price c \<longleftrightarrow>
     (case lim_price of None \<Rightarrow> False | Some l \<Rightarrow> if sd = ''SELL'' then l \<le> cd_high c else cd_low c \<le> l)"

lemma stop_decision_None: "cd_low c \<le> cd_open c \<Longrightarrow> cd_open c \<le> cd_high c \<Longrightarrow>
  stop_decision sd trigger c = None \<longleftrightarrow> \<not> stop_reached sd trigger c"
  by (auto simp: stop_decision_def stop_reached_def split: option.splits)

lemma stop_decision_Some:
  assumes "cd_low c \<le> cd_open c" "cd_open c \<le> cd_high c" "stop_decision sd trigger c = Some d"
  obtains t where "trigger = Some t" "td_apply_slippage d" "cd_low c \<le> td_reference_price d"
    "td_reference_price d \<le> cd_high c" "if sd = ''SELL'' then td_reference_price d \<le> t else t \<le> td_reference_price d"
  using assms by (auto simp: stop_decision_def split: option.splits if_splits)

lemma limit_decision_iff: "sd \<in> {''BUY'', ''SELL''} \<Longrightarrow>
  limit_decision sd lim_price c =
    (if limit_reached sd lim_price c
     then Some \<lparr>td_reason = ''limit_cross'', td_reference_price = the lim_price, td_apply_slippage = False\<rparr> else None)"
  by (auto simp: limit_decision_def limit_reached_def split: option.splits)

text \<open>
  C29: A trigger never flatters the order. On an accepted candle, a stop decides within the candle's
  range at a price no better than the trigger; a limit decides exactly at the limit, which the range
  reached, and for a bracket only when the range did not reach the stop. No decision means that no
  price of the order's kind was reached.
\<close>

theorem trigger_conservative:
  assumes "candle_from_row row = Inr c" "evaluate_trigger raw_side raw_type trigger lim_price c = Inr out"
  shows "case out of
      Some d \<Rightarrow>
        if td_apply_slippage d
        then \<exists>t. trigger = Some t \<and> cd_low c \<le> td_reference_price d \<and> td_reference_price d \<le> cd_high c \<and>
          (if py_upper (py_strip raw_side) = ''SELL'' then td_reference_price d \<le> t else t \<le> td_reference_price d)
        else lim_price = Some (td_reference_price d) \<and> limit_reached (py_upper (py_strip raw_side)) lim_price c \<and>
          (py_lower (py_strip raw_type) \<in> {''bracket'', ''oco''} \<longrightarrow>
             \<not> stop_reached (py_upper (py_strip raw_side)) trigger c)
    | None \<Rightarrow>
        (py_lower (py_strip raw_type) \<notin> {''limit'', ''take_profit''} \<longrightarrow>
           \<not> stop_reached (py_upper (py_strip raw_side)) trigger c) \<and>
        (py_lower (py_strip raw_type) \<noteq> ''stop'' \<longrightarrow> \<not> limit_reached (py_upper (py_strip raw_side)) lim_price c)"
proof -
  define sd where "sd = py_upper (py_strip raw_side)"
  define kind where "kind = py_lower (py_strip raw_type)"
  note range = candle_range[OF assms(1)]
  have sd: "sd \<in> {''BUY'', ''SELL''}"
    using assms(2) by (auto simp: evaluate_trigger_def Let_def sd_def split: if_splits)
  have "evaluate_trigger raw_side raw_type trigger lim_price c =
      (if kind = ''stop'' then Inr (stop_decision sd trigger c)
       else if kind \<in> {''limit'', ''take_profit''} then Inr (limit_decision sd lim_price c)
       else if kind \<in> {''bracket'', ''oco''} then
         Inr (case stop_decision sd trigger c of Some d \<Rightarrow> Some d | None \<Rightarrow> limit_decision sd lim_price c)
       else Inl (ValueError ''Unsupported durable paper order type''))"
    unfolding evaluate_trigger_def Let_def sd_def[symmetric] kind_def[symmetric] using sd by (simp only: set_simps simp_thms if_False if_cancel)
  note out = trans[OF assms(2)[symmetric] this]
  have lim: "limit_reached sd lim_price c \<Longrightarrow> lim_price = Some (the lim_price)"
    by (auto simp: limit_reached_def split: option.splits)
  have unreached: "(kind \<notin> {''limit'', ''take_profit''} \<longrightarrow> \<not> stop_reached sd trigger c) \<and>
      (kind \<noteq> ''stop'' \<longrightarrow> \<not> limit_reached sd lim_price c)" if "out = None"
    using out that stop_decision_None[OF range(1,2), of sd trigger] limit_decision_iff[OF sd, of lim_price c]
    by (auto split: if_splits option.splits)
  have reached: "if td_apply_slippage d
      then \<exists>t. trigger = Some t \<and> cd_low c \<le> td_reference_price d \<and> td_reference_price d \<le> cd_high c \<and>
        (if sd = ''SELL'' then td_reference_price d \<le> t else t \<le> td_reference_price d)
      else lim_price = Some (td_reference_price d) \<and> limit_reached sd lim_price c \<and>
        (kind \<in> {''bracket'', ''oco''} \<longrightarrow> \<not> stop_reached sd trigger c)" if "out = Some d" for d
  proof (cases "stop_decision sd trigger c = Some d")
    case True
    from stop_decision_Some[OF range(1,2) True] show ?thesis by metis
  next
    case False
    with out that have l: "limit_decision sd lim_price c = Some d"
      and s: "kind \<in> {''bracket'', ''oco''} \<Longrightarrow> stop_decision sd trigger c = None"
      by (auto split: if_splits option.splits)
    from l have "limit_reached sd lim_price c" "td_reference_price d = the lim_price" "\<not> td_apply_slippage d"
      unfolding limit_decision_iff[OF sd] by (auto split: if_splits)
    with s lim stop_decision_None[OF range(1,2), of sd trigger] show ?thesis by auto
  qed
  show ?thesis
    unfolding sd_def[symmetric] kind_def[symmetric] using unreached reached by (cases out) simp_all
qed

section \<open>An account with resting orders\<close>

definition rest_meta :: "string \<Rightarrow> string \<Rightarrow> string \<Rightarrow> bool \<Rightarrow> pydict" where
  "rest_meta cid grp purpose ro =
     [(''client_order_id'', PStr cid), (''oco_group_id'', PStr grp), (''purpose'', PStr purpose),
      (''reduce_only'', PBool ro),
      (''market_data_source'', PStr ''feed''), (''market_data_timeframe'', PStr ''1h''), (''source_price_id'', PInt 1),
      (''source_content_revision'', PInt 1), (''source_price_ts'', PTime 10)]"

definition rest_intent :: "string \<Rightarrow> string \<Rightarrow> rat \<Rightarrow> rat option \<Rightarrow> rat option \<Rightarrow> bool \<Rightarrow> order_intent" where
  "rest_intent cid kind qty lim_price trigger ro =
     \<lparr>broker_code = ''paper'', symbol = ''BTC'', side = ''SELL'', quantity = qty, order_type = kind,
      time_in_force = ''gtc'', limit_price = lim_price, stop_price = trigger, metadata = rest_meta cid ''g'' kind ro,
      currency_context = Some ex_ctx, canonical_paper_order_id = None, canonical_paper_instrument_id = None\<rparr>"

definition ex_bar :: "int \<Rightarrow> time \<Rightarrow> rat \<Rightarrow> rat \<Rightarrow> number option \<Rightarrow> candle_row" where
  "ex_bar n t lo hi vol = \<lparr>cr_price_id = n, cr_instr_id = 7, cr_ts = t, cr_timeframe = ''1h'', cr_source = ''feed'',
     cr_revision = 1, cr_open = Some (Fin 100), cr_high = Some (Fin hi), cr_low = Some (Fin lo),
     cr_close = Some (Fin 100), cr_volume = vol\<rparr>"

definition ex_prices :: "candle_row list" where
  "ex_prices = [ex_bar 1 10 95 105 None, ex_bar 2 20 95 125 (Some (Fin 200)), ex_bar 3 30 95 105 None, ex_bar 4 40 75 105 None]"

definition ex_request :: "string \<Rightarrow> order_intent \<Rightarrow> order_request" where
  "ex_request cid i = \<lparr>rq_local_id = cid, rq_user = ''u'', rq_account = 1, rq_broker = ''paper'',
     rq_mode = ''spot'', rq_strategy = ''s'', rq_signal = 5, rq_instr = 7, rq_intent = i,
     rq_settlement = ''usd'', rq_key = Some cid, rq_environment = Some ''paper''\<rparr>"

definition ex_pending :: "string \<Rightarrow> int \<Rightarrow> order_intent \<Rightarrow> pending_request" where
  "ex_pending cid oid i = \<lparr>pq_order_id = cid, pq_user_id = ''u'',
     pq_signal = \<lparr>sig_external_id = Some ''x'', sig_symbol = ''BTC'', sig_instrument_id = PInt 7, sig_strategy_id = ''s''\<rparr>,
     pq_intent = i, pq_execution_mode = ''spot'', pq_broker_code = ''paper'', pq_settlement_currency = ''usd'',
     pq_breaker_key = None, pq_broker_environment = Some ''paper'', pq_credential_ref = None, pq_run_id = None,
     pq_idempotency_key = Some cid, pq_account_id = 1, pq_canonical_order_id = Some oid\<rparr>"

definition working_result :: broker_order_result where
  "working_result = \<lparr>bor_success = True, bor_order_id = None, bor_status = OS_WORKING,
     bor_filled_quantity = 0, bor_filled_price = None, bor_commission = 0,
     bor_commission_currency = None, bor_error_message = None, bor_error_code = None\<rparr>"

definition add_resting :: "oms \<Rightarrow> pending_order list \<Rightarrow> string \<Rightarrow> order_intent \<Rightarrow> (oms \<times> pending_order list) res" where
  "add_resting db rows cid i =
     res_bind (create_order db db (ex_request cid i)) (\<lambda>(ref, db').
     res_bind (persist ex_prices rows (ex_pending cid (oms_next db' - 1) i) 12) (\<lambda>(oid, rows').
     res_bind (resolve_pending rows' oid working_result 12) (\<lambda>(_, rows''). Inr (db', rows''))))"

text \<open>A take-profit and a stop of one group, both working on the whole position held.\<close>

definition ex_group :: "(oms \<times> pending_order list) res" where
  "ex_group =
     res_bind (add_resting example_oms [] ''tp'' (rest_intent ''tp'' ''take_profit'' 5 (Some 120) None True)) (\<lambda>(db, rows).
     add_resting db rows ''sl'' (rest_intent ''sl'' ''stop'' 5 None (Some 80) True))"

definition ex_stop :: "(oms \<times> pending_order list) res" where
  "ex_stop = add_resting example_oms [] ''sl'' (rest_intent ''sl'' ''stop'' 5 None (Some 80) True)"

definition ex_lifecycle :: "(oms \<times> pending_order list) res \<Rightarrow> candle_row list \<Rightarrow> paper_broker \<Rightarrow> lifecycle" where
  "ex_lifecycle orders prices b =
     \<lparr>lc_oms = fst (projr orders), lc_pending = snd (projr orders), lc_prices = prices, lc_brokers = (\<lambda>k. if k = (''u'', 1) then Paper b else Other_Adapter)\<rparr>"

definition ex_pass :: "lifecycle \<Rightarrow> nat res \<times> lifecycle_health option \<times> lifecycle" where
  "ex_pass lc = process_once True (1 / 100) (\<lambda>_ _. Inr ()) (\<lambda>_ _. False) lc"

definition ex_after :: "lifecycle \<Rightarrow> lifecycle" where
  "ex_after lc = snd (snd (ex_pass lc))"

theorem trigger_conservative_witness:
  "case candle_from_row (ex_bar 4 40 75 125 None) of Inl e \<Rightarrow> False
   | Inr c \<Rightarrow> (\<exists>d. evaluate_trigger ''sell'' ''bracket'' (Some 80) (Some 120) c = Inr (Some d) \<and>
               cd_low c \<le> td_reference_price d \<and> td_reference_price d \<le> 80)"
proof -
  have run: "case candle_from_row (ex_bar 4 40 75 125 None) of Inl e \<Rightarrow> False
    | Inr c \<Rightarrow> evaluate_trigger ''sell'' ''bracket'' (Some 80) (Some 120) c =
        Inr (Some \<lparr>td_reason = ''stop_cross'', td_reference_price = 80, td_apply_slippage = True\<rparr>)"
    and sell: "py_upper (py_strip ''sell'') = ''SELL''"
    by code_simp+
  then obtain c where c: "candle_from_row (ex_bar 4 40 75 125 None) = Inr c"
    and d: "evaluate_trigger ''sell'' ''bracket'' (Some 80) (Some 120) c =
      Inr (Some \<lparr>td_reason = ''stop_cross'', td_reference_price = 80, td_apply_slippage = True\<rparr>)"
    by (auto split: sum.splits)
  from trigger_conservative[OF c d] d c sell show ?thesis by simp
qed

section \<open>One-cancels-other groups\<close>

text \<open>The changes the engine makes to resting orders, and the market data that arrives between them.\<close>

inductive lifecycle_act :: "lifecycle \<Rightarrow> lifecycle \<Rightarrow> bool" where
  pass: "process_once fence participation deliver held lc = (r, health, lc') \<Longrightarrow> lifecycle_act lc lc'"
| cancel: "cancel_working (lc_oms lc) (lc_pending lc) oid reason now = Inr (b, db, rows) \<Longrightarrow>
    lifecycle_act lc (lc\<lparr>lc_oms := db, lc_pending := rows\<rparr>)"
| terminate: "mark_terminal (lc_pending lc) oid status reason now = Inr (b, rows) \<Longrightarrow> status \<in> set TERMINAL_STATUSES \<Longrightarrow>
    lifecycle_act lc (lc\<lparr>lc_pending := rows\<rparr>)"
| market: "lifecycle_act lc (lc\<lparr>lc_prices := prices, lc_brokers := brokers\<rparr>)"

lemma lifecycle_act_refines: "lifecycle_act lc lc' \<Longrightarrow> row_step\<^sup>*\<^sup>* (lc_pending lc) (lc_pending lc')"
proof (induction rule: lifecycle_act.induct)
  case (pass fence participation deliver held lc r health lc')
  then show ?case by (rule process_once_refines)
next
  case (cancel lc oid reason now b db rows)
  then show ?case using cancel_working_refines by simp
next
  case (terminate lc oid status reason now b rows)
  then show ?case using mark_terminal_refines by simp
next
  case (market lc prices brokers)
  then show ?case by simp
qed

lemma allocated_steps: "row_step\<^sup>*\<^sup>* rows rows' \<Longrightarrow> g \<noteq> [] \<Longrightarrow> allocated g Q rows \<Longrightarrow> allocated g Q rows'"
  by (induction rule: rtranclp_induct) (auto intro: allocated_step)

lemma group_filled_none: "\<forall>r \<in> set (members g rows). pd_cumulative_filled r = 0 \<Longrightarrow> group_filled g rows = 0"
  by (simp add: group_filled_def cong: map_cong)

text \<open>
  C5: A one-cancels-other group never fills more than one allocation. When its members start unfilled,
  each for the quantity \<open>Q\<close>, then after any passes of the worker, cancellations, expiries and market
  data, whatever other orders there are, the filled quantities of the members sum to at most \<open>Q\<close>, and
  every member still working is open for exactly what is left of it.
\<close>

theorem oco_never_overfills:
  assumes "lifecycle_act\<^sup>*\<^sup>* lc lc'" "g \<noteq> []" "0 \<le> Q" "distinct (map pd_order_id (lc_pending lc))"
    and "\<forall>r \<in> set (members g (lc_pending lc)). pd_quantity r = Q \<and> pd_cumulative_filled r = 0"
  shows "group_filled g (lc_pending lc') \<le> Q \<and>
    (\<forall>r \<in> set (members g (lc_pending lc')). is_working r \<longrightarrow>
       pd_quantity r - pd_cumulative_filled r = Q - group_filled g (lc_pending lc'))"
proof -
  have "allocated g Q (lc_pending lc)"
    using assms(3-5) group_filled_none[of g "lc_pending lc"] by (simp add: allocated_def)
  moreover have "row_step\<^sup>*\<^sup>* (lc_pending lc) (lc_pending lc')"
    using assms(1) by (induction rule: rtranclp_induct) (auto intro: rtranclp_trans lifecycle_act_refines)
  ultimately have "allocated g Q (lc_pending lc')"
    using allocated_steps[OF _ assms(2)] by blast
  then show ?thesis by (simp add: allocated_def)
qed

lemma ex_group_ok:
  "map (\<lambda>r. (pd_order_id r, pd_oco_group_id r, pd_quantity r, pd_cumulative_filled r)) (snd (projr ex_group)) =
     [(''tp'', Some ''g'', 5, 0), (''sl'', Some ''g'', 5, 0)]"
  by code_simp

theorem oco_never_overfills_witness:
  "map (\<lambda>r. (pd_order_id r, pd_quantity r, pd_cumulative_filled r))
     (lc_pending (ex_after (ex_lifecycle ex_group (take 2 ex_prices) ex_held))) = [(''tp'', 5, 2), (''sl'', 3, 0)] \<and>
   group_filled ''g'' (lc_pending (ex_after (ex_lifecycle ex_group (take 2 ex_prices) ex_held))) \<le> 5"
proof -
  let ?lc = "ex_lifecycle ex_group (take 2 ex_prices) ex_held"
  have rows: "map (\<lambda>r. (pd_order_id r, pd_oco_group_id r, pd_quantity r, pd_cumulative_filled r)) (lc_pending ?lc) =
      [(''tp'', Some ''g'', 5, 0), (''sl'', Some ''g'', 5, 0)]"
    using ex_group_ok by (simp add: ex_lifecycle_def)
  then have ids: "distinct (map pd_order_id (lc_pending ?lc))"
    and start: "\<forall>r \<in> set (members ''g'' (lc_pending ?lc)). pd_quantity r = 5 \<and> pd_cumulative_filled r = 0"
    by (auto simp: members_def map_eq_Cons_conv)
  have "lifecycle_act ?lc (ex_after ?lc)"
    by (rule lifecycle_act.pass[of True "1 / 100" "\<lambda>_ _. Inr ()" "\<lambda>_ _. False" ?lc "fst (ex_pass ?lc)"
          "fst (snd (ex_pass ?lc))"]) (simp add: ex_after_def ex_pass_def)
  then have "group_filled ''g'' (lc_pending (ex_after ?lc)) \<le> 5"
    using oco_never_overfills[of ?lc "ex_after ?lc" "''g''" 5] ids start by auto
  moreover have "map (\<lambda>r. (pd_order_id r, pd_quantity r, pd_cumulative_filled r)) (lc_pending (ex_after ?lc)) =
      [(''tp'', 5, 2), (''sl'', 3, 0)]"
    by code_simp
  ultimately show ?thesis by simp
qed

text \<open>
  A pass fills a group out of order when candles have accumulated. Both orders of the group see
  the same four candles; the take-profit's price is reached on the second and the stop's only on the
  fourth. The worker takes the stop through all four candles first, fills it, and cancels the
  take-profit that the earlier candle would have filled.
\<close>

theorem backlog_fills_out_of_order:
  "map (\<lambda>r. (pd_order_id r, pd_status r, pd_filled_price r))
     (lc_pending (ex_after (ex_lifecycle ex_group ex_prices ex_held))) =
     [(''tp'', ''cancelled'', None), (''sl'', ''filled'', Some 80)] \<and>
   map (\<lambda>r. (pd_order_id r, pd_cumulative_filled r))
     (lc_pending (ex_after (ex_lifecycle ex_group (take 2 ex_prices) ex_held))) = [(''tp'', 2), (''sl'', 0)]"
proof (intro conjI)
  show "map (\<lambda>r. (pd_order_id r, pd_status r, pd_filled_price r))
     (lc_pending (ex_after (ex_lifecycle ex_group ex_prices ex_held))) =
     [(''tp'', ''cancelled'', None), (''sl'', ''filled'', Some 80)]"
    by code_simp
  show "map (\<lambda>r. (pd_order_id r, pd_cumulative_filled r))
     (lc_pending (ex_after (ex_lifecycle ex_group (take 2 ex_prices) ex_held))) = [(''tp'', 2), (''sl'', 0)]"
    by code_simp
qed

text \<open>
  A resting fill is recorded larger than it was. The account holds three units and a reduce-only
  stop rests for five; the broker clamps the fill to the three held and the ledger records three, but
  the pending row is filled for five.
\<close>

theorem resting_fill_overstated:
  "(let lc = ex_after (ex_lifecycle ex_stop ex_prices ex_sold)
    in map (\<lambda>r. (pd_status r, pd_filled_quantity r)) (lc_pending lc) = [(''filled'', 5)] \<and>
       map ex_qty (oms_executions (lc_oms lc)) = [3])"
  by code_simp

section \<open>Catching up\<close>

text \<open>An order with nothing left to do: projected, and closed or past every candle of its stream.\<close>

definition caught_up :: "lifecycle \<Rightarrow> string \<Rightarrow> bool" where
  "caught_up lc oid \<longleftrightarrow>
     (case pending_of (lc_pending lc) oid of None \<Rightarrow> True
      | Some p \<Rightarrow> pd_projection_exec_id p = None \<and>
          (is_working p \<longrightarrow> (\<forall>r \<in> set (lc_prices lc). on_stream p r \<longrightarrow> cr_ts r \<le> stream_start p)))"

lemma not_working_cancelled:
  assumes "pending_of rows oid = Some p"
  obtains p' where
    "pending_of (snd (cancel_unprotectable_order db (put_pending rows (advanced_pending p c)) (advanced_pending p c) row c reason)) oid = Some p'"
    "\<not> is_working p'" "pd_projection_exec_id p' = pd_projection_exec_id p"
proof -
  define p' where "p' = advanced_pending p c\<lparr>pd_status := ''cancelled'', pd_resolved_at := Some (cd_ts c),
    pd_error_message := Some (''Cancelled: '' @ reason)\<rparr>"
  have ids: "pd_order_id p' = oid" "pd_order_id p' = pd_order_id (advanced_pending p c)"
    using pending_of_Some[OF assms] by (simp_all add: p'_def)
  have put: "pending_of (put_pending rows p') oid = Some p'"
    using assms ids by (simp add: pending_of_put)
  have "pending_of (snd (cancel_oco_siblings db' (put_pending rows p') p' m)) oid = Some p'" for db' m
    unfolding put[symmetric] cancel_oco_siblings_def snd_conv
    using ids by (intro pending_of_update_where) (auto simp: sibling_of_def)
  with put have "pending_of (snd (cancel_unprotectable_order db (put_pending rows (advanced_pending p c))
      (advanced_pending p c) row c reason)) oid = Some p'"
    using ids unfolding cancel_unprotectable_order_def Let_def p'_def[symmetric] by simp
  moreover have "\<not> is_working p'" "pd_projection_exec_id p' = pd_projection_exec_id p"
    by (simp_all add: p'_def is_working_def WORKING_STATUSES_def)
  ultimately show ?thesis by (rule that)
qed

lemma consume_stops:
  assumes "consume_candle participation lc broker oid c = (Inr (Skipped False), lc')"
    and p: "pending_of (lc_pending lc) oid = Some p" "is_working p" "stream_start p < cd_ts c"
  obtains p' where "pending_of (lc_pending lc') oid = Some p'" "\<not> is_working p'"
    "pd_projection_exec_id p' = pd_projection_exec_id p"
  using assms(1)
proof (cases rule: consume_candle_cases)
  case idle
  have fresh: "\<not> (case pd_last_market_data_ts p of None \<Rightarrow> False | Some w \<Rightarrow> cd_ts c \<le> w)"
    using p(3) by (cases "pd_last_market_data_ts p") (simp_all add: stream_start_def)
  obtain d remaining q where "fill_transaction lc broker (advanced_pending p c) c d remaining q = (Inr (Skipped False), lc')"
    using assms(1) p(1,2) fresh
    by (auto simp: consume_candle_def Let_def split: sum.splits option.splits if_splits)
  then show ?thesis
  proof (cases rule: fill_transaction_cases)
    case (cancelled row reason)
    from not_working_cancelled[OF p(1)] show ?thesis
      using that unfolding cancelled(3) by metis
  qed simp_all
next
  case (cancelled p1 row reason)
  from not_working_cancelled[OF p(1)] show ?thesis
    using that cancelled(1,5) p(1) by (metis option.inject)
qed simp_all

lemma process_next_bar_stops:
  assumes "process_next_bar participation deliver lc oid = (Inr False, lc')"
    and "\<not> passed_over lc oid"
  shows "caught_up lc' oid" "lc_prices lc' = lc_prices lc"
proof -
  have "caught_up lc' oid \<and> lc_prices lc' = lc_prices lc"
    using assms(1)
  proof (cases rule: process_next_bar_cases)
    case idle
    with assms(2) show ?thesis by (auto simp: caught_up_def next_price_row_None split: option.splits)
  next
    case (projected p broker res)
    then show ?thesis by (cases res) simp_all
  next
    case (unfilled p row c broker go)
    then have run: "consume_candle participation lc broker oid c = (Inr (Skipped False), lc')"
      by (cases go) (auto split: bar_outcome.splits, metis bar_outcome.exhaust)
    have "stream_start p < cd_ts c"
      using next_price_row_Some(3)[OF unfilled(4)] candle_from_row_ts[OF unfilled(5)] by simp
    from consume_stops[OF run unfilled(1,3) this] obtain p' where "pending_of (lc_pending lc') oid = Some p'"
      "\<not> is_working p'" "pd_projection_exec_id p' = pd_projection_exec_id p" by blast
    with unfilled(2) have "caught_up lc' oid"
      by (simp add: caught_up_def)
    moreover have "lc_prices lc' = lc_prices lc"
      using run by (cases rule: consume_candle_cases) simp_all
    ultimately show ?thesis by simp
  next
    case (filled p row c broker plan b lc1 b' res)
    have "Inr False \<noteq> map_sum id (\<lambda>_. True) res'" for res' :: "unit res"
      by (cases res') simp_all
    with filled(9) show ?thesis by (auto split: sum.splits)
  qed
  then show "caught_up lc' oid" "lc_prices lc' = lc_prices lc" by simp_all
qed

text \<open>
  C16: The worker catches up, on the orders it advances. When its loop over an order ends without an
  exception, and the engine resolves a paper broker for the order's user and account, then the order's fills
  are projected and the order is closed or has read every committed candle of its stream; the loop
  processed at most as many bars as there were, one more if a fill was waiting to be projected, and
  changed no market data. When the engine resolves an adapter of another kind, or none, the loop passes
  over the order: it processes no bar and changes nothing, whatever is left to do.
\<close>

theorem worker_catches_up:
  "advance_order participation deliver lc oid n = (n', None, lc') \<Longrightarrow>
   (if passed_over lc oid then n' = n \<and> lc' = lc
    else caught_up lc' oid \<and> n' \<le> n + bars_left lc oid \<and> lc_prices lc' = lc_prices lc)"
proof (induction participation deliver lc oid n rule: advance_order.induct)
  case (1 participation deliver lc oid n)
  note simps = advance_order.simps[of participation deliver lc oid n]
  obtain r lc1 where run: "process_next_bar participation deliver lc oid = (r, lc1)" by (meson surj_pair)
  show ?case
  proof (cases "r = Inr True")
    case True
    with run have step: "process_next_bar participation deliver lc oid = (Inr True, lc1)" by simp
    note progress = process_next_bar_progress[OF step]
    have here: "\<not> passed_over lc oid"
      using process_next_bar_passed_over[OF _ step] by blast
    show ?thesis
    proof (cases "order_is_terminal lc1 oid")
      case True
      with 1(2) step simps have eq: "lc' = lc1" "n' = n + 1" by simp_all
      have "\<not> is_working p" if "pd_status p \<in> set TERMINAL_STATUSES" for p
        using that by (auto simp: is_working_def WORKING_STATUSES_def TERMINAL_STATUSES_def)
      with True progress(3) have "caught_up lc1 oid"
        by (auto simp: caught_up_def order_is_terminal_def split: option.splits)
      with eq progress(1,2) here show ?thesis by simp
    next
      case False
      with 1(2) step simps have "advance_order participation deliver lc1 oid (n + 1) = (n', None, lc')" by simp
      with 1(1) step False progress(4)
      have "caught_up lc' oid \<and> n' \<le> n + 1 + bars_left lc1 oid \<and> lc_prices lc' = lc_prices lc1"
        by simp
      with progress(1,2) here show ?thesis by simp
    qed
  next
    case False
    with 1(2) run simps have "r = Inr False" "lc' = lc1" "n' = n"
      by (auto split: sum.splits if_splits)
    with run process_next_bar_stops[of participation deliver lc oid lc1]
      process_next_bar_passed_over[of lc oid participation deliver r lc1] show ?thesis by simp
  qed
qed

theorem worker_catches_up_witness:
  "(case advance_order (1 / 100) (\<lambda>_ _. Inr ()) (ex_lifecycle ex_group ex_prices ex_held) ''tp'' 0 of
     (n, err, lc) \<Rightarrow> err = None \<and> n = 3 \<and> caught_up lc ''tp'') \<and>
   \<not> passed_over (ex_lifecycle ex_group ex_prices ex_held) ''tp''"
proof -
  obtain n err lc where run: "advance_order (1 / 100) (\<lambda>_ _. Inr ()) (ex_lifecycle ex_group ex_prices ex_held) ''tp'' 0 =
      (n, err, lc)" by (metis surj_pair)
  have "map_prod id fst (advance_order (1 / 100) (\<lambda>_ _. Inr ()) (ex_lifecycle ex_group ex_prices ex_held) ''tp'' 0) =
      (3, None)"
    by code_simp
  with run have "n = 3" "err = None" by simp_all
  moreover have "\<not> passed_over (ex_lifecycle ex_group ex_prices ex_held) ''tp''"
    by code_simp
  ultimately show ?thesis
    using run worker_catches_up[of "1 / 100" "\<lambda>_ _. Inr ()" "ex_lifecycle ex_group ex_prices ex_held" "''tp''" 0 3 lc]
    by simp
qed

end
