(* ===== verification/Asset_Classes.thy ===== *)
theory Asset_Classes
  imports Py_Prelude
begin

text \<open>
  The asset classes of \<open>lib_common/asset_classes.py\<close>, shared by market data and signals.
\<close>

definition CANONICAL_ASSET_CLASSES :: "string list" where
  "CANONICAL_ASSET_CLASSES =
     [''crypto'', ''equity'', ''etf'', ''index'', ''futures'', ''options'', ''fx'', ''commodities'']"

definition ASSET_CLASS_ALIASES :: "(string \<times> string) list" where
  "ASSET_CLASS_ALIASES = [(''commodity'', ''commodities''), (''forex'', ''fx''), (''indices'', ''index'')]"

definition SESSION_BASED_ASSET_CLASSES :: "string list" where
  "SESSION_BASED_ASSET_CLASSES = filter (\<lambda>c. c \<noteq> ''crypto'') CANONICAL_ASSET_CLASSES"

definition normalize_asset_class :: "string \<Rightarrow> string \<Rightarrow> string res" where
  "normalize_asset_class v field =
     (let n = py_lower (py_strip v)
      in if n = [] then Inl (ValueError (field @ '' must be non-empty''))
         else (let c = (case map_of ASSET_CLASS_ALIASES n of None \<Rightarrow> n | Some a \<Rightarrow> a)
               in if c \<notin> set CANONICAL_ASSET_CLASSES then Inl (ValueError (''Unsupported '' @ field))
                  else Inr c))"

definition normalize_optional_asset_class :: "string option \<Rightarrow> string \<Rightarrow> (string option) res" where
  "normalize_optional_asset_class v field =
     (case v of None \<Rightarrow> Inr None | Some s \<Rightarrow> res_bind (normalize_asset_class s field) (\<lambda>c. Inr (Some c)))"

end
