(* ===== verification/Signals.thy ===== *)
theory Signals
  imports Asset_Classes
begin

text \<open>
  Trading signals: the signal of \<open>lib_strategy/signals/signal.py\<close>, the names of its actions in \<open>signals/normalization.py\<close>, and the
  entry requirements that scoring and execution share, \<open>signals/adapters/scoring.py\<close>.

  A signal carries the fields the modelled components read; sector, industry, index, features and
  the like are left out. Its serialisation is not modelled.
\<close>

section \<open>Actions\<close>

datatype signal_action = LONG | SHORT | CLOSE | HOLD

definition action_name :: "signal_action \<Rightarrow> string" where
  "action_name a = (case a of LONG \<Rightarrow> ''LONG'' | SHORT \<Rightarrow> ''SHORT'' | CLOSE \<Rightarrow> ''CLOSE'' | HOLD \<Rightarrow> ''HOLD'')"

text \<open>What may be passed where an action is expected: an action, or any other value.\<close>

datatype action_value = Action signal_action | Raw pyval

definition CANONICAL_ACTIONS :: "(string \<times> signal_action) list" where
  "CANONICAL_ACTIONS =
     [(''long'', LONG), (''buy'', LONG), (''up'', LONG), (''bull'', LONG), (''open'', LONG), (''open_long'', LONG),
      (''open_spread'', LONG), (''short'', SHORT), (''sell'', SHORT), (''down'', SHORT), (''bear'', SHORT),
      (''open_short'', SHORT), (''close'', CLOSE), (''close_signal'', CLOSE), (''exit'', CLOSE), (''flat'', CLOSE),
      (''close_long'', CLOSE), (''close_short'', CLOSE), (''close_spread'', CLOSE), (''hold'', HOLD),
      (''neutral'', HOLD), (''none'', HOLD)]"

definition SCORING_ACTIONS :: "string list" where
  "SCORING_ACTIONS = [''long'', ''short'', ''flat'', ''hold'', ''open_spread'', ''close_spread'']"

definition SCORING_ACTION_ALIASES :: "(string \<times> string) list" where
  "SCORING_ACTION_ALIASES =
     [(''buy'', ''long''), (''up'', ''long''), (''bull'', ''long''), (''open'', ''long''), (''open_long'', ''long''),
      (''sell'', ''short''), (''down'', ''short''), (''bear'', ''short''), (''open_short'', ''short''),
      (''exit'', ''flat''), (''close'', ''flat''), (''close_signal'', ''flat''), (''close_long'', ''flat''),
      (''close_short'', ''flat''), (''neutral'', ''hold''), (''none'', ''hold'')]"

text \<open>The text of a value that is not a string is the name of no action.\<close>

definition action_text :: "pyval \<Rightarrow> string" where
  "action_text v = py_lower (py_strip (str_of v))"

definition normalize_signal_action :: "action_value \<Rightarrow> signal_action" where
  "normalize_signal_action v =
     (case v of Action a \<Rightarrow> a
      | Raw x \<Rightarrow> (case map_of CANONICAL_ACTIONS (action_text x) of Some a \<Rightarrow> a | None \<Rightarrow> HOLD))"

definition normalize_scoring_action :: "action_value \<Rightarrow> string" where
  "normalize_scoring_action v =
     (case v of
        Action a \<Rightarrow> (case a of LONG \<Rightarrow> ''long'' | SHORT \<Rightarrow> ''short'' | CLOSE \<Rightarrow> ''flat'' | HOLD \<Rightarrow> ''hold'')
      | Raw PNone \<Rightarrow> ''hold''
      | Raw x \<Rightarrow>
          (if action_text x \<in> set SCORING_ACTIONS then action_text x
           else (case map_of SCORING_ACTION_ALIASES (action_text x) of
                   Some m \<Rightarrow> if m \<in> set SCORING_ACTIONS then m else ''hold''
                 | None \<Rightarrow> ''hold'')))"

definition is_known_signal_action :: "action_value \<Rightarrow> bool" where
  "is_known_signal_action v =
     (case v of Action _ \<Rightarrow> True | Raw PNone \<Rightarrow> False
      | Raw x \<Rightarrow> action_text x \<in> set (map fst CANONICAL_ACTIONS))"

section \<open>Signals\<close>

record signal =
  sn_signal_id :: string
  sn_strategy_id :: string
  sn_strategy_type :: string
  sn_symbol :: string
  sn_asset_class :: "string option"
  sn_instrument_id :: pyval
  sn_action :: signal_action
  sn_confidence :: rat
  sn_timestamp :: time
  sn_horizon :: "string option"
  sn_expected_return :: "rat option"
  sn_predicted_risk :: "rat option"
  sn_horizon_days :: "rat option"
  sn_entry_price :: "rat option"
  sn_stop_loss :: "rat option"
  sn_take_profit :: "rat option"
  sn_size_hint :: "rat option"
  sn_external_id :: "string option"
  sn_raw_score :: "rat option"
  sn_expires_at :: "time option"
  sn_metadata :: pydict

text \<open>\<open>__post_init__\<close>: the asset class is normalised, then the ranges are checked.\<close>

definition signal_init :: "signal \<Rightarrow> signal res" where
  "signal_init s =
     res_bind (normalize_optional_asset_class (sn_asset_class s) ''asset_class'') (\<lambda>ac.
     res_bind (require (0 \<le> sn_confidence s \<and> sn_confidence s \<le> 1)
       (ValueError ''Confidence must be in [0.0, 1.0]'')) (\<lambda>_.
     res_bind (require (sn_strategy_type s = ''indicator'') (ValueError ''Invalid strategy_type'')) (\<lambda>_.
     res_bind (require (case sn_predicted_risk s of None \<Rightarrow> True | Some r \<Rightarrow> 0 < r)
       (ValueError ''predicted_risk must be positive'')) (\<lambda>_.
     res_bind (require (case sn_horizon_days s of None \<Rightarrow> True | Some d \<Rightarrow> 0 < d)
       (ValueError ''horizon_days must be positive'')) (\<lambda>_.
     Inr (s\<lparr>sn_asset_class := ac\<rparr>))))))"

definition is_entry :: "signal \<Rightarrow> bool" where
  "is_entry s \<longleftrightarrow> sn_action s = LONG \<or> sn_action s = SHORT"

definition is_exit :: "signal \<Rightarrow> bool" where
  "is_exit s \<longleftrightarrow> sn_action s = CLOSE"

definition risk_reward_ratio :: "signal \<Rightarrow> rat option" where
  "risk_reward_ratio s =
     (case (sn_entry_price s, sn_stop_loss s, sn_take_profit s) of
        (Some entry, Some stop, Some target) \<Rightarrow>
          (if \<bar>entry - stop\<bar> = 0 then None else Some (\<bar>target - entry\<bar> / \<bar>entry - stop\<bar>))
      | _ \<Rightarrow> None)"

section \<open>Entry requirements\<close>

record entry_requirement =
  en_applicable :: bool
  en_allowed :: bool
  en_source :: string
  en_rule_code :: "string option"
  en_context :: pydict

definition evaluate_entry_signal_requirements ::
  "signal \<Rightarrow> bool \<Rightarrow> bool \<Rightarrow> string option \<Rightarrow> entry_requirement" where
  "evaluate_entry_signal_requirements s require_stop require_explicit source =
     (let from_metadata = dict_get (sn_metadata s) ''scoring_input_source'';
          resolved = (case source of
                        Some (c # cs) \<Rightarrow> c # cs
                      | _ \<Rightarrow> if truthy from_metadata then str_of from_metadata else ''missing'');
          identity = [(''signal_id'', PStr (sn_signal_id s)), (''symbol'', PStr (sn_symbol s))]
      in if \<not> is_entry s then
           \<lparr>en_applicable = False, en_allowed = True, en_source = resolved, en_rule_code = None, en_context = []\<rparr>
         else if require_stop \<and> sn_stop_loss s = None then
           \<lparr>en_applicable = True, en_allowed = False, en_source = resolved,
            en_rule_code = Some ''stop_loss_required'', en_context = identity\<rparr>
         else if require_explicit \<and> resolved \<noteq> ''explicit'' then
           \<lparr>en_applicable = True, en_allowed = False, en_source = resolved,
            en_rule_code = Some ''explicit_scoring_inputs_required'',
            en_context = identity @ [(''scoring_input_source'', PStr resolved)]\<rparr>
         else
           \<lparr>en_applicable = True, en_allowed = True, en_source = resolved, en_rule_code = None, en_context = []\<rparr>)"

section \<open>Names of actions\<close>

text \<open>The three tables agree, by evaluation.\<close>

lemma action_tables:
  "list_all (\<lambda>s. action_text (PStr s) = s) SCORING_ACTIONS"
  "list_all (\<lambda>(k, m). m \<in> set SCORING_ACTIONS \<and> map_of CANONICAL_ACTIONS m = map_of CANONICAL_ACTIONS k)
     SCORING_ACTION_ALIASES"
  "list_all (\<lambda>(k, _). k \<in> set SCORING_ACTIONS \<or> map_of SCORING_ACTION_ALIASES k \<noteq> None) CANONICAL_ACTIONS"
  "''hold'' \<in> set SCORING_ACTIONS" "map_of CANONICAL_ACTIONS ''hold'' = Some HOLD"
  by code_simp+

lemma scoring_action_text: "s \<in> set SCORING_ACTIONS \<Longrightarrow> action_text (PStr s) = s"
  using action_tables(1) by (simp add: list_all_iff)

lemma unknown_action:
  assumes "t \<notin> set SCORING_ACTIONS" "map_of SCORING_ACTION_ALIASES t = None"
  shows "map_of CANONICAL_ACTIONS t = None"
proof (rule ccontr)
  assume "map_of CANONICAL_ACTIONS t \<noteq> None"
  then obtain a where "(t, a) \<in> set CANONICAL_ACTIONS" by (auto dest: map_of_SomeD)
  with action_tables(3) assms show False by (auto simp: list_all_iff)
qed

text \<open>
  Execution and scoring agree on what an action means. Whatever value names an action, the
  lowercase name that scoring stores for it stands for the same canonical action.
\<close>

theorem scoring_action_consistent:
  "normalize_signal_action (Raw (PStr (normalize_scoring_action v))) = normalize_signal_action v"
proof -
  have known: "normalize_signal_action (Raw (PStr s)) =
      (case map_of CANONICAL_ACTIONS s of Some a \<Rightarrow> a | None \<Rightarrow> HOLD)" if "s \<in> set SCORING_ACTIONS" for s
    using scoring_action_text[OF that] by (simp add: normalize_signal_action_def)
  have named: "normalize_signal_action (Raw (PStr (if t \<in> set SCORING_ACTIONS then t
        else (case map_of SCORING_ACTION_ALIASES t of
                Some m \<Rightarrow> if m \<in> set SCORING_ACTIONS then m else ''hold'' | None \<Rightarrow> ''hold'')))) =
      (case map_of CANONICAL_ACTIONS t of Some a \<Rightarrow> a | None \<Rightarrow> HOLD)" for t
  proof (cases "map_of SCORING_ACTION_ALIASES t")
    case None
    then show ?thesis using known action_tables(4,5) unknown_action[of t] by simp
  next
    case (Some m)
    then have "(t, m) \<in> set SCORING_ACTION_ALIASES" by (rule map_of_SomeD)
    with action_tables(2) have "m \<in> set SCORING_ACTIONS" "map_of CANONICAL_ACTIONS m = map_of CANONICAL_ACTIONS t"
      by (auto simp: list_all_iff)
    with Some known show ?thesis by simp
  qed
  show ?thesis
  proof (cases v)
    case (Action a)
    have "list_all (\<lambda>a. normalize_signal_action (Raw (PStr (normalize_scoring_action (Action a)))) = a)
        [LONG, SHORT, CLOSE, HOLD]" by code_simp
    then have "normalize_signal_action (Raw (PStr (normalize_scoring_action (Action a)))) = a" by (cases a) simp_all
    with Action show ?thesis by (simp add: normalize_signal_action_def)
  next
    case (Raw x)
    have none: "normalize_scoring_action (Raw PNone) = ''hold''" "normalize_signal_action (Raw PNone) = HOLD"
      by code_simp+
    show ?thesis
    proof (cases "x = PNone")
      case True
      with Raw none known[OF action_tables(4)] action_tables(5) show ?thesis by simp
    next
      case False
      then have "normalize_scoring_action v = (if action_text x \<in> set SCORING_ACTIONS then action_text x
        else (case map_of SCORING_ACTION_ALIASES (action_text x) of
                Some m \<Rightarrow> if m \<in> set SCORING_ACTIONS then m else ''hold'' | None \<Rightarrow> ''hold''))"
        unfolding Raw by (cases x) (simp_all add: normalize_scoring_action_def)
      with Raw named[of "action_text x"] show ?thesis by (simp add: normalize_signal_action_def)
    qed
  qed
qed

end
