(* ===== verification/Risk_Guard.thy ===== *)
theory Risk_Guard
  imports Signals Canonical_Store Breaker_Manager
begin

text \<open>
  Pre-trade risk validation, \<open>execution_engine/risk_guard.py\<close>, with the limits of
  \<open>lib_common/config_validation.py\<close> and the mandate queries of \<open>risk_breach_store.py\<close>.

  \<^item> How pydantic reads a field from a configuration value is a parameter (\<open>coercion\<close>); the bounds
    the fields declare are written out.
  \<^item> A configuration value the code passes to \<open>dict\<close> is a dictionary, or the call raises.
  \<^item> A decision keeps its rule and its context; the message, a formatted text of the same values, the
    counter and the log line are left out.
  \<^item> An options intent is an order intent with further terms, as the class is a subclass.
\<close>

section \<open>Limits\<close>

record coercion =
  as_decimal :: "pyval \<Rightarrow> rat option"
  as_int :: "pyval \<Rightarrow> int option"

record risk_limits =
  rl_max_position_pct :: rat
  rl_max_total_exposure_pct :: rat
  rl_max_daily_loss_pct :: rat
  rl_max_open_positions :: int
  rl_max_drawdown_pct :: rat
  rl_daily_trade_limit :: int

definition validation_error :: py_error where
  "validation_error = CustomError ''ValidationError'' ''RiskLimits''"

definition dec_value :: "coercion \<Rightarrow> rat \<Rightarrow> rat \<Rightarrow> pyval \<Rightarrow> rat res" where
  "dec_value C lo hi v =
     (case as_decimal C v of Some q \<Rightarrow> (if lo \<le> q \<and> q \<le> hi then Inr q else Inl validation_error)
      | None \<Rightarrow> Inl validation_error)"

definition int_value :: "coercion \<Rightarrow> int \<Rightarrow> int \<Rightarrow> pyval \<Rightarrow> int res" where
  "int_value C lo hi v =
     (case as_int C v of Some q \<Rightarrow> (if lo \<le> q \<and> q \<le> hi then Inr q else Inl validation_error)
      | None \<Rightarrow> Inl validation_error)"

definition field_or :: "(pyval \<Rightarrow> 'a res) \<Rightarrow> pydict \<Rightarrow> string \<Rightarrow> 'a \<Rightarrow> 'a res" where
  "field_or get d k dflt = (case map_of d k of None \<Rightarrow> Inr dflt | Some v \<Rightarrow> get v)"

definition risk_limits_init :: "coercion \<Rightarrow> pydict \<Rightarrow> risk_limits res" where
  "risk_limits_init C d =
     res_bind (field_or (dec_value C (1 / 100) 1) d ''max_position_pct'' (1 / 10)) (\<lambda>a.
     res_bind (field_or (dec_value C (1 / 100) 1) d ''max_total_exposure_pct'' (1 / 2)) (\<lambda>b.
     res_bind (field_or (dec_value C (1 / 100) (1 / 2)) d ''max_daily_loss_pct'' (1 / 20)) (\<lambda>c.
     res_bind (field_or (int_value C 1 100) d ''max_open_positions'' 10) (\<lambda>e.
     res_bind (field_or (dec_value C (1 / 20) (1 / 2)) d ''max_drawdown_pct'' (1 / 5)) (\<lambda>f.
     res_bind (field_or (int_value C 1 1000) d ''daily_trade_limit'' 50) (\<lambda>g.
     Inr \<lparr>rl_max_position_pct = a, rl_max_total_exposure_pct = b, rl_max_daily_loss_pct = c,
          rl_max_open_positions = e, rl_max_drawdown_pct = f, rl_daily_trade_limit = g\<rparr>))))))"

text \<open>The bounds, on values that already have their types.\<close>

definition limits_checked :: "risk_limits \<Rightarrow> risk_limits res" where
  "limits_checked l =
     res_bind (require (1 / 100 \<le> rl_max_position_pct l \<and> rl_max_position_pct l \<le> 1 \<and>
       1 / 100 \<le> rl_max_total_exposure_pct l \<and> rl_max_total_exposure_pct l \<le> 1 \<and>
       1 / 100 \<le> rl_max_daily_loss_pct l \<and> rl_max_daily_loss_pct l \<le> 1 / 2 \<and>
       1 \<le> rl_max_open_positions l \<and> rl_max_open_positions l \<le> 100 \<and>
       1 / 20 \<le> rl_max_drawdown_pct l \<and> rl_max_drawdown_pct l \<le> 1 / 2 \<and>
       1 \<le> rl_daily_trade_limit l \<and> rl_daily_trade_limit l \<le> 1000) validation_error) (\<lambda>_. Inr l)"

definition tighten :: "(pyval \<Rightarrow> 'a::linorder res) \<Rightarrow> pydict \<Rightarrow> string \<Rightarrow> 'a \<Rightarrow> 'a res" where
  "tighten get rules k current =
     (case map_of rules k of None \<Rightarrow> Inr current | Some v \<Rightarrow> map_sum id (\<lambda>capped. min current capped) (get v))"

definition apply_mandate :: "coercion \<Rightarrow> risk_limits \<Rightarrow> pydict \<Rightarrow> risk_limits res" where
  "apply_mandate C l rules =
     res_bind (tighten (dec_value C (1 / 100) 1) rules ''max_position_pct'' (rl_max_position_pct l)) (\<lambda>a.
     res_bind (tighten (dec_value C (1 / 100) 1) rules ''max_total_exposure_pct'' (rl_max_total_exposure_pct l)) (\<lambda>b.
     res_bind (tighten (dec_value C (1 / 100) (1 / 2)) rules ''max_daily_loss_pct'' (rl_max_daily_loss_pct l)) (\<lambda>c.
     res_bind (tighten (int_value C 1 100) rules ''max_open_positions'' (rl_max_open_positions l)) (\<lambda>e.
     res_bind (tighten (dec_value C (1 / 20) (1 / 2)) rules ''max_drawdown_pct'' (rl_max_drawdown_pct l)) (\<lambda>f.
     res_bind (tighten (int_value C 1 1000) rules ''daily_trade_limit'' (rl_daily_trade_limit l)) (\<lambda>g.
     Inr \<lparr>rl_max_position_pct = a, rl_max_total_exposure_pct = b, rl_max_daily_loss_pct = c,
          rl_max_open_positions = e, rl_max_drawdown_pct = f, rl_daily_trade_limit = g\<rparr>))))))"

fun apply_mandates :: "coercion \<Rightarrow> risk_limits \<Rightarrow> pydict list \<Rightarrow> risk_limits res" where
  "apply_mandates C l [] = Inr l"
| "apply_mandates C l (rules # rest) = res_bind (apply_mandate C l rules) (\<lambda>l'. apply_mandates C l' rest)"

definition apply_mandate_ceilings :: "coercion \<Rightarrow> risk_limits \<Rightarrow> pydict list \<Rightarrow> risk_limits res" where
  "apply_mandate_ceilings C l mandates = res_bind (apply_mandates C l mandates) limits_checked"

section \<open>Mandates\<close>

record mandate_row =
  md_id :: int
  md_user :: "string option"
  md_effective_at :: time
  md_rules :: pydict

definition load_mandates :: "mandate_row list \<Rightarrow> string \<Rightarrow> time \<Rightarrow> pydict list res" where
  "load_mandates rows user now =
     res_bind (require_user_id user) (\<lambda>u.
     Inr (map md_rules (sort_key (\<lambda>r. (if md_user r = None then 0 else 1 :: int, md_effective_at r, md_id r))
            (filter (\<lambda>r. (md_user r = None \<or> md_user r = Some u) \<and> md_effective_at r \<le> now) rows))))"

definition has_user_drawdown_mandate :: "mandate_row list \<Rightarrow> string \<Rightarrow> time \<Rightarrow> bool res" where
  "has_user_drawdown_mandate rows user now =
     res_bind (require_user_id user) (\<lambda>u.
     Inr (list_ex (\<lambda>r. md_user r = Some u \<and> md_effective_at r \<le> now \<and>
                       map_of (md_rules r) ''max_drawdown_pct'' \<noteq> None) rows))"

section \<open>Merging the configuration\<close>

text \<open>\<open>d.get(k, dflt)\<close>.\<close>

definition dict_get_or :: "pydict \<Rightarrow> string \<Rightarrow> pyval \<Rightarrow> pyval" where
  "dict_get_or d k dflt = (case map_of d k of None \<Rightarrow> dflt | Some v \<Rightarrow> v)"

text \<open>\<open>dict(v or {})\<close>.\<close>

definition dict_of :: "pyval \<Rightarrow> pydict res" where
  "dict_of v =
     (if \<not> truthy v then Inr [] else (case v of PDict d \<Rightarrow> Inr d
      | PStr _ \<Rightarrow> Inl (ValueError ''dictionary update sequence'') | _ \<Rightarrow> Inl (TypeError ''object is not iterable'')))"

definition dict_update :: "pydict \<Rightarrow> pydict \<Rightarrow> pydict" where
  "dict_update d e = foldl (\<lambda>acc (k, v). dict_set acc k v) d e"

definition merge_snapshot :: "pydict \<Rightarrow> pyval \<Rightarrow> pydict res" where
  "merge_snapshot merged snapshot =
     (case snapshot of
        PDict s \<Rightarrow>
          res_bind (dict_of (dict_get s ''risk_caps'')) (\<lambda>caps.
          case dict_get s ''config'' of
            PDict c \<Rightarrow> res_bind (dict_of (dict_get c ''risk_caps'')) (\<lambda>caps'.
                         Inr (dict_update (dict_update merged caps) caps'))
          | _ \<Rightarrow> Inr (dict_update merged caps))
      | _ \<Rightarrow> Inr merged)"

definition LIMIT_FIELDS :: "string list" where
  "LIMIT_FIELDS = [''max_position_pct'', ''max_total_exposure_pct'', ''max_daily_loss_pct'',
     ''max_open_positions'', ''max_drawdown_pct'', ''daily_trade_limit'']"

definition override_field :: "pydict \<Rightarrow> pydict \<Rightarrow> pydict \<Rightarrow> string \<Rightarrow> pydict" where
  "override_field profile config merged k =
     (let m = (case map_of profile k of None \<Rightarrow> merged | Some v \<Rightarrow> dict_set merged k v)
      in case map_of config k of None \<Rightarrow> m | Some v \<Rightarrow> dict_set m k v)"

definition merged_limits :: "pydict \<Rightarrow> pydict \<Rightarrow> pydict res" where
  "merged_limits profile config =
     res_bind (dict_of (dict_get profile ''risk_limits'')) (\<lambda>pl.
     res_bind (dict_of (dict_get config ''risk_limits'')) (\<lambda>cl.
     res_bind (dict_of (dict_get profile ''risk_caps'')) (\<lambda>pc.
     res_bind (dict_of (dict_get config ''risk_caps'')) (\<lambda>cc.
     res_bind (merge_snapshot (dict_update (dict_update (dict_update (dict_update [] pl) cl) pc) cc)
        (dict_get profile ''_execution_policy_snapshot'')) (\<lambda>m.
     res_bind (merge_snapshot m (dict_get config ''_execution_policy_snapshot'')) (\<lambda>m'.
     Inr (foldl (override_field profile config) m' LIMIT_FIELDS)))))))"

text \<open>A guard without a store has no mandates.\<close>

record risk_guard =
  rg_mandates :: "mandate_row list option"
  rg_short_classes :: "string list"

definition load_limits :: "coercion \<Rightarrow> risk_guard \<Rightarrow> string \<Rightarrow> time \<Rightarrow> pydict \<Rightarrow> pydict \<Rightarrow> risk_limits res" where
  "load_limits C g user now profile config =
     res_bind (case rg_mandates g of None \<Rightarrow> Inr [] | Some rows \<Rightarrow> load_mandates rows user now) (\<lambda>mandates.
     res_bind (merged_limits profile config) (\<lambda>merged.
     res_bind (risk_limits_init C merged) (\<lambda>limits.
     if mandates = [] then Inr limits else apply_mandate_ceilings C limits mandates)))"

section \<open>Requests\<close>

record options_terms =
  ot_underlying_price :: "rat option"
  ot_max_loss :: "rat option"

datatype risk_intent = Order order_intent | Options order_intent options_terms

definition intent_of :: "risk_intent \<Rightarrow> order_intent" where
  "intent_of x = (case x of Order i \<Rightarrow> i | Options i _ \<Rightarrow> i)"

record account_state =
  as_equity :: rat
  as_available_cash :: rat
  as_margin_used :: rat
  as_open_positions :: int
  as_daily_trades :: int
  as_positions :: "pydict list"

record risk_decision =
  rd_allowed :: bool
  rd_rule_code :: "string option"
  rd_severity :: string
  rd_context :: pydict

definition allowed_decision :: risk_decision where
  "allowed_decision = \<lparr>rd_allowed = True, rd_rule_code = None, rd_severity = ''block'', rd_context = []\<rparr>"

definition block :: "string \<Rightarrow> pydict \<Rightarrow> risk_decision" where
  "block rule ctx = \<lparr>rd_allowed = False, rd_rule_code = Some rule, rd_severity = ''block'', rd_context = ctx\<rparr>"

record risk_request =
  rk_user :: string
  rk_signal :: signal
  rk_profile :: pydict
  rk_config :: pydict
  rk_account :: account_state
  rk_mode :: execution_mode
  rk_capabilities :: broker_capabilities
  rk_intents :: "risk_intent list option"
  rk_market_data :: pydict
  rk_close :: "close_quantity_override option"
  rk_target :: "target_position_override option"

section \<open>Exact reductions\<close>

definition QUANTITY_MATCH_TOLERANCE :: rat where
  "QUANTITY_MATCH_TOLERANCE = 1 / 100000000"

definition valid_rebalance_digest :: "string \<Rightarrow> bool" where
  "valid_rebalance_digest v \<longleftrightarrow> length v = 64 \<and> list_all (\<lambda>c. c \<in> set ''0123456789abcdef'') v"

text \<open>Symbols match only when they are the same text; their normal forms are then the same too.\<close>

definition symbols_match :: "string list \<Rightarrow> bool" where
  "symbols_match symbols \<longleftrightarrow>
     length (remdups symbols) = 1 \<and> length (remdups (map normalize_product_symbol symbols)) = 1"

definition decimal_matches :: "pyval \<Rightarrow> rat \<Rightarrow> rat \<Rightarrow> bool" where
  "decimal_matches v expected tolerance =
     (case py_float_text v of None \<Rightarrow> False | Some c \<Rightarrow> \<bar>c - expected\<bar> \<le> tolerance)"

definition decimals_match :: "pydict \<Rightarrow> (string \<times> rat) list \<Rightarrow> bool" where
  "decimals_match pl kvs \<longleftrightarrow>
     list_all (\<lambda>(k, v). decimal_matches (dict_get pl k) v QUANTITY_MATCH_TOLERANCE) kvs"

definition is_typed_target_reduction_request :: "signal \<Rightarrow> target_position_override option \<Rightarrow> bool" where
  "is_typed_target_reduction_request s override =
     (case override of None \<Rightarrow> False
      | Some t \<Rightarrow> sn_action s = CLOSE \<and> delta_quantity t < 0 \<and> symbols_match [sn_symbol s, tp_symbol t] \<and>
          valid_rebalance_digest (tp_account_plan_id t) \<and> valid_rebalance_digest (tp_plan_leg_id t))"

definition target_payload_matches :: "target_position_override \<Rightarrow> pydict \<Rightarrow> bool" where
  "target_payload_matches t pl \<longleftrightarrow>
     dict_get pl ''account_plan_id'' = PStr (tp_account_plan_id t) \<and>
     dict_get pl ''plan_leg_id'' = PStr (tp_plan_leg_id t) \<and>
     dict_get pl ''broker_observed_at'' = PTime (tp_broker_observed_at t) \<and>
     dict_get pl ''quote_observed_at'' = PTime (tp_quote_observed_at t) \<and>
     decimal_matches (dict_get pl ''revalidated_target_quantity'') (tp_target_quantity t)
       (max QUANTITY_MATCH_TOLERANCE (tp_target_quantity t * tp_drift_fraction t)) \<and>
     decimals_match pl
       [(''target_allocation'', tp_target_allocation t), (''target_quantity'', tp_target_quantity t),
        (''strategy_quantity'', tp_strategy_quantity t), (''broker_quantity'', tp_broker_quantity t),
        (''delta_quantity'', delta_quantity t),
        (''projected_broker_quantity'', tp_broker_quantity t + delta_quantity t),
        (''target_weight_drift_fraction'', tp_drift_fraction t), (''reference_price'', tp_reference_price t)]"

definition is_exact_target_reduction_intent ::
  "signal \<Rightarrow> target_position_override option \<Rightarrow> risk_intent list \<Rightarrow> bool" where
  "is_exact_target_reduction_intent s override intents =
     (case (override, intents) of
        (Some t, [x]) \<Rightarrow>
          (let i = intent_of x; m = metadata i in
           is_typed_target_reduction_request s override \<and> symbols_match [sn_symbol s, tp_symbol t, symbol i] \<and>
           py_upper (py_strip (side i)) = ''SELL'' \<and>
           decimal_matches (PFloat (quantity i)) \<bar>delta_quantity t\<bar> QUANTITY_MATCH_TOLERANCE \<and>
           dict_get m ''purpose'' = PStr ''close_position'' \<and> dict_get m ''reduce_only'' = PBool True \<and>
           decimal_matches (dict_get m ''reference_price'') (tp_reference_price t) QUANTITY_MATCH_TOLERANCE \<and>
           (case dict_get m ''rebalance_target_override'' of PDict pl \<Rightarrow> target_payload_matches t pl
            | _ \<Rightarrow> False))
      | _ \<Rightarrow> False)"

definition is_exact_close_intent :: "signal \<Rightarrow> close_quantity_override \<Rightarrow> risk_intent list \<Rightarrow> bool" where
  "is_exact_close_intent s c intents =
     (case intents of
        [x] \<Rightarrow>
          (let i = intent_of x; m = metadata i in
           sn_action s = CLOSE \<and> symbols_match [sn_symbol s, cq_symbol c, symbol i] \<and>
           py_upper (py_strip (side i)) = (if 0 < cq_broker_quantity c then ''SELL'' else ''BUY'') \<and>
           decimal_matches (PFloat (quantity i)) (cq_quantity c) QUANTITY_MATCH_TOLERANCE \<and>
           dict_get m ''purpose'' = PStr ''close_position'' \<and>
           (case dict_get m ''rebalance_close_override'' of
              PDict pl \<Rightarrow>
                dict_get pl ''account_plan_id'' = PStr (cq_account_plan_id c) \<and>
                dict_get pl ''plan_leg_id'' = PStr (cq_plan_leg_id c) \<and>
                dict_get pl ''broker_observed_at'' = PTime (cq_broker_observed_at c) \<and>
                decimals_match pl
                  [(''strategy_quantity'', cq_strategy_quantity c), (''broker_quantity'', cq_broker_quantity c),
                   (''clamped_quantity'', cq_quantity c)]
            | _ \<Rightarrow> False))
      | _ \<Rightarrow> False)"

definition is_exact_typed_risk_reduction ::
  "signal \<Rightarrow> risk_intent list option \<Rightarrow> close_quantity_override option \<Rightarrow> target_position_override option \<Rightarrow> bool" where
  "is_exact_typed_risk_reduction s intents close target =
     (case (intents, close, target) of
        (Some xs, None, Some t) \<Rightarrow> is_exact_target_reduction_intent s (Some t) xs
      | (Some xs, Some c, None) \<Rightarrow> is_exact_close_intent s c xs
      | _ \<Rightarrow> False)"

section \<open>Exposure\<close>

definition PositionValuationError :: "string \<Rightarrow> py_error" where
  "PositionValuationError msg = CustomError ''PositionValuationError'' msg"

definition is_valuation_error :: "py_error \<Rightarrow> bool" where
  "is_valuation_error e = (case e of CustomError c _ \<Rightarrow> c = ''PositionValuationError'' | _ \<Rightarrow> False)"

definition absent :: "pyval \<Rightarrow> bool" where
  "absent v \<longleftrightarrow> v = PNone \<or> v = PStr []"

definition number_of :: "pyval \<Rightarrow> number" where
  "number_of v = (case py_float_text v of Some q \<Rightarrow> Fin q | None \<Rightarrow> NaN)"

definition optional_number :: "pyval \<Rightarrow> number option" where
  "optional_number v = (if absent v then None else Some (number_of v))"

definition position_values_of :: "pydict \<Rightarrow> position_values" where
  "position_values_of p =
     \<lparr>pv_quantity = optional_number (dict_get p ''quantity''),
      pv_gross_notional = optional_number (dict_get p ''gross_notional''),
      pv_quantity_unit = (if truthy (dict_get p ''quantity_unit'') then str_of (dict_get p ''quantity_unit'') else []),
      pv_current_price = optional_number (dict_get p ''current_price''),
      pv_entry_price = optional_number (dict_get p ''entry_price'')\<rparr>"

fun estimate_existing_exposure :: "pydict list \<Rightarrow> rat res" where
  "estimate_existing_exposure [] = Inr 0"
| "estimate_existing_exposure (p # ps) =
     res_bind (position_gross_notional (position_values_of p)) (\<lambda>n.
     res_bind (estimate_existing_exposure ps) (\<lambda>rest. Inr (n + rest)))"

definition has_open_symbol :: "account_state \<Rightarrow> string \<Rightarrow> bool" where
  "has_open_symbol a sy \<longleftrightarrow>
     list_ex (\<lambda>p. normalize_product_symbol (str_of (dict_get p ''symbol'')) = normalize_product_symbol sy \<and>
       (case py_float_text (dict_get_or p ''qty'' (dict_get_or p ''quantity'' (PInt 0))) of
          None \<Rightarrow> False | Some q \<Rightarrow> q \<noteq> 0)) (as_positions a)"

definition intent_account_notional :: "risk_intent \<Rightarrow> rat \<Rightarrow> rat" where
  "intent_account_notional x n =
     (case currency_context (intent_of x) of None \<Rightarrow> n | Some c \<Rightarrow> settlement_to_account c n)"

definition required_positive_notional :: "pyval \<Rightarrow> rat res" where
  "required_positive_notional v =
     (case py_float_text v of
        None \<Rightarrow> Inl (PositionValuationError ''intent returned invalid notional_value'')
      | Some n \<Rightarrow> if n \<le> 0 then Inl (PositionValuationError ''intent returned non-positive notional_value'') else Inr n)"

fun first_exposure :: "pyval list \<Rightarrow> rat option" where
  "first_exposure [] = None"
| "first_exposure (v # vs) =
     (case (if v = PNone then None else py_float v) of
        Some q \<Rightarrow> (if 0 < \<bar>q\<bar> then Some \<bar>q\<bar> else first_exposure vs)
      | None \<Rightarrow> first_exposure vs)"

definition opt_rat :: "rat option \<Rightarrow> pyval" where
  "opt_rat v = (case v of None \<Rightarrow> PNone | Some q \<Rightarrow> PFloat q)"

definition estimate_options_exposure :: "order_intent \<Rightarrow> options_terms \<Rightarrow> rat option \<Rightarrow> rat option res" where
  "estimate_options_exposure i t fallback =
     (let m = metadata i in
      case first_exposure [opt_rat (ot_max_loss t), dict_get m ''max_loss'', dict_get m ''net_debit''] of
        Some e \<Rightarrow> Inr (Some e)
      | None \<Rightarrow>
          (case (case ot_underlying_price t of Some u \<Rightarrow> (if u = 0 then fallback else Some u) | None \<Rightarrow> fallback) of
             None \<Rightarrow> Inr None
           | Some price \<Rightarrow>
               if price \<le> 0 \<or> \<bar>quantity i\<bar> \<le> 0 then Inr None
               else if absent (dict_get m ''contract_multiplier'')
               then Inl (PositionValuationError ''Options intent omitted contract_multiplier'')
               else (case py_float_text (dict_get m ''contract_multiplier'') of
                       None \<Rightarrow> Inl (PositionValuationError ''Options intent returned invalid contract_multiplier'')
                     | Some mult \<Rightarrow>
                         if \<bar>mult\<bar> \<le> 0
                         then Inl (PositionValuationError ''Options intent returned non-positive contract_multiplier'')
                         else Inr (Some (\<bar>price\<bar> * \<bar>quantity i\<bar> * \<bar>mult\<bar>)))))"

definition estimate_price ::
  "signal \<Rightarrow> pydict \<Rightarrow> target_position_override option \<Rightarrow> rat option res" where
  "estimate_price s market target =
     res_bind (case target of
         Some t \<Rightarrow> Inr (Some (tp_reference_price t))
       | None \<Rightarrow>
           (case dict_get market ''price'' of
              PNone \<Rightarrow> Inr None
            | v \<Rightarrow> (case py_float v of Some q \<Rightarrow> Inr (Some q)
                     | None \<Rightarrow> Inl (ValueError ''could not convert to float'')))) (\<lambda>price.
     Inr (case price of Some q \<Rightarrow> Some q | None \<Rightarrow> sn_entry_price s))"

definition skips_exposure :: "pydict \<Rightarrow> bool" where
  "skips_exposure m \<longleftrightarrow>
     py_lower (py_strip (str_of (dict_get m ''purpose''))) \<in> set [''stop_loss'', ''take_profit'', ''bracket'']"

text \<open>\<open>None\<close>: an order that cannot be priced ends the estimate without a value.\<close>

fun estimate_intents ::
  "rat option \<Rightarrow> bool \<Rightarrow> risk_intent list \<Rightarrow> rat \<Rightarrow> rat option res" where
  "estimate_intents price targeted [] acc = Inr (Some acc)"
| "estimate_intents price targeted (x # xs) acc =
     (let i = intent_of x; m = metadata i;
          priced = (case price of None \<Rightarrow> Inr None
                    | Some p \<Rightarrow> if p \<le> 0 then Inr None
                                else estimate_intents price targeted xs
                                       (acc + intent_account_notional x (\<bar>quantity i\<bar> * p)))
      in if skips_exposure m then estimate_intents price targeted xs acc
         else case x of
           Options _ t \<Rightarrow>
             res_bind (estimate_options_exposure i t price) (\<lambda>e.
             case e of None \<Rightarrow> estimate_intents price targeted xs acc
             | Some n \<Rightarrow> estimate_intents price targeted xs (acc + intent_account_notional x \<bar>n\<bar>))
         | Order _ \<Rightarrow>
             (if targeted then priced
              else if absent (dict_get m ''notional_value'') then priced
              else res_bind (required_positive_notional (dict_get m ''notional_value'')) (\<lambda>n.
                   estimate_intents price targeted xs (acc + intent_account_notional x n))))"

definition estimate_notional ::
  "risk_intent list \<Rightarrow> signal \<Rightarrow> pydict \<Rightarrow> target_position_override option \<Rightarrow> rat option res" where
  "estimate_notional intents s market target =
     res_bind (estimate_price s market target) (\<lambda>price. estimate_intents price (target \<noteq> None) intents 0)"

definition estimate_projected_position_notional ::
  "risk_intent list \<Rightarrow> rat option \<Rightarrow> target_position_override option \<Rightarrow> rat option res" where
  "estimate_projected_position_notional intents incremental target =
     (case target of
        None \<Rightarrow> Inr incremental
      | Some t \<Rightarrow>
          if delta_quantity t \<le> 0 then Inr incremental
          else case intents of
            [x] \<Rightarrow>
              res_bind (require (incremental \<noteq> None)
                (PositionValuationError ''Target-position entry has no incremental order valuation'')) (\<lambda>_.
              let projected = tp_broker_quantity t + delta_quantity t in
              res_bind (require (0 < projected)
                (PositionValuationError ''Target-position entry produced an invalid broker quantity'')) (\<lambda>_.
              Inr (Some (intent_account_notional x (projected * tp_reference_price t)))))
          | _ \<Rightarrow> Inl (PositionValuationError ''Target-position entry must produce one valuatable spot order''))"

section \<open>Losses\<close>

definition resolve_daily_loss_pct :: "pydict \<Rightarrow> account_state \<Rightarrow> rat option" where
  "resolve_daily_loss_pct profile a =
     (let realized = dict_get profile ''realized_pnl_today''; start = dict_get profile ''day_start_equity'' in
      if realized \<noteq> PNone \<and> truthy start then
        (case py_float realized of
           None \<Rightarrow> None
         | Some r \<Rightarrow>
             if min 0 r < 0
             then (case py_float start of None \<Rightarrow> None
                   | Some e \<Rightarrow> if e = 0 then None else Some (\<bar>min 0 r\<bar> / e))
             else Some 0)
      else if truthy start \<and> as_equity a \<noteq> 0 then
        (case py_float start of None \<Rightarrow> None
         | Some e \<Rightarrow> if 0 < e \<and> as_equity a < e then Some ((e - as_equity a) / e) else None)
      else None)"

definition resolve_drawdown_pct :: "pydict \<Rightarrow> account_state \<Rightarrow> rat option" where
  "resolve_drawdown_pct profile a =
     (let peak = dict_get profile ''peak_equity'' in
      if \<not> truthy peak \<or> as_equity a = 0 then None
      else (case py_float peak of None \<Rightarrow> None
            | Some p \<Rightarrow> if p \<le> 0 \<or> p \<le> as_equity a then Some 0 else Some ((p - as_equity a) / p)))"

section \<open>Shorting\<close>

definition supports_shorting :: "broker_capabilities \<Rightarrow> execution_mode \<Rightarrow> bool" where
  "supports_shorting caps mode =
     (if mode = PERPETUAL \<or> mode = FUTURES then supports_futures caps \<or> supports_perpetual caps
      else if mode = MARGIN then supports_margin caps else False)"

definition asset_class_short_eligible :: "risk_guard \<Rightarrow> signal \<Rightarrow> bool" where
  "asset_class_short_eligible g s =
     (let c = py_lower (py_strip (case sn_asset_class s of None \<Rightarrow> [] | Some x \<Rightarrow> x))
      in rg_short_classes g = [] \<or> c = [] \<or> c \<in> set (rg_short_classes g))"

definition evaluate_short_block :: "risk_guard \<Rightarrow> risk_request \<Rightarrow> risk_decision option" where
  "evaluate_short_block g q =
     (let s = rk_signal q;
          user_eligible = truthy (dict_get_or (rk_config q) ''enable_shorting''
                            (dict_get_or (rk_profile q) ''enable_shorting'' (PBool False)));
          supported = supports_shorting (rk_capabilities q) (rk_mode q);
          blocked = (dict_get (sn_metadata s) ''instrument_shortable'' = PBool False);
          eligible = asset_class_short_eligible g s
      in if user_eligible \<and> supported \<and> \<not> blocked \<and> eligible then None
         else Some (block ''shorting_disabled''
           [(''signal_id'', PStr (sn_signal_id s)), (''symbol'', PStr (sn_symbol s)),
            (''broker'', PStr (broker_type (rk_capabilities q))),
            (''execution_mode'', PStr (execution_mode_value (rk_mode q))),
            (''short_block_dimension'',
             PStr (if \<not> user_eligible then ''user_not_eligible''
                   else if \<not> supported then ''broker_mode_unsupported''
                   else if blocked then ''instrument_not_shortable'' else ''asset_class_not_shortable''))]))"

section \<open>Portfolio stop authority\<close>

definition ACCOUNT_DRAWDOWN_POLICY :: string where
  "ACCOUNT_DRAWDOWN_POLICY = ''account_drawdown_mandate_v1''"

definition mandate_present :: "risk_guard \<Rightarrow> string \<Rightarrow> time \<Rightarrow> bool" where
  "mandate_present g user now =
     (case rg_mandates g of None \<Rightarrow> False
      | Some rows \<Rightarrow> (case has_user_drawdown_mandate rows user now of Inl _ \<Rightarrow> False | Inr b \<Rightarrow> b))"

definition portfolio_stop_authority ::
  "risk_guard \<Rightarrow> risk_request \<Rightarrow> time \<Rightarrow> bool \<times> risk_decision option" where
  "portfolio_stop_authority g q now =
     (let raw = dict_get (sn_metadata (rk_signal q)) ''portfolio_stop_policy'';
          ctx = [(''portfolio_stop_policy'', raw)] in
      if raw = PNone then (False, None)
      else if sn_action (rk_signal q) \<noteq> LONG then (False, None)
      else if raw \<noteq> PStr ACCOUNT_DRAWDOWN_POLICY then (False, Some (block ''portfolio_stop_policy_unsupported'' ctx))
      else if dict_get (rk_config q) ''require_stop_loss'' \<noteq> PBool False
      then (False, Some (block ''portfolio_stop_override_required'' ctx))
      else if \<not> mandate_present g (rk_user q) now
      then (False, Some (block ''portfolio_drawdown_mandate_missing'' ctx))
      else if dict_get (rk_profile q) ''risk_baseline_has_persisted_account_peak'' \<noteq> PBool True
      then (False, Some (block ''portfolio_drawdown_baseline_missing''
             (ctx @ [(''risk_baseline_has_persisted_account_peak'', PBool False)])))
      else if dict_get (rk_profile q) ''risk_baseline_current_equity_from_broker'' \<noteq> PBool True
      then (False, Some (block ''portfolio_drawdown_baseline_missing''
             (ctx @ [(''risk_baseline_current_equity_from_broker'', PBool False)])))
      else if resolve_drawdown_pct (rk_profile q) (rk_account q) = None
      then (False, Some (block ''portfolio_drawdown_baseline_missing'' ctx))
      else (True, None))"

section \<open>Evaluation\<close>

definition CAP_TOLERANCE :: rat where
  "CAP_TOLERANCE = 1005 / 1000"

definition requirement_block :: "entry_requirement \<Rightarrow> risk_decision option res" where
  "requirement_block r =
     (if en_allowed r then Inr None
      else case en_rule_code r of
        None \<Rightarrow> Inl (RuntimeError ''blocked entry requirement must identify its rule and message'')
      | Some rule \<Rightarrow> Inr (Some (block rule (en_context r))))"

text \<open>The limits on counts and losses, in the order of the code.\<close>

definition count_block :: "risk_limits \<Rightarrow> risk_request \<Rightarrow> bool \<Rightarrow> risk_decision option" where
  "count_block l q reducing =
     (let s = rk_signal q; a = rk_account q;
          loss = resolve_daily_loss_pct (rk_profile q) a; drawdown = resolve_drawdown_pct (rk_profile q) a in
      if (sn_action s = LONG \<or> sn_action s = SHORT) \<and> rl_daily_trade_limit l \<le> as_daily_trades a
      then Some (block ''daily_trade_limit'' [(''daily_trades'', PInt (as_daily_trades a))])
      else if sn_action s \<noteq> HOLD \<and> \<not> reducing \<and> rl_max_open_positions l \<le> as_open_positions a \<and>
              \<not> has_open_symbol a (sn_symbol s)
      then Some (block ''max_open_positions'' [(''open_positions'', PInt (as_open_positions a))])
      else if \<not> reducing \<and> (case loss of None \<Rightarrow> False | Some x \<Rightarrow> rl_max_daily_loss_pct l < x)
      then Some (block ''max_daily_loss_pct'' [(''daily_loss_pct'', opt_rat loss)])
      else if \<not> reducing \<and> (case drawdown of None \<Rightarrow> False | Some x \<Rightarrow> rl_max_drawdown_pct l < x)
      then Some (block ''max_drawdown_pct'' [(''drawdown_pct'', opt_rat drawdown)])
      else None)"

definition valuation_block :: "string \<Rightarrow> py_error \<Rightarrow> risk_decision res" where
  "valuation_block rule e =
     (case e of
        CustomError c msg \<Rightarrow>
          (if c = ''PositionValuationError'' then Inr (block rule [(''valuation_error'', PStr msg)]) else Inl e)
      | _ \<Rightarrow> Inl e)"

definition exposure_block :: "string \<Rightarrow> risk_decision" where
  "exposure_block msg = block ''account_position_valuation_unavailable'' [(''valuation_error'', PStr msg)]"

definition cap_check :: "risk_limits \<Rightarrow> account_state \<Rightarrow> rat \<Rightarrow> rat \<Rightarrow> risk_decision" where
  "cap_check l a projected incremental =
     (if rl_max_position_pct l * CAP_TOLERANCE < projected / as_equity a
      then block ''max_position_pct'' [(''projected_notional'', PFloat projected),
             (''projected_position_pct'', PFloat (projected / as_equity a))]
      else case estimate_existing_exposure (as_positions a) of
        Inl e \<Rightarrow> exposure_block (error_text e)
      | Inr existing \<Rightarrow>
          if rl_max_total_exposure_pct l * CAP_TOLERANCE < (existing + incremental) / as_equity a
          then block ''max_total_exposure_pct'' [(''existing_exposure'', PFloat existing),
                 (''projected_notional'', PFloat incremental),
                 (''projected_total_exposure'', PFloat (existing + incremental)),
                 (''projected_total_exposure_pct'', PFloat ((existing + incremental) / as_equity a))]
          else allowed_decision)"

definition exposure_check :: "risk_limits \<Rightarrow> risk_request \<Rightarrow> risk_intent list \<Rightarrow> risk_decision res" where
  "exposure_check l q intents =
     (case res_bind (estimate_notional intents (rk_signal q) (rk_market_data q) (rk_target q)) (\<lambda>inc.
             res_bind (estimate_projected_position_notional intents inc (rk_target q)) (\<lambda>proj. Inr (inc, proj))) of
        Inl e \<Rightarrow> valuation_block ''projected_position_valuation_unavailable'' e
      | Inr (inc, proj) \<Rightarrow>
          (case (proj, inc) of
             (Some p, Some n) \<Rightarrow>
               if 0 < as_equity (rk_account q) then Inr (cap_check l (rk_account q) p n) else Inr allowed_decision
           | _ \<Rightarrow> Inr allowed_decision))"

definition evaluate :: "coercion \<Rightarrow> risk_guard \<Rightarrow> time \<Rightarrow> risk_request \<Rightarrow> risk_decision res" where
  "evaluate C g now q =
     res_bind (load_limits C g (rk_user q) now (rk_profile q) (rk_config q)) (\<lambda>l.
     let s = rk_signal q;
         reducing = is_exact_typed_risk_reduction s (rk_intents q) (rk_close q) (rk_target q);
         short = (if sn_action s = SHORT then evaluate_short_block g q else None) in
     case short of Some d \<Rightarrow> Inr d | None \<Rightarrow>
     (case portfolio_stop_authority g q now of
        (_, Some d) \<Rightarrow> Inr d
      | (authorized, None) \<Rightarrow>
     let require_stop = (if authorized then False
           else truthy (dict_get_or (rk_config q) ''require_stop_loss''
                  (dict_get_or (rk_profile q) ''require_stop_loss'' (PBool True)))) in
     res_bind (requirement_block (evaluate_entry_signal_requirements s require_stop False None)) (\<lambda>stop_block.
     case stop_block of Some d \<Rightarrow> Inr d | None \<Rightarrow>
     res_bind (dict_of (dict_get (rk_config q) ''risk_caps'')) (\<lambda>caps.
     let explicit = truthy (dict_get_or (rk_config q) ''require_explicit_scoring_inputs''
           (dict_get_or caps ''require_explicit_scoring_inputs''
             (dict_get_or (rk_profile q) ''require_explicit_scoring_inputs'' (PBool False)))) in
     res_bind (requirement_block (evaluate_entry_signal_requirements s False explicit None)) (\<lambda>input_block.
     case input_block of Some d \<Rightarrow> Inr d | None \<Rightarrow>
     case count_block l q reducing of Some d \<Rightarrow> Inr d | None \<Rightarrow>
     (case rk_intents q of
        Some (x # xs) \<Rightarrow> if reducing then Inr allowed_decision else exposure_check l q (x # xs)
      | _ \<Rightarrow> Inr allowed_decision))))))"

definition evaluate_post_trade ::
  "coercion \<Rightarrow> risk_guard \<Rightarrow> time \<Rightarrow> string \<Rightarrow> pydict \<Rightarrow> pydict \<Rightarrow> account_state \<Rightarrow> risk_decision res" where
  "evaluate_post_trade C g now user profile config a =
     res_bind (load_limits C g user now profile config) (\<lambda>l.
     if as_equity a \<le> 0 then Inr allowed_decision
     else case estimate_existing_exposure (as_positions a) of
       Inl e \<Rightarrow> Inr (exposure_block (error_text e))
     | Inr exposure \<Rightarrow>
         if rl_max_total_exposure_pct l * CAP_TOLERANCE < exposure / as_equity a
         then Inr (block ''post_trade_max_total_exposure_pct'' [(''exposure'', PFloat exposure),
                (''exposure_pct'', PFloat (exposure / as_equity a)), (''equity'', PFloat (as_equity a))])
         else Inr allowed_decision)"

text \<open>A failing store does not change the decision that was made.\<close>

definition persist_decision :: "risk_store option \<Rightarrow> bool \<Rightarrow> string \<Rightarrow> risk_decision \<Rightarrow> time \<Rightarrow> risk_store option" where
  "persist_decision st0 db_ok user d now =
     (case (st0, rd_rule_code d) of
        (Some st, Some (c # cs)) \<Rightarrow>
          (if rd_allowed d \<or> \<not> db_ok then st0
           else case risk_record st user (c # cs) (rd_severity d) (rd_context d) None now of
             Inl _ \<Rightarrow> st0 | Inr (st', _) \<Rightarrow> Some st')
      | _ \<Rightarrow> st0)"

end
