(* ===== verification/Risk_Safety.thy ===== *)
theory Risk_Safety
  imports Risk_Guard
begin

text \<open>
  What the risk guard promises: mandates only tighten limits, an order it allows respects every
  limit that it can measure, and the reductions that bypass the limits cannot grow a position.
\<close>

section \<open>Limits\<close>

definition limits_le :: "risk_limits \<Rightarrow> risk_limits \<Rightarrow> bool" where
  "limits_le l l' \<longleftrightarrow> rl_max_position_pct l \<le> rl_max_position_pct l' \<and>
     rl_max_total_exposure_pct l \<le> rl_max_total_exposure_pct l' \<and>
     rl_max_daily_loss_pct l \<le> rl_max_daily_loss_pct l' \<and> rl_max_open_positions l \<le> rl_max_open_positions l' \<and>
     rl_max_drawdown_pct l \<le> rl_max_drawdown_pct l' \<and> rl_daily_trade_limit l \<le> rl_daily_trade_limit l'"

text \<open>A mandate's own figures, where it has them, are respected.\<close>

definition capped :: "(pyval \<Rightarrow> 'a::linorder option) \<Rightarrow> pydict \<Rightarrow> string \<Rightarrow> 'a \<Rightarrow> bool" where
  "capped get rules k x =
     (case map_of rules k of None \<Rightarrow> True | Some v \<Rightarrow> (case get v of None \<Rightarrow> False | Some c \<Rightarrow> x \<le> c))"

definition within_mandate :: "coercion \<Rightarrow> pydict \<Rightarrow> risk_limits \<Rightarrow> bool" where
  "within_mandate C rules l \<longleftrightarrow>
     capped (as_decimal C) rules ''max_position_pct'' (rl_max_position_pct l) \<and>
     capped (as_decimal C) rules ''max_total_exposure_pct'' (rl_max_total_exposure_pct l) \<and>
     capped (as_decimal C) rules ''max_daily_loss_pct'' (rl_max_daily_loss_pct l) \<and>
     capped (as_int C) rules ''max_open_positions'' (rl_max_open_positions l) \<and>
     capped (as_decimal C) rules ''max_drawdown_pct'' (rl_max_drawdown_pct l) \<and>
     capped (as_int C) rules ''daily_trade_limit'' (rl_daily_trade_limit l)"

lemma capped_mono: "capped get rules k x \<Longrightarrow> y \<le> x \<Longrightarrow> capped get rules k y"
  by (auto simp: capped_def split: option.splits)

lemma limits_le_trans: "limits_le a b \<Longrightarrow> limits_le b c \<Longrightarrow> limits_le a c"
  by (auto simp: limits_le_def)

lemma limits_le_refl [simp]: "limits_le l l"
  by (simp add: limits_le_def)

lemma tighten_Inr:
  assumes "tighten get rules k x = Inr y"
  shows "y \<le> x \<and> (case map_of rules k of None \<Rightarrow> True | Some v \<Rightarrow> (\<exists>c. get v = Inr c \<and> y \<le> c))"
proof (cases "map_of rules k")
  case None
  with assms show ?thesis by (simp add: tighten_def)
next
  case (Some v)
  with assms show ?thesis by (cases "get v") (auto simp: tighten_def)
qed

lemma value_coerced:
  "dec_value C lo hi v = Inr c \<Longrightarrow> as_decimal C v = Some c" "int_value C lo' hi' v = Inr n \<Longrightarrow> as_int C v = Some n"
  by (auto simp: dec_value_def int_value_def split: option.splits if_splits)

lemma tighten_coerced:
  "tighten (dec_value C lo hi) rules k x = Inr y \<Longrightarrow> y \<le> x \<and> capped (as_decimal C) rules k y"
  "tighten (int_value C lo' hi') rules k x' = Inr y' \<Longrightarrow> y' \<le> x' \<and> capped (as_int C) rules k y'"
  using tighten_Inr[of "dec_value C lo hi" rules k x y] tighten_Inr[of "int_value C lo' hi'" rules k x' y']
  by (auto simp: capped_def split: option.splits dest!: value_coerced)

lemma apply_mandate_tightens:
  assumes "apply_mandate C l rules = Inr l'"
  shows "limits_le l' l" "within_mandate C rules l'"
proof -
  from assms obtain a b c e f g where
    "tighten (dec_value C (1 / 100) 1) rules ''max_position_pct'' (rl_max_position_pct l) = Inr a"
    "tighten (dec_value C (1 / 100) 1) rules ''max_total_exposure_pct'' (rl_max_total_exposure_pct l) = Inr b"
    "tighten (dec_value C (1 / 100) (1 / 2)) rules ''max_daily_loss_pct'' (rl_max_daily_loss_pct l) = Inr c"
    "tighten (int_value C 1 100) rules ''max_open_positions'' (rl_max_open_positions l) = Inr e"
    "tighten (dec_value C (1 / 20) (1 / 2)) rules ''max_drawdown_pct'' (rl_max_drawdown_pct l) = Inr f"
    "tighten (int_value C 1 1000) rules ''daily_trade_limit'' (rl_daily_trade_limit l) = Inr g"
    and l': "l' = \<lparr>rl_max_position_pct = a, rl_max_total_exposure_pct = b, rl_max_daily_loss_pct = c,
          rl_max_open_positions = e, rl_max_drawdown_pct = f, rl_daily_trade_limit = g\<rparr>"
    unfolding apply_mandate_def by (auto simp: res_bind_Inr_iff)
  note t = this(1-3,5)[THEN tighten_coerced(1)] this(4,6)[THEN tighten_coerced(2)]
  show "limits_le l' l" "within_mandate C rules l'"
    using t by (simp_all add: l' limits_le_def within_mandate_def)
qed

lemma within_mandate_mono:
  assumes "within_mandate C rules l" "limits_le l' l"
  shows "within_mandate C rules l'"
  using assms unfolding within_mandate_def limits_le_def by (blast intro: capped_mono)

lemma apply_mandates_tightens:
  "apply_mandates C l mandates = Inr l' \<Longrightarrow>
   limits_le l' l \<and> (\<forall>rules \<in> set mandates. within_mandate C rules l')"
proof (induction mandates arbitrary: l)
  case Nil
  then show ?case by simp
next
  case (Cons rules rest)
  then obtain l1 where one: "apply_mandate C l rules = Inr l1" and "apply_mandates C l1 rest = Inr l'"
    by (auto simp: res_bind_Inr_iff)
  from Cons.IH[OF this(2)] apply_mandate_tightens[OF one] show ?case
    by (auto intro: limits_le_trans within_mandate_mono)
qed

text \<open>
  C28: Mandates only tighten. The limits in force are never looser than the limits the configuration
  alone gives, and they respect every figure of every mandate that is global or the user's own and has
  taken effect.
\<close>

theorem mandates_only_tighten:
  assumes "load_limits C g user now profile config = Inr l"
    and "merged_limits profile config = Inr merged" "risk_limits_init C merged = Inr configured"
    and "rg_mandates g = Some rows"
  shows "limits_le l configured \<and>
    (\<forall>r \<in> set rows. (md_user r = None \<or> md_user r = Some (py_strip user)) \<and> md_effective_at r \<le> now \<longrightarrow>
       within_mandate C (md_rules r) l)"
proof -
  let ?hits = "filter (\<lambda>r. (md_user r = None \<or> md_user r = Some (py_strip user)) \<and> md_effective_at r \<le> now) rows"
  from assms(1,4) obtain ms where ms: "load_mandates rows user now = Inr ms"
    by (auto simp: load_limits_def res_bind_Inr_iff)
  then have set_ms: "set ms = md_rules ` set ?hits"
    by (auto simp: load_mandates_def res_bind_Inr_iff require_user_id_def Let_def split: if_splits)
  have "limits_le l configured \<and> (\<forall>rules \<in> set ms. within_mandate C rules l)"
  proof (cases "ms = []")
    case True
    with assms ms show ?thesis by (simp add: load_limits_def)
  next
    case False
    with assms ms have "apply_mandates C configured ms = Inr l"
      by (auto simp: load_limits_def apply_mandate_ceilings_def limits_checked_def res_bind_Inr_iff)
    then show ?thesis by (rule apply_mandates_tightens)
  qed
  then show ?thesis by (simp add: set_ms)
qed

section \<open>Allowed orders\<close>

lemma block_allowed [simp]: "\<not> rd_allowed (block r c)" "rd_allowed allowed_decision"
  by (simp_all add: block_def allowed_decision_def)

lemma blocks_not_allowed:
  "evaluate_short_block g q = Some d \<Longrightarrow> \<not> rd_allowed d"
  "snd (portfolio_stop_authority g q now) = Some d \<Longrightarrow> \<not> rd_allowed d"
  "requirement_block r = Inr (Some d) \<Longrightarrow> \<not> rd_allowed d"
  "count_block l q b = Some d \<Longrightarrow> \<not> rd_allowed d"
  by (auto simp: evaluate_short_block_def portfolio_stop_authority_def requirement_block_def count_block_def Let_def
      split: if_splits option.splits)

lemma requirement_stop:
  assumes "requirement_block (evaluate_entry_signal_requirements s stop e src) = Inr None" "is_entry s" "sn_stop_loss s = None"
  shows "\<not> stop"
  using assms by (auto simp: requirement_block_def evaluate_entry_signal_requirements_def Let_def split: if_splits option.splits)

lemma evaluate_allowed:
  assumes eval: "evaluate C g now q = Inr d" and ok: "rd_allowed d"
  defines "reducing \<equiv> is_exact_typed_risk_reduction (rk_signal q) (rk_intents q) (rk_close q) (rk_target q)"
  obtains l where "load_limits C g (rk_user q) now (rk_profile q) (rk_config q) = Inr l"
    "sn_action (rk_signal q) = SHORT \<Longrightarrow> evaluate_short_block g q = None"
    "is_entry (rk_signal q) \<Longrightarrow> sn_stop_loss (rk_signal q) = None \<Longrightarrow>
       fst (portfolio_stop_authority g q now) \<or>
       \<not> truthy (dict_get_or (rk_config q) ''require_stop_loss'' (dict_get_or (rk_profile q) ''require_stop_loss'' (PBool True)))"
    "count_block l q reducing = None"
    "\<And>x xs. rk_intents q = Some (x # xs) \<Longrightarrow> \<not> reducing \<Longrightarrow> exposure_check l q (x # xs) = Inr d"
proof -
  define short where "short = (if sn_action (rk_signal q) = SHORT then evaluate_short_block g q else None)"
  obtain auth pblock where port: "portfolio_stop_authority g q now = (auth, pblock)" by (meson surj_pair)
  define stop where "stop = (if auth then False else truthy (dict_get_or (rk_config q) ''require_stop_loss''
                  (dict_get_or (rk_profile q) ''require_stop_loss'' (PBool True))))"
  from eval obtain l where l: "load_limits C g (rk_user q) now (rk_profile q) (rk_config q) = Inr l"
    by (auto simp: evaluate_def res_bind_Inr_iff)
  have no_short: "short = None"
  proof (rule ccontr)
    assume "short \<noteq> None"
    then obtain d' where d': "short = Some d'" by blast
    with eval l have "d = d'" by (simp add: evaluate_def Let_def short_def)
    with d' ok blocks_not_allowed(1) show False by (auto simp: short_def split: if_splits)
  qed
  have no_port: "pblock = None"
  proof (rule ccontr)
    assume "pblock \<noteq> None"
    then obtain d' where d': "pblock = Some d'" by blast
    with eval l no_short port have "d = d'" by (simp add: evaluate_def Let_def short_def)
    with d' ok blocks_not_allowed(2)[of g q now d'] port show False by simp
  qed
  from eval l no_short port no_port obtain sb where
    sb: "requirement_block (evaluate_entry_signal_requirements (rk_signal q) stop False None) = Inr sb"
    by (auto simp: evaluate_def Let_def short_def stop_def res_bind_Inr_iff)
  have no_sb: "sb = None"
  proof (rule ccontr)
    assume "sb \<noteq> None"
    then obtain d' where d': "sb = Some d'" by blast
    with eval l no_short port no_port sb have "d = d'" by (simp add: evaluate_def Let_def short_def stop_def)
    with d' ok blocks_not_allowed(3) sb show False by blast
  qed
  from eval l no_short port no_port sb no_sb obtain caps ib where caps: "dict_of (dict_get (rk_config q) ''risk_caps'') = Inr caps"
    and ib: "requirement_block (evaluate_entry_signal_requirements (rk_signal q) False
      (truthy (dict_get_or (rk_config q) ''require_explicit_scoring_inputs''
           (dict_get_or caps ''require_explicit_scoring_inputs''
             (dict_get_or (rk_profile q) ''require_explicit_scoring_inputs'' (PBool False))))) None) = Inr ib"
    by (auto simp: evaluate_def Let_def short_def stop_def res_bind_Inr_iff)
  note before = l no_short port no_port sb no_sb caps ib
  have no_ib: "ib = None"
  proof (rule ccontr)
    assume "ib \<noteq> None"
    then obtain d' where d': "ib = Some d'" by blast
    with eval before have "d = d'" by (simp add: evaluate_def Let_def short_def stop_def)
    with d' ok blocks_not_allowed(3) ib show False by blast
  qed
  have no_count: "count_block l q reducing = None"
  proof (rule ccontr)
    assume "count_block l q reducing \<noteq> None"
    then obtain d' where d': "count_block l q reducing = Some d'" by blast
    with eval before no_ib have "d = d'" by (simp add: evaluate_def Let_def short_def stop_def reducing_def)
    with d' ok blocks_not_allowed(4) show False by blast
  qed
  have "exposure_check l q (x # xs) = Inr d" if "rk_intents q = Some (x # xs)" "\<not> reducing" for x xs
    using eval before no_ib no_count that by (simp add: evaluate_def Let_def short_def stop_def reducing_def)
  moreover have "auth \<or> \<not> truthy (dict_get_or (rk_config q) ''require_stop_loss''
      (dict_get_or (rk_profile q) ''require_stop_loss'' (PBool True)))"
    if "is_entry (rk_signal q)" "sn_stop_loss (rk_signal q) = None"
    using requirement_stop[of "rk_signal q" stop False None] sb no_sb that by (auto simp: stop_def)
  moreover have "evaluate_short_block g q = None" if "sn_action (rk_signal q) = SHORT"
    using no_short that by (simp add: short_def)
  ultimately show ?thesis
    using l no_count port by (intro that) simp_all
qed

lemma count_block_None:
  assumes "count_block l q reducing = None"
  shows "is_entry (rk_signal q) \<Longrightarrow> as_daily_trades (rk_account q) < rl_daily_trade_limit l"
    and "sn_action (rk_signal q) \<noteq> HOLD \<Longrightarrow> \<not> reducing \<Longrightarrow>
      as_open_positions (rk_account q) < rl_max_open_positions l \<or> has_open_symbol (rk_account q) (sn_symbol (rk_signal q))"
    and "\<not> reducing \<Longrightarrow> resolve_daily_loss_pct (rk_profile q) (rk_account q) = Some x \<Longrightarrow> x \<le> rl_max_daily_loss_pct l"
    and "\<not> reducing \<Longrightarrow> resolve_drawdown_pct (rk_profile q) (rk_account q) = Some y \<Longrightarrow> y \<le> rl_max_drawdown_pct l"
  using assms by (auto simp: count_block_def is_entry_def Let_def not_le not_less split: if_splits)

lemma cap_check_allowed:
  assumes "rd_allowed (cap_check l a p n)" "0 < as_equity a"
  obtains existing where "estimate_existing_exposure (as_positions a) = Inr existing"
    "p \<le> rl_max_position_pct l * CAP_TOLERANCE * as_equity a"
    "existing + n \<le> rl_max_total_exposure_pct l * CAP_TOLERANCE * as_equity a"
proof (cases "estimate_existing_exposure (as_positions a)")
  case (Inl e)
  with assms(1) show ?thesis by (auto simp: cap_check_def exposure_block_def split: if_splits)
next
  case (Inr existing)
  with assms(1) have "p / as_equity a \<le> rl_max_position_pct l * CAP_TOLERANCE"
    "(existing + n) / as_equity a \<le> rl_max_total_exposure_pct l * CAP_TOLERANCE"
    by (auto simp: cap_check_def not_less split: if_splits)
  with assms(2) Inr that show ?thesis by (simp add: pos_divide_le_eq)
qed

text \<open>
  C4: An entry the guard allows is inside its limits. When an order is not an exact reduction, its
  value and the position it leads to can be estimated and the account has equity, then an allowing
  decision means: fewer trades today than the limit; an open position in the symbol or room for
  another; measured daily loss and drawdown within their limits; a stop loss, or a configuration or
  drawdown mandate that waives it; the projected position and the account's gross exposure with the
  order at most the caps with their half-percent tolerance, every held position being valued.
\<close>

theorem allowed_entry_within_limits:
  assumes eval: "evaluate C g now q = Inr d" "rd_allowed d" and entry: "is_entry (rk_signal q)"
    and intents: "rk_intents q = Some (x # xs)"
      "\<not> is_exact_typed_risk_reduction (rk_signal q) (rk_intents q) (rk_close q) (rk_target q)"
    and valued: "estimate_notional (x # xs) (rk_signal q) (rk_market_data q) (rk_target q) = Inr (Some inc)"
      "estimate_projected_position_notional (x # xs) (Some inc) (rk_target q) = Inr (Some proj)"
    and equity: "0 < as_equity (rk_account q)"
  shows "\<exists>l existing. load_limits C g (rk_user q) now (rk_profile q) (rk_config q) = Inr l \<and>
    as_daily_trades (rk_account q) < rl_daily_trade_limit l \<and>
    (as_open_positions (rk_account q) < rl_max_open_positions l \<or> has_open_symbol (rk_account q) (sn_symbol (rk_signal q))) \<and>
    (\<forall>loss. resolve_daily_loss_pct (rk_profile q) (rk_account q) = Some loss \<longrightarrow> loss \<le> rl_max_daily_loss_pct l) \<and>
    (\<forall>dd. resolve_drawdown_pct (rk_profile q) (rk_account q) = Some dd \<longrightarrow> dd \<le> rl_max_drawdown_pct l) \<and>
    (sn_stop_loss (rk_signal q) = None \<longrightarrow>
       fst (portfolio_stop_authority g q now) \<or>
       \<not> truthy (dict_get_or (rk_config q) ''require_stop_loss''
             (dict_get_or (rk_profile q) ''require_stop_loss'' (PBool True)))) \<and>
    estimate_existing_exposure (as_positions (rk_account q)) = Inr existing \<and>
    proj \<le> rl_max_position_pct l * CAP_TOLERANCE * as_equity (rk_account q) \<and>
    existing + inc \<le> rl_max_total_exposure_pct l * CAP_TOLERANCE * as_equity (rk_account q)"
proof -
  from evaluate_allowed[OF eval] obtain l where l: "load_limits C g (rk_user q) now (rk_profile q) (rk_config q) = Inr l"
    and stop: "is_entry (rk_signal q) \<Longrightarrow> sn_stop_loss (rk_signal q) = None \<Longrightarrow>
       fst (portfolio_stop_authority g q now) \<or>
       \<not> truthy (dict_get_or (rk_config q) ''require_stop_loss'' (dict_get_or (rk_profile q) ''require_stop_loss'' (PBool True)))"
    and count: "count_block l q (is_exact_typed_risk_reduction (rk_signal q) (rk_intents q) (rk_close q) (rk_target q)) = None"
    and expo: "exposure_check l q (x # xs) = Inr d"
    using intents by metis
  have "rd_allowed (cap_check l (rk_account q) proj inc)"
    using expo valued equity eval(2) by (simp add: exposure_check_def)
  from cap_check_allowed[OF this equity] obtain existing where
    "estimate_existing_exposure (as_positions (rk_account q)) = Inr existing"
    "proj \<le> rl_max_position_pct l * CAP_TOLERANCE * as_equity (rk_account q)"
    "existing + inc \<le> rl_max_total_exposure_pct l * CAP_TOLERANCE * as_equity (rk_account q)" .
  moreover have action: "sn_action (rk_signal q) \<noteq> HOLD"
    using entry by (auto simp: is_entry_def)
  note limits = count_block_None(1)[OF count entry] count_block_None(2)[OF count action intents(2)]
    count_block_None(3,4)[OF count intents(2)] stop[OF entry]
  ultimately show ?thesis
    using l by (intro exI[of _ l] exI[of _ existing] conjI allI impI) (assumption | rule limits | simp)+
qed

section \<open>Reductions\<close>

lemma close_override_bounds:
  assumes "close_quantity_override_init plan leg smb q st b ob nw = Inr c"
  shows "cq_quantity c - \<bar>cq_broker_quantity c\<bar> \<le> quantity_tolerance" "cq_broker_quantity c \<noteq> 0"
  using assms unfolding close_quantity_override_init_def Let_def
  by (auto simp: res_bind_Inr_iff not_less)

lemma target_reduction_bounds:
  assumes "target_position_override_init plan leg smb a t st b dr ob p qo au cur nw = Inr ov" "delta_quantity ov < 0"
  shows "- delta_quantity ov \<le> tp_broker_quantity ov + quantity_tolerance" "0 < tp_broker_quantity ov"
proof -
  note v = target_override_valid[OF assms(1)]
  have "delta_quantity ov = tp_target_quantity ov - tp_strategy_quantity ov"
    "quantity_tolerance < \<bar>tp_target_quantity ov - tp_strategy_quantity ov\<bar>"
    using assms(2) by (auto simp: delta_quantity_def Let_def not_le split: if_splits)
  with v assms(2) show "- delta_quantity ov \<le> tp_broker_quantity ov + quantity_tolerance" "0 < tp_broker_quantity ov"
    by linarith+
qed

lemma exact_target_intent:
  assumes "is_exact_target_reduction_intent s (Some t) xs"
  obtains x where "xs = [x]" "sn_action s = CLOSE" "delta_quantity t < 0"
    "py_upper (py_strip (side (intent_of x))) = ''SELL''"
    "\<bar>quantity (intent_of x) - \<bar>delta_quantity t\<bar>\<bar> \<le> QUANTITY_MATCH_TOLERANCE"
proof -
  from assms obtain x where x: "xs = [x]"
    unfolding is_exact_target_reduction_intent_def by (cases xs rule: remdups_adj.cases) simp_all
  from assms have "sn_action s = CLOSE" "delta_quantity t < 0" "py_upper (py_strip (side (intent_of x))) = ''SELL''"
    "decimal_matches (PFloat (quantity (intent_of x))) \<bar>delta_quantity t\<bar> QUANTITY_MATCH_TOLERANCE"
    unfolding x is_exact_target_reduction_intent_def is_typed_target_reduction_request_def Let_def
    by (simp_all, elim conjE, simp)
  then have "sn_action s = CLOSE" "delta_quantity t < 0" "py_upper (py_strip (side (intent_of x))) = ''SELL''"
    "\<bar>quantity (intent_of x) - \<bar>delta_quantity t\<bar>\<bar> \<le> QUANTITY_MATCH_TOLERANCE"
    unfolding decimal_matches_def by simp_all
  with x show ?thesis by (rule that)
qed

lemma exact_close_intent:
  assumes "is_exact_close_intent s c xs"
  obtains x where "xs = [x]" "sn_action s = CLOSE"
    "py_upper (py_strip (side (intent_of x))) = (if 0 < cq_broker_quantity c then ''SELL'' else ''BUY'')"
    "\<bar>quantity (intent_of x) - cq_quantity c\<bar> \<le> QUANTITY_MATCH_TOLERANCE"
proof -
  from assms obtain x where x: "xs = [x]"
    unfolding is_exact_close_intent_def by (cases xs rule: remdups_adj.cases) simp_all
  from assms have "sn_action s = CLOSE"
    "py_upper (py_strip (side (intent_of x))) = (if 0 < cq_broker_quantity c then ''SELL'' else ''BUY'')"
    "\<bar>quantity (intent_of x) - cq_quantity c\<bar> \<le> QUANTITY_MATCH_TOLERANCE"
    unfolding x is_exact_close_intent_def Let_def by (simp_all add: decimal_matches_def)
  with x show ?thesis by (rule that)
qed

text \<open>
  C19: The reduction that bypasses the limits cannot grow or flip a position. When the guard accepts
  an order as the exact reduction of a validated override, there is one order, it trades against the
  position the broker holds, and its quantity is at most that position up to twice the tolerance of
  1e-8.
\<close>

theorem exact_reduction_shrinks:
  assumes "is_exact_typed_risk_reduction s intents close target"
    and "\<forall>c. close = Some c \<longrightarrow> (\<exists>plan leg smb q st b ob nw. close_quantity_override_init plan leg smb q st b ob nw = Inr c)"
    and "\<forall>t. target = Some t \<longrightarrow> (\<exists>plan leg smb a tq st b dr ob p qo au cur nw.
           target_position_override_init plan leg smb a tq st b dr ob p qo au cur nw = Inr t)"
  shows "\<exists>x held. intents = Some [x] \<and> sn_action s = CLOSE \<and> held \<noteq> 0 \<and>
    (case (close, target) of (Some c, _) \<Rightarrow> held = cq_broker_quantity c
       | (None, Some t) \<Rightarrow> held = tp_broker_quantity t | _ \<Rightarrow> False) \<and>
    py_upper (py_strip (side (intent_of x))) = (if 0 < held then ''SELL'' else ''BUY'') \<and>
    quantity (intent_of x) \<le> \<bar>held\<bar> + 2 * quantity_tolerance"
proof -
  have tol: "QUANTITY_MATCH_TOLERANCE = quantity_tolerance"
    by (simp add: QUANTITY_MATCH_TOLERANCE_def quantity_tolerance_def)
  from assms(1) consider (target) xs t where "intents = Some xs" "close = None" "target = Some t" "is_exact_target_reduction_intent s (Some t) xs"
    | (close) xs c where "intents = Some xs" "close = Some c" "target = None" "is_exact_close_intent s c xs"
    by (auto simp: is_exact_typed_risk_reduction_def split: option.splits)
  then show ?thesis
  proof cases
    case target
    from exact_target_intent[OF target(4)] obtain x where x: "xs = [x]" "sn_action s = CLOSE" "delta_quantity t < 0"
      "py_upper (py_strip (side (intent_of x))) = ''SELL''"
      "\<bar>quantity (intent_of x) - \<bar>delta_quantity t\<bar>\<bar> \<le> quantity_tolerance"
      unfolding tol .
    obtain plan leg smb a tq st b dr ob p qo au cur nw where
      init: "target_position_override_init plan leg smb a tq st b dr ob p qo au cur nw = Inr t"
      using assms(3) target(3) by blast
    have q: "quantity (intent_of x) \<le> tp_broker_quantity t + 2 * quantity_tolerance" "0 < tp_broker_quantity t"
      using target_reduction_bounds[OF init x(3)] x(3,5) by linarith+
    show ?thesis
      using q x target(1-3) by (intro exI[of _ x] exI[of _ "tp_broker_quantity t"]) simp
  next
    case close
    from exact_close_intent[OF close(4)] obtain x where x: "xs = [x]" "sn_action s = CLOSE"
      "py_upper (py_strip (side (intent_of x))) = (if 0 < cq_broker_quantity c then ''SELL'' else ''BUY'')"
      "\<bar>quantity (intent_of x) - cq_quantity c\<bar> \<le> quantity_tolerance"
      unfolding tol .
    obtain plan leg smb q st b ob nw where init: "close_quantity_override_init plan leg smb q st b ob nw = Inr c"
      using assms(2) close(2) by blast
    have q: "quantity (intent_of x) \<le> \<bar>cq_broker_quantity c\<bar> + 2 * quantity_tolerance"
      using close_override_bounds(1)[OF init] x(4) by linarith
    show ?thesis
      using q x close(1-3) close_override_bounds(2)[OF init]
      by (intro exI[of _ x] exI[of _ "cq_broker_quantity c"]) simp
  qed
qed

section \<open>What is not measured\<close>

text \<open>
  An order without a price escapes the caps. When neither a target override, market data nor the
  signal gives a price and the order states no notional value, the exposure check allows it, whatever
  its quantity, the positions held and the limits; a position or an option that cannot be valued is
  blocked.
\<close>

theorem unpriced_order_escapes_caps:
  assumes "rk_target q = None" "dict_get (rk_market_data q) ''price'' = PNone" "sn_entry_price (rk_signal q) = None"
    and "absent (dict_get (metadata i) ''notional_value'')" "\<not> skips_exposure (metadata i)"
  shows "exposure_check l q [Order i] = Inr allowed_decision"
proof -
  have "estimate_notional [Order i] (rk_signal q) (rk_market_data q) None = Inr None"
    using assms by (simp add: estimate_notional_def estimate_price_def intent_of_def Let_def)
  then show ?thesis
    using assms(1) by (simp add: exposure_check_def estimate_projected_position_notional_def)
qed

section \<open>Examples\<close>

definition ex_coercion :: coercion where
  "ex_coercion = \<lparr>as_decimal = py_float_text, as_int = (\<lambda>v. case v of PInt i \<Rightarrow> Some i | _ \<Rightarrow> None)\<rparr>"

definition ex_guard :: risk_guard where
  "ex_guard = \<lparr>rg_mandates = Some [\<lparr>md_id = 1, md_user = None, md_effective_at = 0,
       md_rules = [(''max_total_exposure_pct'', PStr ''0.3'')]\<rparr>], rg_short_classes = []\<rparr>"

definition ex_signal :: "signal_action \<Rightarrow> rat option \<Rightarrow> signal" where
  "ex_signal a price = \<lparr>sn_signal_id = ''s'', sn_strategy_id = ''st'', sn_strategy_type = ''indicator'',
     sn_symbol = ''BTC'', sn_asset_class = None, sn_instrument_id = PNone, sn_action = a, sn_confidence = 1,
     sn_timestamp = 0, sn_horizon = None, sn_expected_return = None, sn_predicted_risk = None, sn_horizon_days = None,
     sn_entry_price = price, sn_stop_loss = Some 90, sn_take_profit = None, sn_size_hint = None, sn_external_id = None,
     sn_raw_score = None, sn_expires_at = None, sn_metadata = []\<rparr>"

definition ex_risk_intent :: "string \<Rightarrow> rat \<Rightarrow> pydict \<Rightarrow> risk_intent" where
  "ex_risk_intent sd qty m = Order \<lparr>broker_code = ''paper'', symbol = ''BTC'', side = sd, quantity = qty,
     order_type = ''market'', time_in_force = ''gtc'', limit_price = None, stop_price = None, metadata = m,
     currency_context = None, canonical_paper_order_id = None, canonical_paper_instrument_id = None\<rparr>"

definition ex_account :: account_state where
  "ex_account = \<lparr>as_equity = 1000, as_available_cash = 900, as_margin_used = 0, as_open_positions = 1, as_daily_trades = 0,
     as_positions = [[(''symbol'', PStr ''ETH''), (''quantity'', PFloat 2), (''quantity_unit'', PStr ''asset''),
                      (''current_price'', PFloat 50)]]\<rparr>"

definition ex_capabilities :: broker_capabilities where
  "ex_capabilities = \<lparr>broker_type = ''paper'', supports_spot = True, supports_margin = False,
     supports_futures = False, supports_perpetual = False, supports_options = False, supports_multi_leg = False,
     supports_exact_fill_retrieval = True, supported_assets = [], supported_symbols = [], max_leverage = 1,
     min_order_size = 0, max_order_size = None, has_paper_trading = True, paper_base_url = None\<rparr>"

definition ex_request :: "signal \<Rightarrow> risk_intent \<Rightarrow> risk_request" where
  "ex_request s x = \<lparr>rk_user = ''u'', rk_signal = s, rk_profile = [(''peak_equity'', PFloat 1100)],
     rk_config = [(''max_daily_loss_pct'', PFloat (1 / 10))], rk_account = ex_account, rk_mode = SPOT,
     rk_capabilities = ex_capabilities, rk_intents = Some [x], rk_market_data = [], rk_close = None,
     rk_target = None\<rparr>"

definition ex_entry :: risk_request where
  "ex_entry = ex_request (ex_signal LONG (Some 100)) (ex_risk_intent ''BUY'' (9 / 10) [])"

theorem mandates_only_tighten_witness:
  "case load_limits ex_coercion ex_guard ''u'' 5 [] [] of Inl e \<Rightarrow> False
   | Inr l \<Rightarrow> within_mandate ex_coercion [(''max_total_exposure_pct'', PStr ''0.3'')] l \<and>
              rl_max_total_exposure_pct l = 3 / 10"
proof -
  have v: "case load_limits ex_coercion ex_guard ''u'' 5 [] [] of Inl e \<Rightarrow> False | Inr l \<Rightarrow> rl_max_total_exposure_pct l = 3 / 10"
    and m: "is_ok (merged_limits [] [])"
    and c: "case merged_limits [] [] of Inl e \<Rightarrow> False | Inr m \<Rightarrow> is_ok (risk_limits_init ex_coercion m)"
    and u: "py_strip ''u'' = ''u''"
    by code_simp+
  from v obtain l where l: "load_limits ex_coercion ex_guard ''u'' 5 [] [] = Inr l" "rl_max_total_exposure_pct l = 3 / 10"
    by (auto split: sum.splits)
  from m c obtain mg conf where "merged_limits [] [] = Inr mg" "risk_limits_init ex_coercion mg = Inr conf"
    by (auto simp: is_ok_def split: sum.splits)
  from mandates_only_tighten[OF l(1) this] l show ?thesis
    by (simp add: ex_guard_def)
qed

theorem allowed_entry_within_limits_witness:
  "evaluate ex_coercion ex_guard 5 ex_entry = Inr allowed_decision \<and>
   (\<exists>(l :: risk_limits) existing. existing + 90 \<le> rl_max_total_exposure_pct l * CAP_TOLERANCE * 1000 \<and>
      estimate_existing_exposure (as_positions ex_account) = Inr existing)"
proof -
  have e: "evaluate ex_coercion ex_guard 5 ex_entry = Inr allowed_decision" by code_simp
  have r: "\<not> is_exact_typed_risk_reduction (rk_signal ex_entry) (rk_intents ex_entry) (rk_close ex_entry) (rk_target ex_entry)"
    and n: "estimate_notional [ex_risk_intent ''BUY'' (9 / 10) []] (rk_signal ex_entry) (rk_market_data ex_entry) (rk_target ex_entry) = Inr (Some 90)"
    and p: "estimate_projected_position_notional [ex_risk_intent ''BUY'' (9 / 10) []] (Some 90) (rk_target ex_entry) = Inr (Some 90)"
    and s: "is_entry (rk_signal ex_entry)" "rk_intents ex_entry = Some [ex_risk_intent ''BUY'' (9 / 10) []]"
    and q: "0 < as_equity (rk_account ex_entry)" "as_equity (rk_account ex_entry) = 1000" "rk_account ex_entry = ex_account"
    by code_simp+
  from allowed_entry_within_limits[OF e block_allowed(2) s r n p q(1)] show ?thesis
  proof (elim exE conjE)
    fix l :: risk_limits and existing
    assume a: "estimate_existing_exposure (as_positions (rk_account ex_entry)) = Inr existing"
      and b: "existing + 90 \<le> rl_max_total_exposure_pct l * CAP_TOLERANCE * as_equity (rk_account ex_entry)"
    show ?thesis
      using e a[unfolded q(3)] b[unfolded q(2)] by (intro conjI exI[of _ l] exI[of _ existing])
  qed
qed

definition ex_close_meta :: pydict where
  "ex_close_meta = [(''purpose'', PStr ''close_position''), (''rebalance_close_override'', PDict
     [(''account_plan_id'', PStr ex_digest), (''plan_leg_id'', PStr ex_digest), (''broker_observed_at'', PTime 1),
      (''strategy_quantity'', PFloat 2), (''broker_quantity'', PFloat 5), (''clamped_quantity'', PFloat 2)])]"

theorem exact_reduction_shrinks_witness:
  "case close_quantity_override_init ex_digest ex_digest ''BTC'' (Fin 2) (Fin 2) (Fin 5) 1 2 of Inl e \<Rightarrow> False
   | Inr c \<Rightarrow> is_exact_typed_risk_reduction (ex_signal CLOSE None) (Some [ex_risk_intent ''sell'' 2 ex_close_meta]) (Some c) None \<and>
       quantity (intent_of (ex_risk_intent ''sell'' 2 ex_close_meta)) \<le> \<bar>cq_broker_quantity c\<bar> + 2 * quantity_tolerance"
proof -
  have "case close_quantity_override_init ex_digest ex_digest ''BTC'' (Fin 2) (Fin 2) (Fin 5) 1 2 of Inl e \<Rightarrow> False
    | Inr c \<Rightarrow> is_exact_typed_risk_reduction (ex_signal CLOSE None) (Some [ex_risk_intent ''sell'' 2 ex_close_meta]) (Some c) None"
    by code_simp
  then obtain c where init: "close_quantity_override_init ex_digest ex_digest ''BTC'' (Fin 2) (Fin 2) (Fin 5) 1 2 = Inr c"
    and red: "is_exact_typed_risk_reduction (ex_signal CLOSE None) (Some [ex_risk_intent ''sell'' 2 ex_close_meta]) (Some c) None"
    by (auto split: sum.splits)
  have "\<exists>plan leg smb q st b ob nw. close_quantity_override_init plan leg smb q st b ob nw = Inr c"
    using init by (intro exI)
  with exact_reduction_shrinks[OF red] have
    "quantity (intent_of (ex_risk_intent ''sell'' 2 ex_close_meta)) \<le> \<bar>cq_broker_quantity c\<bar> + 2 * quantity_tolerance"
    by simp
  with init red show ?thesis by simp
qed

theorem unpriced_order_escapes_caps_witness:
  "evaluate ex_coercion ex_guard 5 (ex_request (ex_signal LONG None) (ex_risk_intent ''BUY'' 1000000 [])) = Inr allowed_decision \<and>
   (\<forall>l. exposure_check l (ex_request (ex_signal LONG None) (ex_risk_intent ''BUY'' 1000000 [])) [ex_risk_intent ''BUY'' 1000000 []] =
     Inr allowed_decision)"
proof (intro conjI allI)
  let ?q = "ex_request (ex_signal LONG None) (ex_risk_intent ''BUY'' 1000000 [])"
  show "evaluate ex_coercion ex_guard 5 ?q = Inr allowed_decision" by code_simp
  have h: "rk_target ?q = None" "dict_get (rk_market_data ?q) ''price'' = PNone" "sn_entry_price (rk_signal ?q) = None"
    "absent (dict_get [] ''notional_value'')" "\<not> skips_exposure []"
    by code_simp+
  show "exposure_check l ?q [ex_risk_intent ''BUY'' 1000000 []] = Inr allowed_decision" for l
    unfolding ex_risk_intent_def using h by (intro unpriced_order_escapes_caps) (simp_all add: ex_risk_intent_def)
qed

end
