(* ===== verification/Position_Sizing.thy ===== *)
theory Position_Sizing
  imports Risk_Guard
begin

text \<open>
  How large a position may be: \<open>lib_strategy/position_sizing.py\<close>, the policy that execution and
  validation share, and \<open>position_sizer.py\<close> of the execution engine, which chooses the method, converts
  the account into the settlement currency and caps the families of sizes the policy does not cover.

  A price, an amount or a quantity is a rational; where the code checks that it is finite it is a
  \<open>number\<close>. A note of a result is kept as a value, not as the formatted text.
\<close>

section \<open>The shared policy\<close>

datatype position_sizing_method = PSM_FIXED_PCT | PSM_RISK_PCT

datatype missing_stop_behavior = STOP_REJECT | STOP_FALLBACK_FIXED_PCT

datatype sizing_decision_status = SIZING_ACCEPTED | SIZING_REJECTED

datatype pre_broker_rounding = ROUND_NONE | ROUND_PRICE_TIERED

definition SMALL_PRICE_THRESHOLD :: rat where
  "SMALL_PRICE_THRESHOLD = 100"

definition POLICY_VERSION :: string where
  "POLICY_VERSION = ''position-sizing-v2''"

definition finite_fraction :: "number \<Rightarrow> string \<Rightarrow> rat res" where
  "finite_fraction n field_name =
     (case n of
        Fin q \<Rightarrow> if 0 < q \<and> q \<le> 1 then Inr q
                 else Inl (ValueError (field_name @ '' must be finite and in (0, 1]''))
      | _ \<Rightarrow> Inl (ValueError (field_name @ '' must be finite and in (0, 1]'')))"

definition finite_positive :: "number \<Rightarrow> string \<Rightarrow> rat res" where
  "finite_positive n field_name =
     (case n of Fin q \<Rightarrow> if q \<le> 0 then Inl (ValueError (field_name @ '' must be finite and positive'')) else Inr q
      | _ \<Rightarrow> Inl (ValueError (field_name @ '' must be finite and positive'')))"

definition finite_non_negative :: "number \<Rightarrow> string \<Rightarrow> rat res" where
  "finite_non_negative n field_name =
     (case n of
        Fin q \<Rightarrow> if q < 0 then Inl (ValueError (field_name @ '' must be finite and non-negative'')) else Inr q
      | _ \<Rightarrow> Inl (ValueError (field_name @ '' must be finite and non-negative'')))"

lemma finite_checks [simp, res_simps]:
  "finite_fraction n f = Inr q \<longleftrightarrow> n = Fin q \<and> 0 < q \<and> q \<le> 1"
  "finite_positive n f = Inr q \<longleftrightarrow> n = Fin q \<and> 0 < q"
  "finite_non_negative n f = Inr q \<longleftrightarrow> n = Fin q \<and> 0 \<le> q"
  by (auto simp: finite_fraction_def finite_positive_def finite_non_negative_def split: number.splits)

definition rounding_digits :: "rat \<Rightarrow> rat \<Rightarrow> nat" where
  "rounding_digits qty price =
     (if qty < 1 then 8 else if price < SMALL_PRICE_THRESHOLD then 4 else 2)"

definition apply_pre_broker_quantity_rounding ::
    "number \<Rightarrow> number \<Rightarrow> pre_broker_rounding \<Rightarrow> rat res" where
  "apply_pre_broker_quantity_rounding qty price rounding =
     res_bind (finite_non_negative qty ''quantity'') (\<lambda>q.
     res_bind (finite_positive price ''price'') (\<lambda>p.
     case rounding of
       ROUND_NONE \<Rightarrow> Inr q
     | ROUND_PRICE_TIERED \<Rightarrow> Inr (py_round (rounding_digits q p) q)))"

record sizing_request =
  rq_price :: rat
  rq_equity :: rat
  rq_buying_power :: rat
  rq_stop_loss :: "rat option"

definition sizing_request_init ::
    "number \<Rightarrow> number \<Rightarrow> number \<Rightarrow> number option \<Rightarrow> sizing_request res" where
  "sizing_request_init price equity bp stop =
     res_bind (finite_positive price ''price'') (\<lambda>p.
     res_bind (finite_positive equity ''equity'') (\<lambda>e.
     res_bind (finite_non_negative bp ''buying_power'') (\<lambda>b.
     case stop of
       None \<Rightarrow> Inr \<lparr>rq_price = p, rq_equity = e, rq_buying_power = b, rq_stop_loss = None\<rparr>
     | Some (Fin s) \<Rightarrow> Inr \<lparr>rq_price = p, rq_equity = e, rq_buying_power = b, rq_stop_loss = Some s\<rparr>
     | Some _ \<Rightarrow> Inl (ValueError ''stop_loss must be finite when supplied''))))"

record sizing_policy =
  po_id :: string
  po_method :: position_sizing_method
  po_fixed_pct :: rat
  po_risk_pct :: rat
  po_max_position_pct :: rat
  po_minimum :: rat
  po_missing_stop :: missing_stop_behavior
  po_rounding :: pre_broker_rounding
  po_version :: string

definition sizing_policy_init ::
    "string \<Rightarrow> position_sizing_method \<Rightarrow> number \<Rightarrow> number \<Rightarrow> number \<Rightarrow> number \<Rightarrow> missing_stop_behavior \<Rightarrow>
     pre_broker_rounding \<Rightarrow> string \<Rightarrow> sizing_policy res" where
  "sizing_policy_init pid meth fixed risk mx mn missing rounding version =
     (if py_strip pid = [] then Inl (ValueError ''policy_id must not be blank'')
      else if version \<noteq> POLICY_VERSION
      then Inl (ValueError (''position-sizing version must be '' @ POLICY_VERSION))
      else res_bind (finite_fraction fixed ''fixed_pct'') (\<lambda>f.
           res_bind (finite_fraction risk ''risk_pct'') (\<lambda>r.
           res_bind (finite_fraction mx ''max_position_pct'') (\<lambda>m.
           res_bind (finite_non_negative mn ''minimum_position_notional'') (\<lambda>n.
           Inr \<lparr>po_id = pid, po_method = meth, po_fixed_pct = f, po_risk_pct = r, po_max_position_pct = m,
                po_minimum = n, po_missing_stop = missing, po_rounding = rounding, po_version = version\<rparr>)))))"

definition policy_fixed_percent ::
    "string \<Rightarrow> number \<Rightarrow> number \<Rightarrow> number \<Rightarrow> pre_broker_rounding \<Rightarrow> sizing_policy res" where
  "policy_fixed_percent pid fixed mx mn rounding =
     sizing_policy_init pid PSM_FIXED_PCT fixed (Fin (1 / 100)) mx mn STOP_FALLBACK_FIXED_PCT rounding
       POLICY_VERSION"

definition policy_initial_stop_risk ::
    "string \<Rightarrow> number \<Rightarrow> number \<Rightarrow> number \<Rightarrow> number \<Rightarrow> pre_broker_rounding \<Rightarrow> missing_stop_behavior \<Rightarrow>
     sizing_policy res" where
  "policy_initial_stop_risk pid risk fallback mx mn rounding missing =
     sizing_policy_init pid PSM_RISK_PCT fallback risk mx mn missing rounding POLICY_VERSION"

record sizing_decision =
  sd_policy_id :: string
  sd_requested_method :: position_sizing_method
  sd_method_used :: position_sizing_method
  sd_status :: sizing_decision_status
  sd_rejection_reason :: "string option"
  sd_fallback_reason :: "string option"
  sd_request :: sizing_request
  sd_risk_per_unit :: "rat option"
  sd_requested_notional :: rat
  sd_intent_quantity :: rat
  sd_intent_notional :: rat
  sd_quantity :: rat
  sd_notional_value :: rat
  sd_risk_amount :: rat
  sd_risk_pct :: rat
  sd_capped_by_buying_power :: bool
  sd_capped_by_max_position :: bool
  sd_below_minimum :: bool

definition accepted :: "sizing_decision \<Rightarrow> bool" where
  "accepted d \<longleftrightarrow> sd_status d = SIZING_ACCEPTED"

definition rejected_decision ::
    "sizing_request \<Rightarrow> sizing_policy \<Rightarrow> string \<Rightarrow> rat option \<Rightarrow> sizing_decision" where
  "rejected_decision rq po reason rpu =
     \<lparr>sd_policy_id = po_id po, sd_requested_method = po_method po, sd_method_used = po_method po,
      sd_status = SIZING_REJECTED, sd_rejection_reason = Some reason, sd_fallback_reason = None,
      sd_request = rq, sd_risk_per_unit = rpu, sd_requested_notional = 0, sd_intent_quantity = 0,
      sd_intent_notional = 0, sd_quantity = 0, sd_notional_value = 0, sd_risk_amount = 0, sd_risk_pct = 0,
      sd_capped_by_buying_power = False, sd_capped_by_max_position = False, sd_below_minimum = False\<rparr>"

text \<open>The distance to the stop, and why the method of the policy cannot be used.\<close>

definition stop_distance :: "sizing_policy \<Rightarrow> sizing_request \<Rightarrow> rat option \<times> string option" where
  "stop_distance po rq =
     (case po_method po of
        PSM_FIXED_PCT \<Rightarrow> (None, None)
      | PSM_RISK_PCT \<Rightarrow>
          (case rq_stop_loss rq of
             None \<Rightarrow> (None, Some ''missing_stop_loss'')
           | Some s \<Rightarrow>
               (let d = \<bar>rq_price rq - s\<bar>
                in (Some d, if d = 0 then Some ''zero_stop_distance'' else None))))"

text \<open>The requested notional, the notional and qty within buying power, and whether that capped it.\<close>

definition assertion_error :: py_error where
  "assertion_error = CustomError ''AssertionError'' []"

definition size_within_power ::
    "sizing_policy \<Rightarrow> sizing_request \<Rightarrow> position_sizing_method \<Rightarrow> rat option \<Rightarrow>
     (rat \<times> rat \<times> rat \<times> bool) res" where
  "size_within_power po rq method_used rpu =
     (case method_used of
        PSM_FIXED_PCT \<Rightarrow>
          (let requested = rq_equity rq * po_fixed_pct po;
               notional = min requested (rq_buying_power rq)
           in Inr (requested, notional, notional / rq_price rq, notional < requested))
      | PSM_RISK_PCT \<Rightarrow>
          (case rpu of
             None \<Rightarrow> Inl assertion_error
           | Some d \<Rightarrow>
               if \<not> 0 < d then Inl assertion_error
               else (let q = rq_equity rq * po_risk_pct po / d;
                         requested = q * rq_price rq;
                         capped = rq_buying_power rq < requested;
                         q' = (if capped then rq_buying_power rq / rq_price rq else q)
                     in Inr (requested, if capped then q' * rq_price rq else requested, q', capped))))"

text \<open>The cap of the largest position, the minimum, the rounding and the risk of what is left.\<close>

definition settle_decision ::
    "sizing_policy \<Rightarrow> sizing_request \<Rightarrow> position_sizing_method \<Rightarrow> rat option \<Rightarrow> string option \<Rightarrow>
     rat \<times> rat \<times> rat \<times> bool \<Rightarrow> sizing_decision res" where
  "settle_decision po rq used rpu fallback =
     (\<lambda>(requested, notional0, quantity0, capped_power).
        let max_notional = rq_equity rq * po_max_position_pct po;
            capped_max = max_notional < notional0;
            qty = (if capped_max then max_notional / rq_price rq else quantity0);
            notional = (if capped_max then max_notional else notional0);
            below = notional < po_minimum po
        in res_bind (if below then Inr 0
                     else apply_pre_broker_quantity_rounding (Fin qty) (Fin (rq_price rq)) (po_rounding po))
             (\<lambda>input.
               let risk = (case (used, rpu) of (PSM_RISK_PCT, Some d) \<Rightarrow> input * d | _ \<Rightarrow> input * rq_price rq)
               in Inr \<lparr>sd_policy_id = po_id po, sd_requested_method = po_method po, sd_method_used = used,
                    sd_status = (if below then SIZING_REJECTED else SIZING_ACCEPTED),
                    sd_rejection_reason = (if below then Some ''below_minimum_notional'' else None),
                    sd_fallback_reason = fallback, sd_request = rq, sd_risk_per_unit = rpu,
                    sd_requested_notional = requested, sd_intent_quantity = qty,
                    sd_intent_notional = notional, sd_quantity = input,
                    sd_notional_value = input * rq_price rq, sd_risk_amount = risk,
                    sd_risk_pct = risk / rq_equity rq, sd_capped_by_buying_power = capped_power,
                    sd_capped_by_max_position = capped_max, sd_below_minimum = below\<rparr>))"

definition sizing_calculate :: "sizing_policy \<Rightarrow> sizing_request \<Rightarrow> sizing_decision res" where
  "sizing_calculate po rq =
     (case stop_distance po rq of (rpu, fallback) \<Rightarrow>
      if fallback \<noteq> None \<and> po_missing_stop po = STOP_REJECT
      then Inr (rejected_decision rq po (the fallback) rpu)
      else (let used = (if fallback \<noteq> None then PSM_FIXED_PCT else po_method po) in
        res_bind (size_within_power po rq used rpu) (settle_decision po rq used rpu fallback)))"

section \<open>The sizer of the execution engine\<close>

datatype sizing_method = FIXED_AMOUNT | FIXED_PCT | RISK_PCT | KELLY | VOLATILITY

record sizing_config =
  sc_method :: sizing_method
  sc_fixed_amount :: rat
  sc_fixed_pct :: rat
  sc_risk_pct :: rat
  sc_max_position_pct :: rat
  sc_min_position_size :: rat
  sc_kelly_fraction :: rat

datatype sizing_note =
    Risk_Per_Unit rat
  | Capped_At rat
  | Below_Minimum rat
  | Kelly_Note rat rat
  | Vol_Note rat rat

record sizing_result =
  sr_quantity :: rat
  sr_notional_value :: rat
  sr_risk_amount :: rat
  sr_risk_pct :: rat
  sr_method_used :: sizing_method
  sr_notes :: "sizing_note list"

definition buying_power :: "account_state \<Rightarrow> rat" where
  "buying_power a = as_available_cash a"

definition py_div :: "rat \<Rightarrow> rat \<Rightarrow> rat res" where
  "py_div a b = (if b = 0 then Inl (CustomError ''ZeroDivisionError'' ''division by zero'') else Inr (a / b))"

lemma py_div_iff [simp, res_simps]: "py_div a b = Inr q \<longleftrightarrow> b \<noteq> 0 \<and> q = a / b"
  by (auto simp: py_div_def)

definition share_of_equity :: "rat \<Rightarrow> account_state \<Rightarrow> rat" where
  "share_of_equity amount a = (if 0 < as_equity a then amount / as_equity a else 0)"

definition size_fixed_amount :: "sizing_config \<Rightarrow> rat \<Rightarrow> account_state \<Rightarrow> sizing_result res" where
  "size_fixed_amount c price a =
     (let amount = min (sc_fixed_amount c) (buying_power a)
      in res_bind (py_div amount price) (\<lambda>qty.
           Inr \<lparr>sr_quantity = qty, sr_notional_value = amount, sr_risk_amount = amount,
                sr_risk_pct = share_of_equity amount a, sr_method_used = FIXED_AMOUNT, sr_notes = []\<rparr>))"

definition shared_request :: "rat \<Rightarrow> account_state \<Rightarrow> rat option \<Rightarrow> sizing_request res" where
  "shared_request price a stop =
     sizing_request_init (Fin price) (Fin (as_equity a)) (Fin (buying_power a)) (map_option Fin stop)"

definition from_shared_decision :: "sizing_config \<Rightarrow> sizing_decision \<Rightarrow> rat \<Rightarrow> sizing_result" where
  "from_shared_decision c d price =
     (let m = (if sd_method_used d = PSM_FIXED_PCT then FIXED_PCT else RISK_PCT);
          n0 = (case sd_risk_per_unit d of Some r \<Rightarrow> if m = RISK_PCT then [Risk_Per_Unit r] else [] | None \<Rightarrow> []);
          n1 = (if sd_capped_by_max_position d then [Capped_At (sc_max_position_pct c)] else []);
          n2 = (if sd_below_minimum d then [Below_Minimum (sc_min_position_size c)] else [])
      in \<lparr>sr_quantity = sd_quantity d, sr_notional_value = sd_quantity d * price,
          sr_risk_amount = sd_risk_amount d, sr_risk_pct = sd_risk_pct d, sr_method_used = m,
          sr_notes = n0 @ n1 @ n2\<rparr>)"

definition size_fixed_pct :: "sizing_config \<Rightarrow> rat \<Rightarrow> account_state \<Rightarrow> sizing_result res" where
  "size_fixed_pct c price a =
     res_bind (policy_fixed_percent ''execution-engine-fixed-pct-v1'' (Fin (sc_fixed_pct c))
                 (Fin (sc_max_position_pct c)) (Fin (sc_min_position_size c)) ROUND_PRICE_TIERED) (\<lambda>po.
     res_bind (shared_request price a None) (\<lambda>rq.
     res_bind (sizing_calculate po rq) (\<lambda>d. Inr (from_shared_decision c d price))))"

definition size_risk_pct ::
    "sizing_config \<Rightarrow> rat \<Rightarrow> account_state \<Rightarrow> rat option \<Rightarrow> sizing_result res" where
  "size_risk_pct c price a stop =
     res_bind (policy_initial_stop_risk ''execution-engine-risk-pct-v1'' (Fin (sc_risk_pct c))
                 (Fin (sc_fixed_pct c)) (Fin (sc_max_position_pct c)) (Fin (sc_min_position_size c))
                 ROUND_PRICE_TIERED STOP_FALLBACK_FIXED_PCT) (\<lambda>po.
     res_bind (shared_request price a stop) (\<lambda>rq.
     res_bind (sizing_calculate po rq) (\<lambda>d. Inr (from_shared_decision c d price))))"

record trade_history =
  th_win_rate :: "rat option"
  th_avg_win :: "rat option"
  th_avg_loss :: "rat option"

definition size_kelly ::
    "sizing_config \<Rightarrow> rat \<Rightarrow> account_state \<Rightarrow> trade_history \<Rightarrow> sizing_result res" where
  "size_kelly c price a h =
     (case (th_win_rate h, th_avg_win h, th_avg_loss h) of
        (Some p, Some avg_win, Some avg_loss) \<Rightarrow>
          (let q = 1 - p; b = (if 0 < avg_loss then avg_win / avg_loss else 1)
           in res_bind (py_div (p * b - q) b) (\<lambda>f0.
              let f = max 0 (min f0 (sc_kelly_fraction c));
                  amount = min (as_equity a * f) (buying_power a)
              in res_bind (py_div amount price) (\<lambda>qty.
                   Inr \<lparr>sr_quantity = qty, sr_notional_value = amount, sr_risk_amount = amount,
                        sr_risk_pct = f, sr_method_used = KELLY,
                        sr_notes = [Kelly_Note f (sc_kelly_fraction c)]\<rparr>)))
      | _ \<Rightarrow> size_fixed_pct c price a)"

definition size_volatility ::
    "sizing_config \<Rightarrow> rat \<Rightarrow> account_state \<Rightarrow> rat option \<Rightarrow> sizing_result res" where
  "size_volatility c price a volatility =
     (case volatility of
        None \<Rightarrow> size_fixed_pct c price a
      | Some v \<Rightarrow>
          if v \<le> 0 then size_fixed_pct c price a
          else (let base = as_equity a * sc_fixed_pct c;
                    adjustment = max (1 / 2) (min 2 ((15 / 100) / v));
                    amount = min (base * adjustment) (buying_power a)
                in res_bind (py_div amount price) (\<lambda>qty.
                     Inr \<lparr>sr_quantity = qty, sr_notional_value = amount, sr_risk_amount = amount,
                          sr_risk_pct = share_of_equity amount a, sr_method_used = VOLATILITY,
                          sr_notes = [Vol_Note adjustment v]\<rparr>)))"

definition cap_result :: "sizing_config \<Rightarrow> sizing_result \<Rightarrow> rat \<Rightarrow> account_state \<Rightarrow> sizing_result res" where
  "cap_result c r price a =
     (let m = as_equity a * sc_max_position_pct c
      in if m < sr_notional_value r
         then res_bind (py_div m price) (\<lambda>q.
                Inr (r\<lparr>sr_quantity := q, sr_notional_value := m,
                       sr_notes := sr_notes r @ [Capped_At (sc_max_position_pct c)]\<rparr>))
         else Inr r)"

definition drop_dust :: "sizing_config \<Rightarrow> sizing_result \<Rightarrow> sizing_result" where
  "drop_dust c r =
     (if sr_notional_value r < sc_min_position_size c
      then r\<lparr>sr_quantity := 0, sr_notional_value := 0,
              sr_notes := sr_notes r @ [Below_Minimum (sc_min_position_size c)]\<rparr>
      else r)"

definition apply_limits :: "sizing_config \<Rightarrow> sizing_result \<Rightarrow> rat \<Rightarrow> account_state \<Rightarrow> sizing_result res" where
  "apply_limits c r price a =
     res_bind (cap_result c r price a) (\<lambda>r1.
     let r2 = drop_dust c r1
     in res_bind (apply_pre_broker_quantity_rounding (Fin (sr_quantity r2)) (Fin price) ROUND_PRICE_TIERED) (\<lambda>q.
          Inr (r2\<lparr>sr_quantity := q, sr_notional_value := q * price, sr_risk_amount := q * price,
                  sr_risk_pct := share_of_equity (q * price) a\<rparr>)))"

definition size_by_method ::
    "sizing_config \<Rightarrow> rat \<Rightarrow> account_state \<Rightarrow> rat option \<Rightarrow> trade_history \<Rightarrow> rat option \<Rightarrow> sizing_result res" where
  "size_by_method c price a stop h volatility =
     (case sc_method c of
        FIXED_AMOUNT \<Rightarrow> size_fixed_amount c price a
      | FIXED_PCT \<Rightarrow> size_fixed_pct c price a
      | RISK_PCT \<Rightarrow> size_risk_pct c price a stop
      | KELLY \<Rightarrow> size_kelly c price a h
      | VOLATILITY \<Rightarrow> size_volatility c price a volatility)"

text \<open>\<open>calculate\<close> at the rate one: the sizes of the shared policy are already limited.\<close>

definition sizer_calculate_base ::
    "sizing_config \<Rightarrow> rat \<Rightarrow> account_state \<Rightarrow> rat option \<Rightarrow> trade_history \<Rightarrow> rat option \<Rightarrow> sizing_result res" where
  "sizer_calculate_base c price a stop h volatility =
     res_bind (size_by_method c price a stop h volatility) (\<lambda>r.
       if sr_method_used r \<in> {FIXED_PCT, RISK_PCT} then Inr r else apply_limits c r price a)"

definition settlement_account :: "rat \<Rightarrow> account_state \<Rightarrow> account_state" where
  "settlement_account rate a =
     a\<lparr>as_equity := as_equity a * rate, as_available_cash := as_available_cash a * rate,
       as_margin_used := as_margin_used a * rate\<rparr>"

definition settlement_config :: "rat \<Rightarrow> sizing_config \<Rightarrow> sizing_config" where
  "settlement_config rate c =
     c\<lparr>sc_fixed_amount := sc_fixed_amount c * rate, sc_min_position_size := sc_min_position_size c * rate\<rparr>"

datatype rate_argument = Rate_Bool bool | Rate_Float number

definition settlement_rate :: "rate_argument \<Rightarrow> rat res" where
  "settlement_rate x =
     (case x of
        Rate_Float (Fin q) \<Rightarrow>
          if q \<le> 0 then Inl (ValueError ''Position sizing requires a finite positive account-to-settlement rate'')
          else Inr q
      | _ \<Rightarrow> Inl (ValueError ''Position sizing requires a finite positive account-to-settlement rate''))"

lemma settlement_rate_iff [simp, res_simps]:
  "settlement_rate x = Inr q \<longleftrightarrow> x = Rate_Float (Fin q) \<and> 0 < q"
  by (auto simp: settlement_rate_def split: rate_argument.splits number.splits)

definition sizer_calculate ::
    "sizing_config \<Rightarrow> rat \<Rightarrow> account_state \<Rightarrow> rat option \<Rightarrow> trade_history \<Rightarrow> rat option \<Rightarrow> rate_argument \<Rightarrow>
     sizing_result res" where
  "sizer_calculate c price a stop h volatility rate_arg =
     res_bind (settlement_rate rate_arg) (\<lambda>rate.
       if rate \<noteq> 1
       then sizer_calculate_base (settlement_config rate c) price (settlement_account rate a) stop h volatility
       else sizer_calculate_base c price a stop h volatility)"

definition no_history :: trade_history where
  "no_history = \<lparr>th_win_rate = None, th_avg_win = None, th_avg_loss = None\<rparr>"

definition calculate_target_position ::
    "sizing_config \<Rightarrow> rat \<Rightarrow> account_state \<Rightarrow> rat option \<Rightarrow> rate_argument \<Rightarrow> sizing_result res" where
  "calculate_target_position c price a stop rate_arg =
     sizer_calculate c price (a\<lparr>as_available_cash := max (as_available_cash a) (as_equity a)\<rparr>) stop no_history
       None rate_arg"

text \<open>\<open>int\<close> truncates towards zero.\<close>

definition py_trunc :: "rat \<Rightarrow> int" where
  "py_trunc x = (if 0 \<le> x then \<lfloor>x\<rfloor> else \<lceil>x\<rceil>)"

definition calculate_options_quantity :: "rat \<Rightarrow> rat \<Rightarrow> int" where
  "calculate_options_quantity max_risk spread_max_loss =
     (if spread_max_loss \<le> 0 then 0 else max 0 (py_trunc (max_risk / spread_max_loss)))"

definition calculate_futures_quantity :: "rat \<Rightarrow> rat \<Rightarrow> rat \<Rightarrow> rat res" where
  "calculate_futures_quantity notional_value contract_value leverage =
     (if contract_value \<le> 0 then Inr 0
      else res_bind (py_div notional_value leverage) (\<lambda>margin. py_div margin contract_value))"

end
