(* ===== verification/Sizing_Safety.thy ===== *)
theory Sizing_Safety
  imports Position_Sizing
begin

text \<open>
  Properties of position sizing: the staged caps of the shared policy are the minimum of the three limits,
  every method of the sizer stays within buying power and the largest position up to half a rounding step,
  the money at risk stays within the risk budget, and the result does not depend on the currency the
  account is kept in.
\<close>

section \<open>Rounding as an interface\<close>

locale quantity_rounding =
  fixes rnd :: "rat \<Rightarrow> rat" and err :: "rat \<Rightarrow> rat"
  assumes near: "\<bar>rnd q - q\<bar> \<le> err q"
    and nonneg: "0 \<le> q \<Longrightarrow> 0 \<le> rnd q"
begin

lemma err_nonneg: "0 \<le> err q"
  using near [of q] by linarith

lemma scaled_le:
  assumes "0 \<le> p" "q * p \<le> b"
  shows "rnd q * p \<le> b + err q * p"
proof -
  have "rnd q \<le> q + err q"
    using near [of q] by linarith
  from mult_right_mono [OF this assms(1)] assms(2) show ?thesis
    by (simp add: algebra_simps)
qed

lemma scaled_ge:
  assumes "0 \<le> p" "b \<le> q * p"
  shows "b - err q * p \<le> rnd q * p"
proof -
  have "q - err q \<le> rnd q"
    using near [of q] by linarith
  from mult_right_mono [OF this assms(1)] assms(2) show ?thesis
    by (simp add: algebra_simps)
qed

end

definition rounded :: "pre_broker_rounding \<Rightarrow> rat \<Rightarrow> rat \<Rightarrow> rat" where
  "rounded r price q = (case r of ROUND_NONE \<Rightarrow> q | ROUND_PRICE_TIERED \<Rightarrow> py_round (rounding_digits q price) q)"

definition round_error :: "pre_broker_rounding \<Rightarrow> rat \<Rightarrow> rat \<Rightarrow> rat" where
  "round_error r price q =
     (case r of ROUND_NONE \<Rightarrow> 0 | ROUND_PRICE_TIERED \<Rightarrow> 1 / (2 * 10 ^ rounding_digits q price))"

interpretation pre_broker: quantity_rounding "rounded r price" "round_error r price" for r price
  by unfold_locales
    (auto simp: rounded_def round_error_def py_round_near py_round_nonneg split: pre_broker_rounding.splits)

lemma apply_rounding_iff [simp]:
  "apply_pre_broker_quantity_rounding (Fin q) (Fin p) r = Inr x \<longleftrightarrow> 0 \<le> q \<and> 0 < p \<and> x = rounded r p q"
  by (auto simp: apply_pre_broker_quantity_rounding_def rounded_def res_bind_Inr_iff
      split: pre_broker_rounding.splits)

section \<open>The shared policy\<close>

definition policy_ok :: "sizing_policy \<Rightarrow> bool" where
  "policy_ok po \<longleftrightarrow> 0 < po_fixed_pct po \<and> po_fixed_pct po \<le> 1 \<and> 0 < po_risk_pct po \<and> po_risk_pct po \<le> 1 \<and>
     0 < po_max_position_pct po \<and> po_max_position_pct po \<le> 1 \<and> 0 \<le> po_minimum po"

definition request_ok :: "sizing_request \<Rightarrow> bool" where
  "request_ok rq \<longleftrightarrow> 0 < rq_price rq \<and> 0 < rq_equity rq \<and> 0 \<le> rq_buying_power rq"

lemma policy_init_ok: "sizing_policy_init pid m f r mx mn b rd v = Inr po \<Longrightarrow> policy_ok po"
  unfolding sizing_policy_init_def policy_ok_def
  by (simp add: res_bind_Inr_iff split: if_splits) (elim exE conjE, hypsubst, simp)

lemma request_init_ok: "sizing_request_init p e b s = Inr rq \<Longrightarrow> request_ok rq"
  unfolding sizing_request_init_def request_ok_def
  by (cases s; (cases "the s")?) (simp_all add: res_bind_Inr_iff; elim exE conjE; hypsubst; simp)+

text \<open>The size each method asks for, before any cap.\<close>

definition wanted :: "sizing_policy \<Rightarrow> sizing_request \<Rightarrow> position_sizing_method \<Rightarrow> rat option \<Rightarrow> rat" where
  "wanted po rq m rpu =
     (case m of PSM_FIXED_PCT \<Rightarrow> rq_equity rq * po_fixed_pct po
      | PSM_RISK_PCT \<Rightarrow> rq_equity rq * po_risk_pct po / the rpu * rq_price rq)"

lemma size_within_power_min:
  assumes "request_ok rq" "m = PSM_RISK_PCT \<Longrightarrow> \<exists>d. rpu = Some d \<and> 0 < d"
  shows "size_within_power po rq m rpu =
    Inr (wanted po rq m rpu, min (wanted po rq m rpu) (rq_buying_power rq),
         min (wanted po rq m rpu) (rq_buying_power rq) / rq_price rq, rq_buying_power rq < wanted po rq m rpu)"
proof -
  have p: "rq_price rq \<noteq> 0"
    using assms(1) by (simp add: request_ok_def)
  show ?thesis
  proof (cases m)
    case PSM_FIXED_PCT
    then show ?thesis
      by (auto simp: size_within_power_def wanted_def Let_def min_def)
  next
    case PSM_RISK_PCT
    with assms(2) obtain d where "rpu = Some d" "0 < d"
      by blast
    with PSM_RISK_PCT p show ?thesis
      by (auto simp: size_within_power_def wanted_def Let_def min_def)
  qed
qed

text \<open>The notional the policy settles on.\<close>

definition settled :: "sizing_policy \<Rightarrow> sizing_request \<Rightarrow> position_sizing_method \<Rightarrow> rat option \<Rightarrow> rat" where
  "settled po rq m rpu =
     min (wanted po rq m rpu) (min (rq_buying_power rq) (rq_equity rq * po_max_position_pct po))"

definition used_method :: "sizing_policy \<Rightarrow> sizing_request \<Rightarrow> position_sizing_method" where
  "used_method po rq = (if snd (stop_distance po rq) \<noteq> None then PSM_FIXED_PCT else po_method po)"

lemma used_risk_distance:
  "used_method po rq = PSM_RISK_PCT \<Longrightarrow> \<exists>d. fst (stop_distance po rq) = Some d \<and> 0 < d"
  by (auto simp: used_method_def stop_distance_def Let_def split: option.splits if_splits position_sizing_method.splits)

lemma wanted_nonneg:
  assumes "request_ok rq" "policy_ok po"
  shows "0 \<le> wanted po rq (used_method po rq) (fst (stop_distance po rq))"
proof (cases "used_method po rq")
  case PSM_FIXED_PCT
  then show ?thesis
    using assms by (simp add: wanted_def request_ok_def policy_ok_def)
next
  case PSM_RISK_PCT
  from used_risk_distance [OF this] obtain d where "fst (stop_distance po rq) = Some d" "0 < d"
    by blast
  with PSM_RISK_PCT show ?thesis
    using assms by (simp add: wanted_def request_ok_def policy_ok_def)
qed

definition refuses :: "sizing_policy \<Rightarrow> sizing_request \<Rightarrow> bool" where
  "refuses po rq \<longleftrightarrow> snd (stop_distance po rq) \<noteq> None \<and> po_missing_stop po = STOP_REJECT"

lemma sizing_calculate_refuses:
  "refuses po rq \<Longrightarrow> sizing_calculate po rq =
     Inr (rejected_decision rq po (the (snd (stop_distance po rq))) (fst (stop_distance po rq)))"
  by (auto simp: sizing_calculate_def refuses_def split: prod.splits)

definition risk_base :: "sizing_policy \<Rightarrow> sizing_request \<Rightarrow> rat" where
  "risk_base po rq =
     (case used_method po rq of PSM_FIXED_PCT \<Rightarrow> rq_price rq
      | PSM_RISK_PCT \<Rightarrow> the (fst (stop_distance po rq)))"

abbreviation wanted_notional :: "sizing_policy \<Rightarrow> sizing_request \<Rightarrow> rat" where
  "wanted_notional po rq \<equiv> wanted po rq (used_method po rq) (fst (stop_distance po rq))"

abbreviation settled_notional :: "sizing_policy \<Rightarrow> sizing_request \<Rightarrow> rat" where
  "settled_notional po rq \<equiv> settled po rq (used_method po rq) (fst (stop_distance po rq))"

definition settled_quantity :: "sizing_policy \<Rightarrow> sizing_request \<Rightarrow> rat" where
  "settled_quantity po rq =
     (if settled_notional po rq < po_minimum po then 0
      else rounded (po_rounding po) (rq_price rq) (settled_notional po rq / rq_price rq))"

lemma settled_nonneg: "request_ok rq \<Longrightarrow> policy_ok po \<Longrightarrow> 0 \<le> settled_notional po rq"
  using wanted_nonneg [of rq po] by (simp add: settled_def request_ok_def policy_ok_def)

lemma sizing_calculate_settles:
  assumes "request_ok rq" "policy_ok po" "\<not> refuses po rq"
  shows "sizing_calculate po rq = Inr
    \<lparr>sd_policy_id = po_id po, sd_requested_method = po_method po, sd_method_used = used_method po rq,
     sd_status = (if settled_notional po rq < po_minimum po then SIZING_REJECTED else SIZING_ACCEPTED),
     sd_rejection_reason =
       (if settled_notional po rq < po_minimum po then Some ''below_minimum_notional'' else None),
     sd_fallback_reason = snd (stop_distance po rq), sd_request = rq, sd_risk_per_unit = fst (stop_distance po rq),
     sd_requested_notional = wanted_notional po rq, sd_intent_quantity = settled_notional po rq / rq_price rq,
     sd_intent_notional = settled_notional po rq, sd_quantity = settled_quantity po rq,
     sd_notional_value = settled_quantity po rq * rq_price rq,
     sd_risk_amount = settled_quantity po rq * risk_base po rq,
     sd_risk_pct = settled_quantity po rq * risk_base po rq / rq_equity rq,
     sd_capped_by_buying_power = (rq_buying_power rq < wanted_notional po rq),
     sd_capped_by_max_position =
       (rq_equity rq * po_max_position_pct po < min (wanted_notional po rq) (rq_buying_power rq)),
     sd_below_minimum = (settled_notional po rq < po_minimum po)\<rparr>" (is "_ = Inr ?d")
proof -
  let ?u = "used_method po rq" and ?rpu = "fst (stop_distance po rq)" and ?fb = "snd (stop_distance po rq)"
  let ?w = "wanted_notional po rq" and ?bp = "rq_buying_power rq" and ?n = "settled_notional po rq"
  let ?mx = "rq_equity rq * po_max_position_pct po" and ?p = "rq_price rq"
  have caps: "(if ?mx < min ?w ?bp then ?mx else min ?w ?bp) = ?n"
    "(if ?mx < min ?w ?bp then ?mx / ?p else min ?w ?bp / ?p) = ?n / ?p"
    by (auto simp: settled_def min_def)
  have input: "(if ?n < po_minimum po then Inr 0
      else apply_pre_broker_quantity_rounding (Fin (?n / ?p)) (Fin ?p) (po_rounding po))
      = Inr (settled_quantity po rq)"
    using settled_nonneg [OF assms(1,2)] assms(1) by (simp add: settled_quantity_def request_ok_def)
  have risk: "(case (?u, ?rpu) of (PSM_RISK_PCT, Some d) \<Rightarrow> x * d | _ \<Rightarrow> x * ?p) = x * risk_base po rq" for x
    using used_risk_distance [of po rq] by (auto simp: risk_base_def split: position_sizing_method.splits)
  have "sizing_calculate po rq = res_bind (size_within_power po rq ?u ?rpu) (settle_decision po rq ?u ?rpu ?fb)"
    using assms(3) by (auto simp: sizing_calculate_def refuses_def used_method_def Let_def split: prod.splits)
  also have "\<dots> = settle_decision po rq ?u ?rpu ?fb (?w, min ?w ?bp, min ?w ?bp / ?p, ?bp < ?w)"
    by (simp add: size_within_power_min [OF assms(1) used_risk_distance])
  also have "\<dots> = Inr ?d"
    unfolding settle_decision_def Let_def prod.case caps input by (simp add: risk [unfolded prod.case])
  finally show ?thesis .
qed


lemma rejected_decision_zero [simp]:
  "sd_quantity (rejected_decision rq po r d) = 0" "sd_intent_notional (rejected_decision rq po r d) = 0"
  "sd_notional_value (rejected_decision rq po r d) = 0" "sd_risk_amount (rejected_decision rq po r d) = 0"
  "\<not> accepted (rejected_decision rq po r d)"
  by (simp_all add: rejected_decision_def accepted_def)

section \<open>The sizer\<close>

text \<open>A result is within a budget up to half a rounding step.\<close>

definition budget :: "sizing_config \<Rightarrow> account_state \<Rightarrow> rat" where
  "budget c a = max 0 (min (buying_power a) (as_equity a * sc_max_position_pct c))"

definition half_step :: "rat \<Rightarrow> rat" where
  "half_step price = (if price < SMALL_PRICE_THRESHOLD then 1 / 20000 else 1 / 200)"

definition sized_within :: "rat \<Rightarrow> rat \<Rightarrow> sizing_result \<Rightarrow> bool" where
  "sized_within limit price r \<longleftrightarrow> 0 < price \<and> 0 \<le> sr_quantity r \<and> sr_notional_value r = sr_quantity r * price \<and>
     sr_notional_value r \<le> limit + half_step price * price"

lemma round_error_half_step: "round_error r price q \<le> half_step price"
  by (auto simp: round_error_def half_step_def rounding_digits_def SMALL_PRICE_THRESHOLD_def
      split: pre_broker_rounding.splits)

lemma rounded_within:
  assumes "0 < price" "0 \<le> q" "q * price \<le> b"
  shows "0 \<le> rounded r price q" "rounded r price q * price \<le> b + half_step price * price"
proof -
  show "0 \<le> rounded r price q"
    by (rule pre_broker.nonneg [OF assms(2)])
  have "rounded r price q * price \<le> b + round_error r price q * price"
    using assms by (intro pre_broker.scaled_le) auto
  also have "\<dots> \<le> b + half_step price * price"
    using assms(1) by (simp add: round_error_half_step mult_right_mono)
  finally show "rounded r price q * price \<le> b + half_step price * price" .
qed

lemma half_step_pos: "0 < half_step price"
  by (simp add: half_step_def)

lemma settled_quantity_within:
  assumes "request_ok rq" "policy_ok po"
  shows "0 \<le> settled_quantity po rq"
    "settled_quantity po rq * rq_price rq \<le> settled_notional po rq + half_step (rq_price rq) * rq_price rq"
proof -
  let ?p = "rq_price rq" and ?n = "settled_notional po rq"
  have p: "0 < ?p" and n: "0 \<le> ?n"
    using assms settled_nonneg [OF assms] by (simp_all add: request_ok_def)
  note w = rounded_within [of ?p "?n / ?p" ?n "po_rounding po"]
  show "0 \<le> settled_quantity po rq"
    using w(1) p n by (simp add: settled_quantity_def)
  show "settled_quantity po rq * ?p \<le> ?n + half_step ?p * ?p"
    using w(2) p n half_step_pos [of ?p] by (auto simp: settled_quantity_def intro: add_nonneg_nonneg)
qed

lemma shared_result_within:
  assumes po: "policy_ok po" and mx: "po_max_position_pct po = sc_max_position_pct c"
    and rq: "shared_request price a stop = Inr rq" and d: "sizing_calculate po rq = Inr d"
  shows "sized_within (budget c a) price (from_shared_decision c d price)"
proof -
  have ok: "request_ok rq"
    using rq by (simp add: shared_request_def request_init_ok)
  have f: "rq_price rq = price" "rq_buying_power rq = buying_power a" "rq_equity rq = as_equity a"
    using rq by (auto simp: shared_request_def sizing_request_init_def res_bind_Inr_iff split: option.splits)
  have p: "0 < price"
    using ok f by (simp add: request_ok_def)
  have "0 \<le> sd_quantity d \<and> sd_quantity d * price \<le> budget c a + half_step price * price"
  proof (cases "refuses po rq")
    case True
    then have "sd_quantity d = 0"
      using d sizing_calculate_refuses [OF True] by auto
    then show ?thesis
      using p half_step_pos [of price] by (simp add: budget_def add_nonneg_nonneg)
  next
    case False
    then have "sd_quantity d = settled_quantity po rq"
      using d sizing_calculate_settles [OF ok po False] by auto
    moreover have "settled_notional po rq \<le> budget c a"
      by (simp add: settled_def budget_def f mx)
    ultimately show ?thesis
      using settled_quantity_within [OF ok po] f by simp
  qed
  with p show ?thesis
    by (simp add: sized_within_def from_shared_decision_def)
qed


lemma policy_builders_ok:
  "policy_fixed_percent i f m n r = Inr po \<Longrightarrow> policy_ok po \<and> Fin (po_max_position_pct po) = m"
  "policy_initial_stop_risk i k f m n r b = Inr po \<Longrightarrow> policy_ok po \<and> Fin (po_max_position_pct po) = m"
proof -
  have mx: "sizing_policy_init i me f k m n b r v = Inr po \<Longrightarrow> Fin (po_max_position_pct po) = m" for me f k b v
    unfolding sizing_policy_init_def
    by (simp add: res_bind_Inr_iff split: if_splits) (elim exE conjE, hypsubst, simp)
  show "policy_fixed_percent i f m n r = Inr po \<Longrightarrow> policy_ok po \<and> Fin (po_max_position_pct po) = m"
    "policy_initial_stop_risk i k f m n r b = Inr po \<Longrightarrow> policy_ok po \<and> Fin (po_max_position_pct po) = m"
    unfolding policy_fixed_percent_def policy_initial_stop_risk_def using mx policy_init_ok by blast+
qed

lemma size_fixed_pct_within:
  assumes "size_fixed_pct c price a = Inr r"
  shows "sized_within (budget c a) price r \<and> sr_method_used r \<in> {FIXED_PCT, RISK_PCT}"
proof -
  from assms obtain po rq d where po: "policy_fixed_percent ''execution-engine-fixed-pct-v1''
      (Fin (sc_fixed_pct c)) (Fin (sc_max_position_pct c)) (Fin (sc_min_position_size c)) ROUND_PRICE_TIERED = Inr po"
    and rq: "shared_request price a None = Inr rq" and d: "sizing_calculate po rq = Inr d"
    and r: "r = from_shared_decision c d price"
    by (auto simp: size_fixed_pct_def res_bind_Inr_iff)
  have "sized_within (budget c a) price r"
    unfolding r using policy_builders_ok(1) [OF po] by (intro shared_result_within [OF _ _ rq d]) auto
  then show ?thesis
    by (simp add: r from_shared_decision_def Let_def)
qed

lemma size_risk_pct_within:
  assumes "size_risk_pct c price a stop = Inr r"
  shows "sized_within (budget c a) price r \<and> sr_method_used r \<in> {FIXED_PCT, RISK_PCT}"
proof -
  from assms obtain po rq d where po: "policy_initial_stop_risk ''execution-engine-risk-pct-v1''
      (Fin (sc_risk_pct c)) (Fin (sc_fixed_pct c)) (Fin (sc_max_position_pct c)) (Fin (sc_min_position_size c))
      ROUND_PRICE_TIERED STOP_FALLBACK_FIXED_PCT = Inr po"
    and rq: "shared_request price a stop = Inr rq" and d: "sizing_calculate po rq = Inr d"
    and r: "r = from_shared_decision c d price"
    by (auto simp: size_risk_pct_def res_bind_Inr_iff)
  have "sized_within (budget c a) price r"
    unfolding r using policy_builders_ok(2) [OF po] by (intro shared_result_within [OF _ _ rq d]) auto
  then show ?thesis
    by (simp add: r from_shared_decision_def Let_def)
qed

text \<open>What the other families propose is affordable before the limits are applied.\<close>

definition proposal :: "rat \<Rightarrow> account_state \<Rightarrow> sizing_result \<Rightarrow> bool" where
  "proposal price a r \<longleftrightarrow> price \<noteq> 0 \<and> sr_quantity r = sr_notional_value r / price \<and>
     sr_notional_value r \<le> buying_power a \<and> sr_method_used r \<notin> {FIXED_PCT, RISK_PCT}"

lemma size_kelly_cases:
  assumes "size_kelly c price a h = Inr r"
  shows "size_fixed_pct c price a = Inr r \<or> proposal price a r"
proof (cases "th_win_rate h = None \<or> th_avg_win h = None \<or> th_avg_loss h = None")
  case True
  then show ?thesis
    using assms by (auto simp: size_kelly_def split: option.splits)
next
  case False
  then obtain p w l where "th_win_rate h = Some p" "th_avg_win h = Some w" "th_avg_loss h = Some l"
    by auto
  then show ?thesis
    using assms by (simp add: size_kelly_def Let_def res_bind_Inr_iff proposal_def del: min_less_iff_conj) force
qed

lemma size_volatility_cases:
  assumes "size_volatility c price a v = Inr r"
  shows "size_fixed_pct c price a = Inr r \<or> proposal price a r"
proof (cases "v = None \<or> the v \<le> 0")
  case True
  then show ?thesis
    using assms by (cases v) (simp_all add: size_volatility_def)
next
  case False
  then obtain x where "v = Some x" "0 < x"
    by auto
  then show ?thesis
    using assms by (simp add: size_volatility_def Let_def res_bind_Inr_iff proposal_def not_le) force
qed

lemma size_by_method_cases:
  assumes "size_by_method c price a stop h volatility = Inr r"
  shows "sized_within (budget c a) price r \<and> sr_method_used r \<in> {FIXED_PCT, RISK_PCT} \<or> proposal price a r"
proof (cases "sc_method c")
  case FIXED_AMOUNT
  then show ?thesis
    using assms by (auto simp: size_by_method_def size_fixed_amount_def Let_def res_bind_Inr_iff proposal_def)
next
  case FIXED_PCT
  then show ?thesis
    using assms size_fixed_pct_within by (simp add: size_by_method_def)
next
  case RISK_PCT
  then show ?thesis
    using assms size_risk_pct_within by (simp add: size_by_method_def)
next
  case KELLY
  then have "size_kelly c price a h = Inr r"
    using assms by (simp add: size_by_method_def)
  then show ?thesis
    using size_kelly_cases size_fixed_pct_within by blast
next
  case VOLATILITY
  then have "size_volatility c price a volatility = Inr r"
    using assms by (simp add: size_by_method_def)
  then show ?thesis
    using size_volatility_cases size_fixed_pct_within by blast
qed

lemma apply_limits_within:
  assumes "proposal price a r0" "apply_limits c r0 price a = Inr r"
  shows "sized_within (budget c a) price r"
proof -
  let ?m = "as_equity a * sc_max_position_pct c"
  define n where "n = min (sr_notional_value r0) ?m"
  from assms(2) obtain r1 where r1: "cap_result c r0 price a = Inr r1"
    and q0: "0 \<le> sr_quantity (drop_dust c r1)" and p: "0 < price"
    and r: "r = (drop_dust c r1)\<lparr>sr_quantity := rounded ROUND_PRICE_TIERED price (sr_quantity (drop_dust c r1)),
        sr_notional_value := rounded ROUND_PRICE_TIERED price (sr_quantity (drop_dust c r1)) * price,
        sr_risk_amount := rounded ROUND_PRICE_TIERED price (sr_quantity (drop_dust c r1)) * price,
        sr_risk_pct := share_of_equity (rounded ROUND_PRICE_TIERED price (sr_quantity (drop_dust c r1)) * price) a\<rparr>"
    by (auto simp: apply_limits_def res_bind_Inr_iff Let_def)
  have "sr_quantity r1 * price = n"
    using r1 assms(1) by (auto simp: cap_result_def Let_def res_bind_Inr_iff proposal_def n_def split: if_splits)
  moreover have "n \<le> min (buying_power a) ?m"
    using assms(1) by (simp add: n_def proposal_def min.coboundedI1)
  ultimately have "sr_quantity (drop_dust c r1) * price \<le> budget c a"
    by (simp add: drop_dust_def budget_def le_max_iff_disj)
  from rounded_within [OF p q0 this] p show ?thesis
    by (simp add: r sized_within_def)
qed

lemma calculate_base_within:
  assumes "sizer_calculate_base c price a stop h volatility = Inr r"
  shows "sized_within (budget c a) price r"
proof -
  from assms obtain r0 where r0: "size_by_method c price a stop h volatility = Inr r0"
    and r: "if sr_method_used r0 \<in> {FIXED_PCT, RISK_PCT} then r = r0 else apply_limits c r0 price a = Inr r"
    by (auto simp: sizer_calculate_base_def res_bind_Inr_iff split: if_splits)
  from size_by_method_cases [OF r0] show ?thesis
    using r apply_limits_within [of price a r0 c r] by (auto simp: proposal_def)
qed


section \<open>The settlement currency\<close>

lemma scale_order:
  fixes k :: rat
  assumes "0 < k"
  shows "min (x * k) (y * k) = min x y * k" "max 0 (x * k) = max 0 x * k" "x * k < y * k \<longleftrightarrow> x < y"
    "\<bar>x * k - y * k\<bar> = \<bar>x - y\<bar> * k" "x * k / (y * k) = x / y" "x * k \<le> y * k \<longleftrightarrow> x \<le> y"
    "0 < x * k \<longleftrightarrow> 0 < x" "0 \<le> x * k \<longleftrightarrow> 0 \<le> x" "x * k = 0 \<longleftrightarrow> x = 0" "x * k \<le> 0 \<longleftrightarrow> x \<le> 0"
    "x * k < 0 \<longleftrightarrow> x < 0"
  using assms
  by (simp_all add: min_def max_def zero_le_mult_iff zero_less_mult_iff mult_le_0_iff mult_less_0_iff abs_mult
      flip: left_diff_distrib)

lemma budget_settlement:
  assumes "0 < k"
  shows "budget (settlement_config k c) (settlement_account k a) = budget c a * k"
proof -
  have m: "as_equity a * k * sc_max_position_pct c = as_equity a * sc_max_position_pct c * k"
    by simp
  show ?thesis
    using assms by (simp add: budget_def settlement_config_def settlement_account_def buying_power_def m scale_order)
qed

definition scale_request :: "rat \<Rightarrow> sizing_request \<Rightarrow> sizing_request" where
  "scale_request k rq =
     \<lparr>rq_price = rq_price rq * k, rq_equity = rq_equity rq * k, rq_buying_power = rq_buying_power rq * k,
      rq_stop_loss = map_option (\<lambda>s. s * k) (rq_stop_loss rq)\<rparr>"

definition scale_policy :: "rat \<Rightarrow> sizing_policy \<Rightarrow> sizing_policy" where
  "scale_policy k po = po\<lparr>po_minimum := po_minimum po * k\<rparr>"

lemma scale_request_simps [simp]:
  "rq_price (scale_request k rq) = rq_price rq * k" "rq_equity (scale_request k rq) = rq_equity rq * k"
  "rq_buying_power (scale_request k rq) = rq_buying_power rq * k"
  "rq_stop_loss (scale_request k rq) = map_option (\<lambda>s. s * k) (rq_stop_loss rq)"
  "0 < k \<Longrightarrow> request_ok (scale_request k rq) = request_ok rq"
  by (simp_all add: scale_request_def request_ok_def scale_order)

lemma scale_policy_simps [simp]:
  "po_method (scale_policy k po) = po_method po" "po_fixed_pct (scale_policy k po) = po_fixed_pct po"
  "po_risk_pct (scale_policy k po) = po_risk_pct po"
  "po_max_position_pct (scale_policy k po) = po_max_position_pct po"
  "po_minimum (scale_policy k po) = po_minimum po * k" "po_missing_stop (scale_policy k po) = po_missing_stop po"
  "po_rounding (scale_policy k po) = po_rounding po" "po_id (scale_policy k po) = po_id po"
  "0 < k \<Longrightarrow> policy_ok (scale_policy k po) = policy_ok po"
  by (simp_all add: scale_policy_def policy_ok_def scale_order)

lemma stop_distance_scale:
  "0 < k \<Longrightarrow> stop_distance (scale_policy k po) (scale_request k rq) =
     (map_option (\<lambda>d. d * k) (fst (stop_distance po rq)), snd (stop_distance po rq))"
  by (simp add: stop_distance_def Let_def scale_order split: position_sizing_method.splits option.splits)

lemma scale_same:
  assumes "0 < k"
  shows "used_method (scale_policy k po) (scale_request k rq) = used_method po rq"
    "refuses (scale_policy k po) (scale_request k rq) = refuses po rq"
    "wanted_notional (scale_policy k po) (scale_request k rq) = wanted_notional po rq * k"
    "settled_notional (scale_policy k po) (scale_request k rq) = settled_notional po rq * k"
    "risk_base (scale_policy k po) (scale_request k rq) = risk_base po rq * k"
proof -
  show u: "used_method (scale_policy k po) (scale_request k rq) = used_method po rq"
    "refuses (scale_policy k po) (scale_request k rq) = refuses po rq"
    using assms by (simp_all add: used_method_def refuses_def stop_distance_scale)
  show w: "wanted_notional (scale_policy k po) (scale_request k rq) = wanted_notional po rq * k"
    using used_risk_distance [of po rq] assms
    by (auto simp: wanted_def u stop_distance_scale split: position_sizing_method.splits)
  have m: "rq_equity rq * k * po_max_position_pct po = rq_equity rq * po_max_position_pct po * k"
    by simp
  show "settled_notional (scale_policy k po) (scale_request k rq) = settled_notional po rq * k"
    unfolding settled_def w using assms by (simp add: m scale_order)
  show "risk_base (scale_policy k po) (scale_request k rq) = risk_base po rq * k"
    using used_risk_distance [of po rq] assms
    by (auto simp: risk_base_def u stop_distance_scale split: position_sizing_method.splits)
qed

text \<open>The rounding tier is the only place where the price enters by its size.\<close>

definition same_tier :: "rat \<Rightarrow> rat \<Rightarrow> bool" where
  "same_tier p p' \<longleftrightarrow> (p < SMALL_PRICE_THRESHOLD) = (p' < SMALL_PRICE_THRESHOLD)"

lemma rounded_tier: "same_tier p p' \<Longrightarrow> rounded r p q = rounded r p' q"
  by (simp add: rounded_def rounding_digits_def same_tier_def split: pre_broker_rounding.splits)

lemma settled_quantity_scale:
  assumes "0 < k" "same_tier (rq_price rq) (rq_price rq * k)"
  shows "settled_quantity (scale_policy k po) (scale_request k rq) = settled_quantity po rq"
  unfolding settled_quantity_def scale_same(4) [OF assms(1)] using assms(1) rounded_tier [OF assms(2)]
  by (simp add: scale_order)

lemma sizing_calculate_scale:
  assumes "0 < k" "same_tier (rq_price rq) (rq_price rq * k)" "request_ok rq" "policy_ok po"
    "sizing_calculate po rq = Inr d"
  shows "\<exists>d'. sizing_calculate (scale_policy k po) (scale_request k rq) = Inr d' \<and>
    sd_quantity d' = sd_quantity d \<and> sd_risk_amount d' = sd_risk_amount d * k \<and>
    sd_risk_pct d' = sd_risk_pct d \<and> sd_method_used d' = sd_method_used d"
proof (cases "refuses po rq")
  case True
  then show ?thesis
    using assms(1,5) by (auto simp: sizing_calculate_refuses scale_same stop_distance_scale rejected_decision_def)
next
  case False
  then show ?thesis
    using assms sizing_calculate_settles [OF assms(3,4) False]
      sizing_calculate_settles [of "scale_request k rq" "scale_policy k po"]
    by (auto simp: scale_same settled_quantity_scale)
qed

definition scaled_result :: "rat \<Rightarrow> sizing_result \<Rightarrow> sizing_result \<Rightarrow> bool" where
  "scaled_result k r r' \<longleftrightarrow> sr_quantity r' = sr_quantity r \<and> sr_notional_value r' = sr_notional_value r * k \<and>
     sr_risk_amount r' = sr_risk_amount r * k \<and> sr_risk_pct r' = sr_risk_pct r \<and>
     sr_method_used r' = sr_method_used r"

lemma settlement_simps [simp]:
  "as_equity (settlement_account k a) = as_equity a * k"
  "buying_power (settlement_account k a) = buying_power a * k"
  "sc_method (settlement_config k c) = sc_method c" "sc_fixed_amount (settlement_config k c) = sc_fixed_amount c * k"
  "sc_fixed_pct (settlement_config k c) = sc_fixed_pct c" "sc_risk_pct (settlement_config k c) = sc_risk_pct c"
  "sc_max_position_pct (settlement_config k c) = sc_max_position_pct c"
  "sc_min_position_size (settlement_config k c) = sc_min_position_size c * k"
  "sc_kelly_fraction (settlement_config k c) = sc_kelly_fraction c"
  by (simp_all add: settlement_account_def settlement_config_def buying_power_def)

lemma share_of_equity_scale: "0 < k \<Longrightarrow> share_of_equity (x * k) (settlement_account k a) = share_of_equity x a"
  by (simp add: share_of_equity_def scale_order)

lemma policy_init_scale:
  assumes "0 < k" "sizing_policy_init i m f r mx (Fin mn) b rd v = Inr po"
  shows "sizing_policy_init i m f r mx (Fin (mn * k)) b rd v = Inr (scale_policy k po)"
proof -
  obtain q1 q2 q3 where "f = Fin q1" "r = Fin q2" "mx = Fin q3"
    using assms(2) by (auto simp: sizing_policy_init_def res_bind_Inr_iff split: if_splits)
  with assms show ?thesis
    by (simp add: sizing_policy_init_def finite_fraction_def finite_non_negative_def scale_policy_def
        scale_order split: if_splits) (hypsubst, simp)
qed

lemma shared_request_scale:
  assumes "0 < k" "shared_request price a stop = Inr rq"
  shows "shared_request (price * k) (settlement_account k a) (map_option (\<lambda>s. s * k) stop) = Inr (scale_request k rq)"
  using assms
  by (cases stop) (auto simp: shared_request_def sizing_request_init_def finite_positive_def finite_non_negative_def
      scale_order scale_request_def split: if_splits)

lemma shared_size_scale:
  assumes "0 < k" "same_tier price (price * k)" "policy_ok po" "shared_request price a stop = Inr rq"
    "sizing_calculate po rq = Inr d"
  shows "\<exists>rq' d'. shared_request (price * k) (settlement_account k a) (map_option (\<lambda>s. s * k) stop) = Inr rq' \<and>
    sizing_calculate (scale_policy k po) rq' = Inr d' \<and>
    scaled_result k (from_shared_decision c d price) (from_shared_decision (settlement_config k c) d' (price * k))"
proof -
  have rq: "request_ok rq" "rq_price rq = price"
    using assms(4) by (auto simp: shared_request_def request_init_ok)
      (auto simp: sizing_request_init_def res_bind_Inr_iff split: option.splits)
  obtain d' where "sizing_calculate (scale_policy k po) (scale_request k rq) = Inr d'"
    "sd_quantity d' = sd_quantity d" "sd_risk_amount d' = sd_risk_amount d * k" "sd_risk_pct d' = sd_risk_pct d"
    "sd_method_used d' = sd_method_used d"
    using sizing_calculate_scale [OF assms(1) _ rq(1) assms(3,5)] assms(2) rq(2) by auto
  with shared_request_scale [OF assms(1,4)] show ?thesis
    by (auto simp: scaled_result_def from_shared_decision_def Let_def)
qed

lemma size_fixed_pct_scale:
  assumes "0 < k" "same_tier price (price * k)" "size_fixed_pct c price a = Inr r"
  shows "\<exists>r'. size_fixed_pct (settlement_config k c) (price * k) (settlement_account k a) = Inr r' \<and> scaled_result k r r'"
proof -
  from assms(3) obtain po rq d where po: "policy_fixed_percent ''execution-engine-fixed-pct-v1''
      (Fin (sc_fixed_pct c)) (Fin (sc_max_position_pct c)) (Fin (sc_min_position_size c)) ROUND_PRICE_TIERED = Inr po"
    and rq: "shared_request price a None = Inr rq" and d: "sizing_calculate po rq = Inr d"
    and r: "r = from_shared_decision c d price"
    by (auto simp: size_fixed_pct_def res_bind_Inr_iff)
  have "policy_ok po"
    using policy_builders_ok(1) [OF po] by simp
  from shared_size_scale [OF assms(1,2) this rq d, of c] show ?thesis
    using policy_init_scale [OF assms(1) po [unfolded policy_fixed_percent_def]]
    by (auto simp: size_fixed_pct_def policy_fixed_percent_def r)
qed

lemma size_risk_pct_scale:
  assumes "0 < k" "same_tier price (price * k)" "size_risk_pct c price a stop = Inr r"
  shows "\<exists>r'. size_risk_pct (settlement_config k c) (price * k) (settlement_account k a) (map_option (\<lambda>s. s * k) stop)
    = Inr r' \<and> scaled_result k r r'"
proof -
  from assms(3) obtain po rq d where po: "policy_initial_stop_risk ''execution-engine-risk-pct-v1''
      (Fin (sc_risk_pct c)) (Fin (sc_fixed_pct c)) (Fin (sc_max_position_pct c)) (Fin (sc_min_position_size c))
      ROUND_PRICE_TIERED STOP_FALLBACK_FIXED_PCT = Inr po"
    and rq: "shared_request price a stop = Inr rq" and d: "sizing_calculate po rq = Inr d"
    and r: "r = from_shared_decision c d price"
    by (auto simp: size_risk_pct_def res_bind_Inr_iff)
  have "policy_ok po"
    using policy_builders_ok(2) [OF po] by simp
  from shared_size_scale [OF assms(1,2) this rq d, of c] show ?thesis
    using policy_init_scale [OF assms(1) po [unfolded policy_initial_stop_risk_def]]
    by (auto simp: size_risk_pct_def policy_initial_stop_risk_def r)
qed

lemma py_div_scale: "0 < k \<Longrightarrow> py_div (x * k) (p * k) = py_div x p"
  by (simp add: py_div_def scale_order)

lemma size_fixed_amount_scale:
  assumes "0 < k" "size_fixed_amount c price a = Inr r"
  shows "\<exists>r'. size_fixed_amount (settlement_config k c) (price * k) (settlement_account k a) = Inr r' \<and>
    scaled_result k r r'"
  using assms
  by (auto simp: size_fixed_amount_def Let_def scale_order py_div_scale res_bind_Inr_iff share_of_equity_scale
      scaled_result_def)

lemma amount_scale: "0 < k \<Longrightarrow> min (e * k * f) (b * k) = min (e * f) b * k" for k :: rat
  using scale_order(1) [of k "e * f" b] by (simp add: mult.assoc mult.commute mult.left_commute)

lemma size_kelly_scale:
  assumes "0 < k" "same_tier price (price * k)" "size_kelly c price a h = Inr r"
  shows "\<exists>r'. size_kelly (settlement_config k c) (price * k) (settlement_account k a) h = Inr r' \<and>
    scaled_result k r r'"
proof (cases "th_win_rate h = None \<or> th_avg_win h = None \<or> th_avg_loss h = None")
  case True
  then have "size_kelly c' p a' h = size_fixed_pct c' p a'" for c' p a'
    by (auto simp: size_kelly_def split: option.splits)
  then show ?thesis
    using size_fixed_pct_scale [OF assms(1,2)] assms(3) by simp
next
  case False
  then obtain p w l where "th_win_rate h = Some p" "th_avg_win h = Some w" "th_avg_loss h = Some l"
    by auto
  then show ?thesis
    using assms
    by (simp add: size_kelly_def Let_def res_bind_Inr_iff py_div_scale amount_scale)
      (elim exE conjE, hypsubst, simp add: scaled_result_def)
qed

lemma size_volatility_scale:
  assumes "0 < k" "same_tier price (price * k)" "size_volatility c price a v = Inr r"
  shows "\<exists>r'. size_volatility (settlement_config k c) (price * k) (settlement_account k a) v = Inr r' \<and>
    scaled_result k r r'"
proof (cases "v = None \<or> the v \<le> 0")
  case True
  then have "size_volatility c' p a' v = size_fixed_pct c' p a'" for c' p a'
    by (cases v) (simp_all add: size_volatility_def)
  then show ?thesis
    using size_fixed_pct_scale [OF assms(1,2)] assms(3) by simp
next
  case False
  then obtain x where x: "v = Some x" "\<not> x \<le> 0"
    by auto
  have amount: "min (e * k * f * z) (b * k) = min (e * f * z) b * k" for e f z b
    using amount_scale [OF assms(1), of e "f * z" b] by (simp add: mult.assoc)
  show ?thesis
    using assms x
    by (simp add: size_volatility_def Let_def res_bind_Inr_iff py_div_scale amount)
      (elim exE conjE, hypsubst, simp add: scaled_result_def share_of_equity_scale)
qed

lemma size_by_method_scale:
  assumes "0 < k" "same_tier price (price * k)" "size_by_method c price a stop h v = Inr r"
  shows "\<exists>r'. size_by_method (settlement_config k c) (price * k) (settlement_account k a)
    (map_option (\<lambda>s. s * k) stop) h v = Inr r' \<and> scaled_result k r r'"
  using assms size_fixed_amount_scale [OF assms(1)] size_fixed_pct_scale [OF assms(1,2)]
    size_risk_pct_scale [OF assms(1,2)] size_kelly_scale [OF assms(1,2)] size_volatility_scale [OF assms(1,2)]
  by (cases "sc_method c") (simp_all add: size_by_method_def)

lemma cap_result_scale:
  assumes "0 < k" "scaled_result k r r'" "cap_result c r price a = Inr r1"
  shows "\<exists>r1'. cap_result (settlement_config k c) r' (price * k) (settlement_account k a) = Inr r1' \<and>
    sr_quantity r1' = sr_quantity r1 \<and> sr_notional_value r1' = sr_notional_value r1 * k \<and>
    sr_method_used r1' = sr_method_used r1"
proof -
  have m: "as_equity a * k * sc_max_position_pct c = as_equity a * sc_max_position_pct c * k"
    by simp
  show ?thesis
    using assms
    by (auto simp: cap_result_def Let_def scaled_result_def m scale_order py_div_scale res_bind_Inr_iff split: if_splits)
qed

lemma apply_limits_scale:
  assumes "0 < k" "same_tier price (price * k)" "scaled_result k r0 r0'" "apply_limits c r0 price a = Inr r"
  shows "\<exists>r'. apply_limits (settlement_config k c) r0' (price * k) (settlement_account k a) = Inr r' \<and>
    scaled_result k r r'"
proof -
  from assms(4) obtain r1 where r1: "cap_result c r0 price a = Inr r1"
    and pos: "0 \<le> sr_quantity (drop_dust c r1)" "0 < price"
    and r: "r = (drop_dust c r1)\<lparr>sr_quantity := rounded ROUND_PRICE_TIERED price (sr_quantity (drop_dust c r1)),
        sr_notional_value := rounded ROUND_PRICE_TIERED price (sr_quantity (drop_dust c r1)) * price,
        sr_risk_amount := rounded ROUND_PRICE_TIERED price (sr_quantity (drop_dust c r1)) * price,
        sr_risk_pct := share_of_equity (rounded ROUND_PRICE_TIERED price (sr_quantity (drop_dust c r1)) * price) a\<rparr>"
    by (auto simp: apply_limits_def res_bind_Inr_iff Let_def)
  obtain r1' where r1': "cap_result (settlement_config k c) r0' (price * k) (settlement_account k a) = Inr r1'"
    "sr_quantity r1' = sr_quantity r1" "sr_notional_value r1' = sr_notional_value r1 * k"
    "sr_method_used r1' = sr_method_used r1"
    using cap_result_scale [OF assms(1,3) r1] by auto
  have dust: "sr_quantity (drop_dust (settlement_config k c) r1') = sr_quantity (drop_dust c r1)"
    "sr_method_used (drop_dust (settlement_config k c) r1') = sr_method_used (drop_dust c r1)"
    using assms(1) r1' by (simp_all add: drop_dust_def scale_order)
  show ?thesis
    using assms(1) pos share_of_equity_scale [OF assms(1)]
    by (simp add: apply_limits_def r1'(1) Let_def res_bind_Inr_iff dust r scaled_result_def scale_order
        rounded_tier [OF assms(2)] mult.assoc [symmetric])
qed

lemma size_risk_pct_risk:
  assumes "size_risk_pct c price a (Some stop) = Inr r" "stop \<noteq> price"
  shows "sr_risk_amount r = sr_quantity r * \<bar>price - stop\<bar> \<and>
    sr_risk_amount r \<le> as_equity a * sc_risk_pct c + half_step price * \<bar>price - stop\<bar>"
proof -
  from assms(1) obtain po rq d where po: "policy_initial_stop_risk ''execution-engine-risk-pct-v1''
      (Fin (sc_risk_pct c)) (Fin (sc_fixed_pct c)) (Fin (sc_max_position_pct c)) (Fin (sc_min_position_size c))
      ROUND_PRICE_TIERED STOP_FALLBACK_FIXED_PCT = Inr po"
    and rq: "shared_request price a (Some stop) = Inr rq" and d: "sizing_calculate po rq = Inr d"
    and r: "r = from_shared_decision c d price"
    by (auto simp: size_risk_pct_def res_bind_Inr_iff)
  let ?d = "\<bar>price - stop\<bar>" and ?n = "settled_notional po rq"
  have d0: "0 < ?d"
    using assms(2) by simp
  have m: "po_method po = PSM_RISK_PCT" "po_risk_pct po = sc_risk_pct c"
    using po unfolding policy_initial_stop_risk_def sizing_policy_init_def
    by (simp_all add: res_bind_Inr_iff split: if_splits) (elim exE conjE, hypsubst, simp)+
  have f: "rq_price rq = price" "rq_equity rq = as_equity a" "rq_stop_loss rq = Some stop"
    using rq by (auto simp: shared_request_def sizing_request_init_def res_bind_Inr_iff)
  have ok: "request_ok rq" "policy_ok po"
    using rq po by (simp_all add: shared_request_def request_init_ok policy_builders_ok(2))
  have sd: "stop_distance po rq = (Some ?d, None)"
    using d0 by (simp add: stop_distance_def m f)
  then have u: "used_method po rq = PSM_RISK_PCT" and nr: "\<not> refuses po rq"
    by (simp_all add: used_method_def m refuses_def)
  have p: "0 < price"
    using ok f by (simp add: request_ok_def)
  have q: "sd_quantity d = settled_quantity po rq" "sd_risk_amount d = sd_quantity d * ?d"
    using d sizing_calculate_settles [OF ok nr] by (auto simp: risk_base_def u sd)
  have "?n \<le> as_equity a * sc_risk_pct c / ?d * price"
    by (simp add: settled_def wanted_def u sd m f)
  then have "?n / price \<le> as_equity a * sc_risk_pct c / ?d"
    using p by (simp add: pos_divide_le_eq)
  moreover have "settled_quantity po rq \<le> ?n / price + half_step price"
    using settled_quantity_within(2) [OF ok] p by (simp add: f field_simps)
  ultimately have "settled_quantity po rq \<le> as_equity a * sc_risk_pct c / ?d + half_step price"
    by linarith
  from mult_right_mono [OF this, of ?d] d0 show ?thesis
    by (simp add: r from_shared_decision_def Let_def q algebra_simps)
qed


section \<open>Properties\<close>

text \<open>
  The staged caps of the shared policy are a minimum. For every policy and request the constructors
  accept, calculate returns a decision; unless a missing stop is refused, the intended notional is the
  least of the requested notional, the buying power and the largest position, the intended quantity is
  that notional at the price, a decision is accepted exactly when it reaches the minimum, and a rejected
  one has quantity zero.
\<close>

theorem policy_settles_on_minimum:
  assumes po: "sizing_policy_init pid m f k mx mn missing rounding version = Inr po"
    and rq: "sizing_request_init price equity bp stop = Inr rq"
  shows "\<exists>d. sizing_calculate po rq = Inr d \<and>
    (sd_intent_notional d =
       min (sd_requested_notional d) (min (rq_buying_power rq) (rq_equity rq * po_max_position_pct po)) \<or>
     missing = STOP_REJECT \<and> m = PSM_RISK_PCT \<and> (rq_stop_loss rq = None \<or> rq_stop_loss rq = Some (rq_price rq))) \<and>
    sd_intent_quantity d * rq_price rq = sd_intent_notional d \<and>
    (accepted d \<longrightarrow> po_minimum po \<le> sd_intent_notional d) \<and> (\<not> accepted d \<longrightarrow> sd_quantity d = 0)"
proof (cases "refuses po rq")
  case True
  have "po_missing_stop po = missing" "po_method po = m"
    using po unfolding sizing_policy_init_def
    by (simp_all add: res_bind_Inr_iff split: if_splits) (elim exE conjE, hypsubst, simp)+
  then have "missing = STOP_REJECT \<and> m = PSM_RISK_PCT \<and>
      (rq_stop_loss rq = None \<or> rq_stop_loss rq = Some (rq_price rq))"
    using True by (auto simp: refuses_def stop_distance_def Let_def
        split: position_sizing_method.splits option.splits if_splits)
  then show ?thesis
    unfolding sizing_calculate_refuses [OF True]
    by (simp add: rejected_decision_def accepted_def)
next
  case False
  have "rq_price rq \<noteq> 0"
    using request_init_ok [OF rq] by (simp add: request_ok_def)
  then show ?thesis
    unfolding sizing_calculate_settles [OF request_init_ok [OF rq] policy_init_ok [OF po] False]
    by (auto simp: accepted_def settled_def settled_quantity_def not_less)
qed

text \<open>
  C8: Whatever the sizing method, a size the sizer returns is not negative, its notional is the quantity
  at the price, and it exceeds neither the buying power nor the largest position, converted to the
  settlement currency, by more than half a rounding step of the quantity.
\<close>

theorem sized_position_within_budget:
  assumes "sizer_calculate c price a stop h volatility (Rate_Float (Fin rate)) = Inr r"
  shows "0 \<le> sr_quantity r \<and> sr_notional_value r = sr_quantity r * price \<and>
    sr_notional_value r \<le> max 0 (min (buying_power a) (as_equity a * sc_max_position_pct c)) * rate
      + half_step price * price"
proof -
  have rate: "0 < rate" and
    "sizer_calculate_base (settlement_config rate c) price (settlement_account rate a) stop h volatility = Inr r"
    using assms by (auto simp: sizer_calculate_def res_bind_Inr_iff settlement_config_def settlement_account_def
        split: if_splits)
  from calculate_base_within [OF this(2)]
  have "sized_within (budget (settlement_config rate c) (settlement_account rate a)) price r" .
  moreover have "budget (settlement_config rate c) (settlement_account rate a) = budget c a * rate"
    by (rule budget_settlement [OF rate])
  ultimately show ?thesis
    by (simp add: sized_within_def budget_def)
qed

text \<open>
  With a stop away from the price, the risk-percentage method puts at risk the quantity times the
  distance to the stop, which is at most the configured share of the equity, in the settlement currency,
  plus the risk of half a rounding step.
\<close>

theorem risk_budget_respected:
  assumes "sc_method c = RISK_PCT" "stop \<noteq> price"
    and "sizer_calculate c price a (Some stop) h volatility (Rate_Float (Fin rate)) = Inr r"
  shows "sr_risk_amount r = sr_quantity r * \<bar>price - stop\<bar> \<and>
    sr_risk_amount r \<le> as_equity a * rate * sc_risk_pct c + half_step price * \<bar>price - stop\<bar>"
proof -
  have "sizer_calculate_base (settlement_config rate c) price (settlement_account rate a) (Some stop) h volatility
      = Inr r"
    using assms(3) by (auto simp: sizer_calculate_def res_bind_Inr_iff settlement_config_def settlement_account_def
        split: if_splits)
  then have "size_risk_pct (settlement_config rate c) price (settlement_account rate a) (Some stop) = Inr r"
    using assms(1) size_risk_pct_within
    by (fastforce simp: sizer_calculate_base_def size_by_method_def res_bind_Inr_iff split: if_splits)
  from size_risk_pct_risk [OF this assms(2)] show ?thesis
    by simp
qed

text \<open>
  The size does not depend on the currency the account is kept in. An account sized at a price and a
  stop in its own currency gets, at the same price and stop expressed in a settlement currency at the
  observed rate, the same quantity and the same share of equity at risk, and amounts multiplied by the
  rate, as long as the price stays on its side of the rounding threshold.
\<close>

theorem sizing_currency_independent:
  assumes "0 < rate" "(price < SMALL_PRICE_THRESHOLD) = (price * rate < SMALL_PRICE_THRESHOLD)"
    and "sizer_calculate c price a stop h volatility (Rate_Float (Fin 1)) = Inr r"
  shows "\<exists>r'. sizer_calculate c (price * rate) a (map_option (\<lambda>s. s * rate) stop) h volatility
      (Rate_Float (Fin rate)) = Inr r' \<and>
    sr_quantity r' = sr_quantity r \<and> sr_notional_value r' = sr_notional_value r * rate \<and>
    sr_risk_amount r' = sr_risk_amount r * rate \<and> sr_risk_pct r' = sr_risk_pct r \<and>
    sr_method_used r' = sr_method_used r"
proof -
  let ?c = "settlement_config rate c" and ?a = "settlement_account rate a"
  let ?stop = "map_option (\<lambda>s. s * rate) stop"
  have tier: "same_tier price (price * rate)"
    using assms(2) by (simp add: same_tier_def)
  from assms(3) obtain r0 where r0: "size_by_method c price a stop h volatility = Inr r0"
    and r: "if sr_method_used r0 \<in> {FIXED_PCT, RISK_PCT} then r = r0 else apply_limits c r0 price a = Inr r"
    by (auto simp: sizer_calculate_def sizer_calculate_base_def res_bind_Inr_iff split: if_splits)
  obtain r0' where r0': "size_by_method ?c (price * rate) ?a ?stop h volatility = Inr r0'" "scaled_result rate r0 r0'"
    using size_by_method_scale [OF assms(1) tier r0] by auto
  have "\<exists>r'. sizer_calculate_base ?c (price * rate) ?a ?stop h volatility = Inr r' \<and> scaled_result rate r r'"
    using r r0' apply_limits_scale [OF assms(1) tier r0'(2)]
    by (auto simp: sizer_calculate_base_def scaled_result_def split: if_splits)
  moreover have "sizer_calculate c (price * rate) a ?stop h volatility (Rate_Float (Fin rate)) =
      sizer_calculate_base ?c (price * rate) ?a ?stop h volatility"
    using assms(1) by (simp add: sizer_calculate_def settlement_rate_def settlement_config_def settlement_account_def)
  ultimately show ?thesis
    by (simp add: scaled_result_def)
qed

text \<open>
  The number of option contracts is the largest whose combined loss fits the risk: no contracts for a
  risk below one loss, never more than the risk, and one more contract would exceed it.
\<close>

theorem options_quantity_maximal:
  assumes "0 < loss" "0 \<le> max_risk"
  shows "of_int (calculate_options_quantity max_risk loss) * loss \<le> max_risk \<and>
    max_risk < of_int (calculate_options_quantity max_risk loss + 1) * loss \<and>
    0 \<le> calculate_options_quantity max_risk loss"
proof -
  have "calculate_options_quantity max_risk loss = \<lfloor>max_risk / loss\<rfloor>"
    using assms by (simp add: calculate_options_quantity_def py_trunc_def)
  then show ?thesis
    using assms floor_divide_lower [of loss max_risk] floor_divide_upper [of loss max_risk] by simp
qed

text \<open>
  Rounding to the nearest step can exceed the buying power. With all of the equity available and no
  other cap, a fixed-percentage size of the whole account at the price 66 is rounded up to a quantity
  that costs more than the cash of the account.
\<close>

definition ex_sizing_config :: "sizing_method \<Rightarrow> sizing_config" where
  "ex_sizing_config m =
     \<lparr>sc_method = m, sc_fixed_amount = 1000, sc_fixed_pct = 1, sc_risk_pct = 1 / 100, sc_max_position_pct = 1,
      sc_min_position_size = 1, sc_kelly_fraction = 1 / 4\<rparr>"

definition ex_sizing_account :: account_state where
  "ex_sizing_account = \<lparr>as_equity = 100, as_available_cash = 100, as_margin_used = 0, as_open_positions = 0,
     as_daily_trades = 0, as_positions = []\<rparr>"

theorem rounding_exceeds_buying_power:
  "\<exists>r. sizer_calculate (ex_sizing_config FIXED_PCT) 66 ex_sizing_account None no_history None (Rate_Float (Fin 1))
      = Inr r \<and> buying_power ex_sizing_account < sr_notional_value r"
proof -
  have "case sizer_calculate (ex_sizing_config FIXED_PCT) 66 ex_sizing_account None no_history None
      (Rate_Float (Fin 1)) of Inr r \<Rightarrow> buying_power ex_sizing_account < sr_notional_value r | Inl e \<Rightarrow> False"
    by code_simp
  then show ?thesis
    by (auto split: sum.splits)
qed

section \<open>Witnesses\<close>

definition ex_sizing_policy :: "sizing_policy res" where
  "ex_sizing_policy = sizing_policy_init ''p'' PSM_RISK_PCT (Fin (1/2)) (Fin (1/100)) (Fin (1/10)) (Fin 1) STOP_REJECT
     ROUND_PRICE_TIERED POLICY_VERSION"

definition ex_sizing_request :: "sizing_request res" where
  "ex_sizing_request = sizing_request_init (Fin 50) (Fin 1000) (Fin 800) (Some (Fin 45))"

theorem policy_settles_on_minimum_witness:
  "\<exists>po rq d. ex_sizing_policy = Inr po \<and> ex_sizing_request = Inr rq \<and> sizing_calculate po rq = Inr d \<and>
     sd_intent_quantity d * rq_price rq = sd_intent_notional d"
proof -
  have "is_ok ex_sizing_policy" "is_ok ex_sizing_request"
    by code_simp+
  then obtain po rq where po: "ex_sizing_policy = Inr po" and rq: "ex_sizing_request = Inr rq"
    by (auto simp: is_ok_def split: sum.splits)
  obtain d where "sizing_calculate po rq = Inr d" "sd_intent_quantity d * rq_price rq = sd_intent_notional d"
    using policy_settles_on_minimum [OF po [unfolded ex_sizing_policy_def] rq [unfolded ex_sizing_request_def]]
    by auto
  with po rq show ?thesis
    by auto
qed

theorem sized_position_within_budget_witness:
  "\<exists>r. sizer_calculate (ex_sizing_config VOLATILITY) 250 ex_sizing_account None no_history (Some (3/10))
      (Rate_Float (Fin 2)) = Inr r \<and> sr_notional_value r \<le> 100 * 2 + half_step 250 * 250"
proof -
  have "is_ok (sizer_calculate (ex_sizing_config VOLATILITY) 250 ex_sizing_account None no_history (Some (3/10))
      (Rate_Float (Fin 2)))"
    by code_simp
  then obtain r where r: "sizer_calculate (ex_sizing_config VOLATILITY) 250 ex_sizing_account None no_history
      (Some (3/10)) (Rate_Float (Fin 2)) = Inr r"
    by (auto simp: is_ok_def split: sum.splits)
  from sized_position_within_budget [OF this] r show ?thesis
    by (simp add: ex_sizing_account_def ex_sizing_config_def buying_power_def)
qed

theorem risk_budget_respected_witness:
  "\<exists>r. sizer_calculate (ex_sizing_config RISK_PCT) 50 ex_sizing_account (Some 45) no_history None
      (Rate_Float (Fin 1)) = Inr r \<and> sr_risk_amount r = sr_quantity r * 5"
proof -
  have "is_ok (sizer_calculate (ex_sizing_config RISK_PCT) 50 ex_sizing_account (Some 45) no_history None
      (Rate_Float (Fin 1)))"
    by code_simp
  then obtain r where r: "sizer_calculate (ex_sizing_config RISK_PCT) 50 ex_sizing_account (Some 45) no_history
      None (Rate_Float (Fin 1)) = Inr r"
    by (auto simp: is_ok_def split: sum.splits)
  have "sc_method (ex_sizing_config RISK_PCT) = RISK_PCT" "(45 :: rat) \<noteq> 50"
    by (simp_all add: ex_sizing_config_def)
  from risk_budget_respected [OF this r] r show ?thesis
    by simp
qed

theorem sizing_currency_independent_witness:
  "\<exists>r r'. sizer_calculate (ex_sizing_config KELLY) 250 ex_sizing_account None
      \<lparr>th_win_rate = Some (3/5), th_avg_win = Some 2, th_avg_loss = Some 1\<rparr> None (Rate_Float (Fin 1)) = Inr r \<and>
    sizer_calculate (ex_sizing_config KELLY) (250 * 2) ex_sizing_account None
      \<lparr>th_win_rate = Some (3/5), th_avg_win = Some 2, th_avg_loss = Some 1\<rparr> None (Rate_Float (Fin 2)) = Inr r' \<and>
    sr_quantity r' = sr_quantity r"
proof -
  have "is_ok (sizer_calculate (ex_sizing_config KELLY) 250 ex_sizing_account None
      \<lparr>th_win_rate = Some (3/5), th_avg_win = Some 2, th_avg_loss = Some 1\<rparr> None (Rate_Float (Fin 1)))"
    by code_simp
  then obtain r where r: "sizer_calculate (ex_sizing_config KELLY) 250 ex_sizing_account None
      \<lparr>th_win_rate = Some (3/5), th_avg_win = Some 2, th_avg_loss = Some 1\<rparr> None (Rate_Float (Fin 1)) = Inr r"
    by (auto simp: is_ok_def split: sum.splits)
  have "0 < (2 :: rat)" "((250 :: rat) < SMALL_PRICE_THRESHOLD) = (250 * 2 < SMALL_PRICE_THRESHOLD)"
    by (simp_all add: SMALL_PRICE_THRESHOLD_def)
  from sizing_currency_independent [OF this r] r show ?thesis
    by auto
qed

theorem options_quantity_maximal_witness:
  "of_int (calculate_options_quantity 100 (30 :: rat)) * 30 \<le> (100 :: rat)"
  using options_quantity_maximal [of 30 100] by simp

end
