(* ===== verification/Account_Serializer.thy ===== *)
theory Account_Serializer
  imports Py_Prelude
begin

text \<open>
  The account-wide execution authority: \<open>account_execution_serializer.py\<close>. A context manager gives one
  writer at a time a lease on an account. It takes a lock of the process, a session advisory lock of
  PostgreSQL on a dedicated connection, and the next generation of the account's row, and gives them back
  in the reverse order when the block ends.

  \<^item> A context is a pair of a process (one execution engine replica) and a task in it. The \<open>ContextVar\<close>
    of the serializer is a map from contexts to leases; a task created inside a block starts with a copy.
    A block entered with a lease in the context yields that lease: each context has a stack of such
    nested blocks.
  \<^item> The local variables of one \<open>hold\<close> are a \<open>frame\<close>; each statement that reads or writes shared state
    is one operation, so that the statements of different contexts interleave.
  \<^item> A session advisory lock has at most one owning connection, a second session's attempt returns false,
    and closing the connection drops the lock. The connection of a frame is named by its context.
    \<open>hashtextextended\<close> is a parameter, and so is whether a process runs on PostgreSQL.
\<close>

section \<open>Leases and rows\<close>

type_synonym partition = "string \<times> int"
type_synonym task_context = "nat \<times> nat"

definition WRITER_KINDS :: "string list" where
  "WRITER_KINDS =
     [''ordinary'', ''manual'', ''rebalance'', ''historical_replay'', ''paper_lifecycle'', ''reconciliation'']"

definition SHA256_HEX_LENGTH :: nat where
  "SHA256_HEX_LENGTH = 64"

definition busy_error :: py_error where
  "busy_error = CustomError ''AccountExecutionBusyError'' ''Account execution partition is busy''"

definition fence_lost :: "string \<Rightarrow> py_error" where
  "fence_lost msg = CustomError ''AccountExecutionFenceLostError'' msg"

record account_lease =
  al_user_id :: string
  al_account_id :: int
  al_owner :: string
  al_writer_kind :: string
  al_generation :: int
  al_plan_id :: "string option"
  al_acquired_at :: time

record generation_row =
  gr_generation :: int
  gr_active_owner :: "string option"
  gr_active_kind :: "string option"
  gr_active_plan :: "string option"
  gr_acquired_at :: "time option"
  gr_released_at :: "time option"
  gr_updated_at :: time

datatype stage = Entered | Locked | Active | Leaving | Released | Unlocked

record frame =
  fr_partition :: partition
  fr_writer_kind :: string
  fr_plan_id :: "string option"
  fr_connection :: bool
  fr_advisory :: bool
  fr_lease :: "account_lease option"
  fr_stage :: stage
  fr_error :: "py_error option"

record cluster =
  cl_rows :: "partition \<Rightarrow> generation_row option"
  cl_advisory :: "int \<Rightarrow> task_context option"
  cl_local :: "(nat \<times> partition) set"
  cl_memory :: "nat \<Rightarrow> partition \<Rightarrow> int option"
  cl_current :: "task_context \<Rightarrow> account_lease option"
  cl_frames :: "task_context \<Rightarrow> frame option"
  cl_nested :: "task_context \<Rightarrow> account_lease list"

record deployment =
  dp_hash :: "string \<Rightarrow> int"
  dp_postgres :: "nat \<Rightarrow> bool"

section \<open>Entering\<close>

record hold_request =
  hr_user_id :: string
  hr_account_id :: pyval
  hr_writer_kind :: string
  hr_plan_id :: "string option"

definition account_argument :: "pyval \<Rightarrow> int res" where
  "account_argument v =
     (case v of
        PBool b \<Rightarrow> Inl (ValueError ''Account execution serialization requires a positive account ID'')
      | _ \<Rightarrow> (case py_int v of
               None \<Rightarrow> Inl (ValueError ''invalid literal for int()'')
             | Some i \<Rightarrow>
                 if i \<le> 0 then Inl (ValueError ''Account execution serialization requires a positive account ID'')
                 else Inr i))"

definition plan_argument :: "string option \<Rightarrow> string option" where
  "plan_argument plan = (case plan of None \<Rightarrow> None | Some p \<Rightarrow> if py_strip p = [] then None else Some (py_strip p))"

definition hold_arguments :: "hold_request \<Rightarrow> (partition \<times> string option) res" where
  "hold_arguments rq =
     (let user = py_strip (hr_user_id rq); plan = plan_argument (hr_plan_id rq)
      in if user = [] then Inl (ValueError ''Account execution serialization requires user_id'')
         else res_bind (account_argument (hr_account_id rq)) (\<lambda>account.
           if hr_writer_kind rq \<notin> set WRITER_KINDS
           then Inl (ValueError (''Unsupported account writer kind: '' @ hr_writer_kind rq))
           else if plan \<noteq> None \<and> length (the plan) \<noteq> SHA256_HEX_LENGTH
           then Inl (ValueError ''Account execution account_plan_id must be a SHA-256 digest'')
           else Inr ((user, account), plan)))"

text \<open>The lease the context already has, or the state with a new frame behind the lock of the process.\<close>

definition enter :: "cluster \<Rightarrow> task_context \<Rightarrow> hold_request \<Rightarrow> (account_lease + cluster) res" where
  "enter s t rq =
     res_bind (hold_arguments rq) (\<lambda>(p, plan).
       case cl_current s t of
         Some l \<Rightarrow>
           if al_user_id l \<noteq> fst p \<or> al_account_id l \<noteq> snd p
           then Inl (fence_lost ''Nested execution attempted to change the fenced account partition'')
           else Inr (Inl l)
       | None \<Rightarrow>
           if (fst t, p) \<in> cl_local s then Inl busy_error
           else Inr (Inr (s\<lparr>cl_local := insert (fst t, p) (cl_local s),
             cl_frames := (cl_frames s)(t \<mapsto>
               \<lparr>fr_partition = p, fr_writer_kind = hr_writer_kind rq, fr_plan_id = plan, fr_connection = False,
                fr_advisory = False, fr_lease = None, fr_stage = Entered, fr_error = None\<rparr>)\<rparr>)))"

definition partition_key :: "partition \<Rightarrow> string" where
  "partition_key p = ''execution-account:'' @ fst p @ '':'' @ int_str (snd p)"

definition lock_key :: "deployment \<Rightarrow> partition \<Rightarrow> int" where
  "lock_key dp p = dp_hash dp (partition_key p)"

definition set_frame :: "cluster \<Rightarrow> task_context \<Rightarrow> frame \<Rightarrow> cluster" where
  "set_frame s t f = s\<lparr>cl_frames := (cl_frames s)(t \<mapsto> f)\<rparr>"

definition fail_frame :: "frame \<Rightarrow> py_error \<Rightarrow> frame" where
  "fail_frame f e = f\<lparr>fr_stage := Leaving, fr_error := Some e\<rparr>"

definition try_lock :: "deployment \<Rightarrow> cluster \<Rightarrow> task_context \<Rightarrow> frame \<Rightarrow> cluster" where
  "try_lock dp s t f =
     (if \<not> dp_postgres dp (fst t) then set_frame s t (f\<lparr>fr_stage := Locked\<rparr>)
      else (let k = lock_key dp (fr_partition f)
            in if cl_advisory s k = None \<or> cl_advisory s k = Some t
               then set_frame (s\<lparr>cl_advisory := (cl_advisory s)(k \<mapsto> t)\<rparr>) t
                      (f\<lparr>fr_connection := True, fr_advisory := True, fr_stage := Locked\<rparr>)
               else set_frame s t (fail_frame (f\<lparr>fr_connection := True\<rparr>) busy_error)))"

definition claimed_row ::
    "generation_row option \<Rightarrow> string \<Rightarrow> string \<Rightarrow> string option \<Rightarrow> time \<Rightarrow> generation_row" where
  "claimed_row row owner kind plan now =
     \<lparr>gr_generation = (case row of None \<Rightarrow> 1 | Some r \<Rightarrow> gr_generation r + 1), gr_active_owner = Some owner,
      gr_active_kind = Some kind, gr_active_plan = plan, gr_acquired_at = Some now, gr_released_at = None,
      gr_updated_at = now\<rparr>"

definition claim_generation ::
    "cluster \<Rightarrow> nat \<Rightarrow> partition \<Rightarrow> string \<Rightarrow> string \<Rightarrow> string option \<Rightarrow> time \<Rightarrow> bool \<Rightarrow> cluster \<times> int" where
  "claim_generation s proc p owner kind plan now persist =
     (if \<not> persist
      then (let g = (case cl_memory s proc p of None \<Rightarrow> 0 | Some g \<Rightarrow> g) + 1
            in (s\<lparr>cl_memory := (cl_memory s)(proc := (cl_memory s proc)(p \<mapsto> g))\<rparr>, g))
      else (let r = claimed_row (cl_rows s p) owner kind plan now
            in (s\<lparr>cl_rows := (cl_rows s)(p \<mapsto> r)\<rparr>, gr_generation r)))"

text \<open>\<open>owner\<close> is the writer kind with a fresh \<open>uuid4\<close>.\<close>

definition claim :: "deployment \<Rightarrow> cluster \<Rightarrow> task_context \<Rightarrow> frame \<Rightarrow> string \<Rightarrow> time \<Rightarrow> cluster" where
  "claim dp s t f uuid now =
     (let p = fr_partition f; owner = fr_writer_kind f @ '':'' @ uuid
      in case claim_generation s (fst t) p owner (fr_writer_kind f) (fr_plan_id f) now (dp_postgres dp (fst t)) of
           (s1, g) \<Rightarrow>
             let l = \<lparr>al_user_id = fst p, al_account_id = snd p, al_owner = owner,
                      al_writer_kind = fr_writer_kind f, al_generation = g, al_plan_id = fr_plan_id f,
                      al_acquired_at = now\<rparr>
             in set_frame (s1\<lparr>cl_current := (cl_current s1)(t \<mapsto> l)\<rparr>) t
                  (f\<lparr>fr_lease := Some l, fr_stage := Active\<rparr>))"

section \<open>Leaving\<close>

definition reset_token :: "cluster \<Rightarrow> task_context \<Rightarrow> frame \<Rightarrow> cluster" where
  "reset_token s t f = set_frame (s\<lparr>cl_current := (cl_current s)(t := None)\<rparr>) t (f\<lparr>fr_stage := Leaving\<rparr>)"

definition release_generation :: "cluster \<Rightarrow> account_lease \<Rightarrow> bool \<Rightarrow> time \<Rightarrow> cluster \<times> unit res" where
  "release_generation s l persist now =
     (if \<not> persist then (s, Inr ())
      else (case cl_rows s (al_user_id l, al_account_id l) of
              None \<Rightarrow> (s, Inl (fence_lost ''Account execution generation changed before release''))
            | Some row \<Rightarrow>
                if gr_generation row \<noteq> al_generation l \<or>
                   (case gr_active_owner row of None \<Rightarrow> [] | Some o' \<Rightarrow> o') \<noteq> al_owner l
                then (s, Inl (fence_lost ''Account execution generation changed before release''))
                else (s\<lparr>cl_rows := (cl_rows s)((al_user_id l, al_account_id l) \<mapsto>
                         row\<lparr>gr_active_owner := None, gr_active_kind := None, gr_active_plan := None,
                             gr_acquired_at := None, gr_released_at := Some now, gr_updated_at := now\<rparr>)\<rparr>, Inr ())))"

definition note_error :: "frame \<Rightarrow> unit res \<Rightarrow> frame" where
  "note_error f r = (case r of Inl e \<Rightarrow> f\<lparr>fr_error := Some e\<rparr> | Inr _ \<Rightarrow> f)"

definition release_lease :: "cluster \<Rightarrow> task_context \<Rightarrow> frame \<Rightarrow> time \<Rightarrow> cluster" where
  "release_lease s t f now =
     (case fr_lease f of
        None \<Rightarrow> set_frame s t (f\<lparr>fr_stage := Released\<rparr>)
      | Some l \<Rightarrow> (case release_generation s l (fr_connection f) now of (s1, r) \<Rightarrow>
                   set_frame s1 t ((note_error f r)\<lparr>fr_stage := Released\<rparr>)))"

definition drop_connection :: "cluster \<Rightarrow> task_context \<Rightarrow> cluster" where
  "drop_connection s t = s\<lparr>cl_advisory := (\<lambda>k. if cl_advisory s k = Some t then None else cl_advisory s k)\<rparr>"

text \<open>\<open>pg_advisory_unlock\<close> answers whether the session owned the lock; the connection is closed in any case.\<close>

definition unlock_advisory :: "deployment \<Rightarrow> cluster \<Rightarrow> task_context \<Rightarrow> frame \<Rightarrow> cluster" where
  "unlock_advisory dp s t f =
     (let r = (if fr_connection f \<and> fr_advisory f \<and> cl_advisory s (lock_key dp (fr_partition f)) \<noteq> Some t
               then Inl (fence_lost ''PostgreSQL account advisory lock was not owned at release'')
               else Inr ())
      in set_frame (if fr_connection f then drop_connection s t else s) t
           ((note_error f r)\<lparr>fr_connection := False, fr_advisory := False, fr_stage := Unlocked\<rparr>))"

definition release_local :: "cluster \<Rightarrow> task_context \<Rightarrow> frame \<Rightarrow> cluster" where
  "release_local s t f =
     s\<lparr>cl_local := cl_local s - {(fst t, fr_partition f)}, cl_frames := (cl_frames s)(t := None)\<rparr>"

section \<open>The context manager without interruption\<close>

definition frame_of :: "cluster \<Rightarrow> task_context \<Rightarrow> frame" where
  "frame_of s t = the (cl_frames s t)"

text \<open>The \<open>finally\<close> blocks: each runs whatever the ones before it raised, and the last exception wins.\<close>

definition leave :: "deployment \<Rightarrow> cluster \<Rightarrow> task_context \<Rightarrow> time \<Rightarrow> cluster \<times> unit res" where
  "leave dp s t now =
     (let s1 = release_lease s t (frame_of s t) now;
          s2 = unlock_advisory dp s1 t (frame_of s1 t)
      in (release_local s2 t (frame_of s2 t),
          case fr_error (frame_of s2 t) of None \<Rightarrow> Inr () | Some e \<Rightarrow> Inl e))"

definition hold_enter ::
    "deployment \<Rightarrow> cluster \<Rightarrow> task_context \<Rightarrow> hold_request \<Rightarrow> string \<Rightarrow> time \<Rightarrow> cluster \<times> account_lease res" where
  "hold_enter dp s t rq uuid now =
     (case enter s t rq of
        Inl e \<Rightarrow> (s, Inl e)
      | Inr (Inl l) \<Rightarrow> (s, Inr l)
      | Inr (Inr s1) \<Rightarrow>
          (let s2 = try_lock dp s1 t (frame_of s1 t)
           in if fr_stage (frame_of s2 t) = Leaving
              then (case leave dp s2 t now of (s3, r) \<Rightarrow> (s3, case r of Inl e \<Rightarrow> Inl e | Inr _ \<Rightarrow> Inl busy_error))
              else (let s3 = claim dp s2 t (frame_of s2 t) uuid now in (s3, Inr (the (cl_current s3 t))))))"

text \<open>A nested block has no frame and leaves nothing behind.\<close>

definition hold_exit :: "deployment \<Rightarrow> cluster \<Rightarrow> task_context \<Rightarrow> time \<Rightarrow> cluster \<times> unit res" where
  "hold_exit dp s t now = leave dp (reset_token s t (frame_of s t)) t now"

definition assert_current :: "cluster \<Rightarrow> task_context \<Rightarrow> account_lease \<Rightarrow> unit res" where
  "assert_current s t l =
     (if cl_current s t \<noteq> Some l
      then Inl (fence_lost ''Account execution generation is not current in this execution context'') else Inr ())"

definition current_lease :: "cluster \<Rightarrow> task_context \<Rightarrow> account_lease res" where
  "current_lease s t =
     (case cl_current s t of
        None \<Rightarrow> Inl (fence_lost ''Account execution requires a current serialized generation'')
      | Some l \<Rightarrow> Inr l)"

section \<open>Interleaved execution\<close>

definition initial_cluster :: cluster where
  "initial_cluster =
     \<lparr>cl_rows = (\<lambda>_. None), cl_advisory = (\<lambda>_. None), cl_local = {}, cl_memory = (\<lambda>_ _. None),
      cl_current = (\<lambda>_. None), cl_frames = (\<lambda>_. None), cl_nested = (\<lambda>_. [])\<rparr>"

text \<open>A process dies: its connections close, its locks, tasks and in-memory generations are gone.\<close>

definition crash :: "cluster \<Rightarrow> nat \<Rightarrow> cluster" where
  "crash s p =
     s\<lparr>cl_advisory := (\<lambda>k. case cl_advisory s k of None \<Rightarrow> None | Some t \<Rightarrow> if fst t = p then None else Some t),
       cl_local := {x \<in> cl_local s. fst x \<noteq> p}, cl_memory := (cl_memory s)(p := (\<lambda>_. None)),
       cl_current := (\<lambda>t. if fst t = p then None else cl_current s t),
       cl_frames := (\<lambda>t. if fst t = p then None else cl_frames s t),
       cl_nested := (\<lambda>t. if fst t = p then [] else cl_nested s t)\<rparr>"

definition spawn :: "cluster \<Rightarrow> task_context \<Rightarrow> task_context \<Rightarrow> cluster" where
  "spawn s t child = s\<lparr>cl_current := (cl_current s)(child := cl_current s t)\<rparr>"

definition finish_task :: "cluster \<Rightarrow> task_context \<Rightarrow> cluster" where
  "finish_task s t = s\<lparr>cl_current := (cl_current s)(t := None)\<rparr>"

text \<open>A nested block: \<open>yield inherited\<close>, and the return after it.\<close>

definition nest :: "cluster \<Rightarrow> task_context \<Rightarrow> account_lease \<Rightarrow> cluster" where
  "nest s t l = s\<lparr>cl_nested := (cl_nested s)(t := l # cl_nested s t)\<rparr>"

definition unnest :: "cluster \<Rightarrow> task_context \<Rightarrow> cluster" where
  "unnest s t = s\<lparr>cl_nested := (cl_nested s)(t := tl (cl_nested s t))\<rparr>"

inductive hold_step :: "deployment \<Rightarrow> cluster \<Rightarrow> cluster \<Rightarrow> bool" for dp where
  Enter: "cl_frames s t = None \<Longrightarrow> enter s t rq = Inr (Inr s') \<Longrightarrow> hold_step dp s s'"
| Lock: "cl_frames s t = Some f \<Longrightarrow> fr_stage f = Entered \<Longrightarrow> hold_step dp s (try_lock dp s t f)"
| Claim: "cl_frames s t = Some f \<Longrightarrow> fr_stage f = Locked \<Longrightarrow> hold_step dp s (claim dp s t f uuid now)"
| Raise: "cl_frames s t = Some f \<Longrightarrow> fr_stage f \<in> {Entered, Locked} \<Longrightarrow>
    hold_step dp s (set_frame s t (fail_frame f e))"
| Nest: "enter s t rq = Inr (Inl l) \<Longrightarrow> hold_step dp s (nest s t l)"
| Unnest: "cl_nested s t \<noteq> [] \<Longrightarrow> hold_step dp s (unnest s t)"
| Exit: "cl_frames s t = Some f \<Longrightarrow> fr_stage f = Active \<Longrightarrow> cl_nested s t = [] \<Longrightarrow>
    hold_step dp s (reset_token s t f)"
| Release: "cl_frames s t = Some f \<Longrightarrow> fr_stage f = Leaving \<Longrightarrow> hold_step dp s (release_lease s t f now)"
| Unlock: "cl_frames s t = Some f \<Longrightarrow> fr_stage f = Released \<Longrightarrow> hold_step dp s (unlock_advisory dp s t f)"
| Local: "cl_frames s t = Some f \<Longrightarrow> fr_stage f = Unlocked \<Longrightarrow> hold_step dp s (release_local s t f)"
| Crash: "hold_step dp s (crash s p)"
| Spawn: "fst child = fst t \<Longrightarrow> cl_frames s child = None \<Longrightarrow> cl_nested s child = [] \<Longrightarrow>
    hold_step dp s (spawn s t child)"
| Finish: "cl_frames s t = None \<Longrightarrow> cl_nested s t = [] \<Longrightarrow> hold_step dp s (finish_task s t)"

text \<open>
  Runs in which no task outlives the block whose lease it carries: whenever a context has a lease, the
  block that claimed it is still running in the same process.
\<close>

definition joined :: "cluster \<Rightarrow> bool" where
  "joined s \<longleftrightarrow> (\<forall>t l. cl_current s t = Some l \<longrightarrow>
     (\<exists>o' f. cl_frames s o' = Some f \<and> fr_stage f = Active \<and> fr_lease f = Some l \<and> fst o' = fst t))"

inductive joined_step :: "deployment \<Rightarrow> cluster \<Rightarrow> cluster \<Rightarrow> bool" for dp where
  Joined: "hold_step dp s s' \<Longrightarrow> joined s' \<Longrightarrow> joined_step dp s s'"

text \<open>The database may also close the connection of a running block.\<close>

inductive lossy_step :: "deployment \<Rightarrow> cluster \<Rightarrow> cluster \<Rightarrow> bool" for dp where
  Step: "hold_step dp s s' \<Longrightarrow> lossy_step dp s s'"
| Lost: "lossy_step dp s (drop_connection s t)"

end
