(* ===== verification/Fencing.thy ===== *)
theory Fencing
  imports Main
begin

text \<open>
  What a fencing counter promises to the holders of its values: it never goes back, and every claim takes
  the next value. The generation row of an account and the fence of a rebalance plan are such counters.
\<close>

locale fencing_counter =
  fixes step :: "'s \<Rightarrow> 's \<Rightarrow> bool" and gen :: "'s \<Rightarrow> int" and takes :: "'s \<Rightarrow> 's \<Rightarrow> int \<Rightarrow> bool"
  assumes step_mono: "step s s' \<Longrightarrow> gen s \<le> gen s'"
    and takes_next: "takes s s' g \<Longrightarrow> g = gen s + 1 \<and> gen s' = g"
begin

lemma steps_mono: "step\<^sup>*\<^sup>* s s' \<Longrightarrow> gen s \<le> gen s'"
  by (induction rule: rtranclp_induct) (auto dest: step_mono)

lemma later_claim_greater:
  assumes "takes s0 s1 g" "step\<^sup>*\<^sup>* s1 s2" "takes s2 s3 g'"
  shows "g < g'"
  using takes_next [OF assms(1)] takes_next [OF assms(3)] steps_mono [OF assms(2)] by simp

lemma stale_forever: "g < gen s \<Longrightarrow> step\<^sup>*\<^sup>* s s' \<Longrightarrow> g < gen s'"
  using steps_mono by fastforce

end

end
