(* ===== verification/Serializer_Safety.thy ===== *)
theory Serializer_Safety
  imports Account_Serializer Fencing
begin

text \<open>
  Properties of the account serialiser: one lease per account when connections do not fail and no task
  outlives the block it was created in, nested blocks included, generations that strictly increase whatever fails, and the detection of an overlap by the release.
\<close>

declare split_paired_All [simp del] split_paired_Ex [simp del]

section \<open>What each operation changes\<close>

lemma set_frame_simps [simp]:
  "cl_frames (set_frame s t f) = (cl_frames s)(t \<mapsto> f)" "cl_rows (set_frame s t f) = cl_rows s"
  "cl_advisory (set_frame s t f) = cl_advisory s" "cl_local (set_frame s t f) = cl_local s"
  "cl_current (set_frame s t f) = cl_current s" "cl_memory (set_frame s t f) = cl_memory s"
  by (simp_all add: set_frame_def)

lemma drop_connection_simps [simp]:
  "cl_frames (drop_connection s t) = cl_frames s" "cl_rows (drop_connection s t) = cl_rows s"
  "cl_local (drop_connection s t) = cl_local s"
  "cl_advisory (drop_connection s t) k = (if cl_advisory s k = Some t then None else cl_advisory s k)"
  by (simp_all add: drop_connection_def)

lemma reset_token_simps [simp]:
  "cl_frames (reset_token s t f) = (cl_frames s)(t \<mapsto> f\<lparr>fr_stage := Leaving\<rparr>)"
  "cl_rows (reset_token s t f) = cl_rows s" "cl_advisory (reset_token s t f) = cl_advisory s"
  "cl_local (reset_token s t f) = cl_local s"
  by (simp_all add: reset_token_def)

lemma note_error_simps [simp]:
  "fr_partition (note_error f r) = fr_partition f" "fr_lease (note_error f r) = fr_lease f"
  "fr_advisory (note_error f r) = fr_advisory f" "fr_connection (note_error f r) = fr_connection f"
  by (simp_all add: note_error_def split: sum.splits)

lemma release_local_simps [simp]:
  "cl_frames (release_local s t f) = (cl_frames s)(t := None)" "cl_rows (release_local s t f) = cl_rows s"
  "cl_advisory (release_local s t f) = cl_advisory s"
  "cl_local (release_local s t f) = cl_local s - {(fst t, fr_partition f)}"
  by (simp_all add: release_local_def)

lemma crash_simps [simp]:
  "cl_frames (crash s p) t = (if fst t = p then None else cl_frames s t)" "cl_rows (crash s p) = cl_rows s"
  "cl_advisory (crash s p) k = (case cl_advisory s k of None \<Rightarrow> None | Some t \<Rightarrow> if fst t = p then None else Some t)"
  "x \<in> cl_local (crash s p) \<longleftrightarrow> x \<in> cl_local s \<and> fst x \<noteq> p"
  by (simp_all add: crash_def)

lemma spawn_simps [simp]:
  "cl_frames (spawn s t c) = cl_frames s" "cl_rows (spawn s t c) = cl_rows s"
  "cl_advisory (spawn s t c) = cl_advisory s" "cl_local (spawn s t c) = cl_local s"
  "cl_frames (finish_task s t) = cl_frames s" "cl_rows (finish_task s t) = cl_rows s"
  "cl_advisory (finish_task s t) = cl_advisory s" "cl_local (finish_task s t) = cl_local s"
  by (simp_all add: spawn_def finish_task_def)

lemma nest_simps [simp]:
  "cl_frames (nest s t l) = cl_frames s" "cl_rows (nest s t l) = cl_rows s"
  "cl_advisory (nest s t l) = cl_advisory s" "cl_local (nest s t l) = cl_local s"
  "cl_current (nest s t l) = cl_current s" "cl_nested (nest s t l) = (cl_nested s)(t := l # cl_nested s t)"
  "cl_frames (unnest s t) = cl_frames s" "cl_rows (unnest s t) = cl_rows s"
  "cl_advisory (unnest s t) = cl_advisory s" "cl_local (unnest s t) = cl_local s"
  "cl_current (unnest s t) = cl_current s" "cl_nested (unnest s t) = (cl_nested s)(t := tl (cl_nested s t))"
  by (simp_all add: nest_def unnest_def)

text \<open>Which operations touch the leases of contexts and the nested blocks.\<close>

lemma nested_simps [simp]:
  "cl_nested (set_frame s t f) = cl_nested s" "cl_nested (drop_connection s t) = cl_nested s"
  "cl_nested (reset_token s t f) = cl_nested s" "cl_nested (release_local s t f) = cl_nested s"
  "cl_nested (spawn s t c) = cl_nested s" "cl_nested (finish_task s t) = cl_nested s"
  "cl_nested (crash s q) t = (if fst t = q then [] else cl_nested s t)"
  "cl_nested (try_lock dp s t f) = cl_nested s" "cl_nested (claim dp s t f uuid now) = cl_nested s"
  "cl_nested (release_lease s t f now) = cl_nested s" "cl_nested (unlock_advisory dp s t f) = cl_nested s"
  by (auto simp: set_frame_def drop_connection_def reset_token_def release_local_def spawn_def finish_task_def
      crash_def try_lock_def claim_def claim_generation_def release_lease_def release_generation_def
      unlock_advisory_def Let_def split: option.splits)

lemma current_simps [simp]:
  "cl_current (drop_connection s t) = cl_current s"
  "cl_current (reset_token s t f) = (cl_current s)(t := None)" "cl_current (release_local s t f) = cl_current s"
  "cl_current (spawn s t c) = (cl_current s)(c := cl_current s t)"
  "cl_current (finish_task s t) = (cl_current s)(t := None)"
  "cl_current (crash s q) t = (if fst t = q then None else cl_current s t)"
  "cl_current (release_lease s t f now) = cl_current s" "cl_current (unlock_advisory dp s t f) = cl_current s"
  by (auto simp: set_frame_def drop_connection_def reset_token_def release_local_def spawn_def finish_task_def
      crash_def release_lease_def release_generation_def unlock_advisory_def Let_def split: option.splits)

lemma enter_new:
  assumes "enter s t rq = Inr (Inr s')"
  shows "\<exists>f. cl_frames s' = (cl_frames s)(t \<mapsto> f) \<and> fr_stage f = Entered \<and> \<not> fr_advisory f \<and> \<not> fr_connection f \<and>
    fr_lease f = None \<and> fr_error f = None \<and> (fst t, fr_partition f) \<notin> cl_local s \<and>
    cl_local s' = insert (fst t, fr_partition f) (cl_local s) \<and> cl_rows s' = cl_rows s \<and>
    cl_advisory s' = cl_advisory s \<and> cl_current s' = cl_current s \<and> cl_current s t = None \<and>
    cl_nested s' = cl_nested s"
proof -
  from assms have c: "cl_current s t = None"
    by (cases "cl_current s t") (auto simp: enter_def res_bind_Inr_iff split: if_splits)
  from assms obtain p plan where "(fst t, p) \<notin> cl_local s"
    "s' = s\<lparr>cl_local := insert (fst t, p) (cl_local s), cl_frames := (cl_frames s)(t \<mapsto>
       \<lparr>fr_partition = p, fr_writer_kind = hr_writer_kind rq, fr_plan_id = plan, fr_connection = False,
        fr_advisory = False, fr_lease = None, fr_stage = Entered, fr_error = None\<rparr>)\<rparr>"
    by (auto simp: enter_def res_bind_Inr_iff c split: if_splits)
  with c show ?thesis
    by (intro exI [of _ "\<lparr>fr_partition = p, fr_writer_kind = hr_writer_kind rq, fr_plan_id = plan,
        fr_connection = False, fr_advisory = False, fr_lease = None, fr_stage = Entered, fr_error = None\<rparr>"]) simp
qed

lemma enter_nested: "enter s t rq = Inr (Inl l) \<Longrightarrow> cl_current s t = Some l"
  by (auto simp: enter_def res_bind_Inr_iff split: option.splits if_splits)

text \<open>The frame a lock attempt leaves.\<close>

definition locked_frame :: "deployment \<Rightarrow> cluster \<Rightarrow> task_context \<Rightarrow> frame \<Rightarrow> frame" where
  "locked_frame dp s t f =
     (if \<not> dp_postgres dp (fst t) then f\<lparr>fr_stage := Locked\<rparr>
      else if cl_advisory s (lock_key dp (fr_partition f)) = None \<or>
              cl_advisory s (lock_key dp (fr_partition f)) = Some t
      then f\<lparr>fr_connection := True, fr_advisory := True, fr_stage := Locked\<rparr>
      else fail_frame (f\<lparr>fr_connection := True\<rparr>) busy_error)"

lemma try_lock_simps [simp]:
  "cl_frames (try_lock dp s t f) = (cl_frames s)(t \<mapsto> locked_frame dp s t f)"
  "cl_rows (try_lock dp s t f) = cl_rows s" "cl_local (try_lock dp s t f) = cl_local s"
  "cl_current (try_lock dp s t f) = cl_current s"
  "cl_advisory (try_lock dp s t f) =
     (if dp_postgres dp (fst t) \<and> cl_advisory s (lock_key dp (fr_partition f)) = None
      then (cl_advisory s)(lock_key dp (fr_partition f) \<mapsto> t) else cl_advisory s)"
  by (auto simp: try_lock_def locked_frame_def Let_def)

lemma locked_frame_simps [simp]:
  "fr_partition (locked_frame dp s t f) = fr_partition f" "fr_lease (locked_frame dp s t f) = fr_lease f"
  by (simp_all add: locked_frame_def fail_frame_def)

lemma fail_frame_simps [simp]:
  "fr_partition (fail_frame f e) = fr_partition f" "fr_lease (fail_frame f e) = fr_lease f"
  "fr_advisory (fail_frame f e) = fr_advisory f" "fr_connection (fail_frame f e) = fr_connection f"
  "fr_stage (fail_frame f e) = Leaving" "fr_error (fail_frame f e) = Some e"
  by (simp_all add: fail_frame_def)

lemma claim_effect:
  "\<exists>l f'. cl_frames (claim dp s t f uuid now) = (cl_frames s)(t \<mapsto> f') \<and>
     f' = f\<lparr>fr_lease := Some l, fr_stage := Active\<rparr> \<and> (al_user_id l, al_account_id l) = fr_partition f \<and>
     cl_local (claim dp s t f uuid now) = cl_local s \<and> cl_advisory (claim dp s t f uuid now) = cl_advisory s \<and>
     cl_current (claim dp s t f uuid now) = (cl_current s)(t \<mapsto> l) \<and>
     al_owner l = fr_writer_kind f @ '':'' @ uuid \<and>
     (if dp_postgres dp (fst t)
      then cl_rows (claim dp s t f uuid now) = (cl_rows s)(fr_partition f \<mapsto>
             claimed_row (cl_rows s (fr_partition f)) (al_owner l) (fr_writer_kind f) (fr_plan_id f) now) \<and>
           al_generation l = (case cl_rows s (fr_partition f) of None \<Rightarrow> 0 | Some r \<Rightarrow> gr_generation r) + 1
      else cl_rows (claim dp s t f uuid now) = cl_rows s)"
  by (auto simp: claim_def claim_generation_def Let_def claimed_row_def split: option.splits)

text \<open>Whether the release of a lease finds the row as it left it.\<close>

definition release_matches :: "cluster \<Rightarrow> account_lease \<Rightarrow> bool" where
  "release_matches s l \<longleftrightarrow>
     (\<exists>row. cl_rows s (al_user_id l, al_account_id l) = Some row \<and> gr_generation row = al_generation l \<and>
        (case gr_active_owner row of None \<Rightarrow> [] | Some o' \<Rightarrow> o') = al_owner l)"

definition released_row :: "generation_row \<Rightarrow> time \<Rightarrow> generation_row" where
  "released_row row now =
     row\<lparr>gr_active_owner := None, gr_active_kind := None, gr_active_plan := None, gr_acquired_at := None,
         gr_released_at := Some now, gr_updated_at := now\<rparr>"

lemma release_generation_eq:
  "release_generation s l True now =
     (if release_matches s l
      then (s\<lparr>cl_rows := (cl_rows s)((al_user_id l, al_account_id l) \<mapsto>
               released_row (the (cl_rows s (al_user_id l, al_account_id l))) now)\<rparr>, Inr ())
      else (s, Inl (fence_lost ''Account execution generation changed before release'')))"
  "release_generation s l False now = (s, Inr ())"
  by (auto simp: release_generation_def release_matches_def released_row_def split: option.splits)

lemma release_lease_effect:
  "\<exists>f'. cl_frames (release_lease s t f now) = (cl_frames s)(t \<mapsto> f') \<and> fr_partition f' = fr_partition f \<and>
     fr_lease f' = fr_lease f \<and> fr_advisory f' = fr_advisory f \<and> fr_connection f' = fr_connection f \<and>
     fr_stage f' = Released \<and> cl_local (release_lease s t f now) = cl_local s \<and>
     cl_advisory (release_lease s t f now) = cl_advisory s \<and>
     cl_rows (release_lease s t f now) =
       (case fr_lease f of
          None \<Rightarrow> cl_rows s
        | Some l \<Rightarrow>
            if fr_connection f \<and> release_matches s l
            then (cl_rows s)((al_user_id l, al_account_id l) \<mapsto>
                    released_row (the (cl_rows s (al_user_id l, al_account_id l))) now)
            else cl_rows s)"
  by (cases "fr_connection f")
    (auto simp: release_lease_def release_generation_eq split: option.splits)

lemma unlock_advisory_effect:
  "\<exists>f'. cl_frames (unlock_advisory dp s t f) = (cl_frames s)(t \<mapsto> f') \<and> fr_partition f' = fr_partition f \<and>
     fr_lease f' = fr_lease f \<and> \<not> fr_advisory f' \<and> \<not> fr_connection f' \<and> fr_stage f' = Unlocked \<and>
     cl_local (unlock_advisory dp s t f) = cl_local s \<and> cl_rows (unlock_advisory dp s t f) = cl_rows s \<and>
     (\<forall>k. cl_advisory (unlock_advisory dp s t f) k =
        (if fr_connection f \<and> cl_advisory s k = Some t then None else cl_advisory s k))"
  by (auto simp: unlock_advisory_def Let_def)


section \<open>Frames and locks\<close>

text \<open>How far a frame has come, from its own fields.\<close>

definition frame_ok :: "deployment \<Rightarrow> nat \<Rightarrow> frame \<Rightarrow> bool" where
  "frame_ok dp proc f \<longleftrightarrow>
     (fr_stage f \<in> {Entered, Locked} \<longrightarrow> fr_lease f = None) \<and>
     (fr_stage f \<in> {Entered, Locked, Active} \<longrightarrow> fr_error f = None) \<and>
     (fr_stage f = Entered \<longrightarrow> \<not> fr_advisory f \<and> \<not> fr_connection f) \<and>
     (fr_stage f \<in> {Locked, Active} \<longrightarrow> fr_advisory f = dp_postgres dp proc \<and> fr_connection f = dp_postgres dp proc) \<and>
     (fr_stage f = Active \<longrightarrow> fr_lease f \<noteq> None) \<and>
     (fr_stage f \<in> {Leaving, Released} \<longrightarrow> fr_lease f \<noteq> None \<longrightarrow>
        fr_advisory f = dp_postgres dp proc \<and> fr_connection f = dp_postgres dp proc) \<and>
     (fr_stage f = Unlocked \<longrightarrow> \<not> fr_advisory f) \<and>
     (\<forall>l. fr_lease f = Some l \<longrightarrow> (al_user_id l, al_account_id l) = fr_partition f)"

definition frames_ok :: "deployment \<Rightarrow> cluster \<Rightarrow> bool" where
  "frames_ok dp s \<longleftrightarrow> (\<forall>t f. cl_frames s t = Some f \<longrightarrow> frame_ok dp (fst t) f \<and> (fst t, fr_partition f) \<in> cl_local s)"

definition one_frame :: "cluster \<Rightarrow> bool" where
  "one_frame s \<longleftrightarrow> (\<forall>t t' f f'. cl_frames s t = Some f \<longrightarrow> cl_frames s t' = Some f' \<longrightarrow> fst t = fst t' \<longrightarrow>
     fr_partition f = fr_partition f' \<longrightarrow> t = t')"

lemma frames_okD:
  "frames_ok dp s \<Longrightarrow> cl_frames s t = Some f \<Longrightarrow> frame_ok dp (fst t) f"
  "frames_ok dp s \<Longrightarrow> cl_frames s t = Some f \<Longrightarrow> (fst t, fr_partition f) \<in> cl_local s"
  by (simp_all add: frames_ok_def)

lemma frames_ok_upd:
  assumes "frames_ok dp s" "frame_ok dp (fst t) f'" "cl_frames s' = (cl_frames s)(t \<mapsto> f')"
    "cl_local s \<subseteq> cl_local s'" "(fst t, fr_partition f') \<in> cl_local s'"
  shows "frames_ok dp s'"
  using assms by (auto simp: frames_ok_def)

lemma one_frame_upd:
  assumes "one_frame s" "cl_frames s' = (cl_frames s)(t \<mapsto> f')" "cl_frames s t = Some f"
    "fr_partition f' = fr_partition f"
  shows "one_frame s'"
  unfolding one_frame_def
proof (intro allI impI)
  fix a b g g'
  assume "cl_frames s' a = Some g" "cl_frames s' b = Some g'" "fst a = fst b" "fr_partition g = fr_partition g'"
  moreover from this have "\<exists>h. cl_frames s a = Some h \<and> fr_partition h = fr_partition g"
    "\<exists>h. cl_frames s b = Some h \<and> fr_partition h = fr_partition g'"
    using assms(2-4) by (auto split: if_splits)
  ultimately show "a = b"
    using assms(1) unfolding one_frame_def by metis
qed

lemma frame_ok_steps:
  assumes "frame_ok dp (fst t) f"
  shows "fr_stage f = Entered \<Longrightarrow> frame_ok dp (fst t) (locked_frame dp s t f)"
    "fr_stage f \<in> {Entered, Locked} \<Longrightarrow> frame_ok dp (fst t) (fail_frame f e)"
    "fr_stage f = Active \<Longrightarrow> frame_ok dp (fst t) (f\<lparr>fr_stage := Leaving\<rparr>)"
    "fr_stage f = Locked \<Longrightarrow> (al_user_id l, al_account_id l) = fr_partition f \<Longrightarrow>
      frame_ok dp (fst t) (f\<lparr>fr_lease := Some l, fr_stage := Active\<rparr>)"
  using assms by (auto simp: frame_ok_def locked_frame_def fail_frame_def)

lemma frame_ok_released:
  assumes "frame_ok dp proc f" "fr_partition f' = fr_partition f" "fr_lease f' = fr_lease f"
  shows "fr_stage f = Leaving \<Longrightarrow> fr_stage f' = Released \<Longrightarrow> fr_advisory f' = fr_advisory f \<Longrightarrow>
      fr_connection f' = fr_connection f \<Longrightarrow> frame_ok dp proc f'"
    "fr_stage f = Released \<Longrightarrow> fr_stage f' = Unlocked \<Longrightarrow> \<not> fr_advisory f' \<Longrightarrow> frame_ok dp proc f'"
  using assms by (simp_all add: frame_ok_def)

lemma frame_update:
  assumes "frames_ok dp s \<and> one_frame s" "cl_frames s t = Some f" "cl_frames s' = (cl_frames s)(t \<mapsto> f')"
    "fr_partition f' = fr_partition f" "frame_ok dp (fst t) f'" "cl_local s' = cl_local s"
  shows "frames_ok dp s' \<and> one_frame s'"
  using frames_ok_upd [of dp s t f' s'] one_frame_upd [of s s' t f' f] frames_okD(2) [of dp s t f] assms by simp

lemma hold_step_frames_ok:
  assumes "hold_step dp s s'" "frames_ok dp s \<and> one_frame s"
  shows "frames_ok dp s' \<and> one_frame s'"
  using assms(1)
proof (cases rule: hold_step.cases)
  case (Enter t rq)
  then obtain f where f: "cl_frames s' = (cl_frames s)(t \<mapsto> f)" "frame_ok dp (fst t) f"
    "(fst t, fr_partition f) \<notin> cl_local s" "cl_local s' = insert (fst t, fr_partition f) (cl_local s)"
    using enter_new [of s t rq s'] by (auto simp: frame_ok_def)
  have "frames_ok dp s'"
    using assms(2) f by (intro frames_ok_upd [of dp s t f s']) auto
  moreover have "one_frame s'"
    using assms(2) f Enter(1) unfolding one_frame_def
    by (metis (no_types, lifting) frames_okD(2) fun_upd_other fun_upd_same option.inject)
  ultimately show ?thesis
    by simp
next
  case (Lock t f)
  show ?thesis
    by (rule frame_update [OF assms(2) Lock(2), of _ "locked_frame dp s t f"])
      (use Lock assms(2) frame_ok_steps(1) [OF frames_okD(1), of dp s t f] in auto)
next
  case (Claim t f uuid now)
  then obtain l f' where l: "cl_frames s' = (cl_frames s)(t \<mapsto> f')" "f' = f\<lparr>fr_lease := Some l, fr_stage := Active\<rparr>"
    "(al_user_id l, al_account_id l) = fr_partition f" "cl_local s' = cl_local s"
    using claim_effect [of dp s t f uuid now] by blast
  show ?thesis
    by (rule frame_update [OF assms(2) Claim(2) l(1)])
      (use Claim assms(2) l frame_ok_steps(4) [OF frames_okD(1), of dp s t f l] in simp_all)
next
  case (Raise t f e)
  show ?thesis
    by (rule frame_update [OF assms(2) Raise(2), of _ "fail_frame f e"])
      (use Raise assms(2) frame_ok_steps(2) [OF frames_okD(1), of dp s t f] in simp_all)
next
  case (Exit t f)
  show ?thesis
    by (rule frame_update [OF assms(2) Exit(2), of _ "f\<lparr>fr_stage := Leaving\<rparr>"])
      (use Exit assms(2) frame_ok_steps(3) [OF frames_okD(1), of dp s t f] in simp_all)
next
  case (Release t f now)
  then obtain f' where f': "cl_frames s' = (cl_frames s)(t \<mapsto> f')" "fr_partition f' = fr_partition f"
    "frame_ok dp (fst t) f'" "cl_local s' = cl_local s"
    using release_lease_effect [of s t f now] assms(2) frame_ok_released(1) [OF frames_okD(1), of dp s t f] by metis
  show ?thesis
    by (rule frame_update [OF assms(2) Release(2) f'])
next
  case (Unlock t f)
  then obtain f' where f': "cl_frames s' = (cl_frames s)(t \<mapsto> f')" "fr_partition f' = fr_partition f"
    "frame_ok dp (fst t) f'" "cl_local s' = cl_local s"
    using unlock_advisory_effect [of dp s t f] assms(2) frame_ok_released(2) [OF frames_okD(1), of dp s t f] by metis
  show ?thesis
    by (rule frame_update [OF assms(2) Unlock(2) f'])
next
  case (Local t f)
  have "(fst a, fr_partition g) \<noteq> (fst t, fr_partition f)" if "cl_frames s a = Some g" "a \<noteq> t" for a g
    using assms(2) Local(2) that unfolding one_frame_def by blast
  then show ?thesis
    using assms(2) Local(1) by (simp add: frames_ok_def one_frame_def)
next
  case (Crash p)
  then show ?thesis
    using assms(2) unfolding frames_ok_def one_frame_def by (auto split: if_splits)
qed (use assms(2) in \<open>simp_all add: frames_ok_def one_frame_def\<close>)


section \<open>Exclusion while connections hold\<close>

definition owns_locks :: "deployment \<Rightarrow> cluster \<Rightarrow> bool" where
  "owns_locks dp s \<longleftrightarrow> (\<forall>t f. cl_frames s t = Some f \<longrightarrow> fr_advisory f \<longrightarrow>
     cl_advisory s (lock_key dp (fr_partition f)) = Some t)"

lemma owns_upd:
  assumes "owns_locks dp s" "cl_frames s t = Some f" "cl_frames s' = (cl_frames s)(t \<mapsto> f')"
    "fr_partition f' = fr_partition f" "fr_advisory f' \<Longrightarrow> fr_advisory f" "cl_advisory s' = cl_advisory s"
  shows "owns_locks dp s'"
  using assms by (simp add: owns_locks_def)

lemma hold_step_owns:
  assumes "hold_step dp s s'" "owns_locks dp s"
  shows "owns_locks dp s'"
  using assms(1)
proof (cases rule: hold_step.cases)
  case (Enter t rq)
  then show ?thesis
    using enter_new [of s t rq s'] assms(2) unfolding owns_locks_def by (metis fun_upd_apply option.inject)
next
  case (Lock t f)
  have "cl_advisory s k \<noteq> None" if "cl_frames s a = Some g" "fr_advisory g" "k = lock_key dp (fr_partition g)" for a g k
    using assms(2) that by (simp add: owns_locks_def)
  moreover have "fr_advisory (locked_frame dp s t f) \<Longrightarrow> \<not> dp_postgres dp (fst t) \<Longrightarrow>
      cl_advisory s (lock_key dp (fr_partition f)) = Some t"
    using assms(2) Lock(2) by (simp add: owns_locks_def locked_frame_def)
  moreover have "fr_advisory (locked_frame dp s t f) \<Longrightarrow> cl_advisory s (lock_key dp (fr_partition f)) \<noteq> None \<Longrightarrow>
      cl_advisory s (lock_key dp (fr_partition f)) = Some t"
    using assms(2) Lock(2) by (simp add: owns_locks_def locked_frame_def split: if_splits)
  ultimately show ?thesis
    using assms(2) Lock(1) unfolding owns_locks_def
    by (auto split: if_splits) (metis option.distinct(1))
next
  case (Claim t f uuid now)
  from claim_effect [of dp s t f uuid now] obtain l f' where
    "cl_frames s' = (cl_frames s)(t \<mapsto> f')" "f' = f\<lparr>fr_lease := Some l, fr_stage := Active\<rparr>"
    "cl_advisory s' = cl_advisory s"
    unfolding Claim(1) by blast
  then show ?thesis
    using owns_upd [OF assms(2) Claim(2), of s' f'] by simp
next
  case (Release t f now)
  then show ?thesis
    using release_lease_effect [of s t f now] owns_upd [OF assms(2) Release(2)] by metis
next
  case (Unlock t f)
  then show ?thesis
    using unlock_advisory_effect [of dp s t f] assms(2) unfolding owns_locks_def
    by (metis (no_types, lifting) fun_upd_apply option.inject)
next
  case (Crash p)
  then show ?thesis
    using assms(2) by (auto simp: owns_locks_def split: if_splits)
qed (use assms(2) owns_upd [OF assms(2)] in \<open>auto simp: owns_locks_def\<close>)

text \<open>A lease that has not been released is the one its row describes.\<close>

definition rows_match :: "deployment \<Rightarrow> cluster \<Rightarrow> bool" where
  "rows_match dp s \<longleftrightarrow> (\<forall>t f l. cl_frames s t = Some f \<longrightarrow> fr_lease f = Some l \<longrightarrow> fr_stage f \<in> {Active, Leaving} \<longrightarrow>
     dp_postgres dp (fst t) \<longrightarrow>
     (\<exists>row. cl_rows s (fr_partition f) = Some row \<and> gr_generation row = al_generation l \<and>
        gr_active_owner row = Some (al_owner l)))"

lemma rows_matchD:
  "rows_match dp s \<Longrightarrow> cl_frames s t = Some f \<Longrightarrow> fr_lease f = Some l \<Longrightarrow> fr_stage f \<in> {Active, Leaving} \<Longrightarrow>
     dp_postgres dp (fst t) \<Longrightarrow>
     \<exists>row. cl_rows s (fr_partition f) = Some row \<and> gr_generation row = al_generation l \<and>
        gr_active_owner row = Some (al_owner l)"
  unfolding rows_match_def by blast

lemma rows_match_upd:
  assumes "rows_match dp s" "cl_frames s t = Some f" "cl_frames s' = (cl_frames s)(t \<mapsto> f')"
    "fr_partition f' = fr_partition f" "cl_rows s' = cl_rows s"
    "fr_lease f' \<noteq> None \<Longrightarrow> fr_stage f' \<in> {Active, Leaving} \<Longrightarrow>
       fr_lease f' = fr_lease f \<and> fr_stage f \<in> {Active, Leaving}"
  shows "rows_match dp s'"
  unfolding rows_match_def
proof (intro allI impI)
  fix a g l
  assume a: "cl_frames s' a = Some g" "fr_lease g = Some l" "fr_stage g \<in> {Active, Leaving}" "dp_postgres dp (fst a)"
  have "\<exists>h. cl_frames s a = Some h \<and> fr_partition h = fr_partition g \<and> fr_lease h = Some l \<and>
      fr_stage h \<in> {Active, Leaving}"
  proof (cases "a = t")
    case True
    then have "g = f'"
      using a(1) assms(3) by simp
    then show ?thesis
      using assms(2,4,6) a(2,3) True by simp
  next
    case False
    then show ?thesis
      using a assms(3) by simp
  qed
  then obtain h where "cl_frames s a = Some h" "fr_partition h = fr_partition g" "fr_lease h = Some l"
      "fr_stage h \<in> {Active, Leaving}"
    by blast
  then show "\<exists>row. cl_rows s' (fr_partition g) = Some row \<and> gr_generation row = al_generation l \<and>
      gr_active_owner row = Some (al_owner l)"
    using rows_matchD [OF assms(1)] a(4) unfolding assms(5) by metis
qed

text \<open>A change of one row by its owner leaves the leases of the other partitions alone.\<close>

lemma rows_match_owner:
  assumes "rows_match dp s" "frames_ok dp s" "owns_locks dp s" "cl_frames s t = Some f" "fr_advisory f"
    and s': "cl_frames s' = (cl_frames s)(t \<mapsto> f')" "cl_rows s' = (cl_rows s)(fr_partition f \<mapsto> row)"
      "fr_partition f' = fr_partition f"
    and own: "\<And>l. fr_lease f' = Some l \<Longrightarrow> fr_stage f' \<in> {Active, Leaving} \<Longrightarrow>
      gr_generation row = al_generation l \<and> gr_active_owner row = Some (al_owner l)"
  shows "rows_match dp s'"
  unfolding rows_match_def
proof (intro allI impI)
  fix a g l
  assume a: "cl_frames s' a = Some g" "fr_lease g = Some l" "fr_stage g \<in> {Active, Leaving}" "dp_postgres dp (fst a)"
  show "\<exists>r. cl_rows s' (fr_partition g) = Some r \<and> gr_generation r = al_generation l \<and>
      gr_active_owner r = Some (al_owner l)"
  proof (cases "a = t")
    case True
    then show ?thesis
      using a own s' by simp
  next
    case False
    then have g: "cl_frames s a = Some g"
      using a(1) s'(1) by simp
    have "frame_ok dp (fst a) g"
      using frames_okD(1) [OF assms(2) g] .
    then have "fr_advisory g"
      using a(2-4) by (auto simp: frame_ok_def)
    then have "fr_partition g \<noteq> fr_partition f"
      using assms(3,4,5) g False unfolding owns_locks_def by (metis option.inject)
    then show ?thesis
      using rows_matchD [OF assms(1) g a(2-4)] s'(2) by simp
  qed
qed


lemma hold_step_rows:
  assumes "hold_step dp s s'" "rows_match dp s" "frames_ok dp s" "owns_locks dp s"
  shows "rows_match dp s'"
  using assms(1)
proof (cases rule: hold_step.cases)
  case (Enter t rq)
  then obtain f where "cl_frames s' = (cl_frames s)(t \<mapsto> f)" "fr_lease f = None" "cl_rows s' = cl_rows s"
    using enter_new [of s t rq s'] by blast
  then show ?thesis
    using assms(2) unfolding rows_match_def by (simp split: if_splits)
next
  case (Lock t f)
  have "fr_lease f = None"
    using frames_okD(1) [OF assms(3) Lock(2)] Lock(3) by (simp add: frame_ok_def)
  then show ?thesis
    using rows_match_upd [OF assms(2) Lock(2), of s' "locked_frame dp s t f"] Lock(1) by simp
next
  case (Claim t f uuid now)
  from claim_effect [of dp s t f uuid now] obtain l f' where
    l: "cl_frames s' = (cl_frames s)(t \<mapsto> f')" "f' = f\<lparr>fr_lease := Some l, fr_stage := Active\<rparr>"
      "if dp_postgres dp (fst t)
       then cl_rows s' = (cl_rows s)(fr_partition f \<mapsto>
              claimed_row (cl_rows s (fr_partition f)) (al_owner l) (fr_writer_kind f) (fr_plan_id f) now) \<and>
            al_generation l = (case cl_rows s (fr_partition f) of None \<Rightarrow> 0 | Some r \<Rightarrow> gr_generation r) + 1
       else cl_rows s' = cl_rows s"
    unfolding Claim(1) by blast
  show ?thesis
  proof (cases "dp_postgres dp (fst t)")
    case True
    then have "fr_advisory f"
      using frames_okD(1) [OF assms(3) Claim(2)] Claim(3) by (simp add: frame_ok_def)
    from rows_match_owner [OF assms(2-4) Claim(2) this l(1)] l(2,3) True show ?thesis
      by (auto simp: claimed_row_def split: option.splits)
  next
    case False
    then show ?thesis
      using assms(2) l unfolding rows_match_def by simp
  qed
next
  case (Raise t f e)
  have "fr_lease f = None"
    using frames_okD(1) [OF assms(3) Raise(2)] Raise(3) by (auto simp: frame_ok_def)
  then show ?thesis
    using rows_match_upd [OF assms(2) Raise(2), of s' "fail_frame f e"] Raise(1) by simp
next
  case (Exit t f)
  then show ?thesis
    using rows_match_upd [OF assms(2) Exit(2), of s' "f\<lparr>fr_stage := Leaving\<rparr>"] by simp
next
  case (Release t f now)
  from release_lease_effect [of s t f now] obtain f' where f': "cl_frames s' = (cl_frames s)(t \<mapsto> f')"
      "fr_partition f' = fr_partition f" "fr_stage f' = Released"
    and rows: "cl_rows s' = (case fr_lease f of None \<Rightarrow> cl_rows s
        | Some l \<Rightarrow> if fr_connection f \<and> release_matches s l
            then (cl_rows s)((al_user_id l, al_account_id l) \<mapsto>
                    released_row (the (cl_rows s (al_user_id l, al_account_id l))) now)
            else cl_rows s)"
    unfolding Release(1) by blast
  have ok: "frame_ok dp (fst t) f"
    by (rule frames_okD(1) [OF assms(3) Release(2)])
  show ?thesis
  proof (cases "\<exists>l. fr_lease f = Some l \<and> fr_connection f \<and> release_matches s l")
    case True
    then obtain l where l: "fr_lease f = Some l" "fr_connection f" "release_matches s l"
      by blast
    then have "fr_advisory f" "(al_user_id l, al_account_id l) = fr_partition f"
      using ok Release(3) by (auto simp: frame_ok_def)
    then show ?thesis
      using rows_match_owner [OF assms(2-4) Release(2) _ f'(1) _ f'(2)] rows l f'(3) by simp
  next
    case False
    then have "cl_rows s' = cl_rows s"
      using rows by (auto split: option.splits)
    then show ?thesis
      using rows_match_upd [OF assms(2) Release(2) f'(1,2)] f'(3) by simp
  qed
next
  case (Unlock t f)
  then show ?thesis
    using unlock_advisory_effect [of dp s t f] rows_match_upd [OF assms(2) Unlock(2)] by (metis empty_iff insert_iff stage.distinct)
next
  case (Local t f)
  then show ?thesis
    using assms(2) unfolding rows_match_def by simp
next
  case (Crash p)
  then show ?thesis
    using assms(2) unfolding rows_match_def by simp
qed (use assms(2) in \<open>simp_all add: rows_match_def\<close>)

definition serial_inv :: "deployment \<Rightarrow> cluster \<Rightarrow> bool" where
  "serial_inv dp s \<longleftrightarrow> (frames_ok dp s \<and> one_frame s) \<and> owns_locks dp s \<and> rows_match dp s"

lemma serial_inv_initial: "serial_inv dp initial_cluster"
  by (simp add: serial_inv_def frames_ok_def one_frame_def owns_locks_def rows_match_def initial_cluster_def)

lemma serial_inv_step: "hold_step dp s s' \<Longrightarrow> serial_inv dp s \<Longrightarrow> serial_inv dp s'"
  unfolding serial_inv_def using hold_step_frames_ok hold_step_owns hold_step_rows by blast

lemma serial_inv_reachable: "(hold_step dp)\<^sup>*\<^sup>* initial_cluster s \<Longrightarrow> serial_inv dp s"
  by (induction rule: rtranclp_induct) (auto intro: serial_inv_initial serial_inv_step)


section \<open>Generations when connections may fail\<close>

definition row_generation :: "cluster \<Rightarrow> partition \<Rightarrow> int" where
  "row_generation s p = (case cl_rows s p of None \<Rightarrow> 0 | Some r \<Rightarrow> gr_generation r)"

lemma row_generation_cong: "cl_rows s' = cl_rows s \<Longrightarrow> row_generation s' = row_generation s"
  by (simp add: row_generation_def fun_eq_iff)

lemma claim_generation_next:
  "row_generation (claim dp s t f uuid now) p =
     (if dp_postgres dp (fst t) \<and> p = fr_partition f then row_generation s p + 1 else row_generation s p)"
  "\<exists>l. cl_current (claim dp s t f uuid now) t = Some l \<and>
     fr_lease (frame_of (claim dp s t f uuid now) t) = Some l \<and>
     (dp_postgres dp (fst t) \<longrightarrow> al_generation l = row_generation s (fr_partition f) + 1)"
  using claim_effect [of dp s t f uuid now]
  by (auto simp: row_generation_def claimed_row_def frame_of_def split: if_splits option.splits)

lemma release_generation_same: "row_generation (release_lease s t f now) p = row_generation s p"
  using release_lease_effect [of s t f now]
  by (auto simp: row_generation_def released_row_def release_matches_def split: option.splits if_splits)

lemma row_generation_simps [simp]:
  "row_generation (set_frame s t f) = row_generation s" "row_generation (try_lock dp s t f) = row_generation s"
  "row_generation (reset_token s t f) = row_generation s" "row_generation (release_local s t f) = row_generation s"
  "row_generation (crash s q) = row_generation s" "row_generation (spawn s t c) = row_generation s"
  "row_generation (finish_task s t) = row_generation s" "row_generation (drop_connection s t) = row_generation s"
  "row_generation (nest s t l) = row_generation s" "row_generation (unnest s t) = row_generation s"
  "row_generation (unlock_advisory dp s t f) = row_generation s"
  "row_generation (release_lease s t f now) = row_generation s"
proof -
  show "row_generation (unlock_advisory dp s t f) = row_generation s"
    using unlock_advisory_effect [of dp s t f] by (blast intro: row_generation_cong)
  show "row_generation (release_lease s t f now) = row_generation s"
    by (rule ext) (rule release_generation_same)
qed (rule row_generation_cong; simp)+

lemma hold_step_generation_mono: "hold_step dp s s' \<Longrightarrow> row_generation s p \<le> row_generation s' p"
proof (induction rule: hold_step.induct)
  case (Enter s t rq s')
  then show ?case
    using enter_new [of s t rq s'] row_generation_cong [of s' s] by auto
qed (simp_all add: claim_generation_next)

lemma lossy_step_generation_mono: "lossy_step dp s s' \<Longrightarrow> row_generation s p \<le> row_generation s' p"
  by (induction rule: lossy_step.induct) (simp_all add: hold_step_generation_mono)

text \<open>Where a lease of the new state comes from: it was there, or the step claimed it.\<close>

definition kept_lease :: "cluster \<Rightarrow> task_context \<Rightarrow> frame \<Rightarrow> bool" where
  "kept_lease s t f \<longleftrightarrow>
     (\<exists>g. cl_frames s t = Some g \<and> fr_lease g = fr_lease f \<and> fr_partition g = fr_partition f)"

lemma hold_step_leases:
  assumes "hold_step dp s s'"
  shows "\<exists>t0. \<forall>t f l. cl_frames s' t = Some f \<longrightarrow> fr_lease f = Some l \<longrightarrow> kept_lease s t f \<or>
     t = t0 \<and> (dp_postgres dp (fst t) \<longrightarrow> al_generation l = row_generation s (fr_partition f) + 1 \<and>
       row_generation s' (fr_partition f) = al_generation l)"
  using assms
proof (cases rule: hold_step.cases)
  case (Enter t rq)
  then show ?thesis
    using enter_new [of s t rq s'] by (auto simp: kept_lease_def)
next
  case (Claim t f uuid now)
  from claim_effect [of dp s t f uuid now] obtain l f' where
    fr: "cl_frames s' = (cl_frames s)(t \<mapsto> f')" "f' = f\<lparr>fr_lease := Some l, fr_stage := Active\<rparr>"
    unfolding Claim(1) by blast
  have l: "dp_postgres dp (fst t) \<longrightarrow> al_generation l = row_generation s (fr_partition f) + 1 \<and>
      row_generation s' (fr_partition f) = al_generation l"
    using claim_generation_next [of dp s t f uuid now] fr unfolding Claim(1) [symmetric] by (auto simp: frame_of_def)
  show ?thesis
  proof (intro exI [of _ t] allI impI)
    fix a g l'
    assume "cl_frames s' a = Some g" "fr_lease g = Some l'"
    then show "kept_lease s a g \<or> a = t \<and> (dp_postgres dp (fst a) \<longrightarrow>
        al_generation l' = row_generation s (fr_partition g) + 1 \<and>
        row_generation s' (fr_partition g) = al_generation l')"
      using fr l by (cases "a = t") (auto simp: kept_lease_def)
  qed
next
  case (Release t f now)
  then show ?thesis
    using release_lease_effect [of s t f now] by (auto simp: kept_lease_def)
next
  case (Unlock t f)
  then show ?thesis
    using unlock_advisory_effect [of dp s t f] by (auto simp: kept_lease_def)
qed (auto simp: kept_lease_def split: if_splits)

definition leases_fenced :: "deployment \<Rightarrow> cluster \<Rightarrow> bool" where
  "leases_fenced dp s \<longleftrightarrow>
     (\<forall>t f l. cl_frames s t = Some f \<longrightarrow> fr_lease f = Some l \<longrightarrow> dp_postgres dp (fst t) \<longrightarrow>
        al_generation l \<le> row_generation s (fr_partition f)) \<and>
     (\<forall>t t' f f' l l'. cl_frames s t = Some f \<longrightarrow> cl_frames s t' = Some f' \<longrightarrow> fr_lease f = Some l \<longrightarrow>
        fr_lease f' = Some l' \<longrightarrow> fr_partition f = fr_partition f' \<longrightarrow> dp_postgres dp (fst t) \<longrightarrow>
        dp_postgres dp (fst t') \<longrightarrow> t \<noteq> t' \<longrightarrow> al_generation l \<noteq> al_generation l')"


lemma leases_fenced_step:
  assumes "leases_fenced dp s" and mono: "\<And>p. row_generation s p \<le> row_generation s' p"
    and new: "\<forall>t f l. cl_frames s' t = Some f \<longrightarrow> fr_lease f = Some l \<longrightarrow> kept_lease s t f \<or>
     t = t0 \<and> (dp_postgres dp (fst t) \<longrightarrow> al_generation l = row_generation s (fr_partition f) + 1 \<and>
       row_generation s' (fr_partition f) = al_generation l)"
  shows "leases_fenced dp s'"
proof -
  have bound: "al_generation l \<le> row_generation s (fr_partition f)"
    if "kept_lease s t f" "fr_lease f = Some l" "dp_postgres dp (fst t)" for t f l
    using that assms(1) unfolding leases_fenced_def kept_lease_def by metis
  have fresh: "al_generation l = row_generation s (fr_partition f) + 1 \<and> t = t0 \<and>
      row_generation s' (fr_partition f) = al_generation l"
    if "cl_frames s' t = Some f" "fr_lease f = Some l" "\<not> kept_lease s t f" "dp_postgres dp (fst t)" for t f l
    using new that by blast
  show ?thesis
    unfolding leases_fenced_def
  proof (intro conjI allI impI)
    fix t f l
    assume t: "cl_frames s' t = Some f" "fr_lease f = Some l" "dp_postgres dp (fst t)"
    show "al_generation l \<le> row_generation s' (fr_partition f)"
      using bound [OF _ t(2,3)] fresh [OF t(1,2) _ t(3)] mono [of "fr_partition f"] by fastforce
  next
    fix t t' f f' l l'
    assume a: "cl_frames s' t = Some f" "cl_frames s' t' = Some f'" "fr_lease f = Some l" "fr_lease f' = Some l'"
      "fr_partition f = fr_partition f'" "dp_postgres dp (fst t)" "dp_postgres dp (fst t')" "t \<noteq> t'"
    show "al_generation l \<noteq> al_generation l'"
    proof (cases "kept_lease s t f \<and> kept_lease s t' f'")
      case True
      then show ?thesis
        using assms(1) a(3-8) unfolding leases_fenced_def kept_lease_def by metis
    next
      case False
      then show ?thesis
        using bound [OF _ a(3,6)] bound [OF _ a(4,7)] fresh [OF a(1,3) _ a(6)] fresh [OF a(2,4) _ a(7)] a(5,8)
        by fastforce
    qed
  qed
qed

lemma lossy_leases_fenced: "lossy_step dp s s' \<Longrightarrow> leases_fenced dp s \<Longrightarrow> leases_fenced dp s'"
proof (induction rule: lossy_step.induct)
  case (Step s s')
  then show ?case
    using hold_step_leases [OF Step(1)] leases_fenced_step hold_step_generation_mono by metis
next
  case (Lost s t)
  then show ?case
    by (simp add: leases_fenced_def)
qed

lemma lossy_frames: "lossy_step dp s s' \<Longrightarrow> frames_ok dp s \<and> one_frame s \<Longrightarrow> frames_ok dp s' \<and> one_frame s'"
proof (induction rule: lossy_step.induct)
  case (Step s s')
  then show ?case
    by (rule hold_step_frames_ok)
next
  case (Lost s t)
  then show ?case
    by (simp add: frames_ok_def one_frame_def)
qed

lemma lossy_reachable:
  "(lossy_step dp)\<^sup>*\<^sup>* initial_cluster s \<Longrightarrow> (frames_ok dp s \<and> one_frame s) \<and> leases_fenced dp s"
proof (induction rule: rtranclp_induct)
  case base
  then show ?case
    by (simp add: frames_ok_def one_frame_def leases_fenced_def initial_cluster_def)
next
  case (step s s')
  then show ?case
    using lossy_leases_fenced lossy_frames by blast
qed

section \<open>The row as a counter\<close>

definition claims_lease :: "deployment \<Rightarrow> partition \<Rightarrow> cluster \<Rightarrow> cluster \<Rightarrow> int \<Rightarrow> bool" where
  "claims_lease dp p s s' g \<longleftrightarrow>
     (\<exists>t f uuid now l. cl_frames s t = Some f \<and> fr_stage f = Locked \<and> fr_partition f = p \<and> dp_postgres dp (fst t) \<and>
        s' = claim dp s t f uuid now \<and> cl_current s' t = Some l \<and> al_generation l = g)"

interpretation row_counter: fencing_counter "lossy_step dp" "\<lambda>s. row_generation s p" "claims_lease dp p" for dp p
proof
  show "row_generation s p \<le> row_generation s' p" if "lossy_step dp s s'" for s s'
    using that by (rule lossy_step_generation_mono)
  show "g = row_generation s p + 1 \<and> row_generation s' p = g" if "claims_lease dp p s s' g" for s s' g
  proof -
    from that obtain t f uuid now l where c: "fr_partition f = p" "dp_postgres dp (fst t)"
      "s' = claim dp s t f uuid now" "cl_current s' t = Some l" "al_generation l = g"
      unfolding claims_lease_def by blast
    then show ?thesis
      using claim_generation_next [of dp s t f uuid now] by auto
  qed
qed

section \<open>Giving the account back\<close>

lemma leave_clean:
  assumes "cl_frames s t = Some f" "fr_stage f = Leaving" "fr_lease f = Some l" "fr_error f = None"
    and "fr_connection f \<Longrightarrow> release_matches s l"
    and "fr_advisory f \<Longrightarrow> cl_advisory s (lock_key dp (fr_partition f)) = Some t"
  shows "snd (leave dp s t now) = Inr () \<and> cl_frames (fst (leave dp s t now)) t = None \<and>
    cl_local (fst (leave dp s t now)) = cl_local s - {(fst t, fr_partition f)} \<and>
    cl_current (fst (leave dp s t now)) = cl_current s \<and>
    (\<forall>k. cl_advisory (fst (leave dp s t now)) k =
       (if fr_connection f \<and> cl_advisory s k = Some t then None else cl_advisory s k))"
proof (cases "fr_connection f")
  case True
  then show ?thesis
    using assms by (simp add: leave_def Let_def release_lease_def release_generation_eq unlock_advisory_def
        release_local_def set_frame_def frame_of_def note_error_def drop_connection_def)
next
  case False
  then show ?thesis
    using assms by (simp add: leave_def Let_def release_lease_def release_generation_eq unlock_advisory_def
        release_local_def set_frame_def frame_of_def note_error_def)
qed

lemma enter_free:
  assumes "hold_arguments rq = Inr (p, plan)" "cl_current s t = None" "(fst t, p) \<notin> cl_local s"
  shows "\<exists>s1 f. enter s t rq = Inr (Inr s1) \<and> cl_frames s1 t = Some f \<and> fr_partition f = p \<and> fr_stage f = Entered \<and>
    cl_advisory s1 = cl_advisory s"
  using assms by (auto simp: enter_def)

lemma free_account_taken:
  assumes "hold_arguments rq = Inr (p, plan)" "cl_current s t = None" "(fst t, p) \<notin> cl_local s"
    and "cl_advisory s (lock_key dp p) = None"
  shows "\<exists>l. snd (hold_enter dp s t rq uuid now) = Inr l \<and> al_user_id l = fst p \<and> al_account_id l = snd p"
proof -
  obtain s1 f where s1: "enter s t rq = Inr (Inr s1)" "cl_frames s1 t = Some f" "fr_partition f = p"
      "cl_advisory s1 = cl_advisory s"
    using enter_free [OF assms(1-3)] by blast
  define s2 where "s2 = try_lock dp s1 t (frame_of s1 t)"
  have g: "frame_of s2 t = locked_frame dp s1 t f"
    using s1 by (simp add: s2_def frame_of_def)
  have st: "fr_stage (frame_of s2 t) = Locked" "fr_partition (frame_of s2 t) = p"
    using s1 assms(4) unfolding g by (simp_all add: locked_frame_def)
  obtain l where l: "cl_current (claim dp s2 t (frame_of s2 t) uuid now) = (cl_current s2)(t \<mapsto> l)"
      "(al_user_id l, al_account_id l) = fr_partition (frame_of s2 t)"
    using claim_effect [of dp s2 t "frame_of s2 t" uuid now] by blast
  have "al_user_id l = fst p \<and> al_account_id l = snd p"
    using l(2) st(2) by (metis fst_conv snd_conv)
  then show ?thesis
    using st(1) l(1) by (simp add: hold_enter_def s1(1) Let_def flip: s2_def)
qed

section \<open>Properties\<close>

text \<open>A context waiting for its lease has none yet, and nested blocks run under the current lease.\<close>

definition nested_ok :: "cluster \<Rightarrow> bool" where
  "nested_ok s \<longleftrightarrow>
     (\<forall>t l. l \<in> set (cl_nested s t) \<longrightarrow> cl_current s t = Some l) \<and>
     (\<forall>t f. cl_frames s t = Some f \<longrightarrow> fr_stage f \<in> {Entered, Locked} \<longrightarrow> cl_current s t = None)"

lemma nested_ok_upd:
  assumes "nested_ok s" "cl_frames s' = (cl_frames s)(t \<mapsto> f')" "fr_stage f' \<notin> {Entered, Locked}"
    "cl_current s' = cl_current s" "cl_nested s' = cl_nested s"
  shows "nested_ok s'"
  using assms by (simp add: nested_ok_def)

lemma hold_step_nested:
  assumes "hold_step dp s s'" "nested_ok s"
  shows "nested_ok s'"
  using assms(1)
proof (cases rule: hold_step.cases)
  case (Enter t rq)
  then show ?thesis
    using enter_new [of s t rq s'] assms(2) unfolding nested_ok_def by (metis fun_upd_apply option.inject)
next
  case (Lock t f)
  then show ?thesis
    using assms(2) by (auto simp: nested_ok_def)
next
  case (Claim t f uuid now)
  from claim_effect [of dp s t f uuid now] obtain l f' where
    "cl_frames s' = (cl_frames s)(t \<mapsto> f')" "f' = f\<lparr>fr_lease := Some l, fr_stage := Active\<rparr>"
    "cl_current s' = (cl_current s)(t \<mapsto> l)"
    unfolding Claim(1) by blast
  moreover have "cl_current s t = None"
    using assms(2) Claim(2,3) by (simp add: nested_ok_def)
  ultimately show ?thesis
    using assms(2) Claim(1) by (auto simp: nested_ok_def)
next
  case (Nest t rq l)
  then show ?thesis
    using enter_nested [of s t rq l] assms(2) by (auto simp: nested_ok_def)
next
  case (Unnest t)
  then show ?thesis
    using assms(2) by (auto simp: nested_ok_def dest: list.set_sel(2))
next
  case (Exit t f)
  then show ?thesis
    using assms(2) by (auto simp: nested_ok_def)
next
  case (Release t f now)
  then show ?thesis
    using release_lease_effect [of s t f now] nested_ok_upd [OF assms(2), of s' t] by force
next
  case (Unlock t f)
  then show ?thesis
    using unlock_advisory_effect [of dp s t f] nested_ok_upd [OF assms(2), of s' t] by force
qed (use assms(2) in \<open>auto simp: nested_ok_def split: if_splits\<close>)

lemma joined_reachable:
  "(joined_step dp)\<^sup>*\<^sup>* initial_cluster s \<Longrightarrow> (hold_step dp)\<^sup>*\<^sup>* initial_cluster s \<and> nested_ok s \<and> joined s"
proof (induction rule: rtranclp_induct)
  case base
  then show ?case
    by (simp add: nested_ok_def joined_def initial_cluster_def)
next
  case (step s s')
  then show ?case
    by (auto elim!: joined_step.cases intro: rtranclp.rtrancl_into_rtrancl hold_step_nested)
qed

lemma active_frames_exclusive:
  assumes "(hold_step dp)\<^sup>*\<^sup>* initial_cluster s"
    and "cl_frames s t = Some f" "fr_stage f = Active" "cl_frames s t' = Some f'" "fr_stage f' = Active"
    and "fr_partition f = fr_partition f'"
    and "dp_postgres dp (fst t) \<and> dp_postgres dp (fst t') \<or> fst t = fst t'"
  shows "t = t'"
proof -
  have I: "frames_ok dp s" "one_frame s" "owns_locks dp s"
    using serial_inv_reachable [OF assms(1)] by (simp_all add: serial_inv_def)
  show ?thesis
  proof (cases "fst t = fst t'")
    case True
    then show ?thesis
      using I(2) assms(2,4,6) unfolding one_frame_def by blast
  next
    case False
    then have "fr_advisory f" "fr_advisory f'"
      using frames_okD(1) [OF I(1) assms(2)] frames_okD(1) [OF I(1) assms(4)] assms(3,5,7)
      by (auto simp: frame_ok_def)
    then show ?thesis
      using I(3) assms(2,4,6) unfolding owns_locks_def by (metis option.inject)
  qed
qed

text \<open>
  A context is inside the block of an account with a lease when it claimed the lease and has not left, or
  when it is in a nested block that yielded the lease.
\<close>

definition owns_lease :: "cluster \<Rightarrow> task_context \<Rightarrow> account_lease \<Rightarrow> bool" where
  "owns_lease s t l \<longleftrightarrow> (\<exists>f. cl_frames s t = Some f \<and> fr_stage f = Active \<and> fr_lease f = Some l)"

definition inside :: "cluster \<Rightarrow> task_context \<Rightarrow> account_lease \<Rightarrow> bool" where
  "inside s t l \<longleftrightarrow> owns_lease s t l \<or> l \<in> set (cl_nested s t)"

lemma inside_owner:
  assumes "nested_ok s" "joined s" "inside s t l"
  shows "\<exists>o'. owns_lease s o' l \<and> fst o' = fst t"
  using assms unfolding inside_def nested_ok_def joined_def owns_lease_def by metis

text \<open>
  C7: One lease per account. Take any interleaving of the serialiser's steps, nested blocks, crashing
  processes and tasks that copy contexts included, in which no connection to the database is lost and no
  task outlives the block whose lease it carries. Then two contexts that are inside the block for the
  same account, as the one that claimed it or in a nested block, hold the same lease and belong to the
  same process, and at most one of them claimed it, whenever both processes use PostgreSQL or the
  contexts share a process.
\<close>

theorem account_writers_exclusive:
  assumes "(joined_step dp)\<^sup>*\<^sup>* initial_cluster s" and "inside s t l" "inside s t' l'"
    and "al_user_id l = al_user_id l'" "al_account_id l = al_account_id l'"
    and "dp_postgres dp (fst t) \<and> dp_postgres dp (fst t') \<or> fst t = fst t'"
  shows "l = l' \<and> fst t = fst t' \<and> (owns_lease s t l \<and> owns_lease s t' l' \<longrightarrow> t = t')"
proof -
  have r: "(hold_step dp)\<^sup>*\<^sup>* initial_cluster s" and n: "nested_ok s" "joined s"
    using joined_reachable [OF assms(1)] by simp_all
  have I: "frames_ok dp s" using serial_inv_reachable [OF r] by (simp add: serial_inv_def)
  have same: "a = b" if "owns_lease s a l" "owns_lease s b l'" "fst a = fst t" "fst b = fst t'" for a b
  proof -
    obtain f f' where f: "cl_frames s a = Some f" "fr_stage f = Active" "fr_lease f = Some l"
      "cl_frames s b = Some f'" "fr_stage f' = Active" "fr_lease f' = Some l'"
      using \<open>owns_lease s a l\<close> \<open>owns_lease s b l'\<close> by (auto simp: owns_lease_def)
    have "fr_partition f = fr_partition f'"
      using frames_okD(1) [OF I f(1)] frames_okD(1) [OF I f(4)] f(3,6) assms(4,5) by (simp add: frame_ok_def)
    then show ?thesis
      using active_frames_exclusive [OF r f(1,2,4,5)] assms(6) that(3,4) by simp
  qed
  obtain a b where ab: "owns_lease s a l" "fst a = fst t" "owns_lease s b l'" "fst b = fst t'"
    using inside_owner [OF n assms(2)] inside_owner [OF n assms(3)] by blast
  have "a = b" by (rule same [OF ab(1,3,2,4)])
  then have "l = l'" "fst t = fst t'" using ab by (auto simp: owns_lease_def)
  then show ?thesis using same by blast
qed

text \<open>
  Generations strictly increase. Whatever happens between two claims of an account, crashes and lost
  connections included, the later claim gets a greater generation.
\<close>

theorem generations_strictly_increase:
  assumes "claims_lease dp p s0 s1 g" "(lossy_step dp)\<^sup>*\<^sup>* s1 s2" "claims_lease dp p s2 s3 g'"
  shows "g < g'"
  using assms by (rule row_counter.later_claim_greater)

text \<open>
  C22: An overlap is fenced. If a lost connection lets two contexts hold the same account at once, their
  generations differ, and from then on the release of the older lease always fails and changes nothing.
\<close>

theorem overlap_is_fenced:
  assumes "(lossy_step dp)\<^sup>*\<^sup>* initial_cluster s" "t \<noteq> t'" "dp_postgres dp (fst t)" "dp_postgres dp (fst t')"
    and "cl_frames s t = Some f" "fr_lease f = Some l" "cl_frames s t' = Some f'" "fr_lease f' = Some l'"
    and "fr_partition f = fr_partition f'"
  shows "al_generation l \<noteq> al_generation l' \<and>
    (al_generation l < al_generation l' \<longrightarrow> (lossy_step dp)\<^sup>*\<^sup>* s s' \<longrightarrow>
       release_generation s' l True now =
         (s', Inl (fence_lost ''Account execution generation changed before release'')))"
proof -
  have I: "frames_ok dp s" "leases_fenced dp s"
    using lossy_reachable [OF assms(1)] by simp_all
  have ne: "al_generation l \<noteq> al_generation l'" and le: "al_generation l' \<le> row_generation s (fr_partition f)"
    using I(2) assms(2-9) unfolding leases_fenced_def by metis+
  have p: "(al_user_id l, al_account_id l) = fr_partition f"
    using frames_okD(1) [OF I(1) assms(5)] assms(6) by (simp add: frame_ok_def)
  have "\<not> release_matches s' l" if "al_generation l < al_generation l'" "(lossy_step dp)\<^sup>*\<^sup>* s s'"
  proof -
    have "al_generation l < row_generation s' (fr_partition f)"
      using that(1) le by (intro row_counter.stale_forever [OF _ that(2)]) simp
    then show ?thesis
      by (auto simp: release_matches_def p row_generation_def)
  qed
  with ne show ?thesis
    by (simp add: release_generation_eq)
qed

text \<open>
  While connections hold, leaving the block succeeds: no exception is raised, the lock of the process
  and the advisory lock are free again, and the account can be taken by any context that has no lease and
  whose process is not working on it.
\<close>

theorem exit_frees_account:
  assumes "(hold_step dp)\<^sup>*\<^sup>* initial_cluster s" "cl_frames s t = Some f" "fr_stage f = Active"
    and "dp_postgres dp (fst t)" "hold_arguments rq = Inr (fr_partition f, plan)"
    and "cl_current s t' = None" "(fst t', fr_partition f) \<notin> cl_local s \<or> fst t' = fst t"
  shows "snd (hold_exit dp s t now) = Inr () \<and> cl_frames (fst (hold_exit dp s t now)) t = None \<and>
    (\<exists>l. snd (hold_enter dp (fst (hold_exit dp s t now)) t' rq uuid now') = Inr l \<and>
       (al_user_id l, al_account_id l) = fr_partition f)"
proof -
  have I: "frames_ok dp s" "owns_locks dp s" "rows_match dp s"
    using serial_inv_reachable [OF assms(1)] by (simp_all add: serial_inv_def)
  have ok: "frame_ok dp (fst t) f"
    by (rule frames_okD(1) [OF I(1) assms(2)])
  then obtain l where l: "fr_lease f = Some l" "(al_user_id l, al_account_id l) = fr_partition f"
    using assms(3) by (auto simp: frame_ok_def)
  have fl: "fr_advisory f" "fr_connection f" and err: "fr_error f = None"
    using ok assms(3,4) by (simp_all add: frame_ok_def)
  have own: "cl_advisory s (lock_key dp (fr_partition f)) = Some t"
    using I(2) assms(2) fl(1) by (simp add: owns_locks_def)
  have m: "release_matches s l"
    using rows_matchD [OF I(3) assms(2) l(1)] assms(3,4) l(2) by (auto simp: release_matches_def)
  let ?s = "reset_token s t f"
  have "release_matches ?s l"
    using m by (simp add: release_matches_def)
  then have c: "snd (leave dp ?s t now) = Inr ()" "cl_frames (fst (leave dp ?s t now)) t = None"
    "cl_local (fst (leave dp ?s t now)) = cl_local s - {(fst t, fr_partition f)}"
    "cl_current (fst (leave dp ?s t now)) = (cl_current s)(t := None)"
    "cl_advisory (fst (leave dp ?s t now)) (lock_key dp (fr_partition f)) = None"
    using leave_clean [of ?s t "f\<lparr>fr_stage := Leaving\<rparr>" l dp now] err l(1) own fl
    by (simp_all add: reset_token_def)
  have e: "hold_exit dp s t now = leave dp ?s t now"
    using assms(2) by (simp add: hold_exit_def frame_of_def)
  have "\<exists>l. snd (hold_enter dp (fst (leave dp ?s t now)) t' rq uuid now') = Inr l \<and>
      al_user_id l = fst (fr_partition f) \<and> al_account_id l = snd (fr_partition f)"
    using assms(6,7) c by (intro free_account_taken [OF assms(5)]) auto
  with c show ?thesis
    unfolding e by (metis prod.collapse)
qed

section \<open>Concrete runs\<close>

definition ex_deployment :: deployment where
  "ex_deployment = \<lparr>dp_hash = (\<lambda>k. int (length k)), dp_postgres = (\<lambda>_. True)\<rparr>"

definition ex_hold :: hold_request where
  "ex_hold = \<lparr>hr_user_id = ''u'', hr_account_id = PInt 7, hr_writer_kind = ''ordinary'', hr_plan_id = None\<rparr>"

text \<open>The steps of a context from the lock of the process to the lease, and from the exit to the end.\<close>

definition entered :: "cluster \<Rightarrow> task_context \<Rightarrow> cluster" where
  "entered s t = (case enter s t ex_hold of Inr (Inr s') \<Rightarrow> s' | _ \<Rightarrow> s)"

definition taken :: "cluster \<Rightarrow> task_context \<Rightarrow> cluster" where
  "taken s t =
     (let s1 = entered s t; s2 = try_lock ex_deployment s1 t (frame_of s1 t)
      in claim ex_deployment s2 t (frame_of s2 t) ''id'' 0)"

definition given_back :: "cluster \<Rightarrow> task_context \<Rightarrow> cluster" where
  "given_back s t = fst (hold_exit ex_deployment s t 1)"

definition at_stage :: "cluster \<Rightarrow> task_context \<Rightarrow> stage \<Rightarrow> bool" where
  "at_stage s t x \<longleftrightarrow> (case cl_frames s t of None \<Rightarrow> False | Some f \<Rightarrow> fr_stage f = x)"

lemma at_stageD: "at_stage s t x \<Longrightarrow> cl_frames s t = Some (frame_of s t) \<and> fr_stage (frame_of s t) = x"
  by (auto simp: at_stage_def frame_of_def split: option.splits)

lemma locked_steps:
  assumes "cl_frames s t = None" "case enter s t ex_hold of Inr (Inr s') \<Rightarrow> True | _ \<Rightarrow> False"
    and "at_stage (entered s t) t Entered"
  shows "(hold_step ex_deployment)\<^sup>*\<^sup>* s (try_lock ex_deployment (entered s t) t (frame_of (entered s t) t))"
proof -
  have "enter s t ex_hold = Inr (Inr (entered s t))"
    using assms(2) by (auto simp: entered_def split: sum.splits)
  then have "hold_step ex_deployment s (entered s t)"
    by (rule hold_step.Enter [OF assms(1)])
  moreover have "hold_step ex_deployment (entered s t) (try_lock ex_deployment (entered s t) t (frame_of (entered s t) t))"
    using at_stageD [OF assms(3)] by (intro hold_step.Lock) auto
  ultimately show ?thesis
    by (meson converse_rtranclp_into_rtranclp r_into_rtranclp)
qed

lemma taken_steps:
  assumes "cl_frames s t = None" "case enter s t ex_hold of Inr (Inr s') \<Rightarrow> True | _ \<Rightarrow> False"
    and "at_stage (entered s t) t Entered"
    and "at_stage (try_lock ex_deployment (entered s t) t (frame_of (entered s t) t)) t Locked"
  shows "(hold_step ex_deployment)\<^sup>*\<^sup>* s (taken s t)"
  using locked_steps [OF assms(1-3)] at_stageD [OF assms(4)] hold_step.Claim unfolding taken_def Let_def
  by (metis rtranclp.rtrancl_into_rtrancl)

lemma given_back_steps:
  assumes "at_stage s t Active" "cl_nested s t = []"
  shows "(hold_step ex_deployment)\<^sup>*\<^sup>* s (given_back s t)"
proof -
  let ?dp = ex_deployment
  define s0 where "s0 = reset_token s t (frame_of s t)"
  define s1 where "s1 = release_lease s0 t (frame_of s0 t) 1"
  define s2 where "s2 = unlock_advisory ?dp s1 t (frame_of s1 t)"
  have f0: "cl_frames s0 t = Some (frame_of s0 t)" "fr_stage (frame_of s0 t) = Leaving"
    by (simp_all add: s0_def frame_of_def)
  have f1: "cl_frames s1 t = Some (frame_of s1 t)" "fr_stage (frame_of s1 t) = Released"
    using release_lease_effect [of s0 t "frame_of s0 t" 1] by (auto simp: s1_def frame_of_def)
  have f2: "cl_frames s2 t = Some (frame_of s2 t)" "fr_stage (frame_of s2 t) = Unlocked"
    using unlock_advisory_effect [of ?dp s1 t "frame_of s1 t"] by (auto simp: s2_def frame_of_def)
  have "hold_step ?dp s s0"
    using at_stageD [OF assms(1)] assms(2) unfolding s0_def by (intro hold_step.Exit) auto
  moreover have "hold_step ?dp s0 s1" "hold_step ?dp s1 s2"
    using hold_step.Release [OF f0] hold_step.Unlock [OF f1] by (simp_all add: s1_def s2_def)
  moreover have "hold_step ?dp s2 (given_back s t)"
    using hold_step.Local [OF f2]
    by (simp add: given_back_def hold_exit_def leave_def Let_def flip: s0_def s1_def s2_def)
  ultimately show ?thesis
    by (meson converse_rtranclp_into_rtranclp r_into_rtranclp)
qed

lemma hold_steps_lossy: "(hold_step dp)\<^sup>*\<^sup>* s s' \<Longrightarrow> (lossy_step dp)\<^sup>*\<^sup>* s s'"
  by (induction rule: rtranclp_induct) (auto intro: lossy_step.Step rtranclp.rtrancl_into_rtrancl)

definition ex_held :: cluster where
  "ex_held = taken initial_cluster (0, 0)"

lemma ex_held_reachable: "(hold_step ex_deployment)\<^sup>*\<^sup>* initial_cluster ex_held"
  unfolding ex_held_def by (rule taken_steps) code_simp+

text \<open>
  A task that outlives its block keeps the lease. In a reachable state, with no failure at all, a child
  task of the first process still has generation 1 as its current lease, passes the check of its
  authority and enters a nested block with it, while another process holds generation 2 of the same
  account.
\<close>

definition ex_orphan :: cluster where
  "ex_orphan = taken (given_back (spawn ex_held (0, 0) (0, 1)) (0, 0)) (1, 0)"

theorem child_task_keeps_authority:
  "(hold_step ex_deployment)\<^sup>*\<^sup>* initial_cluster ex_orphan \<and>
   (\<exists>l l'. current_lease ex_orphan (0, 1) = Inr l \<and> assert_current ex_orphan (0, 1) l = Inr () \<and>
      enter ex_orphan (0, 1) ex_hold = Inr (Inl l) \<and>
      current_lease ex_orphan (1, 0) = Inr l' \<and> al_user_id l = al_user_id l' \<and> al_account_id l = al_account_id l' \<and>
      al_generation l = 1 \<and> al_generation l' = 2)"
proof
  have "hold_step ex_deployment ex_held (spawn ex_held (0, 0) (0, 1))"
    by (rule hold_step.Spawn) code_simp+
  moreover have "(hold_step ex_deployment)\<^sup>*\<^sup>* (spawn ex_held (0, 0) (0, 1))
      (given_back (spawn ex_held (0, 0) (0, 1)) (0, 0))"
    by (rule given_back_steps) code_simp+
  moreover have "(hold_step ex_deployment)\<^sup>*\<^sup>* (given_back (spawn ex_held (0, 0) (0, 1)) (0, 0)) ex_orphan"
    unfolding ex_orphan_def by (rule taken_steps) code_simp+
  ultimately show "(hold_step ex_deployment)\<^sup>*\<^sup>* initial_cluster ex_orphan"
    using ex_held_reachable by (meson r_into_rtranclp rtranclp_trans)
  have "case (current_lease ex_orphan (0, 1), current_lease ex_orphan (1, 0)) of
      (Inr l, Inr l') \<Rightarrow> is_ok (assert_current ex_orphan (0, 1) l) \<and>
        (case enter ex_orphan (0, 1) ex_hold of Inr (Inl x) \<Rightarrow> x = l | _ \<Rightarrow> False) \<and> al_user_id l = al_user_id l' \<and>
        al_account_id l = al_account_id l' \<and> al_generation l = 1 \<and> al_generation l' = 2
    | _ \<Rightarrow> False"
    by code_simp
  then show "\<exists>l l'. current_lease ex_orphan (0, 1) = Inr l \<and> assert_current ex_orphan (0, 1) l = Inr () \<and>
      enter ex_orphan (0, 1) ex_hold = Inr (Inl l) \<and>
      current_lease ex_orphan (1, 0) = Inr l' \<and> al_user_id l = al_user_id l' \<and> al_account_id l = al_account_id l' \<and>
      al_generation l = 1 \<and> al_generation l' = 2"
    by (auto simp: is_ok_def split: sum.splits)
qed

section \<open>Witnesses\<close>

text \<open>A child task in a nested block under the lease of its parent.\<close>

definition ex_family :: cluster where
  "ex_family = nest (spawn ex_held (0, 0) (0, 1)) (0, 1) (the (cl_current ex_held (0, 0)))"

lemma joined_idle: "cl_current s = (\<lambda>_. None) \<Longrightarrow> joined s"
  by (simp add: joined_def)

lemma joined_spawn: "joined s \<Longrightarrow> fst c = fst t \<Longrightarrow> joined (spawn s t c)"
  unfolding joined_def by (metis current_simps(4) fun_upd_apply spawn_simps(1))

lemma ex_held_joined: "(joined_step ex_deployment)\<^sup>*\<^sup>* initial_cluster ex_held \<and> joined ex_held"
proof -
  let ?dp = ex_deployment and ?t = "(0, 0)"
  define s1 where "s1 = entered initial_cluster ?t"
  define s2 where "s2 = try_lock ?dp s1 ?t (frame_of s1 ?t)"
  have held: "ex_held = claim ?dp s2 ?t (frame_of s2 ?t) ''id'' 0"
    by (simp add: ex_held_def taken_def Let_def s1_def s2_def)
  have st: "at_stage s1 ?t Entered" "at_stage s2 ?t Locked" unfolding s1_def s2_def by code_simp+
  have ok: "case enter initial_cluster ?t ex_hold of Inr (Inr s') \<Rightarrow> True | _ \<Rightarrow> False" by code_simp
  have e: "enter initial_cluster ?t ex_hold = Inr (Inr s1)"
    using ok by (auto simp: s1_def entered_def split: sum.splits)
  have c0: "cl_current initial_cluster = (\<lambda>_. None)" by (simp add: initial_cluster_def)
  have c1: "cl_current s1 = (\<lambda>_. None)" using enter_new [OF e] c0 by auto
  have c2: "cl_current s2 = (\<lambda>_. None)" using c1 by (simp add: s2_def)
  have h: "hold_step ?dp initial_cluster s1" "hold_step ?dp s1 s2" "hold_step ?dp s2 ex_held"
    using hold_step.Enter [OF _ e] hold_step.Lock [of s1 ?t] hold_step.Claim [of s2 ?t]
      at_stageD [OF st(1)] at_stageD [OF st(2)]
    by (auto simp: initial_cluster_def s2_def held)
  obtain l where l: "cl_frames ex_held = (cl_frames s2)(?t \<mapsto> (frame_of s2 ?t)\<lparr>fr_lease := Some l, fr_stage := Active\<rparr>)"
    "cl_current ex_held = (cl_current s2)(?t \<mapsto> l)"
    using claim_effect [of ?dp s2 ?t "frame_of s2 ?t" "''id''" 0] unfolding held [symmetric] by blast
  have "joined ex_held"
    unfolding joined_def using l c2 by (intro allI impI exI [of _ ?t]) (auto split: if_splits)
  with h joined_idle [OF c1] joined_idle [OF c2] show ?thesis
    by (meson joined_step.Joined converse_rtranclp_into_rtranclp r_into_rtranclp)
qed

lemma ex_family_reachable: "(joined_step ex_deployment)\<^sup>*\<^sup>* initial_cluster ex_family"
proof -
  let ?s = "spawn ex_held (0, 0) (0, 1)"
  let ?l = "the (cl_current ex_held (0, 0))"
  have "case enter ?s (0, 1) ex_hold of Inr (Inl l) \<Rightarrow> l = ?l | _ \<Rightarrow> False" by code_simp
  then have "enter ?s (0, 1) ex_hold = Inr (Inl ?l)" by (auto split: sum.splits)
  then have n: "hold_step ex_deployment ?s ex_family" unfolding ex_family_def by (rule hold_step.Nest)
  have sp: "hold_step ex_deployment ex_held ?s" by (rule hold_step.Spawn) code_simp+
  have j: "joined ?s" using ex_held_joined by (intro joined_spawn) simp_all
  have f: "joined ex_family" using j by (simp add: joined_def ex_family_def)
  show ?thesis
    using ex_held_joined n sp j f by (meson joined_step.Joined rtranclp.rtrancl_into_rtrancl)
qed

theorem account_writers_exclusive_witness:
  "\<exists>l. inside ex_family (0, 0) l \<and> inside ex_family (0, 1) l \<and>
       \<not> (\<exists>l'. inside ex_family (1, 0) l' \<and> al_user_id l' = al_user_id l \<and> al_account_id l' = al_account_id l)"
proof -
  let ?l = "the (cl_current ex_held (0, 0))"
  have "at_stage ex_family (0, 0) Active" "fr_lease (frame_of ex_family (0, 0)) = Some ?l" by code_simp+
  then have o': "inside ex_family (0, 0) ?l" "inside ex_family (0, 1) ?l"
    using at_stageD [of ex_family "(0, 0)" Active] by (auto simp: inside_def owns_lease_def ex_family_def)
  have "\<not> (inside ex_family (1, 0) l' \<and> al_user_id l' = al_user_id ?l \<and> al_account_id l' = al_account_id ?l)" for l'
    using account_writers_exclusive [OF ex_family_reachable o'(1), of "(1, 0)" l'] by (auto simp: ex_deployment_def)
  with o' show ?thesis by blast
qed

theorem exit_frees_account_witness:
  "snd (hold_exit ex_deployment ex_held (0, 0) 1) = Inr ()"
proof -
  have a: "at_stage ex_held (0, 0) Active"
    by code_simp
  have "cl_current ex_held (1, 0) = None" "(1, fr_partition (frame_of ex_held (0, 0))) \<notin> cl_local ex_held"
    "hold_arguments ex_hold = Inr (fr_partition (frame_of ex_held (0, 0)), None)"
    by code_simp+
  then show ?thesis
    using exit_frees_account [OF ex_held_reachable, of "(0, 0)" "frame_of ex_held (0, 0)" ex_hold None "(1, 0)"]
      at_stageD [OF a] by (simp add: ex_deployment_def)
qed

definition ex_cut :: cluster where
  "ex_cut = drop_connection ex_held (0, 0)"

definition ex_overlap :: cluster where
  "ex_overlap = taken ex_cut (1, 0)"

lemma ex_overlap_reachable:
  "(lossy_step ex_deployment)\<^sup>*\<^sup>* initial_cluster ex_cut" "(lossy_step ex_deployment)\<^sup>*\<^sup>* initial_cluster ex_overlap"
proof -
  show c: "(lossy_step ex_deployment)\<^sup>*\<^sup>* initial_cluster ex_cut"
    using hold_steps_lossy [OF ex_held_reachable] lossy_step.Lost [of ex_deployment ex_held "(0, 0)"]
    by (simp add: ex_cut_def)
  have "(hold_step ex_deployment)\<^sup>*\<^sup>* ex_cut ex_overlap"
    unfolding ex_overlap_def by (rule taken_steps) code_simp+
  then show "(lossy_step ex_deployment)\<^sup>*\<^sup>* initial_cluster ex_overlap"
    using c hold_steps_lossy by (meson rtranclp_trans)
qed

theorem overlap_is_fenced_witness:
  "\<exists>l. fr_lease (frame_of ex_overlap (0, 0)) = Some l \<and>
     release_generation ex_overlap l True 5 =
       (ex_overlap, Inl (fence_lost ''Account execution generation changed before release''))"
proof -
  have a: "at_stage ex_overlap (0, 0) Active" "at_stage ex_overlap (1, 0) Active"
    by code_simp+
  have "case (fr_lease (frame_of ex_overlap (0, 0)), fr_lease (frame_of ex_overlap (1, 0))) of
      (Some l, Some l') \<Rightarrow> al_generation l < al_generation l' | _ \<Rightarrow> False"
    by code_simp
  then obtain l l' where l: "fr_lease (frame_of ex_overlap (0, 0)) = Some l"
      "fr_lease (frame_of ex_overlap (1, 0)) = Some l'" "al_generation l < al_generation l'"
    by (auto split: option.splits)
  have "fr_partition (frame_of ex_overlap (0, 0)) = fr_partition (frame_of ex_overlap (1, 0))"
    by code_simp
  then show ?thesis
    using overlap_is_fenced [OF ex_overlap_reachable(2), of "(0, 0)" "(1, 0)" "frame_of ex_overlap (0, 0)" l
        "frame_of ex_overlap (1, 0)" l' ex_overlap 5] at_stageD [OF a(1)] at_stageD [OF a(2)] l
    by (simp add: ex_deployment_def)
qed

lemma taken_claims:
  assumes "at_stage (try_lock ex_deployment (entered s t) t (frame_of (entered s t) t)) t Locked"
    and "case cl_current (taken s t) t of None \<Rightarrow> False | Some l \<Rightarrow> al_generation l = g"
    and "fr_partition (frame_of (try_lock ex_deployment (entered s t) t (frame_of (entered s t) t)) t) = p"
  shows "claims_lease ex_deployment p (try_lock ex_deployment (entered s t) t (frame_of (entered s t) t)) (taken s t) g"
  unfolding claims_lease_def
  using at_stageD [OF assms(1)] assms(2,3)
  by (auto simp: taken_def Let_def ex_deployment_def split: option.splits intro!: exI)

theorem generations_strictly_increase_witness:
  "\<exists>s0 s2. claims_lease ex_deployment (''u'', 7) s0 ex_held 1 \<and> (lossy_step ex_deployment)\<^sup>*\<^sup>* ex_held s2 \<and>
     claims_lease ex_deployment (''u'', 7) s2 ex_overlap 2 \<and> (1 :: int) < 2"
proof -
  have a: "claims_lease ex_deployment (''u'', 7)
      (try_lock ex_deployment (entered initial_cluster (0, 0)) (0, 0) (frame_of (entered initial_cluster (0, 0)) (0, 0)))
      ex_held 1"
    unfolding ex_held_def by (rule taken_claims) code_simp+
  have b: "claims_lease ex_deployment (''u'', 7)
      (try_lock ex_deployment (entered ex_cut (1, 0)) (1, 0) (frame_of (entered ex_cut (1, 0)) (1, 0))) ex_overlap 2"
    unfolding ex_overlap_def by (rule taken_claims) code_simp+
  have "(hold_step ex_deployment)\<^sup>*\<^sup>* ex_cut
      (try_lock ex_deployment (entered ex_cut (1, 0)) (1, 0) (frame_of (entered ex_cut (1, 0)) (1, 0)))"
    by (rule locked_steps) code_simp+
  moreover have "lossy_step ex_deployment ex_held ex_cut"
    unfolding ex_cut_def by (rule lossy_step.Lost)
  ultimately have c: "(lossy_step ex_deployment)\<^sup>*\<^sup>* ex_held
      (try_lock ex_deployment (entered ex_cut (1, 0)) (1, 0) (frame_of (entered ex_cut (1, 0)) (1, 0)))"
    using hold_steps_lossy by (meson converse_rtranclp_into_rtranclp)
  from generations_strictly_increase [OF a c b] a b c show ?thesis
    by blast
qed

end
