(* ===== verification/Rebalance_Plans.thy ===== *)
theory Rebalance_Plans
  imports Py_Prelude
begin

text \<open>
  Durable account rebalance plans: \<open>rebalance_store.py\<close>, and the triggers of the database that guard the
  rows (\<open>0089_account_execution_fence.py\<close>). A worker claims a plan, which gives it a lease with the next
  fence generation, works through the legs of the plan, and ends it. An operator resolves a failed plan.

  \<^item> Every operation is one transaction. When it raises, or returns before its commit, the tables are as
    they were before.
  \<^item> A row trigger is a relation between the old and the new row; an update it rejects raises. The deferred
    check of a terminal plan runs at the commit, on the rows the transaction changed.
  \<^item> The digest and the size of canonical JSON are parameters. Reading the signal of a leg and the audit
    report are not modelled.
\<close>

section \<open>Rows\<close>

datatype plan_phase = P_exit | P_account_refresh | P_entry | P_complete | P_failed | P_expired

datatype plan_status =
    S_pending | S_running | S_blocked | S_completed | S_degraded | S_failed | S_expired | S_cancelled

datatype leg_status = L_pending | L_submitted | L_partial | L_confirmed | L_rejected | L_failed | L_skipped

definition phase_name :: "plan_phase \<Rightarrow> string" where
  "phase_name x =
     (case x of P_exit \<Rightarrow> ''exit'' | P_account_refresh \<Rightarrow> ''account_refresh'' | P_entry \<Rightarrow> ''entry''
      | P_complete \<Rightarrow> ''complete'' | P_failed \<Rightarrow> ''failed'' | P_expired \<Rightarrow> ''expired'')"

definition status_name :: "plan_status \<Rightarrow> string" where
  "status_name x =
     (case x of S_pending \<Rightarrow> ''pending'' | S_running \<Rightarrow> ''running'' | S_blocked \<Rightarrow> ''blocked''
      | S_completed \<Rightarrow> ''completed'' | S_degraded \<Rightarrow> ''degraded'' | S_failed \<Rightarrow> ''failed''
      | S_expired \<Rightarrow> ''expired'' | S_cancelled \<Rightarrow> ''cancelled'')"

definition leg_status_name :: "leg_status \<Rightarrow> string" where
  "leg_status_name x =
     (case x of L_pending \<Rightarrow> ''pending'' | L_submitted \<Rightarrow> ''submitted'' | L_partial \<Rightarrow> ''partial''
      | L_confirmed \<Rightarrow> ''confirmed'' | L_rejected \<Rightarrow> ''rejected'' | L_failed \<Rightarrow> ''failed'' | L_skipped \<Rightarrow> ''skipped'')"

definition terminal_status :: "plan_status \<Rightarrow> bool" where
  "terminal_status x \<longleftrightarrow> x \<in> {S_cancelled, S_completed, S_degraded, S_expired, S_failed}"

definition terminal_leg :: "leg_status \<Rightarrow> bool" where
  "terminal_leg x \<longleftrightarrow> x \<in> {L_confirmed, L_failed, L_rejected, L_skipped}"

text \<open>The content of a plan that a command must repeat and that never changes.\<close>

record plan_contract =
  pc_account_plan_id :: string
  pc_model_rebalance_id :: string
  pc_user_id :: string
  pc_binding_id :: int
  pc_broker_account_id :: int
  pc_strategy_id :: string
  pc_data_use_scope :: string
  pc_provider_authority :: string
  pc_decision_cutoff :: time
  pc_execute_not_before :: time
  pc_execution_session :: string
  pc_expires_at :: time
  pc_execution_policy :: pydict
  pc_broker_route :: pydict
  pc_execution_policy_sha256 :: string
  pc_broker_route_sha256 :: string
  pc_content_sha256 :: string
  pc_execution_leg_count :: int
  pc_intentional_cash_slots :: int

record rebalance_plan =
  rp_contract :: plan_contract
  rp_model_leg_count :: int
  rp_phase :: plan_phase
  rp_status :: plan_status
  rp_fence_generation :: int
  rp_lease_owner :: "string option"
  rp_lease_expires_at :: "time option"
  rp_progress_deadline_at :: time
  rp_last_progress_at :: "time option"
  rp_last_error_code :: "string option"
  rp_last_error_detail :: "string option"
  rp_completion_generation :: "int option"
  rp_terminal_targets :: "string option"
  rp_created_at :: time
  rp_updated_at :: time

record plan_leg =
  lg_account_plan_id :: string
  lg_user_id :: string
  lg_broker_account_id :: int
  lg_model_sequence :: int
  lg_command_sequence :: "int option"
  lg_model_leg_id :: string
  lg_signal_sha256 :: string
  lg_plan_leg_id :: string
  lg_instr_id :: int
  lg_external_signal_id :: string
  lg_symbol :: string
  lg_phase :: string
  lg_action :: string
  lg_disposition :: string
  lg_rank_position :: "rat option"
  lg_allocation_hint :: rat
  lg_required :: bool
  lg_depends_on :: "int list"
  lg_reason_code :: string
  lg_status :: leg_status
  lg_last_progress_at :: "time option"
  lg_last_error_code :: "string option"
  lg_frozen_target :: "rat option"
  lg_target_generation :: "int option"
  lg_target_frozen_at :: "time option"

record plan_resolution =
  rs_resolution_id :: string
  rs_account_plan_id :: string
  rs_user_id :: string
  rs_broker_account_id :: int
  rs_plan_status :: plan_status
  rs_failure_code :: "string option"
  rs_resolution_type :: string
  rs_reason :: string
  rs_evidence :: pydict
  rs_resolved_by :: string
  rs_resolved_at :: time

record audit_row =
  au_user_id :: string
  au_account_id :: int
  au_action :: string
  au_req :: pydict
  au_resp :: pydict

record plan_db =
  db_plans :: "rebalance_plan list"
  db_legs :: "plan_leg list"
  db_resolutions :: "plan_resolution list"
  db_audit :: "audit_row list"

abbreviation plan_id :: "rebalance_plan \<Rightarrow> string" where
  "plan_id p \<equiv> pc_account_plan_id (rp_contract p)"

abbreviation plan_user :: "rebalance_plan \<Rightarrow> string" where
  "plan_user p \<equiv> pc_user_id (rp_contract p)"

abbreviation plan_account :: "rebalance_plan \<Rightarrow> int" where
  "plan_account p \<equiv> pc_broker_account_id (rp_contract p)"

definition plan_contract_error :: "string \<Rightarrow> py_error" where
  "plan_contract_error msg = CustomError ''RebalancePlanContractError'' msg"

definition lease_lost :: py_error where
  "lease_lost = CustomError ''RebalanceLeaseLostError'' ''Rebalance plan generation is no longer current''"

section \<open>Guards of the database\<close>

definition phase_status_ok :: "plan_phase \<Rightarrow> plan_status \<Rightarrow> bool" where
  "phase_status_ok ph st \<longleftrightarrow>
     (ph = P_exit \<and> st \<in> {S_pending, S_running, S_blocked}) \<or>
     (ph \<in> {P_account_refresh, P_entry} \<and> st \<in> {S_running, S_blocked}) \<or>
     (ph = P_complete \<and> st \<in> {S_completed, S_degraded}) \<or>
     (ph = P_failed \<and> st \<in> {S_failed, S_cancelled}) \<or>
     (ph = P_expired \<and> st = S_expired)"

definition terminal_fence_ok :: "rebalance_plan \<Rightarrow> bool" where
  "terminal_fence_ok p \<longleftrightarrow>
     (if rp_status p \<in> {S_completed, S_degraded}
      then (case (rp_completion_generation p, rp_terminal_targets p) of
              (Some g, Some d) \<Rightarrow> 0 < g \<and> length d = 64 | _ \<Rightarrow> False)
      else rp_completion_generation p = None \<and> rp_terminal_targets p = None)"

definition plan_transition_ok :: "rebalance_plan \<Rightarrow> rebalance_plan \<Rightarrow> bool" where
  "plan_transition_ok old new \<longleftrightarrow>
     (rp_phase new = rp_phase old \<and>
        ((rp_status old = S_pending \<and> rp_status new \<in> {S_pending, S_running, S_blocked}) \<or>
         (rp_status old = S_running \<and> rp_status new \<in> {S_running, S_blocked}) \<or>
         (rp_status old = S_blocked \<and> rp_status new \<in> {S_blocked, S_running}))) \<or>
     (rp_phase old = P_exit \<and> rp_status old = S_running \<and>
        rp_phase new = P_account_refresh \<and> rp_status new = S_running) \<or>
     (rp_phase old = P_account_refresh \<and> rp_status old = S_running \<and>
        rp_phase new = P_entry \<and> rp_status new = S_running) \<or>
     (rp_phase old \<in> {P_exit, P_entry} \<and> rp_status old = S_running \<and>
        rp_phase new = P_complete \<and> rp_status new \<in> {S_completed, S_degraded}) \<or>
     (rp_phase old \<in> {P_exit, P_account_refresh, P_entry} \<and> rp_status old \<in> {S_pending, S_running, S_blocked} \<and>
        rp_phase new = P_failed \<and> rp_status new \<in> {S_failed, S_cancelled}) \<or>
     (rp_phase old \<in> {P_exit, P_account_refresh, P_entry} \<and> rp_status old \<in> {S_pending, S_running, S_blocked} \<and>
        rp_phase new = P_expired \<and> rp_status new = S_expired)"

definition protect_plan :: "rebalance_plan \<Rightarrow> rebalance_plan \<Rightarrow> bool" where
  "protect_plan old new \<longleftrightarrow>
     phase_status_ok (rp_phase new) (rp_status new) \<and> \<not> terminal_status (rp_status old) \<and> terminal_fence_ok new \<and>
     rp_contract new = rp_contract old \<and> rp_model_leg_count new = rp_model_leg_count old \<and>
     rp_progress_deadline_at new = rp_progress_deadline_at old \<and> rp_created_at new = rp_created_at old \<and>
     plan_transition_ok old new"

definition pristine_plan :: "rebalance_plan \<Rightarrow> bool" where
  "pristine_plan p \<longleftrightarrow>
     rp_phase p = P_exit \<and> rp_status p = S_pending \<and> rp_fence_generation p = 0 \<and> rp_lease_owner p = None \<and>
     rp_lease_expires_at p = None \<and> rp_last_progress_at p = None \<and> rp_last_error_code p = None \<and>
     rp_last_error_detail p = None \<and> rp_completion_generation p = None \<and> rp_terminal_targets p = None"

definition leg_transition_ok :: "leg_status \<Rightarrow> leg_status \<Rightarrow> bool" where
  "leg_transition_ok old new \<longleftrightarrow>
     old = L_pending \<or>
     (old = L_submitted \<and> new \<in> {L_submitted, L_partial, L_confirmed, L_rejected, L_failed}) \<or>
     (old = L_partial \<and> new \<in> {L_partial, L_confirmed, L_rejected, L_failed})"

definition target_fence_ok :: "plan_leg \<Rightarrow> plan_leg \<Rightarrow> bool" where
  "target_fence_ok old new \<longleftrightarrow>
     (if lg_frozen_target old \<noteq> None
      then lg_frozen_target new = lg_frozen_target old \<and> lg_target_generation new = lg_target_generation old \<and>
           lg_target_frozen_at new = lg_target_frozen_at old
      else (case (lg_frozen_target new, lg_target_generation new, lg_target_frozen_at new) of
              (None, None, None) \<Rightarrow> True | (Some q, Some g, Some _) \<Rightarrow> 0 \<le> q \<and> 0 < g | _ \<Rightarrow> False))"

text \<open>The columns of a leg that progress may change; every other one is frozen.\<close>

definition same_leg_content :: "plan_leg \<Rightarrow> plan_leg \<Rightarrow> bool" where
  "same_leg_content old new \<longleftrightarrow>
     new\<lparr>lg_status := lg_status old, lg_last_progress_at := lg_last_progress_at old,
         lg_last_error_code := lg_last_error_code old, lg_frozen_target := lg_frozen_target old,
         lg_target_generation := lg_target_generation old, lg_target_frozen_at := lg_target_frozen_at old\<rparr> = old"

definition protect_leg :: "plan_leg \<Rightarrow> plan_leg \<Rightarrow> bool" where
  "protect_leg old new \<longleftrightarrow>
     \<not> terminal_leg (lg_status old) \<and> target_fence_ok old new \<and> same_leg_content old new \<and>
     leg_transition_ok (lg_status old) (lg_status new)"

definition pristine_leg :: "plan_leg \<Rightarrow> bool" where
  "pristine_leg l \<longleftrightarrow>
     lg_status l = L_pending \<and> lg_last_progress_at l = None \<and> lg_last_error_code l = None \<and>
     lg_frozen_target l = None \<and> lg_target_generation l = None \<and> lg_target_frozen_at l = None"

definition legs_of :: "plan_db \<Rightarrow> string \<Rightarrow> plan_leg list" where
  "legs_of db pid = filter (\<lambda>l. lg_account_plan_id l = pid) (db_legs db)"

definition selected :: "plan_leg \<Rightarrow> bool" where
  "selected l \<longleftrightarrow> lg_disposition l = ''selected''"

definition HOLD_REASONS :: "string list" where
  "HOLD_REASONS = [''entry_authority_disabled_hold_preserved'', ''manual_approval_required_hold_preserved'']"

definition needs_target :: "plan_leg \<Rightarrow> bool" where
  "needs_target l \<longleftrightarrow> selected l \<or> lg_reason_code l \<in> set HOLD_REASONS"

definition terminal_coherent :: "plan_db \<Rightarrow> rebalance_plan \<Rightarrow> bool" where
  "terminal_coherent db p \<longleftrightarrow>
     (let legs = legs_of db (plan_id p); st = rp_status p in
      terminal_status st \<longrightarrow>
        list_all (\<lambda>l. terminal_leg (lg_status l)) legs \<and>
        (st \<in> {S_completed, S_degraded} \<longrightarrow> list_all (\<lambda>l. needs_target l \<longrightarrow> lg_frozen_target l \<noteq> None) legs) \<and>
        (st = S_completed \<longrightarrow>
           list_all (\<lambda>l. selected l \<longrightarrow> lg_status l = L_confirmed) legs \<and>
           list_all (\<lambda>l. lg_disposition l = ''rejected'' \<longrightarrow> lg_status l = L_skipped) legs) \<and>
        (st = S_degraded \<longrightarrow>
           list_all (\<lambda>l. selected l \<and> lg_phase l \<in> {''exit'', ''reduce''} \<longrightarrow> lg_status l = L_confirmed) legs \<and>
           list_all (\<lambda>l. lg_disposition l = ''rejected'' \<longrightarrow> lg_status l = L_skipped) legs \<and>
           list_ex (\<lambda>l. selected l \<and> lg_phase l = ''entry'' \<and> lg_status l \<in> {L_rejected, L_failed, L_skipped}) legs))"

section \<open>Transactions\<close>

definition save_plan :: "plan_db \<Rightarrow> rebalance_plan \<Rightarrow> rebalance_plan \<Rightarrow> plan_db res" where
  "save_plan db old new =
     (if new = old then Inr db
      else if protect_plan old new
      then Inr (db\<lparr>db_plans := update_where (\<lambda>p. plan_id p = plan_id old) (\<lambda>_. new) (db_plans db)\<rparr>)
      else Inl DatabaseError)"

definition is_leg :: "plan_leg \<Rightarrow> plan_leg \<Rightarrow> bool" where
  "is_leg k l \<longleftrightarrow>
     lg_account_plan_id l = lg_account_plan_id k \<and> lg_user_id l = lg_user_id k \<and>
     lg_broker_account_id l = lg_broker_account_id k \<and> lg_model_sequence l = lg_model_sequence k"

definition save_leg :: "plan_db \<Rightarrow> plan_leg \<Rightarrow> plan_leg \<Rightarrow> plan_db res" where
  "save_leg db old new =
     (if new = old then Inr db
      else if protect_leg old new
      then Inr (db\<lparr>db_legs := update_where (is_leg old) (\<lambda>_. new) (db_legs db)\<rparr>)
      else Inl DatabaseError)"

text \<open>The deferred check looks at the rows the transaction wrote.\<close>

definition commit_ok :: "plan_db \<Rightarrow> plan_db \<Rightarrow> bool" where
  "commit_ok db0 db \<longleftrightarrow> list_all (\<lambda>p. p \<in> set (db_plans db0) \<or> terminal_coherent db p) (db_plans db)"

definition transaction :: "plan_db \<Rightarrow> (plan_db \<times> 'a) res \<Rightarrow> plan_db \<times> 'a res" where
  "transaction db0 r =
     (case r of
        Inl e \<Rightarrow> (db0, Inl e)
      | Inr (db, x) \<Rightarrow> if commit_ok db0 db then (db, Inr x) else (db0, Inl IntegrityError))"

definition append_audit :: "plan_db \<Rightarrow> rebalance_plan \<Rightarrow> string \<Rightarrow> pydict \<Rightarrow> pydict \<Rightarrow> plan_db" where
  "append_audit db p action req resp =
     db\<lparr>db_audit := db_audit db @
        [\<lparr>au_user_id = plan_user p, au_account_id = plan_account p, au_action = action, au_req = req,
          au_resp = resp\<rparr>]\<rparr>"

definition locked_plan :: "plan_db \<Rightarrow> string \<Rightarrow> rebalance_plan res" where
  "locked_plan db pid =
     (case find (\<lambda>p. plan_id p = pid) (db_plans db) of
        None \<Rightarrow> Inl (plan_contract_error (''Account rebalance plan '' @ pid @ '' does not exist''))
      | Some p \<Rightarrow> Inr p)"

section \<open>Commands\<close>

record command_leg =
  cg_plan_leg_id :: string
  cg_sequence :: int
  cg_phase :: string
  cg_model_leg_id :: string
  cg_signal_sha256 :: string
  cg_external_signal_id :: string
  cg_symbol :: string
  cg_rank :: "rat option"
  cg_allocation_hint :: rat
  cg_required :: bool
  cg_depends_on :: "int list"

record rebalance_command =
  cm_account_plan_id :: string
  cm_model_rebalance_id :: string
  cm_user_id :: string
  cm_binding_id :: int
  cm_broker_account_id :: int
  cm_strategy_id :: string
  cm_data_use_scope :: string
  cm_provider_authority :: string
  cm_decision_cutoff :: time
  cm_execute_not_before :: time
  cm_execution_session :: string
  cm_expires_at :: time
  cm_execution_policy :: pydict
  cm_broker_route :: pydict
  cm_content_sha256 :: string
  cm_expected_leg_count :: int
  cm_intentional_cash_slots :: int
  cm_legs :: "command_leg list"

record json_codec =
  jc_hash :: "pydict \<Rightarrow> string"
  jc_size :: "pydict \<Rightarrow> nat"

definition submitted_contract :: "json_codec \<Rightarrow> rebalance_command \<Rightarrow> plan_contract" where
  "submitted_contract jc c =
     \<lparr>pc_account_plan_id = cm_account_plan_id c, pc_model_rebalance_id = cm_model_rebalance_id c,
      pc_user_id = cm_user_id c, pc_binding_id = cm_binding_id c, pc_broker_account_id = cm_broker_account_id c,
      pc_strategy_id = cm_strategy_id c, pc_data_use_scope = cm_data_use_scope c,
      pc_provider_authority = cm_provider_authority c, pc_decision_cutoff = cm_decision_cutoff c,
      pc_execute_not_before = cm_execute_not_before c, pc_execution_session = cm_execution_session c,
      pc_expires_at = cm_expires_at c, pc_execution_policy = cm_execution_policy c,
      pc_broker_route = cm_broker_route c, pc_execution_policy_sha256 = jc_hash jc (cm_execution_policy c),
      pc_broker_route_sha256 = jc_hash jc (cm_broker_route c), pc_content_sha256 = cm_content_sha256 c,
      pc_execution_leg_count = cm_expected_leg_count c, pc_intentional_cash_slots = cm_intentional_cash_slots c\<rparr>"

definition durable_leg :: "plan_leg \<Rightarrow> command_leg" where
  "durable_leg l =
     \<lparr>cg_plan_leg_id = lg_plan_leg_id l, cg_sequence = the (lg_command_sequence l), cg_phase = lg_phase l,
      cg_model_leg_id = lg_model_leg_id l, cg_signal_sha256 = lg_signal_sha256 l,
      cg_external_signal_id = lg_external_signal_id l, cg_symbol = lg_symbol l, cg_rank = lg_rank_position l,
      cg_allocation_hint = lg_allocation_hint l, cg_required = lg_required l, cg_depends_on = lg_depends_on l\<rparr>"

definition durable_legs :: "plan_db \<Rightarrow> rebalance_command \<Rightarrow> command_leg list" where
  "durable_legs db c =
     map durable_leg (sort_key (\<lambda>l. the (lg_command_sequence l))
       (filter (\<lambda>l. lg_account_plan_id l = cm_account_plan_id c \<and> lg_user_id l = cm_user_id c \<and>
                    lg_broker_account_id l = cm_broker_account_id c \<and> lg_command_sequence l \<noteq> None) (db_legs db)))"

definition validate_command :: "json_codec \<Rightarrow> plan_db \<Rightarrow> rebalance_plan \<Rightarrow> rebalance_command \<Rightarrow> unit res" where
  "validate_command jc db p c =
     (if rp_contract p \<noteq> submitted_contract jc c
      then Inl (plan_contract_error (''Rebalance command '' @ cm_account_plan_id c @ '' differs from durable plan''))
      else if durable_legs db c \<noteq> cm_legs c
      then Inl (plan_contract_error (''Rebalance command '' @ cm_account_plan_id c @ '' leg content changed''))
      else Inr ())"

section \<open>Ending overdue plans\<close>

definition fail_open_legs :: "plan_db \<Rightarrow> string \<Rightarrow> time \<Rightarrow> string \<Rightarrow> plan_db" where
  "fail_open_legs db pid now code =
     db\<lparr>db_legs := update_where (\<lambda>l. lg_account_plan_id l = pid \<and> \<not> terminal_leg (lg_status l))
        (\<lambda>l. l\<lparr>lg_status := L_failed, lg_last_progress_at := Some now, lg_last_error_code := Some code\<rparr>)
        (db_legs db)\<rparr>"

definition transition_request :: "rebalance_plan \<Rightarrow> pydict" where
  "transition_request p =
     [(''account_plan_id'', PStr (plan_id p)), (''from_phase'', PStr (phase_name (rp_phase p))),
      (''from_status'', PStr (status_name (rp_status p)))]"

definition transition_response ::
    "plan_phase \<Rightarrow> plan_status \<Rightarrow> string option \<Rightarrow> int \<Rightarrow> pydict" where
  "transition_response ph st code g =
     [(''to_phase'', PStr (phase_name ph)), (''to_status'', PStr (status_name st)), (''error_code'', opt_str code),
      (''fence_generation'', PInt g)]"

definition ended_plan ::
    "rebalance_plan \<Rightarrow> plan_phase \<Rightarrow> plan_status \<Rightarrow> string \<Rightarrow> string \<Rightarrow> time \<Rightarrow> rebalance_plan" where
  "ended_plan p ph st code detail now =
     p\<lparr>rp_phase := ph, rp_status := st, rp_last_progress_at := Some now, rp_last_error_code := Some code,
       rp_last_error_detail := Some detail, rp_lease_owner := None, rp_lease_expires_at := None,
       rp_updated_at := now\<rparr>"

definition end_plan ::
    "plan_db \<Rightarrow> rebalance_plan \<Rightarrow> plan_phase \<Rightarrow> plan_status \<Rightarrow> string \<Rightarrow> string \<Rightarrow> time \<Rightarrow> plan_db res" where
  "end_plan db p ph st code detail now =
     res_bind (save_plan db p (ended_plan p ph st code detail now)) (\<lambda>db1.
       Inr (append_audit (fail_open_legs db1 (plan_id p) now code) p ''rebalance.plan.transition''
              (transition_request p) (transition_response ph st (Some code) (rp_fence_generation p))))"

definition has_inflight :: "plan_db \<Rightarrow> rebalance_plan \<Rightarrow> bool" where
  "has_inflight db p \<longleftrightarrow> list_ex (\<lambda>l. selected l \<and> lg_status l \<in> {L_submitted, L_partial}) (legs_of db (plan_id p))"

definition expired_status :: "plan_db \<Rightarrow> rebalance_plan \<Rightarrow> plan_status" where
  "expired_status db p = (if has_inflight db p then S_failed else S_expired)"

definition expire_locked_plan :: "plan_db \<Rightarrow> rebalance_plan \<Rightarrow> time \<Rightarrow> plan_db res" where
  "expire_locked_plan db p now =
     (if has_inflight db p
      then end_plan db p P_failed S_failed ''plan_expired_with_inflight_execution''
             ''Plan expired with submitted or partially filled execution requiring operator resolution'' now
      else end_plan db p P_expired S_expired ''plan_expired''
             ''Plan expiry elapsed before terminal completion'' now)"

definition fail_deadline_locked_plan :: "plan_db \<Rightarrow> rebalance_plan \<Rightarrow> time \<Rightarrow> plan_db res" where
  "fail_deadline_locked_plan db p now =
     end_plan db p P_failed S_failed ''progress_deadline_elapsed''
       ''Plan progress deadline elapsed before completion'' now"

definition resolved :: "plan_db \<Rightarrow> rebalance_plan \<Rightarrow> bool" where
  "resolved db p \<longleftrightarrow>
     list_ex (\<lambda>r. rs_account_plan_id r = plan_id p \<and> rs_user_id r = plan_user p \<and>
                  rs_broker_account_id r = plan_account p) (db_resolutions db)"

definition order_key :: "rebalance_plan \<Rightarrow> time \<times> time \<times> string" where
  "order_key p = (pc_execute_not_before (rp_contract p), rp_created_at p, plan_id p)"

definition same_account :: "rebalance_plan \<Rightarrow> rebalance_plan \<Rightarrow> bool" where
  "same_account p q \<longleftrightarrow> plan_user p = plan_user q \<and> plan_account p = plan_account q"

definition unresolved :: "plan_db \<Rightarrow> rebalance_plan \<Rightarrow> bool" where
  "unresolved db p \<longleftrightarrow> \<not> terminal_status (rp_status p) \<or> rp_status p = S_failed \<and> \<not> resolved db p"

definition older_than :: "rebalance_plan \<Rightarrow> rebalance_plan \<Rightarrow> bool" where
  "older_than q p \<longleftrightarrow> plan_id q \<noteq> plan_id p \<and> same_account q p \<and> order_key q < order_key p"

definition older_unresolved_plan :: "plan_db \<Rightarrow> rebalance_plan \<Rightarrow> rebalance_plan option" where
  "older_unresolved_plan db p =
     (case sort_key order_key (filter (\<lambda>q. older_than q p \<and> unresolved db q) (db_plans db)) of
        [] \<Rightarrow> None | q # _ \<Rightarrow> Some q)"

definition overdue :: "rebalance_plan \<Rightarrow> time \<Rightarrow> bool" where
  "overdue p now \<longleftrightarrow> \<not> terminal_status (rp_status p) \<and>
     (pc_expires_at (rp_contract p) \<le> now \<or> rp_progress_deadline_at p \<le> now)"

definition settle_overdue :: "plan_db \<Rightarrow> rebalance_plan \<Rightarrow> time \<Rightarrow> plan_db res" where
  "settle_overdue db p now =
     (if pc_expires_at (rp_contract p) \<le> now then expire_locked_plan db p now
      else fail_deadline_locked_plan db p now)"

text \<open>Each turn of the loop ends one overdue plan.\<close>

definition open_plans :: "plan_db \<Rightarrow> nat" where
  "open_plans db = length (filter (\<lambda>p. \<not> terminal_status (rp_status p)) (db_plans db))"

lemma length_filter_update_where:
  assumes "\<not> P new"
  shows "length (filter P (update_where K (\<lambda>_. new) xs)) \<le> length (filter P xs)"
    "x \<in> set xs \<Longrightarrow> P x \<Longrightarrow> K x \<Longrightarrow> length (filter P (update_where K (\<lambda>_. new) xs)) < length (filter P xs)"
proof -
  show le: "length (filter P (update_where K (\<lambda>_. new) xs)) \<le> length (filter P xs)" for xs
    using assms by (induction xs) (auto simp: update_where_def)
  show "x \<in> set xs \<Longrightarrow> P x \<Longrightarrow> K x \<Longrightarrow> length (filter P (update_where K (\<lambda>_. new) xs)) < length (filter P xs)"
  proof (induction xs)
    case (Cons a xs)
    then show ?case
      using assms le [of xs] by (auto simp: update_where_def)
  qed simp
qed

lemma save_plan_open:
  assumes "save_plan db p new = Inr db'" "p \<in> set (db_plans db)" "\<not> terminal_status (rp_status p)"
    "terminal_status (rp_status new)"
  shows "open_plans db' < open_plans db"
proof -
  have "new \<noteq> p"
    using assms(3,4) by blast
  then have "db_plans db' = update_where (\<lambda>q. plan_id q = plan_id p) (\<lambda>_. new) (db_plans db)"
    using assms(1) by (simp add: save_plan_def split: if_splits) (hypsubst, simp)
  then show ?thesis
    unfolding open_plans_def using assms(2-4) by (simp add: length_filter_update_where(2) [where x = p])
qed

lemma settle_overdue_ends:
  "\<exists>ph st code detail. settle_overdue db p now = end_plan db p ph st code detail now \<and>
     (ph, st) \<in> {(P_failed, S_failed), (P_expired, S_expired)}"
  by (auto simp: settle_overdue_def expire_locked_plan_def fail_deadline_locked_plan_def)

lemma settle_overdue_open:
  assumes "settle_overdue db p now = Inr db'" "p \<in> set (db_plans db)" "\<not> terminal_status (rp_status p)"
  shows "open_plans db' < open_plans db"
proof -
  obtain ph st code detail where e: "settle_overdue db p now = end_plan db p ph st code detail now"
    and st: "(ph, st) \<in> {(P_failed, S_failed), (P_expired, S_expired)}"
    using settle_overdue_ends [of db p now] by blast
  obtain db1 where s: "save_plan db p (ended_plan p ph st code detail now) = Inr db1" "db_plans db' = db_plans db1"
    using assms(1) unfolding e end_plan_def
    by (auto simp: res_bind_Inr_iff append_audit_def fail_open_legs_def)
  have "open_plans db1 < open_plans db"
    using st by (intro save_plan_open [OF s(1) assms(2,3)]) (auto simp: ended_plan_def terminal_status_def)
  then show ?thesis
    by (simp add: open_plans_def s(2))
qed

lemma older_unresolved_in:
  assumes "older_unresolved_plan db p = Some q"
  shows "q \<in> set (db_plans db) \<and> older_than q p \<and> unresolved db q"
proof -
  obtain xs where "sort_key order_key (filter (\<lambda>q. older_than q p \<and> unresolved db q) (db_plans db)) = q # xs"
    using assms by (auto simp: older_unresolved_plan_def split: list.splits)
  then have "q \<in> set (sort_key order_key (filter (\<lambda>q. older_than q p \<and> unresolved db q) (db_plans db)))"
    by (metis list.set_intros(1))
  then show ?thesis
    unfolding set_sort by simp
qed

function settle_older :: "plan_db \<Rightarrow> rebalance_plan \<Rightarrow> time \<Rightarrow> (plan_db \<times> rebalance_plan option) res" where
  "settle_older db p now =
     (case older_unresolved_plan db p of
        None \<Rightarrow> Inr (db, None)
      | Some q \<Rightarrow>
          if overdue q now
          then (case settle_overdue db q now of Inl e \<Rightarrow> Inl e | Inr db' \<Rightarrow> settle_older db' p now)
          else Inr (db, Some q))"
  by pat_completeness auto

termination
  by (relation "measure (\<lambda>(db, p, now). open_plans db)")
    (auto simp: overdue_def dest: older_unresolved_in intro: settle_overdue_open)

declare settle_older.simps [simp del]

section \<open>Claiming\<close>

record plan_lease =
  pl_account_plan_id :: string
  pl_owner :: string
  pl_generation :: int
  pl_acquired :: bool
  pl_terminal_status :: "plan_status option"
  pl_blocked_reason :: "string option"

definition lease_result ::
    "rebalance_plan \<Rightarrow> string \<Rightarrow> bool \<Rightarrow> plan_status option \<Rightarrow> string option \<Rightarrow> plan_lease" where
  "lease_result p owner acquired st reason =
     \<lparr>pl_account_plan_id = plan_id p, pl_owner = owner, pl_generation = rp_fence_generation p,
      pl_acquired = acquired, pl_terminal_status = st, pl_blocked_reason = reason\<rparr>"

definition lease_held :: "rebalance_plan \<Rightarrow> string \<Rightarrow> time \<Rightarrow> bool" where
  "lease_held p owner now \<longleftrightarrow>
     (case rp_lease_owner p of None \<Rightarrow> False | Some x \<Rightarrow> x \<noteq> [] \<and> x \<noteq> owner) \<and>
     (case rp_lease_expires_at p of None \<Rightarrow> False | Some e \<Rightarrow> now < e)"

definition blocked_plan :: "rebalance_plan \<Rightarrow> rebalance_plan \<Rightarrow> time \<Rightarrow> rebalance_plan" where
  "blocked_plan p older now =
     p\<lparr>rp_status := S_blocked, rp_last_error_code := Some ''older_plan_unresolved'',
       rp_last_error_detail := Some (''Older plan '' @ plan_id older @ '' remains '' @
         status_name (rp_status older) @ ''/'' @ phase_name (rp_phase older)),
       rp_updated_at := now\<rparr>"

definition claimed_plan :: "rebalance_plan \<Rightarrow> string \<Rightarrow> duration \<Rightarrow> time \<Rightarrow> rebalance_plan" where
  "claimed_plan p owner dur now =
     p\<lparr>rp_fence_generation := rp_fence_generation p + 1, rp_lease_owner := Some owner,
       rp_lease_expires_at := Some (now + dur), rp_status := S_running, rp_last_progress_at := Some now,
       rp_last_error_code := None, rp_last_error_detail := None, rp_updated_at := now\<rparr>"

text \<open>Taking the lease, once no older plan is in the way. A lease held by another owner leaves nothing committed.\<close>

definition acquire_lease ::
    "plan_db \<Rightarrow> plan_db \<Rightarrow> rebalance_plan \<Rightarrow> string \<Rightarrow> duration \<Rightarrow> time \<Rightarrow> plan_db \<times> plan_lease res" where
  "acquire_lease db0 db p owner dur now =
     (if lease_held p owner now then (db0, Inr (lease_result p owner False None (Some ''lease_held'')))
      else transaction db0
        (res_bind (save_plan db p (claimed_plan p owner dur now)) (\<lambda>db1.
           Inr (append_audit db1 p ''rebalance.plan.claim'' [(''account_plan_id'', PStr (plan_id p))]
                  [(''fence_generation'', PInt (rp_fence_generation p + 1)), (''status'', PStr ''running'')],
                lease_result (claimed_plan p owner dur now) owner True None None))))"

definition claim_plan ::
    "json_codec \<Rightarrow> duration \<Rightarrow> plan_db \<Rightarrow> rebalance_command \<Rightarrow> string \<Rightarrow> time \<Rightarrow> plan_db \<times> plan_lease res" where
  "claim_plan jc dur db c owner0 now =
     (let owner = py_strip owner0 in
      if owner = [] then (db, Inl (ValueError ''Rebalance lease owner must not be empty''))
      else (case locked_plan db (cm_account_plan_id c) of
        Inl e \<Rightarrow> (db, Inl e)
      | Inr p \<Rightarrow>
        (case validate_command jc db p c of
          Inl e \<Rightarrow> (db, Inl e)
        | Inr _ \<Rightarrow>
          if terminal_status (rp_status p) then (db, Inr (lease_result p owner False (Some (rp_status p)) None))
          else if now < pc_execute_not_before (rp_contract p)
          then (db, Inr (lease_result p owner False None (Some ''not_yet_actionable'')))
          else if pc_expires_at (rp_contract p) \<le> now
          then transaction db (res_bind (expire_locked_plan db p now) (\<lambda>db1.
                 Inr (db1, lease_result p owner False (Some (expired_status db p)) None)))
          else if rp_progress_deadline_at p \<le> now
          then transaction db (res_bind (fail_deadline_locked_plan db p now) (\<lambda>db1.
                 Inr (db1, lease_result p owner False (Some S_failed) None)))
          else (case settle_older db p now of
            Inl e \<Rightarrow> (db, Inl e)
          | Inr (db1, Some older) \<Rightarrow>
              transaction db (res_bind (save_plan db1 p (blocked_plan p older now)) (\<lambda>db2.
                Inr (db2, lease_result p owner False None (Some ''older_plan_unresolved''))))
          | Inr (db1, None) \<Rightarrow> acquire_lease db db1 p owner dur now))))"

section \<open>Working under a lease\<close>

definition require_lease :: "plan_db \<Rightarrow> plan_lease \<Rightarrow> time \<Rightarrow> rebalance_plan res" where
  "require_lease db l now =
     (case find (\<lambda>p. plan_id p = pl_account_plan_id l \<and> rp_lease_owner p = Some (pl_owner l) \<and>
                     rp_fence_generation p = pl_generation l) (db_plans db) of
        None \<Rightarrow> Inl lease_lost
      | Some p \<Rightarrow> (case rp_lease_expires_at p of
                     None \<Rightarrow> Inl lease_lost
                   | Some e \<Rightarrow> if e \<le> now then Inl lease_lost else Inr p))"

definition renew_lease :: "duration \<Rightarrow> plan_db \<Rightarrow> plan_lease \<Rightarrow> time \<Rightarrow> plan_db \<times> unit res" where
  "renew_lease dur db l now =
     transaction db (res_bind (require_lease db l now) (\<lambda>p.
       res_bind (save_plan db p (p\<lparr>rp_lease_expires_at := Some (now + dur), rp_updated_at := now\<rparr>)) (\<lambda>db1.
       Inr (db1, ()))))"

definition fenced_leg :: "plan_db \<Rightarrow> plan_lease \<Rightarrow> rebalance_plan \<Rightarrow> string \<Rightarrow> plan_leg res" where
  "fenced_leg db l p leg_id =
     (case find (\<lambda>x. lg_account_plan_id x = pl_account_plan_id l \<and> lg_plan_leg_id x = leg_id \<and>
                     lg_user_id x = plan_user p \<and> lg_broker_account_id x = plan_account p) (db_legs db) of
        None \<Rightarrow> Inl (plan_contract_error (''Plan leg '' @ leg_id @ '' is outside the fenced plan''))
      | Some x \<Rightarrow> Inr x)"

definition progressed :: "rebalance_plan \<Rightarrow> duration \<Rightarrow> time \<Rightarrow> rebalance_plan" where
  "progressed p dur now =
     p\<lparr>rp_last_progress_at := Some now, rp_lease_expires_at := Some (now + dur), rp_updated_at := now\<rparr>"

definition mark_leg ::
    "duration \<Rightarrow> plan_db \<Rightarrow> plan_lease \<Rightarrow> string \<Rightarrow> leg_status \<Rightarrow> time \<Rightarrow> string option \<Rightarrow> string option \<Rightarrow>
     plan_db \<times> unit res" where
  "mark_leg dur db l leg_id st now code detail =
     transaction db (res_bind (require_lease db l now) (\<lambda>p.
       res_bind (fenced_leg db l p leg_id) (\<lambda>x.
       res_bind (save_leg db x (x\<lparr>lg_status := st, lg_last_progress_at := Some now, lg_last_error_code := code\<rparr>)) (\<lambda>db1.
       res_bind (save_plan db1 p ((progressed p dur now)\<lparr>rp_last_error_code := code, rp_last_error_detail := detail\<rparr>)) (\<lambda>db2.
       Inr (append_audit db2 p ''rebalance.leg.transition''
              [(''account_plan_id'', PStr (plan_id p)), (''plan_leg_id'', PStr leg_id),
               (''from_status'', PStr (leg_status_name (lg_status x)))]
              [(''to_status'', PStr (leg_status_name st)), (''error_code'', opt_str code),
               (''fence_generation'', PInt (pl_generation l))], ()))))))"

definition sealing :: "plan_status \<Rightarrow> bool" where
  "sealing st \<longleftrightarrow> st \<in> {S_failed, S_expired, S_cancelled}"

definition completing :: "plan_status \<Rightarrow> bool" where
  "completing st \<longleftrightarrow> st \<in> {S_completed, S_degraded}"

definition completion_check :: "plan_status \<Rightarrow> int option \<Rightarrow> string option \<Rightarrow> unit res" where
  "completion_check st gen digest =
     (if completing st
      then (if (case gen of None \<Rightarrow> True | Some g \<Rightarrow> g \<le> 0)
            then Inl (plan_contract_error ''Completed rebalance requires a positive account generation'')
            else if (case digest of None \<Rightarrow> True | Some d \<Rightarrow> length d \<noteq> 64)
            then Inl (plan_contract_error ''Completed rebalance requires a terminal target digest'')
            else Inr ())
      else if gen \<noteq> None \<or> digest \<noteq> None
      then Inl (plan_contract_error ''Only completed or degraded plans may seal terminal targets'')
      else Inr ())"

record plan_change =
  ch_phase :: plan_phase
  ch_status :: plan_status
  ch_error_code :: "string option"
  ch_error_detail :: "string option"
  ch_release_lease :: bool
  ch_completion_generation :: "int option"
  ch_terminal_targets :: "string option"

definition changed_plan :: "rebalance_plan \<Rightarrow> plan_change \<Rightarrow> duration \<Rightarrow> time \<Rightarrow> rebalance_plan" where
  "changed_plan p ch dur now =
     p\<lparr>rp_phase := ch_phase ch, rp_status := ch_status ch, rp_last_progress_at := Some now,
       rp_last_error_code := ch_error_code ch, rp_last_error_detail := ch_error_detail ch,
       rp_completion_generation := (if completing (ch_status ch) then ch_completion_generation ch
                                    else rp_completion_generation p),
       rp_terminal_targets := (if completing (ch_status ch) then ch_terminal_targets ch else rp_terminal_targets p),
       rp_updated_at := now,
       rp_lease_owner := (if ch_release_lease ch then None else rp_lease_owner p),
       rp_lease_expires_at := (if ch_release_lease ch then None else Some (now + dur))\<rparr>"

definition seal_code :: "plan_change \<Rightarrow> string" where
  "seal_code ch =
     (case ch_error_code ch of
        Some c \<Rightarrow> if c = [] then ''plan_'' @ status_name (ch_status ch) else c
      | None \<Rightarrow> ''plan_'' @ status_name (ch_status ch))"

definition transition_plan ::
    "duration \<Rightarrow> plan_db \<Rightarrow> plan_lease \<Rightarrow> plan_change \<Rightarrow> time \<Rightarrow> plan_db \<times> unit res" where
  "transition_plan dur db l ch now =
     transaction db (res_bind (require_lease db l now) (\<lambda>p.
       let db1 = (if sealing (ch_status ch) then fail_open_legs db (plan_id p) now (seal_code ch) else db) in
       res_bind (completion_check (ch_status ch) (ch_completion_generation ch) (ch_terminal_targets ch)) (\<lambda>_.
       res_bind (save_plan db1 p (changed_plan p ch dur now)) (\<lambda>db2.
       Inr (append_audit db2 p ''rebalance.plan.transition'' (transition_request p)
              (transition_response (ch_phase ch) (ch_status ch) (ch_error_code ch) (pl_generation l)), ())))))"

definition freeze_leg_target ::
    "duration \<Rightarrow> plan_db \<Rightarrow> plan_lease \<Rightarrow> string \<Rightarrow> number \<Rightarrow> int \<Rightarrow> time \<Rightarrow> plan_db \<times> rat res" where
  "freeze_leg_target dur db l leg_id target account_generation now =
     (case target of
        Fin q \<Rightarrow>
          if q < 0 then (db, Inl (plan_contract_error ''Terminal target quantity must be finite and nonnegative''))
          else if account_generation \<le> 0
          then (db, Inl (plan_contract_error ''Terminal target requires a positive account generation''))
          else transaction db (res_bind (require_lease db l now) (\<lambda>p.
            res_bind (fenced_leg db l p leg_id) (\<lambda>x.
            case lg_frozen_target x of
              Some f \<Rightarrow>
                if f \<noteq> q then Inl (plan_contract_error (''Plan leg '' @ leg_id @ '' terminal target changed''))
                else Inr (db, f)
            | None \<Rightarrow>
                res_bind (save_leg db x (x\<lparr>lg_frozen_target := Some q,
                   lg_target_generation := Some account_generation, lg_target_frozen_at := Some now\<rparr>)) (\<lambda>db1.
                res_bind (save_plan db1 p (progressed p dur now)) (\<lambda>db2.
                Inr (append_audit db2 p ''rebalance.leg.target_frozen''
                       [(''account_plan_id'', PStr (plan_id p)), (''plan_leg_id'', PStr leg_id)]
                       [(''target_quantity'', PFloat q), (''account_generation'', PInt account_generation),
                        (''fence_generation'', PInt (pl_generation l))], q))))))
      | _ \<Rightarrow> (db, Inl (plan_contract_error ''Terminal target quantity must be finite and nonnegative'')))"

section \<open>Operators and readiness\<close>

definition FAILURE_RESOLUTION_TYPES :: "string list" where
  "FAILURE_RESOLUTION_TYPES = [''acknowledged'', ''reconciled'', ''remediated'']"

record resolve_request =
  rr_resolution_type :: string
  rr_reason :: string
  rr_evidence :: pydict
  rr_resolved_by :: string

definition normalized_resolution :: "json_codec \<Rightarrow> resolve_request \<Rightarrow> resolve_request res" where
  "normalized_resolution jc rq =
     (let t = py_lower (py_strip (rr_resolution_type rq)); r = py_strip (rr_reason rq);
          b = py_strip (rr_resolved_by rq)
      in if t \<notin> set FAILURE_RESOLUTION_TYPES
         then Inl (ValueError ''Unsupported rebalance failure resolution type'')
         else if r = [] \<or> 2000 < length r
         then Inl (ValueError ''Rebalance failure resolution reason must contain 1 to 2000 characters'')
         else if b = [] \<or> 100 < length b
         then Inl (ValueError ''Rebalance failure resolution operator must contain 1 to 100 characters'')
         else if 16384 < jc_size jc (rr_evidence rq)
         then Inl (ValueError ''Rebalance failure resolution evidence exceeds 16384 canonical JSON bytes'')
         else Inr \<lparr>rr_resolution_type = t, rr_reason = r, rr_evidence = rr_evidence rq, rr_resolved_by = b\<rparr>)"

definition failure_code :: "rebalance_plan \<Rightarrow> string option" where
  "failure_code p = (case rp_last_error_code p of Some c \<Rightarrow> if c = [] then None else Some c | None \<Rightarrow> None)"

definition resolution_identity :: "rebalance_plan \<Rightarrow> resolve_request \<Rightarrow> pydict" where
  "resolution_identity p n =
     [(''schema'', PStr ''account-rebalance-failure-resolution-v1''), (''account_plan_id'', PStr (plan_id p)),
      (''user_id'', PStr (plan_user p)), (''broker_account_id'', PInt (plan_account p)),
      (''plan_status'', PStr (status_name (rp_status p))), (''failure_code'', opt_str (failure_code p)),
      (''resolution_type'', PStr (rr_resolution_type n)), (''reason'', PStr (rr_reason n)),
      (''evidence'', PDict (rr_evidence n)), (''resolved_by'', PStr (rr_resolved_by n))]"

definition new_resolution :: "json_codec \<Rightarrow> rebalance_plan \<Rightarrow> resolve_request \<Rightarrow> time \<Rightarrow> plan_resolution" where
  "new_resolution jc p n now =
     \<lparr>rs_resolution_id = jc_hash jc (resolution_identity p n), rs_account_plan_id = plan_id p,
      rs_user_id = plan_user p, rs_broker_account_id = plan_account p, rs_plan_status = rp_status p,
      rs_failure_code = failure_code p, rs_resolution_type = rr_resolution_type n,
      rs_reason = rr_reason n, rs_evidence = rr_evidence n, rs_resolved_by = rr_resolved_by n,
      rs_resolved_at = now\<rparr>"

text \<open>The resolution and whether it is a replay.\<close>

definition resolve_failed_plan ::
    "json_codec \<Rightarrow> plan_db \<Rightarrow> string \<Rightarrow> resolve_request \<Rightarrow> time \<Rightarrow> plan_db \<times> (plan_resolution \<times> bool) res" where
  "resolve_failed_plan jc db pid rq now =
     transaction db (res_bind (normalized_resolution jc rq) (\<lambda>n.
       res_bind (locked_plan db pid) (\<lambda>p.
       if rp_status p \<noteq> S_failed
       then Inl (plan_contract_error (''Account rebalance plan '' @ pid @ '' is not failed; only terminal failed plans may be resolved''))
       else (case find (\<lambda>r. rs_resolution_id r = jc_hash jc (resolution_identity p n)) (db_resolutions db) of
               Some r \<Rightarrow> Inr (db, r, True)
             | None \<Rightarrow>
                 (let r = new_resolution jc p n now
                  in Inr (append_audit (db\<lparr>db_resolutions := db_resolutions db @ [r]\<rparr>) p
                            ''rebalance.plan.failure_resolved''
                            [(''account_plan_id'', PStr (plan_id p)), (''resolution_id'', PStr (rs_resolution_id r)),
                             (''resolution_type'', PStr (rr_resolution_type n)), (''reason'', PStr (rr_reason n)),
                             (''evidence'', PDict (rr_evidence n)), (''resolved_by'', PStr (rr_resolved_by n))]
                            [(''plan_status'', PStr (status_name (rp_status p))),
                             (''failure_code'', opt_str (failure_code p)),
                             (''readiness_failure_resolved'', PBool True)], r, False))))))"

record readiness_snapshot =
  rd_healthy :: bool
  rd_stale_count :: nat
  rd_failed_count :: nat
  rd_degraded_count :: nat
  rd_affected_partitions :: "string list"
  rd_resolved_failed_count :: nat

definition partition_label :: "rebalance_plan \<Rightarrow> string" where
  "partition_label p =
     plan_user p @ '':'' @ int_str (plan_account p) @ '':'' @ pc_strategy_id (rp_contract p) @ '':'' @
     phase_name (rp_phase p)"

definition readiness :: "plan_db \<Rightarrow> time \<Rightarrow> readiness_snapshot" where
  "readiness db now =
     (let stale = filter (\<lambda>p. \<not> terminal_status (rp_status p) \<and> rp_progress_deadline_at p < now) (db_plans db);
          failed = filter (\<lambda>p. rp_status p = S_failed \<and> \<not> resolved db p) (db_plans db);
          degraded = filter (\<lambda>p. rp_status p = S_degraded) (db_plans db)
      in \<lparr>rd_healthy = (stale = [] \<and> failed = []), rd_stale_count = length stale, rd_failed_count = length failed,
          rd_degraded_count = length degraded,
          rd_affected_partitions = sort (remdups (map partition_label (stale @ failed @ degraded))),
          rd_resolved_failed_count =
            length (remdups (map plan_id (filter (\<lambda>p. rp_status p = S_failed \<and> resolved db p) (db_plans db))))\<rparr>)"

record plan_progress =
  pg_phase :: plan_phase
  pg_status :: plan_status
  pg_completed_legs :: nat
  pg_pending_legs :: nat

definition plan_progress_of :: "plan_db \<Rightarrow> string \<Rightarrow> plan_progress res" where
  "plan_progress_of db pid =
     res_bind (locked_plan db pid) (\<lambda>p.
       let sts = map lg_status (filter (\<lambda>l. lg_user_id l = plan_user p \<and> lg_broker_account_id l = plan_account p)
                   (legs_of db pid));
           n = length (filter terminal_leg sts)
       in Inr \<lparr>pg_phase = rp_phase p, pg_status = rp_status p, pg_completed_legs = n,
               pg_pending_legs = length sts - n\<rparr>)"

section \<open>What the ledger says about a leg\<close>

text \<open>The rows the queries of \<open>persisted_execution_state\<close> find for one signal, reduced to what it reads.\<close>

record execution_artifacts =
  ea_decisions :: "string list"
  ea_intents :: "int list"
  ea_orders :: "(int \<times> string) list"
  ea_fills :: "int list"
  ea_pending :: "(string \<times> rat) list"

datatype execution_state =
    X_absent | X_retryable_pre_submission | X_pending | X_partial | X_confirmed | X_rejected | X_failed | X_ambiguous

definition RECOVERABLE_ORDER_STATUSES :: "string list" where
  "RECOVERABLE_ORDER_STATUSES =
     [''partially_filled'', ''pending'', ''submission_unknown'', ''submitted'', ''working'']"

definition classify_execution :: "execution_artifacts \<Rightarrow> execution_state" where
  "classify_execution a =
     (let recoverable = filter (\<lambda>(st, _). py_lower st \<in> set RECOVERABLE_ORDER_STATUSES) (ea_pending a);
          order_states = set (map (\<lambda>(_, st). py_lower st) (ea_orders a));
          decision_states = set (map py_lower (ea_decisions a))
      in if recoverable \<noteq> [] then (if list_ex (\<lambda>(_, q). 0 < q) recoverable then X_partial else X_pending)
         else if ea_orders a \<noteq> [] \<and> order_states = {''filled''} \<and> set (ea_fills a) = set (map fst (ea_orders a))
         then X_confirmed
         else if ea_fills a \<noteq> [] \<or> ''partially_filled'' \<in> order_states then X_partial
         else if ''rejected'' \<in> order_states \<or> ''canceled'' \<in> order_states then X_rejected
         else if ''failed'' \<in> decision_states then X_failed
         else if ''rejected'' \<in> decision_states then X_rejected
         else if ''executed'' \<in> decision_states \<or> ea_orders a \<noteq> [] \<or> ea_intents a \<noteq> [] then X_ambiguous
         else if ''executing'' \<in> decision_states then X_pending
         else if ''pending'' \<in> decision_states then X_retryable_pre_submission
         else X_absent)"

definition persisted_execution_state :: "bool \<Rightarrow> execution_artifacts \<Rightarrow> execution_state" where
  "persisted_execution_state has_signal a = (if \<not> has_signal then X_absent else classify_execution a)"

section \<open>Steps\<close>

text \<open>
  A new plan arrives in its first state with its legs, under a fresh identifier, within the timing
  constraints of the tables; the other steps are the operations above, at any time and with any arguments.
\<close>

definition insert_ok :: "plan_db \<Rightarrow> rebalance_plan \<Rightarrow> plan_leg list \<Rightarrow> bool" where
  "insert_ok db p legs \<longleftrightarrow>
     pristine_plan p \<and> plan_id p \<notin> set (map plan_id (db_plans db)) \<and>
     pc_execute_not_before (rp_contract p) < rp_progress_deadline_at p \<and>
     rp_progress_deadline_at p \<le> pc_expires_at (rp_contract p) \<and>
     list_all (\<lambda>l. pristine_leg l \<and> lg_account_plan_id l = plan_id p \<and> lg_user_id l = plan_user p \<and>
                   lg_broker_account_id l = plan_account p) legs \<and>
     distinct (map lg_model_sequence legs) \<and> distinct (map lg_plan_leg_id legs)"

definition insert_plan :: "plan_db \<Rightarrow> rebalance_plan \<Rightarrow> plan_leg list \<Rightarrow> plan_db" where
  "insert_plan db p legs = db\<lparr>db_plans := db_plans db @ [p], db_legs := db_legs db @ legs\<rparr>"

definition empty_plan_db :: plan_db where
  "empty_plan_db = \<lparr>db_plans = [], db_legs = [], db_resolutions = [], db_audit = []\<rparr>"

inductive plan_step :: "json_codec \<Rightarrow> duration \<Rightarrow> plan_db \<Rightarrow> plan_db \<Rightarrow> bool" for jc dur where
  Insert: "insert_ok db p legs \<Longrightarrow> plan_step jc dur db (insert_plan db p legs)"
| Claim: "plan_step jc dur db (fst (claim_plan jc dur db c owner now))"
| Renew: "plan_step jc dur db (fst (renew_lease dur db l now))"
| Mark: "plan_step jc dur db (fst (mark_leg dur db l leg_id st now code detail))"
| Transition: "plan_step jc dur db (fst (transition_plan dur db l ch now))"
| Freeze: "plan_step jc dur db (fst (freeze_leg_target dur db l leg_id q g now))"
| Resolve: "plan_step jc dur db (fst (resolve_failed_plan jc db pid rq now))"

end
