(* ===== verification/Rebalance_Safety.thy ===== *)
theory Rebalance_Safety
  imports Rebalance_Plans Fencing
begin

text \<open>
  Properties of rebalance plans: rows only move forward, an ended plan and its legs never change again, a
  stale lease changes nothing, and a plan is claimed only after every older plan of its account is settled.
\<close>

section \<open>Rows only move forward\<close>

definition plan_le :: "rebalance_plan \<Rightarrow> rebalance_plan \<Rightarrow> bool" where
  "plan_le p p' \<longleftrightarrow>
     rp_contract p' = rp_contract p \<and> rp_created_at p' = rp_created_at p \<and>
     rp_progress_deadline_at p' = rp_progress_deadline_at p \<and>
     rp_fence_generation p \<le> rp_fence_generation p' \<and> (terminal_status (rp_status p) \<longrightarrow> p' = p) \<and>
     (phase_status_ok (rp_phase p) (rp_status p) \<longrightarrow> phase_status_ok (rp_phase p') (rp_status p'))"

definition leg_le :: "plan_leg \<Rightarrow> plan_leg \<Rightarrow> bool" where
  "leg_le l l' \<longleftrightarrow> same_leg_content l l' \<and> (terminal_leg (lg_status l) \<longrightarrow> l' = l) \<and>
     (lg_frozen_target l \<noteq> None \<longrightarrow> lg_frozen_target l' = lg_frozen_target l)"

definition leg_key :: "plan_leg \<Rightarrow> string \<times> string \<times> int \<times> int" where
  "leg_key l = (lg_account_plan_id l, lg_user_id l, lg_broker_account_id l, lg_model_sequence l)"

definition ids_ok :: "plan_db \<Rightarrow> bool" where
  "ids_ok db \<longleftrightarrow> distinct (map plan_id (db_plans db)) \<and> distinct (map leg_key (db_legs db))"

definition grows :: "plan_db \<Rightarrow> plan_db \<Rightarrow> bool" where
  "grows db db' \<longleftrightarrow> list_all2 plan_le (db_plans db) (db_plans db') \<and> list_all2 leg_le (db_legs db) (db_legs db') \<and>
     set (db_resolutions db) \<subseteq> set (db_resolutions db')"

lemma plan_le_refl [simp]: "plan_le p p"
  by (simp add: plan_le_def)

lemma plan_le_trans: "plan_le p q \<Longrightarrow> plan_le q r \<Longrightarrow> plan_le p r"
  unfolding plan_le_def by (metis order.trans)

lemma same_leg_content_refl [simp]: "same_leg_content l l"
  by (simp add: same_leg_content_def)

abbreviation progress_of :: "plan_leg \<Rightarrow> plan_leg \<Rightarrow> plan_leg" where
  "progress_of old l \<equiv> l\<lparr>lg_status := lg_status old, lg_last_progress_at := lg_last_progress_at old,
     lg_last_error_code := lg_last_error_code old, lg_frozen_target := lg_frozen_target old,
     lg_target_generation := lg_target_generation old, lg_target_frozen_at := lg_target_frozen_at old\<rparr>"

lemma same_leg_contentD:
  assumes "same_leg_content l l'"
  shows "lg_account_plan_id l' = lg_account_plan_id l" "lg_user_id l' = lg_user_id l"
    "lg_broker_account_id l' = lg_broker_account_id l" "lg_model_sequence l' = lg_model_sequence l"
    "lg_plan_leg_id l' = lg_plan_leg_id l" "lg_disposition l' = lg_disposition l" "lg_phase l' = lg_phase l"
    "lg_reason_code l' = lg_reason_code l"
proof -
  have e: "progress_of l l' = l"
    using assms by (simp only: same_leg_content_def)
  show "lg_account_plan_id l' = lg_account_plan_id l" "lg_user_id l' = lg_user_id l"
    "lg_broker_account_id l' = lg_broker_account_id l" "lg_model_sequence l' = lg_model_sequence l"
    "lg_plan_leg_id l' = lg_plan_leg_id l" "lg_disposition l' = lg_disposition l" "lg_phase l' = lg_phase l"
    "lg_reason_code l' = lg_reason_code l"
    using arg_cong [OF e, of lg_account_plan_id] arg_cong [OF e, of lg_user_id]
      arg_cong [OF e, of lg_broker_account_id] arg_cong [OF e, of lg_model_sequence]
      arg_cong [OF e, of lg_plan_leg_id] arg_cong [OF e, of lg_disposition] arg_cong [OF e, of lg_phase]
      arg_cong [OF e, of lg_reason_code]
    by simp_all
qed

lemma same_leg_content_trans:
  assumes "same_leg_content l l'" "same_leg_content l' l''"
  shows "same_leg_content l l''"
proof -
  have "progress_of l l'' = progress_of l (progress_of l' l'')"
    by simp
  also have "progress_of l' l'' = l'"
    using assms(2) by (simp only: same_leg_content_def)
  also have "progress_of l l' = l"
    using assms(1) by (simp only: same_leg_content_def)
  finally show ?thesis
    by (simp only: same_leg_content_def)
qed

lemma leg_le_refl [simp]: "leg_le l l"
  by (simp add: leg_le_def)

lemma leg_le_trans: "leg_le a b \<Longrightarrow> leg_le b c \<Longrightarrow> leg_le a c"
  using same_leg_content_trans [of a b c] by (simp add: leg_le_def)

lemma leg_le_key: "leg_le l l' \<Longrightarrow> leg_key l' = leg_key l"
  by (simp add: leg_le_def leg_key_def same_leg_contentD)

lemma grows_refl [simp]: "grows db db"
  by (simp add: grows_def list_all2_refl)

lemma grows_trans: "grows a b \<Longrightarrow> grows b c \<Longrightarrow> grows a c"
  unfolding grows_def using list_all2_trans [of plan_le plan_le plan_le] list_all2_trans [of leg_le leg_le leg_le]
    plan_le_trans leg_le_trans by (meson subset_trans)

lemma list_all2_map_eq: "list_all2 R xs ys \<Longrightarrow> (\<And>x y. R x y \<Longrightarrow> f y = f x) \<Longrightarrow> map f ys = map f xs"
  by (induction rule: list_all2_induct) simp_all

lemma grows_keys:
  assumes "grows db db'"
  shows "map plan_id (db_plans db') = map plan_id (db_plans db)" "map leg_key (db_legs db') = map leg_key (db_legs db)"
  using assms list_all2_map_eq [of plan_le "db_plans db" "db_plans db'" plan_id]
    list_all2_map_eq [of leg_le "db_legs db" "db_legs db'" leg_key]
  by (simp_all add: grows_def leg_le_key) (simp add: plan_le_def)

lemma grows_ids: "grows db db' \<Longrightarrow> ids_ok db \<Longrightarrow> ids_ok db'"
  by (simp add: ids_ok_def grows_keys)

section \<open>Writes move rows forward\<close>

lemma update_where_all2:
  assumes "distinct (map k xs)" "x \<in> set xs" "\<And>y. K y \<longleftrightarrow> k y = k x" "R x new" "\<And>y. R y y"
  shows "list_all2 R xs (update_where K (\<lambda>_. new) xs)"
  using assms(1,2)
proof (induction xs)
  case (Cons a xs)
  have same: "list_all2 R ys (update_where K (\<lambda>_. new) ys)" if "k x \<notin> set (map k ys)" for ys
    using that assms(3,5) by (induction ys) (auto simp: update_where_def)
  show ?case
  proof (cases "k a = k x")
    case True
    then have "a = x"
      using Cons.prems by (metis distinct.simps(2) image_eqI list.set_map list.simps(9) set_ConsD)
    then show ?thesis
      using Cons.prems same [of xs] assms(3,4) by (simp add: update_where_def)
  next
    case False
    then show ?thesis
      using Cons assms(3,5) by (auto simp: update_where_def)
  qed
qed simp

lemma protect_plan_le:
  "protect_plan p new \<Longrightarrow> rp_fence_generation p \<le> rp_fence_generation new \<Longrightarrow> plan_le p new"
  by (simp add: protect_plan_def plan_le_def)

lemma save_plan_grows:
  assumes "save_plan db p new = Inr db'" "ids_ok db" "p \<in> set (db_plans db)"
    "rp_fence_generation p \<le> rp_fence_generation new"
  shows "grows db db'"
proof (cases "new = p")
  case True
  then show ?thesis
    using assms(1) by (simp add: save_plan_def)
next
  case False
  then have pr: "protect_plan p new" and
    db': "db' = db\<lparr>db_plans := update_where (\<lambda>q. plan_id q = plan_id p) (\<lambda>_. new) (db_plans db)\<rparr>"
    using assms(1) by (simp_all add: save_plan_def split: if_splits)
  have "list_all2 plan_le (db_plans db) (db_plans db')"
    unfolding db' using assms(2,3) protect_plan_le [OF pr assms(4)]
    by (simp add: ids_ok_def update_where_all2 [where k = plan_id and x = p])
  then show ?thesis
    by (simp add: grows_def db' list_all2_refl)
qed

lemma is_leg_key: "is_leg k l \<longleftrightarrow> leg_key l = leg_key k"
  by (auto simp: is_leg_def leg_key_def)

lemma protect_leg_le: "protect_leg l new \<Longrightarrow> leg_le l new"
  by (simp add: protect_leg_def leg_le_def target_fence_ok_def split: if_splits)

lemma save_leg_grows:
  assumes "save_leg db l new = Inr db'" "ids_ok db" "l \<in> set (db_legs db)"
  shows "grows db db'"
proof (cases "new = l")
  case True
  then show ?thesis
    using assms(1) by (simp add: save_leg_def)
next
  case False
  then have pr: "protect_leg l new" and db': "db' = db\<lparr>db_legs := update_where (is_leg l) (\<lambda>_. new) (db_legs db)\<rparr>"
    using assms(1) by (simp_all add: save_leg_def split: if_splits)
  have "list_all2 leg_le (db_legs db) (db_legs db')"
    unfolding db' using assms(2,3) protect_leg_le [OF pr]
    by (simp add: ids_ok_def update_where_all2 [where k = leg_key and x = l] is_leg_key)
  then show ?thesis
    by (simp add: grows_def db' list_all2_refl)
qed

lemma fail_open_legs_grows: "grows db (fail_open_legs db pid now code)"
proof -
  have "list_all2 leg_le ls (update_where (\<lambda>l. lg_account_plan_id l = pid \<and> \<not> terminal_leg (lg_status l))
      (\<lambda>l. l\<lparr>lg_status := L_failed, lg_last_progress_at := Some now, lg_last_error_code := Some code\<rparr>) ls)" for ls
    by (induction ls) (auto simp: update_where_def leg_le_def same_leg_content_def)
  then show ?thesis
    by (simp add: grows_def fail_open_legs_def list_all2_refl)
qed

lemma append_audit_grows [simp]: "grows db (append_audit db p a rq rs)"
  by (simp add: grows_def append_audit_def list_all2_refl)

lemma transaction_cases:
  "transaction db0 r = (db, x) \<Longrightarrow> db = db0 \<or> (\<exists>y. r = Inr (db, y) \<and> x = Inr y \<and> commit_ok db0 db)"
  by (auto simp: transaction_def split: sum.splits prod.splits if_splits)

section \<open>Operations\<close>

definition commits :: "plan_db \<Rightarrow> plan_db \<Rightarrow> bool" where
  "commits db db' \<longleftrightarrow> grows db db' \<and> (db' = db \<or> commit_ok db db')"

lemma commits_refl [simp]: "commits db db"
  by (simp add: commits_def)

lemma transaction_commits:
  assumes "\<And>db' x. r = Inr (db', x) \<Longrightarrow> grows db db'"
  shows "commits db (fst (transaction db r))"
  using assms transaction_cases [of db r "fst (transaction db r)" "snd (transaction db r)"]
  by (auto simp: commits_def)

lemma find_in: "find P xs = Some x \<Longrightarrow> x \<in> set xs \<and> P x"
  by (induction xs) (auto split: if_splits)

lemma locked_plan_in: "locked_plan db pid = Inr p \<Longrightarrow> p \<in> set (db_plans db) \<and> plan_id p = pid"
  by (auto simp: locked_plan_def dest: find_in split: option.splits)

lemma require_lease_in:
  "require_lease db l now = Inr p \<Longrightarrow> p \<in> set (db_plans db) \<and> plan_id p = pl_account_plan_id l \<and>
     rp_lease_owner p = Some (pl_owner l) \<and> rp_fence_generation p = pl_generation l"
  by (auto simp: require_lease_def dest!: find_in split: option.splits if_splits)

lemma fenced_leg_in: "fenced_leg db l p i = Inr x \<Longrightarrow> x \<in> set (db_legs db)"
  by (auto simp: fenced_leg_def dest!: find_in split: option.splits)

lemma renew_commits: "ids_ok db \<Longrightarrow> commits db (fst (renew_lease dur db l now))"
  unfolding renew_lease_def
  by (rule transaction_commits) (auto simp: res_bind_Inr_iff dest!: require_lease_in intro: save_plan_grows)

lemma save_plan_others:
  "save_plan db p new = Inr db' \<Longrightarrow> q \<in> set (db_plans db) \<Longrightarrow> plan_id q \<noteq> plan_id p \<Longrightarrow> q \<in> set (db_plans db')"
  by (auto simp: save_plan_def update_where_def split: if_splits)

lemma save_leg_plans: "save_leg db x y = Inr db' \<Longrightarrow> db_plans db' = db_plans db"
  by (auto simp: save_leg_def split: if_splits)

lemma save_both_grows:
  assumes "save_leg db x y = Inr db1" "save_plan db1 p new = Inr db2" "ids_ok db" "x \<in> set (db_legs db)"
    "p \<in> set (db_plans db)" "rp_fence_generation new = rp_fence_generation p"
  shows "grows db (append_audit db2 q a rq rs)"
proof -
  have g: "grows db db1"
    by (rule save_leg_grows [OF assms(1,3,4)])
  have "grows db1 db2"
    using save_plan_grows [OF assms(2) grows_ids [OF g assms(3)]] assms(5,6) save_leg_plans [OF assms(1)] by simp
  with g show ?thesis
    using grows_trans append_audit_grows by blast
qed

lemma mark_commits:
  assumes "ids_ok db"
  shows "commits db (fst (mark_leg dur db l i st now code detail))"
  unfolding mark_leg_def
proof (rule transaction_commits)
  fix db' x
  assume "res_bind (require_lease db l now) (\<lambda>p.
       res_bind (fenced_leg db l p i) (\<lambda>x.
       res_bind (save_leg db x (x\<lparr>lg_status := st, lg_last_progress_at := Some now, lg_last_error_code := code\<rparr>)) (\<lambda>db1.
       res_bind (save_plan db1 p ((progressed p dur now)\<lparr>rp_last_error_code := code, rp_last_error_detail := detail\<rparr>)) (\<lambda>db2.
       Inr (append_audit db2 p ''rebalance.leg.transition''
              [(''account_plan_id'', PStr (plan_id p)), (''plan_leg_id'', PStr i),
               (''from_status'', PStr (leg_status_name (lg_status x)))]
              [(''to_status'', PStr (leg_status_name st)), (''error_code'', opt_str code),
               (''fence_generation'', PInt (pl_generation l))], ()))))) = Inr (db', x)"
  then show "grows db db'"
    unfolding res_bind_Inr_iff sum.inject prod.inject
    by (elim exE conjE, hypsubst) (rule save_both_grows [OF _ _ assms], assumption, assumption,
        blast dest: fenced_leg_in, blast dest: require_lease_in, simp add: progressed_def)
qed

lemma freeze_commits:
  assumes "ids_ok db"
  shows "commits db (fst (freeze_leg_target dur db l i q g now))"
proof (cases q)
  case (Fin r)
  have "commits db (fst (transaction db (res_bind (require_lease db l now) (\<lambda>p.
            res_bind (fenced_leg db l p i) (\<lambda>x.
            case lg_frozen_target x of
              Some f \<Rightarrow>
                if f \<noteq> r then Inl (plan_contract_error (''Plan leg '' @ i @ '' terminal target changed''))
                else Inr (db, f)
            | None \<Rightarrow>
                res_bind (save_leg db x (x\<lparr>lg_frozen_target := Some r,
                   lg_target_generation := Some g, lg_target_frozen_at := Some now\<rparr>)) (\<lambda>db1.
                res_bind (save_plan db1 p (progressed p dur now)) (\<lambda>db2.
                Inr (append_audit db2 p ''rebalance.leg.target_frozen''
                       [(''account_plan_id'', PStr (plan_id p)), (''plan_leg_id'', PStr i)]
                       [(''target_quantity'', PFloat r), (''account_generation'', PInt g),
                        (''fence_generation'', PInt (pl_generation l))], r))))))))"
    (is "commits db (fst (transaction db (res_bind _ (\<lambda>p. res_bind _ (?body p)))))")
  proof (rule transaction_commits)
    fix db' x
    assume "res_bind (require_lease db l now) (\<lambda>p. res_bind (fenced_leg db l p i) (?body p)) = Inr (db', x)"
    then obtain p y where py: "require_lease db l now = Inr p" "fenced_leg db l p i = Inr y"
      and b: "?body p y = Inr (db', x)"
      unfolding res_bind_Inr_iff by blast
    show "grows db db'"
    proof (cases "lg_frozen_target y")
      case None
      then show ?thesis
        using b py unfolding res_bind_Inr_iff
        by (simp only: option.case res_bind_Inr_iff sum.inject prod.inject) (elim exE conjE, hypsubst,
            rule save_both_grows [OF _ _ assms], assumption, assumption, blast dest: fenced_leg_in,
            blast dest: require_lease_in, simp add: progressed_def)
    next
      case (Some f)
      then show ?thesis
        using b by (simp split: if_splits)
    qed
  qed
  then show ?thesis
    using Fin by (simp add: freeze_leg_target_def)
qed (simp_all add: freeze_leg_target_def)

lemma end_plan_grows:
  assumes "end_plan db p ph st code detail now = Inr db'" "ids_ok db" "p \<in> set (db_plans db)"
  shows "grows db db'"
proof -
  from assms(1) obtain db1 a rq rs where db1: "save_plan db p (ended_plan p ph st code detail now) = Inr db1"
    "db' = append_audit (fail_open_legs db1 (plan_id p) now code) p a rq rs"
    by (auto simp: end_plan_def res_bind_Inr_iff)
  have "grows db db1"
    by (rule save_plan_grows [OF db1(1) assms(2,3)]) (simp add: ended_plan_def)
  then show ?thesis
    unfolding db1(2) using grows_trans fail_open_legs_grows append_audit_grows by blast
qed

lemma end_plan_others:
  "end_plan db p ph st code detail now = Inr db' \<Longrightarrow> q \<in> set (db_plans db) \<Longrightarrow> plan_id q \<noteq> plan_id p \<Longrightarrow>
     q \<in> set (db_plans db')"
  using save_plan_others
  by (fastforce simp: end_plan_def res_bind_Inr_iff append_audit_def fail_open_legs_def)

lemma settle_overdue_grows:
  assumes "settle_overdue db q now = Inr db'" "ids_ok db" "q \<in> set (db_plans db)"
  shows "grows db db'" "p \<in> set (db_plans db) \<Longrightarrow> plan_id p \<noteq> plan_id q \<Longrightarrow> p \<in> set (db_plans db')"
  using settle_overdue_ends [of db q now] assms end_plan_grows end_plan_others by metis+

text \<open>What the loop over the older plans leaves behind.\<close>

lemma settle_older_spec:
  assumes "settle_older db p now = Inr (db', older)" "ids_ok db" "p \<in> set (db_plans db)"
  shows "grows db db' \<and> p \<in> set (db_plans db') \<and> older = older_unresolved_plan db' p"
  using assms
proof (induction db p now rule: settle_older.induct)
  case (1 db p now)
  show ?case
  proof (cases "older_unresolved_plan db p")
    case None
    then show ?thesis
      using 1(2,4) by (simp add: settle_older.simps [of db])
  next
    case (Some q)
    note q = older_unresolved_in [OF Some]
    show ?thesis
    proof (cases "overdue q now")
      case True
      obtain db1 where db1: "settle_overdue db q now = Inr db1" "settle_older db1 p now = Inr (db', older)"
        using 1(2) Some True by (auto simp: settle_older.simps [of db] split: sum.splits)
      have g: "grows db db1" "p \<in> set (db_plans db1)"
        using settle_overdue_grows [OF db1(1) 1(3)] q 1(4) by (auto simp: older_than_def)
      show ?thesis
        using 1(1) [OF Some True db1(1) db1(2) grows_ids [OF g(1) 1(3)] g(2)] g(1) grows_trans by blast
    next
      case False
      then show ?thesis
        using 1(2,4) Some by (simp add: settle_older.simps [of db])
    qed
  qed
qed

lemma transition_commits:
  assumes "ids_ok db"
  shows "commits db (fst (transition_plan dur db l ch now))"
  unfolding transition_plan_def
proof (rule transaction_commits)
  fix db' x
  assume "res_bind (require_lease db l now) (\<lambda>p.
       let db1 = (if sealing (ch_status ch) then fail_open_legs db (plan_id p) now (seal_code ch) else db) in
       res_bind (completion_check (ch_status ch) (ch_completion_generation ch) (ch_terminal_targets ch)) (\<lambda>_.
       res_bind (save_plan db1 p (changed_plan p ch dur now)) (\<lambda>db2.
       Inr (append_audit db2 p ''rebalance.plan.transition'' (transition_request p)
              (transition_response (ch_phase ch) (ch_status ch) (ch_error_code ch) (pl_generation l)), ())))) = Inr (db', x)"
  then obtain p db1 db2 a rq rs where p: "require_lease db l now = Inr p"
    and db1: "db1 = (if sealing (ch_status ch) then fail_open_legs db (plan_id p) now (seal_code ch) else db)"
    and db2: "save_plan db1 p (changed_plan p ch dur now) = Inr db2" and db': "db' = append_audit db2 p a rq rs"
    unfolding res_bind_Inr_iff Let_def by blast
  have g: "grows db db1" "db_plans db1 = db_plans db"
    using fail_open_legs_grows by (simp_all add: db1 fail_open_legs_def)
  have "grows db1 db2"
    by (rule save_plan_grows [OF db2 grows_ids [OF g(1) assms]])
      (use require_lease_in [OF p] g(2) in \<open>simp_all add: changed_plan_def\<close>)
  with g(1) show "grows db db'"
    unfolding db' using grows_trans append_audit_grows by blast
qed

lemma resolve_commits: "commits db (fst (resolve_failed_plan jc db pid rq now))"
  unfolding resolve_failed_plan_def
proof (rule transaction_commits, goal_cases)
  case (1 db' x)
  then have "db_plans db' = db_plans db \<and> db_legs db' = db_legs db \<and> set (db_resolutions db) \<subseteq> set (db_resolutions db')"
    by (auto simp: res_bind_Inr_iff append_audit_def Let_def split: if_splits option.splits)
  then show ?case
    by (simp add: grows_def list_all2_refl)
qed

lemma save_plan_commits:
  assumes "grows db db1" "ids_ok db" "p \<in> set (db_plans db1)" "rp_fence_generation p \<le> rp_fence_generation new"
    and "\<And>db2 x. f db2 = Inr (db', x) \<Longrightarrow> grows db2 db'"
  shows "res_bind (save_plan db1 p new) f = Inr (db', x) \<Longrightarrow> grows db db'"
  using save_plan_grows [OF _ grows_ids [OF assms(1,2)] assms(3,4)] assms(1,5) grows_trans
  by (auto simp: res_bind_Inr_iff)

lemma acquire_commits:
  assumes "grows db db1" "ids_ok db" "p \<in> set (db_plans db1)"
  shows "commits db (fst (acquire_lease db db1 p owner dur now))"
proof (cases "lease_held p owner now")
  case False
  then show ?thesis
    unfolding acquire_lease_def if_not_P [OF False]
    by (intro transaction_commits) (erule save_plan_commits [OF assms, rotated 2]; auto simp: claimed_plan_def)
qed (simp add: acquire_lease_def)

lemma expire_commits:
  assumes "ids_ok db" "p \<in> set (db_plans db)"
  shows "commits db (fst (transaction db (res_bind (expire_locked_plan db p now) (\<lambda>db1. Inr (db1, x)))))"
    "commits db (fst (transaction db (res_bind (fail_deadline_locked_plan db p now) (\<lambda>db1. Inr (db1, y)))))"
  by (rule transaction_commits,
      auto simp: res_bind_Inr_iff expire_locked_plan_def fail_deadline_locked_plan_def
        intro: end_plan_grows [OF _ assms] split: if_splits)+

lemma claim_commits:
  assumes "ids_ok db"
  shows "commits db (fst (claim_plan jc dur db c owner0 now))"
proof (cases "py_strip owner0 = []")
  case False
  define owner where "owner = py_strip owner0"
  show ?thesis
  proof (cases "locked_plan db (cm_account_plan_id c)")
    case (Inr p)
    note p = locked_plan_in [OF Inr, THEN conjunct1]
    show ?thesis
    proof (cases "validate_command jc db p c")
      case Inr': (Inr u)
      have older: "commits db (fst (case settle_older db p now of
            Inl e \<Rightarrow> (db, Inl e)
          | Inr (db1, Some older) \<Rightarrow>
              transaction db (res_bind (save_plan db1 p (blocked_plan p older now)) (\<lambda>db2.
                Inr (db2, lease_result p owner False None (Some ''older_plan_unresolved''))))
          | Inr (db1, None) \<Rightarrow> acquire_lease db db1 p owner dur now))"
      proof (cases "settle_older db p now")
        case Inr'': (Inr z)
        obtain db1 o' where z: "z = (db1, o')"
          by fastforce
        note sp = settle_older_spec [OF Inr'' [unfolded z] assms p]
        show ?thesis
        proof (cases o')
          case None
          then show ?thesis
            using acquire_commits [OF _ assms] sp Inr'' z by simp
        next
          case (Some older)
          have "commits db (fst (transaction db (res_bind (save_plan db1 p (blocked_plan p older now)) (\<lambda>db2.
                Inr (db2, lease_result p owner False None (Some ''older_plan_unresolved''))))))"
            by (rule transaction_commits, erule save_plan_commits [rotated 5])
              (use sp assms in \<open>auto simp: blocked_plan_def\<close>)
          then show ?thesis
            using Inr'' z Some by simp
        qed
      qed simp
      then show ?thesis
        using False Inr Inr' by (simp add: claim_plan_def Let_def expire_commits [OF assms p] flip: owner_def)
    qed (use False Inr in \<open>simp add: claim_plan_def\<close>)
  qed (use False in \<open>simp add: claim_plan_def\<close>)
qed (simp add: claim_plan_def)

section \<open>Reachable tables\<close>

definition plans_ok :: "plan_db \<Rightarrow> bool" where
  "plans_ok db \<longleftrightarrow> ids_ok db \<and>
     (\<forall>l \<in> set (db_legs db). lg_account_plan_id l \<in> plan_id ` set (db_plans db)) \<and>
     (\<forall>p \<in> set (db_plans db). phase_status_ok (rp_phase p) (rp_status p) \<and> terminal_coherent db p)"

lemma legs_of_grows:
  assumes "grows db db'" "list_all (\<lambda>l. terminal_leg (lg_status l)) (legs_of db pid)"
  shows "legs_of db' pid = legs_of db pid"
proof -
  have "list_all2 leg_le ls ls' \<Longrightarrow> list_all (\<lambda>l. terminal_leg (lg_status l)) (filter (\<lambda>l. lg_account_plan_id l = pid) ls)
      \<Longrightarrow> filter (\<lambda>l. lg_account_plan_id l = pid) ls' = filter (\<lambda>l. lg_account_plan_id l = pid) ls" for ls ls'
    by (induction rule: list_all2_induct) (auto simp: leg_le_def same_leg_contentD split: if_splits)
  then show ?thesis
    using assms by (simp add: grows_def legs_of_def)
qed

lemma terminal_coherent_cong:
  "legs_of db' (plan_id p) = legs_of db (plan_id p) \<Longrightarrow> terminal_coherent db' p = terminal_coherent db p"
  by (simp add: terminal_coherent_def)

lemma coherent_terminal_legs:
  "terminal_coherent db p \<Longrightarrow> terminal_status (rp_status p) \<Longrightarrow>
     list_all (\<lambda>l. terminal_leg (lg_status l)) (legs_of db (plan_id p))"
  by (simp add: terminal_coherent_def Let_def)

lemma commits_plans_ok:
  assumes "plans_ok db" "commits db db'"
  shows "plans_ok db'"
proof -
  have g: "grows db db'"
    using assms(2) by (simp add: commits_def)
  have ids: "ids_ok db'"
    using grows_ids [OF g] assms(1) by (simp add: plans_ok_def)
  have all2: "list_all2 plan_le (db_plans db) (db_plans db')"
    using g by (simp add: grows_def)
  have "fst ` set (map leg_key (db_legs db')) \<subseteq> set (map plan_id (db_plans db'))"
    unfolding grows_keys [OF g] using assms(1) by (auto simp: plans_ok_def leg_key_def)
  then have legs: "\<forall>l \<in> set (db_legs db'). lg_account_plan_id l \<in> plan_id ` set (db_plans db')"
    by (force simp: leg_key_def)
  have "phase_status_ok (rp_phase p') (rp_status p') \<and> terminal_coherent db' p'" if p': "p' \<in> set (db_plans db')" for p'
  proof -
    obtain p where p: "p \<in> set (db_plans db)" "plan_le p p'"
      using all2 p' by (metis in_set_conv_nth list_all2_conv_all_nth)
    have ok: "phase_status_ok (rp_phase p) (rp_status p)" "terminal_coherent db p"
      using assms(1) p(1) by (simp_all add: plans_ok_def)
    have "terminal_coherent db' p'"
    proof (cases "p' \<in> set (db_plans db)")
      case True
      then have c: "terminal_coherent db p'"
        using assms(1) by (simp add: plans_ok_def)
      show ?thesis
      proof (cases "terminal_status (rp_status p')")
        case True
        show ?thesis
          using terminal_coherent_cong [OF legs_of_grows [OF g coherent_terminal_legs [OF c True]]] c by simp
      qed (simp add: terminal_coherent_def)
    next
      case False
      then have "commit_ok db db'"
        using assms(2) p' by (auto simp: commits_def)
      then show ?thesis
        using False p' by (auto simp: commit_ok_def list_all_iff)
    qed
    with ok(1) p(2) show ?thesis
      by (simp add: plan_le_def)
  qed
  with ids legs show ?thesis
    by (simp add: plans_ok_def)
qed

lemma insert_plans_ok:
  assumes "plans_ok db" "insert_ok db p legs"
  shows "plans_ok (insert_plan db p legs)"
proof -
  have fresh: "plan_id p \<notin> plan_id ` set (db_plans db)" and new: "\<forall>l \<in> set legs. lg_account_plan_id l = plan_id p"
    and same: "\<forall>l \<in> set legs. lg_user_id l = plan_user p \<and> lg_broker_account_id l = plan_account p"
    and seq: "distinct (map lg_model_sequence legs)" and pr: "pristine_plan p"
    using assms(2) by (auto simp: insert_ok_def list_all_iff)
  have old: "\<forall>l \<in> set (db_legs db). lg_account_plan_id l \<noteq> plan_id p"
    using assms(1) fresh by (metis plans_ok_def)
  have "distinct (map leg_key legs)"
    using seq by (simp add: leg_key_def distinct_map inj_on_def)
  moreover have "leg_key ` set (db_legs db) \<inter> leg_key ` set legs = {}"
    using old new by (auto simp: leg_key_def)
  ultimately have ids: "ids_ok (insert_plan db p legs)"
    using assms(1) fresh by (simp add: plans_ok_def ids_ok_def insert_plan_def)
  have other: "legs_of (insert_plan db p legs) (plan_id q) = legs_of db (plan_id q)" if "q \<in> set (db_plans db)" for q
  proof -
    have "plan_id q \<noteq> plan_id p"
      using that fresh by (metis imageI)
    then show ?thesis
      using new by (auto simp: legs_of_def insert_plan_def filter_empty_conv)
  qed
  have "terminal_coherent (insert_plan db p legs) q" if "q \<in> set (db_plans db)" for q
    using assms(1) that terminal_coherent_cong [OF other [OF that]] by (simp add: plans_ok_def)
  moreover have "terminal_coherent (insert_plan db p legs) p" "phase_status_ok (rp_phase p) (rp_status p)"
    using pr by (simp_all add: pristine_plan_def terminal_coherent_def terminal_status_def phase_status_ok_def)
  ultimately show ?thesis
    using assms(1) ids new by (auto simp: plans_ok_def insert_plan_def)
qed

lemma plan_step_cases:
  assumes "plan_step jc dur db db'" "ids_ok db"
  shows "commits db db' \<or> (\<exists>p legs. insert_ok db p legs \<and> db' = insert_plan db p legs)"
  using assms(1)
proof cases
  case (Insert p legs)
  then show ?thesis
    by blast
qed (use assms(2) in \<open>auto intro: claim_commits renew_commits mark_commits transition_commits freeze_commits
    resolve_commits\<close>)

lemma plan_step_ok: "plan_step jc dur db db' \<Longrightarrow> plans_ok db \<Longrightarrow> plans_ok db'"
  using plan_step_cases commits_plans_ok insert_plans_ok by (metis plans_ok_def)

lemma plan_steps_ok: "(plan_step jc dur)\<^sup>*\<^sup>* db db' \<Longrightarrow> plans_ok db \<Longrightarrow> plans_ok db'"
  by (induction rule: rtranclp_induct) (auto intro: plan_step_ok)

lemma empty_plans_ok: "plans_ok empty_plan_db"
  by (simp add: plans_ok_def ids_ok_def empty_plan_db_def)

lemma all2_in: "list_all2 R xs ys \<Longrightarrow> x \<in> set xs \<Longrightarrow> \<exists>y \<in> set ys. R x y"
  by (metis in_set_conv_nth list_all2_conv_all_nth)

lemma plan_step_keeps:
  assumes "plan_step jc dur db db'" "plans_ok db" "p \<in> set (db_plans db)"
  shows "\<exists>p' \<in> set (db_plans db'). plan_le p p'"
    "terminal_status (rp_status p) \<Longrightarrow> legs_of db' (plan_id p) = legs_of db (plan_id p)"
proof -
  have ids: "ids_ok db"
    using assms(2) by (simp add: plans_ok_def)
  consider (c) "grows db db'" | (i) q legs where "insert_ok db q legs" "db' = insert_plan db q legs"
    using plan_step_cases [OF assms(1) ids] by (auto simp: commits_def)
  note cases = this
  show "\<exists>p' \<in> set (db_plans db'). plan_le p p'"
    using cases
  proof cases
    case c
    then show ?thesis
      using all2_in assms(3) by (metis grows_def)
  next
    case i
    then show ?thesis
      using assms(3) by (intro bexI [of _ p]) (simp_all add: insert_plan_def)
  qed
  assume t: "terminal_status (rp_status p)"
  show "legs_of db' (plan_id p) = legs_of db (plan_id p)"
    using cases
  proof cases
    case c
    have "terminal_coherent db p"
      using assms(2,3) by (simp add: plans_ok_def)
    then show ?thesis
      using legs_of_grows [OF c] coherent_terminal_legs t by blast
  next
    case i
    then have "plan_id q \<notin> plan_id ` set (db_plans db)" "\<forall>l \<in> set legs. lg_account_plan_id l = plan_id q"
      by (auto simp: insert_ok_def list_all_iff)
    moreover from this(1) have "plan_id p \<noteq> plan_id q"
      using assms(3) by (metis imageI)
    ultimately have "plan_id p \<noteq> plan_id q" "\<forall>l \<in> set legs. lg_account_plan_id l = plan_id q"
      by simp_all
    then show ?thesis
      by (auto simp: i(2) legs_of_def insert_plan_def filter_empty_conv)
  qed
qed

lemma plan_steps_terminal:
  assumes "(plan_step jc dur)\<^sup>*\<^sup>* db db'" "plans_ok db" "p \<in> set (db_plans db)" "terminal_status (rp_status p)"
  shows "p \<in> set (db_plans db') \<and> legs_of db' (plan_id p) = legs_of db (plan_id p)"
  using assms(1)
proof (induction rule: rtranclp_induct)
  case (step db1 db2)
  have "plans_ok db1"
    by (rule plan_steps_ok [OF step(1) assms(2)])
  then show ?case
    using plan_step_keeps [OF step(2), of p] step(3) assms(4) by (auto simp: plan_le_def)
qed (use assms(3) in simp)

section \<open>Generations\<close>

definition plan_generation :: "plan_db \<Rightarrow> string \<Rightarrow> int" where
  "plan_generation db pid = (case find (\<lambda>p. plan_id p = pid) (db_plans db) of None \<Rightarrow> 0 | Some p \<Rightarrow> rp_fence_generation p)"

lemma plan_generation_unique:
  assumes "ids_ok db" "p \<in> set (db_plans db)"
  shows "plan_generation db (plan_id p) = rp_fence_generation p"
proof (cases "find (\<lambda>q. plan_id q = plan_id p) (db_plans db)")
  case None
  then show ?thesis
    using assms(2) by (auto simp: find_None_iff)
next
  case (Some q)
  have "inj_on plan_id (set (db_plans db))"
    using assms(1) by (simp add: ids_ok_def distinct_map)
  then have "q = p"
    using inj_onD find_in [OF Some] assms(2) by fast
  with Some show ?thesis
    by (simp add: plan_generation_def)
qed

lemma stale_lease_lost:
  assumes "ids_ok db" "pl_generation l < plan_generation db (pl_account_plan_id l)"
  shows "require_lease db l now = Inl lease_lost"
proof -
  have "find (\<lambda>p. plan_id p = pl_account_plan_id l \<and> rp_lease_owner p = Some (pl_owner l) \<and>
      rp_fence_generation p = pl_generation l) (db_plans db) = None"
    unfolding find_None_iff using plan_generation_unique [OF assms(1)] assms(2) by (metis less_irrefl)
  then show ?thesis
    by (simp add: require_lease_def)
qed

lemma plan_generation_absent: "pid \<notin> plan_id ` set (db_plans db) \<Longrightarrow> plan_generation db pid = 0"
  by (auto simp: plan_generation_def find_None_iff split: option.splits dest!: find_in)

definition gens_nonneg :: "plan_db \<Rightarrow> bool" where
  "gens_nonneg db \<longleftrightarrow> (\<forall>p \<in> set (db_plans db). 0 \<le> rp_fence_generation p)"

lemma plan_step_generation:
  assumes "plan_step jc dur db db'" "plans_ok db" "gens_nonneg db"
  shows "gens_nonneg db'" "plan_generation db pid \<le> plan_generation db' pid"
proof -
  have ids: "ids_ok db" "ids_ok db'"
    using assms(2) plan_step_ok [OF assms(1,2)] by (simp_all add: plans_ok_def)
  show g: "gens_nonneg db'"
    using plan_step_cases [OF assms(1) ids(1)]
  proof (elim disjE exE conjE)
    assume "commits db db'"
    then have "list_all2 plan_le (db_plans db) (db_plans db')"
      by (simp add: commits_def grows_def)
    then have "\<forall>q \<in> set (db_plans db'). \<exists>p \<in> set (db_plans db). plan_le p q"
      by (metis in_set_conv_nth list_all2_conv_all_nth)
    then show ?thesis
      using assms(3) unfolding gens_nonneg_def plan_le_def by (meson order.trans)
  next
    fix p legs
    assume "insert_ok db p legs" "db' = insert_plan db p legs"
    then show ?thesis
      using assms(3) by (auto simp: gens_nonneg_def insert_plan_def insert_ok_def pristine_plan_def)
  qed
  show "plan_generation db pid \<le> plan_generation db' pid"
  proof (cases "pid \<in> plan_id ` set (db_plans db)")
    case True
    then obtain p p' where p: "p \<in> set (db_plans db)" "plan_id p = pid" "p' \<in> set (db_plans db')" "plan_le p p'"
      using plan_step_keeps(1) [OF assms(1,2)] by blast
    then show ?thesis
      using plan_generation_unique [OF ids(1) p(1)] plan_generation_unique [OF ids(2) p(3)]
      by (simp add: plan_le_def)
  next
    case False
    have "0 \<le> plan_generation db' pid"
      using g by (auto simp: plan_generation_def gens_nonneg_def split: option.splits dest!: find_in)
    then show ?thesis
      using plan_generation_absent [OF False] by simp
  qed
qed

text \<open>The steps from a well-formed table, and the claims that acquire a plan.\<close>

definition ok_step :: "json_codec \<Rightarrow> duration \<Rightarrow> plan_db \<Rightarrow> plan_db \<Rightarrow> bool" where
  "ok_step jc dur db db' \<longleftrightarrow> plans_ok db \<and> gens_nonneg db \<and> plan_step jc dur db db'"

definition acquires :: "json_codec \<Rightarrow> duration \<Rightarrow> string \<Rightarrow> plan_db \<Rightarrow> plan_db \<Rightarrow> int \<Rightarrow> bool" where
  "acquires jc dur pid db db' g \<longleftrightarrow> plans_ok db \<and>
     (\<exists>c owner now l. cm_account_plan_id c = pid \<and> claim_plan jc dur db c owner now = (db', Inr l) \<and>
        pl_acquired l \<and> pl_generation l = g)"

lemma ok_steps:
  assumes "(plan_step jc dur)\<^sup>*\<^sup>* db db'" "plans_ok db" "gens_nonneg db"
  shows "(ok_step jc dur)\<^sup>*\<^sup>* db db' \<and> plans_ok db' \<and> gens_nonneg db'"
  using assms(1)
proof (induction rule: rtranclp_induct)
  case (step db1 db2)
  then have "ok_step jc dur db1 db2" "plans_ok db2" "gens_nonneg db2"
    using plan_step_ok plan_step_generation(1) by (auto simp: ok_step_def)
  with step show ?case
    by (blast intro: rtranclp.rtrancl_into_rtrancl)
qed (use assms(2,3) in simp)

lemma claim_acquired:
  assumes "claim_plan jc dur db c owner0 now = (db', Inr l)" "pl_acquired l"
  shows "\<exists>p db1 db2 a rq rs. locked_plan db (cm_account_plan_id c) = Inr p \<and> \<not> terminal_status (rp_status p) \<and>
    pc_execute_not_before (rp_contract p) \<le> now \<and> now < pc_expires_at (rp_contract p) \<and>
    now < rp_progress_deadline_at p \<and> rp_contract p = submitted_contract jc c \<and>
    settle_older db p now = Inr (db1, None) \<and> \<not> lease_held p (py_strip owner0) now \<and>
    save_plan db1 p (claimed_plan p (py_strip owner0) dur now) = Inr db2 \<and> db' = append_audit db2 p a rq rs \<and>
    l = lease_result (claimed_plan p (py_strip owner0) dur now) (py_strip owner0) True None None"
proof -
  have no: "\<not> pl_acquired (lease_result p ow False st r)" for p ow st r
    by (simp add: lease_result_def)
  have tr: "transaction db0 r = (db', Inr x) \<Longrightarrow> r = Inr (db', x)" for db0 r and x :: plan_lease
    by (auto simp: transaction_def split: sum.splits prod.splits if_splits)
  obtain p where p: "locked_plan db (cm_account_plan_id c) = Inr p" and v: "validate_command jc db p c = Inr ()"
    and ow: "py_strip owner0 \<noteq> []"
    using assms(1) by (auto simp: claim_plan_def Let_def split: if_splits sum.splits)
  have c1: "\<not> terminal_status (rp_status p)" "pc_execute_not_before (rp_contract p) \<le> now"
    using assms no by (auto simp: claim_plan_def p v ow Let_def split: if_splits)
  have c2: "now < pc_expires_at (rp_contract p)" "now < rp_progress_deadline_at p"
    using assms no c1 by (auto simp: claim_plan_def p v ow Let_def res_bind_Inr_iff split: if_splits dest!: tr)
  have cl: "(case settle_older db p now of
            Inl e \<Rightarrow> (db, Inl e)
          | Inr (db1, Some older) \<Rightarrow>
              transaction db (res_bind (save_plan db1 p (blocked_plan p older now)) (\<lambda>db2.
                Inr (db2, lease_result p (py_strip owner0) False None (Some ''older_plan_unresolved''))))
          | Inr (db1, None) \<Rightarrow> acquire_lease db db1 p (py_strip owner0) dur now) = (db', Inr l)"
    using assms(1) c1 c2 by (simp add: claim_plan_def p v ow Let_def)
  obtain db1 where s: "settle_older db p now = Inr (db1, None)"
    and a: "acquire_lease db db1 p (py_strip owner0) dur now = (db', Inr l)"
    using cl no assms(2) by (auto simp: res_bind_Inr_iff split: sum.splits option.splits dest!: tr)
  have h: "\<not> lease_held p (py_strip owner0) now"
    using a assms(2) no by (auto simp: acquire_lease_def split: if_splits)
  have "rp_contract p = submitted_contract jc c"
    using v by (simp add: validate_command_def split: if_splits)
  moreover obtain db2 a rq rs where "save_plan db1 p (claimed_plan p (py_strip owner0) dur now) = Inr db2"
    "db' = append_audit db2 p a rq rs"
    "l = lease_result (claimed_plan p (py_strip owner0) dur now) (py_strip owner0) True None None"
    using tr [OF a [unfolded acquire_lease_def if_not_P [OF h]]] unfolding res_bind_Inr_iff by blast
  ultimately show ?thesis
    using h c1 c2 p s by blast
qed

lemma claimed_in_table:
  assumes "ids_ok db" "claim_plan jc dur db c owner0 now = (db', Inr l)" "pl_acquired l"
  shows "\<exists>p db1. p \<in> set (db_plans db) \<and> plan_id p = cm_account_plan_id c \<and>
    claimed_plan p (py_strip owner0) dur now \<in> set (db_plans db') \<and> grows db db' \<and>
    older_unresolved_plan db1 p = None \<and> db_resolutions db' = db_resolutions db1 \<and>
    (\<forall>q. plan_id q \<noteq> plan_id p \<longrightarrow> q \<in> set (db_plans db') \<longrightarrow> q \<in> set (db_plans db1)) \<and>
    \<not> terminal_status (rp_status p) \<and> pc_execute_not_before (rp_contract p) \<le> now \<and>
    now < pc_expires_at (rp_contract p) \<and> now < rp_progress_deadline_at p \<and>
    l = lease_result (claimed_plan p (py_strip owner0) dur now) (py_strip owner0) True None None"
proof -
  from claim_acquired [OF assms(2,3)] obtain p db1 db2 a rq rs where
    c: "locked_plan db (cm_account_plan_id c) = Inr p" "\<not> terminal_status (rp_status p)"
      "pc_execute_not_before (rp_contract p) \<le> now" "now < pc_expires_at (rp_contract p)"
      "now < rp_progress_deadline_at p"
    and s: "settle_older db p now = Inr (db1, None)"
    and w: "save_plan db1 p (claimed_plan p (py_strip owner0) dur now) = Inr db2"
    and db': "db' = append_audit db2 p a rq rs"
    and l: "l = lease_result (claimed_plan p (py_strip owner0) dur now) (py_strip owner0) True None None"
    by blast
  note p = locked_plan_in [OF c(1)]
  note sp = settle_older_spec [OF s assms(1) conjunct1 [OF p]]
  let ?n = "claimed_plan p (py_strip owner0) dur now"
  have "rp_fence_generation ?n \<noteq> rp_fence_generation p"
    by (simp add: claimed_plan_def)
  then have ne: "?n \<noteq> p"
    by metis
  then have db2: "db2 = db1\<lparr>db_plans := update_where (\<lambda>q. plan_id q = plan_id p) (\<lambda>_. ?n) (db_plans db1)\<rparr>"
    using w by (simp add: save_plan_def split: if_splits)
  have pl: "db_plans db' = update_where (\<lambda>q. plan_id q = plan_id p) (\<lambda>_. ?n) (db_plans db1)"
    "db_resolutions db' = db_resolutions db1"
    by (simp_all add: db' db2 append_audit_def)
  have "grows db db'"
    using claim_commits [OF assms(1), of jc dur c owner0 now] assms(2) by (simp add: commits_def)
  moreover have "?n \<in> set (db_plans db')"
    using sp by (auto simp: pl update_where_def)
  moreover have "\<forall>q. plan_id q \<noteq> plan_id p \<longrightarrow> q \<in> set (db_plans db') \<longrightarrow> q \<in> set (db_plans db1)"
    by (auto simp: pl update_where_def claimed_plan_def)
  moreover have "older_unresolved_plan db1 p = None"
    using sp by simp
  ultimately show ?thesis
    using p c l pl(2) by blast
qed

interpretation plan_counter: fencing_counter "ok_step jc dur" "\<lambda>db. plan_generation db pid" "acquires jc dur pid"
  for jc dur pid
proof
  show "plan_generation db pid \<le> plan_generation db' pid" if "ok_step jc dur db db'" for db db'
    using that by (auto simp: ok_step_def intro: plan_step_generation(2))
  show "g = plan_generation db pid + 1 \<and> plan_generation db' pid = g" if "acquires jc dur pid db db' g" for db db' g
  proof -
    from that obtain c owner now l where a: "cm_account_plan_id c = pid" "pl_acquired l" "pl_generation l = g"
      "claim_plan jc dur db c owner now = (db', Inr l)" and ok: "plans_ok db"
      unfolding acquires_def by blast
    have ids: "ids_ok db"
      using ok by (simp add: plans_ok_def)
    from claimed_in_table [OF ids a(4,2)] obtain p where p: "p \<in> set (db_plans db)" "plan_id p = cm_account_plan_id c"
      "claimed_plan p (py_strip owner) dur now \<in> set (db_plans db')" "grows db db'"
      "l = lease_result (claimed_plan p (py_strip owner) dur now) (py_strip owner) True None None"
      by blast
    have "plan_generation db' (plan_id (claimed_plan p (py_strip owner) dur now)) = rp_fence_generation p + 1"
      using plan_generation_unique [OF grows_ids [OF p(4) ids] p(3)] by (simp add: claimed_plan_def)
    then show ?thesis
      using plan_generation_unique [OF ids p(1)] p(2,5) a(1,3) by (simp add: claimed_plan_def lease_result_def)
  qed
qed

section \<open>Properties\<close>

text \<open>
  C10: An ended plan is final. Once a plan is completed, degraded, failed, expired or cancelled in a reachable
  table, no sequence of operations changes its row or its legs; every leg is closed; and when it is
  completed every selected leg is confirmed and has a frozen target.
\<close>

theorem terminal_plan_final:
  assumes "(plan_step jc dur)\<^sup>*\<^sup>* empty_plan_db db" "p \<in> set (db_plans db)" "terminal_status (rp_status p)"
    and "(plan_step jc dur)\<^sup>*\<^sup>* db db'"
  shows "p \<in> set (db_plans db') \<and> legs_of db' (plan_id p) = legs_of db (plan_id p) \<and>
    list_all (\<lambda>l. terminal_leg (lg_status l) \<and>
      (rp_status p = S_completed \<and> selected l \<longrightarrow> lg_status l = L_confirmed \<and> lg_frozen_target l \<noteq> None))
      (legs_of db' (plan_id p))"
proof -
  have ok: "plans_ok db"
    by (rule plan_steps_ok [OF assms(1) empty_plans_ok])
  then have c: "terminal_coherent db p"
    using assms(2) by (simp add: plans_ok_def)
  note k = plan_steps_terminal [OF assms(4) ok assms(2,3)]
  have "list_all (\<lambda>l. terminal_leg (lg_status l) \<and>
      (rp_status p = S_completed \<and> selected l \<longrightarrow> lg_status l = L_confirmed \<and> lg_frozen_target l \<noteq> None))
      (legs_of db (plan_id p))"
    using c assms(3) unfolding terminal_coherent_def Let_def by (auto simp: list_all_iff needs_target_def)
  with k show ?thesis
    by simp
qed

text \<open>
  C11: A stale lease changes nothing. After a plan has been claimed again, whatever happens since, every
  operation under the earlier lease raises the lease-lost error and leaves the tables as they are.
\<close>

theorem stale_plan_lease_fenced:
  assumes "(plan_step jc dur)\<^sup>*\<^sup>* empty_plan_db db" "claim_plan jc dur db c owner now = (db1, Inr l)" "pl_acquired l"
    and "(plan_step jc dur)\<^sup>*\<^sup>* db1 db2" "claim_plan jc dur db2 c owner' now' = (db3, Inr l')" "pl_acquired l'"
    and "(plan_step jc dur)\<^sup>*\<^sup>* db3 db4"
  shows "renew_lease dur db4 l t = (db4, Inl lease_lost) \<and>
    mark_leg dur db4 l i st t code detail = (db4, Inl lease_lost) \<and>
    transition_plan dur db4 l ch t = (db4, Inl lease_lost) \<and>
    (0 \<le> q \<and> 0 < g \<longrightarrow> freeze_leg_target dur db4 l i (Fin q) g t = (db4, Inl lease_lost))"
proof -
  have e: "gens_nonneg empty_plan_db"
    by (simp add: gens_nonneg_def empty_plan_db_def)
  have s1: "plan_step jc dur db db1" "plan_step jc dur db2 db3"
    using plan_step.Claim [of jc dur db c owner now] plan_step.Claim [of jc dur db2 c owner' now'] assms(2,5) by simp_all
  have ok0: "plans_ok db" "gens_nonneg db"
    using ok_steps [OF assms(1) empty_plans_ok e] by simp_all
  have ok1: "plans_ok db1" "gens_nonneg db1"
    using plan_step_ok [OF s1(1) ok0(1)] plan_step_generation(1) [OF s1(1) ok0] by simp_all
  have ok2: "(ok_step jc dur)\<^sup>*\<^sup>* db1 db2" "plans_ok db2" "gens_nonneg db2"
    using ok_steps [OF assms(4) ok1] by simp_all
  have ok3: "plans_ok db3" "gens_nonneg db3"
    using plan_step_ok [OF s1(2) ok2(2)] plan_step_generation(1) [OF s1(2) ok2(2,3)] by simp_all
  have ok4: "(ok_step jc dur)\<^sup>*\<^sup>* db3 db4" "plans_ok db4"
    using ok_steps [OF assms(7) ok3] by simp_all
  let ?pid = "cm_account_plan_id c"
  have a: "acquires jc dur ?pid db db1 (pl_generation l)" "acquires jc dur ?pid db2 db3 (pl_generation l')"
    using assms ok0 ok2 by (auto simp: acquires_def)
  have "pl_generation l < pl_generation l'"
    by (rule plan_counter.later_claim_greater [OF a(1) ok2(1) a(2)])
  also have "pl_generation l' = plan_generation db3 ?pid"
    using plan_counter.takes_next [OF a(2)] by simp
  finally have "pl_generation l < plan_generation db4 ?pid"
    using ok4(1) by (rule plan_counter.stale_forever)
  moreover have "pl_account_plan_id l = ?pid"
    using claimed_in_table [OF _ assms(2,3)] ok0(1) by (auto simp: plans_ok_def lease_result_def claimed_plan_def)
  ultimately have r: "require_lease db4 l t = Inl lease_lost" for t
    using ok4(2) by (intro stale_lease_lost) (simp_all add: plans_ok_def)
  show ?thesis
    by (simp add: renew_lease_def mark_leg_def transition_plan_def freeze_leg_target_def r transaction_def)
qed

text \<open>
  C20: Plans of an account run in order. A claim that is acquired finds the plan inside its window, and leaves
  a table in which every older plan of the account has ended and, if it failed, has been resolved by an
  operator.
\<close>

theorem claim_waits_for_older:
  assumes "(plan_step jc dur)\<^sup>*\<^sup>* empty_plan_db db" "claim_plan jc dur db c owner now = (db', Inr l)" "pl_acquired l"
  shows "\<exists>p \<in> set (db_plans db'). plan_id p = cm_account_plan_id c \<and> rp_status p = S_running \<and>
    pc_execute_not_before (rp_contract p) \<le> now \<and> now < pc_expires_at (rp_contract p) \<and>
    rp_fence_generation p = pl_generation l \<and> rp_lease_owner p = Some (pl_owner l) \<and>
    (\<forall>q \<in> set (db_plans db'). older_than q p \<longrightarrow>
       terminal_status (rp_status q) \<and> (rp_status q = S_failed \<longrightarrow> resolved db' q))"
proof -
  have ids: "ids_ok db"
    using plan_steps_ok [OF assms(1) empty_plans_ok] by (simp add: plans_ok_def)
  from claimed_in_table [OF ids assms(2,3)] obtain p db1 where
    p: "plan_id p = cm_account_plan_id c" "claimed_plan p (py_strip owner) dur now \<in> set (db_plans db')"
      "older_unresolved_plan db1 p = None" "db_resolutions db' = db_resolutions db1"
      "\<forall>q. plan_id q \<noteq> plan_id p \<longrightarrow> q \<in> set (db_plans db') \<longrightarrow> q \<in> set (db_plans db1)"
      "pc_execute_not_before (rp_contract p) \<le> now" "now < pc_expires_at (rp_contract p)"
      "l = lease_result (claimed_plan p (py_strip owner) dur now) (py_strip owner) True None None"
    by blast
  let ?n = "claimed_plan p (py_strip owner) dur now"
  have none: "filter (\<lambda>q. older_than q p \<and> unresolved db1 q) (db_plans db1) = []"
    using p(3) by (simp add: older_unresolved_plan_def split: list.splits)
      (metis (no_types, lifting) set_empty set_sort)
  have older: "older_than q ?n \<longleftrightarrow> older_than q p" for q
    by (simp add: older_than_def same_account_def order_key_def claimed_plan_def)
  have "\<not> unresolved db' q" if "q \<in> set (db_plans db')" "older_than q ?n" for q
  proof -
    have "q \<in> set (db_plans db1)" "older_than q p"
      using that p(5) older by (auto simp: older_than_def)
    then have "\<not> unresolved db1 q"
      using none by (auto simp: filter_empty_conv)
    then show ?thesis
      by (simp add: unresolved_def resolved_def p(4))
  qed
  then have "\<forall>q \<in> set (db_plans db'). older_than q ?n \<longrightarrow>
      terminal_status (rp_status q) \<and> (rp_status q = S_failed \<longrightarrow> resolved db' q)"
    by (auto simp: unresolved_def)
  then show ?thesis
    using p(1,2,6-8) by (intro bexI [OF _ p(2)]) (simp add: claimed_plan_def lease_result_def)
qed

text \<open>
  A leg is offered for another submission only when nothing can have reached the broker: the state is
  absent or retryable exactly when there is no recoverable or closed order, no fill, no intent, and no
  decision that is executing, executed, failed or rejected.
\<close>

theorem resubmission_only_before_submission:
  "classify_execution a \<in> {X_absent, X_retryable_pre_submission} \<longleftrightarrow>
     (\<forall>(st, _) \<in> set (ea_pending a). py_lower st \<notin> set RECOVERABLE_ORDER_STATUSES) \<and>
     ea_orders a = [] \<and> ea_fills a = [] \<and> ea_intents a = [] \<and>
     {''executing'', ''executed'', ''failed'', ''rejected''} \<inter> set (map py_lower (ea_decisions a)) = {}"
  by (auto simp: classify_execution_def Let_def filter_empty_conv case_prod_unfold)

section \<open>Witnesses\<close>

definition ex_digest :: string where
  "ex_digest = replicate 64 CHR ''a''"

definition ex_codec :: json_codec where
  "ex_codec = \<lparr>jc_hash = (\<lambda>_. ex_digest), jc_size = length\<rparr>"

definition ex_command :: rebalance_command where
  "ex_command =
     \<lparr>cm_account_plan_id = ''plan'', cm_model_rebalance_id = ''m'', cm_user_id = ''u'', cm_binding_id = 1,
      cm_broker_account_id = 7, cm_strategy_id = ''s'', cm_data_use_scope = ''paper_forward'',
      cm_provider_authority = ex_digest, cm_decision_cutoff = 0, cm_execute_not_before = 10,
      cm_execution_session = ex_digest, cm_expires_at = 1000, cm_execution_policy = [], cm_broker_route = [],
      cm_content_sha256 = ex_digest, cm_expected_leg_count = 1, cm_intentional_cash_slots = 0,
      cm_legs = [\<lparr>cg_plan_leg_id = ''leg'', cg_sequence = 0, cg_phase = ''exit'', cg_model_leg_id = ''ml'',
        cg_signal_sha256 = ex_digest, cg_external_signal_id = ''sig'', cg_symbol = ''BTC'', cg_rank = None,
        cg_allocation_hint = 0, cg_required = True, cg_depends_on = []\<rparr>]\<rparr>"

definition ex_new_plan :: rebalance_plan where
  "ex_new_plan =
     \<lparr>rp_contract = submitted_contract ex_codec ex_command, rp_model_leg_count = 1, rp_phase = P_exit,
      rp_status = S_pending, rp_fence_generation = 0, rp_lease_owner = None, rp_lease_expires_at = None,
      rp_progress_deadline_at = 900, rp_last_progress_at = None, rp_last_error_code = None,
      rp_last_error_detail = None, rp_completion_generation = None, rp_terminal_targets = None,
      rp_created_at = 1, rp_updated_at = 1\<rparr>"

definition ex_new_leg :: plan_leg where
  "ex_new_leg =
     \<lparr>lg_account_plan_id = ''plan'', lg_user_id = ''u'', lg_broker_account_id = 7, lg_model_sequence = 0,
      lg_command_sequence = Some 0, lg_model_leg_id = ''ml'', lg_signal_sha256 = ex_digest,
      lg_plan_leg_id = ''leg'', lg_instr_id = 3, lg_external_signal_id = ''sig'', lg_symbol = ''BTC'',
      lg_phase = ''exit'', lg_action = ''exit'', lg_disposition = ''selected'', lg_rank_position = None,
      lg_allocation_hint = 0, lg_required = True, lg_depends_on = [], lg_reason_code = ''exit'',
      lg_status = L_pending, lg_last_progress_at = None, lg_last_error_code = None, lg_frozen_target = None,
      lg_target_generation = None, lg_target_frozen_at = None\<rparr>"

definition ex_inserted :: plan_db where
  "ex_inserted = insert_plan empty_plan_db ex_new_plan [ex_new_leg]"

definition ex_claim :: "plan_db \<Rightarrow> string \<Rightarrow> time \<Rightarrow> plan_db \<times> plan_lease res" where
  "ex_claim db owner now = claim_plan ex_codec 90 db ex_command owner now"

definition ex_lease :: "plan_db \<times> plan_lease res \<Rightarrow> plan_lease" where
  "ex_lease r = (case snd r of Inr l \<Rightarrow> l | Inl _ \<Rightarrow> lease_result ex_new_plan [] False None None)"

definition ex_claimed1 :: plan_db where
  "ex_claimed1 = fst (ex_claim ex_inserted ''a'' 20)"

definition ex_claimed2 :: plan_db where
  "ex_claimed2 = fst (ex_claim ex_claimed1 ''b'' 200)"

definition ex_completed :: plan_db where
  "ex_completed =
     (let l = ex_lease (ex_claim ex_inserted ''a'' 20);
          db1 = fst (freeze_leg_target 90 ex_claimed1 l ''leg'' (Fin 0) 1 21);
          db2 = fst (mark_leg 90 db1 l ''leg'' L_confirmed 22 None None)
      in fst (transition_plan 90 db2 l
           \<lparr>ch_phase = P_complete, ch_status = S_completed, ch_error_code = None, ch_error_detail = None,
            ch_release_lease = True, ch_completion_generation = Some 1, ch_terminal_targets = Some ex_digest\<rparr> 23))"

abbreviation ex_steps :: "plan_db \<Rightarrow> plan_db \<Rightarrow> bool" where
  "ex_steps \<equiv> (plan_step ex_codec 90)\<^sup>*\<^sup>*"

lemma ex_inserted_reachable: "ex_steps empty_plan_db ex_inserted"
proof -
  have "insert_ok empty_plan_db ex_new_plan [ex_new_leg]"
    by code_simp
  then show ?thesis
    unfolding ex_inserted_def by (intro r_into_rtranclp plan_step.Insert)
qed

lemma ex_plan_claim_step: "plan_step ex_codec 90 db (fst (ex_claim db owner now))"
  unfolding ex_claim_def by (rule plan_step.Claim)

lemma ex_claimed_reachable: "ex_steps empty_plan_db ex_claimed1" "ex_steps ex_claimed1 ex_claimed2"
  unfolding ex_claimed1_def ex_claimed2_def
  using ex_inserted_reachable ex_plan_claim_step by (blast intro: rtranclp.rtrancl_into_rtrancl)+

lemma ex_completed_reachable: "ex_steps empty_plan_db ex_completed"
proof -
  have "ex_steps ex_claimed1 ex_completed"
    unfolding ex_completed_def Let_def
    by (meson converse_rtranclp_into_rtranclp plan_step.Freeze plan_step.Mark plan_step.Transition r_into_rtranclp)
  then show ?thesis
    using ex_claimed_reachable(1) by (meson rtranclp_trans)
qed

theorem terminal_plan_final_witness:
  "\<exists>p \<in> set (db_plans ex_completed). rp_status p = S_completed \<and>
     list_all (\<lambda>l. lg_status l = L_confirmed \<or> \<not> selected l) (legs_of ex_completed (plan_id p))"
proof -
  have "case db_plans ex_completed of [p] \<Rightarrow> rp_status p = S_completed | _ \<Rightarrow> False"
    by code_simp
  then obtain p where p: "p \<in> set (db_plans ex_completed)" "rp_status p = S_completed"
    by (auto split: list.splits)
  have "terminal_status (rp_status p)"
    by (simp add: p(2) terminal_status_def)
  from terminal_plan_final [OF ex_completed_reachable p(1) this rtranclp.rtrancl_refl] p show ?thesis
    by (intro bexI [of _ p]) (auto simp: list_all_iff)
qed

lemma ex_claim_Inr:
  "(case snd (ex_claim db owner now) of Inr l \<Rightarrow> pl_acquired l | Inl _ \<Rightarrow> False) \<Longrightarrow>
     claim_plan ex_codec 90 db ex_command owner now = (fst (ex_claim db owner now), Inr (ex_lease (ex_claim db owner now))) \<and>
     pl_acquired (ex_lease (ex_claim db owner now))"
  by (auto simp: ex_lease_def ex_claim_def split: sum.splits) (metis prod.collapse)

theorem stale_plan_lease_fenced_witness:
  "renew_lease 90 ex_claimed2 (ex_lease (ex_claim ex_inserted ''a'' 20)) 201 = (ex_claimed2, Inl lease_lost)"
proof -
  have "case snd (ex_claim ex_inserted ''a'' 20) of Inr l \<Rightarrow> pl_acquired l | Inl _ \<Rightarrow> False"
    "case snd (ex_claim ex_claimed1 ''b'' 200) of Inr l \<Rightarrow> pl_acquired l | Inl _ \<Rightarrow> False"
    by code_simp+
  note c = ex_claim_Inr [OF this(1)] ex_claim_Inr [OF this(2)]
  show ?thesis
    using stale_plan_lease_fenced [OF ex_inserted_reachable conjunct1 [OF c(1)] conjunct2 [OF c(1)]
        rtranclp.rtrancl_refl conjunct1 [OF c(2) [unfolded ex_claimed1_def]]
        conjunct2 [OF c(2) [unfolded ex_claimed1_def]] rtranclp.rtrancl_refl]
    by (simp add: ex_claimed2_def ex_claimed1_def)
qed

theorem claim_waits_for_older_witness:
  "\<exists>p \<in> set (db_plans ex_claimed1). plan_id p = ''plan'' \<and> rp_status p = S_running \<and> rp_lease_owner p = Some ''a''"
proof -
  have "case snd (ex_claim ex_inserted ''a'' 20) of Inr l \<Rightarrow> pl_acquired l | Inl _ \<Rightarrow> False"
    "cm_account_plan_id ex_command = ''plan''" "pl_owner (ex_lease (ex_claim ex_inserted ''a'' 20)) = ''a''"
    by code_simp+
  note c = ex_claim_Inr [OF this(1)] this(2,3)
  show ?thesis
    using claim_waits_for_older [OF ex_inserted_reachable conjunct1 [OF c(1)] conjunct2 [OF c(1)]] c(2,3)
    by (auto simp: ex_claimed1_def)
qed

theorem resubmission_only_before_submission_witness:
  "classify_execution \<lparr>ea_decisions = [''Pending''], ea_intents = [], ea_orders = [], ea_fills = [],
     ea_pending = [(''cancelled'', 0)]\<rparr> \<in> {X_absent, X_retryable_pre_submission}"
proof -
  have "py_lower ''cancelled'' \<notin> set RECOVERABLE_ORDER_STATUSES"
    "{''executing'', ''executed'', ''failed'', ''rejected''} \<inter> set (map py_lower [''Pending'']) = {}"
    by code_simp+
  then show ?thesis
    unfolding resubmission_only_before_submission by simp
qed

end
