(* ===== verification/Market_Sessions.thy ===== *)
theory Market_Sessions
  imports Signals
begin

text \<open>
  Admission by market session, \<open>execution_engine/market_sessions.py\<close>: whether the market of a persisted
  instrument is open, from an authoritative calendar that must be fresh and cover the time.

  \<^item> A table is a list of rows; where a query takes one row of several, the first is taken. Whether
    the database answers is an argument.
  \<^item> A decision keeps its reason and calendar; the message, a formatted text of the same values, is
    left out.
  \<^item> The digest of canonical JSON is a parameter. A time or date written with \<open>isoformat\<close> is the clock
    value.
\<close>

section \<open>Tables\<close>

record instrument =
  in_instr_id :: int
  in_asset_class :: string
  in_is_tradable :: bool
  in_market_session_policy :: string
  in_market_calendar_id :: "int option"

record market_calendar =
  mc_calendar_id :: int
  mc_code :: string
  mc_provider :: string
  mc_source_kind :: string
  mc_source_reference :: string
  mc_coverage_start :: "time option"
  mc_coverage_end :: "time option"
  mc_observed_at :: "time option"
  mc_observation_id :: "string option"

record market_session =
  ms_calendar_id :: int
  ms_opens_at :: time
  ms_closes_at :: time

record equity_observation =
  eo_observation_id :: string
  eo_lineage_id :: string
  eo_observation_kind :: string
  eo_disposition :: string
  eo_available_at :: "time option"
  eo_source_record_identity :: string

record source_lineage =
  sl_lineage_id :: string
  sl_provider :: string
  sl_product :: string
  sl_endpoint :: string
  sl_source_identity :: string
  sl_timestamp_semantics :: pyval
  sl_entitlement_scope :: string

record session_tables =
  st_instruments :: "instrument list"
  st_calendars :: "market_calendar list"
  st_sessions :: "market_session list"
  st_observations :: "equity_observation list"
  st_lineages :: "source_lineage list"

section \<open>Decisions\<close>

record session_decision =
  sd_is_open :: bool
  sd_reason :: string
  sd_calendar_code :: "string option"
  sd_provider :: "string option"

definition closed_for :: "string \<Rightarrow> session_decision" where
  "closed_for reason = \<lparr>sd_is_open = False, sd_reason = reason, sd_calendar_code = None, sd_provider = None\<rparr>"

definition open_for :: "string \<Rightarrow> session_decision" where
  "open_for reason = \<lparr>sd_is_open = True, sd_reason = reason, sd_calendar_code = None, sd_provider = None\<rparr>"

definition of_calendar :: "market_calendar \<Rightarrow> session_decision \<Rightarrow> session_decision" where
  "of_calendar cal d = d\<lparr>sd_calendar_code := Some (mc_code cal), sd_provider := Some (mc_provider cal)\<rparr>"

definition unavailable_calendar :: "market_calendar \<Rightarrow> session_decision" where
  "unavailable_calendar cal = of_calendar cal (closed_for ''market_session_unavailable'')"

definition MAX_FUTURE_OBSERVATION_SKEW :: duration where
  "MAX_FUTURE_OBSERVATION_SKEW = seconds 5"

section \<open>The provider\<close>

definition session_provider_init :: "duration \<Rightarrow> duration res" where
  "session_provider_init max_observation_age =
     (if max_observation_age \<le> 0 then Inl (ValueError ''max_observation_age must be positive'')
      else Inr max_observation_age)"

definition signal_instrument_id :: "signal \<Rightarrow> int option" where
  "signal_instrument_id s =
     (case py_int (sn_instrument_id s) of Some i \<Rightarrow> if i \<le> 0 then None else Some i | None \<Rightarrow> None)"

definition validate_identity :: "instrument option \<Rightarrow> signal \<Rightarrow> session_decision option" where
  "validate_identity found s =
     (case found of
        None \<Rightarrow> Some (closed_for ''market_session_identity_invalid'')
      | Some i \<Rightarrow>
          if (case sn_asset_class s of None \<Rightarrow> False | Some a \<Rightarrow> a \<noteq> [] \<and> in_asset_class i \<noteq> a)
          then Some (closed_for ''market_session_identity_invalid'')
          else if \<not> in_is_tradable i then Some (closed_for ''instrument_not_tradable'')
          else if in_market_session_policy i = ''continuous'' \<and> in_asset_class i \<noteq> ''crypto''
          then Some (closed_for ''market_session_policy_invalid'')
          else None)"

definition validate_calendar :: "duration \<Rightarrow> market_calendar \<Rightarrow> time \<Rightarrow> session_decision option" where
  "validate_calendar max_age cal now =
     (case (mc_coverage_start cal, mc_coverage_end cal, mc_observed_at cal) of
        (Some _, Some _, Some observed) \<Rightarrow>
          if MAX_FUTURE_OBSERVATION_SKEW < observed - now then Some (unavailable_calendar cal)
          else if max_age < now - observed then Some (unavailable_calendar cal)
          else None
      | _ \<Rightarrow> Some (unavailable_calendar cal))"

definition open_window :: "session_tables \<Rightarrow> market_calendar \<Rightarrow> time \<Rightarrow> market_session option" where
  "open_window db cal now =
     find (\<lambda>w. ms_calendar_id w = mc_calendar_id cal \<and> ms_opens_at w \<le> now \<and> now < ms_closes_at w) (st_sessions db)"

definition find_instrument :: "session_tables \<Rightarrow> int \<Rightarrow> instrument option" where
  "find_instrument db i = find (\<lambda>r. in_instr_id r = i) (st_instruments db)"

definition find_calendar :: "session_tables \<Rightarrow> instrument \<Rightarrow> market_calendar option" where
  "find_calendar db i =
     (case in_market_calendar_id i of
        None \<Rightarrow> None
      | Some c \<Rightarrow> find (\<lambda>r. mc_calendar_id r = c) (st_calendars db))"

definition evaluate_scheduled :: "duration \<Rightarrow> session_tables \<Rightarrow> instrument \<Rightarrow> time \<Rightarrow> session_decision" where
  "evaluate_scheduled max_age db i now =
     (case find_calendar db i of
        None \<Rightarrow> closed_for ''market_session_unavailable''
      | Some cal \<Rightarrow>
          (case validate_calendar max_age cal now of
             Some d \<Rightarrow> d
           | None \<Rightarrow>
               if \<not> (the (mc_coverage_start cal) \<le> now \<and> now < the (mc_coverage_end cal))
               then of_calendar cal (closed_for ''market_session_unavailable'')
               else (case open_window db cal now of
                       None \<Rightarrow> of_calendar cal (closed_for ''market_closed'')
                     | Some _ \<Rightarrow> of_calendar cal (open_for ''market_open''))))"

definition evaluate_session :: "duration \<Rightarrow> session_tables option \<Rightarrow> signal \<Rightarrow> time \<Rightarrow> session_decision" where
  "evaluate_session max_age db s now =
     (case signal_instrument_id s of
        None \<Rightarrow> closed_for ''market_session_identity_invalid''
      | Some n \<Rightarrow>
          (case db of
             None \<Rightarrow> closed_for ''market_session_unavailable''
           | Some t \<Rightarrow>
               (case validate_identity (find_instrument t n) s of
                  Some d \<Rightarrow> d
                | None \<Rightarrow>
                    (let i = the (find_instrument t n)
                     in if in_market_session_policy i = ''continuous'' then open_for ''continuous_market''
                        else if in_market_session_policy i \<noteq> ''scheduled''
                        then closed_for ''market_session_policy_invalid''
                        else evaluate_scheduled max_age t i now))))"

definition evaluate_tradability :: "session_tables option \<Rightarrow> signal \<Rightarrow> session_decision" where
  "evaluate_tradability db s =
     (case signal_instrument_id s of
        None \<Rightarrow> closed_for ''instrument_identity_invalid''
      | Some n \<Rightarrow>
          (case db of
             None \<Rightarrow> closed_for ''instrument_tradability_unavailable''
           | Some t \<Rightarrow>
               (case validate_identity (find_instrument t n) s of
                  Some d \<Rightarrow> d
                | None \<Rightarrow> open_for ''instrument_tradable'')))"

section \<open>Pinned sessions\<close>

definition day_of :: "time \<Rightarrow> time" where
  "day_of t = t - t mod seconds 86400"

text \<open>The material of the digest: the schedule, not its observation or its coverage.\<close>

definition session_content :: "market_calendar \<Rightarrow> market_session \<Rightarrow> source_lineage \<Rightarrow> pydict" where
  "session_content cal w l =
     [(''schema'', PStr ''authoritative-market-session-v1''), (''calendar_code'', PStr (mc_code cal)),
      (''source_kind'', PStr (mc_source_kind cal)), (''provider'', PStr (mc_provider cal)),
      (''source_reference'', PStr (mc_source_reference cal)), (''product'', PStr (sl_product l)),
      (''endpoint'', PStr (sl_endpoint l)), (''source_identity'', PStr (sl_source_identity l)),
      (''timestamp_semantics'', sl_timestamp_semantics l), (''entitlement_scope'', PStr (sl_entitlement_scope l)),
      (''session_date'', PTime (day_of (ms_opens_at w))), (''session_status'', PStr ''open_regular''),
      (''opens_at'', PTime (ms_opens_at w)), (''closes_at'', PTime (ms_closes_at w))]"

definition calendar_lineage ::
    "session_tables \<Rightarrow> market_calendar \<Rightarrow> (equity_observation \<times> source_lineage) option" where
  "calendar_lineage db cal =
     (case mc_observation_id cal of
        None \<Rightarrow> None
      | Some ob \<Rightarrow>
          (case find (\<lambda>r. eo_observation_id r = ob) (st_observations db) of
             None \<Rightarrow> None
           | Some r \<Rightarrow>
               (case find (\<lambda>l. sl_lineage_id l = eo_lineage_id r) (st_lineages db) of
                  None \<Rightarrow> None
                | Some l \<Rightarrow>
                    if eo_observation_kind r \<noteq> ''calendar'' \<or> eo_disposition r \<noteq> ''observed'' \<or>
                       eo_available_at r = None \<or> sl_provider l \<noteq> mc_provider cal \<or>
                       eo_source_record_identity r \<noteq> mc_source_reference cal
                    then None else Some (r, l))))"

definition evaluate_pinned ::
    "(pydict \<Rightarrow> string) \<Rightarrow> session_tables \<Rightarrow> market_calendar \<Rightarrow> time \<Rightarrow> string \<Rightarrow> time \<Rightarrow> session_decision" where
  "evaluate_pinned digest db cal expected_open expected_digest now =
     (case open_window db cal now of
        None \<Rightarrow> of_calendar cal (closed_for ''market_closed'')
      | Some w \<Rightarrow>
          if ms_opens_at w \<noteq> expected_open
          then of_calendar cal (closed_for ''rebalance_execution_session_mismatch'')
          else if \<not> (the (mc_coverage_start cal) \<le> ms_opens_at w \<and> ms_opens_at w < ms_closes_at w \<and>
                     ms_closes_at w \<le> the (mc_coverage_end cal))
          then unavailable_calendar cal
          else (case calendar_lineage db cal of
                  None \<Rightarrow> unavailable_calendar cal
                | Some (_, l) \<Rightarrow>
                    if digest (session_content cal w l) \<noteq> expected_digest
                    then of_calendar cal (closed_for ''rebalance_execution_session_digest_mismatch'')
                    else of_calendar cal (open_for ''rebalance_execution_session_pinned'')))"

definition evaluate_pinned_rebalance_session ::
    "(pydict \<Rightarrow> string) \<Rightarrow> duration \<Rightarrow> session_tables option \<Rightarrow> signal \<Rightarrow> time \<Rightarrow> string \<Rightarrow> time \<Rightarrow>
     session_decision" where
  "evaluate_pinned_rebalance_session digest max_age db s expected_open expected_digest now =
     (case signal_instrument_id s of
        None \<Rightarrow> closed_for ''market_session_identity_invalid''
      | Some n \<Rightarrow>
          (case db of
             None \<Rightarrow> closed_for ''market_session_unavailable''
           | Some t \<Rightarrow>
               (case validate_identity (find_instrument t n) s of
                  Some d \<Rightarrow> d
                | None \<Rightarrow>
                    (let i = the (find_instrument t n)
                     in if in_asset_class i \<noteq> ''equity'' \<or> in_market_session_policy i \<noteq> ''scheduled'' \<or>
                           in_market_calendar_id i = None
                        then closed_for ''rebalance_execution_session_mismatch''
                        else (case find_calendar t i of
                                None \<Rightarrow> closed_for ''market_session_unavailable''
                              | Some cal \<Rightarrow>
                                  (case validate_calendar max_age cal now of
                                     Some d \<Rightarrow> d
                                   | None \<Rightarrow> evaluate_pinned digest t cal expected_open expected_digest now))))))"

section \<open>What an open decision rests on\<close>

lemma instrument_id_positive: "signal_instrument_id s = Some n \<Longrightarrow> 0 < n"
  by (auto simp: signal_instrument_id_def split: option.splits if_splits)

lemma identity_valid:
  assumes "validate_identity found s = None"
  shows "\<exists>i. found = Some i \<and> in_is_tradable i \<and>
    (\<forall>a. sn_asset_class s = Some a \<longrightarrow> a = [] \<or> in_asset_class i = a) \<and>
    (in_market_session_policy i = ''continuous'' \<longrightarrow> in_asset_class i = ''crypto'')"
  using assms by (auto simp: validate_identity_def split: option.splits if_splits)

lemma closed_decisions [simp]:
  "\<not> sd_is_open (closed_for r)" "sd_is_open (open_for r)" "\<not> sd_is_open (unavailable_calendar cal)"
  "sd_is_open (of_calendar cal d) = sd_is_open d"
  by (simp_all add: closed_for_def open_for_def unavailable_calendar_def of_calendar_def)

lemma identity_closed: "validate_identity found s = Some d \<Longrightarrow> \<not> sd_is_open d"
  by (auto simp: validate_identity_def split: option.splits if_splits)

text \<open>A calendar that passed was observed within its age and not after the time, up to the skew.\<close>

definition calendar_fresh :: "duration \<Rightarrow> market_calendar \<Rightarrow> time \<Rightarrow> bool" where
  "calendar_fresh max_age cal now =
     (\<exists>observed. mc_observed_at cal = Some observed \<and> now - max_age \<le> observed \<and>
                 observed \<le> now + MAX_FUTURE_OBSERVATION_SKEW)"

lemma calendar_valid:
  assumes "validate_calendar max_age cal now = None"
  shows "calendar_fresh max_age cal now \<and> mc_coverage_start cal \<noteq> None \<and> mc_coverage_end cal \<noteq> None"
  using assms by (auto simp: validate_calendar_def calendar_fresh_def split: option.splits if_splits)

lemma calendar_closed: "validate_calendar max_age cal now = Some d \<Longrightarrow> \<not> sd_is_open d"
  by (auto simp: validate_calendar_def split: option.splits if_splits)

lemma open_windowD:
  assumes "open_window db cal now = Some w"
  shows "w \<in> set (st_sessions db)" "ms_calendar_id w = mc_calendar_id cal" "ms_opens_at w \<le> now" "now < ms_closes_at w"
  using assms by (auto simp: open_window_def find_Some_iff)

text \<open>The market of an instrument is open at a time: a fresh calendar of its own covers it with a session.\<close>

definition session_open :: "duration \<Rightarrow> session_tables \<Rightarrow> instrument \<Rightarrow> time \<Rightarrow> bool" where
  "session_open max_age db i now =
     (\<exists>cal start stop w. find_calendar db i = Some cal \<and> calendar_fresh max_age cal now \<and>
        mc_coverage_start cal = Some start \<and> mc_coverage_end cal = Some stop \<and> start \<le> now \<and> now < stop \<and>
        w \<in> set (st_sessions db) \<and> ms_calendar_id w = mc_calendar_id cal \<and>
        ms_opens_at w \<le> now \<and> now < ms_closes_at w)"

lemma evaluate_scheduled_open:
  assumes "sd_is_open (evaluate_scheduled max_age db i now)"
  shows "session_open max_age db i now"
proof -
  obtain cal where cal: "find_calendar db i = Some cal"
    using assms by (auto simp: evaluate_scheduled_def split: option.splits)
  have valid: "validate_calendar max_age cal now = None"
    using assms cal calendar_closed by (cases "validate_calendar max_age cal now") (auto simp: evaluate_scheduled_def)
  obtain start stop where cov: "mc_coverage_start cal = Some start" "mc_coverage_end cal = Some stop"
    and fresh: "calendar_fresh max_age cal now"
    using calendar_valid [OF valid] by auto
  obtain w where w: "open_window db cal now = Some w" and t: "start \<le> now" "now < stop"
    using assms cal valid cov by (auto simp: evaluate_scheduled_def split: if_splits option.splits)
  show ?thesis using cal fresh cov t open_windowD [OF w] unfolding session_open_def by blast
qed

lemma evaluate_session_open:
  assumes "sd_is_open (evaluate_session max_age db s now)"
  shows "\<exists>t n i. db = Some t \<and> signal_instrument_id s = Some n \<and> find_instrument t n = Some i \<and>
    in_is_tradable i \<and> (\<forall>a. sn_asset_class s = Some a \<longrightarrow> a = [] \<or> in_asset_class i = a) \<and>
    (in_market_session_policy i = ''continuous'' \<and> in_asset_class i = ''crypto'' \<or>
     in_market_session_policy i = ''scheduled'' \<and> session_open max_age t i now)"
proof -
  obtain n t where n: "signal_instrument_id s = Some n" and t: "db = Some t"
    using assms by (auto simp: evaluate_session_def split: option.splits)
  have v: "validate_identity (find_instrument t n) s = None"
    using assms n t identity_closed
    by (cases "validate_identity (find_instrument t n) s") (auto simp: evaluate_session_def)
  then obtain i where i: "find_instrument t n = Some i" "in_is_tradable i"
    "\<forall>a. sn_asset_class s = Some a \<longrightarrow> a = [] \<or> in_asset_class i = a"
    "in_market_session_policy i = ''continuous'' \<longrightarrow> in_asset_class i = ''crypto''"
    using identity_valid by blast
  have "in_market_session_policy i = ''continuous'' \<or>
      in_market_session_policy i = ''scheduled'' \<and> session_open max_age t i now"
    using assms n t v i(1) evaluate_scheduled_open
    by (auto simp: evaluate_session_def Let_def split: if_splits)
  with n t i show ?thesis by blast
qed

lemma evaluate_pinned_open:
  assumes "sd_is_open (evaluate_pinned_rebalance_session digest max_age db s expected_open expected_digest now)"
  shows "\<exists>t n i cal w ob l. db = Some t \<and> signal_instrument_id s = Some n \<and> find_instrument t n = Some i \<and>
    in_is_tradable i \<and> find_calendar t i = Some cal \<and> calendar_fresh max_age cal now \<and>
    open_window t cal now = Some w \<and> ms_opens_at w = expected_open \<and> calendar_lineage t cal = Some (ob, l) \<and>
    digest (session_content cal w l) = expected_digest"
proof -
  obtain n t where n: "signal_instrument_id s = Some n" and t: "db = Some t"
    using assms by (auto simp: evaluate_pinned_rebalance_session_def split: option.splits)
  have v: "validate_identity (find_instrument t n) s = None"
    using assms n t identity_closed
    by (cases "validate_identity (find_instrument t n) s") (auto simp: evaluate_pinned_rebalance_session_def)
  then obtain i where i: "find_instrument t n = Some i" "in_is_tradable i"
    using identity_valid by blast
  obtain cal where cal: "find_calendar t i = Some cal"
    using assms n t v i(1) by (auto simp: evaluate_pinned_rebalance_session_def Let_def split: if_splits option.splits)
  have valid: "validate_calendar max_age cal now = None"
    using assms n t v i(1) cal calendar_closed
    by (cases "validate_calendar max_age cal now")
       (auto simp: evaluate_pinned_rebalance_session_def Let_def split: if_splits)
  have "sd_is_open (evaluate_pinned digest t cal expected_open expected_digest now)"
    using assms n t v i(1) cal valid by (auto simp: evaluate_pinned_rebalance_session_def Let_def split: if_splits)
  then have "\<exists>w ob l. open_window t cal now = Some w \<and> ms_opens_at w = expected_open \<and>
      calendar_lineage t cal = Some (ob, l) \<and> digest (session_content cal w l) = expected_digest"
    by (auto simp: evaluate_pinned_def split: if_splits option.splits)
  then show ?thesis using n t i cal calendar_valid [OF valid] by blast
qed

end
