(* ===== verification/Execution_Gates.thy ===== *)
theory Execution_Gates
  imports Risk_Guard Market_Sessions
begin

text \<open>
  The gates before an order is built, \<open>execution_engine/execution_gates.py\<close>, with the trading halt and the
  audit log of \<open>controls.py\<close> and the health of \<open>reconciliation_tracker.py\<close> that they read.

  \<^item> A check answers \<open>None\<close> or the reason of the block; the message, a formatted text, is left out.
  \<^item> The clock, the file of the sandbox certification and whether the database answers are arguments.
  \<^item> A time written with \<open>isoformat\<close> is the clock value; other text does not denote a time. The
    timestamps of signals and account states are times, so the checks for their absence cannot fail.
\<close>

section \<open>Trading halt\<close>

record trading_halt_state =
  th_enabled :: bool
  th_reason :: pyval
  th_updated_by :: pyval
  th_updated_at :: pyval
  th_metadata :: pydict

definition no_halt :: trading_halt_state where
  "no_halt = \<lparr>th_enabled = False, th_reason = PNone, th_updated_by = PNone, th_updated_at = PNone, th_metadata = []\<rparr>"

definition halt_to_dict :: "trading_halt_state \<Rightarrow> pydict" where
  "halt_to_dict h =
     [(''enabled'', PBool (th_enabled h)), (''reason'', th_reason h), (''updated_by'', th_updated_by h),
      (''updated_at'', th_updated_at h), (''metadata'', PDict (th_metadata h))]"

definition HALT_RULE_KEY :: string where
  "HALT_RULE_KEY = ''global_trading_halt''"

text \<open>A store without a database keeps its state in memory.\<close>

record halt_store =
  hs_mandates :: "mandate_row list option"
  hs_memory_state :: trading_halt_state

definition halt_store_init :: "mandate_row list option \<Rightarrow> halt_store" where
  "halt_store_init rows = \<lparr>hs_mandates = rows, hs_memory_state = no_halt\<rparr>"

definition read_halt :: "pydict \<Rightarrow> trading_halt_state res" where
  "read_halt rules =
     res_bind (dict_of (dict_get rules HALT_RULE_KEY)) (\<lambda>payload.
     res_bind (dict_of (dict_get payload ''metadata'')) (\<lambda>meta.
     Inr \<lparr>th_enabled = truthy (dict_get payload ''enabled''), th_reason = dict_get payload ''reason'',
          th_updated_by = dict_get payload ''updated_by'', th_updated_at = dict_get payload ''updated_at'',
          th_metadata = meta\<rparr>))"

definition get_halt_state :: "bool \<Rightarrow> halt_store \<Rightarrow> trading_halt_state res" where
  "get_halt_state db_ok st =
     (case hs_mandates st of
        None \<Rightarrow> Inr (hs_memory_state st)
      | Some rows \<Rightarrow>
          if \<not> db_ok then Inl (CustomError ''SQLAlchemyError'' ''Failed to load trading halt state'')
          else (case find (\<lambda>r. map_of (md_rules r) HALT_RULE_KEY \<noteq> None)
                       (sort_key (\<lambda>r. - md_effective_at r) (filter (\<lambda>r. md_user r = None) rows)) of
                  None \<Rightarrow> Inr no_halt
                | Some r \<Rightarrow> read_halt (md_rules r)))"

definition set_halt_state ::
    "bool \<Rightarrow> int \<Rightarrow> halt_store \<Rightarrow> bool \<Rightarrow> string option \<Rightarrow> string option \<Rightarrow> pydict option \<Rightarrow> time \<Rightarrow>
     halt_store \<times> trading_halt_state res" where
  "set_halt_state db_ok mandate_id st enabled reason updated_by meta now =
     (let h = \<lparr>th_enabled = enabled, th_reason = opt_str reason, th_updated_by = opt_str updated_by,
               th_updated_at = PTime now, th_metadata = (case meta of None \<Rightarrow> [] | Some d \<Rightarrow> d)\<rparr>;
          st1 = st\<lparr>hs_memory_state := h\<rparr>
      in case hs_mandates st of
           None \<Rightarrow> (st1, Inr h)
         | Some rows \<Rightarrow>
             if \<not> db_ok then (st1, Inl (CustomError ''SQLAlchemyError'' ''Failed to persist trading halt state''))
             else (st1\<lparr>hs_mandates := Some (rows @
                     [\<lparr>md_id = mandate_id, md_user = None, md_effective_at = now,
                       md_rules = [(HALT_RULE_KEY, PDict (halt_to_dict h))]\<rparr>])\<rparr>, Inr h))"

section \<open>Audit log\<close>

record api_audit_row =
  aa_user_id :: "string option"
  aa_action :: string
  aa_req :: pydict
  aa_resp :: pydict
  aa_status :: string

definition record_audit ::
    "bool \<Rightarrow> api_audit_row list option \<Rightarrow> string \<Rightarrow> string \<Rightarrow> pydict \<Rightarrow> pydict option \<Rightarrow> string option \<Rightarrow>
     api_audit_row list option res" where
  "record_audit db_ok table action status req resp user =
     (case table of
        None \<Rightarrow> Inr None
      | Some rows \<Rightarrow>
          if \<not> db_ok then Inl (CustomError ''SQLAlchemyError'' ''Failed to persist audit event'')
          else Inr (Some (rows @ [\<lparr>aa_user_id = user, aa_action = action, aa_req = req,
                                   aa_resp = (case resp of None \<Rightarrow> [] | Some d \<Rightarrow> d), aa_status = status\<rparr>])))"

section \<open>Health of the reconciliation\<close>

record reconciliation_health =
  rh_healthy :: bool
  rh_initial_complete :: bool
  rh_last_reconciled_at :: "time option"
  rh_last_error :: "string option"

definition reconciliation_health_init :: reconciliation_health where
  "reconciliation_health_init =
     \<lparr>rh_healthy = False, rh_initial_complete = False, rh_last_reconciled_at = None, rh_last_error = None\<rparr>"

definition mark_health :: "bool \<Rightarrow> string option \<Rightarrow> time \<Rightarrow> reconciliation_health" where
  "mark_health healthy error now =
     \<lparr>rh_healthy = healthy, rh_initial_complete = True, rh_last_reconciled_at = Some now, rh_last_error = error\<rparr>"

definition is_healthy :: "reconciliation_health \<Rightarrow> bool" where
  "is_healthy h = (rh_initial_complete h \<and> rh_healthy h)"

section \<open>The gatekeeper\<close>

text \<open>The file of the certification: absent, unreadable or not JSON, or a value.\<close>

datatype certification_file = No_file | Unreadable | Json pyval

record gatekeeper =
  gk_allow_live :: bool
  gk_risk_guard_enabled :: bool
  gk_max_signal_age_seconds :: int
  gk_max_market_data_age_seconds :: int
  gk_max_delayed_paper_market_data_age_seconds :: int
  gk_max_account_state_age_seconds :: int
  gk_require_market_data_for_live :: bool
  gk_max_session_age :: "duration option"

definition MIN_PAPER_SOAK_DAYS :: int where
  "MIN_PAPER_SOAK_DAYS = 14"

definition MAX_FUTURE_TIMESTAMP_SKEW :: duration where
  "MAX_FUTURE_TIMESTAMP_SKEW = seconds 5"

subsection \<open>Market session\<close>

text \<open>Whether the session is evaluated, and else the answer.\<close>

definition market_session_preflight :: "signal \<Rightarrow> string \<Rightarrow> bool \<Rightarrow> bool \<times> string option" where
  "market_session_preflight s environment replay =
     (if environment \<notin> {''paper'', ''live''} then (False, None)
      else if replay
      then (if environment = ''paper'' then (False, None)
            else (False, Some ''live_historical_replay_forbidden''))
      else if sn_action s = CLOSE then (False, None)
      else (True, None))"

definition session_answer :: "session_decision \<Rightarrow> string option" where
  "session_answer d = (if sd_is_open d then None else Some (sd_reason d))"

definition evaluate_market_session ::
    "gatekeeper \<Rightarrow> session_tables option \<Rightarrow> signal \<Rightarrow> time \<Rightarrow> string option" where
  "evaluate_market_session g db s now =
     (case gk_max_session_age g of
        None \<Rightarrow>
          if py_lower (case sn_asset_class s of None \<Rightarrow> [] | Some a \<Rightarrow> a) = ''crypto'' then None
          else Some ''market_session_unavailable''
      | Some max_age \<Rightarrow> session_answer (evaluate_session max_age db s now))"

definition check_market_session ::
    "gatekeeper \<Rightarrow> session_tables option \<Rightarrow> signal \<Rightarrow> string \<Rightarrow> bool \<Rightarrow> time \<Rightarrow> string option" where
  "check_market_session g db s environment replay now =
     (case market_session_preflight s environment replay of
        (proceed, answer) \<Rightarrow> if \<not> proceed then answer else evaluate_market_session g db s now)"

definition check_rebalance_execution_session ::
    "(pydict \<Rightarrow> string) \<Rightarrow> gatekeeper \<Rightarrow> session_tables option \<Rightarrow> signal \<Rightarrow> time \<Rightarrow> string \<Rightarrow> time \<Rightarrow> string option" where
  "check_rebalance_execution_session digest g db s expected_open expected_digest now =
     (case gk_max_session_age g of
        None \<Rightarrow> Some ''market_session_unavailable''
      | Some max_age \<Rightarrow>
          session_answer (evaluate_pinned_rebalance_session digest max_age db s expected_open expected_digest now))"

definition REFERENCE_ONLY_ASSET_CLASSES :: "string list" where
  "REFERENCE_ONLY_ASSET_CLASSES = [''index'']"

definition check_instrument_tradability ::
    "gatekeeper \<Rightarrow> session_tables option \<Rightarrow> signal \<Rightarrow> string \<Rightarrow> string option" where
  "check_instrument_tradability g db s environment =
     (if environment \<notin> {''paper'', ''live''} then None
      else case gk_max_session_age g of
             None \<Rightarrow>
               if (case sn_asset_class s of None \<Rightarrow> False | Some a \<Rightarrow> a \<in> set REFERENCE_ONLY_ASSET_CLASSES)
               then Some ''instrument_not_tradable'' else None
           | Some _ \<Rightarrow> session_answer (evaluate_tradability db s))"

subsection \<open>Certification\<close>

definition CERTIFICATION_FIELDS :: "string list" where
  "CERTIFICATION_FIELDS = [''commit'', ''symbols'', ''paper_window_days'', ''operator'', ''sandbox_smoke_evidence'',
     ''paper_soak_evidence'', ''reconciliation_summary'']"

definition int_or_zero :: "pyval \<Rightarrow> int res" where
  "int_or_zero v =
     (if \<not> truthy v then Inr 0
      else case py_int v of None \<Rightarrow> Inl (ValueError ''invalid literal for int()'') | Some n \<Rightarrow> Inr n)"

definition load_sandbox_certification_marker :: "certification_file \<Rightarrow> pydict res" where
  "load_sandbox_certification_marker f =
     (case f of
        No_file \<Rightarrow> Inl (CustomError ''FileNotFoundError'' ''Expected sandbox certification marker'')
      | Unreadable \<Rightarrow> Inl (ValueError ''Invalid sandbox certification marker'')
      | Json (PDict d) \<Rightarrow>
          res_bind (require (dict_get d ''status'' = PStr ''passed'')
             (ValueError ''Sandbox certification marker status must be passed'')) (\<lambda>_.
          res_bind (require (list_all (\<lambda>k. truthy (dict_get d k)) CERTIFICATION_FIELDS)
             (ValueError ''Sandbox certification marker missing required fields'')) (\<lambda>_.
          res_bind (int_or_zero (dict_get d ''paper_window_days'')) (\<lambda>days.
          res_bind (require (MIN_PAPER_SOAK_DAYS \<le> days)
             (ValueError ''Sandbox certification marker requires at least 14 paper soak days'')) (\<lambda>_.
          res_bind (int_or_zero (dict_get d ''duplicate_submission_count'')) (\<lambda>dups.
          res_bind (require (dups = 0)
             (ValueError ''Sandbox certification marker requires zero duplicate submissions'')) (\<lambda>_.
          Inr d))))))
      | Json _ \<Rightarrow> Inl (ValueError ''Sandbox certification marker must be a JSON object''))"

subsection \<open>Freshness\<close>

definition check_signal_expiry :: "signal \<Rightarrow> time \<Rightarrow> string option" where
  "check_signal_expiry s now =
     (case sn_expires_at s of
        None \<Rightarrow> None
      | Some expires_at \<Rightarrow>
          if now < expires_at then None
          else if sn_action s = CLOSE then None
          else Some ''expired_signal'')"

definition check_signal_timestamp_freshness :: "gatekeeper \<Rightarrow> signal \<Rightarrow> time \<Rightarrow> string option" where
  "check_signal_timestamp_freshness g s now =
     (let age = now - sn_timestamp s
      in if age < - MAX_FUTURE_TIMESTAMP_SKEW then Some ''signal_timestamp_future''
         else if age \<le> seconds (gk_max_signal_age_seconds g) then None
         else if sn_action s = CLOSE then None
         else Some ''stale_signal'')"

definition check_signal_freshness :: "gatekeeper \<Rightarrow> signal \<Rightarrow> string \<Rightarrow> time \<Rightarrow> string option" where
  "check_signal_freshness g s environment now =
     (if environment \<notin> {''paper'', ''live''} then None
      else case check_signal_expiry s now of
             Some e \<Rightarrow> Some e
           | None \<Rightarrow> check_signal_timestamp_freshness g s now)"

definition check_account_state_freshness :: "gatekeeper \<Rightarrow> time \<Rightarrow> string \<Rightarrow> bool \<Rightarrow> time \<Rightarrow> string option" where
  "check_account_state_freshness g fetched_at environment require_fresh now =
     (if environment \<noteq> ''live'' \<and> \<not> require_fresh then None
      else let age = now - fetched_at
           in if age < - MAX_FUTURE_TIMESTAMP_SKEW then Some ''account_state_timestamp_future''
              else if seconds (gk_max_account_state_age_seconds g) < age then Some ''account_state_stale''
              else None)"

definition TIMESTAMP_KEYS :: "string list" where
  "TIMESTAMP_KEYS = [''timestamp'', ''ts'', ''as_of'', ''source_ts'', ''price_ts'', ''updated_at'', ''fetched_at'']"

fun first_time :: "pydict \<Rightarrow> string list \<Rightarrow> time option" where
  "first_time d [] = None"
| "first_time d (k # ks) = (case dict_get d k of PTime t \<Rightarrow> Some t | _ \<Rightarrow> first_time d ks)"

definition market_data_timestamp :: "pydict \<Rightarrow> time option" where
  "market_data_timestamp d = first_time d TIMESTAMP_KEYS"

definition execution_authority :: "pydict \<Rightarrow> string" where
  "execution_authority d =
     (let a = dict_get d ''execution_authority'' in if truthy a then str_of a else ''shared'')"

definition check_market_data_freshness :: "gatekeeper \<Rightarrow> pydict \<Rightarrow> string \<Rightarrow> time \<Rightarrow> string option" where
  "check_market_data_freshness g d environment now =
     (let authority = execution_authority d;
          delayed = (authority = ''paper_only'' \<and> environment = ''paper'');
          required = (gk_require_market_data_for_live g \<or> delayed)
      in if authority = ''paper_only'' \<and> environment \<noteq> ''paper'' then Some ''paper_only_market_data_live''
         else if environment \<noteq> ''live'' \<and> \<not> delayed then None
         else if d = [] \<and> required then Some ''market_data_missing''
         else if d = [] then None
         else if required \<and> dict_get d ''price'' = PNone then Some ''market_data_price_missing''
         else case market_data_timestamp d of
                None \<Rightarrow> Some ''market_data_timestamp_missing''
              | Some t \<Rightarrow>
                  if now - t < - MAX_FUTURE_TIMESTAMP_SKEW then Some ''market_data_timestamp_future''
                  else if seconds (if delayed then gk_max_delayed_paper_market_data_age_seconds g
                                   else gk_max_market_data_age_seconds g) < now - t
                  then Some ''stale_market_data''
                  else None)"

definition check_rebalance_market_data_freshness ::
    "gatekeeper \<Rightarrow> pydict \<Rightarrow> time \<Rightarrow> string \<Rightarrow> time \<Rightarrow> string option" where
  "check_rebalance_market_data_freshness g d expected_open environment now =
     (let authority = execution_authority d;
          price = (if dict_get d ''price'' = PNone then 0
                   else case py_float (dict_get d ''price'') of None \<Rightarrow> 0 | Some p \<Rightarrow> p)
      in if authority = ''paper_only'' \<and> environment \<noteq> ''paper''
         then Some ''rebalance_paper_only_market_data_live''
         else if d = [] then Some ''rebalance_market_data_missing''
         else if price \<le> 0 then Some ''rebalance_market_data_price_invalid''
         else case market_data_timestamp d of
                None \<Rightarrow> Some ''rebalance_market_data_timestamp_missing''
              | Some t \<Rightarrow>
                  if t < expected_open then Some ''rebalance_market_data_before_session''
                  else if now - t < - MAX_FUTURE_TIMESTAMP_SKEW
                  then Some ''rebalance_market_data_timestamp_future''
                  else if seconds (if authority = ''paper_only'' \<and> environment = ''paper''
                                   then gk_max_delayed_paper_market_data_age_seconds g
                                   else gk_max_market_data_age_seconds g) < now - t
                  then Some ''rebalance_market_data_stale''
                  else None)"

subsection \<open>Live mode\<close>

definition check_trading_halt :: "bool \<Rightarrow> halt_store \<Rightarrow> string \<Rightarrow> string option res" where
  "check_trading_halt db_ok st environment =
     (if environment \<noteq> ''live'' then Inr None
      else res_bind (get_halt_state db_ok st) (\<lambda>h.
           Inr (if th_enabled h then Some ''global_trading_halt'' else None)))"

definition check_live_mode ::
    "gatekeeper \<Rightarrow> bool \<Rightarrow> halt_store \<Rightarrow> certification_file \<Rightarrow> reconciliation_health \<Rightarrow> string \<Rightarrow> string \<Rightarrow>
     pydict \<Rightarrow> pydict \<Rightarrow> string option res" where
  "check_live_mode g db_ok st f health environment mode profile config =
     res_bind (check_trading_halt db_ok st environment) (\<lambda>halt.
     Inr (if halt \<noteq> None then halt
          else if environment \<noteq> ''live'' then None
          else if \<not> gk_allow_live g then Some ''allow_live_disabled''
          else if mode \<noteq> ''live'' then Some ''live_route_mode_mismatch''
          else if \<not> (truthy (dict_get profile ''live_enabled'') \<or> truthy (dict_get config ''live_enabled''))
          then Some ''live_not_enabled_for_user''
          else if \<not> gk_risk_guard_enabled g then Some ''risk_guard_disabled''
          else if \<not> is_ok (load_sandbox_certification_marker f) then Some ''sandbox_certification_missing''
          else if \<not> is_healthy health then Some ''reconciliation_unhealthy''
          else None))"

subsection \<open>Scores\<close>

text \<open>
  \<open>score < float(threshold)\<close>, with the score a number: a least score that is not a number raises.
\<close>

definition below_threshold :: "pyval \<Rightarrow> rat option \<Rightarrow> bool res" where
  "below_threshold least score =
     (if least = PNone then Inr False
      else case score of
             None \<Rightarrow> Inr False
           | Some x \<Rightarrow> (case py_float least of
                          None \<Rightarrow> Inl (ValueError ''could not convert to float'')
                        | Some t \<Rightarrow> Inr (x < t)))"

definition check_score_thresholds :: "rat option \<Rightarrow> rat option \<Rightarrow> pydict \<Rightarrow> string option res" where
  "check_score_thresholds asset_score sector_score config =
     res_bind (below_threshold (dict_get config ''min_score'') asset_score) (\<lambda>low.
     if low then Inr (Some ''score_below_threshold'')
     else res_bind (below_threshold (dict_get config ''min_sector_score'') sector_score) (\<lambda>low_sector.
          Inr (if low_sector then Some ''sector_score_below_threshold'' else None)))"

end
