(* ===== verification/Risk_Baseline.thy ===== *)
theory Risk_Baseline
  imports Fx_Rates
begin

text \<open>
  The baselines the risk guard measures losses from, \<open>execution_engine/risk_baseline.py\<close>: the equity at
  the start of the day and the peak equity of an account, with where the peak came from.

  \<^item> The raw fields of a validated object are the arguments of its constructor; account identifiers are
    integers, since a boolean or another type is excluded by typing. Texts are compared as they are.
  \<^item> Without a database the tables are absent. A date is the number of days since the epoch.
\<close>

section \<open>Observations\<close>

definition baseline_error :: "string \<Rightarrow> py_error" where
  "baseline_error m = CustomError ''RiskBaselineUnavailableError'' m"

definition positive_equity :: "string \<Rightarrow> number \<Rightarrow> rat res" where
  "positive_equity field_name n =
     (case n of
        Fin q \<Rightarrow> if q \<le> 0 then Inl (baseline_error (''Risk baseline '' @ field_name @ '' must be finite and positive''))
                 else Inr q
      | _ \<Rightarrow> Inl (baseline_error (''Risk baseline '' @ field_name @ '' must be finite and positive'')))"

definition validate_account_id :: "int \<Rightarrow> unit res" where
  "validate_account_id n =
     require (0 < n) (baseline_error ''Risk baseline requires a positive broker account_id'')"

definition baseline_currency :: "string \<Rightarrow> string \<Rightarrow> string res" where
  "baseline_currency m c = (case normalize_currency c of Inl _ \<Rightarrow> Inl (baseline_error m) | Inr x \<Rightarrow> Inr x)"

record equity_snapshot =
  eq_user_id :: string
  eq_account_id :: int
  eq_broker_reported_account_id :: string
  eq_currency :: string
  eq_equity :: rat
  eq_observed_at :: time
  eq_source :: string

definition equity_observation_init ::
    "string \<Rightarrow> int \<Rightarrow> string \<Rightarrow> string \<Rightarrow> number \<Rightarrow> time \<Rightarrow> string \<Rightarrow> equity_snapshot res" where
  "equity_observation_init user account reported currency equity observed source =
     res_bind (require (py_strip user \<noteq> []) (baseline_error ''Account equity observation requires user_id'')) (\<lambda>_.
     res_bind (require (py_strip reported \<noteq> [])
        (baseline_error ''Account equity observation requires broker-reported account identity'')) (\<lambda>_.
     res_bind (validate_account_id account) (\<lambda>_.
     res_bind (baseline_currency ''Account equity observation requires a valid currency'' currency) (\<lambda>cur.
     res_bind (positive_equity ''current_equity'' equity) (\<lambda>eq.
     res_bind (require (py_strip source \<in> {''broker'', ''profile_cache'', ''unattributed''})
        (baseline_error ''Account equity observation has unsupported source'')) (\<lambda>_.
     Inr \<lparr>eq_user_id = py_strip user, eq_account_id = account, eq_broker_reported_account_id = py_strip reported,
          eq_currency = cur, eq_equity = eq, eq_observed_at = observed, eq_source = py_strip source\<rparr>))))))"

record peak_provenance =
  pp_user_id :: string
  pp_account_id :: int
  pp_currency :: string
  pp_source :: string
  pp_source_id :: string
  pp_equity :: rat
  pp_observed_at :: time

definition peak_provenance_init ::
    "string \<Rightarrow> int \<Rightarrow> string \<Rightarrow> string \<Rightarrow> string \<Rightarrow> number \<Rightarrow> time \<Rightarrow> peak_provenance res" where
  "peak_provenance_init user account currency source source_id equity observed =
     res_bind (require (py_strip user \<noteq> [] \<and> py_strip source_id \<noteq> [])
        (baseline_error ''Risk peak provenance requires user and source identity'')) (\<lambda>_.
     res_bind (validate_account_id account) (\<lambda>_.
     res_bind (baseline_currency ''Risk peak provenance requires a valid currency'' currency) (\<lambda>cur.
     res_bind (require (py_strip source \<in> {''execution_metric'', ''paper_account_initial_equity''})
        (baseline_error ''Risk peak provenance has unsupported source'')) (\<lambda>_.
     res_bind (positive_equity ''peak_equity'' equity) (\<lambda>eq.
     Inr \<lparr>pp_user_id = py_strip user, pp_account_id = account, pp_currency = cur, pp_source = py_strip source,
          pp_source_id = py_strip source_id, pp_equity = eq, pp_observed_at = observed\<rparr>)))))"

record risk_baseline =
  rb_day_start_equity :: rat
  rb_peak_equity :: rat
  rb_peak_provenance :: "peak_provenance option"
  rb_current_equity_observation :: "equity_snapshot option"

definition risk_baseline_init ::
    "number \<Rightarrow> number \<Rightarrow> peak_provenance option \<Rightarrow> equity_snapshot option \<Rightarrow> risk_baseline res" where
  "risk_baseline_init day_start peak provenance observation =
     res_bind (positive_equity ''day_start_equity'' day_start) (\<lambda>d.
     res_bind (positive_equity ''peak_equity'' peak) (\<lambda>p.
     res_bind (require (case provenance of None \<Rightarrow> True | Some v \<Rightarrow> pp_equity v = p)
        (baseline_error ''Risk peak value does not match its durable provenance'')) (\<lambda>_.
     res_bind (require (case (provenance, observation) of
          (Some v, Some ob) \<Rightarrow> pp_user_id v = eq_user_id ob \<and> pp_account_id v = eq_account_id ob \<and>
                              pp_currency v = eq_currency ob
        | _ \<Rightarrow> True)
        (baseline_error ''Risk peak and current equity provenance cross an account boundary'')) (\<lambda>_.
     Inr \<lparr>rb_day_start_equity = d, rb_peak_equity = p, rb_peak_provenance = provenance,
          rb_current_equity_observation = observation\<rparr>))))"

definition has_persisted_account_peak :: "risk_baseline \<Rightarrow> bool" where
  "has_persisted_account_peak b = (rb_peak_provenance b \<noteq> None)"

section \<open>Audit\<close>

definition observation_audit :: "equity_snapshot \<Rightarrow> pydict" where
  "observation_audit ob =
     [(''user_id'', PStr (eq_user_id ob)), (''broker_account_id'', PInt (eq_account_id ob)),
      (''broker_reported_account_id'', PStr (eq_broker_reported_account_id ob)),
      (''currency'', PStr (eq_currency ob)), (''equity'', PFloat (eq_equity ob)),
      (''observed_at'', PTime (eq_observed_at ob)), (''source'', PStr (eq_source ob))]"

definition provenance_audit :: "peak_provenance \<Rightarrow> pydict" where
  "provenance_audit v =
     [(''user_id'', PStr (pp_user_id v)), (''broker_account_id'', PInt (pp_account_id v)),
      (''currency'', PStr (pp_currency v)), (''source'', PStr (pp_source v)),
      (''source_id'', PStr (pp_source_id v)), (''equity'', PFloat (pp_equity v)),
      (''observed_at'', PTime (pp_observed_at v))]"

definition baseline_audit :: "risk_baseline \<Rightarrow> pydict" where
  "baseline_audit b =
     [(''day_start_equity'', PFloat (rb_day_start_equity b)), (''peak_equity'', PFloat (rb_peak_equity b)),
      (''has_persisted_account_peak'', PBool (has_persisted_account_peak b)),
      (''peak_provenance'', case rb_peak_provenance b of None \<Rightarrow> PNone | Some v \<Rightarrow> PDict (provenance_audit v)),
      (''current_equity_observation'',
       case rb_current_equity_observation b of None \<Rightarrow> PNone | Some ob \<Rightarrow> PDict (observation_audit ob))]"

section \<open>Tables\<close>

record owned_account =
  oa_account_id :: int
  oa_user_id :: string
  oa_external_ref :: "string option"
  oa_base_ccy :: string
  oa_environment :: string
  oa_status :: string
  oa_paper_initial_equity :: "rat option"
  oa_created_at :: time

record metric_row =
  mr_metric_id :: string
  mr_user_id :: string
  mr_account_id :: int
  mr_peak_equity :: "rat option"
  mr_created_at :: time

record daily_nav =
  dn_user_id :: string
  dn_account_id :: int
  dn_date :: int
  dn_nav_value :: "rat option"
  dn_nav_ccy :: string

record baseline_tables =
  bt_accounts :: "owned_account list"
  bt_metrics :: "metric_row list"
  bt_navs :: "daily_nav list"

section \<open>Resolution\<close>

definition validate_observation ::
    "equity_snapshot option \<Rightarrow> owned_account \<Rightarrow> string \<Rightarrow> rat \<Rightarrow> time \<Rightarrow> unit res" where
  "validate_observation observation a currency equity evaluated_at =
     (case observation of
        None \<Rightarrow> Inr ()
      | Some ob \<Rightarrow>
          (let external = py_strip (case oa_external_ref a of None \<Rightarrow> [] | Some x \<Rightarrow> x);
               expected = (if external = [] then int_str (oa_account_id a) else external)
           in res_bind (require (eq_user_id ob = oa_user_id a \<and> eq_account_id ob = oa_account_id a)
                (baseline_error ''Current account equity observation does not match the owned account'')) (\<lambda>_.
              res_bind (require (eq_broker_reported_account_id ob = expected)
                (baseline_error ''Current broker-reported account identity does not match the owned account'')) (\<lambda>_.
              res_bind (require (eq_currency ob = currency)
                (baseline_error ''Current equity currency does not match the persisted base currency'')) (\<lambda>_.
              res_bind (require (eq_equity ob = equity)
                (baseline_error ''Current account equity changed between state validation and risk evaluation'')) (\<lambda>_.
              require (eq_observed_at ob \<le> evaluated_at)
                (baseline_error ''Current account equity observation cannot be future-dated'')))))))"

definition peak_metrics :: "baseline_tables \<Rightarrow> string \<Rightarrow> int \<Rightarrow> metric_row list" where
  "peak_metrics db user account =
     filter (\<lambda>m. mr_user_id m = user \<and> mr_account_id m = account \<and>
                 (case mr_peak_equity m of None \<Rightarrow> False | Some p \<Rightarrow> 0 < p)) (bt_metrics db)"

definition metric_peak ::
    "baseline_tables \<Rightarrow> string \<Rightarrow> int \<Rightarrow> string \<Rightarrow> (rat \<times> peak_provenance) option res" where
  "metric_peak db user account currency =
     (case sort_key (\<lambda>m. (- the (mr_peak_equity m), mr_created_at m, mr_metric_id m)) (peak_metrics db user account) of
        [] \<Rightarrow> Inr None
      | m # _ \<Rightarrow>
          res_bind (positive_equity ''peak_equity'' (Fin (the (mr_peak_equity m)))) (\<lambda>v.
          res_bind (peak_provenance_init user account currency ''execution_metric'' (mr_metric_id m)
             (Fin v) (mr_created_at m)) (\<lambda>p.
          Inr (Some (v, p)))))"

definition paper_initial_peak ::
    "owned_account \<Rightarrow> equity_snapshot option \<Rightarrow> string \<Rightarrow> (rat \<times> peak_provenance) option res" where
  "paper_initial_peak a observation currency =
     (case (oa_paper_initial_equity a, observation) of
        (Some initial, Some ob) \<Rightarrow>
          if oa_environment a \<noteq> ''paper'' \<or> oa_status a \<noteq> ''connected'' \<or> eq_source ob \<noteq> ''broker'' then Inr None
          else res_bind (positive_equity ''paper_initial_equity'' (Fin initial)) (\<lambda>v.
               res_bind (peak_provenance_init (oa_user_id a) (oa_account_id a) currency
                  ''paper_account_initial_equity'' (''linked-broker-account:'' @ int_str (oa_account_id a)) (Fin v)
                  (oa_created_at a)) (\<lambda>p.
               Inr (Some (v, p))))
      | _ \<Rightarrow> Inr None)"

definition prior_nav :: "baseline_tables \<Rightarrow> string \<Rightarrow> int \<Rightarrow> int \<Rightarrow> daily_nav option" where
  "prior_nav db user account today =
     (case sort_key (\<lambda>n. - dn_date n)
             (filter (\<lambda>n. dn_user_id n = user \<and> dn_account_id n = account \<and> dn_date n < today) (bt_navs db)) of
        [] \<Rightarrow> None
      | n # _ \<Rightarrow> Some n)"

definition day_start_equity :: "daily_nav option \<Rightarrow> string \<Rightarrow> rat \<Rightarrow> rat res" where
  "day_start_equity nav currency equity =
     (case nav of
        None \<Rightarrow> Inr equity
      | Some n \<Rightarrow>
          (case dn_nav_value n of
             None \<Rightarrow> Inr equity
           | Some v \<Rightarrow>
               res_bind (baseline_currency ''Daily NAV has no valid currency'' (dn_nav_ccy n)) (\<lambda>cur.
               res_bind (require (cur = currency)
                  (baseline_error ''Daily NAV currency does not match the persisted base currency'')) (\<lambda>_.
               positive_equity ''day_start_equity'' (Fin v)))))"

text \<open>
  \<open>max\<close> by value, then source, then identifier: the metric comes first and the sources differ, so the
  paper account wins when it is at least as high.
\<close>

definition best_peak ::
    "(rat \<times> peak_provenance) option \<Rightarrow> (rat \<times> peak_provenance) option \<Rightarrow> (rat \<times> peak_provenance) option" where
  "best_peak metric initial =
     (case (metric, initial) of
        (None, x) \<Rightarrow> x
      | (x, None) \<Rightarrow> x
      | (Some m, Some p) \<Rightarrow> if fst m \<le> fst p then Some p else Some m)"

definition resolve_risk_baseline ::
    "baseline_tables option \<Rightarrow> string \<Rightarrow> int \<Rightarrow> number \<Rightarrow> equity_snapshot option \<Rightarrow> time \<Rightarrow> risk_baseline res" where
  "resolve_risk_baseline db user account current observation now =
     res_bind (validate_account_id account) (\<lambda>_.
     res_bind (positive_equity ''current_equity'' current) (\<lambda>equity.
     case db of
       None \<Rightarrow> risk_baseline_init (Fin equity) (Fin equity) None observation
     | Some t \<Rightarrow>
         (case find (\<lambda>a. oa_account_id a = account \<and> oa_user_id a = user) (bt_accounts t) of
            None \<Rightarrow> Inl (baseline_error ''Broker account is unavailable for user'')
          | Some a \<Rightarrow>
              res_bind (baseline_currency ''Broker account has no valid base currency'' (oa_base_ccy a)) (\<lambda>cur.
              res_bind (validate_observation observation a cur equity now) (\<lambda>_.
              res_bind (day_start_equity (prior_nav t user account (now div seconds 86400)) cur equity) (\<lambda>start.
              res_bind (metric_peak t user account cur) (\<lambda>metric.
              res_bind (paper_initial_peak a observation cur) (\<lambda>initial.
              case best_peak metric initial of
                Some (peak, provenance) \<Rightarrow> risk_baseline_init (Fin start) (Fin peak) (Some provenance) observation
              | None \<Rightarrow> risk_baseline_init (Fin start) (Fin equity) None observation)))))))) "

end
