(* ===== verification/Gate_Safety.thy ===== *)
theory Gate_Safety
  imports Execution_Gates Risk_Baseline
begin

text \<open>
  What the gates guarantee: a trading halt holds until it is lifted, live orders need every precondition,
  exposure is opened only in an open market on fresh inputs, and the baselines of the risk guard belong
  to the account and are the highest ones recorded.
\<close>

section \<open>The trading halt\<close>

lemma read_halt_roundtrip:
  assumes "md_rules r = [(HALT_RULE_KEY, PDict (halt_to_dict h))]"
  shows "read_halt (md_rules r) = Inr h"
  unfolding assms
  by (cases "th_metadata h")
     (simp_all add: read_halt_def halt_to_dict_def HALT_RULE_KEY_def dict_get_def dict_of_def)

definition is_halt :: "mandate_row \<Rightarrow> bool" where
  "is_halt r = (md_user r = None \<and> map_of (md_rules r) HALT_RULE_KEY \<noteq> None)"

text \<open>
  A store over time: halts set with an advancing clock, attempts that fail, and mandates that others
  add. The second argument is the last state that was stored, the third the time of it.
\<close>

inductive halt_history :: "halt_store \<Rightarrow> trading_halt_state option \<Rightarrow> time \<Rightarrow> bool" where
  fresh: "\<not> list_ex is_halt rows \<Longrightarrow> halt_history (halt_store_init (Some rows)) None t"
| stored: "halt_history st prior t \<Longrightarrow> t < now \<Longrightarrow>
    set_halt_state True i st enabled reason by_user meta now = (st', Inr h) \<Longrightarrow> halt_history st' (Some h) now"
| failed: "halt_history st prior t \<Longrightarrow>
    set_halt_state False i st enabled reason by_user meta now = (st', Inl e) \<Longrightarrow> halt_history st' prior t"
| mandate: "halt_history st prior t \<Longrightarrow> hs_mandates st = Some rows \<Longrightarrow> \<not> is_halt r \<Longrightarrow>
    halt_history (st\<lparr>hs_mandates := Some (rows @ [r])\<rparr>) prior t"

definition halt_recorded :: "mandate_row list \<Rightarrow> trading_halt_state option \<Rightarrow> time \<Rightarrow> bool" where
  "halt_recorded rows prior t =
     (case prior of
        None \<Rightarrow> \<not> list_ex is_halt rows
      | Some h \<Rightarrow> \<exists>r \<in> set rows. md_user r = None \<and> md_effective_at r = t \<and>
                   md_rules r = [(HALT_RULE_KEY, PDict (halt_to_dict h))] \<and>
                   (\<forall>x \<in> set rows. is_halt x \<longrightarrow> x \<noteq> r \<longrightarrow> md_effective_at x < t))"

lemma halt_recorded_append:
  assumes "\<not> is_halt r" "halt_recorded rows prior t"
  shows "halt_recorded (rows @ [r]) prior t"
  using assms unfolding halt_recorded_def by (cases prior) auto

lemma halts_before:
  assumes "halt_recorded rows prior t" "x \<in> set rows" "is_halt x" "t < now"
  shows "md_effective_at x < now"
proof (cases prior)
  case (Some h)
  then obtain r where "md_effective_at r = t" "\<forall>x \<in> set rows. is_halt x \<longrightarrow> x \<noteq> r \<longrightarrow> md_effective_at x < t"
    using assms(1) by (auto simp: halt_recorded_def)
  then have "md_effective_at x \<le> t" using assms(2,3) by (cases "x = r") auto
  then show ?thesis using assms(4) by simp
qed (use assms in \<open>auto simp: halt_recorded_def list_ex_iff\<close>)

lemma halt_history_recorded:
  "halt_history st prior t \<Longrightarrow> \<exists>rows. hs_mandates st = Some rows \<and> halt_recorded rows prior t"
proof (induction rule: halt_history.induct)
  case (fresh rows t)
  then show ?case by (simp add: halt_store_init_def halt_recorded_def)
next
  case (stored st prior t now i enabled reason by_user meta st' h)
  then obtain rows where rows: "hs_mandates st = Some rows" "halt_recorded rows prior t" by blast
  define r where "r = \<lparr>md_id = i, md_user = None, md_effective_at = now,
    md_rules = [(HALT_RULE_KEY, PDict (halt_to_dict h))]\<rparr>"
  have "hs_mandates st' = Some (rows @ [r])"
    using stored.hyps(3) rows(1) by (auto simp: set_halt_state_def Let_def r_def)
  moreover have "halt_recorded (rows @ [r]) (Some h) now"
    using halts_before [OF rows(2) _ _ stored.hyps(2)] by (auto simp: halt_recorded_def r_def)
  ultimately show ?case by blast
next
  case (failed st prior t i enabled reason by_user meta now st' e)
  then show ?case by (auto simp: set_halt_state_def Let_def split: option.splits)
next
  case (mandate st prior t rows r)
  then show ?case using halt_recorded_append [of r rows prior t] by auto
qed

lemma halt_history_state:
  assumes "halt_history st prior t"
  shows "get_halt_state True st = Inr (case prior of None \<Rightarrow> no_halt | Some h \<Rightarrow> h)"
proof -
  obtain rows where rows: "hs_mandates st = Some rows" "halt_recorded rows prior t"
    using halt_history_recorded [OF assms] by blast
  let ?P = "\<lambda>r. map_of (md_rules r) HALT_RULE_KEY \<noteq> None"
  let ?global = "filter (\<lambda>r. md_user r = None) rows"
  show ?thesis
  proof (cases prior)
    case None
    then have "find ?P (sort_key (\<lambda>r. - md_effective_at r) ?global) = None"
      using rows(2) by (auto simp: find_None_iff halt_recorded_def list_ex_iff is_halt_def)
    then show ?thesis using rows(1) None by (simp add: get_halt_state_def)
  next
    case (Some h)
    then obtain r where r: "r \<in> set rows" "md_user r = None" "md_effective_at r = t"
      "md_rules r = [(HALT_RULE_KEY, PDict (halt_to_dict h))]"
      "\<forall>x \<in> set rows. is_halt x \<longrightarrow> x \<noteq> r \<longrightarrow> md_effective_at x < t"
      using rows(2) by (auto simp: halt_recorded_def)
    have "find ?P (sort_key (\<lambda>r. - md_effective_at r) ?global) = Some r"
      by (rule find_sort_key_least) (use r in \<open>auto simp: is_halt_def\<close>)
    then show ?thesis using rows(1) Some read_halt_roundtrip [OF r(4)] by (simp add: get_halt_state_def)
  qed
qed

text \<open>
  C6: A trading halt holds. Whatever other mandates are added and however many changes fail in between,
  the store answers with the state that was stored last; while that state is a halt, no live order passes
  the gate, whether the database answers or not, and orders that are not live are unaffected.
\<close>

theorem halt_holds_until_lifted:
  assumes "halt_history st prior t"
  shows "get_halt_state True st = Inr (case prior of None \<Rightarrow> no_halt | Some h \<Rightarrow> h) \<and>
    (\<forall>h. prior = Some h \<longrightarrow> th_enabled h \<longrightarrow>
       check_live_mode g db_ok st f health ''live'' mode profile config \<noteq> Inr None) \<and>
    (environment \<noteq> ''live'' \<longrightarrow> check_live_mode g db_ok st f health environment mode profile config = Inr None)"
proof (intro conjI allI impI)
  fix h
  assume h: "prior = Some h" "th_enabled h"
  obtain rows where "hs_mandates st = Some rows" using halt_history_recorded [OF assms] by blast
  then show "check_live_mode g db_ok st f health ''live'' mode profile config \<noteq> Inr None"
    using h halt_history_state [OF assms]
    by (cases db_ok) (simp_all add: check_live_mode_def check_trading_halt_def get_halt_state_def)
qed (use halt_history_state [OF assms] in \<open>simp_all add: check_live_mode_def check_trading_halt_def\<close>)

section \<open>Live orders\<close>

lemma certified_marker:
  "load_sandbox_certification_marker f = Inr d \<Longrightarrow>
   f = Json (PDict d) \<and> dict_get d ''status'' = PStr ''passed'' \<and>
   list_all (\<lambda>k. truthy (dict_get d k)) CERTIFICATION_FIELDS \<and>
   (\<exists>days. py_int (dict_get d ''paper_window_days'') = Some days \<and> MIN_PAPER_SOAK_DAYS \<le> days) \<and>
   (truthy (dict_get d ''duplicate_submission_count'') \<longrightarrow> py_int (dict_get d ''duplicate_submission_count'') = Some 0)"
  by (auto simp: load_sandbox_certification_marker_def int_or_zero_def res_bind_Inr_iff CERTIFICATION_FIELDS_def
      split: certification_file.splits pyval.splits option.splits if_splits)

text \<open>
  A live order passes only with every precondition: no halt in force, live trading allowed for the
  engine, its mode and the user, the risk guard on, a certification of at least fourteen paper days
  without duplicate submissions, and a reconciliation that has completed and is healthy.
\<close>

theorem live_mode_preconditions:
  assumes "check_live_mode g db_ok st f health ''live'' mode profile config = Inr None"
  shows "\<exists>h d days. get_halt_state db_ok st = Inr h \<and> \<not> th_enabled h \<and> gk_allow_live g \<and> mode = ''live'' \<and>
    (truthy (dict_get profile ''live_enabled'') \<or> truthy (dict_get config ''live_enabled'')) \<and>
    gk_risk_guard_enabled g \<and> f = Json (PDict d) \<and> dict_get d ''status'' = PStr ''passed'' \<and>
    py_int (dict_get d ''paper_window_days'') = Some days \<and> 14 \<le> days \<and>
    (truthy (dict_get d ''duplicate_submission_count'') \<longrightarrow> py_int (dict_get d ''duplicate_submission_count'') = Some 0) \<and>
    rh_initial_complete health \<and> rh_healthy health"
proof -
  obtain h where h: "get_halt_state db_ok st = Inr h" "\<not> th_enabled h"
    using assms by (auto simp: check_live_mode_def check_trading_halt_def res_bind_Inr_iff split: if_splits)
  have c: "gk_allow_live g" "mode = ''live''" "gk_risk_guard_enabled g" "is_healthy health"
    "truthy (dict_get profile ''live_enabled'') \<or> truthy (dict_get config ''live_enabled'')"
    "is_ok (load_sandbox_certification_marker f)"
    using assms h by (auto simp: check_live_mode_def check_trading_halt_def split: if_splits)
  obtain d where "load_sandbox_certification_marker f = Inr d" using c(6) by (cases "load_sandbox_certification_marker f") auto
  from certified_marker [OF this] h c show ?thesis by (auto simp: MIN_PAPER_SOAK_DAYS_def is_healthy_def)
qed

section \<open>Market session\<close>

text \<open>
  C17: Exposure opens only in an open market. Outside historical replay, in the environments paper and
  live, and with a session provider configured: a signal that is not a close and passes the session gate
  names a persisted tradable instrument of its asset class that is a continuous crypto market, or whose
  own calendar was observed recently, covers the time and has a session that contains it.
\<close>

theorem entry_only_in_open_session:
  assumes "check_market_session g db s environment False now = None" "environment \<in> {''paper'', ''live''}"
    and "sn_action s \<noteq> CLOSE" "gk_max_session_age g = Some max_age"
  shows "\<exists>t n i. db = Some t \<and> signal_instrument_id s = Some n \<and> find_instrument t n = Some i \<and>
    in_is_tradable i \<and> (\<forall>a. sn_asset_class s = Some a \<longrightarrow> a = [] \<or> in_asset_class i = a) \<and>
    (in_market_session_policy i = ''continuous'' \<and> in_asset_class i = ''crypto'' \<or>
     in_market_session_policy i = ''scheduled'' \<and> session_open max_age t i now)"
proof (rule evaluate_session_open)
  show "sd_is_open (evaluate_session max_age db s now)"
    using assms
    by (auto simp: check_market_session_def market_session_preflight_def evaluate_market_session_def session_answer_def
        split: if_splits)
qed

section \<open>Freshness\<close>

lemma first_time_key: "first_time d ks = Some t \<Longrightarrow> \<exists>k \<in> set ks. dict_get d k = PTime t"
  by (induction ks) (auto split: pyval.splits)

text \<open>
  C27: Live entries rest on fresh inputs. When a signal that opens exposure, an account state and a quote
  pass their gates in live mode, the signal has not expired, each is at most five seconds ahead of the
  clock and at most its limit old, and the quote is not the delayed one meant for paper.
\<close>

theorem live_entry_inputs_fresh:
  assumes "check_signal_freshness g s ''live'' now = None" "sn_action s \<noteq> CLOSE"
    and "check_account_state_freshness g fetched ''live'' required now = None"
    and "check_market_data_freshness g d ''live'' now = None" "d \<noteq> []"
  shows "(\<forall>x. sn_expires_at s = Some x \<longrightarrow> now < x) \<and>
    sn_timestamp s \<le> now + seconds 5 \<and> now \<le> sn_timestamp s + seconds (gk_max_signal_age_seconds g) \<and>
    fetched \<le> now + seconds 5 \<and> now \<le> fetched + seconds (gk_max_account_state_age_seconds g) \<and>
    execution_authority d \<noteq> ''paper_only'' \<and>
    (\<exists>t. market_data_timestamp d = Some t \<and> t \<le> now + seconds 5 \<and>
         now \<le> t + seconds (gk_max_market_data_age_seconds g))"
proof -
  have 1: "\<forall>x. sn_expires_at s = Some x \<longrightarrow> now < x" "check_signal_timestamp_freshness g s now = None"
    using assms(1,2) by (auto simp: check_signal_freshness_def check_signal_expiry_def split: option.splits if_splits)
  have 2: "sn_timestamp s \<le> now + seconds 5" "now \<le> sn_timestamp s + seconds (gk_max_signal_age_seconds g)"
    using 1(2) assms(2)
    by (auto simp: check_signal_timestamp_freshness_def Let_def MAX_FUTURE_TIMESTAMP_SKEW_def split: if_splits)
  have 3: "fetched \<le> now + seconds 5" "now \<le> fetched + seconds (gk_max_account_state_age_seconds g)"
    using assms(3) by (auto simp: check_account_state_freshness_def Let_def MAX_FUTURE_TIMESTAMP_SKEW_def split: if_splits)
  have 4: "execution_authority d \<noteq> ''paper_only''" "\<exists>t. market_data_timestamp d = Some t \<and> t \<le> now + seconds 5 \<and>
         now \<le> t + seconds (gk_max_market_data_age_seconds g)"
    using assms(4,5)
    by (auto simp: check_market_data_freshness_def Let_def MAX_FUTURE_TIMESTAMP_SKEW_def split: if_splits option.splits)
  show ?thesis by (intro conjI 1(1) 2 3 4)
qed

section \<open>Baselines\<close>

lemma positive_equity_Inr: "positive_equity m n = Inr q \<longleftrightarrow> n = Fin q \<and> 0 < q"
  by (cases n) (auto simp: positive_equity_def)

lemma provenance_init_Inr:
  assumes "peak_provenance_init user account currency source source_id equity observed = Inr v"
  shows "pp_user_id v = py_strip user \<and> pp_account_id v = account \<and> pp_source v = py_strip source \<and>
    pp_source_id v = py_strip source_id \<and> equity = Fin (pp_equity v) \<and> 0 < pp_equity v \<and> pp_observed_at v = observed"
  using assms unfolding peak_provenance_init_def res_bind_Inr_iff
  by (auto simp: positive_equity_Inr)

lemma baseline_init_Inr:
  "risk_baseline_init (Fin d) (Fin p) v ob = Inr b \<Longrightarrow>
   rb_day_start_equity b = d \<and> rb_peak_equity b = p \<and> rb_peak_provenance b = v \<and>
   (\<forall>w. v = Some w \<longrightarrow> pp_equity w = p)"
  unfolding risk_baseline_init_def res_bind_Inr_iff by (auto simp: positive_equity_Inr split: option.splits)

text \<open>The metric is one of the account, and no other has a higher peak.\<close>

lemma metric_peak_Inr:
  assumes "metric_peak t user account cur = Inr r"
  shows "case r of
      None \<Rightarrow> peak_metrics t user account = []
    | Some (v, p) \<Rightarrow> pp_equity p = v \<and> pp_account_id p = account \<and> pp_user_id p = py_strip user \<and>
        (\<exists>m \<in> set (peak_metrics t user account). mr_peak_equity m = Some v \<and> pp_source p = ''execution_metric'' \<and>
           pp_source_id p = py_strip (mr_metric_id m)) \<and>
        (\<forall>m \<in> set (peak_metrics t user account). the (mr_peak_equity m) \<le> v)"
proof -
  let ?f = "\<lambda>m. (- the (mr_peak_equity m), mr_created_at m, mr_metric_id m)" and ?ms = "peak_metrics t user account"
  show ?thesis
  proof (cases "sort_key ?f ?ms")
    case Nil
    then have "?ms = []" by (metis length_0_conv length_sort)
    then show ?thesis using assms by (simp add: metric_peak_def)
  next
    case (Cons m ms)
    have m: "m \<in> set ?ms" using Cons by (metis list.set_intros(1) set_sort)
    have least: "?f m \<le> ?f x" if "x \<in> set ?ms" for x using hd_sort_key_least [OF that, of ?f] Cons by simp
    have max: "the (mr_peak_equity x) \<le> the (mr_peak_equity m)" if "x \<in> set ?ms" for x
      using least [OF that] by (auto simp: less_eq_prod_def)
    have some: "mr_peak_equity m = Some (the (mr_peak_equity m))"
      using m by (auto simp: peak_metrics_def split: option.splits)
    obtain p where p: "peak_provenance_init user account cur ''execution_metric'' (mr_metric_id m)
        (Fin (the (mr_peak_equity m))) (mr_created_at m) = Inr p" and r: "r = Some (the (mr_peak_equity m), p)"
      using assms Cons by (auto simp: metric_peak_def res_bind_Inr_iff positive_equity_Inr)
    have "py_strip ''execution_metric'' = ''execution_metric''" by code_simp
    then show ?thesis using provenance_init_Inr [OF p] m some max by (auto simp: r)
  qed
qed

lemma initial_peak_Inr:
  assumes "paper_initial_peak a ob cur = Inr (Some (v, p))"
  shows "pp_equity p = v \<and> pp_account_id p = oa_account_id a \<and> pp_user_id p = py_strip (oa_user_id a) \<and>
    pp_source p = ''paper_account_initial_equity'' \<and> oa_paper_initial_equity a = Some v \<and>
    oa_environment a = ''paper'' \<and> oa_status a = ''connected'' \<and> (\<exists>x. ob = Some x \<and> eq_source x = ''broker'')"
proof -
  have s: "py_strip ''paper_account_initial_equity'' = ''paper_account_initial_equity''" by code_simp
  obtain initial x where i: "oa_paper_initial_equity a = Some initial" "ob = Some x"
    using assms by (auto simp: paper_initial_peak_def split: option.splits)
  have c: "oa_environment a = ''paper''" "oa_status a = ''connected''" "eq_source x = ''broker''"
    using assms i by (auto simp: paper_initial_peak_def split: if_splits)
  define src where "src = ''linked-broker-account:'' @ int_str (oa_account_id a)"
  have "res_bind (positive_equity ''paper_initial_equity'' (Fin initial)) (\<lambda>v.
      res_bind (peak_provenance_init (oa_user_id a) (oa_account_id a) cur ''paper_account_initial_equity'' src (Fin v)
        (oa_created_at a)) (\<lambda>p. Inr (Some (v, p)))) = Inr (Some (v, p))"
    using assms i c unfolding paper_initial_peak_def src_def by (simp del: append.simps)
  then obtain v' where v': "Fin initial = Fin v'" and q: "res_bind (peak_provenance_init (oa_user_id a)
      (oa_account_id a) cur ''paper_account_initial_equity'' src (Fin v') (oa_created_at a))
      (\<lambda>p. Inr (Some (v', p))) = Inr (Some (v, p))"
    unfolding res_bind_Inr_iff [of "positive_equity m n" for m n] positive_equity_Inr by blast
  have "peak_provenance_init (oa_user_id a) (oa_account_id a) cur ''paper_account_initial_equity'' src
      (Fin initial) (oa_created_at a) = Inr p" "v = initial"
    using q v' unfolding res_bind_Inr_iff by fastforce+
  from provenance_init_Inr [OF this(1)] this(2) s i c show ?thesis by (simp del: append.simps)
qed

text \<open>The newest close of an account before a day, of which a table may hold several for one date.\<close>

definition newest_close :: "baseline_tables \<Rightarrow> string \<Rightarrow> int \<Rightarrow> int \<Rightarrow> daily_nav \<Rightarrow> bool" where
  "newest_close t user account today n =
     (n \<in> set (bt_navs t) \<and> dn_user_id n = user \<and> dn_account_id n = account \<and> dn_date n < today \<and>
      (\<forall>x \<in> set (bt_navs t). dn_user_id x = user \<and> dn_account_id x = account \<and> dn_date x < today \<longrightarrow>
         dn_date x \<le> dn_date n))"

definition no_close :: "baseline_tables \<Rightarrow> string \<Rightarrow> int \<Rightarrow> int \<Rightarrow> bool" where
  "no_close t user account today =
     (\<forall>x \<in> set (bt_navs t). \<not> (dn_user_id x = user \<and> dn_account_id x = account \<and> dn_date x < today))"

lemma prior_nav_newest:
  "(case prior_nav t user account today of
      None \<Rightarrow> no_close t user account today
    | Some n \<Rightarrow> newest_close t user account today n)"
proof -
  let ?ns = "filter (\<lambda>n. dn_user_id n = user \<and> dn_account_id n = account \<and> dn_date n < today) (bt_navs t)"
  show ?thesis
  proof (cases "sort_key (\<lambda>n. - dn_date n) ?ns")
    case Nil
    then have "set ?ns = {}" by (metis set_empty set_sort)
    then show ?thesis using Nil by (auto simp: prior_nav_def no_close_def filter_empty_conv)
  next
    case (Cons n ns)
    then have "n \<in> set ?ns" by (metis list.set_intros(1) set_sort)
    moreover have "dn_date x \<le> dn_date n" if "x \<in> set ?ns" for x
      using hd_sort_key_least [OF that, of "\<lambda>n. - dn_date n"] Cons by simp
    ultimately show ?thesis using Cons by (simp add: prior_nav_def newest_close_def)
  qed
qed

lemma day_start_Inr:
  assumes "day_start_equity (prior_nav t user account today) cur equity = Inr s"
  shows "(\<exists>n. newest_close t user account today n \<and> dn_nav_value n = Some s) \<or>
    (s = equity \<and> (no_close t user account today \<or>
                   (\<exists>n. newest_close t user account today n \<and> dn_nav_value n = None)))"
  using assms prior_nav_newest [of t user account today]
  by (auto simp: day_start_equity_def res_bind_Inr_iff positive_equity_Inr split: option.splits)

text \<open>A positive peak that a metric records for the user and account.\<close>

definition recorded_peak :: "baseline_tables \<Rightarrow> string \<Rightarrow> int \<Rightarrow> rat \<Rightarrow> bool" where
  "recorded_peak t user account v =
     (0 < v \<and> (\<exists>m \<in> set (bt_metrics t). mr_user_id m = user \<and> mr_account_id m = account \<and>
                                       mr_peak_equity m = Some v))"

lemma recorded_peak_metrics:
  "recorded_peak t user account v \<longleftrightarrow> (\<exists>m \<in> set (peak_metrics t user account). mr_peak_equity m = Some v)"
  by (auto simp: recorded_peak_def peak_metrics_def)

lemma recorded_peak_None: "peak_metrics t user account = [] \<Longrightarrow> \<not> recorded_peak t user account v"
  by (simp add: recorded_peak_metrics)

text \<open>What a peak rests on: a metric of the account, or the initial equity of a connected paper account.\<close>

definition peak_source :: "baseline_tables \<Rightarrow> string \<Rightarrow> int \<Rightarrow> equity_snapshot option \<Rightarrow> rat \<Rightarrow> bool" where
  "peak_source t user account ob v =
     (recorded_peak t user account v \<or>
      (\<exists>a \<in> set (bt_accounts t). oa_account_id a = account \<and> oa_user_id a = user \<and>
         oa_paper_initial_equity a = Some v \<and> oa_environment a = ''paper'' \<and> oa_status a = ''connected'' \<and>
         (\<exists>x. ob = Some x \<and> eq_source x = ''broker'')))"

lemma best_peak_cases:
  "best_peak metric initial = r \<Longrightarrow>
   (r = None \<longrightarrow> metric = None \<and> initial = None) \<and>
   (\<forall>v p. r = Some (v, p) \<longrightarrow> (metric = Some (v, p) \<or> initial = Some (v, p)) \<and>
      (\<forall>v' p'. metric = Some (v', p') \<longrightarrow> v' \<le> v))"
  by (auto simp: best_peak_def split: option.splits if_splits)

text \<open>
  C18: Baselines belong to the account. A baseline resolved from the database has a peak at least as high
  as every positive peak that a metric row of that user and account records. A peak that counts as
  persisted equals such a recorded peak, or the initial equity of the user's connected paper account
  observed through the broker, and carries user and account; without one the peak is the current equity.
  The day starts at the value of the newest close of that user and account before today; at the current
  equity only when there is no such close or the newest one has no value. Rows of other users and
  accounts never matter.
\<close>

theorem baseline_attributed:
  assumes "resolve_risk_baseline (Some t) user account current ob now = Inr b"
  shows "(\<forall>v. recorded_peak t user account v \<longrightarrow> has_persisted_account_peak b \<and> v \<le> rb_peak_equity b) \<and>
    (\<forall>p. rb_peak_provenance b = Some p \<longrightarrow> pp_account_id p = account \<and> pp_user_id p = py_strip user \<and>
       pp_equity p = rb_peak_equity b \<and> peak_source t user account ob (rb_peak_equity b)) \<and>
    (rb_peak_provenance b = None \<longrightarrow> current = Fin (rb_peak_equity b)) \<and>
    ((\<exists>n. newest_close t user account (now div seconds 86400) n \<and> dn_nav_value n = Some (rb_day_start_equity b)) \<or>
     current = Fin (rb_day_start_equity b) \<and>
       (no_close t user account (now div seconds 86400) \<or>
        (\<exists>n. newest_close t user account (now div seconds 86400) n \<and> dn_nav_value n = None)))"
proof -
  obtain equity a cur start metric initial where e: "current = Fin equity"
    and a: "find (\<lambda>a. oa_account_id a = account \<and> oa_user_id a = user) (bt_accounts t) = Some a"
    and start: "day_start_equity (prior_nav t user account (now div seconds 86400)) cur equity = Inr start"
    and metric: "metric_peak t user account cur = Inr metric" and initial: "paper_initial_peak a ob cur = Inr initial"
    and b: "(case best_peak metric initial of
        Some (peak, provenance) \<Rightarrow> risk_baseline_init (Fin start) (Fin peak) (Some provenance) ob
      | None \<Rightarrow> risk_baseline_init (Fin start) (Fin equity) None ob) = Inr b"
    using assms unfolding resolve_risk_baseline_def
    by (auto simp: res_bind_Inr_iff positive_equity_Inr split: option.splits)
  have acc: "a \<in> set (bt_accounts t)" "oa_account_id a = account" "oa_user_id a = user"
    using a by (auto simp: find_Some_iff)
  note mp = metric_peak_Inr [OF metric]
  show ?thesis
  proof (cases "best_peak metric initial")
    case None
    then have "peak_metrics t user account = []" using best_peak_cases [OF None] mp by simp
    moreover have "rb_day_start_equity b = start" "rb_peak_equity b = equity" "rb_peak_provenance b = None"
      using b None baseline_init_Inr [of start equity None ob b] by simp_all
    ultimately show ?thesis using day_start_Inr [OF start] recorded_peak_None [of t user account] e by auto
  next
    case (Some pv)
    obtain peak p where pv: "pv = (peak, p)" by fastforce
    have f: "rb_day_start_equity b = start" "rb_peak_equity b = peak" "rb_peak_provenance b = Some p" "pp_equity p = peak"
      using b Some pv baseline_init_Inr [of start peak "Some p" ob b] by simp_all
    have which: "metric = Some (peak, p) \<or> initial = Some (peak, p)" and high: "\<And>v' p'. metric = Some (v', p') \<Longrightarrow> v' \<le> peak"
      using best_peak_cases [OF Some] pv by blast+
    have "the (mr_peak_equity m) \<le> peak" if "m \<in> set (peak_metrics t user account)" for m
    proof (cases metric)
      case (Some vp)
      obtain v p' where "vp = (v, p')" by fastforce
      then show ?thesis using mp Some that high [of v p'] by (auto intro: order_trans)
    qed (use mp that in simp)
    then have "v \<le> peak" if "recorded_peak t user account v" for v
      using that unfolding recorded_peak_metrics by force
    moreover have "pp_account_id p = account \<and> pp_user_id p = py_strip user \<and> peak_source t user account ob peak"
      using which
    proof
      assume "metric = Some (peak, p)"
      then show ?thesis using mp unfolding peak_source_def recorded_peak_metrics by auto
    next
      assume "initial = Some (peak, p)"
      then show ?thesis using initial_peak_Inr [of a ob cur peak p] initial acc unfolding peak_source_def by auto
    qed
    ultimately show ?thesis using f day_start_Inr [OF start] e by (auto simp: has_persisted_account_peak_def)
  qed
qed

section \<open>Examples\<close>

definition gx_keeper :: gatekeeper where
  "gx_keeper = \<lparr>gk_allow_live = True, gk_risk_guard_enabled = True, gk_max_signal_age_seconds = 300,
     gk_max_market_data_age_seconds = 60, gk_max_delayed_paper_market_data_age_seconds = 1800,
     gk_max_account_state_age_seconds = 60, gk_require_market_data_for_live = True,
     gk_max_session_age = Some (seconds 3600)\<rparr>"

definition gx_signal :: signal where
  "gx_signal = \<lparr>sn_signal_id = ''s'', sn_strategy_id = ''x'', sn_strategy_type = ''spot'', sn_symbol = ''SPY'',
     sn_asset_class = Some ''equity'', sn_instrument_id = PInt 7, sn_action = LONG, sn_confidence = 1,
     sn_timestamp = seconds 990, sn_horizon = None, sn_expected_return = None, sn_predicted_risk = None,
     sn_horizon_days = None, sn_entry_price = None, sn_stop_loss = None, sn_take_profit = None,
     sn_size_hint = None, sn_external_id = None, sn_raw_score = None, sn_expires_at = Some (seconds 2000),
     sn_metadata = []\<rparr>"

definition gx_calendar :: market_calendar where
  "gx_calendar = \<lparr>mc_calendar_id = 1, mc_code = ''XNYS'', mc_provider = ''nyse'', mc_source_kind = ''exchange'',
     mc_source_reference = ''nyse-2030'', mc_coverage_start = Some 0, mc_coverage_end = Some (seconds 9000),
     mc_observed_at = Some (seconds 500), mc_observation_id = None\<rparr>"

definition gx_tables :: session_tables where
  "gx_tables = \<lparr>st_instruments = [\<lparr>in_instr_id = 7, in_asset_class = ''equity'', in_is_tradable = True,
       in_market_session_policy = ''scheduled'', in_market_calendar_id = Some 1\<rparr>],
     st_calendars = [gx_calendar],
     st_sessions = [\<lparr>ms_calendar_id = 1, ms_opens_at = seconds 600, ms_closes_at = seconds 1200\<rparr>],
     st_observations = [], st_lineages = []\<rparr>"

definition gx_marker :: certification_file where
  "gx_marker = Json (PDict ([(''status'', PStr ''passed''), (''paper_window_days'', PInt 20)] @
     map (\<lambda>k. (k, PStr ''x'')) [''commit'', ''symbols'', ''operator'', ''sandbox_smoke_evidence'',
       ''paper_soak_evidence'', ''reconciliation_summary'']))"

definition gx_halt :: "halt_store \<Rightarrow> bool \<Rightarrow> time \<Rightarrow> halt_store" where
  "gx_halt st on now = fst (set_halt_state True 1 st on (Some ''drill'') (Some ''op'') None now)"

lemma gx_halted: "\<exists>h. halt_history (gx_halt (halt_store_init (Some [])) True 5) (Some h) 5 \<and> th_enabled h"
proof -
  have "halt_history (halt_store_init (Some [])) None 0" by (rule fresh) simp
  from stored [OF this, of 5 1 True "Some ''drill''" "Some ''op''" None] show ?thesis
    by (simp add: gx_halt_def set_halt_state_def halt_store_init_def Let_def)
       (rule exI, rule conjI, assumption, simp)
qed

theorem halt_holds_until_lifted_witness:
  "check_live_mode gx_keeper True (gx_halt (halt_store_init (Some [])) True 5) gx_marker (mark_health True None 0)
     ''live'' ''live'' [(''live_enabled'', PBool True)] [] \<noteq> Inr None"
  using gx_halted halt_holds_until_lifted [of "gx_halt (halt_store_init (Some [])) True 5" _ 5 gx_keeper True gx_marker
      "mark_health True None 0" "''live''" "[(''live_enabled'', PBool True)]" "[]"]
  by blast

theorem live_mode_preconditions_witness:
  "\<exists>h. get_halt_state True (gx_halt (gx_halt (halt_store_init (Some [])) True 5) False 6) = Inr h \<and> \<not> th_enabled h"
proof -
  have "check_live_mode gx_keeper True (gx_halt (gx_halt (halt_store_init (Some [])) True 5) False 6) gx_marker
     (mark_health True None 0) ''live'' ''live'' [(''live_enabled'', PBool True)] [] = Inr None"
    by code_simp
  from live_mode_preconditions [OF this] show ?thesis by blast
qed

theorem entry_only_in_open_session_witness:
  "\<exists>i. find_instrument gx_tables 7 = Some i \<and> session_open (seconds 3600) gx_tables i (seconds 1000)"
proof -
  have c: "check_market_session gx_keeper (Some gx_tables) gx_signal ''live'' False (seconds 1000) = None"
    "sn_action gx_signal \<noteq> CLOSE" "gk_max_session_age gx_keeper = Some (seconds 3600)"
    "signal_instrument_id gx_signal = Some 7"
    by code_simp+
  have p: "map_option in_market_session_policy (find_instrument gx_tables 7) = Some ''scheduled''" by code_simp
  from entry_only_in_open_session [OF c(1) _ c(2,3)] c(4) p show ?thesis by auto
qed

theorem live_entry_inputs_fresh_witness:
  "seconds 1000 \<le> sn_timestamp gx_signal + seconds 300 \<and>
   execution_authority [(''price'', PInt 5), (''timestamp'', PTime (seconds 980))] \<noteq> ''paper_only''"
proof -
  let ?d = "[(''price'', PInt 5), (''timestamp'', PTime (seconds 980))]"
  have c: "check_signal_freshness gx_keeper gx_signal ''live'' (seconds 1000) = None" "sn_action gx_signal \<noteq> CLOSE"
    "check_account_state_freshness gx_keeper (seconds 995) ''live'' False (seconds 1000) = None"
    "check_market_data_freshness gx_keeper ?d ''live'' (seconds 1000) = None" "gk_max_signal_age_seconds gx_keeper = 300"
    by code_simp+
  from live_entry_inputs_fresh [OF c(1-4)] c(5) show ?thesis by simp
qed

definition gx_baseline :: baseline_tables where
  "gx_baseline = \<lparr>bt_accounts = [\<lparr>oa_account_id = 3, oa_user_id = ''u'', oa_external_ref = None, oa_base_ccy = ''usd'',
       oa_environment = ''paper'', oa_status = ''connected'', oa_paper_initial_equity = Some 1000, oa_created_at = 0\<rparr>],
     bt_metrics = [\<lparr>mr_metric_id = ''m1'', mr_user_id = ''u'', mr_account_id = 3, mr_peak_equity = Some 1200, mr_created_at = 4\<rparr>,
       \<lparr>mr_metric_id = ''m2'', mr_user_id = ''u'', mr_account_id = 4, mr_peak_equity = Some 9000, mr_created_at = 4\<rparr>],
     bt_navs = [\<lparr>dn_user_id = ''u'', dn_account_id = 3, dn_date = 0, dn_nav_value = Some 1100, dn_nav_ccy = ''USD''\<rparr>]\<rparr>"

theorem baseline_attributed_witness:
  "\<exists>b. resolve_risk_baseline (Some gx_baseline) ''u'' 3 (Fin 1050) None (seconds 90000) = Inr b \<and>
       1200 \<le> rb_peak_equity b \<and> has_persisted_account_peak b"
proof -
  have "is_ok (resolve_risk_baseline (Some gx_baseline) ''u'' 3 (Fin 1050) None (seconds 90000))" by code_simp
  then obtain b where b: "resolve_risk_baseline (Some gx_baseline) ''u'' 3 (Fin 1050) None (seconds 90000) = Inr b"
    by (cases "resolve_risk_baseline (Some gx_baseline) ''u'' 3 (Fin 1050) None (seconds 90000)") auto
  have "recorded_peak gx_baseline ''u'' 3 1200" by (auto simp: recorded_peak_def gx_baseline_def)
  with baseline_attributed [OF b] b show ?thesis by blast
qed

end
