(* ===== verification/Bar_Consolidation.thy ===== *)
theory Bar_Consolidation
  imports Asset_Classes
begin

text \<open>
  Bars and their consolidation: \<open>lib_data/bars.py\<close>, \<open>lib_data/dataset.py\<close> and
  \<open>lib_data/consolidation.py\<close>. The consolidator is a record of its attributes. Its callback receives exactly the bars that
  \<open>update\<close> and \<open>flush\<close> return, so it is left out. A timestamp is in UTC; in a checkpoint a \<open>PTime\<close>
  stands for an ISO text with a timezone, and the JSON round trip of the payload is the identity: the metadata of a
  bar is JSON-valued by its type (\<open>json.dumps\<close> raises on other values, which the model does not have).
\<close>

section \<open>Bars\<close>

record bar =
  bar_symbol :: string
  bar_timestamp :: time
  bar_open :: rat
  bar_high :: rat
  bar_low :: rat
  bar_close :: rat
  bar_volume :: rat
  bar_timeframe :: string
  bar_source :: "string option"
  bar_metadata :: pydict

definition typical_price :: "bar \<Rightarrow> rat" where
  "typical_price b = (bar_high b + bar_low b + bar_close b) / 3"

definition bar_mid :: "bar \<Rightarrow> rat" where
  "bar_mid b = (bar_high b + bar_low b) / 2"

text \<open>A number that is not a boolean.\<close>

fun as_number :: "pyval \<Rightarrow> rat option" where
  "as_number (PInt i) = Some (of_int i)"
| "as_number (PFloat r) = Some r"
| "as_number _ = None"

definition ohlcv_invariant_error ::
    "pyval \<Rightarrow> pyval \<Rightarrow> pyval \<Rightarrow> pyval \<Rightarrow> pyval \<Rightarrow> bool \<Rightarrow> string option" where
  "ohlcv_invariant_error op hi lo cl vol allow_missing_volume =
     (case (as_number op, as_number hi, as_number lo, as_number cl) of
        (Some p, Some h, Some l, Some c) \<Rightarrow>
          (if min (min p h) (min l c) \<le> 0 then Some ''contains a non-positive price''
           else if (vol = PNone \<and> \<not> allow_missing_volume) \<or> (vol \<noteq> PNone \<and> as_number vol = None)
           then Some ''contains non-finite OHLCV''
           else if (case as_number vol of Some v \<Rightarrow> v < 0 | None \<Rightarrow> False) then Some ''contains negative volume''
           else if h < max p c \<or> min p c < l \<or> h < l then Some ''violates OHLC bounds''
           else None)
      | _ \<Rightarrow> Some ''contains non-finite OHLCV'')"

section \<open>Timeframes\<close>

abbreviation minutes :: "int \<Rightarrow> duration" where
  "minutes n \<equiv> seconds (60 * n)"

abbreviation day :: duration where
  "day \<equiv> minutes 1440"

definition timeframe_interval :: "string \<Rightarrow> duration res" where
  "timeframe_interval timeframe =
     (let token = py_lower (py_strip timeframe);
          suffix = (if token = [] then [] else [last token])
      in if suffix \<notin> {''m'', ''h'', ''d''} then Inl (ValueError (''Unsupported timeframe: '' @ timeframe))
         else (case parse_int (butlast token) of
                 None \<Rightarrow> Inl (ValueError (''Invalid timeframe: '' @ timeframe))
               | Some v \<Rightarrow>
                   if v \<le> 0 then Inl (ValueError (''Timeframe interval must be positive: '' @ timeframe))
                   else if suffix = ''m'' then Inr (minutes v)
                   else if suffix = ''h'' then Inr (minutes (60 * v))
                   else Inr (minutes (1440 * v))))"

definition fixed_duration_interval :: "string \<Rightarrow> string option \<Rightarrow> duration res" where
  "fixed_duration_interval timeframe asset_class =
     res_bind (timeframe_interval timeframe) (\<lambda>interval.
     res_bind (normalize_optional_asset_class asset_class ''asset_class'') (\<lambda>c.
       if day \<le> interval \<and> (case c of None \<Rightarrow> False | Some a \<Rightarrow> a \<in> set SESSION_BASED_ASSET_CLASSES)
       then Inl (CustomError ''UnsupportedSessionTimingError'' ''Unsupported fixed-duration timing'')
       else Inr interval))"

section \<open>Period boundaries\<close>

definition period_end :: "time \<Rightarrow> int \<Rightarrow> time" where
  "period_end ts period =
     (let total = (ts mod day) div minutes 1;
          remainder = total mod period;
          end_minutes = (if remainder = 0 then total else total + (period - remainder))
      in (ts - ts mod day) + minutes end_minutes)"

definition bar_close_time :: "bar \<Rightarrow> time res" where
  "bar_close_time b = res_bind (timeframe_interval (bar_timeframe b)) (\<lambda>d. Inr (bar_timestamp b + d))"

definition timeframe_minutes :: "string \<Rightarrow> int res" where
  "timeframe_minutes timeframe =
     (if py_strip timeframe = [] then Inr 1
      else res_bind (timeframe_interval timeframe) (\<lambda>d.
             if d mod minutes 1 \<noteq> 0
             then Inl (ValueError ''source timeframe must resolve to whole minutes'')
             else Inr (d div minutes 1)))"

definition source_metadata :: "bar \<Rightarrow> pydict" where
  "source_metadata b =
     (let m = dict_set (dict_set (bar_metadata b) ''source_price_ts'' (PTime (bar_timestamp b)))
                ''source_timeframe'' (PStr (bar_timeframe b))
      in foldl (\<lambda>d k. if map_of (bar_metadata b) k = None then dict_pop d k else d) m
           [''price_id'', ''content_revision''])"

section \<open>The consolidator\<close>

record consolidator =
  cs_period_minutes :: int
  cs_min_coverage :: rat
  cs_current_period_end :: "time option"
  cs_working_bar :: "bar option"
  cs_bar_count :: int
  cs_source_minutes :: int

definition consolidator_init :: "int \<Rightarrow> rat \<Rightarrow> consolidator res" where
  "consolidator_init period coverage_limit =
     (if period < 1 then Inl (ValueError ''period_minutes must be >= 1'')
      else if \<not> (0 \<le> coverage_limit \<and> coverage_limit \<le> 1)
      then Inl (ValueError ''min_coverage must be in [0, 1]'')
      else Inr \<lparr>cs_period_minutes = period, cs_min_coverage = coverage_limit,
                cs_current_period_end = None, cs_working_bar = None, cs_bar_count = 0,
                cs_source_minutes = 1\<rparr>)"

definition period_label :: "int \<Rightarrow> string" where
  "period_label period = int_str period @ ''m''"

definition coverage :: "consolidator \<Rightarrow> rat" where
  "coverage c =
     min 1 (of_int (cs_bar_count c) / of_int (max 1 (cs_period_minutes c div cs_source_minutes c)))"

definition start_new_period :: "consolidator \<Rightarrow> bar \<Rightarrow> time \<Rightarrow> time \<Rightarrow> consolidator res" where
  "start_new_period c b close_ts end_ts =
     res_bind (timeframe_minutes (bar_timeframe b)) (\<lambda>m.
       Inr (c\<lparr>cs_current_period_end := Some end_ts, cs_source_minutes := m,
              cs_working_bar :=
                Some \<lparr>bar_symbol = bar_symbol b, bar_timestamp = close_ts, bar_open = bar_open b,
                      bar_high = bar_high b, bar_low = bar_low b, bar_close = bar_close b,
                      bar_volume = bar_volume b, bar_timeframe = period_label (cs_period_minutes c),
                      bar_source = bar_source b, bar_metadata = source_metadata b\<rparr>,
              cs_bar_count := 1\<rparr>))"

definition finished_bar :: "bar \<Rightarrow> int \<Rightarrow> rat \<Rightarrow> bar" where
  "finished_bar b constituents cov =
     b\<lparr>bar_metadata :=
         dict_set (dict_set (dict_set (bar_metadata b) ''constituent_bars'' (PInt constituents))
           ''coverage'' (PFloat (py_round 4 cov))) ''complete'' (PBool (1 \<le> cov))\<rparr>"

definition emit :: "consolidator \<Rightarrow> consolidator \<times> bar option" where
  "emit c =
     (let cov = coverage c;
          c' = c\<lparr>cs_working_bar := None, cs_current_period_end := None, cs_bar_count := 0\<rparr>
      in case cs_working_bar c of
           None \<Rightarrow> (c', None)
         | Some b \<Rightarrow>
             if 0 < cs_min_coverage c \<and> cov < cs_min_coverage c then (c', None)
             else (c', Some (finished_bar b (cs_bar_count c) cov)))"

definition extend_bar :: "bar \<Rightarrow> bar \<Rightarrow> time \<Rightarrow> bar" where
  "extend_bar working b close_ts =
     working\<lparr>bar_high := max (bar_high working) (bar_high b), bar_low := min (bar_low working) (bar_low b),
             bar_close := bar_close b, bar_volume := bar_volume working + bar_volume b,
             bar_timestamp := close_ts, bar_metadata := source_metadata b\<rparr>"

definition update_bar :: "consolidator \<Rightarrow> bar \<Rightarrow> consolidator \<times> (bar option) res" where
  "update_bar c b =
     (case bar_close_time b of
        Inl e \<Rightarrow> (c, Inl e)
      | Inr close_ts \<Rightarrow>
          (let end_ts = period_end close_ts (cs_period_minutes c)
           in if (case cs_current_period_end c of None \<Rightarrow> False | Some e \<Rightarrow> end_ts \<noteq> e)
              then (case emit c of (c1, emitted) \<Rightarrow>
                      (case start_new_period c1 b close_ts end_ts of
                         Inl e \<Rightarrow> (c1, Inl e)
                       | Inr c2 \<Rightarrow> (c2, Inr emitted)))
              else
                (case (case cs_working_bar c of
                         None \<Rightarrow> start_new_period c b close_ts end_ts
                       | Some w \<Rightarrow> Inr (c\<lparr>cs_working_bar := Some (extend_bar w b close_ts),
                                          cs_bar_count := cs_bar_count c + 1\<rparr>)) of
                   Inl e \<Rightarrow> (c, Inl e)
                 | Inr c1 \<Rightarrow>
                     if (case cs_current_period_end c1 of None \<Rightarrow> False | Some e \<Rightarrow> e \<le> close_ts)
                     then (case emit c1 of (c2, emitted) \<Rightarrow> (c2, Inr emitted))
                     else (c1, Inr None))))"

definition flush :: "consolidator \<Rightarrow> consolidator \<times> bar option" where
  "flush c = (if cs_working_bar c \<noteq> None then emit c else (c, None))"

section \<open>Checkpoints\<close>

definition opt_val :: "('a \<Rightarrow> pyval) \<Rightarrow> 'a option \<Rightarrow> pyval" where
  "opt_val f x = (case x of None \<Rightarrow> PNone | Some v \<Rightarrow> f v)"

definition bar_dict :: "bar \<Rightarrow> pydict" where
  "bar_dict b =
     [(''symbol'', PStr (bar_symbol b)), (''timestamp'', PTime (bar_timestamp b)),
      (''open'', PFloat (bar_open b)), (''high'', PFloat (bar_high b)), (''low'', PFloat (bar_low b)),
      (''close'', PFloat (bar_close b)), (''volume'', PFloat (bar_volume b)),
      (''timeframe'', PStr (bar_timeframe b)), (''source'', opt_val PStr (bar_source b)),
      (''metadata'', PDict (bar_metadata b))]"

definition snapshot_state :: "consolidator \<Rightarrow> pydict" where
  "snapshot_state c =
     [(''schema_version'', PInt 1), (''period_minutes'', PInt (cs_period_minutes c)),
      (''min_coverage'', PFloat (cs_min_coverage c)),
      (''current_period_end'', opt_val PTime (cs_current_period_end c)),
      (''working_bar'', opt_val (\<lambda>b. PDict (bar_dict b)) (cs_working_bar c)),
      (''bar_count'', PInt (cs_bar_count c)), (''source_minutes'', PInt (cs_source_minutes c))]"

definition checkpoint_timestamp :: "pyval \<Rightarrow> time res" where
  "checkpoint_timestamp v =
     (case v of
        PTime t \<Rightarrow> Inr t
      | PStr s \<Rightarrow> Inl (ValueError ''Checkpoint timestamp requires an explicit timezone'')
      | _ \<Rightarrow> Inl (TypeError ''Checkpoint timestamp must be a timezone-bearing ISO string''))"

definition required :: "pydict \<Rightarrow> string \<Rightarrow> pyval res" where
  "required d k = (case map_of d k of None \<Rightarrow> Inl (LookupError k) | Some v \<Rightarrow> Inr v)"

definition as_dict :: "pyval \<Rightarrow> pydict option" where
  "as_dict v = (case v of PDict d \<Rightarrow> Some d | _ \<Rightarrow> None)"

definition as_text :: "pyval \<Rightarrow> string option" where
  "as_text v = (case v of PStr s \<Rightarrow> Some s | _ \<Rightarrow> None)"

definition as_int :: "pyval \<Rightarrow> int option" where
  "as_int v = (case v of PInt i \<Rightarrow> Some i | _ \<Rightarrow> None)"

definition float_or_zero :: "pyval \<Rightarrow> rat" where
  "float_or_zero v = (case as_number v of None \<Rightarrow> 0 | Some r \<Rightarrow> r)"

definition SNAPSHOT_KEYS :: "string list" where
  "SNAPSHOT_KEYS = [''schema_version'', ''period_minutes'', ''min_coverage'', ''current_period_end'',
     ''working_bar'', ''bar_count'', ''source_minutes'']"

definition BAR_KEYS :: "string list" where
  "BAR_KEYS = [''symbol'', ''timestamp'', ''open'', ''high'', ''low'', ''close'', ''volume'',
     ''timeframe'', ''source'', ''metadata'']"

text \<open>The working bar of a checkpoint, with its period.\<close>

definition decode_bucket :: "consolidator \<Rightarrow> pydict \<Rightarrow> pyval \<Rightarrow> int \<Rightarrow> int \<Rightarrow> (time \<times> bar) res" where
  "decode_bucket c raw end_val count source_min =
     res_bind (require (set (map fst raw) = set BAR_KEYS) (ValueError ''Malformed consolidation checkpoint bar'')) (\<lambda>_.
     res_bind (checkpoint_timestamp (dict_get raw ''timestamp'')) (\<lambda>timestamp.
     case as_dict (dict_get raw ''metadata'') of
       None \<Rightarrow> Inl (TypeError ''Consolidation checkpoint metadata must be an object'')
     | Some meta \<Rightarrow>
         res_bind (required meta ''source_timeframe'') (\<lambda>source_timeframe.
         res_bind (required meta ''source_price_ts'') (\<lambda>source_ts.
         res_bind (checkpoint_timestamp source_ts) (\<lambda>source_timestamp.
         res_bind (case as_text source_timeframe of
                     None \<Rightarrow> Inr False
                   | Some tf \<Rightarrow> res_bind (timeframe_minutes tf) (\<lambda>m.
                       Inr (m = source_min \<and> source_timestamp + minutes source_min = timestamp))) (\<lambda>agrees.
         res_bind (require agrees (ValueError ''Consolidation checkpoint duration/timestamp disagrees with provenance'')) (\<lambda>_.
         res_bind (checkpoint_timestamp end_val) (\<lambda>end_ts.
         res_bind (require
           (ohlcv_invariant_error (dict_get raw ''open'') (dict_get raw ''high'') (dict_get raw ''low'')
              (dict_get raw ''close'') (dict_get raw ''volume'') False = None \<and>
            (case as_text (dict_get raw ''symbol'') of None \<Rightarrow> False | Some s \<Rightarrow> s \<noteq> [] \<and> s = py_strip s) \<and>
            (dict_get raw ''source'' = PNone \<or> as_text (dict_get raw ''source'') \<noteq> None) \<and>
            dict_get raw ''timeframe'' = PStr (period_label (cs_period_minutes c)) \<and>
            count \<noteq> 0 \<and> end_ts = period_end timestamp (cs_period_minutes c))
           (ValueError ''Invalid consolidation checkpoint bucket or OHLCV'')) (\<lambda>_.
         Inr (end_ts,
              \<lparr>bar_symbol = the (as_text (dict_get raw ''symbol'')), bar_timestamp = timestamp,
               bar_open = float_or_zero (dict_get raw ''open''), bar_high = float_or_zero (dict_get raw ''high''),
               bar_low = float_or_zero (dict_get raw ''low''), bar_close = float_or_zero (dict_get raw ''close''),
               bar_volume = float_or_zero (dict_get raw ''volume''),
               bar_timeframe = period_label (cs_period_minutes c),
               bar_source = as_text (dict_get raw ''source''), bar_metadata = meta\<rparr>))))))))))"

definition decode_checkpoint ::
    "consolidator \<Rightarrow> pydict \<Rightarrow> (time option \<times> bar option \<times> int \<times> int) res" where
  "decode_checkpoint c payload =
     res_bind (require (set (map fst payload) = set SNAPSHOT_KEYS) (ValueError ''Malformed consolidation checkpoint'')) (\<lambda>_.
     res_bind (require
       (dict_get payload ''schema_version'' = PInt 1 \<and>
        dict_get payload ''period_minutes'' = PInt (cs_period_minutes c) \<and>
        as_number (dict_get payload ''min_coverage'') = Some (cs_min_coverage c))
       (ValueError ''Incompatible consolidation checkpoint configuration'')) (\<lambda>_.
     case (as_int (dict_get payload ''bar_count''), as_int (dict_get payload ''source_minutes'')) of
       (Some count, Some source_min) \<Rightarrow>
         res_bind (require (0 \<le> count \<and> 1 \<le> source_min) (ValueError ''Invalid consolidation checkpoint counts'')) (\<lambda>_.
         case dict_get payload ''working_bar'' of
           PNone \<Rightarrow>
             res_bind (require (dict_get payload ''current_period_end'' = PNone \<and> count = 0)
               (ValueError ''Empty consolidation checkpoint retains a bucket'')) (\<lambda>_.
             Inr (None, None, count, source_min))
         | PDict raw \<Rightarrow>
             res_bind (decode_bucket c raw (dict_get payload ''current_period_end'') count source_min) (\<lambda>(e, b).
             Inr (Some e, Some b, count, source_min))
         | _ \<Rightarrow> Inl (ValueError ''Malformed consolidation checkpoint bar''))
     | _ \<Rightarrow> Inl (ValueError ''Invalid consolidation checkpoint counts'')))"

definition restore_state :: "consolidator \<Rightarrow> pydict \<Rightarrow> consolidator res" where
  "restore_state c snapshot =
     (case decode_checkpoint c snapshot of
        Inl e \<Rightarrow> Inl (ValueError ''Invalid consolidation checkpoint'')
      | Inr (e, b, count, source_min) \<Rightarrow>
          Inr (c\<lparr>cs_current_period_end := e, cs_working_bar := b, cs_bar_count := count,
                 cs_source_minutes := source_min\<rparr>))"

end
