(* ===== verification/Bar_Stream.thy ===== *)
theory Bar_Stream
  imports Bar_Consolidation
begin

text \<open>
  What the consolidator computes. A reference definition splits the whole stream into runs of bars
  with the same period and aggregates each run at once; feeding the stream bar by bar and flushing
  gives the same bars. A checkpoint restores the unfinished period exactly.
\<close>

section \<open>Feeding a stream\<close>

fun option_list :: "'a option \<Rightarrow> 'a list" where
  "option_list None = []"
| "option_list (Some x) = [x]"

fun feed :: "consolidator \<Rightarrow> bar list \<Rightarrow> (consolidator \<times> bar list) res" where
  "feed c [] = Inr (c, [])"
| "feed c (b # bs) =
     (case update_bar c b of
        (_, Inl e) \<Rightarrow> Inl e
      | (c1, Inr out) \<Rightarrow> res_bind (feed c1 bs) (\<lambda>(c2, outs). Inr (c2, option_list out @ outs)))"

definition consolidate :: "consolidator \<Rightarrow> bar list \<Rightarrow> (bar list) res" where
  "consolidate c bs = res_bind (feed c bs) (\<lambda>(c1, outs). Inr (outs @ option_list (snd (flush c1))))"

section \<open>The reference\<close>

function runs_by :: "('a \<Rightarrow> 'k) \<Rightarrow> 'a list \<Rightarrow> 'a list list" where
  "runs_by f [] = []"
| "runs_by f (x # xs) = (x # takeWhile (\<lambda>y. f y = f x) xs) # runs_by f (dropWhile (\<lambda>y. f y = f x) xs)"
  by pat_completeness auto
termination
  by (relation "measure (\<lambda>(f, xs). length xs)") (auto simp: less_Suc_eq_le length_dropWhile_le)

definition close_of :: "bar \<Rightarrow> time" where
  "close_of b = projr (bar_close_time b)"

definition period_of :: "int \<Rightarrow> bar \<Rightarrow> time" where
  "period_of p b = period_end (close_of b) p"

definition source_minutes_of :: "bar \<Rightarrow> int" where
  "source_minutes_of b = projr (timeframe_minutes (bar_timeframe b))"

definition aggregate :: "int \<Rightarrow> bar list \<Rightarrow> bar" where
  "aggregate p g =
     \<lparr>bar_symbol = bar_symbol (hd g), bar_timestamp = close_of (last g), bar_open = bar_open (hd g),
      bar_high = Max (bar_high ` set g), bar_low = Min (bar_low ` set g), bar_close = bar_close (last g),
      bar_volume = sum_list (map bar_volume g), bar_timeframe = period_label p,
      bar_source = bar_source (hd g), bar_metadata = source_metadata (last g)\<rparr>"

definition run_coverage :: "int \<Rightarrow> bar list \<Rightarrow> rat" where
  "run_coverage p g = min 1 (of_nat (length g) / of_int (max 1 (p div source_minutes_of (hd g))))"

definition run_bar :: "int \<Rightarrow> rat \<Rightarrow> bar list \<Rightarrow> bar option" where
  "run_bar p mc g =
     (let cov = run_coverage p g
      in if 0 < mc \<and> cov < mc then None
         else Some (finished_bar (aggregate p g) (int (length g)) cov))"

lemma runs_by_prefix:
  assumes "g \<noteq> []" "\<forall>y \<in> set g. f y = f (hd g)" "bs = [] \<or> f (hd bs) \<noteq> f (hd g)"
  shows "runs_by f (g @ bs) = g # runs_by f bs"
proof -
  obtain x xs where g: "g = x # xs" using assms(1) by (cases g) auto
  have all: "\<forall>y \<in> set xs. f y = f x" using assms(2) g by simp
  have "takeWhile (\<lambda>y. f y = f x) (xs @ bs) = xs" "dropWhile (\<lambda>y. f y = f x) (xs @ bs) = bs"
    using all assms(3) g by (cases bs; simp add: takeWhile_append2 dropWhile_append2)+
  then show ?thesis by (simp add: g)
qed

lemma concat_runs_by: "concat (runs_by f xs) = xs"
  by (induction f xs rule: runs_by.induct) simp_all

section \<open>The state between two bars\<close>

text \<open>A bar whose timeframe is understood.\<close>

definition timed :: "bar \<Rightarrow> bool" where
  "timed b = is_ok (timeframe_interval (bar_timeframe b))"

lemma strip_nonblank: "is_ok (timeframe_interval tf) \<Longrightarrow> py_strip tf \<noteq> []"
  by (auto simp: timeframe_interval_def Let_def py_lower_def)

lemma interval_minutes:
  "timeframe_interval tf = Inr d \<Longrightarrow> \<exists>n>0. d = minutes n"
  by (auto simp: timeframe_interval_def Let_def split: if_splits option.splits intro: exI [of _ "60 * _"])

lemma timed_close: "timed b \<Longrightarrow> bar_close_time b = Inr (close_of b)"
  by (auto simp: timed_def is_ok_def bar_close_time_def close_of_def split: sum.splits)

lemma timed_minutes:
  assumes "timed b"
  shows "timeframe_minutes (bar_timeframe b) = Inr (source_minutes_of b)"
    "close_of b = bar_timestamp b + minutes (source_minutes_of b)" "1 \<le> source_minutes_of b"
proof -
  obtain d where d: "timeframe_interval (bar_timeframe b) = Inr d"
    using assms by (auto simp: timed_def is_ok_def split: sum.splits)
  obtain n where n: "0 < n" "d = minutes n" using interval_minutes [OF d] by blast
  have "timeframe_minutes (bar_timeframe b) = Inr n"
    using strip_nonblank [of "bar_timeframe b"] d n by (simp add: timeframe_minutes_def)
  then show "timeframe_minutes (bar_timeframe b) = Inr (source_minutes_of b)"
    "close_of b = bar_timestamp b + minutes (source_minutes_of b)" "1 \<le> source_minutes_of b"
    using d n by (simp_all add: source_minutes_of_def close_of_def bar_close_time_def)
qed

text \<open>The bars \<open>g\<close> are the ones the consolidator has taken since it last emitted.\<close>

definition holds_run :: "int \<Rightarrow> rat \<Rightarrow> bar list \<Rightarrow> consolidator \<Rightarrow> bool" where
  "holds_run p mc g c \<longleftrightarrow>
     cs_period_minutes c = p \<and> cs_min_coverage c = mc \<and> cs_bar_count c = int (length g) \<and>
     1 \<le> cs_source_minutes c \<and>
     (if g = [] then cs_working_bar c = None \<and> cs_current_period_end c = None
      else cs_working_bar c = Some (aggregate p g) \<and> cs_source_minutes c = source_minutes_of (hd g) \<and>
           list_all (\<lambda>b. cs_current_period_end c = Some (period_of p b)) g)"

lemma holds_run_end:
  "holds_run p mc g c \<Longrightarrow> g \<noteq> [] \<Longrightarrow> cs_current_period_end c = Some (period_of p (hd g))"
  by (cases g) (simp_all add: holds_run_def)

lemma holds_run_period:
  "holds_run p mc g c \<Longrightarrow> \<forall>b \<in> set g. period_of p b = period_of p (hd g)"
  by (cases g) (simp_all add: holds_run_def list_all_iff, metis option.inject)

lemma aggregate_single: "aggregate p [b] =
    \<lparr>bar_symbol = bar_symbol b, bar_timestamp = close_of b, bar_open = bar_open b,
     bar_high = bar_high b, bar_low = bar_low b, bar_close = bar_close b, bar_volume = bar_volume b,
     bar_timeframe = period_label p, bar_source = bar_source b, bar_metadata = source_metadata b\<rparr>"
  by (simp add: aggregate_def)

lemma aggregate_snoc:
  assumes "g \<noteq> []"
  shows "extend_bar (aggregate p g) b (close_of b) = aggregate p (g @ [b])"
  using assms by (simp add: extend_bar_def aggregate_def max.commute min.commute)

lemma emit_run:
  assumes "holds_run p mc g c" "g \<noteq> []"
  shows "snd (emit c) = run_bar p mc g" "holds_run p mc [] (fst (emit c))"
    "cs_period_minutes (fst (emit c)) = p"
  using assms
  by (simp_all add: emit_def holds_run_def Let_def run_bar_def run_coverage_def coverage_def)

lemma start_run:
  assumes "timed b" "cs_period_minutes c = p" "cs_min_coverage c = mc"
  shows "\<exists>c'. start_new_period c b (close_of b) (period_of p b) = Inr c' \<and> holds_run p mc [b] c' \<and>
           cs_current_period_end c' = Some (period_of p b)"
  using assms timed_minutes [OF assms(1)]
  by (simp add: start_new_period_def holds_run_def aggregate_single)

lemma extend_run:
  assumes "holds_run p mc g c" "g \<noteq> []" "period_of p b = period_of p (hd g)"
  shows "holds_run p mc (g @ [b])
     (c\<lparr>cs_working_bar := Some (extend_bar (aggregate p g) b (close_of b)), cs_bar_count := cs_bar_count c + 1\<rparr>)"
  using assms holds_run_end [OF assms(1,2)] by (simp add: holds_run_def aggregate_snoc)

text \<open>The bars held after one more bar, and whether their period is emitted.\<close>

lemma update_next_period:
  assumes "holds_run p mc g c" "timed b" "g \<noteq> []" "period_of p b \<noteq> period_of p (hd g)"
  shows "\<exists>c'. update_bar c b = (c', Inr (run_bar p mc g)) \<and> holds_run p mc [b] c'"
proof -
  note em = emit_run [OF assms(1,3)]
  obtain c' where c': "start_new_period (fst (emit c)) b (close_of b) (period_of p b) = Inr c'"
    "holds_run p mc [b] c'"
    using start_run [OF assms(2) em(3), of mc] em(2) by (auto simp: holds_run_def)
  have "cs_period_minutes c = p" "cs_current_period_end c = Some (period_of p (hd g))"
    using assms(1) holds_run_end [OF assms(1,3)] by (simp_all add: holds_run_def)
  then have "update_bar c b = (c', Inr (snd (emit c)))"
    using assms(4) c'(1) unfolding period_of_def
    by (simp add: update_bar_def timed_close [OF assms(2)] Let_def case_prod_beta)
  then show ?thesis using em(1) c'(2) by simp
qed

lemma update_same_period:
  assumes "holds_run p mc g c" "timed b" "g = [] \<or> period_of p b = period_of p (hd g)"
  shows "\<exists>c'. update_bar c b = (c', Inr (if period_of p b \<le> close_of b then run_bar p mc (g @ [b]) else None)) \<and>
           holds_run p mc (if period_of p b \<le> close_of b then [] else g @ [b]) c'"
proof -
  have pm: "cs_period_minutes c = p" "cs_min_coverage c = mc" using assms(1) by (simp_all add: holds_run_def)
  define next_state where "next_state =
    (case cs_working_bar c of None \<Rightarrow> start_new_period c b (close_of b) (period_of p b)
     | Some w \<Rightarrow> Inr (c\<lparr>cs_working_bar := Some (extend_bar w b (close_of b)), cs_bar_count := cs_bar_count c + 1\<rparr>))"
  obtain c1 where c1: "next_state = Inr c1" "holds_run p mc (g @ [b]) c1"
    "cs_current_period_end c1 = Some (period_of p b)"
  proof (cases "g = []")
    case True
    then have "next_state = start_new_period c b (close_of b) (period_of p b)"
      using assms(1) by (simp add: next_state_def holds_run_def)
    then show ?thesis using that start_run [OF assms(2) pm] True by auto
  next
    case False
    then have "next_state = Inr (c\<lparr>cs_working_bar := Some (extend_bar (aggregate p g) b (close_of b)),
        cs_bar_count := cs_bar_count c + 1\<rparr>)"
      using assms(1) by (simp add: next_state_def holds_run_def)
    moreover have "cs_current_period_end c = Some (period_of p b)"
      using holds_run_end [OF assms(1) False] assms(3) False by simp
    ultimately show ?thesis using that extend_run [OF assms(1) False] assms(3) False by simp
  qed
  have "\<not> (case cs_current_period_end c of None \<Rightarrow> False | Some e \<Rightarrow> period_of p b \<noteq> e)"
    using holds_run_end [OF assms(1)] assms(1,3) by (cases "g = []") (simp_all add: holds_run_def)
  then have "update_bar c b = (if period_of p b \<le> close_of b then (fst (emit c1), Inr (snd (emit c1))) else (c1, Inr None))"
    using c1(1,3) pm(1) unfolding next_state_def period_of_def
    by (simp add: update_bar_def timed_close [OF assms(2)] Let_def case_prod_beta)
  then show ?thesis using emit_run [OF c1(2)] c1(2) by simp
qed

lemma update_run:
  assumes "holds_run p mc g c" "timed b"
  obtains c' out g' where "update_bar c b = (c', Inr out)" "holds_run p mc g' c'" "set g' \<subseteq> insert b (set g)"
proof (cases "g = [] \<or> period_of p b = period_of p (hd g)")
  case True
  from update_same_period [OF assms True] obtain c' where
    "update_bar c b = (c', Inr (if period_of p b \<le> close_of b then run_bar p mc (g @ [b]) else None))"
    "holds_run p mc (if period_of p b \<le> close_of b then [] else g @ [b]) c'" by blast
  then show ?thesis by (rule that) auto
next
  case False
  then have "g \<noteq> []" "period_of p b \<noteq> period_of p (hd g)" by auto
  from update_next_period [OF assms this] obtain c' where
    "update_bar c b = (c', Inr (run_bar p mc g))" "holds_run p mc [b] c'" by blast
  then show ?thesis by (rule that) auto
qed

lemma feed_run:
  "holds_run p mc g c \<Longrightarrow> list_all timed bs \<Longrightarrow>
   \<exists>c' outs g'. feed c bs = Inr (c', outs) \<and> holds_run p mc g' c' \<and> set g' \<subseteq> set g \<union> set bs"
proof (induction bs arbitrary: g c)
  case Nil
  then show ?case by auto
next
  case (Cons b bs)
  from Cons.prems have "timed b" "list_all timed bs" by simp_all
  from update_run [OF Cons.prems(1) this(1)] obtain c1 out g1 where
    u: "update_bar c b = (c1, Inr out)" "holds_run p mc g1 c1" "set g1 \<subseteq> insert b (set g)" .
  from Cons.IH [OF u(2) \<open>list_all timed bs\<close>] obtain c2 outs g2 where
    f: "feed c1 bs = Inr (c2, outs)" "holds_run p mc g2 c2" "set g2 \<subseteq> set g1 \<union> set bs" by blast
  have "feed c (b # bs) = Inr (c2, option_list out @ outs)" using u(1) f(1) by simp
  moreover have "set g2 \<subseteq> set g \<union> set (b # bs)" using u(3) f(3) by auto
  ultimately show ?case using f(2) by blast
qed

section \<open>Equivalence with the reference\<close>

lemma aligned_total:
  assumes "ts mod minutes 1 = 0"
  shows "ts mod day = minutes ((ts mod day) div minutes 1)"
proof -
  have "(ts mod day) mod minutes 1 = ts mod minutes 1" by (rule mod_mod_cancel) simp
  then have "ts mod day = minutes 1 * ((ts mod day) div minutes 1)"
    using assms mult_div_mod_eq [of "minutes 1" "ts mod day"] by simp
  then show ?thesis by simp
qed

lemma period_end_ge:
  assumes "ts mod minutes 1 = 0" "1 \<le> p"
  shows "ts \<le> period_end ts p"
proof -
  let ?total = "(ts mod day) div minutes 1"
  let ?e = "if ?total mod p = 0 then ?total else ?total + (p - ?total mod p)"
  have "?total mod p < p" using assms(2) by simp
  then have "?total \<le> ?e" by simp
  then have "minutes ?total \<le> minutes ?e" by simp
  then have "ts mod day \<le> minutes ?e" using aligned_total [OF assms(1)] by linarith
  then show ?thesis unfolding period_end_def Let_def by linarith
qed

definition chronological :: "bar list \<Rightarrow> bool" where
  "chronological bs \<longleftrightarrow>
     list_all timed bs \<and> list_all (\<lambda>b. close_of b mod minutes 1 = 0) bs \<and> sorted_wrt (<) (map close_of bs)"

lemma chronological_Cons:
  "chronological (b # bs) \<longleftrightarrow>
     timed b \<and> close_of b mod minutes 1 = 0 \<and> (\<forall>b' \<in> set bs. close_of b < close_of b') \<and> chronological bs"
  by (auto simp: chronological_def)

lemma closed_period_ends:
  assumes "chronological (b # bs)" "1 \<le> p" "period_of p b \<le> close_of b" "bs \<noteq> []"
  shows "period_of p (hd bs) \<noteq> period_of p b"
proof -
  obtain x xs where bs: "bs = x # xs" using assms(4) by (cases bs) auto
  have "close_of b < close_of x" "close_of x mod minutes 1 = 0"
    using assms(1) bs by (simp_all add: chronological_Cons)
  then show ?thesis using period_end_ge [of "close_of x" p] assms(2,3) bs unfolding period_of_def by simp
qed

lemma consolidate_Cons:
  "update_bar c b = (c1, Inr out) \<Longrightarrow>
   consolidate c (b # bs) = res_bind (consolidate c1 bs) (\<lambda>rest. Inr (option_list out @ rest))"
  by (cases "feed c1 bs") (auto simp: consolidate_def)

lemma consolidate_runs:
  assumes "1 \<le> p"
  shows "holds_run p mc g c \<Longrightarrow> chronological bs \<Longrightarrow>
    consolidate c bs = Inr (concat (map (option_list \<circ> run_bar p mc) (runs_by (period_of p) (g @ bs))))"
proof (induction bs arbitrary: g c)
  case Nil
  show ?case
  proof (cases "g = []")
    case True
    then show ?thesis using Nil by (simp add: consolidate_def flush_def holds_run_def)
  next
    case False
    have "cs_working_bar c \<noteq> None" using Nil(1) False by (simp add: holds_run_def)
    then have "snd (flush c) = run_bar p mc g" using emit_run(1) [OF Nil(1) False] by (simp add: flush_def)
    moreover have "runs_by (period_of p) (g @ []) = [g]"
      using runs_by_prefix [OF False holds_run_period [OF Nil(1)], of "[]"] by simp
    ultimately show ?thesis by (simp add: consolidate_def)
  qed
next
  case (Cons b bs)
  have b: "timed b" "chronological bs" using Cons.prems(2) by (simp_all add: chronological_Cons)
  show ?case
  proof (cases "g = [] \<or> period_of p b = period_of p (hd g)")
    case False
    then have ne: "g \<noteq> []" "period_of p b \<noteq> period_of p (hd g)" by auto
    obtain c' where u: "update_bar c b = (c', Inr (run_bar p mc g))" "holds_run p mc [b] c'"
      using update_next_period [OF Cons.prems(1) b(1) ne] by blast
    have "runs_by (period_of p) (g @ b # bs) = g # runs_by (period_of p) ([b] @ bs)"
      using runs_by_prefix [OF ne(1) holds_run_period [OF Cons.prems(1)], of "b # bs"] ne(2) by simp
    then show ?thesis using consolidate_Cons [OF u(1)] Cons.IH [OF u(2) b(2)] by simp
  next
    case True
    have same: "\<forall>x \<in> set (g @ [b]). period_of p x = period_of p (hd (g @ [b]))"
    proof (cases "g = []")
      case False
      then have "hd (g @ [b]) = hd g" by simp
      moreover have "period_of p x = period_of p (hd g)" if "x \<in> set (g @ [b])" for x
        using that holds_run_period [OF Cons.prems(1)] True False
        unfolding set_append by (metis UnE empty_iff empty_set set_ConsD)
      ultimately show ?thesis by metis
    qed simp
    have hd: "period_of p (hd (g @ [b])) = period_of p b" using True by (cases "g = []") auto
    obtain c' where u:
      "update_bar c b = (c', Inr (if period_of p b \<le> close_of b then run_bar p mc (g @ [b]) else None))"
      "holds_run p mc (if period_of p b \<le> close_of b then [] else g @ [b]) c'"
      using update_same_period [OF Cons.prems(1) b(1) True] by blast
    show ?thesis
    proof (cases "period_of p b \<le> close_of b")
      case True
      have "runs_by (period_of p) ((g @ [b]) @ bs) = (g @ [b]) # runs_by (period_of p) bs"
        using closed_period_ends [OF Cons.prems(2) assms True] hd
        by (intro runs_by_prefix [OF _ same]) auto
      then show ?thesis using consolidate_Cons [OF u(1)] Cons.IH [OF u(2) b(2)] True by simp
    next
      case False
      then show ?thesis using consolidate_Cons [OF u(1)] Cons.IH [OF u(2) b(2)] by simp
    qed
  qed
qed

lemma init_run:
  "consolidator_init p mc = Inr c \<Longrightarrow> 1 \<le> p \<and> holds_run p mc [] c"
  by (auto simp: consolidator_init_def holds_run_def split: if_splits)

section \<open>The time of a consolidated bar\<close>

lemma runs_by_member:
  "g \<in> set (runs_by f xs) \<Longrightarrow> g \<noteq> [] \<and> (\<forall>y \<in> set g. f y = f (hd g))"
proof (induction f xs rule: runs_by.induct)
  case (2 f x xs)
  show ?case
  proof (cases "g = x # takeWhile (\<lambda>y. f y = f x) xs")
    case True
    have "f y = f x" if "y \<in> set g" for y
      using that unfolding True by (auto dest: set_takeWhileD)
    moreover have "hd g = x" "g \<noteq> []" using True by simp_all
    ultimately show ?thesis by blast
  next
    case False
    with 2(2) have "g \<in> set (runs_by f (dropWhile (\<lambda>y. f y = f x) xs))" by simp
    then show ?thesis by (rule 2(1))
  qed
qed simp

lemma chronological_run:
  assumes "chronological bs" "g \<in> set (runs_by f bs)"
  shows "chronological g"
proof -
  obtain gs gs' where "runs_by f bs = gs @ g # gs'"
    using assms(2) by (meson split_list)
  then have "bs = concat gs @ g @ concat gs'"
    using concat_runs_by[of f bs] by simp
  with assms(1) show ?thesis by (auto simp: chronological_def sorted_wrt_append)
qed

lemma period_end_bounds:
  assumes "ts mod minutes 1 = 0" "1 \<le> p"
  shows "period_end ts p < ts + minutes p" "period_end ts p mod minutes 1 = 0"
proof -
  let ?total = "(ts mod day) div minutes 1"
  let ?e = "if ?total mod p = 0 then ?total else ?total + (p - ?total mod p)"
  have "0 \<le> ?total mod p" using assms(2) by simp
  then have "?e < ?total + p" using assms(2) by (cases "?total mod p = 0") (simp_all add: order_less_le)
  then have "minutes ?e < minutes ?total + minutes p" by linarith
  then show "period_end ts p < ts + minutes p"
    using aligned_total [OF assms(1)] unfolding period_end_def Let_def by linarith
  have "(ts - ts mod day) mod minutes 1 = 0"
    using assms(1) by (simp add: mod_diff_eq [symmetric] mod_mod_cancel)
  then show "period_end ts p mod minutes 1 = 0"
    unfolding period_end_def Let_def by (simp add: mod_add_eq [symmetric])
qed

lemma whole_minutes_apart:
  assumes "s mod minutes 1 = 0" "t mod minutes 1 = 0" "s < t"
  shows "s + minutes 1 \<le> t"
proof -
  from assms(1,2) obtain m n where "s = minutes m" "t = minutes n"
    by (auto elim!: dvdE simp: mod_eq_0_iff_dvd)
  with assms(3) show ?thesis by simp
qed

lemma chronological_span:
  "chronological g \<Longrightarrow> g \<noteq> [] \<Longrightarrow> close_of (hd g) + minutes (int (length g) - 1) \<le> close_of (last g)"
proof (induction g)
  case (Cons b g)
  show ?case
  proof (cases "g = []")
    case False
    then have lt: "close_of b < close_of (hd g)" and m: "close_of b mod minutes 1 = 0" "close_of (hd g) mod minutes 1 = 0"
      using Cons.prems by (cases g; simp add: chronological_Cons)+
    have "close_of b + minutes 1 \<le> close_of (hd g)"
      using whole_minutes_apart[OF m lt] .
    with Cons False show ?thesis by (simp add: chronological_Cons algebra_simps)
  qed simp
qed simp

lemma chronological_last:
  "chronological g \<Longrightarrow> b \<in> set g \<Longrightarrow> close_of b \<le> close_of (last g)"
  by (induction g) (auto simp: chronological_Cons intro: order_less_imp_le)

lemma run_stamp:
  assumes "1 \<le> p" "chronological bs" "g \<in> set (runs_by (period_of p) bs)"
  defines "e \<equiv> period_of p (hd g)"
  shows "e - minutes p < close_of (last g)" "close_of (last g) \<le> e"
    "close_of (last g) = e \<longleftrightarrow> (\<exists>b \<in> set g. close_of b = e)"
    "p \<le> int (length g) \<Longrightarrow> close_of (last g) = e"
proof -
  have g: "g \<noteq> []" "chronological g" and same: "\<And>b. b \<in> set g \<Longrightarrow> period_of p b = e"
    unfolding e_def using runs_by_member[OF assms(3)] chronological_run[OF assms(2,3)] by blast+
  have whole: "close_of b mod minutes 1 = 0" if "b \<in> set g" for b
    using g(2) that by (simp add: chronological_def list_all_iff)
  have ends: "e < close_of b + minutes p" "close_of b \<le> e" "e mod minutes 1 = 0" if "b \<in> set g" for b
    using period_end_bounds[OF whole[OF that] assms(1)] period_end_ge[OF whole[OF that] assms(1)] same[OF that]
    by (simp_all add: period_of_def)
  have lst: "last g \<in> set g" "hd g \<in> set g" using g(1) by simp_all
  show le: "close_of (last g) \<le> e" and "e - minutes p < close_of (last g)"
    using ends[OF lst(1)] by simp_all
  show "close_of (last g) = e \<longleftrightarrow> (\<exists>b \<in> set g. close_of b = e)"
    using le lst(1) chronological_last[OF g(2)] by (auto intro: antisym)
  have "e - minutes p + minutes 1 \<le> close_of (hd g)"
    using ends[OF lst(2)] whole[OF lst(2)] by (intro whole_minutes_apart) (simp_all add: mod_diff_eq [symmetric])
  then show "close_of (last g) = e" if "p \<le> int (length g)"
    using chronological_span[OF g(2,1)] le that by simp
qed

text \<open>
  C24: bar by bar is the same as all at once. For bars that close on whole minutes in strictly
  increasing order, the bars emitted while the stream is fed, with the one flushed at the end, are
  exactly the aggregates of the maximal runs of bars with one period: opening price of the first,
  closing price, time and provenance of the last, extreme prices and total volume of the run, and the
  share of the period it covers; runs below the coverage limit are left out. The time of the bar, the
  close of its last constituent, lies within the period; it is the documented period boundary exactly
  when a constituent closes there, so always for a run with as many bars as the period has minutes. On
  a period whose last minutes are missing it is earlier than that boundary.
\<close>

theorem consolidation_is_runwise:
  assumes "consolidator_init p mc = Inr c" "chronological bs"
  shows "consolidate c bs = Inr (concat (map (option_list \<circ> run_bar p mc) (runs_by (period_of p) bs))) \<and>
    (\<forall>g \<in> set (runs_by (period_of p) bs).
       let e = period_of p (hd g); stamp = bar_timestamp (aggregate p g)
       in e - minutes p < stamp \<and> stamp \<le> e \<and> (stamp = e \<longleftrightarrow> (\<exists>b \<in> set g. close_of b = e)) \<and>
          (p \<le> int (length g) \<longrightarrow> stamp = e))"
proof -
  note init = init_run [OF assms(1)]
  have "bar_timestamp (aggregate p g) = close_of (last g)" for g
    by (simp add: aggregate_def)
  then show ?thesis
    using consolidate_runs [of p mc "[]" c bs] run_stamp [of p bs] init assms(2) by (simp add: Let_def)
qed

text \<open>Three one-minute bars into two-minute bars: one full bar, and one flushed with half its coverage.\<close>

definition ex_bar :: "int \<Rightarrow> rat \<Rightarrow> bar" where
  "ex_bar m price =
     \<lparr>bar_symbol = ''BTC-USD'', bar_timestamp = minutes m, bar_open = price, bar_high = price + 1,
      bar_low = price - 1, bar_close = price, bar_volume = 10, bar_timeframe = ''1m'', bar_source = None,
      bar_metadata = []\<rparr>"

definition ex_consolidator :: consolidator where
  "ex_consolidator =
     \<lparr>cs_period_minutes = 2, cs_min_coverage = 0, cs_current_period_end = None, cs_working_bar = None,
      cs_bar_count = 0, cs_source_minutes = 1\<rparr>"

lemma ex_consolidator_init: "consolidator_init 2 0 = Inr ex_consolidator"
  by (simp add: consolidator_init_def ex_consolidator_def)

definition ex_bars :: "bar list" where
  "ex_bars = [ex_bar 0 100, ex_bar 1 102, ex_bar 2 101]"

lemma ex_bars_facts:
  "chronological ex_bars"
  "map bar_high (concat (map (option_list \<circ> run_bar 2 0) (runs_by (period_of 2) ex_bars))) = [103, 102]"
  by code_simp+

theorem consolidation_is_runwise_witness:
  "map_sum id (map bar_high) (consolidate ex_consolidator ex_bars) = Inr [103, 102]"
  unfolding conjunct1 [OF consolidation_is_runwise [OF ex_consolidator_init ex_bars_facts(1)]] map_sum.simps ex_bars_facts(2) ..

text \<open>
  Where the time of a consolidated bar is not the close of its period. If the last minute of a
  five-minute period is missing, the bar is emitted with the time its last constituent closed at, one
  minute before the boundary.
\<close>

theorem gapped_bar_off_boundary:
  "case consolidator_init 5 0 of Inl _ \<Rightarrow> False
   | Inr c \<Rightarrow>
       (case feed c [ex_bar 0 100, ex_bar 1 100, ex_bar 2 100, ex_bar 3 100, ex_bar 5 100] of
          Inl _ \<Rightarrow> False
        | Inr (_, outs) \<Rightarrow> map bar_timestamp outs = [minutes 4] \<and> period_end (minutes 4) 5 = minutes 5)"
  by code_simp

section \<open>Checkpoints\<close>

definition sound_bar :: "bar \<Rightarrow> bool" where
  "sound_bar b \<longleftrightarrow>
     ohlcv_invariant_error (PFloat (bar_open b)) (PFloat (bar_high b)) (PFloat (bar_low b))
       (PFloat (bar_close b)) (PFloat (bar_volume b)) False = None \<and>
     bar_symbol b \<noteq> [] \<and> bar_symbol b = py_strip (bar_symbol b)"

lemma sound_bar_prices:
  "ohlcv_invariant_error (PFloat op) (PFloat hi) (PFloat lo) (PFloat cl) (PFloat v) False = None \<longleftrightarrow>
     0 < lo \<and> lo \<le> min op cl \<and> max op cl \<le> hi \<and> 0 \<le> v"
  by (auto simp: ohlcv_invariant_error_def)

lemma aggregate_sound:
  assumes "g \<noteq> []" "list_all sound_bar g"
  shows "sound_bar (aggregate p g)"
proof -
  have ends: "sound_bar (hd g)" "sound_bar (last g)" "hd g \<in> set g" "last g \<in> set g"
    using assms by (auto simp: list_all_iff)
  have "bar_high (hd g) \<le> Max (bar_high ` set g)" "bar_high (last g) \<le> Max (bar_high ` set g)"
    "Min (bar_low ` set g) \<le> bar_low (hd g)" "Min (bar_low ` set g) \<le> bar_low (last g)"
    using ends by simp_all
  moreover have "0 < Min (bar_low ` set g)"
    using assms unfolding list_all_iff sound_bar_def sound_bar_prices by (subst Min_gr_iff) auto
  moreover have "0 \<le> sum_list (map bar_volume g)"
    using assms(2) unfolding list_all_iff sound_bar_def sound_bar_prices by (intro sum_list_nonneg) auto
  ultimately show ?thesis using ends(1,2)
    unfolding sound_bar_def sound_bar_prices by (simp add: aggregate_def)
qed

lemma map_of_pop_missing:
  "k \<noteq> ''price_id'' \<Longrightarrow> k \<noteq> ''content_revision'' \<Longrightarrow>
   map_of (source_metadata b) k =
     ((map_of (bar_metadata b))(''source_price_ts'' \<mapsto> PTime (bar_timestamp b),
        ''source_timeframe'' \<mapsto> PStr (bar_timeframe b))) k"
  by (simp add: source_metadata_def Let_def)

lemma as_simps [simp]:
  "as_dict (PDict d) = Some d" "as_text (PStr s) = Some s" "as_text PNone = None" "as_int (PInt i) = Some i"
  "checkpoint_timestamp (PTime t) = Inr t" "float_or_zero (PFloat r) = r"
  by (simp_all add: as_dict_def as_text_def as_int_def checkpoint_timestamp_def float_or_zero_def)

lemma source_option:
  "opt_val PStr x = PNone \<or> as_text (opt_val PStr x) \<noteq> None" "as_text (opt_val PStr x) = x"
  by (cases x; simp add: opt_val_def)+

lemma decode_aggregate:
  assumes "g \<noteq> []" "list_all sound_bar g" "list_all timed g" "cs_period_minutes c = p"
    and "list_all (\<lambda>b. bar_timeframe b = tf) g"
  shows "decode_bucket c (bar_dict (aggregate p g)) (PTime (period_of p (last g))) (int (length g))
      (source_minutes_of (hd g)) = Inr (period_of p (last g), aggregate p g)"
proof -
  let ?l = "last g"
  have ends: "hd g \<in> set g" "?l \<in> set g" using assms(1) by auto
  have "source_minutes_of ?l = source_minutes_of (hd g)"
    using assms(5) ends by (simp add: list_all_iff source_minutes_of_def)
  moreover have "timed ?l" using assms(3) ends by (simp add: list_all_iff)
  ultimately have tm: "timeframe_minutes (bar_timeframe ?l) = Inr (source_minutes_of (hd g))"
    "bar_timestamp ?l + minutes (source_minutes_of (hd g)) = close_of ?l"
    using timed_minutes [of ?l] by simp_all
  have keys: "fst ` set (bar_dict b) = set BAR_KEYS" for b by (simp add: bar_dict_def BAR_KEYS_def)
  have fields: "dict_get (bar_dict b) ''timestamp'' = PTime (bar_timestamp b)"
    "dict_get (bar_dict b) ''metadata'' = PDict (bar_metadata b)"
    "dict_get (bar_dict b) ''open'' = PFloat (bar_open b)" "dict_get (bar_dict b) ''high'' = PFloat (bar_high b)"
    "dict_get (bar_dict b) ''low'' = PFloat (bar_low b)" "dict_get (bar_dict b) ''close'' = PFloat (bar_close b)"
    "dict_get (bar_dict b) ''volume'' = PFloat (bar_volume b)" "dict_get (bar_dict b) ''symbol'' = PStr (bar_symbol b)"
    "dict_get (bar_dict b) ''source'' = opt_val PStr (bar_source b)"
    "dict_get (bar_dict b) ''timeframe'' = PStr (bar_timeframe b)" for b
    by (simp_all add: dict_get_def bar_dict_def)
  have agg: "bar_timestamp (aggregate p g) = close_of ?l" "bar_metadata (aggregate p g) = source_metadata ?l"
    "bar_timeframe (aggregate p g) = period_label p"
    by (simp_all add: aggregate_def)
  have meta: "required (source_metadata ?l) ''source_timeframe'' = Inr (PStr (bar_timeframe ?l))"
    "required (source_metadata ?l) ''source_price_ts'' = Inr (PTime (bar_timestamp ?l))"
    by (simp_all add: required_def map_of_pop_missing)
  have len: "int (length g) \<noteq> 0" using assms(1) by simp
  show ?thesis
    using aggregate_sound [OF assms(1,2), of p] len source_option assms(4)
    unfolding sound_bar_def period_of_def
    by (simp add: decode_bucket_def keys fields agg meta tm tm(2) [simplified] aggregate_def)
qed

text \<open>
  C36: a checkpoint restores the consolidator. After any valid bars of one timeframe, with JSON-valued
  metadata, the snapshot of the consolidator, read by a consolidator of the same configuration in any
  state, gives back exactly the state that was saved, so that nothing of an unfinished period is lost
  or emitted twice.
\<close>

theorem checkpoint_roundtrip:
  assumes "consolidator_init p mc = Inr c0" "list_all sound_bar bs" "list_all timed bs"
    "list_all (\<lambda>b. bar_timeframe b = tf) bs" "feed c0 bs = Inr (c, outs)"
    and "cs_period_minutes c1 = p" "cs_min_coverage c1 = mc"
  shows "restore_state c1 (snapshot_state c) = Inr c"
proof -
  obtain c' outs' g where f: "feed c0 bs = Inr (c', outs')" "holds_run p mc g c'" "set g \<subseteq> set bs"
    using feed_run [OF conjunct2 [OF init_run [OF assms(1)]] assms(3)] by auto
  then have g: "holds_run p mc g c" "set g \<subseteq> set bs" using assms(5) by auto
  have keys: "fst ` set (snapshot_state c) = set SNAPSHOT_KEYS"
    by (simp add: snapshot_state_def SNAPSHOT_KEYS_def)
  have fields: "dict_get (snapshot_state c) ''schema_version'' = PInt 1"
    "dict_get (snapshot_state c) ''period_minutes'' = PInt p"
    "dict_get (snapshot_state c) ''min_coverage'' = PFloat mc"
    "dict_get (snapshot_state c) ''bar_count'' = PInt (int (length g))"
    "dict_get (snapshot_state c) ''source_minutes'' = PInt (cs_source_minutes c)"
    "dict_get (snapshot_state c) ''current_period_end'' = opt_val PTime (cs_current_period_end c)"
    "dict_get (snapshot_state c) ''working_bar'' = opt_val (\<lambda>b. PDict (bar_dict b)) (cs_working_bar c)"
    using g(1) by (simp_all add: dict_get_def snapshot_state_def holds_run_def)
  note head = keys fields assms(6,7)
  show ?thesis
  proof (cases "g = []")
    case True
    then have "decode_checkpoint c1 (snapshot_state c) = Inr (None, None, 0, cs_source_minutes c)"
      using g(1) by (simp add: decode_checkpoint_def head holds_run_def opt_val_def)
    then show ?thesis using True g(1) assms(6,7) by (simp add: restore_state_def holds_run_def)
  next
    case False
    have sub: "list_all sound_bar g" "list_all timed g" "list_all (\<lambda>b. bar_timeframe b = tf) g"
      using assms(2-4) g(2) unfolding list_all_iff by blast+
    have st: "cs_working_bar c = Some (aggregate p g)" "cs_source_minutes c = source_minutes_of (hd g)"
      "cs_current_period_end c = Some (period_of p (last g))" "1 \<le> cs_source_minutes c"
      using g(1) False by (simp_all add: holds_run_def list_all_iff)
    have "decode_checkpoint c1 (snapshot_state c) =
        Inr (Some (period_of p (last g)), Some (aggregate p g), int (length g), cs_source_minutes c)"
      using decode_aggregate [OF False sub(1,2) assms(6) sub(3)] st
      by (simp add: decode_checkpoint_def head opt_val_def)
    then show ?thesis using st g(1) assms(6,7) by (simp add: restore_state_def holds_run_def)
  qed
qed

theorem checkpoint_roundtrip_witness:
  "\<exists>c outs. feed ex_consolidator [ex_bar 0 100, ex_bar 1 102, ex_bar 2 101] = Inr (c, outs) \<and>
     restore_state ex_consolidator (snapshot_state c) = Inr c"
proof -
  let ?bs = "[ex_bar 0 100, ex_bar 1 102, ex_bar 2 101]"
  have bars: "list_all sound_bar ?bs" "list_all timed ?bs" "list_all (\<lambda>b. bar_timeframe b = ''1m'') ?bs"
    "is_ok (feed ex_consolidator ?bs)" by code_simp+
  then obtain c outs where f: "feed ex_consolidator ?bs = Inr (c, outs)"
    by (cases "feed ex_consolidator ?bs") (simp, metis prod.collapse)
  from checkpoint_roundtrip [OF ex_consolidator_init bars(1-3) f, of ex_consolidator] show ?thesis
    using f by (simp add: ex_consolidator_def)
qed

end
