(* ===== verification/Averages.thy ===== *)
theory Averages
  imports Py_Prelude
begin

text \<open>
  The averages of \<open>lib_indicators\<close>: \<open>sma.py\<close>, \<open>ema.py\<close>, \<open>atr.py\<close> and the Wilder average and rolling
  statistics of \<open>streaming_statistics.py\<close>. A sample is a finite number and arithmetic is exact, so
  \<open>math.fsum\<close> is the sum; a window is a list with the newest sample last. Three of the classes are an
  average that is seeded with the mean of its first samples and then smoothed: the locale
  \<open>seeded_average\<close> says what that means, and each class is an instance of it.
\<close>

section \<open>Windows\<close>

text \<open>\<open>deque(maxlen=n).append(x)\<close>.\<close>

definition window_append :: "nat \<Rightarrow> 'a list \<Rightarrow> 'a \<Rightarrow> 'a list" where
  "window_append n w x = (let w' = w @ [x] in drop (length w' - n) w')"

text \<open>The newest \<open>n\<close> elements.\<close>

definition newest :: "nat \<Rightarrow> 'a list \<Rightarrow> 'a list" where
  "newest n xs = drop (length xs - n) xs"

lemma newest_snoc: "window_append n (newest n xs) x = newest n (xs @ [x])"
  by (cases "length xs < n") (simp_all add: window_append_def newest_def Let_def Suc_diff_le)

lemma length_newest [simp]: "length (newest n xs) = min n (length xs)"
  by (simp add: newest_def)

lemma newest_short: "length xs \<le> n \<Longrightarrow> newest n xs = xs"
  by (simp add: newest_def)

lemma newest_Nil [simp]: "newest n [] = []"
  by (simp add: newest_def)

lemma set_newest: "set (newest n xs) \<subseteq> set xs"
  by (simp add: newest_def set_drop_subset)

lemma foldl_window: "foldl (window_append n) (newest n xs) ys = newest n (xs @ ys)"
  by (induction ys arbitrary: xs) (simp_all add: newest_snoc)

definition mean :: "rat list \<Rightarrow> rat" where
  "mean xs = sum_list xs / of_nat (length xs)"

definition period_check :: "int \<Rightarrow> nat res" where
  "period_check p = (if p < 1 then Inl (ValueError ''period must be >= 1'') else Inr (nat p))"

lemma period_check_iff [simp]: "period_check p = Inr n \<longleftrightarrow> 1 \<le> p \<and> n = nat p"
  by (auto simp: period_check_def)

section \<open>Simple moving average\<close>

record sma =
  sma_period :: nat
  sma_window :: "rat list"
  sma_value :: "rat option"

definition sma_init :: "int \<Rightarrow> sma res" where
  "sma_init p = res_bind (period_check p) (\<lambda>n. Inr \<lparr>sma_period = n, sma_window = [], sma_value = None\<rparr>)"

definition sma_update :: "sma \<Rightarrow> rat \<Rightarrow> sma \<times> rat option" where
  "sma_update s x =
     (let w = window_append (sma_period s) (sma_window s) x;
          v = (if length w = sma_period s then Some (sum_list w / of_nat (sma_period s)) else sma_value s)
      in (s\<lparr>sma_window := w, sma_value := v\<rparr>, v))"

definition sma_valid :: "sma \<Rightarrow> bool" where
  "sma_valid s =
     ((length (sma_window s) = sma_period s) = (sma_value s \<noteq> None) \<and>
      (length (sma_window s) = sma_period s \<longrightarrow>
         sma_value s = Some (sum_list (sma_window s) / of_nat (sma_period s))))"

definition sma_reset :: "sma \<Rightarrow> sma" where
  "sma_reset s = s\<lparr>sma_window := [], sma_value := None\<rparr>"

lemma sma_run:
  assumes "0 < n"
  shows "foldl (\<lambda>s x. fst (sma_update s x)) \<lparr>sma_period = n, sma_window = [], sma_value = None\<rparr> xs =
     \<lparr>sma_period = n, sma_window = newest n xs,
      sma_value = (if length xs < n then None else Some (mean (newest n xs)))\<rparr>"
  using assms
  by (induction xs rule: rev_induct)
    (auto simp: sma_update_def Let_def newest_snoc mean_def min_def)

section \<open>Averages seeded with a mean\<close>

definition smooth :: "rat \<Rightarrow> rat \<Rightarrow> rat list \<Rightarrow> rat" where
  "smooth a v xs = foldl (\<lambda>v x. v * (1 - a) + x * a) v xs"

text \<open>The value after the samples \<open>xs\<close>, on the whole list.\<close>

definition seeded_value :: "nat \<Rightarrow> rat \<Rightarrow> rat list \<Rightarrow> rat option" where
  "seeded_value p a xs = (if length xs < p then None else Some (smooth a (mean (take p xs)) (drop p xs)))"

lemma convex_bounds:
  fixes v x a :: rat
  assumes "lo \<le> v" "v \<le> hi" "lo \<le> x" "x \<le> hi" "0 \<le> a" "a \<le> 1"
  shows "lo \<le> v * (1 - a) + x * a" "v * (1 - a) + x * a \<le> hi"
proof -
  have "lo * (1 - a) + lo * a \<le> v * (1 - a) + x * a"
    using assms by (intro add_mono mult_right_mono) auto
  then show "lo \<le> v * (1 - a) + x * a" by (simp add: algebra_simps)
  have "v * (1 - a) + x * a \<le> hi * (1 - a) + hi * a"
    using assms by (intro add_mono mult_right_mono) auto
  then show "v * (1 - a) + x * a \<le> hi" by (simp add: algebra_simps)
qed

lemma smooth_bounds:
  assumes "0 \<le> a" "a \<le> 1"
  shows "lo \<le> v \<Longrightarrow> v \<le> hi \<Longrightarrow> list_all (\<lambda>x. lo \<le> x \<and> x \<le> hi) xs \<Longrightarrow>
    lo \<le> smooth a v xs \<and> smooth a v xs \<le> hi"
proof (induction xs arbitrary: v)
  case (Cons x xs)
  then show ?case using convex_bounds [of lo v hi x a] assms by (simp add: smooth_def)
qed (simp add: smooth_def)

lemma mean_bounds:
  assumes "xs \<noteq> []" "list_all (\<lambda>x. lo \<le> x \<and> x \<le> hi) xs"
  shows "lo \<le> mean xs" "mean xs \<le> hi"
proof -
  have "of_nat (length xs) * lo \<le> sum_list xs" "sum_list xs \<le> of_nat (length xs) * hi"
    using assms(2) by (induction xs) (auto simp: algebra_simps)
  moreover have "(0::rat) < of_nat (length xs)" using assms(1) by simp
  ultimately show "lo \<le> mean xs" "mean xs \<le> hi"
    by (simp_all add: mean_def pos_le_divide_eq pos_divide_le_eq mult.commute)
qed

lemma seeded_value_bounds:
  assumes "0 < p" "0 \<le> a" "a \<le> 1" "list_all (\<lambda>x. lo \<le> x \<and> x \<le> hi) xs" "seeded_value p a xs = Some v"
  shows "lo \<le> v \<and> v \<le> hi"
proof -
  have len: "p \<le> length xs" and v: "v = smooth a (mean (take p xs)) (drop p xs)"
    using assms(5) by (auto simp: seeded_value_def split: if_splits)
  have parts: "list_all (\<lambda>x. lo \<le> x \<and> x \<le> hi) (take p xs)" "list_all (\<lambda>x. lo \<le> x \<and> x \<le> hi) (drop p xs)"
    using assms(4) unfolding list_all_iff by (metis in_set_takeD, metis in_set_dropD)
  have "take p xs \<noteq> []" using len assms(1) by auto
  then show ?thesis
    unfolding v using smooth_bounds [OF assms(2,3)] mean_bounds [OF _ parts(1)] parts(2) by blast
qed

text \<open>
  What a class promises: it collects samples until it has \<open>p\<close>, then its value is their mean, then it
  moves by the share \<open>a\<close> of the distance to each new sample.
\<close>

locale seeded_average =
  fixes fresh :: 's and step :: "'s \<Rightarrow> rat \<Rightarrow> 's" and val :: "'s \<Rightarrow> rat option"
    and seeds :: "'s \<Rightarrow> rat list" and p :: nat and a :: rat
  assumes p_pos: "0 < p"
    and fresh_state: "val fresh = None" "seeds fresh = []"
    and collect: "val s = None \<Longrightarrow> length (seeds s) + 1 < p \<Longrightarrow>
          val (step s x) = None \<and> seeds (step s x) = seeds s @ [x]"
    and seed: "val s = None \<Longrightarrow> length (seeds s) + 1 = p \<Longrightarrow> val (step s x) = Some (mean (seeds s @ [x]))"
    and move: "val s = Some v \<Longrightarrow> val (step s x) = Some (v * (1 - a) + x * a)"
begin

lemma run_state:
  "(length xs < p \<longrightarrow> val (foldl step fresh xs) = None \<and> seeds (foldl step fresh xs) = xs) \<and>
   (p \<le> length xs \<longrightarrow> val (foldl step fresh xs) = Some (smooth a (mean (take p xs)) (drop p xs)))"
proof (induction xs rule: rev_induct)
  case Nil
  then show ?case using p_pos fresh_state by simp
next
  case (snoc x xs)
  consider "length xs + 1 < p" | "length xs + 1 = p" | "p \<le> length xs" by linarith
  then show ?case
  proof cases
    case 1
    then show ?thesis using snoc collect [of "foldl step fresh xs" x] by simp
  next
    case 2
    then show ?thesis using snoc seed [of "foldl step fresh xs" x] by (simp add: smooth_def)
  next
    case 3
    then show ?thesis using snoc move [of "foldl step fresh xs" _ x] by (simp add: smooth_def)
  qed
qed

lemma run_value: "val (foldl step fresh xs) = seeded_value p a xs"
  using run_state [of xs] by (simp add: seeded_value_def)

lemma run_bounds:
  assumes "0 \<le> a" "a \<le> 1" "list_all (\<lambda>x. lo \<le> x \<and> x \<le> hi) xs" "val (foldl step fresh xs) = Some v"
  shows "lo \<le> v \<and> v \<le> hi"
  using seeded_value_bounds [OF p_pos assms(1-3)] assms(4) by (simp add: run_value)

end

section \<open>Exponential moving average\<close>

record ema =
  ema_period :: nat
  ema_seed_buffer :: "rat list"
  ema_value :: "rat option"
  ema_samples :: int

definition ema_init :: "int \<Rightarrow> ema res" where
  "ema_init p = res_bind (period_check p) (\<lambda>n.
     Inr \<lparr>ema_period = n, ema_seed_buffer = [], ema_value = None, ema_samples = 0\<rparr>)"

definition ema_k :: "ema \<Rightarrow> rat" where
  "ema_k s = 2 / (of_nat (ema_period s) + 1)"

definition ema_update :: "ema \<Rightarrow> rat \<Rightarrow> ema \<times> rat option" where
  "ema_update s x =
     (let s1 = s\<lparr>ema_samples := ema_samples s + 1\<rparr>
      in case ema_value s of
           None \<Rightarrow>
             (let b = window_append (ema_period s) (ema_seed_buffer s) x;
                  v = (if length b = ema_period s then Some (sum_list b / of_nat (ema_period s)) else None)
              in (s1\<lparr>ema_seed_buffer := b, ema_value := v\<rparr>, v))
         | Some v \<Rightarrow>
             (let v' = v * (1 - ema_k s) + x * ema_k s in (s1\<lparr>ema_value := Some v'\<rparr>, Some v')))"

definition ema_valid :: "ema \<Rightarrow> bool" where
  "ema_valid s =
     (int (length (ema_seed_buffer s)) = min (ema_samples s) (int (ema_period s)) \<and>
      (int (ema_period s) \<le> ema_samples s) = (ema_value s \<noteq> None))"

definition ema_reset :: "ema \<Rightarrow> ema" where
  "ema_reset s = s\<lparr>ema_seed_buffer := [], ema_value := None, ema_samples := 0\<rparr>"

abbreviation ema_fresh :: "nat \<Rightarrow> ema" where
  "ema_fresh n \<equiv> \<lparr>ema_period = n, ema_seed_buffer = [], ema_value = None, ema_samples = 0\<rparr>"

text \<open>The class keeps its period, so a run is over states of one period.\<close>

definition ema_step :: "nat \<Rightarrow> ema \<Rightarrow> rat \<Rightarrow> ema" where
  "ema_step n s x = fst (ema_update (s\<lparr>ema_period := n\<rparr>) x)"

lemma window_collect: "length w + 1 \<le> n \<Longrightarrow> window_append n w x = w @ [x]"
  by (simp add: window_append_def)

lemma ema_seeded: "0 < n \<Longrightarrow>
    seeded_average (ema_fresh n) (ema_step n) ema_value ema_seed_buffer n (2 / (of_nat n + 1))"
  by unfold_locales
    (simp_all add: ema_step_def ema_update_def Let_def window_collect mean_def ema_k_def)

interpretation ema_average: seeded_average "ema_fresh (Suc n)" "ema_step (Suc n)" ema_value
    ema_seed_buffer "Suc n" "2 / (of_nat (Suc n) + 1)" for n
  by (rule ema_seeded) simp

section \<open>Wilder average\<close>

record wilder =
  wa_period :: nat
  wa_seed :: "rat list"
  wa_samples :: int
  wa_value :: "rat option"

definition wilder_init :: "int \<Rightarrow> wilder res" where
  "wilder_init p = res_bind (period_check p) (\<lambda>n.
     Inr \<lparr>wa_period = n, wa_seed = [], wa_samples = 0, wa_value = None\<rparr>)"

definition wilder_update :: "wilder \<Rightarrow> rat \<Rightarrow> wilder \<times> rat option" where
  "wilder_update s x =
     (let s1 = s\<lparr>wa_samples := wa_samples s + 1\<rparr>
      in case wa_value s of
           None \<Rightarrow>
             (let b = wa_seed s @ [x]
              in if length b = wa_period s
                 then (let v = sum_list b / of_nat (wa_period s)
                       in (s1\<lparr>wa_seed := [], wa_value := Some v\<rparr>, Some v))
                 else (s1\<lparr>wa_seed := b\<rparr>, None))
         | Some v \<Rightarrow>
             (let alpha = 1 / of_nat (wa_period s); v' = v * (1 - alpha) + x * alpha
              in (s1\<lparr>wa_value := Some v'\<rparr>, Some v')))"

definition wilder_valid :: "wilder \<Rightarrow> bool" where
  "wilder_valid s =
     (let ready = int (wa_period s) \<le> wa_samples s
      in ready = (wa_value s \<noteq> None) \<and> int (length (wa_seed s)) = (if ready then 0 else wa_samples s))"

abbreviation wilder_fresh :: "nat \<Rightarrow> wilder" where
  "wilder_fresh n \<equiv> \<lparr>wa_period = n, wa_seed = [], wa_samples = 0, wa_value = None\<rparr>"

definition wilder_step :: "nat \<Rightarrow> wilder \<Rightarrow> rat \<Rightarrow> wilder" where
  "wilder_step n s x = fst (wilder_update (s\<lparr>wa_period := n\<rparr>) x)"

lemma wilder_seeded: "0 < n \<Longrightarrow>
    seeded_average (wilder_fresh n) (wilder_step n) wa_value wa_seed n (1 / of_nat n)"
  by unfold_locales (simp_all add: wilder_step_def wilder_update_def Let_def mean_def)

interpretation wilder_average: seeded_average "wilder_fresh (Suc n)" "wilder_step (Suc n)" wa_value
    wa_seed "Suc n" "1 / of_nat (Suc n)" for n
  by (rule wilder_seeded) simp

section \<open>Average true range\<close>

record atr =
  atr_period :: nat
  atr_prev_close :: "rat option"
  atr_seed :: "rat list"
  atr_value :: "rat option"

definition atr_init :: "int \<Rightarrow> atr res" where
  "atr_init p = res_bind (period_check p) (\<lambda>n.
     Inr \<lparr>atr_period = n, atr_prev_close = None, atr_seed = [], atr_value = None\<rparr>)"

definition true_range :: "rat \<Rightarrow> rat \<Rightarrow> rat \<Rightarrow> rat" where
  "true_range high low prev = max (high - low) (max \<bar>high - prev\<bar> \<bar>low - prev\<bar>)"

text \<open>The part of \<open>update\<close> after the true range is known.\<close>

definition atr_smooth :: "atr \<Rightarrow> rat \<Rightarrow> atr \<times> rat option" where
  "atr_smooth s tr =
     (case atr_value s of
        None \<Rightarrow>
          (let b = window_append (atr_period s) (atr_seed s) tr;
               v = (if length b = atr_period s then Some (sum_list b / of_nat (atr_period s)) else None)
           in (s\<lparr>atr_seed := b, atr_value := v\<rparr>, v))
      | Some v \<Rightarrow>
          (let alpha = 1 / of_nat (atr_period s); v' = v * (1 - alpha) + tr * alpha
           in (s\<lparr>atr_value := Some v'\<rparr>, Some v')))"

definition atr_update :: "atr \<Rightarrow> rat \<Rightarrow> rat \<Rightarrow> rat \<Rightarrow> atr \<times> rat option" where
  "atr_update s high low cl =
     (case atr_prev_close s of
        None \<Rightarrow> (s\<lparr>atr_prev_close := Some cl\<rparr>, None)
      | Some prev \<Rightarrow> atr_smooth (s\<lparr>atr_prev_close := Some cl\<rparr>) (true_range high low prev))"

definition atr_valid :: "atr \<Rightarrow> bool" where
  "atr_valid s =
     ((length (atr_seed s) = atr_period s) = (atr_value s \<noteq> None) \<and>
      \<not> (atr_seed s \<noteq> [] \<and> atr_prev_close s = None) \<and>
      list_all (\<lambda>x. 0 \<le> x) (atr_seed s) \<and>
      (case atr_value s of None \<Rightarrow> True | Some v \<Rightarrow> 0 \<le> v))"

definition atr_reset :: "atr \<Rightarrow> atr" where
  "atr_reset s = s\<lparr>atr_prev_close := None, atr_seed := [], atr_value := None\<rparr>"

definition atr_step :: "nat \<Rightarrow> atr \<Rightarrow> rat \<Rightarrow> atr" where
  "atr_step n s tr = fst (atr_smooth (s\<lparr>atr_period := n\<rparr>) tr)"

abbreviation atr_fresh :: "nat \<Rightarrow> atr" where
  "atr_fresh n \<equiv> \<lparr>atr_period = n, atr_prev_close = None, atr_seed = [], atr_value = None\<rparr>"

lemma atr_seeded: "0 < n \<Longrightarrow>
    seeded_average (atr_fresh n) (atr_step n) atr_value atr_seed n (1 / of_nat n)"
  by unfold_locales (simp_all add: atr_step_def atr_smooth_def Let_def window_collect mean_def)

interpretation atr_average: seeded_average "atr_fresh (Suc n)" "atr_step (Suc n)" atr_value
    atr_seed "Suc n" "1 / of_nat (Suc n)" for n
  by (rule atr_seeded) simp

section \<open>Runs of the classes\<close>

abbreviation ema_run :: "ema \<Rightarrow> rat list \<Rightarrow> ema" where
  "ema_run s xs \<equiv> foldl (\<lambda>s x. fst (ema_update s x)) s xs"

abbreviation wilder_run :: "wilder \<Rightarrow> rat list \<Rightarrow> wilder" where
  "wilder_run s xs \<equiv> foldl (\<lambda>s x. fst (wilder_update s x)) s xs"

fun atr_run :: "atr \<Rightarrow> (rat \<times> rat \<times> rat) list \<Rightarrow> atr" where
  "atr_run s [] = s"
| "atr_run s ((h, l, c) # bs) = atr_run (fst (atr_update s h l c)) bs"

text \<open>The true ranges of a stream of bars after a close.\<close>

fun true_ranges :: "rat \<Rightarrow> (rat \<times> rat \<times> rat) list \<Rightarrow> rat list" where
  "true_ranges prev [] = []"
| "true_ranges prev ((h, l, c) # bs) = true_range h l prev # true_ranges c bs"

fun bar_ranges :: "(rat \<times> rat \<times> rat) list \<Rightarrow> rat list" where
  "bar_ranges [] = []"
| "bar_ranges ((h, l, c) # bs) = true_ranges c bs"

lemma kept_period [simp]:
  "ema_period (fst (ema_update e x)) = ema_period e" "wa_period (fst (wilder_update w x)) = wa_period w"
  "atr_period (fst (atr_smooth r x)) = atr_period r"
  by (simp_all add: ema_update_def wilder_update_def atr_smooth_def Let_def split: option.split)

lemma own_period:
  "ema_period e = n \<Longrightarrow> ema_step n e x = fst (ema_update e x)"
  "wa_period w = n \<Longrightarrow> wilder_step n w x = fst (wilder_update w x)"
  "atr_period r = n \<Longrightarrow> atr_step n r x = fst (atr_smooth r x)"
  by (cases e, simp add: ema_step_def) (cases w, simp add: wilder_step_def, cases r, simp add: atr_step_def)

lemma ema_run_step: "ema_period s = n \<Longrightarrow> ema_run s xs = foldl (ema_step n) s xs"
  by (induction xs arbitrary: s) (simp_all add: own_period)

lemma wilder_run_step: "wa_period s = n \<Longrightarrow> wilder_run s xs = foldl (wilder_step n) s xs"
  by (induction xs arbitrary: s) (simp_all add: own_period)

text \<open>Smoothing does not look at the previous close.\<close>

lemma atr_step_prev:
  "atr_step n (s\<lparr>atr_prev_close := c\<rparr>) x = (atr_step n s x)\<lparr>atr_prev_close := c\<rparr>"
  by (simp add: atr_step_def atr_smooth_def Let_def split: option.split)

lemma atr_steps_prev:
  "foldl (atr_step n) (s\<lparr>atr_prev_close := c\<rparr>) xs = (foldl (atr_step n) s xs)\<lparr>atr_prev_close := c\<rparr>"
  by (induction xs arbitrary: s) (simp_all add: atr_step_prev)

lemma atr_step_period [simp]: "atr_period (atr_step n s x) = n"
  by (simp add: atr_step_def atr_smooth_def Let_def split: option.split)

lemma atr_run_steps:
  "atr_period s = n \<Longrightarrow> atr_prev_close s = Some prev \<Longrightarrow>
   atr_value (atr_run s bs) = atr_value (foldl (atr_step n) s (true_ranges prev bs)) \<and>
   atr_seed (atr_run s bs) = atr_seed (foldl (atr_step n) s (true_ranges prev bs))"
proof (induction bs arbitrary: s prev)
  case (Cons b bs)
  obtain h l c where b: "b = (h, l, c)" by (metis prod_cases3)
  have "fst (atr_update s h l c) = (atr_step n s (true_range h l prev))\<lparr>atr_prev_close := Some c\<rparr>"
    using Cons.prems own_period(3) [of "s\<lparr>atr_prev_close := Some c\<rparr>" n]
    by (simp add: atr_update_def atr_step_prev)
  then show ?case using Cons.IH [of "(atr_step n s (true_range h l prev))\<lparr>atr_prev_close := Some c\<rparr>" c]
    by (simp add: b atr_steps_prev)
qed simp

lemma atr_run_value:
  assumes "0 < n"
  shows "atr_value (atr_run (atr_fresh n) bs) = seeded_value n (1 / of_nat n) (bar_ranges bs)"
proof (cases bs)
  case Nil
  then show ?thesis using assms by (simp add: seeded_value_def)
next
  case (Cons b bs')
  obtain h l c where b: "b = (h, l, c)" by (metis prod_cases3)
  let ?s = "(atr_fresh n)\<lparr>atr_prev_close := Some c\<rparr>"
  have "atr_value (atr_run ?s bs') = atr_value (foldl (atr_step n) ?s (true_ranges c bs'))"
    using atr_run_steps [of ?s n c bs'] by simp
  also have "\<dots> = atr_value (foldl (atr_step n) (atr_fresh n) (true_ranges c bs'))"
    unfolding atr_steps_prev by simp
  also have "\<dots> = seeded_value n (1 / of_nat n) (true_ranges c bs')"
    by (rule seeded_average.run_value [OF atr_seeded [OF assms]])
  finally show ?thesis by (simp add: Cons b atr_update_def)
qed

lemma ema_run_value: "0 < n \<Longrightarrow> ema_value (ema_run (ema_fresh n) xs) = seeded_value n (2 / (of_nat n + 1)) xs"
  using ema_run_step [of "ema_fresh n" n xs] seeded_average.run_value [OF ema_seeded] by simp

lemma wilder_run_value: "0 < n \<Longrightarrow> wa_value (wilder_run (wilder_fresh n) xs) = seeded_value n (1 / of_nat n) xs"
  using wilder_run_step [of "wilder_fresh n" n xs] seeded_average.run_value [OF wilder_seeded] by simp

text \<open>
  C35: the streaming averages are the averages of the whole stream. After any samples, the exponential
  and the Wilder average have no value while they have fewer samples than their period, and then the
  mean of the first \<open>period\<close> samples smoothed with every later one by their factor; the average true
  range is the same over the true ranges of consecutive bars; and the simple average is the mean of
  the newest \<open>period\<close> samples.
\<close>

theorem averages_match_reference:
  assumes "ema_init p = Inr e" "wilder_init p = Inr w" "atr_init p = Inr r" "sma_init p = Inr s"
  shows "ema_value (ema_run e xs) = seeded_value (nat p) (2 / (of_int p + 1)) xs \<and>
    wa_value (wilder_run w xs) = seeded_value (nat p) (1 / of_int p) xs \<and>
    atr_value (atr_run r bs) = seeded_value (nat p) (1 / of_int p) (bar_ranges bs) \<and>
    sma_value (foldl (\<lambda>s x. fst (sma_update s x)) s xs) =
      (if length xs < nat p then None else Some (mean (newest (nat p) xs)))"
proof (intro conjI)
  have p: "0 < nat p" "(of_nat (nat p) :: rat) = of_int p" using assms(1) by (auto simp: ema_init_def res_simps)
  have eq: "e = ema_fresh (nat p)" "w = wilder_fresh (nat p)" "r = atr_fresh (nat p)"
    "s = \<lparr>sma_period = nat p, sma_window = [], sma_value = None\<rparr>"
    using assms by (auto simp: ema_init_def wilder_init_def atr_init_def sma_init_def res_simps)
  show "ema_value (ema_run e xs) = seeded_value (nat p) (2 / (of_int p + 1)) xs"
    using ema_run_value [OF p(1)] p(2) eq(1) by simp
  show "wa_value (wilder_run w xs) = seeded_value (nat p) (1 / of_int p) xs"
    using wilder_run_value [OF p(1)] p(2) eq(2) by simp
  show "atr_value (atr_run r bs) = seeded_value (nat p) (1 / of_int p) (bar_ranges bs)"
    using atr_run_value [OF p(1)] p(2) eq(3) by simp
  show "sma_value (foldl (\<lambda>s x. fst (sma_update s x)) s xs) =
      (if length xs < nat p then None else Some (mean (newest (nat p) xs)))"
    unfolding eq(4) sma_run [OF p(1)] by simp
qed

theorem averages_match_reference_witness:
  "ema_value (ema_run (ema_fresh 2) [10, 20, 30]) = Some 25 \<and>
   atr_value (atr_run (atr_fresh 2) [(10, 8, 9), (12, 9, 11), (11, 10, 10)]) = Some 2"
proof -
  have init: "ema_init 2 = Inr (ema_fresh 2)" "wilder_init 2 = Inr (wilder_fresh 2)"
    "atr_init 2 = Inr (atr_fresh 2)" "sma_init 2 = Inr \<lparr>sma_period = 2, sma_window = [], sma_value = None\<rparr>"
    by (simp_all add: ema_init_def wilder_init_def atr_init_def sma_init_def period_check_def)
  have ref: "seeded_value (nat 2) (2 / (of_int 2 + 1)) [10, 20, 30] = Some 25"
    "seeded_value (nat 2) (1 / of_int 2) (bar_ranges [(10, 8, 9), (12, 9, 11), (11, 10, 10)]) = Some 2"
    by code_simp+
  show ?thesis
    using averages_match_reference [OF init, of "[10, 20, 30]" "[(10, 8, 9), (12, 9, 11), (11, 10, 10)]"] ref by simp
qed

end
