(* ===== verification/Oscillators.thy ===== *)
theory Oscillators
  imports Averages
begin

text \<open>
  The composed indicators of \<open>lib_indicators\<close>: \<open>oscillators.py\<close> (RSI, directional movement, MACD),
  \<open>vortex.py\<close>, the stochastic oscillator of \<open>regime.py\<close>, the rolling statistics of
  \<open>streaming_statistics.py\<close> and \<open>pmo.py\<close>, each with the predicate its checkpoint is validated by. A
  standard deviation is represented by its square, the variance.
\<close>

section \<open>Relative strength index\<close>

record rsi =
  rsi_period :: nat
  rsi_gains :: wilder
  rsi_losses :: wilder
  rsi_previous :: "rat option"
  rsi_value :: "rat option"

definition rsi_init :: "int \<Rightarrow> rsi res" where
  "rsi_init p = res_bind (period_check p) (\<lambda>n.
     Inr \<lparr>rsi_period = n, rsi_gains = wilder_fresh n, rsi_losses = wilder_fresh n,
          rsi_previous = None, rsi_value = None\<rparr>)"

definition rsi_of :: "rat \<Rightarrow> rat \<Rightarrow> rat" where
  "rsi_of gain loss =
     (if loss = 0 then (if 0 < gain then 100 else 50) else 100 - 100 / (1 + gain / loss))"

definition rsi_update :: "rsi \<Rightarrow> rat \<Rightarrow> rsi \<times> rat option" where
  "rsi_update s cl =
     (let s1 = s\<lparr>rsi_previous := Some cl\<rparr>
      in case rsi_previous s of
           None \<Rightarrow> (s1, None)
         | Some prev \<Rightarrow>
             (let change = cl - prev
              in case wilder_update (rsi_gains s) (max change 0) of (g, gain) \<Rightarrow>
                 (case wilder_update (rsi_losses s) (max (- change) 0) of (l, loss) \<Rightarrow>
                    (let s2 = s1\<lparr>rsi_gains := g, rsi_losses := l\<rparr>
                     in case (gain, loss) of
                          (Some gv, Some lv) \<Rightarrow> (s2\<lparr>rsi_value := Some (rsi_of gv lv)\<rparr>, Some (rsi_of gv lv))
                        | _ \<Rightarrow> (s2, None)))))"

definition rsi_valid :: "rsi \<Rightarrow> bool" where
  "rsi_valid s =
     (let gain = wa_value (rsi_gains s); loss = wa_value (rsi_losses s)
      in wa_samples (rsi_gains s) = wa_samples (rsi_losses s) \<and>
         \<not> (wa_samples (rsi_gains s) \<noteq> 0 \<and> rsi_previous s = None) \<and>
         list_all (\<lambda>x. 0 \<le> x) (wa_seed (rsi_gains s) @ wa_seed (rsi_losses s)) \<and>
         (case gain of None \<Rightarrow> True | Some g \<Rightarrow> 0 \<le> g) \<and> (case loss of None \<Rightarrow> True | Some l \<Rightarrow> 0 \<le> l) \<and>
         (gain = None) = (loss = None) \<and>
         rsi_value s = (case (gain, loss) of (Some g, Some l) \<Rightarrow> Some (rsi_of g l) | _ \<Rightarrow> None))"

section \<open>Directional movement\<close>

record dmi =
  dm_period :: nat
  dm_atr :: atr
  dm_plus :: wilder
  dm_minus :: wilder
  dm_dx :: wilder
  dm_previous :: "(rat \<times> rat) option"
  dm_plus_di :: "rat option"
  dm_minus_di :: "rat option"
  dm_value :: "rat option"

definition dmi_init :: "int \<Rightarrow> dmi res" where
  "dmi_init p = res_bind (period_check p) (\<lambda>n.
     Inr \<lparr>dm_period = n, dm_atr = atr_fresh n, dm_plus = wilder_fresh n, dm_minus = wilder_fresh n,
          dm_dx = wilder_fresh n, dm_previous = None, dm_plus_di = None, dm_minus_di = None,
          dm_value = None\<rparr>)"

definition directional_index :: "rat \<Rightarrow> rat \<Rightarrow> rat" where
  "directional_index move atr_val = (if 0 < atr_val then 100 * move / atr_val else 0)"

definition dx_of :: "rat \<Rightarrow> rat \<Rightarrow> rat" where
  "dx_of plus_di minus_di =
     (let total = plus_di + minus_di in if 0 < total then 100 * \<bar>plus_di - minus_di\<bar> / total else 0)"

text \<open>
  The arithmetic of the update is exact here. In doubles \<open>100 * x / x\<close> may round above 100, so the bound
  that \<open>dmi_valid\<close> checks can fail in the code where it cannot fail in the model.
\<close>

definition dmi_update :: "dmi \<Rightarrow> rat \<Rightarrow> rat \<Rightarrow> rat \<Rightarrow> dmi \<times> rat option" where
  "dmi_update s high low cl =
     (case atr_update (dm_atr s) high low cl of (r, atr_val) \<Rightarrow>
       (let s1 = s\<lparr>dm_previous := Some (high, low), dm_atr := r\<rparr>
        in case dm_previous s of
             None \<Rightarrow> (s1, None)
           | Some (ph, pl) \<Rightarrow>
               (let up = high - ph; down = pl - low
                in case wilder_update (dm_plus s) (if down < up \<and> 0 < up then up else 0) of (p, pavg) \<Rightarrow>
                   (case wilder_update (dm_minus s) (if up < down \<and> 0 < down then down else 0) of (m, mavg) \<Rightarrow>
                      (let s2 = s1\<lparr>dm_plus := p, dm_minus := m\<rparr>
                       in case (atr_val, pavg, mavg) of
                            (Some a, Some pv, Some mv) \<Rightarrow>
                              (let pdi = directional_index pv a; mdi = directional_index mv a
                               in case wilder_update (dm_dx s) (dx_of pdi mdi) of (d, v) \<Rightarrow>
                                    (s2\<lparr>dm_plus_di := Some pdi, dm_minus_di := Some mdi, dm_dx := d,
                                        dm_value := v\<rparr>, v))
                          | _ \<Rightarrow> (s2, None))))))"

definition dmi_valid :: "dmi \<Rightarrow> bool" where
  "dmi_valid s =
     (let samples = wa_samples (dm_plus s)
      in samples = wa_samples (dm_minus s) \<and>
         wa_samples (dm_dx s) = max 0 (samples - int (dm_period s) + 1) \<and>
         int (length (atr_seed (dm_atr s))) = min samples (int (dm_period s)) \<and>
         (dm_previous s = None) = (atr_prev_close (dm_atr s) = None) \<and>
         \<not> (samples \<noteq> 0 \<and> dm_previous s = None) \<and>
         list_all (\<lambda>x. 0 \<le> x) (wa_seed (dm_plus s) @ wa_seed (dm_minus s) @ wa_seed (dm_dx s)) \<and>
         (case (wa_value (dm_plus s), wa_value (dm_minus s), atr_value (dm_atr s)) of
            (Some p, Some m, Some a) \<Rightarrow>
              0 \<le> p \<and> 0 \<le> m \<and> dm_plus_di s = Some (directional_index p a) \<and>
              dm_minus_di s = Some (directional_index m a)
          | _ \<Rightarrow> dm_plus_di s = None \<and> dm_minus_di s = None) \<and>
         dm_value s = wa_value (dm_dx s) \<and>
         (case dm_value s of None \<Rightarrow> True | Some v \<Rightarrow> 0 \<le> v \<and> v \<le> 100))"

section \<open>MACD\<close>

record macd =
  mc_fast :: ema
  mc_slow :: ema
  mc_signal :: ema
  mc_value :: "(rat \<times> rat \<times> rat) option"

definition macd_init :: "int \<Rightarrow> int \<Rightarrow> int \<Rightarrow> macd res" where
  "macd_init fast slow sig =
     res_bind (period_check fast) (\<lambda>f. res_bind (period_check slow) (\<lambda>l. res_bind (period_check sig) (\<lambda>g.
       if slow \<le> fast then Inl (ValueError ''MACD fast period must be smaller than slow period'')
       else Inr \<lparr>mc_fast = ema_fresh f, mc_slow = ema_fresh l, mc_signal = ema_fresh g, mc_value = None\<rparr>)))"

definition macd_update :: "macd \<Rightarrow> rat \<Rightarrow> macd \<times> (rat \<times> rat \<times> rat) option" where
  "macd_update s cl =
     (case ema_update (mc_fast s) cl of (f, fv) \<Rightarrow>
      (case ema_update (mc_slow s) cl of (l, lv) \<Rightarrow>
        (let s1 = s\<lparr>mc_fast := f, mc_slow := l\<rparr>
         in case (fv, lv) of
              (Some x, Some y) \<Rightarrow>
                (case ema_update (mc_signal s) (x - y) of (g, gv) \<Rightarrow>
                  (let v = (case gv of None \<Rightarrow> mc_value s | Some z \<Rightarrow> Some (x - y, z, x - y - z))
                   in (s1\<lparr>mc_signal := g, mc_value := v\<rparr>, v)))
            | _ \<Rightarrow> (s1, None))))"

definition macd_valid :: "macd \<Rightarrow> bool" where
  "macd_valid s =
     (ema_samples (mc_slow s) = ema_samples (mc_fast s) \<and>
      ema_samples (mc_signal s) = max 0 (ema_samples (mc_slow s) - int (ema_period (mc_slow s)) + 1) \<and>
      mc_value s =
        (case (ema_value (mc_fast s), ema_value (mc_slow s), ema_value (mc_signal s)) of
           (Some x, Some y, Some z) \<Rightarrow> Some (x - y, z, x - y - z)
         | _ \<Rightarrow> None))"

section \<open>Vortex\<close>

record vortex =
  vx_period :: nat
  vx_prev :: "(rat \<times> rat \<times> rat) option"
  vx_vm_plus :: "rat list"
  vx_vm_minus :: "rat list"
  vx_tr :: "rat list"
  vx_plus :: "rat option"
  vx_minus :: "rat option"

text \<open>The previous high, low and close are set together, so they are one field.\<close>

definition vortex_init :: "int \<Rightarrow> vortex res" where
  "vortex_init p = res_bind (period_check p) (\<lambda>n.
     Inr \<lparr>vx_period = n, vx_prev = None, vx_vm_plus = [], vx_vm_minus = [], vx_tr = [],
          vx_plus = None, vx_minus = None\<rparr>)"

definition vortex_update :: "vortex \<Rightarrow> rat \<Rightarrow> rat \<Rightarrow> rat \<Rightarrow> vortex \<times> rat option" where
  "vortex_update s high low cl =
     (let s1 = s\<lparr>vx_prev := Some (high, low, cl)\<rparr>
      in case vx_prev s of
           None \<Rightarrow> (s1, None)
         | Some (ph, pl, pc) \<Rightarrow>
             (let n = vx_period s;
                  vp = window_append n (vx_vm_plus s) \<bar>high - pl\<bar>;
                  vm = window_append n (vx_vm_minus s) \<bar>low - ph\<bar>;
                  tr = window_append n (vx_tr s) (max high pc - min low pc);
                  s2 = s1\<lparr>vx_vm_plus := vp, vx_vm_minus := vm, vx_tr := tr\<rparr>;
                  s3 = (if length tr = n
                        then (let t = sum_list tr
                              in if 0 < t
                                 then s2\<lparr>vx_plus := Some (sum_list vp / t), vx_minus := Some (sum_list vm / t)\<rparr>
                                 else s2\<lparr>vx_plus := None, vx_minus := None\<rparr>)
                        else s2)
              in (s3, vx_plus s3)))"

definition vortex_valid :: "vortex \<Rightarrow> bool" where
  "vortex_valid s =
     (let size = length (vx_tr s); ready = (size = vx_period s \<and> 0 < sum_list (vx_tr s))
      in length (vx_vm_plus s) = size \<and> length (vx_vm_minus s) = size \<and>
         ready = (vx_plus s \<noteq> None) \<and> ready = (vx_minus s \<noteq> None) \<and>
         \<not> (size \<noteq> 0 \<and> vx_prev s = None))"

definition vortex_reset :: "vortex \<Rightarrow> vortex" where
  "vortex_reset s = s\<lparr>vx_prev := None, vx_vm_plus := [], vx_vm_minus := [], vx_tr := [],
                      vx_plus := None, vx_minus := None\<rparr>"

section \<open>Stochastic\<close>

record stochastic =
  st_period :: nat
  st_ranges :: "(rat \<times> rat) list"
  st_fast :: sma
  st_slow :: sma
  st_value :: "(rat \<times> rat) option"

definition stochastic_init :: "int \<Rightarrow> int \<Rightarrow> int \<Rightarrow> stochastic res" where
  "stochastic_init p dfast dslow =
     res_bind (period_check p) (\<lambda>n. res_bind (sma_init dfast) (\<lambda>f. res_bind (sma_init dslow) (\<lambda>l.
       Inr \<lparr>st_period = n, st_ranges = [], st_fast = f, st_slow = l, st_value = None\<rparr>)))"

definition stochastic_update :: "stochastic \<Rightarrow> rat \<Rightarrow> rat \<Rightarrow> rat \<Rightarrow> stochastic \<times> (rat \<times> rat) option" where
  "stochastic_update s high low cl =
     (let w = window_append (st_period s) (st_ranges s) (high, low);
          s1 = s\<lparr>st_ranges := w, st_value := None\<rparr>
      in if length w < st_period s then (s1, None)
         else
           (let highest = Max (set (map fst w)); lowest = Min (set (map snd w))
            in if highest \<le> lowest
               then (s1\<lparr>st_fast := sma_reset (st_fast s), st_slow := sma_reset (st_slow s)\<rparr>, None)
               else
                 (case sma_update (st_fast s) (100 * (cl - lowest) / (highest - lowest)) of
                    (f, None) \<Rightarrow> (s1\<lparr>st_fast := f\<rparr>, None)
                  | (f, Some k) \<Rightarrow>
                      (case sma_update (st_slow s) k of (l, dv) \<Rightarrow>
                        (let v = (case dv of None \<Rightarrow> None | Some d \<Rightarrow> Some (k, d))
                         in (s1\<lparr>st_fast := f, st_slow := l, st_value := v\<rparr>, v))))))"

definition stochastic_valid :: "stochastic \<Rightarrow> bool" where
  "stochastic_valid s =
     (list_all (\<lambda>(h, l). l \<le> h) (st_ranges s) \<and>
      st_value s = (case (sma_value (st_fast s), sma_value (st_slow s)) of
                      (Some f, Some l) \<Rightarrow> Some (f, l) | _ \<Rightarrow> None) \<and>
      \<not> (sma_value (st_slow s) \<noteq> None \<and> sma_value (st_fast s) = None))"

section \<open>Rolling statistics\<close>

record rolling =
  rs_period :: nat
  rs_values :: "rat list"
  rs_mean :: "rat option"
  rs_variance :: "rat option"

definition rolling_init :: "int \<Rightarrow> rolling res" where
  "rolling_init p = res_bind (period_check p) (\<lambda>n.
     Inr \<lparr>rs_period = n, rs_values = [], rs_mean = None, rs_variance = None\<rparr>)"

definition rolling_update :: "rolling \<Rightarrow> rat \<Rightarrow> rolling \<times> (rat \<times> rat) option" where
  "rolling_update s x =
     (let w = window_append (rs_period s) (rs_values s) x; s1 = s\<lparr>rs_values := w\<rparr>
      in if length w < rs_period s then (s1, None)
         else (let m = sum_list w / of_nat (rs_period s);
                   v = sum_list (map (\<lambda>y. (y - m) ^ 2) w) / of_nat (rs_period s)
               in (s1\<lparr>rs_mean := Some m, rs_variance := Some v\<rparr>, Some (m, v))))"

definition percent_rank :: "rolling \<Rightarrow> rat option" where
  "percent_rank s =
     (if length (rs_values s) < rs_period s then None
      else Some (of_nat (length (filter (\<lambda>y. y < last (rs_values s)) (rs_values s))) / of_nat (rs_period s)))"

section \<open>Price momentum oscillator\<close>

record pmo =
  pm_first_length :: nat
  pm_second_length :: nat
  pm_signal_length :: nat
  pm_prices :: "rat list"
  pm_roc_values :: "rat list"
  pm_first_ema_values :: "rat list"
  pm_pmo_values :: "rat list"
  pm_signal_values :: "rat list"
  pm_first_ema :: "rat option"
  pm_pmo :: "rat option"
  pm_signal :: "rat option"
  pm_sample_count :: int

definition pmo_init :: "int \<Rightarrow> int \<Rightarrow> int \<Rightarrow> pmo res" where
  "pmo_init a b c =
     (if min a (min b c) < 1 then Inl (ValueError ''PMO smoothing lengths must all be positive'')
      else Inr \<lparr>pm_first_length = nat a, pm_second_length = nat b, pm_signal_length = nat c,
                pm_prices = [], pm_roc_values = [], pm_first_ema_values = [], pm_pmo_values = [],
                pm_signal_values = [], pm_first_ema = None, pm_pmo = None, pm_signal = None,
                pm_sample_count = 0\<rparr>)"

definition pmo_is_ready :: "pmo \<Rightarrow> bool" where
  "pmo_is_ready s =
     (int (pm_first_length s + pm_second_length s + pm_signal_length s) \<le> pm_sample_count s \<and>
      pm_pmo s \<noteq> None \<and> pm_signal s \<noteq> None)"

definition custom_ema :: "rat \<Rightarrow> rat \<Rightarrow> nat \<Rightarrow> rat" where
  "custom_ema previous x period = (x - previous) * (2 / of_nat period) + previous"

definition standard_ema :: "rat \<Rightarrow> rat \<Rightarrow> nat \<Rightarrow> rat" where
  "standard_ema previous x period = (x - previous) * (2 / (of_nat period + 1)) + previous"

text \<open>A stage is seeded with the mean of its window and then smoothed.\<close>

definition pmo_stage :: "(rat \<Rightarrow> rat \<Rightarrow> nat \<Rightarrow> rat) \<Rightarrow> nat \<Rightarrow> rat option \<Rightarrow> rat list \<Rightarrow> rat \<Rightarrow> rat option" where
  "pmo_stage smoothing n v w x =
     (case v of
        None \<Rightarrow> if n \<le> length w then Some (sum_list w / of_nat n) else None
      | Some p \<Rightarrow> Some (smoothing p x n))"

definition pmo_signal_stage :: "pmo \<Rightarrow> rat \<Rightarrow> pmo" where
  "pmo_signal_stage s x =
     (let w = window_append (pm_signal_length s) (pm_pmo_values s) x;
          sv = pmo_stage standard_ema (pm_signal_length s) (pm_signal s) w x;
          s1 = s\<lparr>pm_pmo_values := w, pm_signal := sv\<rparr>
      in case sv of None \<Rightarrow> s1
         | Some y \<Rightarrow> s1\<lparr>pm_signal_values := window_append (pm_signal_length s) (pm_signal_values s) y\<rparr>)"

definition pmo_line_stage :: "pmo \<Rightarrow> rat \<Rightarrow> pmo" where
  "pmo_line_stage s first_val =
     (let scaled = first_val * 10;
          w = window_append (pm_second_length s) (pm_first_ema_values s) scaled;
          pv = pmo_stage custom_ema (pm_second_length s) (pm_pmo s) w scaled;
          s1 = s\<lparr>pm_first_ema_values := w, pm_pmo := pv\<rparr>
      in case pv of None \<Rightarrow> s1 | Some x \<Rightarrow> pmo_signal_stage s1 x)"

definition pmo_update :: "pmo \<Rightarrow> rat \<Rightarrow> pmo \<times> rat option \<times> rat option" where
  "pmo_update s price =
     (let ps = window_append 2 (pm_prices s) price;
          s1 = s\<lparr>pm_prices := ps, pm_sample_count := pm_sample_count s + 1\<rparr>
      in if length ps < 2 then (s1, None, None)
         else (let current = ps ! 1; previous = ps ! 0
               in if previous = 0 then (s1, None, None)
                  else
                    (let roc = (current - previous) / previous * 100;
                         w = window_append (pm_first_length s) (pm_roc_values s) roc;
                         fv = pmo_stage custom_ema (pm_first_length s) (pm_first_ema s) w roc;
                         s2 = s1\<lparr>pm_roc_values := w, pm_first_ema := fv\<rparr>;
                         s3 = (case fv of None \<Rightarrow> s2 | Some x \<Rightarrow> pmo_line_stage s2 x)
                     in (s3, pm_pmo s3, pm_signal s3))))"

definition pmo_reset :: "pmo \<Rightarrow> pmo" where
  "pmo_reset s =
     s\<lparr>pm_prices := [], pm_roc_values := [], pm_first_ema_values := [], pm_pmo_values := [],
       pm_signal_values := [], pm_first_ema := None, pm_pmo := None, pm_signal := None,
       pm_sample_count := 0\<rparr>"

definition get_histogram :: "pmo \<Rightarrow> rat option" where
  "get_histogram s = (case (pm_pmo s, pm_signal s) of (Some p, Some g) \<Rightarrow> Some (p - g) | _ \<Rightarrow> None)"

end
