(* ===== verification/Indicator_Checkpoints.thy ===== *)
theory Indicator_Checkpoints
  imports Oscillators
begin

text \<open>
  Every state the RSI and the MACD reach passes the validation of its own
  checkpoint, and the RSI stays within 0 and 100; in exact arithmetic so does the directional movement,
  which in doubles can exceed its bound by a rounding. The building block is the invariant of the
  Wilder average: how many samples it has seen, and where its samples lie.
\<close>

section \<open>The Wilder average after k samples\<close>

definition in_band :: "rat option \<Rightarrow> rat \<Rightarrow> bool" where
  "in_band hi x = (0 \<le> x \<and> (case hi of None \<Rightarrow> True | Some h \<Rightarrow> x \<le> h))"

lemma in_band_nonneg: "in_band hi x \<Longrightarrow> 0 \<le> x"
  by (simp add: in_band_def)

lemma in_band_convex:
  assumes "in_band hi v" "in_band hi x" "0 \<le> a" "a \<le> 1"
  shows "in_band hi (v * (1 - a) + x * a)"
  using assms convex_bounds [of 0 v "max v x" x a] convex_bounds [of 0 v _ x a]
  by (cases hi) (auto simp: in_band_def)

lemma in_band_mean:
  assumes "xs \<noteq> []" "list_all (in_band hi) xs"
  shows "in_band hi (mean xs)"
proof (cases hi)
  case None
  have "list_all (\<lambda>x. 0 \<le> x \<and> x \<le> Max (set xs)) xs" using assms by (auto simp: list_all_iff in_band_def)
  from mean_bounds [OF assms(1) this] None show ?thesis by (simp add: in_band_def)
next
  case (Some h)
  have "list_all (\<lambda>x. 0 \<le> x \<and> x \<le> h) xs" using assms Some by (simp add: list_all_iff in_band_def)
  from mean_bounds [OF assms(1) this] Some show ?thesis by (simp add: in_band_def)
qed

definition opt_band :: "rat option \<Rightarrow> rat option \<Rightarrow> bool" where
  "opt_band hi v = (case v of None \<Rightarrow> True | Some x \<Rightarrow> in_band hi x)"

definition wilder_inv :: "nat \<Rightarrow> nat \<Rightarrow> rat option \<Rightarrow> wilder \<Rightarrow> bool" where
  "wilder_inv n k hi w \<longleftrightarrow>
     wa_period w = n \<and> wa_samples w = int k \<and> (wa_value w = None) = (k < n) \<and>
     length (wa_seed w) = (if k < n then k else 0) \<and>
     list_all (in_band hi) (wa_seed w) \<and> opt_band hi (wa_value w)"

lemma wilder_inv_fresh: "0 < n \<Longrightarrow> wilder_inv n 0 hi (wilder_fresh n)"
  by (simp add: wilder_inv_def opt_band_def)

lemma wilder_inv_valid: "wilder_inv n k hi w \<Longrightarrow> wilder_valid w"
  by (auto simp: wilder_inv_def wilder_valid_def Let_def)

lemma wilder_inv_update:
  assumes "0 < n" "wilder_inv n k hi w" "in_band hi x"
  shows "wilder_inv n (Suc k) hi (fst (wilder_update w x))"
    "snd (wilder_update w x) = wa_value (fst (wilder_update w x))"
proof -
  have *: "wilder_inv n (Suc k) hi (fst (wilder_update w x)) \<and>
      snd (wilder_update w x) = wa_value (fst (wilder_update w x))"
  proof (cases "wa_value w")
    case None
    then have k: "k < n" "length (wa_seed w) = k" using assms(2) by (simp_all add: wilder_inv_def)
    have all: "list_all (in_band hi) (wa_seed w @ [x])" using assms(2,3) by (simp add: wilder_inv_def)
    have "in_band hi (mean (wa_seed w @ [x]))" by (rule in_band_mean [OF _ all]) simp
    then have "Suc k = n \<longrightarrow> in_band hi ((sum_list (wa_seed w) + x) / of_nat n)"
      using k(2) by (auto simp: mean_def)
    then show ?thesis using assms(2) None k all
      by (auto simp: wilder_update_def Let_def wilder_inv_def opt_band_def)
  next
    case (Some v)
    have "in_band hi v" "\<not> k < n" using assms(2) Some by (simp_all add: wilder_inv_def opt_band_def)
    moreover from this have "in_band hi (v * (1 - 1 / of_nat n) + x * (1 / of_nat n))"
      using assms(1,3) by (intro in_band_convex) auto
    ultimately show ?thesis using assms(2) Some
      by (simp add: wilder_update_def Let_def wilder_inv_def opt_band_def)
  qed
  then show "wilder_inv n (Suc k) hi (fst (wilder_update w x))"
    "snd (wilder_update w x) = wa_value (fst (wilder_update w x))" by simp_all
qed

section \<open>RSI\<close>

lemma rsi_of_range:
  assumes "0 \<le> g" "0 \<le> l"
  shows "0 \<le> rsi_of g l \<and> rsi_of g l \<le> 100"
proof (cases "l = 0")
  case False
  then have "1 \<le> 1 + g / l" using assms by simp
  then have "100 / (1 + g / l) \<le> 100" "0 \<le> 100 / (1 + g / l)" by (simp_all add: pos_divide_le_eq)
  then show ?thesis using False by (simp add: rsi_of_def)
qed (simp add: rsi_of_def)

definition rsi_expected :: "rsi \<Rightarrow> rat option" where
  "rsi_expected s =
     (case (wa_value (rsi_gains s), wa_value (rsi_losses s)) of (Some g, Some l) \<Rightarrow> Some (rsi_of g l) | _ \<Rightarrow> None)"

definition rsi_inv :: "nat \<Rightarrow> nat \<Rightarrow> rsi \<Rightarrow> bool" where
  "rsi_inv n k s \<longleftrightarrow>
     wilder_inv n k None (rsi_gains s) \<and> wilder_inv n k None (rsi_losses s) \<and>
     (rsi_previous s = None \<longrightarrow> k = 0) \<and> rsi_value s = rsi_expected s"

lemma rsi_inv_update:
  assumes "0 < n" "rsi_inv n k s"
  shows "\<exists>k'. rsi_inv n k' (fst (rsi_update s c))"
proof (cases "rsi_previous s")
  case None
  then have "k = 0" "rsi_inv n 0 s" using assms(2) by (auto simp: rsi_inv_def)
  then show ?thesis using None
    by (intro exI [of _ 0]) (simp add: rsi_update_def rsi_inv_def Let_def rsi_expected_def)
next
  case (Some prev)
  have inv: "wilder_inv n k None (rsi_gains s)" "wilder_inv n k None (rsi_losses s)"
    using assms(2) by (simp_all add: rsi_inv_def)
  define g where "g = wilder_update (rsi_gains s) (max (c - prev) 0)"
  define l where "l = wilder_update (rsi_losses s) (max (- (c - prev)) 0)"
  have G: "wilder_inv n (Suc k) None (fst g)" "snd g = wa_value (fst g)"
    unfolding g_def by (rule wilder_inv_update [OF assms(1) inv(1)], simp add: in_band_def)+
  have L: "wilder_inv n (Suc k) None (fst l)" "snd l = wa_value (fst l)"
    unfolding l_def by (rule wilder_inv_update [OF assms(1) inv(2)], simp add: in_band_def)+
  have upd: "rsi_update s c =
      (let s2 = s\<lparr>rsi_previous := Some c, rsi_gains := fst g, rsi_losses := fst l\<rparr>
       in case (snd g, snd l) of (Some gv, Some lv) \<Rightarrow> (s2\<lparr>rsi_value := Some (rsi_of gv lv)\<rparr>, Some (rsi_of gv lv))
          | _ \<Rightarrow> (s2, None))"
    using Some by (simp add: rsi_update_def Let_def g_def l_def case_prod_beta del: minus_diff_eq)
  have same: "(wa_value (fst g) = None) = (wa_value (fst l) = None)"
    using G(1) L(1) by (simp add: wilder_inv_def)
  show ?thesis
  proof (cases "wa_value (fst g)")
    case None
    then have "Suc k < n" using G(1) by (simp add: wilder_inv_def)
    then have "wa_value (rsi_gains s) = None" using inv(1) by (simp add: wilder_inv_def)
    then have "rsi_value s = None" using assms(2) by (simp add: rsi_inv_def rsi_expected_def)
    then show ?thesis using upd G L None same
      by (intro exI [of _ "Suc k"]) (simp add: rsi_inv_def rsi_expected_def)
  next
    case (Some gv)
    then obtain lv where "wa_value (fst l) = Some lv" using same by (cases "wa_value (fst l)") auto
    then show ?thesis using upd G L Some
      by (intro exI [of _ "Suc k"]) (simp add: rsi_inv_def rsi_expected_def)
  qed
qed

lemma rsi_inv_valid:
  assumes "rsi_inv n k s"
  shows "rsi_valid s" "rsi_value s = Some v \<Longrightarrow> 0 \<le> v \<and> v \<le> 100"
proof -
  have nn: "wa_value (rsi_gains s) = Some g \<Longrightarrow> 0 \<le> g" "wa_value (rsi_losses s) = Some l \<Longrightarrow> 0 \<le> l" for g l
    using assms by (simp_all add: rsi_inv_def wilder_inv_def opt_band_def in_band_def)
  have "list_all (\<lambda>x. 0 \<le> x) (wa_seed (rsi_gains s) @ wa_seed (rsi_losses s))"
    using assms in_band_nonneg by (auto simp: rsi_inv_def wilder_inv_def list_all_iff)
  then show "rsi_valid s"
    using assms nn unfolding rsi_valid_def Let_def
    by (cases "wa_value (rsi_gains s)"; cases "wa_value (rsi_losses s)")
      (auto simp: rsi_inv_def wilder_inv_def rsi_expected_def)
  show "rsi_value s = Some v \<Longrightarrow> 0 \<le> v \<and> v \<le> 100"
    using assms rsi_of_range nn by (auto simp: rsi_inv_def rsi_expected_def split: option.splits)
qed

section \<open>Directional movement\<close>

lemma true_range_nonneg: "0 \<le> true_range h l prev"
  unfolding true_range_def by (rule max.coboundedI2) (simp add: max.coboundedI1)

definition atr_inv :: "nat \<Rightarrow> nat \<Rightarrow> atr \<Rightarrow> bool" where
  "atr_inv n k r \<longleftrightarrow>
     atr_period r = n \<and> length (atr_seed r) = min k n \<and> (atr_value r = None) = (k < n) \<and>
     list_all (in_band None) (atr_seed r) \<and> opt_band None (atr_value r)"

lemma atr_inv_smooth:
  assumes "0 < n" "atr_inv n k r" "0 \<le> x"
  shows "atr_inv n (Suc k) (fst (atr_smooth r x))" "snd (atr_smooth r x) = atr_value (fst (atr_smooth r x))"
proof -
  have *: "atr_inv n (Suc k) (fst (atr_smooth r x)) \<and> snd (atr_smooth r x) = atr_value (fst (atr_smooth r x))"
  proof (cases "atr_value r")
    case None
    then have k: "k < n" "length (atr_seed r) = k" using assms(2) by (simp_all add: atr_inv_def)
    then have w: "window_append n (atr_seed r) x = atr_seed r @ [x]" by (simp add: window_collect)
    have all: "list_all (in_band None) (atr_seed r @ [x])" using assms(2,3) by (simp add: atr_inv_def in_band_def)
    have "in_band None (mean (atr_seed r @ [x]))" by (rule in_band_mean [OF _ all]) simp
    then have "Suc k = n \<longrightarrow> in_band None ((sum_list (atr_seed r) + x) / of_nat n)"
      using k(2) by (auto simp: mean_def)
    moreover have "atr_period r = n" using assms(2) by (simp add: atr_inv_def)
    ultimately show ?thesis using None k all w
      by (auto simp: atr_smooth_def Let_def atr_inv_def opt_band_def)
  next
    case (Some v)
    have "in_band None v" "\<not> k < n" using assms(2) Some by (simp_all add: atr_inv_def opt_band_def)
    moreover from this have "in_band None (v * (1 - 1 / of_nat n) + x * (1 / of_nat n))"
      using assms(1,3) by (intro in_band_convex) (auto simp: in_band_def)
    ultimately show ?thesis using assms(2) Some
      by (simp add: atr_smooth_def Let_def atr_inv_def opt_band_def)
  qed
  then show "atr_inv n (Suc k) (fst (atr_smooth r x))" "snd (atr_smooth r x) = atr_value (fst (atr_smooth r x))"
    by simp_all
qed

lemma atr_inv_prev: "atr_inv n k (r\<lparr>atr_prev_close := c\<rparr>) = atr_inv n k r"
  by (simp add: atr_inv_def)

lemma atr_smooth_prev [simp]: "atr_prev_close (fst (atr_smooth r x)) = atr_prev_close r"
  by (simp add: atr_smooth_def Let_def split: option.split)

lemma directional_index_nonneg: "0 \<le> m \<Longrightarrow> 0 \<le> a \<Longrightarrow> 0 \<le> directional_index m a"
  by (simp add: directional_index_def)

lemma dx_of_band: "0 \<le> p \<Longrightarrow> 0 \<le> m \<Longrightarrow> in_band (Some 100) (dx_of p m)"
proof -
  assume nn: "0 \<le> p" "0 \<le> m"
  then have "\<bar>p - m\<bar> \<le> p + m" by (simp add: abs_le_iff)
  then have "100 * \<bar>p - m\<bar> \<le> 100 * (p + m)" by (rule mult_left_mono) simp
  then show ?thesis using nn by (auto simp: in_band_def dx_of_def Let_def pos_divide_le_eq)
qed

definition expected_di :: "rat option \<Rightarrow> rat option \<Rightarrow> rat option \<Rightarrow> rat option \<times> rat option" where
  "expected_di p m a =
     (case (p, m, a) of
        (Some pv, Some mv, Some av) \<Rightarrow> (Some (directional_index pv av), Some (directional_index mv av))
      | _ \<Rightarrow> (None, None))"

definition dmi_outputs :: "dmi \<Rightarrow> bool" where
  "dmi_outputs s =
     (dm_value s = wa_value (dm_dx s) \<and>
      (dm_plus_di s, dm_minus_di s) = expected_di (wa_value (dm_plus s)) (wa_value (dm_minus s)) (atr_value (dm_atr s)))"

definition dmi_inv :: "nat \<Rightarrow> nat \<Rightarrow> dmi \<Rightarrow> bool" where
  "dmi_inv n k s \<longleftrightarrow>
     dm_period s = n \<and> wilder_inv n k None (dm_plus s) \<and> wilder_inv n k None (dm_minus s) \<and>
     atr_inv n k (dm_atr s) \<and> wilder_inv n (Suc k - n) (Some 100) (dm_dx s) \<and>
     (dm_previous s = None) = (atr_prev_close (dm_atr s) = None) \<and> (dm_previous s = None \<longrightarrow> k = 0) \<and>
     dmi_outputs s"

lemma dmi_inv_first:
  assumes "dmi_inv n k s" "dm_previous s = None"
  shows "dmi_inv n 0 (fst (dmi_update s h l c))"
proof -
  have "k = 0" "atr_prev_close (dm_atr s) = None" using assms by (auto simp: dmi_inv_def)
  then show ?thesis using assms
    by (simp add: dmi_inv_def dmi_update_def atr_update_def atr_inv_prev dmi_outputs_def)
qed

lemma dmi_inv_next:
  assumes n: "0 < n" and inv: "dmi_inv n k s" and prev: "dm_previous s = Some (ph, pl)"
  shows "dmi_inv n (Suc k) (fst (dmi_update s h l c))"
proof -
  have parts: "dm_period s = n" "wilder_inv n k None (dm_plus s)" "wilder_inv n k None (dm_minus s)"
    "atr_inv n k (dm_atr s)" "wilder_inv n (Suc k - n) (Some 100) (dm_dx s)" "dmi_outputs s"
    using inv by (simp_all add: dmi_inv_def)
  obtain pc where pc: "atr_prev_close (dm_atr s) = Some pc"
    using inv prev by (cases "atr_prev_close (dm_atr s)") (simp_all add: dmi_inv_def)
  define r where "r = atr_smooth ((dm_atr s)\<lparr>atr_prev_close := Some c\<rparr>) (true_range h l pc)"
  define up where "up = h - ph"
  define down where "down = pl - l"
  define pw where "pw = wilder_update (dm_plus s) (if down < up \<and> 0 < up then up else 0)"
  define mw where "mw = wilder_update (dm_minus s) (if up < down \<and> 0 < down then down else 0)"
  have R: "atr_inv n (Suc k) (fst r)" "snd r = atr_value (fst r)" "atr_prev_close (fst r) = Some c"
    unfolding r_def using atr_inv_smooth [OF n _ true_range_nonneg] parts(4) atr_inv_prev by simp_all
  have P: "wilder_inv n (Suc k) None (fst pw)" "snd pw = wa_value (fst pw)"
    unfolding pw_def by (rule wilder_inv_update [OF n parts(2)], simp add: in_band_def)+
  have M: "wilder_inv n (Suc k) None (fst mw)" "snd mw = wa_value (fst mw)"
    unfolding mw_def by (rule wilder_inv_update [OF n parts(3)], simp add: in_band_def)+
  define s2 where "s2 = s\<lparr>dm_previous := Some (h, l), dm_atr := fst r, dm_plus := fst pw, dm_minus := fst mw\<rparr>"
  have upd: "dmi_update s h l c =
      (case (snd r, snd pw, snd mw) of
         (Some a, Some pv, Some mv) \<Rightarrow>
           (let pdi = directional_index pv a; mdi = directional_index mv a
            in case wilder_update (dm_dx s) (dx_of pdi mdi) of (d, v) \<Rightarrow>
                 (s2\<lparr>dm_plus_di := Some pdi, dm_minus_di := Some mdi, dm_dx := d, dm_value := v\<rparr>, v))
       | _ \<Rightarrow> (s2, None))"
    by (simp only: dmi_update_def atr_update_def prev pc option.case prod.case Let_def case_prod_beta
        r_def pw_def mw_def up_def down_def s2_def fst_conv snd_conv)
  show ?thesis
  proof (cases "Suc k < n")
    case True
    then have none: "atr_value (fst r) = None" "wa_value (fst pw) = None" "wa_value (fst mw) = None"
      "wa_value (dm_plus s) = None"
      using R(1) P(1) M(1) parts(2) by (simp_all add: atr_inv_def wilder_inv_def)
    then have "dm_plus_di s = None" "dm_minus_di s = None" "dm_value s = wa_value (dm_dx s)"
      using parts(6) by (simp_all add: dmi_outputs_def expected_di_def)
    moreover have "wilder_inv n (Suc (Suc k) - n) (Some 100) (dm_dx s)" using parts(5) True by simp
    ultimately show ?thesis
      using upd R P M none parts(1) by (simp add: dmi_inv_def dmi_outputs_def expected_di_def s2_def)
  next
    case False
    then obtain a pv mv where vals: "atr_value (fst r) = Some a" "wa_value (fst pw) = Some pv"
      "wa_value (fst mw) = Some mv"
      using R(1) P(1) M(1) unfolding atr_inv_def wilder_inv_def by (metis option.exhaust)
    define pdi where "pdi = directional_index pv a"
    define mdi where "mdi = directional_index mv a"
    have "0 \<le> a" "0 \<le> pv" "0 \<le> mv"
      using R(1) P(1) M(1) vals by (simp_all add: atr_inv_def wilder_inv_def opt_band_def in_band_def)
    then have "in_band (Some 100) (dx_of pdi mdi)"
      unfolding pdi_def mdi_def by (intro dx_of_band directional_index_nonneg)
    note D = wilder_inv_update [OF n parts(5) this]
    have idx: "Suc (Suc k - n) = Suc (Suc k) - n" using False by simp
    show ?thesis
      using upd R P M vals parts(1) D unfolding idx
      by (simp add: dmi_inv_def dmi_outputs_def expected_di_def s2_def Let_def case_prod_beta
          pdi_def [symmetric] mdi_def [symmetric])
  qed
qed

lemma dmi_inv_update:
  assumes "0 < n" "dmi_inv n k s"
  shows "\<exists>k'. dmi_inv n k' (fst (dmi_update s h l c))"
proof (cases "dm_previous s")
  case None
  then show ?thesis using dmi_inv_first [OF assms(2)] by blast
next
  case (Some x)
  then show ?thesis using dmi_inv_next [OF assms] by (cases x) blast
qed

lemma dmi_inv_valid:
  assumes "dmi_inv n k s"
  shows "dmi_valid s" "dm_value s = Some v \<Longrightarrow> 0 \<le> v \<and> v \<le> 100"
proof -
  have w: "wilder_inv n k None (dm_plus s)" "wilder_inv n k None (dm_minus s)"
    "wilder_inv n (Suc k - n) (Some 100) (dm_dx s)" "atr_inv n k (dm_atr s)" "dm_period s = n" "dmi_outputs s"
    using assms by (simp_all add: dmi_inv_def)
  have v: "dm_value s = wa_value (dm_dx s)" using w(6) by (simp add: dmi_outputs_def)
  show range: "dm_value s = Some v \<Longrightarrow> 0 \<le> v \<and> v \<le> 100" for v
    using w(3) unfolding v by (simp add: wilder_inv_def opt_band_def in_band_def)
  have seeds: "list_all (\<lambda>x. 0 \<le> x) (wa_seed (dm_plus s) @ wa_seed (dm_minus s) @ wa_seed (dm_dx s))"
    using w(1-3) in_band_nonneg by (auto simp: wilder_inv_def list_all_iff)
  have nn: "wa_value (dm_plus s) = Some p \<Longrightarrow> 0 \<le> p" "wa_value (dm_minus s) = Some m \<Longrightarrow> 0 \<le> m" for p m
    using w(1,2) by (simp_all add: wilder_inv_def opt_band_def in_band_def)
  have di: "case (wa_value (dm_plus s), wa_value (dm_minus s), atr_value (dm_atr s)) of
      (Some p, Some m, Some a) \<Rightarrow>
        0 \<le> p \<and> 0 \<le> m \<and> dm_plus_di s = Some (directional_index p a) \<and> dm_minus_di s = Some (directional_index m a)
    | _ \<Rightarrow> dm_plus_di s = None \<and> dm_minus_di s = None"
    using w(6) nn by (auto simp: dmi_outputs_def expected_di_def split: option.splits)
  show "dmi_valid s"
    unfolding dmi_valid_def Let_def
  proof (intro conjI)
    show "int (length (atr_seed (dm_atr s))) = min (wa_samples (dm_plus s)) (int (dm_period s))"
      using w by (simp add: wilder_inv_def atr_inv_def)
    show "wa_samples (dm_dx s) = max 0 (wa_samples (dm_plus s) - int (dm_period s) + 1)"
      using w by (simp add: wilder_inv_def)
    show "(dm_previous s = None) = (atr_prev_close (dm_atr s) = None)"
      "\<not> (wa_samples (dm_plus s) \<noteq> 0 \<and> dm_previous s = None)"
      using assms w(1) by (auto simp: dmi_inv_def wilder_inv_def)
    show "wa_samples (dm_plus s) = wa_samples (dm_minus s)" using w by (simp add: wilder_inv_def)
    show "case dm_value s of None \<Rightarrow> True | Some v \<Rightarrow> 0 \<le> v \<and> v \<le> 100"
      using range by (simp split: option.split)
  qed (fact seeds, fact di, fact v)
qed

section \<open>MACD\<close>

definition ema_inv :: "nat \<Rightarrow> nat \<Rightarrow> ema \<Rightarrow> bool" where
  "ema_inv n k e \<longleftrightarrow>
     ema_period e = n \<and> ema_samples e = int k \<and> length (ema_seed_buffer e) = min k n \<and>
     (ema_value e = None) = (k < n)"

lemma ema_inv_valid: "ema_inv n k e \<Longrightarrow> ema_valid e"
  by (auto simp: ema_inv_def ema_valid_def)

lemma ema_inv_update:
  assumes "0 < n" "ema_inv n k e"
  shows "ema_inv n (Suc k) (fst (ema_update e x)) \<and> snd (ema_update e x) = ema_value (fst (ema_update e x))"
proof (cases "ema_value e")
  case None
  then have "k < n" "length (ema_seed_buffer e) = k" using assms(2) by (simp_all add: ema_inv_def)
  then have "window_append n (ema_seed_buffer e) x = ema_seed_buffer e @ [x]" by (simp add: window_collect)
  then show ?thesis using assms(2) None by (auto simp: ema_update_def Let_def ema_inv_def)
next
  case (Some v)
  then show ?thesis using assms by (simp add: ema_update_def Let_def ema_inv_def)
qed

definition macd_expected :: "rat option \<Rightarrow> rat option \<Rightarrow> rat option \<Rightarrow> (rat \<times> rat \<times> rat) option" where
  "macd_expected f l g =
     (case (f, l, g) of (Some x, Some y, Some z) \<Rightarrow> Some (x - y, z, x - y - z) | _ \<Rightarrow> None)"

definition macd_inv :: "nat \<Rightarrow> nat \<Rightarrow> nat \<Rightarrow> nat \<Rightarrow> macd \<Rightarrow> bool" where
  "macd_inv f l g k s \<longleftrightarrow>
     ema_inv f k (mc_fast s) \<and> ema_inv l k (mc_slow s) \<and> ema_inv g (Suc k - l) (mc_signal s) \<and>
     mc_value s = macd_expected (ema_value (mc_fast s)) (ema_value (mc_slow s)) (ema_value (mc_signal s))"

lemma macd_inv_update:
  assumes "0 < f" "f < l" "0 < g" "macd_inv f l g k s"
  shows "macd_inv f l g (Suc k) (fst (macd_update s c))"
proof -
  have inv: "ema_inv f k (mc_fast s)" "ema_inv l k (mc_slow s)" "ema_inv g (Suc k - l) (mc_signal s)"
    "mc_value s = macd_expected (ema_value (mc_fast s)) (ema_value (mc_slow s)) (ema_value (mc_signal s))"
    using assms(4) by (simp_all add: macd_inv_def)
  define fe where "fe = ema_update (mc_fast s) c"
  define le where "le = ema_update (mc_slow s) c"
  have F: "ema_inv f (Suc k) (fst fe)" "snd fe = ema_value (fst fe)"
    unfolding fe_def using ema_inv_update [OF assms(1) inv(1)] by simp_all
  have L: "ema_inv l (Suc k) (fst le)" "snd le = ema_value (fst le)"
    unfolding le_def using ema_inv_update [OF _ inv(2)] assms(2) by simp_all
  show ?thesis
  proof (cases "Suc k < l")
    case True
    then have none: "ema_value (fst le) = None" "ema_value (mc_slow s) = None"
      using L(1) inv(2) by (simp_all add: ema_inv_def)
    then have "fst (macd_update s c) = s\<lparr>mc_fast := fst fe, mc_slow := fst le\<rparr>"
      using F(2) L(2) by (simp add: macd_update_def fe_def le_def Let_def case_prod_beta split: option.split)
    moreover have "mc_value s = None" using inv(4) none by (simp add: macd_expected_def split: option.split)
    ultimately show ?thesis using F L inv(3) none True
      by (simp add: macd_inv_def macd_expected_def split: option.split)
  next
    case False
    then obtain x y where vals: "ema_value (fst fe) = Some x" "ema_value (fst le) = Some y"
      using F(1) L(1) assms(2) unfolding ema_inv_def by (metis less_trans option.exhaust)
    define ge where "ge = ema_update (mc_signal s) (x - y)"
    have G: "ema_inv g (Suc (Suc k) - l) (fst ge)" "snd ge = ema_value (fst ge)"
      unfolding ge_def using ema_inv_update [OF assms(3) inv(3), of "x - y"] False by (simp_all add: Suc_diff_le)
    have upd: "fst (macd_update s c) = s\<lparr>mc_fast := fst fe, mc_slow := fst le, mc_signal := fst ge,
        mc_value := (case snd ge of None \<Rightarrow> mc_value s | Some z \<Rightarrow> Some (x - y, z, x - y - z))\<rparr>"
      using F(2) L(2) vals by (simp add: macd_update_def fe_def le_def ge_def Let_def case_prod_beta)
    have "mc_value s = None" if "ema_value (fst ge) = None"
    proof -
      from that have "ema_value (mc_signal s) = None" using G(1) inv(3) unfolding ema_inv_def by simp
      then show ?thesis using inv(4) by (simp add: macd_expected_def split: option.split)
    qed
    then show ?thesis using upd F L G vals
      by (simp add: macd_inv_def macd_expected_def split: option.split)
  qed
qed

section \<open>Reachable states pass their validation\<close>

abbreviation rsi_run :: "rsi \<Rightarrow> rat list \<Rightarrow> rsi" where
  "rsi_run s xs \<equiv> foldl (\<lambda>s c. fst (rsi_update s c)) s xs"

abbreviation dmi_run :: "dmi \<Rightarrow> (rat \<times> rat \<times> rat) list \<Rightarrow> dmi" where
  "dmi_run s bs \<equiv> foldl (\<lambda>s (h, l, c). fst (dmi_update s h l c)) s bs"

abbreviation macd_run :: "macd \<Rightarrow> rat list \<Rightarrow> macd" where
  "macd_run s xs \<equiv> foldl (\<lambda>s c. fst (macd_update s c)) s xs"

lemma rsi_run_inv:
  assumes "rsi_init p = Inr s"
  shows "\<exists>k. rsi_inv (nat p) k (rsi_run s xs)"
proof (induction xs rule: rev_induct)
  case Nil
  have "rsi_inv (nat p) 0 s"
    using assms by (auto simp: rsi_init_def res_simps rsi_inv_def rsi_expected_def wilder_inv_fresh)
  then show ?case by auto
next
  case (snoc c xs)
  have p: "0 < nat p" using assms by (auto simp: rsi_init_def res_simps)
  from snoc obtain k where "rsi_inv (nat p) k (rsi_run s xs)" ..
  from rsi_inv_update [OF p this, of c] show ?case by (simp only: foldl_append foldl_Cons foldl_Nil)
qed

lemma dmi_run_inv:
  assumes "dmi_init p = Inr s"
  shows "\<exists>k. dmi_inv (nat p) k (dmi_run s bs)"
proof (induction bs rule: rev_induct)
  case Nil
  have "0 < nat p" using assms by (auto simp: dmi_init_def res_simps)
  then have "dmi_inv (nat p) 0 s"
    using assms by (auto simp: dmi_init_def res_simps dmi_inv_def dmi_outputs_def expected_di_def atr_inv_def
        opt_band_def wilder_inv_fresh)
  then show ?case by auto
next
  case (snoc b bs)
  have p: "0 < nat p" using assms by (auto simp: dmi_init_def res_simps)
  obtain h l c where b: "b = (h, l, c)" by (metis prod_cases3)
  from snoc obtain k where "dmi_inv (nat p) k (dmi_run s bs)" ..
  from dmi_inv_update [OF p this, of h l c] show ?case
    by (simp only: b foldl_append foldl_Cons foldl_Nil prod.case)
qed

lemma macd_run_inv:
  assumes "macd_init f l g = Inr s"
  shows "macd_inv (nat f) (nat l) (nat g) (length xs) (macd_run s xs)"
proof (induction xs rule: rev_induct)
  case Nil
  then show ?case using assms
    by (auto simp: macd_init_def res_simps macd_inv_def macd_expected_def ema_inv_def split: if_splits)
next
  case (snoc c xs)
  have "0 < nat f" "nat f < nat l" "0 < nat g"
    using assms by (auto simp: macd_init_def res_simps split: if_splits)
  from macd_inv_update [OF this snoc] show ?case by simp
qed

lemma macd_inv_valid: "macd_inv f l g k s \<Longrightarrow> macd_valid s"
  by (auto simp: macd_inv_def macd_valid_def macd_expected_def ema_inv_def)

text \<open>
  The directional movement in exact arithmetic. The code computes \<open>dx\<close> and its average in doubles,
  where \<open>100 * x / x\<close> can round to a little more than 100: with a period of one or two in a plain trend
  the ADX then exceeds 100 and the bound of \<open>validate_checkpoint\<close> rejects the state. What the lemma
  says of the code is that nothing but rounding can do this.
\<close>

lemma exact_directional_valid:
  "dmi_init p = Inr d \<Longrightarrow> dmi_valid (dmi_run d bs) \<and> (\<forall>v. dm_value (dmi_run d bs) = Some v \<longrightarrow> 0 \<le> v \<and> v \<le> 100)"
  using dmi_run_inv [of p d bs] dmi_inv_valid by blast

text \<open>
  C37: reachable RSI and MACD states are restorable. Whatever prices an RSI or a MACD has been fed since
  it was made, its state passes the validation that restoring a checkpoint applies, which recomputes
  the outputs from the averages; and the RSI, once it has a value, has one between 0 and 100. The bounds
  rest on signs and on monotone operations only, which rounding keeps.
\<close>

theorem reachable_oscillators_valid:
  assumes "rsi_init p = Inr r" "macd_init f l g = Inr m"
  shows "rsi_valid (rsi_run r xs) \<and> macd_valid (macd_run m xs) \<and>
    (\<forall>v. rsi_value (rsi_run r xs) = Some v \<longrightarrow> 0 \<le> v \<and> v \<le> 100)"
  using rsi_run_inv [OF assms(1), of xs] macd_run_inv [OF assms(2), of xs] rsi_inv_valid macd_inv_valid
  by blast

theorem reachable_oscillators_valid_witness:
  "map_sum id (\<lambda>r. rsi_value (rsi_run r [10, 12, 11, 13])) (rsi_init 2) = Inr (Some (600/7)) \<and>
   (\<exists>r. rsi_init 2 = Inr r \<and> rsi_valid (rsi_run r [10, 12, 11, 13]))"
proof -
  have ok: "is_ok (rsi_init 2)" "is_ok (macd_init 2 3 2)"
    and v: "map_sum id (\<lambda>r. rsi_value (rsi_run r [10, 12, 11, 13])) (rsi_init 2) = Inr (Some (600/7))"
    by code_simp+
  then obtain r m where "rsi_init 2 = Inr r" "macd_init 2 3 2 = Inr m"
    unfolding is_ok_def by (auto split: sum.splits)
  from reachable_oscillators_valid [OF this] this(1) v show ?thesis by blast
qed

end
