(* ===== verification/Signal_Gates.thy ===== *)
theory Signal_Gates
  imports Averages
begin

text \<open>
  The event-like indicators of \<open>lib_indicators\<close>: the crossover of \<open>streaming_statistics.py\<close>, the gates
  of \<open>regime_gates.py\<close> and the pivots of \<open>swing_high_low.py\<close>, with what they compute on a whole stream.
\<close>

section \<open>Crossover\<close>

type_synonym crossover = "rat option"

definition crossover_update :: "crossover \<Rightarrow> rat \<Rightarrow> crossover \<times> int" where
  "crossover_update prev d =
     (if d \<noteq> 0
      then (Some d,
            (case prev of None \<Rightarrow> 0 | Some p \<Rightarrow> if p * d < 0 then (if 0 < d then 1 else -1) else 0))
      else (prev, 0))"

section \<open>Trend confirmation\<close>

record trend_gate =
  tg_confirm_days :: nat
  tg_state :: bool
  tg_streak :: nat

definition trend_gate_init :: "int \<Rightarrow> trend_gate res" where
  "trend_gate_init n =
     (if n < 1 then Inl (ValueError ''confirm_days must be >= 1'')
      else Inr \<lparr>tg_confirm_days = nat n, tg_state = False, tg_streak = 0\<rparr>)"

definition trend_gate_update :: "trend_gate \<Rightarrow> bool \<Rightarrow> trend_gate" where
  "trend_gate_update g obs =
     (if obs = tg_state g then g\<lparr>tg_streak := 0\<rparr>
      else if tg_confirm_days g \<le> tg_streak g + 1 then g\<lparr>tg_state := obs, tg_streak := 0\<rparr>
      else g\<lparr>tg_streak := tg_streak g + 1\<rparr>)"

section \<open>Scores against earlier samples\<close>

text \<open>The z-score is given by its sign and its square; \<open>min_std\<close> is the floor under which there is none.\<close>

definition min_std :: rat where
  "min_std = 1 / 10 ^ 12"

definition zscore_update :: "nat \<Rightarrow> rat list \<Rightarrow> rat \<Rightarrow> rat list \<times> (rat \<times> rat) option" where
  "zscore_update n w x =
     (window_append n w x,
      if length w = n
      then (let m = sum_list w / of_nat n; v = sum_list (map (\<lambda>y. (y - m) ^ 2) w) / of_nat n
            in if min_std ^ 2 < v then Some (x - m, v) else None)
      else None)"

text \<open>\<open>bisect_right\<close> and \<open>insort\<close> on a sorted list.\<close>

fun bisect_right :: "rat list \<Rightarrow> rat \<Rightarrow> nat" where
  "bisect_right [] x = 0"
| "bisect_right (y # ys) x = (if x < y then 0 else Suc (bisect_right ys x))"

definition insort_right :: "rat \<Rightarrow> rat list \<Rightarrow> rat list" where
  "insort_right x ys = take (bisect_right ys x) ys @ x # drop (bisect_right ys x) ys"

definition percentile_update :: "nat \<Rightarrow> rat list \<Rightarrow> rat \<Rightarrow> rat list \<times> rat option" where
  "percentile_update min_samples ys x =
     (insort_right x ys,
      if min_samples \<le> length ys then Some (of_nat (bisect_right ys x) / of_nat (length ys)) else None)"

section \<open>Swing points\<close>

record swing_point =
  sp_price :: rat
  sp_timestamp :: time
  sp_bar_index :: int

record swing =
  sw_length :: nat
  sw_max_history :: nat
  sw_highs :: "rat list"
  sw_lows :: "rat list"
  sw_timestamps :: "time list"
  sw_swing_highs :: "swing_point list"
  sw_swing_lows :: "swing_point list"
  sw_latest_high :: "swing_point option"
  sw_latest_low :: "swing_point option"
  sw_bar_count :: int
  sw_last_high_bar :: int
  sw_last_low_bar :: int

definition window_size :: "swing \<Rightarrow> nat" where
  "window_size s = sw_length s * 2 + 1"

definition swing_init :: "int \<Rightarrow> int \<Rightarrow> swing res" where
  "swing_init n history =
     (if n < 1 then Inl (ValueError ''swing_length must be positive'')
      else if history < 1 then Inl (ValueError ''max_history must be positive'')
      else Inr \<lparr>sw_length = nat n, sw_max_history = nat history, sw_highs = [], sw_lows = [],
                sw_timestamps = [], sw_swing_highs = [], sw_swing_lows = [], sw_latest_high = None,
                sw_latest_low = None, sw_bar_count = 0, sw_last_high_bar = -1, sw_last_low_bar = -1\<rparr>)"

text \<open>The centre of the window against every other bar, and the bar it would be reported for.\<close>

definition centre_beats :: "(rat \<Rightarrow> rat \<Rightarrow> bool) \<Rightarrow> nat \<Rightarrow> rat list \<Rightarrow> bool" where
  "centre_beats better c w = list_all (\<lambda>i. i = c \<or> better (w ! c) (w ! i)) [0..<length w]"

definition calculate_swing_high :: "swing \<Rightarrow> swing_point option" where
  "calculate_swing_high s =
     (let c = sw_length s; i = sw_bar_count s - int c - 1
      in if i \<le> sw_last_high_bar s then None
         else if centre_beats (\<lambda>x y. y < x) c (sw_highs s)
         then Some \<lparr>sp_price = sw_highs s ! c, sp_timestamp = sw_timestamps s ! c, sp_bar_index = i\<rparr>
         else None)"

definition calculate_swing_low :: "swing \<Rightarrow> swing_point option" where
  "calculate_swing_low s =
     (let c = sw_length s; i = sw_bar_count s - int c - 1
      in if i \<le> sw_last_low_bar s then None
         else if centre_beats (\<lambda>x y. x < y) c (sw_lows s)
         then Some \<lparr>sp_price = sw_lows s ! c, sp_timestamp = sw_timestamps s ! c, sp_bar_index = i\<rparr>
         else None)"

definition record_high :: "swing \<Rightarrow> swing_point option \<Rightarrow> swing" where
  "record_high s p =
     (case p of None \<Rightarrow> s
      | Some q \<Rightarrow> s\<lparr>sw_last_high_bar := sp_bar_index q,
                    sw_swing_highs := window_append (sw_max_history s) (sw_swing_highs s) q,
                    sw_latest_high := Some q\<rparr>)"

definition record_low :: "swing \<Rightarrow> swing_point option \<Rightarrow> swing" where
  "record_low s p =
     (case p of None \<Rightarrow> s
      | Some q \<Rightarrow> s\<lparr>sw_last_low_bar := sp_bar_index q,
                    sw_swing_lows := window_append (sw_max_history s) (sw_swing_lows s) q,
                    sw_latest_low := Some q\<rparr>)"

definition swing_update :: "swing \<Rightarrow> rat \<Rightarrow> rat \<Rightarrow> time \<Rightarrow> swing \<times> swing_point option \<times> swing_point option" where
  "swing_update s high low ts =
     (let n = window_size s;
          s1 = s\<lparr>sw_highs := window_append n (sw_highs s) high, sw_lows := window_append n (sw_lows s) low,
                 sw_timestamps := window_append n (sw_timestamps s) ts, sw_bar_count := sw_bar_count s + 1\<rparr>
      in if length (sw_highs s1) = n
         then (let h = calculate_swing_high s1; l = calculate_swing_low s1
               in (record_low (record_high s1 h) l, h, l))
         else (s1, None, None))"

definition get_swing_high_age :: "swing \<Rightarrow> int option" where
  "get_swing_high_age s =
     (case sw_latest_high s of None \<Rightarrow> None | Some p \<Rightarrow> Some (sw_bar_count s - sp_bar_index p))"

definition get_swing_low_age :: "swing \<Rightarrow> int option" where
  "get_swing_low_age s =
     (case sw_latest_low s of None \<Rightarrow> None | Some p \<Rightarrow> Some (sw_bar_count s - sp_bar_index p))"

text \<open>\<open>history[-limit:]\<close>: a limit of zero is the slice from the start, a negative one drops from it.\<close>

definition py_suffix :: "'a list \<Rightarrow> int \<Rightarrow> 'a list" where
  "py_suffix xs limit =
     (if 0 < limit then drop (length xs - nat limit) xs else drop (nat (- limit)) xs)"

definition get_all_swing_highs :: "swing \<Rightarrow> int option \<Rightarrow> swing_point list" where
  "get_all_swing_highs s limit =
     (case limit of None \<Rightarrow> rev (sw_swing_highs s) | Some l \<Rightarrow> rev (py_suffix (sw_swing_highs s) l))"

definition get_all_swing_lows :: "swing \<Rightarrow> int option \<Rightarrow> swing_point list" where
  "get_all_swing_lows s limit =
     (case limit of None \<Rightarrow> rev (sw_swing_lows s) | Some l \<Rightarrow> rev (py_suffix (sw_swing_lows s) l))"

definition swing_reset :: "swing \<Rightarrow> swing" where
  "swing_reset s =
     s\<lparr>sw_highs := [], sw_lows := [], sw_timestamps := [], sw_swing_highs := [], sw_swing_lows := [],
       sw_latest_high := None, sw_latest_low := None, sw_bar_count := 0, sw_last_high_bar := -1,
       sw_last_low_bar := -1\<rparr>"

section \<open>What the gates compute\<close>

abbreviation trend_run :: "trend_gate \<Rightarrow> bool list \<Rightarrow> trend_gate" where
  "trend_run g xs \<equiv> foldl trend_gate_update g xs"

lemma trend_run_inv:
  assumes "trend_gate_init n = Inr g"
  shows "tg_confirm_days (trend_run g xs) = nat n \<and> tg_streak (trend_run g xs) < nat n \<and>
    tg_streak (trend_run g xs) = length (takeWhile (\<lambda>b. b \<noteq> tg_state (trend_run g xs)) (rev xs))"
proof (induction xs rule: rev_induct)
  case Nil
  then show ?case using assms by (auto simp: trend_gate_init_def split: if_splits)
next
  case (snoc b xs)
  then show ?case using assms
    by (auto simp: trend_gate_update_def trend_gate_init_def split: if_splits)
qed

lemma takeWhile_full_iff:
  "n \<le> length (takeWhile P xs) \<longleftrightarrow> n \<le> length xs \<and> list_all P (take n xs)"
proof (induction xs arbitrary: n)
  case (Cons x xs)
  then show ?case by (cases n) auto
qed auto

text \<open>
  The trend gate flips exactly on confirmation. It starts closed, and an observation changes its
  state exactly when the newest \<open>confirm_days\<close> observations, this one included, all contradict it.
\<close>

theorem trend_gate_flips_iff_confirmed:
  assumes "trend_gate_init n = Inr g"
  shows "\<not> tg_state (trend_run g []) \<and>
    (tg_state (trend_run g (xs @ [b])) \<noteq> tg_state (trend_run g xs) \<longleftrightarrow>
       n \<le> int (length xs) + 1 \<and>
       list_all (\<lambda>x. x \<noteq> tg_state (trend_run g xs)) (newest (nat n) (xs @ [b])))"
proof -
  let ?g = "trend_run g xs" and ?ys = "rev (xs @ [b])"
  have n: "1 \<le> n" "\<not> tg_state g" using assms by (auto simp: trend_gate_init_def split: if_splits)
  note inv = trend_run_inv [OF assms, of xs]
  have "tg_state (trend_run g (xs @ [b])) \<noteq> tg_state ?g \<longleftrightarrow> nat n \<le> length (takeWhile (\<lambda>x. x \<noteq> tg_state ?g) ?ys)"
    using inv by (auto simp: trend_gate_update_def)
  also have "\<dots> \<longleftrightarrow> nat n \<le> length (xs @ [b]) \<and> list_all (\<lambda>x. x \<noteq> tg_state ?g) (take (nat n) ?ys)"
    using takeWhile_full_iff [of "nat n" "\<lambda>x. x \<noteq> tg_state ?g" ?ys] by simp
  also have "take (nat n) ?ys = rev (newest (nat n) (xs @ [b]))"
    unfolding newest_def by (rule take_rev)
  finally show ?thesis using n by (simp add: list_all_iff nat_le_iff add.commute)
qed

theorem trend_gate_flips_iff_confirmed_witness:
  "\<exists>g. trend_gate_init 2 = Inr g \<and> tg_state (trend_run g ([True] @ [True])) \<noteq> tg_state (trend_run g [True])"
proof -
  let ?g = "\<lparr>tg_confirm_days = 2, tg_state = False, tg_streak = 0\<rparr>"
  have init: "trend_gate_init 2 = Inr ?g" by (simp add: trend_gate_init_def)
  have "list_all (\<lambda>x. x \<noteq> tg_state (trend_run ?g [True])) (newest (nat 2) ([True] @ [True]))" by code_simp
  with trend_gate_flips_iff_confirmed [OF init, of "[True]" True] init show ?thesis by auto
qed

lemma bisect_right_count:
  "sorted ys \<Longrightarrow> bisect_right ys x = length (filter (\<lambda>y. y \<le> x) ys)"
proof (induction ys)
  case (Cons y ys)
  show ?case
  proof (cases "x < y")
    case True
    then have "filter (\<lambda>z. z \<le> x) ys = []" using Cons.prems by (auto simp: filter_empty_conv)
    then show ?thesis using True by simp
  qed (use Cons in simp)
qed simp

lemma insort_right_cons: "insort_right x (y # ys) = (if x < y then x # y # ys else y # insort_right x ys)"
  by (simp add: insort_right_def)

lemma set_insort_right: "set (insort_right x ys) = insert x (set ys)"
  by (induction ys) (simp add: insort_right_def, auto simp: insort_right_cons)

lemma sorted_insort_right: "sorted ys \<Longrightarrow> sorted (insort_right x ys)"
proof (induction ys)
  case (Cons y ys)
  then show ?case by (auto simp: insort_right_cons set_insort_right)
qed (simp add: insort_right_def)

lemma filter_insort_right: "length (filter P (insort_right x ys)) = length (filter P (x # ys))"
  by (induction ys) (simp_all add: insort_right_cons, simp add: insort_right_def)

abbreviation percentile_run :: "nat \<Rightarrow> rat list \<Rightarrow> rat list" where
  "percentile_run m xs \<equiv> foldl (\<lambda>ys x. fst (percentile_update m ys x)) [] xs"

lemma percentile_state:
  "sorted (percentile_run m xs) \<and> (\<forall>P. length (filter P (percentile_run m xs)) = length (filter P xs))"
  by (induction xs rule: rev_induct)
    (simp_all add: percentile_update_def sorted_insort_right filter_insort_right)

text \<open>The rank of a sample is the share of the earlier samples that do not exceed it.\<close>

lemma percentile_rank_counts:
  "snd (percentile_update m (percentile_run m xs) x) =
     (if m \<le> length xs then Some (of_nat (length (filter (\<lambda>y. y \<le> x) xs)) / of_nat (length xs)) else None)"
proof -
  have "length (filter (\<lambda>_. True) (percentile_run m xs)) = length (filter (\<lambda>_. True) xs)"
    using percentile_state [of m xs] by blast
  then have "length (percentile_run m xs) = length xs" by simp
  then show ?thesis using percentile_state [of m xs] by (simp add: percentile_update_def bisect_right_count)
qed

section \<open>Which bars are swing points\<close>

type_synonym hlt = "rat \<times> rat \<times> time"

abbreviation swing_run :: "swing \<Rightarrow> hlt list \<Rightarrow> swing" where
  "swing_run s bs \<equiv> foldl (\<lambda>s (h, l, t). fst (swing_update s h l t)) s bs"

text \<open>Bar \<open>i\<close> of the whole stream beats its \<open>n\<close> neighbours on both sides.\<close>

definition is_pivot :: "(rat \<Rightarrow> rat \<Rightarrow> bool) \<Rightarrow> nat \<Rightarrow> rat list \<Rightarrow> nat \<Rightarrow> bool" where
  "is_pivot better n xs i =
     (n \<le> i \<and> i + n < length xs \<and> list_all (\<lambda>j. j = i \<or> better (xs ! i) (xs ! j)) [i - n..<i + n + 1])"

definition pivots :: "(rat \<Rightarrow> rat \<Rightarrow> bool) \<Rightarrow> nat \<Rightarrow> rat list \<Rightarrow> time list \<Rightarrow> swing_point list" where
  "pivots better n xs ts =
     map (\<lambda>i. \<lparr>sp_price = xs ! i, sp_timestamp = ts ! i, sp_bar_index = int i\<rparr>)
       (filter (is_pivot better n xs) [n..<length xs - n])"

text \<open>The newest window is centred on the bar \<open>n\<close> back.\<close>

lemma newest_window:
  assumes "length xs = Suc m" "2 * n \<le> m"
  shows "newest (n * 2 + 1) xs = drop (m - 2 * n) xs" "length (drop (m - 2 * n) xs) = 2 * n + 1"
    "drop (m - 2 * n) xs ! i = xs ! (m - 2 * n + i)"
  using assms by (simp_all add: newest_def mult.commute)

lemma newest_centre:
  assumes "length xs = Suc m" "2 * n \<le> m"
  shows "newest (n * 2 + 1) xs ! n = xs ! (m - n)"
proof -
  have "m - 2 * n + n = m - n" using assms(2) by simp
  then show ?thesis using newest_window [OF assms] by simp
qed

lemma all_shift: "(\<forall>i < k. P (d + i)) \<longleftrightarrow> (\<forall>j \<in> {d..<d + k}. P j)" for d k :: nat
proof (intro iffI ballI)
  fix j assume "\<forall>i < k. P (d + i)" "j \<in> {d..<d + k}"
  then show "P j" by (cases "j - d < k") (auto dest: spec [of _ "j - d"])
qed simp

lemma centre_newest:
  assumes "length xs = Suc m" "2 * n \<le> m"
  shows "centre_beats better n (newest (n * 2 + 1) xs) = is_pivot better n xs (m - n)"
proof -
  let ?d = "m - 2 * n"
  note w = newest_window [OF assms]
  have mid: "?d + n = m - n" using assms(2) by simp
  have rng: "set [0..<2 * n + 1] = {i. i < 2 * n + 1}" by (auto simp del: upt_Suc)
  have "centre_beats better n (drop ?d xs) \<longleftrightarrow>
      (\<forall>i < 2 * n + 1. ?d + i = ?d + n \<or> better (xs ! (?d + n)) (xs ! (?d + i)))"
    unfolding centre_beats_def list_all_iff w(2,3) rng by simp
  also have "\<dots> \<longleftrightarrow> (\<forall>j \<in> {?d..<?d + (2 * n + 1)}. j = ?d + n \<or> better (xs ! (?d + n)) (xs ! j))"
    by (rule all_shift)
  also have "{?d..<?d + (2 * n + 1)} = set [m - n - n..<m - n + n + 1]" using assms(2) by (auto simp del: upt_Suc)
  finally show ?thesis
    unfolding w(1) mid using assms by (auto simp: is_pivot_def list_all_iff simp del: upt_Suc)
qed

lemma is_pivot_append:
  assumes "i + n < length xs"
  shows "is_pivot better n (xs @ ys) i = is_pivot better n xs i"
proof -
  have "(xs @ ys) ! j = xs ! j" if "j \<in> set [i - n..<i + n + 1]" for j
    using that assms by (simp add: nth_append del: upt_Suc)
  moreover have "(xs @ ys) ! i = xs ! i" using assms by (simp add: nth_append)
  ultimately have "list_all (\<lambda>j. j = i \<or> better ((xs @ ys) ! i) ((xs @ ys) ! j)) [i - n..<i + n + 1] =
      list_all (\<lambda>j. j = i \<or> better (xs ! i) (xs ! j)) [i - n..<i + n + 1]"
    by (intro list.pred_cong [OF refl]) metis
  then show ?thesis using assms unfolding is_pivot_def by simp
qed

lemma pivots_snoc:
  assumes "length ts = length xs"
  shows "pivots better n (xs @ [x]) (ts @ [t]) =
    pivots better n xs ts @
      (if 2 * n \<le> length xs \<and> is_pivot better n (xs @ [x]) (length xs - n)
       then [\<lparr>sp_price = (xs @ [x]) ! (length xs - n), sp_timestamp = (ts @ [t]) ! (length xs - n),
              sp_bar_index = int (length xs - n)\<rparr>] else [])"
proof (cases "2 * n \<le> length xs")
  case True
  then have up: "[n..<length (xs @ [x]) - n] = [n..<length xs - n] @ [length xs - n]"
    by (simp add: Suc_diff_le)
  have old: "filter (is_pivot better n (xs @ [x])) [n..<length xs - n] = filter (is_pivot better n xs) [n..<length xs - n]"
    by (rule filter_cong [OF refl]) (auto intro!: is_pivot_append)
  have "map (\<lambda>i. \<lparr>sp_price = (xs @ [x]) ! i, sp_timestamp = (ts @ [t]) ! i, sp_bar_index = int i\<rparr>)
        (filter (is_pivot better n xs) [n..<length xs - n]) = pivots better n xs ts"
    unfolding pivots_def using assms by (intro map_cong) (auto simp: nth_append)
  then show ?thesis unfolding pivots_def [of _ _ "xs @ [x]"] up filter_append map_append old using True by simp
next
  case False
  then show ?thesis by (simp add: pivots_def)
qed

abbreviation hi_of :: "hlt list \<Rightarrow> rat list" where "hi_of bs \<equiv> map fst bs"
abbreviation lo_of :: "hlt list \<Rightarrow> rat list" where "lo_of bs \<equiv> map (fst \<circ> snd) bs"
abbreviation ts_of :: "hlt list \<Rightarrow> time list" where "ts_of bs \<equiv> map (snd \<circ> snd) bs"

definition swing_inv :: "nat \<Rightarrow> nat \<Rightarrow> hlt list \<Rightarrow> swing \<Rightarrow> bool" where
  "swing_inv n m bs s \<longleftrightarrow>
     sw_length s = n \<and> sw_max_history s = m \<and> sw_bar_count s = int (length bs) \<and>
     sw_highs s = newest (n * 2 + 1) (hi_of bs) \<and> sw_lows s = newest (n * 2 + 1) (lo_of bs) \<and>
     sw_timestamps s = newest (n * 2 + 1) (ts_of bs) \<and>
     sw_swing_highs s = newest m (pivots (\<lambda>x y. y < x) n (hi_of bs) (ts_of bs)) \<and>
     sw_swing_lows s = newest m (pivots (\<lambda>x y. x < y) n (lo_of bs) (ts_of bs)) \<and>
     sw_last_high_bar s < max 0 (int (length bs) - int n) \<and> sw_last_low_bar s < max 0 (int (length bs) - int n)"

lemma calculate_high_pivot:
  assumes len: "length xs = Suc k" "length ts = Suc k" "2 * n \<le> k"
    and s: "sw_length s = n" "sw_bar_count s = int (Suc k)" "sw_highs s = newest (n * 2 + 1) xs"
      "sw_timestamps s = newest (n * 2 + 1) ts" "sw_last_high_bar s < int (k - n)"
  shows "calculate_swing_high s =
     (if is_pivot (\<lambda>x y. y < x) n xs (k - n)
      then Some \<lparr>sp_price = xs ! (k - n), sp_timestamp = ts ! (k - n), sp_bar_index = int (k - n)\<rparr> else None)"
proof -
  have i: "sw_bar_count s - int n - 1 = int (k - n)" using s(2) len(3) by simp
  show ?thesis
    using centre_newest [OF len(1,3)] newest_centre [OF len(1,3)] newest_centre [OF len(2,3)] s
    unfolding calculate_swing_high_def Let_def s(1) i by simp
qed

lemma calculate_low_pivot:
  assumes len: "length xs = Suc k" "length ts = Suc k" "2 * n \<le> k"
    and s: "sw_length s = n" "sw_bar_count s = int (Suc k)" "sw_lows s = newest (n * 2 + 1) xs"
      "sw_timestamps s = newest (n * 2 + 1) ts" "sw_last_low_bar s < int (k - n)"
  shows "calculate_swing_low s =
     (if is_pivot (\<lambda>x y. x < y) n xs (k - n)
      then Some \<lparr>sp_price = xs ! (k - n), sp_timestamp = ts ! (k - n), sp_bar_index = int (k - n)\<rparr> else None)"
proof -
  have i: "sw_bar_count s - int n - 1 = int (k - n)" using s(2) len(3) by simp
  show ?thesis
    using centre_newest [OF len(1,3)] newest_centre [OF len(1,3)] newest_centre [OF len(2,3)] s
    unfolding calculate_swing_low_def Let_def s(1) i by simp
qed

lemma swing_inv_update:
  assumes inv: "swing_inv n m bs s"
  shows "swing_inv n m (bs @ [(h, l, t)]) (fst (swing_update s h l t))"
proof -
  let ?w = "n * 2 + 1" and ?bs = "bs @ [(h, l, t)]"
  define s1 where "s1 = s\<lparr>sw_highs := newest ?w (hi_of ?bs), sw_lows := newest ?w (lo_of ?bs),
      sw_timestamps := newest ?w (ts_of ?bs), sw_bar_count := sw_bar_count s + 1\<rparr>"
  have upd: "fst (swing_update s h l t) =
      (if length (newest ?w (hi_of ?bs)) = ?w
       then record_low (record_high s1 (calculate_swing_high s1)) (calculate_swing_low s1) else s1)"
    using inv unfolding swing_inv_def
    by (simp add: swing_update_def Let_def window_size_def newest_snoc s1_def)
  have base: "sw_length s1 = n" "sw_max_history s1 = m" "sw_bar_count s1 = int (Suc (length bs))"
    "sw_highs s1 = newest ?w (hi_of ?bs)" "sw_lows s1 = newest ?w (lo_of ?bs)"
    "sw_timestamps s1 = newest ?w (ts_of ?bs)"
    "sw_swing_highs s1 = newest m (pivots (\<lambda>x y. y < x) n (hi_of bs) (ts_of bs))"
    "sw_swing_lows s1 = newest m (pivots (\<lambda>x y. x < y) n (lo_of bs) (ts_of bs))"
    "sw_last_high_bar s1 < max 0 (int (length bs) - int n)" "sw_last_low_bar s1 < max 0 (int (length bs) - int n)"
    using inv by (simp_all add: swing_inv_def s1_def)
  note ph = pivots_snoc [of "ts_of bs" "hi_of bs" "\<lambda>x y. y < x" n h t]
  note pl = pivots_snoc [of "ts_of bs" "lo_of bs" "\<lambda>x y. x < y" n l t]
  show ?thesis
  proof (cases "2 * n \<le> length bs")
    case False
    then have "fst (swing_update s h l t) = s1" using upd by simp
    moreover have "sw_last_high_bar s1 < max 0 (1 + int (length bs) - int n)"
      "sw_last_low_bar s1 < max 0 (1 + int (length bs) - int n)"
      using base(9,10) by (simp_all add: max_def split: if_splits)
    ultimately show ?thesis using base ph pl False by (simp add: swing_inv_def)
  next
    case True
    have lens: "length (hi_of ?bs) = Suc (length bs)" "length (lo_of ?bs) = Suc (length bs)"
      "length (ts_of ?bs) = Suc (length bs)" by simp_all
    have lt: "sw_last_high_bar s1 < int (length bs - n)" "sw_last_low_bar s1 < int (length bs - n)"
      using base(9,10) True by auto
    note H = calculate_high_pivot [OF lens(1,3) True base(1,3,4,6) lt(1)]
    note L = calculate_low_pivot [OF lens(2,3) True base(1,3,5,6) lt(2)]
    have "fst (swing_update s h l t) = record_low (record_high s1 (calculate_swing_high s1)) (calculate_swing_low s1)"
      using upd True by simp
    then show ?thesis
      using base ph pl True lt unfolding H L swing_inv_def
      by (simp add: record_high_def record_low_def newest_snoc)
  qed
qed

text \<open>
  C38: the swing points are the pivots. After any bars, the swing highs the indicator remembers are the
  newest of the bars whose high exceeds the highs of their \<open>swing_length\<close> neighbours on both sides, in
  order, each with its own index and time and none twice; and the swing lows likewise.
\<close>

theorem swing_points_are_pivots:
  assumes "swing_init n m = Inr s"
  shows "sw_swing_highs (swing_run s bs) = newest (nat m) (pivots (\<lambda>x y. y < x) (nat n) (hi_of bs) (ts_of bs)) \<and>
    sw_swing_lows (swing_run s bs) = newest (nat m) (pivots (\<lambda>x y. x < y) (nat n) (lo_of bs) (ts_of bs))"
proof -
  have "swing_inv (nat n) (nat m) bs (swing_run s bs)"
  proof (induction bs rule: rev_induct)
    case Nil
    have "pivots better (nat n) [] [] = []" for better by (simp add: pivots_def)
    then show ?case using assms by (auto simp: swing_init_def swing_inv_def split: if_splits)
  next
    case (snoc b bs)
    obtain h l t where b: "b = (h, l, t)" by (metis prod_cases3)
    from swing_inv_update [OF snoc, of h l t] show ?case by (simp add: b)
  qed
  then show ?thesis
    by (simp add: swing_inv_def)
qed

theorem swing_points_are_pivots_witness:
  "map_sum id (\<lambda>s. map sp_bar_index (sw_swing_highs (swing_run s [(1, 0, 0), (3, 2, 1), (2, 1, 2), (5, 4, 3), (4, 3, 4)])))
     (swing_init 1 8) = Inr [1, 3]"
proof -
  have "is_ok (swing_init 1 8)" by code_simp
  then obtain s where s: "swing_init 1 8 = Inr s" by (auto simp: is_ok_def split: sum.splits)
  have "map sp_bar_index (newest (nat 8) (pivots (\<lambda>x y. y < x) (nat 1)
      (hi_of [(1, 0, 0), (3, 2, 1), (2, 1, 2), (5, 4, 3), (4, 3, 4)])
      (ts_of [(1, 0, 0), (3, 2, 1), (2, 1, 2), (5, 4, 3), (4, 3, 4)]))) = [1, 3]" by code_simp
  then show ?thesis unfolding s map_sum.simps swing_points_are_pivots [OF s, THEN conjunct1] by simp
qed

end
