(* ===== verification/Spec2Isabelle.thy ===== *)
theory Spec2Isabelle
  imports Breaker_Manager Outbox_Relay Dedup_Claims Options_Safety Pnl_Ledger Lifecycle_Safety Risk_Safety Sizing_Safety
    Serializer_Safety Rebalance_Safety Gate_Safety Bar_Stream Indicator_Checkpoints Signal_Gates
begin

text \<open>
  \<^bold>\<open>VynMatrix: the execution core\<close>

  VynMatrix turns trading signals into orders. Indicator workers publish signals; the scoring engine
  scores them and writes execution commands to a transactional outbox; the execution engine takes a
  command, asks the circuit breakers whether the account may trade, claims the execution in the
  deduplicator, submits orders to a broker adapter, aggregates the order results and records the
  outcome. In simulation the adapter is the paper broker, which keeps its own account. This
  development models the parts on which money and exactly-once behaviour depend.

  \<^bold>\<open>Theories and sources\<close> (paths below \<^verbatim>\<open>apps/execution_engine/execution_engine\<close> unless
  they start with \<^verbatim>\<open>lib_\<close>)

  \<^item> \<^verbatim>\<open>Py_Prelude\<close>: clock values, dictionaries, dynamically typed values, exceptions as sums, and
    the list and dictionary lemmas the components share.
  \<^item> \<^verbatim>\<open>Circuit_Breaker\<close>: \<^verbatim>\<open>circuit_breaker.py\<close>, the rolling failure window and open interval per
    key. The locale \<open>gate\<close> states what a query-and-consume gate promises.
  \<^item> \<^verbatim>\<open>Breaker_Manager\<close>: \<^verbatim>\<open>circuit_breaker_manager.py\<close> and \<^verbatim>\<open>risk_breach_store.py\<close>, the two-level
    rule over broker and strategy keys, alerts, persistence and restoration.
  \<^item> \<^verbatim>\<open>Outbox\<close>, \<^verbatim>\<open>Outbox_Order\<close>, \<^verbatim>\<open>Outbox_Claims\<close>: \<^verbatim>\<open>lib_application/outbox.py\<close>, with order within
    a partition, fencing of stale claims (locale \<open>claim_fence\<close>), idempotent enqueue and redrive.
  \<^item> \<^verbatim>\<open>Outbox_Relay\<close>: \<^verbatim>\<open>lib_application/outbox_relay.py\<close> and \<^verbatim>\<open>lib_common/retry.py\<close>, the loop that
    claims, delivers and settles records, and its backoff.
  \<^item> \<^verbatim>\<open>Deduplication\<close>, \<^verbatim>\<open>Dedup_Claims\<close>: \<^verbatim>\<open>deduplication.py\<close>, the memory cache and the decision
    table; a step relation interleaves the threads of several processes, with and without row locks,
    memory fallback, clean-ups and stale take-overs (locale \<open>claim_arbiter\<close>).
  \<^item> \<^verbatim>\<open>Order_Models\<close>: \<^verbatim>\<open>models.py\<close>, the validated value objects an order carries.
  \<^item> \<^verbatim>\<open>Broker_Base\<close>: \<^verbatim>\<open>brokers/base.py\<close> and \<^verbatim>\<open>execution_result.py\<close>, the adapter contract, position
    valuation, result aggregation and the classification of a failure as retryable.
  \<^item> \<^verbatim>\<open>Execution_Costs\<close>: \<^verbatim>\<open>lib_common/execution_costs.py\<close> and \<^verbatim>\<open>metrics/normalization.py\<close>.
  \<^item> \<^verbatim>\<open>Paper_Broker\<close>, \<^verbatim>\<open>Paper_Accounting\<close>, \<^verbatim>\<open>Paper_Ledger\<close>: \<^verbatim>\<open>brokers/paper.py\<close> and
    \<^verbatim>\<open>brokers/paper_futures.py\<close>, orders, fills, marks and conversions of the simulated account.
  \<^item> \<^verbatim>\<open>Paper_Options\<close>, \<^verbatim>\<open>Options_Safety\<close>: \<^verbatim>\<open>brokers/paper_options.py\<close>, single contracts and spreads on
    the same account.
  \<^item> \<^verbatim>\<open>Canonical_Store\<close>, \<^verbatim>\<open>Canonical_Ledger\<close>: \<^verbatim>\<open>canonical_execution_store.py\<close>, the intents, orders
    and executions of record, with a step relation of racing writers.
  \<^item> \<^verbatim>\<open>Pending_Orders\<close>, \<^verbatim>\<open>Order_Lifecycle\<close>, \<^verbatim>\<open>Paper_Worker\<close>, \<^verbatim>\<open>Oco_Allocation\<close>, \<^verbatim>\<open>Lifecycle_Safety\<close>:
    \<^verbatim>\<open>pending_orders.py\<close> and \<^verbatim>\<open>paper_order_lifecycle.py\<close>, the durable rows of resting orders and the worker that fills them
    from committed candles, for the accounts whose adapter is a paper broker; \<open>row_step\<close> is the
    specification the worker refines.
  \<^item> \<^verbatim>\<open>Signals\<close>, \<^verbatim>\<open>Risk_Guard\<close>, \<^verbatim>\<open>Risk_Safety\<close>: \<^verbatim>\<open>lib_strategy/signals\<close> and \<^verbatim>\<open>risk_guard.py\<close>, the signals
    and the checks every order passes before submission and every account after a fill.
  \<^item> \<^verbatim>\<open>Market_Sessions\<close>, \<^verbatim>\<open>Execution_Gates\<close>, \<^verbatim>\<open>Risk_Baseline\<close>, \<^verbatim>\<open>Gate_Safety\<close>: \<^verbatim>\<open>market_sessions.py\<close>,
    \<^verbatim>\<open>execution_gates.py\<close>, \<^verbatim>\<open>controls.py\<close> and \<^verbatim>\<open>risk_baseline.py\<close>, the gates before an order is built
    (halts, live mode, market session, freshness) and the equity the risk guard measures losses from.
  \<^item> \<^verbatim>\<open>Position_Sizing\<close>, \<^verbatim>\<open>Sizing_Safety\<close>: \<^verbatim>\<open>lib_strategy/position_sizing.py\<close> and \<^verbatim>\<open>position_sizer.py\<close>,
    how large a position may be (locale \<open>quantity_rounding\<close>).
  \<^item> \<^verbatim>\<open>Account_Serializer\<close>, \<^verbatim>\<open>Serializer_Safety\<close>: \<^verbatim>\<open>account_execution_serializer.py\<close>, the lease every writer
    of an account holds; a step relation interleaves the contexts of several processes, nested blocks,
    copied contexts, crashes and lost connections included, and the row of the account is a counter that fences stale leases (locale \<open>fencing_counter\<close>).
  \<^item> \<^verbatim>\<open>Fencing\<close>: the locale \<open>fencing_counter\<close> itself, which the account rows and the plans instantiate.
  \<^item> \<^verbatim>\<open>Rebalance_Plans\<close>, \<^verbatim>\<open>Rebalance_Safety\<close>: \<^verbatim>\<open>rebalance_store.py\<close> with the triggers of
    \<^verbatim>\<open>0089_account_execution_fence.py\<close>, the durable plans of account rebalances, their leases and legs.
  \<^item> \<^verbatim>\<open>Fifo_Pnl\<close>, \<^verbatim>\<open>Fifo_Accounting\<close>, \<^verbatim>\<open>Fx_Rates\<close>, \<^verbatim>\<open>Pnl_Ledger\<close>: \<^verbatim>\<open>metrics/pnl_service.py\<close>,
    \<^verbatim>\<open>metrics/canonical_executions.py\<close> and \<^verbatim>\<open>fx_rates.py\<close>, first-in first-out matching (locale
    \<open>closing_loop\<close>), observed exchange rates (locale \<open>fx_provider\<close>), net asset value.
  \<^item> \<^verbatim>\<open>Asset_Classes\<close>, \<^verbatim>\<open>Bar_Consolidation\<close>, \<^verbatim>\<open>Bar_Stream\<close>: \<^verbatim>\<open>lib_common/asset_classes.py\<close>,
    \<^verbatim>\<open>lib_data\<close> bars, timeframes and consolidation.
  \<^item> \<^verbatim>\<open>Averages\<close>, \<^verbatim>\<open>Oscillators\<close>, \<^verbatim>\<open>Indicator_Checkpoints\<close>, \<^verbatim>\<open>Signal_Gates\<close>: the incremental indicators
    of \<^verbatim>\<open>lib_indicators\<close>, their checkpoints, gates and swing points.

  \<^bold>\<open>How code becomes definitions\<close>

  \<^item> A class is a record of its attributes, a method a function from the record to the record and
    its result. A raised exception is \<open>Inl\<close>; where a method mutates before it raises, the record
    returned beside the exception has those mutations.
  \<^item> The clock, generated identifiers, and whether a database call fails are arguments. A clock value
    is an integer number of microseconds.
  \<^item> A database table is a list of rows, an operation one committed transaction. Where two
    transactions can interleave inside a call, the call is split at that point and a step relation
    interleaves the parts; rows committed in between or locked by others are arguments.
  \<^item> Floats and decimals are exact rationals: an identity between amounts is proved exactly, the
    rounding of binary64 is outside the model. Where the code compares against a bound that only exact
    arithmetic keeps (the ADX of the directional movement), no property claims it.
  \<^item> Code outside the repository is a parameter: the digest of the deduplication key, the durable
    fill committer of the paper broker, which is called before the account changes, the hash of
    PostgreSQL, the digest of canonical JSON, and the way pydantic reads a configuration value.

  No fuel is used. Recursion is structural, or has a termination proof: the closing loops of the
  profit ledger consume the queue of open lots, the consolidation of runs consumes its input, the loop
  over older plans ends one with each turn, the scaling loops of the number format move toward one, and
  the worker's loop over the bars of an order leaves fewer bars with each turn it repeats.

  \<^bold>\<open>What is shown\<close>

  \<^item> Breakers: a failure trips exactly when the window holds the threshold; the state invariant of
    every reachable breaker; the two-level decision, error path included; an open breaker survives a
    restart and a closed one is not restored.
  \<^item> Outbox: no row is handed out before an earlier committed row of its partition is delivered; one successful completion per claim; a superseded claim is
    fenced; enqueue and redrive act once.
  \<^item> Deduplication: over a database with row locks and without the memory fallback, at most one grant per
    execution and reopening (retryable outcome, clean-up, stale take-over) under every interleaving; a terminal
    outcome is final until a clean-up deletes it; a retryable one can be claimed again; keys identify what
    is executed. Without row locks, or with the fallback, two grants are shown.
  \<^item> Orders and results: clamping and convergence of overrides, currency round trips, price bounds of
    an aggregate, and retry only where nothing was filled and no outcome is unknown.
  \<^item> Paper account: equity is initial cash plus realised and unrealised P\&L after any interleaving of
    spot, futures and options orders that close at most what is held; spot positions stay long, no
    economic state changes before the ledger has the fill, and symbols of contracts identify them.
  \<^item> Ledger of record: executions are append-only and unique, a broker result applies once, a key
    names one order.
  \<^item> Resting orders: the worker's steps refine \<open>row_step\<close>, which keeps the shared allocation of a
    one-cancels-other group; the worker's loop reads every committed candle of an order on a paper broker.
  \<^item> Risk guard: an entry it allows for an account with equity is within every limit in force, the
    two caps with their half-percent tolerance; mandates only tighten limits, and
    the reductions that bypass them cannot grow a position.
  \<^item> Gates: a halt holds until it is lifted, exposure opens only inside a session of a fresh calendar and
    on fresh inputs, and baselines are the highest recorded ones of the account.
  \<^item> Position sizing: every size is within the cash and the largest position up to half a rounding step,
    the risk is within its budget, and the quantity does not depend on the currency of the account.
  \<^item> Account leases: one lease per account while no connection is lost and no task outlives its block, an overlap after a lost connection
    is detected, and leaving frees the account.
  \<^item> Rebalance plans: an ended plan is final and coherent with its legs, a superseded lease changes nothing,
    and the plans of an account run in order.
  \<^item> Profit: realised profit equals the cash the trades moved, lots close first in first out, every
    position and rate is backed by a recorded execution or observation.
  \<^item> Market data and indicators: consolidation works run by run and survives a checkpoint, a bar is
    stamped within its period and on the boundary when a constituent closes there, averages equal
    their reference definitions, reachable RSI and MACD states satisfy their validators.
  \<^item> Where the code departs from its own documentation, a theorem shows the departure on the model.

  \<^bold>\<open>What is not modelled\<close>: HTTP and process plumbing, database schemas beyond the columns used, vendor
  clients, the floating-point factor models, and logging. The order builders read option chains and
  contract catalogues of external services, the score layers are statistics over feature stores, and the
  orchestration of the pipeline is tasks over database sessions; what they build, call and are checked by
  is modelled here.
\<close>

end
